(* ===== verification/Prelude.thy ===== *)
theory Prelude
  imports Main "HOL-Library.AList" "HOL-Library.Multiset" "HOL-Library.List_Lexorder"
    "HOL-Library.Char_ord"
begin

text \<open>
  The part of the Go runtime and standard library that the operator relies on and that
  is not specific to one component.

  \<^item> Collections of hints: \<open>op_defs\<close> holds the definitions of adapter and fake
    operations, \<open>step_splits\<close> is the bundle of case splits that evaluating one needs.
  \<^item> Integer formatting (\<open>%d\<close>, \<open>%04d\<close>, \<open>%x\<close>) with the injectivity the in-memory
    services need for fresh identifiers, and \<open>%q\<close>.
  \<^item> Go maps: an association list with distinct keys. The order in which \<open>range\<close>
    visits a map is not fixed by Go: \<open>permute\<close> picks an arbitrary order from a seed,
    and \<open>permute_complete\<close> shows that every order is picked by some seed, so a
    statement about all seeds is a statement about all iteration orders.
\<close>

named_theorems op_defs
named_theorems view_simps

lemmas step_splits = sum.splits prod.splits option.splits if_splits list.splits

subsection \<open>Formatting integers\<close>

definition digit :: "nat \<Rightarrow> char" where
  "digit n = ''0123456789abcdef'' ! n"

fun radix :: "nat \<Rightarrow> nat \<Rightarrow> string" where
  "radix b n = (if n < b \<or> b < 2 then [digit n] else radix b (n div b) @ [digit (n mod b)])"

declare radix.simps [simp del]

definition fmt_d :: "nat \<Rightarrow> string" where
  "fmt_d n = radix 10 n"

definition fmt_x :: "nat \<Rightarrow> string" where
  "fmt_x n = radix 16 n"

text \<open>\<open>%04d\<close>: zero padding to at least four characters.\<close>

definition fmt_04d :: "nat \<Rightarrow> string" where
  "fmt_04d n = replicate (4 - length (fmt_d n)) (CHR ''0'') @ fmt_d n"

definition digit_val :: "char \<Rightarrow> nat" where
  "digit_val c = (if of_char c < (58::nat) then of_char c - 48 else of_char c - 87)"

definition radix_val :: "nat \<Rightarrow> string \<Rightarrow> nat" where
  "radix_val b s = foldl (\<lambda>a c. a * b + digit_val c) 0 s"

lemma digit_val_digit: "n < 16 \<Longrightarrow> digit_val (digit n) = n"
proof -
  assume "n < 16"
  then have "n \<in> set [0..<16]" by simp
  then show ?thesis
    by (auto simp: upt_rec digit_def digit_val_def)
qed

lemma mod_radix_bound: "2 \<le> b \<Longrightarrow> b \<le> 16 \<Longrightarrow> n mod b < (16::nat)"
  by (rule less_le_trans [of _ b]) simp_all

lemma radix_val_radix: "2 \<le> b \<Longrightarrow> b \<le> 16 \<Longrightarrow> radix_val b (radix b n) = n"
proof (induction b n rule: radix.induct)
  case (1 b n)
  show ?case
  proof (cases "n < b")
    case True
    with "1.prems" show ?thesis
      by (simp add: radix.simps [of b n] radix_val_def digit_val_digit)
  next
    case False
    have "n mod b < 16" using "1.prems" by (rule mod_radix_bound)
    with False "1.IH" "1.prems" show ?thesis
      by (simp add: radix.simps [of b n] radix_val_def digit_val_digit)
  qed
qed

lemma radix_val_zeros: "radix_val b (replicate k (CHR ''0'') @ s) = radix_val b s"
  by (induction k) (simp_all add: radix_val_def digit_val_def)

lemma fmt_04d_val: "radix_val 10 (fmt_04d n) = n"
  by (simp add: fmt_04d_def fmt_d_def radix_val_zeros radix_val_radix)

lemma fmt_04d_inj [simp]: "fmt_04d m = fmt_04d n \<longleftrightarrow> m = n"
  by (metis fmt_04d_val)

lemma fmt_d_inj [simp]: "fmt_d m = fmt_d n \<longleftrightarrow> m = n"
proof
  assume "fmt_d m = fmt_d n"
  then have "radix_val 10 (radix 10 m) = radix_val 10 (radix 10 n)" by (simp add: fmt_d_def)
  then show "m = n" by (simp add: radix_val_radix)
qed simp

lemma fmt_x_inj [simp]: "fmt_x m = fmt_x n \<longleftrightarrow> m = n"
proof
  assume "fmt_x m = fmt_x n"
  then have "radix_val 16 (radix 16 m) = radix_val 16 (radix 16 n)" by (simp add: fmt_x_def)
  then show "m = n" by (simp add: radix_val_radix)
qed simp

lemma digit_not_colon: "n < 16 \<Longrightarrow> digit n \<noteq> CHR '':''"
proof -
  assume "n < 16"
  then have "n \<in> set [0..<16]" by simp
  then show ?thesis by (auto simp: upt_rec digit_def)
qed

lemma radix_no_colon: "2 \<le> b \<Longrightarrow> b \<le> 16 \<Longrightarrow> CHR '':'' \<notin> set (radix b n)"
proof (induction b n rule: radix.induct)
  case (1 b n)
  have m: "n < b \<Longrightarrow> n < 16" "n mod b < 16"
    using "1.prems" mod_radix_bound [of b n] by simp_all
  show ?case
  proof (cases "n < b")
    case True
    with m digit_not_colon [of n] show ?thesis by (simp add: radix.simps [of b n])
  next
    case False
    with "1.IH" "1.prems" digit_not_colon [OF m(2)] show ?thesis
      by (auto simp: radix.simps [of b n])
  qed
qed

text \<open>
  \<open>%q\<close> on the ASCII range: the quotes and the escapes of \<open>strconv.Quote\<close>. Bytes of a
  multi-byte character are copied (printable runes are).
\<close>

definition quote_char :: "char \<Rightarrow> string" where
  "quote_char c =
     (let n = of_char c :: nat; bs = CHR 0x5C in
      if n = 34 \<or> n = 92 then [bs, c]
      else if n = 7 then [bs, CHR ''a''] else if n = 8 then [bs, CHR ''b'']
      else if n = 12 then [bs, CHR ''f''] else if n = 10 then [bs, CHR ''n'']
      else if n = 13 then [bs, CHR ''r''] else if n = 9 then [bs, CHR ''t'']
      else if n = 11 then [bs, CHR ''v'']
      else if n < 32 \<or> n = 127 then [bs, CHR ''x'', digit (n div 16), digit (n mod 16)]
      else [c])"

definition fmt_q :: "string \<Rightarrow> string" where
  "fmt_q s = [CHR 0x22] @ concat (map quote_char s) @ [CHR 0x22]"

subsection \<open>Go maps and their iteration order\<close>

type_synonym ('k, 'v) gomap = "('k \<times> 'v) list"

abbreviation gm_get :: "('k, 'v) gomap \<Rightarrow> 'k \<Rightarrow> 'v option" where
  "gm_get m k \<equiv> map_of m k"

abbreviation gm_put :: "'k \<Rightarrow> 'v \<Rightarrow> ('k, 'v) gomap \<Rightarrow> ('k, 'v) gomap" where
  "gm_put k v m \<equiv> AList.update k v m"

abbreviation gm_del :: "'k \<Rightarrow> ('k, 'v) gomap \<Rightarrow> ('k, 'v) gomap" where
  "gm_del k m \<equiv> AList.delete k m"

abbreviation gm_wf :: "('k, 'v) gomap \<Rightarrow> bool" where
  "gm_wf m \<equiv> distinct (map fst m)"

fun permute :: "nat list \<Rightarrow> 'a list \<Rightarrow> 'a list" where
  "permute [] xs = xs"
| "permute (i # is) [] = []"
| "permute (i # is) (x # xs) =
     (let ys = x # xs; j = i mod length ys
      in ys ! j # permute is (take j ys @ drop (Suc j) ys))"

lemma mset_take_nth_drop: "j < length xs \<Longrightarrow> add_mset (xs ! j) (mset (take j xs @ drop (Suc j) xs)) = mset xs"
  by (metis Cons_nth_drop_Suc append_take_drop_id mset.simps(2) mset_append union_mset_add_mset_right)

lemma mset_permute [simp]: "mset (permute s xs) = mset xs"
proof (induction s xs rule: permute.induct)
  case (3 i s x xs)
  let ?ys = "x # xs"
  let ?j = "i mod length ?ys"
  have j: "?j < length ?ys" by simp
  have IH: "mset (permute s (take ?j ?ys @ drop (Suc ?j) ?ys)) = mset (take ?j ?ys @ drop (Suc ?j) ?ys)"
    by (rule "3.IH") simp_all
  have "mset (permute (i # s) ?ys) = add_mset (?ys ! ?j) (mset (take ?j ?ys @ drop (Suc ?j) ?ys))"
    using IH by (simp only: permute.simps Let_def mset.simps)
  then show ?case using mset_take_nth_drop [OF j] by simp
qed simp_all

lemma set_permute [simp]: "set (permute s xs) = set xs"
  by (metis mset_permute set_mset_mset)

lemma length_permute [simp]: "length (permute s xs) = length xs"
  by (metis mset_permute size_mset)

text \<open>Every order of the entries is the order of some seed.\<close>

lemma permute_complete: "mset ys = mset xs \<Longrightarrow> \<exists>s. permute s xs = ys"
proof (induction ys arbitrary: xs)
  case Nil
  then have "permute [] xs = []" by simp
  then show ?case by blast
next
  case (Cons y ys)
  have "y \<in> set xs" using Cons.prems by (metis list.set_intros(1) set_mset_mset)
  then obtain j where j: "j < length xs" "xs ! j = y" by (auto simp: in_set_conv_nth)
  have "add_mset y (mset (take j xs @ drop (Suc j) xs)) = add_mset y (mset ys)"
    using mset_take_nth_drop [OF j(1)] Cons.prems j(2) by simp
  then have "mset ys = mset (take j xs @ drop (Suc j) xs)" by simp
  then obtain s where s: "permute s (take j xs @ drop (Suc j) xs) = ys"
    using Cons.IH by blast
  obtain z zs where xs: "xs = z # zs" using j(1) by (cases xs) auto
  have "permute (j # s) xs = y # ys"
    using s j by (simp add: xs)
  then show ?case by blast
qed

definition gm_range :: "nat list \<Rightarrow> ('k, 'v) gomap \<Rightarrow> ('k \<times> 'v) list" where
  "gm_range s m = permute s m"

lemma set_gm_range [simp]: "set (gm_range s m) = set m"
  by (simp add: gm_range_def)

lemma gm_wf_range: "gm_wf m \<Longrightarrow> gm_wf (gm_range s m)"
proof -
  assume "gm_wf m"
  then have "mset (map fst (gm_range s m)) = mset (map fst m)"
    by (simp only: mset_map gm_range_def mset_permute)
  then show ?thesis using \<open>gm_wf m\<close> by (metis mset_eq_imp_distinct_iff)
qed

lemma gm_wf_put [simp]: "gm_wf m \<Longrightarrow> gm_wf (gm_put k v m)"
  by (rule distinct_update)

lemma gm_wf_del [simp]: "gm_wf m \<Longrightarrow> gm_wf (gm_del k m)"
  by (rule distinct_delete)

lemma gm_get_put [simp]: "gm_get (gm_put k v m) = (gm_get m)(k \<mapsto> v)"
  by (rule ext) (simp add: update_conv)

lemma gm_get_del [simp]: "gm_get (gm_del k m) = (gm_get m)(k := None)"
  by (rule ext) (simp add: delete_conv)

lemma gm_values_ran: "gm_wf m \<Longrightarrow> snd ` set m = ran (gm_get m)"
  by (force simp: ran_def map_of_eq_Some_iff image_iff)

subsection \<open>Tables as functions, optional fields\<close>

abbreviation put2 :: "('a \<Rightarrow> 'b \<Rightarrow> 'c) \<Rightarrow> 'a \<Rightarrow> 'b \<Rightarrow> 'c \<Rightarrow> 'a \<Rightarrow> 'b \<Rightarrow> 'c" where
  "put2 f i n x \<equiv> f(i := (f i)(n := x))"

definition orElse :: "'a \<Rightarrow> 'a option \<Rightarrow> 'a" where
  "orElse old x = (case x of None \<Rightarrow> old | Some v \<Rightarrow> v)"

lemma orElse_simps [simp]: "orElse old None = old" "orElse old (Some v) = v"
  by (simp_all add: orElse_def)

subsection \<open>Lists\<close>

text \<open>The first element a loop with an early return picks.\<close>

lemma find_Some_D: "find P xs = Some x \<Longrightarrow> x \<in> set xs \<and> P x"
  by (metis find_Some_iff nth_mem)

lemma find_None_D: "find P xs = None \<Longrightarrow> x \<in> set xs \<Longrightarrow> \<not> P x"
  by (simp add: find_None_iff)

lemma map_of_ran_Some: "x \<in> ran m \<longleftrightarrow> (\<exists>k. m k = Some x)"
  by (auto simp: ran_def)

text \<open>Fields joined with a separator they do not contain can be read back.\<close>

lemma split_at_separator:
  "x \<notin> set p \<Longrightarrow> x \<notin> set p' \<Longrightarrow> p @ x # q = p' @ x # q' \<longleftrightarrow> p = p' \<and> q = q'"
proof (induction p arbitrary: p')
  case Nil
  then show ?case by (cases p') auto
next
  case (Cons a p)
  then show ?case by (cases p') auto
qed

lemma image_mset_inj_eq:
  assumes "inj_on f (set_mset A \<union> set_mset B)"
  shows "image_mset f A = image_mset f B \<longleftrightarrow> A = B"
proof
  assume "image_mset f A = image_mset f B"
  then have "image_mset f A = image_mset f B + {#}" by simp
  from image_mset_eq_image_mset_plusD [OF this assms] show "A = B" by auto
qed simp

text \<open>A comparison by length and one inclusion decides equality of multisets when one side is distinct.\<close>

lemma same_length_inclusion:
  assumes "distinct ys"
  shows "length xs = length ys \<and> set ys \<subseteq> set xs \<longleftrightarrow> mset xs = mset ys"
proof
  assume h: "length xs = length ys \<and> set ys \<subseteq> set xs"
  have ys: "length ys = card (set ys)" using assms by (simp add: distinct_card)
  also have le: "\<dots> \<le> card (set xs)" using h by (simp add: card_mono)
  finally have "card (set xs) = length xs" using h card_length [of xs] by simp
  then have d: "distinct xs" by (rule card_distinct)
  have "set ys = set xs"
    using h ys \<open>card (set xs) = length xs\<close> by (intro card_subset_eq) simp_all
  then show "mset xs = mset ys" using d assms by (simp add: set_eq_iff_mset_eq_distinct)
next
  assume m: "mset xs = mset ys"
  then have "length xs = length ys" "set xs = set ys" by (rule mset_eq_length, rule mset_eq_setD)
  then show "length xs = length ys \<and> set ys \<subseteq> set xs" by simp
qed

end
