(* ===== verification/GoErrors.thy ===== *)
theory GoErrors
  imports Prelude
begin

text \<open>
  Go error values and \<open>internal/upcloudapi/errors.go\<close>.

  An error is a tree: leaves are the SDK's \<open>*upcloud.Problem\<close> and \<open>*client.Error\<close>,
  the errors of the Kubernetes client, the two sentinels of \<open>internal/reconciler\<close> and
  plain texts; inner nodes are the ways the operator wraps errors, one constructor per
  format: \<open>Wrap s e\<close> is \<open>fmt.Errorf("s: %w", e)\<close>, \<open>WrapText e s\<close> is
  \<open>fmt.Errorf("%w: s", e)\<close>, \<open>WrapV e f\<close> is \<open>fmt.Errorf("%w: %v", e, f)\<close> (only
  \<open>e\<close> is reachable by \<open>errors.Is\<close>), \<open>Join es\<close> is \<open>errors.Join\<close>.
\<close>

datatype err =
    Problem int string
  | ClientError int
  | KubeError string string
  | ErrDependencyNotReady
  | ErrPending
  | ErrText string
  | Wrap string err
  | WrapText err string
  | WrapV err err
  | Join "err list"

subsection \<open>errors.Is, errors.As, errors.Join\<close>

text \<open>\<open>errors.Is\<close> for a sentinel target: a depth-first search of the tree.\<close>

fun errors_Is :: "err \<Rightarrow> err \<Rightarrow> bool" where
  "errors_Is (Wrap s e) t = errors_Is e t"
| "errors_Is (WrapText e s) t = errors_Is e t"
| "errors_Is (WrapV e f) t = errors_Is e t"
| "errors_Is (Join es) t = (\<exists>e \<in> set es. errors_Is e t)"
| "errors_Is e t = (e = t)"

text \<open>\<open>errors.As\<close> with a \<open>*upcloud.Problem\<close> target, then with a \<open>*client.Error\<close> one.\<close>

fun first_Some :: "'a option list \<Rightarrow> 'a option" where
  "first_Some [] = None"
| "first_Some (None # xs) = first_Some xs"
| "first_Some (Some x # xs) = Some x"

fun As_Problem :: "err \<Rightarrow> (int \<times> string) option" where
  "As_Problem (Problem st title) = Some (st, title)"
| "As_Problem (Wrap s e) = As_Problem e"
| "As_Problem (WrapText e s) = As_Problem e"
| "As_Problem (WrapV e f) = As_Problem e"
| "As_Problem (Join es) = first_Some (map As_Problem es)"
| "As_Problem _ = None"

fun As_ClientError :: "err \<Rightarrow> int option" where
  "As_ClientError (ClientError c) = Some c"
| "As_ClientError (Wrap s e) = As_ClientError e"
| "As_ClientError (WrapText e s) = As_ClientError e"
| "As_ClientError (WrapV e f) = As_ClientError e"
| "As_ClientError (Join es) = first_Some (map As_ClientError es)"
| "As_ClientError _ = None"

text \<open>\<open>errors.Join\<close> drops nil errors and is nil when nothing is left.\<close>

definition errors_Join :: "err option list \<Rightarrow> err option" where
  "errors_Join es =
     (case [e. Some e \<leftarrow> es] of [] \<Rightarrow> None | xs \<Rightarrow> Some (Join xs))"

lemma errors_Join_two [simp]:
  "errors_Join [Some e, None] = Some (Join [e])"
  "errors_Join [Some e, Some f] = Some (Join [e, f])"
  "errors_Join [None, None] = None"
  by (simp_all add: errors_Join_def)

lemma errors_Join_Some_first [simp]: "\<exists>f. errors_Join [Some e, x] = Some f"
  by (cases x) simp_all

subsection \<open>internal/upcloudapi/errors.go\<close>

definition StatusOf :: "err \<Rightarrow> int" where
  "StatusOf e =
     (case As_Problem e of Some (st, _) \<Rightarrow> st
      | None \<Rightarrow> (case As_ClientError e of Some c \<Rightarrow> c | None \<Rightarrow> 0))"

definition IsNotFound :: "err option \<Rightarrow> bool" where
  "IsNotFound e = (case e of None \<Rightarrow> False | Some e \<Rightarrow> StatusOf e = 404)"

definition IsConflict :: "err option \<Rightarrow> bool" where
  "IsConflict e = (case e of None \<Rightarrow> False | Some e \<Rightarrow> StatusOf e = 409)"

text \<open>
  \<open>err.Error()\<close>. The text of a leaf that another package builds is the parameter
  \<open>leaf\<close>; the operator's own formats are written out.
\<close>

fun intersperse_nl :: "string list \<Rightarrow> string" where
  "intersperse_nl [] = []"
| "intersperse_nl [x] = x"
| "intersperse_nl (x # y # xs) = x @ [CHR 0x0A] @ intersperse_nl (y # xs)"

fun Error :: "(err \<Rightarrow> string) \<Rightarrow> err \<Rightarrow> string" where
  "Error leaf ErrDependencyNotReady = ''dependency not ready''"
| "Error leaf ErrPending = ''external operation in progress''"
| "Error leaf (ErrText s) = s"
| "Error leaf (Wrap s e) = s @ '': '' @ Error leaf e"
| "Error leaf (WrapText e s) = Error leaf e @ '': '' @ s"
| "Error leaf (WrapV e f) = Error leaf e @ '': '' @ Error leaf f"
| "Error leaf (Join es) = intersperse_nl (map (Error leaf) es)"
| "Error leaf e = leaf e"

definition TitleOf :: "(err \<Rightarrow> string) \<Rightarrow> err \<Rightarrow> string" where
  "TitleOf leaf e =
     (case As_Problem e of
        Some (_, title) \<Rightarrow> if title \<noteq> '''' then title else Error leaf e
      | None \<Rightarrow> Error leaf e)"

text \<open>The three classifications an adapter switches on never overlap.\<close>

lemma StatusOf_wrap [simp]:
  "StatusOf (Wrap s e) = StatusOf e"
  "StatusOf (WrapText e s) = StatusOf e"
  "StatusOf (WrapV e f) = StatusOf e"
  by (simp_all add: StatusOf_def cong: option.case_cong)

lemma IsNotFound_simps [simp]:
  "\<not> IsNotFound None"
  "IsNotFound (Some (Problem st t)) \<longleftrightarrow> st = 404"
  "IsNotFound (Some (ClientError c)) \<longleftrightarrow> c = 404"
  "\<not> IsNotFound (Some ErrPending)"
  "\<not> IsNotFound (Some ErrDependencyNotReady)"
  "\<not> IsNotFound (Some (ErrText s))"
  "IsNotFound (Some (Wrap s e)) \<longleftrightarrow> IsNotFound (Some e)"
  "IsNotFound (Some (WrapText e s)) \<longleftrightarrow> IsNotFound (Some e)"
  "IsNotFound (Some (WrapV e f)) \<longleftrightarrow> IsNotFound (Some e)"
  by (simp_all add: IsNotFound_def) (simp_all add: StatusOf_def)

lemma IsConflict_simps [simp]:
  "\<not> IsConflict None"
  "IsConflict (Some (Problem st t)) \<longleftrightarrow> st = 409"
  "IsConflict (Some (ClientError c)) \<longleftrightarrow> c = 409"
  by (simp_all add: IsConflict_def StatusOf_def)

lemma NotFound_not_Conflict: "IsNotFound e \<Longrightarrow> \<not> IsConflict e"
  by (auto simp: IsNotFound_def IsConflict_def split: option.splits)

lemma errors_Is_WrapV [simp]: "errors_Is (WrapV ErrPending e) ErrPending"
  by simp

end
