(* ===== verification/Common.thy ===== *)
theory Common
  imports GoErrors
begin

text \<open>
  The data every kind shares (\<open>api/common/types.go\<close>, \<open>metav1.ObjectMeta\<close> as far as
  the operator reads it), the Go interface \<open>reconciler.Object\<close> as a record of its
  methods, and \<open>internal/reconciler/conditions.go\<close>.

  The Kubernetes libraries are not part of the repository: the functions of
  \<open>apimachinery\<close> and \<open>controllerutil\<close> that the operator calls are the fields of
  \<open>Lib\<close>, a parameter of every definition that calls one, and the locale \<open>k8s_lib\<close>
  states what their documentation promises.
\<close>

subsection \<open>api/common/types.go\<close>

type_synonym DeletionPolicy = string

definition DeletionPolicyDelete :: DeletionPolicy where
  "DeletionPolicyDelete = ''Delete''"

definition DeletionPolicyOrphan :: DeletionPolicy where
  "DeletionPolicyOrphan = ''Orphan''"

record LocalObjectReference =
  lor_Name :: string

record SecretKeySelector =
  sks_Name :: string
  sks_Key :: string

record NetworkAttachment =
  na_Name :: string
  na_Type :: string
  na_Family :: string
  na_UUID :: string
  na_NetworkRef :: "LocalObjectReference option"

type_synonym UpCloudLabels = "(string, string) gomap"

subsection \<open>Objects\<close>

text \<open>\<open>DeletionTimestamp\<close> is \<open>None\<close> where \<open>IsZero\<close> holds.\<close>

record ObjectMeta =
  om_Name :: string
  om_Namespace :: string
  om_UID :: string
  om_Generation :: int
  om_DeletionTimestamp :: "int option"
  om_Finalizers :: "string list"

datatype ConditionStatus = ConditionTrue | ConditionFalse | ConditionUnknown

record Condition =
  c_Type :: string
  c_Status :: ConditionStatus
  c_Reason :: string
  c_Message :: string
  c_ObservedGeneration :: int

text \<open>Every kind is an object with metadata, a spec and a status.\<close>

record ('spec, 'status) CR =
  Meta :: ObjectMeta
  Spec :: 'spec
  Status :: 'status

text \<open>
  The interface \<open>reconciler.Object\<close> and the metadata accessors of \<open>client.Object\<close>
  that the reconcile loop calls. \<open>obj_TypeName\<close> is what \<open>%T\<close> prints.
\<close>

record 'o Object =
  GetMeta :: "'o \<Rightarrow> ObjectMeta"
  SetMeta :: "ObjectMeta \<Rightarrow> 'o \<Rightarrow> 'o"
  GetConditions :: "'o \<Rightarrow> Condition list"
  SetConditions :: "Condition list \<Rightarrow> 'o \<Rightarrow> 'o"
  GetDeletionPolicy :: "'o \<Rightarrow> DeletionPolicy"
  GetExternalID :: "'o \<Rightarrow> string"
  obj_TypeName :: string

text \<open>What the reconcile loop relies on: writing conditions or metadata changes nothing else.\<close>

locale managed_object =
  fixes Obj :: "'o Object"
  assumes conditions_set: "GetConditions Obj (SetConditions Obj cs x) = cs"
    and meta_set_conditions: "GetMeta Obj (SetConditions Obj cs x) = GetMeta Obj x"
    and id_set_conditions: "GetExternalID Obj (SetConditions Obj cs x) = GetExternalID Obj x"
    and policy_set_conditions: "GetDeletionPolicy Obj (SetConditions Obj cs x) = GetDeletionPolicy Obj x"
    and meta_set: "GetMeta Obj (SetMeta Obj m x) = m"
    and conditions_set_meta: "GetConditions Obj (SetMeta Obj m x) = GetConditions Obj x"
    and id_set_meta: "GetExternalID Obj (SetMeta Obj m x) = GetExternalID Obj x"
    and policy_set_meta: "GetDeletionPolicy Obj (SetMeta Obj m x) = GetDeletionPolicy Obj x"
begin

lemmas object_simps = conditions_set meta_set_conditions id_set_conditions
  policy_set_conditions meta_set conditions_set_meta id_set_meta policy_set_meta

end

subsection \<open>The Kubernetes helper libraries\<close>

text \<open>
  \<open>meta.SetStatusCondition\<close>, \<open>meta.IsStatusConditionTrue\<close>, the three finalizer helpers
  of \<open>controllerutil\<close> (on the finalizer list), \<open>apierrors.IsNotFound\<close>, and the
  texts of errors that other packages build.
\<close>

record Lib =
  SetStatusCondition :: "Condition \<Rightarrow> Condition list \<Rightarrow> Condition list"
  IsStatusConditionTrue :: "Condition list \<Rightarrow> string \<Rightarrow> bool"
  ContainsFinalizer :: "string list \<Rightarrow> string \<Rightarrow> bool"
  AddFinalizer :: "string list \<Rightarrow> string \<Rightarrow> string list"
  RemoveFinalizer :: "string list \<Rightarrow> string \<Rightarrow> string list"
  KubeIsNotFound :: "err \<Rightarrow> bool"
  LeafText :: "err \<Rightarrow> string"

locale k8s_lib =
  fixes L :: Lib
  assumes condition_true_set:
      "IsStatusConditionTrue L (SetStatusCondition L c cs) (c_Type c) \<longleftrightarrow> c_Status c = ConditionTrue"
    and contains_finalizer: "ContainsFinalizer L fs f \<longleftrightarrow> f \<in> set fs"
    and add_finalizer: "set (AddFinalizer L fs f) = insert f (set fs)"
    and remove_finalizer: "set (RemoveFinalizer L fs f) = set fs - {f}"
begin

lemma contains_after_add: "ContainsFinalizer L (AddFinalizer L fs f) f"
  by (simp add: contains_finalizer add_finalizer)

lemma not_contains_after_remove: "\<not> ContainsFinalizer L (RemoveFinalizer L fs f) f"
  by (simp add: contains_finalizer remove_finalizer)

lemma remove_keeps_others:
  "g \<noteq> f \<Longrightarrow> ContainsFinalizer L (RemoveFinalizer L fs f) g \<longleftrightarrow> ContainsFinalizer L fs g"
  by (simp add: contains_finalizer remove_finalizer)

end

subsection \<open>internal/reconciler/conditions.go\<close>

definition ConditionReady :: string where "ConditionReady = ''Ready''"

definition ReasonAvailable :: string where "ReasonAvailable = ''Available''"
definition ReasonCreating :: string where "ReasonCreating = ''Creating''"
definition ReasonUpdating :: string where "ReasonUpdating = ''Updating''"
definition ReasonPending :: string where "ReasonPending = ''Pending''"
definition ReasonDeleting :: string where "ReasonDeleting = ''Deleting''"
definition ReasonWaitingForDependency :: string where
  "ReasonWaitingForDependency = ''WaitingForDependency''"
definition ReasonObserveFailed :: string where "ReasonObserveFailed = ''ObserveFailed''"
definition ReasonCreateFailed :: string where "ReasonCreateFailed = ''CreateFailed''"
definition ReasonUpdateFailed :: string where "ReasonUpdateFailed = ''UpdateFailed''"
definition ReasonDeleteFailed :: string where "ReasonDeleteFailed = ''DeleteFailed''"

definition SetReady ::
  "Lib \<Rightarrow> 'o Object \<Rightarrow> 'o \<Rightarrow> ConditionStatus \<Rightarrow> string \<Rightarrow> string \<Rightarrow> 'o" where
  "SetReady L Obj obj status reason message =
     (let conds = GetConditions Obj obj;
          conds' = SetStatusCondition L
            \<lparr>c_Type = ConditionReady, c_Status = status, c_Reason = reason,
             c_Message = message, c_ObservedGeneration = om_Generation (GetMeta Obj obj)\<rparr> conds
      in SetConditions Obj conds' obj)"

definition IsReady :: "Lib \<Rightarrow> 'o Object \<Rightarrow> 'o \<Rightarrow> bool" where
  "IsReady L Obj obj = IsStatusConditionTrue L (GetConditions Obj obj) ConditionReady"

context managed_object
begin

lemma SetReady_frame:
  "GetMeta Obj (SetReady L Obj x st r m) = GetMeta Obj x"
  "GetExternalID Obj (SetReady L Obj x st r m) = GetExternalID Obj x"
  "GetDeletionPolicy Obj (SetReady L Obj x st r m) = GetDeletionPolicy Obj x"
  by (simp_all add: SetReady_def Let_def object_simps)

lemma IsReady_SetReady:
  assumes "k8s_lib L"
  shows "IsReady L Obj (SetReady L Obj x st r m) \<longleftrightarrow> st = ConditionTrue"
  using k8s_lib.condition_true_set [OF assms,
      of "\<lparr>c_Type = ConditionReady, c_Status = st, c_Reason = r, c_Message = m,
           c_ObservedGeneration = om_Generation (GetMeta Obj x)\<rparr>" "GetConditions Obj x"]
  by (simp add: IsReady_def SetReady_def Let_def object_simps)

end

subsection \<open>A library that keeps the promises\<close>

text \<open>
  \<open>ref_Lib\<close> behaves as the libraries' documentation says (\<open>LastTransitionTime\<close> is not
  part of a modelled condition). It shows that the assumptions of \<open>k8s_lib\<close> can hold and
  is the parameter the witnesses use.
\<close>

fun ref_SetStatusCondition :: "Condition \<Rightarrow> Condition list \<Rightarrow> Condition list" where
  "ref_SetStatusCondition c [] = [c]"
| "ref_SetStatusCondition c (d # ds) =
     (if c_Type d = c_Type c then c # ds else d # ref_SetStatusCondition c ds)"

definition ref_IsStatusConditionTrue :: "Condition list \<Rightarrow> string \<Rightarrow> bool" where
  "ref_IsStatusConditionTrue cs t =
     (case find (\<lambda>c. c_Type c = t) cs of None \<Rightarrow> False | Some c \<Rightarrow> c_Status c = ConditionTrue)"

definition ref_KubeIsNotFound :: "err \<Rightarrow> bool" where
  "ref_KubeIsNotFound e = (case e of KubeError reason m \<Rightarrow> reason = ''NotFound'' | _ \<Rightarrow> False)"

definition ref_LeafText :: "err \<Rightarrow> string" where
  "ref_LeafText e = (case e of Problem st t \<Rightarrow> t | KubeError r m \<Rightarrow> m | _ \<Rightarrow> ''error'')"

definition ref_Lib :: Lib where
  "ref_Lib =
     \<lparr>SetStatusCondition = ref_SetStatusCondition,
      IsStatusConditionTrue = ref_IsStatusConditionTrue,
      ContainsFinalizer = (\<lambda>fs f. f \<in> set fs),
      AddFinalizer = (\<lambda>fs f. if f \<in> set fs then fs else fs @ [f]),
      RemoveFinalizer = (\<lambda>fs f. filter (\<lambda>g. g \<noteq> f) fs),
      KubeIsNotFound = ref_KubeIsNotFound,
      LeafText = ref_LeafText\<rparr>"

lemma ref_find_set:
  "find (\<lambda>d. c_Type d = c_Type c) (ref_SetStatusCondition c cs) = Some c"
  by (induction c cs rule: ref_SetStatusCondition.induct) auto

interpretation ref_lib: k8s_lib ref_Lib
  by unfold_locales (auto simp: ref_Lib_def ref_IsStatusConditionTrue_def ref_find_set)

end
