(* ===== verification/Labels.thy ===== *)
theory Labels
  imports Common
begin

text \<open>
  \<open>internal/upcloudapi/labels.go\<close>: the labels that mark a cloud resource as owned by a
  custom resource, and the comparison drift detection uses. The user labels are a Go
  map; the list that stands for it here is in the order a \<open>range\<close> happens to visit it,
  and \<open>DesiredLabels_range_order\<close> shows that this order never shows in the result.
\<close>

record Label =
  l_Key :: string
  l_Value :: string

definition LabelManagedBy :: string where "LabelManagedBy = ''managed-by''"
definition LabelUID :: string where "LabelUID = ''k8s-uid''"
definition ManagedByValue :: string where "ManagedByValue = ''uck''"

definition mkLabel :: "string \<Rightarrow> string \<Rightarrow> Label" where
  "mkLabel k v = \<lparr>l_Key = k, l_Value = v\<rparr>"

definition OwnerLabels :: "ObjectMeta \<Rightarrow> Label list" where
  "OwnerLabels obj = [mkLabel LabelUID (om_UID obj), mkLabel LabelManagedBy ManagedByValue]"

text \<open>
  \<open>slices.SortFunc\<close> by key. The Go sort is not stable; \<open>sortLabels_unique\<close> shows that
  for distinct keys there is one sorted arrangement only, so the choice of a stable sort
  is not visible.
\<close>

definition sortLabels :: "Label list \<Rightarrow> Label list" where
  "sortLabels ls = sort_key l_Key ls"

text \<open>The loop of \<open>DesiredLabels\<close>: user entries, the two reserved keys skipped.\<close>

fun appendUserLabels :: "Label list \<Rightarrow> (string \<times> string) list \<Rightarrow> Label list" where
  "appendUserLabels out [] = out"
| "appendUserLabels out ((k, v) # rest) =
     (if k = LabelManagedBy \<or> k = LabelUID then appendUserLabels out rest
      else appendUserLabels (out @ [mkLabel k v]) rest)"

definition DesiredLabels :: "ObjectMeta \<Rightarrow> UpCloudLabels \<Rightarrow> Label list" where
  "DesiredLabels obj user = sortLabels (appendUserLabels (OwnerLabels obj) user)"

definition LabelsEqual :: "Label list \<Rightarrow> Label list \<Rightarrow> bool" where
  "LabelsEqual a b =
     (if length a \<noteq> length b then False else sortLabels a = sortLabels b)"

fun HasUID :: "Label list \<Rightarrow> string \<Rightarrow> bool" where
  "HasUID [] uid = False"
| "HasUID (l # ls) uid = (if l_Key l = LabelUID \<and> l_Value l = uid then True else HasUID ls uid)"

text \<open>
  Query filters of the SDK: the operator only builds \<open>FilterLabel\<close>; any other filter is
  \<open>OtherFilter\<close>.
\<close>

datatype QueryFilter = FilterLabel Label | OtherFilter

definition UIDFilter :: "ObjectMeta \<Rightarrow> QueryFilter" where
  "UIDFilter obj = FilterLabel (mkLabel LabelUID (om_UID obj))"

subsection \<open>Sorting by key\<close>

lemma mset_sortLabels [simp]: "mset (sortLabels ls) = mset ls"
  by (simp add: sortLabels_def)

lemma set_sortLabels [simp]: "set (sortLabels ls) = set ls"
  by (simp add: sortLabels_def)

lemma length_sortLabels [simp]: "length (sortLabels ls) = length ls"
  by (simp add: sortLabels_def)

lemma distinct_keys_mset:
  "mset xs = mset ys \<Longrightarrow> distinct (map l_Key xs) \<longleftrightarrow> distinct (map l_Key ys)"
  by (metis mset_eq_imp_distinct_iff mset_map)

lemma sortLabels_unique:
  assumes "mset xs = mset ys" and "sorted (map l_Key xs)" and "distinct (map l_Key ys)"
  shows "xs = sortLabels ys"
proof -
  have "sort_key l_Key ys = xs"
  proof (rule properties_for_sort_key)
    show "mset xs = mset ys" by (rule assms(1))
    show "sorted (map l_Key xs)" by (rule assms(2))
  next
    fix k assume k: "k \<in> set xs"
    have dx: "distinct (map l_Key xs)" using assms(1,3) distinct_keys_mset by blast
    have one: "distinct (map l_Key zs) \<Longrightarrow> k \<in> set zs \<Longrightarrow> filter (\<lambda>x. l_Key k = l_Key x) zs = [k]" for zs
      by (induction zs) (auto simp: filter_empty_conv image_iff)
    have "k \<in> set ys" using k assms(1) by (metis set_mset_mset)
    then show "filter (\<lambda>x. l_Key k = l_Key x) xs = filter (\<lambda>x. l_Key k = l_Key x) ys"
      using one [OF dx k] one [OF assms(3)] by simp
  qed
  then show ?thesis by (simp add: sortLabels_def)
qed

lemma sortLabels_cong:
  assumes "mset xs = mset ys" and "distinct (map l_Key xs)"
  shows "sortLabels xs = sortLabels ys"
proof (rule sortLabels_unique)
  show "mset (sortLabels xs) = mset ys" using assms(1) by simp
  show "sorted (map l_Key (sortLabels xs))" by (simp add: sortLabels_def)
  show "distinct (map l_Key ys)" using assms distinct_keys_mset by blast
qed

subsection \<open>What the label functions compute\<close>

definition notReserved :: "string \<times> string \<Rightarrow> bool" where
  "notReserved kv \<longleftrightarrow> fst kv \<noteq> LabelManagedBy \<and> fst kv \<noteq> LabelUID"

lemma appendUserLabels_eq:
  "appendUserLabels out user = out @ map (\<lambda>(k, v). mkLabel k v) (filter notReserved user)"
  by (induction out user rule: appendUserLabels.induct) (auto simp: notReserved_def)

lemma reserved_distinct [simp]: "LabelManagedBy \<noteq> LabelUID" "LabelUID \<noteq> LabelManagedBy"
  by (simp_all add: LabelManagedBy_def LabelUID_def)

lemma mkLabel_sel [simp]: "l_Key (mkLabel k v) = k" "l_Value (mkLabel k v) = v"
  by (simp_all add: mkLabel_def)

lemma mkLabel_inj [simp]: "mkLabel k v = mkLabel k' v' \<longleftrightarrow> k = k' \<and> v = v'"
  by (auto simp: mkLabel_def)

lemma mkLabel_key_value: "mkLabel (l_Key l) (l_Value l) = l"
  by (simp add: mkLabel_def)

lemma HasUID_iff: "HasUID ls uid \<longleftrightarrow> mkLabel LabelUID uid \<in> set ls"
  by (induction ls uid rule: HasUID.induct) (auto simp: mkLabel_key_value)

lemma set_DesiredLabels:
  "set (DesiredLabels obj user) = set (OwnerLabels obj) \<union> {mkLabel k v |k v. (k, v) \<in> set user \<and> notReserved (k, v)}"
  by (auto simp: DesiredLabels_def appendUserLabels_eq image_iff)

lemma distinct_appendUserLabels:
  assumes "gm_wf user"
  shows "distinct (map l_Key (appendUserLabels (OwnerLabels obj) user))"
proof -
  have "map l_Key (map (\<lambda>(k, v). mkLabel k v) (filter notReserved user)) = map fst (filter notReserved user)"
    by auto
  moreover have "distinct (map fst (filter notReserved user))"
    using assms by (rule distinct_map_filter)
  moreover have "LabelUID \<notin> set (map fst (filter notReserved user))"
    "LabelManagedBy \<notin> set (map fst (filter notReserved user))"
    by (auto simp: notReserved_def)
  ultimately show ?thesis
    by (simp only: appendUserLabels_eq OwnerLabels_def map_append distinct_append) simp
qed

lemma distinct_DesiredLabels: "gm_wf user \<Longrightarrow> distinct (map l_Key (DesiredLabels obj user))"
  using distinct_appendUserLabels [of user obj]
  by (metis DesiredLabels_def distinct_keys_mset mset_sortLabels)

lemma sorted_DesiredLabels: "sorted (map l_Key (DesiredLabels obj user))"
  by (simp add: DesiredLabels_def sortLabels_def)

lemma LabelsEqual_refl [simp]: "LabelsEqual ls ls"
  by (simp add: LabelsEqual_def)

lemma LabelsEqual_mset: "LabelsEqual a b \<Longrightarrow> mset a = mset b"
  by (metis LabelsEqual_def mset_sortLabels)

lemma LabelsEqual_DesiredLabels_HasUID:
  "LabelsEqual ls (DesiredLabels obj user) \<Longrightarrow> HasUID ls (om_UID obj)"
proof -
  assume "LabelsEqual ls (DesiredLabels obj user)"
  then have "set ls = set (DesiredLabels obj user)" by (metis LabelsEqual_mset set_mset_mset)
  then show ?thesis by (auto simp: HasUID_iff set_DesiredLabels OwnerLabels_def)
qed

lemma HasUID_DesiredLabels:
  "HasUID (DesiredLabels obj user) uid \<longleftrightarrow> uid = om_UID obj"
  by (auto simp: HasUID_iff set_DesiredLabels OwnerLabels_def notReserved_def)

subsection \<open>Properties\<close>

text \<open>
  \<open>DesiredLabels\<close> is a function of the label map: whatever order Go's \<open>range\<close>
  visits the entries in (any permutation of a map's entries), the resulting label list
  is the same, so two passes never see drift that only comes from map iteration.
\<close>

theorem DesiredLabels_range_order:
  assumes "gm_wf user" and "mset visited = mset user"
  shows "DesiredLabels obj visited = DesiredLabels obj user"
proof -
  have "mset (filter notReserved visited) = mset (filter notReserved user)"
    using assms(2) by (simp only: mset_filter)
  then have "mset (appendUserLabels (OwnerLabels obj) visited) = mset (appendUserLabels (OwnerLabels obj) user)"
    by (simp only: appendUserLabels_eq mset_append mset_map)
  then show ?thesis
    using distinct_appendUserLabels [OF assms(1), of obj] distinct_keys_mset
    unfolding DesiredLabels_def by (metis sortLabels_cong)
qed

theorem DesiredLabels_range_order_witness:
  "DesiredLabels \<lparr>om_Name = ''n'', om_Namespace = ''ns'', om_UID = ''u'', om_Generation = 1,
       om_DeletionTimestamp = None, om_Finalizers = []\<rparr> [(''b'', ''2''), (''a'', ''1'')]
   = DesiredLabels \<lparr>om_Name = ''n'', om_Namespace = ''ns'', om_UID = ''u'', om_Generation = 1,
       om_DeletionTimestamp = None, om_Finalizers = []\<rparr> [(''a'', ''1''), (''b'', ''2'')]"
  by (rule DesiredLabels_range_order) simp_all

text \<open>
  C32. On label sets with distinct keys, which is what the API stores and what
  \<open>DesiredLabels\<close> builds, \<open>LabelsEqual\<close> decides equality of the two sets: drift is
  reported exactly when a label is missing, extra or has another value.
\<close>

theorem LabelsEqual_iff_same_labels:
  assumes "distinct (map l_Key a)" and "distinct (map l_Key b)"
  shows "LabelsEqual a b \<longleftrightarrow> set a = set b"
proof
  assume "LabelsEqual a b"
  then show "set a = set b" by (metis LabelsEqual_mset set_mset_mset)
next
  assume "set a = set b"
  moreover have "distinct a" "distinct b" using assms by (simp_all add: distinct_map)
  ultimately have m: "mset a = mset b" by (simp add: set_eq_iff_mset_eq_distinct)
  then have "length a = length b" by (rule mset_eq_length)
  then show "LabelsEqual a b"
    using sortLabels_cong [OF m assms(1)] by (simp add: LabelsEqual_def)
qed

theorem LabelsEqual_iff_same_labels_witness:
  "LabelsEqual [mkLabel ''b'' ''2'', mkLabel ''a'' ''1''] [mkLabel ''a'' ''1'', mkLabel ''b'' ''2'']"
proof -
  have "LabelsEqual [mkLabel ''b'' ''2'', mkLabel ''a'' ''1''] [mkLabel ''a'' ''1'', mkLabel ''b'' ''2'']
    \<longleftrightarrow> set [mkLabel ''b'' ''2'', mkLabel ''a'' ''1''] = set [mkLabel ''a'' ''1'', mkLabel ''b'' ''2'']"
    by (rule LabelsEqual_iff_same_labels) simp_all
  then show ?thesis by (simp add: insert_commute)
qed

text \<open>
  C11. Ownership cannot be forged or lost through user labels: whatever the user writes,
  the desired labels carry exactly one UID, that of the object, and the operator's
  \<open>managed-by\<close> value.
\<close>

theorem DesiredLabels_ownership:
  "(HasUID (DesiredLabels obj user) uid \<longleftrightarrow> uid = om_UID obj) \<and>
   (mkLabel LabelManagedBy v \<in> set (DesiredLabels obj user) \<longleftrightarrow> v = ManagedByValue)"
  by (auto simp: HasUID_DesiredLabels set_DesiredLabels OwnerLabels_def notReserved_def)

end
