(* ===== verification/Reconciler.thy ===== *)
theory Reconciler
  imports Labels
begin

text \<open>
  \<open>internal/reconciler/reconciler.go\<close> and \<open>watch.go\<close>: the generic reconcile loop.

  The type variable \<open>'w\<close> is the world a pass runs against: the Kubernetes cluster and
  the UpCloud account. The Kubernetes client and the adapter of a kind are Go interface
  values, modelled as records of their methods; a method returns its results, the object
  it was given a pointer to (where it can change it) and the next world. Durations are
  nanoseconds (\<open>time.Duration\<close>). Logging is not modelled.
\<close>

subsection \<open>Interfaces\<close>

record Observation =
  ob_Exists :: bool
  ob_UpToDate :: bool
  ob_Ready :: bool
  ob_Message :: string

definition NoObservation :: Observation where
  "NoObservation = \<lparr>ob_Exists = False, ob_UpToDate = False, ob_Ready = False, ob_Message = ''''\<rparr>"

record ('o, 'w) Adapter =
  ad_Observe :: "'o \<Rightarrow> 'w \<Rightarrow> (err + Observation) \<times> 'o \<times> 'w"
  ad_Create :: "'o \<Rightarrow> 'w \<Rightarrow> err option \<times> 'o \<times> 'w"
  ad_Update :: "'o \<Rightarrow> 'w \<Rightarrow> err option \<times> 'o \<times> 'w"
  ad_Delete :: "'o \<Rightarrow> 'w \<Rightarrow> err option \<times> 'o \<times> 'w"

text \<open>
  The part of \<open>client.Client\<close> the loop calls. \<open>cl_StatusPatch obj before\<close> is
  \<open>Status().Patch(ctx, obj, client.MergeFrom(before))\<close>.
\<close>

type_synonym NamespacedName = "string \<times> string"

record ('o, 'w) Client =
  cl_Get :: "NamespacedName \<Rightarrow> 'w \<Rightarrow> err + 'o"
  cl_Update :: "'o \<Rightarrow> 'w \<Rightarrow> err option \<times> 'w"
  cl_StatusPatch :: "'o \<Rightarrow> 'o \<Rightarrow> 'w \<Rightarrow> err option \<times> 'w"

type_synonym Duration = int

definition Second :: Duration where "Second = 1000000000"
definition Minute :: Duration where "Minute = 60 * Second"

record Result =
  RequeueAfter :: Duration

definition Result0 :: Result where "Result0 = \<lparr>RequeueAfter = 0\<rparr>"

record Options =
  opt_SteadyRequeue :: Duration

record ('o, 'w) Reconciler =
  r_Lib :: Lib
  r_Object :: "'o Object"
  r_Client :: "('o, 'w) Client"
  r_Adapter :: "('o, 'w) Adapter"
  r_Finalizer :: string
  r_PendingRequeue :: Duration
  r_DependencyRequeue :: Duration
  r_SteadyRequeue :: Duration

subsection \<open>Defaults and options\<close>

definition defaults :: "('o, 'w) Reconciler \<Rightarrow> ('o, 'w) Reconciler" where
  "defaults r =
     (let r1 = (if r_PendingRequeue r = 0 then r\<lparr>r_PendingRequeue := 15 * Second\<rparr> else r);
          r2 = (if r_DependencyRequeue r1 = 0 then r1\<lparr>r_DependencyRequeue := 15 * Second\<rparr> else r1)
      in if r_SteadyRequeue r2 = 0 then r2\<lparr>r_SteadyRequeue := 5 * Minute\<rparr> else r2)"

definition ApplyOptions :: "Options \<Rightarrow> ('o, 'w) Reconciler \<Rightarrow> ('o, 'w) Reconciler" where
  "ApplyOptions opts r =
     (if opt_SteadyRequeue opts > 0 then r\<lparr>r_SteadyRequeue := opt_SteadyRequeue opts\<rparr> else r)"

subsection \<open>The reconcile loop\<close>

definition patchStatus ::
  "('o, 'w) Reconciler \<Rightarrow> 'o \<Rightarrow> 'o \<Rightarrow> 'w \<Rightarrow> err option \<times> 'w" where
  "patchStatus r obj before w = cl_StatusPatch (r_Client r) obj before w"

abbreviation setReady ::
  "('o, 'w) Reconciler \<Rightarrow> 'o \<Rightarrow> ConditionStatus \<Rightarrow> string \<Rightarrow> string \<Rightarrow> 'o" where
  "setReady r \<equiv> SetReady (r_Lib r) (r_Object r)"

abbreviation errText :: "('o, 'w) Reconciler \<Rightarrow> err \<Rightarrow> string" where
  "errText r \<equiv> Error (LeafText (r_Lib r))"

definition fail ::
  "('o, 'w) Reconciler \<Rightarrow> 'o \<Rightarrow> 'o \<Rightarrow> string \<Rightarrow> err \<Rightarrow> 'w \<Rightarrow> (Result \<times> err option) \<times> 'w" where
  "fail r obj before reason e w =
     (let obj1 = setReady r obj ConditionFalse reason (errText r e);
          (pe, w1) = patchStatus r obj1 before w
      in ((Result0, errors_Join [Some e, pe]), w1))"

definition reconcileNormal ::
  "('o, 'w) Reconciler \<Rightarrow> 'o \<Rightarrow> 'w \<Rightarrow> (Result \<times> err option) \<times> 'w" where
  "reconcileNormal r obj w =
     (let before = obj in
      case ad_Observe (r_Adapter r) obj w of
        (Inl e, obj1, w1) \<Rightarrow>
          (if errors_Is e ErrDependencyNotReady
           then let obj2 = setReady r obj1 ConditionFalse ReasonWaitingForDependency (errText r e);
                    (pe, w2) = patchStatus r obj2 before w1
                in ((\<lparr>RequeueAfter = r_DependencyRequeue r\<rparr>, pe), w2)
           else let obj2 = setReady r obj1 ConditionFalse ReasonObserveFailed (errText r e);
                    (pe, w2) = patchStatus r obj2 before w1
                in ((Result0, errors_Join [Some e, pe]), w2))
      | (Inr obs, obj1, w1) \<Rightarrow>
          (if \<not> ob_Exists obs then
             (case ad_Create (r_Adapter r) obj1 w1 of
                (Some e, obj2, w2) \<Rightarrow> fail r obj2 before ReasonCreateFailed e w2
              | (None, obj2, w2) \<Rightarrow>
                  let obj3 = setReady r obj2 ConditionFalse ReasonCreating ''create request accepted'';
                      (pe, w3) = patchStatus r obj3 before w2
                  in ((\<lparr>RequeueAfter = r_PendingRequeue r\<rparr>, pe), w3))
           else if \<not> ob_UpToDate obs then
             (case ad_Update (r_Adapter r) obj1 w1 of
                (Some e, obj2, w2) \<Rightarrow>
                  if errors_Is e ErrPending
                  then let obj3 = setReady r obj2 ConditionFalse ReasonPending (errText r e);
                           (pe, w3) = patchStatus r obj3 before w2
                       in ((\<lparr>RequeueAfter = r_PendingRequeue r\<rparr>, pe), w3)
                  else if errors_Is e ErrDependencyNotReady
                  then let obj3 = setReady r obj2 ConditionFalse ReasonWaitingForDependency (errText r e);
                           (pe, w3) = patchStatus r obj3 before w2
                       in ((\<lparr>RequeueAfter = r_PendingRequeue r\<rparr>, pe), w3)
                  else fail r obj2 before ReasonUpdateFailed e w2
              | (None, obj2, w2) \<Rightarrow>
                  let obj3 = setReady r obj2 ConditionFalse ReasonUpdating ''update request accepted'';
                      (pe, w3) = patchStatus r obj3 before w2
                  in ((\<lparr>RequeueAfter = r_PendingRequeue r\<rparr>, pe), w3))
           else if \<not> ob_Ready obs then
             let obj2 = setReady r obj1 ConditionFalse ReasonPending (ob_Message obs);
                 (pe, w2) = patchStatus r obj2 before w1
             in ((\<lparr>RequeueAfter = r_PendingRequeue r\<rparr>, pe), w2)
           else
             let obj2 = setReady r obj1 ConditionTrue ReasonAvailable (ob_Message obs);
                 (pe, w2) = patchStatus r obj2 before w1
             in ((\<lparr>RequeueAfter = r_SteadyRequeue r\<rparr>, pe), w2)))"

definition withFinalizers :: "('o, 'w) Reconciler \<Rightarrow> (string list \<Rightarrow> string list) \<Rightarrow> 'o \<Rightarrow> 'o" where
  "withFinalizers r f obj =
     (let m = GetMeta (r_Object r) obj
      in SetMeta (r_Object r) (m\<lparr>om_Finalizers := f (om_Finalizers m)\<rparr>) obj)"

definition hasFinalizer :: "('o, 'w) Reconciler \<Rightarrow> 'o \<Rightarrow> bool" where
  "hasFinalizer r obj =
     ContainsFinalizer (r_Lib r) (om_Finalizers (GetMeta (r_Object r) obj)) (r_Finalizer r)"

definition removeFinalizer :: "('o, 'w) Reconciler \<Rightarrow> 'o \<Rightarrow> 'o" where
  "removeFinalizer r = withFinalizers r (\<lambda>fs. RemoveFinalizer (r_Lib r) fs (r_Finalizer r))"

definition addFinalizer :: "('o, 'w) Reconciler \<Rightarrow> 'o \<Rightarrow> 'o" where
  "addFinalizer r = withFinalizers r (\<lambda>fs. AddFinalizer (r_Lib r) fs (r_Finalizer r))"

definition releaseObject ::
  "('o, 'w) Reconciler \<Rightarrow> 'o \<Rightarrow> 'w \<Rightarrow> (Result \<times> err option) \<times> 'w" where
  "releaseObject r obj w =
     (let (ue, w1) = cl_Update (r_Client r) (removeFinalizer r obj) w in ((Result0, ue), w1))"

definition reconcileDelete ::
  "('o, 'w) Reconciler \<Rightarrow> 'o \<Rightarrow> 'w \<Rightarrow> (Result \<times> err option) \<times> 'w" where
  "reconcileDelete r obj w =
     (if \<not> hasFinalizer r obj then ((Result0, None), w)
      else let before = obj in
        if GetDeletionPolicy (r_Object r) obj \<noteq> DeletionPolicyOrphan then
          (case ad_Delete (r_Adapter r) obj w of
             (Some e, obj1, w1) \<Rightarrow>
               if errors_Is e ErrPending
               then let obj2 = setReady r obj1 ConditionFalse ReasonDeleting (errText r e);
                        (pe, w2) = patchStatus r obj2 before w1
                    in ((\<lparr>RequeueAfter = r_PendingRequeue r\<rparr>, pe), w2)
               else fail r obj1 before ReasonDeleteFailed e w1
           | (None, obj1, w1) \<Rightarrow> releaseObject r obj1 w1)
        else releaseObject r obj w)"

definition Reconcile ::
  "('o, 'w) Reconciler \<Rightarrow> NamespacedName \<Rightarrow> 'w \<Rightarrow> (Result \<times> err option) \<times> 'w" where
  "Reconcile r0 req w =
     (let r = defaults r0 in
      case cl_Get (r_Client r) req w of
        Inl e \<Rightarrow> ((Result0, if KubeIsNotFound (r_Lib r) e then None else Some e), w)
      | Inr obj \<Rightarrow>
          if om_DeletionTimestamp (GetMeta (r_Object r) obj) \<noteq> None then reconcileDelete r obj w
          else if \<not> hasFinalizer r obj then
            let (ue, w1) = cl_Update (r_Client r) (addFinalizer r obj) w in ((Result0, ue), w1)
          else reconcileNormal r obj w)"

subsection \<open>internal/reconciler/watch.go\<close>

text \<open>
  \<open>DependentsOf\<close>: \<open>list\<close> is \<open>c.List\<close> restricted to a namespace followed by \<open>items\<close>;
  a failing list is logged and enqueues nothing.
\<close>

fun enqueueMatching ::
  "('o \<Rightarrow> ObjectMeta) \<Rightarrow> ('o \<Rightarrow> string list) \<Rightarrow> string \<Rightarrow> 'o list \<Rightarrow> NamespacedName list" where
  "enqueueMatching getMeta refNames name [] = []"
| "enqueueMatching getMeta refNames name (it # its) =
     (if name \<in> set (refNames it)
      then (om_Namespace (getMeta it), om_Name (getMeta it)) # enqueueMatching getMeta refNames name its
      else enqueueMatching getMeta refNames name its)"

definition DependentsOf ::
  "(string \<Rightarrow> 'w \<Rightarrow> err + 'o list) \<Rightarrow> ('o \<Rightarrow> ObjectMeta) \<Rightarrow> ('o \<Rightarrow> string list)
   \<Rightarrow> ObjectMeta \<Rightarrow> 'w \<Rightarrow> NamespacedName list" where
  "DependentsOf list getMeta refNames obj w =
     (case list (om_Namespace obj) w of
        Inl e \<Rightarrow> []
      | Inr items \<Rightarrow> enqueueMatching getMeta refNames (om_Name obj) items)"

lemma set_enqueueMatching:
  "set (enqueueMatching gm rn name its) =
     {(om_Namespace (gm it), om_Name (gm it)) |it. it \<in> set its \<and> name \<in> set (rn it)}"
  by (induction gm rn name its rule: enqueueMatching.induct) auto

subsection \<open>Two-part worlds\<close>

text \<open>
  The world of a pass is a pair: the cluster the client acts on and the cloud the
  adapter acts on. \<open>onCluster\<close> and \<open>onCloud\<close> lift a client and an adapter to it.
\<close>

definition onCluster :: "('o, 'k) Client \<Rightarrow> ('o, 'k \<times> 's) Client" where
  "onCluster c =
     \<lparr>cl_Get = (\<lambda>key (k, s). cl_Get c key k),
      cl_Update = (\<lambda>x (k, s). let (e, k1) = cl_Update c x k in (e, (k1, s))),
      cl_StatusPatch = (\<lambda>x b (k, s). let (e, k1) = cl_StatusPatch c x b k in (e, (k1, s)))\<rparr>"

definition onCloud :: "('o, 's) Adapter \<Rightarrow> ('o, 'k \<times> 's) Adapter" where
  "onCloud ad =
     \<lparr>ad_Observe = (\<lambda>x (k, s). let (r, x1, s1) = ad_Observe ad x s in (r, x1, (k, s1))),
      ad_Create = (\<lambda>x (k, s). let (r, x1, s1) = ad_Create ad x s in (r, x1, (k, s1))),
      ad_Update = (\<lambda>x (k, s). let (r, x1, s1) = ad_Update ad x s in (r, x1, (k, s1))),
      ad_Delete = (\<lambda>x (k, s). let (r, x1, s1) = ad_Delete ad x s in (r, x1, (k, s1)))\<rparr>"

lemma onCluster_sel [simp]:
  "cl_Get (onCluster c) key (k, s) = cl_Get c key k"
  "cl_Update (onCluster c) x (k, s) = (let (e, k1) = cl_Update c x k in (e, (k1, s)))"
  "cl_StatusPatch (onCluster c) x b (k, s) = (let (e, k1) = cl_StatusPatch c x b k in (e, (k1, s)))"
  by (simp_all add: onCluster_def)

lemma onCloud_sel [simp]:
  "ad_Observe (onCloud ad) x (k, s) = (let (r, x1, s1) = ad_Observe ad x s in (r, x1, (k, s1)))"
  "ad_Create (onCloud ad) x (k, s) = (let (e, x1, s1) = ad_Create ad x s in (e, x1, (k, s1)))"
  "ad_Update (onCloud ad) x (k, s) = (let (e, x1, s1) = ad_Update ad x s in (e, x1, (k, s1)))"
  "ad_Delete (onCloud ad) x (k, s) = (let (e, x1, s1) = ad_Delete ad x s in (e, x1, (k, s1)))"
  by (simp_all add: onCloud_def)

definition mkReconciler ::
  "Lib \<Rightarrow> 'o Object \<Rightarrow> ('o, 'k) Client \<Rightarrow> ('o, 's) Adapter \<Rightarrow> string \<Rightarrow> Options
   \<Rightarrow> ('o, 'k \<times> 's) Reconciler" where
  "mkReconciler L Obj c ad fin opts =
     ApplyOptions opts
       \<lparr>r_Lib = L, r_Object = Obj, r_Client = onCluster c, r_Adapter = onCloud ad,
        r_Finalizer = fin, r_PendingRequeue = 0, r_DependencyRequeue = 0, r_SteadyRequeue = 0\<rparr>"

lemma mkReconciler_sel [simp]:
  "r_Lib (mkReconciler L Obj c ad fin opts) = L"
  "r_Object (mkReconciler L Obj c ad fin opts) = Obj"
  "r_Client (mkReconciler L Obj c ad fin opts) = onCluster c"
  "r_Adapter (mkReconciler L Obj c ad fin opts) = onCloud ad"
  "r_Finalizer (mkReconciler L Obj c ad fin opts) = fin"
  by (simp_all add: mkReconciler_def ApplyOptions_def)

lemma defaults_sel [simp]:
  "r_Lib (defaults r) = r_Lib r" "r_Object (defaults r) = r_Object r"
  "r_Client (defaults r) = r_Client r" "r_Adapter (defaults r) = r_Adapter r"
  "r_Finalizer (defaults r) = r_Finalizer r"
  by (simp_all add: defaults_def Let_def)

lemma defaults_positive:
  assumes "0 \<le> r_PendingRequeue r" "0 \<le> r_DependencyRequeue r" "0 \<le> r_SteadyRequeue r"
  shows "0 < r_PendingRequeue (defaults r)" "0 < r_DependencyRequeue (defaults r)"
    "0 < r_SteadyRequeue (defaults r)"
  using assms by (simp_all add: defaults_def Let_def Second_def Minute_def)

subsection \<open>A pass as a decision and one write\<close>

text \<open>
  The abstract view of a pass over a live object: look at the resource, act at most once,
  and decide what to report; then write the status once. \<open>reconcileNormal_as_decision\<close>
  shows that the loop as written does exactly that.
\<close>

record 'o Decision =
  d_Requeue :: Duration
  d_Err :: "err option"
  d_Obj :: 'o
  d_Status :: ConditionStatus
  d_Reason :: string
  d_Message :: string

definition decide ::
  "Duration \<Rightarrow> err option \<Rightarrow> 'o \<Rightarrow> ConditionStatus \<Rightarrow> string \<Rightarrow> string \<Rightarrow> 'o Decision" where
  "decide d e x st rs m =
     \<lparr>d_Requeue = d, d_Err = e, d_Obj = x, d_Status = st, d_Reason = rs, d_Message = m\<rparr>"

definition waiting :: "('o, 'w) Reconciler \<Rightarrow> Duration \<Rightarrow> 'o \<Rightarrow> string \<Rightarrow> string \<Rightarrow> 'o Decision" where
  "waiting r d x rs m = decide d None x ConditionFalse rs m"

definition failing :: "('o, 'w) Reconciler \<Rightarrow> err \<Rightarrow> 'o \<Rightarrow> string \<Rightarrow> 'o Decision" where
  "failing r e x rs = decide 0 (Some e) x ConditionFalse rs (errText r e)"

definition normal_decision :: "('o, 'w) Reconciler \<Rightarrow> 'o \<Rightarrow> 'w \<Rightarrow> 'o Decision \<times> 'w" where
  "normal_decision r x w =
     (case ad_Observe (r_Adapter r) x w of
        (Inl e, x1, w1) \<Rightarrow>
          (if errors_Is e ErrDependencyNotReady
           then waiting r (r_DependencyRequeue r) x1 ReasonWaitingForDependency (errText r e)
           else failing r e x1 ReasonObserveFailed, w1)
      | (Inr obs, x1, w1) \<Rightarrow>
          if \<not> ob_Exists obs then
            (case ad_Create (r_Adapter r) x1 w1 of
               (Some e, x2, w2) \<Rightarrow> (failing r e x2 ReasonCreateFailed, w2)
             | (None, x2, w2) \<Rightarrow>
                 (waiting r (r_PendingRequeue r) x2 ReasonCreating ''create request accepted'', w2))
          else if \<not> ob_UpToDate obs then
            (case ad_Update (r_Adapter r) x1 w1 of
               (Some e, x2, w2) \<Rightarrow>
                 (if errors_Is e ErrPending
                  then waiting r (r_PendingRequeue r) x2 ReasonPending (errText r e)
                  else if errors_Is e ErrDependencyNotReady
                  then waiting r (r_PendingRequeue r) x2 ReasonWaitingForDependency (errText r e)
                  else failing r e x2 ReasonUpdateFailed, w2)
             | (None, x2, w2) \<Rightarrow>
                 (waiting r (r_PendingRequeue r) x2 ReasonUpdating ''update request accepted'', w2))
          else if \<not> ob_Ready obs then
            (waiting r (r_PendingRequeue r) x1 ReasonPending (ob_Message obs), w1)
          else (decide (r_SteadyRequeue r) None x1 ConditionTrue ReasonAvailable (ob_Message obs), w1))"

definition commit ::
  "('o, 'w) Reconciler \<Rightarrow> 'o \<Rightarrow> 'o Decision \<times> 'w \<Rightarrow> (Result \<times> err option) \<times> 'w" where
  "commit r before = (\<lambda>(d, w).
     let (pe, w1) = patchStatus r (setReady r (d_Obj d) (d_Status d) (d_Reason d) (d_Message d)) before w
     in ((\<lparr>RequeueAfter = d_Requeue d\<rparr>,
          case d_Err d of None \<Rightarrow> pe | Some e \<Rightarrow> errors_Join [Some e, pe]), w1))"

lemmas decision_defs = decide_def waiting_def failing_def

lemma reconcileNormal_as_decision:
  "reconcileNormal r x w = commit r x (normal_decision r x w)"
  by (auto simp: reconcileNormal_def normal_decision_def commit_def fail_def decision_defs Let_def Result0_def
      split: sum.split prod.split option.split)

text \<open>The object whose status a pass over an existing resource writes.\<close>

lemma existing_pass_written:
  assumes o: "ad_Observe ad x s = (ro, x1, s1)" and ex: "\<And>obs. ro = Inr obs \<Longrightarrow> ob_Exists obs"
    and u: "ad_Update ad x1 s1 = (eu, x1, su)"
    and pass: "reconcileNormal (defaults (mkReconciler L Obj c ad f opts)) x (k, s) = (out, (k', s'))"
  shows "(s' = s1 \<or> s' = su) \<and> (\<exists>st rs m. k' = snd (cl_StatusPatch c (SetReady L Obj x1 st rs m) x k))"
proof -
  let ?r = "defaults (mkReconciler L Obj c ad f opts)"
  obtain d w where d: "normal_decision ?r x (k, s) = (d, w)" by (metis prod.exhaust)
  have w: "d_Obj d = x1" "fst w = k" "snd w = s1 \<or> snd w = su"
    using d o u ex by (auto simp: normal_decision_def decision_defs split: step_splits)
  have "s' = snd w \<and> k' = snd (cl_StatusPatch c (SetReady L Obj (d_Obj d) (d_Status d) (d_Reason d) (d_Message d)) x (fst w))"
    using pass unfolding reconcileNormal_as_decision d
    by (cases w) (auto simp: commit_def patchStatus_def Let_def split: prod.splits)
  then show ?thesis using w by auto
qed

subsection \<open>The calls of a pass\<close>

text \<open>
  The calls a pass makes on the adapter and on the cluster, each with the error it
  returned; reads of the cluster (\<open>Get\<close>) are not recorded.
\<close>

datatype Call =
    CallObserve "err option" | CallCreate "err option" | CallUpdate "err option" | CallDelete "err option"
  | CallStatusPatch "err option" | CallUpdateObject "err option"

text \<open>\<open>traced r\<close> is \<open>r\<close> on a client and an adapter that also log what they are asked.\<close>

definition tracedAdapter :: "('o, 'w) Adapter \<Rightarrow> ('o, 'w \<times> Call list) Adapter" where
  "tracedAdapter ad =
     \<lparr>ad_Observe = (\<lambda>x (w, t). let (r, x1, w1) = ad_Observe ad x w
        in (r, x1, (w1, t @ [CallObserve (case r of Inl e \<Rightarrow> Some e | Inr _ \<Rightarrow> None)]))),
      ad_Create = (\<lambda>x (w, t). let (e, x1, w1) = ad_Create ad x w in (e, x1, (w1, t @ [CallCreate e]))),
      ad_Update = (\<lambda>x (w, t). let (e, x1, w1) = ad_Update ad x w in (e, x1, (w1, t @ [CallUpdate e]))),
      ad_Delete = (\<lambda>x (w, t). let (e, x1, w1) = ad_Delete ad x w in (e, x1, (w1, t @ [CallDelete e])))\<rparr>"

definition tracedClient :: "('o, 'w) Client \<Rightarrow> ('o, 'w \<times> Call list) Client" where
  "tracedClient c =
     \<lparr>cl_Get = (\<lambda>key (w, t). cl_Get c key w),
      cl_Update = (\<lambda>x (w, t). let (e, w1) = cl_Update c x w in (e, (w1, t @ [CallUpdateObject e]))),
      cl_StatusPatch = (\<lambda>x b (w, t). let (e, w1) = cl_StatusPatch c x b w in (e, (w1, t @ [CallStatusPatch e])))\<rparr>"

definition traced :: "('o, 'w) Reconciler \<Rightarrow> ('o, 'w \<times> Call list) Reconciler" where
  "traced r =
     \<lparr>r_Lib = r_Lib r, r_Object = r_Object r, r_Client = tracedClient (r_Client r),
      r_Adapter = tracedAdapter (r_Adapter r), r_Finalizer = r_Finalizer r, r_PendingRequeue = r_PendingRequeue r,
      r_DependencyRequeue = r_DependencyRequeue r, r_SteadyRequeue = r_SteadyRequeue r\<rparr>"

text \<open>
  A call is quiet when its outcome is not an error of the pass: it succeeded, or it failed
  in a way the loop waits out.
\<close>

fun quiet :: "Call \<Rightarrow> bool" where
  "quiet (CallObserve (Some e)) = errors_Is e ErrDependencyNotReady"
| "quiet (CallUpdate (Some e)) = (errors_Is e ErrPending \<or> errors_Is e ErrDependencyNotReady)"
| "quiet (CallDelete (Some e)) = errors_Is e ErrPending"
| "quiet (CallCreate (Some e)) = False"
| "quiet (CallStatusPatch (Some e)) = False"
| "quiet (CallUpdateObject (Some e)) = False"
| "quiet _ = True"

lemma quiet_simps [simp]:
  "quiet (CallObserve None)" "quiet (CallCreate e) \<longleftrightarrow> e = None" "quiet (CallStatusPatch e) \<longleftrightarrow> e = None"
  "quiet (CallUpdate None)" "quiet (CallUpdateObject e) \<longleftrightarrow> e = None" "quiet (CallDelete None)"
  by (cases e; simp)+

lemma traced_sel [simp]:
  "r_Lib (traced r) = r_Lib r" "r_Object (traced r) = r_Object r" "r_Client (traced r) = tracedClient (r_Client r)"
  "r_Adapter (traced r) = tracedAdapter (r_Adapter r)" "r_PendingRequeue (traced r) = r_PendingRequeue r"
  "r_DependencyRequeue (traced r) = r_DependencyRequeue r" "r_SteadyRequeue (traced r) = r_SteadyRequeue r"
  by (simp_all add: traced_def)

lemma traced_calls [simp]:
  "ad_Observe (tracedAdapter ad) x (w, t) = (let (ro, x1, w1) = ad_Observe ad x w
     in (ro, x1, (w1, t @ [CallObserve (case ro of Inl e \<Rightarrow> Some e | Inr _ \<Rightarrow> None)])))"
  "ad_Create (tracedAdapter ad) x (w, t) = (let (e, x1, w1) = ad_Create ad x w in (e, x1, (w1, t @ [CallCreate e])))"
  "ad_Update (tracedAdapter ad) x (w, t) = (let (e, x1, w1) = ad_Update ad x w in (e, x1, (w1, t @ [CallUpdate e])))"
  "cl_StatusPatch (tracedClient c) x b (w, t) = (let (e, w1) = cl_StatusPatch c x b w in (e, (w1, t @ [CallStatusPatch e])))"
  by (simp_all add: tracedAdapter_def tracedClient_def)

lemma commit_traced:
  "commit (traced r) x (d, (w, t)) =
     (let (res, w1) = commit r x (d, w)
      in (res, (w1, t @ [CallStatusPatch (fst (patchStatus r (setReady r (d_Obj d) (d_Status d) (d_Reason d) (d_Message d)) x w))])))"
  by (simp add: commit_def patchStatus_def Let_def split: prod.split)

lemma commit_error:
  "snd (fst (commit r x (d, w))) = None \<longleftrightarrow> d_Err d = None \<and>
     fst (patchStatus r (setReady r (d_Obj d) (d_Status d) (d_Reason d) (d_Message d)) x w) = None"
  by (cases "d_Err d") (simp_all add: commit_def split: prod.split)

lemma normal_decision_traced:
  "\<exists>oe ce ue writes.
     writes = (case fst (ad_Observe (r_Adapter r) x w) of
         Inl e \<Rightarrow> []
       | Inr obs \<Rightarrow> if \<not> ob_Exists obs then [CallCreate ce] else if \<not> ob_UpToDate obs then [CallUpdate ue] else []) \<and>
     normal_decision (traced r) x (w, t) =
       (fst (normal_decision r x w), (snd (normal_decision r x w), t @ CallObserve oe # writes)) \<and>
     (d_Err (fst (normal_decision r x w)) = None \<longleftrightarrow> list_all quiet (CallObserve oe # writes))"
proof -
  obtain ro x1 w1 where o: "ad_Observe (r_Adapter r) x w = (ro, x1, w1)" by (metis prod_cases3)
  obtain ce xc wc where c: "ad_Create (r_Adapter r) x1 w1 = (ce, xc, wc)" by (metis prod_cases3)
  obtain ue xu wu where u: "ad_Update (r_Adapter r) x1 w1 = (ue, xu, wu)" by (metis prod_cases3)
  show ?thesis
    by (intro exI [of _ "case ro of Inl e \<Rightarrow> Some e | Inr _ \<Rightarrow> None"] exI [of _ ce] exI [of _ ue])
      (cases ro; cases ce; cases ue; simp add: normal_decision_def decision_defs o c u)
qed

subsection \<open>The contract of an adapter\<close>

text \<open>
  What the loop needs from an adapter to be safe. \<open>present i s\<close> says that the cloud
  \<open>s\<close> holds the resource with identity \<open>i\<close>, \<open>rid x\<close> is the identity an object records in
  its status, \<open>inv\<close> is the cloud's invariant. Every adapter theory interprets this locale
  for its own definitions.
\<close>

locale adapter_contract = managed_object Obj
  for Obj :: "'o Object" +
  fixes ad :: "('o, 's) Adapter"
    and inv :: "'s \<Rightarrow> bool"
    and present :: "'i \<Rightarrow> 's \<Rightarrow> bool"
    and rid :: "'o \<Rightarrow> 'i option"
  assumes observe_frame:
      "inv s \<Longrightarrow> ad_Observe ad x s = (r, x', s') \<Longrightarrow>
         inv s' \<and> (\<forall>i. present i s' \<longleftrightarrow> present i s) \<and> GetMeta Obj x' = GetMeta Obj x"
    and observe_exists:
      "inv s \<Longrightarrow> ad_Observe ad x s = (Inr obs, x', s') \<Longrightarrow> ob_Exists obs \<Longrightarrow>
         \<exists>i. rid x' = Some i \<and> present i s'"
    and create_frame:
      "inv s \<Longrightarrow> ad_Create ad x s = (e, x', s') \<Longrightarrow>
         inv s' \<and> (\<forall>i. present i s \<longrightarrow> present i s') \<and> GetMeta Obj x' = GetMeta Obj x"
    and create_present:
      "inv s \<Longrightarrow> ad_Create ad x s = (None, x', s') \<Longrightarrow> \<exists>i. rid x' = Some i \<and> present i s'"
    and update_frame:
      "inv s \<Longrightarrow> ad_Update ad x s = (e, x', s') \<Longrightarrow>
         inv s' \<and> (\<forall>i. present i s \<and> rid x \<noteq> Some i \<longrightarrow> present i s') \<and> GetMeta Obj x' = GetMeta Obj x"
    and delete_gone:
      "inv s \<Longrightarrow> ad_Delete ad x s = (None, x', s') \<Longrightarrow> rid x = Some i \<Longrightarrow> \<not> present i s'"
    and delete_frame:
      "inv s \<Longrightarrow> ad_Delete ad x s = (e, x', s') \<Longrightarrow>
         inv s' \<and> (\<forall>i. rid x \<noteq> Some i \<longrightarrow> (present i s' \<longleftrightarrow> present i s)) \<and> GetMeta Obj x' = GetMeta Obj x"
begin

text \<open>
  No leak: a deletion pass of an object whose policy is not Orphan either leaves its
  resource gone, or writes nothing to the cluster but the status of an object that
  keeps its finalizer.
\<close>

lemma delete_pass_no_leak:
  assumes inv: "inv s" and rid: "rid x = Some i"
    and policy: "GetDeletionPolicy Obj x \<noteq> DeletionPolicyOrphan"
    and fin: "hasFinalizer (mkReconciler L Obj c ad f opts) x"
    and pass: "reconcileDelete (defaults (mkReconciler L Obj c ad f opts)) x (k, s) = (out, (k', s'))"
  shows "\<not> present i s' \<or>
    (\<exists>x'. hasFinalizer (mkReconciler L Obj c ad f opts) x' \<and> k' = snd (cl_StatusPatch c x' x k))"
proof -
  obtain e x1 s1 where d: "ad_Delete ad x s = (e, x1, s1)" by (cases "ad_Delete ad x s") auto
  show ?thesis
  proof (cases e)
    case None
    then have "\<not> present i s1" using delete_gone inv d rid by blast
    moreover have "s' = s1"
      using pass fin policy d None
      by (auto simp: reconcileDelete_def releaseObject_def hasFinalizer_def split: prod.splits)
    ultimately show ?thesis by simp
  next
    case (Some e')
    have "GetMeta Obj x1 = GetMeta Obj x" using delete_frame inv d by blast
    then have "hasFinalizer (mkReconciler L Obj c ad f opts) (SetReady L Obj x1 st rs m)" for st rs m
      using fin by (simp add: hasFinalizer_def SetReady_frame)
    moreover have "\<exists>st rs m. k' = snd (cl_StatusPatch c (SetReady L Obj x1 st rs m) x k)"
      using pass fin policy d Some
      by (auto simp: reconcileDelete_def hasFinalizer_def fail_def patchStatus_def Let_def
          split: prod.splits if_splits) (metis snd_conv)+
    ultimately show ?thesis by blast
  qed
qed

text \<open>A pass never takes away the resource of another object.\<close>

lemma delete_pass_keeps_others:
  assumes "inv s" and "rid x \<noteq> Some i"
    and "reconcileDelete (defaults (mkReconciler L Obj c ad f opts)) x (k, s) = (out, (k', s'))"
  shows "present i s' \<longleftrightarrow> present i s"
proof -
  obtain e x1 s1 where d: "ad_Delete ad x s = (e, x1, s1)" by (cases "ad_Delete ad x s") auto
  then have "present i s1 \<longleftrightarrow> present i s" using delete_frame assms(1,2) by blast
  moreover have "s' = s \<or> s' = s1"
    using assms(3) d
    by (auto simp: reconcileDelete_def releaseObject_def fail_def patchStatus_def Let_def
        split: prod.splits if_splits option.splits)
  ultimately show ?thesis by auto
qed

lemma normal_pass_keeps_others:
  assumes inv: "inv s" and i: "present i s"
    and own: "\<And>r x1 s1. ad_Observe ad x s = (r, x1, s1) \<Longrightarrow> rid x1 \<noteq> Some i"
    and pass: "reconcileNormal (defaults (mkReconciler L Obj c ad f opts)) x (k, s) = (out, (k', s'))"
  shows "present i s' \<and> inv s'"
proof -
  obtain r x1 s1 where o: "ad_Observe ad x s = (r, x1, s1)" by (cases "ad_Observe ad x s") auto
  have s1: "inv s1" "present i s1" "rid x1 \<noteq> Some i"
    using observe_frame [OF inv o] i own [OF o] by auto
  obtain ec xc sc where cr: "ad_Create ad x1 s1 = (ec, xc, sc)" by (cases "ad_Create ad x1 s1") auto
  obtain eu xu su where up: "ad_Update ad x1 s1 = (eu, xu, su)" by (cases "ad_Update ad x1 s1") auto
  have "s' = s1 \<or> s' = sc \<or> s' = su"
    using pass o cr up
    by (auto simp: reconcileNormal_def fail_def patchStatus_def Let_def
        split: prod.splits if_splits option.splits sum.splits)
  moreover have "inv sc" "present i sc" using create_frame [OF s1(1) cr] s1(2) by auto
  moreover have "inv su" "present i su" using update_frame [OF s1(1) up] s1(2,3) by auto
  ultimately show ?thesis using s1 by auto
qed

text \<open>
  After a pass that created the resource, the status that is written records an
  identity the cloud holds.
\<close>

lemma create_pass_records_identity:
  assumes inv: "inv s"
    and obs: "ad_Observe ad x s = (Inr obs, x1, s1)" "\<not> ob_Exists obs"
    and cr: "ad_Create ad x1 s1 = (None, x2, s2)"
    and pass: "reconcileNormal (defaults (mkReconciler L Obj c ad f opts)) x (k, s) = (out, (k', s'))"
  shows "\<exists>i. rid x2 = Some i \<and> present i s' \<and>
    k' = snd (cl_StatusPatch c (SetReady L Obj x2 ConditionFalse ReasonCreating ''create request accepted'') x k)"
proof -
  have "inv s1" using observe_frame [OF inv obs(1)] by simp
  then obtain i where "rid x2 = Some i" "present i s2" using create_present cr by blast
  then show ?thesis
    using pass obs cr by (auto simp: reconcileNormal_def patchStatus_def Let_def split: prod.splits)
qed

end

subsection \<open>A demonstration object\<close>

text \<open>
  The object and adapter of \<open>reconciler_test.go\<close>: fixed answers, a log of the calls as
  the cloud. The witnesses of the general properties run the loop on it.
\<close>

record demo_status =
  demo_Conditions :: "Condition list"
  demo_UUID :: string

type_synonym demo = "(DeletionPolicy, demo_status) CR"

definition demo_Object :: "demo Object" where
  "demo_Object =
     \<lparr>GetMeta = Meta, SetMeta = (\<lambda>m x. x\<lparr>Meta := m\<rparr>),
      GetConditions = (\<lambda>x. demo_Conditions (Status x)),
      SetConditions = (\<lambda>cs x. x\<lparr>Status := (Status x)\<lparr>demo_Conditions := cs\<rparr>\<rparr>),
      GetDeletionPolicy = Spec, GetExternalID = (\<lambda>x. demo_UUID (Status x)),
      obj_TypeName = ''demo''\<rparr>"

interpretation demo_object: managed_object demo_Object
  by unfold_locales (simp_all add: demo_Object_def)

definition demo_adapter ::
  "err + Observation \<Rightarrow> err option \<Rightarrow> err option \<Rightarrow> err option \<Rightarrow> (demo, string list) Adapter" where
  "demo_adapter obs ce ue de =
     \<lparr>ad_Observe = (\<lambda>x w. (obs, x, w)),
      ad_Create = (\<lambda>x w. (ce, x\<lparr>Status := (Status x)\<lparr>demo_UUID := ''created-uuid''\<rparr>\<rparr>, w @ [''Create''])),
      ad_Update = (\<lambda>x w. (ue, x, w @ [''Update''])),
      ad_Delete = (\<lambda>x w. (de, x, w @ [''Delete'']))\<rparr>"

text \<open>A cluster that holds one object.\<close>

definition demo_client :: "('o, 'o) Client" where
  "demo_client =
     \<lparr>cl_Get = (\<lambda>key k. Inr k), cl_Update = (\<lambda>x k. (None, x)), cl_StatusPatch = (\<lambda>x b k. (None, x))\<rparr>"

definition demo_obj :: "DeletionPolicy \<Rightarrow> int option \<Rightarrow> string list \<Rightarrow> demo" where
  "demo_obj p ts fs =
     \<lparr>Meta = \<lparr>om_Name = ''n1'', om_Namespace = ''default'', om_UID = ''uid-1'', om_Generation = 3,
              om_DeletionTimestamp = ts, om_Finalizers = fs\<rparr>,
      Spec = p, Status = \<lparr>demo_Conditions = [], demo_UUID = []\<rparr>\<rparr>"

definition demo_rec :: "(demo, string list) Adapter \<Rightarrow> (demo, demo \<times> string list) Reconciler" where
  "demo_rec ad = mkReconciler ref_Lib demo_Object demo_client ad ''fin'' \<lparr>opt_SteadyRequeue = 0\<rparr>"

definition demo_synced :: Observation where
  "demo_synced = \<lparr>ob_Exists = True, ob_UpToDate = True, ob_Ready = True, ob_Message = ''ok''\<rparr>"

lemmas demo_defs = demo_rec_def demo_adapter_def demo_client_def demo_obj_def demo_Object_def
  ref_Lib_def mkReconciler_def ApplyOptions_def defaults_def Let_def

subsection \<open>Properties of a pass\<close>

text \<open>
  C1. One observation, at most one write, one status write. A pass over a live object calls
  the adapter's Observe first and the status write last. In between it calls Create once
  when Observe succeeded and the resource is missing, Update once when it exists and is out
  of date, and nothing otherwise, after a failed Observe in particular. The pass returns
  no error exactly when each of these calls was quiet: a dependency that is not ready is
  waited out in Observe and in Update, a pending operation in Update, and every error of
  Create or of the status write is returned. Logging the calls changes neither the result
  nor the world of the pass.
\<close>

theorem reconcileNormal_call_trace:
  "\<exists>oe ce ue pe writes.
     writes = (case fst (ad_Observe (r_Adapter r) x w) of
         Inl e \<Rightarrow> []
       | Inr obs \<Rightarrow> if \<not> ob_Exists obs then [CallCreate ce] else if \<not> ob_UpToDate obs then [CallUpdate ue] else []) \<and>
     reconcileNormal (traced r) x (w, t) =
       (fst (reconcileNormal r x w),
        (snd (reconcileNormal r x w), t @ CallObserve oe # writes @ [CallStatusPatch pe])) \<and>
     (snd (fst (reconcileNormal r x w)) = None \<longleftrightarrow>
       list_all quiet (CallObserve oe # writes @ [CallStatusPatch pe]))"
proof -
  obtain d w1 where d: "normal_decision r x w = (d, w1)" by fastforce
  obtain oe ce ue writes where n: "writes = (case fst (ad_Observe (r_Adapter r) x w) of
         Inl e \<Rightarrow> []
       | Inr obs \<Rightarrow> if \<not> ob_Exists obs then [CallCreate ce] else if \<not> ob_UpToDate obs then [CallUpdate ue] else [])"
      "normal_decision (traced r) x (w, t) = (d, (w1, t @ CallObserve oe # writes))"
      "d_Err d = None \<longleftrightarrow> list_all quiet (CallObserve oe # writes)"
    using normal_decision_traced [of r x w t] unfolding d fst_conv snd_conv by (elim exE conjE) (rule that; assumption)
  let ?pe = "fst (patchStatus r (setReady r (d_Obj d) (d_Status d) (d_Reason d) (d_Message d)) x w1)"
  have tr: "reconcileNormal (traced r) x (w, t) = (fst (reconcileNormal r x w),
      (snd (reconcileNormal r x w), t @ CallObserve oe # writes @ [CallStatusPatch ?pe]))"
    by (simp add: reconcileNormal_as_decision n(2) d commit_traced split: prod.split)
  have er: "snd (fst (reconcileNormal r x w)) = None \<longleftrightarrow>
      list_all quiet (CallObserve oe # writes @ [CallStatusPatch ?pe])"
    using n(3) by (simp add: reconcileNormal_as_decision d commit_error)
  show ?thesis by (intro exI conjI, rule n(1), rule tr, rule er)
qed

text \<open>
  C6. Finalizer first. A pass over a live object that does not carry the finalizer yet
  writes the finalizer and does nothing else: the adapter is not called, so no cloud
  resource exists before its cleanup is guaranteed.
\<close>

theorem Reconcile_finalizer_first:
  assumes "cl_Get (r_Client r) key w = Inr x"
    and "om_DeletionTimestamp (GetMeta (r_Object r) x) = None"
    and "\<not> hasFinalizer r x"
  shows "Reconcile r key w =
    ((Result0, fst (cl_Update (r_Client r) (addFinalizer r x) w)), snd (cl_Update (r_Client r) (addFinalizer r x) w))"
  using assms
  by (simp add: Reconcile_def Let_def hasFinalizer_def addFinalizer_def withFinalizers_def split: prod.split)

theorem Reconcile_finalizer_first_witness:
  "Reconcile (demo_rec (demo_adapter (Inr NoObservation) None None None)) (''default'', ''n1'')
      (demo_obj ''Delete'' None [], [])
   = ((Result0, None), (demo_obj ''Delete'' None [''fin''], []))"
  by (subst Reconcile_finalizer_first [where x = "demo_obj ''Delete'' None []"])
    (simp_all add: demo_defs hasFinalizer_def addFinalizer_def withFinalizers_def)

text \<open>
  C25. A live object with the finalizer never drops out of the loop silently: a pass
  either returns an error (the workqueue retries with backoff) or asks for a requeue
  after a positive time.
\<close>

theorem reconcileNormal_requeues_or_fails:
  assumes "0 \<le> r_PendingRequeue r" "0 \<le> r_DependencyRequeue r" "0 \<le> r_SteadyRequeue r"
  shows "snd (fst (reconcileNormal (defaults r) x w)) \<noteq> None \<or>
    RequeueAfter (fst (fst (reconcileNormal (defaults r) x w))) > 0"
proof -
  obtain d w1 where d: "normal_decision (defaults r) x w = (d, w1)" by fastforce
  have "d_Err d \<noteq> None \<or> d_Requeue d > 0"
    using d defaults_positive [OF assms]
    by (auto simp: normal_decision_def decision_defs split: step_splits)
  moreover have "fst (fst (commit (defaults r) x (d, w1))) = \<lparr>RequeueAfter = d_Requeue d\<rparr>"
    by (simp add: commit_def split: prod.split)
  moreover have "d_Err d \<noteq> None \<Longrightarrow> snd (fst (commit (defaults r) x (d, w1))) \<noteq> None"
    using errors_Join_Some_first by (auto simp: commit_def split: prod.split option.split)
  ultimately show ?thesis
    unfolding reconcileNormal_as_decision d by auto
qed

theorem reconcileNormal_requeues_or_fails_witness:
  "RequeueAfter (fst (fst (reconcileNormal
       (defaults (demo_rec (demo_adapter (Inr NoObservation) None None None)))
       (demo_obj ''Delete'' None [''fin'']) (demo_obj ''Delete'' None [''fin''], [])))) > 0"
  using reconcileNormal_requeues_or_fails [of "demo_rec (demo_adapter (Inr NoObservation) None None None)"
      "demo_obj ''Delete'' None [''fin'']" "(demo_obj ''Delete'' None [''fin''], [])"]
  by (simp add: demo_defs reconcileNormal_def patchStatus_def NoObservation_def)

text \<open>
  C14. Ready is honest. A pass over a live object makes exactly one status write, and the
  object it writes is Ready exactly when the adapter observed the resource as existing,
  up to date and ready; in that case the cloud is as the observation left it.
\<close>

theorem reconcileNormal_ready_iff_in_sync:
  assumes obj: "managed_object Obj" and lib: "k8s_lib L"
    and pass: "reconcileNormal (defaults (mkReconciler L Obj c ad f opts)) x (k, s) = (out, (k', s'))"
  shows "\<exists>x'. k' = snd (cl_StatusPatch c x' x k) \<and>
    (IsReady L Obj x' \<longleftrightarrow>
      (\<exists>obs x1. ad_Observe ad x s = (Inr obs, x1, s') \<and> ob_Exists obs \<and> ob_UpToDate obs \<and> ob_Ready obs))"
proof -
  let ?r = "defaults (mkReconciler L Obj c ad f opts)"
  obtain d k1 s1 where d: "normal_decision ?r x (k, s) = (d, (k1, s1))" by (metis prod.exhaust)
  let ?x' = "SetReady L Obj (d_Obj d) (d_Status d) (d_Reason d) (d_Message d)"
  have st: "d_Status d = ConditionTrue \<longleftrightarrow>
      (\<exists>obs x1. ad_Observe ad x s = (Inr obs, x1, s1) \<and> ob_Exists obs \<and> ob_UpToDate obs \<and> ob_Ready obs)"
    and k: "k1 = k"
    using d by (auto simp: normal_decision_def decision_defs Let_def split: step_splits)
  have "k' = snd (cl_StatusPatch c ?x' x k)" "s' = s1"
    using pass k unfolding reconcileNormal_as_decision d
    by (auto simp: commit_def patchStatus_def Let_def split: prod.splits)
  moreover have "IsReady L Obj ?x' \<longleftrightarrow> d_Status d = ConditionTrue"
    using managed_object.IsReady_SetReady [OF obj lib] .
  ultimately show ?thesis using st by blast
qed

theorem reconcileNormal_ready_iff_in_sync_witness:
  "\<exists>x' k'. reconcileNormal (defaults (demo_rec (demo_adapter (Inr demo_synced) None None None)))
      (demo_obj ''Delete'' None [''fin'']) (demo_obj ''Delete'' None [''fin''], [])
      = ((\<lparr>RequeueAfter = 5 * Minute\<rparr>, None), (k', [])) \<and> k' = x' \<and> IsReady ref_Lib demo_Object x'"
proof -
  let ?x = "demo_obj ''Delete'' None [''fin'']"
  let ?x' = "SetReady ref_Lib demo_Object ?x ConditionTrue ReasonAvailable ''ok''"
  have run: "reconcileNormal (defaults (demo_rec (demo_adapter (Inr demo_synced) None None None))) ?x (?x, [])
      = ((\<lparr>RequeueAfter = 5 * Minute\<rparr>, None), (?x', []))"
    by (simp add: demo_rec_def demo_adapter_def demo_client_def mkReconciler_def ApplyOptions_def defaults_def
        Let_def reconcileNormal_def patchStatus_def demo_synced_def)
  have "\<exists>x'. ?x' = snd (cl_StatusPatch demo_client x' ?x ?x) \<and>
      (IsReady ref_Lib demo_Object x' \<longleftrightarrow>
        (\<exists>obs x1. ad_Observe (demo_adapter (Inr demo_synced) None None None) ?x [] = (Inr obs, x1, []) \<and>
          ob_Exists obs \<and> ob_UpToDate obs \<and> ob_Ready obs))"
    by (rule reconcileNormal_ready_iff_in_sync
        [OF demo_object.managed_object_axioms ref_lib.k8s_lib_axioms run [unfolded demo_rec_def]])
  then have "IsReady ref_Lib demo_Object ?x'"
    by (simp add: demo_client_def demo_adapter_def demo_synced_def)
  then show ?thesis using run by blast
qed

text \<open>Which methods of the adapter a pass depends on.\<close>

lemma Reconcile_calls:
  assumes get: "cl_Get (r_Client r) key w = Inr x"
  shows "om_DeletionTimestamp (GetMeta (r_Object r) x) \<noteq> None \<Longrightarrow>
      Reconcile (r\<lparr>r_Adapter := (r_Adapter r)\<lparr>ad_Observe := ob', ad_Create := cr', ad_Update := up'\<rparr>\<rparr>) key w
        = Reconcile r key w"
    and "om_DeletionTimestamp (GetMeta (r_Object r) x) = None \<Longrightarrow>
      Reconcile (r\<lparr>r_Adapter := (r_Adapter r)\<lparr>ad_Delete := de'\<rparr>\<rparr>) key w = Reconcile r key w"
    and "om_DeletionTimestamp (GetMeta (r_Object r) x) = None \<Longrightarrow>
      ad_Observe (r_Adapter r) x w = (Inr obs, x1, w1) \<Longrightarrow> ob_Exists obs \<Longrightarrow>
      Reconcile (r\<lparr>r_Adapter := (r_Adapter r)\<lparr>ad_Create := cr'\<rparr>\<rparr>) key w = Reconcile r key w"
    and "om_DeletionTimestamp (GetMeta (r_Object r) x) = None \<Longrightarrow>
      ad_Observe (r_Adapter r) x w = (Inr obs, x1, w1) \<Longrightarrow> \<not> ob_Exists obs \<or> ob_UpToDate obs \<Longrightarrow>
      Reconcile (r\<lparr>r_Adapter := (r_Adapter r)\<lparr>ad_Update := up'\<rparr>\<rparr>) key w = Reconcile r key w"
    and "om_DeletionTimestamp (GetMeta (r_Object r) x) = None \<Longrightarrow>
      ad_Observe (r_Adapter r) x w = (Inl e, x1, w1) \<Longrightarrow>
      Reconcile (r\<lparr>r_Adapter := (r_Adapter r)\<lparr>ad_Create := cr', ad_Update := up'\<rparr>\<rparr>) key w = Reconcile r key w"
proof -
  have defs: "defaults (r\<lparr>r_Adapter := a\<rparr>) = (defaults r)\<lparr>r_Adapter := a\<rparr>" for a
    by (simp add: defaults_def Let_def)
  note unf = Reconcile_def defs get hasFinalizer_def addFinalizer_def removeFinalizer_def
    withFinalizers_def Let_def
  show "om_DeletionTimestamp (GetMeta (r_Object r) x) \<noteq> None \<Longrightarrow>
      Reconcile (r\<lparr>r_Adapter := (r_Adapter r)\<lparr>ad_Observe := ob', ad_Create := cr', ad_Update := up'\<rparr>\<rparr>) key w
        = Reconcile r key w"
    by (simp add: unf reconcileDelete_def releaseObject_def fail_def patchStatus_def split: prod.split option.split)
  show "om_DeletionTimestamp (GetMeta (r_Object r) x) = None \<Longrightarrow>
      Reconcile (r\<lparr>r_Adapter := (r_Adapter r)\<lparr>ad_Delete := de'\<rparr>\<rparr>) key w = Reconcile r key w"
    by (simp add: unf reconcileNormal_as_decision normal_decision_def decision_defs commit_def patchStatus_def
        cong: sum.case_cong prod.case_cong option.case_cong if_cong)
  show "om_DeletionTimestamp (GetMeta (r_Object r) x) = None \<Longrightarrow>
      ad_Observe (r_Adapter r) x w = (Inr obs, x1, w1) \<Longrightarrow> ob_Exists obs \<Longrightarrow>
      Reconcile (r\<lparr>r_Adapter := (r_Adapter r)\<lparr>ad_Create := cr'\<rparr>\<rparr>) key w = Reconcile r key w"
    by (simp add: unf reconcileNormal_as_decision normal_decision_def decision_defs commit_def patchStatus_def
        cong: sum.case_cong prod.case_cong option.case_cong if_cong)
  show "om_DeletionTimestamp (GetMeta (r_Object r) x) = None \<Longrightarrow>
      ad_Observe (r_Adapter r) x w = (Inr obs, x1, w1) \<Longrightarrow> \<not> ob_Exists obs \<or> ob_UpToDate obs \<Longrightarrow>
      Reconcile (r\<lparr>r_Adapter := (r_Adapter r)\<lparr>ad_Update := up'\<rparr>\<rparr>) key w = Reconcile r key w"
    by (auto simp: unf reconcileNormal_as_decision normal_decision_def decision_defs commit_def patchStatus_def
        split: prod.split option.split)
  show "om_DeletionTimestamp (GetMeta (r_Object r) x) = None \<Longrightarrow>
      ad_Observe (r_Adapter r) x w = (Inl e, x1, w1) \<Longrightarrow>
      Reconcile (r\<lparr>r_Adapter := (r_Adapter r)\<lparr>ad_Create := cr', ad_Update := up'\<rparr>\<rparr>) key w = Reconcile r key w"
    by (simp add: unf reconcileNormal_as_decision normal_decision_def decision_defs commit_def patchStatus_def)
qed

text \<open>
  C26. Call discipline. A deletion pass never observes, creates or updates; a pass over a
  live object never deletes. Create is called only after an observation that succeeded and
  found the resource missing, and Update only after one that succeeded and found it out of
  date: when Observe fails, or says otherwise, replacing the method that must not be called
  does not change the pass.
\<close>

theorem Reconcile_call_discipline:
  assumes get: "cl_Get (r_Client r) key w = Inr x"
  shows "if om_DeletionTimestamp (GetMeta (r_Object r) x) \<noteq> None
    then Reconcile (r\<lparr>r_Adapter := (r_Adapter r)\<lparr>ad_Observe := ob', ad_Create := cr', ad_Update := up'\<rparr>\<rparr>) key w
        = Reconcile r key w
    else Reconcile (r\<lparr>r_Adapter := (r_Adapter r)\<lparr>ad_Delete := de'\<rparr>\<rparr>) key w = Reconcile r key w \<and>
      (case fst (ad_Observe (r_Adapter r) x w) of
         Inl e \<Rightarrow>
           Reconcile (r\<lparr>r_Adapter := (r_Adapter r)\<lparr>ad_Create := cr', ad_Update := up'\<rparr>\<rparr>) key w = Reconcile r key w
       | Inr obs \<Rightarrow>
           (ob_Exists obs \<longrightarrow>
             Reconcile (r\<lparr>r_Adapter := (r_Adapter r)\<lparr>ad_Create := cr'\<rparr>\<rparr>) key w = Reconcile r key w) \<and>
           (\<not> ob_Exists obs \<or> ob_UpToDate obs \<longrightarrow>
             Reconcile (r\<lparr>r_Adapter := (r_Adapter r)\<lparr>ad_Update := up'\<rparr>\<rparr>) key w = Reconcile r key w))"
proof -
  obtain ro x1 w1 where o: "ad_Observe (r_Adapter r) x w = (ro, x1, w1)" by (metis prod_cases3)
  show ?thesis using Reconcile_calls [OF get] o by (cases ro) simp_all
qed

theorem Reconcile_call_discipline_witness:
  "Reconcile ((demo_rec (demo_adapter (Inr demo_synced) None None None))
      \<lparr>r_Adapter := (r_Adapter (demo_rec (demo_adapter (Inr demo_synced) None None None)))
         \<lparr>ad_Create := (\<lambda>x w. (Some ErrPending, x, w))\<rparr>\<rparr>)
      (''default'', ''n1'') (demo_obj ''Delete'' None [''fin''], [])
   = Reconcile (demo_rec (demo_adapter (Inr demo_synced) None None None))
      (''default'', ''n1'') (demo_obj ''Delete'' None [''fin''], []) \<and>
   Reconcile ((demo_rec (demo_adapter (Inl ErrPending) None None None))
      \<lparr>r_Adapter := (r_Adapter (demo_rec (demo_adapter (Inl ErrPending) None None None)))
         \<lparr>ad_Create := (\<lambda>x w. (Some ErrPending, x, w)), ad_Update := (\<lambda>x w. (Some ErrPending, x, w))\<rparr>\<rparr>)
      (''default'', ''n1'') (demo_obj ''Delete'' None [''fin''], [])
   = Reconcile (demo_rec (demo_adapter (Inl ErrPending) None None None))
      (''default'', ''n1'') (demo_obj ''Delete'' None [''fin''], [])"
proof -
  let ?x = "demo_obj ''Delete'' None [''fin'']"
  let ?r = "\<lambda>ro. demo_rec (demo_adapter ro None None None)"
  have "cl_Get (r_Client (?r ro)) (''default'', ''n1'') (?x, []) = Inr ?x"
    "om_DeletionTimestamp (GetMeta (r_Object (?r ro)) ?x) = None"
    "fst (ad_Observe (r_Adapter (?r ro)) ?x (?x, [])) = ro" "ob_Exists demo_synced" for ro
    by (simp_all add: demo_defs demo_synced_def)
  then show ?thesis
    using Reconcile_call_discipline [of "?r (Inr demo_synced)" "(''default'', ''n1'')" "(?x, [])" ?x]
      Reconcile_call_discipline [of "?r (Inl ErrPending)" "(''default'', ''n1'')" "(?x, [])" ?x] by simp
qed

text \<open>
  Orphan leaves the cloud alone: deleting an object whose policy is Orphan removes
  the finalizer and does not call the cloud, whatever the adapter would do.
\<close>

theorem Reconcile_orphan_untouched:
  assumes "cl_Get c key k = Inr x"
    and "om_DeletionTimestamp (GetMeta Obj x) \<noteq> None"
    and "GetDeletionPolicy Obj x = DeletionPolicyOrphan"
    and "hasFinalizer (mkReconciler L Obj c ad f opts) x"
  shows "Reconcile (mkReconciler L Obj c ad f opts) key (k, s) =
    ((Result0, fst (cl_Update c (removeFinalizer (mkReconciler L Obj c ad f opts) x) k)),
     (snd (cl_Update c (removeFinalizer (mkReconciler L Obj c ad f opts) x) k), s))"
  using assms
  by (auto simp: Reconcile_def reconcileDelete_def releaseObject_def hasFinalizer_def
      removeFinalizer_def withFinalizers_def Let_def split: prod.split)

theorem Reconcile_orphan_untouched_witness:
  "Reconcile (demo_rec (demo_adapter (Inr demo_synced) None None None))
      (''default'', ''n1'') (demo_obj ''Orphan'' (Some 7) [''fin''], [])
   = ((Result0, None), (demo_obj ''Orphan'' (Some 7) [], []))"
  unfolding demo_rec_def
  by (subst Reconcile_orphan_untouched [where x = "demo_obj ''Orphan'' (Some 7) [''fin'']"])
    (simp_all add: demo_defs hasFinalizer_def removeFinalizer_def withFinalizers_def DeletionPolicyOrphan_def)

text \<open>
  C33. A missing dependency is quiet in Observe and in Update but loud in Create. The same
  \<open>ErrDependencyNotReady\<close> records \<open>WaitingForDependency\<close>, is not returned and is retried
  after the dependency interval when it comes from Observe, and after the pending interval
  when it comes from Update; when it comes from Create, the pass records \<open>CreateFailed\<close>,
  returns the error and asks for no requeue.
\<close>

theorem dependency_error_in_create_is_loud:
  assumes "errors_Is e ErrDependencyNotReady" and "\<not> errors_Is e ErrPending"
  shows "(ad_Observe (r_Adapter r) x w = (Inl e, x1, w1) \<longrightarrow>
      (let (pe, w') = patchStatus r (setReady r x1 ConditionFalse ReasonWaitingForDependency (errText r e)) x w1
       in reconcileNormal r x w = ((\<lparr>RequeueAfter = r_DependencyRequeue r\<rparr>, pe), w'))) \<and>
    (ad_Observe (r_Adapter r) x w = (Inr obs, x1, w1) \<and> ob_Exists obs \<and> \<not> ob_UpToDate obs \<and>
      ad_Update (r_Adapter r) x1 w1 = (Some e, x2, w2) \<longrightarrow>
      (let (pe, w') = patchStatus r (setReady r x2 ConditionFalse ReasonWaitingForDependency (errText r e)) x w2
       in reconcileNormal r x w = ((\<lparr>RequeueAfter = r_PendingRequeue r\<rparr>, pe), w'))) \<and>
    (ad_Observe (r_Adapter r) x w = (Inr obs, x1, w1) \<and> \<not> ob_Exists obs \<and>
      ad_Create (r_Adapter r) x1 w1 = (Some e, x2, w2) \<longrightarrow>
      (let (pe, w') = patchStatus r (setReady r x2 ConditionFalse ReasonCreateFailed (errText r e)) x w2
       in \<exists>e'. reconcileNormal r x w = ((Result0, Some e'), w') \<and> errors_Is e' ErrDependencyNotReady))"
proof (intro conjI impI)
  assume "ad_Observe (r_Adapter r) x w = (Inl e, x1, w1)"
  then show "let (pe, w') = patchStatus r (setReady r x1 ConditionFalse ReasonWaitingForDependency (errText r e)) x w1
      in reconcileNormal r x w = ((\<lparr>RequeueAfter = r_DependencyRequeue r\<rparr>, pe), w')"
    using assms(1) by (simp add: reconcileNormal_def Let_def split: prod.split)
next
  assume "ad_Observe (r_Adapter r) x w = (Inr obs, x1, w1) \<and> ob_Exists obs \<and> \<not> ob_UpToDate obs \<and>
      ad_Update (r_Adapter r) x1 w1 = (Some e, x2, w2)"
  then show "let (pe, w') = patchStatus r (setReady r x2 ConditionFalse ReasonWaitingForDependency (errText r e)) x w2
      in reconcileNormal r x w = ((\<lparr>RequeueAfter = r_PendingRequeue r\<rparr>, pe), w')"
    using assms by (simp add: reconcileNormal_def Let_def split: prod.split)
next
  assume a: "ad_Observe (r_Adapter r) x w = (Inr obs, x1, w1) \<and> \<not> ob_Exists obs \<and>
      ad_Create (r_Adapter r) x1 w1 = (Some e, x2, w2)"
  obtain pe w' where p: "patchStatus r (setReady r x2 ConditionFalse ReasonCreateFailed (errText r e)) x w2 = (pe, w')"
    by fastforce
  show "let (pe, w') = patchStatus r (setReady r x2 ConditionFalse ReasonCreateFailed (errText r e)) x w2
      in \<exists>e'. reconcileNormal r x w = ((Result0, Some e'), w') \<and> errors_Is e' ErrDependencyNotReady"
    using assms(1) a p by (cases pe) (simp_all add: reconcileNormal_def fail_def Let_def)
qed

theorem dependency_error_in_create_is_loud_witness:
  "(let e = WrapText ErrDependencyNotReady ''Router r1 not found''; x = demo_obj ''Delete'' None [''fin''];
        exists = \<lparr>ob_Exists = True, ob_UpToDate = False, ob_Ready = True, ob_Message = ''''\<rparr>;
        loud = reconcileNormal (demo_rec (demo_adapter (Inr NoObservation) (Some e) None None)) x (x, []);
        waits = reconcileNormal (demo_rec (demo_adapter (Inl e) None None None)) x (x, []);
        defers = reconcileNormal (demo_rec (demo_adapter (Inr exists) None (Some e) None)) x (x, [])
    in fst (fst loud) = Result0 \<and> snd (fst loud) \<noteq> None \<and> snd (fst waits) = None \<and> snd (fst defers) = None)"
proof -
  let ?e = "WrapText ErrDependencyNotReady ''Router r1 not found''"
  let ?x = "demo_obj ''Delete'' None [''fin'']"
  let ?r = "\<lambda>ro. demo_rec (demo_adapter ro (Some ?e) (Some ?e) None)"
  let ?exists = "\<lparr>ob_Exists = True, ob_UpToDate = False, ob_Ready = True, ob_Message = ''''\<rparr>"
  have e: "errors_Is ?e ErrDependencyNotReady" "\<not> errors_Is ?e ErrPending" by simp_all
  note loud = dependency_error_in_create_is_loud [OF e]
  show ?thesis
    using loud [where x = ?x and w = "(?x, [])" and ?x1.0 = ?x and ?w1.0 = "(?x, [])" and
        r = "demo_rec (demo_adapter (Inr NoObservation) (Some ?e) None None)" and obs = NoObservation and
        ?x2.0 = "?x\<lparr>Status := (Status ?x)\<lparr>demo_UUID := ''created-uuid''\<rparr>\<rparr>" and ?w2.0 = "(?x, [''Create''])"]
      loud [where x = ?x and w = "(?x, [])" and ?x1.0 = ?x and ?w1.0 = "(?x, [])" and
        r = "demo_rec (demo_adapter (Inl ?e) None None None)"]
      loud [where x = ?x and w = "(?x, [])" and ?x1.0 = ?x and ?w1.0 = "(?x, [])" and
        r = "demo_rec (demo_adapter (Inr ?exists) None (Some ?e) None)" and obs = ?exists and
        ?x2.0 = ?x and ?w2.0 = "(?x, [''Update''])"]
    by (auto simp: demo_defs NoObservation_def patchStatus_def)
qed

text \<open>
  A watch enqueues exactly the dependants: the items of the changed object's
  namespace whose references name it, each by its own namespaced name.
\<close>

theorem DependentsOf_exact:
  "set (DependentsOf list getMeta refNames obj w) =
     {(om_Namespace (getMeta it), om_Name (getMeta it)) |it items.
        list (om_Namespace obj) w = Inr items \<and> it \<in> set items \<and> om_Name obj \<in> set (refNames it)}"
  by (cases "list (om_Namespace obj) w") (auto simp: DependentsOf_def set_enqueueMatching)

end
