(* ===== verification/CloudTable.thy ===== *)
theory CloudTable
  imports Reconciler
begin

text \<open>
  The contract of one resource collection of the UpCloud API, as the adapters use it:
  a table from identifiers to resources with get and create, to which the locales below
  add delete, modify and list. The
  operations may fail at any time (\<open>Inl\<close>, \<open>Some\<close>); a failed operation changes nothing,
  and a 404 tells the truth. \<open>others\<close> is the rest of the account, which the operations
  of this collection leave alone. Each collection of each in-memory service interprets
  the locale; the adapters' lemmas are proved once from it.
\<close>

locale named_table =
  fixes inv :: "'s \<Rightarrow> bool"
    and tbl :: "'s \<Rightarrow> string \<Rightarrow> 'r option"
    and others :: "'s \<Rightarrow> 'v"
    and uid :: "'r \<Rightarrow> string"
    and get :: "string \<Rightarrow> 's \<Rightarrow> (err + 'r) \<times> 's"
    and create :: "'c \<Rightarrow> 's \<Rightarrow> (err + 'r) \<times> 's"
    and built :: "'c \<Rightarrow> 'r \<Rightarrow> bool"
  assumes keyed_uid: "inv s \<Longrightarrow> tbl s u = Some x \<Longrightarrow> uid x = u"
    and get_frame: "inv s \<Longrightarrow> get u s = (r, s') \<Longrightarrow> inv s' \<and> tbl s' = tbl s \<and> others s' = others s"
    and get_found: "inv s \<Longrightarrow> get u s = (Inr x, s') \<Longrightarrow> tbl s u = Some x"
    and get_404: "inv s \<Longrightarrow> get u s = (Inl e, s') \<Longrightarrow> IsNotFound (Some e) \<Longrightarrow> tbl s u = None"
    and created: "inv s \<Longrightarrow> create c s = (Inr x, s') \<Longrightarrow>
      inv s' \<and> tbl s (uid x) = None \<and> tbl s' = (tbl s)(uid x \<mapsto> x) \<and> others s' = others s \<and> built c x"
    and create_failed: "inv s \<Longrightarrow> create c s = (Inl e, s') \<Longrightarrow>
      inv s' \<and> tbl s' = tbl s \<and> others s' = others s"
begin

lemma get_inv: "inv s \<Longrightarrow> inv (snd (get u s))"
  using get_frame by (metis prod.collapse)

lemma create_frame:
  assumes "inv s" "create c s = (r, s')"
  shows "inv s' \<and> others s' = others s \<and> (\<forall>i. tbl s i \<noteq> None \<longrightarrow> tbl s' i = tbl s i)"
proof (cases r)
  case (Inl e)
  then show ?thesis using create_failed [OF assms(1) assms(2) [unfolded Inl]] by simp
next
  case (Inr x)
  then show ?thesis using created [OF assms(1) assms(2) [unfolded Inr]] by auto
qed

end

text \<open>Where the service issues the identifiers, none of them is empty.\<close>

locale stored_table = named_table inv tbl others uid get create built
  for inv :: "'s \<Rightarrow> bool" and tbl :: "'s \<Rightarrow> string \<Rightarrow> 'r option" and others :: "'s \<Rightarrow> 'v"
    and uid :: "'r \<Rightarrow> string" and get and create :: "'c \<Rightarrow> 's \<Rightarrow> (err + 'r) \<times> 's" and built +
  assumes nonempty: "inv s \<Longrightarrow> tbl s u = Some x \<Longrightarrow> u \<noteq> ''''"
begin

lemma keyed: "inv s \<Longrightarrow> tbl s u = Some x \<Longrightarrow> uid x = u \<and> u \<noteq> ''''"
  using keyed_uid nonempty by blast

lemma create_ok:
  assumes "inv s" and "create c s = (Inr x, s')"
  shows "inv s' \<and> tbl s (uid x) = None \<and> tbl s' = (tbl s)(uid x \<mapsto> x) \<and> others s' = others s \<and>
    uid x \<noteq> '''' \<and> built c x"
  using created [OF assms] nonempty [of s' "uid x" x] by simp

end

text \<open>A collection with a delete call that takes effect at once.\<close>

locale erasable_table = named_table inv tbl others uid get create built
  for inv :: "'s \<Rightarrow> bool" and tbl :: "'s \<Rightarrow> string \<Rightarrow> 'r option" and others :: "'s \<Rightarrow> 'v"
    and uid :: "'r \<Rightarrow> string" and get and create :: "'c \<Rightarrow> 's \<Rightarrow> (err + 'r) \<times> 's" and built +
  fixes del :: "string \<Rightarrow> 's \<Rightarrow> err option \<times> 's"
  assumes del_ok: "inv s \<Longrightarrow> del u s = (None, s') \<Longrightarrow>
      inv s' \<and> tbl s' = (tbl s)(u := None) \<and> others s' = others s"
    and del_failed: "inv s \<Longrightarrow> del u s = (Some e, s') \<Longrightarrow>
      inv s' \<and> tbl s' = tbl s \<and> others s' = others s"
    and del_404: "inv s \<Longrightarrow> del u s = (Some e, s') \<Longrightarrow> IsNotFound (Some e) \<Longrightarrow> tbl s u = None"
begin

lemma del_frame:
  assumes "inv s" "del u s = (e, s')"
  shows "inv s' \<and> others s' = others s \<and> (\<forall>i. i \<noteq> u \<longrightarrow> tbl s' i = tbl s i)"
proof (cases e)
  case None
  then show ?thesis using del_ok [OF assms(1) assms(2) [unfolded None]] by simp
next
  case (Some x)
  then show ?thesis using del_failed [OF assms(1) assms(2) [unfolded Some]] by simp
qed

lemma del_gone:
  assumes "inv s" "del u s = (e, s')" "e = None \<or> IsNotFound e"
  shows "tbl s' u = None"
proof (cases e)
  case None
  then show ?thesis using del_ok [OF assms(1) assms(2) [unfolded None]] by simp
next
  case (Some x)
  then show ?thesis
    using del_failed [OF assms(1) assms(2) [unfolded Some]] del_404 [OF assms(1) assms(2) [unfolded Some]]
      assms(3) by simp
qed

end

locale cloud_table = stored_table inv tbl others uid get create built
    + erasable_table inv tbl others uid get create built del
  for inv :: "'s \<Rightarrow> bool" and tbl :: "'s \<Rightarrow> string \<Rightarrow> 'r option" and others :: "'s \<Rightarrow> 'v"
    and uid :: "'r \<Rightarrow> string" and get and create :: "'c \<Rightarrow> 's \<Rightarrow> (err + 'r) \<times> 's" and built and del

text \<open>A collection whose resources can be modified in place.\<close>

locale patchable_table = named_table inv tbl others uid get create built
  for inv :: "'s \<Rightarrow> bool" and tbl :: "'s \<Rightarrow> string \<Rightarrow> 'r option" and others :: "'s \<Rightarrow> 'v"
    and uid :: "'r \<Rightarrow> string" and get and create :: "'c \<Rightarrow> 's \<Rightarrow> (err + 'r) \<times> 's" and built +
  fixes modify :: "'m \<Rightarrow> 's \<Rightarrow> (err + 'r) \<times> 's"
    and target :: "'m \<Rightarrow> string"
    and patched :: "'m \<Rightarrow> 'r \<Rightarrow> 'r"
  assumes modify_ok: "inv s \<Longrightarrow> modify m s = (Inr x, s') \<Longrightarrow>
      inv s' \<and> others s' = others s \<and>
      (\<exists>y. tbl s (target m) = Some y \<and> x = patched m y \<and> tbl s' = (tbl s)(target m \<mapsto> x))"
    and modify_failed: "inv s \<Longrightarrow> modify m s = (Inl e, s') \<Longrightarrow>
      inv s' \<and> tbl s' = tbl s \<and> others s' = others s"
begin

lemma modify_frame:
  assumes "inv s" "modify m s = (r, s')"
  shows "inv s' \<and> others s' = others s \<and> (\<forall>i. tbl s' i = None \<longleftrightarrow> tbl s i = None)
     \<and> (\<forall>i. i \<noteq> target m \<longrightarrow> tbl s' i = tbl s i)"
proof (cases r)
  case (Inl e)
  then show ?thesis using modify_failed [OF assms(1) assms(2) [unfolded Inl]] by simp
next
  case (Inr x)
  then show ?thesis using modify_ok [OF assms(1) assms(2) [unfolded Inr]] by (auto split: if_splits)
qed

end

locale mutable_table = cloud_table inv tbl others uid get create built del
    + patchable_table inv tbl others uid get create built modify target patched
  for inv :: "'s \<Rightarrow> bool" and tbl :: "'s \<Rightarrow> string \<Rightarrow> 'r option" and others :: "'s \<Rightarrow> 'v"
    and uid :: "'r \<Rightarrow> string" and get and create :: "'c \<Rightarrow> 's \<Rightarrow> (err + 'r) \<times> 's" and built and del
    and modify :: "'m \<Rightarrow> 's \<Rightarrow> (err + 'r) \<times> 's" and target and patched

text \<open>A call whose successful result is seen through a projection.\<close>

definition seen :: "('r \<Rightarrow> 'r) \<Rightarrow> ('a \<Rightarrow> 's \<Rightarrow> (err + 'r) \<times> 's) \<Rightarrow> 'a \<Rightarrow> 's \<Rightarrow> (err + 'r) \<times> 's" where
  "seen core f a s = (case f a s of (Inl e, s1) \<Rightarrow> (Inl e, s1) | (Inr x, s1) \<Rightarrow> (Inr (core x), s1))"

text \<open>A collection that can be listed with label filters.\<close>

locale listed_table = stored_table inv tbl others uid get create built
  for inv :: "'s \<Rightarrow> bool" and tbl :: "'s \<Rightarrow> string \<Rightarrow> 'r option" and others :: "'s \<Rightarrow> 'v"
    and uid :: "'r \<Rightarrow> string" and get and create :: "'c \<Rightarrow> 's \<Rightarrow> (err + 'r) \<times> 's" and built +
  fixes labels :: "'r \<Rightarrow> Label list"
    and list :: "ObjectMeta \<Rightarrow> 's \<Rightarrow> (err + 'r list) \<times> 's"
  assumes list_frame: "inv s \<Longrightarrow> list m s = (r, s') \<Longrightarrow> inv s' \<and> tbl s' = tbl s \<and> others s' = others s"
    and list_sound: "inv s \<Longrightarrow> list m s = (Inr xs, s') \<Longrightarrow> x \<in> set xs \<Longrightarrow> tbl s (uid x) = Some x"
    and list_complete: "inv s \<Longrightarrow> list m s = (Inr xs, s') \<Longrightarrow> tbl s i = Some x \<Longrightarrow>
      HasUID (labels x) (om_UID m) \<Longrightarrow> x \<in> set xs"

locale labelled_table = mutable_table inv tbl others uid get create built del modify target patched
    + listed_table inv tbl others uid get create built labels list
  for inv :: "'s \<Rightarrow> bool" and tbl :: "'s \<Rightarrow> string \<Rightarrow> 'r option" and others :: "'s \<Rightarrow> 'v"
    and uid :: "'r \<Rightarrow> string" and get and create :: "'c \<Rightarrow> 's \<Rightarrow> (err + 'r) \<times> 's" and built and del
    and modify :: "'m \<Rightarrow> 's \<Rightarrow> (err + 'r) \<times> 's" and target and patched and labels and list

end
