(* ===== verification/AdapterCommon.thy ===== *)
theory AdapterCommon
  imports CloudTable
begin

text \<open>
  What the adapters share word for word: \<open>lookup\<close> (the identity in the status, or the
  first listed resource that carries the object's UID label), the outcome switch of
  \<open>Delete\<close>, and the lemmas about both that follow from the contract of a collection.
\<close>

subsection \<open>Code shared by the adapters\<close>

text \<open>The loop over a listing that returns the first resource with the UID label.\<close>

fun firstOwned :: "('r \<Rightarrow> Label list) \<Rightarrow> string \<Rightarrow> 'r list \<Rightarrow> 'r option" where
  "firstOwned labels uid [] = None"
| "firstOwned labels uid (x # xs) =
     (if HasUID (labels x) uid then Some x else firstOwned labels uid xs)"

text \<open>
  \<open>lookup\<close> with the collection's calls as arguments: \<open>sid\<close> is the identity in the status,
  \<open>m\<close> the object's metadata. A 404 means absent; every other error is returned.
\<close>

definition getByID ::
  "(string \<Rightarrow> 's \<Rightarrow> (err + 'r) \<times> 's) \<Rightarrow> string \<Rightarrow> 's \<Rightarrow> (err + 'r option) \<times> 's" where
  "getByID get sid s =
     (case get sid s of
        (Inl e, s1) \<Rightarrow> if IsNotFound (Some e) then (Inr None, s1) else (Inl e, s1)
      | (Inr x, s1) \<Rightarrow> (Inr (Some x), s1))"

definition lookupOwned ::
  "(string \<Rightarrow> 's \<Rightarrow> (err + 'r) \<times> 's) \<Rightarrow> (ObjectMeta \<Rightarrow> 's \<Rightarrow> (err + 'r list) \<times> 's) \<Rightarrow> ('r \<Rightarrow> Label list)
   \<Rightarrow> string \<Rightarrow> ObjectMeta \<Rightarrow> 's \<Rightarrow> (err + 'r option) \<times> 's" where
  "lookupOwned get list labels sid m s =
     (if sid \<noteq> '''' then getByID get sid s
      else case list m s of
        (Inl e, s1) \<Rightarrow> (Inl e, s1)
      | (Inr xs, s1) \<Rightarrow> (Inr (firstOwned labels (om_UID m) xs), s1))"

text \<open>The switch at the end of \<open>Delete\<close>.\<close>

definition deleteOutcome :: "string \<Rightarrow> err option \<Rightarrow> err option" where
  "deleteOutcome what e =
     (case e of
        None \<Rightarrow> None
      | Some err \<Rightarrow>
          if IsNotFound (Some err) then None
          else if IsConflict (Some err) then Some (WrapV ErrPending err)
          else Some (Wrap what err))"

definition deleteByID ::
  "string \<Rightarrow> (string \<Rightarrow> 's \<Rightarrow> err option \<times> 's) \<Rightarrow> string \<Rightarrow> 's \<Rightarrow> err option \<times> 's" where
  "deleteByID what del sid s =
     (if sid = '''' then (None, s)
      else case del sid s of (e, s1) \<Rightarrow> (deleteOutcome what e, s1))"

text \<open>
  The end of \<open>Delete\<close> where a conflict is pending and carries the title of the API's
  problem document; the object storage and load balancer adapters end this way.
\<close>

definition pendingTitle :: "Lib \<Rightarrow> err \<Rightarrow> err" where
  "pendingTitle L e = WrapText ErrPending (TitleOf (LeafText L) e)"

definition titledOutcome :: "Lib \<Rightarrow> string \<Rightarrow> err option \<Rightarrow> err option" where
  "titledOutcome L what e =
     (case e of
        None \<Rightarrow> None
      | Some err \<Rightarrow>
          if IsNotFound (Some err) then None
          else if IsConflict (Some err) then Some (pendingTitle L err)
          else Some (Wrap what err))"

definition rid_of :: "string \<Rightarrow> string option" where
  "rid_of u = (if u = '''' then None else Some u)"

lemma rid_of_simps [simp]:
  "rid_of [] = None" "u \<noteq> [] \<Longrightarrow> rid_of u = Some u" "rid_of u = Some v \<longleftrightarrow> u = v \<and> v \<noteq> []"
  by (auto simp: rid_of_def)

subsection \<open>Lemmas\<close>

lemma firstOwned_Some: "firstOwned labels uid xs = Some x \<Longrightarrow> x \<in> set xs \<and> HasUID (labels x) uid"
  by (induction xs) (auto split: if_splits)

lemma firstOwned_None: "firstOwned labels uid xs = None \<longleftrightarrow> (\<forall>x \<in> set xs. \<not> HasUID (labels x) uid)"
  by (induction xs) auto

lemma titledOutcome_simps [simp]:
  "titledOutcome L what e = None \<longleftrightarrow> e = None \<or> IsNotFound e"
  "IsConflict e \<Longrightarrow> \<exists>p. titledOutcome L what e = Some p \<and> errors_Is p ErrPending"
  using NotFound_not_Conflict [of e] by (cases e; auto simp: titledOutcome_def pendingTitle_def)+

lemma deleteOutcome_None: "deleteOutcome what e = None \<longleftrightarrow> e = None \<or> IsNotFound e"
  by (cases e) (auto simp: deleteOutcome_def)

lemma deleteOutcome_pending:
  "IsConflict e \<Longrightarrow> \<exists>p. deleteOutcome what e = Some p \<and> errors_Is p ErrPending"
  using NotFound_not_Conflict [of e] by (cases e) (auto simp: deleteOutcome_def)

lemma deleteByID_no_identity [simp]: "deleteByID what del [] s = (None, s)"
  by (simp add: deleteByID_def)

text \<open>A lookup through the projecting calls is the projection of the lookup.\<close>

lemma firstOwned_map:
  "(\<And>x. labels (core x) = labels x) \<Longrightarrow> firstOwned labels u (map core xs) = map_option core (firstOwned labels u xs)"
  by (induction xs) auto

lemma lookupOwned_seen:
  assumes "\<And>x. labels (core x) = labels x" and "lookupOwned get (\<lambda>m. ls (q m)) labels sid m s = (r, s')"
  shows "lookupOwned (seen core get) (\<lambda>m. seen (map core) ls (q m)) labels sid m s
    = (map_sum id (map_option core) r, s')"
  using assms(2) firstOwned_map [of labels core, OF assms(1)]
  by (auto simp: lookupOwned_def getByID_def seen_def split: prod.splits sum.splits if_splits)

text \<open>
  How an adapter over one collection establishes the contract of the reconcile loop:
  \<open>tbl\<close> tells which resources exist, \<open>rid\<close> reads the identity in the status.
\<close>

lemma resource_adapter_contract:
  fixes ok :: "'s \<Rightarrow> bool" and tbl :: "'s \<Rightarrow> 'i \<Rightarrow> 'r option"
  assumes "managed_object Obj"
    and observe: "\<And>s x r x' s'. ok s \<Longrightarrow> ad_Observe ad x s = (r, x', s') \<Longrightarrow>
      ok s' \<and> tbl s' = tbl s \<and> GetMeta Obj x' = GetMeta Obj x"
    and found: "\<And>s x obs x' s'. ok s \<Longrightarrow> ad_Observe ad x s = (Inr obs, x', s') \<Longrightarrow> ob_Exists obs \<Longrightarrow>
      \<exists>i. rid x' = Some i \<and> tbl s i \<noteq> None"
    and create: "\<And>s x e x' s'. ok s \<Longrightarrow> ad_Create ad x s = (e, x', s') \<Longrightarrow>
      ok s' \<and> GetMeta Obj x' = GetMeta Obj x \<and> (\<forall>i. tbl s i \<noteq> None \<longrightarrow> tbl s' i \<noteq> None) \<and>
      (e = None \<longrightarrow> (\<exists>i. rid x' = Some i \<and> tbl s' i \<noteq> None))"
    and update: "\<And>s x e x' s'. ok s \<Longrightarrow> ad_Update ad x s = (e, x', s') \<Longrightarrow>
      ok s' \<and> GetMeta Obj x' = GetMeta Obj x \<and> (\<forall>i. rid x \<noteq> Some i \<longrightarrow> tbl s i \<noteq> None \<longrightarrow> tbl s' i \<noteq> None)"
    and delete: "\<And>s x e x' s'. ok s \<Longrightarrow> ad_Delete ad x s = (e, x', s') \<Longrightarrow>
      ok s' \<and> GetMeta Obj x' = GetMeta Obj x \<and> (\<forall>i. rid x \<noteq> Some i \<longrightarrow> tbl s' i = tbl s i) \<and>
      (\<forall>i. e = None \<longrightarrow> rid x = Some i \<longrightarrow> tbl s' i = None)"
  shows "adapter_contract Obj ad ok (\<lambda>i s. tbl s i \<noteq> None) rid"
proof (rule adapter_contract.intro [OF assms(1)], unfold_locales)
  fix s x r x' s' e obs i
  assume I: "ok s"
  {
    assume "ad_Observe ad x s = (r, x', s')"
    then show "ok s' \<and> (\<forall>i. (tbl s' i \<noteq> None) = (tbl s i \<noteq> None)) \<and> GetMeta Obj x' = GetMeta Obj x"
      using observe [OF I] by auto
  next
    assume o: "ad_Observe ad x s = (Inr obs, x', s')" "ob_Exists obs"
    then show "\<exists>i. rid x' = Some i \<and> tbl s' i \<noteq> None"
      using observe [OF I o(1)] found [OF I o] by auto
  next
    assume "ad_Create ad x s = (e, x', s')"
    then show "ok s' \<and> (\<forall>i. tbl s i \<noteq> None \<longrightarrow> tbl s' i \<noteq> None) \<and> GetMeta Obj x' = GetMeta Obj x"
      using create [OF I] by blast
  next
    assume "ad_Create ad x s = (None, x', s')"
    then show "\<exists>i. rid x' = Some i \<and> tbl s' i \<noteq> None" using create [OF I] by blast
  next
    assume "ad_Update ad x s = (e, x', s')"
    then show "ok s' \<and> (\<forall>i. tbl s i \<noteq> None \<and> rid x \<noteq> Some i \<longrightarrow> tbl s' i \<noteq> None) \<and>
        GetMeta Obj x' = GetMeta Obj x"
      using update [OF I] by blast
  next
    assume "ad_Delete ad x s = (None, x', s')" "rid x = Some i"
    then show "\<not> tbl s' i \<noteq> None" using delete [OF I, of x None x' s'] by auto
  next
    assume "ad_Delete ad x s = (e, x', s')"
    then show "ok s' \<and> (\<forall>i. rid x \<noteq> Some i \<longrightarrow> (tbl s' i \<noteq> None) = (tbl s i \<noteq> None)) \<and>
        GetMeta Obj x' = GetMeta Obj x"
      using delete [OF I] by metis
  }
qed

text \<open>The same with the identity as a string that is empty while nothing is recorded.\<close>

lemma table_adapter_contract:
  fixes ok :: "'s \<Rightarrow> bool" and tbl :: "'s \<Rightarrow> string \<Rightarrow> 'r option"
  assumes "managed_object Obj"
    and "\<And>s x r x' s'. ok s \<Longrightarrow> ad_Observe ad x s = (r, x', s') \<Longrightarrow>
      ok s' \<and> tbl s' = tbl s \<and> GetMeta Obj x' = GetMeta Obj x"
    and found: "\<And>s x obs x' s'. ok s \<Longrightarrow> ad_Observe ad x s = (Inr obs, x', s') \<Longrightarrow> ob_Exists obs \<Longrightarrow>
      sid x' \<noteq> [] \<and> tbl s (sid x') \<noteq> None"
    and create: "\<And>s x e x' s'. ok s \<Longrightarrow> ad_Create ad x s = (e, x', s') \<Longrightarrow>
      ok s' \<and> GetMeta Obj x' = GetMeta Obj x \<and> (\<forall>i. tbl s i \<noteq> None \<longrightarrow> tbl s' i \<noteq> None) \<and>
      (e = None \<longrightarrow> sid x' \<noteq> [] \<and> tbl s' (sid x') \<noteq> None)"
    and update: "\<And>s x e x' s'. ok s \<Longrightarrow> ad_Update ad x s = (e, x', s') \<Longrightarrow>
      ok s' \<and> GetMeta Obj x' = GetMeta Obj x \<and>
      (\<forall>i. rid_of (sid x) \<noteq> Some i \<longrightarrow> tbl s i \<noteq> None \<longrightarrow> tbl s' i \<noteq> None)"
    and delete: "\<And>s x e x' s'. ok s \<Longrightarrow> ad_Delete ad x s = (e, x', s') \<Longrightarrow>
      ok s' \<and> GetMeta Obj x' = GetMeta Obj x \<and> (\<forall>i. rid_of (sid x) \<noteq> Some i \<longrightarrow> tbl s' i = tbl s i) \<and>
      (e = None \<longrightarrow> sid x \<noteq> [] \<longrightarrow> tbl s' (sid x) = None)"
  shows "adapter_contract Obj ad ok (\<lambda>i s. tbl s i \<noteq> None) (\<lambda>x. rid_of (sid x))"
proof (rule resource_adapter_contract [OF assms(1,2)])
  fix s x obs x' s'
  assume "ok s" "ad_Observe ad x s = (Inr obs, x', s')" "ob_Exists obs"
  then show "\<exists>i. rid_of (sid x') = Some i \<and> tbl s i \<noteq> None" using found by fastforce
next
  fix s x e x' s'
  assume "ok s" "ad_Create ad x s = (e, x', s')"
  note create [OF this]
  then show "ok s' \<and> GetMeta Obj x' = GetMeta Obj x \<and> (\<forall>i. tbl s i \<noteq> None \<longrightarrow> tbl s' i \<noteq> None) \<and>
      (e = None \<longrightarrow> (\<exists>i. rid_of (sid x') = Some i \<and> tbl s' i \<noteq> None))" by auto
next
  fix s x e x' s'
  assume "ok s" "ad_Delete ad x s = (e, x', s')"
  note delete [OF this]
  then show "ok s' \<and> GetMeta Obj x' = GetMeta Obj x \<and> (\<forall>i. rid_of (sid x) \<noteq> Some i \<longrightarrow> tbl s' i = tbl s i) \<and>
      (\<forall>i. e = None \<longrightarrow> rid_of (sid x) = Some i \<longrightarrow> tbl s' i = None)" by auto
next
  fix s x e x' s'
  assume "ok s" "ad_Update ad x s = (e, x', s')"
  then show "ok s' \<and> GetMeta Obj x' = GetMeta Obj x \<and>
      (\<forall>i. rid_of (sid x) \<noteq> Some i \<longrightarrow> tbl s i \<noteq> None \<longrightarrow> tbl s' i \<noteq> None)" by (rule update)
qed

context stored_table
begin

lemma getByID_frame:
  "inv s \<Longrightarrow> getByID get sid s = (r, s') \<Longrightarrow> inv s' \<and> tbl s' = tbl s \<and> others s' = others s"
  using get_frame [of s sid] by (auto simp: getByID_def split: prod.splits sum.splits if_splits)

lemma getByID_found:
  assumes "inv s" and "getByID get sid s = (Inr (Some x), s')"
  shows "tbl s sid = Some x \<and> uid x = sid \<and> sid \<noteq> []"
proof -
  have "tbl s sid = Some x"
    using get_found [OF assms(1)] assms(2)
    by (auto simp: getByID_def split: prod.splits sum.splits if_splits)
  then show ?thesis using keyed [OF assms(1)] by blast
qed

lemma getByID_absent:
  "inv s \<Longrightarrow> getByID get sid s = (Inr None, s') \<Longrightarrow> tbl s sid = None"
  using get_404 [of s sid] by (auto simp: getByID_def split: prod.splits sum.splits if_splits)

end

context erasable_table
begin

lemma deleteByID_frame:
  "inv s \<Longrightarrow> deleteByID what del sid s = (e, s') \<Longrightarrow>
     inv s' \<and> others s' = others s \<and> (\<forall>i. rid_of sid \<noteq> Some i \<longrightarrow> tbl s' i = tbl s i)"
  using del_frame [of s sid] by (auto simp: deleteByID_def split: prod.splits if_splits)

lemma deleteByID_gone:
  "inv s \<Longrightarrow> deleteByID what del sid s = (None, s') \<Longrightarrow> sid \<noteq> [] \<Longrightarrow> tbl s' sid = None"
  using del_gone [of s sid] by (auto simp: deleteByID_def deleteOutcome_None split: prod.splits)

end

context listed_table
begin

abbreviation lookup_by where
  "lookup_by \<equiv> lookupOwned get list labels"

lemma lookup_frame:
  assumes "inv s" and "lookup_by sid m s = (r, s')"
  shows "inv s' \<and> tbl s' = tbl s \<and> others s' = others s"
  using getByID_frame [OF assms(1), of sid] list_frame [OF assms(1), of m] assms(2)
  by (auto simp: lookupOwned_def split: prod.splits sum.splits if_splits)

lemma lookup_found:
  assumes "inv s" and "lookup_by sid m s = (Inr (Some x), s')"
  shows "tbl s (uid x) = Some x" and "uid x \<noteq> []"
    and "sid \<noteq> [] \<Longrightarrow> uid x = sid" and "sid = [] \<Longrightarrow> HasUID (labels x) (om_UID m)"
proof -
  show t: "tbl s (uid x) = Some x"
  proof (cases "sid = []")
    case True
    then obtain xs where "list m s = (Inr xs, s')" "firstOwned labels (om_UID m) xs = Some x"
      using assms(2) by (auto simp: lookupOwned_def split: prod.splits sum.splits)
    then show ?thesis using list_sound [OF assms(1)] firstOwned_Some by metis
  next
    case False
    then show ?thesis using assms getByID_found by (simp add: lookupOwned_def)
  qed
  then show "uid x \<noteq> []" using keyed [OF assms(1)] by blast
  show "sid \<noteq> [] \<Longrightarrow> uid x = sid" using assms getByID_found by (simp add: lookupOwned_def)
  show "sid = [] \<Longrightarrow> HasUID (labels x) (om_UID m)"
    using assms(2) firstOwned_Some by (fastforce simp: lookupOwned_def split: prod.splits sum.splits)
qed

text \<open>
  Absence is reliable: a lookup that finds nothing means the recorded resource is gone,
  or, with no recorded identity, that no resource carries the object's UID.
\<close>

lemma lookup_absent:
  assumes "inv s" and "lookup_by sid m s = (Inr None, s')"
  shows "sid \<noteq> [] \<Longrightarrow> tbl s sid = None"
    and "sid = [] \<Longrightarrow> tbl s i = Some x \<Longrightarrow> \<not> HasUID (labels x) (om_UID m)"
  using assms getByID_absent list_complete [OF assms(1)]
  by (auto simp: lookupOwned_def firstOwned_None split: prod.splits sum.splits)

lemma lookup_present:
  assumes "inv s" and "lookup_by sid m s = (Inr r, s')" and "tbl s sid = Some x"
  shows "r = Some x"
proof -
  have "sid \<noteq> []" using keyed [OF assms(1,3)] by simp
  then show ?thesis
    using lookup_absent(1) [OF assms(1)] lookup_found(1,3) [OF assms(1)] assms(2,3) by (cases r) fastforce+
qed

end

text \<open>Metadata for the witnesses.\<close>

definition demo_meta :: "string \<Rightarrow> ObjectMeta" where
  "demo_meta fin = \<lparr>om_Name = ''net'', om_Namespace = ''default'', om_UID = ''u1'', om_Generation = 1,
     om_DeletionTimestamp = None, om_Finalizers = [fin]\<rparr>"

end
