(* ===== verification/NetworkTypes.thy ===== *)
theory NetworkTypes
  imports Reconciler
begin

text \<open>
  The kinds of \<open>api/network/v1alpha1\<close>: spec and status of Network, Router, FloatingIP,
  NetworkPeering, Gateway, GatewayConnection and GatewayTunnel, their \<open>ExternalName\<close>
  and their \<open>reconciler.Object\<close> methods. A pointer field is an \<open>option\<close>; a slice of
  the spec or status is a list. Every kind's methods satisfy \<open>managed_object\<close>.
\<close>

definition crObject ::
  "('st \<Rightarrow> Condition list) \<Rightarrow> (Condition list \<Rightarrow> 'st \<Rightarrow> 'st) \<Rightarrow> ('sp \<Rightarrow> DeletionPolicy)
   \<Rightarrow> ('st \<Rightarrow> string) \<Rightarrow> string \<Rightarrow> ('sp, 'st) CR Object" where
  "crObject getc setc pol eid ty =
     \<lparr>GetMeta = Meta, SetMeta = (\<lambda>m x. x\<lparr>Meta := m\<rparr>),
      GetConditions = (\<lambda>x. getc (Status x)),
      SetConditions = (\<lambda>cs x. x\<lparr>Status := setc cs (Status x)\<rparr>),
      GetDeletionPolicy = (\<lambda>x. pol (Spec x)),
      GetExternalID = (\<lambda>x. eid (Status x)),
      obj_TypeName = ty\<rparr>"

lemma crObject_managed:
  assumes "\<And>cs st. getc (setc cs st) = cs" and "\<And>cs st. eid (setc cs st) = eid st"
  shows "managed_object (crObject getc setc pol eid ty)"
  by unfold_locales (simp_all add: crObject_def assms)

lemma crObject_sel [simp]:
  "GetMeta (crObject getc setc pol eid ty) = Meta"
  "SetMeta (crObject getc setc pol eid ty) = (\<lambda>m x. x\<lparr>Meta := m\<rparr>)"
  "GetConditions (crObject getc setc pol eid ty) x = getc (Status x)"
  "SetConditions (crObject getc setc pol eid ty) cs x = x\<lparr>Status := setc cs (Status x)\<rparr>"
  "GetDeletionPolicy (crObject getc setc pol eid ty) x = pol (Spec x)"
  "GetExternalID (crObject getc setc pol eid ty) x = eid (Status x)"
  "obj_TypeName (crObject getc setc pol eid ty) = ty"
  by (simp_all add: crObject_def)

text \<open>\<open>ExternalName\<close> of the kinds with a \<open>spec.name\<close>: the name, or \<open>metadata.name\<close>.\<close>

definition nameOrMeta :: "string \<Rightarrow> ObjectMeta \<Rightarrow> string" where
  "nameOrMeta n m = (if n \<noteq> '''' then n else om_Name m)"

subsection \<open>Network\<close>

record IPNetwork =
  ipn_Address :: string
  ipn_Family :: string
  ipn_DHCP :: "bool option"
  ipn_DHCPDefaultRoute :: "bool option"
  ipn_DHCPDns :: "string list"
  ipn_DHCPRoutes :: "string list"
  ipn_Gateway :: string

record NetworkSpec =
  nsp_Name :: string
  nsp_Zone :: string
  nsp_IPNetworks :: "IPNetwork list"
  nsp_RouterRef :: "LocalObjectReference option"
  nsp_RouterUUID :: string
  nsp_Labels :: UpCloudLabels
  nsp_DeletionPolicy :: DeletionPolicy

record NetworkStatus =
  nst_Conditions :: "Condition list"
  nst_UUID :: string
  nst_RouterUUID :: string

type_synonym Network = "(NetworkSpec, NetworkStatus) CR"

definition Network_ExternalName :: "Network \<Rightarrow> string" where
  "Network_ExternalName n = nameOrMeta (nsp_Name (Spec n)) (Meta n)"

definition Network_Object :: "Network Object" where
  "Network_Object = crObject nst_Conditions (\<lambda>cs st. st\<lparr>nst_Conditions := cs\<rparr>)
     nsp_DeletionPolicy nst_UUID ''*v1alpha1.Network''"

interpretation network_object: managed_object Network_Object
  unfolding Network_Object_def by (rule crObject_managed) simp_all

subsection \<open>Router\<close>

record StaticRoute =
  sr_Name :: string
  sr_Route :: string
  sr_Nexthop :: string

record RouterSpec =
  rsp_Name :: string
  rsp_StaticRoutes :: "StaticRoute list"
  rsp_Labels :: UpCloudLabels
  rsp_DeletionPolicy :: DeletionPolicy

record RouterStatus =
  rst_Conditions :: "Condition list"
  rst_UUID :: string
  rst_AttachedNetworks :: "string list"

type_synonym Router = "(RouterSpec, RouterStatus) CR"

definition Router_ExternalName :: "Router \<Rightarrow> string" where
  "Router_ExternalName r = nameOrMeta (rsp_Name (Spec r)) (Meta r)"

definition Router_Object :: "Router Object" where
  "Router_Object = crObject rst_Conditions (\<lambda>cs st. st\<lparr>rst_Conditions := cs\<rparr>)
     rsp_DeletionPolicy rst_UUID ''*v1alpha1.Router''"

interpretation router_object: managed_object Router_Object
  unfolding Router_Object_def by (rule crObject_managed) simp_all

subsection \<open>FloatingIP\<close>

record FloatingIPSpec =
  fsp_Zone :: string
  fsp_Family :: string
  fsp_Access :: string
  fsp_PTRRecord :: string
  fsp_ReleasePolicy :: string
  fsp_DeletionPolicy :: DeletionPolicy

record FloatingIPStatus =
  fst_Conditions :: "Condition list"
  fst_Address :: string
  fst_MAC :: string
  fst_PartOfPlan :: bool

type_synonym FloatingIP = "(FloatingIPSpec, FloatingIPStatus) CR"

definition FloatingIP_Object :: "FloatingIP Object" where
  "FloatingIP_Object = crObject fst_Conditions (\<lambda>cs st. st\<lparr>fst_Conditions := cs\<rparr>)
     fsp_DeletionPolicy fst_Address ''*v1alpha1.FloatingIP''"

interpretation floatingip_object: managed_object FloatingIP_Object
  unfolding FloatingIP_Object_def by (rule crObject_managed) simp_all

subsection \<open>NetworkPeering\<close>

record NetworkPeeringSpec =
  psp_Name :: string
  psp_NetworkRef :: LocalObjectReference
  psp_PeerNetworkUUID :: string
  psp_ConfiguredStatus :: string
  psp_Labels :: UpCloudLabels
  psp_DeletionPolicy :: DeletionPolicy

record NetworkPeeringStatus =
  pst_Conditions :: "Condition list"
  pst_UUID :: string
  pst_State :: string

type_synonym NetworkPeering = "(NetworkPeeringSpec, NetworkPeeringStatus) CR"

definition NetworkPeering_ExternalName :: "NetworkPeering \<Rightarrow> string" where
  "NetworkPeering_ExternalName p = nameOrMeta (psp_Name (Spec p)) (Meta p)"

definition NetworkPeering_Object :: "NetworkPeering Object" where
  "NetworkPeering_Object = crObject pst_Conditions (\<lambda>cs st. st\<lparr>pst_Conditions := cs\<rparr>)
     psp_DeletionPolicy pst_UUID ''*v1alpha1.NetworkPeering''"

interpretation networkpeering_object: managed_object NetworkPeering_Object
  unfolding NetworkPeering_Object_def by (rule crObject_managed) simp_all

subsection \<open>Gateway\<close>

record GatewayAddress =
  ga_Name :: string

record GatewaySpec =
  gsp_Name :: string
  gsp_Zone :: string
  gsp_Plan :: string
  gsp_Features :: "string list"
  gsp_RouterRef :: "LocalObjectReference option"
  gsp_RouterUUID :: string
  gsp_ConfiguredStatus :: string
  gsp_Addresses :: "GatewayAddress list"
  gsp_Labels :: UpCloudLabels
  gsp_DeletionPolicy :: DeletionPolicy

record GatewayStatus =
  gst_Conditions :: "Condition list"
  gst_UUID :: string
  gst_OperationalState :: string
  gst_Addresses :: "GatewayAddress list"
  gst_RouterUUID :: string

type_synonym Gateway = "(GatewaySpec, GatewayStatus) CR"

definition Gateway_ExternalName :: "Gateway \<Rightarrow> string" where
  "Gateway_ExternalName g = nameOrMeta (gsp_Name (Spec g)) (Meta g)"

definition Gateway_Object :: "Gateway Object" where
  "Gateway_Object = crObject gst_Conditions (\<lambda>cs st. st\<lparr>gst_Conditions := cs\<rparr>)
     gsp_DeletionPolicy gst_UUID ''*v1alpha1.Gateway''"

interpretation gateway_object: managed_object Gateway_Object
  unfolding Gateway_Object_def by (rule crObject_managed) simp_all

subsection \<open>GatewayConnection\<close>

record GatewayRoute =
  gr_Name :: string
  gr_StaticNetwork :: string
  gr_Type :: string

record GatewayConnectionSpec =
  gcsp_GatewayRef :: LocalObjectReference
  gcsp_Name :: string
  gcsp_Type :: string
  gcsp_LocalRoutes :: "GatewayRoute list"
  gcsp_RemoteRoutes :: "GatewayRoute list"
  gcsp_DeletionPolicy :: DeletionPolicy

record GatewayConnectionStatus =
  gcst_Conditions :: "Condition list"
  gcst_GatewayUUID :: string
  gcst_UUID :: string
  gcst_Name :: string

type_synonym GatewayConnection = "(GatewayConnectionSpec, GatewayConnectionStatus) CR"

definition GatewayConnection_ExternalName :: "GatewayConnection \<Rightarrow> string" where
  "GatewayConnection_ExternalName c = nameOrMeta (gcsp_Name (Spec c)) (Meta c)"

definition GatewayConnection_Object :: "GatewayConnection Object" where
  "GatewayConnection_Object = crObject gcst_Conditions (\<lambda>cs st. st\<lparr>gcst_Conditions := cs\<rparr>)
     gcsp_DeletionPolicy gcst_UUID ''*v1alpha1.GatewayConnection''"

interpretation gatewayconnection_object: managed_object GatewayConnection_Object
  unfolding GatewayConnection_Object_def by (rule crObject_managed) simp_all

subsection \<open>GatewayTunnel\<close>

record GatewayTunnelIPSecAuth =
  ipa_Type :: string
  ipa_PskSecretRef :: SecretKeySelector

record GatewayTunnelIPSec =
  ips_Authentication :: GatewayTunnelIPSecAuth
  ips_RekeyTime :: int
  ips_ChildRekeyTime :: int
  ips_DpdDelay :: int
  ips_DpdTimeout :: int
  ips_IkeLifetime :: int
  ips_Phase1Algorithms :: "string list"
  ips_Phase1IntegrityAlgorithms :: "string list"
  ips_Phase1DhGroupNumbers :: "int list"
  ips_Phase2Algorithms :: "string list"
  ips_Phase2IntegrityAlgorithms :: "string list"
  ips_Phase2DhGroupNumbers :: "int list"

record GatewayTunnelSpec =
  gtsp_ConnectionRef :: LocalObjectReference
  gtsp_Name :: string
  gtsp_LocalAddressName :: string
  gtsp_RemoteAddress :: string
  gtsp_IPSec :: "GatewayTunnelIPSec option"
  gtsp_RotationToken :: string
  gtsp_DeletionPolicy :: DeletionPolicy

record GatewayTunnelStatus =
  gtst_Conditions :: "Condition list"
  gtst_GatewayUUID :: string
  gtst_ConnectionUUID :: string
  gtst_UUID :: string
  gtst_RotationToken :: string
  gtst_OperationalState :: string

type_synonym GatewayTunnel = "(GatewayTunnelSpec, GatewayTunnelStatus) CR"

definition GatewayTunnel_ExternalName :: "GatewayTunnel \<Rightarrow> string" where
  "GatewayTunnel_ExternalName t = nameOrMeta (gtsp_Name (Spec t)) (Meta t)"

definition GatewayTunnel_Object :: "GatewayTunnel Object" where
  "GatewayTunnel_Object = crObject gtst_Conditions (\<lambda>cs st. st\<lparr>gtst_Conditions := cs\<rparr>)
     gtsp_DeletionPolicy gtst_UUID ''*v1alpha1.GatewayTunnel''"

interpretation gatewaytunnel_object: managed_object GatewayTunnel_Object
  unfolding GatewayTunnel_Object_def by (rule crObject_managed) simp_all

end
