(* ===== verification/NetworkAPI.thy ===== *)
theory NetworkAPI
  imports CloudTable NetworkTypes
begin

text \<open>
  \<open>internal/upcloudapi/network.go\<close>: the interface \<open>NetworkAPI\<close> as a record of its
  methods over an account state \<open>'s\<close>, and the contract \<open>network_service\<close> the adapters
  rely on. The SDK's request and response structs are not part of the repository; the
  records below have the fields the operator reads or writes. \<open>upcloud.Boolean\<close> is only
  ever written with \<open>FromBool\<close> and read with \<open>Bool()\<close> or compared with \<open>upcloud.True\<close>,
  and is a \<open>bool\<close> here. A request with an identifier only is that identifier.
\<close>

subsection \<open>SDK types\<close>

record upIPNetwork =
  uipn_Address :: string
  uipn_Family :: string
  uipn_DHCP :: bool
  uipn_DHCPDefaultRoute :: bool
  uipn_DHCPDns :: "string list"
  uipn_DHCPRoutes :: "string list"
  uipn_Gateway :: string

record upNetwork =
  un_UUID :: string
  un_Name :: string
  un_Zone :: string
  un_Type :: string
  un_Router :: string
  un_IPNetworks :: "upIPNetwork list"
  un_Labels :: "Label list"

record CreateNetworkRequest =
  cn_Name :: string
  cn_Zone :: string
  cn_Router :: string
  cn_IPNetworks :: "upIPNetwork list"
  cn_Labels :: "Label list"

record ModifyNetworkRequest =
  mn_UUID :: string
  mn_Name :: string
  mn_IPNetworks :: "upIPNetwork list option"
  mn_Labels :: "Label list option"

record upStaticRoute =
  usr_Name :: string
  usr_Route :: string
  usr_Nexthop :: string
  usr_Type :: string

record upRouter =
  ur_UUID :: string
  ur_Name :: string
  ur_Type :: string
  ur_Labels :: "Label list"
  ur_StaticRoutes :: "upStaticRoute list"
  ur_AttachedNetworks :: "string list"

record CreateRouterRequest =
  crr_Name :: string
  crr_Labels :: "Label list"
  crr_StaticRoutes :: "upStaticRoute list"

record ModifyRouterRequest =
  mr_UUID :: string
  mr_Name :: string
  mr_Labels :: "Label list option"
  mr_StaticRoutes :: "upStaticRoute list option"

record upIPAddress =
  uip_Address :: string
  uip_Family :: string
  uip_Access :: string
  uip_Zone :: string
  uip_ReleasePolicy :: string
  uip_PTRRecord :: string
  uip_MAC :: string
  uip_PartOfPlan :: bool
  uip_Floating :: bool

record AssignIPAddressRequest =
  aip_Zone :: string
  aip_Family :: string
  aip_Access :: string
  aip_ReleasePolicy :: string
  aip_Floating :: bool

record ModifyIPAddressRequest =
  mip_IPAddress :: string
  mip_PTRRecord :: string
  mip_ReleasePolicy :: string

record upNetworkPeering =
  unp_UUID :: string
  unp_Name :: string
  unp_NetworkUUID :: string
  unp_PeerNetworkUUID :: string
  unp_ConfiguredStatus :: string
  unp_State :: string
  unp_Labels :: "Label list"

record CreateNetworkPeeringRequest =
  cnp_Name :: string
  cnp_ConfiguredStatus :: string
  cnp_NetworkUUID :: string
  cnp_PeerNetworkUUID :: string
  cnp_Labels :: "Label list"

record ModifyNetworkPeeringRequest =
  mnp_UUID :: string
  mnp_Name :: string
  mnp_ConfiguredStatus :: string
  mnp_Labels :: "Label list option"

subsection \<open>The interface\<close>

record 's NetworkAPI =
  GetNetworks :: "QueryFilter list \<Rightarrow> 's \<Rightarrow> (err + upNetwork list) \<times> 's"
  GetNetworkDetails :: "string \<Rightarrow> 's \<Rightarrow> (err + upNetwork) \<times> 's"
  CreateNetwork :: "CreateNetworkRequest \<Rightarrow> 's \<Rightarrow> (err + upNetwork) \<times> 's"
  ModifyNetwork :: "ModifyNetworkRequest \<Rightarrow> 's \<Rightarrow> (err + upNetwork) \<times> 's"
  DeleteNetwork :: "string \<Rightarrow> 's \<Rightarrow> err option \<times> 's"
  AttachNetworkRouter :: "string \<Rightarrow> string \<Rightarrow> 's \<Rightarrow> err option \<times> 's"
  DetachNetworkRouter :: "string \<Rightarrow> 's \<Rightarrow> err option \<times> 's"
  GetRouters :: "QueryFilter list \<Rightarrow> 's \<Rightarrow> (err + upRouter list) \<times> 's"
  GetRouterDetails :: "string \<Rightarrow> 's \<Rightarrow> (err + upRouter) \<times> 's"
  CreateRouter :: "CreateRouterRequest \<Rightarrow> 's \<Rightarrow> (err + upRouter) \<times> 's"
  ModifyRouter :: "ModifyRouterRequest \<Rightarrow> 's \<Rightarrow> (err + upRouter) \<times> 's"
  DeleteRouter :: "string \<Rightarrow> 's \<Rightarrow> err option \<times> 's"
  GetIPAddresses :: "'s \<Rightarrow> (err + upIPAddress list) \<times> 's"
  GetIPAddressDetails :: "string \<Rightarrow> 's \<Rightarrow> (err + upIPAddress) \<times> 's"
  AssignIPAddress :: "AssignIPAddressRequest \<Rightarrow> 's \<Rightarrow> (err + upIPAddress) \<times> 's"
  ModifyIPAddress :: "ModifyIPAddressRequest \<Rightarrow> 's \<Rightarrow> (err + upIPAddress) \<times> 's"
  ReleaseIPAddress :: "string \<Rightarrow> 's \<Rightarrow> err option \<times> 's"
  GetNetworkPeerings :: "QueryFilter list \<Rightarrow> 's \<Rightarrow> (err + upNetworkPeering list) \<times> 's"
  GetNetworkPeering :: "string \<Rightarrow> 's \<Rightarrow> (err + upNetworkPeering) \<times> 's"
  CreateNetworkPeering :: "CreateNetworkPeeringRequest \<Rightarrow> 's \<Rightarrow> (err + upNetworkPeering) \<times> 's"
  ModifyNetworkPeering :: "ModifyNetworkPeeringRequest \<Rightarrow> 's \<Rightarrow> (err + upNetworkPeering) \<times> 's"
  DeleteNetworkPeering :: "string \<Rightarrow> 's \<Rightarrow> err option \<times> 's"

subsection \<open>The contract\<close>

text \<open>What the collections promise about a created and a modified resource.\<close>

definition network_built :: "CreateNetworkRequest \<Rightarrow> upNetwork \<Rightarrow> bool" where
  "network_built c n \<longleftrightarrow> un_Name n = cn_Name c \<and> un_Zone n = cn_Zone c \<and> un_Router n = cn_Router c \<and>
     un_IPNetworks n = cn_IPNetworks c \<and> un_Labels n = cn_Labels c"

definition network_patched :: "ModifyNetworkRequest \<Rightarrow> upNetwork \<Rightarrow> upNetwork" where
  "network_patched m n =
     n\<lparr>un_Name := (if mn_Name m \<noteq> '''' then mn_Name m else un_Name n),
       un_IPNetworks := (case mn_IPNetworks m of Some ips \<Rightarrow> ips | None \<Rightarrow> un_IPNetworks n),
       un_Labels := (case mn_Labels m of Some ls \<Rightarrow> ls | None \<Rightarrow> un_Labels n)\<rparr>"

definition router_built :: "CreateRouterRequest \<Rightarrow> upRouter \<Rightarrow> bool" where
  "router_built c r \<longleftrightarrow> ur_Name r = crr_Name c \<and> ur_Labels r = crr_Labels c \<and>
     ur_StaticRoutes r = crr_StaticRoutes c"

definition router_patched :: "ModifyRouterRequest \<Rightarrow> upRouter \<Rightarrow> upRouter" where
  "router_patched m r =
     r\<lparr>ur_Name := mr_Name m,
       ur_Labels := (case mr_Labels m of Some ls \<Rightarrow> ls | None \<Rightarrow> ur_Labels r),
       ur_StaticRoutes := (case mr_StaticRoutes m of Some rs \<Rightarrow> rs | None \<Rightarrow> ur_StaticRoutes r)\<rparr>"

definition ip_built :: "AssignIPAddressRequest \<Rightarrow> upIPAddress \<Rightarrow> bool" where
  "ip_built c i \<longleftrightarrow> uip_Zone i = aip_Zone c \<and> uip_Family i = aip_Family c \<and>
     uip_Access i = aip_Access c \<and> uip_ReleasePolicy i = aip_ReleasePolicy c"

definition ip_patched :: "ModifyIPAddressRequest \<Rightarrow> upIPAddress \<Rightarrow> upIPAddress" where
  "ip_patched m i =
     i\<lparr>uip_PTRRecord := (if mip_PTRRecord m \<noteq> '''' then mip_PTRRecord m else uip_PTRRecord i),
       uip_ReleasePolicy := (if mip_ReleasePolicy m \<noteq> '''' then mip_ReleasePolicy m else uip_ReleasePolicy i)\<rparr>"

definition peering_built :: "CreateNetworkPeeringRequest \<Rightarrow> upNetworkPeering \<Rightarrow> bool" where
  "peering_built c p \<longleftrightarrow> unp_Name p = cnp_Name c \<and> unp_ConfiguredStatus p = cnp_ConfiguredStatus c \<and>
     unp_NetworkUUID p = cnp_NetworkUUID c \<and> unp_PeerNetworkUUID p = cnp_PeerNetworkUUID c \<and>
     unp_Labels p = cnp_Labels c"

definition peering_patched :: "ModifyNetworkPeeringRequest \<Rightarrow> upNetworkPeering \<Rightarrow> upNetworkPeering" where
  "peering_patched m p =
     p\<lparr>unp_Name := (if mnp_Name m \<noteq> '''' then mnp_Name m else unp_Name p),
       unp_ConfiguredStatus :=
         (if mnp_ConfiguredStatus m \<noteq> '''' then mnp_ConfiguredStatus m else unp_ConfiguredStatus p),
       unp_Labels := (case mnp_Labels m of Some ls \<Rightarrow> ls | None \<Rightarrow> unp_Labels p)\<rparr>"

text \<open>
  The service: four tables, each with the contract of \<open>mutable_table\<close> or
  \<open>labelled_table\<close>, and the two router attachment calls.
\<close>

locale network_service =
  nets: labelled_table inv nets "\<lambda>s. (rtrs s, ips s, prs s)" un_UUID "GetNetworkDetails api"
    "CreateNetwork api" network_built "DeleteNetwork api" "ModifyNetwork api" mn_UUID network_patched
    un_Labels "\<lambda>m. GetNetworks api [UIDFilter m]" +
  rtrs: labelled_table inv rtrs "\<lambda>s. (nets s, ips s, prs s)" ur_UUID "GetRouterDetails api"
    "CreateRouter api" router_built "DeleteRouter api" "ModifyRouter api" mr_UUID router_patched
    ur_Labels "\<lambda>m. GetRouters api [UIDFilter m]" +
  ips: mutable_table inv ips "\<lambda>s. (nets s, rtrs s, prs s)" uip_Address "GetIPAddressDetails api"
    "AssignIPAddress api" ip_built "ReleaseIPAddress api" "ModifyIPAddress api" mip_IPAddress ip_patched +
  prs: labelled_table inv prs "\<lambda>s. (nets s, rtrs s, ips s)" unp_UUID "GetNetworkPeering api"
    "CreateNetworkPeering api" peering_built "DeleteNetworkPeering api" "ModifyNetworkPeering api" mnp_UUID
    peering_patched unp_Labels "\<lambda>m. GetNetworkPeerings api [UIDFilter m]"
  for api :: "'s NetworkAPI" and inv :: "'s \<Rightarrow> bool"
    and nets :: "'s \<Rightarrow> string \<Rightarrow> upNetwork option" and rtrs :: "'s \<Rightarrow> string \<Rightarrow> upRouter option"
    and ips :: "'s \<Rightarrow> string \<Rightarrow> upIPAddress option"
    and prs :: "'s \<Rightarrow> string \<Rightarrow> upNetworkPeering option" +
  assumes attach_ok: "inv s \<Longrightarrow> AttachNetworkRouter api u r s = (None, s') \<Longrightarrow>
      inv s' \<and> rtrs s' = rtrs s \<and> ips s' = ips s \<and> prs s' = prs s \<and>
      (\<exists>n. nets s u = Some n \<and> nets s' = (nets s)(u \<mapsto> n\<lparr>un_Router := r\<rparr>))"
    and attach_failed: "inv s \<Longrightarrow> AttachNetworkRouter api u r s = (Some e, s') \<Longrightarrow>
      inv s' \<and> nets s' = nets s \<and> rtrs s' = rtrs s \<and> ips s' = ips s \<and> prs s' = prs s"
    and detach_ok: "inv s \<Longrightarrow> DetachNetworkRouter api u s = (None, s') \<Longrightarrow>
      inv s' \<and> rtrs s' = rtrs s \<and> ips s' = ips s \<and> prs s' = prs s \<and>
      (\<exists>n. nets s u = Some n \<and> nets s' = (nets s)(u \<mapsto> n\<lparr>un_Router := ''''\<rparr>))"
    and detach_failed: "inv s \<Longrightarrow> DetachNetworkRouter api u s = (Some e, s') \<Longrightarrow>
      inv s' \<and> nets s' = nets s \<and> rtrs s' = rtrs s \<and> ips s' = ips s \<and> prs s' = prs s"

end
