(* ===== verification/NetworkConvert.thy ===== *)
theory NetworkConvert
  imports NetworkAPI
begin

text \<open>
  \<open>internal/controller/network/convert.go\<close>: translation of spec values to API values
  and the comparisons drift detection is made of.
\<close>

fun toStaticRoutes :: "StaticRoute list \<Rightarrow> upStaticRoute list" where
  "toStaticRoutes [] = []"
| "toStaticRoutes (r # rs) =
     \<lparr>usr_Name = sr_Name r, usr_Route = sr_Route r, usr_Nexthop = sr_Nexthop r, usr_Type = ''''\<rparr>
     # toStaticRoutes rs"

text \<open>\<open>upcloud.RouterStaticRouteTypeUser\<close> is the string \<open>user\<close>.\<close>

fun userRoutes :: "upStaticRoute list \<Rightarrow> upStaticRoute list" where
  "userRoutes [] = []"
| "userRoutes (r # rs) =
     (if usr_Type r = ''user'' \<or> usr_Type r = ''''
      then \<lparr>usr_Name = usr_Name r, usr_Route = usr_Route r, usr_Nexthop = usr_Nexthop r, usr_Type = ''user''\<rparr>
           # userRoutes rs
      else userRoutes rs)"

definition routeKey :: "upStaticRoute \<Rightarrow> string" where
  "routeKey r = usr_Name r @ ''|'' @ usr_Route r @ ''|'' @ usr_Nexthop r"

text \<open>Both lists sorted by key, then compared by key.\<close>

definition routesEqual :: "upStaticRoute list \<Rightarrow> upStaticRoute list \<Rightarrow> bool" where
  "routesEqual a b =
     (let as = sort_key routeKey a; bs = sort_key routeKey b
      in list_all2 (\<lambda>x y. routeKey x = routeKey y) as bs)"

definition compareStrings :: "string \<Rightarrow> string \<Rightarrow> int" where
  "compareStrings a b = (if a < b then -1 else if a > b then 1 else 0)"

definition ptrDefault :: "'a option \<Rightarrow> 'a \<Rightarrow> 'a" where
  "ptrDefault p d = (case p of None \<Rightarrow> d | Some x \<Rightarrow> x)"

fun toIPNetworks :: "IPNetwork list \<Rightarrow> upIPNetwork list" where
  "toIPNetworks [] = []"
| "toIPNetworks (p # ps) =
     (let family = (if ipn_Family p = '''' then ''IPv4'' else ipn_Family p) in
      \<lparr>uipn_Address = ipn_Address p, uipn_Family = family,
       uipn_DHCP = ptrDefault (ipn_DHCP p) True,
       uipn_DHCPDefaultRoute = ptrDefault (ipn_DHCPDefaultRoute p) False,
       uipn_DHCPDns = ipn_DHCPDns p, uipn_DHCPRoutes = ipn_DHCPRoutes p,
       uipn_Gateway = ipn_Gateway p\<rparr>) # toIPNetworks ps"

definition sortedByAddress :: "upIPNetwork list \<Rightarrow> upIPNetwork list" where
  "sortedByAddress ps = sort_key uipn_Address ps"

definition ipNetworkMatches :: "upIPNetwork \<Rightarrow> upIPNetwork \<Rightarrow> bool" where
  "ipNetworkMatches ob de =
     (if uipn_Address ob \<noteq> uipn_Address de \<or> uipn_Family ob \<noteq> uipn_Family de
         \<or> uipn_DHCP ob \<noteq> uipn_DHCP de \<or> uipn_DHCPDefaultRoute ob \<noteq> uipn_DHCPDefaultRoute de
         \<or> uipn_DHCPDns ob \<noteq> uipn_DHCPDns de \<or> uipn_DHCPRoutes ob \<noteq> uipn_DHCPRoutes de
      then False
      else if uipn_Gateway de \<noteq> '''' \<and> uipn_Gateway ob \<noteq> uipn_Gateway de then False
      else True)"

text \<open>The index loop over two slices of equal length.\<close>

fun allMatch :: "upIPNetwork list \<Rightarrow> upIPNetwork list \<Rightarrow> bool" where
  "allMatch (x # xs) (y # ys) = (if \<not> ipNetworkMatches x y then False else allMatch xs ys)"
| "allMatch _ _ = True"

definition ipNetworksEqual :: "upIPNetwork list \<Rightarrow> upIPNetwork list \<Rightarrow> bool" where
  "ipNetworksEqual observed desired =
     (let os = sortedByAddress observed; ds = sortedByAddress desired
      in if length os \<noteq> length ds then False else allMatch os ds)"

subsection \<open>The comparisons\<close>

lemma sort_key_map_key: "map f (sort_key f xs) = sort (map f xs)"
proof (rule sym, rule properties_for_sort)
  show "mset (map f (sort_key f xs)) = mset (map f xs)" by simp
  show "sorted (map f (sort_key f xs))" by simp
qed

lemma sort_eq_iff_mset: "sort xs = sort ys \<longleftrightarrow> mset xs = mset ys"
  by (metis mset_sort properties_for_sort sorted_sort)

lemma list_all2_key: "list_all2 (\<lambda>x y. f x = f y) xs ys \<longleftrightarrow> map f xs = map f ys"
  by (induction xs arbitrary: ys) (auto simp: list_all2_Cons1)

lemma routesEqual_iff: "routesEqual a b \<longleftrightarrow> mset (map routeKey a) = mset (map routeKey b)"
  by (simp only: routesEqual_def Let_def list_all2_key sort_key_map_key sort_eq_iff_mset)

lemma userRoutes_toStaticRoutes_key:
  "map routeKey (userRoutes (toStaticRoutes rs)) = map routeKey (toStaticRoutes rs)"
  by (induction rs) (simp_all add: routeKey_def)

lemma ipNetworkMatches_refl [simp]: "ipNetworkMatches x x"
  by (simp add: ipNetworkMatches_def)

lemma allMatch_refl [simp]: "allMatch xs xs"
  by (induction xs) simp_all

lemma ipNetworksEqual_refl [simp]: "ipNetworksEqual xs xs"
  by (simp add: ipNetworksEqual_def Let_def)

lemma allMatch_iff: "length xs = length ys \<Longrightarrow> allMatch xs ys \<longleftrightarrow> list_all2 ipNetworkMatches xs ys"
  by (induction xs ys rule: list_induct2) simp_all

text \<open>
  Route comparison is a comparison of multisets of (name, route, nexthop): it ignores
  order and the type attribute, and counts duplicates.
\<close>

theorem routesEqual_multiset:
  assumes "\<forall>r \<in> set a \<union> set b. CHR ''|'' \<notin> set (usr_Name r) \<and> CHR ''|'' \<notin> set (usr_Route r)"
  shows "routesEqual a b \<longleftrightarrow>
    mset (map (\<lambda>r. (usr_Name r, usr_Route r, usr_Nexthop r)) a)
      = mset (map (\<lambda>r. (usr_Name r, usr_Route r, usr_Nexthop r)) b)"
proof -
  let ?t = "\<lambda>r. (usr_Name r, usr_Route r, usr_Nexthop r)"
  let ?S = "set a \<union> set b"
  have inj: "inj_on (\<lambda>(n, r, h). n @ ''|'' @ r @ ''|'' @ h) (?t ` ?S)"
    using assms by (auto simp: inj_on_def split_at_separator)
  have key: "map routeKey xs = map (\<lambda>(n, r, h). n @ ''|'' @ r @ ''|'' @ h) (map ?t xs)" for xs
    by (simp add: routeKey_def)
  have "routesEqual a b \<longleftrightarrow>
      image_mset (\<lambda>(n, r, h). n @ ''|'' @ r @ ''|'' @ h) (mset (map ?t a))
      = image_mset (\<lambda>(n, r, h). n @ ''|'' @ r @ ''|'' @ h) (mset (map ?t b))"
    unfolding routesEqual_iff key by (simp only: mset_map)
  also have "\<dots> \<longleftrightarrow> mset (map ?t a) = mset (map ?t b)"
    using inj by (intro image_mset_inj_eq) (simp add: image_Un)
  finally show ?thesis .
qed

theorem routesEqual_multiset_witness:
  "routesEqual
     [\<lparr>usr_Name = ''b'', usr_Route = ''10.1.0.0/16'', usr_Nexthop = ''10.0.0.2'', usr_Type = ''service''\<rparr>,
      \<lparr>usr_Name = ''a'', usr_Route = ''10.0.0.0/16'', usr_Nexthop = ''10.0.0.1'', usr_Type = ''user''\<rparr>]
     [\<lparr>usr_Name = ''a'', usr_Route = ''10.0.0.0/16'', usr_Nexthop = ''10.0.0.1'', usr_Type = ''user''\<rparr>,
      \<lparr>usr_Name = ''b'', usr_Route = ''10.1.0.0/16'', usr_Nexthop = ''10.0.0.2'', usr_Type = ''user''\<rparr>]"
  by (subst routesEqual_multiset) simp_all

end
