(* ===== verification/Resolve.thy ===== *)
theory Resolve
  imports NetworkTypes
begin

text \<open>
  \<open>internal/resolve/resolve.go\<close>: references between custom resources. The Kubernetes
  client's typed \<open>Get\<close> is the argument \<open>get\<close>: namespace and name to an error or the
  object. A resolved reference comes back with the object that was loaded, because one
  caller reads more of it.
\<close>

type_synonym 'o getter = "string \<Rightarrow> string \<Rightarrow> err + 'o"

record Secret =
  sec_Data :: "(string, string) gomap"

definition ExternalID ::
  "Lib \<Rightarrow> 'o Object \<Rightarrow> 'o getter \<Rightarrow> string \<Rightarrow> string \<Rightarrow> err + 'o \<times> string" where
  "ExternalID L Obj get namespace name =
     (case get namespace name of
        Inl e \<Rightarrow>
          if KubeIsNotFound L e
          then Inl (WrapText ErrDependencyNotReady (obj_TypeName Obj @ '' '' @ fmt_q name @ '' not found''))
          else Inl e
      | Inr obj \<Rightarrow>
          if GetExternalID Obj obj = ''''
          then Inl (WrapText ErrDependencyNotReady (obj_TypeName Obj @ '' '' @ fmt_q name @ '' has no external id yet''))
          else Inr (obj, GetExternalID Obj obj))"

definition Ready ::
  "Lib \<Rightarrow> 'o Object \<Rightarrow> 'o getter \<Rightarrow> string \<Rightarrow> string \<Rightarrow> err + 'o \<times> string" where
  "Ready L Obj get namespace name =
     (case ExternalID L Obj get namespace name of
        Inl e \<Rightarrow> Inl e
      | Inr (obj, i) \<Rightarrow>
          if \<not> IsReady L Obj obj
          then Inl (WrapText ErrDependencyNotReady (obj_TypeName Obj @ '' '' @ fmt_q name @ '' is not Ready''))
          else Inr (obj, i))"

text \<open>Most callers only use the identifier.\<close>

definition ReadyID ::
  "Lib \<Rightarrow> 'o Object \<Rightarrow> 'o getter \<Rightarrow> string \<Rightarrow> string \<Rightarrow> err + string" where
  "ReadyID L Obj get namespace name = map_sum id snd (Ready L Obj get namespace name)"

definition NetworkUUID ::
  "Lib \<Rightarrow> Network getter \<Rightarrow> string \<Rightarrow> NetworkAttachment \<Rightarrow> err + string" where
  "NetworkUUID L get namespace att =
     (if na_UUID att \<noteq> '''' then Inr (na_UUID att)
      else case na_NetworkRef att of
        Some ref \<Rightarrow> ReadyID L Network_Object get namespace (lor_Name ref)
      | None \<Rightarrow>
          if na_Type att = ''private''
          then Inl (ErrText (''network attachment '' @ fmt_q (na_Name att) @ '': type private requires uuid or networkRef''))
          else Inr '''')"

definition SecretKey ::
  "Lib \<Rightarrow> Secret getter \<Rightarrow> string \<Rightarrow> SecretKeySelector \<Rightarrow> err + string" where
  "SecretKey L get namespace sel =
     (case get namespace (sks_Name sel) of
        Inl e \<Rightarrow>
          if KubeIsNotFound L e
          then Inl (WrapText ErrDependencyNotReady (''Secret '' @ fmt_q (sks_Name sel) @ '' not found''))
          else Inl e
      | Inr s \<Rightarrow>
          (case gm_get (sec_Data s) (sks_Key sel) of
             None \<Rightarrow> Inl (WrapText ErrDependencyNotReady
                      (''Secret '' @ fmt_q (sks_Name sel) @ '' has no key '' @ fmt_q (sks_Key sel)))
           | Some v \<Rightarrow> Inr v))"

lemma ReadyID_Inr:
  "ReadyID L Obj get ns name = Inr i \<longleftrightarrow> (\<exists>x. Ready L Obj get ns name = Inr (x, i))"
  by (auto simp: ReadyID_def map_sum_def split: sum.splits)

lemma ReadyID_Inl: "ReadyID L Obj get ns name = Inl e \<longleftrightarrow> Ready L Obj get ns name = Inl e"
  by (auto simp: ReadyID_def map_sum_def split: sum.splits)

lemma ReadyID_not_empty [simp]: "ReadyID L Obj get ns n \<noteq> Inr []"
  by (auto simp: ReadyID_Inr Ready_def ExternalID_def split: sum.splits prod.splits if_splits)

text \<open>A cluster without objects, for the witnesses.\<close>

definition no_objects :: "'o getter" where
  "no_objects ns name = Inl (KubeError ''NotFound'' ''not found'')"

subsection \<open>Properties\<close>

text \<open>
  C27. A resolved identifier is never empty and always belongs to a Ready object that the
  cluster holds under that name; conversely every Ready object with an identifier
  resolves.
\<close>

theorem Ready_resolves_exactly_ready_objects:
  "Ready L Obj get ns name = Inr (x, i) \<longleftrightarrow>
     get ns name = Inr x \<and> i = GetExternalID Obj x \<and> i \<noteq> '''' \<and> IsReady L Obj x"
  by (auto simp: Ready_def ExternalID_def split: sum.splits prod.splits if_splits)

text \<open>
  Resolution fails in two ways only: with a dependency error, which the loop waits
  on, for an object that is missing, has no identifier or is not Ready; and with the
  client's own error otherwise.
\<close>

theorem Ready_error_is_dependency_or_client:
  assumes "Ready L Obj get ns name = Inl e"
  shows "errors_Is e ErrDependencyNotReady \<or> (get ns name = Inl e \<and> \<not> KubeIsNotFound L e)"
  using assms by (auto simp: Ready_def ExternalID_def split: sum.splits prod.splits if_splits)

theorem Ready_error_is_dependency_or_client_witness:
  "errors_Is (WrapText ErrDependencyNotReady (''*v1alpha1.Network '' @ fmt_q ''net'' @ '' not found'')) ErrDependencyNotReady \<or>
   ((\<lambda>ns n. Inl (KubeError ''NotFound'' ''gone'') :: err + Network) ''ns'' ''net''
      = Inl (WrapText ErrDependencyNotReady (''*v1alpha1.Network '' @ fmt_q ''net'' @ '' not found''))
    \<and> \<not> KubeIsNotFound ref_Lib (WrapText ErrDependencyNotReady (''*v1alpha1.Network '' @ fmt_q ''net'' @ '' not found'')))"
  by (rule Ready_error_is_dependency_or_client [where Obj = Network_Object])
    (simp add: Ready_def ExternalID_def ref_Lib_def ref_KubeIsNotFound_def Network_Object_def)

end
