(* ===== verification/FakeTable.thy ===== *)
theory FakeTable
  imports Labels
begin

text \<open>
  What the in-memory services of \<open>internal/upcloudapi/fake\<close> share: the three error
  constructors, label filters, identifiers numbered by a sequence counter, and the
  invariant of a table whose keys were all drawn from that counter.
\<close>

subsection \<open>Errors and filters (fake/network.go)\<close>

definition NotFound :: "string \<Rightarrow> err" where
  "NotFound what = Problem 404 (what @ '' not found'')"

definition Conflict :: "string \<Rightarrow> err" where
  "Conflict what = Problem 409 (what @ '' already exists'')"

definition Invalid :: "string \<Rightarrow> err" where
  "Invalid msg = Problem 400 msg"

lemma fake_errors [simp]:
  "IsNotFound (Some (NotFound w))" "\<not> IsNotFound (Some (Conflict w))" "\<not> IsNotFound (Some (Invalid w))"
  "IsConflict (Some (Conflict w))" "\<not> IsConflict (Some (NotFound w))" "\<not> IsConflict (Some (Invalid w))"
  by (simp_all add: NotFound_def Conflict_def Invalid_def)

fun labelFound :: "Label list \<Rightarrow> Label \<Rightarrow> bool" where
  "labelFound [] fl = False"
| "labelFound (l # ls) fl =
     (if l_Key l = l_Key fl \<and> l_Value l = l_Value fl then True else labelFound ls fl)"

fun hasAllLabels :: "Label list \<Rightarrow> QueryFilter list \<Rightarrow> bool" where
  "hasAllLabels labels [] = True"
| "hasAllLabels labels (OtherFilter # fs) = hasAllLabels labels fs"
| "hasAllLabels labels (FilterLabel fl # fs) =
     (if \<not> labelFound labels fl then False else hasAllLabels labels fs)"

lemma labelFound_UID: "labelFound ls (mkLabel LabelUID uid) \<longleftrightarrow> HasUID ls uid"
  by (induction ls) auto

lemma hasAllLabels_UIDFilter [simp]: "hasAllLabels ls [UIDFilter m] \<longleftrightarrow> HasUID ls (om_UID m)"
  by (simp add: UIDFilter_def labelFound_UID)

subsection \<open>Numbered identifiers\<close>

definition uuid :: "string \<Rightarrow> nat \<Rightarrow> string" where
  "uuid prefix n = prefix @ ''-'' @ fmt_04d n"

lemma uuid_inj [simp]: "uuid p m = uuid p n \<longleftrightarrow> m = n"
  by (simp add: uuid_def)

lemma uuid_nonempty [simp]: "uuid p n \<noteq> ''''" "'''' \<noteq> uuid p n"
  by (simp_all add: uuid_def)

subsection \<open>Tables of numbered resources\<close>

text \<open>
  \<open>fresh_table uid ids n m\<close>: the table is a map, every entry is stored under its own
  identifier, and every identifier was issued for some number up to \<open>n\<close>.
\<close>

definition fresh_table ::
  "('r \<Rightarrow> string) \<Rightarrow> (nat \<Rightarrow> string set) \<Rightarrow> nat \<Rightarrow> (string, 'r) gomap \<Rightarrow> bool" where
  "fresh_table uid ids n m \<longleftrightarrow>
     gm_wf m \<and> (\<forall>u x. gm_get m u = Some x \<longrightarrow> uid x = u \<and> (\<exists>k. 0 < k \<and> k \<le> n \<and> u \<in> ids k))"

lemma fresh_table_empty [simp]: "fresh_table uid ids n []"
  by (simp add: fresh_table_def)

lemma fresh_table_wf: "fresh_table uid ids n m \<Longrightarrow> gm_wf m"
  by (simp add: fresh_table_def)

lemma fresh_table_uid: "fresh_table uid ids n m \<Longrightarrow> gm_get m u = Some x \<Longrightarrow> uid x = u"
  by (auto simp: fresh_table_def)

lemma fresh_table_mono: "fresh_table uid ids n m \<Longrightarrow> n \<le> n' \<Longrightarrow> fresh_table uid ids n' m"
  by (fastforce simp: fresh_table_def)

lemma fresh_table_Suc [simp]: "fresh_table uid ids n m \<Longrightarrow> fresh_table uid ids (Suc n) m"
  by (erule fresh_table_mono) simp

lemma fresh_table_put:
  assumes "fresh_table uid ids n m" and "gm_get m u = Some y" and "uid x = uid y"
  shows "fresh_table uid ids n (gm_put u x m)"
  using assms by (auto simp: fresh_table_def split: if_splits)

lemma fresh_table_new:
  assumes "fresh_table uid ids n m" and "uid x = u" and "u \<in> ids (Suc n)"
  shows "fresh_table uid ids (Suc n) (gm_put u x m)"
  using assms by (fastforce simp: fresh_table_def split: if_splits)

lemma fresh_table_del: "fresh_table uid ids n m \<Longrightarrow> fresh_table uid ids n (gm_del u m)"
  by (auto simp: fresh_table_def split: if_splits)

lemma fresh_table_unused:
  assumes "fresh_table uid ids n m" and "u \<in> ids k" and "n < k"
    and "\<And>i j. i \<noteq> j \<Longrightarrow> ids i \<inter> ids j = {}"
  shows "gm_get m u = None"
proof (rule ccontr)
  assume "gm_get m u \<noteq> None"
  then obtain x where "gm_get m u = Some x" by blast
  then obtain j where "j \<le> n" "u \<in> ids j" using assms(1) unfolding fresh_table_def by blast
  then show False using assms(2,3) assms(4) [of j k] by auto
qed

definition uuid_ids :: "string \<Rightarrow> nat \<Rightarrow> string set" where
  "uuid_ids p k = {uuid p k}"

lemma fresh_uuid_unused [simp]:
  "fresh_table uid (uuid_ids p) n m \<Longrightarrow> gm_get m (uuid p (Suc n)) = None"
  by (rule fresh_table_unused [where k = "Suc n"]) (auto simp: uuid_ids_def)

lemma fresh_uuid_new [simp]:
  "fresh_table uid (uuid_ids p) n m \<Longrightarrow> uid x = uuid p (Suc n) \<Longrightarrow>
     fresh_table uid (uuid_ids p) (Suc n) (gm_put (uuid p (Suc n)) x m)"
  by (rule fresh_table_new) (auto simp: uuid_ids_def)

lemma fresh_uuid_nonempty:
  "fresh_table uid (uuid_ids p) n m \<Longrightarrow> gm_get m u = Some x \<Longrightarrow> uid x = u \<and> u \<noteq> ''''"
  unfolding fresh_table_def uuid_ids_def by (metis singletonD uuid_nonempty(1))

lemma fresh_table_range:
  assumes "fresh_table uid ids n m" and "x \<in> set (map snd (gm_range s m))"
  shows "gm_get m (uid x) = Some x"
proof -
  obtain k where "(k, x) \<in> set m" using assms(2) by auto
  then have "gm_get m k = Some x" using fresh_table_wf [OF assms(1)] by simp
  then show ?thesis using fresh_table_uid [OF assms(1)] by blast
qed

lemma in_range_values: "gm_get m u = Some x \<Longrightarrow> x \<in> set (map snd (gm_range s m))"
  by (force dest: map_of_SomeD)

subsection \<open>Slices of numbered resources\<close>

text \<open>
  Nested resources are kept in slices. \<open>findBy\<close> is the search loop, \<open>setFirst\<close> a write
  through the pointer it returns, \<open>dropFirst\<close> the index loop followed by the
  \<open>append(xs[:i], xs[i+1:]...)\<close> idiom.
\<close>

fun findBy :: "('r \<Rightarrow> string) \<Rightarrow> 'r list \<Rightarrow> string \<Rightarrow> 'r option" where
  "findBy uid [] u = None"
| "findBy uid (x # xs) u = (if uid x = u then Some x else findBy uid xs u)"

fun setFirst :: "('r \<Rightarrow> string) \<Rightarrow> string \<Rightarrow> 'r \<Rightarrow> 'r list \<Rightarrow> 'r list" where
  "setFirst uid u y [] = []"
| "setFirst uid u y (x # xs) = (if uid x = u then y # xs else x # setFirst uid u y xs)"

fun dropFirst :: "('r \<Rightarrow> string) \<Rightarrow> string \<Rightarrow> 'r list \<Rightarrow> 'r list" where
  "dropFirst uid u [] = []"
| "dropFirst uid u (x # xs) = (if uid x = u then xs else x # dropFirst uid u xs)"

definition fresh_list :: "('r \<Rightarrow> string) \<Rightarrow> (nat \<Rightarrow> string set) \<Rightarrow> nat \<Rightarrow> 'r list \<Rightarrow> bool" where
  "fresh_list uid ids n xs \<longleftrightarrow>
     distinct (map uid xs) \<and> (\<forall>x \<in> set xs. \<exists>k. 0 < k \<and> k \<le> n \<and> uid x \<in> ids k)"

lemma fresh_list_Nil [simp]: "fresh_list uid ids n []"
  by (simp add: fresh_list_def)

lemma fresh_list_Suc [simp]: "fresh_list uid ids n xs \<Longrightarrow> fresh_list uid ids (Suc n) xs"
  unfolding fresh_list_def by (meson le_SucI)

lemma findBy_Some: "findBy uid xs u = Some x \<Longrightarrow> x \<in> set xs \<and> uid x = u"
  by (induction xs) (auto split: if_splits)

lemma findBy_None: "findBy uid xs u = None \<longleftrightarrow> u \<notin> uid ` set xs"
  by (induction xs) auto

lemma findBy_append:
  "findBy uid (xs @ ys) u = (case findBy uid xs u of None \<Rightarrow> findBy uid ys u | Some x \<Rightarrow> Some x)"
  by (induction xs) auto

lemma findBy_snoc:
  "uid x \<notin> uid ` set xs \<Longrightarrow> findBy uid (xs @ [x]) = (findBy uid xs)(uid x \<mapsto> x)"
  by (induction xs) (auto simp: fun_eq_iff)

lemma findBy_setFirst:
  "uid y = u \<Longrightarrow> findBy uid (setFirst uid u y xs) v =
     (if v = u \<and> findBy uid xs u \<noteq> None then Some y else findBy uid xs v)"
  by (induction xs) auto

lemma map_setFirst: "uid y = u \<Longrightarrow> map uid (setFirst uid u y xs) = map uid xs"
  by (induction xs) auto

lemma set_setFirst: "set (setFirst uid u y xs) \<subseteq> insert y (set xs)"
  by (induction xs) auto

lemma set_dropFirst: "set (dropFirst uid u xs) \<subseteq> set xs"
  by (induction xs) auto

lemma map_dropFirst: "map uid (dropFirst uid u xs) = remove1 u (map uid xs)"
  by (induction xs) auto

lemma findBy_dropFirst:
  "distinct (map uid xs) \<Longrightarrow> findBy uid (dropFirst uid u xs) v = (if v = u then None else findBy uid xs v)"
  by (induction xs) (auto simp: findBy_None)

lemma findBy_in: "distinct (map uid xs) \<Longrightarrow> x \<in> set xs \<Longrightarrow> findBy uid xs (uid x) = Some x"
  by (induction xs) (auto simp: image_iff)

lemma ran_findBy: "distinct (map uid xs) \<Longrightarrow> ran (findBy uid xs) = set xs"
  by (auto simp: ran_def dest: findBy_Some intro: findBy_in)

lemma fresh_list_distinct: "fresh_list uid ids n xs \<Longrightarrow> distinct (map uid xs)"
  by (simp add: fresh_list_def)

lemma fresh_list_setFirst:
  assumes "fresh_list uid ids n xs" and "findBy uid xs u \<noteq> None" and "uid y = u"
  shows "fresh_list uid ids n (setFirst uid u y xs)"
proof -
  obtain x where x: "x \<in> set xs" "uid x = u" using assms(2) by (auto dest: findBy_Some)
  let ?P = "\<lambda>z. \<exists>k. 0 < k \<and> k \<le> n \<and> uid z \<in> ids k"
  have "\<forall>z \<in> set xs. ?P z" and d: "distinct (map uid xs)" using assms(1) by (simp_all add: fresh_list_def)
  then have "?P y" and "\<forall>z \<in> set xs. ?P z" using x assms(3) by auto
  then have "\<forall>z \<in> set (setFirst uid u y xs). ?P z" using set_setFirst [of uid u y xs] by blast
  then show ?thesis using d map_setFirst [of uid y u xs] assms(3) by (simp only: fresh_list_def)
qed

lemma fresh_list_dropFirst: "fresh_list uid ids n xs \<Longrightarrow> fresh_list uid ids n (dropFirst uid u xs)"
  using set_dropFirst [of uid u xs] unfolding fresh_list_def map_dropFirst by (blast intro: distinct_remove1)

lemma fresh_list_unused:
  assumes "fresh_list uid (uuid_ids p) n xs"
  shows "findBy uid xs (uuid p (Suc n)) = None"
  using assms by (fastforce simp: findBy_None fresh_list_def uuid_ids_def)

lemma fresh_list_new:
  assumes "fresh_list uid (uuid_ids p) n xs" and "uid x = uuid p (Suc n)"
  shows "fresh_list uid (uuid_ids p) (Suc n) (xs @ [x])"
proof -
  have "uuid p (Suc n) \<notin> uid ` set xs" using fresh_list_unused [OF assms(1)] by (simp add: findBy_None)
  moreover have "\<forall>y \<in> set (xs @ [x]). \<exists>k. 0 < k \<and> k \<le> Suc n \<and> uid y \<in> uuid_ids p k"
    using assms fresh_list_Suc [OF assms(1)] unfolding fresh_list_def by (auto simp: uuid_ids_def)
  ultimately show ?thesis using assms unfolding fresh_list_def by auto
qed

lemma fresh_list_nonempty:
  "fresh_list uid (uuid_ids p) n xs \<Longrightarrow> findBy uid xs u = Some x \<Longrightarrow> uid x = u \<and> u \<noteq> []"
  by (fastforce simp: fresh_list_def uuid_ids_def dest!: findBy_Some)

text \<open>An injected failure that does not pretend the resource is gone.\<close>

definition honest :: "err option \<Rightarrow> bool" where
  "honest e \<longleftrightarrow> \<not> IsNotFound e"

lemma honest_None [simp]: "honest None"
  by (simp add: honest_def)

end
