(* ===== verification/NetworkFake.thy ===== *)
theory NetworkFake
  imports FakeTable NetworkAPI
begin

text \<open>
  \<open>internal/upcloudapi/fake/network.go\<close>: the in-memory \<open>NetworkAPI\<close>. The state has the
  struct's fields; \<open>nf_order\<close> is the iteration order of Go's \<open>range\<close> over a map at the
  call with that number (see \<open>permute\<close>), an oracle no operation writes. The mutex makes
  each method atomic, so a method is one state transition. At the end the service is
  shown to satisfy the contract \<open>network_service\<close>.
\<close>

subsection \<open>State\<close>

record NetworkFake =
  nf_seq :: nat
  nf_Networks :: "(string, upNetwork) gomap"
  nf_Routers :: "(string, upRouter) gomap"
  nf_IPs :: "(string, upIPAddress) gomap"
  nf_Peerings :: "(string, upNetworkPeering) gomap"
  nf_Calls :: "string list"
  nf_FailNext :: "err option"
  nf_order :: "nat \<Rightarrow> nat list"

definition NewNetworkAPI :: NetworkFake where
  "NewNetworkAPI = \<lparr>nf_seq = 0, nf_Networks = [], nf_Routers = [], nf_IPs = [], nf_Peerings = [],
     nf_Calls = [], nf_FailNext = None, nf_order = (\<lambda>_. [])\<rparr>"

definition nf_call :: "string \<Rightarrow> NetworkFake \<Rightarrow> NetworkFake" where
  "nf_call name f = f\<lparr>nf_Calls := nf_Calls f @ [name]\<rparr>"

definition nf_record :: "string \<Rightarrow> NetworkFake \<Rightarrow> err option \<times> NetworkFake" where
  "nf_record name f =
     (let f1 = f\<lparr>nf_Calls := nf_Calls f @ [name]\<rparr> in
      case nf_FailNext f1 of
        Some e \<Rightarrow> (Some e, f1\<lparr>nf_FailNext := None\<rparr>)
      | None \<Rightarrow> (None, f1))"

definition nf_nextUUID :: "string \<Rightarrow> NetworkFake \<Rightarrow> string \<times> NetworkFake" where
  "nf_nextUUID prefix f =
     (let f1 = f\<lparr>nf_seq := Suc (nf_seq f)\<rparr> in (uuid prefix (nf_seq f1), f1))"

definition nf_range :: "NetworkFake \<Rightarrow> (string, 'v) gomap \<Rightarrow> 'v list" where
  "nf_range f m = map snd (gm_range (nf_order f (length (nf_Calls f))) m)"

subsection \<open>Networks\<close>

definition fake_GetNetworks :: "QueryFilter list \<Rightarrow> NetworkFake \<Rightarrow> (err + upNetwork list) \<times> NetworkFake" where
  "fake_GetNetworks filters f0 =
     (let f = nf_call ''GetNetworks'' f0
      in (Inr (filter (\<lambda>n. hasAllLabels (un_Labels n) filters) (nf_range f (nf_Networks f))), f))"

definition fake_GetNetworkDetails :: "string \<Rightarrow> NetworkFake \<Rightarrow> (err + upNetwork) \<times> NetworkFake" where
  "fake_GetNetworkDetails u f0 =
     (let f = nf_call ''GetNetworkDetails'' f0 in
      case gm_get (nf_Networks f) u of
        None \<Rightarrow> (Inl (NotFound ''network''), f)
      | Some n \<Rightarrow> (Inr n, f))"

definition fake_CreateNetwork :: "CreateNetworkRequest \<Rightarrow> NetworkFake \<Rightarrow> (err + upNetwork) \<times> NetworkFake" where
  "fake_CreateNetwork r f0 =
     (case nf_record ''CreateNetwork'' f0 of
        (Some e, f) \<Rightarrow> (Inl e, f)
      | (None, f) \<Rightarrow>
          let (u, f1) = nf_nextUUID ''net'' f;
              n = \<lparr>un_UUID = u, un_Name = cn_Name r, un_Zone = cn_Zone r, un_Type = ''private'',
                   un_Router = cn_Router r, un_IPNetworks = cn_IPNetworks r, un_Labels = cn_Labels r\<rparr>
          in (Inr n, f1\<lparr>nf_Networks := gm_put (un_UUID n) n (nf_Networks f1)\<rparr>))"

definition fake_ModifyNetwork :: "ModifyNetworkRequest \<Rightarrow> NetworkFake \<Rightarrow> (err + upNetwork) \<times> NetworkFake" where
  "fake_ModifyNetwork r f0 =
     (case nf_record ''ModifyNetwork'' f0 of
        (Some e, f) \<Rightarrow> (Inl e, f)
      | (None, f) \<Rightarrow>
          (case gm_get (nf_Networks f) (mn_UUID r) of
             None \<Rightarrow> (Inl (NotFound ''network''), f)
           | Some n \<Rightarrow>
               let n1 = (if mn_Name r \<noteq> '''' then n\<lparr>un_Name := mn_Name r\<rparr> else n);
                   n2 = (case mn_IPNetworks r of None \<Rightarrow> n1 | Some ips \<Rightarrow> n1\<lparr>un_IPNetworks := ips\<rparr>);
                   n3 = (case mn_Labels r of None \<Rightarrow> n2 | Some ls \<Rightarrow> n2\<lparr>un_Labels := ls\<rparr>)
               in (Inr n3, f\<lparr>nf_Networks := gm_put (mn_UUID r) n3 (nf_Networks f)\<rparr>)))"

definition fake_DeleteNetwork :: "string \<Rightarrow> NetworkFake \<Rightarrow> err option \<times> NetworkFake" where
  "fake_DeleteNetwork u f0 =
     (case nf_record ''DeleteNetwork'' f0 of
        (Some e, f) \<Rightarrow> (Some e, f)
      | (None, f) \<Rightarrow>
          (case gm_get (nf_Networks f) u of
             None \<Rightarrow> (Some (NotFound ''network''), f)
           | Some _ \<Rightarrow> (None, f\<lparr>nf_Networks := gm_del u (nf_Networks f)\<rparr>)))"

definition fake_AttachNetworkRouter :: "string \<Rightarrow> string \<Rightarrow> NetworkFake \<Rightarrow> err option \<times> NetworkFake" where
  "fake_AttachNetworkRouter networkUUID routerUUID f0 =
     (case nf_record ''AttachNetworkRouter'' f0 of
        (Some e, f) \<Rightarrow> (Some e, f)
      | (None, f) \<Rightarrow>
          (case gm_get (nf_Networks f) networkUUID of
             None \<Rightarrow> (Some (NotFound ''network''), f)
           | Some n \<Rightarrow>
               (None, f\<lparr>nf_Networks := gm_put networkUUID (n\<lparr>un_Router := routerUUID\<rparr>) (nf_Networks f)\<rparr>)))"

definition fake_DetachNetworkRouter :: "string \<Rightarrow> NetworkFake \<Rightarrow> err option \<times> NetworkFake" where
  "fake_DetachNetworkRouter networkUUID f0 =
     (case nf_record ''DetachNetworkRouter'' f0 of
        (Some e, f) \<Rightarrow> (Some e, f)
      | (None, f) \<Rightarrow>
          (case gm_get (nf_Networks f) networkUUID of
             None \<Rightarrow> (Some (NotFound ''network''), f)
           | Some n \<Rightarrow>
               (None, f\<lparr>nf_Networks := gm_put networkUUID (n\<lparr>un_Router := ''''\<rparr>) (nf_Networks f)\<rparr>)))"

subsection \<open>Routers\<close>

definition fake_GetRouters :: "QueryFilter list \<Rightarrow> NetworkFake \<Rightarrow> (err + upRouter list) \<times> NetworkFake" where
  "fake_GetRouters filters f0 =
     (let f = nf_call ''GetRouters'' f0
      in (Inr (filter (\<lambda>r. hasAllLabels (ur_Labels r) filters) (nf_range f (nf_Routers f))), f))"

definition fake_GetRouterDetails :: "string \<Rightarrow> NetworkFake \<Rightarrow> (err + upRouter) \<times> NetworkFake" where
  "fake_GetRouterDetails u f0 =
     (let f = nf_call ''GetRouterDetails'' f0 in
      case gm_get (nf_Routers f) u of
        None \<Rightarrow> (Inl (NotFound ''router''), f)
      | Some r \<Rightarrow> (Inr r, f))"

definition fake_CreateRouter :: "CreateRouterRequest \<Rightarrow> NetworkFake \<Rightarrow> (err + upRouter) \<times> NetworkFake" where
  "fake_CreateRouter r f0 =
     (case nf_record ''CreateRouter'' f0 of
        (Some e, f) \<Rightarrow> (Inl e, f)
      | (None, f) \<Rightarrow>
          let (u, f1) = nf_nextUUID ''rtr'' f;
              rt = \<lparr>ur_UUID = u, ur_Name = crr_Name r, ur_Type = ''normal'', ur_Labels = crr_Labels r,
                    ur_StaticRoutes = crr_StaticRoutes r, ur_AttachedNetworks = []\<rparr>
          in (Inr rt, f1\<lparr>nf_Routers := gm_put (ur_UUID rt) rt (nf_Routers f1)\<rparr>))"

definition fake_ModifyRouter :: "ModifyRouterRequest \<Rightarrow> NetworkFake \<Rightarrow> (err + upRouter) \<times> NetworkFake" where
  "fake_ModifyRouter r f0 =
     (case nf_record ''ModifyRouter'' f0 of
        (Some e, f) \<Rightarrow> (Inl e, f)
      | (None, f) \<Rightarrow>
          (case gm_get (nf_Routers f) (mr_UUID r) of
             None \<Rightarrow> (Inl (NotFound ''router''), f)
           | Some rt \<Rightarrow>
               let r1 = rt\<lparr>ur_Name := mr_Name r\<rparr>;
                   r2 = (case mr_Labels r of None \<Rightarrow> r1 | Some ls \<Rightarrow> r1\<lparr>ur_Labels := ls\<rparr>);
                   r3 = (case mr_StaticRoutes r of None \<Rightarrow> r2 | Some rs \<Rightarrow> r2\<lparr>ur_StaticRoutes := rs\<rparr>)
               in (Inr r3, f\<lparr>nf_Routers := gm_put (mr_UUID r) r3 (nf_Routers f)\<rparr>)))"

fun anyAttached :: "string \<Rightarrow> upNetwork list \<Rightarrow> bool" where
  "anyAttached u [] = False"
| "anyAttached u (n # ns) = (if un_Router n = u then True else anyAttached u ns)"

definition fake_DeleteRouter :: "string \<Rightarrow> NetworkFake \<Rightarrow> err option \<times> NetworkFake" where
  "fake_DeleteRouter u f0 =
     (case nf_record ''DeleteRouter'' f0 of
        (Some e, f) \<Rightarrow> (Some e, f)
      | (None, f) \<Rightarrow>
          (case gm_get (nf_Routers f) u of
             None \<Rightarrow> (Some (NotFound ''router''), f)
           | Some _ \<Rightarrow>
               if anyAttached u (nf_range f (nf_Networks f))
               then (Some (Problem 409 ''router has attached networks''), f)
               else (None, f\<lparr>nf_Routers := gm_del u (nf_Routers f)\<rparr>)))"

subsection \<open>IP addresses\<close>

definition fake_GetIPAddresses :: "NetworkFake \<Rightarrow> (err + upIPAddress list) \<times> NetworkFake" where
  "fake_GetIPAddresses f0 =
     (let f = nf_call ''GetIPAddresses'' f0 in (Inr (nf_range f (nf_IPs f)), f))"

definition fake_GetIPAddressDetails :: "string \<Rightarrow> NetworkFake \<Rightarrow> (err + upIPAddress) \<times> NetworkFake" where
  "fake_GetIPAddressDetails a f0 =
     (let f = nf_call ''GetIPAddressDetails'' f0 in
      case gm_get (nf_IPs f) a of
        None \<Rightarrow> (Inl (NotFound ''ip address''), f)
      | Some ip \<Rightarrow> (Inr ip, f))"

definition ip6_address :: "nat \<Rightarrow> string" where
  "ip6_address n = ''2001:db8:'' @ fmt_x n @ ''::'' @ fmt_x n"

definition ip4_address :: "nat \<Rightarrow> string" where
  "ip4_address n = ''203.0.113.'' @ fmt_d (10 + n)"

definition fake_AssignIPAddress :: "AssignIPAddressRequest \<Rightarrow> NetworkFake \<Rightarrow> (err + upIPAddress) \<times> NetworkFake" where
  "fake_AssignIPAddress r f0 =
     (case nf_record ''AssignIPAddress'' f0 of
        (Some e, f) \<Rightarrow> (Inl e, f)
      | (None, f) \<Rightarrow>
          let (address, f1) =
                (if aip_Family r = ''IPv6''
                 then let g = f\<lparr>nf_seq := Suc (nf_seq f)\<rparr> in (ip6_address (nf_seq g), g)
                 else let g = f\<lparr>nf_seq := Suc (nf_seq f)\<rparr> in (ip4_address (nf_seq g), g))
          in if gm_get (nf_IPs f1) address \<noteq> None then (Inl (Conflict ''ip address''), f1)
             else let ip = \<lparr>uip_Address = address, uip_Family = aip_Family r, uip_Access = aip_Access r,
                            uip_Zone = aip_Zone r, uip_ReleasePolicy = aip_ReleasePolicy r,
                            uip_PTRRecord = '''', uip_MAC = '''', uip_PartOfPlan = False, uip_Floating = True\<rparr>
                  in (Inr ip, f1\<lparr>nf_IPs := gm_put address ip (nf_IPs f1)\<rparr>))"

definition fake_ModifyIPAddress :: "ModifyIPAddressRequest \<Rightarrow> NetworkFake \<Rightarrow> (err + upIPAddress) \<times> NetworkFake" where
  "fake_ModifyIPAddress r f0 =
     (case nf_record ''ModifyIPAddress'' f0 of
        (Some e, f) \<Rightarrow> (Inl e, f)
      | (None, f) \<Rightarrow>
          (case gm_get (nf_IPs f) (mip_IPAddress r) of
             None \<Rightarrow> (Inl (NotFound ''ip address''), f)
           | Some ip \<Rightarrow>
               let i1 = (if mip_PTRRecord r \<noteq> '''' then ip\<lparr>uip_PTRRecord := mip_PTRRecord r\<rparr> else ip);
                   i2 = (if mip_ReleasePolicy r \<noteq> '''' then i1\<lparr>uip_ReleasePolicy := mip_ReleasePolicy r\<rparr> else i1)
               in (Inr i2, f\<lparr>nf_IPs := gm_put (mip_IPAddress r) i2 (nf_IPs f)\<rparr>)))"

definition fake_ReleaseIPAddress :: "string \<Rightarrow> NetworkFake \<Rightarrow> err option \<times> NetworkFake" where
  "fake_ReleaseIPAddress a f0 =
     (case nf_record ''ReleaseIPAddress'' f0 of
        (Some e, f) \<Rightarrow> (Some e, f)
      | (None, f) \<Rightarrow>
          (case gm_get (nf_IPs f) a of
             None \<Rightarrow> (Some (NotFound ''ip address''), f)
           | Some _ \<Rightarrow> (None, f\<lparr>nf_IPs := gm_del a (nf_IPs f)\<rparr>)))"

subsection \<open>Peerings\<close>

definition fake_GetNetworkPeerings ::
  "QueryFilter list \<Rightarrow> NetworkFake \<Rightarrow> (err + upNetworkPeering list) \<times> NetworkFake" where
  "fake_GetNetworkPeerings filters f0 =
     (let f = nf_call ''GetNetworkPeerings'' f0
      in (Inr (filter (\<lambda>p. hasAllLabels (unp_Labels p) filters) (nf_range f (nf_Peerings f))), f))"

definition fake_GetNetworkPeering :: "string \<Rightarrow> NetworkFake \<Rightarrow> (err + upNetworkPeering) \<times> NetworkFake" where
  "fake_GetNetworkPeering u f0 =
     (let f = nf_call ''GetNetworkPeering'' f0 in
      case gm_get (nf_Peerings f) u of
        None \<Rightarrow> (Inl (NotFound ''network peering''), f)
      | Some p \<Rightarrow> (Inr p, f))"

definition fake_CreateNetworkPeering ::
  "CreateNetworkPeeringRequest \<Rightarrow> NetworkFake \<Rightarrow> (err + upNetworkPeering) \<times> NetworkFake" where
  "fake_CreateNetworkPeering r f0 =
     (case nf_record ''CreateNetworkPeering'' f0 of
        (Some e, f) \<Rightarrow> (Inl e, f)
      | (None, f) \<Rightarrow>
          if cnp_NetworkUUID r \<noteq> '''' \<and> gm_get (nf_Networks f) (cnp_NetworkUUID r) = None
          then (Inl (NotFound ''network''), f)
          else
            let (u, f1) = nf_nextUUID ''np'' f;
                p = \<lparr>unp_UUID = u, unp_Name = cnp_Name r, unp_NetworkUUID = cnp_NetworkUUID r,
                     unp_PeerNetworkUUID = cnp_PeerNetworkUUID r,
                     unp_ConfiguredStatus = cnp_ConfiguredStatus r, unp_State = ''active'',
                     unp_Labels = cnp_Labels r\<rparr>
            in (Inr p, f1\<lparr>nf_Peerings := gm_put (unp_UUID p) p (nf_Peerings f1)\<rparr>))"

definition fake_ModifyNetworkPeering ::
  "ModifyNetworkPeeringRequest \<Rightarrow> NetworkFake \<Rightarrow> (err + upNetworkPeering) \<times> NetworkFake" where
  "fake_ModifyNetworkPeering r f0 =
     (case nf_record ''ModifyNetworkPeering'' f0 of
        (Some e, f) \<Rightarrow> (Inl e, f)
      | (None, f) \<Rightarrow>
          (case gm_get (nf_Peerings f) (mnp_UUID r) of
             None \<Rightarrow> (Inl (NotFound ''network peering''), f)
           | Some p \<Rightarrow>
               let p1 = (if mnp_Name r \<noteq> '''' then p\<lparr>unp_Name := mnp_Name r\<rparr> else p);
                   p2 = (if mnp_ConfiguredStatus r \<noteq> ''''
                         then p1\<lparr>unp_ConfiguredStatus := mnp_ConfiguredStatus r\<rparr> else p1);
                   p3 = (case mnp_Labels r of None \<Rightarrow> p2 | Some ls \<Rightarrow> p2\<lparr>unp_Labels := ls\<rparr>)
               in (Inr p3, f\<lparr>nf_Peerings := gm_put (mnp_UUID r) p3 (nf_Peerings f)\<rparr>)))"

definition fake_DeleteNetworkPeering :: "string \<Rightarrow> NetworkFake \<Rightarrow> err option \<times> NetworkFake" where
  "fake_DeleteNetworkPeering u f0 =
     (case nf_record ''DeleteNetworkPeering'' f0 of
        (Some e, f) \<Rightarrow> (Some e, f)
      | (None, f) \<Rightarrow>
          (case gm_get (nf_Peerings f) u of
             None \<Rightarrow> (Some (NotFound ''network peering''), f)
           | Some _ \<Rightarrow> (None, f\<lparr>nf_Peerings := gm_del u (nf_Peerings f)\<rparr>)))"

definition fakeNetworkAPI :: "NetworkFake NetworkAPI" where
  "fakeNetworkAPI =
     \<lparr>GetNetworks = fake_GetNetworks, GetNetworkDetails = fake_GetNetworkDetails,
      CreateNetwork = fake_CreateNetwork, ModifyNetwork = fake_ModifyNetwork,
      DeleteNetwork = fake_DeleteNetwork, AttachNetworkRouter = fake_AttachNetworkRouter,
      DetachNetworkRouter = fake_DetachNetworkRouter, GetRouters = fake_GetRouters,
      GetRouterDetails = fake_GetRouterDetails, CreateRouter = fake_CreateRouter,
      ModifyRouter = fake_ModifyRouter, DeleteRouter = fake_DeleteRouter,
      GetIPAddresses = fake_GetIPAddresses, GetIPAddressDetails = fake_GetIPAddressDetails,
      AssignIPAddress = fake_AssignIPAddress, ModifyIPAddress = fake_ModifyIPAddress,
      ReleaseIPAddress = fake_ReleaseIPAddress, GetNetworkPeerings = fake_GetNetworkPeerings,
      GetNetworkPeering = fake_GetNetworkPeering, CreateNetworkPeering = fake_CreateNetworkPeering,
      ModifyNetworkPeering = fake_ModifyNetworkPeering, DeleteNetworkPeering = fake_DeleteNetworkPeering\<rparr>"

subsection \<open>The fake keeps the contract\<close>

definition ip_ids :: "nat \<Rightarrow> string set" where
  "ip_ids k = {ip4_address k, ip6_address k}"

lemma ip6_inj: "ip6_address m = ip6_address n \<longleftrightarrow> m = n"
  using radix_no_colon [of 16 m] radix_no_colon [of 16 n]
  by (auto simp: ip6_address_def split_at_separator fmt_x_def [symmetric])

lemma ip_ids_disjoint: "i \<noteq> j \<Longrightarrow> ip_ids i \<inter> ip_ids j = {}"
  by (auto simp: ip_ids_def ip6_inj) (auto simp: ip4_address_def ip6_address_def)

lemma ip_ids_nonempty: "u \<in> ip_ids k \<Longrightarrow> u \<noteq> ''''"
  by (auto simp: ip_ids_def ip4_address_def ip6_address_def)

definition net_inv :: "NetworkFake \<Rightarrow> bool" where
  "net_inv f \<longleftrightarrow>
     fresh_table un_UUID (uuid_ids ''net'') (nf_seq f) (nf_Networks f) \<and>
     fresh_table ur_UUID (uuid_ids ''rtr'') (nf_seq f) (nf_Routers f) \<and>
     fresh_table uip_Address ip_ids (nf_seq f) (nf_IPs f) \<and>
     fresh_table unp_UUID (uuid_ids ''np'') (nf_seq f) (nf_Peerings f) \<and>
     honest (nf_FailNext f)"

abbreviation fake_nets :: "NetworkFake \<Rightarrow> string \<Rightarrow> upNetwork option" where
  "fake_nets f \<equiv> gm_get (nf_Networks f)"
abbreviation fake_rtrs :: "NetworkFake \<Rightarrow> string \<Rightarrow> upRouter option" where
  "fake_rtrs f \<equiv> gm_get (nf_Routers f)"
abbreviation fake_ips :: "NetworkFake \<Rightarrow> string \<Rightarrow> upIPAddress option" where
  "fake_ips f \<equiv> gm_get (nf_IPs f)"
abbreviation fake_prs :: "NetworkFake \<Rightarrow> string \<Rightarrow> upNetworkPeering option" where
  "fake_prs f \<equiv> gm_get (nf_Peerings f)"

lemma net_inv_new [simp]: "net_inv NewNetworkAPI"
  by (simp add: net_inv_def NewNetworkAPI_def)

lemma fresh_ip_nonempty:
  "fresh_table uid ip_ids n m \<Longrightarrow> gm_get m u = Some x \<Longrightarrow> uid x = u \<and> u \<noteq> []"
  unfolding fresh_table_def using ip_ids_nonempty by metis

lemma net_inv_uid:
  assumes "net_inv f"
  shows "fake_nets f u = Some x \<Longrightarrow> un_UUID x = u \<and> u \<noteq> []"
    and "fake_rtrs f u = Some y \<Longrightarrow> ur_UUID y = u \<and> u \<noteq> []"
    and "fake_ips f u = Some z \<Longrightarrow> uip_Address z = u \<and> u \<noteq> []"
    and "fake_prs f u = Some v \<Longrightarrow> unp_UUID v = u \<and> u \<noteq> []"
proof -
  note t = assms [unfolded net_inv_def]
  show "fake_nets f u = Some x \<Longrightarrow> un_UUID x = u \<and> u \<noteq> []"
    using t by (intro fresh_uuid_nonempty) blast+
  show "fake_rtrs f u = Some y \<Longrightarrow> ur_UUID y = u \<and> u \<noteq> []"
    using t by (intro fresh_uuid_nonempty) blast+
  show "fake_ips f u = Some z \<Longrightarrow> uip_Address z = u \<and> u \<noteq> []"
    using t by (intro fresh_ip_nonempty) blast+
  show "fake_prs f u = Some v \<Longrightarrow> unp_UUID v = u \<and> u \<noteq> []"
    using t by (intro fresh_uuid_nonempty) blast+
qed

lemma nf_call_sel [simp]:
  "nf_seq (nf_call n f) = nf_seq f" "nf_Networks (nf_call n f) = nf_Networks f"
  "nf_Routers (nf_call n f) = nf_Routers f" "nf_IPs (nf_call n f) = nf_IPs f"
  "nf_Peerings (nf_call n f) = nf_Peerings f" "nf_FailNext (nf_call n f) = nf_FailNext f"
  "net_inv (nf_call n f) = net_inv f"
  by (simp_all add: nf_call_def net_inv_def)

lemma nf_range_single [simp]: "nf_range f [(u, x)] = [x]"
proof -
  have "mset (nf_range f [(u, x)]) = {#x#}" by (simp add: nf_range_def gm_range_def mset_permute)
  then show ?thesis by simp
qed

lemma set_nf_range [simp]: "set (nf_range f m) = snd ` set m"
  by (simp add: nf_range_def)

lemma fresh_ip_unused [simp]:
  assumes "fresh_table uip_Address ip_ids n m"
  shows "gm_get m (ip6_address (Suc n)) = None" and "gm_get m (ip4_address (Suc n)) = None"
  by (rule fresh_table_unused [OF assms _ _ ip_ids_disjoint, where k = "Suc n"]; simp add: ip_ids_def)+

lemma fresh_ip_new [simp]:
  assumes "fresh_table uip_Address ip_ids n m"
  shows "uip_Address x = ip6_address (Suc n) \<Longrightarrow>
      fresh_table uip_Address ip_ids (Suc n) (gm_put (ip6_address (Suc n)) x m)"
    and "uip_Address x = ip4_address (Suc n) \<Longrightarrow>
      fresh_table uip_Address ip_ids (Suc n) (gm_put (ip4_address (Suc n)) x m)"
  using assms by (auto intro!: fresh_table_new simp: ip_ids_def)

lemma ip_address_nonempty [simp]: "ip4_address n \<noteq> ''''" "ip6_address n \<noteq> ''''"
  by (simp_all add: ip4_address_def ip6_address_def)

lemmas net_simps = nf_record_def nf_nextUUID_def net_inv_def network_built_def network_patched_def
  router_built_def router_patched_def ip_built_def ip_patched_def peering_built_def
  peering_patched_def Let_def

text \<open>Each operation against its law, one collection after the other.\<close>

lemma fake_api_sel [simp]:
  "GetNetworks fakeNetworkAPI = fake_GetNetworks" "GetNetworkDetails fakeNetworkAPI = fake_GetNetworkDetails"
  "CreateNetwork fakeNetworkAPI = fake_CreateNetwork" "ModifyNetwork fakeNetworkAPI = fake_ModifyNetwork"
  "DeleteNetwork fakeNetworkAPI = fake_DeleteNetwork"
  "AttachNetworkRouter fakeNetworkAPI = fake_AttachNetworkRouter"
  "DetachNetworkRouter fakeNetworkAPI = fake_DetachNetworkRouter"
  "GetRouters fakeNetworkAPI = fake_GetRouters" "GetRouterDetails fakeNetworkAPI = fake_GetRouterDetails"
  "CreateRouter fakeNetworkAPI = fake_CreateRouter" "ModifyRouter fakeNetworkAPI = fake_ModifyRouter"
  "DeleteRouter fakeNetworkAPI = fake_DeleteRouter" "GetIPAddresses fakeNetworkAPI = fake_GetIPAddresses"
  "GetIPAddressDetails fakeNetworkAPI = fake_GetIPAddressDetails"
  "AssignIPAddress fakeNetworkAPI = fake_AssignIPAddress" "ModifyIPAddress fakeNetworkAPI = fake_ModifyIPAddress"
  "ReleaseIPAddress fakeNetworkAPI = fake_ReleaseIPAddress"
  "GetNetworkPeerings fakeNetworkAPI = fake_GetNetworkPeerings"
  "GetNetworkPeering fakeNetworkAPI = fake_GetNetworkPeering"
  "CreateNetworkPeering fakeNetworkAPI = fake_CreateNetworkPeering"
  "ModifyNetworkPeering fakeNetworkAPI = fake_ModifyNetworkPeering"
  "DeleteNetworkPeering fakeNetworkAPI = fake_DeleteNetworkPeering"
  by (simp_all add: fakeNetworkAPI_def)

lemma fake_GetNetworkDetails_law:
  assumes "net_inv s" and "fake_GetNetworkDetails u s = (r, s')"
  shows "net_inv s' \<and> fake_nets s' = fake_nets s \<and> (fake_rtrs s', fake_ips s', fake_prs s') = (fake_rtrs s, fake_ips s, fake_prs s)" and "r = Inr x \<Longrightarrow> fake_nets s u = Some x"
    and "r = Inl e \<Longrightarrow> fake_nets s u = None"
  using assms by (auto simp: fake_GetNetworkDetails_def Let_def split: option.splits)

lemma fake_CreateNetwork_law:
  assumes "net_inv s" and "fake_CreateNetwork c s = (r, s')"
  shows "r = Inr x \<Longrightarrow> net_inv s' \<and> fake_nets s (un_UUID x) = None \<and> fake_nets s' = (fake_nets s)(un_UUID x \<mapsto> x) \<and>
      (fake_rtrs s', fake_ips s', fake_prs s') = (fake_rtrs s, fake_ips s, fake_prs s) \<and> network_built c x"
    and "r = Inl e \<Longrightarrow> net_inv s' \<and> fake_nets s' = fake_nets s \<and> (fake_rtrs s', fake_ips s', fake_prs s') = (fake_rtrs s, fake_ips s, fake_prs s)"
  using assms by (auto simp: fake_CreateNetwork_def net_simps split: option.splits if_splits)

lemma fake_ModifyNetwork_law:
  assumes "net_inv s" and "fake_ModifyNetwork m s = (r, s')"
  shows "r = Inr x \<Longrightarrow> net_inv s' \<and> (fake_rtrs s', fake_ips s', fake_prs s') = (fake_rtrs s, fake_ips s, fake_prs s) \<and>
      (\<exists>y. fake_nets s (mn_UUID m) = Some y \<and> x = network_patched m y \<and> fake_nets s' = (fake_nets s)(mn_UUID m \<mapsto> x))"
    and "r = Inl e \<Longrightarrow> net_inv s' \<and> fake_nets s' = fake_nets s \<and> (fake_rtrs s', fake_ips s', fake_prs s') = (fake_rtrs s, fake_ips s, fake_prs s)"
  using assms by (auto simp: fake_ModifyNetwork_def net_simps split: option.splits if_splits
      elim!: fresh_table_put)

lemma fake_DeleteNetwork_law:
  assumes "net_inv s" and "fake_DeleteNetwork u s = (r, s')"
  shows "r = None \<Longrightarrow> net_inv s' \<and> fake_nets s' = (fake_nets s)(u := None) \<and> (fake_rtrs s', fake_ips s', fake_prs s') = (fake_rtrs s, fake_ips s, fake_prs s)"
    and "r = Some e \<Longrightarrow> net_inv s' \<and> fake_nets s' = fake_nets s \<and> (fake_rtrs s', fake_ips s', fake_prs s') = (fake_rtrs s, fake_ips s, fake_prs s)"
    and "r = Some e \<Longrightarrow> IsNotFound (Some e) \<Longrightarrow> fake_nets s u = None"
  using assms by (auto simp: fake_DeleteNetwork_def net_simps honest_def split: option.splits if_splits
      intro: fresh_table_del)

lemma fake_GetNetworks_law:
  assumes "net_inv s" and "fake_GetNetworks [UIDFilter m] s = (r, s')"
  shows "net_inv s' \<and> fake_nets s' = fake_nets s \<and> (fake_rtrs s', fake_ips s', fake_prs s') = (fake_rtrs s, fake_ips s, fake_prs s)" and "r = Inr xs \<Longrightarrow> x \<in> set xs \<Longrightarrow> fake_nets s (un_UUID x) = Some x"
    and "r = Inr xs \<Longrightarrow> fake_nets s i = Some x \<Longrightarrow> HasUID (un_Labels x) (om_UID m) \<Longrightarrow> x \<in> set xs"
  using assms by (auto simp: fake_GetNetworks_def Let_def net_inv_def nf_range_def
      intro: fresh_table_range dest: in_range_values)

lemma fake_GetRouterDetails_law:
  assumes "net_inv s" and "fake_GetRouterDetails u s = (r, s')"
  shows "net_inv s' \<and> fake_rtrs s' = fake_rtrs s \<and> (fake_nets s', fake_ips s', fake_prs s') = (fake_nets s, fake_ips s, fake_prs s)" and "r = Inr x \<Longrightarrow> fake_rtrs s u = Some x"
    and "r = Inl e \<Longrightarrow> fake_rtrs s u = None"
  using assms by (auto simp: fake_GetRouterDetails_def Let_def split: option.splits)

lemma fake_CreateRouter_law:
  assumes "net_inv s" and "fake_CreateRouter c s = (r, s')"
  shows "r = Inr x \<Longrightarrow> net_inv s' \<and> fake_rtrs s (ur_UUID x) = None \<and> fake_rtrs s' = (fake_rtrs s)(ur_UUID x \<mapsto> x) \<and>
      (fake_nets s', fake_ips s', fake_prs s') = (fake_nets s, fake_ips s, fake_prs s) \<and> router_built c x"
    and "r = Inl e \<Longrightarrow> net_inv s' \<and> fake_rtrs s' = fake_rtrs s \<and> (fake_nets s', fake_ips s', fake_prs s') = (fake_nets s, fake_ips s, fake_prs s)"
  using assms by (auto simp: fake_CreateRouter_def net_simps split: option.splits if_splits)

lemma fake_ModifyRouter_law:
  assumes "net_inv s" and "fake_ModifyRouter m s = (r, s')"
  shows "r = Inr x \<Longrightarrow> net_inv s' \<and> (fake_nets s', fake_ips s', fake_prs s') = (fake_nets s, fake_ips s, fake_prs s) \<and>
      (\<exists>y. fake_rtrs s (mr_UUID m) = Some y \<and> x = router_patched m y \<and> fake_rtrs s' = (fake_rtrs s)(mr_UUID m \<mapsto> x))"
    and "r = Inl e \<Longrightarrow> net_inv s' \<and> fake_rtrs s' = fake_rtrs s \<and> (fake_nets s', fake_ips s', fake_prs s') = (fake_nets s, fake_ips s, fake_prs s)"
  using assms by (auto simp: fake_ModifyRouter_def net_simps split: option.splits if_splits
      elim!: fresh_table_put)

lemma fake_DeleteRouter_law:
  assumes "net_inv s" and "fake_DeleteRouter u s = (r, s')"
  shows "r = None \<Longrightarrow> net_inv s' \<and> fake_rtrs s' = (fake_rtrs s)(u := None) \<and> (fake_nets s', fake_ips s', fake_prs s') = (fake_nets s, fake_ips s, fake_prs s)"
    and "r = Some e \<Longrightarrow> net_inv s' \<and> fake_rtrs s' = fake_rtrs s \<and> (fake_nets s', fake_ips s', fake_prs s') = (fake_nets s, fake_ips s, fake_prs s)"
    and "r = Some e \<Longrightarrow> IsNotFound (Some e) \<Longrightarrow> fake_rtrs s u = None"
  using assms by (auto simp: fake_DeleteRouter_def net_simps honest_def split: option.splits if_splits
      intro: fresh_table_del)

lemma fake_GetRouters_law:
  assumes "net_inv s" and "fake_GetRouters [UIDFilter m] s = (r, s')"
  shows "net_inv s' \<and> fake_rtrs s' = fake_rtrs s \<and> (fake_nets s', fake_ips s', fake_prs s') = (fake_nets s, fake_ips s, fake_prs s)" and "r = Inr xs \<Longrightarrow> x \<in> set xs \<Longrightarrow> fake_rtrs s (ur_UUID x) = Some x"
    and "r = Inr xs \<Longrightarrow> fake_rtrs s i = Some x \<Longrightarrow> HasUID (ur_Labels x) (om_UID m) \<Longrightarrow> x \<in> set xs"
  using assms by (auto simp: fake_GetRouters_def Let_def net_inv_def nf_range_def
      intro: fresh_table_range dest: in_range_values)

lemma fake_GetIPAddressDetails_law:
  assumes "net_inv s" and "fake_GetIPAddressDetails u s = (r, s')"
  shows "net_inv s' \<and> fake_ips s' = fake_ips s \<and> (fake_nets s', fake_rtrs s', fake_prs s') = (fake_nets s, fake_rtrs s, fake_prs s)" and "r = Inr x \<Longrightarrow> fake_ips s u = Some x"
    and "r = Inl e \<Longrightarrow> fake_ips s u = None"
  using assms by (auto simp: fake_GetIPAddressDetails_def Let_def split: option.splits)

lemma fake_AssignIPAddress_law:
  assumes "net_inv s" and "fake_AssignIPAddress c s = (r, s')"
  shows "r = Inr x \<Longrightarrow> net_inv s' \<and> fake_ips s (uip_Address x) = None \<and> fake_ips s' = (fake_ips s)(uip_Address x \<mapsto> x) \<and>
      (fake_nets s', fake_rtrs s', fake_prs s') = (fake_nets s, fake_rtrs s, fake_prs s) \<and> ip_built c x"
    and "r = Inl e \<Longrightarrow> net_inv s' \<and> fake_ips s' = fake_ips s \<and> (fake_nets s', fake_rtrs s', fake_prs s') = (fake_nets s, fake_rtrs s, fake_prs s)"
  using assms by (auto simp: fake_AssignIPAddress_def net_simps split: option.splits if_splits)

lemma fake_ModifyIPAddress_law:
  assumes "net_inv s" and "fake_ModifyIPAddress m s = (r, s')"
  shows "r = Inr x \<Longrightarrow> net_inv s' \<and> (fake_nets s', fake_rtrs s', fake_prs s') = (fake_nets s, fake_rtrs s, fake_prs s) \<and>
      (\<exists>y. fake_ips s (mip_IPAddress m) = Some y \<and> x = ip_patched m y \<and> fake_ips s' = (fake_ips s)(mip_IPAddress m \<mapsto> x))"
    and "r = Inl e \<Longrightarrow> net_inv s' \<and> fake_ips s' = fake_ips s \<and> (fake_nets s', fake_rtrs s', fake_prs s') = (fake_nets s, fake_rtrs s, fake_prs s)"
  using assms by (auto simp: fake_ModifyIPAddress_def net_simps split: option.splits if_splits
      elim!: fresh_table_put)

lemma fake_ReleaseIPAddress_law:
  assumes "net_inv s" and "fake_ReleaseIPAddress u s = (r, s')"
  shows "r = None \<Longrightarrow> net_inv s' \<and> fake_ips s' = (fake_ips s)(u := None) \<and> (fake_nets s', fake_rtrs s', fake_prs s') = (fake_nets s, fake_rtrs s, fake_prs s)"
    and "r = Some e \<Longrightarrow> net_inv s' \<and> fake_ips s' = fake_ips s \<and> (fake_nets s', fake_rtrs s', fake_prs s') = (fake_nets s, fake_rtrs s, fake_prs s)"
    and "r = Some e \<Longrightarrow> IsNotFound (Some e) \<Longrightarrow> fake_ips s u = None"
  using assms by (auto simp: fake_ReleaseIPAddress_def net_simps honest_def split: option.splits if_splits
      intro: fresh_table_del)

lemma fake_GetNetworkPeering_law:
  assumes "net_inv s" and "fake_GetNetworkPeering u s = (r, s')"
  shows "net_inv s' \<and> fake_prs s' = fake_prs s \<and> (fake_nets s', fake_rtrs s', fake_ips s') = (fake_nets s, fake_rtrs s, fake_ips s)" and "r = Inr x \<Longrightarrow> fake_prs s u = Some x"
    and "r = Inl e \<Longrightarrow> fake_prs s u = None"
  using assms by (auto simp: fake_GetNetworkPeering_def Let_def split: option.splits)

lemma fake_CreateNetworkPeering_law:
  assumes "net_inv s" and "fake_CreateNetworkPeering c s = (r, s')"
  shows "r = Inr x \<Longrightarrow> net_inv s' \<and> fake_prs s (unp_UUID x) = None \<and> fake_prs s' = (fake_prs s)(unp_UUID x \<mapsto> x) \<and>
      (fake_nets s', fake_rtrs s', fake_ips s') = (fake_nets s, fake_rtrs s, fake_ips s) \<and> peering_built c x"
    and "r = Inl e \<Longrightarrow> net_inv s' \<and> fake_prs s' = fake_prs s \<and> (fake_nets s', fake_rtrs s', fake_ips s') = (fake_nets s, fake_rtrs s, fake_ips s)"
  using assms by (auto simp: fake_CreateNetworkPeering_def net_simps split: option.splits if_splits)

lemma fake_ModifyNetworkPeering_law:
  assumes "net_inv s" and "fake_ModifyNetworkPeering m s = (r, s')"
  shows "r = Inr x \<Longrightarrow> net_inv s' \<and> (fake_nets s', fake_rtrs s', fake_ips s') = (fake_nets s, fake_rtrs s, fake_ips s) \<and>
      (\<exists>y. fake_prs s (mnp_UUID m) = Some y \<and> x = peering_patched m y \<and> fake_prs s' = (fake_prs s)(mnp_UUID m \<mapsto> x))"
    and "r = Inl e \<Longrightarrow> net_inv s' \<and> fake_prs s' = fake_prs s \<and> (fake_nets s', fake_rtrs s', fake_ips s') = (fake_nets s, fake_rtrs s, fake_ips s)"
  using assms by (auto simp: fake_ModifyNetworkPeering_def net_simps split: option.splits if_splits
      elim!: fresh_table_put)

lemma fake_DeleteNetworkPeering_law:
  assumes "net_inv s" and "fake_DeleteNetworkPeering u s = (r, s')"
  shows "r = None \<Longrightarrow> net_inv s' \<and> fake_prs s' = (fake_prs s)(u := None) \<and> (fake_nets s', fake_rtrs s', fake_ips s') = (fake_nets s, fake_rtrs s, fake_ips s)"
    and "r = Some e \<Longrightarrow> net_inv s' \<and> fake_prs s' = fake_prs s \<and> (fake_nets s', fake_rtrs s', fake_ips s') = (fake_nets s, fake_rtrs s, fake_ips s)"
    and "r = Some e \<Longrightarrow> IsNotFound (Some e) \<Longrightarrow> fake_prs s u = None"
  using assms by (auto simp: fake_DeleteNetworkPeering_def net_simps honest_def split: option.splits if_splits
      intro: fresh_table_del)

lemma fake_GetNetworkPeerings_law:
  assumes "net_inv s" and "fake_GetNetworkPeerings [UIDFilter m] s = (r, s')"
  shows "net_inv s' \<and> fake_prs s' = fake_prs s \<and> (fake_nets s', fake_rtrs s', fake_ips s') = (fake_nets s, fake_rtrs s, fake_ips s)" and "r = Inr xs \<Longrightarrow> x \<in> set xs \<Longrightarrow> fake_prs s (unp_UUID x) = Some x"
    and "r = Inr xs \<Longrightarrow> fake_prs s i = Some x \<Longrightarrow> HasUID (unp_Labels x) (om_UID m) \<Longrightarrow> x \<in> set xs"
  using assms by (auto simp: fake_GetNetworkPeerings_def Let_def net_inv_def nf_range_def
      intro: fresh_table_range dest: in_range_values)

lemma fake_AttachNetworkRouter_law:
  assumes "net_inv s" and "fake_AttachNetworkRouter u q s = (r, s')"
  shows "r = None \<Longrightarrow> net_inv s' \<and> fake_rtrs s' = fake_rtrs s \<and> fake_ips s' = fake_ips s \<and>
      fake_prs s' = fake_prs s \<and>
      (\<exists>n. fake_nets s u = Some n \<and> fake_nets s' = (fake_nets s)(u \<mapsto> n\<lparr>un_Router := q\<rparr>))"
    and "r = Some e \<Longrightarrow> net_inv s' \<and> fake_nets s' = fake_nets s \<and> fake_rtrs s' = fake_rtrs s \<and>
      fake_ips s' = fake_ips s \<and> fake_prs s' = fake_prs s"
  using assms by (auto simp: fake_AttachNetworkRouter_def net_simps split: option.splits if_splits
      elim!: fresh_table_put)

lemma fake_DetachNetworkRouter_law:
  assumes "net_inv s" and "fake_DetachNetworkRouter u s = (r, s')"
  shows "r = None \<Longrightarrow> net_inv s' \<and> fake_rtrs s' = fake_rtrs s \<and> fake_ips s' = fake_ips s \<and>
      fake_prs s' = fake_prs s \<and>
      (\<exists>n. fake_nets s u = Some n \<and> fake_nets s' = (fake_nets s)(u \<mapsto> n\<lparr>un_Router := ''''\<rparr>))"
    and "r = Some e \<Longrightarrow> net_inv s' \<and> fake_nets s' = fake_nets s \<and> fake_rtrs s' = fake_rtrs s \<and>
      fake_ips s' = fake_ips s \<and> fake_prs s' = fake_prs s"
  using assms by (auto simp: fake_DetachNetworkRouter_def net_simps split: option.splits if_splits
      elim!: fresh_table_put)

lemma net_keyed:
  assumes "net_inv f"
  shows "fake_nets f u = Some x \<Longrightarrow> un_UUID x = u" and "fake_rtrs f u = Some y \<Longrightarrow> ur_UUID y = u"
    and "fake_ips f u = Some z \<Longrightarrow> uip_Address z = u" and "fake_prs f u = Some v \<Longrightarrow> unp_UUID v = u"
  using net_inv_uid [OF assms] by blast+

lemma net_nonempty:
  assumes "net_inv f"
  shows "fake_nets f u = Some x \<Longrightarrow> u \<noteq> []" and "fake_rtrs f u = Some y \<Longrightarrow> u \<noteq> []"
    and "fake_ips f u = Some z \<Longrightarrow> u \<noteq> []" and "fake_prs f u = Some v \<Longrightarrow> u \<noteq> []"
  using net_inv_uid [OF assms] by blast+

text \<open>The laws of every operation make the in-memory service a \<open>network_service\<close>.\<close>

lemmas fake_net_laws =
  fake_GetNetworkDetails_law fake_CreateNetwork_law fake_ModifyNetwork_law
  fake_DeleteNetwork_law fake_GetNetworks_law fake_GetRouterDetails_law fake_CreateRouter_law
  fake_ModifyRouter_law fake_DeleteRouter_law fake_GetRouters_law fake_GetIPAddressDetails_law
  fake_AssignIPAddress_law fake_ModifyIPAddress_law fake_ReleaseIPAddress_law
  fake_GetNetworkPeering_law fake_CreateNetworkPeering_law fake_ModifyNetworkPeering_law
  fake_DeleteNetworkPeering_law fake_GetNetworkPeerings_law fake_AttachNetworkRouter_law
  fake_DetachNetworkRouter_law

interpretation fake_net: network_service fakeNetworkAPI net_inv fake_nets fake_rtrs fake_ips fake_prs
proof (unfold_locales, unfold fake_api_sel)
qed ((rule net_keyed net_nonempty fake_net_laws; (assumption | rule refl))+)

end
