(* ===== verification/NetworkAdapter.thy ===== *)
theory NetworkAdapter
  imports AdapterCommon NetworkConvert Resolve NetworkFake
begin

text \<open>
  \<open>internal/controller/network/network_adapter.go\<close>. The struct's \<open>API\<close> field is the
  argument \<open>api\<close>; its \<open>Client\<close> is used to load Router objects only and is the argument
  \<open>getRouter\<close>, the cluster as the call sees it.
\<close>

subsection \<open>The adapter\<close>

definition NetworkAdapter_desiredRouterUUID :: "Lib \<Rightarrow> Router getter \<Rightarrow> Network \<Rightarrow> err + string" where
  "NetworkAdapter_desiredRouterUUID L getRouter n =
     (if nsp_RouterUUID (Spec n) \<noteq> '''' then Inr (nsp_RouterUUID (Spec n))
      else case nsp_RouterRef (Spec n) of
        Some ref \<Rightarrow> ReadyID L Router_Object getRouter (om_Namespace (Meta n)) (lor_Name ref)
      | None \<Rightarrow> Inr '''')"

definition NetworkAdapter_lookup :: "'s NetworkAPI \<Rightarrow> Network \<Rightarrow> 's \<Rightarrow> (err + upNetwork option) \<times> 's" where
  "NetworkAdapter_lookup api n =
     lookupOwned (GetNetworkDetails api) (\<lambda>m. GetNetworks api [UIDFilter m]) un_Labels (nst_UUID (Status n)) (Meta n)"

definition network_desired_labels :: "Network \<Rightarrow> Label list" where
  "network_desired_labels n = DesiredLabels (Meta n) (nsp_Labels (Spec n))"

definition NetworkAdapter_Observe ::
  "Lib \<Rightarrow> 's NetworkAPI \<Rightarrow> Router getter \<Rightarrow> Network \<Rightarrow> 's \<Rightarrow> (err + Observation) \<times> Network \<times> 's" where
  "NetworkAdapter_Observe L api getRouter n s =
     (case NetworkAdapter_desiredRouterUUID L getRouter n of
        Inl e \<Rightarrow> (Inl e, n, s)
      | Inr desiredRouter \<Rightarrow>
          (case NetworkAdapter_lookup api n s of
             (Inl e, s1) \<Rightarrow> (Inl (Wrap ''get network'' e), n, s1)
           | (Inr None, s1) \<Rightarrow> (Inr NoObservation, n, s1)
           | (Inr (Some net), s1) \<Rightarrow>
               let n1 = n\<lparr>Status := (Status n)\<lparr>nst_UUID := un_UUID net, nst_RouterUUID := un_Router net\<rparr>\<rparr>;
                   upToDate = (un_Name net = Network_ExternalName n1 \<and>
                     ipNetworksEqual (un_IPNetworks net) (toIPNetworks (nsp_IPNetworks (Spec n1))) \<and>
                     LabelsEqual (un_Labels net) (network_desired_labels n1) \<and>
                     un_Router net = desiredRouter)
               in (Inr \<lparr>ob_Exists = True, ob_UpToDate = upToDate, ob_Ready = True, ob_Message = ''''\<rparr>, n1, s1)))"

definition NetworkAdapter_Create ::
  "Lib \<Rightarrow> 's NetworkAPI \<Rightarrow> Router getter \<Rightarrow> Network \<Rightarrow> 's \<Rightarrow> err option \<times> Network \<times> 's" where
  "NetworkAdapter_Create L api getRouter n s =
     (case NetworkAdapter_desiredRouterUUID L getRouter n of
        Inl e \<Rightarrow> (Some e, n, s)
      | Inr desiredRouter \<Rightarrow>
          (case CreateNetwork api
                  \<lparr>cn_Name = Network_ExternalName n, cn_Zone = nsp_Zone (Spec n), cn_Router = desiredRouter,
                   cn_IPNetworks = toIPNetworks (nsp_IPNetworks (Spec n)),
                   cn_Labels = network_desired_labels n\<rparr> s of
             (Inl e, s1) \<Rightarrow> (Some (Wrap ''create network'' e), n, s1)
           | (Inr net, s1) \<Rightarrow>
               (None, n\<lparr>Status := (Status n)\<lparr>nst_UUID := un_UUID net, nst_RouterUUID := un_Router net\<rparr>\<rparr>, s1)))"

text \<open>The second half of \<open>Update\<close>: the router attachment changes last.\<close>

definition NetworkAdapter_attach ::
  "'s NetworkAPI \<Rightarrow> upNetwork \<Rightarrow> string \<Rightarrow> 's \<Rightarrow> err option \<times> 's" where
  "NetworkAdapter_attach api net desiredRouter s =
     (if un_Router net \<noteq> desiredRouter \<and> desiredRouter \<noteq> '''' then
        (case AttachNetworkRouter api (un_UUID net) desiredRouter s of
           (Some e, s1) \<Rightarrow> (Some (Wrap ''attach router'' e), s1)
         | (None, s1) \<Rightarrow> (None, s1))
      else if un_Router net \<noteq> '''' \<and> desiredRouter = '''' then
        (case DetachNetworkRouter api (un_UUID net) s of
           (Some e, s1) \<Rightarrow> (Some (Wrap ''detach router'' e), s1)
         | (None, s1) \<Rightarrow> (None, s1))
      else (None, s))"

text \<open>The first half: name, IP networks and labels, sent only when one of them differs.\<close>

definition NetworkAdapter_modify :: "'s NetworkAPI \<Rightarrow> Network \<Rightarrow> upNetwork \<Rightarrow> 's \<Rightarrow> err option \<times> 's" where
  "NetworkAdapter_modify api n net s =
     (let labels = network_desired_labels n;
          ipChanged = (\<not> ipNetworksEqual (un_IPNetworks net) (toIPNetworks (nsp_IPNetworks (Spec n))))
      in if un_Name net \<noteq> Network_ExternalName n \<or> ipChanged \<or> \<not> LabelsEqual (un_Labels net) labels then
           (case ModifyNetwork api
                   \<lparr>mn_UUID = un_UUID net, mn_Name = Network_ExternalName n,
                    mn_IPNetworks = (if ipChanged then Some (toIPNetworks (nsp_IPNetworks (Spec n))) else None),
                    mn_Labels = Some labels\<rparr> s of
              (Inl e, s1) \<Rightarrow> (Some (Wrap ''modify network'' e), s1)
            | (Inr _, s1) \<Rightarrow> (None, s1))
         else (None, s))"

definition NetworkAdapter_Update ::
  "Lib \<Rightarrow> 's NetworkAPI \<Rightarrow> Router getter \<Rightarrow> Network \<Rightarrow> 's \<Rightarrow> err option \<times> Network \<times> 's" where
  "NetworkAdapter_Update L api getRouter n s =
     (case NetworkAdapter_desiredRouterUUID L getRouter n of
        Inl e \<Rightarrow> (Some e, n, s)
      | Inr desiredRouter \<Rightarrow>
          (case NetworkAdapter_lookup api n s of
             (Inl e, s1) \<Rightarrow> (Some (Wrap ''get network'' e), n, s1)
           | (Inr None, s1) \<Rightarrow> (Some (Wrap ''update network'' ErrPending), n, s1)
           | (Inr (Some net), s1) \<Rightarrow>
               (case NetworkAdapter_modify api n net s1 of
                  (Some e, s2) \<Rightarrow> (Some e, n, s2)
                | (None, s2) \<Rightarrow>
                    (case NetworkAdapter_attach api net desiredRouter s2 of (e, s3) \<Rightarrow> (e, n, s3)))))"

definition NetworkAdapter_Delete :: "'s NetworkAPI \<Rightarrow> Network \<Rightarrow> 's \<Rightarrow> err option \<times> Network \<times> 's" where
  "NetworkAdapter_Delete api n s =
     (case deleteByID ''delete network'' (DeleteNetwork api) (nst_UUID (Status n)) s of (e, s1) \<Rightarrow> (e, n, s1))"

definition NetworkAdapter :: "Lib \<Rightarrow> 's NetworkAPI \<Rightarrow> Router getter \<Rightarrow> (Network, 's) Adapter" where
  "NetworkAdapter L api getRouter =
     \<lparr>ad_Observe = NetworkAdapter_Observe L api getRouter, ad_Create = NetworkAdapter_Create L api getRouter,
      ad_Update = NetworkAdapter_Update L api getRouter, ad_Delete = NetworkAdapter_Delete api\<rparr>"

lemma NetworkAdapter_sel [simp]:
  "ad_Observe (NetworkAdapter L api gr) = NetworkAdapter_Observe L api gr"
  "ad_Create (NetworkAdapter L api gr) = NetworkAdapter_Create L api gr"
  "ad_Update (NetworkAdapter L api gr) = NetworkAdapter_Update L api gr"
  "ad_Delete (NetworkAdapter L api gr) = NetworkAdapter_Delete api"
  by (simp_all add: NetworkAdapter_def)

lemma Network_Object_sel [simp]:
  "GetMeta Network_Object = Meta" "GetExternalID Network_Object n = nst_UUID (Status n)"
  "GetDeletionPolicy Network_Object n = nsp_DeletionPolicy (Spec n)"
  by (simp_all add: Network_Object_def)

subsection \<open>The operations against the service contract\<close>

text \<open>
  The specification: what it means that an API network is the one the object asks for.
\<close>

definition network_in_sync :: "Lib \<Rightarrow> Router getter \<Rightarrow> Network \<Rightarrow> upNetwork \<Rightarrow> bool" where
  "network_in_sync L gr n net \<longleftrightarrow>
     un_Name net = Network_ExternalName n \<and>
     ipNetworksEqual (un_IPNetworks net) (toIPNetworks (nsp_IPNetworks (Spec n))) \<and>
     LabelsEqual (un_Labels net) (network_desired_labels n) \<and>
     NetworkAdapter_desiredRouterUUID L gr n = Inr (un_Router net)"

lemma network_status_irrelevant [simp]:
  "Network_ExternalName (n\<lparr>Status := st\<rparr>) = Network_ExternalName n"
  "network_desired_labels (n\<lparr>Status := st\<rparr>) = network_desired_labels n"
  "NetworkAdapter_desiredRouterUUID L gr (n\<lparr>Status := st\<rparr>) = NetworkAdapter_desiredRouterUUID L gr n"
  "network_in_sync L gr (n\<lparr>Status := st\<rparr>) net \<longleftrightarrow> network_in_sync L gr n net"
  by (simp_all add: network_in_sync_def network_desired_labels_def Network_ExternalName_def
      NetworkAdapter_desiredRouterUUID_def cong: option.case_cong)

abbreviation network_rid :: "Network \<Rightarrow> string option" where
  "network_rid n \<equiv> rid_of (nst_UUID (Status n))"

context network_service
begin

lemma network_lookup_eq:
  "NetworkAdapter_lookup api n = nets.lookup_by (nst_UUID (Status n)) (Meta n)"
  by (simp add: NetworkAdapter_lookup_def)

lemma network_observe_frame:
  assumes "inv s" and "NetworkAdapter_Observe L api gr n s = (r, n', s')"
  shows "inv s' \<and> nets s' = nets s \<and> rtrs s' = rtrs s \<and> ips s' = ips s \<and> prs s' = prs s \<and>
    Meta n' = Meta n \<and> Spec n' = Spec n"
  using assms nets.lookup_frame [OF assms(1)]
  by (auto simp: NetworkAdapter_Observe_def network_lookup_eq Let_def split: sum.splits prod.splits option.splits)

lemma network_observe_found:
  assumes "inv s" and "NetworkAdapter_Observe L api gr n s = (Inr obs, n', s')" and "ob_Exists obs"
  shows "\<exists>net. nets s (nst_UUID (Status n')) = Some net \<and> nst_UUID (Status n') \<noteq> [] \<and>
    (nst_UUID (Status n) \<noteq> [] \<longrightarrow> nst_UUID (Status n') = nst_UUID (Status n)) \<and> ob_Ready obs \<and>
    (ob_UpToDate obs \<longleftrightarrow> network_in_sync L gr n' net)"
proof -
  obtain d net s1 where l: "NetworkAdapter_desiredRouterUUID L gr n = Inr d"
      "NetworkAdapter_lookup api n s = (Inr (Some net), s1)"
    using assms(2,3) by (auto simp: NetworkAdapter_Observe_def NoObservation_def split: sum.splits prod.splits option.splits)
  note look = nets.lookup_found [OF assms(1) l(2) [unfolded network_lookup_eq]]
  show ?thesis
    using assms(2,3) l look
    by (intro exI [of _ net]) (auto simp: NetworkAdapter_Observe_def Let_def network_in_sync_def)
qed

lemma network_create_spec:
  assumes "inv s" and "NetworkAdapter_Create L api gr n s = (e, n', s')"
  shows "inv s' \<and> rtrs s' = rtrs s \<and> ips s' = ips s \<and> prs s' = prs s \<and> Meta n' = Meta n \<and> Spec n' = Spec n"
    and "e \<noteq> None \<Longrightarrow> nets s' = nets s \<and> n' = n"
    and "e = None \<Longrightarrow> \<exists>net d. NetworkAdapter_desiredRouterUUID L gr n = Inr d \<and>
      nets s (nst_UUID (Status n')) = None \<and> nets s' = (nets s)(nst_UUID (Status n') \<mapsto> net) \<and>
      nst_UUID (Status n') \<noteq> [] \<and> un_Name net = Network_ExternalName n \<and> un_Zone net = nsp_Zone (Spec n) \<and>
      un_Router net = d \<and> un_IPNetworks net = toIPNetworks (nsp_IPNetworks (Spec n)) \<and>
      un_Labels net = network_desired_labels n"
  using assms
  by - (fastforce simp: NetworkAdapter_Create_def network_built_def split: sum.splits prod.splits
      dest!: nets.create_ok [OF assms(1)] nets.create_failed [OF assms(1)])+

lemma network_modify_spec:
  assumes "inv s" and "nets s (un_UUID net) = Some net" and "NetworkAdapter_modify api n net s = (e, s')"
  shows "inv s' \<and> rtrs s' = rtrs s \<and> ips s' = ips s \<and> prs s' = prs s"
    and "i \<noteq> un_UUID net \<Longrightarrow> nets s' i = nets s i"
    and "e \<noteq> None \<Longrightarrow> nets s' = nets s"
    and "e = None \<Longrightarrow> Network_ExternalName n \<noteq> [] \<Longrightarrow> \<exists>net'. nets s' (un_UUID net) = Some net' \<and>
      un_Name net' = Network_ExternalName n \<and>
      ipNetworksEqual (un_IPNetworks net') (toIPNetworks (nsp_IPNetworks (Spec n))) \<and>
      LabelsEqual (un_Labels net') (network_desired_labels n) \<and> un_Router net' = un_Router net"
    and "nets s' (un_UUID net) \<noteq> None"
  using assms
  by (auto simp: NetworkAdapter_modify_def network_patched_def Let_def split: sum.splits prod.splits if_splits
      dest!: nets.modify_ok [OF assms(1)] nets.modify_failed [OF assms(1)])

lemma network_attach_spec:
  assumes "inv s" and "nets s (un_UUID net) = Some net'" and "NetworkAdapter_attach api net d s = (e, s')"
  shows "inv s' \<and> rtrs s' = rtrs s \<and> ips s' = ips s \<and> prs s' = prs s"
    and "i \<noteq> un_UUID net \<Longrightarrow> nets s' i = nets s i"
    and "e = None \<Longrightarrow> nets s' (un_UUID net) = Some (if un_Router net = d then net' else net'\<lparr>un_Router := d\<rparr>)"
    and "nets s' (un_UUID net) \<noteq> None"
  using assms
  by (auto simp: NetworkAdapter_attach_def split: option.splits prod.splits if_splits
      dest!: attach_ok [OF assms(1)] attach_failed [OF assms(1)] detach_ok [OF assms(1)] detach_failed [OF assms(1)])

lemma network_update_spec:
  assumes "inv s" and "NetworkAdapter_Update L api gr n s = (e, n', s')"
  shows "inv s' \<and> rtrs s' = rtrs s \<and> ips s' = ips s \<and> prs s' = prs s \<and> n' = n"
    and "nets s' i = None \<longleftrightarrow> nets s i = None"
    and "nst_UUID (Status n) \<noteq> [] \<Longrightarrow> i \<noteq> nst_UUID (Status n) \<Longrightarrow> nets s' i = nets s i"
    and "e = None \<Longrightarrow> nst_UUID (Status n) \<noteq> [] \<Longrightarrow> Network_ExternalName n \<noteq> [] \<Longrightarrow>
      \<exists>net. nets s' (nst_UUID (Status n)) = Some net \<and> network_in_sync L gr n net"
proof -
  consider (early) "inv s'" "nets s' = nets s" "rtrs s' = rtrs s" "ips s' = ips s" "prs s' = prs s" "n' = n" "e \<noteq> None"
    | (run) d net s1 e2 s2 where "NetworkAdapter_desiredRouterUUID L gr n = Inr d"
        "NetworkAdapter_lookup api n s = (Inr (Some net), s1)"
        "NetworkAdapter_modify api n net s1 = (e2, s2)" "n' = n"
        "if e2 = None then NetworkAdapter_attach api net d s2 = (e, s') else e = e2 \<and> s' = s2"
  proof -
    obtain l s1 where look: "NetworkAdapter_lookup api n s = (l, s1)" by fastforce
    have frame: "inv s1" "nets s1 = nets s" "rtrs s1 = rtrs s" "ips s1 = ips s" "prs s1 = prs s"
      using nets.lookup_frame [OF assms(1) look [unfolded network_lookup_eq]] by simp_all
    show ?thesis
    proof (cases "NetworkAdapter_desiredRouterUUID L gr n")
      case (Inl x)
      then show ?thesis using early assms by (auto simp: NetworkAdapter_Update_def)
    next
      case d: (Inr d)
      show ?thesis
      proof (cases "\<exists>net. l = Inr (Some net)")
        case True
        then obtain net where l: "l = Inr (Some net)" by blast
        obtain e2 s2 where m: "NetworkAdapter_modify api n net s1 = (e2, s2)" by fastforce
        show ?thesis
          using run [OF d look [unfolded l] m] assms(2) d look l m
          by (auto simp: NetworkAdapter_Update_def split: prod.splits option.splits)
      next
        case False
        then show ?thesis
          using early frame assms(2) d look
          by (auto simp: NetworkAdapter_Update_def split: sum.splits option.splits)
      qed
    qed
  qed
  then have "inv s' \<and> rtrs s' = rtrs s \<and> ips s' = ips s \<and> prs s' = prs s \<and> n' = n \<and>
    (\<forall>i. nets s' i = None \<longleftrightarrow> nets s i = None) \<and>
    (nst_UUID (Status n) \<noteq> [] \<longrightarrow> (\<forall>i. i \<noteq> nst_UUID (Status n) \<longrightarrow> nets s' i = nets s i)) \<and>
    (e = None \<longrightarrow> nst_UUID (Status n) \<noteq> [] \<longrightarrow> Network_ExternalName n \<noteq> [] \<longrightarrow>
      (\<exists>net. nets s' (nst_UUID (Status n)) = Some net \<and> network_in_sync L gr n net))"
  proof cases
    case early
    then show ?thesis by auto
  next
    case run
    note look = nets.lookup_frame [OF assms(1) run(2) [unfolded network_lookup_eq]]
      nets.lookup_found [OF assms(1) run(2) [unfolded network_lookup_eq]]
    have s1: "inv s1" "nets s1 (un_UUID net) = Some net" using look by simp_all
    note m = network_modify_spec [OF s1 run(3)]
    show ?thesis
    proof (cases "e2 = None")
      case False
      then have "nets s2 = nets s1" "s' = s2" "e \<noteq> None" using m(3) run(5) by auto
      then show ?thesis using look m(1) run(4) by auto
    next
      case True
      then have at: "NetworkAdapter_attach api net d s2 = (e, s')" using run(5) by simp
      obtain net' where n2: "nets s2 (un_UUID net) = Some net'" using m(5) by blast
      note a = network_attach_spec [OF _ n2 at]
      have none: "nets s' i = None \<longleftrightarrow> nets s i = None" for i
        using a(2,4) m(1,2,5) s1 look(1) by (cases "i = un_UUID net") auto
      have other: "i \<noteq> un_UUID net \<Longrightarrow> nets s' i = nets s i" for i
        using a(2) m(1,2) look(1) by simp
      have goal: "\<exists>net. nets s' (nst_UUID (Status n)) = Some net \<and> network_in_sync L gr n net"
        if e: "e = None" and st: "nst_UUID (Status n) \<noteq> []" "Network_ExternalName n \<noteq> []"
      proof -
        have u: "un_UUID net = nst_UUID (Status n)" using look(4) st(1) by simp
        have "nets s' (un_UUID net) = Some (if un_Router net = d then net' else net'\<lparr>un_Router := d\<rparr>)"
          using a(3) m(1) e by simp
        then show ?thesis using m(4) [OF True st(2)] n2 u run(1) by (auto simp: network_in_sync_def)
      qed
      show ?thesis using look a(1) m(1) none other goal run(4) by auto
    qed
  qed
  then show "inv s' \<and> rtrs s' = rtrs s \<and> ips s' = ips s \<and> prs s' = prs s \<and> n' = n"
    "nets s' i = None \<longleftrightarrow> nets s i = None"
    "nst_UUID (Status n) \<noteq> [] \<Longrightarrow> i \<noteq> nst_UUID (Status n) \<Longrightarrow> nets s' i = nets s i"
    "e = None \<Longrightarrow> nst_UUID (Status n) \<noteq> [] \<Longrightarrow> Network_ExternalName n \<noteq> [] \<Longrightarrow>
      \<exists>net. nets s' (nst_UUID (Status n)) = Some net \<and> network_in_sync L gr n net"
    by blast+
qed

lemma network_delete_spec:
  assumes "inv s" and "NetworkAdapter_Delete api n s = (e, n', s')"
  shows "inv s' \<and> rtrs s' = rtrs s \<and> ips s' = ips s \<and> prs s' = prs s \<and> n' = n"
    and "network_rid n \<noteq> Some i \<Longrightarrow> nets s' i = nets s i"
    and "e = None \<Longrightarrow> network_rid n = Some i \<Longrightarrow> nets s' i = None"
  using assms nets.deleteByID_frame [OF assms(1)] nets.deleteByID_gone [OF assms(1)]
  by (auto simp: NetworkAdapter_Delete_def split: prod.splits)

end

text \<open>The adapter keeps the contract of the reconcile loop on every service.\<close>

sublocale network_service \<subseteq> network_ctr: adapter_contract Network_Object "NetworkAdapter L api gr" inv
    "\<lambda>i s. nets s i \<noteq> None" network_rid for L gr
proof (rule table_adapter_contract [OF network_object.managed_object_axioms])
  fix s x r x' s'
  assume "inv s" "ad_Observe (NetworkAdapter L api gr) x s = (r, x', s')"
  then show "inv s' \<and> nets s' = nets s \<and> GetMeta Network_Object x' = GetMeta Network_Object x"
    using network_observe_frame by simp
next
  fix s x obs x' s'
  assume "inv s" "ad_Observe (NetworkAdapter L api gr) x s = (Inr obs, x', s')" "ob_Exists obs"
  then show "nst_UUID (Status x') \<noteq> [] \<and> nets s (nst_UUID (Status x')) \<noteq> None"
    using network_observe_found by fastforce
next
  fix s x e x' s'
  assume I: "inv s" and "ad_Create (NetworkAdapter L api gr) x s = (e, x', s')"
  then show "inv s' \<and> GetMeta Network_Object x' = GetMeta Network_Object x \<and> (\<forall>i. nets s i \<noteq> None \<longrightarrow> nets s' i \<noteq> None) \<and>
      (e = None \<longrightarrow> nst_UUID (Status x') \<noteq> [] \<and> nets s' (nst_UUID (Status x')) \<noteq> None)"
    using network_create_spec [OF I] by (cases e) fastforce+
next
  fix s x e x' s'
  assume "inv s" "ad_Update (NetworkAdapter L api gr) x s = (e, x', s')"
  then show "inv s' \<and> GetMeta Network_Object x' = GetMeta Network_Object x \<and>
      (\<forall>i. network_rid x \<noteq> Some i \<longrightarrow> nets s i \<noteq> None \<longrightarrow> nets s' i \<noteq> None)"
    using network_update_spec(1,2) by (metis NetworkAdapter_sel(3))
next
  fix s x e x' s'
  assume "inv s" "ad_Delete (NetworkAdapter L api gr) x s = (e, x', s')"
  then show "inv s' \<and> GetMeta Network_Object x' = GetMeta Network_Object x \<and> (\<forall>i. network_rid x \<noteq> Some i \<longrightarrow> nets s' i = nets s i) \<and>
      (e = None \<longrightarrow> nst_UUID (Status x) \<noteq> [] \<longrightarrow> nets s' (nst_UUID (Status x)) = None)"
    using network_delete_spec by (metis NetworkAdapter_sel(4) rid_of_simps(2))
qed

subsection \<open>internal/controller/network/network_controller.go\<close>

text \<open>
  The controller is its reconciler together with the map function that is registered for
  Router events; \<open>listNetworks\<close> is the client's \<open>List\<close> in a namespace.
\<close>

definition FinalizerNetwork :: string where
  "FinalizerNetwork = ''network.upcloud.polarsquad.com/network''"

definition SetupNetworkController ::
  "Lib \<Rightarrow> (Network, 'k) Client \<Rightarrow> 's NetworkAPI \<Rightarrow> Router getter \<Rightarrow> (string \<Rightarrow> 'w \<Rightarrow> err + Network list) \<Rightarrow> Options
   \<Rightarrow> (Network, 'k \<times> 's) Reconciler \<times> (ObjectMeta \<Rightarrow> 'w \<Rightarrow> NamespacedName list)" where
  "SetupNetworkController L c api getRouter listNetworks opts =
     (mkReconciler L Network_Object c (NetworkAdapter L api getRouter) FinalizerNetwork opts,
      DependentsOf listNetworks Meta
        (\<lambda>n. case nsp_RouterRef (Spec n) of None \<Rightarrow> [] | Some ref \<Rightarrow> [lor_Name ref]))"

abbreviation networkReconciler where
  "networkReconciler L c api gr opts \<equiv>
     mkReconciler L Network_Object c (NetworkAdapter L api gr) FinalizerNetwork opts"

subsection \<open>Passes over a Network\<close>

context network_service
begin

lemma network_observe_lost_status:
  assumes "inv s" and "nst_UUID (Status n) = []" and "nets s i = Some net"
    and "HasUID (un_Labels net) (om_UID (Meta n))"
    and "NetworkAdapter_Observe L api gr n s = (Inr obs, n', s')"
  shows "ob_Exists obs"
  using assms(2-5) nets.lookup_absent(2) [OF assms(1), of "[]" "Meta n" _ i net]
  by (auto simp: NetworkAdapter_Observe_def network_lookup_eq Let_def split: sum.splits prod.splits option.splits)

lemma network_observe_sees:
  assumes "inv s" and "nets s (nst_UUID (Status n)) = Some net"
    and "NetworkAdapter_Observe L api gr n s = (Inr obs, n', s')"
  shows "ob_Exists obs \<and> ob_Ready obs \<and> (ob_UpToDate obs \<longleftrightarrow> network_in_sync L gr n net)"
proof -
  obtain r s1 d where l: "NetworkAdapter_lookup api n s = (Inr r, s1)"
    and d: "NetworkAdapter_desiredRouterUUID L gr n = Inr d"
    using assms(3) by (auto simp: NetworkAdapter_Observe_def split: sum.splits prod.splits)
  have "r = Some net" using nets.lookup_present [OF assms(1) l [unfolded network_lookup_eq] assms(2)] .
  then show ?thesis
    using assms(3) l d
    by (auto simp: NetworkAdapter_Observe_def Let_def network_in_sync_def)
qed

lemma network_update_quiet:
  assumes "inv s" and "nets s (nst_UUID (Status n)) = Some net" and "network_in_sync L gr n net"
    and "NetworkAdapter_Update L api gr n s = (e, n', s')"
  shows "s' = snd (NetworkAdapter_lookup api n s) \<and> nets s' = nets s"
proof -
  obtain l s1 where look: "NetworkAdapter_lookup api n s = (l, s1)" by fastforce
  have "nets s1 = nets s" using nets.lookup_frame [OF assms(1) look [unfolded network_lookup_eq]] by simp
  moreover have "r = Some net" if "l = Inr r" for r
    using nets.lookup_present [OF assms(1) look [unfolded network_lookup_eq that] assms(2)] .
  ultimately show ?thesis
    using assms(3,4) look
    by (cases l) (auto simp: NetworkAdapter_Update_def NetworkAdapter_modify_def NetworkAdapter_attach_def
        network_in_sync_def Let_def)
qed

lemma network_observe_identity:
  assumes "inv s" and "nst_UUID (Status n) = []" and "nets s i = Some net"
    and "HasUID (un_Labels net) (om_UID (Meta n))" and "NetworkAdapter_Observe L api gr n s = (r, n', s')"
  shows "if isl r then n' = n
    else \<exists>own. nets s (nst_UUID (Status n')) = Some own \<and> HasUID (un_Labels own) (om_UID (Meta n))"
proof (cases r)
  case (Inl e)
  then show ?thesis
    using assms(5) by (auto simp: NetworkAdapter_Observe_def Let_def split: sum.splits prod.splits option.splits)
next
  case (Inr obs)
  then have "ob_Exists obs" using network_observe_lost_status [OF assms(1-4)] assms(5) by blast
  then obtain own s1 where l: "NetworkAdapter_lookup api n s = (Inr (Some own), s1)" "nst_UUID (Status n') = un_UUID own"
    using assms(5) Inr
    by (auto simp: NetworkAdapter_Observe_def NoObservation_def Let_def split: sum.splits prod.splits option.splits)
  then show ?thesis
    using nets.lookup_found(1,4) [OF assms(1) l(1) [unfolded network_lookup_eq]] assms(2) Inr by auto
qed

lemma network_pass_adopts:
  assumes inv: "inv s" and lost: "nst_UUID (Status n) = []" and net: "nets s i = Some net"
    and own: "HasUID (un_Labels net) (om_UID (Meta n))"
    and pass: "reconcileNormal (defaults (networkReconciler L c api gr opts)) n (k, s) = (out, (k', s'))"
  shows "dom (nets s') = dom (nets s) \<and>
    (\<exists>n'. k' = snd (cl_StatusPatch c n' n k) \<and>
      (if isl (fst (NetworkAdapter_Observe L api gr n s)) then nst_UUID (Status n') = []
       else \<exists>own. nets s (nst_UUID (Status n')) = Some own \<and> HasUID (un_Labels own) (om_UID (Meta n))))"
proof -
  obtain r n1 s1 where o: "NetworkAdapter_Observe L api gr n s = (r, n1, s1)" by (metis prod.exhaust)
  have f: "inv s1" "nets s1 = nets s" using network_observe_frame [OF inv o] by simp_all
  have ex: "r = Inr obs \<Longrightarrow> ob_Exists obs" for obs
    using network_observe_lost_status [OF inv lost net own] o by blast
  obtain e n2 s2 where u: "NetworkAdapter_Update L api gr n1 s1 = (e, n2, s2)" by (metis prod.exhaust)
  have n2: "n2 = n1" using network_update_spec(1) [OF f(1) u] by simp
  have "dom (nets s2) = dom (nets s1)"
    using network_update_spec(2) [OF f(1) u] by (intro set_eqI) (simp only: domIff)
  moreover have "ad_Observe (NetworkAdapter L api gr) n s = (r, n1, s1)"
    "ad_Update (NetworkAdapter L api gr) n1 s1 = (e, n1, s2)" using o u n2 by simp_all
  note w = existing_pass_written [OF this(1) ex this(2) pass]
  then obtain st rs m where "k' = snd (cl_StatusPatch c (SetReady L Network_Object n1 st rs m) n k)" by blast
  moreover have "nst_UUID (Status (SetReady L Network_Object n1 st rs m)) = nst_UUID (Status n1)"
    using network_object.SetReady_frame(2) [of L n1 st rs m] by simp
  ultimately show ?thesis
    using f network_observe_identity [OF inv lost net own o] lost o w
    by (intro conjI exI [of _ "SetReady L Network_Object n1 st rs m"]) auto
qed

lemmas network_no_leak = network_ctr.delete_pass_no_leak

end

subsection \<open>A small account for the witnesses\<close>

text \<open>One object, and the in-memory service after one create call with another name.\<close>

definition demo_Network :: "string \<Rightarrow> Network" where
  "demo_Network u =
     \<lparr>Meta = demo_meta FinalizerNetwork,
      Spec = \<lparr>nsp_Name = '''', nsp_Zone = ''fi-hel1'', nsp_IPNetworks = [], nsp_RouterRef = None,
              nsp_RouterUUID = '''', nsp_Labels = [], nsp_DeletionPolicy = ''Delete''\<rparr>,
      Status = \<lparr>nst_Conditions = [], nst_UUID = u, nst_RouterUUID = ''''\<rparr>\<rparr>"

definition demo_create :: "string \<Rightarrow> CreateNetworkRequest" where
  "demo_create name = \<lparr>cn_Name = name, cn_Zone = ''fi-hel1'', cn_Router = '''', cn_IPNetworks = [],
     cn_Labels = OwnerLabels (demo_meta FinalizerNetwork)\<rparr>"

definition demo_account :: "string \<Rightarrow> NetworkFake" where
  "demo_account name = snd (fake_CreateNetwork (demo_create name) NewNetworkAPI)"

definition demo_uuid :: string where
  "demo_uuid = uuid ''net'' 1"

lemma demo_uuid_nonempty [simp]: "demo_uuid \<noteq> []" "[] \<noteq> demo_uuid"
  by (simp_all add: demo_uuid_def)

lemma demo_account_eq:
  "demo_account name =
     NewNetworkAPI\<lparr>nf_Calls := [''CreateNetwork''], nf_seq := 1,
       nf_Networks := [(demo_uuid, \<lparr>un_UUID = demo_uuid, un_Name = name, un_Zone = ''fi-hel1'', un_Type = ''private'',
         un_Router = '''', un_IPNetworks = [], un_Labels = OwnerLabels (demo_meta FinalizerNetwork)\<rparr>)]\<rparr>"
  by (simp add: demo_account_def demo_uuid_def demo_create_def fake_CreateNetwork_def nf_record_def nf_nextUUID_def
      NewNetworkAPI_def Let_def)

lemma demo_account_inv [simp]: "net_inv (demo_account name)"
proof -
  obtain r s' where c: "fake_CreateNetwork (demo_create name) NewNetworkAPI = (r, s')" by fastforce
  show ?thesis
    using fake_CreateNetwork_law [OF net_inv_new c] by (cases r) (simp_all add: demo_account_def c)
qed

lemma demo_labels [simp]:
  "network_desired_labels (demo_Network u) = [mkLabel LabelUID ''u1'', mkLabel LabelManagedBy ManagedByValue]"
  by (simp add: network_desired_labels_def demo_Network_def demo_meta_def DesiredLabels_def OwnerLabels_def
      sortLabels_def LabelUID_def LabelManagedBy_def)

lemmas demo_net_defs = demo_account_eq demo_Network_def demo_meta_def NetworkAdapter_Update_def
  NetworkAdapter_Observe_def NetworkAdapter_lookup_def lookupOwned_def getByID_def
  NetworkAdapter_desiredRouterUUID_def NetworkAdapter_modify_def NetworkAdapter_attach_def
  fake_GetNetworks_def fake_GetNetworkDetails_def fake_ModifyNetwork_def nf_record_def nf_call_def
  NewNetworkAPI_def Network_ExternalName_def nameOrMeta_def Let_def

lemma demo_in_sync:
  "fake_nets (demo_account ''net'') demo_uuid = Some net \<Longrightarrow>
     network_in_sync ref_Lib no_objects (demo_Network u) net"
  unfolding network_in_sync_def demo_labels
  by (auto simp: demo_account_eq demo_Network_def demo_meta_def OwnerLabels_def Network_ExternalName_def
      nameOrMeta_def NetworkAdapter_desiredRouterUUID_def)

definition demo_network_rec :: "(Network, Network \<times> NetworkFake) Reconciler" where
  "demo_network_rec = fst (SetupNetworkController ref_Lib demo_client fakeNetworkAPI no_objects
     (\<lambda>ns (w :: unit). Inr []) \<lparr>opt_SteadyRequeue = 0\<rparr>)"

lemma demo_Network_sel [simp]:
  "nst_UUID (Status (demo_Network u)) = u" "Meta (demo_Network u) = demo_meta FinalizerNetwork"
  "nsp_DeletionPolicy (Spec (demo_Network u)) \<noteq> DeletionPolicyOrphan"
  by (simp_all add: demo_Network_def DeletionPolicyOrphan_def)

lemma demo_client_sel [simp]:
  "cl_Update demo_client x k = (None, x)" "cl_StatusPatch demo_client x b k = (None, x)"
  by (simp_all add: demo_client_def)

lemma demo_network_fin: "hasFinalizer demo_network_rec (demo_Network u)"
  by (simp add: demo_network_rec_def SetupNetworkController_def hasFinalizer_def ref_Lib_def demo_Network_def demo_meta_def)

subsection \<open>Properties\<close>

text \<open>
  C3. Convergence. When Update of a recorded network succeeds, the next observation,
  against any service that keeps the contract, reports it up to date and ready: one
  successful Update ends the drift. (Kubernetes names are not empty, so neither is the
  external name.)
\<close>

theorem network_update_converges:
  assumes svc: "network_service api I nets rtrs ips prs" and I: "I s"
    and st: "nst_UUID (Status n) \<noteq> []" "Network_ExternalName n \<noteq> []"
    and up: "NetworkAdapter_Update L api gr n s = (None, n', s')"
    and ob: "NetworkAdapter_Observe L api gr n' s' = (Inr obs, n'', s'')"
  shows "ob_Exists obs \<and> ob_UpToDate obs \<and> ob_Ready obs"
proof -
  have "I s'" "n' = n" using network_service.network_update_spec(1) [OF svc I up] by simp_all
  then show ?thesis
    using network_service.network_update_spec(4) [OF svc I up refl st]
      network_service.network_observe_sees [OF svc _ _ ob] by blast
qed

theorem network_update_converges_witness:
  "\<exists>obs n' s' n'' s''.
     NetworkAdapter_Update ref_Lib fakeNetworkAPI no_objects (demo_Network demo_uuid) (demo_account ''old'') = (None, n', s') \<and>
     NetworkAdapter_Observe ref_Lib fakeNetworkAPI no_objects n' s' = (Inr obs, n'', s'') \<and> ob_UpToDate obs"
proof -
  let ?s = "demo_account ''old''" and ?n = "demo_Network demo_uuid"
  obtain e n' s' where up: "NetworkAdapter_Update ref_Lib fakeNetworkAPI no_objects ?n ?s = (e, n', s')"
    by (metis prod.exhaust)
  then have e: "e = None" by (simp add: demo_net_defs)
  obtain r n'' s'' where ob: "NetworkAdapter_Observe ref_Lib fakeNetworkAPI no_objects n' s' = (r, n'', s'')"
    by (metis prod.exhaust)
  then obtain obs where r: "r = Inr obs" using up by (auto simp: demo_net_defs)
  show ?thesis
    using network_update_converges [OF fake_net.network_service_axioms demo_account_inv _ _ up [unfolded e] ob [unfolded r]]
      up e ob r
    by (auto simp: demo_Network_def demo_meta_def Network_ExternalName_def nameOrMeta_def)
qed

text \<open>
  Quiescence. When a network was observed up to date, Update would write nothing: it
  ends in the state its own read leaves, and every network is as before. So the
  adapter's two notions of drift, in Observe and in Update, agree.
\<close>

theorem network_in_sync_update_writes_nothing:
  assumes svc: "network_service api I nets rtrs ips prs" and I: "I s"
    and ob: "NetworkAdapter_Observe L api gr n s = (Inr obs, n1, s1)" and "ob_Exists obs" "ob_UpToDate obs"
    and up: "NetworkAdapter_Update L api gr n1 s1 = (e, n2, s2)"
  shows "s2 = snd (NetworkAdapter_lookup api n1 s1) \<and> nets s2 = nets s"
proof -
  note f = network_service.network_observe_frame [OF svc I ob]
  obtain net where net: "nets s (nst_UUID (Status n1)) = Some net"
    and sync: "network_in_sync L gr n1 net"
    using network_service.network_observe_found [OF svc I ob assms(4)] assms(5) by blast
  show ?thesis
    using network_service.network_update_quiet [OF svc _ _ sync up] f net by auto
qed

theorem network_in_sync_update_writes_nothing_witness:
  "\<exists>obs n1 s1 e n2 s2.
     NetworkAdapter_Observe ref_Lib fakeNetworkAPI no_objects (demo_Network demo_uuid) (demo_account ''net'') = (Inr obs, n1, s1) \<and>
     ob_UpToDate obs \<and> NetworkAdapter_Update ref_Lib fakeNetworkAPI no_objects n1 s1 = (e, n2, s2) \<and>
     fake_nets s2 = fake_nets (demo_account ''net'')"
proof -
  let ?s = "demo_account ''net''" and ?n = "demo_Network demo_uuid"
  obtain r n1 s1 where ob: "NetworkAdapter_Observe ref_Lib fakeNetworkAPI no_objects ?n ?s = (r, n1, s1)"
    by (metis prod.exhaust)
  then obtain obs where r0: "r = Inr obs" by (auto simp: demo_net_defs)
  obtain net where net: "fake_nets ?s demo_uuid = Some net" by (auto simp: demo_account_eq)
  have r: "r = Inr obs" "ob_Exists obs" "ob_UpToDate obs"
    using fake_net.network_observe_sees [OF demo_account_inv _ ob [unfolded r0]] net demo_in_sync [OF net] r0
    by (simp_all add: demo_Network_def)
  obtain e n2 s2 where up: "NetworkAdapter_Update ref_Lib fakeNetworkAPI no_objects n1 s1 = (e, n2, s2)"
    by (metis prod.exhaust)
  show ?thesis
    using network_in_sync_update_writes_nothing [OF fake_net.network_service_axioms demo_account_inv
        ob [unfolded r(1)] r(2,3) up] ob r up by blast
qed

text \<open>
  C12. Adoption. If the status write after a successful Create was lost, the next pass
  finds the network by its UID label: when some network carries the object's UID and the
  status has no identity, a pass creates and deletes no network, and the status it writes
  records the identity of a network with that label, unless Observe failed, in which case
  the identity stays empty and the next pass looks again.
\<close>

theorem network_lost_status_adopted:
  assumes svc: "network_service api I nets rtrs ips prs" and "I s"
    and "nst_UUID (Status n) = []"
    and "nets s i = Some net" and "HasUID (un_Labels net) (om_UID (Meta n))"
    and "reconcileNormal (defaults (fst (SetupNetworkController L c api gr ln opts))) n (k, s) = (out, (k', s'))"
  shows "dom (nets s') = dom (nets s) \<and>
    (\<exists>n'. k' = snd (cl_StatusPatch c n' n k) \<and>
      (if isl (fst (NetworkAdapter_Observe L api gr n s)) then nst_UUID (Status n') = []
       else \<exists>own. nets s (nst_UUID (Status n')) = Some own \<and> HasUID (un_Labels own) (om_UID (Meta n))))"
  by (rule network_service.network_pass_adopts [OF svc assms(2-5) assms(6) [unfolded SetupNetworkController_def fst_conv]])

theorem network_lost_status_adopted_witness:
  "\<exists>out k' s'.
     reconcileNormal (defaults demo_network_rec) (demo_Network []) (demo_Network [], demo_account ''old'')
       = (out, (k', s')) \<and> dom (fake_nets s') = {demo_uuid} \<and> nst_UUID (Status k') = demo_uuid"
proof -
  let ?r = "defaults demo_network_rec"
  obtain out k' s' where pass: "reconcileNormal ?r (demo_Network []) (demo_Network [], demo_account ''old'') = (out, (k', s'))"
    by (metis prod.exhaust)
  have net: "fake_nets (demo_account ''old'') demo_uuid \<noteq> None" "dom (fake_nets (demo_account ''old'')) = {demo_uuid}"
    by (auto simp: demo_account_eq split: if_splits)
  then obtain n where n: "fake_nets (demo_account ''old'') demo_uuid = Some n" by blast
  then have l: "HasUID (un_Labels n) (om_UID (Meta (demo_Network [])))"
    by (auto simp: demo_account_eq demo_Network_def demo_meta_def OwnerLabels_def)
  have "\<not> isl (fst (NetworkAdapter_Observe ref_Lib fakeNetworkAPI no_objects (demo_Network []) (demo_account ''old'')))"
    by code_simp
  then have "dom (fake_nets s') = dom (fake_nets (demo_account ''old''))"
      "nst_UUID (Status k') \<in> dom (fake_nets (demo_account ''old''))"
    using network_lost_status_adopted [OF fake_net.network_service_axioms demo_account_inv demo_Network_sel(1) n l
        pass [unfolded demo_network_rec_def]]
    by (auto simp: demo_client_def)
  then show ?thesis using net(2) pass by auto
qed

text \<open>
  C7. No leak. A deletion pass over a Network with a recorded identity and a policy other
  than Orphan either leaves the network deleted, or writes only the status of an object
  that keeps its finalizer, so that the deletion is tried again.
\<close>

theorem network_delete_pass_no_leak:
  assumes svc: "network_service api I nets rtrs ips prs" and "I s"
    and "nst_UUID (Status n) \<noteq> []" and "nsp_DeletionPolicy (Spec n) \<noteq> DeletionPolicyOrphan"
    and "hasFinalizer (fst (SetupNetworkController L c api gr ln opts)) n"
    and "reconcileDelete (defaults (fst (SetupNetworkController L c api gr ln opts))) n (k, s) = (out, (k', s'))"
  shows "nets s' (nst_UUID (Status n)) = None \<or>
    (\<exists>n'. hasFinalizer (fst (SetupNetworkController L c api gr ln opts)) n' \<and> k' = snd (cl_StatusPatch c n' n k))"
  using network_service.network_no_leak [OF svc assms(2), of n "nst_UUID (Status n)"] assms(3-6)
  by (simp add: SetupNetworkController_def)

theorem network_delete_pass_no_leak_witness:
  "\<exists>out k' s'. reconcileDelete (defaults demo_network_rec) (demo_Network demo_uuid)
       (demo_Network demo_uuid, demo_account ''net'') = (out, (k', s')) \<and>
     (fake_nets s' demo_uuid = None \<or> (\<exists>n'. hasFinalizer demo_network_rec n' \<and> k' = n'))"
proof -
  let ?n = "demo_Network demo_uuid"
  obtain out k' s' where pass: "reconcileDelete (defaults demo_network_rec) ?n (?n, demo_account ''net'') = (out, (k', s'))"
    by (metis prod.exhaust)
  have "fake_nets s' (nst_UUID (Status ?n)) = None \<or>
      (\<exists>n'. hasFinalizer demo_network_rec n' \<and> k' = snd (cl_StatusPatch demo_client n' ?n ?n))"
    unfolding demo_network_rec_def
    by (rule network_delete_pass_no_leak [OF fake_net.network_service_axioms demo_account_inv _ _ _
        pass [unfolded demo_network_rec_def]])
      (simp_all add: demo_network_fin [unfolded demo_network_rec_def])
  then show ?thesis using pass by auto
qed

text \<open>
  C31. The limit of that. With no identity in the status, which is what remains when the
  status write after Create was lost, a deletion pass removes the finalizer without
  calling the cloud: unlike Observe, Delete does not look the network up by its label,
  and a network that carries the object's UID stays behind.
\<close>

theorem network_delete_after_lost_status_leaks:
  assumes "nst_UUID (Status n) = []" and "nsp_DeletionPolicy (Spec n) \<noteq> DeletionPolicyOrphan"
    and "hasFinalizer (fst (SetupNetworkController L c api gr ln opts)) n"
  shows "reconcileDelete (defaults (fst (SetupNetworkController L c api gr ln opts))) n (k, s) =
    (let (e, k') = cl_Update c (removeFinalizer (fst (SetupNetworkController L c api gr ln opts)) n) k
     in ((Result0, e), (k', s)))"
  using assms
  by (simp add: SetupNetworkController_def reconcileDelete_def hasFinalizer_def releaseObject_def
      removeFinalizer_def withFinalizers_def NetworkAdapter_Delete_def Let_def split: prod.split)

theorem network_delete_after_lost_status_leaks_witness:
  "\<exists>k'. reconcileDelete (defaults demo_network_rec) (demo_Network []) (demo_Network [], demo_account ''net'')
       = ((Result0, None), (k', demo_account ''net'')) \<and>
     (\<exists>net. fake_nets (demo_account ''net'') demo_uuid = Some net \<and> HasUID (un_Labels net) (om_UID (Meta (demo_Network []))))"
proof -
  have "reconcileDelete (defaults demo_network_rec) (demo_Network []) (demo_Network [], demo_account ''net'')
      = ((Result0, None), (removeFinalizer demo_network_rec (demo_Network []), demo_account ''net''))"
    unfolding demo_network_rec_def
    by (subst network_delete_after_lost_status_leaks)
      (simp_all add: demo_network_fin [unfolded demo_network_rec_def])
  moreover have "\<exists>net. fake_nets (demo_account ''net'') demo_uuid = Some net \<and>
      HasUID (un_Labels net) (om_UID (Meta (demo_Network [])))"
    by (auto simp: demo_account_eq demo_Network_def demo_meta_def OwnerLabels_def)
  ultimately show ?thesis by blast
qed

end
