(* ===== verification/RouterAdapter.thy ===== *)
theory RouterAdapter
  imports NetworkAdapter
begin

text \<open>
  \<open>internal/controller/network/router_adapter.go\<close> and \<open>router_controller.go\<close>. A router has
  no references; deleting one that still has networks attached is a conflict, which the
  adapter turns into \<open>ErrPending\<close>.
\<close>

subsection \<open>The adapter\<close>

definition RouterAdapter_lookup :: "'s NetworkAPI \<Rightarrow> Router \<Rightarrow> 's \<Rightarrow> (err + upRouter option) \<times> 's" where
  "RouterAdapter_lookup api r =
     lookupOwned (GetRouterDetails api) (\<lambda>m. GetRouters api [UIDFilter m]) ur_Labels (rst_UUID (Status r)) (Meta r)"

definition router_desired_labels :: "Router \<Rightarrow> Label list" where
  "router_desired_labels r = DesiredLabels (Meta r) (rsp_Labels (Spec r))"

definition RouterAdapter_Observe ::
  "'s NetworkAPI \<Rightarrow> Router \<Rightarrow> 's \<Rightarrow> (err + Observation) \<times> Router \<times> 's" where
  "RouterAdapter_Observe api r s =
     (case RouterAdapter_lookup api r s of
        (Inl e, s1) \<Rightarrow> (Inl (Wrap ''get router'' e), r, s1)
      | (Inr None, s1) \<Rightarrow> (Inr NoObservation, r, s1)
      | (Inr (Some rt), s1) \<Rightarrow>
          let r1 = r\<lparr>Status := (Status r)\<lparr>rst_UUID := ur_UUID rt, rst_AttachedNetworks := ur_AttachedNetworks rt\<rparr>\<rparr>;
              upToDate = (ur_Name rt = Router_ExternalName r1 \<and>
                routesEqual (userRoutes (ur_StaticRoutes rt)) (toStaticRoutes (rsp_StaticRoutes (Spec r1))) \<and>
                LabelsEqual (ur_Labels rt) (router_desired_labels r1))
          in (Inr \<lparr>ob_Exists = True, ob_UpToDate = upToDate, ob_Ready = True, ob_Message = ''''\<rparr>, r1, s1))"

definition RouterAdapter_Create :: "'s NetworkAPI \<Rightarrow> Router \<Rightarrow> 's \<Rightarrow> err option \<times> Router \<times> 's" where
  "RouterAdapter_Create api r s =
     (case CreateRouter api
             \<lparr>crr_Name = Router_ExternalName r, crr_Labels = router_desired_labels r,
              crr_StaticRoutes = toStaticRoutes (rsp_StaticRoutes (Spec r))\<rparr> s of
        (Inl e, s1) \<Rightarrow> (Some (Wrap ''create router'' e), r, s1)
      | (Inr rt, s1) \<Rightarrow> (None, r\<lparr>Status := (Status r)\<lparr>rst_UUID := ur_UUID rt\<rparr>\<rparr>, s1))"

definition RouterAdapter_Update :: "'s NetworkAPI \<Rightarrow> Router \<Rightarrow> 's \<Rightarrow> err option \<times> Router \<times> 's" where
  "RouterAdapter_Update api r s =
     (let labels = router_desired_labels r; routes = toStaticRoutes (rsp_StaticRoutes (Spec r)) in
      case ModifyRouter api
             \<lparr>mr_UUID = rst_UUID (Status r), mr_Name = Router_ExternalName r, mr_Labels = Some labels,
              mr_StaticRoutes = Some routes\<rparr> s of
        (Inl e, s1) \<Rightarrow> (Some (Wrap ''modify router'' e), r, s1)
      | (Inr _, s1) \<Rightarrow> (None, r, s1))"

definition RouterAdapter_Delete :: "'s NetworkAPI \<Rightarrow> Router \<Rightarrow> 's \<Rightarrow> err option \<times> Router \<times> 's" where
  "RouterAdapter_Delete api r s =
     (case deleteByID ''delete router'' (DeleteRouter api) (rst_UUID (Status r)) s of (e, s1) \<Rightarrow> (e, r, s1))"

definition RouterAdapter :: "'s NetworkAPI \<Rightarrow> (Router, 's) Adapter" where
  "RouterAdapter api =
     \<lparr>ad_Observe = RouterAdapter_Observe api, ad_Create = RouterAdapter_Create api,
      ad_Update = RouterAdapter_Update api, ad_Delete = RouterAdapter_Delete api\<rparr>"

definition FinalizerRouter :: string where
  "FinalizerRouter = ''network.upcloud.polarsquad.com/router''"

definition SetupRouterController ::
  "Lib \<Rightarrow> (Router, 'k) Client \<Rightarrow> 's NetworkAPI \<Rightarrow> Options \<Rightarrow> (Router, 'k \<times> 's) Reconciler" where
  "SetupRouterController L c api opts = mkReconciler L Router_Object c (RouterAdapter api) FinalizerRouter opts"

lemma RouterAdapter_sel [simp]:
  "ad_Observe (RouterAdapter api) = RouterAdapter_Observe api" "ad_Create (RouterAdapter api) = RouterAdapter_Create api"
  "ad_Update (RouterAdapter api) = RouterAdapter_Update api" "ad_Delete (RouterAdapter api) = RouterAdapter_Delete api"
  by (simp_all add: RouterAdapter_def)

lemma Router_Object_sel [simp]:
  "GetMeta Router_Object = Meta" "GetExternalID Router_Object r = rst_UUID (Status r)"
  "GetDeletionPolicy Router_Object r = rsp_DeletionPolicy (Spec r)"
  by (simp_all add: Router_Object_def)

subsection \<open>The operations against the service contract\<close>

abbreviation router_rid :: "Router \<Rightarrow> string option" where
  "router_rid r \<equiv> rid_of (rst_UUID (Status r))"

text \<open>The specification: the API router is the one the object asks for.\<close>

definition router_in_sync :: "Router \<Rightarrow> upRouter \<Rightarrow> bool" where
  "router_in_sync r rt \<longleftrightarrow>
     ur_Name rt = Router_ExternalName r \<and>
     routesEqual (userRoutes (ur_StaticRoutes rt)) (toStaticRoutes (rsp_StaticRoutes (Spec r))) \<and>
     LabelsEqual (ur_Labels rt) (router_desired_labels r)"

lemma router_status_irrelevant [simp]:
  "Router_ExternalName (r\<lparr>Status := st\<rparr>) = Router_ExternalName r"
  "router_desired_labels (r\<lparr>Status := st\<rparr>) = router_desired_labels r"
  "router_in_sync (r\<lparr>Status := st\<rparr>) rt \<longleftrightarrow> router_in_sync r rt"
  by (simp_all add: router_in_sync_def router_desired_labels_def Router_ExternalName_def)

lemma routes_just_written:
  "routesEqual (userRoutes (toStaticRoutes rs)) (toStaticRoutes rs)"
  unfolding routesEqual_iff userRoutes_toStaticRoutes_key ..

context network_service
begin

lemma router_lookup_eq:
  "RouterAdapter_lookup api r = rtrs.lookup_by (rst_UUID (Status r)) (Meta r)"
  by (simp add: RouterAdapter_lookup_def)

lemma router_observe_frame:
  assumes "inv s" and "RouterAdapter_Observe api r s = (out, r', s')"
  shows "inv s' \<and> nets s' = nets s \<and> rtrs s' = rtrs s \<and> ips s' = ips s \<and> prs s' = prs s \<and>
    Meta r' = Meta r \<and> Spec r' = Spec r"
  using assms rtrs.lookup_frame [OF assms(1)]
  by (auto simp: RouterAdapter_Observe_def router_lookup_eq Let_def split: sum.splits prod.splits option.splits)

lemma router_observe_found:
  assumes "inv s" and "RouterAdapter_Observe api r s = (Inr obs, r', s')" and "ob_Exists obs"
  shows "\<exists>rt. rtrs s (rst_UUID (Status r')) = Some rt \<and> rst_UUID (Status r') \<noteq> [] \<and>
    (rst_UUID (Status r) \<noteq> [] \<longrightarrow> rst_UUID (Status r') = rst_UUID (Status r)) \<and> ob_Ready obs \<and>
    (ob_UpToDate obs \<longleftrightarrow> router_in_sync r' rt)"
proof -
  obtain rt s1 where l: "RouterAdapter_lookup api r s = (Inr (Some rt), s1)"
    using assms(2,3) by (auto simp: RouterAdapter_Observe_def NoObservation_def split: sum.splits prod.splits option.splits)
  note look = rtrs.lookup_found [OF assms(1) l [unfolded router_lookup_eq]]
  show ?thesis
    using assms(2,3) l look
    by (intro exI [of _ rt]) (auto simp: RouterAdapter_Observe_def Let_def router_in_sync_def)
qed

lemma router_observe_sees:
  assumes "inv s" and "rtrs s (rst_UUID (Status r)) = Some rt"
    and "RouterAdapter_Observe api r s = (Inr obs, r', s')"
  shows "ob_Exists obs \<and> ob_Ready obs \<and> (ob_UpToDate obs \<longleftrightarrow> router_in_sync r rt)"
proof -
  obtain x s1 where l: "RouterAdapter_lookup api r s = (Inr x, s1)"
    using assms(3) by (auto simp: RouterAdapter_Observe_def split: sum.splits prod.splits)
  have "x = Some rt" using rtrs.lookup_present [OF assms(1) l [unfolded router_lookup_eq] assms(2)] .
  then show ?thesis
    using assms(3) l by (auto simp: RouterAdapter_Observe_def Let_def router_in_sync_def)
qed

lemma router_create_spec:
  assumes "inv s" and "RouterAdapter_Create api r s = (e, r', s')"
  shows "inv s' \<and> nets s' = nets s \<and> ips s' = ips s \<and> prs s' = prs s \<and> Meta r' = Meta r \<and> Spec r' = Spec r"
    and "e \<noteq> None \<Longrightarrow> rtrs s' = rtrs s \<and> r' = r"
    and "e = None \<Longrightarrow> \<exists>rt. rtrs s (rst_UUID (Status r')) = None \<and>
      rtrs s' = (rtrs s)(rst_UUID (Status r') \<mapsto> rt) \<and> rst_UUID (Status r') \<noteq> [] \<and> router_in_sync r rt"
  using assms
  by - (fastforce simp: RouterAdapter_Create_def router_built_def router_in_sync_def routes_just_written
      split: sum.splits prod.splits dest!: rtrs.create_ok [OF assms(1)] rtrs.create_failed [OF assms(1)])+

lemma router_update_spec:
  assumes "inv s" and "RouterAdapter_Update api r s = (e, r', s')"
  shows "inv s' \<and> nets s' = nets s \<and> ips s' = ips s \<and> prs s' = prs s \<and> r' = r"
    and "rtrs s' i = None \<longleftrightarrow> rtrs s i = None"
    and "i \<noteq> rst_UUID (Status r) \<Longrightarrow> rtrs s' i = rtrs s i"
    and "e = None \<Longrightarrow> \<exists>rt. rtrs s' (rst_UUID (Status r)) = Some rt \<and> router_in_sync r rt"
  using assms
  by (auto simp: RouterAdapter_Update_def router_patched_def router_in_sync_def routes_just_written Let_def
      split: sum.splits prod.splits if_splits
      dest!: rtrs.modify_ok [OF assms(1)] rtrs.modify_failed [OF assms(1)])

lemma router_delete_spec:
  assumes "inv s" and "RouterAdapter_Delete api r s = (e, r', s')"
  shows "inv s' \<and> nets s' = nets s \<and> ips s' = ips s \<and> prs s' = prs s \<and> r' = r"
    and "router_rid r \<noteq> Some i \<Longrightarrow> rtrs s' i = rtrs s i"
    and "e = None \<Longrightarrow> router_rid r = Some i \<Longrightarrow> rtrs s' i = None"
  using assms rtrs.deleteByID_frame [OF assms(1)] rtrs.deleteByID_gone [OF assms(1)]
  by (auto simp: RouterAdapter_Delete_def split: prod.splits)

end

sublocale network_service \<subseteq> router_ctr: adapter_contract Router_Object "RouterAdapter api" inv
    "\<lambda>i s. rtrs s i \<noteq> None" router_rid
proof (rule table_adapter_contract [OF router_object.managed_object_axioms])
  fix s x r x' s'
  assume "inv s" "ad_Observe (RouterAdapter api) x s = (r, x', s')"
  then show "inv s' \<and> rtrs s' = rtrs s \<and> GetMeta Router_Object x' = GetMeta Router_Object x"
    using router_observe_frame by simp
next
  fix s x obs x' s'
  assume "inv s" "ad_Observe (RouterAdapter api) x s = (Inr obs, x', s')" "ob_Exists obs"
  then show "rst_UUID (Status x') \<noteq> [] \<and> rtrs s (rst_UUID (Status x')) \<noteq> None"
    using router_observe_found by fastforce
next
  fix s x e x' s'
  assume I: "inv s" and "ad_Create (RouterAdapter api) x s = (e, x', s')"
  then show "inv s' \<and> GetMeta Router_Object x' = GetMeta Router_Object x \<and> (\<forall>i. rtrs s i \<noteq> None \<longrightarrow> rtrs s' i \<noteq> None) \<and>
      (e = None \<longrightarrow> rst_UUID (Status x') \<noteq> [] \<and> rtrs s' (rst_UUID (Status x')) \<noteq> None)"
    using router_create_spec [OF I] by (cases e) fastforce+
next
  fix s x e x' s'
  assume "inv s" "ad_Update (RouterAdapter api) x s = (e, x', s')"
  then show "inv s' \<and> GetMeta Router_Object x' = GetMeta Router_Object x \<and>
      (\<forall>i. router_rid x \<noteq> Some i \<longrightarrow> rtrs s i \<noteq> None \<longrightarrow> rtrs s' i \<noteq> None)"
    using router_update_spec(1,2) by (metis RouterAdapter_sel(3))
next
  fix s x e x' s'
  assume "inv s" "ad_Delete (RouterAdapter api) x s = (e, x', s')"
  then show "inv s' \<and> GetMeta Router_Object x' = GetMeta Router_Object x \<and> (\<forall>i. router_rid x \<noteq> Some i \<longrightarrow> rtrs s' i = rtrs s i) \<and>
      (e = None \<longrightarrow> rst_UUID (Status x) \<noteq> [] \<longrightarrow> rtrs s' (rst_UUID (Status x)) = None)"
    using router_delete_spec by (metis RouterAdapter_sel(4) rid_of_simps(2))
qed

end
