(* ===== verification/FloatingIPAdapter.thy ===== *)
theory FloatingIPAdapter
  imports NetworkAdapter
begin

text \<open>
  \<open>internal/controller/network/floatingip_adapter.go\<close> and \<open>floatingip_controller.go\<close>. An
  address carries no labels, so there is no adoption: the address in the status is the
  only link between object and cloud.
\<close>

subsection \<open>The adapter\<close>

definition FloatingIPAdapter_lookup :: "'s NetworkAPI \<Rightarrow> FloatingIP \<Rightarrow> 's \<Rightarrow> (err + upIPAddress option) \<times> 's" where
  "FloatingIPAdapter_lookup api f s =
     (if fst_Address (Status f) = '''' then (Inr None, s)
      else getByID (GetIPAddressDetails api) (fst_Address (Status f)) s)"

definition FloatingIPAdapter_Observe ::
  "'s NetworkAPI \<Rightarrow> FloatingIP \<Rightarrow> 's \<Rightarrow> (err + Observation) \<times> FloatingIP \<times> 's" where
  "FloatingIPAdapter_Observe api f s =
     (case FloatingIPAdapter_lookup api f s of
        (Inl e, s1) \<Rightarrow> (Inl (Wrap ''get ip address'' e), f, s1)
      | (Inr None, s1) \<Rightarrow> (Inr NoObservation, f, s1)
      | (Inr (Some ip), s1) \<Rightarrow>
          let f1 = f\<lparr>Status := (Status f)\<lparr>fst_Address := uip_Address ip, fst_MAC := uip_MAC ip,
                       fst_PartOfPlan := uip_PartOfPlan ip\<rparr>\<rparr>;
              upToDate = (uip_Zone ip = fsp_Zone (Spec f1) \<and> uip_Family ip = fsp_Family (Spec f1) \<and>
                uip_Access ip = fsp_Access (Spec f1) \<and> uip_ReleasePolicy ip = fsp_ReleasePolicy (Spec f1) \<and>
                (fsp_PTRRecord (Spec f1) = '''' \<or> uip_PTRRecord ip = fsp_PTRRecord (Spec f1)))
          in (Inr \<lparr>ob_Exists = True, ob_UpToDate = upToDate, ob_Ready = True, ob_Message = ''''\<rparr>, f1, s1))"

definition FloatingIPAdapter_Create :: "'s NetworkAPI \<Rightarrow> FloatingIP \<Rightarrow> 's \<Rightarrow> err option \<times> FloatingIP \<times> 's" where
  "FloatingIPAdapter_Create api f s =
     (case AssignIPAddress api
             \<lparr>aip_Zone = fsp_Zone (Spec f), aip_Family = fsp_Family (Spec f), aip_Access = fsp_Access (Spec f),
              aip_ReleasePolicy = fsp_ReleasePolicy (Spec f), aip_Floating = True\<rparr> s of
        (Inl e, s1) \<Rightarrow> (Some (Wrap ''assign ip address'' e), f, s1)
      | (Inr ip, s1) \<Rightarrow>
          (None, f\<lparr>Status := (Status f)\<lparr>fst_Address := uip_Address ip, fst_MAC := uip_MAC ip\<rparr>\<rparr>, s1))"

definition FloatingIPAdapter_Update :: "'s NetworkAPI \<Rightarrow> FloatingIP \<Rightarrow> 's \<Rightarrow> err option \<times> FloatingIP \<times> 's" where
  "FloatingIPAdapter_Update api f s =
     (case ModifyIPAddress api
             \<lparr>mip_IPAddress = fst_Address (Status f), mip_PTRRecord = fsp_PTRRecord (Spec f),
              mip_ReleasePolicy = fsp_ReleasePolicy (Spec f)\<rparr> s of
        (Inl e, s1) \<Rightarrow> (Some (Wrap ''modify ip address'' e), f, s1)
      | (Inr _, s1) \<Rightarrow> (None, f, s1))"

definition FloatingIPAdapter_Delete :: "'s NetworkAPI \<Rightarrow> FloatingIP \<Rightarrow> 's \<Rightarrow> err option \<times> FloatingIP \<times> 's" where
  "FloatingIPAdapter_Delete api f s =
     (case deleteByID ''release ip address'' (ReleaseIPAddress api) (fst_Address (Status f)) s of
        (e, s1) \<Rightarrow> (e, f, s1))"

definition FloatingIPAdapter :: "'s NetworkAPI \<Rightarrow> (FloatingIP, 's) Adapter" where
  "FloatingIPAdapter api =
     \<lparr>ad_Observe = FloatingIPAdapter_Observe api, ad_Create = FloatingIPAdapter_Create api,
      ad_Update = FloatingIPAdapter_Update api, ad_Delete = FloatingIPAdapter_Delete api\<rparr>"

definition FinalizerFloatingIP :: string where
  "FinalizerFloatingIP = ''network.upcloud.polarsquad.com/floatingip''"

definition SetupFloatingIPController ::
  "Lib \<Rightarrow> (FloatingIP, 'k) Client \<Rightarrow> 's NetworkAPI \<Rightarrow> Options \<Rightarrow> (FloatingIP, 'k \<times> 's) Reconciler" where
  "SetupFloatingIPController L c api opts =
     mkReconciler L FloatingIP_Object c (FloatingIPAdapter api) FinalizerFloatingIP opts"

lemma FloatingIPAdapter_sel [simp]:
  "ad_Observe (FloatingIPAdapter api) = FloatingIPAdapter_Observe api"
  "ad_Create (FloatingIPAdapter api) = FloatingIPAdapter_Create api"
  "ad_Update (FloatingIPAdapter api) = FloatingIPAdapter_Update api"
  "ad_Delete (FloatingIPAdapter api) = FloatingIPAdapter_Delete api"
  by (simp_all add: FloatingIPAdapter_def)

lemma FloatingIP_Object_sel [simp]:
  "GetMeta FloatingIP_Object = Meta" "GetExternalID FloatingIP_Object f = fst_Address (Status f)"
  "GetDeletionPolicy FloatingIP_Object f = fsp_DeletionPolicy (Spec f)"
  by (simp_all add: FloatingIP_Object_def)

subsection \<open>The operations against the service contract\<close>

abbreviation floatingip_rid :: "FloatingIP \<Rightarrow> string option" where
  "floatingip_rid f \<equiv> rid_of (fst_Address (Status f))"

text \<open>
  The specification, in two parts: what Update can change and what is fixed when the
  address is allocated.
\<close>

definition floatingip_fixed :: "FloatingIP \<Rightarrow> upIPAddress \<Rightarrow> bool" where
  "floatingip_fixed f ip \<longleftrightarrow>
     uip_Zone ip = fsp_Zone (Spec f) \<and> uip_Family ip = fsp_Family (Spec f) \<and> uip_Access ip = fsp_Access (Spec f)"

definition floatingip_in_sync :: "FloatingIP \<Rightarrow> upIPAddress \<Rightarrow> bool" where
  "floatingip_in_sync f ip \<longleftrightarrow>
     floatingip_fixed f ip \<and> uip_ReleasePolicy ip = fsp_ReleasePolicy (Spec f) \<and>
     (fsp_PTRRecord (Spec f) = '''' \<or> uip_PTRRecord ip = fsp_PTRRecord (Spec f))"

lemma floatingip_status_irrelevant [simp]:
  "floatingip_in_sync (f\<lparr>Status := st\<rparr>) ip \<longleftrightarrow> floatingip_in_sync f ip"
  "floatingip_fixed (f\<lparr>Status := st\<rparr>) ip \<longleftrightarrow> floatingip_fixed f ip"
  by (simp_all add: floatingip_in_sync_def floatingip_fixed_def)

context network_service
begin

lemma floatingip_observe_frame:
  assumes "inv s" and "FloatingIPAdapter_Observe api f s = (out, f', s')"
  shows "inv s' \<and> nets s' = nets s \<and> rtrs s' = rtrs s \<and> ips s' = ips s \<and> prs s' = prs s \<and>
    Meta f' = Meta f \<and> Spec f' = Spec f"
  using assms ips.getByID_frame [OF assms(1)]
  by (auto simp: FloatingIPAdapter_Observe_def FloatingIPAdapter_lookup_def Let_def
      split: sum.splits prod.splits option.splits if_splits)

lemma floatingip_observe_found:
  assumes "inv s" and "FloatingIPAdapter_Observe api f s = (Inr obs, f', s')" and "ob_Exists obs"
  shows "\<exists>ip. ips s (fst_Address (Status f')) = Some ip \<and> fst_Address (Status f') \<noteq> [] \<and>
    fst_Address (Status f') = fst_Address (Status f) \<and> ob_Ready obs \<and> (ob_UpToDate obs \<longleftrightarrow> floatingip_in_sync f' ip)"
proof -
  obtain ip s1 where l: "getByID (GetIPAddressDetails api) (fst_Address (Status f)) s = (Inr (Some ip), s1)"
      "fst_Address (Status f) \<noteq> []"
    using assms(2,3)
    by (auto simp: FloatingIPAdapter_Observe_def FloatingIPAdapter_lookup_def NoObservation_def
        split: sum.splits prod.splits option.splits if_splits)
  note look = ips.getByID_found [OF assms(1) l(1)]
  show ?thesis
    using assms(2,3) l look
    by (intro exI [of _ ip])
      (auto simp: FloatingIPAdapter_Observe_def FloatingIPAdapter_lookup_def Let_def floatingip_in_sync_def
        floatingip_fixed_def)
qed

lemma floatingip_observe_sees:
  assumes "inv s" and "ips s (fst_Address (Status f)) = Some ip"
    and "FloatingIPAdapter_Observe api f s = (Inr obs, f', s')"
  shows "ob_Exists obs \<and> ob_Ready obs \<and> (ob_UpToDate obs \<longleftrightarrow> floatingip_in_sync f ip)"
proof -
  have "fst_Address (Status f) \<noteq> []" using ips.keyed [OF assms(1,2)] by simp
  then obtain x s1 where l: "getByID (GetIPAddressDetails api) (fst_Address (Status f)) s = (Inr x, s1)"
    using assms(3)
    by (auto simp: FloatingIPAdapter_Observe_def FloatingIPAdapter_lookup_def split: sum.splits prod.splits)
  then have "x = Some ip"
    using ips.getByID_absent [OF assms(1)] ips.getByID_found [OF assms(1)] assms(2) by (cases x) fastforce+
  then show ?thesis
    using assms(3) l \<open>fst_Address (Status f) \<noteq> []\<close>
    by (auto simp: FloatingIPAdapter_Observe_def FloatingIPAdapter_lookup_def Let_def floatingip_in_sync_def
        floatingip_fixed_def)
qed

lemma floatingip_create_spec:
  assumes "inv s" and "FloatingIPAdapter_Create api f s = (e, f', s')"
  shows "inv s' \<and> nets s' = nets s \<and> rtrs s' = rtrs s \<and> prs s' = prs s \<and> Meta f' = Meta f \<and> Spec f' = Spec f"
    and "e \<noteq> None \<Longrightarrow> ips s' = ips s \<and> f' = f"
    and "e = None \<Longrightarrow> \<exists>ip. ips s (fst_Address (Status f')) = None \<and>
      ips s' = (ips s)(fst_Address (Status f') \<mapsto> ip) \<and> fst_Address (Status f') \<noteq> [] \<and>
      floatingip_fixed f ip \<and> uip_ReleasePolicy ip = fsp_ReleasePolicy (Spec f)"
  using assms
  by - (fastforce simp: FloatingIPAdapter_Create_def ip_built_def floatingip_fixed_def
      split: sum.splits prod.splits dest!: ips.create_ok [OF assms(1)] ips.create_failed [OF assms(1)])+

lemma floatingip_update_spec:
  assumes "inv s" and "FloatingIPAdapter_Update api f s = (e, f', s')"
  shows "inv s' \<and> nets s' = nets s \<and> rtrs s' = rtrs s \<and> prs s' = prs s \<and> f' = f"
    and "ips s' i = None \<longleftrightarrow> ips s i = None"
    and "e = None \<Longrightarrow> fsp_ReleasePolicy (Spec f) \<noteq> [] \<Longrightarrow>
      \<exists>ip ip'. ips s (fst_Address (Status f)) = Some ip \<and> ips s' (fst_Address (Status f)) = Some ip' \<and>
        (floatingip_in_sync f ip' \<longleftrightarrow> floatingip_fixed f ip)"
  using assms
  by (auto simp: FloatingIPAdapter_Update_def ip_patched_def floatingip_in_sync_def floatingip_fixed_def
      split: sum.splits prod.splits if_splits
      dest!: ips.modify_ok [OF assms(1)] ips.modify_failed [OF assms(1)])

lemma floatingip_delete_spec:
  assumes "inv s" and "FloatingIPAdapter_Delete api f s = (e, f', s')"
  shows "inv s' \<and> nets s' = nets s \<and> rtrs s' = rtrs s \<and> prs s' = prs s \<and> f' = f"
    and "floatingip_rid f \<noteq> Some i \<Longrightarrow> ips s' i = ips s i"
    and "e = None \<Longrightarrow> floatingip_rid f = Some i \<Longrightarrow> ips s' i = None"
  using assms ips.deleteByID_frame [OF assms(1)] ips.deleteByID_gone [OF assms(1)]
  by (auto simp: FloatingIPAdapter_Delete_def split: prod.splits)

end

sublocale network_service \<subseteq> floatingip_ctr: adapter_contract FloatingIP_Object "FloatingIPAdapter api" inv
    "\<lambda>i s. ips s i \<noteq> None" floatingip_rid
proof (rule table_adapter_contract [OF floatingip_object.managed_object_axioms])
  fix s x r x' s'
  assume "inv s" "ad_Observe (FloatingIPAdapter api) x s = (r, x', s')"
  then show "inv s' \<and> ips s' = ips s \<and> GetMeta FloatingIP_Object x' = GetMeta FloatingIP_Object x"
    using floatingip_observe_frame by simp
next
  fix s x obs x' s'
  assume "inv s" "ad_Observe (FloatingIPAdapter api) x s = (Inr obs, x', s')" "ob_Exists obs"
  then show "fst_Address (Status x') \<noteq> [] \<and> ips s (fst_Address (Status x')) \<noteq> None"
    using floatingip_observe_found by fastforce
next
  fix s x e x' s'
  assume I: "inv s" and "ad_Create (FloatingIPAdapter api) x s = (e, x', s')"
  then show "inv s' \<and> GetMeta FloatingIP_Object x' = GetMeta FloatingIP_Object x \<and> (\<forall>i. ips s i \<noteq> None \<longrightarrow> ips s' i \<noteq> None) \<and>
      (e = None \<longrightarrow> fst_Address (Status x') \<noteq> [] \<and> ips s' (fst_Address (Status x')) \<noteq> None)"
    using floatingip_create_spec [OF I] by (cases e) fastforce+
next
  fix s x e x' s'
  assume "inv s" "ad_Update (FloatingIPAdapter api) x s = (e, x', s')"
  then show "inv s' \<and> GetMeta FloatingIP_Object x' = GetMeta FloatingIP_Object x \<and>
      (\<forall>i. floatingip_rid x \<noteq> Some i \<longrightarrow> ips s i \<noteq> None \<longrightarrow> ips s' i \<noteq> None)"
    using floatingip_update_spec(1,2) by (metis FloatingIPAdapter_sel(3))
next
  fix s x e x' s'
  assume "inv s" "ad_Delete (FloatingIPAdapter api) x s = (e, x', s')"
  then show "inv s' \<and> GetMeta FloatingIP_Object x' = GetMeta FloatingIP_Object x \<and> (\<forall>i. floatingip_rid x \<noteq> Some i \<longrightarrow> ips s' i = ips s i) \<and>
      (e = None \<longrightarrow> fst_Address (Status x) \<noteq> [] \<longrightarrow> ips s' (fst_Address (Status x)) = None)"
    using floatingip_delete_spec by (metis FloatingIPAdapter_sel(4) rid_of_simps(2))
qed

end
