(* ===== verification/NetworkPeeringAdapter.thy ===== *)
theory NetworkPeeringAdapter
  imports NetworkAdapter
begin

text \<open>
  \<open>internal/controller/network/networkpeering_adapter.go\<close> and
  \<open>networkpeering_controller.go\<close>. The local network is a Network object that must be
  Ready; \<open>getNetwork\<close> loads it.
\<close>

subsection \<open>The adapter\<close>

definition NetworkPeeringAdapter_localNetworkUUID :: "Lib \<Rightarrow> Network getter \<Rightarrow> NetworkPeering \<Rightarrow> err + string" where
  "NetworkPeeringAdapter_localNetworkUUID L getNetwork p =
     ReadyID L Network_Object getNetwork (om_Namespace (Meta p)) (lor_Name (psp_NetworkRef (Spec p)))"

definition NetworkPeeringAdapter_lookup ::
  "'s NetworkAPI \<Rightarrow> NetworkPeering \<Rightarrow> 's \<Rightarrow> (err + upNetworkPeering option) \<times> 's" where
  "NetworkPeeringAdapter_lookup api p =
     lookupOwned (GetNetworkPeering api) (\<lambda>m. GetNetworkPeerings api [UIDFilter m]) unp_Labels
       (pst_UUID (Status p)) (Meta p)"

definition peering_desired_labels :: "NetworkPeering \<Rightarrow> Label list" where
  "peering_desired_labels p = DesiredLabels (Meta p) (psp_Labels (Spec p))"

definition NetworkPeeringAdapter_Observe ::
  "Lib \<Rightarrow> 's NetworkAPI \<Rightarrow> Network getter \<Rightarrow> NetworkPeering \<Rightarrow> 's
   \<Rightarrow> (err + Observation) \<times> NetworkPeering \<times> 's" where
  "NetworkPeeringAdapter_Observe L api getNetwork p s =
     (case NetworkPeeringAdapter_localNetworkUUID L getNetwork p of
        Inl e \<Rightarrow> (Inl e, p, s)
      | Inr localUUID \<Rightarrow>
          (case NetworkPeeringAdapter_lookup api p s of
             (Inl e, s1) \<Rightarrow> (Inl (Wrap ''get network peering'' e), p, s1)
           | (Inr None, s1) \<Rightarrow> (Inr NoObservation, p, s1)
           | (Inr (Some got), s1) \<Rightarrow>
               let p1 = p\<lparr>Status := (Status p)\<lparr>pst_UUID := unp_UUID got, pst_State := unp_State got\<rparr>\<rparr>;
                   upToDate = (unp_Name got = NetworkPeering_ExternalName p1 \<and>
                     unp_NetworkUUID got = localUUID \<and>
                     unp_PeerNetworkUUID got = psp_PeerNetworkUUID (Spec p1) \<and>
                     unp_ConfiguredStatus got = psp_ConfiguredStatus (Spec p1) \<and>
                     LabelsEqual (unp_Labels got) (peering_desired_labels p1));
                   ready = (unp_State got = ''active'')
               in (Inr \<lparr>ob_Exists = True, ob_UpToDate = upToDate, ob_Ready = ready, ob_Message = unp_State got\<rparr>,
                   p1, s1)))"

definition NetworkPeeringAdapter_Create ::
  "Lib \<Rightarrow> 's NetworkAPI \<Rightarrow> Network getter \<Rightarrow> NetworkPeering \<Rightarrow> 's \<Rightarrow> err option \<times> NetworkPeering \<times> 's" where
  "NetworkPeeringAdapter_Create L api getNetwork p s =
     (case NetworkPeeringAdapter_localNetworkUUID L getNetwork p of
        Inl e \<Rightarrow> (Some e, p, s)
      | Inr localUUID \<Rightarrow>
          (case CreateNetworkPeering api
                  \<lparr>cnp_Name = NetworkPeering_ExternalName p, cnp_ConfiguredStatus = psp_ConfiguredStatus (Spec p),
                   cnp_NetworkUUID = localUUID, cnp_PeerNetworkUUID = psp_PeerNetworkUUID (Spec p),
                   cnp_Labels = peering_desired_labels p\<rparr> s of
             (Inl e, s1) \<Rightarrow> (Some (Wrap ''create network peering'' e), p, s1)
           | (Inr created, s1) \<Rightarrow>
               (None, p\<lparr>Status := (Status p)\<lparr>pst_UUID := unp_UUID created, pst_State := unp_State created\<rparr>\<rparr>, s1)))"

definition NetworkPeeringAdapter_Update ::
  "'s NetworkAPI \<Rightarrow> NetworkPeering \<Rightarrow> 's \<Rightarrow> err option \<times> NetworkPeering \<times> 's" where
  "NetworkPeeringAdapter_Update api p s =
     (let labels = peering_desired_labels p in
      case ModifyNetworkPeering api
             \<lparr>mnp_UUID = pst_UUID (Status p), mnp_Name = NetworkPeering_ExternalName p,
              mnp_ConfiguredStatus = psp_ConfiguredStatus (Spec p), mnp_Labels = Some labels\<rparr> s of
        (Inl e, s1) \<Rightarrow> (Some (Wrap ''modify network peering'' e), p, s1)
      | (Inr _, s1) \<Rightarrow> (None, p, s1))"

definition NetworkPeeringAdapter_Delete ::
  "'s NetworkAPI \<Rightarrow> NetworkPeering \<Rightarrow> 's \<Rightarrow> err option \<times> NetworkPeering \<times> 's" where
  "NetworkPeeringAdapter_Delete api p s =
     (case deleteByID ''delete network peering'' (DeleteNetworkPeering api) (pst_UUID (Status p)) s of
        (e, s1) \<Rightarrow> (e, p, s1))"

definition NetworkPeeringAdapter :: "Lib \<Rightarrow> 's NetworkAPI \<Rightarrow> Network getter \<Rightarrow> (NetworkPeering, 's) Adapter" where
  "NetworkPeeringAdapter L api getNetwork =
     \<lparr>ad_Observe = NetworkPeeringAdapter_Observe L api getNetwork,
      ad_Create = NetworkPeeringAdapter_Create L api getNetwork,
      ad_Update = NetworkPeeringAdapter_Update api, ad_Delete = NetworkPeeringAdapter_Delete api\<rparr>"

definition FinalizerNetworkPeering :: string where
  "FinalizerNetworkPeering = ''network.upcloud.polarsquad.com/networkpeering''"

definition SetupNetworkPeeringController ::
  "Lib \<Rightarrow> (NetworkPeering, 'k) Client \<Rightarrow> 's NetworkAPI \<Rightarrow> Network getter \<Rightarrow> Options
   \<Rightarrow> (NetworkPeering, 'k \<times> 's) Reconciler" where
  "SetupNetworkPeeringController L c api getNetwork opts =
     mkReconciler L NetworkPeering_Object c (NetworkPeeringAdapter L api getNetwork) FinalizerNetworkPeering opts"

lemma NetworkPeeringAdapter_sel [simp]:
  "ad_Observe (NetworkPeeringAdapter L api gn) = NetworkPeeringAdapter_Observe L api gn"
  "ad_Create (NetworkPeeringAdapter L api gn) = NetworkPeeringAdapter_Create L api gn"
  "ad_Update (NetworkPeeringAdapter L api gn) = NetworkPeeringAdapter_Update api"
  "ad_Delete (NetworkPeeringAdapter L api gn) = NetworkPeeringAdapter_Delete api"
  by (simp_all add: NetworkPeeringAdapter_def)

lemma NetworkPeering_Object_sel [simp]:
  "GetMeta NetworkPeering_Object = Meta" "GetExternalID NetworkPeering_Object p = pst_UUID (Status p)"
  "GetDeletionPolicy NetworkPeering_Object p = psp_DeletionPolicy (Spec p)"
  by (simp_all add: NetworkPeering_Object_def)

subsection \<open>The operations against the service contract\<close>

abbreviation peering_rid :: "NetworkPeering \<Rightarrow> string option" where
  "peering_rid p \<equiv> rid_of (pst_UUID (Status p))"

text \<open>The specification: what Update can change, and the two ends, fixed at creation.\<close>

definition peering_ends :: "Lib \<Rightarrow> Network getter \<Rightarrow> NetworkPeering \<Rightarrow> upNetworkPeering \<Rightarrow> bool" where
  "peering_ends L gn p got \<longleftrightarrow>
     NetworkPeeringAdapter_localNetworkUUID L gn p = Inr (unp_NetworkUUID got) \<and>
     unp_PeerNetworkUUID got = psp_PeerNetworkUUID (Spec p)"

definition peering_settings :: "NetworkPeering \<Rightarrow> upNetworkPeering \<Rightarrow> bool" where
  "peering_settings p got \<longleftrightarrow>
     unp_Name got = NetworkPeering_ExternalName p \<and> unp_ConfiguredStatus got = psp_ConfiguredStatus (Spec p) \<and>
     LabelsEqual (unp_Labels got) (peering_desired_labels p)"

lemma peering_status_irrelevant [simp]:
  "NetworkPeering_ExternalName (p\<lparr>Status := st\<rparr>) = NetworkPeering_ExternalName p"
  "peering_desired_labels (p\<lparr>Status := st\<rparr>) = peering_desired_labels p"
  "NetworkPeeringAdapter_localNetworkUUID L gn (p\<lparr>Status := st\<rparr>) = NetworkPeeringAdapter_localNetworkUUID L gn p"
  "peering_ends L gn (p\<lparr>Status := st\<rparr>) got \<longleftrightarrow> peering_ends L gn p got"
  "peering_settings (p\<lparr>Status := st\<rparr>) got \<longleftrightarrow> peering_settings p got"
  by (simp_all add: peering_ends_def peering_settings_def peering_desired_labels_def NetworkPeering_ExternalName_def
      NetworkPeeringAdapter_localNetworkUUID_def)

context network_service
begin

lemma peering_lookup_eq:
  "NetworkPeeringAdapter_lookup api p = prs.lookup_by (pst_UUID (Status p)) (Meta p)"
  by (simp add: NetworkPeeringAdapter_lookup_def)

lemma peering_observe_frame:
  assumes "inv s" and "NetworkPeeringAdapter_Observe L api gn p s = (out, p', s')"
  shows "inv s' \<and> nets s' = nets s \<and> rtrs s' = rtrs s \<and> ips s' = ips s \<and> prs s' = prs s \<and>
    Meta p' = Meta p \<and> Spec p' = Spec p"
  using assms prs.lookup_frame [OF assms(1)]
  by (auto simp: NetworkPeeringAdapter_Observe_def peering_lookup_eq Let_def
      split: sum.splits prod.splits option.splits)

lemma peering_observe_found:
  assumes "inv s" and "NetworkPeeringAdapter_Observe L api gn p s = (Inr obs, p', s')" and "ob_Exists obs"
  shows "\<exists>got. prs s (pst_UUID (Status p')) = Some got \<and> pst_UUID (Status p') \<noteq> [] \<and>
    (pst_UUID (Status p) \<noteq> [] \<longrightarrow> pst_UUID (Status p') = pst_UUID (Status p)) \<and>
    (ob_Ready obs \<longleftrightarrow> unp_State got = ''active'') \<and>
    (ob_UpToDate obs \<longleftrightarrow> peering_ends L gn p' got \<and> peering_settings p' got)"
proof -
  obtain got s1 d where l: "NetworkPeeringAdapter_lookup api p s = (Inr (Some got), s1)"
      "NetworkPeeringAdapter_localNetworkUUID L gn p = Inr d"
    using assms(2,3)
    by (auto simp: NetworkPeeringAdapter_Observe_def NoObservation_def split: sum.splits prod.splits option.splits)
  note look = prs.lookup_found [OF assms(1) l(1) [unfolded peering_lookup_eq]]
  show ?thesis
    using assms(2,3) l look
    by (intro exI [of _ got])
      (auto simp: NetworkPeeringAdapter_Observe_def Let_def peering_ends_def peering_settings_def)
qed

lemma peering_observe_sees:
  assumes "inv s" and "prs s (pst_UUID (Status p)) = Some got"
    and "NetworkPeeringAdapter_Observe L api gn p s = (Inr obs, p', s')"
  shows "ob_Exists obs \<and> (ob_Ready obs \<longleftrightarrow> unp_State got = ''active'') \<and>
    (ob_UpToDate obs \<longleftrightarrow> peering_ends L gn p got \<and> peering_settings p got)"
proof -
  obtain x s1 d where l: "NetworkPeeringAdapter_lookup api p s = (Inr x, s1)"
      "NetworkPeeringAdapter_localNetworkUUID L gn p = Inr d"
    using assms(3) by (auto simp: NetworkPeeringAdapter_Observe_def split: sum.splits prod.splits)
  have "x = Some got" using prs.lookup_present [OF assms(1) l(1) [unfolded peering_lookup_eq] assms(2)] .
  then show ?thesis
    using assms(3) l by (auto simp: NetworkPeeringAdapter_Observe_def Let_def peering_ends_def peering_settings_def)
qed

lemma peering_create_spec:
  assumes "inv s" and "NetworkPeeringAdapter_Create L api gn p s = (e, p', s')"
  shows "inv s' \<and> nets s' = nets s \<and> rtrs s' = rtrs s \<and> ips s' = ips s \<and> Meta p' = Meta p \<and> Spec p' = Spec p"
    and "e \<noteq> None \<Longrightarrow> prs s' = prs s \<and> p' = p"
    and "e = None \<Longrightarrow> \<exists>got. prs s (pst_UUID (Status p')) = None \<and>
      prs s' = (prs s)(pst_UUID (Status p') \<mapsto> got) \<and> pst_UUID (Status p') \<noteq> [] \<and>
      peering_ends L gn p got \<and> peering_settings p got"
  using assms
  by - (fastforce simp: NetworkPeeringAdapter_Create_def peering_built_def peering_ends_def peering_settings_def
      split: sum.splits prod.splits dest!: prs.create_ok [OF assms(1)] prs.create_failed [OF assms(1)])+

lemma peering_update_spec:
  assumes "inv s" and "NetworkPeeringAdapter_Update api p s = (e, p', s')"
  shows "inv s' \<and> nets s' = nets s \<and> rtrs s' = rtrs s \<and> ips s' = ips s \<and> p' = p"
    and "prs s' i = None \<longleftrightarrow> prs s i = None"
    and "e = None \<Longrightarrow> NetworkPeering_ExternalName p \<noteq> [] \<Longrightarrow> psp_ConfiguredStatus (Spec p) \<noteq> [] \<Longrightarrow>
      \<exists>got got'. prs s (pst_UUID (Status p)) = Some got \<and> prs s' (pst_UUID (Status p)) = Some got' \<and>
        peering_settings p got' \<and> (peering_ends L gn p got' \<longleftrightarrow> peering_ends L gn p got)"
  using assms
  by (auto simp: NetworkPeeringAdapter_Update_def peering_patched_def peering_settings_def peering_ends_def Let_def
      split: sum.splits prod.splits if_splits
      dest!: prs.modify_ok [OF assms(1)] prs.modify_failed [OF assms(1)])

lemma peering_delete_spec:
  assumes "inv s" and "NetworkPeeringAdapter_Delete api p s = (e, p', s')"
  shows "inv s' \<and> nets s' = nets s \<and> rtrs s' = rtrs s \<and> ips s' = ips s \<and> p' = p"
    and "peering_rid p \<noteq> Some i \<Longrightarrow> prs s' i = prs s i"
    and "e = None \<Longrightarrow> peering_rid p = Some i \<Longrightarrow> prs s' i = None"
  using assms prs.deleteByID_frame [OF assms(1)] prs.deleteByID_gone [OF assms(1)]
  by (auto simp: NetworkPeeringAdapter_Delete_def split: prod.splits)

end

sublocale network_service \<subseteq> peering_ctr: adapter_contract NetworkPeering_Object "NetworkPeeringAdapter L api gn" inv
    "\<lambda>i s. prs s i \<noteq> None" peering_rid for L gn
proof (rule table_adapter_contract [OF networkpeering_object.managed_object_axioms])
  fix s x r x' s'
  assume "inv s" "ad_Observe (NetworkPeeringAdapter L api gn) x s = (r, x', s')"
  then show "inv s' \<and> prs s' = prs s \<and> GetMeta NetworkPeering_Object x' = GetMeta NetworkPeering_Object x"
    using peering_observe_frame by simp
next
  fix s x obs x' s'
  assume "inv s" "ad_Observe (NetworkPeeringAdapter L api gn) x s = (Inr obs, x', s')" "ob_Exists obs"
  then show "pst_UUID (Status x') \<noteq> [] \<and> prs s (pst_UUID (Status x')) \<noteq> None"
    using peering_observe_found by fastforce
next
  fix s x e x' s'
  assume I: "inv s" and "ad_Create (NetworkPeeringAdapter L api gn) x s = (e, x', s')"
  then show "inv s' \<and> GetMeta NetworkPeering_Object x' = GetMeta NetworkPeering_Object x \<and> (\<forall>i. prs s i \<noteq> None \<longrightarrow> prs s' i \<noteq> None) \<and>
      (e = None \<longrightarrow> pst_UUID (Status x') \<noteq> [] \<and> prs s' (pst_UUID (Status x')) \<noteq> None)"
    using peering_create_spec [OF I] by (cases e) fastforce+
next
  fix s x e x' s'
  assume "inv s" "ad_Update (NetworkPeeringAdapter L api gn) x s = (e, x', s')"
  then show "inv s' \<and> GetMeta NetworkPeering_Object x' = GetMeta NetworkPeering_Object x \<and>
      (\<forall>i. peering_rid x \<noteq> Some i \<longrightarrow> prs s i \<noteq> None \<longrightarrow> prs s' i \<noteq> None)"
    using peering_update_spec(1,2) by (metis NetworkPeeringAdapter_sel(3))
next
  fix s x e x' s'
  assume "inv s" "ad_Delete (NetworkPeeringAdapter L api gn) x s = (e, x', s')"
  then show "inv s' \<and> GetMeta NetworkPeering_Object x' = GetMeta NetworkPeering_Object x \<and> (\<forall>i. peering_rid x \<noteq> Some i \<longrightarrow> prs s' i = prs s i) \<and>
      (e = None \<longrightarrow> pst_UUID (Status x) \<noteq> [] \<longrightarrow> prs s' (pst_UUID (Status x)) = None)"
    using peering_delete_spec by (metis NetworkPeeringAdapter_sel(4) rid_of_simps(2))
qed

end
