(* ===== verification/GatewayAPI.thy ===== *)
theory GatewayAPI
  imports CloudTable NetworkTypes
begin

text \<open>
  \<open>internal/upcloudapi/gateway.go\<close>: the interface \<open>GatewayAPI\<close>, with the SDK structs as
  far as the operator uses them, and the contract \<open>gateway_service\<close>. Connections live
  inside a gateway and tunnels inside a connection; the contract sees three tables: the
  gateways, the connections of each gateway and the tunnels of each connection. A
  resource in a table is shown without what is nested in it (\<open>gateway_core\<close>,
  \<open>connection_core\<close>).
\<close>

subsection \<open>SDK types\<close>

record upGatewayAddress =
  uga_Name :: string

record upGatewayRoute =
  ugr_Name :: string
  ugr_StaticNetwork :: string
  ugr_Type :: string

record upIPSec =
  ui_AuthType :: string
  ui_PSK :: string
  ui_RekeyTime :: int
  ui_ChildRekeyTime :: int
  ui_DPDDelay :: int
  ui_DPDTimeout :: int
  ui_IKELifetime :: int
  ui_Phase1Algorithms :: "string list"
  ui_Phase1IntegrityAlgorithms :: "string list"
  ui_Phase1DHGroupNumbers :: "int list"
  ui_Phase2Algorithms :: "string list"
  ui_Phase2IntegrityAlgorithms :: "string list"
  ui_Phase2DHGroupNumbers :: "int list"

definition zeroIPSec :: upIPSec where
  "zeroIPSec = \<lparr>ui_AuthType = '''', ui_PSK = '''', ui_RekeyTime = 0, ui_ChildRekeyTime = 0, ui_DPDDelay = 0,
     ui_DPDTimeout = 0, ui_IKELifetime = 0, ui_Phase1Algorithms = [], ui_Phase1IntegrityAlgorithms = [],
     ui_Phase1DHGroupNumbers = [], ui_Phase2Algorithms = [], ui_Phase2IntegrityAlgorithms = [],
     ui_Phase2DHGroupNumbers = []\<rparr>"

record upGatewayTunnel =
  utn_UUID :: string
  utn_Name :: string
  utn_LocalAddress :: string
  utn_RemoteAddress :: string
  utn_IPSec :: upIPSec
  utn_OperationalState :: string

record upGatewayConnection =
  ugc_UUID :: string
  ugc_Name :: string
  ugc_Type :: string
  ugc_LocalRoutes :: "upGatewayRoute list"
  ugc_RemoteRoutes :: "upGatewayRoute list"
  ugc_Tunnels :: "upGatewayTunnel list"

record upGateway =
  ug_UUID :: string
  ug_Name :: string
  ug_Zone :: string
  ug_Plan :: string
  ug_Features :: "string list"
  ug_Routers :: "string list"
  ug_Labels :: "Label list"
  ug_ConfiguredStatus :: string
  ug_OperationalState :: string
  ug_Addresses :: "upGatewayAddress list"
  ug_Connections :: "upGatewayConnection list"

record reqGatewayTunnel =
  rgt_Name :: string
  rgt_LocalAddress :: string
  rgt_RemoteAddress :: string
  rgt_IPSec :: upIPSec

record reqGatewayConnection =
  rgc_Name :: string
  rgc_Type :: string
  rgc_LocalRoutes :: "upGatewayRoute list"
  rgc_RemoteRoutes :: "upGatewayRoute list"
  rgc_Tunnels :: "reqGatewayTunnel list"

record CreateGatewayRequest =
  cgw_Name :: string
  cgw_Zone :: string
  cgw_Plan :: string
  cgw_Features :: "string list"
  cgw_Routers :: "string list"
  cgw_ConfiguredStatus :: string
  cgw_Addresses :: "upGatewayAddress list"
  cgw_Labels :: "Label list"
  cgw_Connections :: "reqGatewayConnection list"

text \<open>A slice that a modify call may leave out (nil) is an \<open>option\<close>.\<close>

record ModifyGatewayRequest =
  mgw_UUID :: string
  mgw_Name :: string
  mgw_Plan :: string
  mgw_ConfiguredStatus :: string
  mgw_Labels :: "Label list option"

record ModifyGatewayConnectionRequest =
  mgc_UUID :: string
  mgc_LocalRoutes :: "upGatewayRoute list option"
  mgc_RemoteRoutes :: "upGatewayRoute list option"

subsection \<open>The interface\<close>

text \<open>Calls on a connection take the gateway's identifier first, calls on a tunnel both parents'.\<close>

record 's GatewayAPI =
  GetGateways :: "QueryFilter list \<Rightarrow> 's \<Rightarrow> (err + upGateway list) \<times> 's"
  GetGateway :: "string \<Rightarrow> 's \<Rightarrow> (err + upGateway) \<times> 's"
  CreateGateway :: "CreateGatewayRequest \<Rightarrow> 's \<Rightarrow> (err + upGateway) \<times> 's"
  ModifyGateway :: "ModifyGatewayRequest \<Rightarrow> 's \<Rightarrow> (err + upGateway) \<times> 's"
  DeleteGateway :: "string \<Rightarrow> 's \<Rightarrow> err option \<times> 's"
  GetGatewayConnections :: "string \<Rightarrow> 's \<Rightarrow> (err + upGatewayConnection list) \<times> 's"
  GetGatewayConnection :: "string \<Rightarrow> string \<Rightarrow> 's \<Rightarrow> (err + upGatewayConnection) \<times> 's"
  CreateGatewayConnection :: "string \<Rightarrow> reqGatewayConnection \<Rightarrow> 's \<Rightarrow> (err + upGatewayConnection) \<times> 's"
  ModifyGatewayConnection :: "string \<Rightarrow> ModifyGatewayConnectionRequest \<Rightarrow> 's \<Rightarrow> (err + upGatewayConnection) \<times> 's"
  DeleteGatewayConnection :: "string \<Rightarrow> string \<Rightarrow> 's \<Rightarrow> err option \<times> 's"
  GetGatewayConnectionTunnels :: "string \<Rightarrow> string \<Rightarrow> 's \<Rightarrow> (err + upGatewayTunnel list) \<times> 's"
  GetGatewayConnectionTunnel :: "string \<Rightarrow> string \<Rightarrow> string \<Rightarrow> 's \<Rightarrow> (err + upGatewayTunnel) \<times> 's"
  CreateGatewayConnectionTunnel ::
    "string \<Rightarrow> string \<Rightarrow> reqGatewayTunnel \<Rightarrow> 's \<Rightarrow> (err + upGatewayTunnel) \<times> 's"
  DeleteGatewayConnectionTunnel :: "string \<Rightarrow> string \<Rightarrow> string \<Rightarrow> 's \<Rightarrow> err option \<times> 's"

subsection \<open>The contract\<close>

definition gateway_core :: "upGateway \<Rightarrow> upGateway" where
  "gateway_core g = g\<lparr>ug_Connections := []\<rparr>"

definition connection_core :: "upGatewayConnection \<Rightarrow> upGatewayConnection" where
  "connection_core c = c\<lparr>ugc_Tunnels := []\<rparr>"

definition gateway_built :: "CreateGatewayRequest \<Rightarrow> upGateway \<Rightarrow> bool" where
  "gateway_built c g \<longleftrightarrow> ug_Name g = cgw_Name c \<and> ug_Zone g = cgw_Zone c \<and> ug_Plan g = cgw_Plan c \<and>
     ug_Features g = cgw_Features c \<and> ug_Routers g = cgw_Routers c \<and> ug_Labels g = cgw_Labels c \<and>
     ug_ConfiguredStatus g = cgw_ConfiguredStatus c \<and> ug_Addresses g = cgw_Addresses c"

definition gateway_patched :: "ModifyGatewayRequest \<Rightarrow> upGateway \<Rightarrow> upGateway" where
  "gateway_patched m g =
     g\<lparr>ug_Name := (if mgw_Name m \<noteq> '''' then mgw_Name m else ug_Name g),
       ug_Plan := (if mgw_Plan m \<noteq> '''' then mgw_Plan m else ug_Plan g),
       ug_ConfiguredStatus :=
         (if mgw_ConfiguredStatus m \<noteq> '''' then mgw_ConfiguredStatus m else ug_ConfiguredStatus g),
       ug_Labels := (case mgw_Labels m of Some ls \<Rightarrow> ls | None \<Rightarrow> ug_Labels g)\<rparr>"

definition connection_built :: "reqGatewayConnection \<Rightarrow> upGatewayConnection \<Rightarrow> bool" where
  "connection_built c x \<longleftrightarrow> ugc_Name x = rgc_Name c \<and> ugc_Type x = rgc_Type c \<and>
     ugc_LocalRoutes x = rgc_LocalRoutes c \<and> ugc_RemoteRoutes x = rgc_RemoteRoutes c"

definition connection_patched :: "ModifyGatewayConnectionRequest \<Rightarrow> upGatewayConnection \<Rightarrow> upGatewayConnection" where
  "connection_patched m c =
     c\<lparr>ugc_LocalRoutes := (case mgc_LocalRoutes m of Some rs \<Rightarrow> rs | None \<Rightarrow> ugc_LocalRoutes c),
       ugc_RemoteRoutes := (case mgc_RemoteRoutes m of Some rs \<Rightarrow> rs | None \<Rightarrow> ugc_RemoteRoutes c)\<rparr>"

definition tunnel_built :: "reqGatewayTunnel \<Rightarrow> upGatewayTunnel \<Rightarrow> bool" where
  "tunnel_built r t \<longleftrightarrow> utn_Name t = rgt_Name r \<and> utn_LocalAddress t = rgt_LocalAddress r \<and>
     utn_RemoteAddress t = rgt_RemoteAddress r \<and> utn_IPSec t = rgt_IPSec r"

locale gateway_service =
  gws: labelled_table inv gws "\<lambda>s. (conns s, tuns s)" ug_UUID "seen gateway_core (GetGateway api)"
    "\<lambda>c. seen gateway_core (CreateGateway api) (c\<lparr>cgw_Connections := []\<rparr>)" gateway_built "DeleteGateway api"
    "seen gateway_core (ModifyGateway api)" mgw_UUID gateway_patched ug_Labels
    "\<lambda>m. seen (map gateway_core) (GetGateways api) [UIDFilter m]"
  for api :: "'s GatewayAPI" and inv :: "'s \<Rightarrow> bool"
    and gws :: "'s \<Rightarrow> string \<Rightarrow> upGateway option"
    and conns :: "'s \<Rightarrow> string \<Rightarrow> string \<Rightarrow> upGatewayConnection option"
    and tuns :: "'s \<Rightarrow> string \<Rightarrow> string \<Rightarrow> string \<Rightarrow> upGatewayTunnel option" +
  assumes connections:
      "mutable_table inv (\<lambda>s. conns s g) (\<lambda>s. (gws s, (conns s)(g := \<lambda>_. None))) ugc_UUID
        (seen connection_core (GetGatewayConnection api g))
        (\<lambda>c. seen connection_core (CreateGatewayConnection api g) (c\<lparr>rgc_Tunnels := []\<rparr>)) connection_built
        (DeleteGatewayConnection api g) (seen connection_core (ModifyGatewayConnection api g)) mgc_UUID
        connection_patched"
    and connections_list: "inv s \<Longrightarrow> GetGatewayConnections api g s = (r, s') \<Longrightarrow>
      inv s' \<and> gws s' = gws s \<and> conns s' = conns s \<and> tuns s' = tuns s \<and>
      (\<forall>xs. r = Inr xs \<longrightarrow> ran (conns s g) = connection_core ` set xs)"
    and tunnels:
      "cloud_table inv (\<lambda>s. tuns s g c) (\<lambda>s. (gws s, conns s, (tuns s)(g := (tuns s g)(c := \<lambda>_. None)))) utn_UUID
        (GetGatewayConnectionTunnel api g c) (CreateGatewayConnectionTunnel api g c) tunnel_built
        (DeleteGatewayConnectionTunnel api g c)"
    and tunnel_parents: "inv s \<Longrightarrow> tuns s g c u = Some t \<Longrightarrow> gws s g \<noteq> None \<and> conns s g c \<noteq> None"

end
