(* ===== verification/GatewayFake.thy ===== *)
theory GatewayFake
  imports FakeTable GatewayAPI
begin

text \<open>
  \<open>internal/upcloudapi/fake/gateway.go\<close>: the in-memory \<open>GatewayAPI\<close>. Gateways are a map,
  the connections of a gateway and the tunnels of a connection are slices inside it. A
  write through a pointer into a slice is a \<open>setFirst\<close>, a removal a \<open>dropFirst\<close>. Calls
  return shallow copies that no caller writes to, so values stand for them.
\<close>

subsection \<open>State\<close>

record GatewayFake =
  gf_seq :: nat
  gf_Gateways :: "(string, upGateway) gomap"
  gf_Calls :: "string list"
  gf_StateOverride :: string
  gf_FailNext :: "err option"
  gf_order :: "nat \<Rightarrow> nat list"

definition NewGatewayAPI :: GatewayFake where
  "NewGatewayAPI = \<lparr>gf_seq = 0, gf_Gateways = [], gf_Calls = [], gf_StateOverride = '''',
     gf_FailNext = None, gf_order = (\<lambda>_. [])\<rparr>"

definition gf_call :: "string \<Rightarrow> GatewayFake \<Rightarrow> GatewayFake" where
  "gf_call name f = f\<lparr>gf_Calls := gf_Calls f @ [name]\<rparr>"

definition gf_record :: "string \<Rightarrow> GatewayFake \<Rightarrow> err option \<times> GatewayFake" where
  "gf_record name f =
     (let f1 = f\<lparr>gf_Calls := gf_Calls f @ [name]\<rparr> in
      case gf_FailNext f1 of
        Some e \<Rightarrow> (Some e, f1\<lparr>gf_FailNext := None\<rparr>)
      | None \<Rightarrow> (None, f1))"

definition gf_nextUUID :: "string \<Rightarrow> GatewayFake \<Rightarrow> string \<times> GatewayFake" where
  "gf_nextUUID prefix f =
     (let f1 = f\<lparr>gf_seq := Suc (gf_seq f)\<rparr> in (uuid prefix (gf_seq f1), f1))"

definition gf_put :: "string \<Rightarrow> upGateway \<Rightarrow> GatewayFake \<Rightarrow> GatewayFake" where
  "gf_put u g f = f\<lparr>gf_Gateways := gm_put u g (gf_Gateways f)\<rparr>"

subsection \<open>Converting and finding\<close>

text \<open>\<open>upcloud.GatewayTunnelOperationalStateEstablished\<close> is the string \<open>established\<close>.\<close>

fun newTunnels :: "reqGatewayTunnel list \<Rightarrow> GatewayFake \<Rightarrow> upGatewayTunnel list \<times> GatewayFake" where
  "newTunnels [] f = ([], f)"
| "newTunnels (t # ts) f =
     (let (u, f1) = gf_nextUUID ''tun'' f;
          tun = \<lparr>utn_UUID = u, utn_Name = rgt_Name t, utn_LocalAddress = rgt_LocalAddress t,
                 utn_RemoteAddress = rgt_RemoteAddress t, utn_IPSec = rgt_IPSec t,
                 utn_OperationalState = ''established''\<rparr>;
          (rest, f2) = newTunnels ts f1
      in (tun # rest, f2))"

definition newConnection :: "reqGatewayConnection \<Rightarrow> GatewayFake \<Rightarrow> upGatewayConnection \<times> GatewayFake" where
  "newConnection c f =
     (let (u, f1) = gf_nextUUID ''conn'' f;
          (tunnels, f2) = newTunnels (rgc_Tunnels c) f1
      in (\<lparr>ugc_UUID = u, ugc_Name = rgc_Name c, ugc_Type = rgc_Type c, ugc_LocalRoutes = rgc_LocalRoutes c,
           ugc_RemoteRoutes = rgc_RemoteRoutes c, ugc_Tunnels = tunnels\<rparr>, f2))"

text \<open>
  \<open>convertConnections\<close> maps a request without assigning identifiers; the loop at the end
  of \<open>CreateGateway\<close> assigns them in the order connection, then its tunnels.
\<close>

definition convertConnections :: "reqGatewayConnection list \<Rightarrow> upGatewayConnection list" where
  "convertConnections cs =
     map (\<lambda>c. \<lparr>ugc_UUID = '''', ugc_Name = rgc_Name c, ugc_Type = rgc_Type c, ugc_LocalRoutes = rgc_LocalRoutes c,
               ugc_RemoteRoutes = rgc_RemoteRoutes c,
               ugc_Tunnels = map (\<lambda>t. \<lparr>utn_UUID = '''', utn_Name = rgt_Name t, utn_LocalAddress = rgt_LocalAddress t,
                 utn_RemoteAddress = rgt_RemoteAddress t, utn_IPSec = rgt_IPSec t,
                 utn_OperationalState = ''''\<rparr>) (rgc_Tunnels c)\<rparr>) cs"

fun materializeTunnels :: "upGatewayTunnel list \<Rightarrow> GatewayFake \<Rightarrow> upGatewayTunnel list \<times> GatewayFake" where
  "materializeTunnels [] f = ([], f)"
| "materializeTunnels (t # ts) f =
     (let (u, f1) = gf_nextUUID ''tun'' f; (rest, f2) = materializeTunnels ts f1
      in (t\<lparr>utn_UUID := u, utn_OperationalState := ''established''\<rparr> # rest, f2))"

fun materializeConnections ::
  "upGatewayConnection list \<Rightarrow> GatewayFake \<Rightarrow> upGatewayConnection list \<times> GatewayFake" where
  "materializeConnections [] f = ([], f)"
| "materializeConnections (c # cs) f =
     (let (u, f1) = gf_nextUUID ''conn'' f; (ts, f2) = materializeTunnels (ugc_Tunnels c) f1;
          (rest, f3) = materializeConnections cs f2
      in (c\<lparr>ugc_UUID := u, ugc_Tunnels := ts\<rparr> # rest, f3))"

lemma convertConnections_Nil [simp]: "convertConnections [] = []"
  by (simp add: convertConnections_def)

definition findConnection :: "upGateway \<Rightarrow> string \<Rightarrow> upGatewayConnection option" where
  "findConnection g u = findBy ugc_UUID (ug_Connections g) u"

definition findTunnel :: "upGatewayConnection \<Rightarrow> string \<Rightarrow> upGatewayTunnel option" where
  "findTunnel c u = findBy utn_UUID (ugc_Tunnels c) u"

definition setConnection :: "upGateway \<Rightarrow> upGatewayConnection \<Rightarrow> upGateway" where
  "setConnection g c = g\<lparr>ug_Connections := setFirst ugc_UUID (ugc_UUID c) c (ug_Connections g)\<rparr>"

subsection \<open>Gateways\<close>

definition fake_GetGateways :: "QueryFilter list \<Rightarrow> GatewayFake \<Rightarrow> (err + upGateway list) \<times> GatewayFake" where
  "fake_GetGateways filters f0 =
     (let f = gf_call ''GetGateways'' f0
      in (Inr (filter (\<lambda>g. hasAllLabels (ug_Labels g) filters)
            (map snd (gm_range (gf_order f (length (gf_Calls f))) (gf_Gateways f)))), f))"

definition fake_GetGateway :: "string \<Rightarrow> GatewayFake \<Rightarrow> (err + upGateway) \<times> GatewayFake" where
  "fake_GetGateway u f0 =
     (let f = gf_call ''GetGateway'' f0 in
      case gm_get (gf_Gateways f) u of
        None \<Rightarrow> (Inl (NotFound ''gateway''), f)
      | Some g \<Rightarrow> (Inr g, f))"

definition fake_CreateGateway :: "CreateGatewayRequest \<Rightarrow> GatewayFake \<Rightarrow> (err + upGateway) \<times> GatewayFake" where
  "fake_CreateGateway r f0 =
     (case gf_record ''CreateGateway'' f0 of
        (Some e, f) \<Rightarrow> (Inl e, f)
      | (None, f) \<Rightarrow>
          let state = (if gf_StateOverride f \<noteq> '''' then gf_StateOverride f else ''running'');
              (u, f1) = gf_nextUUID ''gw'' f;
              (cs, f2) = materializeConnections (convertConnections (cgw_Connections r)) f1;
              g = \<lparr>ug_UUID = u, ug_Name = cgw_Name r, ug_Zone = cgw_Zone r, ug_Plan = cgw_Plan r,
                   ug_Features = cgw_Features r, ug_Routers = cgw_Routers r, ug_Labels = cgw_Labels r,
                   ug_ConfiguredStatus = cgw_ConfiguredStatus r, ug_OperationalState = state,
                   ug_Addresses = cgw_Addresses r, ug_Connections = cs\<rparr>
          in (Inr g, gf_put (ug_UUID g) g f2))"

definition fake_ModifyGateway :: "ModifyGatewayRequest \<Rightarrow> GatewayFake \<Rightarrow> (err + upGateway) \<times> GatewayFake" where
  "fake_ModifyGateway r f0 =
     (case gf_record ''ModifyGateway'' f0 of
        (Some e, f) \<Rightarrow> (Inl e, f)
      | (None, f) \<Rightarrow>
          (case gm_get (gf_Gateways f) (mgw_UUID r) of
             None \<Rightarrow> (Inl (NotFound ''gateway''), f)
           | Some g \<Rightarrow>
               let g1 = (if mgw_Name r \<noteq> '''' then g\<lparr>ug_Name := mgw_Name r\<rparr> else g);
                   g2 = (if mgw_Plan r \<noteq> '''' then g1\<lparr>ug_Plan := mgw_Plan r\<rparr> else g1);
                   g3 = (if mgw_ConfiguredStatus r \<noteq> ''''
                         then g2\<lparr>ug_ConfiguredStatus := mgw_ConfiguredStatus r\<rparr> else g2);
                   g4 = (case mgw_Labels r of None \<Rightarrow> g3 | Some ls \<Rightarrow> g3\<lparr>ug_Labels := ls\<rparr>)
               in (Inr g4, gf_put (mgw_UUID r) g4 f)))"

definition fake_DeleteGateway :: "string \<Rightarrow> GatewayFake \<Rightarrow> err option \<times> GatewayFake" where
  "fake_DeleteGateway u f0 =
     (case gf_record ''DeleteGateway'' f0 of
        (Some e, f) \<Rightarrow> (Some e, f)
      | (None, f) \<Rightarrow>
          (case gm_get (gf_Gateways f) u of
             None \<Rightarrow> (Some (NotFound ''gateway''), f)
           | Some g \<Rightarrow>
               if length (ug_Connections g) > 0 then (Some (Conflict ''gateway has connections''), f)
               else (None, f\<lparr>gf_Gateways := gm_del u (gf_Gateways f)\<rparr>)))"

subsection \<open>Connections\<close>

definition fake_GetGatewayConnections ::
  "string \<Rightarrow> GatewayFake \<Rightarrow> (err + upGatewayConnection list) \<times> GatewayFake" where
  "fake_GetGatewayConnections svc f0 =
     (let f = gf_call ''GetGatewayConnections'' f0 in
      case gm_get (gf_Gateways f) svc of
        None \<Rightarrow> (Inl (NotFound ''gateway''), f)
      | Some g \<Rightarrow> (Inr (ug_Connections g), f))"

definition fake_GetGatewayConnection ::
  "string \<Rightarrow> string \<Rightarrow> GatewayFake \<Rightarrow> (err + upGatewayConnection) \<times> GatewayFake" where
  "fake_GetGatewayConnection svc u f0 =
     (let f = gf_call ''GetGatewayConnection'' f0 in
      case gm_get (gf_Gateways f) svc of
        None \<Rightarrow> (Inl (NotFound ''gateway''), f)
      | Some g \<Rightarrow>
          (case findConnection g u of
             None \<Rightarrow> (Inl (NotFound ''gateway connection''), f)
           | Some c \<Rightarrow> (Inr c, f)))"

definition fake_CreateGatewayConnection ::
  "string \<Rightarrow> reqGatewayConnection \<Rightarrow> GatewayFake \<Rightarrow> (err + upGatewayConnection) \<times> GatewayFake" where
  "fake_CreateGatewayConnection svc r f0 =
     (case gf_record ''CreateGatewayConnection'' f0 of
        (Some e, f) \<Rightarrow> (Inl e, f)
      | (None, f) \<Rightarrow>
          (case gm_get (gf_Gateways f) svc of
             None \<Rightarrow> (Inl (NotFound ''gateway''), f)
           | Some g \<Rightarrow>
               let (c, f1) = newConnection r f
               in (Inr c, gf_put svc (g\<lparr>ug_Connections := ug_Connections g @ [c]\<rparr>) f1)))"

definition fake_ModifyGatewayConnection ::
  "string \<Rightarrow> ModifyGatewayConnectionRequest \<Rightarrow> GatewayFake \<Rightarrow> (err + upGatewayConnection) \<times> GatewayFake" where
  "fake_ModifyGatewayConnection svc r f0 =
     (case gf_record ''ModifyGatewayConnection'' f0 of
        (Some e, f) \<Rightarrow> (Inl e, f)
      | (None, f) \<Rightarrow>
          (case gm_get (gf_Gateways f) svc of
             None \<Rightarrow> (Inl (NotFound ''gateway''), f)
           | Some g \<Rightarrow>
               (case findConnection g (mgc_UUID r) of
                  None \<Rightarrow> (Inl (NotFound ''gateway connection''), f)
                | Some c \<Rightarrow>
                    let c1 = (case mgc_LocalRoutes r of None \<Rightarrow> c | Some rs \<Rightarrow> c\<lparr>ugc_LocalRoutes := rs\<rparr>);
                        c2 = (case mgc_RemoteRoutes r of None \<Rightarrow> c1 | Some rs \<Rightarrow> c1\<lparr>ugc_RemoteRoutes := rs\<rparr>)
                    in (Inr c2, gf_put svc (setConnection g c2) f))))"

definition fake_DeleteGatewayConnection :: "string \<Rightarrow> string \<Rightarrow> GatewayFake \<Rightarrow> err option \<times> GatewayFake" where
  "fake_DeleteGatewayConnection svc u f0 =
     (case gf_record ''DeleteGatewayConnection'' f0 of
        (Some e, f) \<Rightarrow> (Some e, f)
      | (None, f) \<Rightarrow>
          (case gm_get (gf_Gateways f) svc of
             None \<Rightarrow> (Some (NotFound ''gateway''), f)
           | Some g \<Rightarrow>
               if findConnection g u = None then (Some (NotFound ''gateway connection''), f)
               else (None, gf_put svc (g\<lparr>ug_Connections := dropFirst ugc_UUID u (ug_Connections g)\<rparr>) f)))"

subsection \<open>Tunnels\<close>

definition fake_GetGatewayConnectionTunnels ::
  "string \<Rightarrow> string \<Rightarrow> GatewayFake \<Rightarrow> (err + upGatewayTunnel list) \<times> GatewayFake" where
  "fake_GetGatewayConnectionTunnels svc conn f0 =
     (let f = gf_call ''GetGatewayConnectionTunnels'' f0 in
      case gm_get (gf_Gateways f) svc of
        None \<Rightarrow> (Inl (NotFound ''gateway''), f)
      | Some g \<Rightarrow>
          (case findConnection g conn of
             None \<Rightarrow> (Inl (NotFound ''gateway connection''), f)
           | Some c \<Rightarrow> (Inr (ugc_Tunnels c), f)))"

definition fake_GetGatewayConnectionTunnel ::
  "string \<Rightarrow> string \<Rightarrow> string \<Rightarrow> GatewayFake \<Rightarrow> (err + upGatewayTunnel) \<times> GatewayFake" where
  "fake_GetGatewayConnectionTunnel svc conn u f0 =
     (let f = gf_call ''GetGatewayConnectionTunnel'' f0 in
      case gm_get (gf_Gateways f) svc of
        None \<Rightarrow> (Inl (NotFound ''gateway''), f)
      | Some g \<Rightarrow>
          (case findConnection g conn of
             None \<Rightarrow> (Inl (NotFound ''gateway connection''), f)
           | Some c \<Rightarrow>
               (case findTunnel c u of
                  None \<Rightarrow> (Inl (NotFound ''gateway tunnel''), f)
                | Some t \<Rightarrow> (Inr t, f))))"

definition fake_CreateGatewayConnectionTunnel ::
  "string \<Rightarrow> string \<Rightarrow> reqGatewayTunnel \<Rightarrow> GatewayFake \<Rightarrow> (err + upGatewayTunnel) \<times> GatewayFake" where
  "fake_CreateGatewayConnectionTunnel svc conn r f0 =
     (case gf_record ''CreateGatewayConnectionTunnel'' f0 of
        (Some e, f) \<Rightarrow> (Inl e, f)
      | (None, f) \<Rightarrow>
          (case gm_get (gf_Gateways f) svc of
             None \<Rightarrow> (Inl (NotFound ''gateway''), f)
           | Some g \<Rightarrow>
               (case findConnection g conn of
                  None \<Rightarrow> (Inl (NotFound ''gateway connection''), f)
                | Some c \<Rightarrow>
                    let (u, f1) = gf_nextUUID ''tun'' f;
                        t = \<lparr>utn_UUID = u, utn_Name = rgt_Name r, utn_LocalAddress = rgt_LocalAddress r,
                             utn_RemoteAddress = rgt_RemoteAddress r, utn_IPSec = rgt_IPSec r,
                             utn_OperationalState = ''established''\<rparr>
                    in (Inr t, gf_put svc (setConnection g (c\<lparr>ugc_Tunnels := ugc_Tunnels c @ [t]\<rparr>)) f1))))"

definition fake_DeleteGatewayConnectionTunnel ::
  "string \<Rightarrow> string \<Rightarrow> string \<Rightarrow> GatewayFake \<Rightarrow> err option \<times> GatewayFake" where
  "fake_DeleteGatewayConnectionTunnel svc conn u f0 =
     (case gf_record ''DeleteGatewayConnectionTunnel'' f0 of
        (Some e, f) \<Rightarrow> (Some e, f)
      | (None, f) \<Rightarrow>
          (case gm_get (gf_Gateways f) svc of
             None \<Rightarrow> (Some (NotFound ''gateway''), f)
           | Some g \<Rightarrow>
               (case findConnection g conn of
                  None \<Rightarrow> (Some (NotFound ''gateway connection''), f)
                | Some c \<Rightarrow>
                    if findTunnel c u = None then (Some (NotFound ''gateway tunnel''), f)
                    else (None, gf_put svc
                            (setConnection g (c\<lparr>ugc_Tunnels := dropFirst utn_UUID u (ugc_Tunnels c)\<rparr>)) f))))"

definition fakeGatewayAPI :: "GatewayFake GatewayAPI" where
  "fakeGatewayAPI =
     \<lparr>GetGateways = fake_GetGateways, GetGateway = fake_GetGateway, CreateGateway = fake_CreateGateway,
      ModifyGateway = fake_ModifyGateway, DeleteGateway = fake_DeleteGateway,
      GetGatewayConnections = fake_GetGatewayConnections, GetGatewayConnection = fake_GetGatewayConnection,
      CreateGatewayConnection = fake_CreateGatewayConnection,
      ModifyGatewayConnection = fake_ModifyGatewayConnection,
      DeleteGatewayConnection = fake_DeleteGatewayConnection,
      GetGatewayConnectionTunnels = fake_GetGatewayConnectionTunnels,
      GetGatewayConnectionTunnel = fake_GetGatewayConnectionTunnel,
      CreateGatewayConnectionTunnel = fake_CreateGatewayConnectionTunnel,
      DeleteGatewayConnectionTunnel = fake_DeleteGatewayConnectionTunnel\<rparr>"

subsection \<open>The fake keeps the contract\<close>

definition gw_ok :: "nat \<Rightarrow> upGateway \<Rightarrow> bool" where
  "gw_ok n g \<longleftrightarrow>
     fresh_list ugc_UUID (uuid_ids ''conn'') n (ug_Connections g) \<and>
     (\<forall>c \<in> set (ug_Connections g). fresh_list utn_UUID (uuid_ids ''tun'') n (ugc_Tunnels c))"

definition gw_inv :: "GatewayFake \<Rightarrow> bool" where
  "gw_inv f \<longleftrightarrow>
     fresh_table ug_UUID (uuid_ids ''gw'') (gf_seq f) (gf_Gateways f) \<and>
     (\<forall>u g. gm_get (gf_Gateways f) u = Some g \<longrightarrow> gw_ok (gf_seq f) g) \<and>
     honest (gf_FailNext f)"

text \<open>The three tables.\<close>

definition fake_gws :: "GatewayFake \<Rightarrow> string \<Rightarrow> upGateway option" where
  "fake_gws f u = map_option gateway_core (gm_get (gf_Gateways f) u)"

definition conns_of :: "upGateway \<Rightarrow> string \<Rightarrow> upGatewayConnection option" where
  "conns_of g c = map_option connection_core (findConnection g c)"

definition tuns_of :: "upGateway \<Rightarrow> string \<Rightarrow> string \<Rightarrow> upGatewayTunnel option" where
  "tuns_of g c t = (case findConnection g c of None \<Rightarrow> None | Some cn \<Rightarrow> findTunnel cn t)"

definition fake_conns :: "GatewayFake \<Rightarrow> string \<Rightarrow> string \<Rightarrow> upGatewayConnection option" where
  "fake_conns f g = (case gm_get (gf_Gateways f) g of None \<Rightarrow> \<lambda>_. None | Some gw \<Rightarrow> conns_of gw)"

definition fake_tuns :: "GatewayFake \<Rightarrow> string \<Rightarrow> string \<Rightarrow> string \<Rightarrow> upGatewayTunnel option" where
  "fake_tuns f g = (case gm_get (gf_Gateways f) g of None \<Rightarrow> \<lambda>_ _. None | Some gw \<Rightarrow> tuns_of gw)"

text \<open>The tables depend on the map of gateways only.\<close>

lemma views_cong:
  assumes "gf_Gateways f' = gf_Gateways f"
  shows "fake_gws f' = fake_gws f" "fake_conns f' = fake_conns f" "fake_tuns f' = fake_tuns f"
  using assms by (auto simp: fake_gws_def fake_conns_def fake_tuns_def fun_eq_iff)

lemma views_put:
  "fake_gws (gf_put u g f) = (fake_gws f)(u \<mapsto> gateway_core g)"
  "fake_conns (gf_put u g f) = (fake_conns f)(u := conns_of g)"
  "fake_tuns (gf_put u g f) = (fake_tuns f)(u := tuns_of g)"
  by (auto simp: fake_gws_def fake_conns_def fake_tuns_def gf_put_def fun_eq_iff)

lemma views_sel [simp]:
  "fake_gws (gf_call n f) = fake_gws f" "fake_conns (gf_call n f) = fake_conns f"
  "fake_tuns (gf_call n f) = fake_tuns f" "gw_inv (gf_call n f) = gw_inv f"
  "gf_Gateways (gf_call n f) = gf_Gateways f"
  by (simp_all add: gf_call_def gw_inv_def fake_gws_def fake_conns_def fake_tuns_def fun_eq_iff)

lemma core_simps [simp]:
  "ug_UUID (gateway_core g) = ug_UUID g" "ug_Labels (gateway_core g) = ug_Labels g"
  "ugc_UUID (connection_core c) = ugc_UUID c"
  "gateway_core (g\<lparr>ug_Connections := cs\<rparr>) = gateway_core g"
  "connection_core (c\<lparr>ugc_Tunnels := ts\<rparr>) = connection_core c"
  "gateway_core (setConnection g c) = gateway_core g"
  by (simp_all add: gateway_core_def connection_core_def setConnection_def)

lemma gw_inv_put:
  assumes "gw_inv f" and "gm_get (gf_Gateways f) u = Some g0" and "ug_UUID g = ug_UUID g0" and "gw_ok (gf_seq f) g"
  shows "gw_inv (gf_put u g f)"
  using assms fresh_table_put [of ug_UUID "uuid_ids ''gw''" "gf_seq f" "gf_Gateways f" u g0 g]
  by (auto simp: gw_inv_def gf_put_def)

text \<open>One lemma for the two ways a mutating call starts.\<close>

lemma gf_record_cases:
  assumes "gw_inv f" and "gf_record name f = (e, f1)"
  shows "gw_inv f1 \<and> gf_Gateways f1 = gf_Gateways f \<and> honest e \<and>
    fake_gws f1 = fake_gws f \<and> fake_conns f1 = fake_conns f \<and> fake_tuns f1 = fake_tuns f"
proof -
  have "gf_Gateways f1 = gf_Gateways f" "gw_inv f1" "honest e"
    using assms by (auto simp: gf_record_def gw_inv_def Let_def split: option.splits)
  then show ?thesis using views_cong by blast
qed

lemma gf_next_inv:
  assumes "gw_inv f"
  shows "gw_inv (f\<lparr>gf_seq := Suc (gf_seq f)\<rparr>)"
  using assms by (auto simp: gw_inv_def gw_ok_def)

lemma gw_inv_ok: "gw_inv f \<Longrightarrow> gm_get (gf_Gateways f) u = Some g \<Longrightarrow> gw_ok (gf_seq f) g"
  by (simp add: gw_inv_def)

lemma gw_inv_uid: "gw_inv f \<Longrightarrow> gm_get (gf_Gateways f) u = Some g \<Longrightarrow> ug_UUID g = u \<and> u \<noteq> []"
  unfolding gw_inv_def by (intro fresh_uuid_nonempty) blast+

lemma gw_ok_conn:
  assumes "gw_ok n g" and "findConnection g u = Some c"
  shows "ugc_UUID c = u" "u \<noteq> []" "fresh_list utn_UUID (uuid_ids ''tun'') n (ugc_Tunnels c)"
proof -
  have f: "findBy ugc_UUID (ug_Connections g) u = Some c" using assms(2) by (simp add: findConnection_def)
  then show "ugc_UUID c = u" "u \<noteq> []"
    using assms(1) fresh_list_nonempty [of ugc_UUID "''conn''" n "ug_Connections g" u c] by (simp_all add: gw_ok_def)
  show "fresh_list utn_UUID (uuid_ids ''tun'') n (ugc_Tunnels c)"
    using assms(1) findBy_Some [OF f] by (simp add: gw_ok_def)
qed

lemma findConnection_set [simp]:
  "findConnection (setConnection g c) u =
     (if u = ugc_UUID c \<and> findConnection g u \<noteq> None then Some c else findConnection g u)"
  by (auto simp: findConnection_def setConnection_def findBy_setFirst)

lemma setConnection_sel [simp]: "ug_UUID (setConnection g c) = ug_UUID g"
  by (simp add: setConnection_def)

lemma gw_ok_setConnection:
  assumes "gw_ok n g" and "findConnection g (ugc_UUID c) \<noteq> None"
    and "fresh_list utn_UUID (uuid_ids ''tun'') n (ugc_Tunnels c)"
  shows "gw_ok n (setConnection g c)"
  using assms fresh_list_setFirst [of ugc_UUID "uuid_ids ''conn''" n "ug_Connections g" "ugc_UUID c" c]
    set_setFirst [of ugc_UUID "ugc_UUID c" c "ug_Connections g"]
  by (auto simp: gw_ok_def findConnection_def setConnection_def)

lemma gw_ok_Suc: "gw_ok n g \<Longrightarrow> gw_ok (Suc n) g"
  by (simp add: gw_ok_def)

lemma conns_of_simps [simp]:
  "conns_of (setConnection g c) = (if findConnection g (ugc_UUID c) = None then conns_of g
     else (conns_of g)(ugc_UUID c \<mapsto> connection_core c))"
  by (auto simp: conns_of_def fun_eq_iff)

lemma tuns_of_simps [simp]:
  "findConnection g (ugc_UUID c) \<noteq> None \<Longrightarrow>
     tuns_of (setConnection g c) = (tuns_of g)(ugc_UUID c := findTunnel c)"
  by (auto simp: tuns_of_def fun_eq_iff)

lemma fake_at:
  assumes "gm_get (gf_Gateways f) u = Some g"
  shows "fake_gws f u = Some (gateway_core g)" "fake_conns f u = conns_of g" "fake_tuns f u = tuns_of g"
  using assms by (simp_all add: fake_gws_def fake_conns_def fake_tuns_def)

lemma fake_absent:
  assumes "gm_get (gf_Gateways f) u = None"
  shows "fake_gws f u = None" "fake_conns f u = (\<lambda>_. None)" "fake_tuns f u = (\<lambda>_ _. None)"
  using assms by (simp_all add: fake_gws_def fake_conns_def fake_tuns_def)

text \<open>Writing a gateway whose nested resources did not change.\<close>

lemma views_put_same:
  assumes "gm_get (gf_Gateways f) u = Some g0" and "conns_of g = conns_of g0" and "tuns_of g = tuns_of g0"
  shows "fake_conns (gf_put u g f) = fake_conns f" "fake_tuns (gf_put u g f) = fake_tuns f"
  using assms by (auto simp: views_put fake_at [OF assms(1)] fun_eq_iff)

lemma fake_GetGateway_law:
  assumes "gw_inv s" and "seen gateway_core fake_GetGateway u s = (r, s')"
  shows "gw_inv s' \<and> fake_gws s' = fake_gws s \<and> (fake_conns s', fake_tuns s') = (fake_conns s, fake_tuns s)"
    and "r = Inr x \<Longrightarrow> fake_gws s u = Some x" and "r = Inl e \<Longrightarrow> fake_gws s u = None"
  using assms by (auto simp: seen_def fake_GetGateway_def fake_gws_def Let_def split: option.splits sum.splits prod.splits)

lemma nested_of_empty [simp]:
  "ug_Connections g = [] \<Longrightarrow> conns_of g = (\<lambda>_. None)" "ug_Connections g = [] \<Longrightarrow> tuns_of g = (\<lambda>_ _. None)"
  "ug_Connections g = [] \<Longrightarrow> gw_ok n g"
  by (auto simp: conns_of_def tuns_of_def findConnection_def gw_ok_def fun_eq_iff)

lemma gw_inv_new:
  assumes "gw_inv f" and "ug_UUID g = uuid ''gw'' (Suc (gf_seq f))" and "ug_Connections g = []"
  shows "gw_inv (gf_put (uuid ''gw'' (Suc (gf_seq f))) g (f\<lparr>gf_seq := Suc (gf_seq f)\<rparr>))"
  using assms by (auto simp: gw_inv_def gf_put_def gw_ok_Suc)

lemma fake_CreateGateway_law:
  assumes "gw_inv s" and "seen gateway_core fake_CreateGateway (c\<lparr>cgw_Connections := []\<rparr>) s = (r, s')"
  shows "r = Inr x \<Longrightarrow> gw_inv s' \<and> fake_gws s (ug_UUID x) = None \<and> fake_gws s' = (fake_gws s)(ug_UUID x \<mapsto> x) \<and>
      (fake_conns s', fake_tuns s') = (fake_conns s, fake_tuns s) \<and> gateway_built c x"
    and "r = Inl e \<Longrightarrow> gw_inv s' \<and> fake_gws s' = fake_gws s \<and> (fake_conns s', fake_tuns s') = (fake_conns s, fake_tuns s)"
proof -
  obtain e0 f where rc: "gf_record ''CreateGateway'' s = (e0, f)" by fastforce
  note f = gf_record_cases [OF assms(1) rc]
  have new: "gm_get (gf_Gateways f) (uuid ''gw'' (Suc (gf_seq f))) = None"
    using f fresh_uuid_unused unfolding gw_inv_def by blast
  let ?f1 = "f\<lparr>gf_seq := Suc (gf_seq f)\<rparr>"
  have v: "fake_gws ?f1 = fake_gws f" "fake_conns ?f1 = fake_conns f" "fake_tuns ?f1 = fake_tuns f"
    by (rule views_cong, simp)+
  have put: "(fake_conns f)(uuid ''gw'' (Suc (gf_seq f)) := \<lambda>_. None) = fake_conns f"
    "(fake_tuns f)(uuid ''gw'' (Suc (gf_seq f)) := \<lambda>_ _. None) = fake_tuns f"
    using fake_absent [OF new] by (auto simp: fun_eq_iff)
  show "r = Inr x \<Longrightarrow> gw_inv s' \<and> fake_gws s (ug_UUID x) = None \<and> fake_gws s' = (fake_gws s)(ug_UUID x \<mapsto> x) \<and>
      (fake_conns s', fake_tuns s') = (fake_conns s, fake_tuns s) \<and> gateway_built c x"
    using assms(2) rc f gw_inv_new [of f] fake_absent(1) [OF new] put v
    by (cases e0) (auto simp: seen_def fake_CreateGateway_def gf_nextUUID_def gateway_built_def gateway_core_def
        views_put Let_def)
  show "r = Inl e \<Longrightarrow> gw_inv s' \<and> fake_gws s' = fake_gws s \<and> (fake_conns s', fake_tuns s') = (fake_conns s, fake_tuns s)"
    using assms(2) rc f by (cases e0) (auto simp: seen_def fake_CreateGateway_def gf_nextUUID_def Let_def)
qed

lemma nested_of_cong:
  assumes "ug_Connections g = ug_Connections g'"
  shows "conns_of g = conns_of g'" "tuns_of g = tuns_of g'" "gw_ok n g = gw_ok n g'"
  using assms by (simp_all add: conns_of_def tuns_of_def findConnection_def gw_ok_def fun_eq_iff)

lemma fake_ModifyGateway_law:
  assumes "gw_inv s" and "seen gateway_core fake_ModifyGateway m s = (r, s')"
  shows "r = Inr x \<Longrightarrow> gw_inv s' \<and> (fake_conns s', fake_tuns s') = (fake_conns s, fake_tuns s) \<and>
      (\<exists>y. fake_gws s (mgw_UUID m) = Some y \<and> x = gateway_patched m y \<and> fake_gws s' = (fake_gws s)(mgw_UUID m \<mapsto> x))"
    and "r = Inl e \<Longrightarrow> gw_inv s' \<and> fake_gws s' = fake_gws s \<and> (fake_conns s', fake_tuns s') = (fake_conns s, fake_tuns s)"
proof -
  obtain e0 f where rc: "gf_record ''ModifyGateway'' s = (e0, f)" by fastforce
  note f = gf_record_cases [OF assms(1) rc]
  show "r = Inl e \<Longrightarrow> gw_inv s' \<and> fake_gws s' = fake_gws s \<and> (fake_conns s', fake_tuns s') = (fake_conns s, fake_tuns s)"
    using assms(2) rc f
    by (cases e0) (auto simp: seen_def fake_ModifyGateway_def Let_def split: option.splits)
  assume "r = Inr x"
  then obtain g g' where g: "gm_get (gf_Gateways f) (mgw_UUID m) = Some g" "s' = gf_put (mgw_UUID m) g' f"
      "x = gateway_core g'" "ug_UUID g' = ug_UUID g" "ug_Connections g' = ug_Connections g"
      "gateway_core g' = gateway_patched m (gateway_core g)"
    using assms(2) rc
    by (cases e0) (auto simp: seen_def fake_ModifyGateway_def gateway_core_def gateway_patched_def Let_def
        split: option.splits if_splits)
  then show "gw_inv s' \<and> (fake_conns s', fake_tuns s') = (fake_conns s, fake_tuns s) \<and>
      (\<exists>y. fake_gws s (mgw_UUID m) = Some y \<and> x = gateway_patched m y \<and> fake_gws s' = (fake_gws s)(mgw_UUID m \<mapsto> x))"
    using f gw_inv_put [OF _ g(1,4)] gw_inv_ok [OF _ g(1)] nested_of_cong [OF g(5)] views_put_same [OF g(1)] fake_at [OF g(1)]
    by (simp add: views_put)
qed

lemma gw_inv_del: "gw_inv f \<Longrightarrow> gw_inv (f\<lparr>gf_Gateways := gm_del u (gf_Gateways f)\<rparr>)"
  by (auto simp: gw_inv_def fresh_table_del split: if_splits)

lemma fake_DeleteGateway_law:
  assumes "gw_inv s" and "fake_DeleteGateway u s = (r, s')"
  shows "r = None \<Longrightarrow> gw_inv s' \<and> fake_gws s' = (fake_gws s)(u := None) \<and>
      (fake_conns s', fake_tuns s') = (fake_conns s, fake_tuns s)"
    and "r = Some e \<Longrightarrow> gw_inv s' \<and> fake_gws s' = fake_gws s \<and> (fake_conns s', fake_tuns s') = (fake_conns s, fake_tuns s)"
    and "r = Some e \<Longrightarrow> IsNotFound (Some e) \<Longrightarrow> fake_gws s u = None"
proof -
  obtain e0 f where rc: "gf_record ''DeleteGateway'' s = (e0, f)" by fastforce
  note f = gf_record_cases [OF assms(1) rc]
  show "r = Some e \<Longrightarrow> gw_inv s' \<and> fake_gws s' = fake_gws s \<and> (fake_conns s', fake_tuns s') = (fake_conns s, fake_tuns s)"
    using assms(2) rc f by (cases e0) (auto simp: fake_DeleteGateway_def split: option.splits if_splits)
  show "r = Some e \<Longrightarrow> IsNotFound (Some e) \<Longrightarrow> fake_gws s u = None"
    using assms(2) rc f
    by (cases e0) (auto simp: fake_DeleteGateway_def honest_def fake_gws_def split: option.splits if_splits)
  assume "r = None"
  then obtain g where g: "gm_get (gf_Gateways f) u = Some g" "ug_Connections g = []"
      "s' = f\<lparr>gf_Gateways := gm_del u (gf_Gateways f)\<rparr>"
    using assms(2) rc by (cases e0) (auto simp: fake_DeleteGateway_def split: option.splits if_splits)
  have "fake_gws s' = (fake_gws f)(u := None)" "fake_conns s' = fake_conns f" "fake_tuns s' = fake_tuns f"
    using g by (auto simp: fake_gws_def fake_conns_def fake_tuns_def fun_eq_iff split: option.splits)
  then show "gw_inv s' \<and> fake_gws s' = (fake_gws s)(u := None) \<and>
      (fake_conns s', fake_tuns s') = (fake_conns s, fake_tuns s)"
    using f g(3) gw_inv_del [of f u] by simp
qed

lemma fake_GetGateways_law:
  assumes "gw_inv s" and "seen (map gateway_core) fake_GetGateways [UIDFilter m] s = (r, s')"
  shows "gw_inv s' \<and> fake_gws s' = fake_gws s \<and> (fake_conns s', fake_tuns s') = (fake_conns s, fake_tuns s)"
    and "r = Inr xs \<Longrightarrow> x \<in> set xs \<Longrightarrow> fake_gws s (ug_UUID x) = Some x"
    and "r = Inr xs \<Longrightarrow> fake_gws s i = Some x \<Longrightarrow> HasUID (ug_Labels x) (om_UID m) \<Longrightarrow> x \<in> set xs"
proof -
  have s': "s' = gf_call ''GetGateways'' s" and r: "r = Inr (map gateway_core
      (filter (\<lambda>g. HasUID (ug_Labels g) (om_UID m))
        (map snd (gm_range (gf_order s' (length (gf_Calls s'))) (gf_Gateways s)))))"
    using assms(2) by (auto simp: seen_def fake_GetGateways_def Let_def)
  show "gw_inv s' \<and> fake_gws s' = fake_gws s \<and> (fake_conns s', fake_tuns s') = (fake_conns s, fake_tuns s)"
    using assms(1) s' by simp
  have t: "fresh_table ug_UUID (uuid_ids ''gw'') (gf_seq s) (gf_Gateways s)" using assms(1) by (simp add: gw_inv_def)
  show "fake_gws s (ug_UUID x) = Some x" if h: "r = Inr xs" "x \<in> set xs"
  proof -
    let ?gs = "map snd (gm_range (gf_order s' (length (gf_Calls s'))) (gf_Gateways s))"
    have "xs = map gateway_core (filter (\<lambda>g. HasUID (ug_Labels g) (om_UID m)) ?gs)" using h(1) r by simp
    then have "x \<in> gateway_core ` set (filter (\<lambda>g. HasUID (ug_Labels g) (om_UID m)) ?gs)"
      using h(2) by (simp only: set_map)
    then obtain g where "x = gateway_core g" "g \<in> set ?gs" unfolding set_filter by blast
    then show ?thesis using fresh_table_range [OF t] by (simp add: fake_gws_def)
  qed
  show "x \<in> set xs" if h: "r = Inr xs" "fake_gws s i = Some x" "HasUID (ug_Labels x) (om_UID m)"
  proof -
    obtain g where "x = gateway_core g" "gm_get (gf_Gateways s) i = Some g" using h(2) by (auto simp: fake_gws_def)
    then show ?thesis using h(1,3) r in_range_values [of "gf_Gateways s" i g] by (auto intro!: imageI simp: image_iff [of g]) force
  qed
qed

lemma fake_GetGatewayConnections_law:
  assumes "gw_inv s" and "fake_GetGatewayConnections g s = (r, s')"
  shows "gw_inv s' \<and> fake_gws s' = fake_gws s \<and> fake_conns s' = fake_conns s \<and> fake_tuns s' = fake_tuns s \<and>
      (\<forall>xs. r = Inr xs \<longrightarrow> ran (fake_conns s g) = connection_core ` set xs)"
proof -
  have ran: "ran (conns_of gw) = connection_core ` set (ug_Connections gw)" if "gw_ok n gw" for n gw
  proof -
    have "distinct (map ugc_UUID (ug_Connections gw))" using that by (simp add: gw_ok_def fresh_list_def)
    then have "ran (findBy ugc_UUID (ug_Connections gw)) = set (ug_Connections gw)" by (rule ran_findBy)
    moreover have "ran (conns_of gw) = connection_core ` ran (findBy ugc_UUID (ug_Connections gw))"
      unfolding conns_of_def findConnection_def by (rule ran_map_option)
    ultimately show ?thesis by simp
  qed
  show ?thesis
    using assms gw_inv_ok [OF assms(1), of g] ran
    by (auto simp: fake_GetGatewayConnections_def fake_conns_def Let_def split: option.splits)
qed

text \<open>Connections. The law's frame leaves out the connections and tunnels of the same gateway.\<close>

lemma findConnection_append:
  "findConnection (g\<lparr>ug_Connections := ug_Connections g @ [c]\<rparr>) u =
     (case findConnection g u of None \<Rightarrow> if ugc_UUID c = u then Some c else None | Some x \<Rightarrow> Some x)"
  by (simp add: findConnection_def findBy_append split: option.split)

lemma findConnection_drop:
  "gw_ok n g \<Longrightarrow> findConnection (g\<lparr>ug_Connections := dropFirst ugc_UUID u (ug_Connections g)\<rparr>) v =
     (if v = u then None else findConnection g v)"
  by (simp add: findConnection_def findBy_dropFirst gw_ok_def fresh_list_def)

lemma gw_ok_drop: "gw_ok n g \<Longrightarrow> gw_ok n (g\<lparr>ug_Connections := dropFirst ugc_UUID u (ug_Connections g)\<rparr>)"
  using set_dropFirst [of ugc_UUID u "ug_Connections g"] by (auto simp: gw_ok_def fresh_list_dropFirst)

lemma gw_ok_append:
  assumes "gw_ok n g" and "ugc_UUID c = uuid ''conn'' (Suc n)" and "ugc_Tunnels c = []"
  shows "gw_ok (Suc n) (g\<lparr>ug_Connections := ug_Connections g @ [c]\<rparr>)"
  using assms fresh_list_new [of ugc_UUID "''conn''" n "ug_Connections g" c] by (auto simp: gw_ok_def)

lemma findConnection_new: "gw_ok n g \<Longrightarrow> findConnection g (uuid ''conn'' (Suc n)) = None"
  by (simp add: gw_ok_def findConnection_def fresh_list_unused)

abbreviation conn_frame :: "string \<Rightarrow> GatewayFake \<Rightarrow>
    (string \<Rightarrow> upGateway option) \<times> (string \<Rightarrow> string \<Rightarrow> upGatewayConnection option)" where
  "conn_frame g s \<equiv> (fake_gws s, (fake_conns s)(g := \<lambda>_. None))"

lemma fake_GetGatewayConnection_law:
  assumes "gw_inv s" and "seen connection_core (fake_GetGatewayConnection g) u s = (r, s')"
  shows "gw_inv s' \<and> fake_conns s' g = fake_conns s g \<and> conn_frame g s' = conn_frame g s"
    and "r = Inr x \<Longrightarrow> fake_conns s g u = Some x" and "r = Inl e \<Longrightarrow> fake_conns s g u = None"
  using assms
  by (auto simp: seen_def fake_GetGatewayConnection_def fake_conns_def conns_of_def Let_def
      split: option.splits sum.splits prod.splits)

lemma fake_CreateGatewayConnection_law:
  assumes "gw_inv s" and "seen connection_core (fake_CreateGatewayConnection g) (c\<lparr>rgc_Tunnels := []\<rparr>) s = (r, s')"
  shows "r = Inr x \<Longrightarrow> gw_inv s' \<and> fake_conns s g (ugc_UUID x) = None \<and>
      fake_conns s' g = (fake_conns s g)(ugc_UUID x \<mapsto> x) \<and> conn_frame g s' = conn_frame g s \<and>
      connection_built c x"
    and "r = Inl e \<Longrightarrow> gw_inv s' \<and> fake_conns s' g = fake_conns s g \<and> conn_frame g s' = conn_frame g s"
proof -
  obtain e0 f where rc: "gf_record ''CreateGatewayConnection'' s = (e0, f)" by fastforce
  note f = gf_record_cases [OF assms(1) rc]
  show "r = Inl e \<Longrightarrow> gw_inv s' \<and> fake_conns s' g = fake_conns s g \<and> conn_frame g s' = conn_frame g s"
    using assms(2) rc f
    by (cases e0) (auto simp: seen_def fake_CreateGatewayConnection_def newConnection_def gf_nextUUID_def Let_def
        split: option.splits)
  assume r: "r = Inr x"
  define u where "u = uuid ''conn'' (Suc (gf_seq f))"
  let ?f1 = "f\<lparr>gf_seq := Suc (gf_seq f)\<rparr>"
  obtain gw cn where g: "gm_get (gf_Gateways f) g = Some gw"
      "s' = gf_put g (gw\<lparr>ug_Connections := ug_Connections gw @ [cn]\<rparr>) ?f1"
      "ugc_UUID cn = u" "ugc_Tunnels cn = []" "x = connection_core cn" "connection_built c cn"
    using assms(2) rc r
    by (cases e0) (auto simp: seen_def fake_CreateGatewayConnection_def newConnection_def gf_nextUUID_def u_def
        connection_built_def Let_def split: option.splits)
  have ok: "gw_ok (gf_seq f) gw" using f g(1) gw_inv_ok by blast
  have v: "fake_gws ?f1 = fake_gws f" "fake_conns ?f1 = fake_conns f" by (rule views_cong, simp)+
  have "gw_inv s'"
    unfolding g(2)
    by (rule gw_inv_put [OF gf_next_inv]) (use f g(1,3,4) gw_ok_append [OF ok] in \<open>simp_all add: u_def\<close>)
  moreover have "findConnection gw u = None" using findConnection_new [OF ok] by (simp add: u_def)
  ultimately show "gw_inv s' \<and> fake_conns s g (ugc_UUID x) = None \<and>
      fake_conns s' g = (fake_conns s g)(ugc_UUID x \<mapsto> x) \<and> conn_frame g s' = conn_frame g s \<and>
      connection_built c x"
    using f g(2-6) fake_at [OF g(1)] v
    by (auto simp: views_put conns_of_def findConnection_append fun_eq_iff connection_built_def connection_core_def
        u_def split: option.splits)
qed

lemma fake_ModifyGatewayConnection_law:
  assumes "gw_inv s" and "seen connection_core (fake_ModifyGatewayConnection g) m s = (r, s')"
  shows "r = Inr x \<Longrightarrow> gw_inv s' \<and> conn_frame g s' = conn_frame g s \<and>
      (\<exists>y. fake_conns s g (mgc_UUID m) = Some y \<and> x = connection_patched m y \<and>
         fake_conns s' g = (fake_conns s g)(mgc_UUID m \<mapsto> x))"
    and "r = Inl e \<Longrightarrow> gw_inv s' \<and> fake_conns s' g = fake_conns s g \<and> conn_frame g s' = conn_frame g s"
proof -
  obtain e0 f where rc: "gf_record ''ModifyGatewayConnection'' s = (e0, f)" by fastforce
  note f = gf_record_cases [OF assms(1) rc]
  show "r = Inl e \<Longrightarrow> gw_inv s' \<and> fake_conns s' g = fake_conns s g \<and> conn_frame g s' = conn_frame g s"
    using assms(2) rc f
    by (cases e0) (auto simp: seen_def fake_ModifyGatewayConnection_def Let_def split: option.splits)
  assume r: "r = Inr x"
  obtain gw cn cn' where g: "gm_get (gf_Gateways f) g = Some gw" "findConnection gw (mgc_UUID m) = Some cn"
      "s' = gf_put g (setConnection gw cn') f" "x = connection_core cn'" "ugc_UUID cn' = ugc_UUID cn"
      "ugc_Tunnels cn' = ugc_Tunnels cn" "connection_core cn' = connection_patched m (connection_core cn)"
    using assms(2) rc r
    by (cases e0) (auto simp: seen_def fake_ModifyGatewayConnection_def connection_patched_def connection_core_def
        Let_def split: option.splits)
  have ok: "gw_ok (gf_seq f) gw" using f g(1) gw_inv_ok by blast
  note c = gw_ok_conn [OF ok g(2)]
  have "gw_inv s'"
    unfolding g(3)
    by (rule gw_inv_put) (use f g c gw_ok_setConnection [OF ok, of cn'] in simp_all)
  then show "gw_inv s' \<and> conn_frame g s' = conn_frame g s \<and>
      (\<exists>y. fake_conns s g (mgc_UUID m) = Some y \<and> x = connection_patched m y \<and>
         fake_conns s' g = (fake_conns s g)(mgc_UUID m \<mapsto> x))"
    using f g c fake_at [OF g(1)] by (simp add: views_put fun_eq_iff conns_of_def)
qed

lemma fake_DeleteGatewayConnection_law:
  assumes "gw_inv s" and "fake_DeleteGatewayConnection g u s = (r, s')"
  shows "r = None \<Longrightarrow> gw_inv s' \<and> fake_conns s' g = (fake_conns s g)(u := None) \<and> conn_frame g s' = conn_frame g s"
    and "r = Some e \<Longrightarrow> gw_inv s' \<and> fake_conns s' g = fake_conns s g \<and> conn_frame g s' = conn_frame g s"
    and "r = Some e \<Longrightarrow> IsNotFound (Some e) \<Longrightarrow> fake_conns s g u = None"
proof -
  obtain e0 f where rc: "gf_record ''DeleteGatewayConnection'' s = (e0, f)" by fastforce
  note f = gf_record_cases [OF assms(1) rc]
  show "r = Some e \<Longrightarrow> gw_inv s' \<and> fake_conns s' g = fake_conns s g \<and> conn_frame g s' = conn_frame g s"
    using assms(2) rc f
    by (cases e0) (auto simp: fake_DeleteGatewayConnection_def split: option.splits if_splits)
  show "r = Some e \<Longrightarrow> IsNotFound (Some e) \<Longrightarrow> fake_conns s g u = None"
    using assms(2) rc f
    by (cases e0) (auto simp: fake_DeleteGatewayConnection_def honest_def fake_conns_def conns_of_def
        split: option.splits if_splits)
  assume r: "r = None"
  obtain gw where g: "gm_get (gf_Gateways f) g = Some gw"
      "s' = gf_put g (gw\<lparr>ug_Connections := dropFirst ugc_UUID u (ug_Connections gw)\<rparr>) f"
    using assms(2) rc r
    by (cases e0) (auto simp: fake_DeleteGatewayConnection_def split: option.splits if_splits)
  have ok: "gw_ok (gf_seq f) gw" using f g(1) gw_inv_ok by blast
  have "gw_inv s'"
    unfolding g(2) by (rule gw_inv_put) (use f g gw_ok_drop [OF ok] in simp_all)
  then show "gw_inv s' \<and> fake_conns s' g = (fake_conns s g)(u := None) \<and> conn_frame g s' = conn_frame g s"
    using f g fake_at [OF g(1)] by (simp add: views_put fun_eq_iff conns_of_def findConnection_drop [OF ok])
qed

text \<open>Tunnels. The frame is everything but the tunnels of the same connection.\<close>

abbreviation tun_frame :: "string \<Rightarrow> string \<Rightarrow> GatewayFake \<Rightarrow>
    (string \<Rightarrow> upGateway option) \<times> (string \<Rightarrow> string \<Rightarrow> upGatewayConnection option) \<times>
    (string \<Rightarrow> string \<Rightarrow> string \<Rightarrow> upGatewayTunnel option)" where
  "tun_frame g c s \<equiv> (fake_gws s, fake_conns s, (fake_tuns s)(g := (fake_tuns s g)(c := \<lambda>_. None)))"

lemma findTunnel_append:
  "findTunnel (c\<lparr>ugc_Tunnels := ugc_Tunnels c @ [t]\<rparr>) u =
     (case findTunnel c u of None \<Rightarrow> if utn_UUID t = u then Some t else None | Some x \<Rightarrow> Some x)"
  by (simp add: findTunnel_def findBy_append split: option.split)

lemma findTunnel_drop:
  "fresh_list utn_UUID ids n (ugc_Tunnels c) \<Longrightarrow>
     findTunnel (c\<lparr>ugc_Tunnels := dropFirst utn_UUID u (ugc_Tunnels c)\<rparr>) v = (if v = u then None else findTunnel c v)"
  by (simp add: findTunnel_def findBy_dropFirst fresh_list_def)

text \<open>Both writes replace one connection by one that differs in its tunnels only.\<close>

lemma put_tunnels:
  assumes inv: "gw_inv f" and g: "gm_get (gf_Gateways f) g = Some gw" and c: "findConnection gw c = Some cn"
    and ok: "fresh_list utn_UUID (uuid_ids ''tun'') (gf_seq f) ts"
  shows "gw_inv (gf_put g (setConnection gw (cn\<lparr>ugc_Tunnels := ts\<rparr>)) f)"
    and "tun_frame g c (gf_put g (setConnection gw (cn\<lparr>ugc_Tunnels := ts\<rparr>)) f) = tun_frame g c f"
    and "fake_tuns (gf_put g (setConnection gw (cn\<lparr>ugc_Tunnels := ts\<rparr>)) f) g c = findBy utn_UUID ts"
proof -
  have gok: "gw_ok (gf_seq f) gw" using inv g by (rule gw_inv_ok)
  note cn = gw_ok_conn [OF gok c]
  show "gw_inv (gf_put g (setConnection gw (cn\<lparr>ugc_Tunnels := ts\<rparr>)) f)"
    by (rule gw_inv_put [OF inv g]) (use cn c ok gw_ok_setConnection [OF gok, of "cn\<lparr>ugc_Tunnels := ts\<rparr>"] in simp_all)
  show "tun_frame g c (gf_put g (setConnection gw (cn\<lparr>ugc_Tunnels := ts\<rparr>)) f) = tun_frame g c f"
    using cn c fake_at [OF g] by (auto simp: views_put fun_eq_iff conns_of_def)
  show "fake_tuns (gf_put g (setConnection gw (cn\<lparr>ugc_Tunnels := ts\<rparr>)) f) g c = findBy utn_UUID ts"
    using cn c by (simp add: views_put findTunnel_def fun_eq_iff)
qed

lemma fake_tuns_at:
  "gm_get (gf_Gateways f) g = Some gw \<Longrightarrow> findConnection gw c = Some cn \<Longrightarrow>
     fake_tuns f g c = findBy utn_UUID (ugc_Tunnels cn)"
  by (simp add: fake_tuns_def tuns_of_def findTunnel_def fun_eq_iff)

lemma fake_GetGatewayConnectionTunnel_law:
  assumes "gw_inv s" and "fake_GetGatewayConnectionTunnel g c u s = (r, s')"
  shows "gw_inv s' \<and> fake_tuns s' g c = fake_tuns s g c \<and> tun_frame g c s' = tun_frame g c s"
    and "r = Inr x \<Longrightarrow> fake_tuns s g c u = Some x" and "r = Inl e \<Longrightarrow> fake_tuns s g c u = None"
  using assms
  by (auto simp: fake_GetGatewayConnectionTunnel_def fake_tuns_def tuns_of_def Let_def split: option.splits)

lemma fake_CreateGatewayConnectionTunnel_law:
  assumes "gw_inv s" and "fake_CreateGatewayConnectionTunnel g c q s = (r, s')"
  shows "r = Inr x \<Longrightarrow> gw_inv s' \<and> fake_tuns s g c (utn_UUID x) = None \<and>
      fake_tuns s' g c = (fake_tuns s g c)(utn_UUID x \<mapsto> x) \<and> tun_frame g c s' = tun_frame g c s \<and>
      tunnel_built q x"
    and "r = Inl e \<Longrightarrow> gw_inv s' \<and> fake_tuns s' g c = fake_tuns s g c \<and> tun_frame g c s' = tun_frame g c s"
proof -
  obtain e0 f where rc: "gf_record ''CreateGatewayConnectionTunnel'' s = (e0, f)" by fastforce
  note f = gf_record_cases [OF assms(1) rc]
  show "r = Inl e \<Longrightarrow> gw_inv s' \<and> fake_tuns s' g c = fake_tuns s g c \<and> tun_frame g c s' = tun_frame g c s"
    using assms(2) rc f
    by (cases e0) (auto simp: fake_CreateGatewayConnectionTunnel_def gf_nextUUID_def Let_def split: option.splits)
  assume r: "r = Inr x"
  let ?f1 = "f\<lparr>gf_seq := Suc (gf_seq f)\<rparr>"
  obtain gw cn where g: "gm_get (gf_Gateways f) g = Some gw" "findConnection gw c = Some cn"
      "s' = gf_put g (setConnection gw (cn\<lparr>ugc_Tunnels := ugc_Tunnels cn @ [x]\<rparr>)) ?f1"
      "utn_UUID x = uuid ''tun'' (Suc (gf_seq f))" "tunnel_built q x"
    using assms(2) rc r
    by (cases e0) (auto simp: fake_CreateGatewayConnectionTunnel_def gf_nextUUID_def tunnel_built_def Let_def
        split: option.splits)
  have ok: "fresh_list utn_UUID (uuid_ids ''tun'') (gf_seq f) (ugc_Tunnels cn)"
    using f gw_ok_conn(3) [OF gw_inv_ok [OF _ g(1)] g(2)] by blast
  have v: "fake_gws ?f1 = fake_gws f" "fake_conns ?f1 = fake_conns f" "fake_tuns ?f1 = fake_tuns f"
    by (rule views_cong, simp)+
  have new: "findBy utn_UUID (ugc_Tunnels cn) (utn_UUID x) = None" using fresh_list_unused [OF ok] g(4) by simp
  have p: "gw_inv s'" "tun_frame g c s' = tun_frame g c ?f1" "fake_tuns s' g c = findBy utn_UUID (ugc_Tunnels cn @ [x])"
    unfolding g(3)
    by (rule put_tunnels; use f g gf_next_inv [of f] fresh_list_new [OF ok g(4)] in simp)+
  have "findBy utn_UUID (ugc_Tunnels cn @ [x]) = (findBy utn_UUID (ugc_Tunnels cn))(utn_UUID x \<mapsto> x)"
    using new by (auto simp: findBy_append fun_eq_iff split: option.split)
  then show "gw_inv s' \<and> fake_tuns s g c (utn_UUID x) = None \<and>
      fake_tuns s' g c = (fake_tuns s g c)(utn_UUID x \<mapsto> x) \<and> tun_frame g c s' = tun_frame g c s \<and>
      tunnel_built q x"
    using f p v new g(4,5) fake_tuns_at [OF g(1,2)] by simp
qed

lemma fake_DeleteGatewayConnectionTunnel_law:
  assumes "gw_inv s" and "fake_DeleteGatewayConnectionTunnel g c u s = (r, s')"
  shows "r = None \<Longrightarrow> gw_inv s' \<and> fake_tuns s' g c = (fake_tuns s g c)(u := None) \<and> tun_frame g c s' = tun_frame g c s"
    and "r = Some e \<Longrightarrow> gw_inv s' \<and> fake_tuns s' g c = fake_tuns s g c \<and> tun_frame g c s' = tun_frame g c s"
    and "r = Some e \<Longrightarrow> IsNotFound (Some e) \<Longrightarrow> fake_tuns s g c u = None"
proof -
  obtain e0 f where rc: "gf_record ''DeleteGatewayConnectionTunnel'' s = (e0, f)" by fastforce
  note f = gf_record_cases [OF assms(1) rc]
  show "r = Some e \<Longrightarrow> gw_inv s' \<and> fake_tuns s' g c = fake_tuns s g c \<and> tun_frame g c s' = tun_frame g c s"
    using assms(2) rc f
    by (cases e0) (auto simp: fake_DeleteGatewayConnectionTunnel_def split: option.splits if_splits)
  show "r = Some e \<Longrightarrow> IsNotFound (Some e) \<Longrightarrow> fake_tuns s g c u = None"
    using assms(2) rc f
    by (cases e0) (auto simp: fake_DeleteGatewayConnectionTunnel_def honest_def fake_tuns_def tuns_of_def
        split: option.splits if_splits)
  assume r: "r = None"
  obtain gw cn where g: "gm_get (gf_Gateways f) g = Some gw" "findConnection gw c = Some cn"
      "s' = gf_put g (setConnection gw (cn\<lparr>ugc_Tunnels := dropFirst utn_UUID u (ugc_Tunnels cn)\<rparr>)) f"
    using assms(2) rc r
    by (cases e0) (auto simp: fake_DeleteGatewayConnectionTunnel_def split: option.splits if_splits)
  have ok: "fresh_list utn_UUID (uuid_ids ''tun'') (gf_seq f) (ugc_Tunnels cn)"
    using f gw_ok_conn(3) [OF gw_inv_ok [OF _ g(1)] g(2)] by blast
  have p: "gw_inv s'" "tun_frame g c s' = tun_frame g c f"
    "fake_tuns s' g c = findBy utn_UUID (dropFirst utn_UUID u (ugc_Tunnels cn))"
    unfolding g(3)
    by (rule put_tunnels; use f g fresh_list_dropFirst [OF ok] in simp)+
  have "findBy utn_UUID (dropFirst utn_UUID u (ugc_Tunnels cn)) = (findBy utn_UUID (ugc_Tunnels cn))(u := None)"
    by (simp add: findBy_dropFirst [OF fresh_list_distinct [OF ok]] fun_eq_iff)
  then show "gw_inv s' \<and> fake_tuns s' g c = (fake_tuns s g c)(u := None) \<and> tun_frame g c s' = tun_frame g c s"
    using f p fake_tuns_at [OF g(1,2)] by simp
qed

lemma fakeGatewayAPI_sel [simp]:
  "GetGateways fakeGatewayAPI = fake_GetGateways" "GetGateway fakeGatewayAPI = fake_GetGateway"
  "CreateGateway fakeGatewayAPI = fake_CreateGateway" "ModifyGateway fakeGatewayAPI = fake_ModifyGateway"
  "DeleteGateway fakeGatewayAPI = fake_DeleteGateway"
  "GetGatewayConnections fakeGatewayAPI = fake_GetGatewayConnections"
  "GetGatewayConnection fakeGatewayAPI = fake_GetGatewayConnection"
  "CreateGatewayConnection fakeGatewayAPI = fake_CreateGatewayConnection"
  "ModifyGatewayConnection fakeGatewayAPI = fake_ModifyGatewayConnection"
  "DeleteGatewayConnection fakeGatewayAPI = fake_DeleteGatewayConnection"
  "GetGatewayConnectionTunnel fakeGatewayAPI = fake_GetGatewayConnectionTunnel"
  "CreateGatewayConnectionTunnel fakeGatewayAPI = fake_CreateGatewayConnectionTunnel"
  "DeleteGatewayConnectionTunnel fakeGatewayAPI = fake_DeleteGatewayConnectionTunnel"
  by (simp_all add: fakeGatewayAPI_def)

lemma fake_keyed:
  assumes "gw_inv s"
  shows "fake_gws s u = Some g \<Longrightarrow> ug_UUID g = u \<and> u \<noteq> []"
    and "fake_conns s i u = Some c \<Longrightarrow> ugc_UUID c = u \<and> u \<noteq> []"
    and "fake_tuns s i j u = Some t \<Longrightarrow> utn_UUID t = u \<and> u \<noteq> []"
proof -
  show "fake_gws s u = Some g \<Longrightarrow> ug_UUID g = u \<and> u \<noteq> []"
    using gw_inv_uid [OF assms] by (auto simp: fake_gws_def)
next
  assume "fake_conns s i u = Some c"
  then obtain gw cn where g: "gm_get (gf_Gateways s) i = Some gw" "findConnection gw u = Some cn" "c = connection_core cn"
    by (auto simp: fake_conns_def conns_of_def split: option.splits)
  then show "ugc_UUID c = u \<and> u \<noteq> []" using gw_ok_conn(1,2) [OF gw_inv_ok [OF assms g(1)] g(2)] by simp
next
  assume "fake_tuns s i j u = Some t"
  then obtain gw cn where g: "gm_get (gf_Gateways s) i = Some gw" "findConnection gw j = Some cn"
      "findBy utn_UUID (ugc_Tunnels cn) u = Some t"
    by (auto simp: fake_tuns_def tuns_of_def findTunnel_def split: option.splits)
  show "utn_UUID t = u \<and> u \<noteq> []"
    by (rule fresh_list_nonempty [OF gw_ok_conn(3) [OF gw_inv_ok [OF assms g(1)] g(2)] g(3)])
qed

lemma gw_inv_initial [simp]: "gw_inv NewGatewayAPI"
  by (simp add: gw_inv_def NewGatewayAPI_def)

lemma fake_uid:
  assumes "gw_inv s"
  shows "fake_gws s u = Some g \<Longrightarrow> ug_UUID g = u" and "fake_conns s i u = Some c \<Longrightarrow> ugc_UUID c = u"
    and "fake_tuns s i j u = Some t \<Longrightarrow> utn_UUID t = u"
  using fake_keyed [OF assms] by blast+

lemma fake_nonempty:
  assumes "gw_inv s"
  shows "fake_gws s u = Some g \<Longrightarrow> u \<noteq> []" and "fake_conns s i u = Some c \<Longrightarrow> u \<noteq> []"
    and "fake_tuns s i j u = Some t \<Longrightarrow> u \<noteq> []"
  using fake_keyed [OF assms] by blast+

lemmas fake_gw_laws = fake_uid fake_nonempty fake_GetGateway_law fake_CreateGateway_law fake_ModifyGateway_law
  fake_DeleteGateway_law fake_GetGateways_law
lemmas fake_conn_laws = fake_uid fake_nonempty fake_GetGatewayConnection_law fake_CreateGatewayConnection_law
  fake_ModifyGatewayConnection_law fake_DeleteGatewayConnection_law
lemmas fake_tun_laws = fake_uid fake_nonempty fake_GetGatewayConnectionTunnel_law fake_CreateGatewayConnectionTunnel_law
  fake_DeleteGatewayConnectionTunnel_law

interpretation fake_gw: gateway_service fakeGatewayAPI gw_inv fake_gws fake_conns fake_tuns
proof (rule gateway_service.intro)
  show "labelled_table gw_inv fake_gws (\<lambda>s. (fake_conns s, fake_tuns s)) ug_UUID
      (seen gateway_core (GetGateway fakeGatewayAPI))
      (\<lambda>c. seen gateway_core (CreateGateway fakeGatewayAPI) (c\<lparr>cgw_Connections := []\<rparr>)) gateway_built
      (DeleteGateway fakeGatewayAPI) (seen gateway_core (ModifyGateway fakeGatewayAPI)) mgw_UUID gateway_patched
      ug_Labels (\<lambda>m. seen (map gateway_core) (GetGateways fakeGatewayAPI) [UIDFilter m])"
    by (unfold_locales, unfold fakeGatewayAPI_sel) ((rule fake_gw_laws; (assumption | rule refl))+)
  show "gateway_service_axioms fakeGatewayAPI gw_inv fake_gws fake_conns fake_tuns"
  proof (rule gateway_service_axioms.intro)
    fix g c s r s' u t
    show "mutable_table gw_inv (\<lambda>s. fake_conns s g) (conn_frame g) ugc_UUID
        (seen connection_core (GetGatewayConnection fakeGatewayAPI g))
        (\<lambda>c. seen connection_core (CreateGatewayConnection fakeGatewayAPI g) (c\<lparr>rgc_Tunnels := []\<rparr>)) connection_built
        (DeleteGatewayConnection fakeGatewayAPI g) (seen connection_core (ModifyGatewayConnection fakeGatewayAPI g))
        mgc_UUID connection_patched"
      by (unfold_locales, unfold fakeGatewayAPI_sel) ((rule fake_conn_laws; (assumption | rule refl))+)
    show "cloud_table gw_inv (\<lambda>s. fake_tuns s g c) (tun_frame g c) utn_UUID
        (GetGatewayConnectionTunnel fakeGatewayAPI g c) (CreateGatewayConnectionTunnel fakeGatewayAPI g c) tunnel_built
        (DeleteGatewayConnectionTunnel fakeGatewayAPI g c)"
      by (unfold_locales, unfold fakeGatewayAPI_sel) ((rule fake_tun_laws; (assumption | rule refl))+)
    show "gw_inv s \<Longrightarrow> GetGatewayConnections fakeGatewayAPI g s = (r, s') \<Longrightarrow>
      gw_inv s' \<and> fake_gws s' = fake_gws s \<and> fake_conns s' = fake_conns s \<and> fake_tuns s' = fake_tuns s \<and>
      (\<forall>xs. r = Inr xs \<longrightarrow> ran (fake_conns s g) = connection_core ` set xs)"
      unfolding fakeGatewayAPI_sel by (rule fake_GetGatewayConnections_law)
    show "gw_inv s \<Longrightarrow> fake_tuns s g c u = Some t \<Longrightarrow> fake_gws s g \<noteq> None \<and> fake_conns s g c \<noteq> None"
      by (auto simp: fake_tuns_def fake_gws_def fake_conns_def tuns_of_def conns_of_def split: option.splits)
  qed
qed

end
