(* ===== verification/GatewayAdapter.thy ===== *)
theory GatewayAdapter
  imports NetworkAdapter GatewayFake
begin

text \<open>
  \<open>internal/controller/network/gateway_adapter.go\<close> and \<open>gateway_controller.go\<close>. Features,
  zone and routers are fixed at creation; a changed feature list is an error in Update.
\<close>

subsection \<open>The adapter\<close>

definition GatewayAdapter_desiredRouterUUID :: "Lib \<Rightarrow> Router getter \<Rightarrow> Gateway \<Rightarrow> err + string" where
  "GatewayAdapter_desiredRouterUUID L getRouter g =
     (if gsp_RouterUUID (Spec g) \<noteq> '''' then Inr (gsp_RouterUUID (Spec g))
      else case gsp_RouterRef (Spec g) of
        Some ref \<Rightarrow> ReadyID L Router_Object getRouter (om_Namespace (Meta g)) (lor_Name ref)
      | None \<Rightarrow> Inr '''')"

definition GatewayAdapter_lookup :: "'s GatewayAPI \<Rightarrow> Gateway \<Rightarrow> 's \<Rightarrow> (err + upGateway option) \<times> 's" where
  "GatewayAdapter_lookup api g =
     lookupOwned (GetGateway api) (\<lambda>m. GetGateways api [UIDFilter m]) ug_Labels (gst_UUID (Status g)) (Meta g)"

text \<open>\<open>featuresEqual\<close>: equal lengths, and every wanted feature among the observed ones.\<close>

definition featuresEqual :: "string list \<Rightarrow> string list \<Rightarrow> bool" where
  "featuresEqual got want =
     (if length got \<noteq> length want then False else list_all (\<lambda>w. w \<in> set got) want)"

definition gateway_desired_labels :: "Gateway \<Rightarrow> Label list" where
  "gateway_desired_labels g = DesiredLabels (Meta g) (gsp_Labels (Spec g))"

definition GatewayAdapter_Observe ::
  "'s GatewayAPI \<Rightarrow> Gateway \<Rightarrow> 's \<Rightarrow> (err + Observation) \<times> Gateway \<times> 's" where
  "GatewayAdapter_Observe api g s =
     (case GatewayAdapter_lookup api g s of
        (Inl e, s1) \<Rightarrow> (Inl (Wrap ''get gateway'' e), g, s1)
      | (Inr None, s1) \<Rightarrow> (Inr NoObservation, g, s1)
      | (Inr (Some gw), s1) \<Rightarrow>
          let st1 = (Status g)\<lparr>gst_UUID := ug_UUID gw, gst_OperationalState := ug_OperationalState gw,
                      gst_Addresses := map (\<lambda>ad. \<lparr>ga_Name = uga_Name ad\<rparr>) (ug_Addresses gw)\<rparr>;
              st2 = (case ug_Routers gw of [] \<Rightarrow> st1 | r # rs \<Rightarrow> st1\<lparr>gst_RouterUUID := r\<rparr>);
              g1 = g\<lparr>Status := st2\<rparr>;
              upToDate = (ug_Name gw = Gateway_ExternalName g1 \<and> ug_Plan gw = gsp_Plan (Spec g1) \<and>
                ug_ConfiguredStatus gw = gsp_ConfiguredStatus (Spec g1) \<and>
                featuresEqual (ug_Features gw) (gsp_Features (Spec g1)) \<and>
                LabelsEqual (ug_Labels gw) (gateway_desired_labels g1));
              ready = (ug_OperationalState gw = ''running'' \<or> ug_ConfiguredStatus gw = ''stopped'')
          in (Inr \<lparr>ob_Exists = True, ob_UpToDate = upToDate, ob_Ready = ready, ob_Message = ''''\<rparr>, g1, s1))"

definition GatewayAdapter_Create ::
  "Lib \<Rightarrow> 's GatewayAPI \<Rightarrow> Router getter \<Rightarrow> Gateway \<Rightarrow> 's \<Rightarrow> err option \<times> Gateway \<times> 's" where
  "GatewayAdapter_Create L api getRouter g s =
     (case GatewayAdapter_desiredRouterUUID L getRouter g of
        Inl e \<Rightarrow> (Some e, g, s)
      | Inr router \<Rightarrow>
          let routers = (if router \<noteq> '''' then [router] else []);
              addresses = map (\<lambda>ad. \<lparr>uga_Name = ga_Name ad\<rparr>) (gsp_Addresses (Spec g));
              features = gsp_Features (Spec g)
          in case CreateGateway api
                    \<lparr>cgw_Name = Gateway_ExternalName g, cgw_Zone = gsp_Zone (Spec g), cgw_Plan = gsp_Plan (Spec g),
                     cgw_Features = features, cgw_Routers = routers,
                     cgw_ConfiguredStatus = gsp_ConfiguredStatus (Spec g), cgw_Addresses = addresses,
                     cgw_Labels = gateway_desired_labels g, cgw_Connections = []\<rparr> s of
               (Inl e, s1) \<Rightarrow> (Some (Wrap ''create gateway'' e), g, s1)
             | (Inr created, s1) \<Rightarrow> (None, g\<lparr>Status := (Status g)\<lparr>gst_UUID := ug_UUID created\<rparr>\<rparr>, s1))"

definition GatewayAdapter_Update :: "'s GatewayAPI \<Rightarrow> Gateway \<Rightarrow> 's \<Rightarrow> err option \<times> Gateway \<times> 's" where
  "GatewayAdapter_Update api g s =
     (case GatewayAdapter_lookup api g s of
        (Inl e, s1) \<Rightarrow> (Some (Wrap ''get gateway'' e), g, s1)
      | (Inr None, s1) \<Rightarrow> (Some (Wrap ''update gateway'' ErrPending), g, s1)
      | (Inr (Some gw), s1) \<Rightarrow>
          if \<not> featuresEqual (ug_Features gw) (gsp_Features (Spec g))
          then (Some (ErrText ''features are immutable; recreate the Gateway''), g, s1)
          else
            (case ModifyGateway api
                    \<lparr>mgw_UUID = gst_UUID (Status g), mgw_Name = Gateway_ExternalName g, mgw_Plan = gsp_Plan (Spec g),
                     mgw_ConfiguredStatus = gsp_ConfiguredStatus (Spec g),
                     mgw_Labels = Some (gateway_desired_labels g)\<rparr> s1 of
               (Inl e, s2) \<Rightarrow> (Some (Wrap ''modify gateway'' e), g, s2)
             | (Inr _, s2) \<Rightarrow> (None, g, s2)))"

definition GatewayAdapter_Delete :: "'s GatewayAPI \<Rightarrow> Gateway \<Rightarrow> 's \<Rightarrow> err option \<times> Gateway \<times> 's" where
  "GatewayAdapter_Delete api g s =
     (case deleteByID ''delete gateway'' (DeleteGateway api) (gst_UUID (Status g)) s of (e, s1) \<Rightarrow> (e, g, s1))"

definition GatewayAdapter :: "Lib \<Rightarrow> 's GatewayAPI \<Rightarrow> Router getter \<Rightarrow> (Gateway, 's) Adapter" where
  "GatewayAdapter L api getRouter =
     \<lparr>ad_Observe = GatewayAdapter_Observe api, ad_Create = GatewayAdapter_Create L api getRouter,
      ad_Update = GatewayAdapter_Update api, ad_Delete = GatewayAdapter_Delete api\<rparr>"

definition FinalizerGateway :: string where
  "FinalizerGateway = ''network.upcloud.polarsquad.com/gateway''"

definition SetupGatewayController ::
  "Lib \<Rightarrow> (Gateway, 'k) Client \<Rightarrow> 's GatewayAPI \<Rightarrow> Router getter \<Rightarrow> (string \<Rightarrow> 'w \<Rightarrow> err + Gateway list) \<Rightarrow> Options
   \<Rightarrow> (Gateway, 'k \<times> 's) Reconciler \<times> (ObjectMeta \<Rightarrow> 'w \<Rightarrow> NamespacedName list)" where
  "SetupGatewayController L c api getRouter listGateways opts =
     (mkReconciler L Gateway_Object c (GatewayAdapter L api getRouter) FinalizerGateway opts,
      DependentsOf listGateways Meta
        (\<lambda>g. case gsp_RouterRef (Spec g) of None \<Rightarrow> [] | Some ref \<Rightarrow> [lor_Name ref]))"

lemma GatewayAdapter_sel [simp]:
  "ad_Observe (GatewayAdapter L api gr) = GatewayAdapter_Observe api"
  "ad_Create (GatewayAdapter L api gr) = GatewayAdapter_Create L api gr"
  "ad_Update (GatewayAdapter L api gr) = GatewayAdapter_Update api"
  "ad_Delete (GatewayAdapter L api gr) = GatewayAdapter_Delete api"
  by (simp_all add: GatewayAdapter_def)

lemma Gateway_Object_sel [simp]:
  "GetMeta Gateway_Object = Meta" "GetExternalID Gateway_Object g = gst_UUID (Status g)"
  "GetDeletionPolicy Gateway_Object g = gsp_DeletionPolicy (Spec g)"
  by (simp_all add: Gateway_Object_def)

subsection \<open>The operations against the service contract\<close>

abbreviation gateway_rid :: "Gateway \<Rightarrow> string option" where
  "gateway_rid g \<equiv> rid_of (gst_UUID (Status g))"

text \<open>The specification, without the features, and the features.\<close>

definition gateway_settings :: "Gateway \<Rightarrow> upGateway \<Rightarrow> bool" where
  "gateway_settings g gw \<longleftrightarrow>
     ug_Name gw = Gateway_ExternalName g \<and> ug_Plan gw = gsp_Plan (Spec g) \<and>
     ug_ConfiguredStatus gw = gsp_ConfiguredStatus (Spec g) \<and> LabelsEqual (ug_Labels gw) (gateway_desired_labels g)"

definition gateway_in_sync :: "Gateway \<Rightarrow> upGateway \<Rightarrow> bool" where
  "gateway_in_sync g gw \<longleftrightarrow> gateway_settings g gw \<and> featuresEqual (ug_Features gw) (gsp_Features (Spec g))"

lemma gateway_status_irrelevant [simp]:
  "Gateway_ExternalName (g\<lparr>Status := st\<rparr>) = Gateway_ExternalName g"
  "gateway_desired_labels (g\<lparr>Status := st\<rparr>) = gateway_desired_labels g"
  "gateway_settings (g\<lparr>Status := st\<rparr>) gw \<longleftrightarrow> gateway_settings g gw"
  "gateway_in_sync (g\<lparr>Status := st\<rparr>) gw \<longleftrightarrow> gateway_in_sync g gw"
  by (simp_all add: gateway_settings_def gateway_in_sync_def gateway_desired_labels_def Gateway_ExternalName_def)

lemma gateway_core_sel [simp]:
  "ug_Features (gateway_core gw) = ug_Features gw"
  "ug_OperationalState (gateway_core gw) = ug_OperationalState gw"
  "ug_ConfiguredStatus (gateway_core gw) = ug_ConfiguredStatus gw"
  "gateway_settings g (gateway_core gw) \<longleftrightarrow> gateway_settings g gw"
  "gateway_in_sync g (gateway_core gw) \<longleftrightarrow> gateway_in_sync g gw"
  by (simp_all add: gateway_core_def gateway_settings_def gateway_in_sync_def)

lemma featuresEqual_refl [simp]: "featuresEqual fs fs"
  by (simp add: featuresEqual_def list_all_iff)

context gateway_service
begin

lemma gateway_lookup:
  assumes "GatewayAdapter_lookup api g s = (r, s')"
  shows "gws.lookup_by (gst_UUID (Status g)) (Meta g) s = (map_sum id (map_option gateway_core) r, s')"
  using lookupOwned_seen [of ug_Labels gateway_core _ _ "\<lambda>m. [UIDFilter m]"] assms by (simp add: GatewayAdapter_lookup_def)

lemma gateway_observe_frame:
  assumes "inv s" and "GatewayAdapter_Observe api g s = (out, g', s')"
  shows "inv s' \<and> gws s' = gws s \<and> conns s' = conns s \<and> tuns s' = tuns s \<and> Meta g' = Meta g \<and> Spec g' = Spec g"
proof -
  obtain r s1 where l: "GatewayAdapter_lookup api g s = (r, s1)" by fastforce
  show ?thesis
    using assms(2) l gws.lookup_frame [OF assms(1) gateway_lookup [OF l]]
    by (auto simp: GatewayAdapter_Observe_def Let_def split: sum.splits option.splits list.splits)
qed

lemma gateway_observe_found:
  assumes "inv s" and "GatewayAdapter_Observe api g s = (Inr obs, g', s')" and "ob_Exists obs"
  shows "\<exists>gw. gws s (gst_UUID (Status g')) = Some gw \<and> gst_UUID (Status g') \<noteq> [] \<and>
    (gst_UUID (Status g) \<noteq> [] \<longrightarrow> gst_UUID (Status g') = gst_UUID (Status g)) \<and>
    (ob_Ready obs \<longleftrightarrow> ug_OperationalState gw = ''running'' \<or> ug_ConfiguredStatus gw = ''stopped'') \<and>
    (ob_UpToDate obs \<longleftrightarrow> gateway_in_sync g' gw)"
proof -
  obtain gw s1 where l: "GatewayAdapter_lookup api g s = (Inr (Some gw), s1)"
    using assms(2,3) by (auto simp: GatewayAdapter_Observe_def NoObservation_def split: sum.splits prod.splits option.splits)
  note look = gws.lookup_found [OF assms(1) gateway_lookup [OF l, simplified]]
  have "\<exists>st. g' = g\<lparr>Status := st\<rparr> \<and> gst_UUID st = ug_UUID gw"
    using assms(2) l by (auto simp: GatewayAdapter_Observe_def Let_def split: list.splits)
  moreover have "ob_Ready obs \<longleftrightarrow> ug_OperationalState gw = ''running'' \<or> ug_ConfiguredStatus gw = ''stopped''"
    "ob_UpToDate obs \<longleftrightarrow> gateway_in_sync g gw"
    using assms(2) l by (auto simp: GatewayAdapter_Observe_def Let_def gateway_in_sync_def gateway_settings_def)
  ultimately show ?thesis using look by (intro exI [of _ "gateway_core gw"]) auto
qed

lemma gateway_observe_sees:
  assumes "inv s" and "gws s (gst_UUID (Status g)) = Some gw"
    and "GatewayAdapter_Observe api g s = (Inr obs, g', s')"
  shows "ob_Exists obs \<and> (ob_UpToDate obs \<longleftrightarrow> gateway_in_sync g gw)"
proof -
  obtain r s1 where l: "GatewayAdapter_lookup api g s = (Inr r, s1)"
    using assms(3) by (auto simp: GatewayAdapter_Observe_def split: sum.splits prod.splits)
  have "map_option gateway_core r = Some gw"
    using gws.lookup_present [OF assms(1) gateway_lookup [OF l, simplified] assms(2)] .
  then show ?thesis
    using assms(3) l by (auto simp: GatewayAdapter_Observe_def Let_def gateway_in_sync_def gateway_settings_def
        gateway_core_def)
qed

lemma gateway_create_spec:
  assumes "inv s" and "GatewayAdapter_Create L api gr g s = (e, g', s')"
  shows "inv s' \<and> conns s' = conns s \<and> tuns s' = tuns s \<and> Meta g' = Meta g \<and> Spec g' = Spec g"
    and "e \<noteq> None \<Longrightarrow> gws s' = gws s \<and> g' = g"
    and "e = None \<Longrightarrow> \<exists>gw. gws s (gst_UUID (Status g')) = None \<and>
      gws s' = (gws s)(gst_UUID (Status g') \<mapsto> gw) \<and> gst_UUID (Status g') \<noteq> [] \<and> gateway_in_sync g gw"
proof -
  have "(e \<noteq> None \<and> inv s' \<and> gws s' = gws s \<and> conns s' = conns s \<and> tuns s' = tuns s \<and> g' = g) \<or>
    (\<exists>gw st. e = None \<and> g' = g\<lparr>Status := st\<rparr> \<and> gst_UUID st = ug_UUID gw \<and> inv s' \<and> gws s (ug_UUID gw) = None \<and>
       gws s' = (gws s)(ug_UUID gw \<mapsto> gw) \<and> conns s' = conns s \<and> tuns s' = tuns s \<and> ug_UUID gw \<noteq> [] \<and>
       gateway_in_sync g gw)"
  proof (cases "GatewayAdapter_desiredRouterUUID L gr g")
    case (Inl x)
    then show ?thesis using assms by (auto simp: GatewayAdapter_Create_def)
  next
    case (Inr router)
    let ?q = "\<lparr>cgw_Name = Gateway_ExternalName g, cgw_Zone = gsp_Zone (Spec g), cgw_Plan = gsp_Plan (Spec g),
        cgw_Features = gsp_Features (Spec g), cgw_Routers = if router \<noteq> '''' then [router] else [],
        cgw_ConfiguredStatus = gsp_ConfiguredStatus (Spec g),
        cgw_Addresses = map (\<lambda>ad. \<lparr>uga_Name = ga_Name ad\<rparr>) (gsp_Addresses (Spec g)),
        cgw_Labels = gateway_desired_labels g, cgw_Connections = []\<rparr>"
    obtain r s1 where c: "CreateGateway api ?q s = (r, s1)" by fastforce
    show ?thesis
    proof (cases r)
      case (Inl x)
      have "seen gateway_core (CreateGateway api) (?q\<lparr>cgw_Connections := []\<rparr>) s = (Inl x, s1)"
        using c Inl by (simp add: seen_def)
      from gws.create_failed [OF assms(1) this] show ?thesis
        using assms(2) Inr c Inl by (auto simp: GatewayAdapter_Create_def Let_def)
    next
      case r: (Inr gw)
      have "seen gateway_core (CreateGateway api) (?q\<lparr>cgw_Connections := []\<rparr>) s = (Inr (gateway_core gw), s1)"
        using c r by (simp add: seen_def)
      from gws.create_ok [OF assms(1) this] show ?thesis
        using assms(2) Inr c r
        by (intro disjI2 exI [of _ "gateway_core gw"])
          (auto simp: GatewayAdapter_Create_def Let_def gateway_built_def gateway_in_sync_def gateway_settings_def)
    qed
  qed
  then show "inv s' \<and> conns s' = conns s \<and> tuns s' = tuns s \<and> Meta g' = Meta g \<and> Spec g' = Spec g"
    "e \<noteq> None \<Longrightarrow> gws s' = gws s \<and> g' = g"
    "e = None \<Longrightarrow> \<exists>gw. gws s (gst_UUID (Status g')) = None \<and>
      gws s' = (gws s)(gst_UUID (Status g') \<mapsto> gw) \<and> gst_UUID (Status g') \<noteq> [] \<and> gateway_in_sync g gw"
    by auto
qed

lemma gateway_update_spec:
  assumes "inv s" and "GatewayAdapter_Update api g s = (e, g', s')"
  shows "inv s' \<and> conns s' = conns s \<and> tuns s' = tuns s \<and> g' = g"
    and "gws s' i = None \<longleftrightarrow> gws s i = None"
    and "e = None \<Longrightarrow> gst_UUID (Status g) \<noteq> [] \<Longrightarrow> Gateway_ExternalName g \<noteq> [] \<Longrightarrow> gsp_Plan (Spec g) \<noteq> [] \<Longrightarrow>
      gsp_ConfiguredStatus (Spec g) \<noteq> [] \<Longrightarrow>
      \<exists>gw. gws s' (gst_UUID (Status g)) = Some gw \<and> gateway_in_sync g gw"
    and "gst_UUID (Status g) \<noteq> [] \<Longrightarrow> gws s (gst_UUID (Status g)) = Some gw \<Longrightarrow>
      \<not> featuresEqual (ug_Features gw) (gsp_Features (Spec g)) \<Longrightarrow> e \<noteq> None \<and> gws s' = gws s"
proof -
  obtain l s1 where look: "GatewayAdapter_lookup api g s = (l, s1)" by fastforce
  note lk = gateway_lookup [OF look]
  note frame = gws.lookup_frame [OF assms(1) lk]
  let ?m = "\<lparr>mgw_UUID = gst_UUID (Status g), mgw_Name = Gateway_ExternalName g, mgw_Plan = gsp_Plan (Spec g),
      mgw_ConfiguredStatus = gsp_ConfiguredStatus (Spec g), mgw_Labels = Some (gateway_desired_labels g)\<rparr>"
  have "inv s' \<and> conns s' = conns s \<and> tuns s' = tuns s \<and> g' = g \<and> (\<forall>i. gws s' i = None \<longleftrightarrow> gws s i = None) \<and>
    (e = None \<longrightarrow> gst_UUID (Status g) \<noteq> [] \<longrightarrow> Gateway_ExternalName g \<noteq> [] \<longrightarrow> gsp_Plan (Spec g) \<noteq> [] \<longrightarrow>
      gsp_ConfiguredStatus (Spec g) \<noteq> [] \<longrightarrow>
      (\<exists>gw. gws s' (gst_UUID (Status g)) = Some gw \<and> gateway_in_sync g gw)) \<and>
    (\<forall>gw. gst_UUID (Status g) \<noteq> [] \<longrightarrow> gws s (gst_UUID (Status g)) = Some gw \<longrightarrow>
      \<not> featuresEqual (ug_Features gw) (gsp_Features (Spec g)) \<longrightarrow> e \<noteq> None \<and> gws s' = gws s)"
  proof (cases "\<exists>gw. l = Inr (Some gw) \<and> featuresEqual (ug_Features gw) (gsp_Features (Spec g))")
    case False
    then show ?thesis
      using frame assms(2) look by (auto simp: GatewayAdapter_Update_def split: sum.splits option.splits)
  next
    case True
    then obtain gw where l: "l = Inr (Some gw)" and feat: "featuresEqual (ug_Features gw) (gsp_Features (Spec g))" by blast
    note found = gws.lookup_found [OF assms(1) lk [unfolded l, simplified]]
    obtain r s2 where m: "ModifyGateway api ?m s1 = (r, s2)" by fastforce
    have s1: "inv s1" using frame by simp
    show ?thesis
    proof (cases r)
      case (Inl x)
      have "seen gateway_core (ModifyGateway api) ?m s1 = (Inl x, s2)" using m Inl by (simp add: seen_def)
      from gws.modify_failed [OF s1 this] show ?thesis
        using frame assms(2) look l feat m Inl found by (auto simp: GatewayAdapter_Update_def)
    next
      case (Inr x)
      have "seen gateway_core (ModifyGateway api) ?m s1 = (Inr (gateway_core x), s2)" using m Inr by (simp add: seen_def)
      from gws.modify_ok [OF s1 this] obtain y where y: "inv s2" "conns s2 = conns s1" "tuns s2 = tuns s1"
          "gws s1 (gst_UUID (Status g)) = Some y" "gateway_core x = gateway_patched ?m y"
          "gws s2 = (gws s1)(gst_UUID (Status g) \<mapsto> gateway_patched ?m y)" by auto
      have "gst_UUID (Status g) \<noteq> [] \<Longrightarrow> y = gateway_core gw" using found y(4) frame by auto
      then show ?thesis
        using frame assms(2) look l feat m Inr y found
        by (auto simp: GatewayAdapter_Update_def gateway_in_sync_def gateway_settings_def gateway_patched_def)
    qed
  qed
  note H = this
  show "inv s' \<and> conns s' = conns s \<and> tuns s' = tuns s \<and> g' = g" using H by simp
  show "gws s' i = None \<longleftrightarrow> gws s i = None" using H by simp
  show "e = None \<Longrightarrow> gst_UUID (Status g) \<noteq> [] \<Longrightarrow> Gateway_ExternalName g \<noteq> [] \<Longrightarrow> gsp_Plan (Spec g) \<noteq> [] \<Longrightarrow>
      gsp_ConfiguredStatus (Spec g) \<noteq> [] \<Longrightarrow>
      \<exists>gw. gws s' (gst_UUID (Status g)) = Some gw \<and> gateway_in_sync g gw"
    using H by simp
  show "gst_UUID (Status g) \<noteq> [] \<Longrightarrow> gws s (gst_UUID (Status g)) = Some gw \<Longrightarrow>
      \<not> featuresEqual (ug_Features gw) (gsp_Features (Spec g)) \<Longrightarrow> e \<noteq> None \<and> gws s' = gws s"
    using H by simp
qed

lemma gateway_delete_spec:
  assumes "inv s" and "GatewayAdapter_Delete api g s = (e, g', s')"
  shows "inv s' \<and> conns s' = conns s \<and> tuns s' = tuns s \<and> g' = g"
    and "gateway_rid g \<noteq> Some i \<Longrightarrow> gws s' i = gws s i"
    and "e = None \<Longrightarrow> gateway_rid g = Some i \<Longrightarrow> gws s' i = None"
  using assms gws.deleteByID_frame [OF assms(1)] gws.deleteByID_gone [OF assms(1)]
  by (auto simp: GatewayAdapter_Delete_def split: prod.splits)

end

sublocale gateway_service \<subseteq> gateway_ctr: adapter_contract Gateway_Object "GatewayAdapter L api gr" inv
    "\<lambda>i s. gws s i \<noteq> None" gateway_rid for L gr
proof (rule table_adapter_contract [OF gateway_object.managed_object_axioms])
  fix s x r x' s'
  assume "inv s" "ad_Observe (GatewayAdapter L api gr) x s = (r, x', s')"
  then show "inv s' \<and> gws s' = gws s \<and> GetMeta Gateway_Object x' = GetMeta Gateway_Object x"
    using gateway_observe_frame by simp
next
  fix s x obs x' s'
  assume "inv s" "ad_Observe (GatewayAdapter L api gr) x s = (Inr obs, x', s')" "ob_Exists obs"
  then show "gst_UUID (Status x') \<noteq> [] \<and> gws s (gst_UUID (Status x')) \<noteq> None"
    using gateway_observe_found by fastforce
next
  fix s x e x' s'
  assume I: "inv s" and "ad_Create (GatewayAdapter L api gr) x s = (e, x', s')"
  then show "inv s' \<and> GetMeta Gateway_Object x' = GetMeta Gateway_Object x \<and> (\<forall>i. gws s i \<noteq> None \<longrightarrow> gws s' i \<noteq> None) \<and>
      (e = None \<longrightarrow> gst_UUID (Status x') \<noteq> [] \<and> gws s' (gst_UUID (Status x')) \<noteq> None)"
    using gateway_create_spec [OF I] by (cases e) fastforce+
next
  fix s x e x' s'
  assume "inv s" "ad_Update (GatewayAdapter L api gr) x s = (e, x', s')"
  then show "inv s' \<and> GetMeta Gateway_Object x' = GetMeta Gateway_Object x \<and>
      (\<forall>i. gateway_rid x \<noteq> Some i \<longrightarrow> gws s i \<noteq> None \<longrightarrow> gws s' i \<noteq> None)"
    using gateway_update_spec(1,2) by (metis GatewayAdapter_sel(3))
next
  fix s x e x' s'
  assume "inv s" "ad_Delete (GatewayAdapter L api gr) x s = (e, x', s')"
  then show "inv s' \<and> GetMeta Gateway_Object x' = GetMeta Gateway_Object x \<and> (\<forall>i. gateway_rid x \<noteq> Some i \<longrightarrow> gws s' i = gws s i) \<and>
      (e = None \<longrightarrow> gst_UUID (Status x) \<noteq> [] \<longrightarrow> gws s' (gst_UUID (Status x)) = None)"
    using gateway_delete_spec by (metis GatewayAdapter_sel(4) rid_of_simps(2))
qed

end
