(* ===== verification/GatewayConnectionAdapter.thy ===== *)
theory GatewayConnectionAdapter
  imports GatewayAdapter
begin

text \<open>
  \<open>internal/controller/network/gatewayconnection_adapter.go\<close> and
  \<open>gatewayconnection_controller.go\<close>. A connection is identified by its gateway and its own
  identifier; \<open>getGateway\<close> loads the parent object. Tunnels are left to GatewayTunnel.
\<close>

subsection \<open>The adapter\<close>

definition toGatewayRoutes :: "GatewayRoute list \<Rightarrow> upGatewayRoute list" where
  "toGatewayRoutes rs = map (\<lambda>r. \<lparr>ugr_Name = gr_Name r, ugr_StaticNetwork = gr_StaticNetwork r, ugr_Type = gr_Type r\<rparr>) rs"

definition gatewayRouteKey :: "upGatewayRoute \<Rightarrow> string" where
  "gatewayRouteKey r = ugr_Name r @ ''|'' @ ugr_StaticNetwork r"

definition gatewayRoutesEqual :: "upGatewayRoute list \<Rightarrow> upGatewayRoute list \<Rightarrow> bool" where
  "gatewayRoutesEqual got want =
     (if length got \<noteq> length want then False
      else list_all (\<lambda>w. gatewayRouteKey w \<in> set (map gatewayRouteKey got)) want)"

definition GatewayConnectionAdapter_parentGatewayUUID ::
  "Lib \<Rightarrow> Gateway getter \<Rightarrow> GatewayConnection \<Rightarrow> bool \<Rightarrow> err + string" where
  "GatewayConnectionAdapter_parentGatewayUUID L getGateway c requireReady =
     (if requireReady
      then ReadyID L Gateway_Object getGateway (om_Namespace (Meta c)) (lor_Name (gcsp_GatewayRef (Spec c)))
      else map_sum id snd
             (ExternalID L Gateway_Object getGateway (om_Namespace (Meta c)) (lor_Name (gcsp_GatewayRef (Spec c)))))"

text \<open>The adoption loop: the first connection of the parent with the external name.\<close>

fun firstNamed :: "string \<Rightarrow> upGatewayConnection list \<Rightarrow> upGatewayConnection option" where
  "firstNamed name [] = None"
| "firstNamed name (c # cs) = (if ugc_Name c = name then Some c else firstNamed name cs)"

definition GatewayConnectionAdapter_lookup ::
  "Lib \<Rightarrow> 's GatewayAPI \<Rightarrow> Gateway getter \<Rightarrow> GatewayConnection \<Rightarrow> 's
   \<Rightarrow> (err + upGatewayConnection option) \<times> 's" where
  "GatewayConnectionAdapter_lookup L api getGateway c s =
     (if gcst_UUID (Status c) \<noteq> '''' then
        (case GatewayConnectionAdapter_parentGatewayUUID L getGateway c False of
           Inl e \<Rightarrow> (Inl e, s)
         | Inr gw \<Rightarrow> getByID (GetGatewayConnection api gw) (gcst_UUID (Status c)) s)
      else
        (case GatewayConnectionAdapter_parentGatewayUUID L getGateway c False of
           Inl e \<Rightarrow> (Inl e, s)
         | Inr gw \<Rightarrow>
             (case GetGatewayConnections api gw s of
                (Inl e, s1) \<Rightarrow> (Inl e, s1)
              | (Inr conns, s1) \<Rightarrow> (Inr (firstNamed (GatewayConnection_ExternalName c) conns), s1))))"

definition GatewayConnectionAdapter_Observe ::
  "Lib \<Rightarrow> 's GatewayAPI \<Rightarrow> Gateway getter \<Rightarrow> GatewayConnection \<Rightarrow> 's
   \<Rightarrow> (err + Observation) \<times> GatewayConnection \<times> 's" where
  "GatewayConnectionAdapter_Observe L api getGateway c s =
     (case GatewayConnectionAdapter_parentGatewayUUID L getGateway c False of
        Inl e \<Rightarrow> (Inl e, c, s)
      | Inr gw \<Rightarrow>
          let c1 = c\<lparr>Status := (Status c)\<lparr>gcst_GatewayUUID := gw\<rparr>\<rparr> in
          (case GatewayConnectionAdapter_lookup L api getGateway c1 s of
             (Inl e, s1) \<Rightarrow> (Inl (Wrap ''get gateway connection'' e), c1, s1)
           | (Inr None, s1) \<Rightarrow> (Inr NoObservation, c1, s1)
           | (Inr (Some conn), s1) \<Rightarrow>
               let c2 = c1\<lparr>Status := (Status c1)\<lparr>gcst_UUID := ugc_UUID conn, gcst_Name := ugc_Name conn\<rparr>\<rparr>;
                   upToDate = (gatewayRoutesEqual (ugc_LocalRoutes conn) (toGatewayRoutes (gcsp_LocalRoutes (Spec c2))) \<and>
                     gatewayRoutesEqual (ugc_RemoteRoutes conn) (toGatewayRoutes (gcsp_RemoteRoutes (Spec c2))))
               in (Inr \<lparr>ob_Exists = True, ob_UpToDate = upToDate, ob_Ready = True, ob_Message = ''''\<rparr>, c2, s1)))"

definition GatewayConnectionAdapter_Create ::
  "Lib \<Rightarrow> 's GatewayAPI \<Rightarrow> Gateway getter \<Rightarrow> GatewayConnection \<Rightarrow> 's
   \<Rightarrow> err option \<times> GatewayConnection \<times> 's" where
  "GatewayConnectionAdapter_Create L api getGateway c s =
     (case GatewayConnectionAdapter_parentGatewayUUID L getGateway c True of
        Inl e \<Rightarrow> (Some e, c, s)
      | Inr gw \<Rightarrow>
          (case CreateGatewayConnection api gw
                  \<lparr>rgc_Name = GatewayConnection_ExternalName c, rgc_Type = gcsp_Type (Spec c),
                   rgc_LocalRoutes = toGatewayRoutes (gcsp_LocalRoutes (Spec c)),
                   rgc_RemoteRoutes = toGatewayRoutes (gcsp_RemoteRoutes (Spec c)), rgc_Tunnels = []\<rparr> s of
             (Inl e, s1) \<Rightarrow> (Some (Wrap ''create gateway connection'' e), c, s1)
           | (Inr created, s1) \<Rightarrow>
               (None, c\<lparr>Status := (Status c)\<lparr>gcst_GatewayUUID := gw, gcst_UUID := ugc_UUID created,
                         gcst_Name := ugc_Name created\<rparr>\<rparr>, s1)))"

definition GatewayConnectionAdapter_Update ::
  "Lib \<Rightarrow> 's GatewayAPI \<Rightarrow> Gateway getter \<Rightarrow> GatewayConnection \<Rightarrow> 's
   \<Rightarrow> err option \<times> GatewayConnection \<times> 's" where
  "GatewayConnectionAdapter_Update L api getGateway c s =
     (case GatewayConnectionAdapter_parentGatewayUUID L getGateway c False of
        Inl e \<Rightarrow> (Some e, c, s)
      | Inr gw \<Rightarrow>
          (case ModifyGatewayConnection api gw
                  \<lparr>mgc_UUID = gcst_UUID (Status c),
                   mgc_LocalRoutes = Some (toGatewayRoutes (gcsp_LocalRoutes (Spec c))),
                   mgc_RemoteRoutes = Some (toGatewayRoutes (gcsp_RemoteRoutes (Spec c)))\<rparr> s of
             (Inl e, s1) \<Rightarrow> (Some (Wrap ''modify gateway connection'' e), c, s1)
           | (Inr _, s1) \<Rightarrow> (None, c, s1)))"

definition GatewayConnectionAdapter_Delete ::
  "'s GatewayAPI \<Rightarrow> GatewayConnection \<Rightarrow> 's \<Rightarrow> err option \<times> GatewayConnection \<times> 's" where
  "GatewayConnectionAdapter_Delete api c s =
     (if gcst_UUID (Status c) = '''' \<or> gcst_GatewayUUID (Status c) = '''' then (None, c, s)
      else
        (case DeleteGatewayConnection api (gcst_GatewayUUID (Status c)) (gcst_UUID (Status c)) s of
           (e, s1) \<Rightarrow> (deleteOutcome ''delete gateway connection'' e, c, s1)))"

definition GatewayConnectionAdapter ::
  "Lib \<Rightarrow> 's GatewayAPI \<Rightarrow> Gateway getter \<Rightarrow> (GatewayConnection, 's) Adapter" where
  "GatewayConnectionAdapter L api getGateway =
     \<lparr>ad_Observe = GatewayConnectionAdapter_Observe L api getGateway,
      ad_Create = GatewayConnectionAdapter_Create L api getGateway,
      ad_Update = GatewayConnectionAdapter_Update L api getGateway,
      ad_Delete = GatewayConnectionAdapter_Delete api\<rparr>"

definition FinalizerGatewayConnection :: string where
  "FinalizerGatewayConnection = ''network.upcloud.polarsquad.com/gatewayconnection''"

definition SetupGatewayConnectionController ::
  "Lib \<Rightarrow> (GatewayConnection, 'k) Client \<Rightarrow> 's GatewayAPI \<Rightarrow> Gateway getter
   \<Rightarrow> (string \<Rightarrow> 'w \<Rightarrow> err + GatewayConnection list) \<Rightarrow> Options
   \<Rightarrow> (GatewayConnection, 'k \<times> 's) Reconciler \<times> (ObjectMeta \<Rightarrow> 'w \<Rightarrow> NamespacedName list)" where
  "SetupGatewayConnectionController L c api getGateway listConnections opts =
     (mkReconciler L GatewayConnection_Object c (GatewayConnectionAdapter L api getGateway)
        FinalizerGatewayConnection opts,
      DependentsOf listConnections Meta (\<lambda>x. [lor_Name (gcsp_GatewayRef (Spec x))]))"

lemma GatewayConnectionAdapter_sel [simp]:
  "ad_Observe (GatewayConnectionAdapter L api gg) = GatewayConnectionAdapter_Observe L api gg"
  "ad_Create (GatewayConnectionAdapter L api gg) = GatewayConnectionAdapter_Create L api gg"
  "ad_Update (GatewayConnectionAdapter L api gg) = GatewayConnectionAdapter_Update L api gg"
  "ad_Delete (GatewayConnectionAdapter L api gg) = GatewayConnectionAdapter_Delete api"
  by (simp_all add: GatewayConnectionAdapter_def)

lemma GatewayConnection_Object_sel [simp]:
  "GetMeta GatewayConnection_Object = Meta" "GetExternalID GatewayConnection_Object c = gcst_UUID (Status c)"
  "GetDeletionPolicy GatewayConnection_Object c = gcsp_DeletionPolicy (Spec c)"
  by (simp_all add: GatewayConnection_Object_def)

subsection \<open>The comparisons\<close>

text \<open>
  Counting lengths and checking one inclusion decides equality of the key multisets when
  the wanted keys are distinct.
\<close>

lemma featuresEqual_iff:
  assumes "distinct want"
  shows "featuresEqual got want \<longleftrightarrow> mset got = mset want"
  unfolding same_length_inclusion [OF assms, symmetric] by (auto simp: featuresEqual_def list_all_iff)

lemma gatewayRoutesEqual_iff:
  assumes "distinct (map gatewayRouteKey want)"
  shows "gatewayRoutesEqual got want \<longleftrightarrow> mset (map gatewayRouteKey got) = mset (map gatewayRouteKey want)"
  unfolding same_length_inclusion [OF assms, symmetric] by (auto simp: gatewayRoutesEqual_def list_all_iff)

lemma gatewayRoutesEqual_refl [simp]: "gatewayRoutesEqual rs rs"
  by (simp add: gatewayRoutesEqual_def list_all_iff)

subsection \<open>The operations against the service contract\<close>

text \<open>The identity of a connection: both parts must be recorded for Delete to act.\<close>

definition connection_rid :: "GatewayConnection \<Rightarrow> (string \<times> string) option" where
  "connection_rid c =
     (if gcst_UUID (Status c) = '''' \<or> gcst_GatewayUUID (Status c) = '''' then None
      else Some (gcst_GatewayUUID (Status c), gcst_UUID (Status c)))"

definition connection_in_sync :: "GatewayConnection \<Rightarrow> upGatewayConnection \<Rightarrow> bool" where
  "connection_in_sync c conn \<longleftrightarrow>
     gatewayRoutesEqual (ugc_LocalRoutes conn) (toGatewayRoutes (gcsp_LocalRoutes (Spec c))) \<and>
     gatewayRoutesEqual (ugc_RemoteRoutes conn) (toGatewayRoutes (gcsp_RemoteRoutes (Spec c)))"

lemma connection_core_sel [simp]:
  "ugc_Name (connection_core c) = ugc_Name c" "ugc_LocalRoutes (connection_core c) = ugc_LocalRoutes c"
  "ugc_RemoteRoutes (connection_core c) = ugc_RemoteRoutes c"
  by (simp_all add: connection_core_def)

lemma connection_status_irrelevant [simp]:
  "GatewayConnectionAdapter_parentGatewayUUID L gg (c\<lparr>Status := st\<rparr>) b
     = GatewayConnectionAdapter_parentGatewayUUID L gg c b"
  "GatewayConnection_ExternalName (c\<lparr>Status := st\<rparr>) = GatewayConnection_ExternalName c"
  by (simp_all add: GatewayConnectionAdapter_parentGatewayUUID_def GatewayConnection_ExternalName_def)

lemma parentGateway_nonempty:
  assumes "GatewayConnectionAdapter_parentGatewayUUID L gg c b = Inr gw"
  shows "gw \<noteq> []"
  using assms
  by (auto simp: GatewayConnectionAdapter_parentGatewayUUID_def ReadyID_def Ready_def ExternalID_def
      split: if_splits sum.splits)

lemma firstNamed_Some: "firstNamed n cs = Some c \<Longrightarrow> c \<in> set cs \<and> ugc_Name c = n"
  by (induction cs) (auto split: if_splits)

lemma fun_upd_rest:
  assumes "f(g := z) = h(g := z)"
  shows "i \<noteq> g \<Longrightarrow> f i = h i" and "f g = h g \<Longrightarrow> f = h"
  using assms by (metis fun_upd_other) (metis fun_upd_triv fun_upd_upd assms)

sublocale gateway_service \<subseteq> cn: mutable_table inv "\<lambda>s. conns s g" "\<lambda>s. (gws s, (conns s)(g := \<lambda>_. None))" ugc_UUID
    "seen connection_core (GetGatewayConnection api g)"
    "\<lambda>c. seen connection_core (CreateGatewayConnection api g) (c\<lparr>rgc_Tunnels := []\<rparr>)" connection_built
    "DeleteGatewayConnection api g" "seen connection_core (ModifyGatewayConnection api g)" mgc_UUID
    connection_patched for g
  by (rule connections)

context gateway_service
begin

lemma connection_lookup_spec:
  assumes "inv s" and "GatewayConnectionAdapter_lookup L api gg c s = (r, s')"
  shows "inv s' \<and> gws s' = gws s \<and> conns s' = conns s"
    and "r = Inr (Some conn) \<Longrightarrow> \<exists>gw. GatewayConnectionAdapter_parentGatewayUUID L gg c False = Inr gw \<and>
      conns s gw (ugc_UUID conn) = Some (connection_core conn) \<and> ugc_UUID conn \<noteq> []"
    and "gcst_UUID (Status c) \<noteq> [] \<Longrightarrow> r = Inr None \<Longrightarrow> GatewayConnectionAdapter_parentGatewayUUID L gg c False = Inr gw \<Longrightarrow>
      conns s gw (gcst_UUID (Status c)) = None"
    and "gcst_UUID (Status c) \<noteq> [] \<Longrightarrow> r = Inr (Some conn) \<Longrightarrow> ugc_UUID conn = gcst_UUID (Status c)"
proof -
  have "inv s' \<and> gws s' = gws s \<and> conns s' = conns s \<and>
    (\<forall>conn. r = Inr (Some conn) \<longrightarrow> (\<exists>gw. GatewayConnectionAdapter_parentGatewayUUID L gg c False = Inr gw \<and>
      conns s gw (ugc_UUID conn) = Some (connection_core conn) \<and> ugc_UUID conn \<noteq> [])) \<and>
    (gcst_UUID (Status c) \<noteq> [] \<longrightarrow> r = Inr None \<longrightarrow> (\<forall>gw. GatewayConnectionAdapter_parentGatewayUUID L gg c False = Inr gw \<longrightarrow>
      conns s gw (gcst_UUID (Status c)) = None)) \<and>
    (\<forall>conn. gcst_UUID (Status c) \<noteq> [] \<longrightarrow> r = Inr (Some conn) \<longrightarrow> ugc_UUID conn = gcst_UUID (Status c))"
  proof (cases "GatewayConnectionAdapter_parentGatewayUUID L gg c False")
    case (Inl e)
    then show ?thesis using assms by (auto simp: GatewayConnectionAdapter_lookup_def split: if_splits)
  next
    case (Inr gw)
    show ?thesis
    proof (cases "gcst_UUID (Status c) = []")
      case True
      obtain l s1 where ls: "GetGatewayConnections api gw s = (l, s1)" by fastforce
      note law = connections_list [OF assms(1) ls]
      have s1: "s' = s1" and r: "r = (case l of Inl e \<Rightarrow> Inl e | Inr xs \<Rightarrow> Inr (firstNamed (GatewayConnection_ExternalName c) xs))"
        using assms(2) True Inr ls by (auto simp: GatewayConnectionAdapter_lookup_def split: sum.splits)
      have "conns s gw (ugc_UUID conn) = Some (connection_core conn) \<and> ugc_UUID conn \<noteq> []" if h: "r = Inr (Some conn)" for conn
      proof -
        obtain xs where "l = Inr xs" "conn \<in> set xs" using h r firstNamed_Some by (cases l) auto
        then have "connection_core conn \<in> ran (conns s gw)" using law by blast
        then obtain u where "conns s gw u = Some (connection_core conn)" by (auto simp: ran_def)
        then show ?thesis using cn.keyed [OF assms(1)] by fastforce
      qed
      then show ?thesis using True Inr law s1 by blast
    next
      case False
      let ?get = "GetGatewayConnection api gw" and ?u = "gcst_UUID (Status c)"
      have b: "getByID ?get ?u s = (r, s')" using assms(2) Inr False by (simp add: GatewayConnectionAdapter_lookup_def)
      then have b': "getByID (seen connection_core ?get) ?u s = (map_sum id (map_option connection_core) r, s')"
        by (auto simp: getByID_def seen_def split: prod.splits sum.splits if_splits)
      note fr = cn.getByID_frame [OF assms(1) b']
      have "conns s' = conns s" using fr fun_upd_rest(2) [of "conns s'" gw] by blast
      moreover have "r = Inr (Some conn) \<Longrightarrow> conns s gw ?u = Some (connection_core conn) \<and> ugc_UUID conn = ?u" for conn
        using cn.getByID_found [OF assms(1), of gw ?u "connection_core conn" s'] b' by simp
      moreover have "r = Inr None \<Longrightarrow> conns s gw ?u = None"
        using cn.getByID_absent [OF assms(1), of gw ?u s'] b' by simp
      ultimately show ?thesis using fr Inr False by auto
    qed
  qed
  note H = this
  show "inv s' \<and> gws s' = gws s \<and> conns s' = conns s" using H by simp
  show "r = Inr (Some conn) \<Longrightarrow> \<exists>gw. GatewayConnectionAdapter_parentGatewayUUID L gg c False = Inr gw \<and>
      conns s gw (ugc_UUID conn) = Some (connection_core conn) \<and> ugc_UUID conn \<noteq> []" using H by simp
  show "gcst_UUID (Status c) \<noteq> [] \<Longrightarrow> r = Inr None \<Longrightarrow> GatewayConnectionAdapter_parentGatewayUUID L gg c False = Inr gw \<Longrightarrow>
      conns s gw (gcst_UUID (Status c)) = None" using H by simp
  show "gcst_UUID (Status c) \<noteq> [] \<Longrightarrow> r = Inr (Some conn) \<Longrightarrow> ugc_UUID conn = gcst_UUID (Status c)" using H by simp
qed

lemma connection_observe_spec:
  assumes "inv s" and "GatewayConnectionAdapter_Observe L api gg c s = (r, c', s')"
  shows "inv s' \<and> gws s' = gws s \<and> conns s' = conns s \<and> Meta c' = Meta c \<and> Spec c' = Spec c"
    and "r = Inr obs \<Longrightarrow> ob_Exists obs \<Longrightarrow> \<exists>gw conn. connection_rid c' = Some (gw, ugc_UUID conn) \<and>
      conns s gw (ugc_UUID conn) = Some conn \<and> (ob_UpToDate obs \<longleftrightarrow> connection_in_sync c conn)"
proof -
  consider (parent) e where "GatewayConnectionAdapter_parentGatewayUUID L gg c False = Inl e"
    | (run) gw l s1 where "GatewayConnectionAdapter_parentGatewayUUID L gg c False = Inr gw"
        "GatewayConnectionAdapter_lookup L api gg (c\<lparr>Status := (Status c)\<lparr>gcst_GatewayUUID := gw\<rparr>\<rparr>) s = (l, s1)"
    by (metis prod.exhaust sum.exhaust)
  then have "inv s' \<and> gws s' = gws s \<and> conns s' = conns s \<and> Meta c' = Meta c \<and> Spec c' = Spec c \<and>
    (\<forall>obs. r = Inr obs \<longrightarrow> ob_Exists obs \<longrightarrow> (\<exists>gw conn. connection_rid c' = Some (gw, ugc_UUID conn) \<and>
      conns s gw (ugc_UUID conn) = Some conn \<and> (ob_UpToDate obs \<longleftrightarrow> connection_in_sync c conn)))"
  proof cases
    case parent
    then show ?thesis using assms by (auto simp: GatewayConnectionAdapter_Observe_def)
  next
    case run
    note look = connection_lookup_spec [OF assms(1) run(2)]
    show ?thesis
    proof (cases "\<exists>conn. l = Inr (Some conn)")
      case False
      then show ?thesis
        using assms(2) run look(1)
        by (auto simp: GatewayConnectionAdapter_Observe_def NoObservation_def Let_def split: sum.splits option.splits)
    next
      case True
      then obtain conn where l: "l = Inr (Some conn)" by blast
      have t: "conns s gw (ugc_UUID conn) = Some (connection_core conn)" "ugc_UUID conn \<noteq> []"
        using look(2) [OF l] run(1) by auto
      have "gw \<noteq> []" using parentGateway_nonempty [OF run(1)] .
      have out: "c' = c\<lparr>Status := (Status c)\<lparr>gcst_GatewayUUID := gw, gcst_UUID := ugc_UUID conn, gcst_Name := ugc_Name conn\<rparr>\<rparr>"
        "r = Inr \<lparr>ob_Exists = True, ob_UpToDate = connection_in_sync c conn, ob_Ready = True, ob_Message = ''''\<rparr>" "s' = s1"
        using assms(2) run l by (auto simp: GatewayConnectionAdapter_Observe_def Let_def connection_in_sync_def)
      have "connection_rid c' = Some (gw, ugc_UUID (connection_core conn))"
        using out(1) t(2) \<open>gw \<noteq> []\<close> by (simp add: connection_rid_def)
      moreover have "connection_in_sync c conn \<longleftrightarrow> connection_in_sync c (connection_core conn)"
        by (simp add: connection_in_sync_def)
      moreover have "Meta c' = Meta c" "Spec c' = Spec c" using out(1) by simp_all
      ultimately show ?thesis
        using out(2,3) look(1) t(1) by (metis Inr_inject Observation.select_convs(2) core_simps(3))
    qed
  qed
  note H = this
  show "inv s' \<and> gws s' = gws s \<and> conns s' = conns s \<and> Meta c' = Meta c \<and> Spec c' = Spec c" using H by simp
  show "r = Inr obs \<Longrightarrow> ob_Exists obs \<Longrightarrow> \<exists>gw conn. connection_rid c' = Some (gw, ugc_UUID conn) \<and>
      conns s gw (ugc_UUID conn) = Some conn \<and> (ob_UpToDate obs \<longleftrightarrow> connection_in_sync c conn)" using H by blast
qed

lemma connection_create_spec:
  assumes "inv s" and "GatewayConnectionAdapter_Create L api gg c s = (e, c', s')"
  shows "inv s' \<and> gws s' = gws s \<and> Meta c' = Meta c \<and> Spec c' = Spec c"
    and "conns s g i \<noteq> None \<Longrightarrow> conns s' g i = conns s g i"
    and "e = None \<Longrightarrow> \<exists>gw conn. connection_rid c' = Some (gw, ugc_UUID conn) \<and>
      conns s' gw (ugc_UUID conn) = Some conn \<and> connection_in_sync c conn"
proof -
  have "inv s' \<and> gws s' = gws s \<and> Meta c' = Meta c \<and> Spec c' = Spec c \<and>
    (\<forall>g i. conns s g i \<noteq> None \<longrightarrow> conns s' g i = conns s g i) \<and>
    (e = None \<longrightarrow> (\<exists>gw conn. connection_rid c' = Some (gw, ugc_UUID conn) \<and>
      conns s' gw (ugc_UUID conn) = Some conn \<and> connection_in_sync c conn))"
  proof (cases "GatewayConnectionAdapter_parentGatewayUUID L gg c True")
    case (Inl x)
    then show ?thesis using assms by (auto simp: GatewayConnectionAdapter_Create_def)
  next
    case (Inr gw)
    let ?q = "\<lparr>rgc_Name = GatewayConnection_ExternalName c, rgc_Type = gcsp_Type (Spec c),
        rgc_LocalRoutes = toGatewayRoutes (gcsp_LocalRoutes (Spec c)),
        rgc_RemoteRoutes = toGatewayRoutes (gcsp_RemoteRoutes (Spec c)), rgc_Tunnels = []\<rparr>"
    obtain r s1 where q: "CreateGatewayConnection api gw ?q s = (r, s1)" by fastforce
    show ?thesis
    proof (cases r)
      case (Inl x)
      have "seen connection_core (CreateGatewayConnection api gw) (?q\<lparr>rgc_Tunnels := []\<rparr>) s = (Inl x, s1)"
        using q Inl by (simp add: seen_def)
      note law = cn.create_failed [OF assms(1) this]
      then have "conns s1 = conns s" using fun_upd_rest(2) [of "conns s1" gw] by blast
      then show ?thesis using law assms(2) Inr q Inl by (auto simp: GatewayConnectionAdapter_Create_def)
    next
      case r: (Inr conn)
      have "seen connection_core (CreateGatewayConnection api gw) (?q\<lparr>rgc_Tunnels := []\<rparr>) s
          = (Inr (connection_core conn), s1)"
        using q r by (simp add: seen_def)
      note law = cn.create_ok [OF assms(1) this]
      then have other: "g \<noteq> gw \<Longrightarrow> conns s1 g = conns s g" for g
        using fun_upd_rest(1) [of "conns s1" gw _ "conns s" g] by blast
      have keep: "conns s g i \<noteq> None \<Longrightarrow> conns s1 g i = conns s g i" for g i
        using law other by (cases "g = gw") auto
      have "connection_in_sync c (connection_core conn)"
        using law by (simp add: connection_built_def connection_in_sync_def)
      moreover have "gw \<noteq> []" using parentGateway_nonempty [OF Inr] .
      ultimately show ?thesis
        using law keep assms(2) Inr q r
        by (auto simp: GatewayConnectionAdapter_Create_def connection_rid_def
            intro!: exI [of _ "connection_core conn"])
    qed
  qed
  note H = this
  show "inv s' \<and> gws s' = gws s \<and> Meta c' = Meta c \<and> Spec c' = Spec c" using H by simp
  show "conns s g i \<noteq> None \<Longrightarrow> conns s' g i = conns s g i" using H by blast
  show "e = None \<Longrightarrow> \<exists>gw conn. connection_rid c' = Some (gw, ugc_UUID conn) \<and>
      conns s' gw (ugc_UUID conn) = Some conn \<and> connection_in_sync c conn" using H by blast
qed

lemma connection_update_spec:
  assumes "inv s" and "GatewayConnectionAdapter_Update L api gg c s = (e, c', s')"
  shows "inv s' \<and> gws s' = gws s \<and> c' = c" and "conns s' g i = None \<longleftrightarrow> conns s g i = None"
    and "e = None \<Longrightarrow> \<exists>gw conn. GatewayConnectionAdapter_parentGatewayUUID L gg c False = Inr gw \<and>
      conns s' gw (gcst_UUID (Status c)) = Some conn \<and> connection_in_sync c conn"
proof -
  have "inv s' \<and> gws s' = gws s \<and> c' = c \<and> (\<forall>g i. conns s' g i = None \<longleftrightarrow> conns s g i = None) \<and>
    (e = None \<longrightarrow> (\<exists>gw conn. GatewayConnectionAdapter_parentGatewayUUID L gg c False = Inr gw \<and>
      conns s' gw (gcst_UUID (Status c)) = Some conn \<and> connection_in_sync c conn))"
  proof (cases "GatewayConnectionAdapter_parentGatewayUUID L gg c False")
    case (Inl x)
    then show ?thesis using assms by (auto simp: GatewayConnectionAdapter_Update_def)
  next
    case (Inr gw)
    let ?m = "\<lparr>mgc_UUID = gcst_UUID (Status c), mgc_LocalRoutes = Some (toGatewayRoutes (gcsp_LocalRoutes (Spec c))),
        mgc_RemoteRoutes = Some (toGatewayRoutes (gcsp_RemoteRoutes (Spec c)))\<rparr>"
    obtain r s1 where q: "ModifyGatewayConnection api gw ?m s = (r, s1)" by fastforce
    let ?r = "map_sum id connection_core r"
    have "seen connection_core (ModifyGatewayConnection api gw) ?m s = (?r, s1)"
      using q by (cases r) (simp_all add: seen_def)
    note fr = cn.modify_frame [OF assms(1) this] and ok = cn.modify_ok [OF assms(1) this [THEN trans]]
    have none: "conns s1 g i = None \<longleftrightarrow> conns s g i = None" for g i
      using fr fun_upd_rest(1) [of "conns s1" gw _ "conns s" g] by (cases "g = gw") auto
    have "\<exists>conn. conns s1 gw (gcst_UUID (Status c)) = Some conn \<and> connection_in_sync c conn" if "r = Inr x" for x
      using ok [of "connection_core x" s1] that
      by (auto simp: connection_patched_def connection_in_sync_def)
    then show ?thesis
      using fr none assms(2) Inr q by (auto simp: GatewayConnectionAdapter_Update_def split: sum.splits)
  qed
  note H = this
  show "inv s' \<and> gws s' = gws s \<and> c' = c" using H by simp
  show "conns s' g i = None \<longleftrightarrow> conns s g i = None" using H by simp
  show "e = None \<Longrightarrow> \<exists>gw conn. GatewayConnectionAdapter_parentGatewayUUID L gg c False = Inr gw \<and>
      conns s' gw (gcst_UUID (Status c)) = Some conn \<and> connection_in_sync c conn" using H by blast
qed

lemma connection_delete_spec:
  assumes "inv s" and "GatewayConnectionAdapter_Delete api c s = (e, c', s')"
  shows "inv s' \<and> gws s' = gws s \<and> c' = c" and "connection_rid c \<noteq> Some (g, i) \<Longrightarrow> conns s' g i = conns s g i"
    and "e = None \<Longrightarrow> connection_rid c = Some (g, i) \<Longrightarrow> conns s' g i = None"
proof -
  let ?g = "gcst_GatewayUUID (Status c)" and ?u = "gcst_UUID (Status c)"
  have "inv s' \<and> gws s' = gws s \<and> c' = c \<and> (connection_rid c \<noteq> Some (g, i) \<longrightarrow> conns s' g i = conns s g i) \<and>
    (e = None \<longrightarrow> connection_rid c = Some (g, i) \<longrightarrow> conns s' g i = None)"
  proof (cases "connection_rid c")
    case None
    then show ?thesis
      using assms by (auto simp: GatewayConnectionAdapter_Delete_def connection_rid_def split: if_splits)
  next
    case (Some p)
    then have p: "p = (?g, ?u)" "?u \<noteq> []" "?g \<noteq> []" by (auto simp: connection_rid_def split: if_splits)
    obtain e0 s1 where d: "DeleteGatewayConnection api ?g ?u s = (e0, s1)" by fastforce
    note fr = cn.del_frame [OF assms(1) d] and gone = cn.del_gone [OF assms(1) d]
    have "conns s1 g i = conns s g i" if "(g, i) \<noteq> (?g, ?u)"
      using fr that fun_upd_rest(1) [of "conns s1" ?g _ "conns s" g] by (cases "g = ?g") auto
    then show ?thesis
      using assms(2) d p Some fr gone by (auto simp: GatewayConnectionAdapter_Delete_def deleteOutcome_None)
  qed
  then show "inv s' \<and> gws s' = gws s \<and> c' = c" "connection_rid c \<noteq> Some (g, i) \<Longrightarrow> conns s' g i = conns s g i"
    "e = None \<Longrightarrow> connection_rid c = Some (g, i) \<Longrightarrow> conns s' g i = None" by simp_all
qed

end

sublocale gateway_service \<subseteq> connection_ctr: adapter_contract GatewayConnection_Object
    "GatewayConnectionAdapter L api gg" inv "\<lambda>i s. (case i of (g, c) \<Rightarrow> conns s g c) \<noteq> None" connection_rid for L gg
proof (rule resource_adapter_contract
    [where tbl = "\<lambda>s (g, c). conns s g c", OF gatewayconnection_object.managed_object_axioms])
  fix s x r x' s'
  assume "inv s" "ad_Observe (GatewayConnectionAdapter L api gg) x s = (r, x', s')"
  then show "inv s' \<and> (\<lambda>(g, c). conns s' g c) = (\<lambda>(g, c). conns s g c) \<and>
      GetMeta GatewayConnection_Object x' = GetMeta GatewayConnection_Object x"
    using connection_observe_spec(1) by fastforce
next
  fix s x obs x' s'
  assume I: "inv s" and "ad_Observe (GatewayConnectionAdapter L api gg) x s = (Inr obs, x', s')" "ob_Exists obs"
  then show "\<exists>i. connection_rid x' = Some i \<and> (case i of (g, c) \<Rightarrow> conns s g c) \<noteq> None"
    using connection_observe_spec(2) [OF I, of L gg x "Inr obs" x' s' obs] by auto
next
  fix s x e x' s'
  assume I: "inv s" and "ad_Create (GatewayConnectionAdapter L api gg) x s = (e, x', s')"
  then have c: "GatewayConnectionAdapter_Create L api gg x s = (e, x', s')" by simp
  show "inv s' \<and> GetMeta GatewayConnection_Object x' = GetMeta GatewayConnection_Object x \<and>
      (\<forall>i. (case i of (g, c) \<Rightarrow> conns s g c) \<noteq> None \<longrightarrow> (case i of (g, c) \<Rightarrow> conns s' g c) \<noteq> None) \<and>
      (e = None \<longrightarrow> (\<exists>i. connection_rid x' = Some i \<and> (case i of (g, c) \<Rightarrow> conns s' g c) \<noteq> None))"
    using connection_create_spec [OF I c] by fastforce
next
  fix s x e x' s'
  assume I: "inv s" and "ad_Update (GatewayConnectionAdapter L api gg) x s = (e, x', s')"
  then have c: "GatewayConnectionAdapter_Update L api gg x s = (e, x', s')" by simp
  show "inv s' \<and> GetMeta GatewayConnection_Object x' = GetMeta GatewayConnection_Object x \<and>
      (\<forall>i. connection_rid x \<noteq> Some i \<longrightarrow> (case i of (g, c) \<Rightarrow> conns s g c) \<noteq> None \<longrightarrow>
        (case i of (g, c) \<Rightarrow> conns s' g c) \<noteq> None)"
    using connection_update_spec(1,2) [OF I c] by (auto simp del: not_None_eq)
next
  fix s x e x' s'
  assume I: "inv s" and "ad_Delete (GatewayConnectionAdapter L api gg) x s = (e, x', s')"
  then have c: "GatewayConnectionAdapter_Delete api x s = (e, x', s')" by simp
  show "inv s' \<and> GetMeta GatewayConnection_Object x' = GetMeta GatewayConnection_Object x \<and>
      (\<forall>i. connection_rid x \<noteq> Some i \<longrightarrow> (case i of (g, c) \<Rightarrow> conns s' g c) = (case i of (g, c) \<Rightarrow> conns s g c)) \<and>
      (\<forall>i. e = None \<longrightarrow> connection_rid x = Some i \<longrightarrow> (case i of (g, c) \<Rightarrow> conns s' g c) = None)"
    using connection_delete_spec [OF I c] by (auto split: prod.splits)
qed

end
