(* ===== verification/Passes.thy ===== *)
theory Passes
  imports AdapterCommon
begin

text \<open>
  Passes as equations over the adapter's answers: the two ways a deletion pass can go,
  and the passes that take a new object to Available. The shared lemmas behind the
  properties on deletion order and on progress of every group.
\<close>

lemma delete_pass_pending:
  assumes "hasFinalizer (mkReconciler L Obj c ad f opts) x"
    and "GetDeletionPolicy Obj x \<noteq> DeletionPolicyOrphan"
    and "ad_Delete ad x s = (Some e, x1, s1)" and "errors_Is e ErrPending"
  shows "reconcileDelete (defaults (mkReconciler L Obj c ad f opts)) x (k, s) =
    (let (pe, k1) = cl_StatusPatch c (SetReady L Obj x1 ConditionFalse ReasonDeleting (Error (LeafText L) e)) x k
     in ((\<lparr>RequeueAfter = r_PendingRequeue (defaults (mkReconciler L Obj c ad f opts))\<rparr>, pe), (k1, s1)))"
  using assms by (simp add: reconcileDelete_def hasFinalizer_def patchStatus_def Let_def split: prod.split)

lemma delete_pass_released:
  assumes "hasFinalizer (mkReconciler L Obj c ad f opts) x"
    and "GetDeletionPolicy Obj x \<noteq> DeletionPolicyOrphan"
    and "ad_Delete ad x s = (None, x1, s1)"
  shows "reconcileDelete (defaults (mkReconciler L Obj c ad f opts)) x (k, s) =
    (let (ue, k1) = cl_Update c (removeFinalizer (mkReconciler L Obj c ad f opts) x1) k in ((Result0, ue), (k1, s1)))"
  using assms
  by (simp add: reconcileDelete_def hasFinalizer_def releaseObject_def removeFinalizer_def withFinalizers_def Let_def
      split: prod.split)

lemma pending_requeue_default [simp]:
  "r_PendingRequeue (defaults (mkReconciler L Obj c ad f opts)) = 15 * Second"
  by (simp add: defaults_def mkReconciler_def ApplyOptions_def Let_def)

text \<open>
  Parent first: \<open>busy\<close> says that the resource still has dependants in the cloud. While it
  holds, the pass leaves the resource and the finalizer and asks to be run again; once it
  does not hold, the pass removes the resource and lets the object go.
\<close>

lemma parent_first:
  assumes obj: "managed_object Obj"
    and fin: "hasFinalizer (mkReconciler L Obj c ad f opts) x"
    and policy: "GetDeletionPolicy Obj x \<noteq> DeletionPolicyOrphan"
    and busy: "busy \<Longrightarrow> \<exists>e s1. ad_Delete ad x s = (Some e, x, s1) \<and> errors_Is e ErrPending \<and> tbl s1 = tbl s"
    and free: "\<not> busy \<Longrightarrow> \<exists>s1. ad_Delete ad x s = (None, x, s1) \<and> tbl s1 u = None"
    and pass: "reconcileDelete (defaults (mkReconciler L Obj c ad f opts)) x (k, s) = (out, (k', s'))"
  shows "if busy
    then tbl s' = tbl s \<and> fst out = \<lparr>RequeueAfter = 15 * Second\<rparr> \<and>
      (\<exists>x'. hasFinalizer (mkReconciler L Obj c ad f opts) x' \<and> k' = snd (cl_StatusPatch c x' x k))
    else tbl s' u = None \<and> k' = snd (cl_Update c (removeFinalizer (mkReconciler L Obj c ad f opts) x) k)"
proof (cases busy)
  case True
  then obtain e s1 where d: "ad_Delete ad x s = (Some e, x, s1)" "errors_Is e ErrPending" "tbl s1 = tbl s"
    using busy by blast
  let ?x' = "SetReady L Obj x ConditionFalse ReasonDeleting (Error (LeafText L) e)"
  have "hasFinalizer (mkReconciler L Obj c ad f opts) ?x'"
    using fin managed_object.SetReady_frame(1) [OF obj] by (simp add: hasFinalizer_def)
  then show ?thesis
    using True pass d delete_pass_pending [OF fin policy d(1,2), of k] by (auto split: prod.splits)
next
  case False
  then obtain s1 where d: "ad_Delete ad x s = (None, x, s1)" "tbl s1 u = None" using free by blast
  show ?thesis
    using False d pass delete_pass_released [OF fin policy d(1), of k] by (auto split: prod.splits)
qed

subsection \<open>Repeated passes\<close>

text \<open>\<open>run_passes r key n w\<close>: the world after \<open>n\<close> calls of \<open>Reconcile\<close> on one key.\<close>

fun run_passes :: "('o, 'w) Reconciler \<Rightarrow> NamespacedName \<Rightarrow> nat \<Rightarrow> 'w \<Rightarrow> 'w" where
  "run_passes r key 0 w = w"
| "run_passes r key (Suc n) w = run_passes r key n (snd (Reconcile r key w))"

lemma hasFinalizer_defaults [simp]: "hasFinalizer (defaults r) x = hasFinalizer r x"
  by (simp add: hasFinalizer_def)

lemma addFinalizer_defaults [simp]: "addFinalizer (defaults r) x = addFinalizer r x"
  by (simp add: addFinalizer_def withFinalizers_def)

lemma finalizer_pass:
  assumes "om_DeletionTimestamp (GetMeta Obj x) = None" and "\<not> hasFinalizer (mkReconciler L Obj demo_client ad f opts) x"
  shows "snd (Reconcile (mkReconciler L Obj demo_client ad f opts) key (x, s))
    = (addFinalizer (mkReconciler L Obj demo_client ad f opts) x, s)"
  using assms by (simp add: Reconcile_def demo_client_def)

lemma create_pass:
  assumes "om_DeletionTimestamp (GetMeta Obj x) = None" and "hasFinalizer (mkReconciler L Obj demo_client ad f opts) x"
    and "ad_Observe ad x s = (Inr obs, x1, s1)" and "\<not> ob_Exists obs" and "ad_Create ad x1 s1 = (None, x2, s2)"
  shows "snd (Reconcile (mkReconciler L Obj demo_client ad f opts) key (x, s))
    = (SetReady L Obj x2 ConditionFalse ReasonCreating ''create request accepted'', s2)"
  using assms by (simp add: Reconcile_def reconcileNormal_def patchStatus_def demo_client_def)

lemma steady_pass:
  assumes "om_DeletionTimestamp (GetMeta Obj x) = None" and "hasFinalizer (mkReconciler L Obj demo_client ad f opts) x"
    and "ad_Observe ad x s = (Inr obs, x1, s1)" and "ob_Exists obs \<and> ob_UpToDate obs \<and> ob_Ready obs"
  shows "snd (Reconcile (mkReconciler L Obj demo_client ad f opts) key (x, s))
    = (SetReady L Obj x1 ConditionTrue ReasonAvailable (ob_Message obs), s1)"
  using assms by (simp add: Reconcile_def reconcileNormal_def patchStatus_def demo_client_def)

text \<open>A deletion that the cloud finishes between two passes.\<close>

lemma two_delete_passes:
  assumes obj: "managed_object Obj"
    and del: "om_DeletionTimestamp (GetMeta Obj x) \<noteq> None" and fin: "hasFinalizer (mkReconciler L Obj demo_client ad f opts) x"
    and policy: "GetDeletionPolicy Obj x \<noteq> DeletionPolicyOrphan"
    and first: "ad_Delete ad x s = (Some e, x, s1)" "errors_Is e ErrPending"
    and x1: "x1 = SetReady L Obj x ConditionFalse ReasonDeleting (Error (LeafText L) e)"
    and second: "ad_Delete ad x1 s1 = (None, x1, s2)"
  shows "run_passes (mkReconciler L Obj demo_client ad f opts) key 1 (x, s) = (x1, s1)"
    and "run_passes (mkReconciler L Obj demo_client ad f opts) key 2 (x, s)
      = (removeFinalizer (mkReconciler L Obj demo_client ad f opts) x1, s2)"
    and "hasFinalizer (mkReconciler L Obj demo_client ad f opts) x1"
    and "k8s_lib L \<Longrightarrow> \<not> hasFinalizer (mkReconciler L Obj demo_client ad f opts)
      (removeFinalizer (mkReconciler L Obj demo_client ad f opts) x1)"
proof -
  let ?r = "mkReconciler L Obj demo_client ad f opts"
  note frame = managed_object.SetReady_frame [OF obj]
  show fin1: "hasFinalizer ?r x1" using fin frame(1) by (simp add: x1 hasFinalizer_def)
  have del1: "om_DeletionTimestamp (GetMeta Obj x1) \<noteq> None" and policy1: "GetDeletionPolicy Obj x1 \<noteq> DeletionPolicyOrphan"
    using del policy frame by (simp_all add: x1)
  have p1: "snd (Reconcile ?r key (x, s)) = (x1, s1)"
    using del delete_pass_pending [OF fin policy first, of x] by (simp add: Reconcile_def demo_client_def x1)
  have p2: "snd (Reconcile ?r key (x1, s1)) = (removeFinalizer ?r x1, s2)"
    using del1 delete_pass_released [OF fin1 policy1 second, of x1] by (simp add: Reconcile_def demo_client_def)
  show "run_passes ?r key 1 (x, s) = (x1, s1)" by (simp add: p1)
  show "run_passes ?r key 2 (x, s) = (removeFinalizer ?r x1, s2)" by (simp add: p1 p2 numeral_2_eq_2)
  show "k8s_lib L \<Longrightarrow> \<not> hasFinalizer ?r (removeFinalizer ?r x1)"
    using k8s_lib.not_contains_after_remove managed_object.meta_set [OF obj]
    by (simp add: hasFinalizer_def removeFinalizer_def withFinalizers_def Let_def)
qed

text \<open>
  Three passes take a new object to Available, when the adapter finds nothing for it,
  creates the resource and then observes it as in sync.
\<close>

lemma three_passes:
  assumes obj: "managed_object Obj" and lib: "k8s_lib L"
    and live: "om_DeletionTimestamp (GetMeta Obj x) = None"
    and new: "\<not> hasFinalizer (mkReconciler L Obj demo_client ad f opts) x"
    and o1: "ad_Observe ad (addFinalizer (mkReconciler L Obj demo_client ad f opts) x) s = (Inr obs, x1, s1)" "\<not> ob_Exists obs"
    and cr: "ad_Create ad x1 s1 = (None, x2, s2)"
    and m: "GetMeta Obj x2 = GetMeta Obj (addFinalizer (mkReconciler L Obj demo_client ad f opts) x)"
    and o2: "ad_Observe ad (SetReady L Obj x2 ConditionFalse ReasonCreating ''create request accepted'') s2 = (Inr obs2, x3, s3)"
      "ob_Exists obs2 \<and> ob_UpToDate obs2 \<and> ob_Ready obs2"
  shows "run_passes (mkReconciler L Obj demo_client ad f opts) key 3 (x, s)
    = (SetReady L Obj x3 ConditionTrue ReasonAvailable (ob_Message obs2), s3)"
proof -
  let ?r = "mkReconciler L Obj demo_client ad f opts"
  let ?x1 = "addFinalizer ?r x" and ?x2 = "SetReady L Obj x2 ConditionFalse ReasonCreating ''create request accepted''"
  have fin: "hasFinalizer ?r ?x1"
    using k8s_lib.contains_after_add [OF lib] managed_object.meta_set [OF obj]
    by (simp add: hasFinalizer_def addFinalizer_def withFinalizers_def Let_def)
  have live1: "om_DeletionTimestamp (GetMeta Obj ?x1) = None"
    using live managed_object.meta_set [OF obj] by (simp add: addFinalizer_def withFinalizers_def Let_def)
  have mm: "GetMeta Obj ?x2 = GetMeta Obj ?x1" using m managed_object.SetReady_frame(1) [OF obj] by simp
  have fin2: "hasFinalizer ?r ?x2" and live2: "om_DeletionTimestamp (GetMeta Obj ?x2) = None"
    using fin live1 mm by (simp_all add: hasFinalizer_def)
  show ?thesis
    by (simp add: numeral_3_eq_3 finalizer_pass [OF live new] create_pass [OF live1 fin o1 cr]
        steady_pass [OF live2 fin2 o2])
qed

text \<open>A pass whose Delete fails, for whatever reason, keeps the finalizer.\<close>

lemma delete_pass_refused:
  assumes "managed_object Obj" and "hasFinalizer (mkReconciler L Obj c ad f opts) x"
    and "GetDeletionPolicy Obj x \<noteq> DeletionPolicyOrphan" and "ad_Delete ad x s = (Some e, x, s1)"
    and "reconcileDelete (defaults (mkReconciler L Obj c ad f opts)) x (k, s) = (out, k', s')"
  shows "s' = s1 \<and> (\<exists>x'. hasFinalizer (mkReconciler L Obj c ad f opts) x' \<and> k' = snd (cl_StatusPatch c x' x k))"
proof -
  have "hasFinalizer (mkReconciler L Obj c ad f opts) (SetReady L Obj x st rs m)" for st rs m
    using assms(2) managed_object.SetReady_frame(1) [OF assms(1)] by (simp add: hasFinalizer_def)
  then show ?thesis
    using assms(2-5)
    by (auto simp: reconcileDelete_def fail_def patchStatus_def Let_def split: prod.splits if_splits) (metis snd_conv)+
qed

text \<open>And it is retried: with the backoff of a returned error, or after the pending interval.\<close>

lemma delete_pass_retried:
  assumes "hasFinalizer (mkReconciler L Obj c ad f opts) x"
    and "GetDeletionPolicy Obj x \<noteq> DeletionPolicyOrphan" and "ad_Delete ad x s = (Some e, x1, s1)"
    and "reconcileDelete (defaults (mkReconciler L Obj c ad f opts)) x (k, s) = (out, k', s')"
  shows "snd out \<noteq> None \<or> fst out = \<lparr>RequeueAfter = 15 * Second\<rparr>"
  using assms
  by (auto simp: reconcileDelete_def hasFinalizer_def fail_def Let_def split: prod.splits if_splits)

end
