(* ===== verification/NetworkGroup.thy ===== *)
theory NetworkGroup
  imports RouterAdapter FloatingIPAdapter NetworkPeeringAdapter GatewayConnectionAdapter GatewayFake Passes
begin

text \<open>
  Properties of the routers, floating IPs, peerings, gateways and connections of the
  network group: what a successful write leaves for the next Observe to see, what can
  never converge, and the order of deletions.
\<close>

subsection \<open>Demonstration objects\<close>

text \<open>One account with a router, an attached network, an address and a peering.\<close>

definition demo_Router :: "string \<Rightarrow> Router" where
  "demo_Router u =
     \<lparr>Meta = demo_meta FinalizerRouter,
      Spec = \<lparr>rsp_Name = '''', rsp_StaticRoutes = [], rsp_Labels = [], rsp_DeletionPolicy = ''Delete''\<rparr>,
      Status = \<lparr>rst_Conditions = [], rst_UUID = u, rst_AttachedNetworks = []\<rparr>\<rparr>"

definition demo_FloatingIP :: FloatingIP where
  "demo_FloatingIP =
     \<lparr>Meta = demo_meta FinalizerFloatingIP,
      Spec = \<lparr>fsp_Zone = ''fi-hel1'', fsp_Family = ''IPv4'', fsp_Access = ''public'', fsp_PTRRecord = ''www.example.com'',
              fsp_ReleasePolicy = ''keep'', fsp_DeletionPolicy = ''Delete''\<rparr>,
      Status = \<lparr>fst_Conditions = [], fst_Address = ip4_address 4, fst_MAC = '''', fst_PartOfPlan = False\<rparr>\<rparr>"

definition demo_NetworkPeering :: NetworkPeering where
  "demo_NetworkPeering =
     \<lparr>Meta = demo_meta FinalizerNetworkPeering,
      Spec = \<lparr>psp_Name = ''peer'', psp_NetworkRef = \<lparr>lor_Name = ''net''\<rparr>, psp_PeerNetworkUUID = ''other'',
              psp_ConfiguredStatus = ''active'', psp_Labels = [], psp_DeletionPolicy = ''Delete''\<rparr>,
      Status = \<lparr>pst_Conditions = [], pst_UUID = uuid ''np'' 5, pst_State = ''''\<rparr>\<rparr>"

definition ready_network :: "Network getter" where
  "ready_network ns name =
     Inr (demo_Network (uuid ''net'' 3)\<lparr>Status := \<lparr>nst_Conditions = [\<lparr>c_Type = ConditionReady, c_Status = ConditionTrue,
       c_Reason = ReasonAvailable, c_Message = '''', c_ObservedGeneration = 1\<rparr>], nst_UUID = uuid ''net'' 3,
       nst_RouterUUID = ''''\<rparr>\<rparr>)"

definition demo_nw :: "string \<Rightarrow> NetworkFake" where
  "demo_nw router = NewNetworkAPI\<lparr>nf_seq := 5,
     nf_Routers := [(uuid ''rtr'' 2, \<lparr>ur_UUID = uuid ''rtr'' 2, ur_Name = ''old'', ur_Type = ''normal'', ur_Labels = [],
       ur_StaticRoutes = [], ur_AttachedNetworks = []\<rparr>)],
     nf_Networks := [(uuid ''net'' 3, \<lparr>un_UUID = uuid ''net'' 3, un_Name = ''net'', un_Zone = ''fi-hel1'',
       un_Type = ''private'', un_Router = router, un_IPNetworks = [], un_Labels = []\<rparr>)],
     nf_IPs := [(ip4_address 4, \<lparr>uip_Address = ip4_address 4, uip_Family = ''IPv4'', uip_Access = ''public'',
       uip_Zone = ''fi-hel1'', uip_ReleasePolicy = ''keep'', uip_PTRRecord = '''', uip_MAC = '''', uip_PartOfPlan = False,
       uip_Floating = True\<rparr>)],
     nf_Peerings := [(uuid ''np'' 5, \<lparr>unp_UUID = uuid ''np'' 5, unp_Name = ''old'', unp_NetworkUUID = uuid ''net'' 3,
       unp_PeerNetworkUUID = ''other'', unp_ConfiguredStatus = ''active'', unp_State = ''active'', unp_Labels = []\<rparr>)]\<rparr>"

lemma demo_nw_inv [simp]: "net_inv (demo_nw router)"
  by (auto simp: demo_nw_def net_inv_def NewNetworkAPI_def fresh_table_def uuid_ids_def ip_ids_def intro: exI [of _ 4]
      split: if_splits)

lemma demo_nw_sel [simp]:
  "nf_FailNext (demo_nw router) = None"
  "nf_Routers (demo_nw router) = [(uuid ''rtr'' 2, \<lparr>ur_UUID = uuid ''rtr'' 2, ur_Name = ''old'', ur_Type = ''normal'',
     ur_Labels = [], ur_StaticRoutes = [], ur_AttachedNetworks = []\<rparr>)]"
  by (simp_all add: demo_nw_def NewNetworkAPI_def)

subsection \<open>Routers\<close>

text \<open>
  Round trip of a router. Whatever a successful Create or Update wrote, the next
  Observe of the object it left, when the cloud answers, finds the router, Ready and up
  to date: the conversion of the routes to the API's form and the comparison agree.
\<close>

theorem router_write_then_observe:
  assumes svc: "network_service api I nets rtrs ips prs" and "I s"
    and wr: "RouterAdapter_Create api r s = (None, r1, s1) \<or> RouterAdapter_Update api r s = (None, r1, s1)"
    and ob: "RouterAdapter_Observe api r1 s1 = (Inr obs, r2, s2)"
  shows "ob_Exists obs \<and> ob_Ready obs \<and> ob_UpToDate obs"
proof -
  obtain rt where "I s1" "rtrs s1 (rst_UUID (Status r1)) = Some rt" "router_in_sync r1 rt"
    using wr
  proof
    assume c: "RouterAdapter_Create api r s = (None, r1, s1)"
    note cr = network_service.router_create_spec [OF svc \<open>I s\<close> c]
    obtain rt where "rtrs s1 (rst_UUID (Status r1)) = Some rt" "router_in_sync r rt" using cr(3) by auto
    moreover have "router_in_sync r1 rt = router_in_sync r rt"
      using cr(1) by (simp add: router_in_sync_def router_desired_labels_def Router_ExternalName_def)
    ultimately show ?thesis using that cr(1) by blast
  next
    assume u: "RouterAdapter_Update api r s = (None, r1, s1)"
    note up = network_service.router_update_spec [OF svc \<open>I s\<close> u]
    show ?thesis using that up(1,4) by blast
  qed
  then show ?thesis using network_service.router_observe_sees [OF svc _ _ ob] by blast
qed

theorem router_write_then_observe_witness:
  "\<exists>r1 s1 obs r2 s2. RouterAdapter_Create fakeNetworkAPI (demo_Router []) (demo_nw []) = (None, r1, s1) \<and>
     RouterAdapter_Observe fakeNetworkAPI r1 s1 = (Inr obs, r2, s2) \<and> ob_Exists obs \<and> ob_Ready obs \<and> ob_UpToDate obs"
proof -
  obtain r1 s1 where c: "RouterAdapter_Create fakeNetworkAPI (demo_Router []) (demo_nw []) = (None, r1, s1)"
    by (simp add: RouterAdapter_Create_def fake_CreateRouter_def nf_record_def nf_nextUUID_def Let_def)
  obtain rt where rt: "fake_rtrs s1 (rst_UUID (Status r1)) = Some rt" "rst_UUID (Status r1) \<noteq> []"
    using fake_net.router_create_spec(3) [OF demo_nw_inv c] by auto
  obtain obs r2 s2 where ob: "RouterAdapter_Observe fakeNetworkAPI r1 s1 = (Inr obs, r2, s2)"
    using rt by (simp add: RouterAdapter_Observe_def RouterAdapter_lookup_def lookupOwned_def getByID_def
        fake_GetRouterDetails_def nf_call_def Let_def)
  show ?thesis
    using router_write_then_observe [OF fake_net.network_service_axioms demo_nw_inv disjI1 [OF c] ob] c ob by blast
qed

lemma anyAttached_iff: "anyAttached u ns \<longleftrightarrow> (\<exists>n \<in> set ns. un_Router n = u)"
  by (induction ns) auto

lemma router_delete_on_fake:
  assumes "net_inv s" and "nf_FailNext s = None" and "rst_UUID (Status r) = u" and "fake_rtrs s u \<noteq> None"
  shows "(\<exists>i n. fake_nets s i = Some n \<and> un_Router n = u) \<Longrightarrow>
      \<exists>e. RouterAdapter_Delete fakeNetworkAPI r s = (Some e, r, nf_call ''DeleteRouter'' s) \<and> errors_Is e ErrPending"
    and "\<not> (\<exists>i n. fake_nets s i = Some n \<and> un_Router n = u) \<Longrightarrow>
      RouterAdapter_Delete fakeNetworkAPI r s
        = (None, r, (nf_call ''DeleteRouter'' s)\<lparr>nf_Routers := gm_del u (nf_Routers s)\<rparr>)"
proof -
  have ne: "u \<noteq> []" using assms(1,4) net_inv_uid(2) by blast
  have wf: "gm_wf (nf_Networks s)" using assms(1) by (simp add: net_inv_def fresh_table_def)
  have att: "anyAttached u (nf_range f (nf_Networks s)) \<longleftrightarrow> (\<exists>i n. fake_nets s i = Some n \<and> un_Router n = u)" for f
    using gm_values_ran [OF wf] by (auto simp: anyAttached_iff ran_def)
  note defs = RouterAdapter_Delete_def deleteByID_def deleteOutcome_def fake_DeleteRouter_def nf_record_def nf_call_def
  show "(\<exists>i n. fake_nets s i = Some n \<and> un_Router n = u) \<Longrightarrow>
      \<exists>e. RouterAdapter_Delete fakeNetworkAPI r s = (Some e, r, nf_call ''DeleteRouter'' s) \<and> errors_Is e ErrPending"
    using assms ne att by (auto simp: defs Let_def)
  show "\<not> (\<exists>i n. fake_nets s i = Some n \<and> un_Router n = u) \<Longrightarrow>
      RouterAdapter_Delete fakeNetworkAPI r s
        = (None, r, (nf_call ''DeleteRouter'' s)\<lparr>nf_Routers := gm_del u (nf_Routers s)\<rparr>)"
    using assms ne att by (auto simp: defs Let_def)
qed

text \<open>
  C13. Networks before their router. While a network is attached, a deletion pass leaves
  every router, keeps the finalizer and comes back after 15 seconds; once none is
  attached, the pass deletes the router and releases the object.
\<close>

theorem router_delete_waits_for_networks:
  assumes "net_inv s" and "nf_FailNext s = None"
    and "rst_UUID (Status r) = u" and "fake_rtrs s u \<noteq> None"
    and "rsp_DeletionPolicy (Spec r) \<noteq> DeletionPolicyOrphan"
    and "hasFinalizer (SetupRouterController L c fakeNetworkAPI opts) r"
    and "reconcileDelete (defaults (SetupRouterController L c fakeNetworkAPI opts)) r (k, s) = (out, (k', s'))"
  shows "if \<exists>i n. fake_nets s i = Some n \<and> un_Router n = u
    then fake_rtrs s' = fake_rtrs s \<and> fst out = \<lparr>RequeueAfter = 15 * Second\<rparr> \<and>
      (\<exists>r'. hasFinalizer (SetupRouterController L c fakeNetworkAPI opts) r' \<and> k' = snd (cl_StatusPatch c r' r k))
    else fake_rtrs s' u = None \<and>
      k' = snd (cl_Update c (removeFinalizer (SetupRouterController L c fakeNetworkAPI opts) r) k)"
  unfolding SetupRouterController_def
proof (rule parent_first [where tbl = fake_rtrs and s = s and u = u, OF router_object.managed_object_axioms
      assms(6) [unfolded SetupRouterController_def] _ _ _ assms(7) [unfolded SetupRouterController_def]])
  show "GetDeletionPolicy Router_Object r \<noteq> DeletionPolicyOrphan" using assms(5) by simp
  show "\<exists>e s1. ad_Delete (RouterAdapter fakeNetworkAPI) r s = (Some e, r, s1) \<and> errors_Is e ErrPending \<and>
      fake_rtrs s1 = fake_rtrs s" if "\<exists>i n. fake_nets s i = Some n \<and> un_Router n = u"
    using router_delete_on_fake(1) [OF assms(1-4) that] by (auto simp: nf_call_def)
  show "\<exists>s1. ad_Delete (RouterAdapter fakeNetworkAPI) r s = (None, r, s1) \<and> fake_rtrs s1 u = None"
    if "\<not> (\<exists>i n. fake_nets s i = Some n \<and> un_Router n = u)"
    using router_delete_on_fake(2) [OF assms(1-4) that] by simp
qed

theorem router_delete_waits_for_networks_witness:
  "\<exists>out k' s'. reconcileDelete
       (defaults (SetupRouterController ref_Lib demo_client fakeNetworkAPI \<lparr>opt_SteadyRequeue = 0\<rparr>))
       (demo_Router (uuid ''rtr'' 2)) (demo_Router (uuid ''rtr'' 2), demo_nw (uuid ''rtr'' 2)) = (out, (k', s')) \<and>
     fake_rtrs s' (uuid ''rtr'' 2) \<noteq> None \<and> fst out = \<lparr>RequeueAfter = 15 * Second\<rparr>"
proof -
  let ?rec = "SetupRouterController ref_Lib demo_client fakeNetworkAPI \<lparr>opt_SteadyRequeue = 0\<rparr>"
  let ?r = "demo_Router (uuid ''rtr'' 2)" and ?s = "demo_nw (uuid ''rtr'' 2)"
  obtain out k' s' where pass: "reconcileDelete (defaults ?rec) ?r (?r, ?s) = (out, (k', s'))" by (metis prod.exhaust)
  have fin: "hasFinalizer ?rec ?r"
    by (simp add: SetupRouterController_def hasFinalizer_def ref_Lib_def demo_Router_def demo_meta_def)
  have att: "\<exists>i n. fake_nets ?s i = Some n \<and> un_Router n = uuid ''rtr'' 2"
    by (auto simp: demo_nw_def split: if_splits)
  have "fake_rtrs s' = fake_rtrs ?s \<and> fst out = \<lparr>RequeueAfter = 15 * Second\<rparr>"
    using router_delete_waits_for_networks [where u = "uuid ''rtr'' 2", OF demo_nw_inv _ _ _ _ fin pass] att
    by (simp add: demo_Router_def DeletionPolicyOrphan_def)
  then show ?thesis using pass by simp
qed

subsection \<open>Floating IPs and peerings\<close>

text \<open>
  What Update can repair. After a successful Update of a FloatingIP the next Observe
  reports the address up to date exactly when zone, family and access were those of the
  spec already: these are fixed at allocation, and an address that differs in one of
  them is modified on every pass for ever.
\<close>

theorem floatingip_update_converges_iff:
  assumes svc: "network_service api I nets rtrs ips prs" and "I s"
    and "fsp_ReleasePolicy (Spec f) \<noteq> []"
    and "ips s (fst_Address (Status f)) = Some ip"
    and up: "FloatingIPAdapter_Update api f s = (None, f1, s1)"
    and ob: "FloatingIPAdapter_Observe api f1 s1 = (Inr obs, f2, s2)"
  shows "ob_Exists obs \<and> ob_Ready obs \<and> (ob_UpToDate obs \<longleftrightarrow> floatingip_fixed f ip)"
proof -
  note u = network_service.floatingip_update_spec [OF svc \<open>I s\<close> up]
  obtain ip' where "ips s1 (fst_Address (Status f)) = Some ip'" "floatingip_in_sync f ip' \<longleftrightarrow> floatingip_fixed f ip"
    using u(3) assms(3,4) by auto
  then show ?thesis using network_service.floatingip_observe_sees [OF svc _ _ ob] u(1) by auto
qed

theorem floatingip_update_converges_iff_witness:
  "\<exists>f1 s1 obs f2 s2. FloatingIPAdapter_Update fakeNetworkAPI demo_FloatingIP (demo_nw []) = (None, f1, s1) \<and>
     FloatingIPAdapter_Observe fakeNetworkAPI f1 s1 = (Inr obs, f2, s2) \<and> ob_UpToDate obs"
proof -
  let ?f = demo_FloatingIP and ?s = "demo_nw []"
  obtain ip where ip: "fake_ips ?s (fst_Address (Status ?f)) = Some ip" "floatingip_fixed ?f ip"
    by (simp add: demo_nw_def demo_FloatingIP_def floatingip_fixed_def)
  obtain s1 where up: "FloatingIPAdapter_Update fakeNetworkAPI ?f ?s = (None, ?f, s1)"
    using ip(1) by (simp add: FloatingIPAdapter_Update_def fake_ModifyIPAddress_def nf_record_def Let_def)
  obtain ip' where "fake_ips s1 (fst_Address (Status ?f)) = Some ip'"
    using fake_net.floatingip_update_spec(2) [OF demo_nw_inv up, of "fst_Address (Status ?f)"] ip(1) by auto
  moreover have "fst_Address (Status ?f) \<noteq> []" by (simp add: demo_FloatingIP_def ip4_address_def)
  ultimately obtain obs f2 s2 where ob: "FloatingIPAdapter_Observe fakeNetworkAPI ?f s1 = (Inr obs, f2, s2)"
    by (simp add: FloatingIPAdapter_Observe_def FloatingIPAdapter_lookup_def getByID_def fake_GetIPAddressDetails_def
        nf_call_def Let_def)
  have "fsp_ReleasePolicy (Spec ?f) \<noteq> []" by (simp add: demo_FloatingIP_def)
  then show ?thesis
    using floatingip_update_converges_iff [OF fake_net.network_service_axioms demo_nw_inv _ ip(1) up ob] ip(2) up ob
    by blast
qed

text \<open>
  The same for peerings: name, configured status and labels are repaired by one
  Update, the two ends never; the peering is Ready exactly when the API says active.
\<close>

theorem peering_update_converges_iff:
  assumes svc: "network_service api I nets rtrs ips prs" and "I s"
    and "NetworkPeering_ExternalName p \<noteq> []" and "psp_ConfiguredStatus (Spec p) \<noteq> []"
    and "prs s (pst_UUID (Status p)) = Some got"
    and up: "NetworkPeeringAdapter_Update api p s = (None, p1, s1)"
    and ob: "NetworkPeeringAdapter_Observe L api gn p1 s1 = (Inr obs, p2, s2)"
  shows "ob_Exists obs \<and> (ob_UpToDate obs \<longleftrightarrow> peering_ends L gn p got) \<and>
    (\<exists>got'. prs s1 (pst_UUID (Status p)) = Some got' \<and> (ob_Ready obs \<longleftrightarrow> unp_State got' = ''active''))"
proof -
  note u = network_service.peering_update_spec [OF svc \<open>I s\<close> up]
  obtain got' where g: "prs s1 (pst_UUID (Status p)) = Some got'" "peering_settings p got'"
      "peering_ends L gn p got' \<longleftrightarrow> peering_ends L gn p got"
    using u(3) [OF refl assms(3,4), of L gn] assms(5) by auto
  have "I s1" "p1 = p" using u(1) by simp_all
  then show ?thesis using network_service.peering_observe_sees [OF svc _ _ ob] g by auto
qed

theorem peering_update_converges_iff_witness:
  "\<exists>p1 s1 obs p2 s2. NetworkPeeringAdapter_Update fakeNetworkAPI demo_NetworkPeering (demo_nw []) = (None, p1, s1) \<and>
     NetworkPeeringAdapter_Observe ref_Lib fakeNetworkAPI ready_network p1 s1 = (Inr obs, p2, s2) \<and> ob_UpToDate obs"
proof -
  let ?p = demo_NetworkPeering and ?s = "demo_nw []"
  have loc: "NetworkPeeringAdapter_localNetworkUUID ref_Lib ready_network ?p = Inr (uuid ''net'' 3)"
    by (simp add: NetworkPeeringAdapter_localNetworkUUID_def ReadyID_def Ready_def ExternalID_def ready_network_def
        Network_Object_def crObject_def IsReady_def ref_Lib_def ref_IsStatusConditionTrue_def)
  obtain got where got: "fake_prs ?s (pst_UUID (Status ?p)) = Some got" "peering_ends ref_Lib ready_network ?p got"
    using loc by (simp add: demo_nw_def demo_NetworkPeering_def peering_ends_def)
  obtain s1 where up: "NetworkPeeringAdapter_Update fakeNetworkAPI ?p ?s = (None, ?p, s1)"
    using got(1) by (simp add: NetworkPeeringAdapter_Update_def fake_ModifyNetworkPeering_def nf_record_def Let_def)
  obtain got' where "fake_prs s1 (pst_UUID (Status ?p)) = Some got'"
    using fake_net.peering_update_spec(2) [OF demo_nw_inv up, of "pst_UUID (Status ?p)"] got(1) by auto
  moreover have "pst_UUID (Status ?p) \<noteq> []" by (simp add: demo_NetworkPeering_def)
  ultimately obtain obs p2 s2 where ob: "NetworkPeeringAdapter_Observe ref_Lib fakeNetworkAPI ready_network ?p s1 = (Inr obs, p2, s2)"
    using loc by (simp add: NetworkPeeringAdapter_Observe_def NetworkPeeringAdapter_lookup_def lookupOwned_def getByID_def
        fake_GetNetworkPeering_def nf_call_def Let_def)
  have "NetworkPeering_ExternalName ?p \<noteq> []" "psp_ConfiguredStatus (Spec ?p) \<noteq> []"
    by (simp_all add: demo_NetworkPeering_def NetworkPeering_ExternalName_def nameOrMeta_def)
  then show ?thesis
    using peering_update_converges_iff [OF fake_net.network_service_axioms demo_nw_inv _ _ got(1) up ob] got(2) up ob
    by blast
qed

subsection \<open>Gateways and connections\<close>

text \<open>
  Gateways. The features of a gateway are immutable: when they differ, Update fails
  without a write. When they agree, a successful Update leaves the gateway so that the
  next Observe finds it up to date.
\<close>

theorem gateway_update_converges_or_refuses:
  assumes svc: "gateway_service api I gws conns tuns" and "I s"
    and "gst_UUID (Status g) \<noteq> []" and "gws s (gst_UUID (Status g)) = Some gw"
    and "Gateway_ExternalName g \<noteq> []" and "gsp_Plan (Spec g) \<noteq> []" and "gsp_ConfiguredStatus (Spec g) \<noteq> []"
    and up: "GatewayAdapter_Update api g s = (e, g1, s1)"
  shows "(\<not> featuresEqual (ug_Features gw) (gsp_Features (Spec g)) \<longrightarrow> e \<noteq> None \<and> gws s1 = gws s) \<and>
    (\<forall>obs g2 s2. e = None \<longrightarrow> GatewayAdapter_Observe api g1 s1 = (Inr obs, g2, s2) \<longrightarrow>
      ob_Exists obs \<and> ob_UpToDate obs)"
proof (intro conjI allI impI)
  note u = gateway_service.gateway_update_spec [OF svc \<open>I s\<close> up]
  show "e \<noteq> None" "gws s1 = gws s" if "\<not> featuresEqual (ug_Features gw) (gsp_Features (Spec g))"
    using u(4) assms(3,4) that by blast+
  fix obs g2 s2
  assume "e = None" and ob: "GatewayAdapter_Observe api g1 s1 = (Inr obs, g2, s2)"
  then obtain gw' where "gws s1 (gst_UUID (Status g)) = Some gw'" "gateway_in_sync g gw'"
    using u(3) assms(3-7) by blast
  then show "ob_Exists obs" "ob_UpToDate obs"
    using gateway_service.gateway_observe_sees [OF svc _ _ ob] u(1) by auto
qed

definition demo_Gateway :: "string list \<Rightarrow> Gateway" where
  "demo_Gateway features =
     \<lparr>Meta = demo_meta FinalizerGateway,
      Spec = \<lparr>gsp_Name = ''gw'', gsp_Zone = ''fi-hel1'', gsp_Plan = ''production'', gsp_Features = features,
              gsp_RouterRef = None, gsp_RouterUUID = ''r'', gsp_ConfiguredStatus = ''started'', gsp_Addresses = [],
              gsp_Labels = [], gsp_DeletionPolicy = ''Delete''\<rparr>,
      Status = \<lparr>gst_Conditions = [], gst_UUID = uuid ''gw'' 2, gst_OperationalState = '''', gst_Addresses = [],
                gst_RouterUUID = ''''\<rparr>\<rparr>"

definition demo_gw :: "upGatewayConnection list \<Rightarrow> GatewayFake" where
  "demo_gw cs = NewGatewayAPI\<lparr>gf_seq := 3, gf_Gateways := [(uuid ''gw'' 2,
     \<lparr>ug_UUID = uuid ''gw'' 2, ug_Name = ''gw'', ug_Zone = ''fi-hel1'', ug_Plan = ''development'',
      ug_Features = [''vpn''], ug_Routers = [''r''], ug_Labels = [], ug_ConfiguredStatus = ''started'',
      ug_OperationalState = ''running'', ug_Addresses = [], ug_Connections = cs\<rparr>)]\<rparr>"

definition demo_gw_conn :: upGatewayConnection where
  "demo_gw_conn = \<lparr>ugc_UUID = uuid ''conn'' 3, ugc_Name = ''conn'', ugc_Type = ''ipsec'', ugc_LocalRoutes = [],
     ugc_RemoteRoutes = [], ugc_Tunnels = []\<rparr>"

lemma demo_gw_inv [simp]: "gw_inv (demo_gw [])" "gw_inv (demo_gw [demo_gw_conn])"
  by (auto simp: demo_gw_def demo_gw_conn_def gw_inv_def NewGatewayAPI_def fresh_table_def fresh_list_def gw_ok_def
      uuid_ids_def intro: exI [of _ 2] split: if_splits)

theorem gateway_update_converges_or_refuses_witness:
  "\<exists>e g1 s1. GatewayAdapter_Update fakeGatewayAPI (demo_Gateway [''vpn'', ''nat'']) (demo_gw []) = (e, g1, s1) \<and>
     e \<noteq> None \<and> fake_gws s1 = fake_gws (demo_gw [])"
proof -
  let ?g = "demo_Gateway [''vpn'', ''nat'']" and ?s = "demo_gw []"
  obtain e g1 s1 where up: "GatewayAdapter_Update fakeGatewayAPI ?g ?s = (e, g1, s1)" by (metis prod.exhaust)
  obtain gw where gw: "fake_gws ?s (gst_UUID (Status ?g)) = Some gw"
      "\<not> featuresEqual (ug_Features gw) (gsp_Features (Spec ?g))"
    by (simp add: fake_gws_def demo_gw_def demo_Gateway_def gateway_core_def featuresEqual_def)
  have "gst_UUID (Status ?g) \<noteq> []" "Gateway_ExternalName ?g \<noteq> []" "gsp_Plan (Spec ?g) \<noteq> []"
    "gsp_ConfiguredStatus (Spec ?g) \<noteq> []"
    by (simp_all add: demo_Gateway_def Gateway_ExternalName_def nameOrMeta_def)
  then have "e \<noteq> None \<and> fake_gws s1 = fake_gws ?s"
    using gateway_update_converges_or_refuses [OF fake_gw.gateway_service_axioms demo_gw_inv(1) _ gw(1) _ _ _ up] gw(2)
    by blast
  then show ?thesis using up by blast
qed

text \<open>
  Connections before their gateway. While the gateway has a connection, a deletion
  pass leaves it, keeps the finalizer and comes back; afterwards it deletes the gateway.
\<close>

theorem gateway_delete_waits_for_connections:
  assumes "gw_inv s" and "gf_FailNext s = None"
    and "gst_UUID (Status g) = u" and "gm_get (gf_Gateways s) u = Some gw"
    and "gsp_DeletionPolicy (Spec g) \<noteq> DeletionPolicyOrphan"
    and "hasFinalizer (fst (SetupGatewayController L c fakeGatewayAPI gr lg opts)) g"
    and "reconcileDelete (defaults (fst (SetupGatewayController L c fakeGatewayAPI gr lg opts))) g (k, s) = (out, (k', s'))"
  shows "if ug_Connections gw \<noteq> []
    then fake_gws s' = fake_gws s \<and> fst out = \<lparr>RequeueAfter = 15 * Second\<rparr> \<and>
      (\<exists>g'. hasFinalizer (fst (SetupGatewayController L c fakeGatewayAPI gr lg opts)) g' \<and>
        k' = snd (cl_StatusPatch c g' g k))
    else fake_gws s' u = None \<and>
      k' = snd (cl_Update c (removeFinalizer (fst (SetupGatewayController L c fakeGatewayAPI gr lg opts)) g) k)"
proof -
  have ne: "u \<noteq> []" using gw_inv_uid assms(1,4) by blast
  note defs = GatewayAdapter_Delete_def deleteByID_def deleteOutcome_def fake_DeleteGateway_def gf_record_def
    Conflict_def Let_def
  show ?thesis
    unfolding SetupGatewayController_def fst_conv
  proof (rule parent_first [where tbl = fake_gws and s = s and u = u, OF gateway_object.managed_object_axioms
        assms(6) [unfolded SetupGatewayController_def fst_conv] _ _ _ assms(7) [unfolded SetupGatewayController_def fst_conv]])
    show "GetDeletionPolicy Gateway_Object g \<noteq> DeletionPolicyOrphan" using assms(5) by simp
    show "\<exists>e s1. ad_Delete (GatewayAdapter L fakeGatewayAPI gr) g s = (Some e, g, s1) \<and> errors_Is e ErrPending \<and>
        fake_gws s1 = fake_gws s" if "ug_Connections gw \<noteq> []"
      using assms(2-4) that ne by (simp add: defs fake_gws_def fun_eq_iff)
    show "\<exists>s1. ad_Delete (GatewayAdapter L fakeGatewayAPI gr) g s = (None, g, s1) \<and> fake_gws s1 u = None"
      if "\<not> ug_Connections gw \<noteq> []"
      using assms(2-4) that ne by (simp add: defs fake_gws_def)
  qed
qed

theorem gateway_delete_waits_for_connections_witness:
  "\<exists>out k' s'. reconcileDelete
       (defaults (fst (SetupGatewayController ref_Lib demo_client fakeGatewayAPI no_objects (\<lambda>ns (w :: unit). Inr [])
          \<lparr>opt_SteadyRequeue = 0\<rparr>)))
       (demo_Gateway [''vpn'']) (demo_Gateway [''vpn''], demo_gw [demo_gw_conn]) = (out, (k', s')) \<and>
     fake_gws s' (uuid ''gw'' 2) \<noteq> None \<and> fst out = \<lparr>RequeueAfter = 15 * Second\<rparr>"
proof -
  let ?rec = "fst (SetupGatewayController ref_Lib demo_client fakeGatewayAPI no_objects (\<lambda>ns (w :: unit). Inr [])
    \<lparr>opt_SteadyRequeue = 0\<rparr>)"
  let ?g = "demo_Gateway [''vpn'']" and ?s = "demo_gw [demo_gw_conn]"
  obtain out k' s' where pass: "reconcileDelete (defaults ?rec) ?g (?g, ?s) = (out, (k', s'))" by (metis prod.exhaust)
  have fin: "hasFinalizer ?rec ?g"
    by (simp add: SetupGatewayController_def hasFinalizer_def ref_Lib_def demo_Gateway_def demo_meta_def)
  obtain gw where gw: "gm_get (gf_Gateways ?s) (uuid ''gw'' 2) = Some gw" "ug_Connections gw \<noteq> []"
    by (simp add: demo_gw_def)
  have "fake_gws s' = fake_gws ?s \<and> fst out = \<lparr>RequeueAfter = 15 * Second\<rparr>"
    using gateway_delete_waits_for_connections [OF demo_gw_inv(2) _ _ gw(1) _ fin pass] gw(2)
    by (simp add: demo_Gateway_def demo_gw_def NewGatewayAPI_def DeletionPolicyOrphan_def)
  moreover have "fake_gws ?s (uuid ''gw'' 2) \<noteq> None" using gw(1) by (simp add: fake_gws_def)
  ultimately show ?thesis using pass by auto
qed

text \<open>
  The comparison of a connection's routes is exact on distinct names and networks:
  it then decides equality of the two lists of name and network pairs up to order.
\<close>

theorem gatewayRoutesEqual_exact:
  assumes "distinct (map gatewayRouteKey want)"
  shows "gatewayRoutesEqual got want \<longleftrightarrow> mset (map gatewayRouteKey got) = mset (map gatewayRouteKey want)"
  using gatewayRoutesEqual_iff [OF assms] .

theorem gatewayRoutesEqual_exact_witness:
  "gatewayRoutesEqual
     [\<lparr>ugr_Name = ''b'', ugr_StaticNetwork = ''10.1.0.0/16'', ugr_Type = ''static''\<rparr>,
      \<lparr>ugr_Name = ''a'', ugr_StaticNetwork = ''10.0.0.0/16'', ugr_Type = ''static''\<rparr>]
     [\<lparr>ugr_Name = ''a'', ugr_StaticNetwork = ''10.0.0.0/16'', ugr_Type = ''static''\<rparr>,
      \<lparr>ugr_Name = ''b'', ugr_StaticNetwork = ''10.1.0.0/16'', ugr_Type = ''static''\<rparr>]"
  by (subst gatewayRoutesEqual_exact) (simp_all add: gatewayRouteKey_def)

text \<open>
  Its limits: with a duplicate in the wanted list the comparison accepts lists that
  differ, is not symmetric, and never looks at a route's type.
\<close>

theorem gatewayRoutesEqual_limits:
  "let a = \<lparr>ugr_Name = ''a'', ugr_StaticNetwork = ''10.0.0.0/16'', ugr_Type = ''static''\<rparr>;
       b = \<lparr>ugr_Name = ''b'', ugr_StaticNetwork = ''10.1.0.0/16'', ugr_Type = ''static''\<rparr>
   in gatewayRoutesEqual [a, b] [a, a] \<and> \<not> gatewayRoutesEqual [a, a] [a, b] \<and>
      gatewayRoutesEqual [a] [a\<lparr>ugr_Type := ''dynamic''\<rparr>]"
  by (simp add: gatewayRoutesEqual_def gatewayRouteKey_def)

end
