(* ===== verification/NetworkProgress.thy ===== *)
theory NetworkProgress
  imports NetworkGroup
begin

text \<open>
  From nothing to Available: the reconcile loop, the Network adapter, the label functions
  and the in-memory service put together.
\<close>

lemma network_observe_nothing:
  assumes "nst_UUID (Status n) = []" and "NetworkAdapter_desiredRouterUUID L gr n = Inr router"
    and "\<forall>i net. fake_nets s i = Some net \<longrightarrow> \<not> HasUID (un_Labels net) (om_UID (Meta n))" and "net_inv s"
  shows "NetworkAdapter_Observe L fakeNetworkAPI gr n s = (Inr NoObservation, n, nf_call ''GetNetworks'' s)"
proof -
  have wf: "gm_wf (nf_Networks s)" using assms(4) by (simp add: net_inv_def fresh_table_def)
  have "filter (\<lambda>n'. HasUID (un_Labels n') (om_UID (Meta n))) (nf_range f (nf_Networks s)) = []" for f
    using assms(3) gm_values_ran [OF wf] by (auto simp: filter_empty_conv ran_def)
  then show ?thesis
    using assms(1,2)
    by (simp add: NetworkAdapter_Observe_def NetworkAdapter_lookup_def lookupOwned_def fake_GetNetworks_def nf_call_def Let_def)
qed

lemma network_create_on_fake:
  assumes "nf_FailNext s = None" and "NetworkAdapter_desiredRouterUUID L gr n = Inr router"
  shows "\<exists>n' s'. NetworkAdapter_Create L fakeNetworkAPI gr n s = (None, n', s')"
  using assms by (simp add: NetworkAdapter_Create_def fake_CreateNetwork_def nf_record_def nf_nextUUID_def Let_def)

lemma network_observe_on_fake:
  assumes "fake_nets s (nst_UUID (Status n)) = Some net" and "net_inv s"
    and "NetworkAdapter_desiredRouterUUID L gr n = Inr router"
  shows "\<exists>obs n' s'. NetworkAdapter_Observe L fakeNetworkAPI gr n s = (Inr obs, n', s')"
proof -
  have "nst_UUID (Status n) \<noteq> []" using net_inv_uid(1) [OF assms(2,1)] by simp
  then show ?thesis
    using assms(1,3) by (simp add: NetworkAdapter_Observe_def NetworkAdapter_lookup_def lookupOwned_def getByID_def
        fake_GetNetworkDetails_def nf_call_def Let_def)
qed

text \<open>What an adapter reads of a Network besides its identity.\<close>

lemma network_same_spec:
  assumes "Spec n' = Spec n" and "om_Namespace (Meta n') = om_Namespace (Meta n)"
  shows "NetworkAdapter_desiredRouterUUID L gr n' = NetworkAdapter_desiredRouterUUID L gr n"
  using assms by (simp add: NetworkAdapter_desiredRouterUUID_def cong: option.case_cong)

lemma network_in_sync_same:
  assumes "Spec n' = Spec n" and "Meta n' = Meta n"
  shows "network_in_sync L gr n' net = network_in_sync L gr n net"
  using assms network_same_spec [of n' n L gr]
  by (simp add: network_in_sync_def network_desired_labels_def Network_ExternalName_def)

lemma Network_Object_frame [simp]:
  "Spec (SetReady L Network_Object n st r m) = Spec n" "Meta (SetReady L Network_Object n st r m) = Meta n"
  "nst_UUID (Status (SetReady L Network_Object n st r m)) = nst_UUID (Status n)"
  by (simp_all add: SetReady_def Let_def Network_Object_def crObject_def)

lemma addFinalizer_Network [simp]:
  "Spec (addFinalizer (mkReconciler L Network_Object c ad f opts) n) = Spec n"
  "Status (addFinalizer (mkReconciler L Network_Object c ad f opts) n) = Status n"
  "om_Namespace (Meta (addFinalizer (mkReconciler L Network_Object c ad f opts) n)) = om_Namespace (Meta n)"
  "om_UID (Meta (addFinalizer (mkReconciler L Network_Object c ad f opts) n)) = om_UID (Meta n)"
  by (simp_all add: addFinalizer_def withFinalizers_def Let_def Network_Object_def crObject_def)



end
