(* ===== verification/GatewayTunnelAdapter.thy ===== *)
theory GatewayTunnelAdapter
  imports GatewayConnectionAdapter GatewayFake
begin

text \<open>
  \<open>internal/controller/network/gatewaytunnel_adapter.go\<close> and \<open>gatewaytunnel_controller.go\<close>.
  The API cannot modify a tunnel, so Update deletes and creates. The pre-shared key is
  read from a Secret at creation and never returned by the API; \<open>spec.rotationToken\<close>
  against \<open>status.rotationToken\<close> is the marker that forces it to be sent again.
  \<open>getConnection\<close> and \<open>getSecret\<close> are the cluster as the call sees it.
\<close>

subsection \<open>The adapter\<close>

definition GatewayTunnelAdapter_resolveParents ::
  "Lib \<Rightarrow> GatewayConnection getter \<Rightarrow> GatewayTunnel \<Rightarrow> err + string \<times> string" where
  "GatewayTunnelAdapter_resolveParents L getConnection t =
     (case Ready L GatewayConnection_Object getConnection (om_Namespace (Meta t)) (lor_Name (gtsp_ConnectionRef (Spec t))) of
        Inl e \<Rightarrow> Inl e
      | Inr (conn, connUUID) \<Rightarrow>
          let gwUUID = gcst_GatewayUUID (Status conn) in
          if gwUUID = ''''
          then Inl (WrapText ErrDependencyNotReady
                 (''GatewayConnection '' @ fmt_q (lor_Name (gtsp_ConnectionRef (Spec t))) @ '' has no gateway uuid yet''))
          else Inr (gwUUID, connUUID))"

text \<open>The conversions between \<open>[]string\<close> and the SDK's named string types do not change a value.\<close>

definition toIPSec :: "string \<Rightarrow> GatewayTunnelIPSec \<Rightarrow> upIPSec" where
  "toIPSec psk i =
     \<lparr>ui_AuthType = ipa_Type (ips_Authentication i), ui_PSK = psk, ui_RekeyTime = ips_RekeyTime i,
      ui_ChildRekeyTime = ips_ChildRekeyTime i, ui_DPDDelay = ips_DpdDelay i, ui_DPDTimeout = ips_DpdTimeout i,
      ui_IKELifetime = ips_IkeLifetime i, ui_Phase1Algorithms = ips_Phase1Algorithms i,
      ui_Phase1IntegrityAlgorithms = ips_Phase1IntegrityAlgorithms i,
      ui_Phase1DHGroupNumbers = ips_Phase1DhGroupNumbers i, ui_Phase2Algorithms = ips_Phase2Algorithms i,
      ui_Phase2IntegrityAlgorithms = ips_Phase2IntegrityAlgorithms i,
      ui_Phase2DHGroupNumbers = ips_Phase2DhGroupNumbers i\<rparr>"

definition GatewayTunnelAdapter_tunnelPayload ::
  "Lib \<Rightarrow> Secret getter \<Rightarrow> GatewayTunnel \<Rightarrow> err + reqGatewayTunnel" where
  "GatewayTunnelAdapter_tunnelPayload L getSecret t =
     (let p = \<lparr>rgt_Name = GatewayTunnel_ExternalName t, rgt_LocalAddress = gtsp_LocalAddressName (Spec t),
               rgt_RemoteAddress = gtsp_RemoteAddress (Spec t), rgt_IPSec = zeroIPSec\<rparr> in
      case gtsp_IPSec (Spec t) of
        None \<Rightarrow> Inr p
      | Some i \<Rightarrow>
          (case SecretKey L getSecret (om_Namespace (Meta t)) (ipa_PskSecretRef (ips_Authentication i)) of
             Inl e \<Rightarrow> Inl e
           | Inr psk \<Rightarrow> Inr (p\<lparr>rgt_IPSec := toIPSec psk i\<rparr>)))"

text \<open>\<open>stringSliceEqual\<close> and \<open>intSliceEqual\<close>: equal lengths, then element by element.\<close>

fun sliceEqual :: "'a list \<Rightarrow> 'a list \<Rightarrow> bool" where
  "sliceEqual [] [] = True"
| "sliceEqual (x # xs) (y # ys) = (if x \<noteq> y then False else sliceEqual xs ys)"
| "sliceEqual _ _ = False"

definition tunnelMatches :: "upGatewayTunnel \<Rightarrow> GatewayTunnelSpec \<Rightarrow> bool" where
  "tunnelMatches tun spec =
     (if utn_RemoteAddress tun \<noteq> gtsp_RemoteAddress spec then False
      else if utn_LocalAddress tun \<noteq> gtsp_LocalAddressName spec then False
      else case gtsp_IPSec spec of
        None \<Rightarrow> True
      | Some i \<Rightarrow>
          let ps = utn_IPSec tun in
          if ui_RekeyTime ps \<noteq> ips_RekeyTime i \<or> ui_ChildRekeyTime ps \<noteq> ips_ChildRekeyTime i \<or>
             ui_DPDDelay ps \<noteq> ips_DpdDelay i \<or> ui_DPDTimeout ps \<noteq> ips_DpdTimeout i \<or>
             ui_IKELifetime ps \<noteq> ips_IkeLifetime i then False
          else if \<not> sliceEqual (ui_Phase1Algorithms ps) (ips_Phase1Algorithms i) then False
          else if \<not> sliceEqual (ui_Phase1IntegrityAlgorithms ps) (ips_Phase1IntegrityAlgorithms i) then False
          else if \<not> sliceEqual (ui_Phase1DHGroupNumbers ps) (ips_Phase1DhGroupNumbers i) then False
          else if \<not> sliceEqual (ui_Phase2Algorithms ps) (ips_Phase2Algorithms i) then False
          else if \<not> sliceEqual (ui_Phase2IntegrityAlgorithms ps) (ips_Phase2IntegrityAlgorithms i) then False
          else if \<not> sliceEqual (ui_Phase2DHGroupNumbers ps) (ips_Phase2DhGroupNumbers i) then False
          else True)"

definition GatewayTunnelAdapter_Observe ::
  "Lib \<Rightarrow> 's GatewayAPI \<Rightarrow> GatewayConnection getter \<Rightarrow> GatewayTunnel \<Rightarrow> 's
   \<Rightarrow> (err + Observation) \<times> GatewayTunnel \<times> 's" where
  "GatewayTunnelAdapter_Observe L api getConnection t s =
     (case GatewayTunnelAdapter_resolveParents L getConnection t of
        Inl e \<Rightarrow> (Inl e, t, s)
      | Inr (gwUUID, connUUID) \<Rightarrow>
          let t1 = t\<lparr>Status := (Status t)\<lparr>gtst_GatewayUUID := gwUUID, gtst_ConnectionUUID := connUUID\<rparr>\<rparr> in
          if gtst_UUID (Status t1) = '''' then (Inr NoObservation, t1, s)
          else
            (case GetGatewayConnectionTunnel api gwUUID connUUID (gtst_UUID (Status t1)) s of
               (Inl e, s1) \<Rightarrow>
                 if IsNotFound (Some e) then (Inr NoObservation, t1, s1)
                 else (Inl (Wrap ''get gateway tunnel'' e), t1, s1)
             | (Inr tun, s1) \<Rightarrow>
                 let t2 = t1\<lparr>Status := (Status t1)\<lparr>gtst_OperationalState := utn_OperationalState tun\<rparr>\<rparr>;
                     ready = (utn_OperationalState tun = ''established'');
                     upToDate = tunnelMatches tun (Spec t2);
                     upToDate1 = (if upToDate \<and> gtst_RotationToken (Status t2) \<noteq> gtsp_RotationToken (Spec t2)
                                  then False else upToDate)
                 in (Inr \<lparr>ob_Exists = True, ob_UpToDate = upToDate1, ob_Ready = ready, ob_Message = ''''\<rparr>, t2, s1)))"

definition GatewayTunnelAdapter_Create ::
  "Lib \<Rightarrow> 's GatewayAPI \<Rightarrow> GatewayConnection getter \<Rightarrow> Secret getter \<Rightarrow> GatewayTunnel \<Rightarrow> 's
   \<Rightarrow> err option \<times> GatewayTunnel \<times> 's" where
  "GatewayTunnelAdapter_Create L api getConnection getSecret t s =
     (case GatewayTunnelAdapter_resolveParents L getConnection t of
        Inl e \<Rightarrow> (Some e, t, s)
      | Inr (gwUUID, connUUID) \<Rightarrow>
          (case GatewayTunnelAdapter_tunnelPayload L getSecret t of
             Inl e \<Rightarrow> (Some e, t, s)
           | Inr p \<Rightarrow>
               (case CreateGatewayConnectionTunnel api gwUUID connUUID p s of
                  (Inl e, s1) \<Rightarrow> (Some (Wrap ''create gateway tunnel'' e), t, s1)
                | (Inr created, s1) \<Rightarrow>
                    (None, t\<lparr>Status := (Status t)\<lparr>gtst_GatewayUUID := gwUUID, gtst_ConnectionUUID := connUUID,
                              gtst_UUID := utn_UUID created,
                              gtst_RotationToken := gtsp_RotationToken (Spec t)\<rparr>\<rparr>, s1))))"

definition GatewayTunnelAdapter_Update ::
  "Lib \<Rightarrow> 's GatewayAPI \<Rightarrow> GatewayConnection getter \<Rightarrow> Secret getter \<Rightarrow> GatewayTunnel \<Rightarrow> 's
   \<Rightarrow> err option \<times> GatewayTunnel \<times> 's" where
  "GatewayTunnelAdapter_Update L api getConnection getSecret t s =
     (if gtst_UUID (Status t) \<noteq> '''' then
        (case DeleteGatewayConnectionTunnel api (gtst_GatewayUUID (Status t)) (gtst_ConnectionUUID (Status t))
                (gtst_UUID (Status t)) s of
           (e, s1) \<Rightarrow>
             if e \<noteq> None \<and> \<not> IsNotFound e then (Some (Wrap ''delete gateway tunnel'' (the e)), t, s1)
             else GatewayTunnelAdapter_Create L api getConnection getSecret
                    (t\<lparr>Status := (Status t)\<lparr>gtst_UUID := ''''\<rparr>\<rparr>) s1)
      else GatewayTunnelAdapter_Create L api getConnection getSecret t s)"

definition GatewayTunnelAdapter_Delete ::
  "'s GatewayAPI \<Rightarrow> GatewayTunnel \<Rightarrow> 's \<Rightarrow> err option \<times> GatewayTunnel \<times> 's" where
  "GatewayTunnelAdapter_Delete api t s =
     (if gtst_UUID (Status t) = '''' \<or> gtst_GatewayUUID (Status t) = '''' \<or> gtst_ConnectionUUID (Status t) = ''''
      then (None, t, s)
      else
        (case DeleteGatewayConnectionTunnel api (gtst_GatewayUUID (Status t)) (gtst_ConnectionUUID (Status t))
                (gtst_UUID (Status t)) s of
           (e, s1) \<Rightarrow> (deleteOutcome ''delete gateway tunnel'' e, t, s1)))"

definition GatewayTunnelAdapter ::
  "Lib \<Rightarrow> 's GatewayAPI \<Rightarrow> GatewayConnection getter \<Rightarrow> Secret getter \<Rightarrow> (GatewayTunnel, 's) Adapter" where
  "GatewayTunnelAdapter L api getConnection getSecret =
     \<lparr>ad_Observe = GatewayTunnelAdapter_Observe L api getConnection,
      ad_Create = GatewayTunnelAdapter_Create L api getConnection getSecret,
      ad_Update = GatewayTunnelAdapter_Update L api getConnection getSecret,
      ad_Delete = GatewayTunnelAdapter_Delete api\<rparr>"

definition FinalizerGatewayTunnel :: string where
  "FinalizerGatewayTunnel = ''network.upcloud.polarsquad.com/gatewaytunnel''"

definition SetupGatewayTunnelController ::
  "Lib \<Rightarrow> (GatewayTunnel, 'k) Client \<Rightarrow> 's GatewayAPI \<Rightarrow> GatewayConnection getter \<Rightarrow> Secret getter
   \<Rightarrow> (string \<Rightarrow> 'w \<Rightarrow> err + GatewayTunnel list) \<Rightarrow> Options
   \<Rightarrow> (GatewayTunnel, 'k \<times> 's) Reconciler \<times> (ObjectMeta \<Rightarrow> 'w \<Rightarrow> NamespacedName list)" where
  "SetupGatewayTunnelController L c api getConnection getSecret listTunnels opts =
     (mkReconciler L GatewayTunnel_Object c (GatewayTunnelAdapter L api getConnection getSecret)
        FinalizerGatewayTunnel opts,
      DependentsOf listTunnels Meta (\<lambda>t. [lor_Name (gtsp_ConnectionRef (Spec t))]))"

lemma GatewayTunnelAdapter_sel [simp]:
  "ad_Observe (GatewayTunnelAdapter L api gc sec) = GatewayTunnelAdapter_Observe L api gc"
  "ad_Create (GatewayTunnelAdapter L api gc sec) = GatewayTunnelAdapter_Create L api gc sec"
  "ad_Update (GatewayTunnelAdapter L api gc sec) = GatewayTunnelAdapter_Update L api gc sec"
  "ad_Delete (GatewayTunnelAdapter L api gc sec) = GatewayTunnelAdapter_Delete api"
  by (simp_all add: GatewayTunnelAdapter_def)

lemma GatewayTunnel_Object_sel [simp]:
  "GetMeta GatewayTunnel_Object = Meta" "GetExternalID GatewayTunnel_Object t = gtst_UUID (Status t)"
  "GetDeletionPolicy GatewayTunnel_Object t = gtsp_DeletionPolicy (Spec t)"
  by (simp_all add: GatewayTunnel_Object_def)

subsection \<open>The operations against the service contract\<close>

lemma sliceEqual_iff [simp]: "sliceEqual xs ys \<longleftrightarrow> xs = ys"
  by (induction xs ys rule: sliceEqual.induct) auto

definition tunnel_rid :: "GatewayTunnel \<Rightarrow> (string \<times> string \<times> string) option" where
  "tunnel_rid t =
     (if gtst_UUID (Status t) = '''' \<or> gtst_GatewayUUID (Status t) = '''' \<or> gtst_ConnectionUUID (Status t) = ''''
      then None else Some (gtst_GatewayUUID (Status t), gtst_ConnectionUUID (Status t), gtst_UUID (Status t)))"

text \<open>What a created tunnel carries: the spec's settings and the key the Secret holds now.\<close>

definition tunnel_fresh :: "Lib \<Rightarrow> Secret getter \<Rightarrow> GatewayTunnel \<Rightarrow> upGatewayTunnel \<Rightarrow> bool" where
  "tunnel_fresh L sec t tun \<longleftrightarrow>
     utn_Name tun = GatewayTunnel_ExternalName t \<and> tunnelMatches tun (Spec t) \<and>
     (\<forall>i. gtsp_IPSec (Spec t) = Some i \<longrightarrow>
        SecretKey L sec (om_Namespace (Meta t)) (ipa_PskSecretRef (ips_Authentication i)) = Inr (ui_PSK (utn_IPSec tun)))"

lemma tunnel_status_irrelevant [simp]:
  "GatewayTunnelAdapter_resolveParents L gc (t\<lparr>Status := st\<rparr>) = GatewayTunnelAdapter_resolveParents L gc t"
  "GatewayTunnelAdapter_tunnelPayload L sec (t\<lparr>Status := st\<rparr>) = GatewayTunnelAdapter_tunnelPayload L sec t"
  "tunnel_fresh L sec (t\<lparr>Status := st\<rparr>) tun \<longleftrightarrow> tunnel_fresh L sec t tun"
  by (simp_all add: GatewayTunnelAdapter_resolveParents_def GatewayTunnelAdapter_tunnelPayload_def tunnel_fresh_def
      GatewayTunnel_ExternalName_def Let_def cong: option.case_cong sum.case_cong prod.case_cong if_cong)

text \<open>Only the metadata and the spec of the tunnel matter to what is sent.\<close>

lemma tunnel_same_spec:
  assumes "Meta t' = Meta t" and "Spec t' = Spec t"
  shows "GatewayTunnelAdapter_resolveParents L gc t' = GatewayTunnelAdapter_resolveParents L gc t"
    and "tunnel_fresh L sec t' = tunnel_fresh L sec t"
  using assms by (simp_all add: GatewayTunnelAdapter_resolveParents_def tunnel_fresh_def GatewayTunnel_ExternalName_def Let_def fun_eq_iff
      cong: option.case_cong sum.case_cong prod.case_cong if_cong)

lemma resolveParents_nonempty:
  "GatewayTunnelAdapter_resolveParents L gc t = Inr (g, c) \<Longrightarrow> g \<noteq> [] \<and> c \<noteq> []"
  by (auto simp: GatewayTunnelAdapter_resolveParents_def Ready_def ExternalID_def Let_def
      split: sum.splits prod.splits if_splits)

lemma payload_fresh:
  assumes "GatewayTunnelAdapter_tunnelPayload L sec t = Inr p" and "tunnel_built p tun"
  shows "tunnel_fresh L sec t tun"
proof (cases "gtsp_IPSec (Spec t)")
  case None
  then show ?thesis
    using assms by (auto simp: GatewayTunnelAdapter_tunnelPayload_def tunnel_built_def tunnel_fresh_def tunnelMatches_def)
next
  case (Some i)
  then obtain psk where psk: "SecretKey L sec (om_Namespace (Meta t)) (ipa_PskSecretRef (ips_Authentication i)) = Inr psk"
    and p: "p = \<lparr>rgt_Name = GatewayTunnel_ExternalName t, rgt_LocalAddress = gtsp_LocalAddressName (Spec t),
               rgt_RemoteAddress = gtsp_RemoteAddress (Spec t), rgt_IPSec = toIPSec psk i\<rparr>"
    using assms(1) by (auto simp: GatewayTunnelAdapter_tunnelPayload_def split: sum.splits)
  then show ?thesis
    using Some assms(2) by (simp add: tunnel_built_def tunnel_fresh_def tunnelMatches_def toIPSec_def)
qed

sublocale gateway_service \<subseteq> tn: cloud_table inv "\<lambda>s. tuns s g c"
    "\<lambda>s. (gws s, conns s, (tuns s)(g := (tuns s g)(c := \<lambda>_. None)))" utn_UUID
    "GetGatewayConnectionTunnel api g c" "CreateGatewayConnectionTunnel api g c" tunnel_built
    "DeleteGatewayConnectionTunnel api g c" for g c
  by (rule tunnels)

lemma fun_upd2_rest:
  assumes "f(g := (f g)(c := z)) = h(g := (h g)(c := z))"
  shows "(i, j) \<noteq> (g, c) \<Longrightarrow> f i j = h i j" and "f g c = h g c \<Longrightarrow> f = h"
proof -
  have eq: "(i, j) \<noteq> (g, c) \<Longrightarrow> f i j = h i j" for i j
    using fun_cong [OF fun_cong [OF assms, of i], of j] by (auto split: if_splits)
  then show "(i, j) \<noteq> (g, c) \<Longrightarrow> f i j = h i j" .
  assume gc: "f g c = h g c"
  have "f i j = h i j" for i j using eq [of i j] gc by (cases "(i, j) = (g, c)") auto
  then show "f = h" by (intro ext)
qed

context gateway_service
begin

text \<open>The identity as the table of tunnels sees it.\<close>

lemma tunnel_parent_ids: "inv s \<Longrightarrow> tuns s g c i \<noteq> None \<Longrightarrow> g \<noteq> [] \<and> c \<noteq> [] \<and> i \<noteq> []"
proof -
  assume I: "inv s" and "tuns s g c i \<noteq> None"
  then obtain t where t: "tuns s g c i = Some t" by blast
  obtain x y where "gws s g = Some x" "conns s g c = Some y" using tunnel_parents [OF I t] by blast
  then show ?thesis using gws.keyed [OF I] cn.keyed [OF I] tn.keyed [OF I t] by blast
qed

lemma tunnel_observe_spec:
  assumes "inv s" and "GatewayTunnelAdapter_Observe L api gc t s = (r, t', s')"
  shows "inv s' \<and> gws s' = gws s \<and> conns s' = conns s \<and> tuns s' = tuns s \<and> Meta t' = Meta t \<and> Spec t' = Spec t"
    and "r = Inr obs \<Longrightarrow> ob_Exists obs \<Longrightarrow> \<exists>g c tun. tunnel_rid t' = Some (g, c, utn_UUID tun) \<and>
      GatewayTunnelAdapter_resolveParents L gc t = Inr (g, c) \<and> tuns s g c (utn_UUID tun) = Some tun \<and>
      utn_UUID tun = gtst_UUID (Status t) \<and>
      (ob_UpToDate obs \<longleftrightarrow> tunnelMatches tun (Spec t) \<and> gtst_RotationToken (Status t) = gtsp_RotationToken (Spec t))"
    and "r = Inr obs \<Longrightarrow> \<not> ob_Exists obs \<Longrightarrow> GatewayTunnelAdapter_resolveParents L gc t = Inr (g, c) \<Longrightarrow>
      tuns s g c (gtst_UUID (Status t)) = None"
proof -
  have "inv s' \<and> gws s' = gws s \<and> conns s' = conns s \<and> tuns s' = tuns s \<and> Meta t' = Meta t \<and> Spec t' = Spec t \<and>
    (\<forall>obs. r = Inr obs \<longrightarrow> ob_Exists obs \<longrightarrow> (\<exists>g c tun. tunnel_rid t' = Some (g, c, utn_UUID tun) \<and>
      GatewayTunnelAdapter_resolveParents L gc t = Inr (g, c) \<and> tuns s g c (utn_UUID tun) = Some tun \<and>
      utn_UUID tun = gtst_UUID (Status t) \<and>
      (ob_UpToDate obs \<longleftrightarrow> tunnelMatches tun (Spec t) \<and> gtst_RotationToken (Status t) = gtsp_RotationToken (Spec t)))) \<and>
    (\<forall>obs g c. r = Inr obs \<longrightarrow> \<not> ob_Exists obs \<longrightarrow> GatewayTunnelAdapter_resolveParents L gc t = Inr (g, c) \<longrightarrow>
      tuns s g c (gtst_UUID (Status t)) = None)"
  proof (cases "GatewayTunnelAdapter_resolveParents L gc t")
    case (Inl e)
    then show ?thesis using assms by (auto simp: GatewayTunnelAdapter_Observe_def)
  next
    case (Inr p)
    obtain g c where p: "p = (g, c)" by fastforce
    have ne: "g \<noteq> []" "c \<noteq> []" using resolveParents_nonempty Inr p by blast+
    show ?thesis
    proof (cases "gtst_UUID (Status t) = []")
      case True
      then have "tuns s g c (gtst_UUID (Status t)) = None" using tunnel_parent_ids [OF assms(1)] by blast
      then show ?thesis
        using assms Inr p True by (auto simp: GatewayTunnelAdapter_Observe_def NoObservation_def)
    next
      case False
      let ?u = "gtst_UUID (Status t)"
      obtain q s1 where q: "GetGatewayConnectionTunnel api g c ?u s = (q, s1)" by fastforce
      note fr = tn.get_frame [OF assms(1) q]
      have same: "tuns s1 = tuns s" using fr fun_upd2_rest(2) [of "tuns s1" g c] by blast
      show ?thesis
      proof (cases q)
        case (Inl e)
        then show ?thesis
          using assms(2) Inr p False q fr same tn.get_404 [OF assms(1) q [unfolded Inl]]
          by (auto simp: GatewayTunnelAdapter_Observe_def NoObservation_def Let_def split: if_splits)
      next
        case k: (Inr tun)
        have tb: "tuns s g c ?u = Some tun" "utn_UUID tun = ?u"
          using tn.get_found [OF assms(1) q [unfolded k]] tn.keyed [OF assms(1)] by blast+
        then show ?thesis
          using assms(2) Inr p False q k fr same ne
          by (auto simp: GatewayTunnelAdapter_Observe_def tunnel_rid_def Let_def intro!: exI [of _ tun] split: if_splits)
      qed
    qed
  qed
  note H = this
  show "inv s' \<and> gws s' = gws s \<and> conns s' = conns s \<and> tuns s' = tuns s \<and> Meta t' = Meta t \<and> Spec t' = Spec t"
    using H by simp
  show "r = Inr obs \<Longrightarrow> ob_Exists obs \<Longrightarrow> \<exists>g c tun. tunnel_rid t' = Some (g, c, utn_UUID tun) \<and>
      GatewayTunnelAdapter_resolveParents L gc t = Inr (g, c) \<and> tuns s g c (utn_UUID tun) = Some tun \<and>
      utn_UUID tun = gtst_UUID (Status t) \<and>
      (ob_UpToDate obs \<longleftrightarrow> tunnelMatches tun (Spec t) \<and> gtst_RotationToken (Status t) = gtsp_RotationToken (Spec t))"
    using H by blast
  show "r = Inr obs \<Longrightarrow> \<not> ob_Exists obs \<Longrightarrow> GatewayTunnelAdapter_resolveParents L gc t = Inr (g, c) \<Longrightarrow>
      tuns s g c (gtst_UUID (Status t)) = None" using H by blast
qed

lemma tunnel_create_spec:
  assumes "inv s" and "GatewayTunnelAdapter_Create L api gc sec t s = (e, t', s')"
  shows "inv s' \<and> gws s' = gws s \<and> conns s' = conns s \<and> Meta t' = Meta t \<and> Spec t' = Spec t"
    and "tuns s g c i \<noteq> None \<Longrightarrow> tuns s' g c i = tuns s g c i"
    and "e = None \<Longrightarrow> \<exists>g c tun. tunnel_rid t' = Some (g, c, utn_UUID tun) \<and>
      GatewayTunnelAdapter_resolveParents L gc t = Inr (g, c) \<and>
      tuns s g c (utn_UUID tun) = None \<and> tuns s' g c (utn_UUID tun) = Some tun \<and> tunnel_fresh L sec t tun \<and>
      gtst_RotationToken (Status t') = gtsp_RotationToken (Spec t)"
    and "e \<noteq> None \<Longrightarrow> t' = t \<and> tuns s' = tuns s"
proof -
  have "inv s' \<and> gws s' = gws s \<and> conns s' = conns s \<and> Meta t' = Meta t \<and> Spec t' = Spec t \<and>
    (\<forall>g c i. tuns s g c i \<noteq> None \<longrightarrow> tuns s' g c i = tuns s g c i) \<and>
    (e = None \<longrightarrow> (\<exists>g c tun. tunnel_rid t' = Some (g, c, utn_UUID tun) \<and>
      GatewayTunnelAdapter_resolveParents L gc t = Inr (g, c) \<and>
      tuns s g c (utn_UUID tun) = None \<and> tuns s' g c (utn_UUID tun) = Some tun \<and> tunnel_fresh L sec t tun \<and>
      gtst_RotationToken (Status t') = gtsp_RotationToken (Spec t))) \<and>
    (e \<noteq> None \<longrightarrow> t' = t \<and> tuns s' = tuns s)"
  proof (cases "GatewayTunnelAdapter_resolveParents L gc t")
    case (Inl x)
    then show ?thesis using assms by (auto simp: GatewayTunnelAdapter_Create_def)
  next
    case (Inr pr)
    obtain g c where pr: "pr = (g, c)" by fastforce
    have ne: "g \<noteq> []" "c \<noteq> []" using resolveParents_nonempty Inr pr by blast+
    show ?thesis
    proof (cases "GatewayTunnelAdapter_tunnelPayload L sec t")
      case (Inl x)
      then show ?thesis using assms Inr pr by (auto simp: GatewayTunnelAdapter_Create_def)
    next
      case pay: (Inr p)
      obtain q s1 where q: "CreateGatewayConnectionTunnel api g c p s = (q, s1)" by fastforce
      show ?thesis
      proof (cases q)
        case (Inl x)
        note law = tn.create_failed [OF assms(1) q [unfolded Inl]]
        have "tuns s1 = tuns s" using law fun_upd2_rest(2) [of "tuns s1" g c] by blast
        then show ?thesis
          using law assms(2) Inr pr pay q Inl by (auto simp: GatewayTunnelAdapter_Create_def)
      next
        case k: (Inr tun)
        note law = tn.create_ok [OF assms(1) q [unfolded k]]
        have other: "(i, j) \<noteq> (g, c) \<Longrightarrow> tuns s1 i j = tuns s i j" for i j
          using law fun_upd2_rest(1) [of "tuns s1" g c _ "tuns s" i j] by blast
        have keep: "tuns s i j k \<noteq> None \<Longrightarrow> tuns s1 i j k = tuns s i j k" for i j k
          using law other by (cases "(i, j) = (g, c)") auto
        have "tunnel_fresh L sec t tun" using payload_fresh [OF pay] law by blast
        then show ?thesis
          using law keep ne assms(2) Inr pr pay q k
          by (auto simp: GatewayTunnelAdapter_Create_def tunnel_rid_def)
      qed
    qed
  qed
  note H = this
  show "inv s' \<and> gws s' = gws s \<and> conns s' = conns s \<and> Meta t' = Meta t \<and> Spec t' = Spec t" using H by simp
  show "tuns s g c i \<noteq> None \<Longrightarrow> tuns s' g c i = tuns s g c i" using H by blast
  show "e = None \<Longrightarrow> \<exists>g c tun. tunnel_rid t' = Some (g, c, utn_UUID tun) \<and>
      GatewayTunnelAdapter_resolveParents L gc t = Inr (g, c) \<and>
      tuns s g c (utn_UUID tun) = None \<and> tuns s' g c (utn_UUID tun) = Some tun \<and> tunnel_fresh L sec t tun \<and>
      gtst_RotationToken (Status t') = gtsp_RotationToken (Spec t)" using H by blast
  show "e \<noteq> None \<Longrightarrow> t' = t \<and> tuns s' = tuns s" using H by blast
qed

lemma tunnel_call_delete:
  assumes "inv s" and "DeleteGatewayConnectionTunnel api g c u s = (e, s')"
  shows "inv s' \<and> gws s' = gws s \<and> conns s' = conns s"
    and "(i, j, k) \<noteq> (g, c, u) \<Longrightarrow> tuns s' i j k = tuns s i j k"
    and "e = None \<or> IsNotFound e \<Longrightarrow> tuns s' g c u = None"
proof -
  note fr = tn.del_frame [OF assms] and gone = tn.del_gone [OF assms]
  show "inv s' \<and> gws s' = gws s \<and> conns s' = conns s" using fr by simp
  show "(i, j, k) \<noteq> (g, c, u) \<Longrightarrow> tuns s' i j k = tuns s i j k"
    using fr fun_upd2_rest(1) [of "tuns s'" g c _ "tuns s" i j] by (cases "(i, j) = (g, c)") auto
  show "e = None \<or> IsNotFound e \<Longrightarrow> tuns s' g c u = None" using gone by blast
qed

lemma tunnel_delete_spec:
  assumes "inv s" and "GatewayTunnelAdapter_Delete api t s = (e, t', s')"
  shows "inv s' \<and> gws s' = gws s \<and> conns s' = conns s \<and> t' = t"
    and "tunnel_rid t \<noteq> Some (g, c, i) \<Longrightarrow> tuns s' g c i = tuns s g c i"
    and "e = None \<Longrightarrow> tunnel_rid t = Some (g, c, i) \<Longrightarrow> tuns s' g c i = None"
proof -
  let ?g = "gtst_GatewayUUID (Status t)" and ?c = "gtst_ConnectionUUID (Status t)" and ?u = "gtst_UUID (Status t)"
  have "inv s' \<and> gws s' = gws s \<and> conns s' = conns s \<and> t' = t \<and>
    (tunnel_rid t \<noteq> Some (g, c, i) \<longrightarrow> tuns s' g c i = tuns s g c i) \<and>
    (e = None \<longrightarrow> tunnel_rid t = Some (g, c, i) \<longrightarrow> tuns s' g c i = None)"
  proof (cases "tunnel_rid t")
    case None
    then show ?thesis
      using assms by (auto simp: GatewayTunnelAdapter_Delete_def tunnel_rid_def split: if_splits)
  next
    case (Some p)
    then have p: "p = (?g, ?c, ?u)" "?u \<noteq> []" "?g \<noteq> []" "?c \<noteq> []"
      by (auto simp: tunnel_rid_def split: if_splits)
    obtain e0 s1 where d: "DeleteGatewayConnectionTunnel api ?g ?c ?u s = (e0, s1)" by fastforce
    show ?thesis
      using assms(2) d p Some tunnel_call_delete [OF assms(1) d]
      by (auto simp: GatewayTunnelAdapter_Delete_def deleteOutcome_None)
  qed
  then show "inv s' \<and> gws s' = gws s \<and> conns s' = conns s \<and> t' = t"
    "tunnel_rid t \<noteq> Some (g, c, i) \<Longrightarrow> tuns s' g c i = tuns s g c i"
    "e = None \<Longrightarrow> tunnel_rid t = Some (g, c, i) \<Longrightarrow> tuns s' g c i = None" by simp_all
qed

text \<open>Update is a deletion under the recorded identity, then Create.\<close>

lemma tunnel_update_spec:
  assumes "inv s" and "GatewayTunnelAdapter_Update L api gc sec t s = (e, t', s')"
  shows "inv s' \<and> gws s' = gws s \<and> conns s' = conns s \<and> Meta t' = Meta t \<and> Spec t' = Spec t"
    and "tunnel_rid t \<noteq> Some (g, c, i) \<Longrightarrow> tuns s g c i \<noteq> None \<Longrightarrow> tuns s' g c i = tuns s g c i"
    and "e = None \<Longrightarrow> \<exists>g c tun. tunnel_rid t' = Some (g, c, utn_UUID tun) \<and>
      GatewayTunnelAdapter_resolveParents L gc t = Inr (g, c) \<and>
      tuns s' g c (utn_UUID tun) = Some tun \<and> tunnel_fresh L sec t tun \<and>
      gtst_RotationToken (Status t') = gtsp_RotationToken (Spec t)"
proof -
  have "inv s' \<and> gws s' = gws s \<and> conns s' = conns s \<and> Meta t' = Meta t \<and> Spec t' = Spec t \<and>
    (\<forall>g c i. tunnel_rid t \<noteq> Some (g, c, i) \<longrightarrow> tuns s g c i \<noteq> None \<longrightarrow> tuns s' g c i = tuns s g c i) \<and>
    (e = None \<longrightarrow> (\<exists>g c tun. tunnel_rid t' = Some (g, c, utn_UUID tun) \<and>
      GatewayTunnelAdapter_resolveParents L gc t = Inr (g, c) \<and>
      tuns s' g c (utn_UUID tun) = Some tun \<and> tunnel_fresh L sec t tun \<and>
      gtst_RotationToken (Status t') = gtsp_RotationToken (Spec t)))"
  proof (cases "gtst_UUID (Status t) = []")
    case True
    then have "GatewayTunnelAdapter_Create L api gc sec t s = (e, t', s')"
      using assms(2) by (simp add: GatewayTunnelAdapter_Update_def)
    note cr = tunnel_create_spec [OF assms(1) this]
    show ?thesis using cr(1-3) by blast
  next
    case False
    let ?g = "gtst_GatewayUUID (Status t)" and ?c = "gtst_ConnectionUUID (Status t)" and ?u = "gtst_UUID (Status t)"
    obtain e0 s1 where d: "DeleteGatewayConnectionTunnel api ?g ?c ?u s = (e0, s1)" by fastforce
    note del = tunnel_call_delete [OF assms(1) d]
    have other: "tuns s1 g c i = tuns s g c i" if "tunnel_rid t \<noteq> Some (g, c, i)" "tuns s g c i \<noteq> None" for g c i
    proof (rule del(2))
      show "(g, c, i) \<noteq> (?g, ?c, ?u)"
        using that tunnel_parent_ids [OF assms(1) that(2)] by (auto simp: tunnel_rid_def split: if_splits)
    qed
    show ?thesis
    proof (cases "e0 \<noteq> None \<and> \<not> IsNotFound e0")
      case True
      then show ?thesis
        using assms(2) d False del(1) other by (auto simp: GatewayTunnelAdapter_Update_def)
    next
      case ok: False
      then have "GatewayTunnelAdapter_Create L api gc sec (t\<lparr>Status := (Status t)\<lparr>gtst_UUID := ''''\<rparr>\<rparr>) s1 = (e, t', s')"
        using assms(2) d False by (auto simp: GatewayTunnelAdapter_Update_def)
      note cr = tunnel_create_spec [OF del(1) [THEN conjunct1] this, simplified]
      have "tuns s' g c i = tuns s g c i" if "tunnel_rid t \<noteq> Some (g, c, i)" "tuns s g c i \<noteq> None" for g c i
        using cr(2) [of g c i] other [OF that] that(2) by auto
      then show ?thesis using cr(1,3) del(1) by auto
    qed
  qed
  note H = this
  show "inv s' \<and> gws s' = gws s \<and> conns s' = conns s \<and> Meta t' = Meta t \<and> Spec t' = Spec t" using H by simp
  show "tunnel_rid t \<noteq> Some (g, c, i) \<Longrightarrow> tuns s g c i \<noteq> None \<Longrightarrow> tuns s' g c i = tuns s g c i" using H by blast
  show "e = None \<Longrightarrow> \<exists>g c tun. tunnel_rid t' = Some (g, c, utn_UUID tun) \<and>
      GatewayTunnelAdapter_resolveParents L gc t = Inr (g, c) \<and>
      tuns s' g c (utn_UUID tun) = Some tun \<and> tunnel_fresh L sec t tun \<and>
      gtst_RotationToken (Status t') = gtsp_RotationToken (Spec t)" using H by blast
qed

end

sublocale gateway_service \<subseteq> tunnel_ctr: adapter_contract GatewayTunnel_Object
    "GatewayTunnelAdapter L api gc sec" inv "\<lambda>i s. (case i of (g, c, t) \<Rightarrow> tuns s g c t) \<noteq> None" tunnel_rid for L gc sec
proof (rule resource_adapter_contract
    [where tbl = "\<lambda>s (g, c, t). tuns s g c t", OF gatewaytunnel_object.managed_object_axioms])
  fix s x r x' s'
  assume "inv s" "ad_Observe (GatewayTunnelAdapter L api gc sec) x s = (r, x', s')"
  then show "inv s' \<and> (\<lambda>(g, c, t). tuns s' g c t) = (\<lambda>(g, c, t). tuns s g c t) \<and>
      GetMeta GatewayTunnel_Object x' = GetMeta GatewayTunnel_Object x"
    using tunnel_observe_spec(1) by fastforce
next
  fix s x obs x' s'
  assume I: "inv s" and "ad_Observe (GatewayTunnelAdapter L api gc sec) x s = (Inr obs, x', s')" "ob_Exists obs"
  then show "\<exists>i. tunnel_rid x' = Some i \<and> (case i of (g, c, t) \<Rightarrow> tuns s g c t) \<noteq> None"
    using tunnel_observe_spec(2) [OF I, of L gc x "Inr obs" x' s' obs] by auto
next
  fix s x e x' s'
  assume I: "inv s" and "ad_Create (GatewayTunnelAdapter L api gc sec) x s = (e, x', s')"
  then have c: "GatewayTunnelAdapter_Create L api gc sec x s = (e, x', s')" by simp
  show "inv s' \<and> GetMeta GatewayTunnel_Object x' = GetMeta GatewayTunnel_Object x \<and>
      (\<forall>i. (case i of (g, c, t) \<Rightarrow> tuns s g c t) \<noteq> None \<longrightarrow> (case i of (g, c, t) \<Rightarrow> tuns s' g c t) \<noteq> None) \<and>
      (e = None \<longrightarrow> (\<exists>i. tunnel_rid x' = Some i \<and> (case i of (g, c, t) \<Rightarrow> tuns s' g c t) \<noteq> None))"
    using tunnel_create_spec(1-3) [OF I c] by fastforce
next
  fix s x e x' s'
  assume I: "inv s" and "ad_Update (GatewayTunnelAdapter L api gc sec) x s = (e, x', s')"
  then have c: "GatewayTunnelAdapter_Update L api gc sec x s = (e, x', s')" by simp
  show "inv s' \<and> GetMeta GatewayTunnel_Object x' = GetMeta GatewayTunnel_Object x \<and>
      (\<forall>i. tunnel_rid x \<noteq> Some i \<longrightarrow> (case i of (g, c, t) \<Rightarrow> tuns s g c t) \<noteq> None \<longrightarrow>
        (case i of (g, c, t) \<Rightarrow> tuns s' g c t) \<noteq> None)"
    using tunnel_update_spec(1,2) [OF I c] by fastforce
next
  fix s x e x' s'
  assume I: "inv s" and "ad_Delete (GatewayTunnelAdapter L api gc sec) x s = (e, x', s')"
  then have c: "GatewayTunnelAdapter_Delete api x s = (e, x', s')" by simp
  show "inv s' \<and> GetMeta GatewayTunnel_Object x' = GetMeta GatewayTunnel_Object x \<and>
      (\<forall>i. tunnel_rid x \<noteq> Some i \<longrightarrow> (case i of (g, c, t) \<Rightarrow> tuns s' g c t) = (case i of (g, c, t) \<Rightarrow> tuns s g c t)) \<and>
      (\<forall>i. e = None \<longrightarrow> tunnel_rid x = Some i \<longrightarrow> (case i of (g, c, t) \<Rightarrow> tuns s' g c t) = None)"
    using tunnel_delete_spec [OF I c] by (auto split: prod.splits)
qed

subsection \<open>A small account for the witnesses\<close>

text \<open>
  A gateway with one connection and one tunnel whose key is \<open>old\<close>; the Secret of the
  cluster holds the key given by the argument of \<open>demo_secret\<close>.
\<close>

definition demo_ips :: GatewayTunnelIPSec where
  "demo_ips = \<lparr>ips_Authentication = \<lparr>ipa_Type = ''psk'', ipa_PskSecretRef = \<lparr>sks_Name = ''vpn'', sks_Key = ''psk''\<rparr>\<rparr>,
     ips_RekeyTime = 1440, ips_ChildRekeyTime = 720, ips_DpdDelay = 30, ips_DpdTimeout = 120, ips_IkeLifetime = 86400,
     ips_Phase1Algorithms = [''aes256''], ips_Phase1IntegrityAlgorithms = [''sha256''], ips_Phase1DhGroupNumbers = [14],
     ips_Phase2Algorithms = [''aes256''], ips_Phase2IntegrityAlgorithms = [''sha256''], ips_Phase2DhGroupNumbers = [14]\<rparr>"

definition demo_vpn_meta :: ObjectMeta where
  "demo_vpn_meta = \<lparr>om_Name = ''tun'', om_Namespace = ''default'', om_UID = ''u3'', om_Generation = 1,
     om_DeletionTimestamp = None, om_Finalizers = []\<rparr>"

definition demo_GatewayTunnel :: "string \<Rightarrow> GatewayTunnel" where
  "demo_GatewayTunnel token =
     \<lparr>Meta = demo_vpn_meta,
      Spec = \<lparr>gtsp_ConnectionRef = \<lparr>lor_Name = ''conn''\<rparr>, gtsp_Name = '''', gtsp_LocalAddressName = ''public'',
              gtsp_RemoteAddress = ''203.0.113.9'', gtsp_IPSec = Some demo_ips, gtsp_RotationToken = token,
              gtsp_DeletionPolicy = ''Delete''\<rparr>,
      Status = \<lparr>gtst_Conditions = [], gtst_GatewayUUID = uuid ''gw'' 2, gtst_ConnectionUUID = uuid ''conn'' 3,
                gtst_UUID = uuid ''tun'' 4, gtst_RotationToken = ''1'', gtst_OperationalState = ''established''\<rparr>\<rparr>"

definition demo_connection :: "GatewayConnection getter" where
  "demo_connection ns name =
     Inr \<lparr>Meta = demo_vpn_meta,
          Spec = \<lparr>gcsp_GatewayRef = \<lparr>lor_Name = ''gw''\<rparr>, gcsp_Name = '''', gcsp_Type = ''ipsec'', gcsp_LocalRoutes = [],
                  gcsp_RemoteRoutes = [], gcsp_DeletionPolicy = ''Delete''\<rparr>,
          Status = \<lparr>gcst_Conditions = [\<lparr>c_Type = ConditionReady, c_Status = ConditionTrue, c_Reason = ReasonAvailable,
                      c_Message = '''', c_ObservedGeneration = 1\<rparr>],
                    gcst_GatewayUUID = uuid ''gw'' 2, gcst_UUID = uuid ''conn'' 3, gcst_Name = ''conn''\<rparr>\<rparr>"

definition demo_secret :: "string \<Rightarrow> Secret getter" where
  "demo_secret psk ns name = Inr \<lparr>sec_Data = [(''psk'', psk)]\<rparr>"

definition no_secret :: "Secret getter" where
  "no_secret ns name = Inl (KubeError ''NotFound'' ''not found'')"

definition demo_tun :: upGatewayTunnel where
  "demo_tun = \<lparr>utn_UUID = uuid ''tun'' 4, utn_Name = ''tun'', utn_LocalAddress = ''public'',
     utn_RemoteAddress = ''203.0.113.9'', utn_IPSec = toIPSec ''old'' demo_ips, utn_OperationalState = ''established''\<rparr>"

definition demo_vpn :: GatewayFake where
  "demo_vpn = NewGatewayAPI\<lparr>gf_seq := 4, gf_Gateways := [(uuid ''gw'' 2,
     \<lparr>ug_UUID = uuid ''gw'' 2, ug_Name = ''gw'', ug_Zone = ''fi-hel1'', ug_Plan = ''development'',
      ug_Features = [''vpn''], ug_Routers = [], ug_Labels = [], ug_ConfiguredStatus = ''started'',
      ug_OperationalState = ''running'', ug_Addresses = [],
      ug_Connections = [\<lparr>ugc_UUID = uuid ''conn'' 3, ugc_Name = ''conn'', ugc_Type = ''ipsec'', ugc_LocalRoutes = [],
        ugc_RemoteRoutes = [],
        ugc_Tunnels = [demo_tun]\<rparr>]\<rparr>)]\<rparr>"

lemma demo_tun_UUID [simp]: "utn_UUID demo_tun = uuid ''tun'' 4"
  by (simp add: demo_tun_def)

lemma demo_vpn_inv [simp]: "gw_inv demo_vpn"
  by (auto simp: demo_vpn_def gw_inv_def NewGatewayAPI_def fresh_table_def fresh_list_def gw_ok_def uuid_ids_def
      demo_tun_def split: if_splits)

lemma demo_resolve [simp]:
  "GatewayTunnelAdapter_resolveParents ref_Lib demo_connection (demo_GatewayTunnel token)
     = Inr (uuid ''gw'' 2, uuid ''conn'' 3)"
  by (simp add: GatewayTunnelAdapter_resolveParents_def Ready_def ExternalID_def demo_connection_def
      GatewayConnection_Object_def crObject_def IsReady_def ref_Lib_def ref_IsStatusConditionTrue_def)

lemma demo_tunnel_sel [simp]:
  "Meta (demo_GatewayTunnel token) = demo_vpn_meta" "gtsp_IPSec (Spec (demo_GatewayTunnel token)) = Some demo_ips"
  "gtsp_RotationToken (Spec (demo_GatewayTunnel token)) = token"
  "gtst_UUID (Status (demo_GatewayTunnel token)) = uuid ''tun'' 4"
  "gtst_ConnectionUUID (Status (demo_GatewayTunnel token)) = uuid ''conn'' 3"
  "gtst_GatewayUUID (Status (demo_GatewayTunnel token)) = uuid ''gw'' 2"
  "gtst_RotationToken (Status (demo_GatewayTunnel token)) = ''1''"
  by (simp_all add: demo_GatewayTunnel_def)

lemma demo_tunnel_same [simp]:
  "demo_GatewayTunnel token\<lparr>Status := Status (demo_GatewayTunnel token)\<lparr>gtst_GatewayUUID := uuid ''gw'' 2,
     gtst_ConnectionUUID := uuid ''conn'' 3, gtst_OperationalState := ''established''\<rparr>\<rparr> = demo_GatewayTunnel token"
  by (simp add: demo_GatewayTunnel_def)

lemmas demo_vpn_defs = demo_vpn_def NewGatewayAPI_def gf_call_def gf_record_def gf_put_def
  gf_nextUUID_def findConnection_def findTunnel_def setConnection_def

subsection \<open>Rotation of the pre-shared key\<close>

text \<open>
  C8. Rotation. When the token in the spec differs from the one recorded with the tunnel,
  Observe reports drift even though the API shows no difference, and a successful Update
  leaves, under the new identity in the status, a tunnel that carries the key the Secret
  holds at that moment; the next Observe then reports no drift.
\<close>

theorem tunnel_rotation_applies_current_secret:
  assumes svc: "gateway_service api I gws conns tuns" and "I s"
    and ob: "GatewayTunnelAdapter_Observe L api gc t s = (Inr obs, t1, s1)" and "ob_Exists obs"
    and "gtst_RotationToken (Status t) \<noteq> gtsp_RotationToken (Spec t)"
    and up: "GatewayTunnelAdapter_Update L api gc sec t1 s1 = (None, t2, s2)"
  shows "\<not> ob_UpToDate obs \<and>
    (\<exists>g c tun. tunnel_rid t2 = Some (g, c, utn_UUID tun) \<and> tuns s2 g c (utn_UUID tun) = Some tun \<and>
       tunnel_fresh L sec t tun \<and>
       (\<forall>obs' t3 s3. GatewayTunnelAdapter_Observe L api gc t2 s2 = (Inr obs', t3, s3) \<longrightarrow>
          ob_Exists obs' \<and> ob_UpToDate obs'))"
proof -
  note f = gateway_service.tunnel_observe_spec [OF svc \<open>I s\<close> ob]
  note same = tunnel_same_spec [of t1 t L]
  have drift: "\<not> ob_UpToDate obs" using f(2) [OF refl assms(4)] assms(5) by auto
  have I1: "I s1" using f(1) by blast
  note u = gateway_service.tunnel_update_spec [OF svc I1 up]
  obtain g c tun where t2: "tunnel_rid t2 = Some (g, c, utn_UUID tun)"
      "GatewayTunnelAdapter_resolveParents L gc t = Inr (g, c)" "tuns s2 g c (utn_UUID tun) = Some tun"
      "tunnel_fresh L sec t tun" "gtst_RotationToken (Status t2) = gtsp_RotationToken (Spec t)"
    using u(3) f(1) same by auto
  have m: "Meta t2 = Meta t" "Spec t2 = Spec t" using u(1) f(1) by auto
  have uid: "gtst_UUID (Status t2) = utn_UUID tun" using t2(1) by (auto simp: tunnel_rid_def split: if_splits)
  have "ob_Exists obs' \<and> ob_UpToDate obs'"
    if h: "GatewayTunnelAdapter_Observe L api gc t2 s2 = (Inr obs', t3, s3)" for obs' t3 s3
  proof -
    have I2: "I s2" using u(1) by blast
    note o = gateway_service.tunnel_observe_spec [OF svc I2 h]
    have r: "GatewayTunnelAdapter_resolveParents L gc t2 = Inr (g, c)" using t2(2) tunnel_same_spec(1) m by metis
    have ex: "ob_Exists obs'" using o(3) [OF refl _ r] uid t2(3) by auto
    then obtain tun' where "tuns s2 g c (utn_UUID tun') = Some tun'" "utn_UUID tun' = utn_UUID tun"
        "ob_UpToDate obs' \<longleftrightarrow> tunnelMatches tun' (Spec t)"
      using o(2) [OF refl ex] r uid m t2(5) by auto
    then show ?thesis using ex t2(3,4) by (simp add: tunnel_fresh_def)
  qed
  then show ?thesis using drift t2 by blast
qed

theorem tunnel_rotation_applies_current_secret_witness:
  "\<exists>obs t1 s1 t2 s2 tun.
     GatewayTunnelAdapter_Observe ref_Lib fakeGatewayAPI demo_connection (demo_GatewayTunnel ''2'') demo_vpn = (Inr obs, t1, s1) \<and>
     GatewayTunnelAdapter_Update ref_Lib fakeGatewayAPI demo_connection (demo_secret ''new'') t1 s1 = (None, t2, s2) \<and>
     \<not> ob_UpToDate obs \<and> ui_PSK (utn_IPSec tun) = ''new'' \<and>
     fake_tuns s2 (uuid ''gw'' 2) (uuid ''conn'' 3) (utn_UUID tun) = Some tun"
proof -
  let ?L = ref_Lib and ?t = "demo_GatewayTunnel ''2''" and ?sec = "demo_secret ''new''"
  have "fake_GetGatewayConnectionTunnel (uuid ''gw'' 2) (uuid ''conn'' 3) (uuid ''tun'' 4) demo_vpn
      = (Inr demo_tun, gf_call ''GetGatewayConnectionTunnel'' demo_vpn)"
    by (simp add: fake_GetGatewayConnectionTunnel_def demo_vpn_defs demo_tun_def)
  then obtain obs where ob: "GatewayTunnelAdapter_Observe ?L fakeGatewayAPI demo_connection ?t demo_vpn
      = (Inr obs, ?t, gf_call ''GetGatewayConnectionTunnel'' demo_vpn)" and ex: "ob_Exists obs"
    by (auto simp: GatewayTunnelAdapter_Observe_def Let_def demo_tun_def)
  let ?s1 = "gf_call ''GetGatewayConnectionTunnel'' demo_vpn"
  obtain s2 where d: "fake_DeleteGatewayConnectionTunnel (uuid ''gw'' 2) (uuid ''conn'' 3) (uuid ''tun'' 4) ?s1 = (None, s2)"
      "gm_get (gf_Gateways s2) (uuid ''gw'' 2) \<noteq> None" "gf_FailNext s2 = None"
      "findConnection (the (gm_get (gf_Gateways s2) (uuid ''gw'' 2))) (uuid ''conn'' 3) \<noteq> None"
    by (simp add: fake_DeleteGatewayConnectionTunnel_def demo_vpn_defs demo_tun_def)
  obtain q where pay: "GatewayTunnelAdapter_tunnelPayload ?L ?sec ?t = Inr q"
    by (simp add: GatewayTunnelAdapter_tunnelPayload_def demo_ips_def SecretKey_def demo_secret_def)
  obtain x s3 where c: "fake_CreateGatewayConnectionTunnel (uuid ''gw'' 2) (uuid ''conn'' 3) q s2 = (Inr x, s3)"
    using d(2-4) by (auto simp: fake_CreateGatewayConnectionTunnel_def gf_record_def gf_nextUUID_def Let_def)
  obtain t2 where up: "GatewayTunnelAdapter_Update ?L fakeGatewayAPI demo_connection ?sec ?t ?s1 = (None, t2, s3)"
    and rid: "tunnel_rid t2 = Some (uuid ''gw'' 2, uuid ''conn'' 3, utn_UUID x)"
    using d(1) pay c fake_CreateGatewayConnectionTunnel_law(1) [OF _ c refl] fake_nonempty(3) [of s3 "uuid ''gw'' 2" "uuid ''conn'' 3" "utn_UUID x" x]
      fake_gw.tunnel_call_delete(1) [of ?s1 _ _ _ None s2]
    by (auto simp: GatewayTunnelAdapter_Update_def GatewayTunnelAdapter_Create_def tunnel_rid_def)
  have drift: "gtst_RotationToken (Status ?t) \<noteq> gtsp_RotationToken (Spec ?t)" by (simp add: demo_GatewayTunnel_def)
  obtain g c tun where t: "\<not> ob_UpToDate obs" "tunnel_rid t2 = Some (g, c, utn_UUID tun)"
      "fake_tuns s3 g c (utn_UUID tun) = Some tun" "tunnel_fresh ?L ?sec ?t tun"
    using tunnel_rotation_applies_current_secret
      [OF fake_gw.gateway_service_axioms demo_vpn_inv ob ex drift up] by blast
  have "ui_PSK (utn_IPSec tun) = ''new''"
    using t(4) by (simp add: tunnel_fresh_def SecretKey_def demo_secret_def demo_ips_def)
  moreover have "g = uuid ''gw'' 2" "c = uuid ''conn'' 3" using t(2) rid by simp_all
  ultimately show ?thesis using ob up t(1,3) by blast
qed

text \<open>
  C30. A missing Secret. Update deletes the tunnel before it reads the key. When the
  deletion goes through and the key cannot be read, the call fails with the error of the
  Secret, the tunnel is gone and the status has lost its identity: the connection stays
  down until the Secret is back and a later pass creates a tunnel again.
\<close>

theorem tunnel_missing_secret_tears_down:
  assumes svc: "gateway_service api I gws conns tuns" and "I s"
    and rid: "tunnel_rid t = Some (g, c, u)" and "gtsp_IPSec (Spec t) = Some i"
    and "SecretKey L sec (om_Namespace (Meta t)) (ipa_PskSecretRef (ips_Authentication i)) = Inl x"
    and "GatewayTunnelAdapter_resolveParents L gc t = Inr p"
    and del: "DeleteGatewayConnectionTunnel api g c u s = (None, s1)"
  shows "GatewayTunnelAdapter_Update L api gc sec t s
      = (Some x, t\<lparr>Status := (Status t)\<lparr>gtst_UUID := ''''\<rparr>\<rparr>, s1) \<and>
    tuns s1 g c u = None"
proof
  show "tuns s1 g c u = None" using gateway_service.tunnel_call_delete(3) [OF svc \<open>I s\<close> del] by simp
  have "g = gtst_GatewayUUID (Status t)" "c = gtst_ConnectionUUID (Status t)" "u = gtst_UUID (Status t)" "u \<noteq> []"
    using rid by (auto simp: tunnel_rid_def split: if_splits)
  then show "GatewayTunnelAdapter_Update L api gc sec t s
      = (Some x, t\<lparr>Status := (Status t)\<lparr>gtst_UUID := ''''\<rparr>\<rparr>, s1)"
    using assms(4-6) del
    by (cases p) (simp add: GatewayTunnelAdapter_Update_def GatewayTunnelAdapter_Create_def
      GatewayTunnelAdapter_tunnelPayload_def)
qed

theorem tunnel_missing_secret_tears_down_witness:
  "\<exists>x t2 s2. GatewayTunnelAdapter_Update ref_Lib fakeGatewayAPI demo_connection no_secret (demo_GatewayTunnel ''2'') demo_vpn
       = (Some x, t2, s2) \<and> errors_Is x ErrDependencyNotReady \<and> gtst_UUID (Status t2) = '''' \<and>
     fake_tuns demo_vpn (uuid ''gw'' 2) (uuid ''conn'' 3) (uuid ''tun'' 4) \<noteq> None \<and>
     fake_tuns s2 (uuid ''gw'' 2) (uuid ''conn'' 3) (uuid ''tun'' 4) = None"
proof -
  let ?t = "demo_GatewayTunnel ''2''"
  obtain e s1 where del: "DeleteGatewayConnectionTunnel fakeGatewayAPI (uuid ''gw'' 2) (uuid ''conn'' 3) (uuid ''tun'' 4)
      demo_vpn = (e, s1)" by fastforce
  then have e: "e = None"
    by (auto simp: fake_DeleteGatewayConnectionTunnel_def demo_vpn_defs)
  obtain x where x: "SecretKey ref_Lib no_secret (om_Namespace (Meta ?t)) (ipa_PskSecretRef (ips_Authentication demo_ips)) = Inl x"
      "errors_Is x ErrDependencyNotReady"
    by (simp add: SecretKey_def no_secret_def ref_Lib_def ref_KubeIsNotFound_def)
  have "GatewayTunnelAdapter_Update ref_Lib fakeGatewayAPI demo_connection no_secret ?t demo_vpn
      = (Some x, ?t\<lparr>Status := (Status ?t)\<lparr>gtst_UUID := ''''\<rparr>\<rparr>, s1) \<and>
    fake_tuns s1 (uuid ''gw'' 2) (uuid ''conn'' 3) (uuid ''tun'' 4) = None"
    by (rule tunnel_missing_secret_tears_down [OF fake_gw.gateway_service_axioms demo_vpn_inv _ _ x(1) demo_resolve
        del [unfolded e]]) (simp_all add: tunnel_rid_def demo_GatewayTunnel_def)
  moreover have "fake_tuns demo_vpn (uuid ''gw'' 2) (uuid ''conn'' 3) (uuid ''tun'' 4) \<noteq> None"
    by (simp add: fake_tuns_def tuns_of_def demo_vpn_defs)
  ultimately show ?thesis using x(2) by simp
qed

end
