(* ===== verification/K8sSecret.thy ===== *)
theory K8sSecret
  imports Resolve AdapterCommon
begin

text \<open>
  \<open>internal/k8s/secret.go\<close>: Secrets that an adapter writes for its object. The client's
  typed \<open>Get\<close>, \<open>controllerutil.CreateOrUpdate\<close> and
  \<open>controllerutil.SetControllerReference\<close> are the fields of \<open>SecretClient\<close>; the locale
  \<open>secret_client\<close> states what the documentation of these functions promises. \<open>'k\<close> is
  the state of the cluster's Secrets.
\<close>

subsection \<open>The client\<close>

text \<open>\<open>os_Controller\<close> is the UID of the owner reference with \<open>controller: true\<close>.\<close>

record OwnedSecret = Secret +
  os_Type :: string
  os_Controller :: "string option"

definition emptySecret :: OwnedSecret where
  "emptySecret = \<lparr>sec_Data = [], os_Type = '''', os_Controller = None\<rparr>"

record 'k SecretClient =
  sc_Get :: "string \<Rightarrow> string \<Rightarrow> 'k \<Rightarrow> err + OwnedSecret"
  sc_CreateOrUpdate ::
    "string \<Rightarrow> string \<Rightarrow> (OwnedSecret \<Rightarrow> err + OwnedSecret) \<Rightarrow> 'k \<Rightarrow> err option \<times> 'k"
  sc_SetControllerReference :: "ObjectMeta \<Rightarrow> OwnedSecret \<Rightarrow> err + OwnedSecret"

subsection \<open>WriteOwnedSecret\<close>

definition SecretTypeOpaque :: string where
  "SecretTypeOpaque = ''Opaque''"

definition WriteOwnedSecret ::
  "'k SecretClient \<Rightarrow> ObjectMeta \<Rightarrow> string \<Rightarrow> (string, string) gomap \<Rightarrow> 'k \<Rightarrow> err option \<times> 'k" where
  "WriteOwnedSecret c owner name data k =
     sc_CreateOrUpdate c (om_Namespace owner) name
       (\<lambda>sec. sc_SetControllerReference c owner (sec\<lparr>os_Type := SecretTypeOpaque, sec_Data := data\<rparr>)) k"

subsection \<open>The contract of the client\<close>

text \<open>
  \<open>secrets k ns n\<close> is the Secret \<open>ns/n\<close>. The mutating function is applied to the Secret
  that exists, or to an empty one; an error of any step leaves the Secrets as they were.
  An object that another controller owns is not taken over.
\<close>

locale secret_client =
  fixes L :: Lib and c :: "'k SecretClient"
    and secrets :: "'k \<Rightarrow> string \<Rightarrow> string \<Rightarrow> OwnedSecret option"
  assumes get_ok: "sc_Get c ns n k = Inr x \<Longrightarrow> secrets k ns n = Some x"
    and get_404: "sc_Get c ns n k = Inl e \<Longrightarrow> KubeIsNotFound L e \<Longrightarrow> secrets k ns n = None"
    and put_ok: "sc_CreateOrUpdate c ns n f k = (None, k') \<Longrightarrow>
      \<exists>x. f (case secrets k ns n of None \<Rightarrow> emptySecret | Some y \<Rightarrow> y) = Inr x \<and>
        secrets k' = (secrets k)(ns := (secrets k ns)(n \<mapsto> x))"
    and put_failed: "sc_CreateOrUpdate c ns n f k = (Some e, k') \<Longrightarrow> secrets k' = secrets k"
    and owner_set: "sc_SetControllerReference c m x = Inr y \<Longrightarrow>
      y = x\<lparr>os_Controller := Some (om_UID m)\<rparr>"
    and owner_conflict: "os_Controller x = Some u \<Longrightarrow> u \<noteq> om_UID m \<Longrightarrow>
      \<exists>e. sc_SetControllerReference c m x = Inl e"
begin

lemma write_ok:
  assumes "WriteOwnedSecret c m n data k = (None, k')"
  shows "secrets k' = (secrets k)(om_Namespace m := (secrets k (om_Namespace m))(n \<mapsto>
    \<lparr>sec_Data = data, os_Type = SecretTypeOpaque, os_Controller = Some (om_UID m)\<rparr>))"
proof -
  let ?old = "case secrets k (om_Namespace m) n of None \<Rightarrow> emptySecret | Some y \<Rightarrow> y"
  obtain x where x: "sc_SetControllerReference c m (?old\<lparr>os_Type := SecretTypeOpaque, sec_Data := data\<rparr>) = Inr x"
      "secrets k' = (secrets k)(om_Namespace m := (secrets k (om_Namespace m))(n \<mapsto> x))"
    using put_ok assms by (fastforce simp: WriteOwnedSecret_def)
  then have "x = \<lparr>sec_Data = data, os_Type = SecretTypeOpaque, os_Controller = Some (om_UID m)\<rparr>"
    using owner_set by fastforce
  then show ?thesis using x(2) by simp
qed

lemma write_failed: "WriteOwnedSecret c m n data k = (Some e, k') \<Longrightarrow> secrets k' = secrets k"
  using put_failed by (simp add: WriteOwnedSecret_def)

lemma write_frame:
  assumes "WriteOwnedSecret c m n data k = (e, k')" and "ns \<noteq> om_Namespace m \<or> n' \<noteq> n"
  shows "secrets k' ns n' = secrets k ns n'"
  using assms write_ok write_failed by (cases e) auto

lemma write_refused:
  assumes "secrets k (om_Namespace m) n = Some x" and "os_Controller x = Some u" and "u \<noteq> om_UID m"
    and "WriteOwnedSecret c m n data k = (e, k')"
  shows "e \<noteq> None \<and> secrets k' = secrets k"
proof (cases e)
  case None
  then obtain y where "sc_SetControllerReference c m (x\<lparr>os_Type := SecretTypeOpaque, sec_Data := data\<rparr>) = Inr y"
    using put_ok [of "om_Namespace m" n _ k k'] assms(1,4) by (fastforce simp: WriteOwnedSecret_def)
  then show ?thesis
    using owner_conflict [of "x\<lparr>os_Type := SecretTypeOpaque, sec_Data := data\<rparr>" u m] assms(2,3) by simp
next
  case (Some err)
  then show ?thesis using assms(4) write_failed by simp
qed

end

subsection \<open>A cluster that keeps the promises\<close>

definition ref_put ::
  "string \<Rightarrow> string \<Rightarrow> (OwnedSecret \<Rightarrow> err + OwnedSecret) \<Rightarrow> (string \<times> string, OwnedSecret) gomap
   \<Rightarrow> err option \<times> (string \<times> string, OwnedSecret) gomap" where
  "ref_put ns n f k =
     (case f (case gm_get k (ns, n) of None \<Rightarrow> emptySecret | Some y \<Rightarrow> y) of
        Inl e \<Rightarrow> (Some e, k)
      | Inr x \<Rightarrow> (None, gm_put (ns, n) x k))"

definition ref_SecretClient :: "(string \<times> string, OwnedSecret) gomap SecretClient" where
  "ref_SecretClient =
     \<lparr>sc_Get = (\<lambda>ns n k. case gm_get k (ns, n) of
        None \<Rightarrow> Inl (KubeError ''NotFound'' ''secret not found'') | Some x \<Rightarrow> Inr x),
      sc_CreateOrUpdate = ref_put,
      sc_SetControllerReference = (\<lambda>m x. case os_Controller x of
        Some u \<Rightarrow> if u \<noteq> om_UID m then Inl (ErrText ''already owned'') else Inr x
      | None \<Rightarrow> Inr (x\<lparr>os_Controller := Some (om_UID m)\<rparr>))\<rparr>"

definition ref_secrets :: "(string \<times> string, OwnedSecret) gomap \<Rightarrow> string \<Rightarrow> string \<Rightarrow> OwnedSecret option" where
  "ref_secrets k ns n = gm_get k (ns, n)"

interpretation ref_secret: secret_client ref_Lib ref_SecretClient ref_secrets
  by unfold_locales
    (auto simp: ref_SecretClient_def ref_secrets_def ref_put_def ref_Lib_def ref_KubeIsNotFound_def fun_eq_iff
      split: option.splits sum.splits if_splits intro: OwnedSecret.equality)

subsection \<open>Properties\<close>

text \<open>
  A Secret that another object controls is never overwritten: the write fails and
  the Secrets of the cluster are as before.
\<close>

theorem WriteOwnedSecret_no_takeover:
  assumes "secret_client L c secrets" and "secrets k (om_Namespace m) n = Some x"
    and "os_Controller x = Some u" and "u \<noteq> om_UID m" and "WriteOwnedSecret c m n data k = (e, k')"
  shows "e \<noteq> None \<and> secrets k' = secrets k"
  using secret_client.write_refused [OF assms] .

definition foreign_secret :: "(string \<times> string, OwnedSecret) gomap" where
  "foreign_secret = [((''default'', ''pw''), \<lparr>sec_Data = [(''password'', ''x'')], os_Type = ''Opaque'', os_Controller = Some ''u2''\<rparr>)]"

theorem WriteOwnedSecret_no_takeover_witness:
  "\<exists>e k'. WriteOwnedSecret ref_SecretClient (demo_meta ''f'') ''pw'' [] foreign_secret = (e, k') \<and>
     e \<noteq> None \<and> ref_secrets k' = ref_secrets foreign_secret"
proof -
  obtain e k' where w: "WriteOwnedSecret ref_SecretClient (demo_meta ''f'') ''pw'' [] foreign_secret = (e, k')" by fastforce
  have x: "ref_secrets foreign_secret (om_Namespace (demo_meta ''f'')) ''pw''
      = Some \<lparr>sec_Data = [(''password'', ''x'')], os_Type = ''Opaque'', os_Controller = Some ''u2''\<rparr>"
    by (simp add: ref_secrets_def foreign_secret_def demo_meta_def)
  show ?thesis
    using WriteOwnedSecret_no_takeover [OF ref_secret.secret_client_axioms x _ _ w, of "''u2''"] w
    by (simp add: demo_meta_def)
qed

end
