(* ===== verification/DatabaseTypes.thy ===== *)
theory DatabaseTypes
  imports NetworkTypes
begin

text \<open>
  The kinds of \<open>api/database/v1alpha1\<close>: ManagedDatabase, ManagedDatabaseUser and
  ManagedDatabaseLogicalDatabase. A slice whose nil-ness the code can tell from emptiness
  (\<open>reflect.DeepEqual\<close>) is a \<open>slice\<close>: \<open>None\<close> is nil. \<open>spec.properties\<close> is the raw JSON
  text, \<open>None\<close> for a nil pointer.
\<close>

type_synonym 'a slice = "'a list option"

definition slice_elems :: "'a slice \<Rightarrow> 'a list" where
  "slice_elems s = (case s of None \<Rightarrow> [] | Some xs \<Rightarrow> xs)"

lemma slice_elems_simps [simp]: "slice_elems None = []" "slice_elems (Some xs) = xs"
  by (simp_all add: slice_elems_def)

subsection \<open>ManagedDatabase\<close>

record Maintenance =
  mt_DayOfWeek :: string
  mt_Time :: string

record ManagedDatabaseSpec =
  dsp_Type :: string
  dsp_Plan :: string
  dsp_Zone :: string
  dsp_Title :: string
  dsp_HostNamePrefix :: string
  dsp_Properties :: "string option"
  dsp_Maintenance :: "Maintenance option"
  dsp_Networks :: "NetworkAttachment list"
  dsp_AdditionalDiskSpaceGiB :: int
  dsp_TerminationProtection :: bool
  dsp_Powered :: "bool option"
  dsp_Labels :: UpCloudLabels
  dsp_ConnectionSecretName :: string
  dsp_DeletionPolicy :: DeletionPolicy

record ManagedDatabaseStatus =
  dst_Conditions :: "Condition list"
  dst_UUID :: string
  dst_State :: string
  dst_PrimaryHost :: string
  dst_PrimaryPort :: int
  dst_ServiceURIHost :: string
  dst_Version :: string
  dst_NodeCount :: int
  dst_Powered :: bool

type_synonym ManagedDatabase = "(ManagedDatabaseSpec, ManagedDatabaseStatus) CR"

definition ManagedDatabase_Object :: "ManagedDatabase Object" where
  "ManagedDatabase_Object = crObject dst_Conditions (\<lambda>cs st. st\<lparr>dst_Conditions := cs\<rparr>)
     dsp_DeletionPolicy dst_UUID ''*v1alpha1.ManagedDatabase''"

definition ManagedDatabase_ExternalTitle :: "ManagedDatabase \<Rightarrow> string" where
  "ManagedDatabase_ExternalTitle d = nameOrMeta (dsp_Title (Spec d)) (Meta d)"

definition ManagedDatabase_ExternalHostNamePrefix :: "ManagedDatabase \<Rightarrow> string" where
  "ManagedDatabase_ExternalHostNamePrefix d = nameOrMeta (dsp_HostNamePrefix (Spec d)) (Meta d)"

definition ManagedDatabase_ConnectionSecretName :: "ManagedDatabase \<Rightarrow> string" where
  "ManagedDatabase_ConnectionSecretName d =
     (if dsp_ConnectionSecretName (Spec d) \<noteq> '''' then dsp_ConnectionSecretName (Spec d)
      else om_Name (Meta d) @ ''-connection'')"

definition ManagedDatabase_DesiredPowered :: "ManagedDatabase \<Rightarrow> bool" where
  "ManagedDatabase_DesiredPowered d = (case dsp_Powered (Spec d) of None \<Rightarrow> True | Some p \<Rightarrow> p)"

interpretation manageddatabase_object: managed_object ManagedDatabase_Object
  unfolding ManagedDatabase_Object_def by (rule crObject_managed) simp_all

subsection \<open>ManagedDatabaseUser\<close>

record PGUserAccessControl =
  pg_AllowReplication :: "bool option"

record ValkeyUserAccessControl =
  vk_Categories :: "string slice"
  vk_Channels :: "string slice"
  vk_Commands :: "string slice"
  vk_Keys :: "string slice"

record OpenSearchRule =
  osr_Index :: string
  osr_Permission :: string

record OpenSearchUserAccessControl =
  osa_Rules :: "OpenSearchRule slice"

record ManagedDatabaseUserSpec =
  usp_ServiceRef :: LocalObjectReference
  usp_Username :: string
  usp_PasswordSecretRef :: "SecretKeySelector option"
  usp_Authentication :: string
  usp_PGAccessControl :: "PGUserAccessControl option"
  usp_ValkeyAccessControl :: "ValkeyUserAccessControl option"
  usp_OpenSearchAccessControl :: "OpenSearchUserAccessControl option"
  usp_ConnectionSecretName :: string
  usp_DeletionPolicy :: DeletionPolicy

record ManagedDatabaseUserStatus =
  ust_Conditions :: "Condition list"
  ust_ServiceUUID :: string
  ust_Username :: string
  ust_Type :: string

type_synonym ManagedDatabaseUser = "(ManagedDatabaseUserSpec, ManagedDatabaseUserStatus) CR"

definition ManagedDatabaseUser_Object :: "ManagedDatabaseUser Object" where
  "ManagedDatabaseUser_Object = crObject ust_Conditions (\<lambda>cs st. st\<lparr>ust_Conditions := cs\<rparr>)
     usp_DeletionPolicy ust_Username ''*v1alpha1.ManagedDatabaseUser''"

definition ManagedDatabaseUser_ExternalUsername :: "ManagedDatabaseUser \<Rightarrow> string" where
  "ManagedDatabaseUser_ExternalUsername u = nameOrMeta (usp_Username (Spec u)) (Meta u)"

definition ManagedDatabaseUser_ConnectionSecretName :: "ManagedDatabaseUser \<Rightarrow> string" where
  "ManagedDatabaseUser_ConnectionSecretName u =
     (if usp_ConnectionSecretName (Spec u) \<noteq> '''' then usp_ConnectionSecretName (Spec u)
      else om_Name (Meta u) @ ''-credentials'')"

interpretation manageddatabaseuser_object: managed_object ManagedDatabaseUser_Object
  unfolding ManagedDatabaseUser_Object_def by (rule crObject_managed) simp_all

subsection \<open>ManagedDatabaseLogicalDatabase\<close>

record ManagedDatabaseLogicalDatabaseSpec =
  lsp_ServiceRef :: LocalObjectReference
  lsp_Name :: string
  lsp_LCCollate :: string
  lsp_LCCType :: string
  lsp_DeletionPolicy :: DeletionPolicy

record ManagedDatabaseLogicalDatabaseStatus =
  lst_Conditions :: "Condition list"
  lst_ServiceUUID :: string
  lst_Name :: string

type_synonym ManagedDatabaseLogicalDatabase =
  "(ManagedDatabaseLogicalDatabaseSpec, ManagedDatabaseLogicalDatabaseStatus) CR"

definition ManagedDatabaseLogicalDatabase_Object :: "ManagedDatabaseLogicalDatabase Object" where
  "ManagedDatabaseLogicalDatabase_Object = crObject lst_Conditions (\<lambda>cs st. st\<lparr>lst_Conditions := cs\<rparr>)
     lsp_DeletionPolicy lst_Name ''*v1alpha1.ManagedDatabaseLogicalDatabase''"

definition ManagedDatabaseLogicalDatabase_ExternalName :: "ManagedDatabaseLogicalDatabase \<Rightarrow> string" where
  "ManagedDatabaseLogicalDatabase_ExternalName d = nameOrMeta (lsp_Name (Spec d)) (Meta d)"

interpretation manageddatabaselogicaldatabase_object: managed_object ManagedDatabaseLogicalDatabase_Object
  unfolding ManagedDatabaseLogicalDatabase_Object_def by (rule crObject_managed) simp_all

end
