(* ===== verification/JsonValues.thy ===== *)
theory JsonValues
  imports Main
begin

text \<open>
  What \<open>encoding/json\<close> decodes into an \<open>any\<close>; \<open>JNumber m e\<close> is the \<open>float64\<close> \<open>m * 2^e\<close>.
  The members of an object are in the order of the text, with their duplicates. The text
  format itself is a parameter of the definitions that read or write it.
\<close>

datatype Json =
    JNull
  | JBool bool
  | JNumber int int
  | JString string
  | JArray "Json list"
  | JObject "(string \<times> Json) list"

end
