(* ===== verification/DatabaseAPI.thy ===== *)
theory DatabaseAPI
  imports CloudTable DatabaseTypes JsonValues
begin

text \<open>
  \<open>internal/upcloudapi/database.go\<close>: the interface \<open>DatabaseAPI\<close> with the SDK structs as
  far as the operator uses them, and the contract \<open>database_service\<close>: a table of
  services and, per service, a table of users and one of logical databases. The state of
  a service changes on its own, so the table shows a service without it and without
  the nested users (\<open>db_core\<close>).
\<close>

subsection \<open>JSON\<close>

text \<open>
  \<open>json.Unmarshal\<close> into a \<open>map[string]any\<close> and \<open>json.Marshal\<close> are the parameter \<open>JsonCodec\<close>.
\<close>

record JsonCodec =
  json_Unmarshal :: "string \<Rightarrow> err + (string, Json) gomap"
  json_Marshal :: "Json \<Rightarrow> string"

subsection \<open>SDK types\<close>

record upDBNetwork =
  udn_Name :: string
  udn_Type :: string
  udn_Family :: string
  udn_UUID :: "string option"

record upServiceURIParams =
  sup_Host :: string
  sup_Port :: string
  sup_User :: string
  sup_Password :: string
  sup_DatabaseName :: string
  sup_SSLMode :: string

record upPGAccessControl =
  upg_AllowReplication :: "bool option"

text \<open>A field of type \<open>*[]T\<close> is an \<open>option\<close> of a \<open>slice\<close>.\<close>

record upValkeyAccessControl =
  uvk_Categories :: "string slice option"
  uvk_Channels :: "string slice option"
  uvk_Commands :: "string slice option"
  uvk_Keys :: "string slice option"

record upOpenSearchRule =
  uor_Index :: string
  uor_Permission :: string

record upOpenSearchAccessControl =
  uoa_Rules :: "upOpenSearchRule slice option"

record upDBUser =
  udu_Username :: string
  udu_Type :: string
  udu_Password :: string
  udu_Authentication :: string
  udu_PGAccessControl :: "upPGAccessControl option"
  udu_ValkeyAccessControl :: "upValkeyAccessControl option"
  udu_OpenSearchAccessControl :: "upOpenSearchAccessControl option"

record upManagedDatabase =
  udb_UUID :: string
  udb_Name :: string
  udb_Title :: string
  udb_Type :: string
  udb_Plan :: string
  udb_Zone :: string
  udb_State :: string
  udb_StateError :: "(string, string) gomap"
  udb_Powered :: bool
  udb_NodeCount :: int
  udb_Networks :: "upDBNetwork list"
  udb_TerminationProtection :: bool
  udb_AdditionalDiskSpaceGiB :: int
  udb_Labels :: "Label list"
  udb_Properties :: "(string, Json) gomap"
  udb_Maintenance :: Maintenance
  udb_ServiceURIParams :: upServiceURIParams
  udb_ServiceURI :: string
  udb_Users :: "upDBUser list"

record upLogicalDatabase =
  uld_Name :: string
  uld_LCCollate :: string
  uld_LCCType :: string

definition StateRunning :: string where "StateRunning = ''running''"
definition StateStopped :: string where "StateStopped = ''stopped''"
definition StateError :: string where "StateError = ''error''"
definition StateDeleteService :: string where "StateDeleteService = ''delete-service''"

definition UserTypePrimary :: string where "UserTypePrimary = ''primary''"
definition UserTypeNormal :: string where "UserTypeNormal = ''normal''"

subsection \<open>Requests\<close>

record CreateManagedDatabaseRequest =
  cmd_Type :: string
  cmd_Plan :: string
  cmd_Zone :: string
  cmd_Title :: string
  cmd_HostNamePrefix :: string
  cmd_AdditionalDiskSpaceGiB :: int
  cmd_TerminationProtection :: "bool option"
  cmd_Labels :: "Label list"
  cmd_Networks :: "upDBNetwork list"
  cmd_Properties :: "(string, Json) gomap"
  cmd_Maintenance :: Maintenance

record ModifyManagedDatabaseRequest =
  mmd_UUID :: string
  mmd_Plan :: string
  mmd_Title :: string
  mmd_AdditionalDiskSpaceGiB :: "int option"
  mmd_TerminationProtection :: "bool option"
  mmd_Labels :: "Label list option"
  mmd_Networks :: "upDBNetwork list option"
  mmd_Properties :: "(string, Json) gomap"
  mmd_Maintenance :: Maintenance

record CreateManagedDatabaseUserRequest =
  cdu_Username :: string
  cdu_Password :: string
  cdu_Authentication :: string
  cdu_PGAccessControl :: "upPGAccessControl option"
  cdu_ValkeyAccessControl :: "upValkeyAccessControl option"
  cdu_OpenSearchAccessControl :: "upOpenSearchAccessControl option"

record ModifyManagedDatabaseUserRequest =
  mdu_Username :: string
  mdu_Password :: string
  mdu_Authentication :: string

record ModifyUserAccessControlRequest =
  mac_Username :: string
  mac_PGAccessControl :: "upPGAccessControl option"
  mac_ValkeyAccessControl :: "upValkeyAccessControl option"
  mac_OpenSearchAccessControl :: "upOpenSearchAccessControl option"

record CreateLogicalDatabaseRequest =
  cld_Name :: string
  cld_LCCollate :: string
  cld_LCCType :: string

subsection \<open>The interface\<close>

text \<open>Calls on a user or a logical database take the service's identifier first.\<close>

record 's DatabaseAPI =
  CreateManagedDatabase :: "CreateManagedDatabaseRequest \<Rightarrow> 's \<Rightarrow> (err + upManagedDatabase) \<times> 's"
  GetManagedDatabase :: "string \<Rightarrow> 's \<Rightarrow> (err + upManagedDatabase) \<times> 's"
  GetAllManagedDatabases :: "unit \<Rightarrow> 's \<Rightarrow> (err + upManagedDatabase list) \<times> 's"
  ModifyManagedDatabase :: "ModifyManagedDatabaseRequest \<Rightarrow> 's \<Rightarrow> (err + upManagedDatabase) \<times> 's"
  DeleteManagedDatabase :: "string \<Rightarrow> 's \<Rightarrow> err option \<times> 's"
  StartManagedDatabase :: "string \<Rightarrow> 's \<Rightarrow> (err + upManagedDatabase) \<times> 's"
  ShutdownManagedDatabase :: "string \<Rightarrow> 's \<Rightarrow> (err + upManagedDatabase) \<times> 's"
  CreateManagedDatabaseUser :: "string \<Rightarrow> CreateManagedDatabaseUserRequest \<Rightarrow> 's \<Rightarrow> (err + upDBUser) \<times> 's"
  GetManagedDatabaseUser :: "string \<Rightarrow> string \<Rightarrow> 's \<Rightarrow> (err + upDBUser) \<times> 's"
  ModifyManagedDatabaseUser :: "string \<Rightarrow> ModifyManagedDatabaseUserRequest \<Rightarrow> 's \<Rightarrow> (err + upDBUser) \<times> 's"
  ModifyManagedDatabaseUserAccessControl ::
    "string \<Rightarrow> ModifyUserAccessControlRequest \<Rightarrow> 's \<Rightarrow> (err + upDBUser) \<times> 's"
  DeleteManagedDatabaseUser :: "string \<Rightarrow> string \<Rightarrow> 's \<Rightarrow> err option \<times> 's"
  CreateManagedDatabaseLogicalDatabase ::
    "string \<Rightarrow> CreateLogicalDatabaseRequest \<Rightarrow> 's \<Rightarrow> (err + upLogicalDatabase) \<times> 's"
  GetManagedDatabaseLogicalDatabases :: "string \<Rightarrow> 's \<Rightarrow> (err + upLogicalDatabase list) \<times> 's"
  DeleteManagedDatabaseLogicalDatabase :: "string \<Rightarrow> string \<Rightarrow> 's \<Rightarrow> err option \<times> 's"

subsection \<open>The contract\<close>

definition db_core :: "upManagedDatabase \<Rightarrow> upManagedDatabase" where
  "db_core d = d\<lparr>udb_State := '''', udb_StateError := [], udb_Users := []\<rparr>"

lemma db_core_sel [simp]:
  "udb_UUID (db_core d) = udb_UUID d" "udb_Title (db_core d) = udb_Title d" "udb_Plan (db_core d) = udb_Plan d"
  "udb_Type (db_core d) = udb_Type d" "udb_Zone (db_core d) = udb_Zone d" "udb_Powered (db_core d) = udb_Powered d"
  "udb_Networks (db_core d) = udb_Networks d" "udb_Labels (db_core d) = udb_Labels d"
  "udb_TerminationProtection (db_core d) = udb_TerminationProtection d"
  "udb_AdditionalDiskSpaceGiB (db_core d) = udb_AdditionalDiskSpaceGiB d"
  "udb_Properties (db_core d) = udb_Properties d" "udb_Maintenance (db_core d) = udb_Maintenance d"
  "udb_ServiceURIParams (db_core d) = udb_ServiceURIParams d" "udb_ServiceURI (db_core d) = udb_ServiceURI d"
  "udb_NodeCount (db_core d) = udb_NodeCount d"
  "db_core (d\<lparr>udb_State := st\<rparr>) = db_core d" "db_core (d\<lparr>udb_Users := us\<rparr>) = db_core d" "db_core (db_core d) = db_core d"
  by (simp_all add: db_core_def)

text \<open>\<open>maps.Copy\<close>.\<close>

fun gm_copy :: "('k, 'v) gomap \<Rightarrow> ('k, 'v) gomap \<Rightarrow> ('k, 'v) gomap" where
  "gm_copy dst [] = dst"
| "gm_copy dst ((k, v) # src) = gm_copy (gm_put k v dst) src"

lemma gm_get_copy:
  "gm_wf src \<Longrightarrow> gm_get (gm_copy dst src) k = (case gm_get src k of None \<Rightarrow> gm_get dst k | Some v \<Rightarrow> Some v)"
proof (induction dst src rule: gm_copy.induct)
  case (2 dst k' v src)
  then have IH: "gm_get (gm_copy (gm_put k' v dst) src) k
      = (case gm_get src k of None \<Rightarrow> gm_get (gm_put k' v dst) k | Some v \<Rightarrow> Some v)"
    and "gm_get src k' = None" by (simp_all add: map_of_eq_None_iff)
  then show ?case by (cases "k = k'") (simp_all cong: option.case_cong)
qed simp

definition db_built :: "CreateManagedDatabaseRequest \<Rightarrow> upManagedDatabase \<Rightarrow> bool" where
  "db_built c d \<longleftrightarrow> udb_Title d = cmd_Title c \<and> udb_Type d = cmd_Type c \<and> udb_Plan d = cmd_Plan c \<and>
     udb_Zone d = cmd_Zone c \<and> udb_Networks d = cmd_Networks c \<and> udb_Labels d = cmd_Labels c \<and>
     udb_TerminationProtection d = (cmd_TerminationProtection c = Some True) \<and>
     udb_AdditionalDiskSpaceGiB d = cmd_AdditionalDiskSpaceGiB c \<and>
     (\<forall>k v. gm_get (cmd_Properties c) k = Some v \<longrightarrow> gm_get (udb_Properties d) k = Some v)"

definition orKeep :: "'a option \<Rightarrow> 'a \<Rightarrow> 'a" where
  "orKeep x old = (case x of None \<Rightarrow> old | Some v \<Rightarrow> v)"

lemma orKeep_simps [simp]: "orKeep None old = old" "orKeep (Some v) old = v"
  by (simp_all add: orKeep_def)

definition db_patched :: "ModifyManagedDatabaseRequest \<Rightarrow> upManagedDatabase \<Rightarrow> upManagedDatabase" where
  "db_patched m d =
     d\<lparr>udb_Plan := (if mmd_Plan m \<noteq> '''' then mmd_Plan m else udb_Plan d),
       udb_Title := (if mmd_Title m \<noteq> '''' then mmd_Title m else udb_Title d),
       udb_AdditionalDiskSpaceGiB := orKeep (mmd_AdditionalDiskSpaceGiB m) (udb_AdditionalDiskSpaceGiB d),
       udb_TerminationProtection := orKeep (mmd_TerminationProtection m) (udb_TerminationProtection d),
       udb_Labels := orKeep (mmd_Labels m) (udb_Labels d),
       udb_Networks := orKeep (mmd_Networks m) (udb_Networks d),
       udb_Maintenance := (if mt_DayOfWeek (mmd_Maintenance m) \<noteq> '''' \<or> mt_Time (mmd_Maintenance m) \<noteq> ''''
         then mmd_Maintenance m else udb_Maintenance d),
       udb_Properties := gm_copy (udb_Properties d) (mmd_Properties m)\<rparr>"

definition user_built :: "CreateManagedDatabaseUserRequest \<Rightarrow> upDBUser \<Rightarrow> bool" where
  "user_built c u \<longleftrightarrow> udu_Username u = cdu_Username c \<and> udu_Type u = UserTypeNormal \<and>
     (cdu_Password c \<noteq> '''' \<longrightarrow> udu_Password u = cdu_Password c) \<and>
     udu_PGAccessControl u = cdu_PGAccessControl c \<and> udu_ValkeyAccessControl u = cdu_ValkeyAccessControl c \<and>
     udu_OpenSearchAccessControl u = cdu_OpenSearchAccessControl c"

definition user_patched :: "ModifyManagedDatabaseUserRequest \<Rightarrow> upDBUser \<Rightarrow> upDBUser" where
  "user_patched m u =
     u\<lparr>udu_Password := (if mdu_Password m \<noteq> '''' then mdu_Password m else udu_Password u),
       udu_Authentication := mdu_Authentication m\<rparr>"

definition user_access_patched :: "ModifyUserAccessControlRequest \<Rightarrow> upDBUser \<Rightarrow> upDBUser" where
  "user_access_patched m u =
     u\<lparr>udu_PGAccessControl := mac_PGAccessControl m, udu_ValkeyAccessControl := mac_ValkeyAccessControl m,
       udu_OpenSearchAccessControl := mac_OpenSearchAccessControl m\<rparr>"

definition logical_built :: "CreateLogicalDatabaseRequest \<Rightarrow> upLogicalDatabase \<Rightarrow> bool" where
  "logical_built c d \<longleftrightarrow>
     uld_Name d = cld_Name c \<and> uld_LCCollate d = cld_LCCollate c \<and> uld_LCCType d = cld_LCCType c"

text \<open>
  A new service brings users of its own. A delete call on a service either starts the deletion, and the service stays visible,
  or removes it with all it holds; a 404 tells that it is gone.
\<close>

locale database_service =
  dbt: listed_table inv dbs ldbs udb_UUID "seen db_core (GetManagedDatabase api)"
    "seen db_core (CreateManagedDatabase api)" db_built udb_Labels
    "\<lambda>m. seen (map db_core) (GetAllManagedDatabases api) ()" +
  dbt: patchable_table inv dbs ldbs udb_UUID "seen db_core (GetManagedDatabase api)"
    "seen db_core (CreateManagedDatabase api)" db_built "seen db_core (ModifyManagedDatabase api)" mmd_UUID db_patched +
  start: patchable_table inv dbs ldbs udb_UUID "seen db_core (GetManagedDatabase api)"
    "seen db_core (CreateManagedDatabase api)" db_built "seen db_core (StartManagedDatabase api)"
    "\<lambda>u. u" "\<lambda>_ d. d\<lparr>udb_Powered := True\<rparr>" +
  stop: patchable_table inv dbs ldbs udb_UUID "seen db_core (GetManagedDatabase api)"
    "seen db_core (CreateManagedDatabase api)" db_built "seen db_core (ShutdownManagedDatabase api)"
    "\<lambda>u. u" "\<lambda>_ d. d\<lparr>udb_Powered := False\<rparr>"
  for api :: "'s DatabaseAPI" and inv :: "'s \<Rightarrow> bool"
    and dbs :: "'s \<Rightarrow> string \<Rightarrow> upManagedDatabase option"
    and usrs :: "'s \<Rightarrow> string \<Rightarrow> string \<Rightarrow> upDBUser option"
    and ldbs :: "'s \<Rightarrow> string \<Rightarrow> string \<Rightarrow> upLogicalDatabase option" +
  assumes db_get_users: "inv s \<Longrightarrow> GetManagedDatabase api u s = (rd, s') \<Longrightarrow> usrs s' = usrs s"
    and db_delete: "inv s \<Longrightarrow> DeleteManagedDatabase api u s = (e, s') \<Longrightarrow>
      inv s' \<and> (\<forall>i. i \<noteq> u \<longrightarrow> dbs s' i = dbs s i \<and> usrs s' i = usrs s i \<and> ldbs s' i = ldbs s i) \<and>
      (dbs s' u = None \<or> dbs s' u = dbs s u \<and> usrs s' u = usrs s u \<and> ldbs s' u = ldbs s u) \<and>
      (IsNotFound e \<longrightarrow> dbs s' u = None)"
    and users:
      "erasable_table inv (\<lambda>s. usrs s i) (\<lambda>s. (dbs s, (usrs s)(i := \<lambda>_. None), ldbs s)) udu_Username
        (GetManagedDatabaseUser api i) (CreateManagedDatabaseUser api i) user_built (DeleteManagedDatabaseUser api i)"
    and users_password:
      "patchable_table inv (\<lambda>s. usrs s i) (\<lambda>s. (dbs s, (usrs s)(i := \<lambda>_. None), ldbs s)) udu_Username
        (GetManagedDatabaseUser api i) (CreateManagedDatabaseUser api i) user_built
        (ModifyManagedDatabaseUser api i) mdu_Username user_patched"
    and users_access:
      "patchable_table inv (\<lambda>s. usrs s i) (\<lambda>s. (dbs s, (usrs s)(i := \<lambda>_. None), ldbs s)) udu_Username
        (GetManagedDatabaseUser api i) (CreateManagedDatabaseUser api i) user_built
        (ModifyManagedDatabaseUserAccessControl api i) mac_Username user_access_patched"
    and logical_list: "inv s \<Longrightarrow> GetManagedDatabaseLogicalDatabases api i s = (rl, s') \<Longrightarrow>
      inv s' \<and> dbs s' = dbs s \<and> usrs s' = usrs s \<and> ldbs s' = ldbs s \<and>
      (\<forall>xs. rl = Inr xs \<longrightarrow> set xs = ran (ldbs s i)) \<and>
      (\<forall>e. rl = Inl e \<longrightarrow> IsNotFound (Some e) \<longrightarrow> ldbs s i = (\<lambda>_. None))"
    and logical_keyed: "inv s \<Longrightarrow> ldbs s i n = Some x \<Longrightarrow> uld_Name x = n"
    and logical_create: "inv s \<Longrightarrow> CreateManagedDatabaseLogicalDatabase api i c s = (r, s') \<Longrightarrow>
      inv s' \<and> dbs s' = dbs s \<and> usrs s' = usrs s \<and>
      (case r of Inl e \<Rightarrow> ldbs s' = ldbs s
       | Inr x \<Rightarrow> ldbs s i (uld_Name x) = None \<and> logical_built c x \<and>
           ldbs s' = (ldbs s)(i := (ldbs s i)(uld_Name x \<mapsto> x)))"
    and logical_delete: "inv s \<Longrightarrow> DeleteManagedDatabaseLogicalDatabase api i n s = (e, s') \<Longrightarrow>
      inv s' \<and> dbs s' = dbs s \<and> usrs s' = usrs s \<and>
      (case e of None \<Rightarrow> ldbs s' = (ldbs s)(i := (ldbs s i)(n := None))
       | Some x \<Rightarrow> ldbs s' = ldbs s \<and> (IsNotFound e \<longrightarrow> ldbs s i n = None))"

end
