(* ===== verification/DatabaseFake.thy ===== *)
theory DatabaseFake
  imports FakeTable DatabaseAPI
begin

text \<open>
  \<open>internal/upcloudapi/fake/database.go\<close>: the in-memory \<open>DatabaseAPI\<close>. The state has the
  struct's fields; \<open>df_order\<close> is the order in which Go ranges over a map at the call with
  that number. The mutex makes each method atomic, so a method is one state transition.
  A service returned by a method shares maps and slices with the stored one; no caller
  writes through them, so values model it. At the end the service is shown to satisfy
  the contract \<open>database_service\<close>.
\<close>

subsection \<open>State\<close>

record DatabaseFake =
  df_seq :: nat
  df_Databases :: "(string, upManagedDatabase) gomap"
  df_LogicalDBs :: "(string, upLogicalDatabase list) gomap"
  df_Calls :: "string list"
  df_StateOverride :: string
  df_FailNext :: "err option"
  df_order :: "nat \<Rightarrow> nat list"

definition NewDatabaseAPI :: DatabaseFake where
  "NewDatabaseAPI = \<lparr>df_seq = 0, df_Databases = [], df_LogicalDBs = [], df_Calls = [], df_StateOverride = '''',
     df_FailNext = None, df_order = (\<lambda>_. [])\<rparr>"

definition df_call :: "string \<Rightarrow> DatabaseFake \<Rightarrow> DatabaseFake" where
  "df_call name f = f\<lparr>df_Calls := df_Calls f @ [name]\<rparr>"

definition df_record :: "string \<Rightarrow> DatabaseFake \<Rightarrow> err option \<times> DatabaseFake" where
  "df_record name f =
     (let f1 = f\<lparr>df_Calls := df_Calls f @ [name]\<rparr> in
      case df_FailNext f1 of
        Some e \<Rightarrow> (Some e, f1\<lparr>df_FailNext := None\<rparr>)
      | None \<Rightarrow> (None, f1))"

definition df_nextUUID :: "string \<Rightarrow> DatabaseFake \<Rightarrow> string \<times> DatabaseFake" where
  "df_nextUUID prefix f =
     (let f1 = f\<lparr>df_seq := Suc (df_seq f)\<rparr> in (uuid prefix (df_seq f1), f1))"

definition df_serviceURIParams :: "string \<Rightarrow> upServiceURIParams" where
  "df_serviceURIParams u =
     \<lparr>sup_Host = u @ ''.db.upclouddatabases.com'', sup_Port = ''11569'', sup_User = ''upadmin'',
      sup_Password = ''fake-pw'', sup_DatabaseName = ''defaultdb'', sup_SSLMode = ''require''\<rparr>"

definition df_composedURI :: "upServiceURIParams \<Rightarrow> string" where
  "df_composedURI p =
     ''postgresql://'' @ sup_User p @ '':'' @ sup_Password p @ ''@'' @ sup_Host p @ '':'' @ sup_Port p @ ''/'' @
     sup_DatabaseName p @ ''?sslmode='' @ sup_SSLMode p"

definition df_copy :: "DatabaseFake \<Rightarrow> upManagedDatabase \<Rightarrow> upManagedDatabase" where
  "df_copy f db = (if df_StateOverride f \<noteq> '''' then db\<lparr>udb_State := df_StateOverride f\<rparr> else db)"

definition df_range :: "DatabaseFake \<Rightarrow> (string, 'v) gomap \<Rightarrow> 'v list" where
  "df_range f m = map snd (gm_range (df_order f (length (df_Calls f))) m)"

definition df_put :: "string \<Rightarrow> upManagedDatabase \<Rightarrow> DatabaseFake \<Rightarrow> DatabaseFake" where
  "df_put u db f = f\<lparr>df_Databases := gm_put u db (df_Databases f)\<rparr>"

subsection \<open>Services\<close>

definition fake_CreateManagedDatabase ::
  "CreateManagedDatabaseRequest \<Rightarrow> DatabaseFake \<Rightarrow> (err + upManagedDatabase) \<times> DatabaseFake" where
  "fake_CreateManagedDatabase r f0 =
     (case df_record ''CreateManagedDatabase'' f0 of
        (Some e, f) \<Rightarrow> (Inl e, f)
      | (None, f) \<Rightarrow>
          let (u, f1) = df_nextUUID ''mdb'' f;
              params = df_serviceURIParams u;
              db = \<lparr>udb_UUID = u, udb_Name = cmd_HostNamePrefix r, udb_Title = cmd_Title r, udb_Type = cmd_Type r,
                    udb_Plan = cmd_Plan r, udb_Zone = cmd_Zone r, udb_State = StateRunning, udb_StateError = [],
                    udb_Powered = True, udb_NodeCount = 1, udb_Networks = cmd_Networks r,
                    udb_TerminationProtection = (case cmd_TerminationProtection r of None \<Rightarrow> False | Some b \<Rightarrow> b),
                    udb_AdditionalDiskSpaceGiB = cmd_AdditionalDiskSpaceGiB r, udb_Labels = cmd_Labels r,
                    udb_Properties = cmd_Properties r, udb_Maintenance = \<lparr>mt_DayOfWeek = '''', mt_Time = ''''\<rparr>,
                    udb_ServiceURIParams = params, udb_ServiceURI = df_composedURI params,
                    udb_Users = [\<lparr>udu_Username = ''upadmin'', udu_Type = UserTypePrimary, udu_Password = '''',
                      udu_Authentication = '''', udu_PGAccessControl = None, udu_ValkeyAccessControl = None,
                      udu_OpenSearchAccessControl = None\<rparr>]\<rparr>
          in (Inr db, df_put u db f1))"

definition fake_GetManagedDatabase :: "string \<Rightarrow> DatabaseFake \<Rightarrow> (err + upManagedDatabase) \<times> DatabaseFake" where
  "fake_GetManagedDatabase u f0 =
     (let f = df_call ''GetManagedDatabase'' f0 in
      case gm_get (df_Databases f) u of
        None \<Rightarrow> (Inl (NotFound ''database''), f)
      | Some db \<Rightarrow> (Inr (df_copy f db), f))"

definition fake_GetAllManagedDatabases :: "unit \<Rightarrow> DatabaseFake \<Rightarrow> (err + upManagedDatabase list) \<times> DatabaseFake" where
  "fake_GetAllManagedDatabases _ f0 =
     (let f = df_call ''GetAllManagedDatabases'' f0
      in (Inr (map (df_copy f) (df_range f (df_Databases f))), f))"

definition fake_ModifyManagedDatabase ::
  "ModifyManagedDatabaseRequest \<Rightarrow> DatabaseFake \<Rightarrow> (err + upManagedDatabase) \<times> DatabaseFake" where
  "fake_ModifyManagedDatabase r f0 =
     (case df_record ''ModifyManagedDatabase'' f0 of
        (Some e, f) \<Rightarrow> (Inl e, f)
      | (None, f) \<Rightarrow>
          (case gm_get (df_Databases f) (mmd_UUID r) of
             None \<Rightarrow> (Inl (NotFound ''database''), f)
           | Some db \<Rightarrow>
               let d1 = (if mmd_Plan r \<noteq> '''' then db\<lparr>udb_Plan := mmd_Plan r\<rparr> else db);
                   d2 = (if mmd_Title r \<noteq> '''' then d1\<lparr>udb_Title := mmd_Title r\<rparr> else d1);
                   d3 = (case mmd_AdditionalDiskSpaceGiB r of None \<Rightarrow> d2 | Some n \<Rightarrow> d2\<lparr>udb_AdditionalDiskSpaceGiB := n\<rparr>);
                   d4 = (case mmd_TerminationProtection r of None \<Rightarrow> d3 | Some b \<Rightarrow> d3\<lparr>udb_TerminationProtection := b\<rparr>);
                   d5 = (case mmd_Labels r of None \<Rightarrow> d4 | Some ls \<Rightarrow> d4\<lparr>udb_Labels := ls\<rparr>);
                   d6 = (case mmd_Networks r of None \<Rightarrow> d5 | Some ns \<Rightarrow> d5\<lparr>udb_Networks := ns\<rparr>);
                   d7 = (if mt_DayOfWeek (mmd_Maintenance r) \<noteq> '''' \<or> mt_Time (mmd_Maintenance r) \<noteq> ''''
                         then d6\<lparr>udb_Maintenance := \<lparr>mt_DayOfWeek = mt_DayOfWeek (mmd_Maintenance r),
                                                     mt_Time = mt_Time (mmd_Maintenance r)\<rparr>\<rparr>
                         else d6);
                   d8 = (if length (mmd_Properties r) > 0
                         then d7\<lparr>udb_Properties := gm_copy (udb_Properties d7) (mmd_Properties r)\<rparr> else d7)
               in (Inr d8, df_put (mmd_UUID r) d8 f)))"

definition fake_DeleteManagedDatabase :: "string \<Rightarrow> DatabaseFake \<Rightarrow> err option \<times> DatabaseFake" where
  "fake_DeleteManagedDatabase u f0 =
     (case df_record ''DeleteManagedDatabase'' f0 of
        (Some e, f) \<Rightarrow> (Some e, f)
      | (None, f) \<Rightarrow>
          (case gm_get (df_Databases f) u of
             None \<Rightarrow> (Some (NotFound ''database''), f)
           | Some db \<Rightarrow>
               if udb_TerminationProtection db
               then (Some (Problem 409 ''database deletion refused, termination protection is enabled''), f)
               else if udb_State db = StateDeleteService
               then (Some (NotFound ''database''), f\<lparr>df_Databases := gm_del u (df_Databases f)\<rparr>)
               else (None, df_put u (db\<lparr>udb_State := StateDeleteService\<rparr>) f)))"

definition fake_StartManagedDatabase :: "string \<Rightarrow> DatabaseFake \<Rightarrow> (err + upManagedDatabase) \<times> DatabaseFake" where
  "fake_StartManagedDatabase u f0 =
     (case df_record ''StartManagedDatabase'' f0 of
        (Some e, f) \<Rightarrow> (Inl e, f)
      | (None, f) \<Rightarrow>
          (case gm_get (df_Databases f) u of
             None \<Rightarrow> (Inl (NotFound ''database''), f)
           | Some db \<Rightarrow>
               let d = db\<lparr>udb_Powered := True, udb_State := StateRunning\<rparr> in (Inr d, df_put u d f)))"

definition fake_ShutdownManagedDatabase :: "string \<Rightarrow> DatabaseFake \<Rightarrow> (err + upManagedDatabase) \<times> DatabaseFake" where
  "fake_ShutdownManagedDatabase u f0 =
     (case df_record ''ShutdownManagedDatabase'' f0 of
        (Some e, f) \<Rightarrow> (Inl e, f)
      | (None, f) \<Rightarrow>
          (case gm_get (df_Databases f) u of
             None \<Rightarrow> (Inl (NotFound ''database''), f)
           | Some db \<Rightarrow>
               let d = db\<lparr>udb_Powered := False, udb_State := StateStopped\<rparr> in (Inr d, df_put u d f)))"

subsection \<open>Users\<close>

definition fake_findUser :: "upManagedDatabase \<Rightarrow> string \<Rightarrow> upDBUser option" where
  "fake_findUser db username = findBy udu_Username (udb_Users db) username"

definition fake_CreateManagedDatabaseUser ::
  "string \<Rightarrow> CreateManagedDatabaseUserRequest \<Rightarrow> DatabaseFake \<Rightarrow> (err + upDBUser) \<times> DatabaseFake" where
  "fake_CreateManagedDatabaseUser svc r f0 =
     (case df_record ''CreateManagedDatabaseUser'' f0 of
        (Some e, f) \<Rightarrow> (Inl e, f)
      | (None, f) \<Rightarrow>
          (case gm_get (df_Databases f) svc of
             None \<Rightarrow> (Inl (NotFound ''database''), f)
           | Some db \<Rightarrow>
               if fake_findUser db (cdu_Username r) \<noteq> None then (Inl (Conflict ''database user''), f)
               else
                 let password = (if cdu_Password r = '''' then ''gen-'' @ cdu_Username r else cdu_Password r);
                     user = \<lparr>udu_Username = cdu_Username r, udu_Type = UserTypeNormal, udu_Password = password,
                             udu_Authentication = cdu_Authentication r, udu_PGAccessControl = cdu_PGAccessControl r,
                             udu_ValkeyAccessControl = cdu_ValkeyAccessControl r,
                             udu_OpenSearchAccessControl = cdu_OpenSearchAccessControl r\<rparr>
                 in (Inr user, df_put svc (db\<lparr>udb_Users := udb_Users db @ [user]\<rparr>) f)))"

definition fake_GetManagedDatabaseUser ::
  "string \<Rightarrow> string \<Rightarrow> DatabaseFake \<Rightarrow> (err + upDBUser) \<times> DatabaseFake" where
  "fake_GetManagedDatabaseUser svc username f0 =
     (let f = df_call ''GetManagedDatabaseUser'' f0 in
      case gm_get (df_Databases f) svc of
        None \<Rightarrow> (Inl (NotFound ''database''), f)
      | Some db \<Rightarrow>
          (case fake_findUser db username of
             None \<Rightarrow> (Inl (NotFound ''database user''), f)
           | Some user \<Rightarrow> (Inr user, f)))"

text \<open>Writing through the pointer that \<open>findUser\<close> returns.\<close>

definition df_setUser :: "upManagedDatabase \<Rightarrow> string \<Rightarrow> upDBUser \<Rightarrow> upManagedDatabase" where
  "df_setUser db username user = db\<lparr>udb_Users := setFirst udu_Username username user (udb_Users db)\<rparr>"

definition fake_ModifyManagedDatabaseUser ::
  "string \<Rightarrow> ModifyManagedDatabaseUserRequest \<Rightarrow> DatabaseFake \<Rightarrow> (err + upDBUser) \<times> DatabaseFake" where
  "fake_ModifyManagedDatabaseUser svc r f0 =
     (case df_record ''ModifyManagedDatabaseUser'' f0 of
        (Some e, f) \<Rightarrow> (Inl e, f)
      | (None, f) \<Rightarrow>
          (case gm_get (df_Databases f) svc of
             None \<Rightarrow> (Inl (NotFound ''database''), f)
           | Some db \<Rightarrow>
               (case fake_findUser db (mdu_Username r) of
                  None \<Rightarrow> (Inl (NotFound ''database user''), f)
                | Some user \<Rightarrow>
                    let u1 = (if mdu_Password r \<noteq> '''' then user\<lparr>udu_Password := mdu_Password r\<rparr> else user);
                        u2 = u1\<lparr>udu_Authentication := mdu_Authentication r\<rparr>
                    in (Inr u2, df_put svc (df_setUser db (mdu_Username r) u2) f))))"

definition fake_ModifyManagedDatabaseUserAccessControl ::
  "string \<Rightarrow> ModifyUserAccessControlRequest \<Rightarrow> DatabaseFake \<Rightarrow> (err + upDBUser) \<times> DatabaseFake" where
  "fake_ModifyManagedDatabaseUserAccessControl svc r f0 =
     (case df_record ''ModifyManagedDatabaseUserAccessControl'' f0 of
        (Some e, f) \<Rightarrow> (Inl e, f)
      | (None, f) \<Rightarrow>
          (case gm_get (df_Databases f) svc of
             None \<Rightarrow> (Inl (NotFound ''database''), f)
           | Some db \<Rightarrow>
               (case fake_findUser db (mac_Username r) of
                  None \<Rightarrow> (Inl (NotFound ''database user''), f)
                | Some user \<Rightarrow>
                    let u1 = user\<lparr>udu_PGAccessControl := mac_PGAccessControl r,
                                  udu_ValkeyAccessControl := mac_ValkeyAccessControl r,
                                  udu_OpenSearchAccessControl := mac_OpenSearchAccessControl r\<rparr>
                    in (Inr u1, df_put svc (df_setUser db (mac_Username r) u1) f))))"

definition fake_DeleteManagedDatabaseUser :: "string \<Rightarrow> string \<Rightarrow> DatabaseFake \<Rightarrow> err option \<times> DatabaseFake" where
  "fake_DeleteManagedDatabaseUser svc username f0 =
     (case df_record ''DeleteManagedDatabaseUser'' f0 of
        (Some e, f) \<Rightarrow> (Some e, f)
      | (None, f) \<Rightarrow>
          (case gm_get (df_Databases f) svc of
             None \<Rightarrow> (Some (NotFound ''database''), f)
           | Some db \<Rightarrow>
               (case findBy udu_Username (udb_Users db) username of
                  None \<Rightarrow> (Some (NotFound ''database user''), f)
                | Some user \<Rightarrow>
                    if udu_Type user = UserTypePrimary then (Some (Problem 409 ''primary user cannot be deleted''), f)
                    else (None, df_put svc (db\<lparr>udb_Users := dropFirst udu_Username username (udb_Users db)\<rparr>) f))))"

subsection \<open>Logical databases\<close>

definition df_logical :: "DatabaseFake \<Rightarrow> string \<Rightarrow> upLogicalDatabase list" where
  "df_logical f svc = (case gm_get (df_LogicalDBs f) svc of None \<Rightarrow> [] | Some xs \<Rightarrow> xs)"

definition fake_CreateManagedDatabaseLogicalDatabase ::
  "string \<Rightarrow> CreateLogicalDatabaseRequest \<Rightarrow> DatabaseFake \<Rightarrow> (err + upLogicalDatabase) \<times> DatabaseFake" where
  "fake_CreateManagedDatabaseLogicalDatabase svc r f0 =
     (case df_record ''CreateManagedDatabaseLogicalDatabase'' f0 of
        (Some e, f) \<Rightarrow> (Inl e, f)
      | (None, f) \<Rightarrow>
          (case gm_get (df_Databases f) svc of
             None \<Rightarrow> (Inl (NotFound ''database''), f)
           | Some _ \<Rightarrow>
               if findBy uld_Name (df_logical f svc) (cld_Name r) \<noteq> None then (Inl (Conflict ''logical database''), f)
               else
                 let db = \<lparr>uld_Name = cld_Name r, uld_LCCollate = cld_LCCollate r, uld_LCCType = cld_LCCType r\<rparr>
                 in (Inr db, f\<lparr>df_LogicalDBs := gm_put svc (df_logical f svc @ [db]) (df_LogicalDBs f)\<rparr>)))"

definition fake_GetManagedDatabaseLogicalDatabases ::
  "string \<Rightarrow> DatabaseFake \<Rightarrow> (err + upLogicalDatabase list) \<times> DatabaseFake" where
  "fake_GetManagedDatabaseLogicalDatabases svc f0 =
     (let f = df_call ''GetManagedDatabaseLogicalDatabases'' f0 in
      case gm_get (df_Databases f) svc of
        None \<Rightarrow> (Inl (NotFound ''database''), f)
      | Some _ \<Rightarrow> (Inr (df_logical f svc), f))"

definition fake_DeleteManagedDatabaseLogicalDatabase ::
  "string \<Rightarrow> string \<Rightarrow> DatabaseFake \<Rightarrow> err option \<times> DatabaseFake" where
  "fake_DeleteManagedDatabaseLogicalDatabase svc name f0 =
     (case df_record ''DeleteManagedDatabaseLogicalDatabase'' f0 of
        (Some e, f) \<Rightarrow> (Some e, f)
      | (None, f) \<Rightarrow>
          (case gm_get (df_Databases f) svc of
             None \<Rightarrow> (Some (NotFound ''database''), f)
           | Some _ \<Rightarrow>
               (case findBy uld_Name (df_logical f svc) name of
                  None \<Rightarrow> (Some (NotFound ''logical database''), f)
                | Some _ \<Rightarrow>
                    (None, f\<lparr>df_LogicalDBs :=
                       gm_put svc (dropFirst uld_Name name (df_logical f svc)) (df_LogicalDBs f)\<rparr>))))"

subsection \<open>The interface value\<close>

definition fakeDatabaseAPI :: "DatabaseFake DatabaseAPI" where
  "fakeDatabaseAPI =
     \<lparr>CreateManagedDatabase = fake_CreateManagedDatabase, GetManagedDatabase = fake_GetManagedDatabase,
      GetAllManagedDatabases = fake_GetAllManagedDatabases, ModifyManagedDatabase = fake_ModifyManagedDatabase,
      DeleteManagedDatabase = fake_DeleteManagedDatabase, StartManagedDatabase = fake_StartManagedDatabase,
      ShutdownManagedDatabase = fake_ShutdownManagedDatabase,
      CreateManagedDatabaseUser = fake_CreateManagedDatabaseUser, GetManagedDatabaseUser = fake_GetManagedDatabaseUser,
      ModifyManagedDatabaseUser = fake_ModifyManagedDatabaseUser,
      ModifyManagedDatabaseUserAccessControl = fake_ModifyManagedDatabaseUserAccessControl,
      DeleteManagedDatabaseUser = fake_DeleteManagedDatabaseUser,
      CreateManagedDatabaseLogicalDatabase = fake_CreateManagedDatabaseLogicalDatabase,
      GetManagedDatabaseLogicalDatabases = fake_GetManagedDatabaseLogicalDatabases,
      DeleteManagedDatabaseLogicalDatabase = fake_DeleteManagedDatabaseLogicalDatabase\<rparr>"

lemma fakeDatabaseAPI_sel [simp]:
  "CreateManagedDatabase fakeDatabaseAPI = fake_CreateManagedDatabase"
  "GetManagedDatabase fakeDatabaseAPI = fake_GetManagedDatabase"
  "GetAllManagedDatabases fakeDatabaseAPI = fake_GetAllManagedDatabases"
  "ModifyManagedDatabase fakeDatabaseAPI = fake_ModifyManagedDatabase"
  "DeleteManagedDatabase fakeDatabaseAPI = fake_DeleteManagedDatabase"
  "StartManagedDatabase fakeDatabaseAPI = fake_StartManagedDatabase"
  "ShutdownManagedDatabase fakeDatabaseAPI = fake_ShutdownManagedDatabase"
  "CreateManagedDatabaseUser fakeDatabaseAPI = fake_CreateManagedDatabaseUser"
  "GetManagedDatabaseUser fakeDatabaseAPI = fake_GetManagedDatabaseUser"
  "ModifyManagedDatabaseUser fakeDatabaseAPI = fake_ModifyManagedDatabaseUser"
  "ModifyManagedDatabaseUserAccessControl fakeDatabaseAPI = fake_ModifyManagedDatabaseUserAccessControl"
  "DeleteManagedDatabaseUser fakeDatabaseAPI = fake_DeleteManagedDatabaseUser"
  "CreateManagedDatabaseLogicalDatabase fakeDatabaseAPI = fake_CreateManagedDatabaseLogicalDatabase"
  "GetManagedDatabaseLogicalDatabases fakeDatabaseAPI = fake_GetManagedDatabaseLogicalDatabases"
  "DeleteManagedDatabaseLogicalDatabase fakeDatabaseAPI = fake_DeleteManagedDatabaseLogicalDatabase"
  by (simp_all add: fakeDatabaseAPI_def)

subsection \<open>The tables the contract sees\<close>

definition fake_dbs :: "DatabaseFake \<Rightarrow> string \<Rightarrow> upManagedDatabase option" where
  "fake_dbs f u = map_option db_core (gm_get (df_Databases f) u)"

definition fake_usrs :: "DatabaseFake \<Rightarrow> string \<Rightarrow> string \<Rightarrow> upDBUser option" where
  "fake_usrs f u = (case gm_get (df_Databases f) u of None \<Rightarrow> \<lambda>_. None | Some db \<Rightarrow> fake_findUser db)"

definition fake_ldbs :: "DatabaseFake \<Rightarrow> string \<Rightarrow> string \<Rightarrow> upLogicalDatabase option" where
  "fake_ldbs f u = (if gm_get (df_Databases f) u = None then \<lambda>_. None else findBy uld_Name (df_logical f u))"

definition df_inv :: "DatabaseFake \<Rightarrow> bool" where
  "df_inv f \<longleftrightarrow>
     fresh_table udb_UUID (uuid_ids ''mdb'') (df_seq f) (df_Databases f) \<and>
     (\<forall>u db. gm_get (df_Databases f) u = Some db \<longrightarrow> distinct (map udu_Username (udb_Users db))) \<and>
     (\<forall>u. gm_get (df_LogicalDBs f) u \<noteq> None \<longrightarrow> (\<exists>k. k \<le> df_seq f \<and> u = uuid ''mdb'' k)) \<and>
     (\<forall>u. distinct (map uld_Name (df_logical f u))) \<and> honest (df_FailNext f)"

lemma df_inv_New [simp]: "df_inv NewDatabaseAPI"
  by (simp add: df_inv_def NewDatabaseAPI_def df_logical_def)

lemma df_views_cong:
  assumes "df_Databases g = df_Databases f" and "df_LogicalDBs g = df_LogicalDBs f"
  shows "fake_dbs g = fake_dbs f" "fake_usrs g = fake_usrs f" "fake_ldbs g = fake_ldbs f" "df_logical g = df_logical f"
  using assms by (auto simp: fake_dbs_def fake_usrs_def fake_ldbs_def df_logical_def fun_eq_iff)

lemma df_call_keeps [simp]:
  "df_inv (df_call n f) = df_inv f" "df_Databases (df_call n f) = df_Databases f"
  "df_LogicalDBs (df_call n f) = df_LogicalDBs f" "df_logical (df_call n f) = df_logical f"
  "fake_dbs (df_call n f) = fake_dbs f" "fake_usrs (df_call n f) = fake_usrs f" "fake_ldbs (df_call n f) = fake_ldbs f"
  "df_FailNext (df_call n f) = df_FailNext f" "df_StateOverride (df_call n f) = df_StateOverride f"
  by (auto simp: df_call_def df_inv_def df_logical_def fake_dbs_def fake_usrs_def fake_ldbs_def fun_eq_iff)

lemma df_record_cases:
  assumes "df_inv f" and "df_record n f = (e, g)"
  shows "df_inv g" "fake_dbs g = fake_dbs f" "fake_usrs g = fake_usrs f" "fake_ldbs g = fake_ldbs f" "\<not> IsNotFound e"
    "df_Databases g = df_Databases f" "df_logical g = df_logical f"
proof -
  have g: "df_Databases g = df_Databases f" "df_LogicalDBs g = df_LogicalDBs f" "df_seq g = df_seq f"
    "honest (df_FailNext g)" "honest e"
    using assms by (auto simp: df_record_def df_inv_def Let_def split: option.splits)
  then show "df_inv g" using assms(1) df_views_cong(4) [OF g(1,2)] by (simp add: df_inv_def)
  show "fake_dbs g = fake_dbs f" "fake_usrs g = fake_usrs f" "fake_ldbs g = fake_ldbs f" "df_logical g = df_logical f"
    "df_Databases g = df_Databases f" "\<not> IsNotFound e"
    using df_views_cong [OF g(1,2)] g(1,5) by (simp_all add: honest_def)
qed

lemma df_views_put:
  "fake_dbs (df_put u db f) = (fake_dbs f)(u \<mapsto> db_core db)"
  "fake_usrs (df_put u db f) = (fake_usrs f)(u := fake_findUser db)"
  "fake_ldbs (df_put u db f) = (fake_ldbs f)(u := findBy uld_Name (df_logical f u))"
  by (auto simp: df_put_def fake_dbs_def fake_usrs_def fake_ldbs_def df_logical_def fun_eq_iff)

lemma df_put_present:
  assumes "df_inv f" and "gm_get (df_Databases f) u = Some old" and "udb_UUID db = udb_UUID old"
    and "distinct (map udu_Username (udb_Users db))"
  shows "df_inv (df_put u db f)" and "fake_dbs (df_put u db f) = (fake_dbs f)(u \<mapsto> db_core db)"
    and "fake_usrs (df_put u db f) = (fake_usrs f)(u := fake_findUser db)"
    and "fake_ldbs (df_put u db f) = fake_ldbs f"
proof -
  have "df_logical (df_put u db f) = df_logical f" by (simp add: df_put_def df_logical_def fun_eq_iff)
  then show "df_inv (df_put u db f)"
    using assms fresh_table_put [OF _ assms(2,3)] by (simp add: df_inv_def) (simp add: df_put_def)
  show "fake_ldbs (df_put u db f) = fake_ldbs f"
    using assms(2) unfolding df_views_put by (simp add: fake_ldbs_def fun_eq_iff)
qed (simp_all add: df_views_put)

lemma df_inv_users: "df_inv f \<Longrightarrow> gm_get (df_Databases f) u = Some db \<Longrightarrow> distinct (map udu_Username (udb_Users db))"
  unfolding df_inv_def by blast

lemma df_inv_uid: "df_inv f \<Longrightarrow> gm_get (df_Databases f) u = Some db \<Longrightarrow> udb_UUID db = u \<and> u \<noteq> []"
  unfolding df_inv_def by (intro fresh_uuid_nonempty) blast+

lemma db_core_copy [simp]: "db_core (df_copy f d) = db_core d"
  by (simp add: df_copy_def)

lemma fake_usrs_present: "gm_get (df_Databases f) u = Some db \<Longrightarrow> fake_usrs f u = fake_findUser db"
  by (simp add: fake_usrs_def)

subsection \<open>The laws\<close>

lemma fake_dbs_keyed:
  assumes "df_inv s"
  shows "fake_dbs s u = Some d \<Longrightarrow> udb_UUID d = u" and "fake_dbs s u = Some d \<Longrightarrow> u \<noteq> []"
  using df_inv_uid [OF assms] by (auto simp: fake_dbs_def)

lemma fake_GetManagedDatabase_law:
  assumes "df_inv s" and "seen db_core fake_GetManagedDatabase u s = (r, s')"
  shows "df_inv s' \<and> fake_dbs s' = fake_dbs s \<and> fake_ldbs s' = fake_ldbs s"
    and "r = Inr x \<Longrightarrow> fake_dbs s u = Some x" and "r = Inl e \<Longrightarrow> fake_dbs s u = None"
  using assms by (auto simp: seen_def fake_GetManagedDatabase_def fake_dbs_def Let_def split: option.splits)

lemma fake_GetManagedDatabase_users: "fake_GetManagedDatabase u s = (r, s') \<Longrightarrow> fake_usrs s' = fake_usrs s"
  by (auto simp: fake_GetManagedDatabase_def Let_def split: option.splits)

lemma fake_GetAllManagedDatabases_law:
  assumes "df_inv s" and "seen (map db_core) fake_GetAllManagedDatabases v s = (r, s')"
  shows "df_inv s' \<and> fake_dbs s' = fake_dbs s \<and> fake_ldbs s' = fake_ldbs s"
    and "r = Inr xs \<Longrightarrow> x \<in> set xs \<Longrightarrow> fake_dbs s (udb_UUID x) = Some x"
    and "r = Inr xs \<Longrightarrow> fake_dbs s i = Some x \<Longrightarrow> x \<in> set xs"
proof -
  have t: "fresh_table udb_UUID (uuid_ids ''mdb'') (df_seq s) (df_Databases s)" using assms(1) by (simp add: df_inv_def)
  show "df_inv s' \<and> fake_dbs s' = fake_dbs s \<and> fake_ldbs s' = fake_ldbs s"
    using assms by (auto simp: seen_def fake_GetAllManagedDatabases_def Let_def)
  assume "r = Inr xs"
  then obtain sd where xs: "xs = map db_core (map snd (gm_range sd (df_Databases s)))"
    using assms(2) by (auto simp: seen_def fake_GetAllManagedDatabases_def df_range_def Let_def comp_def)
  show "x \<in> set xs \<Longrightarrow> fake_dbs s (udb_UUID x) = Some x"
    using xs fresh_table_range [OF t] by (fastforce simp: fake_dbs_def)
  show "fake_dbs s i = Some x \<Longrightarrow> x \<in> set xs"
    using xs in_range_values [of "df_Databases s" i] by (fastforce simp: fake_dbs_def)
qed

lemma df_inv_new:
  assumes "df_inv f" and "udb_UUID db = uuid ''mdb'' (Suc (df_seq f))" and "distinct (map udu_Username (udb_Users db))"
  shows "df_inv (df_put (udb_UUID db) db (f\<lparr>df_seq := Suc (df_seq f)\<rparr>))"
    and "gm_get (df_Databases f) (udb_UUID db) = None" and "df_logical f (udb_UUID db) = []"
proof -
  let ?u = "udb_UUID db"
  have t: "fresh_table udb_UUID (uuid_ids ''mdb'') (df_seq f) (df_Databases f)" using assms(1) by (simp add: df_inv_def)
  show "gm_get (df_Databases f) ?u = None" using fresh_uuid_unused [OF t] assms(2) by simp
  have "gm_get (df_LogicalDBs f) ?u = None"
    using assms(1,2) unfolding df_inv_def by (metis Suc_n_not_le_n uuid_inj)
  then show "df_logical f ?u = []" by (simp add: df_logical_def)
  have l: "df_logical (df_put ?u db (f\<lparr>df_seq := Suc (df_seq f)\<rparr>)) = df_logical f"
    by (simp add: df_put_def df_logical_def fun_eq_iff)
  have "fresh_table udb_UUID (uuid_ids ''mdb'') (Suc (df_seq f)) (gm_put ?u db (df_Databases f))"
    using fresh_uuid_new [OF t assms(2)] assms(2) by simp
  moreover have "\<forall>u d. gm_get (gm_put ?u db (df_Databases f)) u = Some d \<longrightarrow> distinct (map udu_Username (udb_Users d))"
    using assms(3) df_inv_users [OF assms(1)] by simp
  moreover have "\<forall>u. gm_get (df_LogicalDBs f) u \<noteq> None \<longrightarrow> (\<exists>k. k \<le> Suc (df_seq f) \<and> u = uuid ''mdb'' k)"
    using assms(1) unfolding df_inv_def by (metis le_SucI)
  ultimately show "df_inv (df_put ?u db (f\<lparr>df_seq := Suc (df_seq f)\<rparr>))"
    using assms(1) l unfolding df_inv_def by (simp add: df_put_def)
qed

lemma fake_CreateManagedDatabase_law:
  assumes "df_inv s" and "seen db_core fake_CreateManagedDatabase c s = (r, s')"
  shows "r = Inr x \<Longrightarrow> df_inv s' \<and> fake_dbs s (udb_UUID x) = None \<and> fake_dbs s' = (fake_dbs s)(udb_UUID x \<mapsto> x) \<and>
      fake_ldbs s' = fake_ldbs s \<and> db_built c x"
    and "r = Inl e \<Longrightarrow> df_inv s' \<and> fake_dbs s' = fake_dbs s \<and> fake_ldbs s' = fake_ldbs s"
proof -
  obtain e0 f where rc: "df_record ''CreateManagedDatabase'' s = (e0, f)" by fastforce
  note f = df_record_cases [OF assms(1) rc]
  show "r = Inl e \<Longrightarrow> df_inv s' \<and> fake_dbs s' = fake_dbs s \<and> fake_ldbs s' = fake_ldbs s"
    using assms(2) rc f by (cases e0) (auto simp: seen_def fake_CreateManagedDatabase_def df_nextUUID_def Let_def)
  assume r: "r = Inr x"
  let ?f1 = "f\<lparr>df_seq := Suc (df_seq f)\<rparr>"
  obtain db where db: "x = db_core db" "s' = df_put (udb_UUID db) db ?f1" "udb_UUID db = uuid ''mdb'' (Suc (df_seq f))"
      "distinct (map udu_Username (udb_Users db))" "db_built c db"
    using assms(2) rc r
    by (cases e0) (auto simp: seen_def fake_CreateManagedDatabase_def df_nextUUID_def db_built_def Let_def split: option.splits)
  note new = df_inv_new [OF f(1) db(3,4)]
  have "fake_dbs ?f1 = fake_dbs f" "fake_ldbs ?f1 = fake_ldbs f" "df_logical ?f1 = df_logical f" by (rule df_views_cong; simp)+
  then have "fake_dbs s' = (fake_dbs f)(udb_UUID db \<mapsto> x)" "fake_ldbs s' = fake_ldbs f"
    using db(1,2) new(2,3) unfolding df_views_put by (auto simp: df_views_put fake_ldbs_def fun_eq_iff)
  moreover have "fake_dbs f (udb_UUID db) = None" using new(2) by (simp add: fake_dbs_def)
  ultimately show "df_inv s' \<and> fake_dbs s (udb_UUID x) = None \<and> fake_dbs s' = (fake_dbs s)(udb_UUID x \<mapsto> x) \<and>
      fake_ldbs s' = fake_ldbs s \<and> db_built c x"
    using f db new(1) by (auto simp: db_built_def)
qed

text \<open>Every call that replaces a stored service goes through one lemma.\<close>

lemma fake_patch_law:
  assumes "df_inv s" and "df_record n s = (e0, f)"
    and res: "(r, s') = (case e0 of Some e \<Rightarrow> (Inl e, f) | None \<Rightarrow> (case gm_get (df_Databases f) u of
        None \<Rightarrow> (Inl (NotFound w), f) | Some db \<Rightarrow> (Inr (p db), df_put u (p db) f)))"
    and p: "\<And>db. udb_UUID (p db) = udb_UUID db \<and> udb_Users (p db) = udb_Users db \<and> db_core (p db) = q (db_core db)"
  shows "map_sum id db_core r = Inr x \<Longrightarrow> df_inv s' \<and> fake_ldbs s' = fake_ldbs s \<and>
      (\<exists>y. fake_dbs s u = Some y \<and> x = q y \<and> fake_dbs s' = (fake_dbs s)(u \<mapsto> x))"
    and "map_sum id db_core r = Inl e \<Longrightarrow> df_inv s' \<and> fake_dbs s' = fake_dbs s \<and> fake_ldbs s' = fake_ldbs s"
proof -
  note f = df_record_cases [OF assms(1,2)]
  show "map_sum id db_core r = Inl e \<Longrightarrow> df_inv s' \<and> fake_dbs s' = fake_dbs s \<and> fake_ldbs s' = fake_ldbs s"
    using res f by (auto split: option.splits)
  assume "map_sum id db_core r = Inr x"
  then obtain db where db: "gm_get (df_Databases f) u = Some db" "x = db_core (p db)" "s' = df_put u (p db) f"
    using res by (auto split: option.splits)
  have "distinct (map udu_Username (udb_Users (p db)))" using df_inv_users [OF f(1) db(1)] p by simp
  note put = df_put_present [OF f(1) db(1) _ this]
  show "df_inv s' \<and> fake_ldbs s' = fake_ldbs s \<and>
      (\<exists>y. fake_dbs s u = Some y \<and> x = q y \<and> fake_dbs s' = (fake_dbs s)(u \<mapsto> x))"
    using put p db f by (auto simp: fake_dbs_def)
qed

lemma seen_eq: "seen core g a s = (r, s') \<longleftrightarrow> (\<exists>r0. g a s = (r0, s') \<and> r = map_sum id core r0)"
  by (auto simp: seen_def split: prod.splits sum.splits)

text \<open>The field-by-field updates of the modify call, as one update.\<close>

lemma db_update_if:
  "(if b then d\<lparr>udb_Plan := p\<rparr> else d) = d\<lparr>udb_Plan := if b then p else udb_Plan d\<rparr>"
  "(if b then d\<lparr>udb_Title := p\<rparr> else d) = d\<lparr>udb_Title := if b then p else udb_Title d\<rparr>"
  "(case n of None \<Rightarrow> d | Some x \<Rightarrow> d\<lparr>udb_AdditionalDiskSpaceGiB := x\<rparr>)
     = d\<lparr>udb_AdditionalDiskSpaceGiB := orKeep n (udb_AdditionalDiskSpaceGiB d)\<rparr>"
  "(case t of None \<Rightarrow> d | Some x \<Rightarrow> d\<lparr>udb_TerminationProtection := x\<rparr>)
     = d\<lparr>udb_TerminationProtection := orKeep t (udb_TerminationProtection d)\<rparr>"
  "(case ls of None \<Rightarrow> d | Some x \<Rightarrow> d\<lparr>udb_Labels := x\<rparr>) = d\<lparr>udb_Labels := orKeep ls (udb_Labels d)\<rparr>"
  "(case ns of None \<Rightarrow> d | Some x \<Rightarrow> d\<lparr>udb_Networks := x\<rparr>) = d\<lparr>udb_Networks := orKeep ns (udb_Networks d)\<rparr>"
  "(if b then d\<lparr>udb_Maintenance := \<lparr>mt_DayOfWeek = mt_DayOfWeek m, mt_Time = mt_Time m\<rparr>\<rparr> else d)
     = d\<lparr>udb_Maintenance := if b then m else udb_Maintenance d\<rparr>"
  "(if 0 < length ps then d\<lparr>udb_Properties := gm_copy (udb_Properties d) ps\<rparr> else d)
     = d\<lparr>udb_Properties := gm_copy (udb_Properties d) ps\<rparr>"
  by (cases n; simp) (cases ps; simp split: option.split)+

lemma fake_ModifyManagedDatabase_law:
  assumes "df_inv s" and "seen db_core fake_ModifyManagedDatabase m s = (r, s')"
  shows "r = Inr x \<Longrightarrow> df_inv s' \<and> fake_ldbs s' = fake_ldbs s \<and>
      (\<exists>y. fake_dbs s (mmd_UUID m) = Some y \<and> x = db_patched m y \<and> fake_dbs s' = (fake_dbs s)(mmd_UUID m \<mapsto> x))"
    and "r = Inl e \<Longrightarrow> df_inv s' \<and> fake_dbs s' = fake_dbs s \<and> fake_ldbs s' = fake_ldbs s"
proof -
  obtain r0 where r0: "fake_ModifyManagedDatabase m s = (r0, s')" "r = map_sum id db_core r0"
    using assms(2) by (auto simp: seen_eq)
  obtain e0 f where rc: "df_record ''ModifyManagedDatabase'' s = (e0, f)" by fastforce
  have "(r0, s') = (case e0 of Some e \<Rightarrow> (Inl e, f) | None \<Rightarrow> (case gm_get (df_Databases f) (mmd_UUID m) of
        None \<Rightarrow> (Inl (NotFound ''database''), f)
      | Some db \<Rightarrow> (Inr (db_patched m db), df_put (mmd_UUID m) (db_patched m db) f)))"
    using r0(1) rc unfolding fake_ModifyManagedDatabase_def db_update_if Let_def
    by (auto simp: db_patched_def split: option.splits cong: if_cong split del: if_split)
  note law = fake_patch_law [OF assms(1) rc this, where q = "db_patched m"]
  have q: "udb_UUID (db_patched m db) = udb_UUID db \<and> udb_Users (db_patched m db) = udb_Users db \<and>
      db_core (db_patched m db) = db_patched m (db_core db)" for db
    by (simp add: db_patched_def db_core_def)
  show "r = Inr x \<Longrightarrow> df_inv s' \<and> fake_ldbs s' = fake_ldbs s \<and>
      (\<exists>y. fake_dbs s (mmd_UUID m) = Some y \<and> x = db_patched m y \<and> fake_dbs s' = (fake_dbs s)(mmd_UUID m \<mapsto> x))"
    and "r = Inl e \<Longrightarrow> df_inv s' \<and> fake_dbs s' = fake_dbs s \<and> fake_ldbs s' = fake_ldbs s"
    using law [OF q] r0(2) by simp_all
qed

lemma fake_StartManagedDatabase_law:
  assumes "df_inv s" and "seen db_core fake_StartManagedDatabase u s = (r, s')"
  shows "r = Inr x \<Longrightarrow> df_inv s' \<and> fake_ldbs s' = fake_ldbs s \<and>
      (\<exists>y. fake_dbs s u = Some y \<and> x = y\<lparr>udb_Powered := True\<rparr> \<and> fake_dbs s' = (fake_dbs s)(u \<mapsto> x))"
    and "r = Inl e \<Longrightarrow> df_inv s' \<and> fake_dbs s' = fake_dbs s \<and> fake_ldbs s' = fake_ldbs s"
proof -
  let ?p = "\<lambda>db. db\<lparr>udb_Powered := True, udb_State := StateRunning\<rparr>"
  obtain r0 where r0: "fake_StartManagedDatabase u s = (r0, s')" "r = map_sum id db_core r0"
    using assms(2) by (auto simp: seen_eq)
  obtain e0 f where rc: "df_record ''StartManagedDatabase'' s = (e0, f)" by fastforce
  have "(r0, s') = (case e0 of Some e \<Rightarrow> (Inl e, f) | None \<Rightarrow> (case gm_get (df_Databases f) u of
        None \<Rightarrow> (Inl (NotFound ''database''), f) | Some db \<Rightarrow> (Inr (?p db), df_put u (?p db) f)))"
    using r0(1) rc by (auto simp: fake_StartManagedDatabase_def Let_def split: option.splits)
  note law = fake_patch_law [OF assms(1) rc this, where q = "\<lambda>y. y\<lparr>udb_Powered := True\<rparr>"]
  show "r = Inr x \<Longrightarrow> df_inv s' \<and> fake_ldbs s' = fake_ldbs s \<and>
      (\<exists>y. fake_dbs s u = Some y \<and> x = y\<lparr>udb_Powered := True\<rparr> \<and> fake_dbs s' = (fake_dbs s)(u \<mapsto> x))"
    and "r = Inl e \<Longrightarrow> df_inv s' \<and> fake_dbs s' = fake_dbs s \<and> fake_ldbs s' = fake_ldbs s"
    using law r0(2) by (simp_all add: db_core_def)
qed

lemma fake_ShutdownManagedDatabase_law:
  assumes "df_inv s" and "seen db_core fake_ShutdownManagedDatabase u s = (r, s')"
  shows "r = Inr x \<Longrightarrow> df_inv s' \<and> fake_ldbs s' = fake_ldbs s \<and>
      (\<exists>y. fake_dbs s u = Some y \<and> x = y\<lparr>udb_Powered := False\<rparr> \<and> fake_dbs s' = (fake_dbs s)(u \<mapsto> x))"
    and "r = Inl e \<Longrightarrow> df_inv s' \<and> fake_dbs s' = fake_dbs s \<and> fake_ldbs s' = fake_ldbs s"
proof -
  let ?p = "\<lambda>db. db\<lparr>udb_Powered := False, udb_State := StateStopped\<rparr>"
  obtain r0 where r0: "fake_ShutdownManagedDatabase u s = (r0, s')" "r = map_sum id db_core r0"
    using assms(2) by (auto simp: seen_eq)
  obtain e0 f where rc: "df_record ''ShutdownManagedDatabase'' s = (e0, f)" by fastforce
  have "(r0, s') = (case e0 of Some e \<Rightarrow> (Inl e, f) | None \<Rightarrow> (case gm_get (df_Databases f) u of
        None \<Rightarrow> (Inl (NotFound ''database''), f) | Some db \<Rightarrow> (Inr (?p db), df_put u (?p db) f)))"
    using r0(1) rc by (auto simp: fake_ShutdownManagedDatabase_def Let_def split: option.splits)
  note law = fake_patch_law [OF assms(1) rc this, where q = "\<lambda>y. y\<lparr>udb_Powered := False\<rparr>"]
  show "r = Inr x \<Longrightarrow> df_inv s' \<and> fake_ldbs s' = fake_ldbs s \<and>
      (\<exists>y. fake_dbs s u = Some y \<and> x = y\<lparr>udb_Powered := False\<rparr> \<and> fake_dbs s' = (fake_dbs s)(u \<mapsto> x))"
    and "r = Inl e \<Longrightarrow> df_inv s' \<and> fake_dbs s' = fake_dbs s \<and> fake_ldbs s' = fake_ldbs s"
    using law r0(2) by (simp_all add: db_core_def)
qed

lemma df_del_views:
  assumes "df_inv f"
  shows "df_inv (f\<lparr>df_Databases := gm_del u (df_Databases f)\<rparr>)"
    and "fake_dbs (f\<lparr>df_Databases := gm_del u (df_Databases f)\<rparr>) = (fake_dbs f)(u := None)"
    and "fake_usrs (f\<lparr>df_Databases := gm_del u (df_Databases f)\<rparr>) = (fake_usrs f)(u := \<lambda>_. None)"
    and "fake_ldbs (f\<lparr>df_Databases := gm_del u (df_Databases f)\<rparr>) = (fake_ldbs f)(u := \<lambda>_. None)"
proof -
  have "df_logical (f\<lparr>df_Databases := gm_del u (df_Databases f)\<rparr>) = df_logical f" by (simp add: df_logical_def fun_eq_iff)
  then show "df_inv (f\<lparr>df_Databases := gm_del u (df_Databases f)\<rparr>)"
    using assms by (simp add: df_inv_def fresh_table_del)
qed (auto simp: fake_dbs_def fake_usrs_def fake_ldbs_def df_logical_def fun_eq_iff)

lemma fake_DeleteManagedDatabase_law:
  assumes "df_inv s" and "fake_DeleteManagedDatabase u s = (e, s')"
  shows "df_inv s' \<and> (\<forall>i. i \<noteq> u \<longrightarrow> fake_dbs s' i = fake_dbs s i \<and> fake_usrs s' i = fake_usrs s i \<and> fake_ldbs s' i = fake_ldbs s i) \<and>
      (fake_dbs s' u = None \<or> fake_dbs s' u = fake_dbs s u \<and> fake_usrs s' u = fake_usrs s u \<and> fake_ldbs s' u = fake_ldbs s u) \<and>
      (IsNotFound e \<longrightarrow> fake_dbs s' u = None)"
proof -
  obtain e0 f where rc: "df_record ''DeleteManagedDatabase'' s = (e0, f)" by fastforce
  note f = df_record_cases [OF assms(1) rc]
  note del = df_del_views [OF f(1), of u]
  show ?thesis
  proof (cases "e0 = None \<and> gm_get (df_Databases f) u \<noteq> None")
    case False
    then show ?thesis
      using assms(2) rc f by (cases e0) (auto simp: fake_DeleteManagedDatabase_def fake_dbs_def split: option.splits)
  next
    case True
    then obtain db where db: "e0 = None" "gm_get (df_Databases f) u = Some db" by blast
    note put = df_put_present [OF f(1) db(2), of "db\<lparr>udb_State := StateDeleteService\<rparr>"]
    have "fake_dbs f u = Some (db_core db)" "fake_usrs f u = fake_findUser db"
      "fake_findUser (db\<lparr>udb_State := StateDeleteService\<rparr>) = fake_findUser db"
      using db(2) by (simp_all add: fake_dbs_def fake_usrs_def fake_findUser_def fun_eq_iff)
    then show ?thesis
      using assms(2) rc f db del put df_inv_users [OF f(1) db(2)]
      by (auto simp: fake_DeleteManagedDatabase_def split: if_splits)
  qed
qed

subsection \<open>Users and logical databases\<close>

abbreviation usr_others :: "string \<Rightarrow> DatabaseFake \<Rightarrow>
    (string \<Rightarrow> upManagedDatabase option) \<times> (string \<Rightarrow> string \<Rightarrow> upDBUser option) \<times> (string \<Rightarrow> string \<Rightarrow> upLogicalDatabase option)" where
  "usr_others i \<equiv> \<lambda>s. (fake_dbs s, (fake_usrs s)(i := \<lambda>_. None), fake_ldbs s)"

lemma fake_usrs_keyed: "df_inv s \<Longrightarrow> fake_usrs s i u = Some x \<Longrightarrow> udu_Username x = u"
  by (auto simp: fake_usrs_def fake_findUser_def split: option.splits dest: findBy_Some)

lemma fake_GetManagedDatabaseUser_law:
  assumes "df_inv s" and "fake_GetManagedDatabaseUser i u s = (r, s')"
  shows "df_inv s' \<and> fake_usrs s' i = fake_usrs s i \<and> usr_others i s' = usr_others i s"
    and "r = Inr x \<Longrightarrow> fake_usrs s i u = Some x" and "r = Inl e \<Longrightarrow> fake_usrs s i u = None"
  using assms by (auto simp: fake_GetManagedDatabaseUser_def fake_usrs_def Let_def split: option.splits)

text \<open>Every call that changes the users of a service goes through one lemma.\<close>

lemma df_put_users:
  assumes "df_inv f" and "gm_get (df_Databases f) i = Some db" and "distinct (map udu_Username us)"
  shows "df_inv (df_put i (db\<lparr>udb_Users := us\<rparr>) f)"
    and "usr_others i (df_put i (db\<lparr>udb_Users := us\<rparr>) f) = usr_others i f"
    and "fake_usrs (df_put i (db\<lparr>udb_Users := us\<rparr>) f) i = findBy udu_Username us"
    and "fake_usrs f i = findBy udu_Username (udb_Users db)"
proof -
  note put = df_put_present [OF assms(1,2), of "db\<lparr>udb_Users := us\<rparr>"]
  show "df_inv (df_put i (db\<lparr>udb_Users := us\<rparr>) f)" using put(1) assms(3) by simp
  have "fake_dbs f i = Some (db_core db)" using assms(2) by (simp add: fake_dbs_def)
  then show "usr_others i (df_put i (db\<lparr>udb_Users := us\<rparr>) f) = usr_others i f"
    using put assms(3) by (auto simp: fun_eq_iff)
  show "fake_usrs (df_put i (db\<lparr>udb_Users := us\<rparr>) f) i = findBy udu_Username us"
    by (simp add: df_views_put fake_findUser_def fun_eq_iff)
  show "fake_usrs f i = findBy udu_Username (udb_Users db)"
    using assms(2) by (simp add: fake_usrs_def fake_findUser_def fun_eq_iff)
qed

lemma fake_CreateManagedDatabaseUser_law:
  assumes "df_inv s" and "fake_CreateManagedDatabaseUser i c s = (r, s')"
  shows "r = Inr x \<Longrightarrow> df_inv s' \<and> fake_usrs s i (udu_Username x) = None \<and>
      fake_usrs s' i = (fake_usrs s i)(udu_Username x \<mapsto> x) \<and> usr_others i s' = usr_others i s \<and> user_built c x"
    and "r = Inl e \<Longrightarrow> df_inv s' \<and> fake_usrs s' i = fake_usrs s i \<and> usr_others i s' = usr_others i s"
proof -
  obtain e0 f where rc: "df_record ''CreateManagedDatabaseUser'' s = (e0, f)" by fastforce
  note f = df_record_cases [OF assms(1) rc]
  show "r = Inl e \<Longrightarrow> df_inv s' \<and> fake_usrs s' i = fake_usrs s i \<and> usr_others i s' = usr_others i s"
    using assms(2) rc f by (auto simp: fake_CreateManagedDatabaseUser_def Let_def split: option.splits if_splits)
  assume r: "r = Inr x"
  then obtain db where db: "gm_get (df_Databases f) i = Some db" "fake_findUser db (cdu_Username c) = None"
      "s' = df_put i (db\<lparr>udb_Users := udb_Users db @ [x]\<rparr>) f" "user_built c x"
    using assms(2) rc by (auto simp: fake_CreateManagedDatabaseUser_def user_built_def Let_def split: option.splits if_splits)
  have new: "udu_Username x \<notin> udu_Username ` set (udb_Users db)"
    using db(2,4) by (simp add: fake_findUser_def findBy_None user_built_def)
  then have "distinct (map udu_Username (udb_Users db @ [x]))" using df_inv_users [OF f(1) db(1)] by simp
  note put = df_put_users [OF f(1) db(1) this]
  have "findBy udu_Username (udb_Users db @ [x]) = (findBy udu_Username (udb_Users db))(udu_Username x \<mapsto> x)"
    using new by (rule findBy_snoc)
  then show "df_inv s' \<and> fake_usrs s i (udu_Username x) = None \<and>
      fake_usrs s' i = (fake_usrs s i)(udu_Username x \<mapsto> x) \<and> usr_others i s' = usr_others i s \<and> user_built c x"
    using put db(2-4) f new by (simp add: findBy_None)
qed

lemma fake_DeleteManagedDatabaseUser_law:
  assumes "df_inv s" and "fake_DeleteManagedDatabaseUser i u s = (r, s')"
  shows "r = None \<Longrightarrow> df_inv s' \<and> fake_usrs s' i = (fake_usrs s i)(u := None) \<and> usr_others i s' = usr_others i s"
    and "r = Some e \<Longrightarrow> df_inv s' \<and> fake_usrs s' i = fake_usrs s i \<and> usr_others i s' = usr_others i s"
    and "r = Some e \<Longrightarrow> IsNotFound (Some e) \<Longrightarrow> fake_usrs s i u = None"
proof -
  obtain e0 f where rc: "df_record ''DeleteManagedDatabaseUser'' s = (e0, f)" by fastforce
  note f = df_record_cases [OF assms(1) rc]
  show "r = Some e \<Longrightarrow> df_inv s' \<and> fake_usrs s' i = fake_usrs s i \<and> usr_others i s' = usr_others i s"
    using assms(2) rc f by (auto simp: fake_DeleteManagedDatabaseUser_def split: option.splits if_splits)
  show "r = Some e \<Longrightarrow> IsNotFound (Some e) \<Longrightarrow> fake_usrs s i u = None"
    using assms(2) rc f
    by (auto simp: fake_DeleteManagedDatabaseUser_def fake_usrs_def fake_findUser_def split: option.splits if_splits)
  assume "r = None"
  then obtain db where db: "gm_get (df_Databases f) i = Some db"
      "s' = df_put i (db\<lparr>udb_Users := dropFirst udu_Username u (udb_Users db)\<rparr>) f"
    using assms(2) rc by (auto simp: fake_DeleteManagedDatabaseUser_def split: option.splits if_splits)
  have d: "distinct (map udu_Username (udb_Users db))" by (rule df_inv_users [OF f(1) db(1)])
  then have "distinct (map udu_Username (dropFirst udu_Username u (udb_Users db)))"
    by (simp add: map_dropFirst distinct_remove1)
  note put = df_put_users [OF f(1) db(1) this]
  then show "df_inv s' \<and> fake_usrs s' i = (fake_usrs s i)(u := None) \<and> usr_others i s' = usr_others i s"
    using db(2) f findBy_dropFirst [OF d] by (auto simp: fun_eq_iff)
qed

text \<open>The two calls that write through the pointer to a user.\<close>

lemma fake_user_patch_law:
  assumes "df_inv s" and "df_record n s = (e0, f)"
    and res: "(r, s') = (case e0 of Some e \<Rightarrow> (Inl e, f) | None \<Rightarrow> (case gm_get (df_Databases f) i of
        None \<Rightarrow> (Inl (NotFound w), f)
      | Some db \<Rightarrow> (case fake_findUser db u of None \<Rightarrow> (Inl (NotFound w'), f)
          | Some x \<Rightarrow> (Inr (p x), df_put i (df_setUser db u (p x)) f))))"
    and p: "\<And>x. udu_Username (p x) = udu_Username x"
  shows "r = Inr x \<Longrightarrow> df_inv s' \<and> usr_others i s' = usr_others i s \<and>
      (\<exists>y. fake_usrs s i u = Some y \<and> x = p y \<and> fake_usrs s' i = (fake_usrs s i)(u \<mapsto> x))"
    and "r = Inl e \<Longrightarrow> df_inv s' \<and> fake_usrs s' i = fake_usrs s i \<and> usr_others i s' = usr_others i s"
proof -
  note f = df_record_cases [OF assms(1,2)]
  show "r = Inl e \<Longrightarrow> df_inv s' \<and> fake_usrs s' i = fake_usrs s i \<and> usr_others i s' = usr_others i s"
    using res f by (auto split: option.splits)
  assume "r = Inr x"
  then obtain db y where db: "gm_get (df_Databases f) i = Some db" "findBy udu_Username (udb_Users db) u = Some y"
      "x = p y" "s' = df_put i (db\<lparr>udb_Users := setFirst udu_Username u x (udb_Users db)\<rparr>) f"
    using res by (auto simp: df_setUser_def fake_findUser_def split: option.splits)
  have u: "udu_Username x = u" using db(2,3) p findBy_Some by metis
  have "distinct (map udu_Username (setFirst udu_Username u x (udb_Users db)))"
    using df_inv_users [OF f(1) db(1)] by (simp add: map_setFirst [where uid = udu_Username, OF u])
  note put = df_put_users [OF f(1) db(1) this]
  then show "df_inv s' \<and> usr_others i s' = usr_others i s \<and>
      (\<exists>y. fake_usrs s i u = Some y \<and> x = p y \<and> fake_usrs s' i = (fake_usrs s i)(u \<mapsto> x))"
    using db f findBy_setFirst [of udu_Username x u, OF u] by (auto simp: fun_eq_iff)
qed

lemma fake_ModifyManagedDatabaseUser_law:
  assumes "df_inv s" and "fake_ModifyManagedDatabaseUser i m s = (r, s')"
  shows "r = Inr x \<Longrightarrow> df_inv s' \<and> usr_others i s' = usr_others i s \<and>
      (\<exists>y. fake_usrs s i (mdu_Username m) = Some y \<and> x = user_patched m y \<and> fake_usrs s' i = (fake_usrs s i)(mdu_Username m \<mapsto> x))"
    and "r = Inl e \<Longrightarrow> df_inv s' \<and> fake_usrs s' i = fake_usrs s i \<and> usr_others i s' = usr_others i s"
proof -
  obtain e0 f where rc: "df_record ''ModifyManagedDatabaseUser'' s = (e0, f)" by fastforce
  have "(r, s') = (case e0 of Some e \<Rightarrow> (Inl e, f) | None \<Rightarrow> (case gm_get (df_Databases f) i of
        None \<Rightarrow> (Inl (NotFound ''database''), f)
      | Some db \<Rightarrow> (case fake_findUser db (mdu_Username m) of None \<Rightarrow> (Inl (NotFound ''database user''), f)
          | Some x \<Rightarrow> (Inr (user_patched m x), df_put i (df_setUser db (mdu_Username m) (user_patched m x)) f))))"
    using assms(2) rc by (auto simp: fake_ModifyManagedDatabaseUser_def user_patched_def Let_def split: option.splits)
  from fake_user_patch_law [OF assms(1) rc this]
  show "r = Inr x \<Longrightarrow> df_inv s' \<and> usr_others i s' = usr_others i s \<and>
      (\<exists>y. fake_usrs s i (mdu_Username m) = Some y \<and> x = user_patched m y \<and> fake_usrs s' i = (fake_usrs s i)(mdu_Username m \<mapsto> x))"
    and "r = Inl e \<Longrightarrow> df_inv s' \<and> fake_usrs s' i = fake_usrs s i \<and> usr_others i s' = usr_others i s"
    by (simp_all add: user_patched_def)
qed

lemma fake_ModifyManagedDatabaseUserAccessControl_law:
  assumes "df_inv s" and "fake_ModifyManagedDatabaseUserAccessControl i m s = (r, s')"
  shows "r = Inr x \<Longrightarrow> df_inv s' \<and> usr_others i s' = usr_others i s \<and>
      (\<exists>y. fake_usrs s i (mac_Username m) = Some y \<and> x = user_access_patched m y \<and>
        fake_usrs s' i = (fake_usrs s i)(mac_Username m \<mapsto> x))"
    and "r = Inl e \<Longrightarrow> df_inv s' \<and> fake_usrs s' i = fake_usrs s i \<and> usr_others i s' = usr_others i s"
proof -
  obtain e0 f where rc: "df_record ''ModifyManagedDatabaseUserAccessControl'' s = (e0, f)" by fastforce
  have "(r, s') = (case e0 of Some e \<Rightarrow> (Inl e, f) | None \<Rightarrow> (case gm_get (df_Databases f) i of
        None \<Rightarrow> (Inl (NotFound ''database''), f)
      | Some db \<Rightarrow> (case fake_findUser db (mac_Username m) of None \<Rightarrow> (Inl (NotFound ''database user''), f)
          | Some x \<Rightarrow> (Inr (user_access_patched m x), df_put i (df_setUser db (mac_Username m) (user_access_patched m x)) f))))"
    using assms(2) rc
    by (auto simp: fake_ModifyManagedDatabaseUserAccessControl_def user_access_patched_def Let_def split: option.splits)
  from fake_user_patch_law [OF assms(1) rc this]
  show "r = Inr x \<Longrightarrow> df_inv s' \<and> usr_others i s' = usr_others i s \<and>
      (\<exists>y. fake_usrs s i (mac_Username m) = Some y \<and> x = user_access_patched m y \<and>
        fake_usrs s' i = (fake_usrs s i)(mac_Username m \<mapsto> x))"
    and "r = Inl e \<Longrightarrow> df_inv s' \<and> fake_usrs s' i = fake_usrs s i \<and> usr_others i s' = usr_others i s"
    by (simp_all add: user_access_patched_def)
qed

lemma fake_ldbs_keyed: "df_inv s \<Longrightarrow> fake_ldbs s i n = Some x \<Longrightarrow> uld_Name x = n"
  by (auto simp: fake_ldbs_def split: if_splits dest: findBy_Some)

lemma fake_GetLogicalDatabases_law:
  assumes "df_inv s" and "fake_GetManagedDatabaseLogicalDatabases i s = (rl, s')"
  shows "df_inv s' \<and> fake_dbs s' = fake_dbs s \<and> fake_usrs s' = fake_usrs s \<and> fake_ldbs s' = fake_ldbs s \<and>
      (\<forall>xs. rl = Inr xs \<longrightarrow> set xs = ran (fake_ldbs s i)) \<and>
      (\<forall>e. rl = Inl e \<longrightarrow> IsNotFound (Some e) \<longrightarrow> fake_ldbs s i = (\<lambda>_. None))"
proof -
  have "distinct (map uld_Name (df_logical s i))" using assms(1) by (simp add: df_inv_def)
  from ran_findBy [OF this] show ?thesis
    using assms by (auto simp: fake_GetManagedDatabaseLogicalDatabases_def fake_ldbs_def Let_def split: option.splits)
qed

lemma df_put_logical:
  assumes "df_inv f" and "gm_get (df_Databases f) i \<noteq> None" and "distinct (map uld_Name xs)"
  defines "g \<equiv> f\<lparr>df_LogicalDBs := gm_put i xs (df_LogicalDBs f)\<rparr>"
  shows "df_inv g" and "fake_dbs g = fake_dbs f" and "fake_usrs g = fake_usrs f"
    and "fake_ldbs g = (fake_ldbs f)(i := findBy uld_Name xs)" and "fake_ldbs f i = findBy uld_Name (df_logical f i)"
proof -
  obtain db where db: "gm_get (df_Databases f) i = Some db" using assms(2) by blast
  have l: "df_logical g = (df_logical f)(i := xs)" by (simp add: g_def df_logical_def fun_eq_iff)
  have "\<exists>k. 0 < k \<and> k \<le> df_seq f \<and> i \<in> uuid_ids ''mdb'' k"
    using assms(1) db unfolding df_inv_def fresh_table_def by blast
  then have "\<exists>k. k \<le> df_seq f \<and> i = uuid ''mdb'' k" by (auto simp: uuid_ids_def)
  then have k: "\<forall>u. gm_get (gm_put i xs (df_LogicalDBs f)) u \<noteq> None \<longrightarrow> (\<exists>k. k \<le> df_seq f \<and> u = uuid ''mdb'' k)"
    using assms(1) unfolding df_inv_def by simp
  show "df_inv g" using assms(1,3) k unfolding df_inv_def l by (simp add: g_def)
  show "fake_dbs g = fake_dbs f" "fake_usrs g = fake_usrs f" by (simp_all add: g_def fake_dbs_def fake_usrs_def fun_eq_iff)
  show "fake_ldbs g = (fake_ldbs f)(i := findBy uld_Name xs)"
    using db l by (auto simp: fake_ldbs_def fun_eq_iff g_def)
  show "fake_ldbs f i = findBy uld_Name (df_logical f i)" using db by (simp add: fake_ldbs_def)
qed

lemma fake_CreateLogicalDatabase_law:
  assumes "df_inv s" and "fake_CreateManagedDatabaseLogicalDatabase i c s = (r, s')"
  shows "df_inv s' \<and> fake_dbs s' = fake_dbs s \<and> fake_usrs s' = fake_usrs s \<and>
      (case r of Inl e \<Rightarrow> fake_ldbs s' = fake_ldbs s
       | Inr x \<Rightarrow> fake_ldbs s i (uld_Name x) = None \<and> logical_built c x \<and>
           fake_ldbs s' = (fake_ldbs s)(i := (fake_ldbs s i)(uld_Name x \<mapsto> x)))"
proof -
  obtain e0 f where rc: "df_record ''CreateManagedDatabaseLogicalDatabase'' s = (e0, f)" by fastforce
  note f = df_record_cases [OF assms(1) rc]
  show ?thesis
  proof (cases r)
    case (Inl e)
    then show ?thesis
      using assms(2) rc f by (auto simp: fake_CreateManagedDatabaseLogicalDatabase_def Let_def split: option.splits if_splits)
  next
    case (Inr x)
    then have d: "gm_get (df_Databases f) i \<noteq> None" "findBy uld_Name (df_logical f i) (uld_Name x) = None"
      "s' = f\<lparr>df_LogicalDBs := gm_put i (df_logical f i @ [x]) (df_LogicalDBs f)\<rparr>" "logical_built c x"
      using assms(2) rc
      by (auto simp: fake_CreateManagedDatabaseLogicalDatabase_def logical_built_def Let_def split: option.splits if_splits)
    have new: "uld_Name x \<notin> uld_Name ` set (df_logical f i)" using d(2) by (simp add: findBy_None)
    moreover have "distinct (map uld_Name (df_logical f i))" using f(1) by (simp add: df_inv_def)
    ultimately have "distinct (map uld_Name (df_logical f i @ [x]))" by simp
    note put = df_put_logical [OF f(1) d(1) this]
    show ?thesis using put f d(2-4) Inr findBy_snoc [OF new] by simp
  qed
qed

lemma fake_DeleteLogicalDatabase_law:
  assumes "df_inv s" and "fake_DeleteManagedDatabaseLogicalDatabase i n s = (e, s')"
  shows "df_inv s' \<and> fake_dbs s' = fake_dbs s \<and> fake_usrs s' = fake_usrs s \<and>
      (case e of None \<Rightarrow> fake_ldbs s' = (fake_ldbs s)(i := (fake_ldbs s i)(n := None))
       | Some x \<Rightarrow> fake_ldbs s' = fake_ldbs s \<and> (IsNotFound e \<longrightarrow> fake_ldbs s i n = None))"
proof -
  obtain e0 f where rc: "df_record ''DeleteManagedDatabaseLogicalDatabase'' s = (e0, f)" by fastforce
  note f = df_record_cases [OF assms(1) rc]
  show ?thesis
  proof (cases e)
    case (Some x)
    then show ?thesis
      using assms(2) rc f
      by (auto simp: fake_DeleteManagedDatabaseLogicalDatabase_def fake_ldbs_def split: option.splits if_splits)
  next
    case None
    then have d: "gm_get (df_Databases f) i \<noteq> None"
      "s' = f\<lparr>df_LogicalDBs := gm_put i (dropFirst uld_Name n (df_logical f i)) (df_LogicalDBs f)\<rparr>"
      using assms(2) rc by (auto simp: fake_DeleteManagedDatabaseLogicalDatabase_def split: option.splits)
    have dd: "distinct (map uld_Name (df_logical f i))" using f(1) by (simp add: df_inv_def)
    then have "distinct (map uld_Name (dropFirst uld_Name n (df_logical f i)))"
      by (simp add: map_dropFirst distinct_remove1)
    note put = df_put_logical [OF f(1) d(1) this]
    have "findBy uld_Name (dropFirst uld_Name n (df_logical f i)) = (findBy uld_Name (df_logical f i))(n := None)"
      using findBy_dropFirst [OF dd] by (simp add: fun_eq_iff)
    then show ?thesis using put f d(2) None by simp
  qed
qed

subsection \<open>The contract holds\<close>

lemmas fake_db_laws = fake_dbs_keyed fake_GetManagedDatabase_law fake_CreateManagedDatabase_law
  fake_GetAllManagedDatabases_law fake_ModifyManagedDatabase_law fake_StartManagedDatabase_law
  fake_ShutdownManagedDatabase_law
lemmas fake_usr_laws = fake_usrs_keyed fake_GetManagedDatabaseUser_law fake_CreateManagedDatabaseUser_law
  fake_DeleteManagedDatabaseUser_law fake_ModifyManagedDatabaseUser_law fake_ModifyManagedDatabaseUserAccessControl_law
lemmas fake_ldb_laws = fake_GetLogicalDatabases_law fake_ldbs_keyed fake_CreateLogicalDatabase_law
  fake_DeleteLogicalDatabase_law

interpretation fake_db: database_service fakeDatabaseAPI df_inv fake_dbs fake_usrs fake_ldbs
proof (unfold_locales, unfold fakeDatabaseAPI_sel)
qed ((rule fake_db_laws fake_usr_laws fake_ldb_laws fake_DeleteManagedDatabase_law fake_GetManagedDatabase_users;
      (assumption | rule refl))+)

end
