(* ===== verification/GoStrconv.thy ===== *)
theory GoStrconv
  imports Prelude "HOL-Library.Word"
begin

text \<open>
  The part of Go's \<open>strconv\<close> that turns decimal text into an \<open>int\<close> of 64 bits: \<open>ParseUint\<close>,
  \<open>ParseInt\<close> and \<open>Atoi\<close> in base 10, on machine words, with their tests for overflow. A result
  is a value and the error, if any: a value is returned along with an error too.
\<close>

subsection \<open>The functions\<close>

datatype NumError = ErrSyntax | ErrRange

definition byteDigit :: "char \<Rightarrow> 8 word" where
  "byteDigit c = of_nat (of_char c) - 48"

definition maxUint64 :: "64 word" where
  "maxUint64 = 18446744073709551615"

text \<open>\<open>cutoff\<close> is the smallest number whose tenfold does not fit.\<close>

definition uintCutoff :: "64 word" where
  "uintCutoff = maxUint64 div 10 + 1"

fun parseUintLoop :: "64 word \<Rightarrow> string \<Rightarrow> 64 word \<times> NumError option" where
  "parseUintLoop n [] = (n, None)"
| "parseUintLoop n (c # cs) =
     (let d = byteDigit c in
      if d > 9 then (0, Some ErrSyntax)
      else if n \<ge> uintCutoff then (maxUint64, Some ErrRange)
      else let m = n * 10; n1 = m + ucast d
           in if n1 < m then (maxUint64, Some ErrRange) else parseUintLoop n1 cs)"

definition ParseUint :: "string \<Rightarrow> 64 word \<times> NumError option" where
  "ParseUint s = (if s = '''' then (0, Some ErrSyntax) else parseUintLoop 0 s)"

definition intCutoff :: "64 word" where
  "intCutoff = 9223372036854775808"

definition signOf :: "string \<Rightarrow> bool \<times> string" where
  "signOf s =
     (case s of
        [] \<Rightarrow> (False, [])
      | c # r \<Rightarrow> if c = CHR ''-'' then (True, r) else if c = CHR ''+'' then (False, r) else (False, s))"

definition ParseInt :: "string \<Rightarrow> 64 word \<times> NumError option" where
  "ParseInt s =
     (if s = '''' then (0, Some ErrSyntax)
      else let (neg, ds) = signOf s; (un, e) = ParseUint ds in
        if e = Some ErrSyntax then (0, e)
        else if \<not> neg \<and> un \<ge> intCutoff then (intCutoff - 1, Some ErrRange)
        else if neg \<and> un > intCutoff then (- intCutoff, Some ErrRange)
        else (if neg then - un else un, None))"

text \<open>The fast path of \<open>Atoi\<close>, for texts of at most 18 bytes, which cannot overflow.\<close>

fun atoiLoop :: "64 word \<Rightarrow> string \<Rightarrow> 64 word option" where
  "atoiLoop n [] = Some n"
| "atoiLoop n (c # cs) =
     (let d = byteDigit c in if d > 9 then None else atoiLoop (n * 10 + ucast d) cs)"

definition strconv_Atoi :: "string \<Rightarrow> 64 word \<times> NumError option" where
  "strconv_Atoi s =
     (if 0 < length s \<and> length s < 19 then
        let (neg, ds) = signOf s in
        if ds = [] then (0, Some ErrSyntax)
        else (case atoiLoop 0 ds of
                None \<Rightarrow> (0, Some ErrSyntax)
              | Some n \<Rightarrow> (if neg then - n else n, None))
      else ParseInt s)"

subsection \<open>Digits\<close>

definition is_digit :: "char \<Rightarrow> bool" where
  "is_digit c \<longleftrightarrow> 48 \<le> (of_char c :: nat) \<and> (of_char c :: nat) \<le> 57"

lemma unat_byteDigit: "unat (byteDigit c) = (of_char c + 208) mod 256"
proof -
  have "byteDigit c = of_nat (of_char c + 208)" by (simp add: byteDigit_def)
  then show ?thesis by (simp only: unat_of_nat) simp
qed

lemma byteDigit_cases:
  "is_digit c \<Longrightarrow> byteDigit c \<le> 9 \<and> unat (byteDigit c) = digit_val c \<and> digit_val c \<le> 9"
  "\<not> is_digit c \<Longrightarrow> byteDigit c > 9"
proof -
  have b: "(of_char c :: nat) < 256" by simp
  have v: "unat (byteDigit c) = (if (of_char c :: nat) < 48 then of_char c + 208 else of_char c - 48)"
    unfolding unat_byteDigit using b by (simp add: mod_if [of "of_char c + 208" 256] less_imp_diff_less)
  show "is_digit c \<Longrightarrow> byteDigit c \<le> 9 \<and> unat (byteDigit c) = digit_val c \<and> digit_val c \<le> 9"
    using v by (auto simp: word_le_nat_alt is_digit_def digit_val_def)
  show "\<not> is_digit c \<Longrightarrow> byteDigit c > 9"
    using v by (auto simp: word_less_nat_alt is_digit_def)
qed

lemma ucast_byteDigit: "is_digit c \<Longrightarrow> (ucast (byteDigit c) :: 64 word) = of_nat (digit_val c)"
  using byteDigit_cases(1) [of c] by (metis of_nat_unat)

abbreviation decimal :: "nat \<Rightarrow> string \<Rightarrow> nat" where
  "decimal \<equiv> foldl (\<lambda>a c. a * 10 + digit_val c)"

lemma decimal_ge: "a \<le> decimal a s"
proof (induction s arbitrary: a)
  case (Cons c s)
  show ?case using Cons [of "a * 10 + digit_val c"] by simp
qed simp

lemma decimal_bound: "list_all is_digit s \<Longrightarrow> decimal 0 s < 10 ^ length s"
proof (induction s rule: rev_induct)
  case (snoc c s)
  then have "decimal 0 s + 1 \<le> 10 ^ length s" "digit_val c \<le> 9" using byteDigit_cases(1) by auto
  then show ?case by simp
qed simp

subsection \<open>The loops compute the number\<close>

lemma atoiLoop_digits:
  "list_all is_digit s \<Longrightarrow> atoiLoop (of_nat a) s = Some (of_nat (decimal a s))"
proof (induction s arbitrary: a)
  case (Cons c s)
  then have c: "is_digit c" "\<not> byteDigit c > 9" using byteDigit_cases(1) [of c] by auto
  have "(of_nat a * 10 + of_nat (digit_val c) :: 64 word) = of_nat (a * 10 + digit_val c)" by simp
  then show ?case using Cons c ucast_byteDigit [OF c(1)] by (simp add: Let_def del: of_nat_add of_nat_mult)
qed simp

lemma atoiLoop_garbage: "\<not> list_all is_digit s \<Longrightarrow> atoiLoop n s = None"
  by (induction n s rule: atoiLoop.induct) (auto simp: Let_def byteDigit_cases(2))

lemma unat64: "n < 2 ^ 64 \<Longrightarrow> unat (of_nat n :: 64 word) = n"
  by (simp add: unsigned_of_nat take_bit_nat_eq_self)

lemma parseUintLoop_digits:
  assumes "list_all is_digit s" and "a < 2 ^ 64"
  shows "parseUintLoop (of_nat a) s =
    (if decimal a s < 2 ^ 64 then (of_nat (decimal a s), None) else (maxUint64, Some ErrRange))"
  using assms
proof (induction s arbitrary: a)
  case (Cons c s)
  then have c: "is_digit c" "\<not> byteDigit c > 9" "digit_val c \<le> 9" using byteDigit_cases(1) [of c] by auto
  have a: "unat (of_nat a :: 64 word) = a" using Cons.prems(2) by (simp add: unat64)
  have cut: "unat uintCutoff = 1844674407370955162" by (simp add: uintCutoff_def maxUint64_def)
  have ge: "decimal a (c # s) \<ge> a * 10 + digit_val c" using decimal_ge [of "a * 10 + digit_val c" s] by simp
  show ?case
  proof (cases "(of_nat a :: 64 word) \<ge> uintCutoff")
    case True
    then have "2 ^ 64 \<le> a * 10 + digit_val c" using a cut by (simp add: word_le_nat_alt)
    then show ?thesis using True c(2) ge by (simp add: Let_def)
  next
    case False
    then have m: "a * 10 < 2 ^ 64" using a cut by (simp add: word_le_nat_alt)
    let ?m = "of_nat a * 10 :: 64 word"
    let ?v = "a * 10 + digit_val c"
    have um: "unat ?m = a * 10" using m by (simp add: unat_word_ariths a)
    have n1: "?m + ucast (byteDigit c) = of_nat ?v" using ucast_byteDigit [OF c(1)] by simp
    show ?thesis
    proof (cases "?v < 2 ^ 64")
      case True
      then have "\<not> (of_nat ?v :: 64 word) < ?m" using um by (simp add: word_less_nat_alt unat64 del: of_nat_add of_nat_mult)
      then show ?thesis using False c(2) n1 Cons.IH [of ?v] Cons.prems(1) True
        by (simp add: Let_def del: of_nat_add of_nat_mult)
    next
      case v: False
      have "unat (of_nat ?v :: 64 word) = ?v mod 2 ^ 64" by (simp only: unat_of_nat) simp
      also have "?v mod 2 ^ 64 = ?v - 2 ^ 64" using v m c(3) by (simp add: mod_if)
      finally have "(of_nat ?v :: 64 word) < ?m" using um v m c(3) by (simp add: word_less_nat_alt)
      then show ?thesis using False c(2) n1 v ge by (simp add: Let_def del: of_nat_add of_nat_mult)
    qed
  qed
qed simp

subsection \<open>The value of Atoi\<close>

lemma signOf_digits: "list_all is_digit s \<Longrightarrow> signOf s = (False, s)"
  by (cases s) (auto simp: signOf_def is_digit_def)

lemma sint_small: "n < 2 ^ 63 \<Longrightarrow> sint (of_nat n :: 64 word) = int n"
  by (simp add: signed_of_nat signed_take_bit_int_eq_self)

text \<open>Decimal text is read as its number, up to the largest \<open>int\<close>, where it saturates with an error.\<close>

lemma Atoi_digits:
  assumes "list_all is_digit s" and "s \<noteq> []"
  shows "sint (fst (strconv_Atoi s)) = min (int (radix_val 10 s)) (2 ^ 63 - 1)"
    and "snd (strconv_Atoi s) = (if radix_val 10 s < 2 ^ 63 then None else Some ErrRange)"
proof -
  have v: "radix_val 10 s = decimal 0 s" by (simp add: radix_val_def)
  have "sint (fst (strconv_Atoi s)) = min (int (decimal 0 s)) (2 ^ 63 - 1) \<and>
      snd (strconv_Atoi s) = (if decimal 0 s < 2 ^ 63 then None else Some ErrRange)"
  proof (cases "length s < 19")
    case True
    then have "(10 :: nat) ^ length s \<le> 10 ^ 18" by (intro power_increasing) simp_all
    then have small: "decimal 0 s < 2 ^ 63" using decimal_bound [OF assms(1)] by simp
    have "strconv_Atoi s = (of_nat (decimal 0 s), None)"
      using True assms(2) signOf_digits [OF assms(1)] atoiLoop_digits [OF assms(1), of 0] by (simp add: strconv_Atoi_def)
    then show ?thesis using small sint_small [OF small] by simp
  next
    case False
    have P: "ParseUint s = (if decimal 0 s < 2 ^ 64 then (of_nat (decimal 0 s), None) else (maxUint64, Some ErrRange))"
      using parseUintLoop_digits [OF assms(1), of 0] assms(2) by (simp add: ParseUint_def)
    have A: "strconv_Atoi s = (let (un, e) = ParseUint s in
        if un \<ge> intCutoff then (intCutoff - 1, Some ErrRange) else (un, None))"
      using False assms(2) signOf_digits [OF assms(1)] P by (simp add: strconv_Atoi_def ParseInt_def split: prod.split)
    have big: "sint (intCutoff - 1) = 2 ^ 63 - 1" by (simp add: intCutoff_def)
    show ?thesis
    proof (cases "decimal 0 s < 2 ^ 64")
      case True
      have "(of_nat (decimal 0 s) :: 64 word) \<ge> intCutoff \<longleftrightarrow> decimal 0 s \<ge> 2 ^ 63"
        using True by (simp add: word_le_nat_alt unat64 intCutoff_def)
      then show ?thesis using A P True big sint_small [of "decimal 0 s"] by (cases "decimal 0 s < 2 ^ 63") simp_all
    next
      case l: False
      have "maxUint64 \<ge> intCutoff" by (simp add: maxUint64_def intCutoff_def)
      then show ?thesis using A P l big by simp
    qed
  qed
  then show "sint (fst (strconv_Atoi s)) = min (int (radix_val 10 s)) (2 ^ 63 - 1)"
    "snd (strconv_Atoi s) = (if radix_val 10 s < 2 ^ 63 then None else Some ErrRange)"
    unfolding v by blast+
qed

text \<open>Short text that is not a number is read as zero.\<close>

lemma Atoi_garbage:
  assumes "length s < 19" and "\<not> list_all is_digit (snd (signOf s)) \<or> snd (signOf s) = []"
  shows "fst (strconv_Atoi s) = 0 \<and> snd (strconv_Atoi s) = Some ErrSyntax"
proof (cases "s = []")
  case True
  then show ?thesis by (simp add: strconv_Atoi_def ParseInt_def)
next
  case False
  then show ?thesis using assms atoiLoop_garbage by (auto simp: strconv_Atoi_def split: prod.split)
qed

lemma is_digit_digit: "n < 10 \<Longrightarrow> is_digit (digit n)"
proof -
  assume "n < 10"
  then have "n \<in> set [0..<10]" by simp
  then show ?thesis by (auto simp: upt_rec digit_def is_digit_def)
qed

lemma radix_digits: "2 \<le> b \<Longrightarrow> b \<le> 10 \<Longrightarrow> list_all is_digit (radix b n) \<and> radix b n \<noteq> []"
proof (induction b n rule: radix.induct)
  case (1 b n)
  have m: "n < b \<Longrightarrow> n < 10" "n mod b < 10"
    using "1.prems" mod_less_divisor [of b n] by linarith+
  show ?case
    using "1.IH" "1.prems" m is_digit_digit by (cases "n < b") (simp_all add: radix.simps [of b n])
qed

lemma Atoi_fmt_d: "sint (fst (strconv_Atoi (fmt_d n))) = min (int n) (2 ^ 63 - 1)"
  using Atoi_digits(1) [of "fmt_d n"] radix_digits [of 10 n] radix_val_radix [of 10 n] by (simp add: fmt_d_def)

end
