(* ===== verification/ManagedDatabaseAdapter.thy ===== *)
theory ManagedDatabaseAdapter
  imports K8sSecret DatabaseFake NetworkConvert GoStrconv
begin

text \<open>
  \<open>internal/controller/database/manageddatabase_adapter.go\<close>, \<open>manageddatabase_controller.go\<close>
  and \<open>secretkeys.go\<close>. The world of the adapter is a pair: the cluster's Secrets, which
  Observe writes, and the database service. The struct's \<open>Client\<close> is split into the
  Secret client \<open>sc\<close> and \<open>getNetwork\<close>, which loads Network objects.
\<close>

subsection \<open>secretkeys.go\<close>

definition SecretKeyURI :: string where "SecretKeyURI = ''uri''"
definition SecretKeyHost :: string where "SecretKeyHost = ''host''"
definition SecretKeyPort :: string where "SecretKeyPort = ''port''"
definition SecretKeyUser :: string where "SecretKeyUser = ''user''"
definition SecretKeyPassword :: string where "SecretKeyPassword = ''password''"
definition SecretKeyDBName :: string where "SecretKeyDBName = ''dbname''"
definition SecretKeySSLMode :: string where "SecretKeySSLMode = ''sslmode''"
definition SecretKeyUsername :: string where "SecretKeyUsername = ''username''"

subsection \<open>Helpers\<close>

definition updateOKStates :: "string list" where
  "updateOKStates = [StateRunning, StateStopped, StateError]"

definition deleteOKStates :: "string list" where
  "deleteOKStates = [StateRunning, StateStopped, StateError, StateDeleteService]"

definition ManagedDatabaseAdapter_lookup ::
  "'s DatabaseAPI \<Rightarrow> ManagedDatabase \<Rightarrow> 's \<Rightarrow> (err + upManagedDatabase option) \<times> 's" where
  "ManagedDatabaseAdapter_lookup api d =
     lookupOwned (GetManagedDatabase api) (\<lambda>m. GetAllManagedDatabases api ()) udb_Labels (dst_UUID (Status d)) (Meta d)"

fun desiredNetworks :: "Lib \<Rightarrow> Network getter \<Rightarrow> string \<Rightarrow> NetworkAttachment list \<Rightarrow> err + upDBNetwork list" where
  "desiredNetworks L getNetwork ns [] = Inr []"
| "desiredNetworks L getNetwork ns (att # atts) =
     (case NetworkUUID L getNetwork ns att of
        Inl e \<Rightarrow> Inl e
      | Inr u \<Rightarrow>
          (case desiredNetworks L getNetwork ns atts of
             Inl e \<Rightarrow> Inl e
           | Inr rest \<Rightarrow> Inr (\<lparr>udn_Name = na_Name att, udn_Type = na_Type att, udn_Family = na_Family att,
                              udn_UUID = (if u \<noteq> '''' then Some u else None)\<rparr> # rest)))"

definition ManagedDatabaseAdapter_desiredNetworks ::
  "Lib \<Rightarrow> Network getter \<Rightarrow> ManagedDatabase \<Rightarrow> err + upDBNetwork list" where
  "ManagedDatabaseAdapter_desiredNetworks L getNetwork d =
     desiredNetworks L getNetwork (om_Namespace (Meta d)) (dsp_Networks (Spec d))"

definition propertiesRequest :: "JsonCodec \<Rightarrow> string option \<Rightarrow> err + (string, Json) gomap" where
  "propertiesRequest J raw =
     (case raw of
        None \<Rightarrow> Inr []
      | Some t \<Rightarrow>
          if length t = 0 then Inr []
          else case json_Unmarshal J t of
            Inl e \<Rightarrow> Inl (Wrap ''spec.properties is not a JSON object'' e)
          | Inr m \<Rightarrow> Inr m)"

definition stateReady :: "upManagedDatabase \<Rightarrow> ManagedDatabase \<Rightarrow> bool" where
  "stateReady db d =
     (if udb_State db = StateRunning then True
      else if udb_State db = StateStopped then \<not> ManagedDatabase_DesiredPowered d
      else False)"

definition observationMessage :: "upManagedDatabase \<Rightarrow> string" where
  "observationMessage db =
     (let msg = ''state '' @ udb_State db in
      if length (udb_StateError db) > 0
      then let keys = sort (map fst (udb_StateError db))
           in msg @ '': '' @ the (gm_get (udb_StateError db) (hd keys))
      else msg)"

text \<open>The error of \<open>strconv.Atoi\<close> is dropped, the value that comes with it is kept.\<close>

definition atoi :: "string \<Rightarrow> int" where
  "atoi s = sint (fst (strconv_Atoi s))"

definition versionOf :: "upManagedDatabase \<Rightarrow> string" where
  "versionOf db = (case gm_get (udb_Properties db) ''version'' of Some (JString v) \<Rightarrow> v | _ \<Rightarrow> '''')"

definition syncStatus :: "ManagedDatabase \<Rightarrow> upManagedDatabase \<Rightarrow> ManagedDatabase" where
  "syncStatus d db =
     d\<lparr>Status := (Status d)\<lparr>dst_State := udb_State db, dst_PrimaryHost := sup_Host (udb_ServiceURIParams db),
       dst_PrimaryPort := atoi (sup_Port (udb_ServiceURIParams db)),
       dst_ServiceURIHost := sup_Host (udb_ServiceURIParams db), dst_Version := versionOf db,
       dst_NodeCount := udb_NodeCount db, dst_Powered := udb_Powered db\<rparr>\<rparr>"

definition propertiesUpToDate :: "JsonCodec \<Rightarrow> (string, Json) gomap \<Rightarrow> string option \<Rightarrow> bool" where
  "propertiesUpToDate J observed raw =
     (case raw of
        None \<Rightarrow> True
      | Some t \<Rightarrow>
          if length t = 0 then True
          else case json_Unmarshal J t of
            Inl e \<Rightarrow> True
          | Inr specProps \<Rightarrow>
              list_all (\<lambda>(k, v). case gm_get observed k of
                  None \<Rightarrow> False
                | Some ob \<Rightarrow> json_Marshal J v = json_Marshal J ob) specProps)"

definition networkKey :: "upDBNetwork \<Rightarrow> string" where
  "networkKey n =
     (let u = (case udn_UUID n of None \<Rightarrow> '''' | Some u \<Rightarrow> u)
      in udn_Name n @ ''|'' @ udn_Type n @ ''|'' @ udn_Family n @ ''|'' @ u)"

definition networksEqual :: "upDBNetwork list \<Rightarrow> upDBNetwork list \<Rightarrow> bool" where
  "networksEqual a b =
     (if length a \<noteq> length b then False
      else list_all (\<lambda>n. networkKey n \<in> set (map networkKey a)) b)"

definition database_desired_labels :: "ManagedDatabase \<Rightarrow> Label list" where
  "database_desired_labels d = DesiredLabels (Meta d) (dsp_Labels (Spec d))"

definition specMatches :: "JsonCodec \<Rightarrow> upManagedDatabase \<Rightarrow> ManagedDatabase \<Rightarrow> upDBNetwork list \<Rightarrow> bool" where
  "specMatches J db d networks =
     (if udb_Plan db \<noteq> dsp_Plan (Spec d) then False
      else if udb_Title db \<noteq> ManagedDatabase_ExternalTitle d then False
      else if udb_AdditionalDiskSpaceGiB db \<noteq> dsp_AdditionalDiskSpaceGiB (Spec d) then False
      else if udb_TerminationProtection db \<noteq> dsp_TerminationProtection (Spec d) then False
      else if (case dsp_Maintenance (Spec d) of None \<Rightarrow> False
               | Some m \<Rightarrow> mt_DayOfWeek (udb_Maintenance db) \<noteq> mt_DayOfWeek m \<or>
                           mt_Time (udb_Maintenance db) \<noteq> mt_Time m) then False
      else if \<not> LabelsEqual (udb_Labels db) (database_desired_labels d) then False
      else if \<not> networksEqual (udb_Networks db) networks then False
      else propertiesUpToDate J (udb_Properties db) (dsp_Properties (Spec d)))"

definition maintenanceRequest :: "Maintenance option \<Rightarrow> Maintenance" where
  "maintenanceRequest m = (case m of None \<Rightarrow> \<lparr>mt_DayOfWeek = '''', mt_Time = ''''\<rparr> | Some x \<Rightarrow> x)"

definition connectionData :: "upManagedDatabase \<Rightarrow> (string, string) gomap" where
  "connectionData db =
     (let p = udb_ServiceURIParams db in
      [(SecretKeyURI, udb_ServiceURI db), (SecretKeyHost, sup_Host p), (SecretKeyPort, sup_Port p),
       (SecretKeyUser, sup_User p), (SecretKeyPassword, sup_Password p), (SecretKeyDBName, sup_DatabaseName p),
       (SecretKeySSLMode, sup_SSLMode p)])"

definition writeConnectionSecret ::
  "'k SecretClient \<Rightarrow> ManagedDatabase \<Rightarrow> upManagedDatabase \<Rightarrow> 'k \<Rightarrow> err option \<times> 'k" where
  "writeConnectionSecret sc d db k =
     WriteOwnedSecret sc (Meta d) (ManagedDatabase_ConnectionSecretName d) (connectionData db) k"

subsection \<open>The adapter\<close>

definition ManagedDatabaseAdapter_Observe ::
  "Lib \<Rightarrow> JsonCodec \<Rightarrow> 's DatabaseAPI \<Rightarrow> 'k SecretClient \<Rightarrow> Network getter \<Rightarrow> ManagedDatabase \<Rightarrow> 'k \<times> 's
   \<Rightarrow> (err + Observation) \<times> ManagedDatabase \<times> 'k \<times> 's" where
  "ManagedDatabaseAdapter_Observe L J api sc getNetwork d w =
     (let (k, s) = w in
      case ManagedDatabaseAdapter_lookup api d s of
        (Inl e, s1) \<Rightarrow> (Inl (Wrap ''get managed database'' e), d, k, s1)
      | (Inr None, s1) \<Rightarrow> (Inr NoObservation, d, k, s1)
      | (Inr (Some db), s1) \<Rightarrow>
          let d1 = d\<lparr>Status := (Status d)\<lparr>dst_UUID := udb_UUID db\<rparr>\<rparr>;
              d2 = syncStatus d1 db
          in (case ManagedDatabaseAdapter_desiredNetworks L getNetwork d2 of
                Inl e \<Rightarrow> (Inl e, d2, k, s1)
              | Inr networks \<Rightarrow>
                  let ready = stateReady db d2;
                      (we, k1) = (if ready \<and> sup_Host (udb_ServiceURIParams db) \<noteq> ''''
                                  then writeConnectionSecret sc d2 db k else (None, k))
                  in (case we of
                        Some e \<Rightarrow> (Inl e, d2, k1, s1)
                      | None \<Rightarrow>
                          (Inr \<lparr>ob_Exists = True,
                                ob_UpToDate = (specMatches J db d2 networks \<and>
                                               udb_Powered db = ManagedDatabase_DesiredPowered d2),
                                ob_Ready = ready, ob_Message = observationMessage db\<rparr>, d2, k1, s1))))"

definition ManagedDatabaseAdapter_Create ::
  "Lib \<Rightarrow> JsonCodec \<Rightarrow> 's DatabaseAPI \<Rightarrow> Network getter \<Rightarrow> ManagedDatabase \<Rightarrow> 'k \<times> 's
   \<Rightarrow> err option \<times> ManagedDatabase \<times> 'k \<times> 's" where
  "ManagedDatabaseAdapter_Create L J api getNetwork d w =
     (let (k, s) = w in
      case ManagedDatabaseAdapter_desiredNetworks L getNetwork d of
        Inl e \<Rightarrow> (Some e, d, k, s)
      | Inr networks \<Rightarrow>
          (case propertiesRequest J (dsp_Properties (Spec d)) of
             Inl e \<Rightarrow> (Some e, d, k, s)
           | Inr props \<Rightarrow>
               (case CreateManagedDatabase api
                       \<lparr>cmd_Type = dsp_Type (Spec d), cmd_Plan = dsp_Plan (Spec d), cmd_Zone = dsp_Zone (Spec d),
                        cmd_Title = ManagedDatabase_ExternalTitle d,
                        cmd_HostNamePrefix = ManagedDatabase_ExternalHostNamePrefix d,
                        cmd_AdditionalDiskSpaceGiB = dsp_AdditionalDiskSpaceGiB (Spec d),
                        cmd_TerminationProtection = Some (dsp_TerminationProtection (Spec d)),
                        cmd_Labels = database_desired_labels d, cmd_Networks = networks, cmd_Properties = props,
                        cmd_Maintenance = maintenanceRequest (dsp_Maintenance (Spec d))\<rparr> s of
                  (Inl e, s1) \<Rightarrow> (Some (Wrap ''create managed database'' e), d, k, s1)
                | (Inr created, s1) \<Rightarrow>
                    (None, d\<lparr>Status := (Status d)\<lparr>dst_UUID := udb_UUID created\<rparr>\<rparr>, k, s1))))"

text \<open>The switch of Update that applies powered drift.\<close>

definition ManagedDatabaseAdapter_power ::
  "'s DatabaseAPI \<Rightarrow> ManagedDatabase \<Rightarrow> upManagedDatabase \<Rightarrow> 's \<Rightarrow> err option \<times> 's" where
  "ManagedDatabaseAdapter_power api d db s =
     (if udb_Powered db \<and> \<not> ManagedDatabase_DesiredPowered d then
        (case ShutdownManagedDatabase api (udb_UUID db) s of
           (Inl e, s1) \<Rightarrow> (Some (Wrap ''shutdown managed database'' e), s1)
         | (Inr _, s1) \<Rightarrow> (None, s1))
      else if \<not> udb_Powered db \<and> ManagedDatabase_DesiredPowered d then
        (case StartManagedDatabase api (udb_UUID db) s of
           (Inl e, s1) \<Rightarrow> (Some (Wrap ''start managed database'' e), s1)
         | (Inr _, s1) \<Rightarrow> (None, s1))
      else (None, s))"

definition database_modify_request ::
  "ManagedDatabase \<Rightarrow> string \<Rightarrow> upDBNetwork list \<Rightarrow> (string, Json) gomap \<Rightarrow> ModifyManagedDatabaseRequest" where
  "database_modify_request d u networks props =
     \<lparr>mmd_UUID = u, mmd_Plan = dsp_Plan (Spec d), mmd_Title = ManagedDatabase_ExternalTitle d,
      mmd_AdditionalDiskSpaceGiB = Some (dsp_AdditionalDiskSpaceGiB (Spec d)),
      mmd_TerminationProtection = Some (dsp_TerminationProtection (Spec d)),
      mmd_Labels = Some (database_desired_labels d), mmd_Networks = Some networks, mmd_Properties = props,
      mmd_Maintenance = maintenanceRequest (dsp_Maintenance (Spec d))\<rparr>"

definition ManagedDatabaseAdapter_Update ::
  "Lib \<Rightarrow> JsonCodec \<Rightarrow> 's DatabaseAPI \<Rightarrow> Network getter \<Rightarrow> ManagedDatabase \<Rightarrow> 'k \<times> 's
   \<Rightarrow> err option \<times> ManagedDatabase \<times> 'k \<times> 's" where
  "ManagedDatabaseAdapter_Update L J api getNetwork d w =
     (let (k, s) = w in
      case ManagedDatabaseAdapter_lookup api d s of
        (Inl e, s1) \<Rightarrow> (Some (Wrap ''get managed database'' e), d, k, s1)
      | (Inr None, s1) \<Rightarrow> (Some (Wrap ''update managed database'' ErrPending), d, k, s1)
      | (Inr (Some db), s1) \<Rightarrow>
          if udb_State db \<notin> set updateOKStates then (Some ErrPending, d, k, s1)
          else (case ManagedDatabaseAdapter_power api d db s1 of
             (Some e, s2) \<Rightarrow> (Some e, d, k, s2)
           | (None, s2) \<Rightarrow>
               (case ManagedDatabaseAdapter_desiredNetworks L getNetwork d of
                  Inl e \<Rightarrow> (Some e, d, k, s2)
                | Inr networks \<Rightarrow>
                    if specMatches J db d networks then (None, d, k, s2)
                    else (case propertiesRequest J (dsp_Properties (Spec d)) of
                       Inl e \<Rightarrow> (Some e, d, k, s2)
                     | Inr props \<Rightarrow>
                         (case ModifyManagedDatabase api (database_modify_request d (udb_UUID db) networks props) s2 of
                            (Inl e, s3) \<Rightarrow> (Some (Wrap ''modify managed database'' e), d, k, s3)
                          | (Inr _, s3) \<Rightarrow> (None, d, k, s3))))))"

definition ManagedDatabaseAdapter_Delete ::
  "'s DatabaseAPI \<Rightarrow> ManagedDatabase \<Rightarrow> 'k \<times> 's \<Rightarrow> err option \<times> ManagedDatabase \<times> 'k \<times> 's" where
  "ManagedDatabaseAdapter_Delete api d w =
     (let (k, s) = w in
      if dst_UUID (Status d) = '''' then (None, d, k, s)
      else case GetManagedDatabase api (dst_UUID (Status d)) s of
        (Inl e, s1) \<Rightarrow>
          if IsNotFound (Some e) then (None, d, k, s1)
          else (Some (Wrap ''get managed database'' e), d, k, s1)
      | (Inr db, s1) \<Rightarrow>
          if udb_State db \<notin> set deleteOKStates then (Some ErrPending, d, k, s1)
          else (case DeleteManagedDatabase api (udb_UUID db) s1 of
             (None, s2) \<Rightarrow> (Some ErrPending, d, k, s2)
           | (Some e, s2) \<Rightarrow>
               if IsNotFound (Some e) then (None, d, k, s2)
               else if IsConflict (Some e) \<and> \<not> udb_TerminationProtection db then (Some ErrPending, d, k, s2)
               else (Some (Wrap ''delete managed database'' e), d, k, s2)))"

definition ManagedDatabaseAdapter ::
  "Lib \<Rightarrow> JsonCodec \<Rightarrow> 's DatabaseAPI \<Rightarrow> 'k SecretClient \<Rightarrow> Network getter \<Rightarrow> (ManagedDatabase, 'k \<times> 's) Adapter" where
  "ManagedDatabaseAdapter L J api sc getNetwork =
     \<lparr>ad_Observe = ManagedDatabaseAdapter_Observe L J api sc getNetwork,
      ad_Create = ManagedDatabaseAdapter_Create L J api getNetwork,
      ad_Update = ManagedDatabaseAdapter_Update L J api getNetwork,
      ad_Delete = ManagedDatabaseAdapter_Delete api\<rparr>"

definition FinalizerManagedDatabase :: string where
  "FinalizerManagedDatabase = ''database.upcloud.polarsquad.com/manageddatabase''"

definition SetupManagedDatabaseController ::
  "Lib \<Rightarrow> JsonCodec \<Rightarrow> (ManagedDatabase, 'c) Client \<Rightarrow> 's DatabaseAPI \<Rightarrow> 'k SecretClient \<Rightarrow> Network getter \<Rightarrow> Options
   \<Rightarrow> (ManagedDatabase, 'c \<times> 'k \<times> 's) Reconciler" where
  "SetupManagedDatabaseController L J c api sc getNetwork opts =
     mkReconciler L ManagedDatabase_Object c (ManagedDatabaseAdapter L J api sc getNetwork) FinalizerManagedDatabase opts"

lemma ManagedDatabaseAdapter_sel [simp]:
  "ad_Observe (ManagedDatabaseAdapter L J api sc gn) = ManagedDatabaseAdapter_Observe L J api sc gn"
  "ad_Create (ManagedDatabaseAdapter L J api sc gn) = ManagedDatabaseAdapter_Create L J api gn"
  "ad_Update (ManagedDatabaseAdapter L J api sc gn) = ManagedDatabaseAdapter_Update L J api gn"
  "ad_Delete (ManagedDatabaseAdapter L J api sc gn) = ManagedDatabaseAdapter_Delete api"
  by (simp_all add: ManagedDatabaseAdapter_def)

lemma ManagedDatabase_Object_sel [simp]:
  "GetMeta ManagedDatabase_Object = Meta" "GetExternalID ManagedDatabase_Object d = dst_UUID (Status d)"
  "GetDeletionPolicy ManagedDatabase_Object d = dsp_DeletionPolicy (Spec d)"
  by (simp_all add: ManagedDatabase_Object_def)

subsection \<open>The comparison\<close>

locale json_codec =
  fixes J :: JsonCodec
  assumes object_keys: "json_Unmarshal J t = Inr m \<Longrightarrow> gm_wf m"

text \<open>A codec that knows the empty object and one with a version, for the witnesses.\<close>

definition ref_Json :: JsonCodec where
  "ref_Json = \<lparr>json_Unmarshal = (\<lambda>t. if t = ''{}'' then Inr [] else
       if t = ''{version:16}'' then Inr [(''version'', JString ''16'')] else Inl (ErrText ''invalid character'')),
     json_Marshal = (\<lambda>v. case v of JString x \<Rightarrow> x | JBool True \<Rightarrow> ''true'' | _ \<Rightarrow> ''null'')\<rparr>"

interpretation ref_json: json_codec ref_Json
  by unfold_locales (auto simp: ref_Json_def split: if_splits)

lemma networksEqual_refl [simp]: "networksEqual ns ns"
  by (simp add: networksEqual_def list_all_iff)

lemma specMatches_core [simp]:
  "specMatches J (db_core db) d ns = specMatches J db d ns"
  "specMatches J (db\<lparr>udb_Powered := b\<rparr>) d ns = specMatches J db d ns"
  by (simp_all add: specMatches_def cong: option.case_cong)

text \<open>The specification: what an in-sync service looks like.\<close>

definition database_in_sync :: "Lib \<Rightarrow> JsonCodec \<Rightarrow> Network getter \<Rightarrow> ManagedDatabase \<Rightarrow> upManagedDatabase \<Rightarrow> bool" where
  "database_in_sync L J gn d db \<longleftrightarrow>
     (\<exists>ns. ManagedDatabaseAdapter_desiredNetworks L gn d = Inr ns \<and> specMatches J db d ns) \<and>
     udb_Powered db = ManagedDatabase_DesiredPowered d"

text \<open>The specs whose settings a modify call can express: an empty field would be left out of the request.\<close>

definition database_expressible :: "ManagedDatabase \<Rightarrow> bool" where
  "database_expressible d \<longleftrightarrow> dsp_Plan (Spec d) \<noteq> [] \<and> ManagedDatabase_ExternalTitle d \<noteq> [] \<and>
     (case dsp_Maintenance (Spec d) of None \<Rightarrow> True | Some m \<Rightarrow> mt_DayOfWeek m \<noteq> [] \<or> mt_Time m \<noteq> [])"

lemma database_status_irrelevant [simp]:
  "ManagedDatabase_ExternalTitle (d\<lparr>Status := st\<rparr>) = ManagedDatabase_ExternalTitle d"
  "ManagedDatabase_DesiredPowered (d\<lparr>Status := st\<rparr>) = ManagedDatabase_DesiredPowered d"
  "ManagedDatabase_ConnectionSecretName (d\<lparr>Status := st\<rparr>) = ManagedDatabase_ConnectionSecretName d"
  "database_desired_labels (d\<lparr>Status := st\<rparr>) = database_desired_labels d"
  "ManagedDatabaseAdapter_desiredNetworks L gn (d\<lparr>Status := st\<rparr>) = ManagedDatabaseAdapter_desiredNetworks L gn d"
  "specMatches J db (d\<lparr>Status := st\<rparr>) ns = specMatches J db d ns"
  "database_in_sync L J gn (d\<lparr>Status := st\<rparr>) db \<longleftrightarrow> database_in_sync L J gn d db"
  "stateReady db (d\<lparr>Status := st\<rparr>) = stateReady db d"
  by (simp_all add: ManagedDatabase_ExternalTitle_def ManagedDatabase_DesiredPowered_def stateReady_def
      ManagedDatabase_ConnectionSecretName_def database_desired_labels_def database_in_sync_def
      ManagedDatabaseAdapter_desiredNetworks_def specMatches_def cong: option.case_cong)

lemma database_in_sync_core [simp]: "database_in_sync L J gn d (db_core db) \<longleftrightarrow> database_in_sync L J gn d db"
  by (simp add: database_in_sync_def)

lemma syncStatus_sel [simp]:
  "Meta (syncStatus d db) = Meta d" "Spec (syncStatus d db) = Spec d"
  "dst_UUID (Status (syncStatus d db)) = dst_UUID (Status d)"
  by (simp_all add: syncStatus_def)

lemma syncStatus_irrelevant [simp]:
  "ManagedDatabaseAdapter_desiredNetworks L gn (syncStatus d db) = ManagedDatabaseAdapter_desiredNetworks L gn d"
  "database_in_sync L J gn (syncStatus d db) x \<longleftrightarrow> database_in_sync L J gn d x"
  "specMatches J x (syncStatus d db) ns = specMatches J x d ns"
  "ManagedDatabase_DesiredPowered (syncStatus d db) = ManagedDatabase_DesiredPowered d"
  "ManagedDatabase_ConnectionSecretName (syncStatus d db) = ManagedDatabase_ConnectionSecretName d"
  "stateReady x (syncStatus d db) = stateReady x d"
  by (simp_all add: syncStatus_def)

lemma properties_after_copy:
  assumes "json_codec J" and "propertiesRequest J raw = Inr m"
  shows "propertiesUpToDate J (gm_copy obs m) raw"
proof (cases raw)
  case (Some t)
  show ?thesis
  proof (cases "t = []")
    case False
    then have "json_Unmarshal J t = Inr m" using assms(2) Some by (auto simp: propertiesRequest_def split: sum.splits)
    moreover from this have "gm_wf m" using json_codec.object_keys [OF assms(1)] by blast
    then have "list_all (\<lambda>(k, v). gm_get (gm_copy obs m) k = Some v) m"
      by (auto simp: list_all_iff gm_get_copy)
    then have "list_all (\<lambda>(k, v). case gm_get (gm_copy obs m) k of None \<Rightarrow> False
        | Some ob \<Rightarrow> json_Marshal J v = json_Marshal J ob) m"
      by (rule list.pred_mono_strong) auto
    ultimately show ?thesis using Some False by (simp add: propertiesUpToDate_def)
  qed (simp add: propertiesUpToDate_def Some)
qed (simp add: propertiesUpToDate_def)

lemma modify_matches:
  assumes "json_codec J" and "database_expressible d" and "propertiesRequest J (dsp_Properties (Spec d)) = Inr props"
  shows "specMatches J (db_patched (database_modify_request d u ns props) db) d ns"
  using assms(2) properties_after_copy [OF assms(1,3), of "udb_Properties db"]
  by (auto simp: specMatches_def db_patched_def database_modify_request_def database_expressible_def
      maintenanceRequest_def split: option.splits)

subsection \<open>The operations against the service contract\<close>

context database_service
begin

lemma database_lookup:
  assumes "ManagedDatabaseAdapter_lookup api d s = (r, s1)"
  shows "dbt.lookup_by (dst_UUID (Status d)) (Meta d) s = (map_sum id (map_option db_core) r, s1)"
  using lookupOwned_seen [of udb_Labels db_core _ _ "\<lambda>m. ()"] assms by (simp add: ManagedDatabaseAdapter_lookup_def)

lemma database_lookup_frame:
  assumes "inv s" and "ManagedDatabaseAdapter_lookup api d s = (r, s1)"
  shows "inv s1 \<and> dbs s1 = dbs s \<and> ldbs s1 = ldbs s"
  using dbt.lookup_frame [OF assms(1) database_lookup [OF assms(2)]] by blast

lemma database_lookup_found:
  assumes "inv s" and "ManagedDatabaseAdapter_lookup api d s = (Inr (Some db), s1)"
  shows "dbs s (udb_UUID db) = Some (db_core db)" and "udb_UUID db \<noteq> []"
    and "dst_UUID (Status d) \<noteq> [] \<Longrightarrow> udb_UUID db = dst_UUID (Status d)"
    and "dst_UUID (Status d) = [] \<Longrightarrow> HasUID (udb_Labels db) (om_UID (Meta d))"
  using dbt.lookup_found [OF assms(1), of "dst_UUID (Status d)" "Meta d" "db_core db" s1]
    database_lookup [OF assms(2)] by simp_all

lemma database_lookup_present:
  assumes "inv s" and "ManagedDatabaseAdapter_lookup api d s = (Inr r, s1)" and "dbs s (dst_UUID (Status d)) = Some x"
  shows "\<exists>db. r = Some db \<and> x = db_core db"
  using dbt.lookup_present [OF assms(1) _ assms(3), of "Meta d" "map_option db_core r" s1]
    database_lookup [OF assms(2)] by auto

lemma database_observe_frame:
  assumes "inv s" and "ManagedDatabaseAdapter_Observe L J api sc gn d (k, s) = (r, d', k', s')"
  shows "inv s' \<and> dbs s' = dbs s \<and> Meta d' = Meta d \<and> Spec d' = Spec d"
  using assms database_lookup_frame [OF assms(1)]
  by (auto simp: ManagedDatabaseAdapter_Observe_def Let_def split: sum.splits prod.splits option.splits)

text \<open>What a successful Observe that found the service says.\<close>

lemma database_observe_found:
  assumes "inv s" and "ManagedDatabaseAdapter_Observe L J api sc gn d (k, s) = (Inr obs, d', k', s')" and "ob_Exists obs"
  shows "\<exists>db. dbs s (dst_UUID (Status d')) = Some (db_core db) \<and> dst_UUID (Status d') \<noteq> [] \<and>
    (dst_UUID (Status d) \<noteq> [] \<longrightarrow> dst_UUID (Status d') = dst_UUID (Status d)) \<and>
    (ob_UpToDate obs \<longleftrightarrow> database_in_sync L J gn d db) \<and> (ob_Ready obs \<longleftrightarrow> stateReady db d) \<and>
    (if ob_Ready obs \<and> sup_Host (udb_ServiceURIParams db) \<noteq> []
     then writeConnectionSecret sc d db k = (None, k') else k' = k)"
proof -
  obtain db s1 where l: "ManagedDatabaseAdapter_lookup api d s = (Inr (Some db), s1)"
    using assms(2,3)
    by (auto simp: ManagedDatabaseAdapter_Observe_def NoObservation_def Let_def split: sum.splits prod.splits option.splits)
  note look = database_lookup_found [OF assms(1) l]
  obtain ns where n: "ManagedDatabaseAdapter_desiredNetworks L gn d = Inr ns"
    using assms(2) l
    by (auto simp: ManagedDatabaseAdapter_Observe_def Let_def split: sum.splits prod.splits option.splits)
  have w: "writeConnectionSecret sc (syncStatus (d\<lparr>Status := st\<rparr>) db) db = writeConnectionSecret sc d db" for st
    by (simp add: writeConnectionSecret_def fun_eq_iff)
  show ?thesis
    using assms(2) l n look w
    by (intro exI [of _ db])
      (auto simp: ManagedDatabaseAdapter_Observe_def Let_def database_in_sync_def
        split: prod.splits option.splits if_splits)
qed

lemma database_observe_sees:
  assumes "inv s" and "dbs s (dst_UUID (Status d)) = Some x"
    and "ManagedDatabaseAdapter_Observe L J api sc gn d (k, s) = (Inr obs, d', k', s')"
  shows "ob_Exists obs \<and> (ob_UpToDate obs \<longleftrightarrow> database_in_sync L J gn d x)"
proof -
  obtain r s1 where l: "ManagedDatabaseAdapter_lookup api d s = (Inr r, s1)"
    using assms(3) by (auto simp: ManagedDatabaseAdapter_Observe_def Let_def split: sum.splits prod.splits)
  obtain db where db: "r = Some db" "x = db_core db" using database_lookup_present [OF assms(1) l assms(2)] by blast
  have ex: "ob_Exists obs"
    using assms(3) l db
    by (auto simp: ManagedDatabaseAdapter_Observe_def Let_def split: sum.splits prod.splits option.splits)
  have "dst_UUID (Status d) \<noteq> []" using dbt.nonempty [OF assms(1,2)] by simp
  then show ?thesis
    using ex database_observe_found [OF assms(1,3) ex] assms(2) db(2) by (metis database_in_sync_core option.inject)
qed

lemma database_create_spec:
  assumes "inv s" and "ManagedDatabaseAdapter_Create L J api gn d (k, s) = (e, d', k', s')"
  shows "inv s' \<and> ldbs s' = ldbs s \<and> k' = k \<and> Meta d' = Meta d \<and> Spec d' = Spec d"
    and "e \<noteq> None \<Longrightarrow> dbs s' = dbs s \<and> d' = d"
    and "e = None \<Longrightarrow> \<exists>x. dbs s (dst_UUID (Status d')) = None \<and>
      dbs s' = (dbs s)(dst_UUID (Status d') \<mapsto> x) \<and> dst_UUID (Status d') \<noteq> []"
proof -
  {
    fix q r s1
    assume c: "CreateManagedDatabase api q s = (r, s1)"
    have "inv s1 \<and> ldbs s1 = ldbs s \<and> (case r of Inl _ \<Rightarrow> dbs s1 = dbs s
      | Inr x \<Rightarrow> dbs s (udb_UUID x) = None \<and> dbs s1 = (dbs s)(udb_UUID x \<mapsto> db_core x) \<and> udb_UUID x \<noteq> [])"
    proof (cases r)
      case (Inl x)
      then have "seen db_core (CreateManagedDatabase api) q s = (Inl x, s1)" using c by (simp add: seen_def)
      from dbt.create_failed [OF assms(1) this] show ?thesis using Inl by simp
    next
      case (Inr x)
      then have "seen db_core (CreateManagedDatabase api) q s = (Inr (db_core x), s1)" using c by (simp add: seen_def)
      from dbt.create_ok [OF assms(1) this] show ?thesis using Inr by simp
    qed
  } note create = this
  show "inv s' \<and> ldbs s' = ldbs s \<and> k' = k \<and> Meta d' = Meta d \<and> Spec d' = Spec d"
    and "e \<noteq> None \<Longrightarrow> dbs s' = dbs s \<and> d' = d"
    and "e = None \<Longrightarrow> \<exists>x. dbs s (dst_UUID (Status d')) = None \<and>
      dbs s' = (dbs s)(dst_UUID (Status d') \<mapsto> x) \<and> dst_UUID (Status d') \<noteq> []"
    using assms by (auto simp: ManagedDatabaseAdapter_Create_def split: sum.splits prod.splits dest!: create)
qed

lemma database_power_spec:
  assumes "inv s" and "dbs s (udb_UUID db) = Some (db_core db)" and "ManagedDatabaseAdapter_power api d db s = (e, s')"
  shows "inv s' \<and> ldbs s' = ldbs s \<and> (\<forall>i. dbs s' i = None \<longleftrightarrow> dbs s i = None)"
    and "e = None \<Longrightarrow> dbs s' (udb_UUID db) = Some (db_core db\<lparr>udb_Powered := ManagedDatabase_DesiredPowered d\<rparr>)"
proof -
  let ?u = "udb_UUID db"
  {
    fix r s1
    assume c: "ShutdownManagedDatabase api ?u s = (r, s1)"
    then have c': "seen db_core (ShutdownManagedDatabase api) ?u s = (map_sum id db_core r, s1)"
      by (cases r) (simp_all add: seen_def)
    have "inv s1 \<and> ldbs s1 = ldbs s \<and> (\<forall>i. dbs s1 i = None \<longleftrightarrow> dbs s i = None) \<and>
        (\<forall>x. r = Inr x \<longrightarrow> dbs s1 ?u = Some (db_core db\<lparr>udb_Powered := False\<rparr>))"
      using stop.modify_frame [OF assms(1) c'] stop.modify_ok [OF assms(1), of ?u _ s1] c' assms(2) by (cases r) auto
  } note stop = this
  {
    fix r s1
    assume c: "StartManagedDatabase api ?u s = (r, s1)"
    then have c': "seen db_core (StartManagedDatabase api) ?u s = (map_sum id db_core r, s1)"
      by (cases r) (simp_all add: seen_def)
    have "inv s1 \<and> ldbs s1 = ldbs s \<and> (\<forall>i. dbs s1 i = None \<longleftrightarrow> dbs s i = None) \<and>
        (\<forall>x. r = Inr x \<longrightarrow> dbs s1 ?u = Some (db_core db\<lparr>udb_Powered := True\<rparr>))"
      using start.modify_frame [OF assms(1) c'] start.modify_ok [OF assms(1), of ?u _ s1] c' assms(2) by (cases r) auto
  } note start = this
  have same: "udb_Powered db = b \<Longrightarrow> db_core db\<lparr>udb_Powered := b\<rparr> = db_core db" for b
    by (auto simp: db_core_def)
  show "inv s' \<and> ldbs s' = ldbs s \<and> (\<forall>i. dbs s' i = None \<longleftrightarrow> dbs s i = None)"
    using assms by (auto simp: ManagedDatabaseAdapter_power_def split: prod.splits sum.splits if_splits dest!: start stop)
  show "e = None \<Longrightarrow> dbs s' ?u = Some (db_core db\<lparr>udb_Powered := ManagedDatabase_DesiredPowered d\<rparr>)"
    using assms same [of "ManagedDatabase_DesiredPowered d"]
    by (auto simp: ManagedDatabaseAdapter_power_def split: prod.splits sum.splits if_splits dest!: start stop)
qed

lemma database_modify:
  assumes "inv s" and "ModifyManagedDatabase api m s = (r, s')"
  shows "inv s' \<and> ldbs s' = ldbs s \<and> (\<forall>i. dbs s' i = None \<longleftrightarrow> dbs s i = None)"
    and "r = Inr y \<Longrightarrow> \<exists>x. dbs s (mmd_UUID m) = Some x \<and> dbs s' (mmd_UUID m) = Some (db_patched m x)"
proof -
  have c: "seen db_core (ModifyManagedDatabase api) m s = (map_sum id db_core r, s')"
    using assms(2) by (cases r) (simp_all add: seen_def)
  show "inv s' \<and> ldbs s' = ldbs s \<and> (\<forall>i. dbs s' i = None \<longleftrightarrow> dbs s i = None)"
    using dbt.modify_frame [OF assms(1) c] by simp
  show "r = Inr y \<Longrightarrow> \<exists>x. dbs s (mmd_UUID m) = Some x \<and> dbs s' (mmd_UUID m) = Some (db_patched m x)"
    using dbt.modify_ok [OF assms(1), of m "db_core y" s'] c by auto
qed

lemma database_update_frame:
  assumes "inv s" and "ManagedDatabaseAdapter_Update L J api gn d (k, s) = (e, d', k', s')"
  shows "inv s' \<and> k' = k \<and> d' = d \<and> (\<forall>i. dbs s' i = None \<longleftrightarrow> dbs s i = None)"
proof -
  obtain r s1 where l: "ManagedDatabaseAdapter_lookup api d s = (r, s1)" by fastforce
  note f1 = database_lookup_frame [OF assms(1) l]
  show ?thesis
  proof (cases "\<exists>db. r = Inr (Some db) \<and> udb_State db \<in> set updateOKStates")
    case False
    then show ?thesis
      using assms(2) l f1 by (auto simp: ManagedDatabaseAdapter_Update_def split: sum.splits option.splits)
  next
    case True
    then obtain db where db: "r = Inr (Some db)" "udb_State db \<in> set updateOKStates" by blast
    have "dbs s1 (udb_UUID db) = Some (db_core db)" using database_lookup_found(1) [OF assms(1)] l db f1 by simp
    obtain e2 s2 where p: "ManagedDatabaseAdapter_power api d db s1 = (e2, s2)" by fastforce
    note f2 = database_power_spec(1) [OF _ \<open>dbs s1 (udb_UUID db) = Some (db_core db)\<close> p]
    have i2: "inv s2" using f1 f2 by blast
    show ?thesis
      using assms(2) l f1 f2 db p database_modify(1) [OF i2]
      by (auto simp: ManagedDatabaseAdapter_Update_def split: prod.splits sum.splits option.splits if_splits)
  qed
qed

lemma database_update_converges:
  assumes "inv s" and J: "json_codec J" and "database_expressible d" and "dst_UUID (Status d) \<noteq> []"
    and "ManagedDatabaseAdapter_Update L J api gn d (k, s) = (None, d', k', s')"
  shows "\<exists>x. dbs s' (dst_UUID (Status d')) = Some x \<and> database_in_sync L J gn d' x"
proof -
  obtain db s1 where l: "ManagedDatabaseAdapter_lookup api d s = (Inr (Some db), s1)"
    and st: "udb_State db \<in> set updateOKStates"
    using assms(5) by (auto simp: ManagedDatabaseAdapter_Update_def split: prod.splits sum.splits option.splits if_splits)
  note f1 = database_lookup_frame [OF assms(1) l] and look = database_lookup_found [OF assms(1) l]
  have u: "udb_UUID db = dst_UUID (Status d)" using look(3) assms(4) by blast
  have d: "dbs s1 (udb_UUID db) = Some (db_core db)" using look(1) f1 by simp
  obtain s2 where p: "ManagedDatabaseAdapter_power api d db s1 = (None, s2)"
    using assms(5) l st by (auto simp: ManagedDatabaseAdapter_Update_def split: prod.splits option.splits)
  note f2 = database_power_spec [OF _ d p]
  obtain ns where ns: "ManagedDatabaseAdapter_desiredNetworks L gn d = Inr ns"
    using assms(5) l st p by (auto simp: ManagedDatabaseAdapter_Update_def split: sum.splits)
  have i2: "inv s2" and d2: "dbs s2 (udb_UUID db) = Some (db_core db\<lparr>udb_Powered := ManagedDatabase_DesiredPowered d\<rparr>)"
    using f1 f2 by blast+
  have dd: "d' = d" using database_update_frame [OF assms(1,5)] by blast
  show ?thesis
  proof (cases "specMatches J db d ns")
    case True
    then show ?thesis
      using assms(5) l st p ns d2 u dd by (auto simp: ManagedDatabaseAdapter_Update_def database_in_sync_def)
  next
    case False
    then obtain props r3 where pr: "propertiesRequest J (dsp_Properties (Spec d)) = Inr props"
      and m: "ModifyManagedDatabase api (database_modify_request d (udb_UUID db) ns props) s2 = (Inr r3, s')"
      using assms(5) l st p ns by (auto simp: ManagedDatabaseAdapter_Update_def split: sum.splits prod.splits)
    have tgt: "mmd_UUID (database_modify_request d (udb_UUID db) ns props) = udb_UUID db"
      by (simp add: database_modify_request_def)
    let ?x = "db_patched (database_modify_request d (udb_UUID db) ns props)
      (db_core db\<lparr>udb_Powered := ManagedDatabase_DesiredPowered d\<rparr>)"
    have "dbs s' (udb_UUID db) = Some ?x" using database_modify(2) [OF i2 m refl] tgt d2 by auto
    moreover have "udb_Powered ?x = ManagedDatabase_DesiredPowered d" by (simp add: db_patched_def)
    ultimately show ?thesis
      using modify_matches [OF J assms(3) pr] ns u dd by (auto simp: database_in_sync_def)
  qed
qed

lemma database_get:
  assumes "inv s" and "GetManagedDatabase api u s = (r, s')"
  shows "inv s' \<and> dbs s' = dbs s \<and> ldbs s' = ldbs s \<and> usrs s' = usrs s" and "r = Inr db \<Longrightarrow> dbs s u = Some (db_core db)"
    and "r = Inl e \<Longrightarrow> IsNotFound (Some e) \<Longrightarrow> dbs s u = None"
proof -
  have c: "seen db_core (GetManagedDatabase api) u s = (map_sum id db_core r, s')"
    using assms(2) by (cases r) (simp_all add: seen_def)
  show "inv s' \<and> dbs s' = dbs s \<and> ldbs s' = ldbs s \<and> usrs s' = usrs s"
    using dbt.get_frame [OF assms(1) c] db_get_users [OF assms] by simp
  show "r = Inr db \<Longrightarrow> dbs s u = Some (db_core db)" using dbt.get_found [OF assms(1), of u] c by simp
  show "r = Inl e \<Longrightarrow> IsNotFound (Some e) \<Longrightarrow> dbs s u = None" using dbt.get_404 [OF assms(1), of u] c by simp
qed

lemma database_delete_spec:
  assumes "inv s" and "ManagedDatabaseAdapter_Delete api d (k, s) = (e, d', k', s')"
  shows "inv s' \<and> k' = k \<and> d' = d"
    and "rid_of (dst_UUID (Status d)) \<noteq> Some i \<Longrightarrow> dbs s' i = dbs s i"
    and "e = None \<Longrightarrow> rid_of (dst_UUID (Status d)) = Some i \<Longrightarrow> dbs s' i = None"
proof -
  obtain r s1 where g: "GetManagedDatabase api (dst_UUID (Status d)) s = (r, s1)" by fastforce
  note g1 = database_get [OF assms(1) g]
  have uid: "r = Inr db \<Longrightarrow> udb_UUID db = dst_UUID (Status d)" for db
    using g1(2) dbt.keyed [OF assms(1)] by fastforce
  note del = db_delete [OF conjunct1 [OF g1(1)], of "dst_UUID (Status d)"]
  show "inv s' \<and> k' = k \<and> d' = d"
    using assms g g1(1) uid del
    by (auto simp: ManagedDatabaseAdapter_Delete_def split: prod.splits sum.splits option.splits if_splits)
  show "rid_of (dst_UUID (Status d)) \<noteq> Some i \<Longrightarrow> dbs s' i = dbs s i"
    using assms g g1(1) uid del
    by (auto simp: ManagedDatabaseAdapter_Delete_def split: prod.splits sum.splits option.splits if_splits)
  show "e = None \<Longrightarrow> rid_of (dst_UUID (Status d)) = Some i \<Longrightarrow> dbs s' i = None"
    using assms g g1 uid del
    by (auto simp: ManagedDatabaseAdapter_Delete_def split: prod.splits sum.splits option.splits if_splits)
qed

end

sublocale database_service \<subseteq> database_ctr: adapter_contract ManagedDatabase_Object
    "ManagedDatabaseAdapter L J api sc gn" "\<lambda>w. inv (snd w)" "\<lambda>i w. dbs (snd w) i \<noteq> None"
    "\<lambda>d. rid_of (dst_UUID (Status d))" for L J sc gn
proof (rule table_adapter_contract [where tbl = "\<lambda>w. dbs (snd w)", OF manageddatabase_object.managed_object_axioms])
  fix w x r x' w'
  assume "inv (snd w)" "ad_Observe (ManagedDatabaseAdapter L J api sc gn) x w = (r, x', w')"
  then show "inv (snd w') \<and> dbs (snd w') = dbs (snd w) \<and> GetMeta ManagedDatabase_Object x' = GetMeta ManagedDatabase_Object x"
    using database_observe_frame [of "snd w" L J sc gn x "fst w" r x' "fst w'" "snd w'"] by simp
next
  fix w x obs x' w'
  assume "inv (snd w)" "ad_Observe (ManagedDatabaseAdapter L J api sc gn) x w = (Inr obs, x', w')" "ob_Exists obs"
  then show "dst_UUID (Status x') \<noteq> [] \<and> dbs (snd w) (dst_UUID (Status x')) \<noteq> None"
    using database_observe_found by (cases w; cases w') fastforce
next
  fix w x e x' w'
  assume I: "inv (snd w)" and c: "ad_Create (ManagedDatabaseAdapter L J api sc gn) x w = (e, x', w')"
  obtain k s k' s' where w: "w = (k, s)" "w' = (k', s')" by (cases w; cases w')
  have "inv s" and "ManagedDatabaseAdapter_Create L J api gn x (k, s) = (e, x', k', s')" using I c w by simp_all
  note spec = database_create_spec [OF this]
  show "inv (snd w') \<and> GetMeta ManagedDatabase_Object x' = GetMeta ManagedDatabase_Object x \<and>
      (\<forall>i. dbs (snd w) i \<noteq> None \<longrightarrow> dbs (snd w') i \<noteq> None) \<and>
      (e = None \<longrightarrow> dst_UUID (Status x') \<noteq> [] \<and> dbs (snd w') (dst_UUID (Status x')) \<noteq> None)"
  proof (cases e)
    case None
    then show ?thesis using spec(1,3) w by auto
  next
    case (Some err)
    then show ?thesis using spec(1,2) w by simp
  qed
next
  fix w x e x' w'
  assume I: "inv (snd w)" and c: "ad_Update (ManagedDatabaseAdapter L J api sc gn) x w = (e, x', w')"
  then show "inv (snd w') \<and> GetMeta ManagedDatabase_Object x' = GetMeta ManagedDatabase_Object x \<and>
      (\<forall>i. rid_of (dst_UUID (Status x)) \<noteq> Some i \<longrightarrow> dbs (snd w) i \<noteq> None \<longrightarrow> dbs (snd w') i \<noteq> None)"
    using database_update_frame [of "snd w" L J gn x "fst w" e x' "fst w'" "snd w'"] by simp
next
  fix w x e x' w'
  assume I: "inv (snd w)" and c: "ad_Delete (ManagedDatabaseAdapter L J api sc gn) x w = (e, x', w')"
  obtain k s k' s' where w: "w = (k, s)" "w' = (k', s')" by (cases w; cases w')
  show "inv (snd w') \<and> GetMeta ManagedDatabase_Object x' = GetMeta ManagedDatabase_Object x \<and>
      (\<forall>i. rid_of (dst_UUID (Status x)) \<noteq> Some i \<longrightarrow> dbs (snd w') i = dbs (snd w) i) \<and>
      (e = None \<longrightarrow> dst_UUID (Status x) \<noteq> [] \<longrightarrow> dbs (snd w') (dst_UUID (Status x)) = None)"
    using database_delete_spec [of s x k e x' k' s'] I c w by simp
qed

end
