(* ===== verification/ManagedDatabaseUserAdapter.thy ===== *)
theory ManagedDatabaseUserAdapter
  imports ManagedDatabaseAdapter
begin

text \<open>
  \<open>internal/controller/database/manageddatabaseuser_adapter.go\<close> and
  \<open>manageddatabaseuser_controller.go\<close>. A user is identified by its service and its name;
  \<open>getDatabase\<close> loads the ManagedDatabase it refers to. The password comes from a Secret,
  and the credentials are written to one.
\<close>

subsection \<open>Helpers\<close>

definition ManagedDatabaseUserAdapter_parentUUID ::
  "Lib \<Rightarrow> ManagedDatabase getter \<Rightarrow> ManagedDatabaseUser \<Rightarrow> (err + string) \<times> ManagedDatabaseUser" where
  "ManagedDatabaseUserAdapter_parentUUID L getDatabase u =
     (if ust_ServiceUUID (Status u) \<noteq> '''' then (Inr (ust_ServiceUUID (Status u)), u)
      else case ReadyID L ManagedDatabase_Object getDatabase (om_Namespace (Meta u)) (lor_Name (usp_ServiceRef (Spec u))) of
        Inl e \<Rightarrow> (Inl e, u)
      | Inr i \<Rightarrow> (Inr i, u\<lparr>Status := (Status u)\<lparr>ust_ServiceUUID := i\<rparr>\<rparr>))"

definition passwordFromSecret ::
  "Lib \<Rightarrow> 'k SecretClient \<Rightarrow> string \<Rightarrow> string \<Rightarrow> string \<Rightarrow> 'k \<Rightarrow> err + string \<times> bool" where
  "passwordFromSecret L sc namespace name key k =
     (case sc_Get sc namespace name k of
        Inl e \<Rightarrow>
          if KubeIsNotFound L e then Inr ('''', False)
          else Inl (Wrap (''get secret '' @ fmt_q name) e)
      | Inr sec \<Rightarrow>
          (case gm_get (sec_Data sec) key of
             None \<Rightarrow> Inl (ErrText (''secret '' @ fmt_q name @ '' has no key '' @ fmt_q key))
           | Some v \<Rightarrow> Inr (v, True)))"

definition desiredPassword ::
  "Lib \<Rightarrow> 'k SecretClient \<Rightarrow> ManagedDatabaseUser \<Rightarrow> 'k \<Rightarrow> err + string \<times> bool" where
  "desiredPassword L sc u k =
     (case usp_PasswordSecretRef (Spec u) of
        Some ref \<Rightarrow> passwordFromSecret L sc (om_Namespace (Meta u)) (sks_Name ref) (sks_Key ref) k
      | None \<Rightarrow> passwordFromSecret L sc (om_Namespace (Meta u)) (ManagedDatabaseUser_ConnectionSecretName u)
                 SecretKeyPassword k)"

definition credentialsData :: "ManagedDatabaseUser \<Rightarrow> upManagedDatabase \<Rightarrow> string \<Rightarrow> (string, string) gomap" where
  "credentialsData u svc password =
     (let p = udb_ServiceURIParams svc;
          uri = ''postgresql://'' @ ManagedDatabaseUser_ExternalUsername u @ '':'' @ password @ ''@'' @ sup_Host p @ '':'' @
                sup_Port p @ ''/'' @ sup_DatabaseName p @ ''?sslmode='' @ sup_SSLMode p
      in [(SecretKeyUsername, ManagedDatabaseUser_ExternalUsername u), (SecretKeyPassword, password),
          (SecretKeyHost, sup_Host p), (SecretKeyPort, sup_Port p), (SecretKeyURI, uri)])"

definition writeCredentialsSecret ::
  "'k SecretClient \<Rightarrow> ManagedDatabaseUser \<Rightarrow> upManagedDatabase \<Rightarrow> string \<Rightarrow> 'k \<Rightarrow> err option \<times> 'k" where
  "writeCredentialsSecret sc u svc password k =
     WriteOwnedSecret sc (Meta u) (ManagedDatabaseUser_ConnectionSecretName u) (credentialsData u svc password) k"

subsection \<open>Access control\<close>

definition pgMatches :: "PGUserAccessControl option \<Rightarrow> upPGAccessControl option \<Rightarrow> bool" where
  "pgMatches spec observed =
     (case (spec, observed) of
        (None, None) \<Rightarrow> True
      | (Some sp, Some ob) \<Rightarrow>
          (case (pg_AllowReplication sp, upg_AllowReplication ob) of
             (None, None) \<Rightarrow> True
           | (Some a, Some b) \<Rightarrow> a = b
           | _ \<Rightarrow> False)
      | _ \<Rightarrow> False)"

definition nilSlice :: "string slice option \<Rightarrow> string slice" where
  "nilSlice p = (case p of None \<Rightarrow> None | Some xs \<Rightarrow> xs)"

text \<open>\<open>reflect.DeepEqual\<close> on slices: a nil slice differs from an empty one.\<close>

definition slicesEqual :: "'a slice \<Rightarrow> 'a slice \<Rightarrow> bool" where
  "slicesEqual a b \<longleftrightarrow> a = b"

definition valkeyMatches :: "ValkeyUserAccessControl option \<Rightarrow> upValkeyAccessControl option \<Rightarrow> bool" where
  "valkeyMatches spec observed =
     (case (spec, observed) of
        (None, None) \<Rightarrow> True
      | (Some sp, Some ob) \<Rightarrow>
          slicesEqual (vk_Categories sp) (nilSlice (uvk_Categories ob)) \<and>
          slicesEqual (vk_Channels sp) (nilSlice (uvk_Channels ob)) \<and>
          slicesEqual (vk_Commands sp) (nilSlice (uvk_Commands ob)) \<and>
          slicesEqual (vk_Keys sp) (nilSlice (uvk_Keys ob))
      | _ \<Rightarrow> False)"

definition toOpenSearchRules :: "OpenSearchRule slice \<Rightarrow> upOpenSearchRule list" where
  "toOpenSearchRules rs = map (\<lambda>r. \<lparr>uor_Index = osr_Index r, uor_Permission = osr_Permission r\<rparr>) (slice_elems rs)"

definition openSearchMatches :: "OpenSearchUserAccessControl option \<Rightarrow> upOpenSearchAccessControl option \<Rightarrow> bool" where
  "openSearchMatches spec observed =
     (case (spec, observed) of
        (None, None) \<Rightarrow> True
      | (Some sp, Some ob) \<Rightarrow>
          let want = Some (toOpenSearchRules (osa_Rules sp));
              got = (case uoa_Rules ob of None \<Rightarrow> None | Some rs \<Rightarrow> rs)
          in slicesEqual want got
      | _ \<Rightarrow> False)"

definition accessControlMatches :: "ManagedDatabaseUser \<Rightarrow> upDBUser \<Rightarrow> bool" where
  "accessControlMatches u user =
     (if \<not> pgMatches (usp_PGAccessControl (Spec u)) (udu_PGAccessControl user) then False
      else if \<not> valkeyMatches (usp_ValkeyAccessControl (Spec u)) (udu_ValkeyAccessControl user) then False
      else openSearchMatches (usp_OpenSearchAccessControl (Spec u)) (udu_OpenSearchAccessControl user))"

definition pgRequest :: "PGUserAccessControl option \<Rightarrow> upPGAccessControl option" where
  "pgRequest spec = (case spec of None \<Rightarrow> None | Some sp \<Rightarrow> Some \<lparr>upg_AllowReplication = pg_AllowReplication sp\<rparr>)"

text \<open>A pointer to the slice of the spec when it has elements.\<close>

definition pointToNonempty :: "string slice \<Rightarrow> string slice option" where
  "pointToNonempty xs = (if length (slice_elems xs) > 0 then Some xs else None)"

definition valkeyRequest :: "ValkeyUserAccessControl option \<Rightarrow> upValkeyAccessControl option" where
  "valkeyRequest spec =
     (case spec of
        None \<Rightarrow> None
      | Some sp \<Rightarrow> Some \<lparr>uvk_Categories = pointToNonempty (vk_Categories sp),
          uvk_Channels = pointToNonempty (vk_Channels sp), uvk_Commands = pointToNonempty (vk_Commands sp),
          uvk_Keys = pointToNonempty (vk_Keys sp)\<rparr>)"

definition openSearchRequest :: "OpenSearchUserAccessControl option \<Rightarrow> upOpenSearchAccessControl option" where
  "openSearchRequest spec =
     (case spec of
        None \<Rightarrow> None
      | Some sp \<Rightarrow> Some \<lparr>uoa_Rules = Some (Some (toOpenSearchRules (osa_Rules sp)))\<rparr>)"

subsection \<open>The adapter\<close>

text \<open>The end of Observe, once the password is known to agree.\<close>

definition user_access_observation :: "ManagedDatabaseUser \<Rightarrow> upDBUser \<Rightarrow> Observation" where
  "user_access_observation u user =
     (if \<not> accessControlMatches u user
      then \<lparr>ob_Exists = True, ob_UpToDate = False, ob_Ready = True, ob_Message = ''access control out of date''\<rparr>
      else \<lparr>ob_Exists = True, ob_UpToDate = True, ob_Ready = True, ob_Message = ''user '' @ udu_Username user\<rparr>)"

definition missingPasswordSecret :: "SecretKeySelector \<Rightarrow> err" where
  "missingPasswordSecret ref = Wrap (''password secret '' @ fmt_q (sks_Name ref)) ErrDependencyNotReady"

definition ManagedDatabaseUserAdapter_Observe ::
  "Lib \<Rightarrow> 's DatabaseAPI \<Rightarrow> 'k SecretClient \<Rightarrow> ManagedDatabase getter \<Rightarrow> ManagedDatabaseUser \<Rightarrow> 'k \<times> 's
   \<Rightarrow> (err + Observation) \<times> ManagedDatabaseUser \<times> 'k \<times> 's" where
  "ManagedDatabaseUserAdapter_Observe L api sc getDatabase u w =
     (let (k, s) = w in
      case ManagedDatabaseUserAdapter_parentUUID L getDatabase u of
        (Inl e, u1) \<Rightarrow> (Inl e, u1, k, s)
      | (Inr svcUUID, u1) \<Rightarrow>
          (case GetManagedDatabaseUser api svcUUID (ManagedDatabaseUser_ExternalUsername u1) s of
             (Inl e, s1) \<Rightarrow>
               if IsNotFound (Some e) then (Inr NoObservation, u1, k, s1)
               else (Inl (Wrap ''get managed database user'' e), u1, k, s1)
           | (Inr user, s1) \<Rightarrow>
               let u2 = u1\<lparr>Status := (Status u1)\<lparr>ust_Username := udu_Username user, ust_Type := udu_Type user\<rparr>\<rparr> in
               (case desiredPassword L sc u2 k of
                  Inl e \<Rightarrow> (Inl e, u2, k, s1)
                | Inr (desired, found) \<Rightarrow>
                    if \<not> found then
                      (case usp_PasswordSecretRef (Spec u2) of
                         Some ref \<Rightarrow> (Inl (missingPasswordSecret ref), u2, k, s1)
                       | None \<Rightarrow>
                           (case GetManagedDatabase api svcUUID s1 of
                              (Inl e, s2) \<Rightarrow> (Inl (Wrap ''get managed database'' e), u2, k, s2)
                            | (Inr svc, s2) \<Rightarrow>
                                (case writeCredentialsSecret sc u2 svc (udu_Password user) k of
                                   (Some e, k1) \<Rightarrow> (Inl e, u2, k1, s2)
                                 | (None, k1) \<Rightarrow> (Inr (user_access_observation u2 user), u2, k1, s2))))
                    else if udu_Password user \<noteq> desired
                    then (Inr \<lparr>ob_Exists = True, ob_UpToDate = False, ob_Ready = True,
                               ob_Message = ''password out of date''\<rparr>, u2, k, s1)
                    else (Inr (user_access_observation u2 user), u2, k, s1))))"

text \<open>The password that Create sends: the one of the Secret, or none.\<close>

definition create_password ::
  "Lib \<Rightarrow> 'k SecretClient \<Rightarrow> ManagedDatabaseUser \<Rightarrow> 'k \<Rightarrow> err + string" where
  "create_password L sc u k =
     (case usp_PasswordSecretRef (Spec u) of
        None \<Rightarrow> Inr ''''
      | Some ref \<Rightarrow>
          (case desiredPassword L sc u k of
             Inl e \<Rightarrow> Inl e
           | Inr (pw, found) \<Rightarrow> if \<not> found then Inl (missingPasswordSecret ref) else Inr pw))"

definition ManagedDatabaseUserAdapter_Create ::
  "Lib \<Rightarrow> 's DatabaseAPI \<Rightarrow> 'k SecretClient \<Rightarrow> ManagedDatabase getter \<Rightarrow> ManagedDatabaseUser \<Rightarrow> 'k \<times> 's
   \<Rightarrow> err option \<times> ManagedDatabaseUser \<times> 'k \<times> 's" where
  "ManagedDatabaseUserAdapter_Create L api sc getDatabase u w =
     (let (k, s) = w in
      case ManagedDatabaseUserAdapter_parentUUID L getDatabase u of
        (Inl e, u1) \<Rightarrow> (Some e, u1, k, s)
      | (Inr svcUUID, u1) \<Rightarrow>
          (case GetManagedDatabase api svcUUID s of
             (Inl e, s1) \<Rightarrow> (Some (Wrap ''get managed database'' e), u1, k, s1)
           | (Inr svc, s1) \<Rightarrow>
               (case create_password L sc u1 k of
                  Inl e \<Rightarrow> (Some e, u1, k, s1)
                | Inr pw \<Rightarrow>
                    (case CreateManagedDatabaseUser api svcUUID
                            \<lparr>cdu_Username = ManagedDatabaseUser_ExternalUsername u1, cdu_Password = pw,
                             cdu_Authentication = usp_Authentication (Spec u1),
                             cdu_PGAccessControl = pgRequest (usp_PGAccessControl (Spec u1)),
                             cdu_ValkeyAccessControl = valkeyRequest (usp_ValkeyAccessControl (Spec u1)),
                             cdu_OpenSearchAccessControl = openSearchRequest (usp_OpenSearchAccessControl (Spec u1))\<rparr> s1 of
                       (Inl e, s2) \<Rightarrow>
                         if IsConflict (Some e) then (None, u1, k, s2)
                         else (Some (Wrap ''create managed database user'' e), u1, k, s2)
                     | (Inr created, s2) \<Rightarrow>
                         let u2 = u1\<lparr>Status := (Status u1)\<lparr>ust_Username := udu_Username created,
                                                              ust_Type := udu_Type created\<rparr>\<rparr>;
                             password = (if usp_PasswordSecretRef (Spec u2) = None then udu_Password created else pw);
                             (we, k1) = writeCredentialsSecret sc u2 svc password k
                         in (we, u2, k1, s2)))))"

definition ManagedDatabaseUserAdapter_Update ::
  "Lib \<Rightarrow> 's DatabaseAPI \<Rightarrow> 'k SecretClient \<Rightarrow> ManagedDatabase getter \<Rightarrow> ManagedDatabaseUser \<Rightarrow> 'k \<times> 's
   \<Rightarrow> err option \<times> ManagedDatabaseUser \<times> 'k \<times> 's" where
  "ManagedDatabaseUserAdapter_Update L api sc getDatabase u w =
     (let (k, s) = w in
      case ManagedDatabaseUserAdapter_parentUUID L getDatabase u of
        (Inl e, u1) \<Rightarrow> (Some e, u1, k, s)
      | (Inr svcUUID, u1) \<Rightarrow>
          (case GetManagedDatabaseUser api svcUUID (ManagedDatabaseUser_ExternalUsername u1) s of
             (Inl e, s1) \<Rightarrow>
               if IsNotFound (Some e) then (Some ErrPending, u1, k, s1)
               else (Some (Wrap ''get managed database user'' e), u1, k, s1)
           | (Inr user, s1) \<Rightarrow>
               (case desiredPassword L sc u1 k of
                  Inl e \<Rightarrow> (Some e, u1, k, s1)
                | Inr (desired, found) \<Rightarrow>
                    if \<not> found then
                      (case usp_PasswordSecretRef (Spec u1) of
                         Some ref \<Rightarrow> (Some (missingPasswordSecret ref), u1, k, s1)
                       | None \<Rightarrow> (None, u1, k, s1))
                    else
                      let (pe, s2) =
                        (if udu_Password user \<noteq> desired
                         then (case ModifyManagedDatabaseUser api svcUUID
                                       \<lparr>mdu_Username = udu_Username user, mdu_Password = desired,
                                        mdu_Authentication = usp_Authentication (Spec u1)\<rparr> s1 of
                                 (Inl e, s2) \<Rightarrow> (Some (Wrap ''modify managed database user'' e), s2)
                               | (Inr _, s2) \<Rightarrow> (None, s2))
                         else (None, s1))
                      in (case pe of
                            Some e \<Rightarrow> (Some e, u1, k, s2)
                          | None \<Rightarrow>
                              if \<not> accessControlMatches u1 user
                              then (case ModifyManagedDatabaseUserAccessControl api svcUUID
                                            \<lparr>mac_Username = udu_Username user,
                                             mac_PGAccessControl = pgRequest (usp_PGAccessControl (Spec u1)),
                                             mac_ValkeyAccessControl = valkeyRequest (usp_ValkeyAccessControl (Spec u1)),
                                             mac_OpenSearchAccessControl =
                                               openSearchRequest (usp_OpenSearchAccessControl (Spec u1))\<rparr> s2 of
                                      (Inl e, s3) \<Rightarrow>
                                        (Some (Wrap ''modify managed database user access control'' e), u1, k, s3)
                                    | (Inr _, s3) \<Rightarrow> (None, u1, k, s3))
                              else (None, u1, k, s2)))))"

definition ManagedDatabaseUserAdapter_Delete ::
  "'s DatabaseAPI \<Rightarrow> ManagedDatabaseUser \<Rightarrow> 'k \<times> 's \<Rightarrow> err option \<times> ManagedDatabaseUser \<times> 'k \<times> 's" where
  "ManagedDatabaseUserAdapter_Delete api u w =
     (let (k, s) = w in
      if ust_ServiceUUID (Status u) = '''' \<or> ust_Username (Status u) = '''' then (None, u, k, s)
      else if ust_Type (Status u) = UserTypePrimary
      then (Some (ErrText (''cannot delete primary user '' @ fmt_q (ManagedDatabaseUser_ExternalUsername u))), u, k, s)
      else case DeleteManagedDatabaseUser api (ust_ServiceUUID (Status u)) (ManagedDatabaseUser_ExternalUsername u) s of
        (None, s1) \<Rightarrow> (None, u, k, s1)
      | (Some e, s1) \<Rightarrow>
          if IsNotFound (Some e) then (None, u, k, s1)
          else if IsConflict (Some e) then (Some ErrPending, u, k, s1)
          else (Some (Wrap ''delete managed database user'' e), u, k, s1))"

definition ManagedDatabaseUserAdapter ::
  "Lib \<Rightarrow> 's DatabaseAPI \<Rightarrow> 'k SecretClient \<Rightarrow> ManagedDatabase getter \<Rightarrow> (ManagedDatabaseUser, 'k \<times> 's) Adapter" where
  "ManagedDatabaseUserAdapter L api sc getDatabase =
     \<lparr>ad_Observe = ManagedDatabaseUserAdapter_Observe L api sc getDatabase,
      ad_Create = ManagedDatabaseUserAdapter_Create L api sc getDatabase,
      ad_Update = ManagedDatabaseUserAdapter_Update L api sc getDatabase,
      ad_Delete = ManagedDatabaseUserAdapter_Delete api\<rparr>"

definition FinalizerManagedDatabaseUser :: string where
  "FinalizerManagedDatabaseUser = ''database.upcloud.polarsquad.com/manageddatabaseuser''"

text \<open>The reconciler, and the requests that a changed ManagedDatabase enqueues.\<close>

definition SetupManagedDatabaseUserController ::
  "Lib \<Rightarrow> (ManagedDatabaseUser, 'c) Client \<Rightarrow> 's DatabaseAPI \<Rightarrow> 'k SecretClient \<Rightarrow> ManagedDatabase getter
   \<Rightarrow> (string \<Rightarrow> 'v \<Rightarrow> err + ManagedDatabaseUser list) \<Rightarrow> Options
   \<Rightarrow> (ManagedDatabaseUser, 'c \<times> 'k \<times> 's) Reconciler \<times> (ManagedDatabase \<Rightarrow> 'v \<Rightarrow> NamespacedName list)" where
  "SetupManagedDatabaseUserController L c api sc getDatabase listUsers opts =
     (mkReconciler L ManagedDatabaseUser_Object c (ManagedDatabaseUserAdapter L api sc getDatabase)
        FinalizerManagedDatabaseUser opts,
      \<lambda>d. DependentsOf listUsers Meta (\<lambda>u. [lor_Name (usp_ServiceRef (Spec u))]) (Meta d))"

lemma ManagedDatabaseUserAdapter_sel [simp]:
  "ad_Observe (ManagedDatabaseUserAdapter L api sc gd) = ManagedDatabaseUserAdapter_Observe L api sc gd"
  "ad_Create (ManagedDatabaseUserAdapter L api sc gd) = ManagedDatabaseUserAdapter_Create L api sc gd"
  "ad_Update (ManagedDatabaseUserAdapter L api sc gd) = ManagedDatabaseUserAdapter_Update L api sc gd"
  "ad_Delete (ManagedDatabaseUserAdapter L api sc gd) = ManagedDatabaseUserAdapter_Delete api"
  by (simp_all add: ManagedDatabaseUserAdapter_def)

subsection \<open>The comparison\<close>

text \<open>
  What the requests can express: an empty slice that is not nil is left out of the request
  like a nil one, but \<open>reflect.DeepEqual\<close> tells the two apart.
\<close>

definition valkey_expressible :: "ValkeyUserAccessControl option \<Rightarrow> bool" where
  "valkey_expressible spec \<longleftrightarrow>
     (case spec of
        None \<Rightarrow> True
      | Some sp \<Rightarrow> vk_Categories sp \<noteq> Some [] \<and> vk_Channels sp \<noteq> Some [] \<and> vk_Commands sp \<noteq> Some [] \<and>
                  vk_Keys sp \<noteq> Some [])"

lemma pgMatches_request [simp]: "pgMatches sp (pgRequest sp)"
  by (simp add: pgMatches_def pgRequest_def split: option.split)

lemma openSearchMatches_request [simp]: "openSearchMatches sp (openSearchRequest sp)"
  by (simp add: openSearchMatches_def openSearchRequest_def slicesEqual_def split: option.split)

lemma slicesEqual_pointed [simp]: "slicesEqual xs (nilSlice (pointToNonempty xs)) \<longleftrightarrow> xs \<noteq> Some []"
  by (cases xs) (auto simp: slicesEqual_def nilSlice_def pointToNonempty_def)

lemma valkeyMatches_request [simp]: "valkeyMatches sp (valkeyRequest sp) \<longleftrightarrow> valkey_expressible sp"
  by (simp add: valkeyMatches_def valkeyRequest_def valkey_expressible_def split: option.split)

lemma accessControlMatches_cong:
  assumes "Spec u' = Spec u" and "udu_PGAccessControl y = udu_PGAccessControl x"
    and "udu_ValkeyAccessControl y = udu_ValkeyAccessControl x"
    and "udu_OpenSearchAccessControl y = udu_OpenSearchAccessControl x"
  shows "accessControlMatches u' y = accessControlMatches u x"
  using assms by (simp add: accessControlMatches_def)

lemma desiredPassword_cong:
  "Spec u' = Spec u \<Longrightarrow> Meta u' = Meta u \<Longrightarrow> desiredPassword L sc u' k = desiredPassword L sc u k"
  by (simp add: desiredPassword_def ManagedDatabaseUser_ConnectionSecretName_def cong: option.case_cong)

lemma ExternalUsername_cong:
  "Spec u' = Spec u \<Longrightarrow> Meta u' = Meta u \<Longrightarrow>
     ManagedDatabaseUser_ExternalUsername u' = ManagedDatabaseUser_ExternalUsername u"
  by (simp add: ManagedDatabaseUser_ExternalUsername_def)

lemma user_parent:
  assumes "ManagedDatabaseUserAdapter_parentUUID L gd u = (r, u1)"
  shows "Spec u1 = Spec u" "Meta u1 = Meta u"
    and "r = Inr svc \<Longrightarrow> svc \<noteq> [] \<and> ust_ServiceUUID (Status u1) = svc"
    and "r = Inr svc \<Longrightarrow> ManagedDatabaseUserAdapter_parentUUID L gd u1 = (Inr svc, u1)"
proof -
  have ne: "ReadyID L ManagedDatabase_Object gd ns n = Inr i \<Longrightarrow> i \<noteq> []" for ns n i
    by (auto simp: ReadyID_Inr Ready_def ExternalID_def split: sum.splits prod.splits if_splits)
  show "Spec u1 = Spec u" "Meta u1 = Meta u"
    using assms by (auto simp: ManagedDatabaseUserAdapter_parentUUID_def split: sum.splits if_splits)
  show s: "r = Inr svc \<Longrightarrow> svc \<noteq> [] \<and> ust_ServiceUUID (Status u1) = svc"
    using assms ne by (auto simp: ManagedDatabaseUserAdapter_parentUUID_def split: sum.splits if_splits)
  show "r = Inr svc \<Longrightarrow> ManagedDatabaseUserAdapter_parentUUID L gd u1 = (Inr svc, u1)"
    using s by (auto simp: ManagedDatabaseUserAdapter_parentUUID_def)
qed

subsection \<open>The operations against the service contract\<close>

sublocale database_service \<subseteq> us: erasable_table inv "\<lambda>s. usrs s i" "\<lambda>s. (dbs s, (usrs s)(i := \<lambda>_. None), ldbs s)"
    udu_Username "GetManagedDatabaseUser api i" "CreateManagedDatabaseUser api i" user_built "DeleteManagedDatabaseUser api i" for i
  by (rule users)

sublocale database_service \<subseteq> pw: patchable_table inv "\<lambda>s. usrs s i" "\<lambda>s. (dbs s, (usrs s)(i := \<lambda>_. None), ldbs s)"
    udu_Username "GetManagedDatabaseUser api i" "CreateManagedDatabaseUser api i" user_built
    "ModifyManagedDatabaseUser api i" mdu_Username user_patched for i
  by (rule users_password)

sublocale database_service \<subseteq> ac: patchable_table inv "\<lambda>s. usrs s i" "\<lambda>s. (dbs s, (usrs s)(i := \<lambda>_. None), ldbs s)"
    udu_Username "GetManagedDatabaseUser api i" "CreateManagedDatabaseUser api i" user_built
    "ModifyManagedDatabaseUserAccessControl api i" mac_Username user_access_patched for i
  by (rule users_access)

context database_service
begin

text \<open>What a successful Update with a password at hand leaves in the service.\<close>

lemma user_update_spec:
  assumes "inv s" and up: "ManagedDatabaseUserAdapter_Update L api sc gd u (k, s) = (None, u1, k1, s1)"
    and par: "ManagedDatabaseUserAdapter_parentUUID L gd u = (Inr svc, u0)"
    and pwd: "desiredPassword L sc u k = Inr (desired, True)" and "desired \<noteq> []"
  shows "\<exists>x y. usrs s svc (ManagedDatabaseUser_ExternalUsername u) = Some x \<and>
    usrs s1 svc (ManagedDatabaseUser_ExternalUsername u) = Some y \<and> udu_Password y = desired \<and>
    (accessControlMatches u y \<longleftrightarrow>
      accessControlMatches u x \<or> valkey_expressible (usp_ValkeyAccessControl (Spec u))) \<and>
    u1 = u0 \<and> k1 = k \<and> inv s1"
proof -
  let ?n = "ManagedDatabaseUser_ExternalUsername u"
  note p = user_parent [OF par]
  have n: "ManagedDatabaseUser_ExternalUsername u0 = ?n" using p(1,2) by (rule ExternalUsername_cong)
  have pwd0: "desiredPassword L sc u0 k = Inr (desired, True)" using pwd desiredPassword_cong p(1,2) by metis
  obtain x sa where g: "GetManagedDatabaseUser api svc ?n s = (Inr x, sa)"
    using up par n by (auto simp: ManagedDatabaseUserAdapter_Update_def split: sum.splits prod.splits if_splits)
  have x: "usrs s svc ?n = Some x" "udu_Username x = ?n" "inv sa" "usrs sa = usrs s"
    using us.get_found [OF assms(1) g] us.keyed_uid [OF assms(1)] us.get_frame [OF assms(1) g]
    by (auto simp: fun_eq_iff fun_upd_def split: if_splits) (metis)+
  let ?m = "\<lparr>mdu_Username = ?n, mdu_Password = desired, mdu_Authentication = usp_Authentication (Spec u0)\<rparr>"
  let ?a = "\<lparr>mac_Username = ?n, mac_PGAccessControl = pgRequest (usp_PGAccessControl (Spec u0)),
     mac_ValkeyAccessControl = valkeyRequest (usp_ValkeyAccessControl (Spec u0)),
     mac_OpenSearchAccessControl = openSearchRequest (usp_OpenSearchAccessControl (Spec u0))\<rparr>"
  obtain sb y where b: "inv sb" "usrs sb svc ?n = Some y" "udu_Password y = desired"
      "udu_PGAccessControl y = udu_PGAccessControl x" "udu_ValkeyAccessControl y = udu_ValkeyAccessControl x"
      "udu_OpenSearchAccessControl y = udu_OpenSearchAccessControl x"
    and rest: "if accessControlMatches u0 x then (u1, k1, s1) = (u0, k, sb)
      else \<exists>r. ModifyManagedDatabaseUserAccessControl api svc ?a sb = (Inr r, s1) \<and> (u1, k1) = (u0, k)"
  proof (cases "udu_Password x = desired")
    case True
    then show ?thesis
      using that [of sa x] up par n pwd0 g x
      by (auto simp: ManagedDatabaseUserAdapter_Update_def split: sum.splits prod.splits if_splits)
  next
    case False
    then obtain r sb where m: "ModifyManagedDatabaseUser api svc ?m sa = (Inr r, sb)"
      using up par n pwd0 g x(2)
      by (auto simp: ManagedDatabaseUserAdapter_Update_def Let_def split: sum.splits prod.splits)
    have "inv sb" "usrs sb svc ?n = Some (user_patched ?m x)"
      using pw.modify_ok [OF x(3) m] x(1,4) by auto
    then show ?thesis
      using that [of sb "user_patched ?m x"] up par n pwd0 g x(2) m False assms(5)
      by (auto simp: ManagedDatabaseUserAdapter_Update_def user_patched_def Let_def
          split: sum.splits prod.splits if_splits)
  qed
  have same: "accessControlMatches u z = accessControlMatches u0 z" for z
    using accessControlMatches_cong p(1) by metis
  have yx: "accessControlMatches u y = accessControlMatches u x"
    by (rule accessControlMatches_cong) (use b in simp_all)
  show ?thesis
  proof (cases "accessControlMatches u0 x")
    case True
    then show ?thesis using x(1) b rest same yx by auto
  next
    case False
    then obtain r where a: "ModifyManagedDatabaseUserAccessControl api svc ?a sb = (Inr r, s1)" "u1 = u0" "k1 = k"
      using rest by auto
    have "inv s1" "usrs s1 svc ?n = Some (user_access_patched ?a y)"
      using ac.modify_ok [OF b(1) a(1)] b(2) by auto
    moreover have "accessControlMatches u (user_access_patched ?a y) \<longleftrightarrow> valkey_expressible (usp_ValkeyAccessControl (Spec u))"
      using p(1) by (simp add: accessControlMatches_def user_access_patched_def)
    moreover have "udu_Password (user_access_patched ?a y) = desired" using b(3) by (simp add: user_access_patched_def)
    ultimately show ?thesis using x(1) a(2,3) False same by auto
  qed
qed

lemma user_observe_sees:
  assumes "inv s" and "usrs s svc (ManagedDatabaseUser_ExternalUsername u) = Some y"
    and par: "ManagedDatabaseUserAdapter_parentUUID L gd u = (Inr svc, u0)"
    and pwd: "desiredPassword L sc u k = Inr (udu_Password y, True)"
    and ob: "ManagedDatabaseUserAdapter_Observe L api sc gd u (k, s) = (Inr obs, u1, k1, s1)"
  shows "ob_Exists obs \<and> (ob_UpToDate obs \<longleftrightarrow> accessControlMatches u y)"
proof -
  let ?n = "ManagedDatabaseUser_ExternalUsername u"
  note p = user_parent [OF par]
  have n: "ManagedDatabaseUser_ExternalUsername u0 = ?n" using p(1,2) by (rule ExternalUsername_cong)
  have pwd0: "desiredPassword L sc (u0\<lparr>Status := st\<rparr>) k = Inr (udu_Password y, True)" for st
    using pwd desiredPassword_cong [of "u0\<lparr>Status := st\<rparr>" u L sc k] p(1,2) by simp
  obtain r sa where g: "GetManagedDatabaseUser api svc ?n s = (r, sa)" by fastforce
  have "\<exists>e. r = Inl e \<Longrightarrow> False"
    using ob par n g us.get_404 [OF assms(1)] assms(2)
    by (auto simp: ManagedDatabaseUserAdapter_Observe_def split: if_splits)
  then obtain z where "r = Inr z" by (cases r) auto
  then have g': "GetManagedDatabaseUser api svc ?n s = (Inr y, sa)"
    using g us.get_found [OF assms(1), of svc ?n z sa] assms(2) by simp
  have acc: "accessControlMatches (u0\<lparr>Status := st\<rparr>) y = accessControlMatches u y" for st
    by (rule accessControlMatches_cong) (simp_all add: p(1))
  show ?thesis
    using ob par n g' pwd0 acc
    by (auto simp: ManagedDatabaseUserAdapter_Observe_def user_access_observation_def Let_def split: if_splits)
qed

end

end
