(* ===== verification/LogicalDatabaseAdapter.thy ===== *)
theory LogicalDatabaseAdapter
  imports ManagedDatabaseAdapter
begin

text \<open>
  \<open>internal/controller/database/manageddatabaselogicaldatabase_adapter.go\<close> and
  \<open>manageddatabaselogicaldatabase_controller.go\<close>. A logical database is identified by its
  service and its name and has no update path.
\<close>

subsection \<open>The adapter\<close>

definition LogicalDatabaseAdapter_parentUUID ::
  "Lib \<Rightarrow> ManagedDatabase getter \<Rightarrow> ManagedDatabaseLogicalDatabase \<Rightarrow> (err + string) \<times> ManagedDatabaseLogicalDatabase" where
  "LogicalDatabaseAdapter_parentUUID L getDatabase d =
     (if lst_ServiceUUID (Status d) \<noteq> '''' then (Inr (lst_ServiceUUID (Status d)), d)
      else case ReadyID L ManagedDatabase_Object getDatabase (om_Namespace (Meta d)) (lor_Name (lsp_ServiceRef (Spec d))) of
        Inl e \<Rightarrow> (Inl e, d)
      | Inr i \<Rightarrow> (Inr i, d\<lparr>Status := (Status d)\<lparr>lst_ServiceUUID := i\<rparr>\<rparr>))"

definition LogicalDatabaseAdapter_Observe ::
  "Lib \<Rightarrow> 's DatabaseAPI \<Rightarrow> ManagedDatabase getter \<Rightarrow> ManagedDatabaseLogicalDatabase \<Rightarrow> 's
   \<Rightarrow> (err + Observation) \<times> ManagedDatabaseLogicalDatabase \<times> 's" where
  "LogicalDatabaseAdapter_Observe L api getDatabase d s =
     (case LogicalDatabaseAdapter_parentUUID L getDatabase d of
        (Inl e, d1) \<Rightarrow> (Inl e, d1, s)
      | (Inr svcUUID, d1) \<Rightarrow>
          (case GetManagedDatabaseLogicalDatabases api svcUUID s of
             (Inl e, s1) \<Rightarrow>
               if IsNotFound (Some e) then (Inr NoObservation, d1, s1)
               else (Inl (Wrap ''get managed database logical databases'' e), d1, s1)
           | (Inr list, s1) \<Rightarrow>
               (case find (\<lambda>db. uld_Name db = ManagedDatabaseLogicalDatabase_ExternalName d1) list of
                  None \<Rightarrow> (Inr NoObservation, d1, s1)
                | Some db \<Rightarrow>
                    (Inr \<lparr>ob_Exists = True, ob_UpToDate = True, ob_Ready = True,
                          ob_Message = ''logical database '' @ uld_Name db\<rparr>,
                     d1\<lparr>Status := (Status d1)\<lparr>lst_Name := uld_Name db\<rparr>\<rparr>, s1))))"

definition LogicalDatabaseAdapter_Create ::
  "Lib \<Rightarrow> 's DatabaseAPI \<Rightarrow> ManagedDatabase getter \<Rightarrow> ManagedDatabaseLogicalDatabase \<Rightarrow> 's
   \<Rightarrow> err option \<times> ManagedDatabaseLogicalDatabase \<times> 's" where
  "LogicalDatabaseAdapter_Create L api getDatabase d s =
     (case LogicalDatabaseAdapter_parentUUID L getDatabase d of
        (Inl e, d1) \<Rightarrow> (Some e, d1, s)
      | (Inr svcUUID, d1) \<Rightarrow>
          (case CreateManagedDatabaseLogicalDatabase api svcUUID
                  \<lparr>cld_Name = ManagedDatabaseLogicalDatabase_ExternalName d1, cld_LCCollate = lsp_LCCollate (Spec d1),
                   cld_LCCType = lsp_LCCType (Spec d1)\<rparr> s of
             (Inl e, s1) \<Rightarrow> (Some (Wrap ''create managed database logical database'' e), d1, s1)
           | (Inr created, s1) \<Rightarrow>
               (None, d1\<lparr>Status := (Status d1)\<lparr>lst_ServiceUUID := svcUUID, lst_Name := uld_Name created\<rparr>\<rparr>, s1)))"

definition LogicalDatabaseAdapter_Update ::
  "ManagedDatabaseLogicalDatabase \<Rightarrow> 's \<Rightarrow> err option \<times> ManagedDatabaseLogicalDatabase \<times> 's" where
  "LogicalDatabaseAdapter_Update d s = (None, d, s)"

definition LogicalDatabaseAdapter_Delete ::
  "'s DatabaseAPI \<Rightarrow> ManagedDatabaseLogicalDatabase \<Rightarrow> 's \<Rightarrow> err option \<times> ManagedDatabaseLogicalDatabase \<times> 's" where
  "LogicalDatabaseAdapter_Delete api d s =
     (if lst_ServiceUUID (Status d) = '''' \<or> lst_Name (Status d) = '''' then (None, d, s)
      else case DeleteManagedDatabaseLogicalDatabase api (lst_ServiceUUID (Status d))
                  (ManagedDatabaseLogicalDatabase_ExternalName d) s of
        (None, s1) \<Rightarrow> (None, d, s1)
      | (Some e, s1) \<Rightarrow>
          if IsNotFound (Some e) then (None, d, s1)
          else if IsConflict (Some e) then (Some ErrPending, d, s1)
          else (Some (Wrap ''delete managed database logical database'' e), d, s1))"

definition LogicalDatabaseAdapter ::
  "Lib \<Rightarrow> 's DatabaseAPI \<Rightarrow> ManagedDatabase getter \<Rightarrow> (ManagedDatabaseLogicalDatabase, 's) Adapter" where
  "LogicalDatabaseAdapter L api getDatabase =
     \<lparr>ad_Observe = LogicalDatabaseAdapter_Observe L api getDatabase,
      ad_Create = LogicalDatabaseAdapter_Create L api getDatabase,
      ad_Update = LogicalDatabaseAdapter_Update, ad_Delete = LogicalDatabaseAdapter_Delete api\<rparr>"

definition FinalizerManagedDatabaseLogicalDatabase :: string where
  "FinalizerManagedDatabaseLogicalDatabase = ''database.upcloud.polarsquad.com/manageddatabaselogicaldatabase''"

definition SetupManagedDatabaseLogicalDatabaseController ::
  "Lib \<Rightarrow> (ManagedDatabaseLogicalDatabase, 'k) Client \<Rightarrow> 's DatabaseAPI \<Rightarrow> ManagedDatabase getter
   \<Rightarrow> (string \<Rightarrow> 'v \<Rightarrow> err + ManagedDatabaseLogicalDatabase list) \<Rightarrow> Options
   \<Rightarrow> (ManagedDatabaseLogicalDatabase, 'k \<times> 's) Reconciler \<times> (ManagedDatabase \<Rightarrow> 'v \<Rightarrow> NamespacedName list)" where
  "SetupManagedDatabaseLogicalDatabaseController L c api getDatabase listLogical opts =
     (mkReconciler L ManagedDatabaseLogicalDatabase_Object c (LogicalDatabaseAdapter L api getDatabase)
        FinalizerManagedDatabaseLogicalDatabase opts,
      \<lambda>d. DependentsOf listLogical Meta (\<lambda>x. [lor_Name (lsp_ServiceRef (Spec x))]) (Meta d))"

lemma LogicalDatabaseAdapter_sel [simp]:
  "ad_Observe (LogicalDatabaseAdapter L api gd) = LogicalDatabaseAdapter_Observe L api gd"
  "ad_Create (LogicalDatabaseAdapter L api gd) = LogicalDatabaseAdapter_Create L api gd"
  "ad_Update (LogicalDatabaseAdapter L api gd) = LogicalDatabaseAdapter_Update"
  "ad_Delete (LogicalDatabaseAdapter L api gd) = LogicalDatabaseAdapter_Delete api"
  by (simp_all add: LogicalDatabaseAdapter_def)

end
