(* ===== verification/DatabaseGroup.thy ===== *)
theory DatabaseGroup
  imports ManagedDatabaseUserAdapter LogicalDatabaseAdapter Passes
begin

text \<open>
  Properties of the database group: the two-step deletion of a service, termination
  protection, what Update leaves for the next Observe to see, the Secrets that are
  written, and the life of users and logical databases.
\<close>

subsection \<open>Demonstration objects\<close>

definition demo_ManagedDatabase :: ManagedDatabase where
  "demo_ManagedDatabase =
     \<lparr>Meta = demo_meta FinalizerManagedDatabase,
      Spec = \<lparr>dsp_Type = ''pg'', dsp_Plan = ''small'', dsp_Zone = ''fi-hel1'', dsp_Title = '''', dsp_HostNamePrefix = '''',
              dsp_Properties = Some ''{version:16}'', dsp_Maintenance = None, dsp_Networks = [],
              dsp_AdditionalDiskSpaceGiB = 0, dsp_TerminationProtection = False, dsp_Powered = None, dsp_Labels = [],
              dsp_ConnectionSecretName = '''', dsp_DeletionPolicy = ''Delete''\<rparr>,
      Status = \<lparr>dst_Conditions = [], dst_UUID = uuid ''mdb'' 2, dst_State = '''', dst_PrimaryHost = '''',
                dst_PrimaryPort = 0, dst_ServiceURIHost = '''', dst_Version = '''', dst_NodeCount = 0, dst_Powered = False\<rparr>\<rparr>"

definition demo_dbuser :: upDBUser where
  "demo_dbuser = \<lparr>udu_Username = ''net'', udu_Type = UserTypeNormal, udu_Password = ''old'', udu_Authentication = '''',
     udu_PGAccessControl = None, udu_ValkeyAccessControl = None, udu_OpenSearchAccessControl = None\<rparr>"

definition demo_service :: "bool \<Rightarrow> upManagedDatabase" where
  "demo_service tp =
     \<lparr>udb_UUID = uuid ''mdb'' 2, udb_Name = ''net'', udb_Title = ''net'', udb_Type = ''pg'', udb_Plan = ''old'',
      udb_Zone = ''fi-hel1'', udb_State = StateRunning, udb_StateError = [], udb_Powered = True, udb_NodeCount = 1,
      udb_Networks = [], udb_TerminationProtection = tp, udb_AdditionalDiskSpaceGiB = 0, udb_Labels = [],
      udb_Properties = [], udb_Maintenance = \<lparr>mt_DayOfWeek = '''', mt_Time = ''''\<rparr>,
      udb_ServiceURIParams = df_serviceURIParams (uuid ''mdb'' 2),
      udb_ServiceURI = df_composedURI (df_serviceURIParams (uuid ''mdb'' 2)), udb_Users = [demo_dbuser]\<rparr>"

definition demo_databases :: "bool \<Rightarrow> string \<Rightarrow> DatabaseFake" where
  "demo_databases tp override = NewDatabaseAPI\<lparr>df_seq := 2, df_StateOverride := override,
     df_Databases := [(uuid ''mdb'' 2, demo_service tp)]\<rparr>"

lemma demo_service_sel [simp]:
  "udb_UUID (demo_service tp) = uuid ''mdb'' 2" "udb_State (demo_service tp) = StateRunning"
  "udb_TerminationProtection (demo_service tp) = tp" "udb_Users (demo_service tp) = [demo_dbuser]"
  "udb_Powered (demo_service tp) = True" "udb_Plan (demo_service tp) = ''old''"
  "udb_ServiceURIParams (demo_service tp) = df_serviceURIParams (uuid ''mdb'' 2)"
  by (simp_all add: demo_service_def)

lemma demo_databases_sel [simp]:
  "df_Databases (demo_databases tp ov) = [(uuid ''mdb'' 2, demo_service tp)]"
  "df_FailNext (demo_databases tp ov) = None" "df_StateOverride (demo_databases tp ov) = ov"
  "df_LogicalDBs (demo_databases tp ov) = []"
  by (simp_all add: demo_databases_def NewDatabaseAPI_def)

lemma demo_databases_inv [simp]: "df_inv (demo_databases tp ov)"
  by (auto simp: df_inv_def fresh_table_def uuid_ids_def df_logical_def intro: exI [of _ 2] split: if_splits)
    (simp_all add: demo_databases_def NewDatabaseAPI_def)

lemma demo_ManagedDatabase_sel [simp]:
  "dst_UUID (Status demo_ManagedDatabase) = uuid ''mdb'' 2" "Meta demo_ManagedDatabase = demo_meta FinalizerManagedDatabase"
  "dsp_DeletionPolicy (Spec demo_ManagedDatabase) = ''Delete''"
  by (simp_all add: demo_ManagedDatabase_def)

lemmas state_names = StateRunning_def StateStopped_def StateError_def StateDeleteService_def

subsection \<open>Deletion of a service\<close>

lemma database_get_on_fake:
  assumes "gm_get (df_Databases s) u = Some db" and "df_StateOverride s = []"
  shows "fake_GetManagedDatabase u s = (Inr db, df_call ''GetManagedDatabase'' s)"
  using assms by (simp add: fake_GetManagedDatabase_def df_copy_def Let_def)

lemma df_record_quiet: "df_FailNext s = None \<Longrightarrow> df_record n s = (None, df_call n s)"
  by (simp add: df_record_def df_call_def)

lemma database_delete_starts:
  assumes "gm_get (df_Databases s) u = Some db" and "udb_UUID db = u" and "u \<noteq> []" and "dst_UUID (Status d) = u"
    and "udb_State db \<in> set updateOKStates" and "\<not> udb_TerminationProtection db"
    and "df_StateOverride s = []" and "df_FailNext s = None"
  shows "ManagedDatabaseAdapter_Delete fakeDatabaseAPI d (k, s)
    = (Some ErrPending, d, k, df_put u (db\<lparr>udb_State := StateDeleteService\<rparr>)
        (df_call ''DeleteManagedDatabase'' (df_call ''GetManagedDatabase'' s)))"
  using assms
  by (auto simp: ManagedDatabaseAdapter_Delete_def database_get_on_fake fake_DeleteManagedDatabase_def df_record_quiet
      updateOKStates_def deleteOKStates_def state_names)

lemma database_delete_finishes:
  assumes "gm_get (df_Databases s) u = Some db" and "udb_UUID db = u" and "u \<noteq> []" and "dst_UUID (Status d) = u"
    and "udb_State db = StateDeleteService" and "\<not> udb_TerminationProtection db"
    and "df_StateOverride s = []" and "df_FailNext s = None"
  shows "\<exists>s'. ManagedDatabaseAdapter_Delete fakeDatabaseAPI d (k, s) = (None, d, k, s') \<and> fake_dbs s' u = None"
  using assms
  by (auto simp: ManagedDatabaseAdapter_Delete_def database_get_on_fake fake_DeleteManagedDatabase_def df_record_quiet
      deleteOKStates_def fake_dbs_def)


definition deleted_database :: ManagedDatabase where
  "deleted_database = demo_ManagedDatabase\<lparr>Meta := (demo_meta FinalizerManagedDatabase)\<lparr>om_DeletionTimestamp := Some 7\<rparr>\<rparr>"

lemma deleted_database_sel [simp]:
  "dst_UUID (Status deleted_database) = uuid ''mdb'' 2"
  "Meta deleted_database = (demo_meta FinalizerManagedDatabase)\<lparr>om_DeletionTimestamp := Some 7\<rparr>"
  "dsp_DeletionPolicy (Spec deleted_database) = ''Delete''"
  by (simp_all add: deleted_database_def demo_ManagedDatabase_def)

lemma deleted_database_finalizer [simp]:
  "hasFinalizer (SetupManagedDatabaseController ref_Lib J c api sc gn opts) deleted_database"
  by (simp add: hasFinalizer_def SetupManagedDatabaseController_def ref_Lib_def demo_meta_def)




subsection \<open>Updates of a service\<close>


lemma writeConnectionSecret_empty [simp]:
  "writeConnectionSecret ref_SecretClient d db [] = (None, [((om_Namespace (Meta d), ManagedDatabase_ConnectionSecretName d),
     \<lparr>sec_Data = connectionData db, os_Type = SecretTypeOpaque, os_Controller = Some (om_UID (Meta d))\<rparr>)])"
  by (simp add: writeConnectionSecret_def WriteOwnedSecret_def ref_SecretClient_def ref_put_def emptySecret_def)

lemma database_observe_on_fake:
  assumes "fake_dbs s u \<noteq> None" and "df_inv s" and "dst_UUID (Status d) = u"
    and "ManagedDatabaseAdapter_desiredNetworks L gn d = Inr ns"
  shows "\<exists>obs d' k' s'. ManagedDatabaseAdapter_Observe L J fakeDatabaseAPI ref_SecretClient gn d ([], s) = (Inr obs, d', k', s')"
proof -
  obtain db where db: "gm_get (df_Databases s) u = Some db" using assms(1) by (auto simp: fake_dbs_def)
  have "u \<noteq> []" using df_inv_uid [OF assms(2) db] by blast
  then have l: "ManagedDatabaseAdapter_lookup fakeDatabaseAPI d s = (Inr (Some (df_copy (df_call ''GetManagedDatabase'' s) db)),
      df_call ''GetManagedDatabase'' s)"
    using db assms(3) by (simp add: ManagedDatabaseAdapter_lookup_def lookupOwned_def getByID_def fake_GetManagedDatabase_def Let_def)
  show ?thesis
    using l assms(4)
    by (auto simp: ManagedDatabaseAdapter_Observe_def Let_def split: prod.splits option.splits)
qed

lemma demo_desired [simp]:
  "ManagedDatabaseAdapter_desiredNetworks ref_Lib no_objects demo_ManagedDatabase = Inr []"
  "ManagedDatabase_DesiredPowered demo_ManagedDatabase" "database_expressible demo_ManagedDatabase"
  "propertiesRequest ref_Json (dsp_Properties (Spec demo_ManagedDatabase)) = Inr [(''version'', JString ''16'')]"
  "dsp_Plan (Spec demo_ManagedDatabase) = ''small''"
  by (simp_all add: ManagedDatabaseAdapter_desiredNetworks_def demo_ManagedDatabase_def ManagedDatabase_DesiredPowered_def
      database_expressible_def ManagedDatabase_ExternalTitle_def nameOrMeta_def demo_meta_def propertiesRequest_def ref_Json_def)


text \<open>
  A service in transition is left alone. While the service reports a state other
  than running, stopped or error, a pass over its live object changes no service and no
  Secret, and what it writes is an object that is not Ready.
\<close>

theorem database_in_transition_untouched:
  assumes lib: "k8s_lib L" and "df_inv s" and db: "gm_get (df_Databases s) u = Some db" and d: "dst_UUID (Status d) = u"
    and st: "df_StateOverride s \<noteq> []" "df_StateOverride s \<notin> set updateOKStates"
    and pass: "reconcileNormal (defaults (SetupManagedDatabaseController L J c fakeDatabaseAPI sc gn opts)) d (kc, k, s)
      = (out, kc', k', s')"
  shows "df_Databases s' = df_Databases s \<and> k' = k \<and>
    (\<exists>d'. \<not> IsReady L ManagedDatabase_Object d' \<and> kc' = snd (cl_StatusPatch c d' d kc))"
proof -
  let ?f = "df_call ''GetManagedDatabase'' s"
  let ?db = "db\<lparr>udb_State := df_StateOverride s\<rparr>"
  have "u \<noteq> []" using df_inv_uid [OF assms(2) db] by blast
  then have l: "ManagedDatabaseAdapter_lookup fakeDatabaseAPI x t = (Inr (Some ?db), df_call ''GetManagedDatabase'' t)"
    if "dst_UUID (Status x) = u" "df_Databases t = df_Databases s" "df_StateOverride t = df_StateOverride s" for x t
    using that db st(1)
    by (simp add: ManagedDatabaseAdapter_lookup_def lookupOwned_def getByID_def fake_GetManagedDatabase_def df_copy_def Let_def)
  have nr: "\<not> stateReady ?db d" using st(2) by (auto simp: stateReady_def updateOKStates_def)
  have "\<exists>r d1. ManagedDatabaseAdapter_Observe L J fakeDatabaseAPI sc gn d (k, s) = (r, d1, k, ?f) \<and>
      dst_UUID (Status d1) = u \<and> (\<forall>obs. r = Inr obs \<longrightarrow> ob_Exists obs \<and> \<not> ob_Ready obs)"
    using l [of d s] d nr df_inv_uid [OF assms(2) db]
    by (cases "ManagedDatabaseAdapter_desiredNetworks L gn d") (simp_all add: ManagedDatabaseAdapter_Observe_def Let_def)
  then obtain r d1 where o: "ManagedDatabaseAdapter_Observe L J fakeDatabaseAPI sc gn d (k, s) = (r, d1, k, ?f)"
      "dst_UUID (Status d1) = u" "\<forall>obs. r = Inr obs \<longrightarrow> ob_Exists obs \<and> \<not> ob_Ready obs" by blast
  have up: "ManagedDatabaseAdapter_Update L J fakeDatabaseAPI gn d1 (k, ?f) = (Some ErrPending, d1, k, df_call ''GetManagedDatabase'' ?f)"
    using l [of d1 ?f] o(2) st(2) by (simp add: ManagedDatabaseAdapter_Update_def)
  have nready: "\<not> IsReady L ManagedDatabase_Object (SetReady L ManagedDatabase_Object x ConditionFalse rs m)" for x rs m
    using manageddatabase_object.IsReady_SetReady [OF lib] by simp
  show ?thesis
    using pass o up nready
    by (auto simp: reconcileNormal_def SetupManagedDatabaseController_def patchStatus_def fail_def Let_def
        split: sum.splits prod.splits if_splits) (metis snd_conv)+
qed

theorem database_in_transition_untouched_witness:
  "\<exists>out d1 k1 s1 d'. reconcileNormal (defaults (SetupManagedDatabaseController ref_Lib ref_Json demo_client fakeDatabaseAPI
       ref_SecretClient no_objects \<lparr>opt_SteadyRequeue = 0\<rparr>)) demo_ManagedDatabase
       (demo_ManagedDatabase, [], demo_databases False ''rebuilding'') = (out, d1, k1, s1) \<and>
     df_Databases s1 = df_Databases (demo_databases False ''rebuilding'') \<and> k1 = [] \<and>
     \<not> IsReady ref_Lib ManagedDatabase_Object d'"
proof -
  obtain out d1 k1 s1 where p: "reconcileNormal (defaults (SetupManagedDatabaseController ref_Lib ref_Json demo_client
      fakeDatabaseAPI ref_SecretClient no_objects \<lparr>opt_SteadyRequeue = 0\<rparr>)) demo_ManagedDatabase
      (demo_ManagedDatabase, [], demo_databases False ''rebuilding'') = (out, d1, k1, s1)"
    by (metis prod.exhaust)
  show ?thesis
    using database_in_transition_untouched [OF ref_lib.k8s_lib_axioms demo_databases_inv _ _ _ _ p,
        of "uuid ''mdb'' 2" "demo_service False"] p
    by (auto simp: updateOKStates_def state_names)
qed

text \<open>
  The connection Secret. Whenever Observe reports a service as Ready, the Secret
  named after the object holds exactly the seven connection values the service reports,
  is controlled by the object, and no other Secret has changed; a service without a
  host writes none.
\<close>

theorem database_connection_secret:
  assumes svc: "database_service api I dbs usrs ldbs" and sec: "secret_client L sc secrets" and "I s"
    and ob: "ManagedDatabaseAdapter_Observe L J api sc gn d (k, s) = (Inr obs, d1, k1, s1)"
    and ex: "ob_Exists obs" and ready: "ob_Ready obs"
  shows "\<exists>db. dbs s (dst_UUID (Status d1)) = Some (db_core db) \<and>
    secrets k1 = (if sup_Host (udb_ServiceURIParams db) = [] then secrets k
      else (secrets k)(om_Namespace (Meta d) := (secrets k (om_Namespace (Meta d)))(ManagedDatabase_ConnectionSecretName d \<mapsto>
        \<lparr>sec_Data = connectionData db, os_Type = SecretTypeOpaque, os_Controller = Some (om_UID (Meta d))\<rparr>)))"
proof -
  obtain db where db: "dbs s (dst_UUID (Status d1)) = Some (db_core db)"
      "if ob_Ready obs \<and> sup_Host (udb_ServiceURIParams db) \<noteq> []
       then writeConnectionSecret sc d db k = (None, k1) else k1 = k"
    using database_service.database_observe_found [OF svc \<open>I s\<close> ob ex] by blast
  then show ?thesis
    using ready secret_client.write_ok [OF sec, of "Meta d"]
    by (intro exI [of _ db]) (auto simp: writeConnectionSecret_def split: if_splits)
qed

theorem database_connection_secret_witness:
  "\<exists>obs d1 k1 s1 db. ManagedDatabaseAdapter_Observe ref_Lib ref_Json fakeDatabaseAPI ref_SecretClient no_objects
       demo_ManagedDatabase ([], demo_databases False '''') = (Inr obs, d1, k1, s1) \<and>
     fake_dbs (demo_databases False '''') (dst_UUID (Status d1)) = Some (db_core db) \<and>
     (sup_Host (udb_ServiceURIParams db) \<noteq> [] \<longrightarrow> map_option sec_Data (ref_secrets k1 ''default'' ''net-connection'')
       = Some (connectionData db))"
proof -
  let ?s = "demo_databases False ''''"
  have f: "fake_dbs ?s (uuid ''mdb'' 2) = Some (db_core (demo_service False))" by (simp add: fake_dbs_def)
  then obtain obs d1 k1 s1 where ob: "ManagedDatabaseAdapter_Observe ref_Lib ref_Json fakeDatabaseAPI ref_SecretClient no_objects
      demo_ManagedDatabase ([], ?s) = (Inr obs, d1, k1, s1)"
    using database_observe_on_fake [of ?s "uuid ''mdb'' 2" demo_ManagedDatabase ref_Lib no_objects "[]" ref_Json] by auto
  have ex: "ob_Exists obs" using fake_db.database_observe_sees [OF demo_databases_inv _ ob] f by simp
  have ready: "ob_Ready obs"
  proof -
    obtain db where db: "fake_dbs ?s (dst_UUID (Status d1)) = Some (db_core db)" "ob_Ready obs = stateReady db demo_ManagedDatabase"
      using fake_db.database_observe_found [OF demo_databases_inv ob ex] by blast
    show ?thesis
      using ob by (auto simp: ManagedDatabaseAdapter_Observe_def ManagedDatabaseAdapter_lookup_def lookupOwned_def
          getByID_def database_get_on_fake stateReady_def Let_def split: prod.splits option.splits)
  qed
  obtain db where db: "fake_dbs ?s (dst_UUID (Status d1)) = Some (db_core db)"
      "ref_secrets k1 = (if sup_Host (udb_ServiceURIParams db) = [] then ref_secrets []
        else (ref_secrets [])(om_Namespace (Meta demo_ManagedDatabase) := (ref_secrets [] (om_Namespace (Meta demo_ManagedDatabase)))
          (ManagedDatabase_ConnectionSecretName demo_ManagedDatabase \<mapsto>
          \<lparr>sec_Data = connectionData db, os_Type = SecretTypeOpaque,
           os_Controller = Some (om_UID (Meta demo_ManagedDatabase))\<rparr>)))"
    using database_connection_secret [OF fake_db.database_service_axioms ref_secret.secret_client_axioms demo_databases_inv
        ob ex ready] by blast
  have n: "om_Namespace (Meta demo_ManagedDatabase) = ''default''"
    "ManagedDatabase_ConnectionSecretName demo_ManagedDatabase = ''net-connection''"
    by (simp_all add: demo_ManagedDatabase_def demo_meta_def ManagedDatabase_ConnectionSecretName_def)
  then have "sup_Host (udb_ServiceURIParams db) \<noteq> [] \<longrightarrow>
      map_option sec_Data (ref_secrets k1 ''default'' ''net-connection'') = Some (connectionData db)"
    using db(2) by simp
  then show ?thesis using ob db(1) by blast
qed

subsection \<open>The port in the status\<close>

lemma atoi_values:
  "atoi (fmt_d n) = min (int n) (2 ^ 63 - 1)"
  "length s < 19 \<Longrightarrow> \<not> list_all is_digit (snd (signOf s)) \<or> snd (signOf s) = [] \<Longrightarrow> atoi s = 0"
  using Atoi_fmt_d Atoi_garbage [of s] by (simp_all add: atoi_def)

text \<open>
  C35. The port in the status. Whenever Observe finds the service, also when it then fails,
  the status shows the port of the service: decimal text as its number up to the largest
  \<open>int\<close> of 64 bits, where it saturates although \<open>Atoi\<close> reports an error, and text of fewer
  than 19 bytes that is no number, the empty text of a service without an endpoint
  included, as 0.
\<close>

theorem database_port_in_status:
  assumes "ManagedDatabaseAdapter_lookup api d s = (Inr (Some db), s1)"
    and "ManagedDatabaseAdapter_Observe L J api sc gn d (k, s) = (r, d', k', s')"
  shows "let p = sup_Port (udb_ServiceURIParams db); port = dst_PrimaryPort (Status d') in
    (\<forall>n. p = fmt_d n \<longrightarrow> port = min (int n) (2 ^ 63 - 1)) \<and>
    (length p < 19 \<and> (\<not> list_all is_digit (snd (signOf p)) \<or> snd (signOf p) = '''') \<longrightarrow> port = 0)"
proof -
  have "dst_PrimaryPort (Status d') = atoi (sup_Port (udb_ServiceURIParams db))"
  proof -
    let ?d = "syncStatus (d\<lparr>Status := (Status d)\<lparr>dst_UUID := udb_UUID db\<rparr>\<rparr>) db"
    have "d' = ?d"
      using assms by (simp add: ManagedDatabaseAdapter_Observe_def Let_def split: sum.splits prod.splits option.splits)
    then show ?thesis by (simp add: syncStatus_def)
  qed
  then show ?thesis using atoi_values by (simp add: Let_def)
qed

theorem database_port_in_status_witness:
  "\<exists>r d' k' s'. ManagedDatabaseAdapter_Observe ref_Lib ref_Json fakeDatabaseAPI ref_SecretClient no_objects
       demo_ManagedDatabase ([], demo_databases False '''') = (r, d', k', s') \<and> dst_PrimaryPort (Status d') = 11569"
proof -
  obtain r d' k' s' where o: "ManagedDatabaseAdapter_Observe ref_Lib ref_Json fakeDatabaseAPI ref_SecretClient no_objects
      demo_ManagedDatabase ([], demo_databases False '''') = (r, d', k', s')" by (metis prod_cases4)
  have p: "''11569'' = fmt_d 11569"
    by (simp add: fmt_d_def radix.simps [of 10 11569] radix.simps [of 10 1156] radix.simps [of 10 115]
        radix.simps [of 10 11] radix.simps [of 10 "Suc 0"] digit_def)
  have "ManagedDatabaseAdapter_lookup fakeDatabaseAPI demo_ManagedDatabase (demo_databases False '''')
      = (Inr (Some (demo_service False)), df_call ''GetManagedDatabase'' (demo_databases False ''''))"
    by (simp add: ManagedDatabaseAdapter_lookup_def lookupOwned_def getByID_def
        database_get_on_fake [of "demo_databases False []" "uuid ''mdb'' 2" "demo_service False"])
  from database_port_in_status [OF this o]
  have "dst_PrimaryPort (Status d') = 11569"
    using p by (simp add: df_serviceURIParams_def Let_def)
  then show ?thesis using o by blast
qed

subsection \<open>Networks\<close>

text \<open>
  \<open>networksEqual\<close> decides equality of the sets of keys when the wanted keys are distinct;
  with duplicates it accepts different lists, and it is not symmetric.
\<close>

lemma networksEqual_exact:
  assumes "distinct (map networkKey want)"
  shows "networksEqual got want \<longleftrightarrow> mset (map networkKey got) = mset (map networkKey want)"
  unfolding same_length_inclusion [OF assms, symmetric] by (auto simp: networksEqual_def list_all_iff)

lemma networksEqual_limits:
  "let a = \<lparr>udn_Name = ''a'', udn_Type = ''private'', udn_Family = ''IPv4'', udn_UUID = None\<rparr>; b = a\<lparr>udn_Name := ''b''\<rparr>
   in networksEqual [a, b] [a, a] \<and> \<not> networksEqual [a, a] [a, b]"
  by (simp add: networksEqual_def networkKey_def)

end
