(* ===== verification/DatabaseUsers.thy ===== *)
theory DatabaseUsers
  imports DatabaseGroup
begin

text \<open>
  Properties of the users and the logical databases of a service: what Update and Create
  leave for Observe to see, where the password that Observe accepts comes from, and what
  Delete may remove.
\<close>

subsection \<open>Users: update and observe\<close>


definition demo_User :: ManagedDatabaseUser where
  "demo_User =
     \<lparr>Meta = demo_meta ''database.upcloud.polarsquad.com/manageddatabaseuser'',
      Spec = \<lparr>usp_ServiceRef = \<lparr>lor_Name = ''db''\<rparr>, usp_Username = '''', usp_PasswordSecretRef = None,
              usp_Authentication = '''', usp_PGAccessControl = None, usp_ValkeyAccessControl = None,
              usp_OpenSearchAccessControl = None, usp_ConnectionSecretName = '''', usp_DeletionPolicy = ''Delete''\<rparr>,
      Status = \<lparr>ust_Conditions = [], ust_ServiceUUID = uuid ''mdb'' 2, ust_Username = ''net'',
                ust_Type = UserTypeNormal\<rparr>\<rparr>"

definition demo_cluster :: "(string \<times> string, OwnedSecret) gomap" where
  "demo_cluster = [((''default'', ''net-credentials''),
     \<lparr>sec_Data = [(''password'', ''new'')], os_Type = ''Opaque'', os_Controller = Some ''u1''\<rparr>)]"

lemma demo_User_facts [simp]:
  "ManagedDatabaseUserAdapter_parentUUID L gd demo_User = (Inr (uuid ''mdb'' 2), demo_User)"
  "ManagedDatabaseUser_ExternalUsername demo_User = ''net''"
  "desiredPassword ref_Lib ref_SecretClient demo_User demo_cluster = Inr (''new'', True)"
  "accessControlMatches demo_User demo_dbuser" "usp_ValkeyAccessControl (Spec demo_User) = None"
  by (simp_all add: demo_User_def ManagedDatabaseUserAdapter_parentUUID_def ManagedDatabaseUser_ExternalUsername_def
      nameOrMeta_def demo_meta_def desiredPassword_def passwordFromSecret_def ManagedDatabaseUser_ConnectionSecretName_def
      ref_SecretClient_def demo_cluster_def SecretKeyPassword_def accessControlMatches_def pgMatches_def valkeyMatches_def
      openSearchMatches_def demo_dbuser_def)

lemma demo_dbuser_sel [simp]:
  "udu_Username demo_dbuser = ''net''" "udu_Password demo_dbuser = ''old''" "udu_Type demo_dbuser = UserTypeNormal"
  by (simp_all add: demo_dbuser_def)

lemma demo_user_usrs [simp]:
  "fake_findUser (demo_service tp) ''net'' = Some demo_dbuser"
  "fake_usrs (demo_databases tp ov) (uuid ''mdb'' 2) ''net'' = Some demo_dbuser"
  by (simp_all add: fake_usrs_def fake_findUser_def)

lemma demo_user_update:
  "\<exists>s1. ManagedDatabaseUserAdapter_Update ref_Lib fakeDatabaseAPI ref_SecretClient no_objects demo_User
     (demo_cluster, demo_databases False '''') = (None, demo_User, demo_cluster, s1)"
  by (simp add: ManagedDatabaseUserAdapter_Update_def fake_GetManagedDatabaseUser_def fake_ModifyManagedDatabaseUser_def
      df_record_quiet Let_def)

lemma user_observe_on_fake:
  assumes "fake_usrs s i (ManagedDatabaseUser_ExternalUsername u) \<noteq> None" and "ust_ServiceUUID (Status u) = i" and "i \<noteq> []"
    and "desiredPassword L sc u k = Inr (p, True)"
  shows "\<exists>obs u1 s1. ManagedDatabaseUserAdapter_Observe L fakeDatabaseAPI sc gd u (k, s) = (Inr obs, u1, k, s1)"
proof -
  have pw: "desiredPassword L sc (u\<lparr>Status := st\<rparr>) k = Inr (p, True)" for st
    using assms(4) desiredPassword_cong [of "u\<lparr>Status := st\<rparr>" u L sc k] by simp
  obtain db where "gm_get (df_Databases s) i = Some db"
      "fake_findUser db (ManagedDatabaseUser_ExternalUsername u) \<noteq> None"
    using assms(1) by (auto simp: fake_usrs_def split: option.splits)
  then show ?thesis
    using assms(2,3) pw
    by (auto simp: ManagedDatabaseUserAdapter_Observe_def ManagedDatabaseUserAdapter_parentUUID_def
        fake_GetManagedDatabaseUser_def Let_def)
qed


subsection \<open>Users: the password\<close>

definition passwordSource :: "ManagedDatabaseUser \<Rightarrow> string \<times> string" where
  "passwordSource u =
     (case usp_PasswordSecretRef (Spec u) of
        Some ref \<Rightarrow> (sks_Name ref, sks_Key ref)
      | None \<Rightarrow> (ManagedDatabaseUser_ConnectionSecretName u, SecretKeyPassword))"

lemma desiredPassword_found:
  assumes "secret_client L sc secrets" and "desiredPassword L sc u k = Inr (pw, True)"
  shows "\<exists>sec. secrets k (om_Namespace (Meta u)) (fst (passwordSource u)) = Some sec \<and>
    gm_get (sec_Data sec) (snd (passwordSource u)) = Some pw"
proof -
  have "passwordFromSecret L sc (om_Namespace (Meta u)) (fst (passwordSource u)) (snd (passwordSource u)) k = Inr (pw, True)"
    using assms(2) by (cases "usp_PasswordSecretRef (Spec u)") (simp_all add: desiredPassword_def passwordSource_def)
  then obtain sec where "sc_Get sc (om_Namespace (Meta u)) (fst (passwordSource u)) k = Inr sec"
      "gm_get (sec_Data sec) (snd (passwordSource u)) = Some pw"
    by (auto simp: passwordFromSecret_def split: sum.splits option.splits if_splits)
  then show ?thesis using secret_client.get_ok [OF assms(1)] by blast
qed

lemma writeCredentialsSecret_ok:
  assumes "secret_client L sc secrets" and "writeCredentialsSecret sc u svc pw k = (None, k')"
  shows "\<exists>sec. secrets k' (om_Namespace (Meta u)) (ManagedDatabaseUser_ConnectionSecretName u) = Some sec \<and>
    gm_get (sec_Data sec) SecretKeyPassword = Some pw"
  using secret_client.write_ok [OF assms(1) assms(2) [unfolded writeCredentialsSecret_def]]
  by (simp add: credentialsData_def Let_def SecretKeyPassword_def SecretKeyUsername_def SecretKeyHost_def
      SecretKeyPort_def SecretKeyURI_def)

text \<open>
  C24. A user that Observe reports as up to date exists with the access control of the
  spec, and the Secret that holds its password (the one that the spec refers to, or the
  credentials Secret, which Observe writes again when it is missing) holds the password
  that the service has.
\<close>

theorem user_up_to_date_password:
  assumes svc: "database_service api I dbs usrs ldbs" and sec: "secret_client L sc secrets" and "I s"
    and par: "ManagedDatabaseUserAdapter_parentUUID L gd u = (Inr i, u0)"
    and ob: "ManagedDatabaseUserAdapter_Observe L api sc gd u (k, s) = (Inr obs, u1, k1, s1)"
    and "ob_Exists obs" and "ob_UpToDate obs"
  shows "\<exists>x sec. usrs s i (ManagedDatabaseUser_ExternalUsername u) = Some x \<and> accessControlMatches u x \<and>
    secrets k1 (om_Namespace (Meta u)) (fst (passwordSource u)) = Some sec \<and>
    gm_get (sec_Data sec) (snd (passwordSource u)) = Some (udu_Password x)"
proof -
  let ?n = "ManagedDatabaseUser_ExternalUsername u"
  note p = user_parent [OF par]
  have n: "ManagedDatabaseUser_ExternalUsername u0 = ?n" using p(1,2) by (rule ExternalUsername_cong)
  obtain r sa where g: "GetManagedDatabaseUser api i ?n s = (r, sa)" by fastforce
  then obtain x where r: "r = Inr x"
    using ob par n assms(6) by (cases r) (auto simp: ManagedDatabaseUserAdapter_Observe_def NoObservation_def split: if_splits)
  have x: "usrs s i ?n = Some x"
    using named_table.get_found [OF erasable_table.axioms(1) [OF database_service.users [OF svc]] \<open>I s\<close> g [unfolded r]] .
  let ?v = "u0\<lparr>Status := (Status u0)\<lparr>ust_Username := udu_Username x, ust_Type := udu_Type x\<rparr>\<rparr>"
  have v: "Spec ?v = Spec u" "Meta ?v = Meta u" using p(1,2) by simp_all
  have acc: "accessControlMatches ?v x = accessControlMatches u x"
    by (rule accessControlMatches_cong) (simp_all add: p(1))
  obtain pw found where d: "desiredPassword L sc ?v k = Inr (pw, found)"
    using ob par n g r by (cases "desiredPassword L sc ?v k") (auto simp: ManagedDatabaseUserAdapter_Observe_def Let_def)
  have src: "passwordSource ?v = passwordSource u"
    using p(1,2) by (simp add: passwordSource_def ManagedDatabaseUser_ConnectionSecretName_def cong: option.case_cong)
  have up: "ob_UpToDate (user_access_observation ?v x) \<longleftrightarrow> accessControlMatches u x"
    using acc by (simp add: user_access_observation_def)
  show ?thesis
  proof (cases found)
    case True
    then have "k1 = k \<and> pw = udu_Password x \<and> obs = user_access_observation ?v x"
      using ob par n g r d assms(7) by (auto simp: ManagedDatabaseUserAdapter_Observe_def Let_def split: if_splits)
    then show ?thesis
      using desiredPassword_found [OF sec, of ?v k pw] d src x up assms(7) p(2) True by simp
  next
    case False
    then obtain w s2 where w: "writeCredentialsSecret sc ?v w (udu_Password x) k = (None, k1)"
        "obs = user_access_observation ?v x" "usp_PasswordSecretRef (Spec u) = None"
      using ob par n g r d p(1)
      by (auto simp: ManagedDatabaseUserAdapter_Observe_def Let_def split: option.splits sum.splits prod.splits)
    then show ?thesis
      using writeCredentialsSecret_ok [OF sec w(1)] x up assms(7) p(2) src
      by (auto simp: passwordSource_def ManagedDatabaseUser_ConnectionSecretName_def p(1))
  qed
qed

theorem user_up_to_date_password_witness:
  "\<exists>obs u1 k1 s1 sec. ManagedDatabaseUserAdapter_Observe ref_Lib fakeDatabaseAPI ref_SecretClient no_objects demo_User
     ([], demo_databases False '''') = (Inr obs, u1, k1, s1) \<and>
   ref_secrets k1 ''default'' ''net-credentials'' = Some sec \<and> gm_get (sec_Data sec) ''password'' = Some ''old''"
proof -
  let ?s = "demo_databases False ''''"
  let ?v = "demo_User\<lparr>Status := (Status demo_User)\<lparr>ust_Username := ''net'', ust_Type := UserTypeNormal\<rparr>\<rparr>"
  obtain k1 where w: "writeCredentialsSecret ref_SecretClient ?v (demo_service False) ''old'' [] = (None, k1)"
    by (simp add: writeCredentialsSecret_def WriteOwnedSecret_def ref_SecretClient_def ref_put_def emptySecret_def)
  have none: "desiredPassword ref_Lib ref_SecretClient ?v [] = Inr ('''', False)"
    by (simp add: desiredPassword_def passwordFromSecret_def demo_User_def ref_SecretClient_def ref_Lib_def ref_KubeIsNotFound_def)
  have acc: "user_access_observation ?v demo_dbuser
      = \<lparr>ob_Exists = True, ob_UpToDate = True, ob_Ready = True, ob_Message = ''user net''\<rparr>"
    using accessControlMatches_cong [of ?v demo_User demo_dbuser demo_dbuser] by (simp add: user_access_observation_def)
  have ref: "usp_PasswordSecretRef (Spec demo_User) = None" by (simp add: demo_User_def)
  obtain obs u1 s1 where ob: "ManagedDatabaseUserAdapter_Observe ref_Lib fakeDatabaseAPI ref_SecretClient no_objects demo_User
      ([], ?s) = (Inr obs, u1, k1, s1)" "ob_Exists obs" "ob_UpToDate obs"
    using w none acc ref
    by (simp add: ManagedDatabaseUserAdapter_Observe_def fake_GetManagedDatabaseUser_def database_get_on_fake Let_def)
  have src: "passwordSource demo_User = (''net-credentials'', ''password'')" "om_Namespace (Meta demo_User) = ''default''"
    by (simp_all add: passwordSource_def demo_User_def ManagedDatabaseUser_ConnectionSecretName_def demo_meta_def SecretKeyPassword_def)
  show ?thesis
    using user_up_to_date_password [OF fake_db.database_service_axioms ref_secret.secret_client_axioms demo_databases_inv
        demo_User_facts(1) ob] ob(1) src by auto
qed

subsection \<open>Users: deletion\<close>

text \<open>
  Deletion of a user. Delete of a primary user is refused and touches nothing.
  Otherwise Delete removes at most the user it is for; when it reports success and the
  status records the user's identity, the user is gone from the service.
\<close>

theorem user_delete_contract:
  assumes svc: "database_service api I dbs usrs ldbs" and "I s"
    and del: "ManagedDatabaseUserAdapter_Delete api u (k, s) = (e, u1, k1, s1)"
  shows "(u1, k1) = (u, k) \<and> I s1 \<and> dbs s1 = dbs s \<and> ldbs s1 = ldbs s \<and>
    (\<forall>i n. (i, n) \<noteq> (ust_ServiceUUID (Status u), ManagedDatabaseUser_ExternalUsername u) \<longrightarrow> usrs s1 i n = usrs s i n) \<and>
    (ust_ServiceUUID (Status u) \<noteq> [] \<and> ust_Username (Status u) \<noteq> [] \<longrightarrow>
      (if ust_Type (Status u) = UserTypePrimary then e \<noteq> None \<and> s1 = s
       else e = None \<longrightarrow> usrs s1 (ust_ServiceUUID (Status u)) (ManagedDatabaseUser_ExternalUsername u) = None))"
proof (cases "ust_ServiceUUID (Status u) = [] \<or> ust_Username (Status u) = [] \<or> ust_Type (Status u) = UserTypePrimary")
  case True
  then show ?thesis using del \<open>I s\<close> by (auto simp: ManagedDatabaseUserAdapter_Delete_def split: if_splits)
next
  case False
  let ?i = "ust_ServiceUUID (Status u)" and ?n = "ManagedDatabaseUser_ExternalUsername u"
  obtain x s' where d: "DeleteManagedDatabaseUser api ?i ?n s = (x, s')" by fastforce
  note tbl = database_service.users [OF svc, of ?i]
  have fr: "I s' \<and> (dbs s', (usrs s')(?i := \<lambda>_. None), ldbs s') = (dbs s, (usrs s)(?i := \<lambda>_. None), ldbs s) \<and>
      (\<forall>n. n \<noteq> ?n \<longrightarrow> usrs s' ?i n = usrs s ?i n)"
    using erasable_table.del_frame [OF tbl \<open>I s\<close> d] .
  have other: "(i, n) \<noteq> (?i, ?n) \<Longrightarrow> usrs s' i n = usrs s i n" for i n
    using fr by (cases "i = ?i") (auto dest: fun_cong [of _ _ i])
  have gone: "x = None \<or> IsNotFound x \<Longrightarrow> usrs s' ?i ?n = None"
    using erasable_table.del_gone [OF tbl \<open>I s\<close> d] .
  have r: "(u1, k1, s1) = (u, k, s')" "e = None \<Longrightarrow> x = None \<or> IsNotFound x"
    using del False d by (auto simp: ManagedDatabaseUserAdapter_Delete_def split: option.splits if_splits)
  show ?thesis using r other gone fr False by simp
qed

theorem user_delete_contract_witness:
  "\<exists>s1. ManagedDatabaseUserAdapter_Delete fakeDatabaseAPI demo_User (demo_cluster, demo_databases False '''')
     = (None, demo_User, demo_cluster, s1) \<and> fake_usrs s1 (uuid ''mdb'' 2) ''net'' = None"
proof -
  have st: "ust_ServiceUUID (Status demo_User) = uuid ''mdb'' 2" "ust_Username (Status demo_User) = ''net''"
    "ust_Type (Status demo_User) = UserTypeNormal" by (simp_all add: demo_User_def)
  have ne: "UserTypeNormal \<noteq> UserTypePrimary" by (simp add: UserTypeNormal_def UserTypePrimary_def)
  obtain s1 where d: "ManagedDatabaseUserAdapter_Delete fakeDatabaseAPI demo_User (demo_cluster, demo_databases False '''')
      = (None, demo_User, demo_cluster, s1)"
    using st ne by (simp add: ManagedDatabaseUserAdapter_Delete_def fake_DeleteManagedDatabaseUser_def df_record_quiet)
  show ?thesis
    using user_delete_contract [OF fake_db.database_service_axioms demo_databases_inv d] d st ne by auto
qed

subsection \<open>Logical databases\<close>

lemma logical_parent:
  assumes "LogicalDatabaseAdapter_parentUUID L gd d = (r, d1)"
  shows "Spec d1 = Spec d" "Meta d1 = Meta d" "lst_Name (Status d1) = lst_Name (Status d)"
    and "r = Inr i \<Longrightarrow> i \<noteq> [] \<and> lst_ServiceUUID (Status d1) = i"
proof -
  have ne: "ReadyID L ManagedDatabase_Object gd ns n = Inr i \<Longrightarrow> i \<noteq> []" for ns n i
    by (auto simp: ReadyID_Inr Ready_def ExternalID_def split: sum.splits prod.splits if_splits)
  show "Spec d1 = Spec d" "Meta d1 = Meta d" "lst_Name (Status d1) = lst_Name (Status d)"
    using assms by (auto simp: LogicalDatabaseAdapter_parentUUID_def split: sum.splits if_splits)
  show "r = Inr i \<Longrightarrow> i \<noteq> [] \<and> lst_ServiceUUID (Status d1) = i"
    using assms ne by (auto simp: LogicalDatabaseAdapter_parentUUID_def split: sum.splits if_splits)
qed

lemma logical_name_cong:
  "Spec d' = Spec d \<Longrightarrow> Meta d' = Meta d \<Longrightarrow>
     ManagedDatabaseLogicalDatabase_ExternalName d' = ManagedDatabaseLogicalDatabase_ExternalName d"
  by (simp add: ManagedDatabaseLogicalDatabase_ExternalName_def)

context database_service
begin

lemma logical_create_spec:
  assumes "inv s" and "LogicalDatabaseAdapter_Create L api gd d s = (None, d1, s1)"
  shows "\<exists>x i. inv s1 \<and> i \<noteq> [] \<and> lst_ServiceUUID (Status d1) = i \<and>
    lst_Name (Status d1) = ManagedDatabaseLogicalDatabase_ExternalName d \<and> Spec d1 = Spec d \<and> Meta d1 = Meta d \<and>
    ldbs s i (ManagedDatabaseLogicalDatabase_ExternalName d) = None \<and> uld_LCCollate x = lsp_LCCollate (Spec d) \<and>
    uld_LCCType x = lsp_LCCType (Spec d) \<and>
    ldbs s1 = (ldbs s)(i := (ldbs s i)(ManagedDatabaseLogicalDatabase_ExternalName d \<mapsto> x))"
proof -
  obtain i d0 where p: "LogicalDatabaseAdapter_parentUUID L gd d = (Inr i, d0)"
    using assms(2) by (auto simp: LogicalDatabaseAdapter_Create_def split: prod.splits sum.splits)
  note q = logical_parent [OF p]
  obtain x where c: "CreateManagedDatabaseLogicalDatabase api i \<lparr>cld_Name = ManagedDatabaseLogicalDatabase_ExternalName d0,
        cld_LCCollate = lsp_LCCollate (Spec d0), cld_LCCType = lsp_LCCType (Spec d0)\<rparr> s = (Inr x, s1)"
      "d1 = d0\<lparr>Status := (Status d0)\<lparr>lst_ServiceUUID := i, lst_Name := uld_Name x\<rparr>\<rparr>"
    using assms(2) p by (auto simp: LogicalDatabaseAdapter_Create_def split: prod.splits sum.splits)
  have "ManagedDatabaseLogicalDatabase_ExternalName d0 = ManagedDatabaseLogicalDatabase_ExternalName d"
    by (rule logical_name_cong [OF q(1,2)])
  then show ?thesis
    using logical_create [OF assms(1) c(1)] c(2) q
    by (intro exI [of _ x] exI [of _ i]) (auto simp: logical_built_def)
qed

lemma logical_observe_spec:
  assumes "inv s" and "lst_ServiceUUID (Status d) = i" and "i \<noteq> []"
    and "LogicalDatabaseAdapter_Observe L api gd d s = (Inr obs, d1, s1)"
  shows "inv s1 \<and> ldbs s1 = ldbs s \<and> Spec d1 = Spec d \<and> Meta d1 = Meta d \<and> lst_ServiceUUID (Status d1) = i \<and>
    (ob_Exists obs \<longleftrightarrow> ldbs s i (ManagedDatabaseLogicalDatabase_ExternalName d) \<noteq> None) \<and>
    (ob_Exists obs \<longrightarrow> ob_UpToDate obs \<and> ob_Ready obs \<and>
      lst_Name (Status d1) = ManagedDatabaseLogicalDatabase_ExternalName d)"
proof -
  have p: "LogicalDatabaseAdapter_parentUUID L gd d = (Inr i, d)"
    using assms(2,3) by (simp add: LogicalDatabaseAdapter_parentUUID_def)
  obtain r s2 where g: "GetManagedDatabaseLogicalDatabases api i s = (r, s2)" by fastforce
  note l = logical_list [OF assms(1) g]
  show ?thesis
  proof (cases r)
    case (Inl e)
    then show ?thesis
      using assms(2,4) p g l by (auto simp: LogicalDatabaseAdapter_Observe_def NoObservation_def split: if_splits)
  next
    case (Inr xs)
    let ?n = "ManagedDatabaseLogicalDatabase_ExternalName d"
    have "(\<exists>x\<in>set xs. uld_Name x = ?n) \<longleftrightarrow> ldbs s i ?n \<noteq> None"
      using l Inr logical_keyed [OF assms(1)] by (force simp: ran_def)
    then show ?thesis
      using assms(2,4) p g l Inr
      by (cases "find (\<lambda>db. uld_Name db = ?n) xs")
        (auto simp: LogicalDatabaseAdapter_Observe_def NoObservation_def find_None_iff find_Some_iff)
  qed
qed

lemma logical_delete_spec:
  assumes "inv s" and "lst_ServiceUUID (Status d) = i" and "i \<noteq> []" and "lst_Name (Status d) \<noteq> []"
    and "LogicalDatabaseAdapter_Delete api d s = (None, d1, s1)"
  shows "inv s1 \<and> d1 = d \<and> ldbs s1 = (ldbs s)(i := (ldbs s i)(ManagedDatabaseLogicalDatabase_ExternalName d := None))"
proof -
  obtain e s2 where del: "DeleteManagedDatabaseLogicalDatabase api i (ManagedDatabaseLogicalDatabase_ExternalName d) s = (e, s2)"
    by fastforce
  show ?thesis
    using logical_delete [OF assms(1) del] assms(2-5) del
    by (cases e) (auto simp: LogicalDatabaseAdapter_Delete_def fun_eq_iff split: if_splits)
qed

end

text \<open>
  The life of a logical database. What Create has created, the next Observe that
  answers finds, ready and up to date; Delete of what Observe recorded brings the service
  back to the logical databases it had before Create, and the Observe after that reports
  the database as gone. The collation and character type of the spec are in the service
  meanwhile.
\<close>

theorem logical_database_lifecycle:
  assumes svc: "database_service api I dbs usrs ldbs" and "I s" and named: "om_Name (Meta d) \<noteq> []"
    and cr: "LogicalDatabaseAdapter_Create L api gd d s = (None, d1, s1)"
    and ob1: "LogicalDatabaseAdapter_Observe L api gd d1 s1 = (Inr o1, d2, s2)"
    and del: "LogicalDatabaseAdapter_Delete api d2 s2 = (None, d3, s3)"
    and ob2: "LogicalDatabaseAdapter_Observe L api gd d3 s3 = (Inr o2, d4, s4)"
  shows "ob_Exists o1 \<and> ob_UpToDate o1 \<and> ob_Ready o1 \<and> \<not> ob_Exists o2 \<and> ldbs s4 = ldbs s \<and>
    (\<exists>x. ldbs s2 (lst_ServiceUUID (Status d2)) (ManagedDatabaseLogicalDatabase_ExternalName d) = Some x \<and>
      uld_LCCollate x = lsp_LCCollate (Spec d) \<and> uld_LCCType x = lsp_LCCType (Spec d))"
proof -
  let ?n = "ManagedDatabaseLogicalDatabase_ExternalName d"
  obtain x i where c: "I s1" "i \<noteq> []" "lst_ServiceUUID (Status d1) = i" "Spec d1 = Spec d" "Meta d1 = Meta d"
      "ldbs s i ?n = None" "uld_LCCollate x = lsp_LCCollate (Spec d)" "uld_LCCType x = lsp_LCCType (Spec d)"
      "ldbs s1 = (ldbs s)(i := (ldbs s i)(?n \<mapsto> x))"
    using database_service.logical_create_spec [OF svc \<open>I s\<close> cr] by blast
  have n1: "ManagedDatabaseLogicalDatabase_ExternalName d1 = ?n" by (rule logical_name_cong [OF c(4,5)])
  note o1 = database_service.logical_observe_spec [OF svc c(1,3,2) ob1, unfolded n1]
  have n2: "ManagedDatabaseLogicalDatabase_ExternalName d2 = ?n" by (rule logical_name_cong) (use o1 c in simp_all)
  have ex: "ob_Exists o1" using o1 c(9) by simp
  have "?n \<noteq> []" using named by (simp add: ManagedDatabaseLogicalDatabase_ExternalName_def nameOrMeta_def)
  then have r: "I s2" "lst_ServiceUUID (Status d2) = i" "lst_Name (Status d2) \<noteq> []" using o1 ex by auto
  note dl = database_service.logical_delete_spec [OF svc r(1,2) c(2) r(3) del, unfolded n2]
  have restored: "ldbs s3 = ldbs s" using dl o1 c(6,9) by (auto simp: fun_eq_iff)
  have s3: "I s3" "lst_ServiceUUID (Status d3) = i" using dl r(2) by simp_all
  note o2 = database_service.logical_observe_spec [OF svc s3 c(2) ob2]
  show ?thesis using o1 ex o2 restored c r(2) dl n2 by auto
qed

definition demo_Logical :: ManagedDatabaseLogicalDatabase where
  "demo_Logical =
     \<lparr>Meta = demo_meta ''f'',
      Spec = \<lparr>lsp_ServiceRef = \<lparr>lor_Name = ''db''\<rparr>, lsp_Name = '''', lsp_LCCollate = ''C'', lsp_LCCType = ''C'',
              lsp_DeletionPolicy = ''Delete''\<rparr>,
      Status = \<lparr>lst_Conditions = [], lst_ServiceUUID = uuid ''mdb'' 2, lst_Name = ''''\<rparr>\<rparr>"

lemma demo_Logical_facts [simp]:
  "LogicalDatabaseAdapter_parentUUID L gd (demo_Logical\<lparr>Status := (Status demo_Logical)\<lparr>lst_Name := n\<rparr>\<rparr>)
     = (Inr (uuid ''mdb'' 2), demo_Logical\<lparr>Status := (Status demo_Logical)\<lparr>lst_Name := n\<rparr>\<rparr>)"
  "LogicalDatabaseAdapter_parentUUID L gd demo_Logical = (Inr (uuid ''mdb'' 2), demo_Logical)"
  "lst_ServiceUUID (Status demo_Logical) = uuid ''mdb'' 2" "Meta demo_Logical = demo_meta ''f''"
  by (simp_all add: demo_Logical_def LogicalDatabaseAdapter_parentUUID_def)

lemma demo_Logical_name [simp]:
  "ManagedDatabaseLogicalDatabase_ExternalName (demo_Logical\<lparr>Status := st\<rparr>) = ''net''"
  "ManagedDatabaseLogicalDatabase_ExternalName demo_Logical = ''net''"
  by (simp_all add: demo_Logical_def ManagedDatabaseLogicalDatabase_ExternalName_def nameOrMeta_def demo_meta_def)

theorem logical_database_lifecycle_witness:
  "\<exists>d1 s1 o1 d2 s2 d3 s3 o2 d4 s4. LogicalDatabaseAdapter_Create ref_Lib fakeDatabaseAPI no_objects demo_Logical
       (demo_databases False '''') = (None, d1, s1) \<and>
     LogicalDatabaseAdapter_Observe ref_Lib fakeDatabaseAPI no_objects d1 s1 = (Inr o1, d2, s2) \<and>
     LogicalDatabaseAdapter_Delete fakeDatabaseAPI d2 s2 = (None, d3, s3) \<and>
     LogicalDatabaseAdapter_Observe ref_Lib fakeDatabaseAPI no_objects d3 s3 = (Inr o2, d4, s4) \<and>
     ob_Exists o1 \<and> \<not> ob_Exists o2 \<and> fake_ldbs s4 = fake_ldbs (demo_databases False '''')"
proof -
  let ?s = "demo_databases False ''''"
  let ?d = "demo_Logical\<lparr>Status := (Status demo_Logical)\<lparr>lst_Name := ''net''\<rparr>\<rparr>"
  let ?x = "\<lparr>uld_Name = ''net'', uld_LCCollate = lsp_LCCollate (Spec demo_Logical), uld_LCCType = lsp_LCCType (Spec demo_Logical)\<rparr>"
  let ?s1 = "(df_call ''CreateManagedDatabaseLogicalDatabase'' ?s)\<lparr>df_LogicalDBs := [(uuid ''mdb'' 2, [?x])]\<rparr>"
  have st: "Status demo_Logical\<lparr>lst_ServiceUUID := uuid ''mdb'' 2, lst_Name := ''net''\<rparr> = Status demo_Logical\<lparr>lst_Name := ''net''\<rparr>"
    by (simp add: demo_Logical_def)
  have cr: "LogicalDatabaseAdapter_Create ref_Lib fakeDatabaseAPI no_objects demo_Logical ?s = (None, ?d, ?s1)"
    using st by (simp add: LogicalDatabaseAdapter_Create_def fake_CreateManagedDatabaseLogicalDatabase_def df_record_quiet
        df_logical_def Let_def)
  obtain o1 s2 where ob1: "LogicalDatabaseAdapter_Observe ref_Lib fakeDatabaseAPI no_objects ?d ?s1 = (Inr o1, ?d, s2)"
      "df_Databases s2 = df_Databases ?s" "df_LogicalDBs s2 = [(uuid ''mdb'' 2, [?x])]" "df_FailNext s2 = None"
    by (simp add: LogicalDatabaseAdapter_Observe_def fake_GetManagedDatabaseLogicalDatabases_def df_logical_def Let_def)
  obtain s3 where del: "LogicalDatabaseAdapter_Delete fakeDatabaseAPI ?d s2 = (None, ?d, s3)" "df_Databases s3 = df_Databases ?s"
    using ob1 by (simp add: LogicalDatabaseAdapter_Delete_def fake_DeleteManagedDatabaseLogicalDatabase_def df_record_quiet
        df_logical_def)
  obtain o2 d4 s4 where ob2: "LogicalDatabaseAdapter_Observe ref_Lib fakeDatabaseAPI no_objects ?d s3 = (Inr o2, d4, s4)"
    using del(2) by (cases "find (\<lambda>db. uld_Name db = ''net'') (df_logical s3 (uuid ''mdb'' 2))")
      (simp_all add: LogicalDatabaseAdapter_Observe_def fake_GetManagedDatabaseLogicalDatabases_def df_logical_def Let_def)
  show ?thesis
    using logical_database_lifecycle [OF fake_db.database_service_axioms demo_databases_inv _ cr ob1(1) del(1) ob2] cr ob1(1) del(1) ob2
    by (auto simp: demo_meta_def)
qed

end
