(* ===== verification/ObjectStorageTypes.thy ===== *)
theory ObjectStorageTypes
  imports NetworkTypes
begin

text \<open>
  The kinds of \<open>api/objectstorage/v1alpha1\<close>: ManagedObjectStorage, ObjectStorageUser,
  ObjectStorageAccessKey, ObjectStoragePolicy, ObjectStorageBucket and
  ObjectStorageCustomDomain.
\<close>

subsection \<open>ManagedObjectStorage\<close>

record MOSNetworkAttachment =
  mna_Name :: string
  mna_Type :: string
  mna_Family :: string
  mna_UUID :: string
  mna_NetworkRef :: "LocalObjectReference option"

record Endpoint =
  ep_DomainName :: string
  ep_Type :: string
  ep_IAMURL :: string
  ep_STSURL :: string

record ManagedObjectStorageSpec =
  oss_Name :: string
  oss_Region :: string
  oss_ConfiguredStatus :: string
  oss_Networks :: "MOSNetworkAttachment list"
  oss_TerminationProtection :: bool
  oss_Labels :: UpCloudLabels
  oss_DeletionPolicy :: DeletionPolicy

record ManagedObjectStorageStatus =
  ost_Conditions :: "Condition list"
  ost_UUID :: string
  ost_OperationalState :: string
  ost_Endpoints :: "Endpoint list"

type_synonym ManagedObjectStorage = "(ManagedObjectStorageSpec, ManagedObjectStorageStatus) CR"

definition ManagedObjectStorage_Object :: "ManagedObjectStorage Object" where
  "ManagedObjectStorage_Object = crObject ost_Conditions (\<lambda>cs st. st\<lparr>ost_Conditions := cs\<rparr>)
     oss_DeletionPolicy ost_UUID ''*v1alpha1.ManagedObjectStorage''"

definition ManagedObjectStorage_ExternalName :: "ManagedObjectStorage \<Rightarrow> string" where
  "ManagedObjectStorage_ExternalName s = nameOrMeta (oss_Name (Spec s)) (Meta s)"

definition ManagedObjectStorage_DesiredConfiguredStatus :: "ManagedObjectStorage \<Rightarrow> string" where
  "ManagedObjectStorage_DesiredConfiguredStatus s =
     (if oss_ConfiguredStatus (Spec s) = '''' then ''started'' else oss_ConfiguredStatus (Spec s))"

interpretation managedobjectstorage_object: managed_object ManagedObjectStorage_Object
  unfolding ManagedObjectStorage_Object_def by (rule crObject_managed) simp_all

lemma ManagedObjectStorage_Object_sel [simp]:
  "GetMeta ManagedObjectStorage_Object = Meta" "GetExternalID ManagedObjectStorage_Object s = ost_UUID (Status s)"
  "GetDeletionPolicy ManagedObjectStorage_Object s = oss_DeletionPolicy (Spec s)"
  by (simp_all add: ManagedObjectStorage_Object_def)

subsection \<open>ObjectStorageUser\<close>

record ObjectStorageUserSpec =
  ous_ServiceRef :: LocalObjectReference
  ous_Username :: string
  ous_Policies :: "string list"
  ous_PolicyRefs :: "LocalObjectReference list"
  ous_DeletionPolicy :: DeletionPolicy

record ObjectStorageUserStatus =
  oust_Conditions :: "Condition list"
  oust_ServiceUUID :: string
  oust_Username :: string
  oust_ARN :: string
  oust_AttachedPolicies :: "string list"

type_synonym ObjectStorageUser = "(ObjectStorageUserSpec, ObjectStorageUserStatus) CR"

definition ObjectStorageUser_Object :: "ObjectStorageUser Object" where
  "ObjectStorageUser_Object = crObject oust_Conditions (\<lambda>cs st. st\<lparr>oust_Conditions := cs\<rparr>)
     ous_DeletionPolicy oust_Username ''*v1alpha1.ObjectStorageUser''"

definition ObjectStorageUser_ExternalUsername :: "ObjectStorageUser \<Rightarrow> string" where
  "ObjectStorageUser_ExternalUsername u = nameOrMeta (ous_Username (Spec u)) (Meta u)"

definition ObjectStorageUser_RefNames :: "ObjectStorageUser \<Rightarrow> string list" where
  "ObjectStorageUser_RefNames u = [lor_Name (ous_ServiceRef (Spec u))]"

definition ObjectStorageUser_PolicyRefNames :: "ObjectStorageUser \<Rightarrow> string list" where
  "ObjectStorageUser_PolicyRefNames u = map lor_Name (ous_PolicyRefs (Spec u))"

interpretation objectstorageuser_object: managed_object ObjectStorageUser_Object
  unfolding ObjectStorageUser_Object_def by (rule crObject_managed) simp_all

lemma ObjectStorageUser_Object_sel [simp]:
  "GetMeta ObjectStorageUser_Object = Meta" "GetExternalID ObjectStorageUser_Object u = oust_Username (Status u)"
  "GetDeletionPolicy ObjectStorageUser_Object u = ous_DeletionPolicy (Spec u)"
  by (simp_all add: ObjectStorageUser_Object_def)

subsection \<open>ObjectStorageAccessKey\<close>

record ObjectStorageAccessKeySpec =
  oas_UserRef :: LocalObjectReference
  oas_Status :: string
  oas_SecretName :: string
  oas_DeletionPolicy :: DeletionPolicy

record ObjectStorageAccessKeyStatus =
  oast_Conditions :: "Condition list"
  oast_ServiceUUID :: string
  oast_Username :: string
  oast_AccessKeyID :: string
  oast_CreatedAt :: string

type_synonym ObjectStorageAccessKey = "(ObjectStorageAccessKeySpec, ObjectStorageAccessKeyStatus) CR"

definition ObjectStorageAccessKey_Object :: "ObjectStorageAccessKey Object" where
  "ObjectStorageAccessKey_Object = crObject oast_Conditions (\<lambda>cs st. st\<lparr>oast_Conditions := cs\<rparr>)
     oas_DeletionPolicy oast_AccessKeyID ''*v1alpha1.ObjectStorageAccessKey''"

definition ObjectStorageAccessKey_SecretKeyName :: "ObjectStorageAccessKey \<Rightarrow> string" where
  "ObjectStorageAccessKey_SecretKeyName k =
     (if oas_SecretName (Spec k) \<noteq> '''' then oas_SecretName (Spec k) else om_Name (Meta k) @ ''-s3'')"

definition ObjectStorageAccessKey_RefNames :: "ObjectStorageAccessKey \<Rightarrow> string list" where
  "ObjectStorageAccessKey_RefNames k = [lor_Name (oas_UserRef (Spec k))]"

interpretation objectstorageaccesskey_object: managed_object ObjectStorageAccessKey_Object
  unfolding ObjectStorageAccessKey_Object_def by (rule crObject_managed) simp_all

lemma ObjectStorageAccessKey_Object_sel [simp]:
  "GetMeta ObjectStorageAccessKey_Object = Meta" "GetExternalID ObjectStorageAccessKey_Object k = oast_AccessKeyID (Status k)"
  "GetDeletionPolicy ObjectStorageAccessKey_Object k = oas_DeletionPolicy (Spec k)"
  by (simp_all add: ObjectStorageAccessKey_Object_def)

subsection \<open>ObjectStoragePolicy\<close>

record ObjectStoragePolicySpec =
  ops_ServiceRef :: LocalObjectReference
  ops_Name :: string
  ops_Description :: string
  ops_Document :: string
  ops_DeletionPolicy :: DeletionPolicy

record ObjectStoragePolicyStatus =
  opst_Conditions :: "Condition list"
  opst_ServiceUUID :: string
  opst_Name :: string
  opst_ARN :: string
  opst_DefaultVersionID :: string

type_synonym ObjectStoragePolicy = "(ObjectStoragePolicySpec, ObjectStoragePolicyStatus) CR"

definition ObjectStoragePolicy_Object :: "ObjectStoragePolicy Object" where
  "ObjectStoragePolicy_Object = crObject opst_Conditions (\<lambda>cs st. st\<lparr>opst_Conditions := cs\<rparr>)
     ops_DeletionPolicy opst_Name ''*v1alpha1.ObjectStoragePolicy''"

definition ObjectStoragePolicy_ExternalName :: "ObjectStoragePolicy \<Rightarrow> string" where
  "ObjectStoragePolicy_ExternalName p = nameOrMeta (ops_Name (Spec p)) (Meta p)"

interpretation objectstoragepolicy_object: managed_object ObjectStoragePolicy_Object
  unfolding ObjectStoragePolicy_Object_def by (rule crObject_managed) simp_all

lemma ObjectStoragePolicy_Object_sel [simp]:
  "GetMeta ObjectStoragePolicy_Object = Meta" "GetExternalID ObjectStoragePolicy_Object p = opst_Name (Status p)"
  "GetDeletionPolicy ObjectStoragePolicy_Object p = ops_DeletionPolicy (Spec p)"
  by (simp_all add: ObjectStoragePolicy_Object_def)

subsection \<open>ObjectStorageBucket\<close>

record ObjectStorageBucketSpec =
  obs_ServiceRef :: LocalObjectReference
  obs_Name :: string
  obs_DeletionPolicy :: DeletionPolicy

record ObjectStorageBucketStatus =
  obst_Conditions :: "Condition list"
  obst_ServiceUUID :: string
  obst_Name :: string
  obst_TotalObjects :: int
  obst_TotalSizeBytes :: int

type_synonym ObjectStorageBucket = "(ObjectStorageBucketSpec, ObjectStorageBucketStatus) CR"

definition ObjectStorageBucket_Object :: "ObjectStorageBucket Object" where
  "ObjectStorageBucket_Object = crObject obst_Conditions (\<lambda>cs st. st\<lparr>obst_Conditions := cs\<rparr>)
     obs_DeletionPolicy obst_Name ''*v1alpha1.ObjectStorageBucket''"

definition ObjectStorageBucket_ExternalName :: "ObjectStorageBucket \<Rightarrow> string" where
  "ObjectStorageBucket_ExternalName b = nameOrMeta (obs_Name (Spec b)) (Meta b)"

definition ObjectStorageBucket_RefNames :: "ObjectStorageBucket \<Rightarrow> string list" where
  "ObjectStorageBucket_RefNames b = [lor_Name (obs_ServiceRef (Spec b))]"

interpretation objectstoragebucket_object: managed_object ObjectStorageBucket_Object
  unfolding ObjectStorageBucket_Object_def by (rule crObject_managed) simp_all

lemma ObjectStorageBucket_Object_sel [simp]:
  "GetMeta ObjectStorageBucket_Object = Meta" "GetExternalID ObjectStorageBucket_Object b = obst_Name (Status b)"
  "GetDeletionPolicy ObjectStorageBucket_Object b = obs_DeletionPolicy (Spec b)"
  by (simp_all add: ObjectStorageBucket_Object_def)

subsection \<open>ObjectStorageCustomDomain\<close>

record ObjectStorageCustomDomainSpec =
  ods_ServiceRef :: LocalObjectReference
  ods_DomainName :: string
  ods_Type :: string
  ods_DeletionPolicy :: DeletionPolicy

record ObjectStorageCustomDomainStatus =
  odst_Conditions :: "Condition list"
  odst_ServiceUUID :: string
  odst_DomainName :: string
  odst_Type :: string

type_synonym ObjectStorageCustomDomain = "(ObjectStorageCustomDomainSpec, ObjectStorageCustomDomainStatus) CR"

definition ObjectStorageCustomDomain_Object :: "ObjectStorageCustomDomain Object" where
  "ObjectStorageCustomDomain_Object = crObject odst_Conditions (\<lambda>cs st. st\<lparr>odst_Conditions := cs\<rparr>)
     ods_DeletionPolicy odst_DomainName ''*v1alpha1.ObjectStorageCustomDomain''"

definition ObjectStorageCustomDomain_RefNames :: "ObjectStorageCustomDomain \<Rightarrow> string list" where
  "ObjectStorageCustomDomain_RefNames d = [lor_Name (ods_ServiceRef (Spec d))]"

interpretation objectstoragecustomdomain_object: managed_object ObjectStorageCustomDomain_Object
  unfolding ObjectStorageCustomDomain_Object_def by (rule crObject_managed) simp_all

lemma ObjectStorageCustomDomain_Object_sel [simp]:
  "GetMeta ObjectStorageCustomDomain_Object = Meta" "GetExternalID ObjectStorageCustomDomain_Object d = odst_DomainName (Status d)"
  "GetDeletionPolicy ObjectStorageCustomDomain_Object d = ods_DeletionPolicy (Spec d)"
  by (simp_all add: ObjectStorageCustomDomain_Object_def)

end
