(* ===== verification/GoTime.thy ===== *)
theory GoTime
  imports Prelude
begin

text \<open>
  The part of Go's package \<open>time\<close> that the operator uses: the zero time and formatting in
  UTC.
\<close>

text \<open>A \<open>time.Time\<close>, as its clock reading in UTC.\<close>

record Time =
  tm_Year :: nat
  tm_Month :: nat
  tm_Day :: nat
  tm_Hour :: nat
  tm_Minute :: nat
  tm_Second :: nat
  tm_Nanosecond :: nat

definition zeroTime :: Time where
  "zeroTime = \<lparr>tm_Year = 1, tm_Month = 1, tm_Day = 1, tm_Hour = 0, tm_Minute = 0, tm_Second = 0, tm_Nanosecond = 0\<rparr>"

definition fmt_02d :: "nat \<Rightarrow> string" where
  "fmt_02d n = replicate (2 - length (fmt_d n)) (CHR ''0'') @ fmt_d n"

text \<open>\<open>IsZero\<close>, and \<open>Format\<close> with the layout \<open>2006-01-02T15:04:05Z\<close>, which is also what
  \<open>RFC3339\<close> gives for a time in UTC.\<close>

definition Time_IsZero :: "Time \<Rightarrow> bool" where
  "Time_IsZero t \<longleftrightarrow> t = zeroTime"

definition Time_Format :: "Time \<Rightarrow> string" where
  "Time_Format t = fmt_04d (tm_Year t) @ ''-'' @ fmt_02d (tm_Month t) @ ''-'' @ fmt_02d (tm_Day t) @ ''T'' @
     fmt_02d (tm_Hour t) @ '':'' @ fmt_02d (tm_Minute t) @ '':'' @ fmt_02d (tm_Second t) @ ''Z''"

end
