(* ===== verification/ObjectStorageAPI.thy ===== *)
theory ObjectStorageAPI
  imports CloudTable ObjectStorageTypes GoTime
begin

text \<open>
  \<open>internal/upcloudapi/objectstorage.go\<close>: the interface \<open>ObjectStorageAPI\<close> with the SDK
  structs as far as the operator uses them, and the contract \<open>object_storage_service\<close>. The
  contract is stated over an abstract account, the record \<open>OSView\<close>: a table of services
  and, per service, its custom domains, users, the policies attached to each user, the
  access keys of each user, policies, and the list of buckets that the metrics show.
\<close>

subsection \<open>SDK types\<close>

record upMOSNetwork =
  umn_Name :: string
  umn_Type :: string
  umn_Family :: string
  umn_UUID :: "string option"

record upEndpoint =
  uep_DomainName :: string
  uep_Type :: string
  uep_IAMURL :: string
  uep_STSURL :: string

record upCustomDomain =
  ucd_DomainName :: string
  ucd_Type :: string

record upObjectStorage =
  uos_UUID :: string
  uos_Name :: string
  uos_Region :: string
  uos_ConfiguredStatus :: string
  uos_OperationalState :: string
  uos_TerminationProtection :: bool
  uos_Labels :: "Label list"
  uos_Networks :: "upMOSNetwork list"
  uos_Endpoints :: "upEndpoint list"
  uos_CustomDomains :: "upCustomDomain list"

record upOSPolicy =
  upo_Name :: string
  upo_Description :: string
  upo_Document :: string
  upo_ARN :: string
  upo_DefaultVersionID :: string
  upo_System :: bool

record upAccessKey =
  uak_AccessKeyID :: string
  uak_Status :: string
  uak_SecretAccessKey :: "string option"
  uak_CreatedAt :: Time

record upOSUser =
  uou_Username :: string
  uou_ARN :: string
  uou_Policies :: "upOSPolicy list"
  uou_AccessKeys :: "upAccessKey list"

record upUserPolicy =
  uup_ARN :: string
  uup_Name :: string

record upBucket =
  ubk_Name :: string
  ubk_Deleted :: bool
  ubk_TotalObjects :: int
  ubk_TotalSizeBytes :: int

definition ConfiguredStarted :: string where "ConfiguredStarted = ''started''"
definition ConfiguredStopped :: string where "ConfiguredStopped = ''stopped''"
definition OperationalRunning :: string where "OperationalRunning = ''running''"
definition OperationalStopped :: string where "OperationalStopped = ''stopped''"
definition OperationalDeleteService :: string where "OperationalDeleteService = ''delete-service''"
definition OperationalDeleteDNS :: string where "OperationalDeleteDNS = ''delete-dns''"
definition OperationalDeleteNetwork :: string where "OperationalDeleteNetwork = ''delete-network''"
definition KeyActive :: string where "KeyActive = ''Active''"

subsection \<open>Requests\<close>

text \<open>
  Calls whose request holds the service, a name and nothing else take these as
  arguments; the bucket metrics take a page.
\<close>

record CreateObjectStorageRequest =
  cos_Name :: string
  cos_Region :: string
  cos_ConfiguredStatus :: string
  cos_Networks :: "upMOSNetwork list"
  cos_TerminationProtection :: bool
  cos_Labels :: "Label list"

record ModifyObjectStorageRequest =
  mos_UUID :: string
  mos_Name :: "string option"
  mos_ConfiguredStatus :: "string option"
  mos_TerminationProtection :: "bool option"
  mos_Labels :: "Label list option"
  mos_Networks :: "upMOSNetwork list option"

record DeleteObjectStorageRequest =
  dos_UUID :: string
  dos_Force :: bool

record CreateOSPolicyRequest =
  cop_Name :: string
  cop_Description :: string
  cop_Document :: string

record Page =
  page_Size :: int
  page_Number :: int

subsection \<open>The interface\<close>

record 's ObjectStorageAPI =
  CreateManagedObjectStorage :: "CreateObjectStorageRequest \<Rightarrow> 's \<Rightarrow> (err + upObjectStorage) \<times> 's"
  GetManagedObjectStorages :: "unit \<Rightarrow> 's \<Rightarrow> (err + upObjectStorage list) \<times> 's"
  GetManagedObjectStorage :: "string \<Rightarrow> 's \<Rightarrow> (err + upObjectStorage) \<times> 's"
  ModifyManagedObjectStorage :: "ModifyObjectStorageRequest \<Rightarrow> 's \<Rightarrow> (err + upObjectStorage) \<times> 's"
  DeleteManagedObjectStorage :: "DeleteObjectStorageRequest \<Rightarrow> 's \<Rightarrow> err option \<times> 's"
  CreateManagedObjectStorageUser :: "string \<Rightarrow> string \<Rightarrow> 's \<Rightarrow> (err + upOSUser) \<times> 's"
  GetManagedObjectStorageUsers :: "string \<Rightarrow> 's \<Rightarrow> (err + upOSUser list) \<times> 's"
  GetManagedObjectStorageUser :: "string \<Rightarrow> string \<Rightarrow> 's \<Rightarrow> (err + upOSUser) \<times> 's"
  DeleteManagedObjectStorageUser :: "string \<Rightarrow> string \<Rightarrow> 's \<Rightarrow> err option \<times> 's"
  AttachManagedObjectStorageUserPolicy :: "string \<Rightarrow> string \<Rightarrow> string \<Rightarrow> 's \<Rightarrow> err option \<times> 's"
  DetachManagedObjectStorageUserPolicy :: "string \<Rightarrow> string \<Rightarrow> string \<Rightarrow> 's \<Rightarrow> err option \<times> 's"
  GetManagedObjectStorageUserPolicies :: "string \<Rightarrow> string \<Rightarrow> 's \<Rightarrow> (err + upUserPolicy list) \<times> 's"
  CreateManagedObjectStorageUserAccessKey :: "string \<Rightarrow> string \<Rightarrow> 's \<Rightarrow> (err + upAccessKey) \<times> 's"
  GetManagedObjectStorageUserAccessKeys :: "string \<Rightarrow> string \<Rightarrow> 's \<Rightarrow> (err + upAccessKey list) \<times> 's"
  GetManagedObjectStorageUserAccessKey :: "string \<Rightarrow> string \<Rightarrow> string \<Rightarrow> 's \<Rightarrow> (err + upAccessKey) \<times> 's"
  ModifyManagedObjectStorageUserAccessKey ::
    "string \<Rightarrow> string \<Rightarrow> string \<Rightarrow> string \<Rightarrow> 's \<Rightarrow> (err + upAccessKey) \<times> 's"
  DeleteManagedObjectStorageUserAccessKey :: "string \<Rightarrow> string \<Rightarrow> string \<Rightarrow> 's \<Rightarrow> err option \<times> 's"
  CreateManagedObjectStoragePolicy :: "string \<Rightarrow> CreateOSPolicyRequest \<Rightarrow> 's \<Rightarrow> (err + upOSPolicy) \<times> 's"
  GetManagedObjectStoragePolicies :: "string \<Rightarrow> 's \<Rightarrow> (err + upOSPolicy list) \<times> 's"
  GetManagedObjectStoragePolicy :: "string \<Rightarrow> string \<Rightarrow> 's \<Rightarrow> (err + upOSPolicy) \<times> 's"
  DeleteManagedObjectStoragePolicy :: "string \<Rightarrow> string \<Rightarrow> 's \<Rightarrow> err option \<times> 's"
  CreateManagedObjectStorageBucket :: "string \<Rightarrow> string \<Rightarrow> 's \<Rightarrow> (err + upBucket) \<times> 's"
  DeleteManagedObjectStorageBucket :: "string \<Rightarrow> string \<Rightarrow> 's \<Rightarrow> err option \<times> 's"
  GetManagedObjectStorageBucketMetrics :: "string \<Rightarrow> Page option \<Rightarrow> 's \<Rightarrow> (err + upBucket list) \<times> 's"
  CreateManagedObjectStorageCustomDomain :: "string \<Rightarrow> string \<Rightarrow> string \<Rightarrow> 's \<Rightarrow> err option \<times> 's"
  GetManagedObjectStorageCustomDomains :: "string \<Rightarrow> 's \<Rightarrow> (err + upCustomDomain list) \<times> 's"
  GetManagedObjectStorageCustomDomain :: "string \<Rightarrow> string \<Rightarrow> 's \<Rightarrow> (err + upCustomDomain) \<times> 's"
  ModifyManagedObjectStorageCustomDomain :: "string \<Rightarrow> string \<Rightarrow> string \<Rightarrow> 's \<Rightarrow> (err + upCustomDomain) \<times> 's"
  DeleteManagedObjectStorageCustomDomain :: "string \<Rightarrow> string \<Rightarrow> 's \<Rightarrow> err option \<times> 's"

subsection \<open>The abstract account\<close>

record OSView =
  ov_Services :: "string \<Rightarrow> upObjectStorage option"
  ov_Domains :: "string \<Rightarrow> string \<Rightarrow> upCustomDomain option"
  ov_Users :: "string \<Rightarrow> string \<Rightarrow> string option"
  ov_Attached :: "string \<Rightarrow> string \<Rightarrow> string set"
  ov_Keys :: "string \<Rightarrow> string \<Rightarrow> string \<Rightarrow> string option"
  ov_Policies :: "string \<Rightarrow> string \<Rightarrow> upOSPolicy option"
  ov_Buckets :: "string \<Rightarrow> upBucket list"

text \<open>A service without its state, which changes on its own, and its domains.\<close>

definition os_core :: "upObjectStorage \<Rightarrow> upObjectStorage" where
  "os_core d = d\<lparr>uos_OperationalState := '''', uos_CustomDomains := []\<rparr>"

lemma os_core_sel [simp]:
  "uos_UUID (os_core d) = uos_UUID d" "uos_Name (os_core d) = uos_Name d" "uos_Region (os_core d) = uos_Region d"
  "uos_ConfiguredStatus (os_core d) = uos_ConfiguredStatus d" "uos_Labels (os_core d) = uos_Labels d"
  "uos_TerminationProtection (os_core d) = uos_TerminationProtection d" "uos_Networks (os_core d) = uos_Networks d"
  "uos_Endpoints (os_core d) = uos_Endpoints d" "os_core (os_core d) = os_core d"
  "os_core (d\<lparr>uos_OperationalState := st\<rparr>) = os_core d" "os_core (d\<lparr>uos_CustomDomains := ds\<rparr>) = os_core d"
  by (simp_all add: os_core_def)

definition without_service :: "string \<Rightarrow> OSView \<Rightarrow> OSView" where
  "without_service u v =
     v\<lparr>ov_Services := (ov_Services v)(u := None), ov_Domains := (ov_Domains v)(u := \<lambda>_. None),
       ov_Users := (ov_Users v)(u := \<lambda>_. None), ov_Attached := (ov_Attached v)(u := \<lambda>_. {}),
       ov_Keys := (ov_Keys v)(u := \<lambda>_ _. None), ov_Policies := (ov_Policies v)(u := \<lambda>_. None),
       ov_Buckets := (ov_Buckets v)(u := [])\<rparr>"

definition os_built :: "CreateObjectStorageRequest \<Rightarrow> upObjectStorage \<Rightarrow> bool" where
  "os_built c d \<longleftrightarrow> uos_Name d = cos_Name c \<and> uos_Region d = cos_Region c \<and>
     uos_ConfiguredStatus d = cos_ConfiguredStatus c \<and> uos_Networks d = cos_Networks c \<and>
     uos_TerminationProtection d = cos_TerminationProtection c \<and> uos_Labels d = cos_Labels c"

definition os_patched :: "ModifyObjectStorageRequest \<Rightarrow> upObjectStorage \<Rightarrow> upObjectStorage" where
  "os_patched m d =
     d\<lparr>uos_Name := orElse (uos_Name d) (mos_Name m),
       uos_ConfiguredStatus := orElse (uos_ConfiguredStatus d) (mos_ConfiguredStatus m),
       uos_TerminationProtection := orElse (uos_TerminationProtection d) (mos_TerminationProtection m),
       uos_Labels := orElse (uos_Labels d) (mos_Labels m), uos_Networks := orElse (uos_Networks d) (mos_Networks m)\<rparr>"

definition live :: "upBucket list \<Rightarrow> string \<Rightarrow> upBucket option" where
  "live bs n = find (\<lambda>b. ubk_Name b = n \<and> \<not> ubk_Deleted b) bs"

subsection \<open>The contract\<close>

text \<open>
  A read leaves the account alone, a failed call too, and a 404 tells the truth. Services
  with buckets or termination protection are not deleted unless the request forces it, and
  buckets with objects and policies attached to a user never are. The service of a successful delete call, and the bucket, may stay
  visible for a while. Bucket metrics come in pages of one list.
\<close>

locale object_storage_service =
  svc: listed_table inv "\<lambda>s. ov_Services (view s)" "\<lambda>s. (view s)\<lparr>ov_Services := \<lambda>_. None\<rparr>" uos_UUID
    "seen os_core (GetManagedObjectStorage api)" "seen os_core (CreateManagedObjectStorage api)" os_built uos_Labels
    "\<lambda>m. seen (map os_core) (GetManagedObjectStorages api) ()" +
  svc: patchable_table inv "\<lambda>s. ov_Services (view s)" "\<lambda>s. (view s)\<lparr>ov_Services := \<lambda>_. None\<rparr>" uos_UUID
    "seen os_core (GetManagedObjectStorage api)" "seen os_core (CreateManagedObjectStorage api)" os_built
    "seen os_core (ModifyManagedObjectStorage api)" mos_UUID os_patched
  for api :: "'s ObjectStorageAPI" and inv :: "'s \<Rightarrow> bool" and view :: "'s \<Rightarrow> OSView" +
  assumes svc_delete: "inv s \<Longrightarrow> DeleteManagedObjectStorage api r s = (e, s') \<Longrightarrow>
      inv s' \<and> (view s' = view s \<or> e = None \<and> view s' = without_service (dos_UUID r) (view s)) \<and>
      (IsNotFound e \<longrightarrow> ov_Services (view s) (dos_UUID r) = None) \<and>
      (\<not> dos_Force r \<longrightarrow> ov_Buckets (view s) (dos_UUID r) \<noteq> [] \<or>
         (\<exists>d. ov_Services (view s) (dos_UUID r) = Some d \<and> uos_TerminationProtection d) \<longrightarrow> view s' = view s)"
    and user_get: "inv s \<Longrightarrow> GetManagedObjectStorageUser api i n s = (ru, s') \<Longrightarrow> inv s' \<and> view s' = view s \<and>
      (case ru of
         Inl e \<Rightarrow> IsNotFound (Some e) \<longrightarrow> ov_Users (view s) i n = None
       | Inr x \<Rightarrow> uou_Username x = n \<and> ov_Users (view s) i n = Some (uou_ARN x) \<and>
           upo_Name ` set (uou_Policies x) = ov_Attached (view s) i n \<and>
           uak_AccessKeyID ` set (uou_AccessKeys x) = dom (ov_Keys (view s) i n))"
    and user_create: "inv s \<Longrightarrow> CreateManagedObjectStorageUser api i n s = (ru, s') \<Longrightarrow> inv s' \<and>
      (case ru of
         Inl e \<Rightarrow> view s' = view s
       | Inr x \<Rightarrow> ov_Users (view s) i n = None \<and> ov_Attached (view s) i n = {} \<and> ov_Keys (view s) i n = (\<lambda>_. None) \<and>
           uou_Username x = n \<and> view s' = (view s)\<lparr>ov_Users := put2 (ov_Users (view s)) i n (Some (uou_ARN x))\<rparr>)"
    and user_delete: "inv s \<Longrightarrow> DeleteManagedObjectStorageUser api i n s = (e, s') \<Longrightarrow> inv s' \<and>
      (case e of
         None \<Rightarrow> view s' = (view s)\<lparr>ov_Users := put2 (ov_Users (view s)) i n None,
           ov_Attached := put2 (ov_Attached (view s)) i n {}, ov_Keys := put2 (ov_Keys (view s)) i n (\<lambda>_. None)\<rparr>
       | Some x \<Rightarrow> view s' = view s \<and> (IsNotFound e \<longrightarrow> ov_Users (view s) i n = None))"
    and attach: "inv s \<Longrightarrow> AttachManagedObjectStorageUserPolicy api i n p s = (e, s') \<Longrightarrow> inv s' \<and>
      (case e of
         None \<Rightarrow> view s' = (view s)\<lparr>ov_Attached := put2 (ov_Attached (view s)) i n (insert p (ov_Attached (view s) i n))\<rparr>
       | Some x \<Rightarrow> view s' = view s)"
    and detach: "inv s \<Longrightarrow> DetachManagedObjectStorageUserPolicy api i n p s = (e, s') \<Longrightarrow> inv s' \<and>
      (case e of
         None \<Rightarrow> view s' = (view s)\<lparr>ov_Attached := put2 (ov_Attached (view s)) i n (ov_Attached (view s) i n - {p})\<rparr>
       | Some x \<Rightarrow> view s' = view s \<and> (IsNotFound e \<longrightarrow> p \<notin> ov_Attached (view s) i n))"
    and attached: "inv s \<Longrightarrow> GetManagedObjectStorageUserPolicies api i n s = (rp, s') \<Longrightarrow> inv s' \<and> view s' = view s \<and>
      (\<forall>xs. rp = Inr xs \<longrightarrow> distinct (map uup_Name xs) \<and> uup_Name ` set xs = ov_Attached (view s) i n)"
    and key_create: "inv s \<Longrightarrow> CreateManagedObjectStorageUserAccessKey api i n s = (rk, s') \<Longrightarrow> inv s' \<and>
      (case rk of
         Inl e \<Rightarrow> view s' = view s
       | Inr x \<Rightarrow> uak_AccessKeyID x \<noteq> '''' \<and> ov_Keys (view s) i n (uak_AccessKeyID x) = None \<and>
           uak_Status x = KeyActive \<and> uak_SecretAccessKey x \<noteq> None \<and>
           view s' = (view s)\<lparr>ov_Keys := put2 (ov_Keys (view s)) i n
             ((ov_Keys (view s) i n)(uak_AccessKeyID x \<mapsto> uak_Status x))\<rparr>)"
    and key_get: "inv s \<Longrightarrow> GetManagedObjectStorageUserAccessKey api i n k s = (rk, s') \<Longrightarrow> inv s' \<and> view s' = view s \<and>
      (case rk of
         Inl e \<Rightarrow> IsNotFound (Some e) \<longrightarrow> ov_Keys (view s) i n k = None
       | Inr x \<Rightarrow> uak_AccessKeyID x = k \<and> ov_Keys (view s) i n k = Some (uak_Status x))"
    and key_modify: "inv s \<Longrightarrow> ModifyManagedObjectStorageUserAccessKey api i n k st s = (rk, s') \<Longrightarrow> inv s' \<and>
      (case rk of
         Inl e \<Rightarrow> view s' = view s
       | Inr x \<Rightarrow> (\<exists>old. ov_Keys (view s) i n k = Some old \<and> uak_Status x = (if st \<noteq> '''' then st else old)) \<and>
           view s' = (view s)\<lparr>ov_Keys := put2 (ov_Keys (view s)) i n ((ov_Keys (view s) i n)(k \<mapsto> uak_Status x))\<rparr>)"
    and key_delete: "inv s \<Longrightarrow> DeleteManagedObjectStorageUserAccessKey api i n k s = (e, s') \<Longrightarrow> inv s' \<and>
      (case e of
         None \<Rightarrow> view s' = (view s)\<lparr>ov_Keys := put2 (ov_Keys (view s)) i n ((ov_Keys (view s) i n)(k := None))\<rparr>
       | Some x \<Rightarrow> view s' = view s \<and> (IsNotFound e \<longrightarrow> ov_Keys (view s) i n k = None))"
    and policy_create: "inv s \<Longrightarrow> CreateManagedObjectStoragePolicy api i c s = (ro, s') \<Longrightarrow> inv s' \<and>
      (case ro of
         Inl e \<Rightarrow> view s' = view s
       | Inr x \<Rightarrow> ov_Policies (view s) i (cop_Name c) = None \<and> upo_Name x = cop_Name c \<and>
           upo_Description x = cop_Description c \<and> upo_Document x = cop_Document c \<and>
           view s' = (view s)\<lparr>ov_Policies := put2 (ov_Policies (view s)) i (cop_Name c) (Some x)\<rparr>)"
    and policy_get: "inv s \<Longrightarrow> GetManagedObjectStoragePolicy api i n s = (ro, s') \<Longrightarrow> inv s' \<and> view s' = view s \<and>
      (case ro of
         Inl e \<Rightarrow> IsNotFound (Some e) \<longrightarrow> ov_Policies (view s) i n = None
       | Inr x \<Rightarrow> upo_Name x = n \<and> ov_Policies (view s) i n = Some x)"
    and policy_delete: "inv s \<Longrightarrow> DeleteManagedObjectStoragePolicy api i n s = (e, s') \<Longrightarrow> inv s' \<and>
      (case e of
         None \<Rightarrow> (\<forall>u. n \<notin> ov_Attached (view s) i u) \<and>
           view s' = (view s)\<lparr>ov_Policies := put2 (ov_Policies (view s)) i n None\<rparr>
       | Some x \<Rightarrow> view s' = view s \<and> (IsNotFound e \<longrightarrow> ov_Policies (view s) i n = None))"
    and bucket_create: "inv s \<Longrightarrow> CreateManagedObjectStorageBucket api i n s = (rb, s') \<Longrightarrow> inv s' \<and>
      (case rb of
         Inl e \<Rightarrow> view s' = view s
       | Inr x \<Rightarrow> live (ov_Buckets (view s) i) n = None \<and> ubk_Name x = n \<and> \<not> ubk_Deleted x \<and>
           view s' = (view s)\<lparr>ov_Buckets := (ov_Buckets (view s))(i := ov_Buckets (view s) i @ [x])\<rparr>)"
    and bucket_page: "inv s \<Longrightarrow> GetManagedObjectStorageBucketMetrics api i (Some pg) s = (rl, s') \<Longrightarrow>
      0 < page_Size pg \<Longrightarrow> 1 \<le> page_Number pg \<Longrightarrow> inv s' \<and> view s' = view s \<and>
      (\<forall>xs. rl = Inr xs \<longrightarrow>
         xs = take (nat (page_Size pg)) (drop (nat (page_Size pg * (page_Number pg - 1))) (ov_Buckets (view s) i)))"
    and bucket_delete: "inv s \<Longrightarrow> DeleteManagedObjectStorageBucket api i n s = (e, s') \<Longrightarrow> inv s' \<and>
      (\<exists>bs. view s' = (view s)\<lparr>ov_Buckets := (ov_Buckets (view s))(i := bs)\<rparr> \<and>
         (\<forall>m. m \<noteq> n \<longrightarrow> live bs m = live (ov_Buckets (view s) i) m) \<and>
         (live bs n = None \<or> bs = ov_Buckets (view s) i) \<and> (e \<noteq> None \<longrightarrow> bs = ov_Buckets (view s) i) \<and>
         (\<forall>b. live (ov_Buckets (view s) i) n = Some b \<longrightarrow> 0 < ubk_TotalObjects b \<longrightarrow> bs = ov_Buckets (view s) i)) \<and>
      (IsNotFound e \<longrightarrow> live (ov_Buckets (view s) i) n = None)"
    and domain_create: "inv s \<Longrightarrow> CreateManagedObjectStorageCustomDomain api i n t s = (e, s') \<Longrightarrow> inv s' \<and>
      (case e of
         None \<Rightarrow> ov_Domains (view s) i n = None \<and>
           view s' = (view s)\<lparr>ov_Domains := put2 (ov_Domains (view s)) i n (Some \<lparr>ucd_DomainName = n, ucd_Type = t\<rparr>)\<rparr>
       | Some x \<Rightarrow> view s' = view s)"
    and domain_get: "inv s \<Longrightarrow> GetManagedObjectStorageCustomDomain api i n s = (rd, s') \<Longrightarrow> inv s' \<and> view s' = view s \<and>
      (case rd of
         Inl e \<Rightarrow> IsNotFound (Some e) \<longrightarrow> ov_Domains (view s) i n = None
       | Inr x \<Rightarrow> ucd_DomainName x = n \<and> ov_Domains (view s) i n = Some x)"
    and domain_modify: "inv s \<Longrightarrow> ModifyManagedObjectStorageCustomDomain api i n t s = (rd, s') \<Longrightarrow> inv s' \<and>
      (case rd of
         Inl e \<Rightarrow> view s' = view s
       | Inr x \<Rightarrow> (\<exists>y. ov_Domains (view s) i n = Some y \<and> x = y\<lparr>ucd_Type := t\<rparr>) \<and>
           view s' = (view s)\<lparr>ov_Domains := put2 (ov_Domains (view s)) i n (Some x)\<rparr>)"
    and domain_delete: "inv s \<Longrightarrow> DeleteManagedObjectStorageCustomDomain api i n s = (e, s') \<Longrightarrow> inv s' \<and>
      (case e of
         None \<Rightarrow> view s' = (view s)\<lparr>ov_Domains := put2 (ov_Domains (view s)) i n None\<rparr>
       | Some x \<Rightarrow> view s' = view s \<and> (IsNotFound e \<longrightarrow> ov_Domains (view s) i n = None))"

end
