(* ===== verification/ObjectStorageFake.thy ===== *)
theory ObjectStorageFake
  imports FakeTable ObjectStorageAPI JsonValues
begin

text \<open>
  \<open>internal/upcloudapi/fake/objectstorage.go\<close>: the in-memory object storage service, and
  the proof that it keeps the contract \<open>object_storage_service\<close>. \<open>of_order\<close> is the order
  in which Go ranges over a map at the call with that number. What a call returns is a
  value here; in the code a returned user shares its slices with the stored one, which
  one call makes visible (\<open>DetachInPlace\<close>).
\<close>

subsection \<open>State\<close>

record ObjectStorageFake =
  of_seq :: nat
  of_Services :: "(string, upObjectStorage) gomap"
  of_Users :: "(string, upOSUser list) gomap"
  of_Policies :: "(string, upOSPolicy list) gomap"
  of_Buckets :: "(string, upBucket list) gomap"
  of_KeySecrets :: "(string, string) gomap"
  of_Calls :: "string list"
  of_StateOverride :: string
  of_FailNext :: "err option"
  of_order :: "nat \<Rightarrow> nat list"

definition NewObjectStorageAPI :: ObjectStorageFake where
  "NewObjectStorageAPI = \<lparr>of_seq = 0, of_Services = [], of_Users = [], of_Policies = [], of_Buckets = [],
     of_KeySecrets = [], of_Calls = [], of_StateOverride = '''', of_FailNext = None, of_order = (\<lambda>_. [])\<rparr>"

definition of_call :: "string \<Rightarrow> ObjectStorageFake \<Rightarrow> ObjectStorageFake" where
  "of_call name f = f\<lparr>of_Calls := of_Calls f @ [name]\<rparr>"

definition of_record :: "string \<Rightarrow> ObjectStorageFake \<Rightarrow> err option \<times> ObjectStorageFake" where
  "of_record name f =
     (let f1 = f\<lparr>of_Calls := of_Calls f @ [name]\<rparr> in
      case of_FailNext f1 of
        Some e \<Rightarrow> (Some e, f1\<lparr>of_FailNext := None\<rparr>)
      | None \<Rightarrow> (None, f1))"

definition of_nextUUID :: "string \<Rightarrow> ObjectStorageFake \<Rightarrow> string \<times> ObjectStorageFake" where
  "of_nextUUID prefix f = (let n = Suc (of_seq f) in (uuid prefix n, f\<lparr>of_seq := n\<rparr>))"

definition of_copyService :: "ObjectStorageFake \<Rightarrow> upObjectStorage \<Rightarrow> upObjectStorage" where
  "of_copyService f svc =
     (if of_StateOverride f \<noteq> '''' then svc\<lparr>uos_OperationalState := of_StateOverride f\<rparr> else svc)"

definition of_range :: "ObjectStorageFake \<Rightarrow> (string, 'v) gomap \<Rightarrow> 'v list" where
  "of_range f m = map snd (gm_range (of_order f (length (of_Calls f))) m)"

text \<open>A missing key of a Go map reads as the zero value.\<close>

definition of_users :: "ObjectStorageFake \<Rightarrow> string \<Rightarrow> upOSUser list" where
  "of_users f i = (case gm_get (of_Users f) i of None \<Rightarrow> [] | Some xs \<Rightarrow> xs)"

definition of_policies :: "ObjectStorageFake \<Rightarrow> string \<Rightarrow> upOSPolicy list" where
  "of_policies f i = (case gm_get (of_Policies f) i of None \<Rightarrow> [] | Some xs \<Rightarrow> xs)"

definition of_buckets :: "ObjectStorageFake \<Rightarrow> string \<Rightarrow> upBucket list" where
  "of_buckets f i = (case gm_get (of_Buckets f) i of None \<Rightarrow> [] | Some xs \<Rightarrow> xs)"

definition of_findUser :: "ObjectStorageFake \<Rightarrow> string \<Rightarrow> string \<Rightarrow> upOSUser option" where
  "of_findUser f svcUUID username = findBy uou_Username (of_users f svcUUID) username"

definition of_findKey :: "ObjectStorageFake \<Rightarrow> string \<Rightarrow> string \<Rightarrow> string \<Rightarrow> upAccessKey option" where
  "of_findKey f svcUUID username accessKeyID =
     (case of_findUser f svcUUID username of
        None \<Rightarrow> None
      | Some u \<Rightarrow> findBy uak_AccessKeyID (uou_AccessKeys u) accessKeyID)"

definition of_findPolicy :: "ObjectStorageFake \<Rightarrow> string \<Rightarrow> string \<Rightarrow> upOSPolicy option" where
  "of_findPolicy f svcUUID name = findBy upo_Name (of_policies f svcUUID) name"

definition of_findBucket :: "ObjectStorageFake \<Rightarrow> string \<Rightarrow> string \<Rightarrow> upBucket option" where
  "of_findBucket f svcUUID name = findBy ubk_Name (of_buckets f svcUUID) name"

definition of_findDomain :: "ObjectStorageFake \<Rightarrow> string \<Rightarrow> string \<Rightarrow> upCustomDomain option" where
  "of_findDomain f svcUUID domainName =
     (case gm_get (of_Services f) svcUUID of
        None \<Rightarrow> None
      | Some svc \<Rightarrow> findBy ucd_DomainName (uos_CustomDomains svc) domainName)"

text \<open>Stores into the maps, and through the pointer that \<open>findUser\<close> returns.\<close>

definition of_putService :: "string \<Rightarrow> upObjectStorage \<Rightarrow> ObjectStorageFake \<Rightarrow> ObjectStorageFake" where
  "of_putService i svc f = f\<lparr>of_Services := gm_put i svc (of_Services f)\<rparr>"

definition of_putUsers :: "string \<Rightarrow> upOSUser list \<Rightarrow> ObjectStorageFake \<Rightarrow> ObjectStorageFake" where
  "of_putUsers i us f = f\<lparr>of_Users := gm_put i us (of_Users f)\<rparr>"

definition of_putPolicies :: "string \<Rightarrow> upOSPolicy list \<Rightarrow> ObjectStorageFake \<Rightarrow> ObjectStorageFake" where
  "of_putPolicies i ps f = f\<lparr>of_Policies := gm_put i ps (of_Policies f)\<rparr>"

definition of_putBuckets :: "string \<Rightarrow> upBucket list \<Rightarrow> ObjectStorageFake \<Rightarrow> ObjectStorageFake" where
  "of_putBuckets i bs f = f\<lparr>of_Buckets := gm_put i bs (of_Buckets f)\<rparr>"

definition of_setUser :: "string \<Rightarrow> string \<Rightarrow> upOSUser \<Rightarrow> ObjectStorageFake \<Rightarrow> ObjectStorageFake" where
  "of_setUser i username u f = of_putUsers i (setFirst uou_Username username u (of_users f i)) f"

subsection \<open>Services\<close>

definition fake_CreateManagedObjectStorage ::
  "CreateObjectStorageRequest \<Rightarrow> ObjectStorageFake \<Rightarrow> (err + upObjectStorage) \<times> ObjectStorageFake" where
  "fake_CreateManagedObjectStorage r f0 =
     (case of_record ''CreateManagedObjectStorage'' f0 of
        (Some e, f) \<Rightarrow> (Inl e, f)
      | (None, f) \<Rightarrow>
          let (u, f1) = of_nextUUID ''moss'' f;
              operational = (if cos_ConfiguredStatus r = ConfiguredStopped then OperationalStopped else OperationalRunning);
              svc = \<lparr>uos_UUID = u, uos_Name = cos_Name r, uos_Region = cos_Region r,
                     uos_ConfiguredStatus = cos_ConfiguredStatus r, uos_OperationalState = operational,
                     uos_TerminationProtection = cos_TerminationProtection r, uos_Labels = cos_Labels r,
                     uos_Networks = cos_Networks r,
                     uos_Endpoints = [\<lparr>uep_DomainName = u @ ''.upcloudobjects.com'', uep_Type = ''public'',
                                        uep_IAMURL = '''', uep_STSURL = ''''\<rparr>],
                     uos_CustomDomains = []\<rparr>
          in (Inr svc, of_putService u svc f1))"

definition fake_GetManagedObjectStorage ::
  "string \<Rightarrow> ObjectStorageFake \<Rightarrow> (err + upObjectStorage) \<times> ObjectStorageFake" where
  "fake_GetManagedObjectStorage u f0 =
     (let f = of_call ''GetManagedObjectStorage'' f0 in
      case gm_get (of_Services f) u of
        None \<Rightarrow> (Inl (NotFound ''object storage''), f)
      | Some svc \<Rightarrow> (Inr (of_copyService f svc), f))"

definition fake_GetManagedObjectStorages ::
  "unit \<Rightarrow> ObjectStorageFake \<Rightarrow> (err + upObjectStorage list) \<times> ObjectStorageFake" where
  "fake_GetManagedObjectStorages r f0 =
     (let f = of_call ''GetManagedObjectStorages'' f0 in
      (Inr (map (of_copyService f) (of_range f (of_Services f))), f))"

definition fake_ModifyManagedObjectStorage ::
  "ModifyObjectStorageRequest \<Rightarrow> ObjectStorageFake \<Rightarrow> (err + upObjectStorage) \<times> ObjectStorageFake" where
  "fake_ModifyManagedObjectStorage r f0 =
     (case of_record ''ModifyManagedObjectStorage'' f0 of
        (Some e, f) \<Rightarrow> (Inl e, f)
      | (None, f) \<Rightarrow>
          (case gm_get (of_Services f) (mos_UUID r) of
             None \<Rightarrow> (Inl (NotFound ''object storage''), f)
           | Some svc \<Rightarrow>
               let s1 = (case mos_Name r of None \<Rightarrow> svc | Some x \<Rightarrow> svc\<lparr>uos_Name := x\<rparr>);
                   s2 = (case mos_ConfiguredStatus r of
                           None \<Rightarrow> s1
                         | Some x \<Rightarrow>
                             let t = s1\<lparr>uos_ConfiguredStatus := x\<rparr> in
                             if x = ConfiguredStarted then t\<lparr>uos_OperationalState := OperationalRunning\<rparr>
                             else if x = ConfiguredStopped then t\<lparr>uos_OperationalState := OperationalStopped\<rparr>
                             else t);
                   s3 = (case mos_TerminationProtection r of None \<Rightarrow> s2 | Some x \<Rightarrow> s2\<lparr>uos_TerminationProtection := x\<rparr>);
                   s4 = (case mos_Labels r of None \<Rightarrow> s3 | Some x \<Rightarrow> s3\<lparr>uos_Labels := x\<rparr>);
                   s5 = (case mos_Networks r of None \<Rightarrow> s4 | Some x \<Rightarrow> s4\<lparr>uos_Networks := x\<rparr>)
               in (Inr s5, of_putService (mos_UUID r) s5 f)))"

definition fake_DeleteManagedObjectStorage ::
  "DeleteObjectStorageRequest \<Rightarrow> ObjectStorageFake \<Rightarrow> err option \<times> ObjectStorageFake" where
  "fake_DeleteManagedObjectStorage r f0 =
     (case of_record ''DeleteManagedObjectStorage'' f0 of
        (Some e, f) \<Rightarrow> (Some e, f)
      | (None, f) \<Rightarrow>
          (case gm_get (of_Services f) (dos_UUID r) of
             None \<Rightarrow> (Some (NotFound ''object storage''), f)
           | Some svc \<Rightarrow>
               if uos_TerminationProtection svc
               then (Some (Problem 409 ''deletion refused, termination protection is enabled''), f)
               else if length (of_buckets f (dos_UUID r)) > 0
               then (Some (Problem 409 ''service has buckets; delete them first''), f)
               else (None, f\<lparr>of_Services := gm_del (dos_UUID r) (of_Services f), of_Users := gm_del (dos_UUID r) (of_Users f),
                             of_Policies := gm_del (dos_UUID r) (of_Policies f), of_Buckets := gm_del (dos_UUID r) (of_Buckets f)\<rparr>)))"

subsection \<open>Users\<close>

definition fake_CreateManagedObjectStorageUser ::
  "string \<Rightarrow> string \<Rightarrow> ObjectStorageFake \<Rightarrow> (err + upOSUser) \<times> ObjectStorageFake" where
  "fake_CreateManagedObjectStorageUser i username f0 =
     (case of_record ''CreateManagedObjectStorageUser'' f0 of
        (Some e, f) \<Rightarrow> (Inl e, f)
      | (None, f) \<Rightarrow>
          (case gm_get (of_Services f) i of
             None \<Rightarrow> (Inl (NotFound ''object storage''), f)
           | Some svc \<Rightarrow>
               if of_findUser f i username \<noteq> None then (Inl (Conflict ''object storage user''), f)
               else
                 let user = \<lparr>uou_Username = username,
                             uou_ARN = ''arn:upcloud:objectstorage:'' @ uos_Region svc @ ''::user/'' @ username,
                             uou_Policies = [], uou_AccessKeys = []\<rparr>
                 in (Inr user, of_putUsers i (of_users f i @ [user]) f)))"

definition fake_GetManagedObjectStorageUser ::
  "string \<Rightarrow> string \<Rightarrow> ObjectStorageFake \<Rightarrow> (err + upOSUser) \<times> ObjectStorageFake" where
  "fake_GetManagedObjectStorageUser i username f0 =
     (let f = of_call ''GetManagedObjectStorageUser'' f0 in
      case gm_get (of_Services f) i of
        None \<Rightarrow> (Inl (NotFound ''object storage''), f)
      | Some _ \<Rightarrow>
          (case of_findUser f i username of
             None \<Rightarrow> (Inl (NotFound ''object storage user''), f)
           | Some user \<Rightarrow> (Inr user, f)))"

definition fake_GetManagedObjectStorageUsers ::
  "string \<Rightarrow> ObjectStorageFake \<Rightarrow> (err + upOSUser list) \<times> ObjectStorageFake" where
  "fake_GetManagedObjectStorageUsers i f0 =
     (let f = of_call ''GetManagedObjectStorageUsers'' f0 in
      case gm_get (of_Services f) i of
        None \<Rightarrow> (Inl (NotFound ''object storage''), f)
      | Some _ \<Rightarrow> (Inr (of_users f i), f))"

definition fake_DeleteManagedObjectStorageUser ::
  "string \<Rightarrow> string \<Rightarrow> ObjectStorageFake \<Rightarrow> err option \<times> ObjectStorageFake" where
  "fake_DeleteManagedObjectStorageUser i username f0 =
     (case of_record ''DeleteManagedObjectStorageUser'' f0 of
        (Some e, f) \<Rightarrow> (Some e, f)
      | (None, f) \<Rightarrow>
          (case gm_get (of_Services f) i of
             None \<Rightarrow> (Some (NotFound ''object storage''), f)
           | Some _ \<Rightarrow>
               (case findBy uou_Username (of_users f i) username of
                  None \<Rightarrow> (Some (NotFound ''object storage user''), f)
                | Some user \<Rightarrow>
                    let f1 = f\<lparr>of_KeySecrets := fold (\<lambda>k m. gm_del (uak_AccessKeyID k) m) (uou_AccessKeys user)
                                                  (of_KeySecrets f)\<rparr>
                    in (None, of_putUsers i (dropFirst uou_Username username (of_users f i)) f1))))"

subsection \<open>Policies of a user\<close>

definition fake_AttachManagedObjectStorageUserPolicy ::
  "string \<Rightarrow> string \<Rightarrow> string \<Rightarrow> ObjectStorageFake \<Rightarrow> err option \<times> ObjectStorageFake" where
  "fake_AttachManagedObjectStorageUserPolicy i username name f0 =
     (case of_record ''AttachManagedObjectStorageUserPolicy'' f0 of
        (Some e, f) \<Rightarrow> (Some e, f)
      | (None, f) \<Rightarrow>
          (case gm_get (of_Services f) i of
             None \<Rightarrow> (Some (NotFound ''object storage''), f)
           | Some _ \<Rightarrow>
               (case of_findUser f i username of
                  None \<Rightarrow> (Some (NotFound ''object storage user''), f)
                | Some user \<Rightarrow>
                    (case of_findPolicy f i name of
                       None \<Rightarrow> (Some (NotFound ''object storage policy''), f)
                     | Some pol \<Rightarrow>
                         if list_ex (\<lambda>p. upo_Name p = name) (uou_Policies user) then (None, f)
                         else (None, of_setUser i username (user\<lparr>uou_Policies := uou_Policies user @ [pol]\<rparr>) f)))))"

definition fake_DetachManagedObjectStorageUserPolicy ::
  "string \<Rightarrow> string \<Rightarrow> string \<Rightarrow> ObjectStorageFake \<Rightarrow> err option \<times> ObjectStorageFake" where
  "fake_DetachManagedObjectStorageUserPolicy i username name f0 =
     (case of_record ''DetachManagedObjectStorageUserPolicy'' f0 of
        (Some e, f) \<Rightarrow> (Some e, f)
      | (None, f) \<Rightarrow>
          (case gm_get (of_Services f) i of
             None \<Rightarrow> (Some (NotFound ''object storage''), f)
           | Some _ \<Rightarrow>
               (case of_findUser f i username of
                  None \<Rightarrow> (Some (NotFound ''object storage user''), f)
                | Some user \<Rightarrow>
                    let out = filter (\<lambda>p. upo_Name p \<noteq> name) (uou_Policies user);
                        removed = list_ex (\<lambda>p. upo_Name p = name) (uou_Policies user)
                    in if \<not> removed then (Some (NotFound ''object storage user policy''), f)
                       else (None, of_setUser i username (user\<lparr>uou_Policies := out\<rparr>) f))))"

definition fake_GetManagedObjectStorageUserPolicies ::
  "string \<Rightarrow> string \<Rightarrow> ObjectStorageFake \<Rightarrow> (err + upUserPolicy list) \<times> ObjectStorageFake" where
  "fake_GetManagedObjectStorageUserPolicies i username f0 =
     (let f = of_call ''GetManagedObjectStorageUserPolicies'' f0 in
      case gm_get (of_Services f) i of
        None \<Rightarrow> (Inl (NotFound ''object storage''), f)
      | Some _ \<Rightarrow>
          (case of_findUser f i username of
             None \<Rightarrow> (Inl (NotFound ''object storage user''), f)
           | Some user \<Rightarrow>
               (Inr (map (\<lambda>p. \<lparr>uup_ARN = upo_ARN p, uup_Name = upo_Name p\<rparr>) (uou_Policies user)), f)))"

subsection \<open>Access keys\<close>

definition fmt_016d :: "nat \<Rightarrow> string" where
  "fmt_016d n = replicate (16 - length (fmt_d n)) (CHR ''0'') @ fmt_d n"

definition keyID :: "nat \<Rightarrow> string" where
  "keyID n = ''AKIA'' @ fmt_016d n"

definition fake_CreateManagedObjectStorageUserAccessKey ::
  "string \<Rightarrow> string \<Rightarrow> ObjectStorageFake \<Rightarrow> (err + upAccessKey) \<times> ObjectStorageFake" where
  "fake_CreateManagedObjectStorageUserAccessKey i username f0 =
     (case of_record ''CreateManagedObjectStorageUserAccessKey'' f0 of
        (Some e, f) \<Rightarrow> (Inl e, f)
      | (None, f) \<Rightarrow>
          (case gm_get (of_Services f) i of
             None \<Rightarrow> (Inl (NotFound ''object storage''), f)
           | Some _ \<Rightarrow>
               (case of_findUser f i username of
                  None \<Rightarrow> (Inl (NotFound ''object storage user''), f)
                | Some user \<Rightarrow>
                    let n = Suc (of_seq f);
                        secret = ''fake-s3-secret-'' @ keyID n;
                        key = \<lparr>uak_AccessKeyID = keyID n, uak_Status = KeyActive, uak_SecretAccessKey = None,
                               uak_CreatedAt = zeroTime\<rparr>;
                        f1 = f\<lparr>of_seq := n, of_KeySecrets := gm_put (keyID n) secret (of_KeySecrets f)\<rparr>
                    in (Inr (key\<lparr>uak_SecretAccessKey := Some secret\<rparr>),
                        of_setUser i username (user\<lparr>uou_AccessKeys := uou_AccessKeys user @ [key]\<rparr>) f1))))"

definition fake_GetManagedObjectStorageUserAccessKey ::
  "string \<Rightarrow> string \<Rightarrow> string \<Rightarrow> ObjectStorageFake \<Rightarrow> (err + upAccessKey) \<times> ObjectStorageFake" where
  "fake_GetManagedObjectStorageUserAccessKey i username k f0 =
     (let f = of_call ''GetManagedObjectStorageUserAccessKey'' f0 in
      case gm_get (of_Services f) i of
        None \<Rightarrow> (Inl (NotFound ''object storage''), f)
      | Some _ \<Rightarrow>
          (case of_findKey f i username k of
             None \<Rightarrow> (Inl (NotFound ''object storage access key''), f)
           | Some key \<Rightarrow> (Inr key, f)))"

definition fake_GetManagedObjectStorageUserAccessKeys ::
  "string \<Rightarrow> string \<Rightarrow> ObjectStorageFake \<Rightarrow> (err + upAccessKey list) \<times> ObjectStorageFake" where
  "fake_GetManagedObjectStorageUserAccessKeys i username f0 =
     (let f = of_call ''GetManagedObjectStorageUserAccessKeys'' f0 in
      case gm_get (of_Services f) i of
        None \<Rightarrow> (Inl (NotFound ''object storage''), f)
      | Some _ \<Rightarrow>
          (case of_findUser f i username of
             None \<Rightarrow> (Inl (NotFound ''object storage user''), f)
           | Some user \<Rightarrow> (Inr (uou_AccessKeys user), f)))"

text \<open>Writing through the pointer that \<open>findKey\<close> returns.\<close>

definition of_setKey :: "string \<Rightarrow> string \<Rightarrow> string \<Rightarrow> upAccessKey \<Rightarrow> ObjectStorageFake \<Rightarrow> ObjectStorageFake" where
  "of_setKey i username k key f =
     (case of_findUser f i username of
        None \<Rightarrow> f
      | Some u \<Rightarrow> of_setUser i username (u\<lparr>uou_AccessKeys := setFirst uak_AccessKeyID k key (uou_AccessKeys u)\<rparr>) f)"

definition fake_ModifyManagedObjectStorageUserAccessKey ::
  "string \<Rightarrow> string \<Rightarrow> string \<Rightarrow> string \<Rightarrow> ObjectStorageFake \<Rightarrow> (err + upAccessKey) \<times> ObjectStorageFake" where
  "fake_ModifyManagedObjectStorageUserAccessKey i username k status f0 =
     (case of_record ''ModifyManagedObjectStorageUserAccessKey'' f0 of
        (Some e, f) \<Rightarrow> (Inl e, f)
      | (None, f) \<Rightarrow>
          (case gm_get (of_Services f) i of
             None \<Rightarrow> (Inl (NotFound ''object storage''), f)
           | Some _ \<Rightarrow>
               (case of_findKey f i username k of
                  None \<Rightarrow> (Inl (NotFound ''object storage access key''), f)
                | Some key \<Rightarrow>
                    let key1 = (if status \<noteq> '''' then key\<lparr>uak_Status := status\<rparr> else key)
                    in (Inr key1, of_setKey i username k key1 f))))"

definition fake_DeleteManagedObjectStorageUserAccessKey ::
  "string \<Rightarrow> string \<Rightarrow> string \<Rightarrow> ObjectStorageFake \<Rightarrow> err option \<times> ObjectStorageFake" where
  "fake_DeleteManagedObjectStorageUserAccessKey i username k f0 =
     (case of_record ''DeleteManagedObjectStorageUserAccessKey'' f0 of
        (Some e, f) \<Rightarrow> (Some e, f)
      | (None, f) \<Rightarrow>
          (case gm_get (of_Services f) i of
             None \<Rightarrow> (Some (NotFound ''object storage''), f)
           | Some _ \<Rightarrow>
               (case of_findUser f i username of
                  None \<Rightarrow> (Some (NotFound ''object storage user''), f)
                | Some user \<Rightarrow>
                    (case findBy uak_AccessKeyID (uou_AccessKeys user) k of
                       None \<Rightarrow> (Some (NotFound ''object storage access key''), f)
                     | Some _ \<Rightarrow>
                         (None, of_setUser i username
                            (user\<lparr>uou_AccessKeys := dropFirst uak_AccessKeyID k (uou_AccessKeys user)\<rparr>)
                            (f\<lparr>of_KeySecrets := gm_del k (of_KeySecrets f)\<rparr>))))))"

subsection \<open>Policies\<close>

text \<open>
  Reading a policy document. \<open>parse\<close> is the syntax of \<open>encoding/json\<close>: the value of a
  text, or \<open>None\<close> for a syntax error. How a value is decoded into a struct is written out:
  a member sets the field whose name agrees up to (ASCII) case and the last one wins, null leaves a
  struct or a string as it is and empties a slice, and a value of another kind is an error.
\<close>

definition lower_char :: "char \<Rightarrow> char" where
  "lower_char c = (let n = of_char c :: nat in if 65 \<le> n \<and> n \<le> 90 then char_of (n + 32) else c)"

definition structField :: "string \<Rightarrow> (string \<times> Json) list \<Rightarrow> Json option" where
  "structField name ms = map_of (rev (map (\<lambda>(k, v). (map lower_char k, v)) ms)) (map lower_char name)"

fun stringElem :: "Json \<Rightarrow> string option" where
  "stringElem (JString t) = Some t"
| "stringElem JNull = Some ''''"
| "stringElem _ = None"

fun asStrings :: "Json \<Rightarrow> string list option" where
  "asStrings JNull = Some []"
| "asStrings (JArray xs) =
     (if list_all (\<lambda>x. stringElem x \<noteq> None) xs then Some (map (\<lambda>x. the (stringElem x)) xs) else None)"
| "asStrings _ = None"

fun resourceOf :: "Json \<Rightarrow> Json option option" where
  "resourceOf (JObject ms) = Some (structField ''Resource'' ms)"
| "resourceOf JNull = Some None"
| "resourceOf _ = None"

fun policyStatements :: "Json option \<Rightarrow> Json option list option" where
  "policyStatements None = None"
| "policyStatements (Some JNull) = Some []"
| "policyStatements (Some (JArray xs)) =
     (if list_all (\<lambda>x. resourceOf x \<noteq> None) xs then Some (map (\<lambda>x. the (resourceOf x)) xs) else None)"
| "policyStatements (Some (JObject ms)) = Some [structField ''Resource'' ms]"
| "policyStatements (Some _) = None"

definition resourceStrings :: "Json option \<Rightarrow> string list" where
  "resourceStrings raw =
     (case raw of
        None \<Rightarrow> []
      | Some j \<Rightarrow>
          (case asStrings j of
             Some many \<Rightarrow> many
           | None \<Rightarrow> (case j of JString single \<Rightarrow> [single] | _ \<Rightarrow> [])))"

definition invalidPolicyResource :: "(string \<Rightarrow> Json option) \<Rightarrow> string \<Rightarrow> string \<times> bool" where
  "invalidPolicyResource parse doc =
     (case parse doc of
        Some (JObject ms) \<Rightarrow>
          (case policyStatements (structField ''Statement'' ms) of
             None \<Rightarrow> ('''', False)
           | Some stmts \<Rightarrow>
               (case find (\<lambda>r. take 12 r = ''arn:upcloud:'') (concat (map resourceStrings stmts)) of
                  None \<Rightarrow> ('''', False)
                | Some r \<Rightarrow> (r, True)))
      | _ \<Rightarrow> ('''', False))"

definition fake_CreateManagedObjectStoragePolicy ::
  "(string \<Rightarrow> Json option) \<Rightarrow> string \<Rightarrow> CreateOSPolicyRequest \<Rightarrow> ObjectStorageFake
   \<Rightarrow> (err + upOSPolicy) \<times> ObjectStorageFake" where
  "fake_CreateManagedObjectStoragePolicy parse i r f0 =
     (case of_record ''CreateManagedObjectStoragePolicy'' f0 of
        (Some e, f) \<Rightarrow> (Inl e, f)
      | (None, f) \<Rightarrow>
          (case gm_get (of_Services f) i of
             None \<Rightarrow> (Inl (NotFound ''object storage''), f)
           | Some svc \<Rightarrow>
               let (res, bad) = invalidPolicyResource parse (cop_Document r) in
               if bad then (Inl (Invalid (''Policy has invalid resource: '' @ [CHR 0x27] @ res @ [CHR 0x27])), f)
               else if of_findPolicy f i (cop_Name r) \<noteq> None then (Inl (Conflict ''object storage policy''), f)
               else
                 let n = Suc (of_seq f);
                     pol = \<lparr>upo_Name = cop_Name r, upo_Description = cop_Description r, upo_Document = cop_Document r,
                            upo_ARN = ''arn:upcloud:objectstorage:'' @ uos_Region svc @ ''::policy/'' @ cop_Name r,
                            upo_DefaultVersionID = ''v'' @ fmt_04d n, upo_System = False\<rparr>
                 in (Inr pol, of_putPolicies i (of_policies f i @ [pol]) (f\<lparr>of_seq := n\<rparr>))))"

definition fake_GetManagedObjectStoragePolicy ::
  "string \<Rightarrow> string \<Rightarrow> ObjectStorageFake \<Rightarrow> (err + upOSPolicy) \<times> ObjectStorageFake" where
  "fake_GetManagedObjectStoragePolicy i name f0 =
     (let f = of_call ''GetManagedObjectStoragePolicy'' f0 in
      case gm_get (of_Services f) i of
        None \<Rightarrow> (Inl (NotFound ''object storage''), f)
      | Some _ \<Rightarrow>
          (case of_findPolicy f i name of
             None \<Rightarrow> (Inl (NotFound ''object storage policy''), f)
           | Some pol \<Rightarrow> (Inr pol, f)))"

definition fake_GetManagedObjectStoragePolicies ::
  "string \<Rightarrow> ObjectStorageFake \<Rightarrow> (err + upOSPolicy list) \<times> ObjectStorageFake" where
  "fake_GetManagedObjectStoragePolicies i f0 =
     (let f = of_call ''GetManagedObjectStoragePolicies'' f0 in
      case gm_get (of_Services f) i of
        None \<Rightarrow> (Inl (NotFound ''object storage''), f)
      | Some _ \<Rightarrow> (Inr (of_policies f i), f))"

definition fake_DeleteManagedObjectStoragePolicy ::
  "string \<Rightarrow> string \<Rightarrow> ObjectStorageFake \<Rightarrow> err option \<times> ObjectStorageFake" where
  "fake_DeleteManagedObjectStoragePolicy i name f0 =
     (case of_record ''DeleteManagedObjectStoragePolicy'' f0 of
        (Some e, f) \<Rightarrow> (Some e, f)
      | (None, f) \<Rightarrow>
          (case gm_get (of_Services f) i of
             None \<Rightarrow> (Some (NotFound ''object storage''), f)
           | Some _ \<Rightarrow>
               if list_ex (\<lambda>u. list_ex (\<lambda>p. upo_Name p = name) (uou_Policies u)) (of_users f i)
               then (Some (Problem 409 ''policy is attached to a user''), f)
               else (case findBy upo_Name (of_policies f i) name of
                 None \<Rightarrow> (Some (NotFound ''object storage policy''), f)
               | Some _ \<Rightarrow> (None, of_putPolicies i (dropFirst upo_Name name (of_policies f i)) f))))"

subsection \<open>Buckets\<close>

definition fake_CreateManagedObjectStorageBucket ::
  "string \<Rightarrow> string \<Rightarrow> ObjectStorageFake \<Rightarrow> (err + upBucket) \<times> ObjectStorageFake" where
  "fake_CreateManagedObjectStorageBucket i name f0 =
     (case of_record ''CreateManagedObjectStorageBucket'' f0 of
        (Some e, f) \<Rightarrow> (Inl e, f)
      | (None, f) \<Rightarrow>
          (case gm_get (of_Services f) i of
             None \<Rightarrow> (Inl (NotFound ''object storage''), f)
           | Some _ \<Rightarrow>
               if of_findBucket f i name \<noteq> None then (Inl (Conflict ''object storage bucket''), f)
               else
                 let b = \<lparr>ubk_Name = name, ubk_Deleted = False, ubk_TotalObjects = 0, ubk_TotalSizeBytes = 0\<rparr>
                 in (Inr b, of_putBuckets i (of_buckets f i @ [b]) f)))"

text \<open>
  The slice expression of a page. Its bounds panic when they are negative or out of
  order; a panic ends the process and is shown as an error value of its own.
\<close>

definition panicSliceBounds :: err where
  "panicSliceBounds = ErrText ''panic: slice bounds out of range''"

definition bucketPage :: "Page option \<Rightarrow> upBucket list \<Rightarrow> err + upBucket list" where
  "bucketPage pg all =
     (case pg of
        None \<Rightarrow> Inr all
      | Some p \<Rightarrow>
          if page_Size p = 0 then Inr all
          else
            let size = page_Size p; start = (page_Number p - 1) * size in
            if start \<ge> int (length all) then Inr []
            else
              let e = min (start + size) (int (length all)) in
              if start < 0 \<or> e < start then Inl panicSliceBounds
              else Inr (take (nat (e - start)) (drop (nat start) all)))"

definition fake_GetManagedObjectStorageBucketMetrics ::
  "string \<Rightarrow> Page option \<Rightarrow> ObjectStorageFake \<Rightarrow> (err + upBucket list) \<times> ObjectStorageFake" where
  "fake_GetManagedObjectStorageBucketMetrics i pg f0 =
     (let f = of_call ''GetManagedObjectStorageBucketMetrics'' f0 in
      case gm_get (of_Services f) i of
        None \<Rightarrow> (Inl (NotFound ''object storage''), f)
      | Some _ \<Rightarrow> (bucketPage pg (of_buckets f i), f))"

definition fake_DeleteManagedObjectStorageBucket ::
  "string \<Rightarrow> string \<Rightarrow> ObjectStorageFake \<Rightarrow> err option \<times> ObjectStorageFake" where
  "fake_DeleteManagedObjectStorageBucket i name f0 =
     (case of_record ''DeleteManagedObjectStorageBucket'' f0 of
        (Some e, f) \<Rightarrow> (Some e, f)
      | (None, f) \<Rightarrow>
          (case gm_get (of_Services f) i of
             None \<Rightarrow> (Some (NotFound ''object storage''), f)
           | Some _ \<Rightarrow>
               (case findBy ubk_Name (of_buckets f i) name of
                  None \<Rightarrow> (Some (NotFound ''object storage bucket''), f)
                | Some b \<Rightarrow>
                    if ubk_TotalObjects b > 0 then (Some (Problem 409 ''bucket is not empty''), f)
                    else (None, of_putBuckets i (dropFirst ubk_Name name (of_buckets f i)) f))))"

subsection \<open>Custom domains\<close>

definition fake_CreateManagedObjectStorageCustomDomain ::
  "string \<Rightarrow> string \<Rightarrow> string \<Rightarrow> ObjectStorageFake \<Rightarrow> err option \<times> ObjectStorageFake" where
  "fake_CreateManagedObjectStorageCustomDomain i domainName ty f0 =
     (case of_record ''CreateManagedObjectStorageCustomDomain'' f0 of
        (Some e, f) \<Rightarrow> (Some e, f)
      | (None, f) \<Rightarrow>
          (case gm_get (of_Services f) i of
             None \<Rightarrow> (Some (NotFound ''object storage''), f)
           | Some svc \<Rightarrow>
               if of_findDomain f i domainName \<noteq> None then (Some (Conflict ''object storage custom domain''), f)
               else (None, of_putService i (svc\<lparr>uos_CustomDomains := uos_CustomDomains svc @
                             [\<lparr>ucd_DomainName = domainName, ucd_Type = ty\<rparr>]\<rparr>) f)))"

definition fake_GetManagedObjectStorageCustomDomain ::
  "string \<Rightarrow> string \<Rightarrow> ObjectStorageFake \<Rightarrow> (err + upCustomDomain) \<times> ObjectStorageFake" where
  "fake_GetManagedObjectStorageCustomDomain i domainName f0 =
     (let f = of_call ''GetManagedObjectStorageCustomDomain'' f0 in
      case gm_get (of_Services f) i of
        None \<Rightarrow> (Inl (NotFound ''object storage''), f)
      | Some _ \<Rightarrow>
          (case of_findDomain f i domainName of
             None \<Rightarrow> (Inl (NotFound ''object storage custom domain''), f)
           | Some d \<Rightarrow> (Inr d, f)))"

definition fake_GetManagedObjectStorageCustomDomains ::
  "string \<Rightarrow> ObjectStorageFake \<Rightarrow> (err + upCustomDomain list) \<times> ObjectStorageFake" where
  "fake_GetManagedObjectStorageCustomDomains i f0 =
     (let f = of_call ''GetManagedObjectStorageCustomDomains'' f0 in
      case gm_get (of_Services f) i of
        None \<Rightarrow> (Inl (NotFound ''object storage''), f)
      | Some svc \<Rightarrow> (Inr (uos_CustomDomains svc), f))"

definition fake_ModifyManagedObjectStorageCustomDomain ::
  "string \<Rightarrow> string \<Rightarrow> string \<Rightarrow> ObjectStorageFake \<Rightarrow> (err + upCustomDomain) \<times> ObjectStorageFake" where
  "fake_ModifyManagedObjectStorageCustomDomain i domainName ty f0 =
     (case of_record ''ModifyManagedObjectStorageCustomDomain'' f0 of
        (Some e, f) \<Rightarrow> (Inl e, f)
      | (None, f) \<Rightarrow>
          (case gm_get (of_Services f) i of
             None \<Rightarrow> (Inl (NotFound ''object storage''), f)
           | Some svc \<Rightarrow>
               (case of_findDomain f i domainName of
                  None \<Rightarrow> (Inl (NotFound ''object storage custom domain''), f)
                | Some d \<Rightarrow>
                    let d1 = d\<lparr>ucd_Type := ty\<rparr>
                    in (Inr d1, of_putService i (svc\<lparr>uos_CustomDomains :=
                          setFirst ucd_DomainName domainName d1 (uos_CustomDomains svc)\<rparr>) f))))"

definition fake_DeleteManagedObjectStorageCustomDomain ::
  "string \<Rightarrow> string \<Rightarrow> ObjectStorageFake \<Rightarrow> err option \<times> ObjectStorageFake" where
  "fake_DeleteManagedObjectStorageCustomDomain i domainName f0 =
     (case of_record ''DeleteManagedObjectStorageCustomDomain'' f0 of
        (Some e, f) \<Rightarrow> (Some e, f)
      | (None, f) \<Rightarrow>
          (case gm_get (of_Services f) i of
             None \<Rightarrow> (Some (NotFound ''object storage''), f)
           | Some svc \<Rightarrow>
               (case findBy ucd_DomainName (uos_CustomDomains svc) domainName of
                  None \<Rightarrow> (Some (NotFound ''object storage custom domain''), f)
                | Some _ \<Rightarrow>
                    (None, of_putService i (svc\<lparr>uos_CustomDomains :=
                       dropFirst ucd_DomainName domainName (uos_CustomDomains svc)\<rparr>) f))))"

subsection \<open>The interface value\<close>

definition fakeObjectStorageAPI :: "(string \<Rightarrow> Json option) \<Rightarrow> ObjectStorageFake ObjectStorageAPI" where
  "fakeObjectStorageAPI parse =
     \<lparr>CreateManagedObjectStorage = fake_CreateManagedObjectStorage,
      GetManagedObjectStorages = fake_GetManagedObjectStorages,
      GetManagedObjectStorage = fake_GetManagedObjectStorage,
      ModifyManagedObjectStorage = fake_ModifyManagedObjectStorage,
      DeleteManagedObjectStorage = fake_DeleteManagedObjectStorage,
      CreateManagedObjectStorageUser = fake_CreateManagedObjectStorageUser,
      GetManagedObjectStorageUsers = fake_GetManagedObjectStorageUsers,
      GetManagedObjectStorageUser = fake_GetManagedObjectStorageUser,
      DeleteManagedObjectStorageUser = fake_DeleteManagedObjectStorageUser,
      AttachManagedObjectStorageUserPolicy = fake_AttachManagedObjectStorageUserPolicy,
      DetachManagedObjectStorageUserPolicy = fake_DetachManagedObjectStorageUserPolicy,
      GetManagedObjectStorageUserPolicies = fake_GetManagedObjectStorageUserPolicies,
      CreateManagedObjectStorageUserAccessKey = fake_CreateManagedObjectStorageUserAccessKey,
      GetManagedObjectStorageUserAccessKeys = fake_GetManagedObjectStorageUserAccessKeys,
      GetManagedObjectStorageUserAccessKey = fake_GetManagedObjectStorageUserAccessKey,
      ModifyManagedObjectStorageUserAccessKey = fake_ModifyManagedObjectStorageUserAccessKey,
      DeleteManagedObjectStorageUserAccessKey = fake_DeleteManagedObjectStorageUserAccessKey,
      CreateManagedObjectStoragePolicy = fake_CreateManagedObjectStoragePolicy parse,
      GetManagedObjectStoragePolicies = fake_GetManagedObjectStoragePolicies,
      GetManagedObjectStoragePolicy = fake_GetManagedObjectStoragePolicy,
      DeleteManagedObjectStoragePolicy = fake_DeleteManagedObjectStoragePolicy,
      CreateManagedObjectStorageBucket = fake_CreateManagedObjectStorageBucket,
      DeleteManagedObjectStorageBucket = fake_DeleteManagedObjectStorageBucket,
      GetManagedObjectStorageBucketMetrics = fake_GetManagedObjectStorageBucketMetrics,
      CreateManagedObjectStorageCustomDomain = fake_CreateManagedObjectStorageCustomDomain,
      GetManagedObjectStorageCustomDomains = fake_GetManagedObjectStorageCustomDomains,
      GetManagedObjectStorageCustomDomain = fake_GetManagedObjectStorageCustomDomain,
      ModifyManagedObjectStorageCustomDomain = fake_ModifyManagedObjectStorageCustomDomain,
      DeleteManagedObjectStorageCustomDomain = fake_DeleteManagedObjectStorageCustomDomain\<rparr>"

lemma fakeObjectStorageAPI_sel [simp]:
  "CreateManagedObjectStorage (fakeObjectStorageAPI parse) = fake_CreateManagedObjectStorage"
  "GetManagedObjectStorages (fakeObjectStorageAPI parse) = fake_GetManagedObjectStorages"
  "GetManagedObjectStorage (fakeObjectStorageAPI parse) = fake_GetManagedObjectStorage"
  "ModifyManagedObjectStorage (fakeObjectStorageAPI parse) = fake_ModifyManagedObjectStorage"
  "DeleteManagedObjectStorage (fakeObjectStorageAPI parse) = fake_DeleteManagedObjectStorage"
  "CreateManagedObjectStorageUser (fakeObjectStorageAPI parse) = fake_CreateManagedObjectStorageUser"
  "GetManagedObjectStorageUsers (fakeObjectStorageAPI parse) = fake_GetManagedObjectStorageUsers"
  "GetManagedObjectStorageUser (fakeObjectStorageAPI parse) = fake_GetManagedObjectStorageUser"
  "DeleteManagedObjectStorageUser (fakeObjectStorageAPI parse) = fake_DeleteManagedObjectStorageUser"
  "AttachManagedObjectStorageUserPolicy (fakeObjectStorageAPI parse) = fake_AttachManagedObjectStorageUserPolicy"
  "DetachManagedObjectStorageUserPolicy (fakeObjectStorageAPI parse) = fake_DetachManagedObjectStorageUserPolicy"
  "GetManagedObjectStorageUserPolicies (fakeObjectStorageAPI parse) = fake_GetManagedObjectStorageUserPolicies"
  "CreateManagedObjectStorageUserAccessKey (fakeObjectStorageAPI parse) = fake_CreateManagedObjectStorageUserAccessKey"
  "GetManagedObjectStorageUserAccessKeys (fakeObjectStorageAPI parse) = fake_GetManagedObjectStorageUserAccessKeys"
  "GetManagedObjectStorageUserAccessKey (fakeObjectStorageAPI parse) = fake_GetManagedObjectStorageUserAccessKey"
  "ModifyManagedObjectStorageUserAccessKey (fakeObjectStorageAPI parse) = fake_ModifyManagedObjectStorageUserAccessKey"
  "DeleteManagedObjectStorageUserAccessKey (fakeObjectStorageAPI parse) = fake_DeleteManagedObjectStorageUserAccessKey"
  "CreateManagedObjectStoragePolicy (fakeObjectStorageAPI parse) = fake_CreateManagedObjectStoragePolicy parse"
  "GetManagedObjectStoragePolicies (fakeObjectStorageAPI parse) = fake_GetManagedObjectStoragePolicies"
  "GetManagedObjectStoragePolicy (fakeObjectStorageAPI parse) = fake_GetManagedObjectStoragePolicy"
  "DeleteManagedObjectStoragePolicy (fakeObjectStorageAPI parse) = fake_DeleteManagedObjectStoragePolicy"
  "CreateManagedObjectStorageBucket (fakeObjectStorageAPI parse) = fake_CreateManagedObjectStorageBucket"
  "DeleteManagedObjectStorageBucket (fakeObjectStorageAPI parse) = fake_DeleteManagedObjectStorageBucket"
  "GetManagedObjectStorageBucketMetrics (fakeObjectStorageAPI parse) = fake_GetManagedObjectStorageBucketMetrics"
  "CreateManagedObjectStorageCustomDomain (fakeObjectStorageAPI parse) = fake_CreateManagedObjectStorageCustomDomain"
  "GetManagedObjectStorageCustomDomains (fakeObjectStorageAPI parse) = fake_GetManagedObjectStorageCustomDomains"
  "GetManagedObjectStorageCustomDomain (fakeObjectStorageAPI parse) = fake_GetManagedObjectStorageCustomDomain"
  "ModifyManagedObjectStorageCustomDomain (fakeObjectStorageAPI parse) = fake_ModifyManagedObjectStorageCustomDomain"
  "DeleteManagedObjectStorageCustomDomain (fakeObjectStorageAPI parse) = fake_DeleteManagedObjectStorageCustomDomain"
  by (simp_all add: fakeObjectStorageAPI_def)

subsection \<open>The account that the contract sees\<close>

definition arnIn :: "upOSUser list \<Rightarrow> string \<Rightarrow> string option" where
  "arnIn us n = map_option uou_ARN (findBy uou_Username us n)"

definition attachedIn :: "upOSUser list \<Rightarrow> string \<Rightarrow> string set" where
  "attachedIn us n = (case findBy uou_Username us n of None \<Rightarrow> {} | Some u \<Rightarrow> upo_Name ` set (uou_Policies u))"

definition keysIn :: "upOSUser list \<Rightarrow> string \<Rightarrow> string \<Rightarrow> string option" where
  "keysIn us n k =
     (case findBy uou_Username us n of
        None \<Rightarrow> None
      | Some u \<Rightarrow> map_option uak_Status (findBy uak_AccessKeyID (uou_AccessKeys u) k))"

definition os_view :: "ObjectStorageFake \<Rightarrow> OSView" where
  "os_view f =
     \<lparr>ov_Services = \<lambda>i. map_option os_core (gm_get (of_Services f) i), ov_Domains = of_findDomain f,
      ov_Users = \<lambda>i. arnIn (of_users f i), ov_Attached = \<lambda>i. attachedIn (of_users f i),
      ov_Keys = \<lambda>i. keysIn (of_users f i), ov_Policies = of_findPolicy f, ov_Buckets = of_buckets f\<rparr>"

definition user_ok :: "nat \<Rightarrow> upOSUser \<Rightarrow> bool" where
  "user_ok n u \<longleftrightarrow> distinct (map upo_Name (uou_Policies u)) \<and>
     fresh_list uak_AccessKeyID (\<lambda>m. {keyID m}) n (uou_AccessKeys u)"

definition os_inv :: "ObjectStorageFake \<Rightarrow> bool" where
  "os_inv f \<longleftrightarrow>
     fresh_table uos_UUID (uuid_ids ''moss'') (of_seq f) (of_Services f) \<and>
     (\<forall>i svc. gm_get (of_Services f) i = Some svc \<longrightarrow> distinct (map ucd_DomainName (uos_CustomDomains svc))) \<and>
     (\<forall>i. gm_get (of_Services f) i = None \<longrightarrow> of_users f i = [] \<and> of_policies f i = [] \<and> of_buckets f i = []) \<and>
     (\<forall>i. distinct (map uou_Username (of_users f i)) \<and> distinct (map upo_Name (of_policies f i)) \<and>
          distinct (map ubk_Name (of_buckets f i)) \<and> list_all (user_ok (of_seq f)) (of_users f i)) \<and>
     honest (of_FailNext f)"

lemma os_inv_New [simp]: "os_inv NewObjectStorageAPI"
  by (simp add: os_inv_def NewObjectStorageAPI_def of_users_def of_policies_def of_buckets_def)

lemma user_ok_Suc [simp]: "user_ok n u \<Longrightarrow> user_ok (Suc n) u"
  by (simp add: user_ok_def)

lemma os_inv_Suc: "os_inv f \<Longrightarrow> os_inv (f\<lparr>of_seq := Suc (of_seq f)\<rparr>)"
  by (fastforce simp: os_inv_def of_users_def of_policies_def of_buckets_def list_all_iff)

lemmas of_row_defs = of_users_def of_policies_def of_buckets_def
lemmas of_find_defs = of_findUser_def of_findPolicy_def of_findBucket_def of_findDomain_def of_findKey_def

lemma os_rows_cong:
  assumes "of_Services g = of_Services f" "of_Users g = of_Users f" "of_Policies g = of_Policies f" "of_Buckets g = of_Buckets f"
  shows "os_view g = os_view f" "of_users g = of_users f" "of_policies g = of_policies f" "of_buckets g = of_buckets f"
    "of_findUser g = of_findUser f" "of_findPolicy g = of_findPolicy f" "of_findBucket g = of_findBucket f"
    "of_findDomain g = of_findDomain f" "of_findKey g = of_findKey f"
  using assms by (simp_all add: os_view_def of_row_defs of_find_defs fun_eq_iff)

lemma os_call_keeps [simp]:
  "os_inv (of_call n f) = os_inv f" "os_view (of_call n f) = os_view f" "of_Services (of_call n f) = of_Services f"
  "of_users (of_call n f) = of_users f" "of_policies (of_call n f) = of_policies f" "of_buckets (of_call n f) = of_buckets f"
  "of_findUser (of_call n f) = of_findUser f" "of_findPolicy (of_call n f) = of_findPolicy f"
  "of_findBucket (of_call n f) = of_findBucket f" "of_findDomain (of_call n f) = of_findDomain f"
  "of_findKey (of_call n f) = of_findKey f" "of_FailNext (of_call n f) = of_FailNext f"
  "of_StateOverride (of_call n f) = of_StateOverride f"
proof -
  have e: "of_Services (of_call n f) = of_Services f" "of_Users (of_call n f) = of_Users f"
    "of_Policies (of_call n f) = of_Policies f" "of_Buckets (of_call n f) = of_Buckets f"
    "of_seq (of_call n f) = of_seq f" by (simp_all add: of_call_def)
  show "os_inv (of_call n f) = os_inv f" unfolding os_inv_def os_rows_cong(2-4) [OF e(1-4)] e by (simp add: of_call_def)
  show "os_view (of_call n f) = os_view f" "of_users (of_call n f) = of_users f" "of_policies (of_call n f) = of_policies f"
    "of_buckets (of_call n f) = of_buckets f" "of_findUser (of_call n f) = of_findUser f"
    "of_findPolicy (of_call n f) = of_findPolicy f" "of_findBucket (of_call n f) = of_findBucket f"
    "of_findDomain (of_call n f) = of_findDomain f" "of_findKey (of_call n f) = of_findKey f"
    by (rule os_rows_cong [OF e(1-4)])+
qed (simp_all add: of_call_def)

lemma os_record_cases:
  assumes "os_inv f" and "of_record n f = (e, g)"
  shows "os_inv g" "os_view g = os_view f" "\<not> IsNotFound e" "of_Services g = of_Services f" "of_seq g = of_seq f"
    "of_users g = of_users f" "of_policies g = of_policies f" "of_buckets g = of_buckets f"
proof -
  have g: "of_Services g = of_Services f" "of_Users g = of_Users f" "of_Policies g = of_Policies f"
    "of_Buckets g = of_Buckets f" "of_seq g = of_seq f" "honest (of_FailNext g)" "honest e"
    using assms by (auto simp: of_record_def os_inv_def Let_def split: option.splits)
  note c = os_rows_cong [OF g(1-4)]
  show "os_inv g" using assms(1) g(6) unfolding os_inv_def c(2-4) g(1,5) by blast
  show "\<not> IsNotFound e" using g(7) by (simp add: honest_def)
  show "os_view g = os_view f" "of_Services g = of_Services f" "of_seq g = of_seq f" "of_users g = of_users f"
    "of_policies g = of_policies f" "of_buckets g = of_buckets f" using g c by simp_all
qed

subsection \<open>Stores\<close>

lemma os_view_putService:
  "os_view (of_putService i svc f) = (os_view f)
     \<lparr>ov_Services := (ov_Services (os_view f))(i \<mapsto> os_core svc),
      ov_Domains := (ov_Domains (os_view f))(i := findBy ucd_DomainName (uos_CustomDomains svc))\<rparr>"
  by (auto simp: os_view_def of_putService_def of_row_defs of_find_defs fun_eq_iff)

lemma os_view_putUsers:
  "os_view (of_putUsers i us f) = (os_view f)
     \<lparr>ov_Users := (ov_Users (os_view f))(i := arnIn us), ov_Attached := (ov_Attached (os_view f))(i := attachedIn us),
      ov_Keys := (ov_Keys (os_view f))(i := keysIn us)\<rparr>"
  by (auto simp: os_view_def of_putUsers_def of_row_defs of_find_defs fun_eq_iff)

lemma os_view_putPolicies:
  "os_view (of_putPolicies i ps f) = (os_view f)\<lparr>ov_Policies := (ov_Policies (os_view f))(i := findBy upo_Name ps)\<rparr>"
  by (auto simp: os_view_def of_putPolicies_def of_row_defs of_find_defs fun_eq_iff)

lemma os_view_putBuckets:
  "os_view (of_putBuckets i bs f) = (os_view f)\<lparr>ov_Buckets := (ov_Buckets (os_view f))(i := bs)\<rparr>"
  by (auto simp: os_view_def of_putBuckets_def of_row_defs of_find_defs fun_eq_iff)

lemma os_inv_putUsers:
  assumes "os_inv f" and "gm_get (of_Services f) i \<noteq> None" and "distinct (map uou_Username us)"
    and "list_all (user_ok (of_seq f)) us"
  shows "os_inv (of_putUsers i us f)"
  using assms by (auto simp: os_inv_def of_putUsers_def of_row_defs)

lemma os_inv_putPolicies:
  assumes "os_inv f" and "gm_get (of_Services f) i \<noteq> None" and "distinct (map upo_Name ps)"
  shows "os_inv (of_putPolicies i ps f)"
  using assms by (auto simp: os_inv_def of_putPolicies_def of_row_defs)

lemma os_inv_putBuckets:
  assumes "os_inv f" and "gm_get (of_Services f) i \<noteq> None" and "distinct (map ubk_Name bs)"
  shows "os_inv (of_putBuckets i bs f)"
  using assms by (auto simp: os_inv_def of_putBuckets_def of_row_defs)

lemma os_inv_putService:
  assumes "os_inv f" and "gm_get (of_Services f) i = Some old" and "uos_UUID svc = uos_UUID old"
    and "distinct (map ucd_DomainName (uos_CustomDomains svc))"
  shows "os_inv (of_putService i svc f)"
  using assms fresh_table_put [OF _ assms(2,3)] by (auto simp: os_inv_def of_putService_def of_row_defs)

lemma of_findUser_D:
  assumes "os_inv f" and "of_findUser f i n = Some u"
  shows "uou_Username u = n" "user_ok (of_seq f) u" "gm_get (of_Services f) i \<noteq> None" "u \<in> set (of_users f i)"
proof -
  have u: "u \<in> set (of_users f i)" "uou_Username u = n"
    using findBy_Some [of uou_Username "of_users f i" n u] assms(2) by (simp_all add: of_findUser_def)
  then show "uou_Username u = n" "u \<in> set (of_users f i)" by blast+
  show "user_ok (of_seq f) u" using assms(1) u(1) unfolding os_inv_def list_all_iff by blast
  show "gm_get (of_Services f) i \<noteq> None" using assms(1) u(1) unfolding os_inv_def by force
qed

lemma os_setUser:
  assumes "os_inv f" and "of_findUser f i n = Some old" and "uou_Username u = n" and "user_ok (of_seq f) u"
  shows "os_inv (of_setUser i n u f)"
    and "os_view (of_setUser i n u f) = (os_view f)
      \<lparr>ov_Users := put2 (ov_Users (os_view f)) i n (Some (uou_ARN u)),
       ov_Attached := put2 (ov_Attached (os_view f)) i n (upo_Name ` set (uou_Policies u)),
       ov_Keys := put2 (ov_Keys (os_view f)) i n (\<lambda>k. map_option uak_Status (findBy uak_AccessKeyID (uou_AccessKeys u) k))\<rparr>"
proof -
  let ?us = "of_users f i"
  have d: "distinct (map uou_Username ?us)" "list_all (user_ok (of_seq f)) ?us" using assms(1) unfolding os_inv_def by blast+
  have "list_all (user_ok (of_seq f)) (setFirst uou_Username n u ?us)"
    using d(2) assms(4) set_setFirst [of uou_Username n u ?us] by (auto simp: list_all_iff)
  then show "os_inv (of_setUser i n u f)"
    unfolding of_setUser_def
    using os_inv_putUsers [OF assms(1)] of_findUser_D(3) [OF assms(1,2)] d(1) map_setFirst [of uou_Username u n ?us, OF assms(3)]
    by simp
  have old: "findBy uou_Username ?us n = Some old" using assms(2) by (simp add: of_findUser_def)
  note fs = findBy_setFirst [of uou_Username u n ?us, OF assms(3)]
  have "arnIn (setFirst uou_Username n u ?us) = (arnIn ?us)(n := Some (uou_ARN u))"
    "attachedIn (setFirst uou_Username n u ?us) = (attachedIn ?us)(n := upo_Name ` set (uou_Policies u))"
    "keysIn (setFirst uou_Username n u ?us)
      = (keysIn ?us)(n := \<lambda>k. map_option uak_Status (findBy uak_AccessKeyID (uou_AccessKeys u) k))"
    using old by (auto simp: arnIn_def attachedIn_def keysIn_def fs fun_eq_iff)
  then show "os_view (of_setUser i n u f) = (os_view f)
      \<lparr>ov_Users := put2 (ov_Users (os_view f)) i n (Some (uou_ARN u)),
       ov_Attached := put2 (ov_Attached (os_view f)) i n (upo_Name ` set (uou_Policies u)),
       ov_Keys := put2 (ov_Keys (os_view f)) i n (\<lambda>k. map_option uak_Status (findBy uak_AccessKeyID (uou_AccessKeys u) k))\<rparr>"
    unfolding of_setUser_def os_view_putUsers by (simp add: os_view_def)
qed

lemma os_view_user:
  "of_findUser f i n = Some u \<Longrightarrow> ov_Users (os_view f) i n = Some (uou_ARN u)"
  "of_findUser f i n = Some u \<Longrightarrow> ov_Attached (os_view f) i n = upo_Name ` set (uou_Policies u)"
  "of_findUser f i n = Some u \<Longrightarrow> ov_Keys (os_view f) i n
     = (\<lambda>k. map_option uak_Status (findBy uak_AccessKeyID (uou_AccessKeys u) k))"
  "of_findUser f i n = None \<Longrightarrow> ov_Users (os_view f) i n = None"
  "of_findUser f i n = None \<Longrightarrow> ov_Attached (os_view f) i n = {}"
  "of_findUser f i n = None \<Longrightarrow> ov_Keys (os_view f) i n = (\<lambda>_. None)"
  by (auto simp: os_view_def of_findUser_def arnIn_def attachedIn_def keysIn_def)

lemma os_view_absent:
  assumes "os_inv f" and "gm_get (of_Services f) i = None"
  shows "of_findUser f i n = None" "of_findPolicy f i n = None" "of_findDomain f i n = None" "of_findKey f i n k = None"
    "ov_Buckets (os_view f) i = []"
proof -
  have "of_users f i = []" "of_policies f i = []" "of_buckets f i = []" using assms unfolding os_inv_def by blast+
  then show "of_findUser f i n = None" "of_findPolicy f i n = None" "of_findDomain f i n = None" "of_findKey f i n k = None"
    "ov_Buckets (os_view f) i = []" using assms(2) by (simp_all add: of_find_defs os_view_def)
qed

lemma os_view_sel [simp]:
  "ov_Policies (os_view f) = of_findPolicy f" "ov_Domains (os_view f) = of_findDomain f"
  "ov_Buckets (os_view f) = of_buckets f" "ov_Services (os_view f) = (\<lambda>i. map_option os_core (gm_get (of_Services f) i))"
  by (simp_all add: os_view_def)

subsection \<open>The laws of services\<close>

lemma fake_svc_keyed:
  assumes "os_inv s" and "ov_Services (os_view s) u = Some d"
  shows "uos_UUID d = u" and "u \<noteq> []"
proof -
  have t: "fresh_table uos_UUID (uuid_ids ''moss'') (of_seq s) (of_Services s)" using assms(1) unfolding os_inv_def by blast
  obtain x where "gm_get (of_Services s) u = Some x" "d = os_core x" using assms(2) by auto
  then show "uos_UUID d = u" "u \<noteq> []" using fresh_uuid_nonempty [OF t] by auto
qed

lemma os_core_copy [simp]: "os_core (of_copyService f d) = os_core d"
  by (simp add: of_copyService_def)

lemma fake_GetManagedObjectStorage_law:
  assumes "os_inv s" and "seen os_core fake_GetManagedObjectStorage u s = (r, s')"
  shows "os_inv s' \<and> ov_Services (os_view s') = ov_Services (os_view s) \<and>
      os_view s'\<lparr>ov_Services := \<lambda>_. None\<rparr> = os_view s\<lparr>ov_Services := \<lambda>_. None\<rparr>"
    and "r = Inr x \<Longrightarrow> ov_Services (os_view s) u = Some x" and "r = Inl e \<Longrightarrow> ov_Services (os_view s) u = None"
  using assms by (auto simp: seen_def fake_GetManagedObjectStorage_def Let_def split: option.splits)

lemma fake_GetManagedObjectStorages_law:
  assumes "os_inv s" and "seen (map os_core) fake_GetManagedObjectStorages v s = (r, s')"
  shows "os_inv s' \<and> ov_Services (os_view s') = ov_Services (os_view s) \<and>
      os_view s'\<lparr>ov_Services := \<lambda>_. None\<rparr> = os_view s\<lparr>ov_Services := \<lambda>_. None\<rparr>"
    and "r = Inr xs \<Longrightarrow> x \<in> set xs \<Longrightarrow> ov_Services (os_view s) (uos_UUID x) = Some x"
    and "r = Inr xs \<Longrightarrow> ov_Services (os_view s) i = Some x \<Longrightarrow> x \<in> set xs"
proof -
  have t: "fresh_table uos_UUID (uuid_ids ''moss'') (of_seq s) (of_Services s)" using assms(1) unfolding os_inv_def by blast
  show "os_inv s' \<and> ov_Services (os_view s') = ov_Services (os_view s) \<and>
      os_view s'\<lparr>ov_Services := \<lambda>_. None\<rparr> = os_view s\<lparr>ov_Services := \<lambda>_. None\<rparr>"
    using assms by (auto simp: seen_def fake_GetManagedObjectStorages_def Let_def)
  assume "r = Inr xs"
  then obtain sd where xs: "xs = map os_core (map snd (gm_range sd (of_Services s)))"
    using assms(2) by (auto simp: seen_def fake_GetManagedObjectStorages_def of_range_def Let_def comp_def)
  show "x \<in> set xs \<Longrightarrow> ov_Services (os_view s) (uos_UUID x) = Some x"
    using xs fresh_table_range [OF t] by fastforce
  show "ov_Services (os_view s) i = Some x \<Longrightarrow> x \<in> set xs"
    using xs in_range_values [of "of_Services s" i] by fastforce
qed

lemma os_view_new_service:
  assumes "os_inv f" and "uos_UUID svc = uuid ''moss'' (Suc (of_seq f))" and "uos_CustomDomains svc = []"
  defines "g \<equiv> of_putService (uos_UUID svc) svc (f\<lparr>of_seq := Suc (of_seq f)\<rparr>)"
  shows "os_inv g" and "gm_get (of_Services f) (uos_UUID svc) = None"
    and "os_view g = (os_view f)\<lparr>ov_Services := (ov_Services (os_view f))(uos_UUID svc \<mapsto> os_core svc)\<rparr>"
proof -
  let ?u = "uos_UUID svc" and ?f = "f\<lparr>of_seq := Suc (of_seq f)\<rparr>"
  have t: "fresh_table uos_UUID (uuid_ids ''moss'') (of_seq f) (of_Services f)" using assms(1) unfolding os_inv_def by blast
  show n: "gm_get (of_Services f) ?u = None" using fresh_uuid_unused [OF t] assms(2) by simp
  have c: "os_view ?f = os_view f" by (rule os_rows_cong) simp_all
  have "fresh_table uos_UUID (uuid_ids ''moss'') (Suc (of_seq f)) (gm_put ?u svc (of_Services f))"
    using fresh_uuid_new [OF t assms(2)] assms(2) by simp
  then show "os_inv g"
    using os_inv_Suc [OF assms(1)] assms(3) unfolding os_inv_def g_def of_putService_def of_row_defs by simp
  have "of_findDomain f ?u = (\<lambda>_. None)" using n by (simp add: of_findDomain_def fun_eq_iff)
  then have "(of_findDomain f)(?u := \<lambda>_. None) = of_findDomain f" by (metis fun_upd_triv)
  moreover have "findBy ucd_DomainName (uos_CustomDomains svc) = (\<lambda>_. None)" using assms(3) by (simp add: fun_eq_iff)
  ultimately show "os_view g = (os_view f)\<lparr>ov_Services := (ov_Services (os_view f))(?u \<mapsto> os_core svc)\<rparr>"
    using c by (simp add: g_def os_view_putService)
qed

lemma fake_CreateManagedObjectStorage_law:
  assumes "os_inv s" and "seen os_core fake_CreateManagedObjectStorage c s = (r, s')"
  shows "r = Inr x \<Longrightarrow> os_inv s' \<and> ov_Services (os_view s) (uos_UUID x) = None \<and>
      ov_Services (os_view s') = (ov_Services (os_view s))(uos_UUID x \<mapsto> x) \<and>
      os_view s'\<lparr>ov_Services := \<lambda>_. None\<rparr> = os_view s\<lparr>ov_Services := \<lambda>_. None\<rparr> \<and> os_built c x"
    and "r = Inl e \<Longrightarrow> os_inv s' \<and> ov_Services (os_view s') = ov_Services (os_view s) \<and>
      os_view s'\<lparr>ov_Services := \<lambda>_. None\<rparr> = os_view s\<lparr>ov_Services := \<lambda>_. None\<rparr>"
proof -
  obtain e0 f where rc: "of_record ''CreateManagedObjectStorage'' s = (e0, f)" by fastforce
  note f = os_record_cases [OF assms(1) rc]
  show "r = Inl e \<Longrightarrow> os_inv s' \<and> ov_Services (os_view s') = ov_Services (os_view s) \<and>
      os_view s'\<lparr>ov_Services := \<lambda>_. None\<rparr> = os_view s\<lparr>ov_Services := \<lambda>_. None\<rparr>"
    using assms(2) rc f(1,2) by (cases e0) (auto simp: seen_def fake_CreateManagedObjectStorage_def of_nextUUID_def Let_def)
  assume r: "r = Inr x"
  obtain d where d: "x = os_core d" "s' = of_putService (uos_UUID d) d (f\<lparr>of_seq := Suc (of_seq f)\<rparr>)"
      "uos_UUID d = uuid ''moss'' (Suc (of_seq f))" "uos_CustomDomains d = []" "os_built c d"
    using assms(2) rc r by (cases e0) (auto simp: seen_def fake_CreateManagedObjectStorage_def of_nextUUID_def os_built_def Let_def)
  note new = os_view_new_service [OF f(1) d(3,4), folded d(2)]
  have "ov_Services (os_view s) (uos_UUID d) = None" using new(2) f(2) by (metis map_option_is_None os_view_sel(4))
  then show "os_inv s' \<and> ov_Services (os_view s) (uos_UUID x) = None \<and>
      ov_Services (os_view s') = (ov_Services (os_view s))(uos_UUID x \<mapsto> x) \<and>
      os_view s'\<lparr>ov_Services := \<lambda>_. None\<rparr> = os_view s\<lparr>ov_Services := \<lambda>_. None\<rparr> \<and> os_built c x"
    using new(1) d(1,5) unfolding new(3) f(2) by (simp add: os_built_def)
qed

lemma fake_ModifyManagedObjectStorage_law:
  assumes "os_inv s" and "seen os_core fake_ModifyManagedObjectStorage m s = (r, s')"
  shows "r = Inr x \<Longrightarrow> os_inv s' \<and> os_view s'\<lparr>ov_Services := \<lambda>_. None\<rparr> = os_view s\<lparr>ov_Services := \<lambda>_. None\<rparr> \<and>
      (\<exists>y. ov_Services (os_view s) (mos_UUID m) = Some y \<and> x = os_patched m y \<and>
        ov_Services (os_view s') = (ov_Services (os_view s))(mos_UUID m \<mapsto> x))"
    and "r = Inl e \<Longrightarrow> os_inv s' \<and> ov_Services (os_view s') = ov_Services (os_view s) \<and>
      os_view s'\<lparr>ov_Services := \<lambda>_. None\<rparr> = os_view s\<lparr>ov_Services := \<lambda>_. None\<rparr>"
proof -
  obtain e0 f where rc: "of_record ''ModifyManagedObjectStorage'' s = (e0, f)" by fastforce
  note f = os_record_cases [OF assms(1) rc]
  show "r = Inl e \<Longrightarrow> os_inv s' \<and> ov_Services (os_view s') = ov_Services (os_view s) \<and>
      os_view s'\<lparr>ov_Services := \<lambda>_. None\<rparr> = os_view s\<lparr>ov_Services := \<lambda>_. None\<rparr>"
    using assms(2) rc f(1,2,4) by (auto simp: seen_def fake_ModifyManagedObjectStorage_def Let_def split: option.splits)
  assume r: "r = Inr x"
  then have "e0 = None" "gm_get (of_Services f) (mos_UUID m) \<noteq> None"
    using assms(2) rc by (auto simp: seen_def fake_ModifyManagedObjectStorage_def split: option.splits)
  then obtain old where old: "e0 = None" "gm_get (of_Services f) (mos_UUID m) = Some old" by blast
  obtain d where d0: "fake_ModifyManagedObjectStorage m s = (Inr d, of_putService (mos_UUID m) d f)"
      "uos_UUID d = uos_UUID old" "uos_CustomDomains d = uos_CustomDomains old" "os_core d = os_patched m (os_core old)"
    using old rc
    by (cases "mos_Name m"; cases "mos_ConfiguredStatus m"; cases "mos_TerminationProtection m"; cases "mos_Labels m";
        cases "mos_Networks m") (simp_all add: fake_ModifyManagedObjectStorage_def os_patched_def os_core_def Let_def)
  have d: "x = os_core d" "s' = of_putService (mos_UUID m) d f" using assms(2) r d0(1) by (simp_all add: seen_def)
  have dd: "distinct (map ucd_DomainName (uos_CustomDomains d))" using f(1) old(2) d0(3) unfolding os_inv_def by auto
  have dom: "(of_findDomain f)(mos_UUID m := findBy ucd_DomainName (uos_CustomDomains d)) = of_findDomain f"
    using old(2) d0(3) by (simp add: of_findDomain_def fun_eq_iff)
  have v: "os_view s' = (os_view f)\<lparr>ov_Services := (ov_Services (os_view f))(mos_UUID m \<mapsto> os_core d)\<rparr>"
    unfolding d(2) os_view_putService os_view_sel dom by (simp add: os_view_def)
  have "ov_Services (os_view s) (mos_UUID m) = Some (os_core old)" using old(2) f(2) by (metis option.map(2) os_view_sel(4))
  then show "os_inv s' \<and> os_view s'\<lparr>ov_Services := \<lambda>_. None\<rparr> = os_view s\<lparr>ov_Services := \<lambda>_. None\<rparr> \<and>
      (\<exists>y. ov_Services (os_view s) (mos_UUID m) = Some y \<and> x = os_patched m y \<and>
        ov_Services (os_view s') = (ov_Services (os_view s))(mos_UUID m \<mapsto> x))"
    using os_inv_putService [OF f(1) old(2) d0(2) dd] d d0(4) unfolding v f(2)
    by (intro conjI exI [of _ "os_core old"]) (simp_all del: os_view_sel)
qed

lemma fake_DeleteManagedObjectStorage_law:
  assumes "os_inv s" and "fake_DeleteManagedObjectStorage r s = (e, s')"
  shows "os_inv s' \<and> (os_view s' = os_view s \<or> e = None \<and> os_view s' = without_service (dos_UUID r) (os_view s)) \<and>
      (IsNotFound e \<longrightarrow> ov_Services (os_view s) (dos_UUID r) = None) \<and>
      (\<not> dos_Force r \<longrightarrow> ov_Buckets (os_view s) (dos_UUID r) \<noteq> [] \<or>
         (\<exists>d. ov_Services (os_view s) (dos_UUID r) = Some d \<and> uos_TerminationProtection d) \<longrightarrow> os_view s' = os_view s)"
proof -
  obtain e0 f where rc: "of_record ''DeleteManagedObjectStorage'' s = (e0, f)" by fastforce
  note f = os_record_cases [OF assms(1) rc]
  let ?g = "f\<lparr>of_Services := gm_del (dos_UUID r) (of_Services f), of_Users := gm_del (dos_UUID r) (of_Users f),
    of_Policies := gm_del (dos_UUID r) (of_Policies f), of_Buckets := gm_del (dos_UUID r) (of_Buckets f)\<rparr>"
  have inv: "os_inv ?g" using f(1) by (auto simp: os_inv_def of_row_defs fresh_table_del split: if_splits)
  have v: "os_view ?g = without_service (dos_UUID r) (os_view f)"
    by (auto simp: os_view_def without_service_def of_row_defs of_find_defs arnIn_def attachedIn_def keysIn_def fun_eq_iff)
  have same: "of_Services f = of_Services s" "of_buckets f = of_buckets s" using f by simp_all
  show ?thesis
    using assms(2) rc f(1-3) inv v same
    by (auto simp: fake_DeleteManagedObjectStorage_def split: option.splits if_splits)
qed

subsection \<open>The laws of users, their policies and keys\<close>

lemma dom_map_findBy: "dom (\<lambda>k. map_option g (findBy uid xs k)) = uid ` set xs"
  by (induction xs) (auto simp: dom_def)

lemma fake_GetManagedObjectStorageUser_law:
  assumes "os_inv s" and "fake_GetManagedObjectStorageUser i n s = (r, s')"
  shows "os_inv s' \<and> os_view s' = os_view s \<and>
      (case r of
         Inl e \<Rightarrow> IsNotFound (Some e) \<longrightarrow> ov_Users (os_view s) i n = None
       | Inr x \<Rightarrow> uou_Username x = n \<and> ov_Users (os_view s) i n = Some (uou_ARN x) \<and>
           upo_Name ` set (uou_Policies x) = ov_Attached (os_view s) i n \<and>
           uak_AccessKeyID ` set (uou_AccessKeys x) = dom (ov_Keys (os_view s) i n))"
proof (cases "of_findUser s i n")
  case None
  then show ?thesis
    using assms by (auto simp: fake_GetManagedObjectStorageUser_def os_view_user Let_def split: option.splits)
next
  case (Some u)
  note D = of_findUser_D [OF assms(1) Some]
  have "uak_AccessKeyID ` set (uou_AccessKeys u) = dom (ov_Keys (os_view s) i n)"
    unfolding os_view_user(3) [OF Some] by (simp add: dom_map_findBy)
  then show ?thesis
    using assms Some D by (auto simp: fake_GetManagedObjectStorageUser_def os_view_user Let_def split: option.splits)
qed

lemma fake_CreateManagedObjectStorageUser_law:
  assumes "os_inv s" and "fake_CreateManagedObjectStorageUser i n s = (r, s')"
  shows "os_inv s' \<and>
      (case r of
         Inl e \<Rightarrow> os_view s' = os_view s
       | Inr x \<Rightarrow> ov_Users (os_view s) i n = None \<and> ov_Attached (os_view s) i n = {} \<and> ov_Keys (os_view s) i n = (\<lambda>_. None) \<and>
           uou_Username x = n \<and> os_view s' = (os_view s)\<lparr>ov_Users := put2 (ov_Users (os_view s)) i n (Some (uou_ARN x))\<rparr>)"
proof -
  obtain e0 f where rc: "of_record ''CreateManagedObjectStorageUser'' s = (e0, f)" by fastforce
  note f = os_record_cases [OF assms(1) rc]
  show ?thesis
  proof (cases r)
    case (Inl e)
    then show ?thesis
      using assms(2) rc f(1,2) by (auto simp: fake_CreateManagedObjectStorageUser_def Let_def split: option.splits if_splits)
  next
    case (Inr x)
    then have x: "gm_get (of_Services f) i \<noteq> None" "of_findUser f i n = None" "uou_Username x = n" "uou_Policies x = []"
      "uou_AccessKeys x = []" "s' = of_putUsers i (of_users f i @ [x]) f"
      using assms(2) rc by (auto simp: fake_CreateManagedObjectStorageUser_def Let_def split: option.splits if_splits)
    have new: "uou_Username x \<notin> uou_Username ` set (of_users f i)"
      using x(2,3) by (simp add: of_findUser_def findBy_None)
    have "distinct (map uou_Username (of_users f i))" "list_all (user_ok (of_seq f)) (of_users f i)"
      using f(1) unfolding os_inv_def by blast+
    then have "os_inv s'" unfolding x(6) using new x
      by (intro os_inv_putUsers [OF f(1)]) (auto simp: user_ok_def)
    have fb: "findBy uou_Username (of_users f i @ [x]) = (findBy uou_Username (of_users f i))(n \<mapsto> x)"
      using findBy_snoc [OF new] x(3) by simp
    have none: "findBy uou_Username (of_users f i) n = None" using x(2) by (simp add: of_findUser_def)
    have "arnIn (of_users f i @ [x]) = (arnIn (of_users f i))(n := Some (uou_ARN x))"
      "attachedIn (of_users f i @ [x]) = attachedIn (of_users f i)" "keysIn (of_users f i @ [x]) = keysIn (of_users f i)"
      using x(4,5) none by (auto simp: arnIn_def attachedIn_def keysIn_def fb fun_eq_iff)
    then have "os_view s' = (os_view f)\<lparr>ov_Users := put2 (ov_Users (os_view f)) i n (Some (uou_ARN x))\<rparr>"
      unfolding x(6) os_view_putUsers by (auto simp: os_view_def fun_eq_iff)
    then show ?thesis
      using \<open>os_inv s'\<close> os_view_user(4-6) [OF x(2)] x(3) Inr f(2) by simp
  qed
qed

lemma fake_DeleteManagedObjectStorageUser_law:
  assumes "os_inv s" and "fake_DeleteManagedObjectStorageUser i n s = (e, s')"
  shows "os_inv s' \<and>
      (case e of
         None \<Rightarrow> os_view s' = (os_view s)\<lparr>ov_Users := put2 (ov_Users (os_view s)) i n None,
           ov_Attached := put2 (ov_Attached (os_view s)) i n {}, ov_Keys := put2 (ov_Keys (os_view s)) i n (\<lambda>_. None)\<rparr>
       | Some x \<Rightarrow> os_view s' = os_view s \<and> (IsNotFound e \<longrightarrow> ov_Users (os_view s) i n = None))"
proof -
  obtain e0 f where rc: "of_record ''DeleteManagedObjectStorageUser'' s = (e0, f)" by fastforce
  note f = os_record_cases [OF assms(1) rc]
  show ?thesis
  proof (cases e)
    case (Some x)
    then have "IsNotFound e \<Longrightarrow> of_findUser f i n = None"
      using assms(2) rc f(3) os_view_absent(1) [OF f(1)]
      by (auto simp: fake_DeleteManagedObjectStorageUser_def of_findUser_def Let_def split: option.splits)
    then have "IsNotFound e \<Longrightarrow> ov_Users (os_view s) i n = None" using os_view_user(4) [of f i n] f(2) by simp
    then show ?thesis
      using Some assms(2) rc f(1,2) by (auto simp: fake_DeleteManagedObjectStorageUser_def Let_def split: option.splits)
  next
    case None
    then obtain u where u: "gm_get (of_Services f) i \<noteq> None" "findBy uou_Username (of_users f i) n = Some u"
      "s' = of_putUsers i (dropFirst uou_Username n (of_users f i)) (f\<lparr>of_KeySecrets := fold (\<lambda>k m. gm_del (uak_AccessKeyID k) m) (uou_AccessKeys u)
              (of_KeySecrets f)\<rparr>)"
      using assms(2) rc by (auto simp: fake_DeleteManagedObjectStorageUser_def Let_def split: option.splits)
    let ?us = "dropFirst uou_Username n (of_users f i)"
    obtain g where g: "s' = of_putUsers i ?us g" "of_Services g = of_Services f" "of_Users g = of_Users f"
      "of_Policies g = of_Policies f" "of_Buckets g = of_Buckets f" "of_seq g = of_seq f" "of_FailNext g = of_FailNext f"
      using u(3) that by simp
    note gc = os_rows_cong [OF g(2-5)]
    have ginv: "os_inv g" using f(1) unfolding os_inv_def gc(2-4) g(2,6,7) .
    have d: "distinct (map uou_Username (of_users f i))" "list_all (user_ok (of_seq f)) (of_users f i)"
      using f(1) unfolding os_inv_def by blast+
    then have "os_inv s'" unfolding g(1)
      using u(1) set_dropFirst [of uou_Username n "of_users f i"] g(2,6)
      by (intro os_inv_putUsers [OF ginv]) (auto simp: map_dropFirst list_all_iff)
    have fb: "findBy uou_Username ?us m = (if m = n then None else findBy uou_Username (of_users f i) m)" for m
      by (rule findBy_dropFirst [OF d(1)])
    have "arnIn ?us = (arnIn (of_users f i))(n := None)" "attachedIn ?us = (attachedIn (of_users f i))(n := {})"
      "keysIn ?us = (keysIn (of_users f i))(n := \<lambda>_. None)"
      by (auto simp: arnIn_def attachedIn_def keysIn_def fb fun_eq_iff)
    then have "os_view s' = (os_view f)\<lparr>ov_Users := put2 (ov_Users (os_view f)) i n None,
           ov_Attached := put2 (ov_Attached (os_view f)) i n {}, ov_Keys := put2 (ov_Keys (os_view f)) i n (\<lambda>_. None)\<rparr>"
      unfolding g(1) os_view_putUsers gc(1) by (simp add: os_view_def)
    then show ?thesis using \<open>os_inv s'\<close> None f(2) by simp
  qed
qed

lemma fake_AttachManagedObjectStorageUserPolicy_law:
  assumes "os_inv s" and "fake_AttachManagedObjectStorageUserPolicy i n p s = (e, s')"
  shows "os_inv s' \<and>
      (case e of
         None \<Rightarrow> os_view s' = (os_view s)\<lparr>ov_Attached := put2 (ov_Attached (os_view s)) i n (insert p (ov_Attached (os_view s) i n))\<rparr>
       | Some x \<Rightarrow> os_view s' = os_view s)"
proof -
  obtain e0 f where rc: "of_record ''AttachManagedObjectStorageUserPolicy'' s = (e0, f)" by fastforce
  note f = os_record_cases [OF assms(1) rc]
  show ?thesis
  proof (cases e)
    case (Some x)
    then show ?thesis
      using assms(2) rc f(1,2) by (auto simp: fake_AttachManagedObjectStorageUserPolicy_def split: option.splits if_splits)
  next
    case None
    then obtain u pol where u: "of_findUser f i n = Some u" "of_findPolicy f i p = Some pol"
      "s' = (if list_ex (\<lambda>q. upo_Name q = p) (uou_Policies u) then f
             else of_setUser i n (u\<lparr>uou_Policies := uou_Policies u @ [pol]\<rparr>) f)"
      using assms(2) rc
      by (auto simp: fake_AttachManagedObjectStorageUserPolicy_def split: option.splits if_splits)
    note D = of_findUser_D [OF f(1) u(1)]
    note uv = os_view_user(1-3) [OF u(1)]
    have pn: "upo_Name pol = p" using u(2) by (auto simp: of_findPolicy_def dest: findBy_Some)
    show ?thesis
    proof (cases "list_ex (\<lambda>q. upo_Name q = p) (uou_Policies u)")
      case True
      then have "p \<in> ov_Attached (os_view f) i n" using uv(2) by (auto simp: list_ex_iff)
      then have "insert p (ov_Attached (os_view f) i n) = ov_Attached (os_view f) i n" by (rule insert_absorb)
      then show ?thesis using True u(3) None f(1,2) by simp
    next
      case False
      let ?u = "u\<lparr>uou_Policies := uou_Policies u @ [pol]\<rparr>"
      have ok: "user_ok (of_seq f) ?u" using D(2) False pn by (auto simp: user_ok_def list_ex_iff)
      note w = os_setUser [OF f(1) u(1) _ ok]
      have "uou_Username ?u = n" using D(1) by simp
      note w = w(1) [OF this] w(2) [OF this]
      have "os_view s' = (os_view f)\<lparr>ov_Attached := put2 (ov_Attached (os_view f)) i n (insert p (ov_Attached (os_view f) i n))\<rparr>"
        using False u(3) uv pn unfolding w(2) if_False u(3)
        by (simp add: w(2)) (simp add: uv(1,3) [symmetric] fun_upd_idem)
      then show ?thesis using False u(3) None f(2) w(1) by simp
    qed
  qed
qed

text \<open>Rewriting one part of a user.\<close>

lemma os_setUser_attached:
  assumes "os_inv f" and "of_findUser f i n = Some u" and "distinct (map upo_Name ps)"
  shows "os_inv (of_setUser i n (u\<lparr>uou_Policies := ps\<rparr>) f)"
    and "os_view (of_setUser i n (u\<lparr>uou_Policies := ps\<rparr>) f)
      = (os_view f)\<lparr>ov_Attached := put2 (ov_Attached (os_view f)) i n (upo_Name ` set ps)\<rparr>"
proof -
  let ?u = "u\<lparr>uou_Policies := ps\<rparr>"
  note D = of_findUser_D [OF assms(1,2)]
  have ok: "uou_Username ?u = n" "user_ok (of_seq f) ?u" using D(1,2) assms(3) by (simp_all add: user_ok_def)
  note w = os_setUser [OF assms(1,2) ok]
  show "os_inv (of_setUser i n ?u f)" by (rule w(1))
  show "os_view (of_setUser i n ?u f) = (os_view f)\<lparr>ov_Attached := put2 (ov_Attached (os_view f)) i n (upo_Name ` set ps)\<rparr>"
    unfolding w(2) using os_view_user(1,3) [OF assms(2)] by (simp add: fun_upd_idem)
qed

lemma os_setUser_keys:
  assumes "os_inv f" and "of_findUser f i n = Some u" and "fresh_list uak_AccessKeyID (\<lambda>m. {keyID m}) (of_seq f) ks"
  shows "os_inv (of_setUser i n (u\<lparr>uou_AccessKeys := ks\<rparr>) f)"
    and "os_view (of_setUser i n (u\<lparr>uou_AccessKeys := ks\<rparr>) f)
      = (os_view f)\<lparr>ov_Keys := put2 (ov_Keys (os_view f)) i n (\<lambda>k. map_option uak_Status (findBy uak_AccessKeyID ks k))\<rparr>"
proof -
  let ?u = "u\<lparr>uou_AccessKeys := ks\<rparr>"
  note D = of_findUser_D [OF assms(1,2)]
  have ok: "uou_Username ?u = n" "user_ok (of_seq f) ?u" using D(1,2) assms(3) by (simp_all add: user_ok_def)
  note w = os_setUser [OF assms(1,2) ok]
  show "os_inv (of_setUser i n ?u f)" by (rule w(1))
  show "os_view (of_setUser i n ?u f)
      = (os_view f)\<lparr>ov_Keys := put2 (ov_Keys (os_view f)) i n (\<lambda>k. map_option uak_Status (findBy uak_AccessKeyID ks k))\<rparr>"
    unfolding w(2) using os_view_user(1,2) [OF assms(2)] by (simp add: fun_upd_idem)
qed

lemma fake_DetachManagedObjectStorageUserPolicy_law:
  assumes "os_inv s" and "fake_DetachManagedObjectStorageUserPolicy i n p s = (e, s')"
  shows "os_inv s' \<and>
      (case e of
         None \<Rightarrow> os_view s' = (os_view s)\<lparr>ov_Attached := put2 (ov_Attached (os_view s)) i n (ov_Attached (os_view s) i n - {p})\<rparr>
       | Some x \<Rightarrow> os_view s' = os_view s \<and> (IsNotFound e \<longrightarrow> p \<notin> ov_Attached (os_view s) i n))"
proof -
  obtain e0 f where rc: "of_record ''DetachManagedObjectStorageUserPolicy'' s = (e0, f)" by fastforce
  note f = os_record_cases [OF assms(1) rc]
  show ?thesis
  proof (cases e)
    case (Some x)
    have "p \<notin> ov_Attached (os_view f) i n" if nf: "IsNotFound e"
    proof (cases "of_findUser f i n")
      case None
      then show ?thesis using os_view_user(5) by simp
    next
      case (Some u)
      then have "e0 = None \<Longrightarrow> \<not> list_ex (\<lambda>q. upo_Name q = p) (uou_Policies u)"
        using assms(2) rc nf of_findUser_D(3) [OF f(1) Some]
        by (auto simp: fake_DetachManagedObjectStorageUserPolicy_def Let_def split: if_splits)
      moreover have "e0 = None" using assms(2) rc nf f(3)
        by (cases e0) (auto simp: fake_DetachManagedObjectStorageUserPolicy_def)
      ultimately show ?thesis using os_view_user(2) [OF Some] by (auto simp: list_ex_iff)
    qed
    then show ?thesis
      using Some assms(2) rc f(1,2)
      by (auto simp: fake_DetachManagedObjectStorageUserPolicy_def Let_def split: option.splits if_splits)
  next
    case None
    then obtain u where u: "of_findUser f i n = Some u"
      "s' = of_setUser i n (u\<lparr>uou_Policies := filter (\<lambda>q. upo_Name q \<noteq> p) (uou_Policies u)\<rparr>) f"
      using assms(2) rc by (auto simp: fake_DetachManagedObjectStorageUserPolicy_def Let_def split: option.splits if_splits)
    let ?ps = "filter (\<lambda>q. upo_Name q \<noteq> p) (uou_Policies u)"
    have d: "distinct (map upo_Name ?ps)"
      using of_findUser_D(2) [OF f(1) u(1)] by (simp add: user_ok_def distinct_map_filter)
    have "upo_Name ` set ?ps = ov_Attached (os_view f) i n - {p}" using os_view_user(2) [OF u(1)] by auto
    then show ?thesis using os_setUser_attached [OF f(1) u(1) d] u(2) None f(2) by simp
  qed
qed

lemma fake_GetManagedObjectStorageUserPolicies_law:
  assumes "os_inv s" and "fake_GetManagedObjectStorageUserPolicies i n s = (r, s')"
  shows "os_inv s' \<and> os_view s' = os_view s \<and>
      (\<forall>xs. r = Inr xs \<longrightarrow> distinct (map uup_Name xs) \<and> uup_Name ` set xs = ov_Attached (os_view s) i n)"
proof (cases "of_findUser s i n")
  case None
  then show ?thesis
    using assms by (auto simp: fake_GetManagedObjectStorageUserPolicies_def Let_def split: option.splits)
next
  case (Some u)
  then show ?thesis
    using assms os_view_user(2) [OF Some] of_findUser_D(2) [OF assms(1) Some]
    by (auto simp: fake_GetManagedObjectStorageUserPolicies_def Let_def user_ok_def o_def image_image split: option.splits)
qed

lemma keyID_inj: "keyID m = keyID n \<longleftrightarrow> m = n"
proof
  assume "keyID m = keyID n"
  then have "radix_val 10 (fmt_016d m) = radix_val 10 (fmt_016d n)" by (simp add: keyID_def)
  then show "m = n" by (simp add: fmt_016d_def fmt_d_def radix_val_zeros radix_val_radix)
qed simp

lemma keyID_unused:
  assumes "fresh_list uak_AccessKeyID (\<lambda>m. {keyID m}) n ks"
  shows "keyID (Suc n) \<notin> uak_AccessKeyID ` set ks"
  using assms by (fastforce simp: fresh_list_def keyID_inj)

lemma of_findKey_D:
  assumes "os_inv f" and "of_findUser f i n = Some u"
  shows "of_findKey f i n k = findBy uak_AccessKeyID (uou_AccessKeys u) k"
    "fresh_list uak_AccessKeyID (\<lambda>m. {keyID m}) (of_seq f) (uou_AccessKeys u)"
    "ov_Keys (os_view f) i n k = map_option uak_Status (findBy uak_AccessKeyID (uou_AccessKeys u) k)"
  using of_findUser_D(2) [OF assms] os_view_user(3) [OF assms(2)] assms(2)
  by (simp_all add: of_findKey_def user_ok_def)

lemma of_findKey_view:
  assumes "os_inv f"
  shows "map_option uak_Status (of_findKey f i n k) = ov_Keys (os_view f) i n k"
  using of_findKey_D [OF assms] os_view_user(6) by (cases "of_findUser f i n") (simp_all add: of_findKey_def)

lemma fake_CreateManagedObjectStorageUserAccessKey_law:
  assumes "os_inv s" and "fake_CreateManagedObjectStorageUserAccessKey i n s = (r, s')"
  shows "os_inv s' \<and>
      (case r of
         Inl e \<Rightarrow> os_view s' = os_view s
       | Inr x \<Rightarrow> uak_AccessKeyID x \<noteq> '''' \<and> ov_Keys (os_view s) i n (uak_AccessKeyID x) = None \<and>
           uak_Status x = KeyActive \<and> uak_SecretAccessKey x \<noteq> None \<and>
           os_view s' = (os_view s)\<lparr>ov_Keys := put2 (ov_Keys (os_view s)) i n
             ((ov_Keys (os_view s) i n)(uak_AccessKeyID x \<mapsto> uak_Status x))\<rparr>)"
proof -
  obtain e0 f where rc: "of_record ''CreateManagedObjectStorageUserAccessKey'' s = (e0, f)" by fastforce
  note f = os_record_cases [OF assms(1) rc]
  show ?thesis
  proof (cases r)
    case (Inl e)
    then show ?thesis
      using assms(2) rc f(1,2)
      by (auto simp: fake_CreateManagedObjectStorageUserAccessKey_def Let_def split: option.splits)
  next
    case (Inr x)
    let ?n = "Suc (of_seq f)"
    let ?key = "\<lparr>uak_AccessKeyID = keyID ?n, uak_Status = KeyActive, uak_SecretAccessKey = None, uak_CreatedAt = zeroTime\<rparr>"
    obtain u sec where u: "of_findUser f i n = Some u" "x = ?key\<lparr>uak_SecretAccessKey := Some sec\<rparr>"
      "s' = of_setUser i n (u\<lparr>uou_AccessKeys := uou_AccessKeys u @ [?key]\<rparr>)
         (f\<lparr>of_seq := ?n, of_KeySecrets := gm_put (keyID ?n) sec (of_KeySecrets f)\<rparr>)"
      using assms(2) rc Inr
      by (auto simp: fake_CreateManagedObjectStorageUserAccessKey_def Let_def split: option.splits)
    obtain g where g: "s' = of_setUser i n (u\<lparr>uou_AccessKeys := uou_AccessKeys u @ [?key]\<rparr>) g" "of_Services g = of_Services f"
      "of_Users g = of_Users f" "of_Policies g = of_Policies f" "of_Buckets g = of_Buckets f" "of_seq g = ?n"
      "of_FailNext g = of_FailNext (f\<lparr>of_seq := ?n\<rparr>)"
      using u(3) that by simp
    note gc = os_rows_cong [OF g(2-5)]
    have ginv: "os_inv g"
    proof -
      note fc = os_rows_cong [of "f\<lparr>of_seq := ?n\<rparr>" f]
      show ?thesis using os_inv_Suc [OF f(1)] fc(2-4) unfolding os_inv_def gc(2-4) g(2,6,7) by simp
    qed
    have gu: "of_findUser g i n = Some u" using u(1) gc(5) by simp
    note K = of_findKey_D [OF f(1) u(1)]
    note new = keyID_unused [OF K(2)]
    have fl: "fresh_list uak_AccessKeyID (\<lambda>m. {keyID m}) (of_seq g) (uou_AccessKeys u @ [?key])"
      using fresh_list_Suc [OF K(2)] new g(6) by (auto simp: fresh_list_def)
    note w = os_setUser_keys [OF ginv gu fl]
    have fb: "findBy uak_AccessKeyID (uou_AccessKeys u @ [?key])
        = (findBy uak_AccessKeyID (uou_AccessKeys u))(keyID ?n \<mapsto> ?key)"
      using findBy_snoc [of uak_AccessKeyID ?key "uou_AccessKeys u"] new by simp
    have keys: "(\<lambda>k. map_option uak_Status (findBy uak_AccessKeyID (uou_AccessKeys u @ [?key]) k))
        = (ov_Keys (os_view f) i n)(keyID ?n \<mapsto> KeyActive)"
      unfolding fb by (auto simp: K(3) fun_eq_iff)
    have none: "ov_Keys (os_view f) i n (keyID ?n) = None" using new by (simp add: K(3) findBy_None)
    have "keyID ?n \<noteq> ''''" by (simp add: keyID_def)
    moreover have "os_view s' = (os_view f)\<lparr>ov_Keys := put2 (ov_Keys (os_view f)) i n
             ((ov_Keys (os_view f) i n)(keyID ?n \<mapsto> KeyActive))\<rparr>"
      using w(2) unfolding keys gc(1) g(1) [symmetric] .
    ultimately show ?thesis using w(1) none g(1) u(2) Inr unfolding f(2) by simp
  qed
qed

lemma fake_GetManagedObjectStorageUserAccessKey_law:
  assumes "os_inv s" and "fake_GetManagedObjectStorageUserAccessKey i n k s = (r, s')"
  shows "os_inv s' \<and> os_view s' = os_view s \<and>
      (case r of
         Inl e \<Rightarrow> IsNotFound (Some e) \<longrightarrow> ov_Keys (os_view s) i n k = None
       | Inr x \<Rightarrow> uak_AccessKeyID x = k \<and> ov_Keys (os_view s) i n k = Some (uak_Status x))"
proof (cases "of_findKey s i n k")
  case None
  then have "ov_Keys (os_view s) i n k = None" using of_findKey_view [OF assms(1), of i n k] by simp
  then show ?thesis
    using None assms by (auto simp: fake_GetManagedObjectStorageUserAccessKey_def Let_def split: option.splits)
next
  case (Some key)
  then have "ov_Keys (os_view s) i n k = Some (uak_Status key)" "uak_AccessKeyID key = k"
    "gm_get (of_Services s) i \<noteq> None"
    using of_findKey_view [OF assms(1), of i n k] of_findUser_D(3) [OF assms(1)]
    by (auto simp: of_findKey_def dest: findBy_Some split: option.splits)
  then show ?thesis
    using Some assms by (auto simp: fake_GetManagedObjectStorageUserAccessKey_def Let_def)
qed

lemma fake_ModifyManagedObjectStorageUserAccessKey_law:
  assumes "os_inv s" and "fake_ModifyManagedObjectStorageUserAccessKey i n k st s = (r, s')"
  shows "os_inv s' \<and>
      (case r of
         Inl e \<Rightarrow> os_view s' = os_view s
       | Inr x \<Rightarrow> (\<exists>old. ov_Keys (os_view s) i n k = Some old \<and> uak_Status x = (if st \<noteq> '''' then st else old)) \<and>
           os_view s' = (os_view s)\<lparr>ov_Keys := put2 (ov_Keys (os_view s)) i n ((ov_Keys (os_view s) i n)(k \<mapsto> uak_Status x))\<rparr>)"
proof -
  obtain e0 f where rc: "of_record ''ModifyManagedObjectStorageUserAccessKey'' s = (e0, f)" by fastforce
  note f = os_record_cases [OF assms(1) rc]
  show ?thesis
  proof (cases r)
    case (Inl e)
    then show ?thesis
      using assms(2) rc f(1,2)
      by (auto simp: fake_ModifyManagedObjectStorageUserAccessKey_def Let_def split: option.splits)
  next
    case (Inr x)
    then obtain key where key: "of_findKey f i n k = Some key" "x = (if st \<noteq> '''' then key\<lparr>uak_Status := st\<rparr> else key)"
      "s' = of_setKey i n k x f"
      using assms(2) rc
      by (auto simp: fake_ModifyManagedObjectStorageUserAccessKey_def Let_def split: option.splits)
    then obtain u where u: "of_findUser f i n = Some u" by (auto simp: of_findKey_def split: option.splits)
    note K = of_findKey_D [OF f(1) u]
    have fk: "findBy uak_AccessKeyID (uou_AccessKeys u) k = Some key" using key(1) K(1) by simp
    have xk: "uak_AccessKeyID x = k" using findBy_Some [OF fk] key(2) by simp
    let ?ks = "setFirst uak_AccessKeyID k x (uou_AccessKeys u)"
    have fl: "fresh_list uak_AccessKeyID (\<lambda>m. {keyID m}) (of_seq f) ?ks"
      using fresh_list_setFirst [OF K(2) _ xk] fk by simp
    have "(\<lambda>m. map_option uak_Status (findBy uak_AccessKeyID ?ks m)) = (ov_Keys (os_view f) i n)(k \<mapsto> uak_Status x)"
      by (auto simp: fun_eq_iff findBy_setFirst [of uak_AccessKeyID x k, OF xk] fk K(3))
    moreover have "ov_Keys (os_view f) i n k = Some (uak_Status key)" using fk by (simp add: K(3))
    ultimately show ?thesis
      using os_setUser_keys [OF f(1) u fl] key(2,3) u Inr f(2) by (simp add: of_setKey_def)
  qed
qed

lemma fake_DeleteManagedObjectStorageUserAccessKey_law:
  assumes "os_inv s" and "fake_DeleteManagedObjectStorageUserAccessKey i n k s = (e, s')"
  shows "os_inv s' \<and>
      (case e of
         None \<Rightarrow> os_view s' = (os_view s)\<lparr>ov_Keys := put2 (ov_Keys (os_view s)) i n ((ov_Keys (os_view s) i n)(k := None))\<rparr>
       | Some x \<Rightarrow> os_view s' = os_view s \<and> (IsNotFound e \<longrightarrow> ov_Keys (os_view s) i n k = None))"
proof -
  obtain e0 f where rc: "of_record ''DeleteManagedObjectStorageUserAccessKey'' s = (e0, f)" by fastforce
  note f = os_record_cases [OF assms(1) rc]
  show ?thesis
  proof (cases e)
    case (Some x)
    have "ov_Keys (os_view f) i n k = None" if nf: "IsNotFound e"
    proof -
      have "e0 = None" using assms(2) rc nf f(3)
        by (cases e0) (auto simp: fake_DeleteManagedObjectStorageUserAccessKey_def)
      then have "of_findKey f i n k = None"
        using Some assms(2) rc of_findUser_D(3) [OF f(1), of i n]
        by (cases "of_findUser f i n")
          (auto simp: fake_DeleteManagedObjectStorageUserAccessKey_def of_findKey_def split: option.splits)
      then show ?thesis using of_findKey_view [OF f(1), of i n k] by simp
    qed
    then show ?thesis
      using Some assms(2) rc f(1,2)
      by (auto simp: fake_DeleteManagedObjectStorageUserAccessKey_def split: option.splits)
  next
    case None
    then obtain u where u: "of_findUser f i n = Some u"
      "s' = of_setUser i n (u\<lparr>uou_AccessKeys := dropFirst uak_AccessKeyID k (uou_AccessKeys u)\<rparr>)
         (f\<lparr>of_KeySecrets := gm_del k (of_KeySecrets f)\<rparr>)"
      using assms(2) rc by (auto simp: fake_DeleteManagedObjectStorageUserAccessKey_def split: option.splits)
    let ?ks = "dropFirst uak_AccessKeyID k (uou_AccessKeys u)"
    obtain g where g: "s' = of_setUser i n (u\<lparr>uou_AccessKeys := ?ks\<rparr>) g" "of_Services g = of_Services f"
      "of_Users g = of_Users f" "of_Policies g = of_Policies f" "of_Buckets g = of_Buckets f" "of_seq g = of_seq f"
      "of_FailNext g = of_FailNext f"
      using u(2) that by simp
    note gc = os_rows_cong [OF g(2-5)]
    have ginv: "os_inv g" using f(1) unfolding os_inv_def gc(2-4) g(2,6,7) .
    have gu: "of_findUser g i n = Some u" using u(1) gc(5) by simp
    note K = of_findKey_D [OF ginv gu]
    have "(\<lambda>m. map_option uak_Status (findBy uak_AccessKeyID ?ks m)) = (ov_Keys (os_view f) i n)(k := None)"
      using findBy_dropFirst [OF fresh_list_distinct [OF K(2)]] K(3) gc(1) by (auto simp: fun_eq_iff)
    then show ?thesis
      using os_setUser_keys [OF ginv gu fresh_list_dropFirst [OF K(2)]] None unfolding g(1) gc(1) f(2) by simp
  qed
qed

subsection \<open>The laws of policies, buckets and domains\<close>

lemma fake_CreateManagedObjectStoragePolicy_law:
  assumes "os_inv s" and "fake_CreateManagedObjectStoragePolicy parse i c s = (r, s')"
  shows "os_inv s' \<and>
      (case r of
         Inl e \<Rightarrow> os_view s' = os_view s
       | Inr x \<Rightarrow> ov_Policies (os_view s) i (cop_Name c) = None \<and> upo_Name x = cop_Name c \<and>
           upo_Description x = cop_Description c \<and> upo_Document x = cop_Document c \<and>
           os_view s' = (os_view s)\<lparr>ov_Policies := put2 (ov_Policies (os_view s)) i (cop_Name c) (Some x)\<rparr>)"
proof -
  obtain e0 f where rc: "of_record ''CreateManagedObjectStoragePolicy'' s = (e0, f)" by fastforce
  note f = os_record_cases [OF assms(1) rc]
  show ?thesis
  proof (cases r)
    case (Inl e)
    then show ?thesis
      using assms(2) rc f(1,2)
      by (auto simp: fake_CreateManagedObjectStoragePolicy_def Let_def split: option.splits prod.splits if_splits)
  next
    case (Inr x)
    let ?g = "f\<lparr>of_seq := Suc (of_seq f)\<rparr>"
    have x: "gm_get (of_Services f) i \<noteq> None" "of_findPolicy f i (cop_Name c) = None"
      "upo_Name x = cop_Name c \<and> upo_Description x = cop_Description c \<and> upo_Document x = cop_Document c"
      "s' = of_putPolicies i (of_policies f i @ [x]) ?g"
      using assms(2) rc Inr
      by (auto simp: fake_CreateManagedObjectStoragePolicy_def Let_def split: option.splits prod.splits if_splits)
    have gv: "os_view ?g = os_view f" by (rule os_rows_cong) simp_all
    have new: "upo_Name x \<notin> upo_Name ` set (of_policies f i)" using x(2,3) by (simp add: of_findPolicy_def findBy_None)
    have "distinct (map upo_Name (of_policies f i))" using f(1) unfolding os_inv_def by blast
    then have "os_inv s'" unfolding x(4) using new x(1) by (intro os_inv_putPolicies [OF os_inv_Suc [OF f(1)]]) auto
    moreover have "findBy upo_Name (of_policies f i @ [x]) = (ov_Policies (os_view f) i)(cop_Name c \<mapsto> x)"
      using findBy_snoc [OF new] x(3) by (auto simp: os_view_def of_findPolicy_def)
    moreover have "ov_Policies (os_view f) i (cop_Name c) = None" using x(2) by (simp add: os_view_def)
    ultimately show ?thesis using Inr x(3) unfolding x(4) os_view_putPolicies gv f(2) by simp
  qed
qed

lemma fake_GetManagedObjectStoragePolicy_law:
  assumes "os_inv s" and "fake_GetManagedObjectStoragePolicy i n s = (r, s')"
  shows "os_inv s' \<and> os_view s' = os_view s \<and>
      (case r of
         Inl e \<Rightarrow> IsNotFound (Some e) \<longrightarrow> ov_Policies (os_view s) i n = None
       | Inr x \<Rightarrow> upo_Name x = n \<and> ov_Policies (os_view s) i n = Some x)"
proof -
  have "gm_get (of_Services s) i = None \<Longrightarrow> of_findPolicy s i n = None" using assms(1) by (simp add: os_inv_def of_findPolicy_def)
  moreover have "of_findPolicy s i n = Some x \<Longrightarrow> upo_Name x = n" for x by (auto simp: of_findPolicy_def dest: findBy_Some)
  moreover have "ov_Policies (os_view s) i n = of_findPolicy s i n" by (simp add: os_view_def)
  ultimately show ?thesis
    using assms by (auto simp: fake_GetManagedObjectStoragePolicy_def Let_def split: option.splits)
qed

lemma fake_DeleteManagedObjectStoragePolicy_law:
  assumes "os_inv s" and "fake_DeleteManagedObjectStoragePolicy i n s = (e, s')"
  shows "os_inv s' \<and>
      (case e of
         None \<Rightarrow> (\<forall>u. n \<notin> ov_Attached (os_view s) i u) \<and>
           os_view s' = (os_view s)\<lparr>ov_Policies := put2 (ov_Policies (os_view s)) i n None\<rparr>
       | Some x \<Rightarrow> os_view s' = os_view s \<and> (IsNotFound e \<longrightarrow> ov_Policies (os_view s) i n = None))"
proof -
  obtain e0 f where rc: "of_record ''DeleteManagedObjectStoragePolicy'' s = (e0, f)" by fastforce
  note f = os_record_cases [OF assms(1) rc]
  have pv: "ov_Policies (os_view f) i n = findBy upo_Name (of_policies f i) n" by (simp add: os_view_def of_findPolicy_def)
  show ?thesis
  proof (cases e)
    case (Some x)
    have "gm_get (of_Services f) i = None \<Longrightarrow> of_policies f i = []" using f(1) unfolding os_inv_def by blast
    then have "IsNotFound e \<Longrightarrow> ov_Policies (os_view f) i n = None"
      using assms(2) rc f(3) pv
      by (auto simp: fake_DeleteManagedObjectStoragePolicy_def split: option.splits if_splits)
    then show ?thesis
      using Some assms(2) rc f(1,2) by (auto simp: fake_DeleteManagedObjectStoragePolicy_def split: option.splits if_splits)
  next
    case None
    then have x: "gm_get (of_Services f) i \<noteq> None" "s' = of_putPolicies i (dropFirst upo_Name n (of_policies f i)) f"
      and free: "\<not> list_ex (\<lambda>u. list_ex (\<lambda>p. upo_Name p = n) (uou_Policies u)) (of_users f i)"
      using assms(2) rc by (auto simp: fake_DeleteManagedObjectStoragePolicy_def split: option.splits if_splits)
    have "n \<notin> ov_Attached (os_view f) i u" for u
      using free by (auto simp: os_view_def attachedIn_def list_ex_iff dest: findBy_Some split: option.splits)
    moreover have d: "distinct (map upo_Name (of_policies f i))" using f(1) unfolding os_inv_def by blast
    moreover have "os_inv s'" unfolding x(2) using x(1) d
      by (intro os_inv_putPolicies [OF f(1)]) (auto simp: map_dropFirst)
    moreover have "findBy upo_Name (dropFirst upo_Name n (of_policies f i)) = (ov_Policies (os_view f) i)(n := None)"
      using findBy_dropFirst [OF d] by (auto simp: os_view_def of_findPolicy_def fun_eq_iff)
    ultimately show ?thesis using None unfolding x(2) os_view_putPolicies f(2) by simp
  qed
qed

lemma live_of_findBy:
  assumes "distinct (map ubk_Name bs)"
  shows "live bs n = (case findBy ubk_Name bs n of None \<Rightarrow> None | Some b \<Rightarrow> if ubk_Deleted b then None else Some b)"
  using assms
proof (induction bs)
  case (Cons b bs)
  then have "ubk_Name b = n \<Longrightarrow> findBy ubk_Name bs n = None" by (auto simp: findBy_None)
  then show ?case using Cons by (auto simp: live_def)
qed (simp add: live_def)

lemma fake_CreateManagedObjectStorageBucket_law:
  assumes "os_inv s" and "fake_CreateManagedObjectStorageBucket i n s = (r, s')"
  shows "os_inv s' \<and>
      (case r of
         Inl e \<Rightarrow> os_view s' = os_view s
       | Inr x \<Rightarrow> live (ov_Buckets (os_view s) i) n = None \<and> ubk_Name x = n \<and> \<not> ubk_Deleted x \<and>
           os_view s' = (os_view s)\<lparr>ov_Buckets := (ov_Buckets (os_view s))(i := ov_Buckets (os_view s) i @ [x])\<rparr>)"
proof -
  obtain e0 f where rc: "of_record ''CreateManagedObjectStorageBucket'' s = (e0, f)" by fastforce
  note f = os_record_cases [OF assms(1) rc]
  show ?thesis
  proof (cases r)
    case (Inl e)
    then show ?thesis
      using assms(2) rc f(1,2)
      by (auto simp: fake_CreateManagedObjectStorageBucket_def Let_def split: option.splits if_splits)
  next
    case (Inr x)
    then have x: "gm_get (of_Services f) i \<noteq> None" "of_findBucket f i n = None" "ubk_Name x = n" "\<not> ubk_Deleted x"
      "s' = of_putBuckets i (of_buckets f i @ [x]) f"
      using assms(2) rc by (auto simp: fake_CreateManagedObjectStorageBucket_def Let_def split: option.splits if_splits)
    have d: "distinct (map ubk_Name (of_buckets f i))" using f(1) unfolding os_inv_def by blast
    have "ubk_Name x \<notin> ubk_Name ` set (of_buckets f i)" using x(2,3) by (simp add: of_findBucket_def findBy_None)
    then have "os_inv s'" unfolding x(5) using x(1) d by (intro os_inv_putBuckets [OF f(1)]) auto
    moreover have "live (of_buckets f i) n = None" using x(2) live_of_findBy [OF d] by (simp add: of_findBucket_def)
    moreover have "ov_Buckets (os_view f) = of_buckets f" by (simp add: os_view_def)
    ultimately show ?thesis using Inr x(3,4) unfolding x(5) os_view_putBuckets f(2) [symmetric] by simp
  qed
qed

lemma bucketPage_slice:
  assumes "0 < page_Size pg" and "1 \<le> page_Number pg" and "bucketPage (Some pg) all = Inr xs"
  shows "xs = take (nat (page_Size pg)) (drop (nat (page_Size pg * (page_Number pg - 1))) all)"
proof -
  let ?z = "page_Size pg" and ?st = "page_Size pg * (page_Number pg - 1)"
  have st: "0 \<le> ?st" using assms(1,2) by simp
  have comm: "(page_Number pg - 1) * ?z = ?st" by (rule mult.commute)
  have "nat (min (?st + ?z) (int (length all)) - ?st) = min (nat ?z) (length all - nat ?st)" if "?st < int (length all)"
    using st assms(1) that by linarith
  moreover have "take (min a (length all - d)) (drop d all) = take a (drop d all)" for a d by (simp add: min_def)
  ultimately show ?thesis using assms st by (auto simp: bucketPage_def Let_def comm split: if_splits)
qed

lemma fake_GetManagedObjectStorageBucketMetrics_law:
  assumes "os_inv s" and "fake_GetManagedObjectStorageBucketMetrics i (Some pg) s = (r, s')"
    and "0 < page_Size pg" and "1 \<le> page_Number pg"
  shows "os_inv s' \<and> os_view s' = os_view s \<and>
      (\<forall>xs. r = Inr xs \<longrightarrow>
         xs = take (nat (page_Size pg)) (drop (nat (page_Size pg * (page_Number pg - 1))) (ov_Buckets (os_view s) i)))"
proof -
  have "ov_Buckets (os_view s) = of_buckets s" by (simp add: os_view_def)
  then show ?thesis
    using assms(1,2) bucketPage_slice [OF assms(3,4), of "of_buckets s i"]
    by (auto simp: fake_GetManagedObjectStorageBucketMetrics_def Let_def split: option.splits)
qed

lemma fake_DeleteManagedObjectStorageBucket_law:
  assumes "os_inv s" and "fake_DeleteManagedObjectStorageBucket i n s = (e, s')"
  shows "os_inv s' \<and>
      (\<exists>bs. os_view s' = (os_view s)\<lparr>ov_Buckets := (ov_Buckets (os_view s))(i := bs)\<rparr> \<and>
         (\<forall>m. m \<noteq> n \<longrightarrow> live bs m = live (ov_Buckets (os_view s) i) m) \<and>
         (live bs n = None \<or> bs = ov_Buckets (os_view s) i) \<and> (e \<noteq> None \<longrightarrow> bs = ov_Buckets (os_view s) i) \<and>
         (\<forall>b. live (ov_Buckets (os_view s) i) n = Some b \<longrightarrow> 0 < ubk_TotalObjects b \<longrightarrow> bs = ov_Buckets (os_view s) i)) \<and>
      (IsNotFound e \<longrightarrow> live (ov_Buckets (os_view s) i) n = None)"
proof -
  obtain e0 f where rc: "of_record ''DeleteManagedObjectStorageBucket'' s = (e0, f)" by fastforce
  note f = os_record_cases [OF assms(1) rc]
  have d: "distinct (map ubk_Name (of_buckets f i))" and none: "gm_get (of_Services f) i = None \<Longrightarrow> of_buckets f i = []"
    using f(1) unfolding os_inv_def by blast+
  have bv: "ov_Buckets (os_view s) = of_buckets f" unfolding f(2) [symmetric] by (simp add: os_view_def)
  have same: "os_view s = (os_view s)\<lparr>ov_Buckets := (ov_Buckets (os_view s))(i := of_buckets f i)\<rparr>"
    unfolding bv [symmetric] by simp
  show ?thesis
  proof (cases e)
    case (Some x)
    have "os_inv s'" "os_view s' = os_view s"
      using Some assms(2) rc f(1,2)
      by (auto simp: fake_DeleteManagedObjectStorageBucket_def split: option.splits if_splits)
    moreover have "IsNotFound e \<Longrightarrow> findBy ubk_Name (of_buckets f i) n = None"
      using Some assms(2) rc f(3) none
      by (auto simp: fake_DeleteManagedObjectStorageBucket_def split: option.splits if_splits)
    then have "IsNotFound e \<Longrightarrow> live (of_buckets f i) n = None" using live_of_findBy [OF d, of n] by simp
    ultimately show ?thesis using Some same unfolding bv by auto
  next
    case None
    then obtain b where b: "gm_get (of_Services f) i \<noteq> None" "findBy ubk_Name (of_buckets f i) n = Some b"
      "ubk_TotalObjects b \<le> 0" "s' = of_putBuckets i (dropFirst ubk_Name n (of_buckets f i)) f"
      using assms(2) rc by (auto simp: fake_DeleteManagedObjectStorageBucket_def split: option.splits if_splits)
    let ?bs = "dropFirst ubk_Name n (of_buckets f i)"
    have db: "distinct (map ubk_Name ?bs)" using d by (simp add: map_dropFirst)
    have inv: "os_inv s'" unfolding b(4) using b(1) db by (intro os_inv_putBuckets [OF f(1)])
    have lv: "live ?bs m = (if m = n then None else live (of_buckets f i) m)" for m
      unfolding live_of_findBy [OF db] live_of_findBy [OF d] findBy_dropFirst [OF d] by simp
    have empty: "live (of_buckets f i) n = Some c \<Longrightarrow> \<not> 0 < ubk_TotalObjects c" for c
      using b(2,3) live_of_findBy [OF d, of n] by (auto split: if_splits)
    have "os_view s' = (os_view s)\<lparr>ov_Buckets := (ov_Buckets (os_view s))(i := ?bs)\<rparr>"
      unfolding b(4) os_view_putBuckets f(2) ..
    then show ?thesis using inv lv empty None unfolding bv by (intro conjI exI [of _ ?bs]) auto
  qed
qed

lemma os_setDomains:
  assumes "os_inv f" and "gm_get (of_Services f) i = Some svc" and "distinct (map ucd_DomainName ds)"
  shows "os_inv (of_putService i (svc\<lparr>uos_CustomDomains := ds\<rparr>) f)"
    and "os_view (of_putService i (svc\<lparr>uos_CustomDomains := ds\<rparr>) f)
      = (os_view f)\<lparr>ov_Domains := (ov_Domains (os_view f))(i := findBy ucd_DomainName ds)\<rparr>"
proof -
  show "os_inv (of_putService i (svc\<lparr>uos_CustomDomains := ds\<rparr>) f)"
    using assms(3) by (intro os_inv_putService [OF assms(1,2)]) simp_all
  have "ov_Services (os_view f) i = Some (os_core svc)" using assms(2) by (simp add: os_view_def)
  then show "os_view (of_putService i (svc\<lparr>uos_CustomDomains := ds\<rparr>) f)
      = (os_view f)\<lparr>ov_Domains := (ov_Domains (os_view f))(i := findBy ucd_DomainName ds)\<rparr>"
    unfolding os_view_putService by (simp add: fun_upd_idem)
qed

lemma of_findDomain_D:
  assumes "os_inv f"
  shows "ov_Domains (os_view f) i n = of_findDomain f i n"
    and "gm_get (of_Services f) i = Some svc \<Longrightarrow> distinct (map ucd_DomainName (uos_CustomDomains svc))"
    and "gm_get (of_Services f) i = Some svc \<Longrightarrow> ov_Domains (os_view f) i = findBy ucd_DomainName (uos_CustomDomains svc)"
    and "gm_get (of_Services f) i = None \<Longrightarrow> of_findDomain f i n = None"
    and "of_findDomain f i n = Some d \<Longrightarrow> ucd_DomainName d = n"
  using assms by (auto simp: os_view_def of_findDomain_def os_inv_def fun_eq_iff dest: findBy_Some split: option.splits)

lemma fake_CreateManagedObjectStorageCustomDomain_law:
  assumes "os_inv s" and "fake_CreateManagedObjectStorageCustomDomain i n t s = (e, s')"
  shows "os_inv s' \<and>
      (case e of
         None \<Rightarrow> ov_Domains (os_view s) i n = None \<and>
           os_view s' = (os_view s)\<lparr>ov_Domains := put2 (ov_Domains (os_view s)) i n (Some \<lparr>ucd_DomainName = n, ucd_Type = t\<rparr>)\<rparr>
       | Some x \<Rightarrow> os_view s' = os_view s)"
proof -
  obtain e0 f where rc: "of_record ''CreateManagedObjectStorageCustomDomain'' s = (e0, f)" by fastforce
  note f = os_record_cases [OF assms(1) rc]
  show ?thesis
  proof (cases e)
    case (Some x)
    then show ?thesis
      using assms(2) rc f(1,2)
      by (auto simp: fake_CreateManagedObjectStorageCustomDomain_def split: option.splits if_splits)
  next
    case None
    let ?d = "\<lparr>ucd_DomainName = n, ucd_Type = t\<rparr>"
    obtain svc where x: "gm_get (of_Services f) i = Some svc" "of_findDomain f i n = None"
      "s' = of_putService i (svc\<lparr>uos_CustomDomains := uos_CustomDomains svc @ [?d]\<rparr>) f"
      using None assms(2) rc by (auto simp: fake_CreateManagedObjectStorageCustomDomain_def split: option.splits if_splits)
    note D = of_findDomain_D [OF f(1)]
    have new: "ucd_DomainName ?d \<notin> ucd_DomainName ` set (uos_CustomDomains svc)"
      using x(1,2) by (simp add: of_findDomain_def findBy_None)
    then have "distinct (map ucd_DomainName (uos_CustomDomains svc @ [?d]))" using D(2) [OF x(1)] by auto
    note w = os_setDomains [OF f(1) x(1) this]
    show ?thesis
      using None w(1) x(2) D(1) [of i n] unfolding x(3) w(2) findBy_snoc [OF new] D(3) [OF x(1), symmetric] f(2) by simp
  qed
qed

lemma fake_GetManagedObjectStorageCustomDomain_law:
  assumes "os_inv s" and "fake_GetManagedObjectStorageCustomDomain i n s = (r, s')"
  shows "os_inv s' \<and> os_view s' = os_view s \<and>
      (case r of
         Inl e \<Rightarrow> IsNotFound (Some e) \<longrightarrow> ov_Domains (os_view s) i n = None
       | Inr x \<Rightarrow> ucd_DomainName x = n \<and> ov_Domains (os_view s) i n = Some x)"
  using assms of_findDomain_D(1,4,5) [OF assms(1), of i n]
  by (auto simp: fake_GetManagedObjectStorageCustomDomain_def Let_def split: option.splits)

lemma fake_ModifyManagedObjectStorageCustomDomain_law:
  assumes "os_inv s" and "fake_ModifyManagedObjectStorageCustomDomain i n t s = (r, s')"
  shows "os_inv s' \<and>
      (case r of
         Inl e \<Rightarrow> os_view s' = os_view s
       | Inr x \<Rightarrow> (\<exists>y. ov_Domains (os_view s) i n = Some y \<and> x = y\<lparr>ucd_Type := t\<rparr>) \<and>
           os_view s' = (os_view s)\<lparr>ov_Domains := put2 (ov_Domains (os_view s)) i n (Some x)\<rparr>)"
proof -
  obtain e0 f where rc: "of_record ''ModifyManagedObjectStorageCustomDomain'' s = (e0, f)" by fastforce
  note f = os_record_cases [OF assms(1) rc]
  show ?thesis
  proof (cases r)
    case (Inl e)
    then show ?thesis
      using assms(2) rc f(1,2)
      by (auto simp: fake_ModifyManagedObjectStorageCustomDomain_def Let_def split: option.splits)
  next
    case (Inr x)
    then obtain svc d where x: "gm_get (of_Services f) i = Some svc" "of_findDomain f i n = Some d" "x = d\<lparr>ucd_Type := t\<rparr>"
      "s' = of_putService i (svc\<lparr>uos_CustomDomains := setFirst ucd_DomainName n x (uos_CustomDomains svc)\<rparr>) f"
      using assms(2) rc by (auto simp: fake_ModifyManagedObjectStorageCustomDomain_def Let_def split: option.splits)
    note D = of_findDomain_D [OF f(1)]
    have xn: "ucd_DomainName x = n" using D(5) [OF x(2)] x(3) by simp
    have fb: "findBy ucd_DomainName (setFirst ucd_DomainName n x (uos_CustomDomains svc)) = (ov_Domains (os_view f) i)(n \<mapsto> x)"
      using x(1,2) by (auto simp: findBy_setFirst [of ucd_DomainName x n, OF xn] of_findDomain_def)
    have "distinct (map ucd_DomainName (setFirst ucd_DomainName n x (uos_CustomDomains svc)))"
      using D(2) [OF x(1)] by (simp add: map_setFirst [of ucd_DomainName x n, OF xn])
    note w = os_setDomains [OF f(1) x(1) this]
    show ?thesis using Inr w(1) x(2,3) D(1) [of i n] unfolding x(4) w(2) fb f(2) by simp
  qed
qed

lemma fake_DeleteManagedObjectStorageCustomDomain_law:
  assumes "os_inv s" and "fake_DeleteManagedObjectStorageCustomDomain i n s = (e, s')"
  shows "os_inv s' \<and>
      (case e of
         None \<Rightarrow> os_view s' = (os_view s)\<lparr>ov_Domains := put2 (ov_Domains (os_view s)) i n None\<rparr>
       | Some x \<Rightarrow> os_view s' = os_view s \<and> (IsNotFound e \<longrightarrow> ov_Domains (os_view s) i n = None))"
proof -
  obtain e0 f where rc: "of_record ''DeleteManagedObjectStorageCustomDomain'' s = (e0, f)" by fastforce
  note f = os_record_cases [OF assms(1) rc]
  note D = of_findDomain_D [OF f(1)]
  show ?thesis
  proof (cases e)
    case (Some x)
    have "IsNotFound e \<Longrightarrow> of_findDomain f i n = None"
      using Some assms(2) rc f(3)
      by (auto simp: fake_DeleteManagedObjectStorageCustomDomain_def of_findDomain_def split: option.splits)
    then have "IsNotFound e \<Longrightarrow> ov_Domains (os_view f) i n = None" using D(1) by simp
    then show ?thesis
      using Some assms(2) rc f(1,2)
      by (auto simp: fake_DeleteManagedObjectStorageCustomDomain_def split: option.splits)
  next
    case None
    then obtain svc where x: "gm_get (of_Services f) i = Some svc"
      "s' = of_putService i (svc\<lparr>uos_CustomDomains := dropFirst ucd_DomainName n (uos_CustomDomains svc)\<rparr>) f"
      using assms(2) rc by (auto simp: fake_DeleteManagedObjectStorageCustomDomain_def split: option.splits)
    note d = D(2) [OF x(1)]
    have fb: "findBy ucd_DomainName (dropFirst ucd_DomainName n (uos_CustomDomains svc)) = (ov_Domains (os_view f) i)(n := None)"
      using findBy_dropFirst [OF d] x(1) by (auto simp: of_findDomain_def fun_eq_iff)
    have "distinct (map ucd_DomainName (dropFirst ucd_DomainName n (uos_CustomDomains svc)))"
      using d by (simp add: map_dropFirst)
    note w = os_setDomains [OF f(1) x(1) this]
    show ?thesis using None w(1) unfolding x(2) w(2) fb f(2) by simp
  qed
qed

subsection \<open>The contract holds\<close>

lemmas fake_os_laws =
  fake_svc_keyed fake_GetManagedObjectStorage_law fake_GetManagedObjectStorages_law
  fake_CreateManagedObjectStorage_law fake_ModifyManagedObjectStorage_law fake_DeleteManagedObjectStorage_law
  fake_GetManagedObjectStorageUser_law fake_CreateManagedObjectStorageUser_law fake_DeleteManagedObjectStorageUser_law
  fake_AttachManagedObjectStorageUserPolicy_law fake_DetachManagedObjectStorageUserPolicy_law
  fake_GetManagedObjectStorageUserPolicies_law fake_CreateManagedObjectStorageUserAccessKey_law
  fake_GetManagedObjectStorageUserAccessKey_law fake_ModifyManagedObjectStorageUserAccessKey_law
  fake_DeleteManagedObjectStorageUserAccessKey_law fake_CreateManagedObjectStoragePolicy_law
  fake_GetManagedObjectStoragePolicy_law fake_DeleteManagedObjectStoragePolicy_law
  fake_CreateManagedObjectStorageBucket_law fake_GetManagedObjectStorageBucketMetrics_law
  fake_DeleteManagedObjectStorageBucket_law fake_CreateManagedObjectStorageCustomDomain_law
  fake_GetManagedObjectStorageCustomDomain_law fake_ModifyManagedObjectStorageCustomDomain_law
  fake_DeleteManagedObjectStorageCustomDomain_law

interpretation fake_os: object_storage_service "fakeObjectStorageAPI parse" os_inv os_view for parse
proof (unfold_locales, unfold fakeObjectStorageAPI_sel)
qed ((rule fake_os_laws; (assumption | rule refl))+)

end
