(* ===== verification/ManagedObjectStorageAdapter.thy ===== *)
theory ManagedObjectStorageAdapter
  imports Resolve AdapterCommon ObjectStorageFake
begin

text \<open>
  \<open>internal/controller/objectstorage/managedobjectstorage_adapter.go\<close> and
  \<open>managedobjectstorage_controller.go\<close>. \<open>getNetwork\<close> loads Network objects.
\<close>

subsection \<open>Helpers\<close>

definition ManagedObjectStorageAdapter_lookup ::
  "'s ObjectStorageAPI \<Rightarrow> ManagedObjectStorage \<Rightarrow> 's \<Rightarrow> (err + upObjectStorage option) \<times> 's" where
  "ManagedObjectStorageAdapter_lookup api x =
     lookupOwned (GetManagedObjectStorage api) (\<lambda>m. GetManagedObjectStorages api ()) uos_Labels (ost_UUID (Status x)) (Meta x)"

definition toCommonAtt :: "MOSNetworkAttachment \<Rightarrow> NetworkAttachment" where
  "toCommonAtt a = \<lparr>na_Name = mna_Name a, na_Type = mna_Type a, na_Family = mna_Family a, na_UUID = mna_UUID a,
     na_NetworkRef = mna_NetworkRef a\<rparr>"

fun mosDesiredNetworks :: "Lib \<Rightarrow> Network getter \<Rightarrow> string \<Rightarrow> MOSNetworkAttachment list \<Rightarrow> err + upMOSNetwork list" where
  "mosDesiredNetworks L getNetwork ns [] = Inr []"
| "mosDesiredNetworks L getNetwork ns (att # atts) =
     (case NetworkUUID L getNetwork ns (toCommonAtt att) of
        Inl e \<Rightarrow> Inl e
      | Inr u \<Rightarrow>
          (case mosDesiredNetworks L getNetwork ns atts of
             Inl e \<Rightarrow> Inl e
           | Inr rest \<Rightarrow> Inr (\<lparr>umn_Name = mna_Name att, umn_Type = mna_Type att, umn_Family = mna_Family att,
                              umn_UUID = (if u \<noteq> '''' then Some u else None)\<rparr> # rest)))"

definition ManagedObjectStorageAdapter_desiredNetworks ::
  "Lib \<Rightarrow> Network getter \<Rightarrow> ManagedObjectStorage \<Rightarrow> err + upMOSNetwork list" where
  "ManagedObjectStorageAdapter_desiredNetworks L getNetwork x =
     mosDesiredNetworks L getNetwork (om_Namespace (Meta x)) (oss_Networks (Spec x))"

definition mosStateReady :: "upObjectStorage \<Rightarrow> ManagedObjectStorage \<Rightarrow> bool" where
  "mosStateReady svc x =
     (if uos_OperationalState svc = OperationalRunning then True
      else if uos_OperationalState svc = OperationalStopped
      then ManagedObjectStorage_DesiredConfiguredStatus x = ''stopped''
      else False)"

definition mosSyncStatus :: "ManagedObjectStorage \<Rightarrow> upObjectStorage \<Rightarrow> ManagedObjectStorage" where
  "mosSyncStatus x svc =
     x\<lparr>Status := (Status x)\<lparr>ost_OperationalState := uos_OperationalState svc,
         ost_Endpoints := map (\<lambda>e. \<lparr>ep_DomainName = uep_DomainName e, ep_Type = uep_Type e, ep_IAMURL = uep_IAMURL e,
                                    ep_STSURL = uep_STSURL e\<rparr>) (uos_Endpoints svc)\<rparr>\<rparr>"

definition mosNetworkKey :: "upMOSNetwork \<Rightarrow> string" where
  "mosNetworkKey n =
     (let u = (case umn_UUID n of None \<Rightarrow> '''' | Some v \<Rightarrow> v)
      in umn_Name n @ ''|'' @ umn_Type n @ ''|'' @ umn_Family n @ ''|'' @ u)"

definition mosNetworksEqual :: "upMOSNetwork list \<Rightarrow> upMOSNetwork list \<Rightarrow> bool" where
  "mosNetworksEqual a b =
     (if length a \<noteq> length b then False
      else list_all (\<lambda>n. mosNetworkKey n \<in> set (map mosNetworkKey a)) b)"

definition mos_desired_labels :: "ManagedObjectStorage \<Rightarrow> Label list" where
  "mos_desired_labels x = DesiredLabels (Meta x) (oss_Labels (Spec x))"

definition mosSpecMatches :: "upObjectStorage \<Rightarrow> ManagedObjectStorage \<Rightarrow> upMOSNetwork list \<Rightarrow> bool" where
  "mosSpecMatches svc x networks =
     (if uos_Name svc \<noteq> ManagedObjectStorage_ExternalName x then False
      else if uos_Region svc \<noteq> oss_Region (Spec x) then False
      else if uos_TerminationProtection svc \<noteq> oss_TerminationProtection (Spec x) then False
      else if uos_ConfiguredStatus svc \<noteq> ManagedObjectStorage_DesiredConfiguredStatus x then False
      else if \<not> LabelsEqual (uos_Labels svc) (mos_desired_labels x) then False
      else mosNetworksEqual (uos_Networks svc) networks)"

subsection \<open>The adapter\<close>

definition ManagedObjectStorageAdapter_Observe ::
  "Lib \<Rightarrow> 's ObjectStorageAPI \<Rightarrow> Network getter \<Rightarrow> ManagedObjectStorage \<Rightarrow> 's
   \<Rightarrow> (err + Observation) \<times> ManagedObjectStorage \<times> 's" where
  "ManagedObjectStorageAdapter_Observe L api getNetwork x s =
     (case ManagedObjectStorageAdapter_lookup api x s of
        (Inl e, s1) \<Rightarrow> (Inl (Wrap ''get managed object storage'' e), x, s1)
      | (Inr None, s1) \<Rightarrow> (Inr NoObservation, x, s1)
      | (Inr (Some svc), s1) \<Rightarrow>
          let x1 = mosSyncStatus (x\<lparr>Status := (Status x)\<lparr>ost_UUID := uos_UUID svc\<rparr>\<rparr>) svc in
          (case ManagedObjectStorageAdapter_desiredNetworks L getNetwork x1 of
             Inl e \<Rightarrow> (Inl e, x1, s1)
           | Inr networks \<Rightarrow>
               (Inr \<lparr>ob_Exists = True, ob_UpToDate = mosSpecMatches svc x1 networks, ob_Ready = mosStateReady svc x1,
                     ob_Message = ''state '' @ uos_OperationalState svc\<rparr>, x1, s1)))"

definition ManagedObjectStorageAdapter_Create ::
  "Lib \<Rightarrow> 's ObjectStorageAPI \<Rightarrow> Network getter \<Rightarrow> ManagedObjectStorage \<Rightarrow> 's
   \<Rightarrow> err option \<times> ManagedObjectStorage \<times> 's" where
  "ManagedObjectStorageAdapter_Create L api getNetwork x s =
     (case ManagedObjectStorageAdapter_desiredNetworks L getNetwork x of
        Inl e \<Rightarrow> (Some e, x, s)
      | Inr networks \<Rightarrow>
          (case CreateManagedObjectStorage api
                  \<lparr>cos_Name = ManagedObjectStorage_ExternalName x, cos_Region = oss_Region (Spec x),
                   cos_ConfiguredStatus = ManagedObjectStorage_DesiredConfiguredStatus x, cos_Networks = networks,
                   cos_TerminationProtection = oss_TerminationProtection (Spec x), cos_Labels = mos_desired_labels x\<rparr> s of
             (Inl e, s1) \<Rightarrow> (Some (Wrap ''create managed object storage'' e), x, s1)
           | (Inr created, s1) \<Rightarrow> (None, x\<lparr>Status := (Status x)\<lparr>ost_UUID := uos_UUID created\<rparr>\<rparr>, s1)))"

definition mos_modify_request ::
  "upObjectStorage \<Rightarrow> ManagedObjectStorage \<Rightarrow> upMOSNetwork list \<Rightarrow> ModifyObjectStorageRequest" where
  "mos_modify_request svc x networks =
     \<lparr>mos_UUID = uos_UUID svc,
      mos_Name = (if uos_Name svc \<noteq> ManagedObjectStorage_ExternalName x
                  then Some (ManagedObjectStorage_ExternalName x) else None),
      mos_ConfiguredStatus = (if uos_ConfiguredStatus svc \<noteq> ManagedObjectStorage_DesiredConfiguredStatus x
                              then Some (ManagedObjectStorage_DesiredConfiguredStatus x) else None),
      mos_TerminationProtection = (if uos_TerminationProtection svc \<noteq> oss_TerminationProtection (Spec x)
                                   then Some (oss_TerminationProtection (Spec x)) else None),
      mos_Labels = (if \<not> LabelsEqual (uos_Labels svc) (mos_desired_labels x)
                    then Some (mos_desired_labels x) else None),
      mos_Networks = (if \<not> mosNetworksEqual (uos_Networks svc) networks then Some networks else None)\<rparr>"

definition ManagedObjectStorageAdapter_Update ::
  "Lib \<Rightarrow> 's ObjectStorageAPI \<Rightarrow> Network getter \<Rightarrow> ManagedObjectStorage \<Rightarrow> 's
   \<Rightarrow> err option \<times> ManagedObjectStorage \<times> 's" where
  "ManagedObjectStorageAdapter_Update L api getNetwork x s =
     (case ManagedObjectStorageAdapter_lookup api x s of
        (Inl e, s1) \<Rightarrow> (Some (Wrap ''get managed object storage'' e), x, s1)
      | (Inr None, s1) \<Rightarrow> (Some (Wrap ''update managed object storage'' ErrPending), x, s1)
      | (Inr (Some svc), s1) \<Rightarrow>
          (case ManagedObjectStorageAdapter_desiredNetworks L getNetwork x of
             Inl e \<Rightarrow> (Some e, x, s1)
           | Inr networks \<Rightarrow>
               let modify = mos_modify_request svc x networks in
               if mos_Name modify = None \<and> mos_ConfiguredStatus modify = None \<and> mos_TerminationProtection modify = None \<and>
                  mos_Labels modify = None \<and> mos_Networks modify = None
               then (None, x, s1)
               else (case ModifyManagedObjectStorage api modify s1 of
                  (Inl e, s2) \<Rightarrow> (Some (Wrap ''modify managed object storage'' e), x, s2)
                | (Inr _, s2) \<Rightarrow> (None, x, s2))))"

definition ManagedObjectStorageAdapter_Delete ::
  "Lib \<Rightarrow> 's ObjectStorageAPI \<Rightarrow> ManagedObjectStorage \<Rightarrow> 's \<Rightarrow> err option \<times> ManagedObjectStorage \<times> 's" where
  "ManagedObjectStorageAdapter_Delete L api x s =
     (if ost_UUID (Status x) = '''' then (None, x, s)
      else case GetManagedObjectStorage api (ost_UUID (Status x)) s of
        (Inl e, s1) \<Rightarrow>
          if IsNotFound (Some e) then (None, x, s1)
          else (Some (Wrap ''get managed object storage'' e), x, s1)
      | (Inr svc, s1) \<Rightarrow>
          if uos_OperationalState svc = OperationalDeleteService \<or> uos_OperationalState svc = OperationalDeleteDNS \<or>
             uos_OperationalState svc = OperationalDeleteNetwork
          then (Some ErrPending, x, s1)
          else (case DeleteManagedObjectStorage api \<lparr>dos_UUID = ost_UUID (Status x), dos_Force = False\<rparr> s1 of
             (None, s2) \<Rightarrow> (Some ErrPending, x, s2)
           | (Some e, s2) \<Rightarrow> (titledOutcome L ''delete managed object storage'' (Some e), x, s2)))"

definition ManagedObjectStorageAdapter ::
  "Lib \<Rightarrow> 's ObjectStorageAPI \<Rightarrow> Network getter \<Rightarrow> (ManagedObjectStorage, 's) Adapter" where
  "ManagedObjectStorageAdapter L api getNetwork =
     \<lparr>ad_Observe = ManagedObjectStorageAdapter_Observe L api getNetwork,
      ad_Create = ManagedObjectStorageAdapter_Create L api getNetwork,
      ad_Update = ManagedObjectStorageAdapter_Update L api getNetwork,
      ad_Delete = ManagedObjectStorageAdapter_Delete L api\<rparr>"

definition FinalizerManagedObjectStorage :: string where
  "FinalizerManagedObjectStorage = ''objectstorage.upcloud.polarsquad.com/managedobjectstorage''"

definition SetupManagedObjectStorageController ::
  "Lib \<Rightarrow> (ManagedObjectStorage, 'k) Client \<Rightarrow> 's ObjectStorageAPI \<Rightarrow> Network getter \<Rightarrow> Options
   \<Rightarrow> (ManagedObjectStorage, 'k \<times> 's) Reconciler" where
  "SetupManagedObjectStorageController L c api getNetwork opts =
     mkReconciler L ManagedObjectStorage_Object c (ManagedObjectStorageAdapter L api getNetwork)
       FinalizerManagedObjectStorage opts"

lemma ManagedObjectStorageAdapter_sel [simp]:
  "ad_Observe (ManagedObjectStorageAdapter L api gn) = ManagedObjectStorageAdapter_Observe L api gn"
  "ad_Create (ManagedObjectStorageAdapter L api gn) = ManagedObjectStorageAdapter_Create L api gn"
  "ad_Update (ManagedObjectStorageAdapter L api gn) = ManagedObjectStorageAdapter_Update L api gn"
  "ad_Delete (ManagedObjectStorageAdapter L api gn) = ManagedObjectStorageAdapter_Delete L api"
  by (simp_all add: ManagedObjectStorageAdapter_def)

subsection \<open>The comparison\<close>

lemma mosNetworksEqual_refl [simp]: "mosNetworksEqual ns ns"
  by (simp add: mosNetworksEqual_def list_all_iff)

lemma mosSpecMatches_core [simp]: "mosSpecMatches (os_core svc) x ns = mosSpecMatches svc x ns"
  by (simp add: mosSpecMatches_def)

text \<open>The specification: what an in-sync service looks like.\<close>

definition mos_in_sync :: "Lib \<Rightarrow> Network getter \<Rightarrow> ManagedObjectStorage \<Rightarrow> upObjectStorage \<Rightarrow> bool" where
  "mos_in_sync L gn x svc \<longleftrightarrow>
     (\<exists>ns. ManagedObjectStorageAdapter_desiredNetworks L gn x = Inr ns \<and> mosSpecMatches svc x ns)"

lemma mos_status_irrelevant [simp]:
  "ManagedObjectStorage_ExternalName (x\<lparr>Status := st\<rparr>) = ManagedObjectStorage_ExternalName x"
  "ManagedObjectStorage_DesiredConfiguredStatus (x\<lparr>Status := st\<rparr>) = ManagedObjectStorage_DesiredConfiguredStatus x"
  "mos_desired_labels (x\<lparr>Status := st\<rparr>) = mos_desired_labels x"
  "ManagedObjectStorageAdapter_desiredNetworks L gn (x\<lparr>Status := st\<rparr>) = ManagedObjectStorageAdapter_desiredNetworks L gn x"
  "mosSpecMatches svc (x\<lparr>Status := st\<rparr>) ns = mosSpecMatches svc x ns"
  "mosStateReady svc (x\<lparr>Status := st\<rparr>) = mosStateReady svc x"
  "mos_in_sync L gn (x\<lparr>Status := st\<rparr>) svc = mos_in_sync L gn x svc"
  by (simp_all add: ManagedObjectStorage_ExternalName_def ManagedObjectStorage_DesiredConfiguredStatus_def
      mos_desired_labels_def ManagedObjectStorageAdapter_desiredNetworks_def mosSpecMatches_def mosStateReady_def mos_in_sync_def)

lemma mosSyncStatus_irrelevant [simp]:
  "Meta (mosSyncStatus x svc) = Meta x" "Spec (mosSyncStatus x svc) = Spec x"
  "ost_UUID (Status (mosSyncStatus x svc)) = ost_UUID (Status x)"
  "ManagedObjectStorageAdapter_desiredNetworks L gn (mosSyncStatus x svc) = ManagedObjectStorageAdapter_desiredNetworks L gn x"
  "mosSpecMatches y (mosSyncStatus x svc) ns = mosSpecMatches y x ns"
  "mosStateReady y (mosSyncStatus x svc) = mosStateReady y x"
  by (simp_all add: mosSyncStatus_def)

lemma mos_in_sync_core [simp]: "mos_in_sync L gn x (os_core svc) \<longleftrightarrow> mos_in_sync L gn x svc"
  by (simp add: mos_in_sync_def)

text \<open>The modify request repairs everything but the region, which no call can change.\<close>

lemma mos_modify_matches:
  "mosSpecMatches (os_patched (mos_modify_request svc x ns) svc) x ns \<longleftrightarrow> uos_Region svc = oss_Region (Spec x)"
  by (simp add: mosSpecMatches_def os_patched_def mos_modify_request_def)

lemma os_patched_nothing:
  "mos_Name m = None \<Longrightarrow> mos_ConfiguredStatus m = None \<Longrightarrow> mos_TerminationProtection m = None \<Longrightarrow>
   mos_Labels m = None \<Longrightarrow> mos_Networks m = None \<Longrightarrow> os_patched m svc = svc"
  by (simp add: os_patched_def)

lemma os_patched_core: "os_patched m (os_core svc) = os_core (os_patched m svc)"
  by (simp add: os_patched_def os_core_def)

subsection \<open>The operations against the service contract\<close>

context object_storage_service
begin

lemma mos_lookup:
  assumes "ManagedObjectStorageAdapter_lookup api x s = (r, s1)"
  shows "svc.lookup_by (ost_UUID (Status x)) (Meta x) s = (map_sum id (map_option os_core) r, s1)"
  using lookupOwned_seen [of uos_Labels os_core _ _ "\<lambda>m. ()"] assms by (simp add: ManagedObjectStorageAdapter_lookup_def)

lemma same_view:
  assumes "ov_Services (view s') = ov_Services (view s)" and "view s'\<lparr>ov_Services := \<lambda>_. None\<rparr> = view s\<lparr>ov_Services := \<lambda>_. None\<rparr>"
  shows "view s' = view s"
  using assms by (metis (no_types, lifting) OSView.ext_inject OSView.surjective OSView.update_convs(1))

lemma mos_lookup_frame:
  assumes "inv s" and "ManagedObjectStorageAdapter_lookup api x s = (r, s1)"
  shows "inv s1 \<and> view s1 = view s"
  using svc.lookup_frame [OF assms(1) mos_lookup [OF assms(2)]] same_view by blast

lemma mos_lookup_found:
  assumes "inv s" and "ManagedObjectStorageAdapter_lookup api x s = (Inr (Some d), s1)"
  shows "ov_Services (view s) (uos_UUID d) = Some (os_core d)" and "uos_UUID d \<noteq> []"
    and "ost_UUID (Status x) \<noteq> [] \<Longrightarrow> uos_UUID d = ost_UUID (Status x)"
    and "ost_UUID (Status x) = [] \<Longrightarrow> HasUID (uos_Labels d) (om_UID (Meta x))"
  using svc.lookup_found [OF assms(1), of "ost_UUID (Status x)" "Meta x" "os_core d" s1]
    mos_lookup [OF assms(2)] by simp_all

lemma mos_lookup_present:
  assumes "inv s" and "ManagedObjectStorageAdapter_lookup api x s = (Inr r, s1)" and "ov_Services (view s) (ost_UUID (Status x)) = Some y"
  shows "\<exists>d. r = Some d \<and> y = os_core d"
  using svc.lookup_present [OF assms(1) _ assms(3), of "Meta x" "map_option os_core r" s1]
    mos_lookup [OF assms(2)] by auto

lemma mos_get:
  assumes "inv s" and "GetManagedObjectStorage api u s = (r, s')"
  shows "inv s' \<and> view s' = view s" and "r = Inr d \<Longrightarrow> ov_Services (view s) u = Some (os_core d) \<and> uos_UUID d = u"
    and "r = Inl e \<Longrightarrow> IsNotFound (Some e) \<Longrightarrow> ov_Services (view s) u = None"
proof -
  have c: "seen os_core (GetManagedObjectStorage api) u s = (map_sum id os_core r, s')"
    using assms(2) by (cases r) (simp_all add: seen_def)
  show "inv s' \<and> view s' = view s" using svc.get_frame [OF assms(1) c] same_view by blast
  show "r = Inr d \<Longrightarrow> ov_Services (view s) u = Some (os_core d) \<and> uos_UUID d = u"
    using svc.get_found [OF assms(1), of u] c svc.keyed_uid [OF assms(1), of u "os_core d"] by simp
  show "r = Inl e \<Longrightarrow> IsNotFound (Some e) \<Longrightarrow> ov_Services (view s) u = None"
    using svc.get_404 [OF assms(1), of u] c by simp
qed

lemma mos_observe_frame:
  assumes "inv s" and "ManagedObjectStorageAdapter_Observe L api gn x s = (r, x', s')"
  shows "inv s' \<and> view s' = view s \<and> Meta x' = Meta x \<and> Spec x' = Spec x"
  using assms mos_lookup_frame [OF assms(1)]
  by (auto simp: ManagedObjectStorageAdapter_Observe_def Let_def split: sum.splits prod.splits option.splits)

lemma mos_observe_found:
  assumes "inv s" and "ManagedObjectStorageAdapter_Observe L api gn x s = (Inr obs, x', s')" and "ob_Exists obs"
  shows "\<exists>d. ov_Services (view s) (ost_UUID (Status x')) = Some (os_core d) \<and> ost_UUID (Status x') \<noteq> [] \<and>
    (ost_UUID (Status x) \<noteq> [] \<longrightarrow> ost_UUID (Status x') = ost_UUID (Status x)) \<and>
    (ob_UpToDate obs \<longleftrightarrow> mos_in_sync L gn x d) \<and> (ob_Ready obs \<longleftrightarrow> mosStateReady d x)"
proof -
  obtain d s1 where l: "ManagedObjectStorageAdapter_lookup api x s = (Inr (Some d), s1)"
    using assms(2,3)
    by (auto simp: ManagedObjectStorageAdapter_Observe_def NoObservation_def Let_def split: sum.splits prod.splits option.splits)
  show ?thesis
    using assms(2) l mos_lookup_found [OF assms(1) l]
    by (intro exI [of _ d])
      (auto simp: ManagedObjectStorageAdapter_Observe_def Let_def mos_in_sync_def split: sum.splits)
qed

lemma mos_observe_sees:
  assumes "inv s" and "ov_Services (view s) (ost_UUID (Status x)) = Some y"
    and "ManagedObjectStorageAdapter_Observe L api gn x s = (Inr obs, x', s')"
  shows "ob_Exists obs \<and> (ob_UpToDate obs \<longleftrightarrow> mos_in_sync L gn x y)"
proof -
  obtain r s1 where l: "ManagedObjectStorageAdapter_lookup api x s = (Inr r, s1)"
    using assms(3) by (auto simp: ManagedObjectStorageAdapter_Observe_def Let_def split: sum.splits prod.splits)
  obtain d where d: "r = Some d" "y = os_core d" using mos_lookup_present [OF assms(1) l assms(2)] by blast
  then have ex: "ob_Exists obs"
    using assms(3) l by (auto simp: ManagedObjectStorageAdapter_Observe_def Let_def split: sum.splits)
  have "ost_UUID (Status x) \<noteq> []" using svc.nonempty [OF assms(1,2)] by simp
  then show ?thesis
    using ex mos_observe_found [OF assms(1,3) ex] assms(2) d(2) by (metis mos_in_sync_core option.inject)
qed

end

context object_storage_service
begin

lemma mos_create:
  assumes "inv s" and "CreateManagedObjectStorage api c s = (r, s')"
  shows "inv s'" and "r = Inl e \<Longrightarrow> view s' = view s"
    and "r = Inr d \<Longrightarrow> ov_Services (view s) (uos_UUID d) = None \<and> uos_UUID d \<noteq> [] \<and>
      ov_Services (view s') = (ov_Services (view s))(uos_UUID d \<mapsto> os_core d) \<and> os_built c (os_core d)"
proof -
  have c: "seen os_core (CreateManagedObjectStorage api) c s = (map_sum id os_core r, s')"
    using assms(2) by (cases r) (simp_all add: seen_def)
  show "inv s'" using svc.create_frame [OF assms(1) c] by blast
  show "r = Inl e \<Longrightarrow> view s' = view s" using svc.create_failed [OF assms(1), of c e s'] c same_view by simp
  show "r = Inr d \<Longrightarrow> ov_Services (view s) (uos_UUID d) = None \<and> uos_UUID d \<noteq> [] \<and>
      ov_Services (view s') = (ov_Services (view s))(uos_UUID d \<mapsto> os_core d) \<and> os_built c (os_core d)"
    using svc.create_ok [OF assms(1), of c "os_core d" s'] c by simp
qed

lemma mos_create_spec:
  assumes "inv s" and "ManagedObjectStorageAdapter_Create L api gn x s = (e, x', s')"
  shows "inv s' \<and> Meta x' = Meta x \<and> Spec x' = Spec x"
    and "e \<noteq> None \<Longrightarrow> view s' = view s \<and> x' = x"
    and "e = None \<Longrightarrow> \<exists>d. ov_Services (view s) (ost_UUID (Status x')) = None \<and> ost_UUID (Status x') \<noteq> [] \<and>
      ov_Services (view s') = (ov_Services (view s))(ost_UUID (Status x') \<mapsto> d) \<and> mos_in_sync L gn x d"
proof -
  show "inv s' \<and> Meta x' = Meta x \<and> Spec x' = Spec x"
    using assms mos_create(1) [OF assms(1)]
    by (auto simp: ManagedObjectStorageAdapter_Create_def split: sum.splits prod.splits)
  show "e \<noteq> None \<Longrightarrow> view s' = view s \<and> x' = x"
    using assms(2) mos_create(2) [OF assms(1)]
    by (auto simp: ManagedObjectStorageAdapter_Create_def split: sum.splits prod.splits)
  assume "e = None"
  then obtain ns c d where n: "ManagedObjectStorageAdapter_desiredNetworks L gn x = Inr ns"
    and c: "c = \<lparr>cos_Name = ManagedObjectStorage_ExternalName x, cos_Region = oss_Region (Spec x),
        cos_ConfiguredStatus = ManagedObjectStorage_DesiredConfiguredStatus x, cos_Networks = ns,
        cos_TerminationProtection = oss_TerminationProtection (Spec x), cos_Labels = mos_desired_labels x\<rparr>"
    and d: "CreateManagedObjectStorage api c s = (Inr d, s')" "x' = x\<lparr>Status := (Status x)\<lparr>ost_UUID := uos_UUID d\<rparr>\<rparr>"
    using assms(2) by (auto simp: ManagedObjectStorageAdapter_Create_def split: sum.splits prod.splits)
  note ok = mos_create(3) [OF assms(1) d(1) refl]
  have "mosSpecMatches (os_core d) x ns" using ok c by (auto simp: os_built_def mosSpecMatches_def)
  then have "mos_in_sync L gn x (os_core d)" using n by (auto simp: mos_in_sync_def)
  then show "\<exists>d. ov_Services (view s) (ost_UUID (Status x')) = None \<and> ost_UUID (Status x') \<noteq> [] \<and>
      ov_Services (view s') = (ov_Services (view s))(ost_UUID (Status x') \<mapsto> d) \<and> mos_in_sync L gn x d"
    using ok d(2) by (intro exI [of _ "os_core d"]) simp
qed

lemma mos_modify:
  assumes "inv s" and "ModifyManagedObjectStorage api m s = (r, s')"
  shows "inv s' \<and> (\<forall>i. ov_Services (view s') i = None \<longleftrightarrow> ov_Services (view s) i = None)"
    and "r = Inr y \<Longrightarrow> \<exists>d. ov_Services (view s) (mos_UUID m) = Some d \<and> ov_Services (view s') (mos_UUID m) = Some (os_patched m d)"
proof -
  have c: "seen os_core (ModifyManagedObjectStorage api) m s = (map_sum id os_core r, s')"
    using assms(2) by (cases r) (simp_all add: seen_def)
  show "inv s' \<and> (\<forall>i. ov_Services (view s') i = None \<longleftrightarrow> ov_Services (view s) i = None)"
    using svc.modify_frame [OF assms(1) c] by simp
  show "r = Inr y \<Longrightarrow> \<exists>d. ov_Services (view s) (mos_UUID m) = Some d \<and> ov_Services (view s') (mos_UUID m) = Some (os_patched m d)"
    using svc.modify_ok [OF assms(1), of m "os_core y" s'] c by auto
qed

lemma mos_update_frame:
  assumes "inv s" and "ManagedObjectStorageAdapter_Update L api gn x s = (e, x', s')"
  shows "inv s' \<and> x' = x \<and> (\<forall>i. ov_Services (view s') i = None \<longleftrightarrow> ov_Services (view s) i = None)"
proof -
  obtain r s1 where l: "ManagedObjectStorageAdapter_lookup api x s = (r, s1)" by fastforce
  note f1 = mos_lookup_frame [OF assms(1) l]
  have i1: "inv s1" using f1 by blast
  show ?thesis
    using assms(2) l f1 mos_modify(1) [OF i1]
    by (auto simp: ManagedObjectStorageAdapter_Update_def Let_def split: sum.splits option.splits prod.splits if_splits)
qed

lemma mos_update_spec:
  assumes "inv s" and "ManagedObjectStorageAdapter_Update L api gn x s = (None, x', s')" and "ost_UUID (Status x) \<noteq> []"
  shows "\<exists>d y. ov_Services (view s) (ost_UUID (Status x)) = Some d \<and> ov_Services (view s') (ost_UUID (Status x)) = Some y \<and>
    uos_Region y = uos_Region d \<and> (mos_in_sync L gn x y \<longleftrightarrow> uos_Region d = oss_Region (Spec x))"
proof -
  obtain d s1 where l: "ManagedObjectStorageAdapter_lookup api x s = (Inr (Some d), s1)"
    using assms(2) by (auto simp: ManagedObjectStorageAdapter_Update_def split: prod.splits sum.splits option.splits)
  obtain ns where ns: "ManagedObjectStorageAdapter_desiredNetworks L gn x = Inr ns"
    using assms(2) l by (auto simp: ManagedObjectStorageAdapter_Update_def split: sum.splits)
  note f1 = mos_lookup_frame [OF assms(1) l]
  have u: "uos_UUID d = ost_UUID (Status x)" using mos_lookup_found(3) [OF assms(1) l] assms(3) by blast
  have d: "ov_Services (view s) (uos_UUID d) = Some (os_core d)" using mos_lookup_found(1) [OF assms(1) l] .
  let ?m = "mos_modify_request d x ns"
  have "ov_Services (view s') (uos_UUID d) = Some (os_patched ?m (os_core d))"
  proof (cases "mos_Name ?m = None \<and> mos_ConfiguredStatus ?m = None \<and> mos_TerminationProtection ?m = None \<and>
      mos_Labels ?m = None \<and> mos_Networks ?m = None")
    case True
    then have "s' = s1" using assms(2) l ns by (simp add: ManagedObjectStorageAdapter_Update_def Let_def)
    then show ?thesis using d f1 os_patched_nothing [of ?m "os_core d"] True by simp
  next
    case False
    then obtain y where m: "ModifyManagedObjectStorage api ?m s1 = (Inr y, s')"
      using assms(2) l ns by (auto simp: ManagedObjectStorageAdapter_Update_def Let_def split: prod.splits sum.splits if_splits)
    have "mos_UUID ?m = uos_UUID d" by (simp add: mos_modify_request_def)
    then show ?thesis using mos_modify(2) [OF _ m refl] f1 d by auto
  qed
  moreover have "mos_in_sync L gn x (os_patched ?m (os_core d)) \<longleftrightarrow> uos_Region d = oss_Region (Spec x)"
    using ns mos_modify_matches [of d x ns] by (simp add: mos_in_sync_def os_patched_core)
  moreover have "uos_Region (os_patched ?m (os_core d)) = uos_Region d" by (simp add: os_patched_def)
  ultimately show ?thesis using d u by auto
qed

lemma mos_delete_spec:
  assumes "inv s" and "ManagedObjectStorageAdapter_Delete L api x s = (e, x', s')"
  shows "inv s' \<and> x' = x"
    and "rid_of (ost_UUID (Status x)) \<noteq> Some i \<Longrightarrow> ov_Services (view s') i = ov_Services (view s) i"
    and "e = None \<Longrightarrow> rid_of (ost_UUID (Status x)) = Some i \<Longrightarrow> ov_Services (view s') i = None"
    and "ov_Buckets (view s) (ost_UUID (Status x)) \<noteq> [] \<or>
      (\<exists>d. ov_Services (view s) (ost_UUID (Status x)) = Some d \<and> uos_TerminationProtection d) \<Longrightarrow> view s' = view s"
proof -
  let ?u = "ost_UUID (Status x)"
  obtain r s1 where g: "GetManagedObjectStorage api ?u s = (r, s1)" by fastforce
  note g1 = mos_get [OF assms(1) g]
  obtain de s2 where d: "DeleteManagedObjectStorage api \<lparr>dos_UUID = ?u, dos_Force = False\<rparr> s1 = (de, s2)" by fastforce
  note del = svc_delete [OF conjunct1 [OF g1(1)] d]
  have v: "view s1 = view s" using g1(1) by blast
  have del': "inv s2" "view s2 = view s \<or> de = None \<and> view s2 = without_service ?u (view s)"
    "IsNotFound de \<Longrightarrow> ov_Services (view s) ?u = None"
    "ov_Buckets (view s) ?u \<noteq> [] \<or> (\<exists>d. ov_Services (view s) ?u = Some d \<and> uos_TerminationProtection d) \<Longrightarrow> view s2 = view s"
    using del unfolding v by auto
  have out: "?u = [] \<and> s' = s \<or> ?u \<noteq> [] \<and> (s' = s1 \<or> s' = s2)"
    and none: "e = None \<Longrightarrow> ?u = [] \<or> (\<exists>er. r = Inl er \<and> IsNotFound (Some er)) \<and> s' = s1 \<or> IsNotFound de \<and> s' = s2"
    and x': "x' = x"
    using assms(2) g d
    by (auto simp: ManagedObjectStorageAdapter_Delete_def titledOutcome_def split: sum.splits option.splits if_splits)
  show "inv s' \<and> x' = x" using out x' assms(1) g1(1) del'(1) by blast
  show "rid_of ?u \<noteq> Some i \<Longrightarrow> ov_Services (view s') i = ov_Services (view s) i"
    using out v del'(2) by (cases "?u = []") (auto simp: without_service_def)
  show "e = None \<Longrightarrow> rid_of ?u = Some i \<Longrightarrow> ov_Services (view s') i = None"
    using none g1(3) v del'(2,3) by (cases "?u = []") (auto simp: without_service_def)
  show "ov_Buckets (view s) ?u \<noteq> [] \<or> (\<exists>d. ov_Services (view s) ?u = Some d \<and> uos_TerminationProtection d) \<Longrightarrow> view s' = view s"
    using out v del'(4) by metis
qed

end

sublocale object_storage_service \<subseteq> mos_ctr: adapter_contract ManagedObjectStorage_Object
    "ManagedObjectStorageAdapter L api gn" inv "\<lambda>i s. ov_Services (view s) i \<noteq> None"
    "\<lambda>x. rid_of (ost_UUID (Status x))" for L gn
proof (rule table_adapter_contract [where tbl = "\<lambda>s. ov_Services (view s)", OF managedobjectstorage_object.managed_object_axioms])
  fix s x r x' s'
  assume "inv s" "ad_Observe (ManagedObjectStorageAdapter L api gn) x s = (r, x', s')"
  then show "inv s' \<and> ov_Services (view s') = ov_Services (view s) \<and>
      GetMeta ManagedObjectStorage_Object x' = GetMeta ManagedObjectStorage_Object x"
    using mos_observe_frame [of s L gn x r x' s'] by simp
next
  fix s x obs x' s'
  assume "inv s" "ad_Observe (ManagedObjectStorageAdapter L api gn) x s = (Inr obs, x', s')" "ob_Exists obs"
  then show "ost_UUID (Status x') \<noteq> [] \<and> ov_Services (view s) (ost_UUID (Status x')) \<noteq> None"
    using mos_observe_found by fastforce
next
  fix s x e x' s'
  assume "inv s" and "ad_Create (ManagedObjectStorageAdapter L api gn) x s = (e, x', s')"
  then have "inv s" and "ManagedObjectStorageAdapter_Create L api gn x s = (e, x', s')" by simp_all
  note spec = mos_create_spec [OF this]
  show "inv s' \<and> GetMeta ManagedObjectStorage_Object x' = GetMeta ManagedObjectStorage_Object x \<and>
      (\<forall>i. ov_Services (view s) i \<noteq> None \<longrightarrow> ov_Services (view s') i \<noteq> None) \<and>
      (e = None \<longrightarrow> ost_UUID (Status x') \<noteq> [] \<and> ov_Services (view s') (ost_UUID (Status x')) \<noteq> None)"
    using spec by (cases e) auto
next
  fix s x e x' s'
  assume "inv s" and "ad_Update (ManagedObjectStorageAdapter L api gn) x s = (e, x', s')"
  then show "inv s' \<and> GetMeta ManagedObjectStorage_Object x' = GetMeta ManagedObjectStorage_Object x \<and>
      (\<forall>i. rid_of (ost_UUID (Status x)) \<noteq> Some i \<longrightarrow> ov_Services (view s) i \<noteq> None \<longrightarrow> ov_Services (view s') i \<noteq> None)"
    using mos_update_frame [of s L gn x e x' s'] by simp
next
  fix s x e x' s'
  assume "inv s" and "ad_Delete (ManagedObjectStorageAdapter L api gn) x s = (e, x', s')"
  then have "inv s" and "ManagedObjectStorageAdapter_Delete L api x s = (e, x', s')" by simp_all
  note spec = mos_delete_spec [OF this]
  show "inv s' \<and> GetMeta ManagedObjectStorage_Object x' = GetMeta ManagedObjectStorage_Object x \<and>
      (\<forall>i. rid_of (ost_UUID (Status x)) \<noteq> Some i \<longrightarrow> ov_Services (view s') i = ov_Services (view s) i) \<and>
      (e = None \<longrightarrow> ost_UUID (Status x) \<noteq> [] \<longrightarrow> ov_Services (view s') (ost_UUID (Status x)) = None)"
    using spec(1-3) by auto
qed

end
