(* ===== verification/ObjectStorageBucketAdapter.thy ===== *)
theory ObjectStorageBucketAdapter
  imports ManagedObjectStorageAdapter
begin

text \<open>
  \<open>internal/controller/objectstorage/objectstoragebucket_adapter.go\<close> and
  \<open>objectstoragebucket_controller.go\<close>. \<open>getService\<close> loads the ManagedObjectStorage that
  the bucket refers to. The loop over the pages of the metrics ends when the service says
  so, so it is a partial function.
\<close>

subsection \<open>Paging\<close>

definition bucketPageSize :: int where
  "bucketPageSize = 100"

definition metricsPage :: "int \<Rightarrow> Page option" where
  "metricsPage n = Some \<lparr>page_Size = bucketPageSize, page_Number = n\<rparr>"

definition bucketMatches :: "string \<Rightarrow> upBucket \<Rightarrow> bool" where
  "bucketMatches name b \<longleftrightarrow> ubk_Name b = name \<and> \<not> ubk_Deleted b"

text \<open>The loop from page \<open>n\<close> on: \<open>None\<close> is a loop that never returns.\<close>

partial_function (option) findBucketFrom ::
  "'s ObjectStorageAPI \<Rightarrow> string \<Rightarrow> string \<Rightarrow> int \<Rightarrow> 's \<Rightarrow> ((err + upBucket option) \<times> 's) option" where
  "findBucketFrom api svcUUID name n s =
     (case GetManagedObjectStorageBucketMetrics api svcUUID (metricsPage n) s of
        (Inl e, s1) \<Rightarrow> Some (Inl (Wrap ''get bucket metrics'' e), s1)
      | (Inr list, s1) \<Rightarrow>
          if length list = 0 then Some (Inr None, s1)
          else (case find (bucketMatches name) list of
            Some b \<Rightarrow> Some (Inr (Some b), s1)
          | None \<Rightarrow> findBucketFrom api svcUUID name (n + 1) s1))"

text \<open>
  The adapter calls it with the first page. A call that never returns has no result; it
  is shown as an error value of its own, which no execution produces.
\<close>

definition neverReturns :: err where
  "neverReturns = ErrText ''the call does not return''"

definition ObjectStorageBucketAdapter_findBucket ::
  "'s ObjectStorageAPI \<Rightarrow> string \<Rightarrow> string \<Rightarrow> 's \<Rightarrow> (err + upBucket option) \<times> 's" where
  "ObjectStorageBucketAdapter_findBucket api svcUUID name s =
     (case findBucketFrom api svcUUID name 1 s of
        None \<Rightarrow> (Inl neverReturns, s)
      | Some r \<Rightarrow> r)"

subsection \<open>The adapter\<close>

definition ObjectStorageBucketAdapter_serviceUUID ::
  "Lib \<Rightarrow> ManagedObjectStorage getter \<Rightarrow> ObjectStorageBucket \<Rightarrow> (err + string) \<times> ObjectStorageBucket" where
  "ObjectStorageBucketAdapter_serviceUUID L getService b =
     (if obst_ServiceUUID (Status b) \<noteq> '''' then (Inr (obst_ServiceUUID (Status b)), b)
      else case ReadyID L ManagedObjectStorage_Object getService (om_Namespace (Meta b)) (lor_Name (obs_ServiceRef (Spec b))) of
        Inl e \<Rightarrow> (Inl e, b)
      | Inr i \<Rightarrow> (Inr i, b\<lparr>Status := (Status b)\<lparr>obst_ServiceUUID := i\<rparr>\<rparr>))"

definition ObjectStorageBucketAdapter_Observe ::
  "Lib \<Rightarrow> 's ObjectStorageAPI \<Rightarrow> ManagedObjectStorage getter \<Rightarrow> ObjectStorageBucket \<Rightarrow> 's
   \<Rightarrow> (err + Observation) \<times> ObjectStorageBucket \<times> 's" where
  "ObjectStorageBucketAdapter_Observe L api getService b s =
     (case ObjectStorageBucketAdapter_serviceUUID L getService b of
        (Inl e, b1) \<Rightarrow> (Inl e, b1, s)
      | (Inr svcUUID, b1) \<Rightarrow>
          (case ObjectStorageBucketAdapter_findBucket api svcUUID (ObjectStorageBucket_ExternalName b1) s of
             (Inl e, s1) \<Rightarrow> (Inl e, b1, s1)
           | (Inr None, s1) \<Rightarrow> (Inr NoObservation, b1, s1)
           | (Inr (Some metrics), s1) \<Rightarrow>
               (Inr \<lparr>ob_Exists = True, ob_UpToDate = True, ob_Ready = True, ob_Message = ''bucket '' @ ubk_Name metrics\<rparr>,
                b1\<lparr>Status := (Status b1)\<lparr>obst_Name := ubk_Name metrics, obst_TotalObjects := ubk_TotalObjects metrics,
                                           obst_TotalSizeBytes := ubk_TotalSizeBytes metrics\<rparr>\<rparr>, s1)))"

definition ObjectStorageBucketAdapter_Create ::
  "Lib \<Rightarrow> 's ObjectStorageAPI \<Rightarrow> ManagedObjectStorage getter \<Rightarrow> ObjectStorageBucket \<Rightarrow> 's
   \<Rightarrow> err option \<times> ObjectStorageBucket \<times> 's" where
  "ObjectStorageBucketAdapter_Create L api getService b s =
     (case ObjectStorageBucketAdapter_serviceUUID L getService b of
        (Inl e, b1) \<Rightarrow> (Some e, b1, s)
      | (Inr svcUUID, b1) \<Rightarrow>
          (case CreateManagedObjectStorageBucket api svcUUID (ObjectStorageBucket_ExternalName b1) s of
             (Inl e, s1) \<Rightarrow>
               if IsConflict (Some e) then (None, b1, s1)
               else (Some (Wrap ''create object storage bucket'' e), b1, s1)
           | (Inr created, s1) \<Rightarrow> (None, b1\<lparr>Status := (Status b1)\<lparr>obst_Name := ubk_Name created\<rparr>\<rparr>, s1)))"

definition ObjectStorageBucketAdapter_Update ::
  "Lib \<Rightarrow> 's ObjectStorageAPI \<Rightarrow> ManagedObjectStorage getter \<Rightarrow> ObjectStorageBucket \<Rightarrow> 's
   \<Rightarrow> err option \<times> ObjectStorageBucket \<times> 's" where
  "ObjectStorageBucketAdapter_Update L api getService b s =
     (case ObjectStorageBucketAdapter_serviceUUID L getService b of
        (Inl e, b1) \<Rightarrow> (Some e, b1, s)
      | (Inr svcUUID, b1) \<Rightarrow>
          (case ObjectStorageBucketAdapter_findBucket api svcUUID (ObjectStorageBucket_ExternalName b1) s of
             (Inl e, s1) \<Rightarrow> (Some e, b1, s1)
           | (Inr None, s1) \<Rightarrow> (Some ErrPending, b1, s1)
           | (Inr (Some _), s1) \<Rightarrow> (None, b1, s1)))"

definition ObjectStorageBucketAdapter_Delete ::
  "Lib \<Rightarrow> 's ObjectStorageAPI \<Rightarrow> ObjectStorageBucket \<Rightarrow> 's \<Rightarrow> err option \<times> ObjectStorageBucket \<times> 's" where
  "ObjectStorageBucketAdapter_Delete L api b s =
     (if obst_ServiceUUID (Status b) = '''' \<or> obst_Name (Status b) = '''' then (None, b, s)
      else case DeleteManagedObjectStorageBucket api (obst_ServiceUUID (Status b)) (ObjectStorageBucket_ExternalName b) s of
        (None, s1) \<Rightarrow> (Some ErrPending, b, s1)
      | (Some e, s1) \<Rightarrow> (titledOutcome L ''delete object storage bucket'' (Some e), b, s1))"

definition ObjectStorageBucketAdapter ::
  "Lib \<Rightarrow> 's ObjectStorageAPI \<Rightarrow> ManagedObjectStorage getter \<Rightarrow> (ObjectStorageBucket, 's) Adapter" where
  "ObjectStorageBucketAdapter L api getService =
     \<lparr>ad_Observe = ObjectStorageBucketAdapter_Observe L api getService,
      ad_Create = ObjectStorageBucketAdapter_Create L api getService,
      ad_Update = ObjectStorageBucketAdapter_Update L api getService,
      ad_Delete = ObjectStorageBucketAdapter_Delete L api\<rparr>"

definition FinalizerObjectStorageBucket :: string where
  "FinalizerObjectStorageBucket = ''objectstorage.upcloud.polarsquad.com/objectstoragebucket''"

definition SetupObjectStorageBucketController ::
  "Lib \<Rightarrow> (ObjectStorageBucket, 'k) Client \<Rightarrow> 's ObjectStorageAPI \<Rightarrow> ManagedObjectStorage getter
   \<Rightarrow> (string \<Rightarrow> 'v \<Rightarrow> err + ObjectStorageBucket list) \<Rightarrow> Options
   \<Rightarrow> (ObjectStorageBucket, 'k \<times> 's) Reconciler \<times> (ManagedObjectStorage \<Rightarrow> 'v \<Rightarrow> NamespacedName list)" where
  "SetupObjectStorageBucketController L c api getService listBuckets opts =
     (mkReconciler L ObjectStorageBucket_Object c (ObjectStorageBucketAdapter L api getService)
        FinalizerObjectStorageBucket opts,
      \<lambda>x. DependentsOf listBuckets Meta (\<lambda>b. [lor_Name (obs_ServiceRef (Spec b))]) (Meta x))"

lemma ObjectStorageBucketAdapter_sel [simp]:
  "ad_Observe (ObjectStorageBucketAdapter L api gs) = ObjectStorageBucketAdapter_Observe L api gs"
  "ad_Create (ObjectStorageBucketAdapter L api gs) = ObjectStorageBucketAdapter_Create L api gs"
  "ad_Update (ObjectStorageBucketAdapter L api gs) = ObjectStorageBucketAdapter_Update L api gs"
  "ad_Delete (ObjectStorageBucketAdapter L api gs) = ObjectStorageBucketAdapter_Delete L api"
  by (simp_all add: ObjectStorageBucketAdapter_def)

subsection \<open>The loop ends\<close>

lemma live_find: "live bs n = find (bucketMatches n) bs"
  by (simp add: live_def bucketMatches_def [abs_def])

lemma live_split:
  "live bs n = (case find (bucketMatches n) (take k bs) of Some b \<Rightarrow> Some b | None \<Rightarrow> live (drop k bs) n)"
proof -
  have "find P (xs @ ys) = (case find P xs of Some b \<Rightarrow> Some b | None \<Rightarrow> find P ys)" for P and xs ys :: "upBucket list"
    by (induction xs) auto
  from this [of "bucketMatches n" "take k bs" "drop k bs"] show ?thesis
    unfolding live_find by simp
qed

context object_storage_service
begin

lemma findBucketFrom_ends:
  assumes "inv s" and "1 \<le> n"
  shows "\<exists>r s1. findBucketFrom api i name n s = Some (r, s1) \<and> inv s1 \<and> view s1 = view s \<and>
    (\<forall>m. r = Inr m \<longrightarrow> m = live (drop (nat (100 * (n - 1))) (ov_Buckets (view s) i)) name)"
  using assms
proof (induction "length (ov_Buckets (view s) i) - nat (100 * (n - 1))" arbitrary: n s rule: less_induct)
  case less
  let ?bs = "ov_Buckets (view s) i" and ?k = "nat (100 * (n - 1))"
  obtain rl s1 where p: "GetManagedObjectStorageBucketMetrics api i (metricsPage n) s = (rl, s1)" by fastforce
  note page = bucket_page [OF less.prems(1) p [unfolded metricsPage_def]]
  have fr: "inv s1" "view s1 = view s" and xs: "rl = Inr xs \<Longrightarrow> xs = take 100 (drop ?k ?bs)" for xs
    using page less.prems(2) by (simp_all add: bucketPageSize_def)
  have nx: "nat (100 * (n + 1 - 1)) = ?k + 100" using less.prems(2) by simp
  show ?case
  proof (cases rl)
    case (Inl e)
    then show ?thesis using p fr by (subst findBucketFrom.simps) simp
  next
    case (Inr list)
    note list = xs [OF Inr]
    show ?thesis
    proof (cases "list = []")
      case True
      then have "drop ?k ?bs = []" using list by simp
      then show ?thesis using True Inr p fr by (subst findBucketFrom.simps) (simp add: live_def)
    next
      case False
      note split = live_split [of "drop ?k ?bs" name 100]
      show ?thesis
      proof (cases "find (bucketMatches name) list")
        case (Some b)
        then show ?thesis using False Inr p fr split list by (subst findBucketFrom.simps) simp
      next
        case None
        have "?k < length ?bs" using False list by simp
        then have "length (ov_Buckets (view s1) i) - nat (100 * (n + 1 - 1)) < length ?bs - ?k" unfolding nx fr(2) by simp
        note IH = less.hyps [OF this fr(1)]
        have "findBucketFrom api i name n s = findBucketFrom api i name (n + 1) s1"
          using False None Inr p by (subst findBucketFrom.simps) simp
        moreover have "live (drop ?k ?bs) name = live (drop (nat (100 * (n + 1 - 1))) ?bs) name"
          using split None list unfolding nx by (simp add: add.commute)
        ultimately show ?thesis using IH less.prems(2) fr(2) by simp
      qed
    qed
  qed
qed

end

subsection \<open>The operations against the service contract\<close>

lemma bucket_service:
  assumes "ObjectStorageBucketAdapter_serviceUUID L gs b = (r, b1)"
  shows "Spec b1 = Spec b" "Meta b1 = Meta b" "obst_Name (Status b1) = obst_Name (Status b)"
    "ObjectStorageBucket_ExternalName b1 = ObjectStorageBucket_ExternalName b"
    and "r = Inr i \<Longrightarrow> i \<noteq> [] \<and> obst_ServiceUUID (Status b1) = i"
  using assms
  by (auto simp: ObjectStorageBucketAdapter_serviceUUID_def ObjectStorageBucket_ExternalName_def split: sum.splits if_splits)

context object_storage_service
begin

lemma findBucket_spec:
  assumes "inv s" and "ObjectStorageBucketAdapter_findBucket api i name s = (r, s1)"
  shows "inv s1 \<and> view s1 = view s \<and> (\<forall>m. r = Inr m \<longrightarrow> m = live (ov_Buckets (view s) i) name)"
  using findBucketFrom_ends [OF assms(1), of 1 i name] assms(2)
  by (auto simp: ObjectStorageBucketAdapter_findBucket_def)

lemma live_name: "live bs n = Some b \<Longrightarrow> ubk_Name b = n"
  by (auto simp: live_def find_Some_iff)

lemma bucket_observe_spec:
  assumes "inv s" and "ObjectStorageBucketAdapter_Observe L api gs b s = (r, b1, s1)"
  shows "inv s1 \<and> view s1 = view s \<and> Meta b1 = Meta b \<and> Spec b1 = Spec b"
    and "r = Inr obs \<Longrightarrow> obst_ServiceUUID (Status b1) \<noteq> [] \<and>
      (obst_ServiceUUID (Status b) \<noteq> [] \<longrightarrow> obst_ServiceUUID (Status b1) = obst_ServiceUUID (Status b)) \<and>
      (ob_Exists obs \<longleftrightarrow> live (ov_Buckets (view s) (obst_ServiceUUID (Status b1))) (ObjectStorageBucket_ExternalName b) \<noteq> None) \<and>
      (ob_Exists obs \<longrightarrow> ob_UpToDate obs \<and> ob_Ready obs \<and> obst_Name (Status b1) = ObjectStorageBucket_ExternalName b)"
proof -
  obtain q b0 where p: "ObjectStorageBucketAdapter_serviceUUID L gs b = (q, b0)" by fastforce
  note pp = bucket_service [OF p]
  have cached: "obst_ServiceUUID (Status b) \<noteq> [] \<Longrightarrow> q = Inr (obst_ServiceUUID (Status b))"
    using p by (auto simp: ObjectStorageBucketAdapter_serviceUUID_def)
  show "inv s1 \<and> view s1 = view s \<and> Meta b1 = Meta b \<and> Spec b1 = Spec b"
    using assms p pp(1,2) findBucket_spec [OF assms(1)]
    by (auto simp: ObjectStorageBucketAdapter_Observe_def split: sum.splits prod.splits option.splits)
  assume "r = Inr obs"
  then obtain i m where i: "q = Inr i"
    "ObjectStorageBucketAdapter_findBucket api i (ObjectStorageBucket_ExternalName b) s = (Inr m, s1)"
    using assms(2) p pp(4)
    by (auto simp: ObjectStorageBucketAdapter_Observe_def split: sum.splits prod.splits option.splits)
  have m: "m = live (ov_Buckets (view s) i) (ObjectStorageBucket_ExternalName b)" using findBucket_spec [OF assms(1) i(2)] by blast
  show "obst_ServiceUUID (Status b1) \<noteq> [] \<and>
      (obst_ServiceUUID (Status b) \<noteq> [] \<longrightarrow> obst_ServiceUUID (Status b1) = obst_ServiceUUID (Status b)) \<and>
      (ob_Exists obs \<longleftrightarrow> live (ov_Buckets (view s) (obst_ServiceUUID (Status b1))) (ObjectStorageBucket_ExternalName b) \<noteq> None) \<and>
      (ob_Exists obs \<longrightarrow> ob_UpToDate obs \<and> ob_Ready obs \<and> obst_Name (Status b1) = ObjectStorageBucket_ExternalName b)"
  proof (cases m)
    case None
    then have "obs = NoObservation" "b1 = b0"
      using assms(2) \<open>r = Inr obs\<close> p pp(4) i by (simp_all add: ObjectStorageBucketAdapter_Observe_def)
    then show ?thesis using pp(5) [OF i(1)] m None cached i(1) by (auto simp: NoObservation_def)
  next
    case (Some x)
    then have "ob_Exists obs \<and> ob_UpToDate obs \<and> ob_Ready obs \<and> obst_Name (Status b1) = ubk_Name x \<and>
        obst_ServiceUUID (Status b1) = obst_ServiceUUID (Status b0)"
      using assms(2) \<open>r = Inr obs\<close> p pp(4) i by (auto simp: ObjectStorageBucketAdapter_Observe_def)
    moreover have "live (ov_Buckets (view s) i) (ObjectStorageBucket_ExternalName b) = Some x" using m Some by simp
    ultimately show ?thesis using pp(5) [OF i(1)] cached i(1) live_name by auto
  qed
qed

lemma bucket_create_spec:
  assumes "inv s" and "ObjectStorageBucketAdapter_Create L api gs b s = (e, b1, s1)"
  shows "inv s1 \<and> Meta b1 = Meta b \<and> Spec b1 = Spec b \<and>
    (view s1 = view s \<or> e = None \<and> live (ov_Buckets (view s) (obst_ServiceUUID (Status b1))) (ObjectStorageBucket_ExternalName b) = None \<and>
      obst_Name (Status b1) = ObjectStorageBucket_ExternalName b \<and>
      (\<exists>x. ubk_Name x = ObjectStorageBucket_ExternalName b \<and> \<not> ubk_Deleted x \<and>
        view s1 = (view s)\<lparr>ov_Buckets := (ov_Buckets (view s))(obst_ServiceUUID (Status b1) :=
          ov_Buckets (view s) (obst_ServiceUUID (Status b1)) @ [x])\<rparr>))"
proof -
  obtain q b0 where p: "ObjectStorageBucketAdapter_serviceUUID L gs b = (q, b0)" by fastforce
  note pp = bucket_service [OF p]
  show ?thesis
  proof (cases q)
    case (Inl x)
    then show ?thesis using assms p pp by (simp add: ObjectStorageBucketAdapter_Create_def)
  next
    case (Inr i)
    obtain rb s' where c: "CreateManagedObjectStorageBucket api i (ObjectStorageBucket_ExternalName b) s = (rb, s')" by fastforce
    show ?thesis
      using bucket_create [OF assms(1) c] assms(2) p pp Inr c
      by (cases rb) (auto simp: ObjectStorageBucketAdapter_Create_def split: if_splits)
  qed
qed

lemma bucket_delete_spec:
  assumes "inv s" and "ObjectStorageBucketAdapter_Delete L api b s = (e, b1, s1)"
  shows "b1 = b \<and> inv s1" and "obst_ServiceUUID (Status b) = [] \<or> obst_Name (Status b) = [] \<Longrightarrow> s1 = s \<and> e = None"
    and "obst_ServiceUUID (Status b) \<noteq> [] \<Longrightarrow> obst_Name (Status b) \<noteq> [] \<Longrightarrow>
      \<exists>de. DeleteManagedObjectStorageBucket api (obst_ServiceUUID (Status b)) (ObjectStorageBucket_ExternalName b) s = (de, s1) \<and>
        (e = None \<longleftrightarrow> IsNotFound de)"
  using assms bucket_delete [OF assms(1)]
  by (auto simp: ObjectStorageBucketAdapter_Delete_def split: prod.splits option.splits if_splits)

end

end
