(* ===== verification/ObjectStoragePolicyAdapter.thy ===== *)
theory ObjectStoragePolicyAdapter
  imports ManagedObjectStorageAdapter
begin

text \<open>
  \<open>internal/controller/objectstorage/objectstoragepolicy_adapter.go\<close> and
  \<open>objectstoragepolicy_controller.go\<close>. The document of a policy never changes, so there
  is no update path.
\<close>

subsection \<open>The adapter\<close>

definition ObjectStoragePolicyAdapter_serviceUUID ::
  "Lib \<Rightarrow> ManagedObjectStorage getter \<Rightarrow> ObjectStoragePolicy \<Rightarrow> (err + string) \<times> ObjectStoragePolicy" where
  "ObjectStoragePolicyAdapter_serviceUUID L getService p =
     (if opst_ServiceUUID (Status p) \<noteq> '''' then (Inr (opst_ServiceUUID (Status p)), p)
      else case ReadyID L ManagedObjectStorage_Object getService (om_Namespace (Meta p)) (lor_Name (ops_ServiceRef (Spec p))) of
        Inl e \<Rightarrow> (Inl e, p)
      | Inr i \<Rightarrow> (Inr i, p\<lparr>Status := (Status p)\<lparr>opst_ServiceUUID := i\<rparr>\<rparr>))"

definition ObjectStoragePolicyAdapter_Observe ::
  "Lib \<Rightarrow> 's ObjectStorageAPI \<Rightarrow> ManagedObjectStorage getter \<Rightarrow> ObjectStoragePolicy \<Rightarrow> 's
   \<Rightarrow> (err + Observation) \<times> ObjectStoragePolicy \<times> 's" where
  "ObjectStoragePolicyAdapter_Observe L api getService p s =
     (case ObjectStoragePolicyAdapter_serviceUUID L getService p of
        (Inl e, p1) \<Rightarrow> (Inl e, p1, s)
      | (Inr svcUUID, p1) \<Rightarrow>
          (case GetManagedObjectStoragePolicy api svcUUID (ObjectStoragePolicy_ExternalName p1) s of
             (Inl e, s1) \<Rightarrow>
               if IsNotFound (Some e) then (Inr NoObservation, p1, s1)
               else (Inl (Wrap ''get object storage policy'' e), p1, s1)
           | (Inr pol, s1) \<Rightarrow>
               (Inr \<lparr>ob_Exists = True, ob_UpToDate = True, ob_Ready = True, ob_Message = ''policy '' @ upo_Name pol\<rparr>,
                p1\<lparr>Status := (Status p1)\<lparr>opst_Name := upo_Name pol, opst_ARN := upo_ARN pol,
                                           opst_DefaultVersionID := upo_DefaultVersionID pol\<rparr>\<rparr>, s1)))"

definition ObjectStoragePolicyAdapter_Create ::
  "Lib \<Rightarrow> 's ObjectStorageAPI \<Rightarrow> ManagedObjectStorage getter \<Rightarrow> ObjectStoragePolicy \<Rightarrow> 's
   \<Rightarrow> err option \<times> ObjectStoragePolicy \<times> 's" where
  "ObjectStoragePolicyAdapter_Create L api getService p s =
     (case ObjectStoragePolicyAdapter_serviceUUID L getService p of
        (Inl e, p1) \<Rightarrow> (Some e, p1, s)
      | (Inr svcUUID, p1) \<Rightarrow>
          (case CreateManagedObjectStoragePolicy api svcUUID
                  \<lparr>cop_Name = ObjectStoragePolicy_ExternalName p1, cop_Description = ops_Description (Spec p1),
                   cop_Document = ops_Document (Spec p1)\<rparr> s of
             (Inl e, s1) \<Rightarrow>
               if IsConflict (Some e) then (None, p1, s1)
               else (Some (Wrap ''create object storage policy'' e), p1, s1)
           | (Inr created, s1) \<Rightarrow>
               (None, p1\<lparr>Status := (Status p1)\<lparr>opst_Name := upo_Name created, opst_ARN := upo_ARN created,
                                               opst_DefaultVersionID := upo_DefaultVersionID created\<rparr>\<rparr>, s1)))"

definition ObjectStoragePolicyAdapter_Update ::
  "Lib \<Rightarrow> 's ObjectStorageAPI \<Rightarrow> ManagedObjectStorage getter \<Rightarrow> ObjectStoragePolicy \<Rightarrow> 's
   \<Rightarrow> err option \<times> ObjectStoragePolicy \<times> 's" where
  "ObjectStoragePolicyAdapter_Update L api getService p s =
     (case ObjectStoragePolicyAdapter_serviceUUID L getService p of
        (Inl e, p1) \<Rightarrow> (Some e, p1, s)
      | (Inr svcUUID, p1) \<Rightarrow>
          (case GetManagedObjectStoragePolicy api svcUUID (ObjectStoragePolicy_ExternalName p1) s of
             (Inl e, s1) \<Rightarrow>
               if IsNotFound (Some e) then (Some ErrPending, p1, s1)
               else (Some (Wrap ''get object storage policy'' e), p1, s1)
           | (Inr _, s1) \<Rightarrow> (None, p1, s1)))"

definition ObjectStoragePolicyAdapter_Delete ::
  "Lib \<Rightarrow> 's ObjectStorageAPI \<Rightarrow> ObjectStoragePolicy \<Rightarrow> 's \<Rightarrow> err option \<times> ObjectStoragePolicy \<times> 's" where
  "ObjectStoragePolicyAdapter_Delete L api p s =
     (if opst_ServiceUUID (Status p) = '''' \<or> opst_Name (Status p) = '''' then (None, p, s)
      else case DeleteManagedObjectStoragePolicy api (opst_ServiceUUID (Status p)) (opst_Name (Status p)) s of
        (e, s1) \<Rightarrow> (titledOutcome L ''delete object storage policy'' e, p, s1))"

definition ObjectStoragePolicyAdapter ::
  "Lib \<Rightarrow> 's ObjectStorageAPI \<Rightarrow> ManagedObjectStorage getter \<Rightarrow> (ObjectStoragePolicy, 's) Adapter" where
  "ObjectStoragePolicyAdapter L api getService =
     \<lparr>ad_Observe = ObjectStoragePolicyAdapter_Observe L api getService,
      ad_Create = ObjectStoragePolicyAdapter_Create L api getService,
      ad_Update = ObjectStoragePolicyAdapter_Update L api getService,
      ad_Delete = ObjectStoragePolicyAdapter_Delete L api\<rparr>"

definition FinalizerObjectStoragePolicy :: string where
  "FinalizerObjectStoragePolicy = ''objectstorage.upcloud.polarsquad.com/objectstoragepolicy''"

definition SetupObjectStoragePolicyController ::
  "Lib \<Rightarrow> (ObjectStoragePolicy, 'k) Client \<Rightarrow> 's ObjectStorageAPI \<Rightarrow> ManagedObjectStorage getter
   \<Rightarrow> (string \<Rightarrow> 'v \<Rightarrow> err + ObjectStoragePolicy list) \<Rightarrow> Options
   \<Rightarrow> (ObjectStoragePolicy, 'k \<times> 's) Reconciler \<times> (ManagedObjectStorage \<Rightarrow> 'v \<Rightarrow> NamespacedName list)" where
  "SetupObjectStoragePolicyController L c api getService listPolicies opts =
     (mkReconciler L ObjectStoragePolicy_Object c (ObjectStoragePolicyAdapter L api getService)
        FinalizerObjectStoragePolicy opts,
      \<lambda>x. DependentsOf listPolicies Meta (\<lambda>p. [lor_Name (ops_ServiceRef (Spec p))]) (Meta x))"

lemma ObjectStoragePolicyAdapter_sel [simp]:
  "ad_Observe (ObjectStoragePolicyAdapter L api gs) = ObjectStoragePolicyAdapter_Observe L api gs"
  "ad_Create (ObjectStoragePolicyAdapter L api gs) = ObjectStoragePolicyAdapter_Create L api gs"
  "ad_Update (ObjectStoragePolicyAdapter L api gs) = ObjectStoragePolicyAdapter_Update L api gs"
  "ad_Delete (ObjectStoragePolicyAdapter L api gs) = ObjectStoragePolicyAdapter_Delete L api"
  by (simp_all add: ObjectStoragePolicyAdapter_def)

subsection \<open>The operations against the service contract\<close>

lemma policy_service:
  assumes "ObjectStoragePolicyAdapter_serviceUUID L gs p = (r, p1)"
  shows "Spec p1 = Spec p" "Meta p1 = Meta p" "opst_Name (Status p1) = opst_Name (Status p)"
    "ObjectStoragePolicy_ExternalName p1 = ObjectStoragePolicy_ExternalName p"
    and "r = Inr i \<Longrightarrow> i \<noteq> [] \<and> opst_ServiceUUID (Status p1) = i"
  using assms
  by (auto simp: ObjectStoragePolicyAdapter_serviceUUID_def ObjectStoragePolicy_ExternalName_def split: sum.splits if_splits)

context object_storage_service
begin

lemma policy_observe_spec:
  assumes "inv s" and "ObjectStoragePolicyAdapter_Observe L api gs p s = (r, p1, s1)"
  shows "inv s1 \<and> view s1 = view s \<and> Meta p1 = Meta p \<and> Spec p1 = Spec p"
    and "r = Inr obs \<Longrightarrow>
      (ob_Exists obs \<longleftrightarrow> ov_Policies (view s) (opst_ServiceUUID (Status p1)) (ObjectStoragePolicy_ExternalName p) \<noteq> None) \<and>
      (ob_Exists obs \<longrightarrow> ob_UpToDate obs \<and> opst_Name (Status p1) = ObjectStoragePolicy_ExternalName p)"
proof -
  obtain q p0 where pr: "ObjectStoragePolicyAdapter_serviceUUID L gs p = (q, p0)" by fastforce
  note pp = policy_service [OF pr]
  obtain ro s' where g: "GetManagedObjectStoragePolicy api (projr q) (ObjectStoragePolicy_ExternalName p) s = (ro, s')" by fastforce
  show "inv s1 \<and> view s1 = view s \<and> Meta p1 = Meta p \<and> Spec p1 = Spec p"
    using assms pr pp(1,2,4) g policy_get [OF assms(1) g]
    by (cases q; cases ro) (auto simp: ObjectStoragePolicyAdapter_Observe_def split: if_splits)
  show "r = Inr obs \<Longrightarrow>
      (ob_Exists obs \<longleftrightarrow> ov_Policies (view s) (opst_ServiceUUID (Status p1)) (ObjectStoragePolicy_ExternalName p) \<noteq> None) \<and>
      (ob_Exists obs \<longrightarrow> ob_UpToDate obs \<and> opst_Name (Status p1) = ObjectStoragePolicy_ExternalName p)"
    using assms pr pp(4,5) g policy_get [OF assms(1) g]
    by (cases q; cases ro) (auto simp: ObjectStoragePolicyAdapter_Observe_def NoObservation_def split: if_splits)
qed

lemma policy_create_spec:
  assumes "inv s" and "ObjectStoragePolicyAdapter_Create L api gs p s = (e, p1, s1)"
  shows "inv s1 \<and> Meta p1 = Meta p \<and> Spec p1 = Spec p \<and>
    (view s1 = view s \<or> e = None \<and> opst_Name (Status p1) = ObjectStoragePolicy_ExternalName p \<and>
      (\<exists>x. ov_Policies (view s) (opst_ServiceUUID (Status p1)) (ObjectStoragePolicy_ExternalName p) = None \<and>
        upo_Document x = ops_Document (Spec p) \<and>
        view s1 = (view s)\<lparr>ov_Policies := put2 (ov_Policies (view s)) (opst_ServiceUUID (Status p1))
          (ObjectStoragePolicy_ExternalName p) (Some x)\<rparr>))"
proof -
  obtain q p0 where pr: "ObjectStoragePolicyAdapter_serviceUUID L gs p = (q, p0)" by fastforce
  note pp = policy_service [OF pr]
  show ?thesis
  proof (cases q)
    case (Inl x)
    then show ?thesis using assms pr pp by (simp add: ObjectStoragePolicyAdapter_Create_def)
  next
    case (Inr i)
    let ?c = "\<lparr>cop_Name = ObjectStoragePolicy_ExternalName p, cop_Description = ops_Description (Spec p),
                   cop_Document = ops_Document (Spec p)\<rparr>"
    obtain ro s' where c: "CreateManagedObjectStoragePolicy api i ?c s = (ro, s')" by fastforce
    show ?thesis
      using policy_create [OF assms(1) c] assms(2) pr pp Inr c
      by (cases ro) (auto simp: ObjectStoragePolicyAdapter_Create_def split: if_splits)
  qed
qed

lemma policy_delete_spec:
  assumes "inv s" and "ObjectStoragePolicyAdapter_Delete L api p s = (e, p1, s1)"
    and "opst_ServiceUUID (Status p) = i" and "i \<noteq> []" and "opst_Name (Status p) = n" and "n \<noteq> []"
  shows "p1 = p \<and> inv s1"
    and "view s1 = view s \<or> e = None \<and> (\<forall>u. n \<notin> ov_Attached (view s) i u) \<and>
      view s1 = (view s)\<lparr>ov_Policies := put2 (ov_Policies (view s)) i n None\<rparr>"
    and "e = None \<Longrightarrow> ov_Policies (view s1) i n = None"
proof -
  obtain de where d: "DeleteManagedObjectStoragePolicy api i n s = (de, s1)"
    "e = titledOutcome L ''delete object storage policy'' de" "p1 = p"
    using assms by (auto simp: ObjectStoragePolicyAdapter_Delete_def split: prod.splits)
  note del = policy_delete [OF assms(1) d(1)]
  show "p1 = p \<and> inv s1" using del d(3) by blast
  show "view s1 = view s \<or> e = None \<and> (\<forall>u. n \<notin> ov_Attached (view s) i u) \<and>
      view s1 = (view s)\<lparr>ov_Policies := put2 (ov_Policies (view s)) i n None\<rparr>"
    using del d(2) by (cases de) auto
  show "e = None \<Longrightarrow> ov_Policies (view s1) i n = None" using del d(2) by (cases de) auto
qed

end

end
