(* ===== verification/ObjectStorageUserAdapter.thy ===== *)
theory ObjectStorageUserAdapter
  imports ManagedObjectStorageAdapter
begin

text \<open>
  \<open>internal/controller/objectstorage/objectstorageuser_adapter.go\<close> and
  \<open>objectstorageuser_controller.go\<close>. \<open>getService\<close> and \<open>getPolicy\<close> load the
  ManagedObjectStorage and the ObjectStoragePolicy objects that a user refers to. Strings
  are ordered by their bytes, as in Go.
\<close>

subsection \<open>Helpers\<close>

definition equalStringSlices :: "string list \<Rightarrow> string list \<Rightarrow> bool" where
  "equalStringSlices a b =
     (if length a \<noteq> length b then False
      else list_all (\<lambda>i. a ! i = b ! i) [0..<length a])"

definition containsString :: "string list \<Rightarrow> string \<Rightarrow> bool" where
  "containsString s v \<longleftrightarrow> v \<in> set s"

definition ObjectStorageUserAdapter_serviceUUID ::
  "Lib \<Rightarrow> ManagedObjectStorage getter \<Rightarrow> ObjectStorageUser \<Rightarrow> (err + string) \<times> ObjectStorageUser" where
  "ObjectStorageUserAdapter_serviceUUID L getService u =
     (if oust_ServiceUUID (Status u) \<noteq> '''' then (Inr (oust_ServiceUUID (Status u)), u)
      else case ReadyID L ManagedObjectStorage_Object getService (om_Namespace (Meta u)) (lor_Name (ous_ServiceRef (Spec u))) of
        Inl e \<Rightarrow> (Inl e, u)
      | Inr i \<Rightarrow> (Inr i, u\<lparr>Status := (Status u)\<lparr>oust_ServiceUUID := i\<rparr>\<rparr>))"

definition policyRefName :: "Lib \<Rightarrow> ObjectStoragePolicy getter \<Rightarrow> string \<Rightarrow> string \<Rightarrow> err + string" where
  "policyRefName L getPolicy namespace refName = ReadyID L ObjectStoragePolicy_Object getPolicy namespace refName"

text \<open>The loop over \<open>PolicyRefs\<close>; \<open>set\<close> is the Go map used as a set.\<close>

fun addPolicyRefs ::
  "Lib \<Rightarrow> ObjectStoragePolicy getter \<Rightarrow> string \<Rightarrow> LocalObjectReference list \<Rightarrow> (string, bool) gomap
   \<Rightarrow> err + (string, bool) gomap" where
  "addPolicyRefs L getPolicy ns [] m = Inr m"
| "addPolicyRefs L getPolicy ns (ref # refs) m =
     (case policyRefName L getPolicy ns (lor_Name ref) of
        Inl e \<Rightarrow> Inl e
      | Inr name \<Rightarrow> addPolicyRefs L getPolicy ns refs (gm_put name True m))"

text \<open>The keys of the map are sorted, so the order of the range does not matter.\<close>

definition desiredPolicies :: "Lib \<Rightarrow> ObjectStoragePolicy getter \<Rightarrow> ObjectStorageUser \<Rightarrow> err + string list" where
  "desiredPolicies L getPolicy u =
     (case addPolicyRefs L getPolicy (om_Namespace (Meta u)) (ous_PolicyRefs (Spec u))
             (fold (\<lambda>name m. gm_put name True m) (ous_Policies (Spec u)) []) of
        Inl e \<Rightarrow> Inl e
      | Inr m \<Rightarrow> Inr (sort (map fst m)))"

definition currentPolicies :: "'s ObjectStorageAPI \<Rightarrow> string \<Rightarrow> string \<Rightarrow> 's \<Rightarrow> (err + string list) \<times> 's" where
  "currentPolicies api svcUUID username s =
     (case GetManagedObjectStorageUserPolicies api svcUUID username s of
        (Inl e, s1) \<Rightarrow> (Inl (Wrap ''get object storage user policies'' e), s1)
      | (Inr list, s1) \<Rightarrow> (Inr (sort (map uup_Name list)), s1))"

text \<open>The loops of \<open>attachDesired\<close>, \<open>Update\<close> and \<open>Delete\<close>.\<close>

fun attachMissing :: "'s ObjectStorageAPI \<Rightarrow> string \<Rightarrow> string \<Rightarrow> string list \<Rightarrow> string list \<Rightarrow> 's \<Rightarrow> err option \<times> 's" where
  "attachMissing api svcUUID username attached [] s = (None, s)"
| "attachMissing api svcUUID username attached (name # names) s =
     (if containsString attached name then attachMissing api svcUUID username attached names s
      else case AttachManagedObjectStorageUserPolicy api svcUUID username name s of
        (Some e, s1) \<Rightarrow> (Some (Wrap (''attach policy '' @ fmt_q name) e), s1)
      | (None, s1) \<Rightarrow> attachMissing api svcUUID username attached names s1)"

fun detachExtra :: "'s ObjectStorageAPI \<Rightarrow> string \<Rightarrow> string \<Rightarrow> string list \<Rightarrow> string list \<Rightarrow> 's \<Rightarrow> err option \<times> 's" where
  "detachExtra api svcUUID username desired [] s = (None, s)"
| "detachExtra api svcUUID username desired (name # names) s =
     (if containsString desired name then detachExtra api svcUUID username desired names s
      else case DetachManagedObjectStorageUserPolicy api svcUUID username name s of
        (Some e, s1) \<Rightarrow> (Some (Wrap (''detach policy '' @ fmt_q name) e), s1)
      | (None, s1) \<Rightarrow> detachExtra api svcUUID username desired names s1)"

fun detachAll :: "Lib \<Rightarrow> 's ObjectStorageAPI \<Rightarrow> string \<Rightarrow> string \<Rightarrow> upOSPolicy list \<Rightarrow> 's \<Rightarrow> err option \<times> 's" where
  "detachAll L api svcUUID username [] s = (None, s)"
| "detachAll L api svcUUID username (p # ps) s =
     (case DetachManagedObjectStorageUserPolicy api svcUUID username (upo_Name p) s of
        (None, s1) \<Rightarrow> detachAll L api svcUUID username ps s1
      | (Some e, s1) \<Rightarrow>
          if IsNotFound (Some e) then detachAll L api svcUUID username ps s1
          else if IsConflict (Some e) then (Some (pendingTitle L e), s1)
          else (Some (Wrap (''detach policy '' @ fmt_q (upo_Name p)) e), s1))"

fun deleteAccessKeys :: "Lib \<Rightarrow> 's ObjectStorageAPI \<Rightarrow> string \<Rightarrow> string \<Rightarrow> upAccessKey list \<Rightarrow> 's \<Rightarrow> err option \<times> 's" where
  "deleteAccessKeys L api svcUUID username [] s = (None, s)"
| "deleteAccessKeys L api svcUUID username (k # ks) s =
     (case DeleteManagedObjectStorageUserAccessKey api svcUUID username (uak_AccessKeyID k) s of
        (None, s1) \<Rightarrow> deleteAccessKeys L api svcUUID username ks s1
      | (Some e, s1) \<Rightarrow>
          if IsNotFound (Some e) then deleteAccessKeys L api svcUUID username ks s1
          else if IsConflict (Some e) then (Some (pendingTitle L e), s1)
          else (Some (Wrap (''delete access key '' @ fmt_q (uak_AccessKeyID k)) e), s1))"

definition attachDesired ::
  "Lib \<Rightarrow> 's ObjectStorageAPI \<Rightarrow> ObjectStoragePolicy getter \<Rightarrow> ObjectStorageUser \<Rightarrow> string \<Rightarrow> 's \<Rightarrow> err option \<times> 's" where
  "attachDesired L api getPolicy u svcUUID s =
     (case desiredPolicies L getPolicy u of
        Inl e \<Rightarrow> (Some e, s)
      | Inr desired \<Rightarrow>
          (case currentPolicies api svcUUID (ObjectStorageUser_ExternalUsername u) s of
             (Inl e, s1) \<Rightarrow> (Some e, s1)
           | (Inr attached, s1) \<Rightarrow>
               attachMissing api svcUUID (ObjectStorageUser_ExternalUsername u) attached desired s1))"

subsection \<open>The adapter\<close>

definition ObjectStorageUserAdapter_Observe ::
  "Lib \<Rightarrow> 's ObjectStorageAPI \<Rightarrow> ManagedObjectStorage getter \<Rightarrow> ObjectStoragePolicy getter \<Rightarrow> ObjectStorageUser \<Rightarrow> 's
   \<Rightarrow> (err + Observation) \<times> ObjectStorageUser \<times> 's" where
  "ObjectStorageUserAdapter_Observe L api getService getPolicy u s =
     (case ObjectStorageUserAdapter_serviceUUID L getService u of
        (Inl e, u1) \<Rightarrow> (Inl e, u1, s)
      | (Inr svcUUID, u1) \<Rightarrow>
          (case GetManagedObjectStorageUser api svcUUID (ObjectStorageUser_ExternalUsername u1) s of
             (Inl e, s1) \<Rightarrow>
               if IsNotFound (Some e) then (Inr NoObservation, u1, s1)
               else (Inl (Wrap ''get object storage user'' e), u1, s1)
           | (Inr user, s1) \<Rightarrow>
               let u2 = u1\<lparr>Status := (Status u1)\<lparr>oust_Username := uou_Username user, oust_ARN := uou_ARN user\<rparr>\<rparr> in
               (case currentPolicies api svcUUID (uou_Username user) s1 of
                  (Inl e, s2) \<Rightarrow> (Inl e, u2, s2)
                | (Inr attached, s2) \<Rightarrow>
                    let u3 = u2\<lparr>Status := (Status u2)\<lparr>oust_AttachedPolicies := attached\<rparr>\<rparr> in
                    (case desiredPolicies L getPolicy u3 of
                       Inl e \<Rightarrow> (Inl e, u3, s2)
                     | Inr desired \<Rightarrow>
                         (Inr \<lparr>ob_Exists = True, ob_UpToDate = equalStringSlices attached desired, ob_Ready = True,
                               ob_Message = ''user '' @ uou_Username user\<rparr>, u3, s2)))))"

definition ObjectStorageUserAdapter_Create ::
  "Lib \<Rightarrow> 's ObjectStorageAPI \<Rightarrow> ManagedObjectStorage getter \<Rightarrow> ObjectStoragePolicy getter \<Rightarrow> ObjectStorageUser \<Rightarrow> 's
   \<Rightarrow> err option \<times> ObjectStorageUser \<times> 's" where
  "ObjectStorageUserAdapter_Create L api getService getPolicy u s =
     (case ObjectStorageUserAdapter_serviceUUID L getService u of
        (Inl e, u1) \<Rightarrow> (Some e, u1, s)
      | (Inr svcUUID, u1) \<Rightarrow>
          (case CreateManagedObjectStorageUser api svcUUID (ObjectStorageUser_ExternalUsername u1) s of
             (Inl e, s1) \<Rightarrow>
               if IsConflict (Some e) then (None, u1, s1)
               else (Some (Wrap ''create object storage user'' e), u1, s1)
           | (Inr created, s1) \<Rightarrow>
               let u2 = u1\<lparr>Status := (Status u1)\<lparr>oust_Username := uou_Username created, oust_ARN := uou_ARN created\<rparr>\<rparr>;
                   (e, s2) = attachDesired L api getPolicy u2 svcUUID s1
               in (e, u2, s2)))"

definition ObjectStorageUserAdapter_Update ::
  "Lib \<Rightarrow> 's ObjectStorageAPI \<Rightarrow> ManagedObjectStorage getter \<Rightarrow> ObjectStoragePolicy getter \<Rightarrow> ObjectStorageUser \<Rightarrow> 's
   \<Rightarrow> err option \<times> ObjectStorageUser \<times> 's" where
  "ObjectStorageUserAdapter_Update L api getService getPolicy u s =
     (case ObjectStorageUserAdapter_serviceUUID L getService u of
        (Inl e, u1) \<Rightarrow> (Some e, u1, s)
      | (Inr svcUUID, u1) \<Rightarrow>
          (case GetManagedObjectStorageUser api svcUUID (ObjectStorageUser_ExternalUsername u1) s of
             (Inl e, s1) \<Rightarrow>
               if IsNotFound (Some e) then (Some ErrPending, u1, s1)
               else (Some (Wrap ''get object storage user'' e), u1, s1)
           | (Inr _, s1) \<Rightarrow>
               (case desiredPolicies L getPolicy u1 of
                  Inl e \<Rightarrow> (Some e, u1, s1)
                | Inr desired \<Rightarrow>
                    (case currentPolicies api svcUUID (ObjectStorageUser_ExternalUsername u1) s1 of
                       (Inl e, s2) \<Rightarrow> (Some e, u1, s2)
                     | (Inr attached, s2) \<Rightarrow>
                         (case attachMissing api svcUUID (ObjectStorageUser_ExternalUsername u1) attached desired s2 of
                            (Some e, s3) \<Rightarrow> (Some e, u1, s3)
                          | (None, s3) \<Rightarrow>
                              let (e, s4) = detachExtra api svcUUID (ObjectStorageUser_ExternalUsername u1) desired attached s3
                              in (e, u1, s4))))))"

definition ObjectStorageUserAdapter_Delete ::
  "Lib \<Rightarrow> 's ObjectStorageAPI \<Rightarrow> ObjectStorageUser \<Rightarrow> 's \<Rightarrow> err option \<times> ObjectStorageUser \<times> 's" where
  "ObjectStorageUserAdapter_Delete L api u s =
     (let svcUUID = oust_ServiceUUID (Status u); username = oust_Username (Status u) in
      if svcUUID = '''' \<or> username = '''' then (None, u, s)
      else case GetManagedObjectStorageUser api svcUUID username s of
        (Inl e, s1) \<Rightarrow>
          if IsNotFound (Some e) then (None, u, s1)
          else (Some (Wrap ''get object storage user'' e), u, s1)
      | (Inr user, s1) \<Rightarrow>
          (case detachAll L api svcUUID username (uou_Policies user) s1 of
             (Some e, s2) \<Rightarrow> (Some e, u, s2)
           | (None, s2) \<Rightarrow>
               (case deleteAccessKeys L api svcUUID username (uou_AccessKeys user) s2 of
                  (Some e, s3) \<Rightarrow> (Some e, u, s3)
                | (None, s3) \<Rightarrow>
                    (case DeleteManagedObjectStorageUser api svcUUID username s3 of
                       (e, s4) \<Rightarrow> (titledOutcome L ''delete object storage user'' e, u, s4)))))"

definition ObjectStorageUserAdapter ::
  "Lib \<Rightarrow> 's ObjectStorageAPI \<Rightarrow> ManagedObjectStorage getter \<Rightarrow> ObjectStoragePolicy getter \<Rightarrow> (ObjectStorageUser, 's) Adapter" where
  "ObjectStorageUserAdapter L api getService getPolicy =
     \<lparr>ad_Observe = ObjectStorageUserAdapter_Observe L api getService getPolicy,
      ad_Create = ObjectStorageUserAdapter_Create L api getService getPolicy,
      ad_Update = ObjectStorageUserAdapter_Update L api getService getPolicy,
      ad_Delete = ObjectStorageUserAdapter_Delete L api\<rparr>"

definition FinalizerObjectStorageUser :: string where
  "FinalizerObjectStorageUser = ''objectstorage.upcloud.polarsquad.com/objectstorageuser''"

text \<open>The reconciler, and the requests that a changed service or policy enqueues.\<close>

definition SetupObjectStorageUserController ::
  "Lib \<Rightarrow> (ObjectStorageUser, 'k) Client \<Rightarrow> 's ObjectStorageAPI \<Rightarrow> ManagedObjectStorage getter \<Rightarrow> ObjectStoragePolicy getter
   \<Rightarrow> (string \<Rightarrow> 'v \<Rightarrow> err + ObjectStorageUser list) \<Rightarrow> Options
   \<Rightarrow> (ObjectStorageUser, 'k \<times> 's) Reconciler \<times> (ManagedObjectStorage \<Rightarrow> 'v \<Rightarrow> NamespacedName list) \<times>
     (ObjectStoragePolicy \<Rightarrow> 'v \<Rightarrow> NamespacedName list)" where
  "SetupObjectStorageUserController L c api getService getPolicy listUsers opts =
     (mkReconciler L ObjectStorageUser_Object c (ObjectStorageUserAdapter L api getService getPolicy)
        FinalizerObjectStorageUser opts,
      \<lambda>x. DependentsOf listUsers Meta (\<lambda>u. [lor_Name (ous_ServiceRef (Spec u))]) (Meta x),
      \<lambda>p. DependentsOf listUsers Meta ObjectStorageUser_PolicyRefNames (Meta p))"

lemma ObjectStorageUserAdapter_sel [simp]:
  "ad_Observe (ObjectStorageUserAdapter L api gs gp) = ObjectStorageUserAdapter_Observe L api gs gp"
  "ad_Create (ObjectStorageUserAdapter L api gs gp) = ObjectStorageUserAdapter_Create L api gs gp"
  "ad_Update (ObjectStorageUserAdapter L api gs gp) = ObjectStorageUserAdapter_Update L api gs gp"
  "ad_Delete (ObjectStorageUserAdapter L api gs gp) = ObjectStorageUserAdapter_Delete L api"
  by (simp_all add: ObjectStorageUserAdapter_def)

subsection \<open>The desired policies\<close>

lemma equalStringSlices_eq [simp]: "equalStringSlices a b \<longleftrightarrow> a = b"
  by (simp add: equalStringSlices_def list_all_iff Ball_def list_eq_iff_nth_eq [of a b])

lemma gm_put_keys: "set (map fst (gm_put k v m)) = insert k (set (map fst m))"
  by (induction m) auto

lemma fold_put_keys:
  "gm_wf m \<Longrightarrow> gm_wf (fold (\<lambda>n. gm_put n True) ns m) \<and>
     set (map fst (fold (\<lambda>n. gm_put n True) ns m)) = set (map fst m) \<union> set ns"
proof (induction ns arbitrary: m)
  case (Cons n ns)
  have "gm_wf (gm_put n True m)" using Cons.prems by (rule gm_wf_put)
  from Cons.IH [OF this] show ?case unfolding gm_put_keys by simp
qed simp

lemma addPolicyRefs_keys:
  "addPolicyRefs L gp ns refs m = Inr m' \<Longrightarrow> gm_wf m \<Longrightarrow> gm_wf m' \<and>
     set (map fst m') = set (map fst m) \<union> {n. \<exists>ref \<in> set refs. policyRefName L gp ns (lor_Name ref) = Inr n}"
proof (induction refs arbitrary: m)
  case (Cons ref refs)
  then obtain n where "policyRefName L gp ns (lor_Name ref) = Inr n" "addPolicyRefs L gp ns refs (gm_put n True m) = Inr m'"
    by (auto split: sum.splits)
  from Cons.IH [OF this(2) gm_wf_put [OF Cons.prems(2)]] this(1) show ?case unfolding gm_put_keys by auto
qed simp

lemma desiredPolicies_spec:
  assumes "desiredPolicies L gp u = Inr ds"
  shows "sorted ds \<and> distinct ds \<and> set ds = set (ous_Policies (Spec u)) \<union>
    {n. \<exists>ref \<in> set (ous_PolicyRefs (Spec u)). policyRefName L gp (om_Namespace (Meta u)) (lor_Name ref) = Inr n}"
proof -
  obtain m where m: "addPolicyRefs L gp (om_Namespace (Meta u)) (ous_PolicyRefs (Spec u))
        (fold (\<lambda>n. gm_put n True) (ous_Policies (Spec u)) []) = Inr m" "ds = sort (map fst m)"
    using assms by (auto simp: desiredPolicies_def split: sum.splits)
  have f: "gm_wf (fold (\<lambda>n. gm_put n True) (ous_Policies (Spec u)) [])"
    "set (map fst (fold (\<lambda>n. gm_put n True) (ous_Policies (Spec u)) [])) = set (ous_Policies (Spec u))"
    using fold_put_keys [of "[]" "ous_Policies (Spec u)"] by auto
  then show ?thesis using addPolicyRefs_keys [OF m(1)] m(2) by auto
qed

lemma desiredPolicies_cong: "Spec u' = Spec u \<Longrightarrow> Meta u' = Meta u \<Longrightarrow> desiredPolicies L gp u' = desiredPolicies L gp u"
  by (simp add: desiredPolicies_def)

lemma osuser_service:
  assumes "ObjectStorageUserAdapter_serviceUUID L gs u = (r, u1)"
  shows "Spec u1 = Spec u" "Meta u1 = Meta u" "oust_Username (Status u1) = oust_Username (Status u)"
    "ObjectStorageUser_ExternalUsername u1 = ObjectStorageUser_ExternalUsername u"
    "desiredPolicies L gp u1 = desiredPolicies L gp u"
    and "r = Inr i \<Longrightarrow> i \<noteq> [] \<and> oust_ServiceUUID (Status u1) = i"
    and "oust_ServiceUUID (Status u) \<noteq> [] \<Longrightarrow> r = Inr (oust_ServiceUUID (Status u)) \<and> u1 = u"
  using assms
  by (auto simp: ObjectStorageUserAdapter_serviceUUID_def ObjectStorageUser_ExternalUsername_def desiredPolicies_def
      split: sum.splits if_splits)

subsection \<open>The loops against the service contract\<close>

definition with_attached :: "string \<Rightarrow> string \<Rightarrow> string set \<Rightarrow> OSView \<Rightarrow> OSView" where
  "with_attached i n A v = v\<lparr>ov_Attached := put2 (ov_Attached v) i n A\<rparr>"

lemma with_attached_simps [simp]:
  "with_attached i n A (with_attached i n B v) = with_attached i n A v"
  "with_attached i n (ov_Attached v i n) v = v" "ov_Attached (with_attached i n A v) i n = A"
  "ov_Users (with_attached i n A v) = ov_Users v" "ov_Keys (with_attached i n A v) = ov_Keys v"
  by (simp_all add: with_attached_def)

context object_storage_service
begin

lemma currentPolicies_spec:
  assumes "inv s" and "currentPolicies api i n s = (r, s')"
  shows "inv s' \<and> view s' = view s \<and>
    (\<forall>ps. r = Inr ps \<longrightarrow> sorted ps \<and> distinct ps \<and> set ps = ov_Attached (view s) i n)"
proof -
  obtain q s1 where g: "GetManagedObjectStorageUserPolicies api i n s = (q, s1)" by fastforce
  show ?thesis
    using attached [OF assms(1) g] assms(2) g by (cases q) (auto simp: currentPolicies_def)
qed

lemma attachMissing_spec:
  "inv s \<Longrightarrow> attachMissing api i n att ds s = (e, s') \<Longrightarrow> inv s' \<and>
    (\<exists>A. view s' = with_attached i n (ov_Attached (view s) i n \<union> A) (view s) \<and> A \<subseteq> set ds - set att \<and>
      (e = None \<longrightarrow> A = set ds - set att))"
proof (induction ds arbitrary: s)
  case Nil
  then show ?case by (auto intro: exI [of _ "{}"])
next
  case (Cons d ds)
  show ?case
  proof (cases "d \<in> set att")
    case True
    then have "attachMissing api i n att ds s = (e, s')" using Cons.prems(2) by (simp add: containsString_def)
    then show ?thesis using Cons.IH [OF Cons.prems(1)] True by (auto simp: insert_Diff_if)
  next
    case False
    obtain ae s1 where a: "AttachManagedObjectStorageUserPolicy api i n d s = (ae, s1)" by fastforce
    note law = attach [OF Cons.prems(1) a]
    show ?thesis
    proof (cases ae)
      case None
      then have "attachMissing api i n att ds s1 = (e, s')" using Cons.prems(2) False a by (simp add: containsString_def)
      moreover have "inv s1" and v: "view s1 = with_attached i n (insert d (ov_Attached (view s) i n)) (view s)"
        using law None by (simp_all add: with_attached_def)
      ultimately obtain A where A: "inv s'" "view s' = with_attached i n (ov_Attached (view s1) i n \<union> A) (view s1)"
        "A \<subseteq> set ds - set att" "e = None \<longrightarrow> A = set ds - set att"
        using Cons.IH by blast
      have "view s' = with_attached i n (ov_Attached (view s) i n \<union> insert d A) (view s)" using A(2) v by simp
      then show ?thesis using A False by (intro conjI exI [of _ "insert d A"]) auto
    next
      case (Some x)
      then show ?thesis
        using Cons.prems(2) False a law by (auto simp: containsString_def intro: exI [of _ "{}"])
    qed
  qed
qed

lemma detachExtra_spec:
  "inv s \<Longrightarrow> detachExtra api i n ds att s = (e, s') \<Longrightarrow> inv s' \<and>
    (\<exists>A. view s' = with_attached i n (ov_Attached (view s) i n - A) (view s) \<and> A \<subseteq> set att - set ds \<and>
      (e = None \<longrightarrow> A = set att - set ds))"
proof (induction att arbitrary: s)
  case Nil
  then show ?case by (auto intro: exI [of _ "{}"])
next
  case (Cons p att)
  show ?case
  proof (cases "p \<in> set ds")
    case True
    then have "detachExtra api i n ds att s = (e, s')" using Cons.prems(2) by (simp add: containsString_def)
    then show ?thesis using Cons.IH [OF Cons.prems(1)] True by (auto simp: insert_Diff_if)
  next
    case False
    obtain de s1 where d: "DetachManagedObjectStorageUserPolicy api i n p s = (de, s1)" by fastforce
    note law = detach [OF Cons.prems(1) d]
    show ?thesis
    proof (cases de)
      case None
      then have "detachExtra api i n ds att s1 = (e, s')" using Cons.prems(2) False d by (simp add: containsString_def)
      moreover have "inv s1" and v: "view s1 = with_attached i n (ov_Attached (view s) i n - {p}) (view s)"
        using law None by (simp_all add: with_attached_def)
      ultimately obtain A where A: "inv s'" "view s' = with_attached i n (ov_Attached (view s1) i n - A) (view s1)"
        "A \<subseteq> set att - set ds" "e = None \<longrightarrow> A = set att - set ds"
        using Cons.IH by blast
      have "ov_Attached (view s) i n - {p} - A = ov_Attached (view s) i n - insert p A" by blast
      then have "view s' = with_attached i n (ov_Attached (view s) i n - insert p A) (view s)" using A(2) v by simp
      then show ?thesis using A False by (intro conjI exI [of _ "insert p A"]) auto
    next
      case (Some x)
      then show ?thesis
        using Cons.prems(2) False d law by (auto simp: containsString_def intro: exI [of _ "{}"])
    qed
  qed
qed

end

text \<open>What Delete may change of the account: one user with its policies and keys.\<close>

definition with_user ::
  "string \<Rightarrow> string \<Rightarrow> string option \<Rightarrow> string set \<Rightarrow> (string \<Rightarrow> string option) \<Rightarrow> OSView \<Rightarrow> OSView" where
  "with_user i n a A K v = v\<lparr>ov_Users := put2 (ov_Users v) i n a, ov_Attached := put2 (ov_Attached v) i n A,
     ov_Keys := put2 (ov_Keys v) i n K\<rparr>"

lemma with_user_simps [simp]:
  "with_user i n a A K (with_user i n b B J v) = with_user i n a A K v"
  "ov_Users (with_user i n a A K v) i n = a" "ov_Attached (with_user i n a A K v) i n = A" "ov_Keys (with_user i n a A K v) i n = K"
  "with_user i n (ov_Users v i n) (ov_Attached v i n) (ov_Keys v i n) v = v"
  by (simp_all add: with_user_def)

context object_storage_service
begin

lemma detachAll_spec:
  "inv s \<Longrightarrow> detachAll L api i n ps s = (e, s') \<Longrightarrow> inv s' \<and>
    (\<exists>A. view s' = with_user i n (ov_Users (view s) i n) A (ov_Keys (view s) i n) (view s) \<and>
      A \<subseteq> ov_Attached (view s) i n \<and> (e = None \<longrightarrow> A = ov_Attached (view s) i n - upo_Name ` set ps))"
proof (induction ps arbitrary: s)
  case Nil
  then show ?case by (auto intro: exI [of _ "ov_Attached (view s) i n"])
next
  case (Cons p ps)
  obtain de s1 where d: "DetachManagedObjectStorageUserPolicy api i n (upo_Name p) s = (de, s1)" by fastforce
  note law = detach [OF Cons.prems(1) d]
  have fr: "inv s1" and "view s1 = with_user i n (ov_Users (view s) i n)
      (if de = None then ov_Attached (view s) i n - {upo_Name p} else ov_Attached (view s) i n) (ov_Keys (view s) i n) (view s)"
    using law by (auto simp: with_user_def split: option.splits)
  note v = this(2)
  have gone: "IsNotFound de \<Longrightarrow> upo_Name p \<notin> ov_Attached (view s) i n" using law by (cases de) auto
  show ?case
  proof (cases "de = None \<or> IsNotFound de")
    case True
    then have "detachAll L api i n ps s1 = (e, s')" using Cons.prems(2) d by (cases de) auto
    from Cons.IH [OF fr this] obtain A where A: "inv s'"
      "view s' = with_user i n (ov_Users (view s) i n) A (ov_Keys (view s) i n) (view s)"
      "A \<subseteq> ov_Attached (view s1) i n" "e = None \<longrightarrow> A = ov_Attached (view s1) i n - upo_Name ` set ps"
      unfolding v by auto
    have "ov_Attached (view s1) i n = ov_Attached (view s) i n - {upo_Name p}" using True gone v by auto
    then show ?thesis using A by (intro conjI exI [of _ A]) auto
  next
    case False
    then have "s' = s1 \<and> e \<noteq> None" using Cons.prems(2) d by (cases de) (auto split: if_splits)
    then show ?thesis using fr v False by (auto intro: exI [of _ "ov_Attached (view s) i n"])
  qed
qed

lemma deleteAccessKeys_spec:
  "inv s \<Longrightarrow> deleteAccessKeys L api i n ks s = (e, s') \<Longrightarrow> inv s' \<and>
    (\<exists>K. view s' = with_user i n (ov_Users (view s) i n) (ov_Attached (view s) i n) K (view s) \<and>
      (e = None \<longrightarrow> dom K = dom (ov_Keys (view s) i n) - uak_AccessKeyID ` set ks))"
proof (induction ks arbitrary: s)
  case Nil
  then show ?case by (auto intro: exI [of _ "ov_Keys (view s) i n"])
next
  case (Cons k ks)
  obtain de s1 where d: "DeleteManagedObjectStorageUserAccessKey api i n (uak_AccessKeyID k) s = (de, s1)" by fastforce
  note law = key_delete [OF Cons.prems(1) d]
  have fr: "inv s1" and "view s1 = with_user i n (ov_Users (view s) i n) (ov_Attached (view s) i n)
      (if de = None then (ov_Keys (view s) i n)(uak_AccessKeyID k := None) else ov_Keys (view s) i n) (view s)"
    using law by (auto simp: with_user_def split: option.splits)
  note v = this(2)
  have gone: "IsNotFound de \<Longrightarrow> ov_Keys (view s) i n (uak_AccessKeyID k) = None" using law by (cases de) auto
  show ?case
  proof (cases "de = None \<or> IsNotFound de")
    case True
    then have "deleteAccessKeys L api i n ks s1 = (e, s')" using Cons.prems(2) d by (cases de) auto
    from Cons.IH [OF fr this] obtain K where K: "inv s'"
      "view s' = with_user i n (ov_Users (view s) i n) (ov_Attached (view s) i n) K (view s)"
      "e = None \<longrightarrow> dom K = dom (ov_Keys (view s1) i n) - uak_AccessKeyID ` set ks"
      unfolding v by auto
    have "dom (ov_Keys (view s1) i n) = dom (ov_Keys (view s) i n) - {uak_AccessKeyID k}" using True gone v by auto
    then show ?thesis using K by (intro conjI exI [of _ K]) auto
  next
    case False
    then have "s' = s1 \<and> e \<noteq> None" using Cons.prems(2) d by (cases de) (auto split: if_splits)
    then show ?thesis using fr v False by (auto intro: exI [of _ "ov_Keys (view s) i n"])
  qed
qed

lemma osuser_delete_spec:
  assumes "inv s" and "ObjectStorageUserAdapter_Delete L api u s = (e, u', s')"
    and i: "oust_ServiceUUID (Status u) = i" "i \<noteq> []" and n: "oust_Username (Status u) = n" "n \<noteq> []"
  shows "u' = u \<and> inv s' \<and> (\<exists>a A K. view s' = with_user i n a A K (view s)) \<and>
    (e = None \<longrightarrow> ov_Users (view s') i n = None) \<and> (e \<noteq> None \<longrightarrow> ov_Users (view s') i n = ov_Users (view s) i n)"
proof -
  have id: "\<exists>a A K. view s = with_user i n a A K (view s)" by (metis with_user_simps(5))
  obtain ru s1 where g: "GetManagedObjectStorageUser api i n s = (ru, s1)" by fastforce
  note gl = user_get [OF assms(1) g]
  show ?thesis
  proof (cases ru)
    case (Inl x)
    then show ?thesis using assms g gl id by (auto simp: ObjectStorageUserAdapter_Delete_def split: if_splits)
  next
    case (Inr x)
    have i1: "inv s1" "view s1 = view s" using gl by blast+
    obtain e2 s2 where d: "detachAll L api i n (uou_Policies x) s1 = (e2, s2)" by fastforce
    obtain A where A: "inv s2" "view s2 = with_user i n (ov_Users (view s) i n) A (ov_Keys (view s) i n) (view s)"
      using detachAll_spec [OF i1(1) d] i1(2) by auto
    obtain e3 s3 where k: "deleteAccessKeys L api i n (uou_AccessKeys x) s2 = (e3, s3)" by fastforce
    obtain K where K: "inv s3" "view s3 = with_user i n (ov_Users (view s) i n) A K (view s)"
      using deleteAccessKeys_spec [OF A(1) k] A(2) by auto
    obtain e4 s4 where dl: "DeleteManagedObjectStorageUser api i n s3 = (e4, s4)" by fastforce
    have D: "inv s4" "view s4 = (if e4 = None then with_user i n None {} (\<lambda>_. None) (view s) else view s3)"
      "IsNotFound e4 \<Longrightarrow> ov_Users (view s3) i n = None"
      using user_delete [OF K(1) dl] K(2) by (auto simp: with_user_def split: option.splits)
    show ?thesis
    proof (cases "e2 = None \<and> e3 = None")
      case False
      then show ?thesis
        using assms(2) i n g Inr d k A K
        by (auto simp: ObjectStorageUserAdapter_Delete_def split: option.splits)
    next
      case True
      then have r: "u' = u" "s' = s4" "e = titledOutcome L ''delete object storage user'' e4"
        using assms(2) i n g Inr d k dl by (auto simp: ObjectStorageUserAdapter_Delete_def)
      show ?thesis using r D K(2) by (cases "e4 = None") auto
    qed
  qed
qed

end

context object_storage_service
begin

lemma osuser_update_spec:
  assumes "inv s" and "ObjectStorageUserAdapter_Update L api gs gp u s = (None, u1, s1)"
  shows "\<exists>i ds. desiredPolicies L gp u = Inr ds \<and> i \<noteq> [] \<and> oust_ServiceUUID (Status u1) = i \<and> Spec u1 = Spec u \<and>
    Meta u1 = Meta u \<and> inv s1 \<and> ov_Users (view s) i (ObjectStorageUser_ExternalUsername u) \<noteq> None \<and>
    view s1 = with_attached i (ObjectStorageUser_ExternalUsername u) (set ds) (view s)"
proof -
  let ?n = "ObjectStorageUser_ExternalUsername u"
  obtain q u0 where pr: "ObjectStorageUserAdapter_serviceUUID L gs u = (q, u0)" by fastforce
  note pp = osuser_service [OF pr]
  obtain i where i: "q = Inr i" using assms(2) pr by (cases q) (simp_all add: ObjectStorageUserAdapter_Update_def)
  obtain ru sa where g: "GetManagedObjectStorageUser api i ?n s = (ru, sa)" by fastforce
  note gl = user_get [OF assms(1) g]
  obtain x where x: "ru = Inr x"
    using assms(2) pr pp(4) i g by (cases ru) (auto simp: ObjectStorageUserAdapter_Update_def split: if_splits)
  obtain ds where ds: "desiredPolicies L gp u = Inr ds"
    using assms(2) pr pp(4,5) i g x by (cases "desiredPolicies L gp u") (auto simp: ObjectStorageUserAdapter_Update_def)
  obtain rc sb where c: "currentPolicies api i ?n sa = (rc, sb)" by fastforce
  obtain att where att: "rc = Inr att"
    using assms(2) pr pp(4,5) i g x ds c by (cases rc) (auto simp: ObjectStorageUserAdapter_Update_def)
  have ia: "inv sa" "view sa = view s" using gl by blast+
  note cl = currentPolicies_spec [OF ia(1) c]
  obtain ea sc where a: "attachMissing api i ?n att ds sb = (ea, sc)" by fastforce
  have ea: "ea = None" using assms(2) pr pp(4,5) i g x ds c att a
    by (cases ea) (auto simp: ObjectStorageUserAdapter_Update_def)
  obtain A where A: "inv sc" "view sc = with_attached i ?n (set att \<union> (set ds - set att)) (view s)"
    using attachMissing_spec [OF _ a] cl ia(2) ea att by auto
  have d: "detachExtra api i ?n ds att sc = (None, s1)" and u1: "u1 = u0"
    using assms(2) pr pp(4,5) i g x ds c att a ea by (auto simp: ObjectStorageUserAdapter_Update_def split: prod.splits)
  have "set att \<union> (set ds - set att) - (set att - set ds) = set ds" by blast
  then have "inv s1" "view s1 = with_attached i ?n (set ds) (view s)"
    using detachExtra_spec [OF A(1) d] A(2) by auto
  moreover have "ov_Users (view s) i ?n \<noteq> None" using gl x by simp
  ultimately show ?thesis using ds pp(1,2) pp(6) [OF i] u1 by blast
qed

lemma osuser_observe_spec:
  assumes "inv s" and "ObjectStorageUserAdapter_Observe L api gs gp u s = (Inr obs, u1, s1)"
  shows "inv s1 \<and> view s1 = view s \<and> Meta u1 = Meta u \<and> Spec u1 = Spec u \<and> oust_ServiceUUID (Status u1) \<noteq> [] \<and>
      (oust_ServiceUUID (Status u) \<noteq> [] \<longrightarrow> oust_ServiceUUID (Status u1) = oust_ServiceUUID (Status u)) \<and>
      (ob_Exists obs \<longleftrightarrow> ov_Users (view s) (oust_ServiceUUID (Status u1)) (ObjectStorageUser_ExternalUsername u) \<noteq> None)"
    and "ob_Exists obs \<Longrightarrow> ob_Ready obs \<and> oust_Username (Status u1) = ObjectStorageUser_ExternalUsername u \<and>
      (\<exists>ds. desiredPolicies L gp u = Inr ds \<and> (ob_UpToDate obs \<longleftrightarrow>
        ov_Attached (view s) (oust_ServiceUUID (Status u1)) (ObjectStorageUser_ExternalUsername u) = set ds))"
proof -
  let ?n = "ObjectStorageUser_ExternalUsername u"
  obtain q u0 where pr: "ObjectStorageUserAdapter_serviceUUID L gs u = (q, u0)" by fastforce
  note pp = osuser_service [OF pr]
  obtain i where i: "q = Inr i" using assms(2) pr by (cases q) (simp_all add: ObjectStorageUserAdapter_Observe_def)
  obtain ru sa where g: "GetManagedObjectStorageUser api i ?n s = (ru, sa)" by fastforce
  note gl = user_get [OF assms(1) g]
  have res: "inv s1 \<and> view s1 = view s \<and> Meta u1 = Meta u \<and> Spec u1 = Spec u \<and> oust_ServiceUUID (Status u1) = i \<and>
      (ob_Exists obs \<longleftrightarrow> ov_Users (view s) i ?n \<noteq> None) \<and>
      (ob_Exists obs \<longrightarrow> ob_Ready obs \<and> oust_Username (Status u1) = ?n \<and>
        (\<exists>ds. desiredPolicies L gp u = Inr ds \<and> (ob_UpToDate obs \<longleftrightarrow> ov_Attached (view s) i ?n = set ds)))"
  proof (cases ru)
    case (Inl x)
    then show ?thesis
      using assms(2) pr pp(1,2,4) pp(6) [OF i] i g gl
      by (auto simp: ObjectStorageUserAdapter_Observe_def NoObservation_def split: if_splits)
  next
    case (Inr x)
    have ia: "inv sa" "view sa = view s" and xn: "uou_Username x = ?n" "ov_Users (view s) i ?n \<noteq> None" using gl Inr by auto
    obtain rc sb where c: "currentPolicies api i ?n sa = (rc, sb)" by fastforce
    note cl = currentPolicies_spec [OF ia(1) c]
    obtain att where att: "rc = Inr att"
      using assms(2) pr pp(4) i g Inr c xn by (cases rc) (auto simp: ObjectStorageUserAdapter_Observe_def Let_def)
    have dp: "desiredPolicies L gp (u0\<lparr>Status := st\<rparr>) = desiredPolicies L gp u" for st
      by (rule desiredPolicies_cong) (simp_all add: pp(1,2))
    obtain ds where ds: "desiredPolicies L gp u = Inr ds"
      using assms(2) pr pp(4) i g Inr c att xn dp
      by (cases "desiredPolicies L gp u") (auto simp: ObjectStorageUserAdapter_Observe_def Let_def)
    have "att = ds \<longleftrightarrow> ov_Attached (view s) i ?n = set ds"
      using desiredPolicies_spec [OF ds] cl att ia(2) sorted_distinct_set_unique [of att ds] by auto
    moreover obtain st where out: "u1 = u0\<lparr>Status := st\<rparr>" "oust_ServiceUUID st = oust_ServiceUUID (Status u0)"
      "oust_Username st = ?n" "s1 = sb" "obs = \<lparr>ob_Exists = True, ob_UpToDate = (att = ds), ob_Ready = True,
        ob_Message = ''user '' @ ?n\<rparr>"
      using assms(2) pr pp(4) i g Inr c att xn(1) dp ds by (auto simp: ObjectStorageUserAdapter_Observe_def Let_def)
    moreover have "inv s1 \<and> view s1 = view s" using cl ia(2) out(4) by simp
    ultimately show ?thesis using pp(1,2) pp(6) [OF i] xn(2) ds by simp
  qed
  show "inv s1 \<and> view s1 = view s \<and> Meta u1 = Meta u \<and> Spec u1 = Spec u \<and> oust_ServiceUUID (Status u1) \<noteq> [] \<and>
      (oust_ServiceUUID (Status u) \<noteq> [] \<longrightarrow> oust_ServiceUUID (Status u1) = oust_ServiceUUID (Status u)) \<and>
      (ob_Exists obs \<longleftrightarrow> ov_Users (view s) (oust_ServiceUUID (Status u1)) ?n \<noteq> None)"
    using res pp(6) [OF i] pp(7) i by auto
  show "ob_Exists obs \<Longrightarrow> ob_Ready obs \<and> oust_Username (Status u1) = ?n \<and>
      (\<exists>ds. desiredPolicies L gp u = Inr ds \<and> (ob_UpToDate obs \<longleftrightarrow>
        ov_Attached (view s) (oust_ServiceUUID (Status u1)) ?n = set ds))"
    using res by auto
qed

end

end
