(* ===== verification/ObjectStorageCustomDomainAdapter.thy ===== *)
theory ObjectStorageCustomDomainAdapter
  imports ManagedObjectStorageAdapter
begin

text \<open>
  \<open>internal/controller/objectstorage/objectstoragecustomdomain_adapter.go\<close> and
  \<open>objectstoragecustomdomain_controller.go\<close>, with the constants of \<open>secretkeys.go\<close>.
\<close>

subsection \<open>secretkeys.go\<close>

definition SecretKeyAccessKeyID :: string where "SecretKeyAccessKeyID = ''AWS_ACCESS_KEY_ID''"
definition SecretKeySecretAccessKey :: string where "SecretKeySecretAccessKey = ''AWS_SECRET_ACCESS_KEY''"
definition SecretKeyEndpointURL :: string where "SecretKeyEndpointURL = ''AWS_ENDPOINT_URL''"
definition SecretKeyRegion :: string where "SecretKeyRegion = ''AWS_REGION''"
definition EndpointTypePublic :: string where "EndpointTypePublic = ''public''"

subsection \<open>The adapter\<close>

definition ObjectStorageCustomDomainAdapter_serviceUUID ::
  "Lib \<Rightarrow> ManagedObjectStorage getter \<Rightarrow> ObjectStorageCustomDomain \<Rightarrow> (err + string) \<times> ObjectStorageCustomDomain" where
  "ObjectStorageCustomDomainAdapter_serviceUUID L getService d =
     (if odst_ServiceUUID (Status d) \<noteq> '''' then (Inr (odst_ServiceUUID (Status d)), d)
      else case ReadyID L ManagedObjectStorage_Object getService (om_Namespace (Meta d)) (lor_Name (ods_ServiceRef (Spec d))) of
        Inl e \<Rightarrow> (Inl e, d)
      | Inr i \<Rightarrow> (Inr i, d\<lparr>Status := (Status d)\<lparr>odst_ServiceUUID := i\<rparr>\<rparr>))"

definition desiredDomainType :: "ObjectStorageCustomDomain \<Rightarrow> string" where
  "desiredDomainType d = (if ods_Type (Spec d) \<noteq> '''' then ods_Type (Spec d) else EndpointTypePublic)"

definition ObjectStorageCustomDomainAdapter_Observe ::
  "Lib \<Rightarrow> 's ObjectStorageAPI \<Rightarrow> ManagedObjectStorage getter \<Rightarrow> ObjectStorageCustomDomain \<Rightarrow> 's
   \<Rightarrow> (err + Observation) \<times> ObjectStorageCustomDomain \<times> 's" where
  "ObjectStorageCustomDomainAdapter_Observe L api getService d s =
     (case ObjectStorageCustomDomainAdapter_serviceUUID L getService d of
        (Inl e, d1) \<Rightarrow> (Inl e, d1, s)
      | (Inr svcUUID, d1) \<Rightarrow>
          (case GetManagedObjectStorageCustomDomain api svcUUID (ods_DomainName (Spec d1)) s of
             (Inl e, s1) \<Rightarrow>
               if IsNotFound (Some e) then (Inr NoObservation, d1, s1)
               else (Inl (Wrap ''get object storage custom domain'' e), d1, s1)
           | (Inr domain, s1) \<Rightarrow>
               let d2 = d1\<lparr>Status := (Status d1)\<lparr>odst_DomainName := ucd_DomainName domain, odst_Type := ucd_Type domain\<rparr>\<rparr>
               in (Inr \<lparr>ob_Exists = True, ob_UpToDate = (ucd_Type domain = desiredDomainType d2), ob_Ready = True,
                        ob_Message = ''domain '' @ ucd_DomainName domain\<rparr>, d2, s1)))"

definition ObjectStorageCustomDomainAdapter_Create ::
  "Lib \<Rightarrow> 's ObjectStorageAPI \<Rightarrow> ManagedObjectStorage getter \<Rightarrow> ObjectStorageCustomDomain \<Rightarrow> 's
   \<Rightarrow> err option \<times> ObjectStorageCustomDomain \<times> 's" where
  "ObjectStorageCustomDomainAdapter_Create L api getService d s =
     (case ObjectStorageCustomDomainAdapter_serviceUUID L getService d of
        (Inl e, d1) \<Rightarrow> (Some e, d1, s)
      | (Inr svcUUID, d1) \<Rightarrow>
          (case CreateManagedObjectStorageCustomDomain api svcUUID (ods_DomainName (Spec d1)) (desiredDomainType d1) s of
             (Some e, s1) \<Rightarrow>
               if IsConflict (Some e) then (None, d1, s1)
               else (Some (Wrap ''create object storage custom domain'' e), d1, s1)
           | (None, s1) \<Rightarrow>
               (None, d1\<lparr>Status := (Status d1)\<lparr>odst_DomainName := ods_DomainName (Spec d1),
                                               odst_Type := desiredDomainType d1\<rparr>\<rparr>, s1)))"

definition ObjectStorageCustomDomainAdapter_Update ::
  "Lib \<Rightarrow> 's ObjectStorageAPI \<Rightarrow> ManagedObjectStorage getter \<Rightarrow> ObjectStorageCustomDomain \<Rightarrow> 's
   \<Rightarrow> err option \<times> ObjectStorageCustomDomain \<times> 's" where
  "ObjectStorageCustomDomainAdapter_Update L api getService d s =
     (case ObjectStorageCustomDomainAdapter_serviceUUID L getService d of
        (Inl e, d1) \<Rightarrow> (Some e, d1, s)
      | (Inr svcUUID, d1) \<Rightarrow>
          (case GetManagedObjectStorageCustomDomain api svcUUID (ods_DomainName (Spec d1)) s of
             (Inl e, s1) \<Rightarrow>
               if IsNotFound (Some e) then (Some ErrPending, d1, s1)
               else (Some (Wrap ''get object storage custom domain'' e), d1, s1)
           | (Inr _, s1) \<Rightarrow>
               (case ModifyManagedObjectStorageCustomDomain api svcUUID (ods_DomainName (Spec d1)) (desiredDomainType d1) s1 of
                  (Inl e, s2) \<Rightarrow> (Some (Wrap ''modify object storage custom domain'' e), d1, s2)
                | (Inr modified, s2) \<Rightarrow>
                    (None, d1\<lparr>Status := (Status d1)\<lparr>odst_Type := ucd_Type modified\<rparr>\<rparr>, s2))))"

definition ObjectStorageCustomDomainAdapter_Delete ::
  "Lib \<Rightarrow> 's ObjectStorageAPI \<Rightarrow> ObjectStorageCustomDomain \<Rightarrow> 's \<Rightarrow> err option \<times> ObjectStorageCustomDomain \<times> 's" where
  "ObjectStorageCustomDomainAdapter_Delete L api d s =
     (if odst_ServiceUUID (Status d) = '''' \<or> odst_DomainName (Status d) = '''' then (None, d, s)
      else case DeleteManagedObjectStorageCustomDomain api (odst_ServiceUUID (Status d)) (odst_DomainName (Status d)) s of
        (e, s1) \<Rightarrow> (titledOutcome L ''delete object storage custom domain'' e, d, s1))"

definition ObjectStorageCustomDomainAdapter ::
  "Lib \<Rightarrow> 's ObjectStorageAPI \<Rightarrow> ManagedObjectStorage getter \<Rightarrow> (ObjectStorageCustomDomain, 's) Adapter" where
  "ObjectStorageCustomDomainAdapter L api getService =
     \<lparr>ad_Observe = ObjectStorageCustomDomainAdapter_Observe L api getService,
      ad_Create = ObjectStorageCustomDomainAdapter_Create L api getService,
      ad_Update = ObjectStorageCustomDomainAdapter_Update L api getService,
      ad_Delete = ObjectStorageCustomDomainAdapter_Delete L api\<rparr>"

definition FinalizerObjectStorageCustomDomain :: string where
  "FinalizerObjectStorageCustomDomain = ''objectstorage.upcloud.polarsquad.com/objectstoragecustomdomain''"

definition SetupObjectStorageCustomDomainController ::
  "Lib \<Rightarrow> (ObjectStorageCustomDomain, 'k) Client \<Rightarrow> 's ObjectStorageAPI \<Rightarrow> ManagedObjectStorage getter
   \<Rightarrow> (string \<Rightarrow> 'v \<Rightarrow> err + ObjectStorageCustomDomain list) \<Rightarrow> Options
   \<Rightarrow> (ObjectStorageCustomDomain, 'k \<times> 's) Reconciler \<times> (ManagedObjectStorage \<Rightarrow> 'v \<Rightarrow> NamespacedName list)" where
  "SetupObjectStorageCustomDomainController L c api getService listDomains opts =
     (mkReconciler L ObjectStorageCustomDomain_Object c (ObjectStorageCustomDomainAdapter L api getService)
        FinalizerObjectStorageCustomDomain opts,
      \<lambda>x. DependentsOf listDomains Meta (\<lambda>d. [lor_Name (ods_ServiceRef (Spec d))]) (Meta x))"

lemma ObjectStorageCustomDomainAdapter_sel [simp]:
  "ad_Observe (ObjectStorageCustomDomainAdapter L api gs) = ObjectStorageCustomDomainAdapter_Observe L api gs"
  "ad_Create (ObjectStorageCustomDomainAdapter L api gs) = ObjectStorageCustomDomainAdapter_Create L api gs"
  "ad_Update (ObjectStorageCustomDomainAdapter L api gs) = ObjectStorageCustomDomainAdapter_Update L api gs"
  "ad_Delete (ObjectStorageCustomDomainAdapter L api gs) = ObjectStorageCustomDomainAdapter_Delete L api"
  by (simp_all add: ObjectStorageCustomDomainAdapter_def)

subsection \<open>The operations against the service contract\<close>

lemma domain_service:
  assumes "ObjectStorageCustomDomainAdapter_serviceUUID L gs d = (r, d1)"
  shows "Spec d1 = Spec d" "Meta d1 = Meta d" "odst_DomainName (Status d1) = odst_DomainName (Status d)"
    "desiredDomainType d1 = desiredDomainType d"
    and "r = Inr i \<Longrightarrow> i \<noteq> [] \<and> odst_ServiceUUID (Status d1) = i"
    and "odst_ServiceUUID (Status d) \<noteq> [] \<Longrightarrow> r = Inr (odst_ServiceUUID (Status d)) \<and> d1 = d"
  using assms
  by (auto simp: ObjectStorageCustomDomainAdapter_serviceUUID_def desiredDomainType_def split: sum.splits if_splits)

context object_storage_service
begin

lemma domain_observe_spec:
  assumes "inv s" and "ObjectStorageCustomDomainAdapter_Observe L api gs d s = (Inr obs, d1, s1)"
  shows "inv s1 \<and> view s1 = view s \<and> Meta d1 = Meta d \<and> Spec d1 = Spec d"
    and "(ob_Exists obs \<longleftrightarrow> ov_Domains (view s) (odst_ServiceUUID (Status d1)) (ods_DomainName (Spec d)) \<noteq> None) \<and>
      (odst_ServiceUUID (Status d) \<noteq> [] \<longrightarrow> odst_ServiceUUID (Status d1) = odst_ServiceUUID (Status d)) \<and>
      (ob_UpToDate obs \<longleftrightarrow> (\<exists>x. ov_Domains (view s) (odst_ServiceUUID (Status d1)) (ods_DomainName (Spec d)) = Some x \<and>
        ucd_Type x = desiredDomainType d))"
proof -
  obtain q d0 where pr: "ObjectStorageCustomDomainAdapter_serviceUUID L gs d = (q, d0)" by fastforce
  note pp = domain_service [OF pr]
  obtain ro s' where g: "GetManagedObjectStorageCustomDomain api (projr q) (ods_DomainName (Spec d)) s = (ro, s')" by fastforce
  have ty: "desiredDomainType (d0\<lparr>Status := st\<rparr>) = desiredDomainType d" for st
    using pp(1) by (simp add: desiredDomainType_def)
  show "inv s1 \<and> view s1 = view s \<and> Meta d1 = Meta d \<and> Spec d1 = Spec d"
    using assms pr pp(1,2) g domain_get [OF assms(1) g]
    by (cases q; cases ro) (auto simp: ObjectStorageCustomDomainAdapter_Observe_def Let_def split: if_splits)
  show "(ob_Exists obs \<longleftrightarrow> ov_Domains (view s) (odst_ServiceUUID (Status d1)) (ods_DomainName (Spec d)) \<noteq> None) \<and>
      (odst_ServiceUUID (Status d) \<noteq> [] \<longrightarrow> odst_ServiceUUID (Status d1) = odst_ServiceUUID (Status d)) \<and>
      (ob_UpToDate obs \<longleftrightarrow> (\<exists>x. ov_Domains (view s) (odst_ServiceUUID (Status d1)) (ods_DomainName (Spec d)) = Some x \<and>
        ucd_Type x = desiredDomainType d))"
    using assms pr pp(1,5,6) g domain_get [OF assms(1) g] ty
    by (cases q; cases ro) (auto simp: ObjectStorageCustomDomainAdapter_Observe_def NoObservation_def Let_def split: if_splits)
qed

lemma domain_update_spec:
  assumes "inv s" and "ObjectStorageCustomDomainAdapter_Update L api gs d s = (None, d1, s1)"
  shows "inv s1 \<and> Meta d1 = Meta d \<and> Spec d1 = Spec d \<and> odst_ServiceUUID (Status d1) \<noteq> [] \<and>
    (\<exists>x. ov_Domains (view s) (odst_ServiceUUID (Status d1)) (ods_DomainName (Spec d)) = Some x \<and>
      view s1 = (view s)\<lparr>ov_Domains := put2 (ov_Domains (view s)) (odst_ServiceUUID (Status d1)) (ods_DomainName (Spec d))
        (Some (x\<lparr>ucd_Type := desiredDomainType d\<rparr>))\<rparr>)"
proof -
  obtain q d0 where pr: "ObjectStorageCustomDomainAdapter_serviceUUID L gs d = (q, d0)" by fastforce
  note pp = domain_service [OF pr]
  obtain i where i: "q = Inr i" using assms(2) pr
    by (cases q) (simp_all add: ObjectStorageCustomDomainAdapter_Update_def)
  obtain ro sa where g: "GetManagedObjectStorageCustomDomain api i (ods_DomainName (Spec d)) s = (ro, sa)" by fastforce
  note gs = domain_get [OF assms(1) g]
  obtain rm sb where m: "ModifyManagedObjectStorageCustomDomain api i (ods_DomainName (Spec d)) (desiredDomainType d) sa = (rm, sb)"
    by fastforce
  have "inv sa" using gs by blast
  note ms = domain_modify [OF this m]
  show ?thesis
    using assms(2) pr pp i g gs m ms
    by (cases ro; cases rm) (auto simp: ObjectStorageCustomDomainAdapter_Update_def split: if_splits)
qed

lemma domain_create_spec:
  assumes "inv s" and "ObjectStorageCustomDomainAdapter_Create L api gs d s = (e, d1, s1)"
  shows "inv s1 \<and> Meta d1 = Meta d \<and> Spec d1 = Spec d \<and>
    (view s1 = view s \<or> e = None \<and> odst_DomainName (Status d1) = ods_DomainName (Spec d) \<and>
      view s1 = (view s)\<lparr>ov_Domains := put2 (ov_Domains (view s)) (odst_ServiceUUID (Status d1)) (ods_DomainName (Spec d))
        (Some \<lparr>ucd_DomainName = ods_DomainName (Spec d), ucd_Type = desiredDomainType d\<rparr>)\<rparr>)"
proof -
  obtain q d0 where pr: "ObjectStorageCustomDomainAdapter_serviceUUID L gs d = (q, d0)" by fastforce
  note pp = domain_service [OF pr]
  obtain ce s' where c: "CreateManagedObjectStorageCustomDomain api (projr q) (ods_DomainName (Spec d)) (desiredDomainType d) s = (ce, s')"
    by fastforce
  show ?thesis
    using assms pr pp c domain_create [OF assms(1) c]
    by (cases q; cases ce) (auto simp: ObjectStorageCustomDomainAdapter_Create_def split: if_splits)
qed

end

end
