(* ===== verification/ObjectStorageAccessKeyAdapter.thy ===== *)
theory ObjectStorageAccessKeyAdapter
  imports K8sSecret ObjectStorageCustomDomainAdapter
begin

text \<open>
  \<open>internal/controller/objectstorage/objectstorageaccesskey_adapter.go\<close> and
  \<open>objectstorageaccesskey_controller.go\<close>. The world is a pair: the cluster's Secrets and
  the object storage service. The struct's \<open>Client\<close> is split into the Secret client \<open>sc\<close>
  and \<open>getUser\<close>, which loads ObjectStorageUser objects.
\<close>

subsection \<open>Helpers\<close>

definition setCreatedAt :: "Time \<Rightarrow> ObjectStorageAccessKey \<Rightarrow> ObjectStorageAccessKey" where
  "setCreatedAt t k = (if \<not> Time_IsZero t then k\<lparr>Status := (Status k)\<lparr>oast_CreatedAt := Time_Format t\<rparr>\<rparr> else k)"

definition desiredKeyStatus :: "ObjectStorageAccessKey \<Rightarrow> string" where
  "desiredKeyStatus k = (if oas_Status (Spec k) \<noteq> '''' then oas_Status (Spec k) else ''Active'')"

definition ObjectStorageAccessKeyAdapter_parent ::
  "Lib \<Rightarrow> ObjectStorageUser getter \<Rightarrow> ObjectStorageAccessKey \<Rightarrow> (err + string \<times> string) \<times> ObjectStorageAccessKey" where
  "ObjectStorageAccessKeyAdapter_parent L getUser k =
     (let name = lor_Name (oas_UserRef (Spec k)) in
      if oast_ServiceUUID (Status k) \<noteq> '''' \<and> oast_Username (Status k) \<noteq> ''''
      then (Inr (oast_ServiceUUID (Status k), oast_Username (Status k)), k)
      else case getUser (om_Namespace (Meta k)) name of
        Inl e \<Rightarrow> (Inl (WrapText ErrDependencyNotReady (''ObjectStorageUser '' @ fmt_q name @ '' not found'')), k)
      | Inr user \<Rightarrow>
          if GetExternalID ObjectStorageUser_Object user = '''' \<or> \<not> IsReady L ObjectStorageUser_Object user
          then (Inl (WrapText ErrDependencyNotReady (''ObjectStorageUser '' @ fmt_q name @ '' not ready'')), k)
          else (Inr (oust_ServiceUUID (Status user), oust_Username (Status user)),
                k\<lparr>Status := (Status k)\<lparr>oast_ServiceUUID := oust_ServiceUUID (Status user),
                                         oast_Username := oust_Username (Status user)\<rparr>\<rparr>))"

definition publicEndpoint :: "upEndpoint list \<Rightarrow> string" where
  "publicEndpoint es =
     (case find (\<lambda>e. uep_Type e = EndpointTypePublic) es of
        None \<Rightarrow> ''''
      | Some e \<Rightarrow> ''https://'' @ uep_DomainName e)"

definition secretData ::
  "'s ObjectStorageAPI \<Rightarrow> string \<Rightarrow> string \<Rightarrow> string option \<Rightarrow> 's \<Rightarrow> (err + (string, string) gomap) \<times> 's" where
  "secretData api svcUUID accessKeyID secret s =
     (case GetManagedObjectStorage api svcUUID s of
        (Inl e, s1) \<Rightarrow> (Inl (Wrap ''get object storage service'' e), s1)
      | (Inr svc, s1) \<Rightarrow>
          let secretVal = (case secret of None \<Rightarrow> '''' | Some v \<Rightarrow> v) in
          (Inr [(SecretKeyAccessKeyID, accessKeyID), (SecretKeySecretAccessKey, secretVal),
                (SecretKeyEndpointURL, publicEndpoint (uos_Endpoints svc)), (SecretKeyRegion, uos_Region svc)], s1))"

definition deleteKey ::
  "Lib \<Rightarrow> 's ObjectStorageAPI \<Rightarrow> string \<Rightarrow> string \<Rightarrow> string \<Rightarrow> 's \<Rightarrow> err option \<times> 's" where
  "deleteKey L api svcUUID username accessKeyID s =
     (case DeleteManagedObjectStorageUserAccessKey api svcUUID username accessKeyID s of
        (e, s1) \<Rightarrow> (titledOutcome L ''delete object storage access key'' e, s1))"

subsection \<open>The adapter\<close>

definition ObjectStorageAccessKeyAdapter_Observe ::
  "Lib \<Rightarrow> 's ObjectStorageAPI \<Rightarrow> ObjectStorageUser getter \<Rightarrow> ObjectStorageAccessKey \<Rightarrow> 'k \<times> 's
   \<Rightarrow> (err + Observation) \<times> ObjectStorageAccessKey \<times> 'k \<times> 's" where
  "ObjectStorageAccessKeyAdapter_Observe L api getUser k w =
     (let (kc, s) = w in
      if oast_AccessKeyID (Status k) = '''' then (Inr NoObservation, k, kc, s)
      else case ObjectStorageAccessKeyAdapter_parent L getUser k of
        (Inl e, k1) \<Rightarrow> (Inl e, k1, kc, s)
      | (Inr (svcUUID, username), k1) \<Rightarrow>
          (case GetManagedObjectStorageUserAccessKey api svcUUID username (oast_AccessKeyID (Status k1)) s of
             (Inl e, s1) \<Rightarrow>
               if IsNotFound (Some e) then (Inr NoObservation, k1, kc, s1)
               else (Inl (Wrap ''get object storage access key'' e), k1, kc, s1)
           | (Inr key, s1) \<Rightarrow>
               let k2 = setCreatedAt (uak_CreatedAt key) k1
               in (Inr \<lparr>ob_Exists = True, ob_UpToDate = (uak_Status key = desiredKeyStatus k2), ob_Ready = True,
                        ob_Message = ''access key '' @ uak_AccessKeyID key\<rparr>, k2, kc, s1)))"

definition ObjectStorageAccessKeyAdapter_Create ::
  "Lib \<Rightarrow> 's ObjectStorageAPI \<Rightarrow> 'k SecretClient \<Rightarrow> ObjectStorageUser getter \<Rightarrow> ObjectStorageAccessKey \<Rightarrow> 'k \<times> 's
   \<Rightarrow> err option \<times> ObjectStorageAccessKey \<times> 'k \<times> 's" where
  "ObjectStorageAccessKeyAdapter_Create L api sc getUser k w =
     (let (kc, s) = w in
      case ObjectStorageAccessKeyAdapter_parent L getUser k of
        (Inl e, k1) \<Rightarrow> (Some e, k1, kc, s)
      | (Inr (svcUUID, username), k1) \<Rightarrow>
          (case CreateManagedObjectStorageUserAccessKey api svcUUID username s of
             (Inl e, s1) \<Rightarrow> (Some (Wrap ''create object storage access key'' e), k1, kc, s1)
           | (Inr created, s1) \<Rightarrow>
               let k2 = setCreatedAt (uak_CreatedAt created)
                          (k1\<lparr>Status := (Status k1)\<lparr>oast_AccessKeyID := uak_AccessKeyID created\<rparr>\<rparr>) in
               (case secretData api svcUUID (uak_AccessKeyID created) (uak_SecretAccessKey created) s1 of
                  (Inl e, s2) \<Rightarrow>
                    let (_, s3) = deleteKey L api svcUUID username (uak_AccessKeyID created) s2
                    in (Some e, k2, kc, s3)
                | (Inr secret, s2) \<Rightarrow>
                    (case WriteOwnedSecret sc (Meta k2) (ObjectStorageAccessKey_SecretKeyName k2) secret kc of
                       (Some e, kc1) \<Rightarrow>
                         let (_, s3) = deleteKey L api svcUUID username (uak_AccessKeyID created) s2
                         in (Some (Wrap ''write S3 secret'' e),
                             k2\<lparr>Status := (Status k2)\<lparr>oast_AccessKeyID := ''''\<rparr>\<rparr>, kc1, s3)
                     | (None, kc1) \<Rightarrow> (None, k2, kc1, s2)))))"

definition ObjectStorageAccessKeyAdapter_Update ::
  "Lib \<Rightarrow> 's ObjectStorageAPI \<Rightarrow> ObjectStorageUser getter \<Rightarrow> ObjectStorageAccessKey \<Rightarrow> 'k \<times> 's
   \<Rightarrow> err option \<times> ObjectStorageAccessKey \<times> 'k \<times> 's" where
  "ObjectStorageAccessKeyAdapter_Update L api getUser k w =
     (let (kc, s) = w in
      if oast_AccessKeyID (Status k) = '''' then (Some ErrPending, k, kc, s)
      else case ObjectStorageAccessKeyAdapter_parent L getUser k of
        (Inl e, k1) \<Rightarrow> (Some e, k1, kc, s)
      | (Inr (svcUUID, username), k1) \<Rightarrow>
          (case ModifyManagedObjectStorageUserAccessKey api svcUUID username (oast_AccessKeyID (Status k1))
                  (desiredKeyStatus k1) s of
             (Inl e, s1) \<Rightarrow> (Some (Wrap ''modify object storage access key'' e), k1, kc, s1)
           | (Inr _, s1) \<Rightarrow> (None, k1, kc, s1)))"

definition ObjectStorageAccessKeyAdapter_Delete ::
  "Lib \<Rightarrow> 's ObjectStorageAPI \<Rightarrow> ObjectStorageAccessKey \<Rightarrow> 'k \<times> 's
   \<Rightarrow> err option \<times> ObjectStorageAccessKey \<times> 'k \<times> 's" where
  "ObjectStorageAccessKeyAdapter_Delete L api k w =
     (let (kc, s) = w in
      if oast_AccessKeyID (Status k) = '''' \<or> oast_ServiceUUID (Status k) = '''' \<or> oast_Username (Status k) = ''''
      then (None, k, kc, s)
      else let (e, s1) = deleteKey L api (oast_ServiceUUID (Status k)) (oast_Username (Status k))
                           (oast_AccessKeyID (Status k)) s
           in (e, k, kc, s1))"

definition ObjectStorageAccessKeyAdapter ::
  "Lib \<Rightarrow> 's ObjectStorageAPI \<Rightarrow> 'k SecretClient \<Rightarrow> ObjectStorageUser getter \<Rightarrow> (ObjectStorageAccessKey, 'k \<times> 's) Adapter" where
  "ObjectStorageAccessKeyAdapter L api sc getUser =
     \<lparr>ad_Observe = ObjectStorageAccessKeyAdapter_Observe L api getUser,
      ad_Create = ObjectStorageAccessKeyAdapter_Create L api sc getUser,
      ad_Update = ObjectStorageAccessKeyAdapter_Update L api getUser,
      ad_Delete = ObjectStorageAccessKeyAdapter_Delete L api\<rparr>"

definition FinalizerObjectStorageAccessKey :: string where
  "FinalizerObjectStorageAccessKey = ''objectstorage.upcloud.polarsquad.com/objectstorageaccesskey''"

definition SetupObjectStorageAccessKeyController ::
  "Lib \<Rightarrow> (ObjectStorageAccessKey, 'c) Client \<Rightarrow> 's ObjectStorageAPI \<Rightarrow> 'k SecretClient \<Rightarrow> ObjectStorageUser getter
   \<Rightarrow> (string \<Rightarrow> 'v \<Rightarrow> err + ObjectStorageAccessKey list) \<Rightarrow> Options
   \<Rightarrow> (ObjectStorageAccessKey, 'c \<times> 'k \<times> 's) Reconciler \<times> (ObjectStorageUser \<Rightarrow> 'v \<Rightarrow> NamespacedName list)" where
  "SetupObjectStorageAccessKeyController L c api sc getUser listKeys opts =
     (mkReconciler L ObjectStorageAccessKey_Object c (ObjectStorageAccessKeyAdapter L api sc getUser)
        FinalizerObjectStorageAccessKey opts,
      \<lambda>u. DependentsOf listKeys Meta (\<lambda>k. [lor_Name (oas_UserRef (Spec k))]) (Meta u))"

lemma ObjectStorageAccessKeyAdapter_sel [simp]:
  "ad_Observe (ObjectStorageAccessKeyAdapter L api sc gu) = ObjectStorageAccessKeyAdapter_Observe L api gu"
  "ad_Create (ObjectStorageAccessKeyAdapter L api sc gu) = ObjectStorageAccessKeyAdapter_Create L api sc gu"
  "ad_Update (ObjectStorageAccessKeyAdapter L api sc gu) = ObjectStorageAccessKeyAdapter_Update L api gu"
  "ad_Delete (ObjectStorageAccessKeyAdapter L api sc gu) = ObjectStorageAccessKeyAdapter_Delete L api"
  by (simp_all add: ObjectStorageAccessKeyAdapter_def)

subsection \<open>The operations against the service contract\<close>

lemma setCreatedAt_sel [simp]:
  "Spec (setCreatedAt t k) = Spec k" "Meta (setCreatedAt t k) = Meta k"
  "oast_AccessKeyID (Status (setCreatedAt t k)) = oast_AccessKeyID (Status k)"
  "oast_ServiceUUID (Status (setCreatedAt t k)) = oast_ServiceUUID (Status k)"
  "oast_Username (Status (setCreatedAt t k)) = oast_Username (Status k)"
  by (simp_all add: setCreatedAt_def)

lemma desiredKeyStatus_cong: "Spec k' = Spec k \<Longrightarrow> desiredKeyStatus k' = desiredKeyStatus k"
  by (simp add: desiredKeyStatus_def)

lemma SecretKeyName_cong:
  "Spec k' = Spec k \<Longrightarrow> Meta k' = Meta k \<Longrightarrow> ObjectStorageAccessKey_SecretKeyName k' = ObjectStorageAccessKey_SecretKeyName k"
  by (simp add: ObjectStorageAccessKey_SecretKeyName_def)

lemma key_parent:
  assumes "ObjectStorageAccessKeyAdapter_parent L gu k = (r, k1)"
  shows "Spec k1 = Spec k" "Meta k1 = Meta k" "oast_AccessKeyID (Status k1) = oast_AccessKeyID (Status k)"
    and "r = Inr (i, n) \<Longrightarrow> oast_ServiceUUID (Status k1) = i \<and> oast_Username (Status k1) = n \<and> n \<noteq> []"
    and "oast_ServiceUUID (Status k) \<noteq> [] \<Longrightarrow> oast_Username (Status k) \<noteq> [] \<Longrightarrow>
      r = Inr (oast_ServiceUUID (Status k), oast_Username (Status k)) \<and> k1 = k"
  using assms by (auto simp: ObjectStorageAccessKeyAdapter_parent_def Let_def split: sum.splits if_splits)

definition with_key :: "string \<Rightarrow> string \<Rightarrow> string \<Rightarrow> string option \<Rightarrow> OSView \<Rightarrow> OSView" where
  "with_key i n k x v = v\<lparr>ov_Keys := put2 (ov_Keys v) i n ((ov_Keys v i n)(k := x))\<rparr>"

lemma with_key_simps [simp]:
  "with_key i n k x (with_key i n k y v) = with_key i n k x v" "ov_Keys (with_key i n k x v) i n k = x"
  "ov_Services (with_key i n k x v) = ov_Services v"
  by (simp_all add: with_key_def)

lemma with_key_absent: "ov_Keys v i n k = None \<Longrightarrow> with_key i n k None v = v"
  by (simp add: with_key_def fun_upd_idem)

context object_storage_service
begin

lemma deleteKey_spec:
  assumes "inv s" and "deleteKey L api i n k s = (e, s')"
  shows "inv s'" and "view s' = view s \<or> view s' = with_key i n k None (view s)"
    and "e = None \<Longrightarrow> ov_Keys (view s') i n k = None"
    and "ov_Keys (view s') i n k \<noteq> None \<Longrightarrow>
      \<exists>x. DeleteManagedObjectStorageUserAccessKey api i n k s = (Some x, s') \<and> \<not> IsNotFound (Some x)"
proof -
  obtain de where d: "DeleteManagedObjectStorageUserAccessKey api i n k s = (de, s')"
    "e = titledOutcome L ''delete object storage access key'' de"
    using assms(2) by (auto simp: deleteKey_def split: prod.splits)
  note law = key_delete [OF assms(1) d(1)]
  show "inv s'" using law by blast
  show "view s' = view s \<or> view s' = with_key i n k None (view s)"
    "e = None \<Longrightarrow> ov_Keys (view s') i n k = None"
    "ov_Keys (view s') i n k \<noteq> None \<Longrightarrow>
      \<exists>x. DeleteManagedObjectStorageUserAccessKey api i n k s = (Some x, s') \<and> \<not> IsNotFound (Some x)"
    using law d by (cases de; auto simp: with_key_def)+
qed

lemma secretData_spec:
  assumes "inv s" and "secretData api i k sec s = (r, s')"
  shows "inv s' \<and> view s' = view s"
    and "r = Inr data \<Longrightarrow> \<exists>d. ov_Services (view s) i = Some d \<and> gm_get data SecretKeyAccessKeyID = Some k \<and>
      gm_get data SecretKeySecretAccessKey = Some (case sec of None \<Rightarrow> '''' | Some v \<Rightarrow> v) \<and>
      gm_get data SecretKeyRegion = Some (uos_Region d) \<and>
      gm_get data SecretKeyEndpointURL = Some (publicEndpoint (uos_Endpoints d))"
proof -
  obtain q s1 where g: "GetManagedObjectStorage api i s = (q, s1)" by fastforce
  note g1 = mos_get [OF assms(1) g]
  show "inv s' \<and> view s' = view s" using assms(2) g g1(1) by (cases q) (auto simp: secretData_def Let_def)
  assume "r = Inr data"
  then obtain d where d: "q = Inr d" "data = [(SecretKeyAccessKeyID, k), (SecretKeySecretAccessKey, case sec of None \<Rightarrow> '''' | Some v \<Rightarrow> v),
      (SecretKeyEndpointURL, publicEndpoint (uos_Endpoints d)), (SecretKeyRegion, uos_Region d)]"
    using assms(2) g by (cases q) (auto simp: secretData_def Let_def)
  then show "\<exists>d. ov_Services (view s) i = Some d \<and> gm_get data SecretKeyAccessKeyID = Some k \<and>
      gm_get data SecretKeySecretAccessKey = Some (case sec of None \<Rightarrow> '''' | Some v \<Rightarrow> v) \<and>
      gm_get data SecretKeyRegion = Some (uos_Region d) \<and>
      gm_get data SecretKeyEndpointURL = Some (publicEndpoint (uos_Endpoints d))"
    using g1(2) by (intro exI [of _ "os_core d"])
      (simp add: SecretKeyAccessKeyID_def SecretKeySecretAccessKey_def SecretKeyEndpointURL_def SecretKeyRegion_def)
qed

end

text \<open>
  The outcomes of Create. Delivered: the service answered the create call with a key, that
  key is the one more the account has, Active, and the Secret of the object holds the
  identifier and the secret of that very answer, and the endpoint and region of the
  service. Left over: the new key is still there because the call that was to delete it
  failed.
\<close>

definition key_delivered ::
  "'s ObjectStorageAPI \<Rightarrow> (string \<Rightarrow> string \<Rightarrow> OwnedSecret option) \<Rightarrow> ('s \<Rightarrow> OSView) \<Rightarrow> 's \<Rightarrow> 's
   \<Rightarrow> ObjectStorageAccessKey \<Rightarrow> bool" where
  "key_delivered api sm view s s1 k \<longleftrightarrow>
     (\<exists>i n created x data d sa. oast_ServiceUUID (Status k) = i \<and> oast_Username (Status k) = n \<and> n \<noteq> '''' \<and>
        CreateManagedObjectStorageUserAccessKey api i n s = (Inr created, sa) \<and>
        uak_SecretAccessKey created = Some x \<and> uak_AccessKeyID created \<noteq> '''' \<and>
        oast_AccessKeyID (Status k) = uak_AccessKeyID created \<and> ov_Keys (view s) i n (uak_AccessKeyID created) = None \<and>
        view s1 = with_key i n (uak_AccessKeyID created) (Some KeyActive) (view s) \<and>
        sm (om_Namespace (Meta k)) (ObjectStorageAccessKey_SecretKeyName k)
          = Some \<lparr>sec_Data = data, os_Type = SecretTypeOpaque, os_Controller = Some (om_UID (Meta k))\<rparr> \<and>
        gm_get data SecretKeyAccessKeyID = Some (uak_AccessKeyID created) \<and>
        gm_get data SecretKeySecretAccessKey = Some x \<and>
        ov_Services (view s) i = Some d \<and> gm_get data SecretKeyRegion = Some (uos_Region d) \<and>
        gm_get data SecretKeyEndpointURL = Some (publicEndpoint (uos_Endpoints d)))"

definition key_left_over :: "'s ObjectStorageAPI \<Rightarrow> OSView \<Rightarrow> OSView \<Rightarrow> 's \<Rightarrow> bool" where
  "key_left_over api v v1 s1 \<longleftrightarrow>
     (\<exists>i n kid s x. kid \<noteq> '''' \<and> v1 = with_key i n kid (Some KeyActive) v \<and>
        DeleteManagedObjectStorageUserAccessKey api i n kid s = (Some x, s1) \<and> \<not> IsNotFound (Some x))"

context object_storage_service
begin

lemma new_key:
  assumes "inv s" and "CreateManagedObjectStorageUserAccessKey api i n s = (Inr x, s')"
  shows "inv s'" "uak_AccessKeyID x \<noteq> []" "ov_Keys (view s) i n (uak_AccessKeyID x) = None"
    "view s' = with_key i n (uak_AccessKeyID x) (Some KeyActive) (view s)" "uak_SecretAccessKey x \<noteq> None"
  using key_create [OF assms] by (auto simp: with_key_def)

lemma key_rollback:
  assumes "inv s" and "kid \<noteq> []" and "ov_Keys v i n kid = None" and "view s = with_key i n kid (Some KeyActive) v"
    and "deleteKey L api i n kid s = (e, s')"
  shows "inv s' \<and> (view s' = v \<or> key_left_over api v (view s') s')"
proof (cases "ov_Keys (view s') i n kid")
  case None
  then have "view s' = with_key i n kid None v" using deleteKey_spec(2) [OF assms(1,5)] assms(4) by auto
  then show ?thesis using deleteKey_spec(1) [OF assms(1,5)] assms(3) by (simp add: with_key_absent)
next
  case (Some y)
  then obtain x where "DeleteManagedObjectStorageUserAccessKey api i n kid s = (Some x, s')" "\<not> IsNotFound (Some x)"
    using deleteKey_spec(4) [OF assms(1,5)] by auto
  moreover have "view s' = with_key i n kid (Some KeyActive) v"
    using deleteKey_spec(2) [OF assms(1,5)] Some assms(4) by auto
  ultimately show ?thesis using deleteKey_spec(1) [OF assms(1,5)] assms(2) unfolding key_left_over_def by blast
qed

lemma key_create_spec:
  assumes sec: "secret_client L sc secrets" and "inv s"
    and cr: "ObjectStorageAccessKeyAdapter_Create L api sc gu k (kc, s) = (e, k1, kc1, s1)"
  shows "inv s1 \<and> Meta k1 = Meta k \<and> Spec k1 = Spec k \<and>
    (if e = None then key_delivered api (secrets kc1) view s s1 k1
     else secrets kc1 = secrets kc \<and> (view s1 = view s \<or> key_left_over api (view s) (view s1) s1))"
proof -
  obtain q k0 where pr: "ObjectStorageAccessKeyAdapter_parent L gu k = (q, k0)" by fastforce
  note pp = key_parent [OF pr]
  obtain rk sa where c: "CreateManagedObjectStorageUserAccessKey api (fst (projr q)) (snd (projr q)) s = (rk, sa)" by fastforce
  show ?thesis
  proof (cases "\<exists>i n x. q = Inr (i, n) \<and> rk = Inr x")
    case False
    then show ?thesis
      using cr pr pp(1,2) c \<open>inv s\<close> key_create [OF \<open>inv s\<close> c]
      by (cases q; cases rk) (auto simp: ObjectStorageAccessKeyAdapter_Create_def split: prod.splits)
  next
    case True
    then obtain i n x where i: "q = Inr (i, n)" and x: "rk = Inr x" by blast
    then have c': "CreateManagedObjectStorageUserAccessKey api i n s = (Inr x, sa)" using c by simp
    note new = new_key [OF \<open>inv s\<close> c']
    let ?id = "uak_AccessKeyID x"
    let ?k = "setCreatedAt (uak_CreatedAt x) (k0\<lparr>Status := (Status k0)\<lparr>oast_AccessKeyID := ?id\<rparr>\<rparr>)"
    obtain rd sb where d: "secretData api i ?id (uak_SecretAccessKey x) sa = (rd, sb)" by fastforce
    have sb: "inv sb" "view sb = with_key i n ?id (Some KeyActive) (view s)"
      using secretData_spec(1) [OF new(1) d] new(4) by simp_all
    obtain de sd where dk: "deleteKey L api i n ?id sb = (de, sd)" by fastforce
    note undone = key_rollback [OF sb(1) new(2,3) sb(2) dk]
    show ?thesis
    proof (cases rd)
      case (Inl err)
      then have "e = Some err" "k1 = ?k" "kc1 = kc" "s1 = sd"
        using cr pr i c' d dk by (simp_all add: ObjectStorageAccessKeyAdapter_Create_def)
      then show ?thesis using undone pp(1,2) by simp
    next
      case (Inr data)
      obtain we kw where w: "WriteOwnedSecret sc (Meta ?k) (ObjectStorageAccessKey_SecretKeyName ?k) data kc = (we, kw)"
        by fastforce
      show ?thesis
      proof (cases we)
        case (Some err)
        then have r: "e = Some (Wrap ''write S3 secret'' err)" "k1 = ?k\<lparr>Status := (Status ?k)\<lparr>oast_AccessKeyID := ''''\<rparr>\<rparr>"
          "kc1 = kw" "s1 = sd"
          using cr pr i c' d dk Inr w by (simp_all add: ObjectStorageAccessKeyAdapter_Create_def Let_def)
        then show ?thesis using secret_client.write_failed [OF sec] w Some undone pp(1,2) by simp
      next
        case None
        then have r: "e = None" "k1 = ?k" "kc1 = kw" "s1 = sb"
          using cr pr i c' d Inr w by (simp_all add: ObjectStorageAccessKeyAdapter_Create_def Let_def)
        obtain sec where sec': "uak_SecretAccessKey x = Some sec" using new(5) by blast
        obtain v where v: "ov_Services (view sa) i = Some v" "gm_get data SecretKeyAccessKeyID = Some ?id"
            "gm_get data SecretKeySecretAccessKey = Some sec" "gm_get data SecretKeyRegion = Some (uos_Region v)"
            "gm_get data SecretKeyEndpointURL = Some (publicEndpoint (uos_Endpoints v))"
          using secretData_spec(2) [OF new(1) d Inr] sec' by auto
        have "ov_Services (view s) i = Some v" using v(1) new(4) by simp
        then have "key_delivered api (secrets kw) view s sb ?k"
          unfolding key_delivered_def
          using c' sec' v(2-5) new(2,3) sb(2) pp(4) [OF i] secret_client.write_ok [OF sec w [unfolded None]]
          by (intro exI conjI) (assumption | simp)+
        then show ?thesis using r sb(1) pp(1,2) by simp
      qed
    qed
  qed
qed

lemma key_observe_spec:
  assumes "inv s" and "ObjectStorageAccessKeyAdapter_Observe L api gu k (kc, s) = (Inr obs, k1, kc1, s1)"
    and "oast_ServiceUUID (Status k) = i" and "i \<noteq> []" and "oast_Username (Status k) = n" and "n \<noteq> []"
    and "oast_AccessKeyID (Status k) = kid" and "kid \<noteq> []"
  shows "inv s1 \<and> view s1 = view s \<and> kc1 = kc \<and> (ob_Exists obs \<longleftrightarrow> ov_Keys (view s) i n kid \<noteq> None) \<and>
    (ob_UpToDate obs \<longleftrightarrow> ov_Keys (view s) i n kid = Some (desiredKeyStatus k)) \<and> (ob_Ready obs \<longleftrightarrow> ob_Exists obs)"
proof -
  have pr: "ObjectStorageAccessKeyAdapter_parent L gu k = (Inr (i, n), k)"
    using assms(3-6) by (simp add: ObjectStorageAccessKeyAdapter_parent_def)
  obtain rk s' where g: "GetManagedObjectStorageUserAccessKey api i n kid s = (rk, s')" by fastforce
  have ty: "desiredKeyStatus (setCreatedAt t k) = desiredKeyStatus k" for t by (rule desiredKeyStatus_cong) simp
  show ?thesis
    using assms(2,7,8) pr g key_get [OF assms(1) g] ty
    by (cases rk) (auto simp: ObjectStorageAccessKeyAdapter_Observe_def NoObservation_def Let_def split: if_splits)
qed

lemma key_update_spec:
  assumes "inv s" and "ObjectStorageAccessKeyAdapter_Update L api gu k (kc, s) = (None, k1, kc1, s1)"
    and "oast_ServiceUUID (Status k) = i" and "i \<noteq> []" and "oast_Username (Status k) = n" and "n \<noteq> []"
  shows "inv s1 \<and> k1 = k \<and> kc1 = kc \<and> oast_AccessKeyID (Status k) \<noteq> [] \<and>
    view s1 = with_key i n (oast_AccessKeyID (Status k)) (Some (desiredKeyStatus k)) (view s)"
proof -
  have pr: "ObjectStorageAccessKeyAdapter_parent L gu k = (Inr (i, n), k)"
    using assms(3-6) by (simp add: ObjectStorageAccessKeyAdapter_parent_def)
  obtain rk s' where g: "ModifyManagedObjectStorageUserAccessKey api i n (oast_AccessKeyID (Status k)) (desiredKeyStatus k) s = (rk, s')"
    by fastforce
  have "desiredKeyStatus k \<noteq> []" by (simp add: desiredKeyStatus_def)
  then show ?thesis
    using assms(2) pr g key_modify [OF assms(1) g]
    by (cases rk) (auto simp: ObjectStorageAccessKeyAdapter_Update_def with_key_def split: if_splits)
qed

end

end
