(* ===== verification/ObjectStorageGroup.thy ===== *)
theory ObjectStorageGroup
  imports Passes ObjectStorageBucketAdapter ObjectStoragePolicyAdapter ObjectStorageUserAdapter
    ObjectStorageAccessKeyAdapter
begin

text \<open>
  Properties of the object storage group: the search for a bucket ends, what blocks a
  deletion keeps the object, what Update leaves for the next Observe to see, and how the
  credentials of an access key reach their Secret, or do not.
\<close>

subsection \<open>Demonstration objects\<close>

definition demo_policy :: "string \<Rightarrow> upOSPolicy" where
  "demo_policy n = \<lparr>upo_Name = n, upo_Description = '''', upo_Document = ''{}'', upo_ARN = n, upo_DefaultVersionID = ''v1'',
     upo_System = False\<rparr>"

definition demo_osuser :: upOSUser where
  "demo_osuser = \<lparr>uou_Username = ''net'', uou_ARN = ''arn'', uou_Policies = [demo_policy ''old''], uou_AccessKeys = []\<rparr>"

definition demo_bucket :: upBucket where
  "demo_bucket = \<lparr>ubk_Name = ''net'', ubk_Deleted = False, ubk_TotalObjects = 3, ubk_TotalSizeBytes = 9\<rparr>"

definition demo_mos :: "bool \<Rightarrow> upObjectStorage" where
  "demo_mos tp = \<lparr>uos_UUID = uuid ''moss'' 2, uos_Name = ''old'', uos_Region = ''europe-1'', uos_ConfiguredStatus = ''started'',
     uos_OperationalState = OperationalRunning, uos_TerminationProtection = tp, uos_Labels = [], uos_Networks = [],
     uos_Endpoints = [], uos_CustomDomains = []\<rparr>"

definition demo_storage :: "bool \<Rightarrow> ObjectStorageFake" where
  "demo_storage tp = NewObjectStorageAPI\<lparr>of_seq := 2, of_Services := [(uuid ''moss'' 2, demo_mos tp)],
     of_Users := [(uuid ''moss'' 2, [demo_osuser])],
     of_Policies := [(uuid ''moss'' 2, [demo_policy ''old'', demo_policy ''new''])],
     of_Buckets := [(uuid ''moss'' 2, [demo_bucket])]\<rparr>"

lemma demo_os_rows [simp]:
  "upo_Name (demo_policy n) = n" "uou_Username demo_osuser = ''net''" "uou_Policies demo_osuser = [demo_policy ''old'']"
  "uou_AccessKeys demo_osuser = []" "uou_ARN demo_osuser = ''arn''" "ubk_Name demo_bucket = ''net''" "\<not> ubk_Deleted demo_bucket"
  "ubk_TotalObjects demo_bucket = 3" "uos_UUID (demo_mos tp) = uuid ''moss'' 2" "uos_CustomDomains (demo_mos tp) = []"
  "uos_TerminationProtection (demo_mos tp) = tp" "uos_OperationalState (demo_mos tp) = OperationalRunning"
  "uos_Name (demo_mos tp) = ''old''" "uos_Region (demo_mos tp) = ''europe-1''"
  by (simp_all add: demo_policy_def demo_osuser_def demo_bucket_def demo_mos_def)

lemma demo_storage_sel [simp]:
  "of_Services (demo_storage tp) = [(uuid ''moss'' 2, demo_mos tp)]" "of_FailNext (demo_storage tp) = None"
  "of_StateOverride (demo_storage tp) = []" "of_seq (demo_storage tp) = 2"
  "of_users (demo_storage tp) i = (if i = uuid ''moss'' 2 then [demo_osuser] else [])"
  "of_policies (demo_storage tp) i = (if i = uuid ''moss'' 2 then [demo_policy ''old'', demo_policy ''new''] else [])"
  "of_buckets (demo_storage tp) i = (if i = uuid ''moss'' 2 then [demo_bucket] else [])"
  by (simp_all add: demo_storage_def NewObjectStorageAPI_def of_row_defs)

lemma demo_storage_inv [simp]: "os_inv (demo_storage tp)"
  by (auto simp: os_inv_def fresh_table_def uuid_ids_def user_ok_def intro: exI [of _ 2])

lemma demo_storage_view [simp]:
  "ov_Users (os_view (demo_storage tp)) (uuid ''moss'' 2) ''net'' = Some ''arn''"
  "ov_Attached (os_view (demo_storage tp)) (uuid ''moss'' 2) ''net'' = {''old''}"
  "ov_Keys (os_view (demo_storage tp)) (uuid ''moss'' 2) ''net'' = (\<lambda>_. None)"
  "of_findUser (demo_storage tp) (uuid ''moss'' 2) ''net'' = Some demo_osuser"
  by (simp_all add: os_view_def arnIn_def attachedIn_def keysIn_def of_findUser_def fun_eq_iff)

lemma of_record_quiet: "of_FailNext f = None \<Longrightarrow> of_record n f = (None, of_call n f)"
  by (simp add: of_record_def of_call_def)

subsection \<open>Buckets\<close>

text \<open>
  C19. The search for a bucket ends. Against every service that keeps its contract the loop
  over the pages of the metrics returns after finitely many pages, changes nothing, and
  unless a call failed its result is the bucket of that name that is not deleted, if there
  is one.
\<close>

theorem bucket_search_ends:
  assumes "object_storage_service api I view" and "I s"
  shows "\<exists>r s1. findBucketFrom api i name 1 s = Some (r, s1) \<and> I s1 \<and> view s1 = view s \<and>
    (\<forall>m. r = Inr m \<longrightarrow> m = live (ov_Buckets (view s) i) name)"
  using object_storage_service.findBucketFrom_ends [OF assms, of 1 i name] by simp

theorem bucket_search_ends_witness:
  "\<exists>s1. findBucketFrom (fakeObjectStorageAPI (\<lambda>_. None)) (uuid ''moss'' 2) ''net'' 1 (demo_storage False)
     = Some (Inr (Some demo_bucket), s1)"
proof -
  obtain r s1 where r: "findBucketFrom (fakeObjectStorageAPI (\<lambda>_. None)) (uuid ''moss'' 2) ''net'' 1 (demo_storage False) = Some (r, s1)"
    "\<forall>m. r = Inr m \<longrightarrow> m = live (ov_Buckets (os_view (demo_storage False)) (uuid ''moss'' 2)) ''net''"
    using bucket_search_ends [OF fake_os.object_storage_service_axioms demo_storage_inv] by blast
  have "\<exists>m. r = Inr m"
    using r(1) by (subst (asm) findBucketFrom.simps)
      (auto simp: fake_GetManagedObjectStorageBucketMetrics_def bucketPage_def metricsPage_def bucketPageSize_def
        bucketMatches_def Let_def)
  then show ?thesis using r by (auto simp: live_def)
qed

text \<open>
  A bucket with objects survives the deletion of its object. A deletion pass changes
  nothing in the account and writes nothing but the status of an object that keeps its
  finalizer.
\<close>

theorem bucket_with_objects_stays:
  assumes svc: "object_storage_service api I view" and "I s"
    and b: "obst_ServiceUUID (Status b) = i" "i \<noteq> []" "obst_Name (Status b) \<noteq> []"
    and obj: "live (ov_Buckets (view s) i) (ObjectStorageBucket_ExternalName b) = Some x" "0 < ubk_TotalObjects x"
    and policy: "obs_DeletionPolicy (Spec b) \<noteq> DeletionPolicyOrphan"
    and fin: "hasFinalizer (fst (SetupObjectStorageBucketController L c api gs list opts)) b"
    and pass: "reconcileDelete (defaults (fst (SetupObjectStorageBucketController L c api gs list opts))) b (k, s)
      = (out, k', s')"
  shows "view s' = view s \<and>
    (\<exists>b'. hasFinalizer (fst (SetupObjectStorageBucketController L c api gs list opts)) b' \<and> k' = snd (cl_StatusPatch c b' b k))"
proof -
  let ?r = "fst (SetupObjectStorageBucketController L c api gs list opts)"
  obtain e b1 s1 where d: "ObjectStorageBucketAdapter_Delete L api b s = (e, b1, s1)" by (metis prod_cases3)
  note spec = object_storage_service.bucket_delete_spec [OF svc \<open>I s\<close> d]
  obtain de where de: "DeleteManagedObjectStorageBucket api i (ObjectStorageBucket_ExternalName b) s = (de, s1)"
      "e = None \<longleftrightarrow> IsNotFound de" using spec(3) b by blast
  note law = object_storage_service.bucket_delete [OF svc \<open>I s\<close> de(1)]
  have "view s1 = view s" using law obj by auto
  moreover have "e \<noteq> None" using law obj(1) de(2) by auto
  ultimately obtain y where "ad_Delete (ObjectStorageBucketAdapter L api gs) b s = (Some y, b, s1)"
    using d spec(1) by auto
  note refused = delete_pass_refused [OF objectstoragebucket_object.managed_object_axioms _ _ this]
  show ?thesis
    using refused [where f = FinalizerObjectStorageBucket and L = L and c = c and opts = opts and k = k and out = out and k' = k' and s' = s'] fin policy pass \<open>view s1 = view s\<close>
    unfolding SetupObjectStorageBucketController_def by auto
qed

definition no_dependents :: "string \<Rightarrow> unit \<Rightarrow> err + 'a list" where
  "no_dependents ns w = Inr []"

definition deleted_meta :: "string \<Rightarrow> ObjectMeta" where
  "deleted_meta fin = (demo_meta fin)\<lparr>om_DeletionTimestamp := Some 7\<rparr>"

definition demo_Bucket :: ObjectStorageBucket where
  "demo_Bucket = \<lparr>Meta = deleted_meta FinalizerObjectStorageBucket,
     Spec = \<lparr>obs_ServiceRef = \<lparr>lor_Name = ''svc''\<rparr>, obs_Name = '''', obs_DeletionPolicy = ''Delete''\<rparr>,
     Status = \<lparr>obst_Conditions = [], obst_ServiceUUID = uuid ''moss'' 2, obst_Name = ''net'', obst_TotalObjects = 3,
               obst_TotalSizeBytes = 9\<rparr>\<rparr>"

lemma demo_Bucket_sel [simp]:
  "obst_ServiceUUID (Status demo_Bucket) = uuid ''moss'' 2" "obst_Name (Status demo_Bucket) = ''net''"
  "ObjectStorageBucket_ExternalName demo_Bucket = ''net''" "obs_DeletionPolicy (Spec demo_Bucket) = ''Delete''"
  "hasFinalizer (mkReconciler ref_Lib ObjectStorageBucket_Object c ad FinalizerObjectStorageBucket opts) demo_Bucket"
  by (simp_all add: demo_Bucket_def ObjectStorageBucket_ExternalName_def nameOrMeta_def deleted_meta_def demo_meta_def
      hasFinalizer_def ref_Lib_def)

theorem bucket_with_objects_stays_witness:
  "\<exists>out b1 s1. reconcileDelete (defaults (fst (SetupObjectStorageBucketController ref_Lib demo_client
       (fakeObjectStorageAPI (\<lambda>_. None)) no_objects no_dependents \<lparr>opt_SteadyRequeue = 0\<rparr>))) demo_Bucket
       (demo_Bucket, demo_storage False) = (out, b1, s1) \<and> os_view s1 = os_view (demo_storage False)"
proof -
  obtain out b1 s1 where p: "reconcileDelete (defaults (fst (SetupObjectStorageBucketController ref_Lib demo_client
       (fakeObjectStorageAPI (\<lambda>_. None)) no_objects no_dependents \<lparr>opt_SteadyRequeue = 0\<rparr>))) demo_Bucket
       (demo_Bucket, demo_storage False) = (out, b1, s1)"
    by (metis prod.exhaust)
  have "live (ov_Buckets (os_view (demo_storage False)) (uuid ''moss'' 2)) (ObjectStorageBucket_ExternalName demo_Bucket)
      = Some demo_bucket" by (simp add: live_def)
  then have "os_view s1 = os_view (demo_storage False)"
    using bucket_with_objects_stays [OF fake_os.object_storage_service_axioms demo_storage_inv _ _ _ _ _ _ _ p]
    by (simp add: DeletionPolicyOrphan_def SetupObjectStorageBucketController_def)
  then show ?thesis using p by blast
qed

subsection \<open>Policies\<close>

text \<open>
  A policy waits for the users it is attached to. While it is attached to a user, a
  deletion pass over its object changes nothing in the account and keeps the finalizer;
  a pass that removes the policy finds it attached to nobody.
\<close>

theorem policy_waits_for_users:
  assumes svc: "object_storage_service api I view" and "I s"
    and p: "opst_ServiceUUID (Status p) = i" "i \<noteq> []" "opst_Name (Status p) = n" "n \<noteq> []"
    and known: "ov_Policies (view s) i n \<noteq> None"
    and policy: "ops_DeletionPolicy (Spec p) \<noteq> DeletionPolicyOrphan"
    and fin: "hasFinalizer (fst (SetupObjectStoragePolicyController L c api gs list opts)) p"
    and pass: "reconcileDelete (defaults (fst (SetupObjectStoragePolicyController L c api gs list opts))) p (k, s)
      = (out, k', s')"
  shows "view s' = view s \<and> (\<exists>p'. hasFinalizer (fst (SetupObjectStoragePolicyController L c api gs list opts)) p' \<and>
      k' = snd (cl_StatusPatch c p' p k)) \<or>
    (\<forall>u. n \<notin> ov_Attached (view s) i u) \<and> view s' = (view s)\<lparr>ov_Policies := put2 (ov_Policies (view s)) i n None\<rparr>"
proof -
  let ?ad = "ObjectStoragePolicyAdapter L api gs"
  obtain e p1 s1 where d: "ObjectStoragePolicyAdapter_Delete L api p s = (e, p1, s1)" by (metis prod_cases3)
  note spec = object_storage_service.policy_delete_spec [OF svc \<open>I s\<close> d p]
  show ?thesis
  proof (cases e)
    case None
    then have "s' = s1"
      using pass fin policy d spec(1)
      by (auto simp: reconcileDelete_def SetupObjectStoragePolicyController_def hasFinalizer_def releaseObject_def Let_def
          split: prod.splits if_splits)
    then show ?thesis using None spec(2,3) known by auto
  next
    case (Some y)
    then have "ad_Delete ?ad p s = (Some y, p, s1)" using d spec(1) by auto
    note refused = delete_pass_refused [OF objectstoragepolicy_object.managed_object_axioms _ _ this]
    show ?thesis
      using refused [where f = FinalizerObjectStoragePolicy and L = L and c = c and opts = opts and k = k and out = out
          and k' = k' and s' = s'] fin policy pass spec(2) Some
      unfolding SetupObjectStoragePolicyController_def by auto
  qed
qed

definition demo_Policy :: ObjectStoragePolicy where
  "demo_Policy = \<lparr>Meta = deleted_meta FinalizerObjectStoragePolicy,
     Spec = \<lparr>ops_ServiceRef = \<lparr>lor_Name = ''svc''\<rparr>, ops_Name = '''', ops_Description = '''', ops_Document = ''{}'',
             ops_DeletionPolicy = ''Delete''\<rparr>,
     Status = \<lparr>opst_Conditions = [], opst_ServiceUUID = uuid ''moss'' 2, opst_Name = ''old'', opst_ARN = '''',
               opst_DefaultVersionID = ''''\<rparr>\<rparr>"

lemma demo_Policy_sel [simp]:
  "opst_ServiceUUID (Status demo_Policy) = uuid ''moss'' 2" "opst_Name (Status demo_Policy) = ''old''"
  "ops_DeletionPolicy (Spec demo_Policy) = ''Delete''"
  "hasFinalizer (mkReconciler ref_Lib ObjectStoragePolicy_Object c ad FinalizerObjectStoragePolicy opts) demo_Policy"
  by (simp_all add: demo_Policy_def deleted_meta_def demo_meta_def hasFinalizer_def ref_Lib_def)

theorem policy_waits_for_users_witness:
  "\<exists>out p1 s1. reconcileDelete (defaults (fst (SetupObjectStoragePolicyController ref_Lib demo_client
       (fakeObjectStorageAPI (\<lambda>_. None)) no_objects no_dependents \<lparr>opt_SteadyRequeue = 0\<rparr>))) demo_Policy
       (demo_Policy, demo_storage False) = (out, p1, s1) \<and> os_view s1 = os_view (demo_storage False)"
proof -
  obtain out p1 s1 where p: "reconcileDelete (defaults (fst (SetupObjectStoragePolicyController ref_Lib demo_client
       (fakeObjectStorageAPI (\<lambda>_. None)) no_objects no_dependents \<lparr>opt_SteadyRequeue = 0\<rparr>))) demo_Policy
       (demo_Policy, demo_storage False) = (out, p1, s1)"
    by (metis prod.exhaust)
  have "ov_Policies (os_view (demo_storage False)) (uuid ''moss'' 2) ''old'' \<noteq> None" by (simp add: os_view_def of_findPolicy_def)
  then have "os_view s1 = os_view (demo_storage False) \<or> (\<forall>u. ''old'' \<notin> ov_Attached (os_view (demo_storage False)) (uuid ''moss'' 2) u)"
    using policy_waits_for_users [OF fake_os.object_storage_service_axioms demo_storage_inv demo_Policy_sel(1) _ demo_Policy_sel(2)
        _ _ _ _ p] by (simp add: DeletionPolicyOrphan_def SetupObjectStoragePolicyController_def) blast
  moreover have "''old'' \<in> ov_Attached (os_view (demo_storage False)) (uuid ''moss'' 2) ''net''" by simp
  ultimately have "os_view s1 = os_view (demo_storage False)" by blast
  then show ?thesis using p by blast
qed

end
