(* ===== verification/ObjectStorageLifecycle.thy ===== *)
theory ObjectStorageLifecycle
  imports ObjectStorageGroup
begin

text \<open>
  Properties of services and users: what Update leaves for the next Observe to see, what
  keeps a service from being deleted, and what the deletion of a user takes with it.
\<close>

subsection \<open>Services\<close>

definition demo_ManagedObjectStorage :: ManagedObjectStorage where
  "demo_ManagedObjectStorage = \<lparr>Meta = deleted_meta FinalizerManagedObjectStorage,
     Spec = \<lparr>oss_Name = '''', oss_Region = ''europe-1'', oss_ConfiguredStatus = '''', oss_Networks = [],
             oss_TerminationProtection = True, oss_Labels = [], oss_DeletionPolicy = ''Delete''\<rparr>,
     Status = \<lparr>ost_Conditions = [], ost_UUID = uuid ''moss'' 2, ost_OperationalState = '''', ost_Endpoints = []\<rparr>\<rparr>"

text \<open>
  C28. A successful Update of a service repairs everything but its region: the next Observe
  finds the service up to date exactly when its region is the one of the spec, which the
  API cannot change.
\<close>

theorem mos_update_converges_iff:
  assumes svc: "object_storage_service api I view" and "I s" and known: "ost_UUID (Status x) \<noteq> []"
    and up: "ManagedObjectStorageAdapter_Update L api gn x s = (None, x1, s1)"
    and ob: "ManagedObjectStorageAdapter_Observe L api gn x1 s1 = (Inr obs, x2, s2)"
  shows "\<exists>d. ov_Services (view s) (ost_UUID (Status x)) = Some d \<and> ob_Exists obs \<and>
    (ob_UpToDate obs \<longleftrightarrow> uos_Region d = oss_Region (Spec x))"
proof -
  obtain d y where d: "ov_Services (view s) (ost_UUID (Status x)) = Some d"
      "ov_Services (view s1) (ost_UUID (Status x)) = Some y"
      "mos_in_sync L gn x y \<longleftrightarrow> uos_Region d = oss_Region (Spec x)"
    using object_storage_service.mos_update_spec [OF svc \<open>I s\<close> up known] by blast
  have f: "I s1" "x1 = x" using object_storage_service.mos_update_frame [OF svc \<open>I s\<close> up] by simp_all
  show ?thesis
    using object_storage_service.mos_observe_sees [OF svc f(1), of x y] d ob f(2) by blast
qed

lemma demo_ManagedObjectStorage_sel [simp]:
  "ost_UUID (Status demo_ManagedObjectStorage) = uuid ''moss'' 2" "oss_Region (Spec demo_ManagedObjectStorage) = ''europe-1''"
  "oss_TerminationProtection (Spec demo_ManagedObjectStorage)" "oss_DeletionPolicy (Spec demo_ManagedObjectStorage) = ''Delete''"
  "ManagedObjectStorageAdapter_desiredNetworks L gn demo_ManagedObjectStorage = Inr []"
  "hasFinalizer (mkReconciler ref_Lib ManagedObjectStorage_Object c ad FinalizerManagedObjectStorage opts)
     demo_ManagedObjectStorage"
  by (simp_all add: demo_ManagedObjectStorage_def ManagedObjectStorageAdapter_desiredNetworks_def deleted_meta_def
      demo_meta_def hasFinalizer_def ref_Lib_def)

lemma fake_service_read:
  assumes "ov_Services (os_view f) (ost_UUID (Status x)) \<noteq> None" and "ost_UUID (Status x) \<noteq> []"
    and "ManagedObjectStorageAdapter_desiredNetworks L gn x = Inr ns"
  shows "\<exists>obs x' f'. ManagedObjectStorageAdapter_Observe L (fakeObjectStorageAPI p) gn x f = (Inr obs, x', f')"
  using assms
  by (auto simp: ManagedObjectStorageAdapter_Observe_def ManagedObjectStorageAdapter_lookup_def lookupOwned_def getByID_def
      fake_GetManagedObjectStorage_def os_view_def Let_def split: option.splits)

theorem mos_update_converges_iff_witness:
  "\<exists>x1 s1 x2 s2 obs.
     ManagedObjectStorageAdapter_Update ref_Lib (fakeObjectStorageAPI (\<lambda>_. None)) no_objects demo_ManagedObjectStorage
       (demo_storage False) = (None, x1, s1) \<and>
     ManagedObjectStorageAdapter_Observe ref_Lib (fakeObjectStorageAPI (\<lambda>_. None)) no_objects x1 s1 = (Inr obs, x2, s2) \<and>
     ob_UpToDate obs"
proof -
  let ?api = "fakeObjectStorageAPI (\<lambda>_. None)" and ?x = demo_ManagedObjectStorage
  obtain e x1 s1 where up: "ManagedObjectStorageAdapter_Update ref_Lib ?api no_objects ?x (demo_storage False) = (e, x1, s1)"
    by (metis prod_cases3)
  then have e: "e = None" "x1 = ?x"
    by (auto simp: ManagedObjectStorageAdapter_Update_def ManagedObjectStorageAdapter_lookup_def lookupOwned_def getByID_def
        fake_GetManagedObjectStorage_def fake_ModifyManagedObjectStorage_def of_record_quiet Let_def of_copyService_def
        mos_modify_request_def split: if_splits sum.splits prod.splits)
  have there: "ov_Services (os_view (demo_storage False)) (uuid ''moss'' 2) = Some (os_core (demo_mos False))"
    by (simp add: os_view_def)
  then have "ov_Services (os_view s1) (uuid ''moss'' 2) \<noteq> None"
    using object_storage_service.mos_update_frame [OF fake_os.object_storage_service_axioms demo_storage_inv up] by simp
  then obtain obs x2 s2 where ob: "ManagedObjectStorageAdapter_Observe ref_Lib ?api no_objects ?x s1 = (Inr obs, x2, s2)"
    using fake_service_read [of s1 ?x ref_Lib no_objects "[]" "\<lambda>_. None"] by auto
  have "ob_UpToDate obs"
    using mos_update_converges_iff [OF fake_os.object_storage_service_axioms demo_storage_inv _ up [unfolded e] ob] there by simp
  then show ?thesis using up e ob by blast
qed

text \<open>
  C20. A service with buckets or with termination protection survives the deletion of its
  object. The delete request is never forced, so that the service refuses it: a deletion
  pass changes nothing in the account, writes nothing but the status of an object that
  keeps its finalizer, and is retried, after the pending interval or for its error.
\<close>

theorem protected_service_stays:
  assumes svc: "object_storage_service api I view" and "I s"
    and d: "ost_UUID (Status x) = i" "i \<noteq> []" "ov_Services (view s) i = Some d"
    and protected: "ov_Buckets (view s) i \<noteq> [] \<or> uos_TerminationProtection d"
    and policy: "oss_DeletionPolicy (Spec x) \<noteq> DeletionPolicyOrphan"
    and fin: "hasFinalizer (SetupManagedObjectStorageController L c api gn opts) x"
    and pass: "reconcileDelete (defaults (SetupManagedObjectStorageController L c api gn opts)) x (k, s) = (out, k', s')"
  shows "view s' = view s \<and>
    (\<exists>x'. hasFinalizer (SetupManagedObjectStorageController L c api gn opts) x' \<and> k' = snd (cl_StatusPatch c x' x k)) \<and>
    (snd out \<noteq> None \<or> fst out = \<lparr>RequeueAfter = 15 * Second\<rparr>)"
proof -
  obtain e x1 s1 where del: "ManagedObjectStorageAdapter_Delete L api x s = (e, x1, s1)" by (metis prod_cases3)
  note spec = object_storage_service.mos_delete_spec [OF svc \<open>I s\<close> del]
  have v: "view s1 = view s" using spec(4) d protected by blast
  moreover have "e \<noteq> None" using spec(3) [of i] v d by auto
  ultimately obtain y where del: "ad_Delete (ManagedObjectStorageAdapter L api gn) x s = (Some y, x, s1)"
    using del spec(1) by auto
  note refused = delete_pass_refused [OF managedobjectstorage_object.managed_object_axioms _ _ del]
    delete_pass_retried [OF _ _ del]
  show ?thesis
    using refused [where f = FinalizerManagedObjectStorage and L = L and c = c and opts = opts and k = k and out = out
        and k' = k' and s' = s'] fin policy pass v
    unfolding SetupManagedObjectStorageController_def by auto
qed

theorem protected_service_stays_witness:
  "\<exists>out x1 s1. reconcileDelete (defaults (SetupManagedObjectStorageController ref_Lib demo_client
       (fakeObjectStorageAPI (\<lambda>_. None)) no_objects \<lparr>opt_SteadyRequeue = 0\<rparr>)) demo_ManagedObjectStorage
       (demo_ManagedObjectStorage, demo_storage True) = (out, x1, s1) \<and> os_view s1 = os_view (demo_storage True)"
proof -
  obtain out x1 s1 where p: "reconcileDelete (defaults (SetupManagedObjectStorageController ref_Lib demo_client
       (fakeObjectStorageAPI (\<lambda>_. None)) no_objects \<lparr>opt_SteadyRequeue = 0\<rparr>)) demo_ManagedObjectStorage
       (demo_ManagedObjectStorage, demo_storage True) = (out, x1, s1)"
    by (metis prod.exhaust)
  have "ov_Services (os_view (demo_storage True)) (uuid ''moss'' 2) = Some (os_core (demo_mos True))" by (simp add: os_view_def)
  then have "os_view s1 = os_view (demo_storage True)"
    using protected_service_stays [OF fake_os.object_storage_service_axioms demo_storage_inv
        demo_ManagedObjectStorage_sel(1) _ _ _ _ _ p]
    by (simp add: DeletionPolicyOrphan_def SetupManagedObjectStorageController_def)
  then show ?thesis using p by blast
qed

subsection \<open>Users\<close>

text \<open>
  C10. A successful Update of a user leaves exactly the policies of the spec attached: the
  next Observe finds the user Ready and up to date, with the named policies and the
  policies of the references, and nothing else.
\<close>

theorem osuser_update_then_observe:
  assumes svc: "object_storage_service api I view" and "I s"
    and up: "ObjectStorageUserAdapter_Update L api gs gp u s = (None, u1, s1)"
    and ob: "ObjectStorageUserAdapter_Observe L api gs gp u1 s1 = (Inr obs, u2, s2)"
  shows "ob_Exists obs \<and> ob_UpToDate obs \<and> ob_Ready obs \<and>
    ov_Attached (view s2) (oust_ServiceUUID (Status u2)) (ObjectStorageUser_ExternalUsername u) =
      set (ous_Policies (Spec u)) \<union>
      {n. \<exists>ref \<in> set (ous_PolicyRefs (Spec u)). policyRefName L gp (om_Namespace (Meta u)) (lor_Name ref) = Inr n}"
proof -
  let ?n = "ObjectStorageUser_ExternalUsername u"
  obtain i ds where d: "desiredPolicies L gp u = Inr ds" "i \<noteq> []" "oust_ServiceUUID (Status u1) = i"
      "Spec u1 = Spec u" "Meta u1 = Meta u" "I s1" "ov_Users (view s) i ?n \<noteq> None"
      "view s1 = with_attached i ?n (set ds) (view s)"
    using object_storage_service.osuser_update_spec [OF svc \<open>I s\<close> up] by blast
  have n: "ObjectStorageUser_ExternalUsername u1 = ?n" and dp: "desiredPolicies L gp u1 = Inr ds"
    using d(1,4,5) desiredPolicies_cong [of u1 u L gp] by (simp_all add: ObjectStorageUser_ExternalUsername_def)
  note seen = object_storage_service.osuser_observe_spec [OF svc d(6) ob, unfolded n]
  have i2: "oust_ServiceUUID (Status u2) = i" "view s2 = view s1" using seen(1) d(2,3) by simp_all
  have ex: "ob_Exists obs" using seen(1) i2(1) d(7,8) by simp
  have "ob_Ready obs" "ob_UpToDate obs \<longleftrightarrow> ov_Attached (view s1) i ?n = set ds"
    using seen(2) [OF ex] dp i2(1) by auto
  then show ?thesis using ex d(8) i2 desiredPolicies_spec [OF d(1)] by simp
qed

definition demo_StorageUser :: ObjectStorageUser where
  "demo_StorageUser = \<lparr>Meta = deleted_meta FinalizerObjectStorageUser,
     Spec = \<lparr>ous_ServiceRef = \<lparr>lor_Name = ''svc''\<rparr>, ous_Username = '''', ous_Policies = [''new''], ous_PolicyRefs = [],
             ous_DeletionPolicy = ''Delete''\<rparr>,
     Status = \<lparr>oust_Conditions = [], oust_ServiceUUID = uuid ''moss'' 2, oust_Username = ''net'', oust_ARN = '''',
               oust_AttachedPolicies = []\<rparr>\<rparr>"

lemma demo_StorageUser_sel [simp]:
  "oust_ServiceUUID (Status demo_StorageUser) = uuid ''moss'' 2" "oust_Username (Status demo_StorageUser) = ''net''"
  "ObjectStorageUser_ExternalUsername demo_StorageUser = ''net''" "ous_Policies (Spec demo_StorageUser) = [''new'']"
  "ous_PolicyRefs (Spec demo_StorageUser) = []" "desiredPolicies L gp demo_StorageUser = Inr [''new'']"
  "ObjectStorageUserAdapter_serviceUUID L gs demo_StorageUser = (Inr (uuid ''moss'' 2), demo_StorageUser)"
  "ous_DeletionPolicy (Spec demo_StorageUser) = ''Delete''"
  "hasFinalizer (mkReconciler ref_Lib ObjectStorageUser_Object c ad FinalizerObjectStorageUser opts) demo_StorageUser"
  by (simp_all add: demo_StorageUser_def ObjectStorageUser_ExternalUsername_def nameOrMeta_def deleted_meta_def demo_meta_def
      desiredPolicies_def ObjectStorageUserAdapter_serviceUUID_def hasFinalizer_def ref_Lib_def)

lemma demo_StorageUser_desired: "desiredPolicies L gp (demo_StorageUser\<lparr>Status := st\<rparr>) = Inr [''new'']"
  using desiredPolicies_cong [of "demo_StorageUser\<lparr>Status := st\<rparr>" demo_StorageUser L gp] by simp

theorem osuser_update_then_observe_witness:
  "\<exists>s1 u2 s2 obs.
     ObjectStorageUserAdapter_Update ref_Lib (fakeObjectStorageAPI (\<lambda>_. None)) no_objects no_objects demo_StorageUser
       (demo_storage False) = (None, demo_StorageUser, s1) \<and>
     ObjectStorageUserAdapter_Observe ref_Lib (fakeObjectStorageAPI (\<lambda>_. None)) no_objects no_objects demo_StorageUser s1
       = (Inr obs, u2, s2) \<and>
     ov_Attached (os_view s2) (oust_ServiceUUID (Status u2)) ''net'' = {''new''}"
proof -
  have "\<exists>s1 u2 s2 obs. ObjectStorageUserAdapter_Update ref_Lib (fakeObjectStorageAPI (\<lambda>_. None)) no_objects no_objects
       demo_StorageUser (demo_storage False) = (None, demo_StorageUser, s1) \<and>
     ObjectStorageUserAdapter_Observe ref_Lib (fakeObjectStorageAPI (\<lambda>_. None)) no_objects no_objects demo_StorageUser s1
       = (Inr obs, u2, s2)"
    by (simp add: ObjectStorageUserAdapter_Update_def ObjectStorageUserAdapter_Observe_def
        fake_GetManagedObjectStorageUser_def currentPolicies_def
        fake_GetManagedObjectStorageUserPolicies_def fake_AttachManagedObjectStorageUserPolicy_def
        fake_DetachManagedObjectStorageUserPolicy_def of_record_quiet containsString_def demo_storage_def of_find_defs
        of_row_defs of_call_def of_setUser_def of_putUsers_def NewObjectStorageAPI_def Let_def demo_StorageUser_desired)
  then obtain s1 u2 s2 obs where r: "ObjectStorageUserAdapter_Update ref_Lib (fakeObjectStorageAPI (\<lambda>_. None)) no_objects
       no_objects demo_StorageUser (demo_storage False) = (None, demo_StorageUser, s1)"
     "ObjectStorageUserAdapter_Observe ref_Lib (fakeObjectStorageAPI (\<lambda>_. None)) no_objects no_objects demo_StorageUser s1
       = (Inr obs, u2, s2)" by blast
  have "ov_Attached (os_view s2) (oust_ServiceUUID (Status u2)) ''net'' = {''new''}"
    using osuser_update_then_observe [OF fake_os.object_storage_service_axioms demo_storage_inv r] by simp
  then show ?thesis using r by blast
qed

text \<open>
  A deletion pass over a user touches nothing but that user, its policies and its keys.
  Either the user is gone and the object is released, or the user is still there and so is
  the finalizer.
\<close>

theorem osuser_delete_pass:
  assumes svc: "object_storage_service api I view" and "I s"
    and i: "oust_ServiceUUID (Status u) = i" "i \<noteq> []" and n: "oust_Username (Status u) = n" "n \<noteq> []"
    and policy: "ous_DeletionPolicy (Spec u) \<noteq> DeletionPolicyOrphan"
    and r: "r = fst (SetupObjectStorageUserController L c api gs gp list opts)" and fin: "hasFinalizer r u"
    and pass: "reconcileDelete (defaults r) u (k, s) = (out, k', s')"
  shows "(\<exists>a A K. view s' = with_user i n a A K (view s)) \<and>
    (ov_Users (view s') i n = None \<and> k' = snd (cl_Update c (removeFinalizer r u) k) \<or>
     ov_Users (view s') i n = ov_Users (view s) i n \<and> (\<exists>u'. hasFinalizer r u' \<and> k' = snd (cl_StatusPatch c u' u k)))"
proof -
  let ?ad = "ObjectStorageUserAdapter L api gs gp" and ?f = FinalizerObjectStorageUser
  have mk: "r = mkReconciler L ObjectStorageUser_Object c ?ad ?f opts"
    using r by (simp add: SetupObjectStorageUserController_def)
  have pol: "GetDeletionPolicy ObjectStorageUser_Object u \<noteq> DeletionPolicyOrphan" using policy by simp
  obtain e u1 s1 where d: "ObjectStorageUserAdapter_Delete L api u s = (e, u1, s1)" by (metis prod_cases3)
  note spec = object_storage_service.osuser_delete_spec [OF svc \<open>I s\<close> d i n]
  show ?thesis
  proof (cases e)
    case None
    then have "ad_Delete ?ad u s = (None, u, s1)" using d spec by simp
    from delete_pass_released [OF fin [unfolded mk] pol this]
    have "s' = s1 \<and> k' = snd (cl_Update c (removeFinalizer r u) k)" using pass unfolding mk by (auto split: prod.splits)
    then show ?thesis using spec None by auto
  next
    case (Some y)
    then have "ad_Delete ?ad u s = (Some y, u, s1)" using d spec by simp
    from delete_pass_refused [OF objectstorageuser_object.managed_object_axioms fin [unfolded mk] pol this pass [unfolded mk]]
    show ?thesis using spec Some unfolding mk by auto
  qed
qed

lemma with_user_policies: "ov_Policies (with_user i n a A K v) = ov_Policies v"
  by (simp add: with_user_def)

theorem osuser_delete_pass_witness:
  "\<exists>out u1 s1. reconcileDelete (defaults (fst (SetupObjectStorageUserController ref_Lib demo_client
       (fakeObjectStorageAPI (\<lambda>_. None)) no_objects no_objects no_dependents \<lparr>opt_SteadyRequeue = 0\<rparr>))) demo_StorageUser
       (demo_StorageUser, demo_storage False) = (out, u1, s1) \<and>
     ov_Policies (os_view s1) = ov_Policies (os_view (demo_storage False))"
proof -
  obtain out u1 s1 where p: "reconcileDelete (defaults (fst (SetupObjectStorageUserController ref_Lib demo_client
       (fakeObjectStorageAPI (\<lambda>_. None)) no_objects no_objects no_dependents \<lparr>opt_SteadyRequeue = 0\<rparr>))) demo_StorageUser
       (demo_StorageUser, demo_storage False) = (out, u1, s1)"
    by (metis prod.exhaust)
  have "\<exists>a A K. os_view s1 = with_user (uuid ''moss'' 2) ''net'' a A K (os_view (demo_storage False))"
    using osuser_delete_pass [OF fake_os.object_storage_service_axioms demo_storage_inv demo_StorageUser_sel(1) _
        demo_StorageUser_sel(2) _ _ refl _ p]
    by (simp add: DeletionPolicyOrphan_def SetupObjectStorageUserController_def)
  then have "ov_Policies (os_view s1) = ov_Policies (os_view (demo_storage False))" by (metis with_user_policies)
  then show ?thesis using p by blast
qed

end
