(* ===== verification/ObjectStorageRuns.thy ===== *)
theory ObjectStorageRuns
  imports ObjectStorageGroup
begin

text \<open>
  Runs: the states an account reaches by the calls that the adapters make, in any order,
  and what every such state satisfies.
\<close>

subsection \<open>Calls and runs\<close>

datatype OSCall =
    CreateService CreateObjectStorageRequest | GetService string | ListServices | ModifyService ModifyObjectStorageRequest
  | DeleteService DeleteObjectStorageRequest
  | CreateUser string string | GetUser string string | DeleteUser string string
  | AttachPolicy string string string | DetachPolicy string string string | GetUserPolicies string string
  | CreateKey string string | GetKey string string string | ModifyKey string string string string
  | DeleteKey string string string
  | CreatePolicy string CreateOSPolicyRequest | GetPolicy string string | DeletePolicy string string
  | CreateBucket string string | BucketPage string nat | DeleteBucket string string
  | CreateDomain string string string | GetDomain string string | ModifyDomain string string string | DeleteDomain string string

fun perform :: "'s ObjectStorageAPI \<Rightarrow> OSCall \<Rightarrow> 's \<Rightarrow> 's" where
  "perform api (CreateService c) s = snd (CreateManagedObjectStorage api c s)"
| "perform api (GetService u) s = snd (GetManagedObjectStorage api u s)"
| "perform api ListServices s = snd (GetManagedObjectStorages api () s)"
| "perform api (ModifyService m) s = snd (ModifyManagedObjectStorage api m s)"
| "perform api (DeleteService r) s = snd (DeleteManagedObjectStorage api r s)"
| "perform api (CreateUser i n) s = snd (CreateManagedObjectStorageUser api i n s)"
| "perform api (GetUser i n) s = snd (GetManagedObjectStorageUser api i n s)"
| "perform api (DeleteUser i n) s = snd (DeleteManagedObjectStorageUser api i n s)"
| "perform api (AttachPolicy i n p) s = snd (AttachManagedObjectStorageUserPolicy api i n p s)"
| "perform api (DetachPolicy i n p) s = snd (DetachManagedObjectStorageUserPolicy api i n p s)"
| "perform api (GetUserPolicies i n) s = snd (GetManagedObjectStorageUserPolicies api i n s)"
| "perform api (CreateKey i n) s = snd (CreateManagedObjectStorageUserAccessKey api i n s)"
| "perform api (GetKey i n k) s = snd (GetManagedObjectStorageUserAccessKey api i n k s)"
| "perform api (ModifyKey i n k st) s = snd (ModifyManagedObjectStorageUserAccessKey api i n k st s)"
| "perform api (DeleteKey i n k) s = snd (DeleteManagedObjectStorageUserAccessKey api i n k s)"
| "perform api (CreatePolicy i c) s = snd (CreateManagedObjectStoragePolicy api i c s)"
| "perform api (GetPolicy i n) s = snd (GetManagedObjectStoragePolicy api i n s)"
| "perform api (DeletePolicy i n) s = snd (DeleteManagedObjectStoragePolicy api i n s)"
| "perform api (CreateBucket i n) s = snd (CreateManagedObjectStorageBucket api i n s)"
| "perform api (BucketPage i p) s = snd (GetManagedObjectStorageBucketMetrics api i (metricsPage (int (Suc p))) s)"
| "perform api (DeleteBucket i n) s = snd (DeleteManagedObjectStorageBucket api i n s)"
| "perform api (CreateDomain i n t) s = snd (CreateManagedObjectStorageCustomDomain api i n t s)"
| "perform api (GetDomain i n) s = snd (GetManagedObjectStorageCustomDomain api i n s)"
| "perform api (ModifyDomain i n t) s = snd (ModifyManagedObjectStorageCustomDomain api i n t s)"
| "perform api (DeleteDomain i n) s = snd (DeleteManagedObjectStorageCustomDomain api i n s)"

inductive account_run :: "'s ObjectStorageAPI \<Rightarrow> 's \<Rightarrow> 's \<Rightarrow> bool"
  for api s where
  run_start: "account_run api s s"
| run_call: "account_run api s t \<Longrightarrow> account_run api s (perform api q t)"

lemma account_run_calls: "account_run api s (fold (perform api) qs s)"
  by (induction qs rule: rev_induct) (auto intro: account_run.intros)

subsection \<open>What every call keeps\<close>

text \<open>Attached policies exist: what a call other than attach cannot break.\<close>

definition attached_exist :: "OSView \<Rightarrow> bool" where
  "attached_exist v \<longleftrightarrow> (\<forall>i n p. p \<in> ov_Attached v i n \<longrightarrow> ov_Policies v i p \<noteq> None)"

lemma attached_exist_cong:
  "ov_Attached w = ov_Attached v \<Longrightarrow> ov_Policies w = ov_Policies v \<Longrightarrow> attached_exist w = attached_exist v"
  by (simp add: attached_exist_def)

lemma attached_exist_without [simp]: "attached_exist v \<Longrightarrow> attached_exist (without_service u v)"
  by (simp add: attached_exist_def without_service_def)

context object_storage_service
begin

lemma list_frame:
  assumes "inv s"
  shows "inv (snd (GetManagedObjectStorages api () s)) \<and> view (snd (GetManagedObjectStorages api () s)) = view s"
proof -
  obtain r s' where g: "GetManagedObjectStorages api () s = (r, s')" by fastforce
  then have "seen (map os_core) (GetManagedObjectStorages api) () s = (map_sum id (map os_core) r, s')"
    by (cases r) (simp_all add: seen_def)
  then show ?thesis using svc.list_frame [OF assms] same_view g by fastforce
qed

lemma modify_frame:
  assumes "inv s" and "ModifyManagedObjectStorage api m s = (r, s')"
  shows "(view s')\<lparr>ov_Services := \<lambda>_. None\<rparr> = (view s)\<lparr>ov_Services := \<lambda>_. None\<rparr>"
proof -
  have "seen os_core (ModifyManagedObjectStorage api) m s = (map_sum id os_core r, s')"
    using assms(2) by (cases r) (simp_all add: seen_def)
  then show ?thesis using svc.modify_frame [OF assms(1)] by blast
qed

lemma create_frame:
  assumes "inv s" and "CreateManagedObjectStorage api c s = (r, s')"
  shows "(view s')\<lparr>ov_Services := \<lambda>_. None\<rparr> = (view s)\<lparr>ov_Services := \<lambda>_. None\<rparr>"
proof -
  have "seen os_core (CreateManagedObjectStorage api) c s = (map_sum id os_core r, s')"
    using assms(2) by (cases r) (simp_all add: seen_def)
  then show ?thesis using svc.create_frame [OF assms(1)] by blast
qed

lemma services_only:
  assumes "w\<lparr>ov_Services := \<lambda>_. None\<rparr> = v\<lparr>ov_Services := \<lambda>_. None\<rparr>"
  shows "attached_exist w = attached_exist v"
  using assms by (intro attached_exist_cong) (metis OSView.ext_inject OSView.surjective OSView.update_convs(1))+

lemma perform_keeps:
  assumes "inv s" and "attached_exist (view s)"
    and att: "\<And>i n p. q = AttachPolicy i n p \<Longrightarrow> fst (AttachManagedObjectStorageUserPolicy api i n p s) = None \<Longrightarrow>
      ov_Policies (view s) i p \<noteq> None"
  shows "inv (perform api q s) \<and> attached_exist (view (perform api q s))"
proof (cases q)
  case (CreateService c)
  then show ?thesis
    using mos_create(1) [OF assms(1) surjective_pairing] services_only [OF create_frame [OF assms(1) surjective_pairing]] assms(2)
    by simp
next
  case (GetService u)
  then show ?thesis using mos_get(1) [OF assms(1) surjective_pairing, of u] assms(2) by simp
next
  case ListServices
  then show ?thesis using list_frame [OF assms(1)] assms(2) by simp
next
  case (ModifyService m)
  then show ?thesis
    using mos_modify(1) [OF assms(1) surjective_pairing] services_only [OF modify_frame [OF assms(1) surjective_pairing]] assms(2)
    by simp
next
  case (DeleteService r)
  then show ?thesis using svc_delete [OF assms(1) surjective_pairing, of r] assms(2) by auto
next
  case (BucketPage i p)
  then show ?thesis
    using bucket_page [OF assms(1) surjective_pairing, of "\<lparr>page_Size = bucketPageSize, page_Number = int (Suc p)\<rparr>" i] assms(2)
    by (simp add: metricsPage_def bucketPageSize_def)
next
  case (AttachPolicy i n p)
  then show ?thesis
    using attach [OF assms(1) surjective_pairing, of i n p] att [OF AttachPolicy] assms(2)
    by (auto simp: attached_exist_def split: option.splits)
next
  case (DeletePolicy i n)
  then show ?thesis
    using policy_delete [OF assms(1) surjective_pairing, of i n] assms(2) 
    by (auto simp: attached_exist_def split: option.splits)
next
  case (CreateUser i n)
  then show ?thesis
    using user_create [OF assms(1) surjective_pairing, of i n] assms(2)
    by (auto simp: attached_exist_def split: sum.splits option.splits)
next
  case (GetUser i n)
  then show ?thesis
    using user_get [OF assms(1) surjective_pairing, of i n] assms(2)
    by (auto simp: attached_exist_def split: sum.splits option.splits)
next
  case (DeleteUser i n)
  then show ?thesis
    using user_delete [OF assms(1) surjective_pairing, of i n] assms(2)
    by (auto simp: attached_exist_def split: sum.splits option.splits)
next
  case (DetachPolicy i n p)
  then show ?thesis
    using detach [OF assms(1) surjective_pairing, of i n p] assms(2)
    by (auto simp: attached_exist_def split: sum.splits option.splits)
next
  case (GetUserPolicies i n)
  then show ?thesis
    using attached [OF assms(1) surjective_pairing, of i n] assms(2)
    by (auto simp: attached_exist_def split: sum.splits option.splits)
next
  case (CreateKey i n)
  then show ?thesis
    using key_create [OF assms(1) surjective_pairing, of i n] assms(2)
    by (auto simp: attached_exist_def split: sum.splits option.splits)
next
  case (GetKey i n k)
  then show ?thesis
    using key_get [OF assms(1) surjective_pairing, of i n k] assms(2)
    by (auto simp: attached_exist_def split: sum.splits option.splits)
next
  case (ModifyKey i n k st)
  then show ?thesis
    using key_modify [OF assms(1) surjective_pairing, of i n k st] assms(2)
    by (auto simp: attached_exist_def split: sum.splits option.splits)
next
  case (DeleteKey i n k)
  then show ?thesis
    using key_delete [OF assms(1) surjective_pairing, of i n k] assms(2)
    by (auto simp: attached_exist_def split: sum.splits option.splits)
next
  case (CreatePolicy i c)
  then show ?thesis
    using policy_create [OF assms(1) surjective_pairing, of i c] assms(2)
    by (auto simp: attached_exist_def split: sum.splits option.splits)
next
  case (GetPolicy i n)
  then show ?thesis
    using policy_get [OF assms(1) surjective_pairing, of i n] assms(2)
    by (auto simp: attached_exist_def split: sum.splits option.splits)
next
  case (CreateBucket i n)
  then show ?thesis
    using bucket_create [OF assms(1) surjective_pairing, of i n] assms(2)
    by (auto simp: attached_exist_def split: sum.splits option.splits)
next
  case (DeleteBucket i n)
  then show ?thesis
    using bucket_delete [OF assms(1) surjective_pairing, of i n] assms(2)
    by (auto simp: attached_exist_def split: sum.splits option.splits)
next
  case (CreateDomain i n t)
  then show ?thesis
    using domain_create [OF assms(1) surjective_pairing, of i n t] assms(2)
    by (auto simp: attached_exist_def split: sum.splits option.splits)
next
  case (GetDomain i n)
  then show ?thesis
    using domain_get [OF assms(1) surjective_pairing, of i n] assms(2)
    by (auto simp: attached_exist_def split: sum.splits option.splits)
next
  case (ModifyDomain i n t)
  then show ?thesis
    using domain_modify [OF assms(1) surjective_pairing, of i n t] assms(2)
    by (auto simp: attached_exist_def split: sum.splits option.splits)
next
  case (DeleteDomain i n)
  then show ?thesis
    using domain_delete [OF assms(1) surjective_pairing, of i n] assms(2)
    by (auto simp: attached_exist_def split: sum.splits option.splits)
qed

end

subsection \<open>Runs of the in-memory service\<close>

lemma fake_attach_exists:
  "fst (AttachManagedObjectStorageUserPolicy (fakeObjectStorageAPI parse) i n p f) = None \<Longrightarrow> of_findPolicy f i p \<noteq> None"
  by (auto simp: fake_AttachManagedObjectStorageUserPolicy_def of_record_def of_find_defs of_row_defs Let_def
      split: option.splits if_splits)

text \<open>A new service; only the order in which Go ranges over its maps is left open.\<close>

definition new_account :: "(nat \<Rightarrow> nat list) \<Rightarrow> ObjectStorageFake" where
  "new_account ord = NewObjectStorageAPI\<lparr>of_order := ord\<rparr>"

lemma run_keeps:
  assumes "account_run (fakeObjectStorageAPI parse) (new_account ord) f"
  shows "os_inv f \<and> attached_exist (os_view f)"
  using assms
proof (induction rule: account_run.induct)
  case run_start
  then show ?case
    by (auto simp: attached_exist_def new_account_def os_inv_def NewObjectStorageAPI_def os_view_def of_row_defs attachedIn_def)
next
  case (run_call t q)
  then show ?case
    using object_storage_service.perform_keeps [OF fake_os.object_storage_service_axioms] fake_attach_exists by simp
qed

text \<open>
  C23. Every state that a new account reaches is well formed: names are unique among the
  users, the policies and the buckets of a service and among the policies and the keys of
  a user, no two services share an identifier, and a service that does not exist has no
  rows of any kind.
\<close>

theorem account_well_formed:
  assumes "account_run (fakeObjectStorageAPI parse) (new_account ord) f"
  shows "distinct (map uou_Username (of_users f i)) \<and> distinct (map upo_Name (of_policies f i)) \<and>
    distinct (map ubk_Name (of_buckets f i)) \<and>
    (\<forall>u \<in> set (of_users f i). distinct (map upo_Name (uou_Policies u)) \<and> distinct (map uak_AccessKeyID (uou_AccessKeys u))) \<and>
    (\<forall>j svc. gm_get (of_Services f) j = Some svc \<longrightarrow> uos_UUID svc = j) \<and>
    (gm_get (of_Services f) i = None \<longrightarrow> of_users f i = [] \<and> of_policies f i = [] \<and> of_buckets f i = [])"
  using run_keeps [OF assms]
  by (auto simp: os_inv_def user_ok_def fresh_list_def fresh_table_def list_all_iff)

definition demo_calls :: "OSCall list" where
  "demo_calls =
     [CreateService \<lparr>cos_Name = ''a'', cos_Region = ''r'', cos_ConfiguredStatus = ''started'', cos_Networks = [],
        cos_TerminationProtection = False, cos_Labels = []\<rparr>,
      CreateUser (uuid ''moss'' 1) ''bob'',
      CreatePolicy (uuid ''moss'' 1) \<lparr>cop_Name = ''ro'', cop_Description = '''', cop_Document = ''{}''\<rparr>,
      AttachPolicy (uuid ''moss'' 1) ''bob'' ''ro'', CreateKey (uuid ''moss'' 1) ''bob'',
      DeletePolicy (uuid ''moss'' 1) ''ro'']"

theorem account_well_formed_witness:
  "distinct (map uou_Username (of_users (fold (perform (fakeObjectStorageAPI (\<lambda>_. None))) demo_calls (new_account (\<lambda>_. [])))
     (uuid ''moss'' 1)))"
  using account_well_formed [OF account_run_calls, of "\<lambda>_. None" demo_calls "\<lambda>_. []" "uuid ''moss'' 1"] by blast

text \<open>
  C9. Referential integrity: in every state that a new account reaches, a policy attached
  to a user exists in the user's service. Policies in use are never deleted, whatever the
  order of the calls.
\<close>

theorem attached_policies_exist:
  assumes "account_run (fakeObjectStorageAPI parse) (new_account ord) f"
    and "u \<in> set (of_users f i)" and "p \<in> set (uou_Policies u)"
  shows "upo_Name p \<in> upo_Name ` set (of_policies f i)"
proof -
  have keeps: "os_inv f" "attached_exist (os_view f)" using run_keeps [OF assms(1)] by auto
  have "distinct (map uou_Username (of_users f i))" using keeps(1) unfolding os_inv_def by blast
  then have "of_findUser f i (uou_Username u) = Some u" using findBy_in assms(2) by (simp add: of_findUser_def)
  then have "upo_Name p \<in> ov_Attached (os_view f) i (uou_Username u)" using assms(3) by (simp add: os_view_user(2))
  then have "of_findPolicy f i (upo_Name p) \<noteq> None" using keeps(2) by (fastforce simp: attached_exist_def)
  then show ?thesis by (metis findBy_None of_findPolicy_def)
qed

theorem attached_policies_exist_witness:
  "\<exists>u p. u \<in> set (of_users (fold (perform (fakeObjectStorageAPI (\<lambda>_. None))) demo_calls (new_account (\<lambda>_. []))) (uuid ''moss'' 1)) \<and>
     p \<in> set (uou_Policies u) \<and>
     upo_Name p \<in> upo_Name ` set (of_policies (fold (perform (fakeObjectStorageAPI (\<lambda>_. None))) demo_calls (new_account (\<lambda>_. [])))
       (uuid ''moss'' 1))"
proof -
  let ?f = "fold (perform (fakeObjectStorageAPI (\<lambda>_. None))) demo_calls (new_account (\<lambda>_. []))"
  have "\<exists>u \<in> set (of_users ?f (uuid ''moss'' 1)). 0 < length (uou_Policies u)"
    by code_simp
  then obtain u p where "u \<in> set (of_users ?f (uuid ''moss'' 1))" "p \<in> set (uou_Policies u)" by (fastforce simp: neq_Nil_conv)
  then show ?thesis using attached_policies_exist [OF account_run_calls, of u "\<lambda>_. None" demo_calls] by blast
qed

end
