(* ===== verification/ObjectStorageKeys.thy ===== *)
theory ObjectStorageKeys
  imports ObjectStorageGroup
begin

text \<open>
  How the credentials of an access key reach their Secret, or do not.
\<close>

subsection \<open>Access keys\<close>

definition demo_Key :: ObjectStorageAccessKey where
  "demo_Key = \<lparr>Meta = demo_meta FinalizerObjectStorageAccessKey,
     Spec = \<lparr>oas_UserRef = \<lparr>lor_Name = ''bob''\<rparr>, oas_Status = '''', oas_SecretName = '''', oas_DeletionPolicy = ''Delete''\<rparr>,
     Status = \<lparr>oast_Conditions = [], oast_ServiceUUID = uuid ''moss'' 2, oast_Username = ''net'', oast_AccessKeyID = '''',
               oast_CreatedAt = ''''\<rparr>\<rparr>"

lemma demo_Key_sel [simp]:
  "oast_ServiceUUID (Status demo_Key) = uuid ''moss'' 2" "oast_Username (Status demo_Key) = ''net''"
  by (simp_all add: demo_Key_def)

text \<open>
  C18. The outcomes of creating an access key. Create succeeds only with one more key, that
  is Active, and with a Secret of the object that holds the identifier and the secret the
  service answered for that very key, and the endpoint and region of its service. When it fails, no Secret has changed, and the account is as before unless
  the call that was to take the new key back has failed too.
\<close>

theorem key_create_outcomes:
  assumes "secret_client L sc secrets" and "object_storage_service api I view" and "I s"
    and "ObjectStorageAccessKeyAdapter_Create L api sc gu k (kc, s) = (e, k1, kc1, s1)"
  shows "if e = None then key_delivered api (secrets kc1) view s s1 k1
    else secrets kc1 = secrets kc \<and> (view s1 = view s \<or> key_left_over api (view s) (view s1) s1)"
  using object_storage_service.key_create_spec [OF assms(2,1,3,4)] by blast

theorem key_create_outcomes_witness:
  "\<exists>k1 kc1 s1. ObjectStorageAccessKeyAdapter_Create ref_Lib (fakeObjectStorageAPI (\<lambda>_. None)) ref_SecretClient no_objects
       demo_Key ([], demo_storage False) = (None, k1, kc1, s1) \<and>
     key_delivered (fakeObjectStorageAPI (\<lambda>_. None)) (ref_secrets kc1) os_view (demo_storage False) s1 k1"
proof -
  obtain e k1 kc1 s1 where c: "ObjectStorageAccessKeyAdapter_Create ref_Lib (fakeObjectStorageAPI (\<lambda>_. None)) ref_SecretClient
       no_objects demo_Key ([], demo_storage False) = (e, k1, kc1, s1)" by (metis prod_cases4)
  have "case fst (ObjectStorageAccessKeyAdapter_Create ref_Lib (fakeObjectStorageAPI (\<lambda>_. None)) ref_SecretClient
       no_objects demo_Key ([], demo_storage False)) of None \<Rightarrow> True | Some _ \<Rightarrow> False"
    by code_simp
  then have "e = None" unfolding c by (simp split: option.splits)
  then show ?thesis
    using key_create_outcomes [OF ref_secret.secret_client_axioms fake_os.object_storage_service_axioms demo_storage_inv c] c
    by auto
qed

text \<open>
  C29. A secret can be lost for good. When the service cannot be read after a key was made,
  and the call that is to take the key back fails too, Create reports the error but keeps
  the identifier of the key in the status. From then on Observe finds the key and reports
  it as Ready, although no Secret was ever written and the secret cannot be read again.
\<close>

theorem key_secret_lost:
  assumes parent: "oast_ServiceUUID (Status k) = i" "i \<noteq> []" "oast_Username (Status k) = n" "n \<noteq> []"
    and made: "CreateManagedObjectStorageUserAccessKey api i n s = (Inr x, sa)" "uak_AccessKeyID x \<noteq> []"
    and unread: "GetManagedObjectStorage api i sa = (Inl ge, sb)"
    and kept: "DeleteManagedObjectStorageUserAccessKey api i n (uak_AccessKeyID x) sb = (Some de, sc1)"
    and found: "GetManagedObjectStorageUserAccessKey api i n (uak_AccessKeyID x) sc1 = (Inr y, sd)"
  shows "\<exists>e k1 k2 obs. ObjectStorageAccessKeyAdapter_Create L api sc gu k (kc, s) = (Some e, k1, kc, sc1) \<and>
    ObjectStorageAccessKeyAdapter_Observe L api gu k1 (kc, sc1) = (Inr obs, k2, kc, sd) \<and>
    ob_Exists obs \<and> ob_Ready obs \<and> (ob_UpToDate obs \<longleftrightarrow> uak_Status y = desiredKeyStatus k)"
proof -
  have pr: "ObjectStorageAccessKeyAdapter_parent L gu k = (Inr (i, n), k)"
    using parent by (simp add: ObjectStorageAccessKeyAdapter_parent_def)
  let ?k = "setCreatedAt (uak_CreatedAt x) (k\<lparr>Status := (Status k)\<lparr>oast_AccessKeyID := uak_AccessKeyID x\<rparr>\<rparr>)"
  have pr1: "ObjectStorageAccessKeyAdapter_parent L gu ?k = (Inr (i, n), ?k)"
    using parent by (simp add: ObjectStorageAccessKeyAdapter_parent_def)
  have st: "desiredKeyStatus (setCreatedAt t ?k) = desiredKeyStatus k" for t by (rule desiredKeyStatus_cong) simp
  have "ObjectStorageAccessKeyAdapter_Create L api sc gu k (kc, s)
      = (Some (Wrap ''get object storage service'' ge), ?k, kc, sc1)"
    using pr made(1) unread kept
    by (simp add: ObjectStorageAccessKeyAdapter_Create_def secretData_def deleteKey_def Let_def)
  moreover have "ObjectStorageAccessKeyAdapter_Observe L api gu ?k (kc, sc1)
      = (Inr \<lparr>ob_Exists = True, ob_UpToDate = (uak_Status y = desiredKeyStatus k), ob_Ready = True,
              ob_Message = ''access key '' @ uak_AccessKeyID y\<rparr>, setCreatedAt (uak_CreatedAt y) ?k, kc, sd)"
    using pr1 made(2) found st by (simp add: ObjectStorageAccessKeyAdapter_Observe_def Let_def)
  ultimately show ?thesis by (intro exI conjI) (assumption | simp)+
qed

text \<open>The in-memory service at a moment when two of its calls fail with an internal error.\<close>

definition failing_storage :: "ObjectStorageFake ObjectStorageAPI" where
  "failing_storage = (fakeObjectStorageAPI (\<lambda>_. None))
     \<lparr>GetManagedObjectStorage := (\<lambda>_ f. (Inl (Problem 500 ''internal''), f)),
      DeleteManagedObjectStorageUserAccessKey := (\<lambda>_ _ _ f. (Some (Problem 500 ''internal''), f))\<rparr>"

lemma failing_storage_sel [simp]:
  "GetManagedObjectStorage failing_storage i f = (Inl (Problem 500 ''internal''), f)"
  "DeleteManagedObjectStorageUserAccessKey failing_storage i n k f = (Some (Problem 500 ''internal''), f)"
  "CreateManagedObjectStorageUserAccessKey failing_storage = fake_CreateManagedObjectStorageUserAccessKey"
  "GetManagedObjectStorageUserAccessKey failing_storage = fake_GetManagedObjectStorageUserAccessKey"
  by (simp_all add: failing_storage_def fakeObjectStorageAPI_def)

theorem key_secret_lost_witness:
  "\<exists>e k1 k2 s1 s2 obs. ObjectStorageAccessKeyAdapter_Create ref_Lib failing_storage ref_SecretClient no_objects demo_Key
       ([], demo_storage False) = (Some e, k1, [], s1) \<and>
     ObjectStorageAccessKeyAdapter_Observe ref_Lib failing_storage no_objects k1
       ([] :: (string \<times> string, OwnedSecret) gomap, s1) = (Inr obs, k2, [], s2) \<and>
     ob_Ready obs"
proof -
  obtain x sa where made: "fake_CreateManagedObjectStorageUserAccessKey (uuid ''moss'' 2) ''net'' (demo_storage False) = (Inr x, sa)"
    "uak_AccessKeyID x = keyID (Suc (of_seq (of_call ''CreateManagedObjectStorageUserAccessKey'' (demo_storage False))))"
    by (simp add: fake_CreateManagedObjectStorageUserAccessKey_def of_record_quiet Let_def)
  have kid: "uak_AccessKeyID x = keyID 3" using made(2) by (simp add: of_call_def)
  obtain r sd where g: "fake_GetManagedObjectStorageUserAccessKey (uuid ''moss'' 2) ''net'' (keyID 3) sa = (r, sd)" by fastforce
  have "case fst (fake_GetManagedObjectStorageUserAccessKey (uuid ''moss'' 2) ''net'' (keyID 3)
      (snd (fake_CreateManagedObjectStorageUserAccessKey (uuid ''moss'' 2) ''net'' (demo_storage False)))) of
      Inl _ \<Rightarrow> False | Inr _ \<Rightarrow> True" by code_simp
  then obtain y where y: "r = Inr y" unfolding made(1) using g by (auto split: sum.splits)
  have nonempty: "uak_AccessKeyID x \<noteq> []" by (simp add: kid keyID_def)
  have calls: "CreateManagedObjectStorageUserAccessKey failing_storage (uuid ''moss'' 2) ''net'' (demo_storage False) = (Inr x, sa)"
    "GetManagedObjectStorageUserAccessKey failing_storage (uuid ''moss'' 2) ''net'' (uak_AccessKeyID x) sa = (Inr y, sd)"
    using made(1) g y kid by simp_all
  have "uuid ''moss'' 2 \<noteq> []" "''net'' \<noteq> []" by simp_all
  from key_secret_lost [where L = ref_Lib and sc = ref_SecretClient and gu = no_objects and kc = "[]", OF demo_Key_sel(1) this(1) demo_Key_sel(2) this(2) calls(1) nonempty failing_storage_sel(1,2) calls(2)]
  show ?thesis by blast
qed

end
