(* ===== verification/DetachInPlace.thy ===== *)
theory DetachInPlace
  imports ObjectStorageGroup
begin

text \<open>
  The aliasing in the in-memory object storage service. \<open>DetachManagedObjectStorageUserPolicy\<close>
  filters the policies of a user in place, and \<open>GetManagedObjectStorageUser\<close> returns a
  struct whose slice has the same backing array. Here a slice is its length and the array;
  \<open>ObjectStorageFake\<close> has the values, which the first lemma connects.
\<close>

text \<open>
  The loop over \<open>user.Policies\<close> that appends to \<open>user.Policies[:0]\<close>: \<open>i\<close> is the index
  read next, \<open>j\<close> the length of \<open>out\<close>.
\<close>

function compactFrom :: "string \<Rightarrow> nat \<Rightarrow> nat \<Rightarrow> nat \<Rightarrow> upOSPolicy list \<Rightarrow> nat \<times> upOSPolicy list" where
  "compactFrom name n i j arr =
     (if i \<ge> n then (j, arr)
      else if upo_Name (arr ! i) = name then compactFrom name n (Suc i) j arr
      else compactFrom name n (Suc i) (Suc j) (arr[j := arr ! i]))"
  by pat_completeness auto
termination by (relation "measure (\<lambda>(_, n, i, _, _). n - i)") auto

declare compactFrom.simps [simp del]

text \<open>\<open>None\<close> is the answer 404.\<close>

definition detachInPlace :: "string \<Rightarrow> nat \<times> upOSPolicy list \<Rightarrow> (nat \<times> upOSPolicy list) option" where
  "detachInPlace name sl =
     (let (n, arr) = sl; (m, arr1) = compactFrom name n 0 0 arr in
      if m = n then None else Some (m, arr1))"

text \<open>
  The loop of the adapter's \<open>Delete\<close> over the slice that it was given: the length is
  read once, the elements when they are reached.
\<close>

fun detachRange :: "nat \<Rightarrow> nat \<Rightarrow> nat \<times> upOSPolicy list \<Rightarrow> nat \<times> upOSPolicy list" where
  "detachRange i 0 sl = sl"
| "detachRange i (Suc m) sl =
     (case detachInPlace (upo_Name (snd sl ! i)) sl of
        None \<Rightarrow> detachRange (Suc i) m sl
      | Some sl1 \<Rightarrow> detachRange (Suc i) m sl1)"

lemma compactFrom_spec:
  assumes "j \<le> i" and "i \<le> n" and "n \<le> length arr" and "compactFrom name n i j arr = (m, arr1)"
  shows "length arr1 = length arr \<and> m \<le> n \<and>
    take m arr1 = take j arr @ filter (\<lambda>p. upo_Name p \<noteq> name) (drop i (take n arr))"
  using assms
proof (induction name n i j arr arbitrary: m arr1 rule: compactFrom.induct)
  case (1 name n i j arr)
  show ?case
  proof (cases "i \<ge> n")
    case True
    then show ?thesis using "1.prems" by (subst (asm) compactFrom.simps) auto
  next
    case False
    then have split: "drop i (take n arr) = arr ! i # drop (Suc i) (take n arr)"
      using "1.prems"(3) by (subst Cons_nth_drop_Suc [symmetric]) auto
    show ?thesis
    proof (cases "upo_Name (arr ! i) = name")
      case True
      then have "compactFrom name n (Suc i) j arr = (m, arr1)"
        using "1.prems"(4) False by (subst (asm) compactFrom.simps) simp
      from "1.IH"(1) [OF False True _ _ "1.prems"(3) this] show ?thesis using "1.prems"(1) False True split by simp
    next
      case other: False
      let ?a = "arr[j := arr ! i]"
      have "compactFrom name n (Suc i) (Suc j) ?a = (m, arr1)"
        using "1.prems"(4) False other by (subst (asm) compactFrom.simps) simp
      from "1.IH"(2) [OF False other _ _ _ this] "1.prems" False
      have "length arr1 = length arr \<and> m \<le> n \<and>
          take m arr1 = take (Suc j) ?a @ filter (\<lambda>p. upo_Name p \<noteq> name) (drop (Suc i) (take n ?a))" by simp
      moreover have "take (Suc j) ?a = take j arr @ [arr ! i]"
        using "1.prems"(1,3) False by (simp add: take_Suc_conv_app_nth)
      moreover have "drop (Suc i) (take n ?a) = drop (Suc i) (take n arr)"
        using "1.prems"(1) by (simp add: drop_take)
      ultimately show ?thesis using split other by simp
    qed
  qed
qed

text \<open>
  Through the slice the effect is the one of \<open>fake_DetachManagedObjectStorageUserPolicy\<close>:
  it removes the policies of that name, and answers 404 when there is none.
\<close>

lemma detachInPlace_value:
  assumes "n \<le> length arr"
  shows "map_option (\<lambda>(m, arr1). take m arr1) (detachInPlace name (n, arr)) =
    (if list_ex (\<lambda>p. upo_Name p = name) (take n arr)
     then Some (filter (\<lambda>p. upo_Name p \<noteq> name) (take n arr)) else None)"
proof -
  obtain m arr1 where c: "compactFrom name n 0 0 arr = (m, arr1)" by fastforce
  have s: "length arr1 = length arr" "m \<le> n" "take m arr1 = filter (\<lambda>p. upo_Name p \<noteq> name) (take n arr)"
    using compactFrom_spec [OF _ _ assms c] by simp_all
  then have "m = length (filter (\<lambda>p. upo_Name p \<noteq> name) (take n arr))" using assms by (metis length_take min.absorb2 order_trans)
  then have "m = n \<longleftrightarrow> \<not> list_ex (\<lambda>p. upo_Name p = name) (take n arr)"
    using assms length_filter_less [of _ "take n arr" "\<lambda>p. upo_Name p \<noteq> name"]
    by (fastforce simp: list_ex_iff filter_id_conv)
  then show ?thesis using s(3) c by (simp add: detachInPlace_def)
qed

text \<open>
  C36. The adapter's loop over the slice that the service keeps compacting under it skips
  policies: of three attached policies it detaches the first and the third, and the second
  is still attached when the loop ends without an error.
\<close>

theorem detach_range_skips:
  assumes "distinct [upo_Name a, upo_Name b, upo_Name c]"
  shows "\<exists>arr. detachRange 0 3 (3, [a, b, c]) = (1, arr) \<and> take 1 arr = [b]"
proof -
  note step = compactFrom.simps
  have "detachInPlace (upo_Name a) (3, [a, b, c]) = Some (2, [b, c, c])"
    using assms by (auto simp: detachInPlace_def step numeral_3_eq_3)
  moreover have "detachInPlace (upo_Name c) (2, [b, c, c]) = Some (1, [b, c, c])"
    using assms by (auto simp: detachInPlace_def step numeral_2_eq_2)
  moreover have "detachInPlace (upo_Name c) (1, [b, c, c]) = None"
    using assms by (auto simp: detachInPlace_def step)
  ultimately show ?thesis by (simp add: numeral_3_eq_3 numeral_2_eq_2)
qed

theorem detach_range_skips_witness:
  "\<exists>arr. detachRange 0 3 (3, map demo_policy [''a'', ''b'', ''c'']) = (1, arr) \<and> take 1 arr = [demo_policy ''b'']"
  using detach_range_skips [of "demo_policy ''a''" "demo_policy ''b''" "demo_policy ''c''"] by simp

end
