(* ===== verification/LoadBalancerTypes.thy ===== *)
theory LoadBalancerTypes
  imports NetworkTypes
begin

text \<open>
  The kinds of \<open>api/loadbalancer/v1alpha1\<close>: LoadBalancer, LoadBalancerBackend,
  LoadBalancerBackendMember, LoadBalancerBackendTLSConfig, LoadBalancerCertificateBundle,
  LoadBalancerFrontend, LoadBalancerFrontendRule, LoadBalancerFrontendTLSConfig and
  LoadBalancerResolver. Pointers to optional fields are options.
\<close>

subsection \<open>LoadBalancer\<close>

record LoadBalancerNetworkAttachment =
  lna_Name :: string
  lna_Type :: string
  lna_Family :: string
  lna_UUID :: string
  lna_NetworkRef :: "LocalObjectReference option"

record Maintenance =
  lmt_DOW :: string
  lmt_Time :: string

record LBStatusNetwork =
  lsn_Name :: string
  lsn_Type :: string
  lsn_Family :: string
  lsn_DNSName :: string
  lsn_IPAddresses :: "string list"

record LoadBalancerSpec =
  lbs_Name :: string
  lbs_Plan :: string
  lbs_Zone :: string
  lbs_Networks :: "LoadBalancerNetworkAttachment list"
  lbs_ConfiguredStatus :: string
  lbs_Maintenance :: Maintenance
  lbs_Labels :: UpCloudLabels
  lbs_DeletionPolicy :: DeletionPolicy

record LoadBalancerStatus =
  lbst_Conditions :: "Condition list"
  lbst_UUID :: string
  lbst_OperationalState :: string
  lbst_Networks :: "LBStatusNetwork list"
  lbst_Nodes :: nat

type_synonym LoadBalancer = "(LoadBalancerSpec, LoadBalancerStatus) CR"

definition LoadBalancer_Object :: "LoadBalancer Object" where
  "LoadBalancer_Object = crObject lbst_Conditions (\<lambda>cs st. st\<lparr>lbst_Conditions := cs\<rparr>)
     lbs_DeletionPolicy lbst_UUID ''*v1alpha1.LoadBalancer''"

definition LoadBalancer_ExternalName :: "LoadBalancer \<Rightarrow> string" where
  "LoadBalancer_ExternalName ob = nameOrMeta (lbs_Name (Spec ob)) (Meta ob)"

interpretation loadbalancer_object: managed_object LoadBalancer_Object
  unfolding LoadBalancer_Object_def by (rule crObject_managed) simp_all

lemma LoadBalancer_Object_sel [simp]:
  "GetMeta LoadBalancer_Object = Meta" "GetExternalID LoadBalancer_Object ob = lbst_UUID (Status ob)"
  "GetDeletionPolicy LoadBalancer_Object ob = lbs_DeletionPolicy (Spec ob)"
  by (simp_all add: LoadBalancer_Object_def)

definition LoadBalancer_DesiredConfiguredStatus :: "LoadBalancer \<Rightarrow> string" where
  "LoadBalancer_DesiredConfiguredStatus s =
     (if lbs_ConfiguredStatus (Spec s) = '''' then ''started'' else lbs_ConfiguredStatus (Spec s))"

subsection \<open>LoadBalancerBackend\<close>

record LoadBalancerBackendProperties =
  bpr_TimeoutServer :: int
  bpr_TimeoutTunnel :: int
  bpr_HealthCheckTLSVerify :: "bool option"
  bpr_HealthCheckType :: string
  bpr_HealthCheckInterval :: int
  bpr_HealthCheckFall :: int
  bpr_HealthCheckRise :: int
  bpr_HealthCheckURL :: string
  bpr_HealthCheckExpectedStatus :: int
  bpr_StickySessionCookieName :: string
  bpr_OutboundProxyProtocol :: string
  bpr_TLSEnabled :: "bool option"
  bpr_TLSVerify :: "bool option"
  bpr_TLSUseSystemCA :: "bool option"
  bpr_HTTP2Enabled :: "bool option"

record LoadBalancerBackendSpec =
  bes_LoadBalancerRef :: LocalObjectReference
  bes_Name :: string
  bes_ResolverRef :: "LocalObjectReference option"
  bes_Properties :: "LoadBalancerBackendProperties option"
  bes_DeletionPolicy :: DeletionPolicy

record LoadBalancerBackendStatus =
  best_Conditions :: "Condition list"
  best_ServiceUUID :: string
  best_Name :: string

type_synonym LoadBalancerBackend = "(LoadBalancerBackendSpec, LoadBalancerBackendStatus) CR"

definition LoadBalancerBackend_Object :: "LoadBalancerBackend Object" where
  "LoadBalancerBackend_Object = crObject best_Conditions (\<lambda>cs st. st\<lparr>best_Conditions := cs\<rparr>)
     bes_DeletionPolicy best_Name ''*v1alpha1.LoadBalancerBackend''"

definition LoadBalancerBackend_ExternalName :: "LoadBalancerBackend \<Rightarrow> string" where
  "LoadBalancerBackend_ExternalName ob = nameOrMeta (bes_Name (Spec ob)) (Meta ob)"

definition LoadBalancerBackend_RefNames :: "LoadBalancerBackend \<Rightarrow> string list" where
  "LoadBalancerBackend_RefNames ob = [lor_Name (bes_LoadBalancerRef (Spec ob))]"

interpretation loadbalancerbackend_object: managed_object LoadBalancerBackend_Object
  unfolding LoadBalancerBackend_Object_def by (rule crObject_managed) simp_all

lemma LoadBalancerBackend_Object_sel [simp]:
  "GetMeta LoadBalancerBackend_Object = Meta" "GetExternalID LoadBalancerBackend_Object ob = best_Name (Status ob)"
  "GetDeletionPolicy LoadBalancerBackend_Object ob = bes_DeletionPolicy (Spec ob)"
  by (simp_all add: LoadBalancerBackend_Object_def)

subsection \<open>LoadBalancerBackendMember\<close>

record LoadBalancerBackendMemberSpec =
  bms_BackendRef :: LocalObjectReference
  bms_Name :: string
  bms_Type :: string
  bms_IP :: string
  bms_Port :: int
  bms_Weight :: int
  bms_MaxSessions :: int
  bms_Enabled :: bool
  bms_DeletionPolicy :: DeletionPolicy

record LoadBalancerBackendMemberStatus =
  bmst_Conditions :: "Condition list"
  bmst_ServiceUUID :: string
  bmst_BackendName :: string
  bmst_Name :: string

type_synonym LoadBalancerBackendMember = "(LoadBalancerBackendMemberSpec, LoadBalancerBackendMemberStatus) CR"

definition LoadBalancerBackendMember_Object :: "LoadBalancerBackendMember Object" where
  "LoadBalancerBackendMember_Object = crObject bmst_Conditions (\<lambda>cs st. st\<lparr>bmst_Conditions := cs\<rparr>)
     bms_DeletionPolicy bmst_Name ''*v1alpha1.LoadBalancerBackendMember''"

definition LoadBalancerBackendMember_ExternalName :: "LoadBalancerBackendMember \<Rightarrow> string" where
  "LoadBalancerBackendMember_ExternalName ob = nameOrMeta (bms_Name (Spec ob)) (Meta ob)"

definition LoadBalancerBackendMember_RefNames :: "LoadBalancerBackendMember \<Rightarrow> string list" where
  "LoadBalancerBackendMember_RefNames ob = [lor_Name (bms_BackendRef (Spec ob))]"

interpretation loadbalancerbackendmember_object: managed_object LoadBalancerBackendMember_Object
  unfolding LoadBalancerBackendMember_Object_def by (rule crObject_managed) simp_all

lemma LoadBalancerBackendMember_Object_sel [simp]:
  "GetMeta LoadBalancerBackendMember_Object = Meta" "GetExternalID LoadBalancerBackendMember_Object ob = bmst_Name (Status ob)"
  "GetDeletionPolicy LoadBalancerBackendMember_Object ob = bms_DeletionPolicy (Spec ob)"
  by (simp_all add: LoadBalancerBackendMember_Object_def)

subsection \<open>LoadBalancerBackendTLSConfig\<close>

record LoadBalancerBackendTLSConfigSpec =
  bts_BackendRef :: LocalObjectReference
  bts_Name :: string
  bts_CertificateBundleRef :: LocalObjectReference
  bts_DeletionPolicy :: DeletionPolicy

record LoadBalancerBackendTLSConfigStatus =
  btst_Conditions :: "Condition list"
  btst_ServiceUUID :: string
  btst_BackendName :: string
  btst_Name :: string
  btst_CertificateBundleUUID :: string

type_synonym LoadBalancerBackendTLSConfig = "(LoadBalancerBackendTLSConfigSpec, LoadBalancerBackendTLSConfigStatus) CR"

definition LoadBalancerBackendTLSConfig_Object :: "LoadBalancerBackendTLSConfig Object" where
  "LoadBalancerBackendTLSConfig_Object = crObject btst_Conditions (\<lambda>cs st. st\<lparr>btst_Conditions := cs\<rparr>)
     bts_DeletionPolicy btst_Name ''*v1alpha1.LoadBalancerBackendTLSConfig''"

definition LoadBalancerBackendTLSConfig_ExternalName :: "LoadBalancerBackendTLSConfig \<Rightarrow> string" where
  "LoadBalancerBackendTLSConfig_ExternalName ob = nameOrMeta (bts_Name (Spec ob)) (Meta ob)"

definition LoadBalancerBackendTLSConfig_RefNames :: "LoadBalancerBackendTLSConfig \<Rightarrow> string list" where
  "LoadBalancerBackendTLSConfig_RefNames ob = [lor_Name (bts_BackendRef (Spec ob))]"

interpretation loadbalancerbackendtlsconfig_object: managed_object LoadBalancerBackendTLSConfig_Object
  unfolding LoadBalancerBackendTLSConfig_Object_def by (rule crObject_managed) simp_all

lemma LoadBalancerBackendTLSConfig_Object_sel [simp]:
  "GetMeta LoadBalancerBackendTLSConfig_Object = Meta" "GetExternalID LoadBalancerBackendTLSConfig_Object ob = btst_Name (Status ob)"
  "GetDeletionPolicy LoadBalancerBackendTLSConfig_Object ob = bts_DeletionPolicy (Spec ob)"
  by (simp_all add: LoadBalancerBackendTLSConfig_Object_def)

subsection \<open>LoadBalancerCertificateBundle\<close>

record LoadBalancerCertificateBundleSpec =
  cbs_Name :: string
  cbs_Type :: string
  cbs_CertificateSecretRef :: "LocalObjectReference option"
  cbs_Hostnames :: "string list"
  cbs_RotationToken :: string
  cbs_DeletionPolicy :: DeletionPolicy

record LoadBalancerCertificateBundleStatus =
  cbst_Conditions :: "Condition list"
  cbst_UUID :: string
  cbst_OperationalState :: string
  cbst_NotAfter :: string
  cbst_NotBefore :: string
  cbst_KeyType :: string
  cbst_RotationToken :: string

type_synonym LoadBalancerCertificateBundle = "(LoadBalancerCertificateBundleSpec, LoadBalancerCertificateBundleStatus) CR"

definition LoadBalancerCertificateBundle_Object :: "LoadBalancerCertificateBundle Object" where
  "LoadBalancerCertificateBundle_Object = crObject cbst_Conditions (\<lambda>cs st. st\<lparr>cbst_Conditions := cs\<rparr>)
     cbs_DeletionPolicy cbst_UUID ''*v1alpha1.LoadBalancerCertificateBundle''"

definition LoadBalancerCertificateBundle_ExternalName :: "LoadBalancerCertificateBundle \<Rightarrow> string" where
  "LoadBalancerCertificateBundle_ExternalName ob = nameOrMeta (cbs_Name (Spec ob)) (Meta ob)"

interpretation loadbalancercertificatebundle_object: managed_object LoadBalancerCertificateBundle_Object
  unfolding LoadBalancerCertificateBundle_Object_def by (rule crObject_managed) simp_all

lemma LoadBalancerCertificateBundle_Object_sel [simp]:
  "GetMeta LoadBalancerCertificateBundle_Object = Meta" "GetExternalID LoadBalancerCertificateBundle_Object ob = cbst_UUID (Status ob)"
  "GetDeletionPolicy LoadBalancerCertificateBundle_Object ob = cbs_DeletionPolicy (Spec ob)"
  by (simp_all add: LoadBalancerCertificateBundle_Object_def)

subsection \<open>LoadBalancerFrontend\<close>

record FrontendNetwork =
  fnw_Name :: string

record LoadBalancerFrontendProperties =
  fpr_TimeoutClient :: int
  fpr_InboundProxyProtocol :: "bool option"
  fpr_HTTP2Enabled :: "bool option"

record LoadBalancerFrontendSpec =
  fes_LoadBalancerRef :: LocalObjectReference
  fes_Name :: string
  fes_Mode :: string
  fes_Port :: int
  fes_DefaultBackendRef :: LocalObjectReference
  fes_Networks :: "FrontendNetwork list"
  fes_Properties :: "LoadBalancerFrontendProperties option"
  fes_DeletionPolicy :: DeletionPolicy

record LoadBalancerFrontendStatus =
  fest_Conditions :: "Condition list"
  fest_ServiceUUID :: string
  fest_Name :: string

type_synonym LoadBalancerFrontend = "(LoadBalancerFrontendSpec, LoadBalancerFrontendStatus) CR"

definition LoadBalancerFrontend_Object :: "LoadBalancerFrontend Object" where
  "LoadBalancerFrontend_Object = crObject fest_Conditions (\<lambda>cs st. st\<lparr>fest_Conditions := cs\<rparr>)
     fes_DeletionPolicy fest_Name ''*v1alpha1.LoadBalancerFrontend''"

definition LoadBalancerFrontend_ExternalName :: "LoadBalancerFrontend \<Rightarrow> string" where
  "LoadBalancerFrontend_ExternalName ob = nameOrMeta (fes_Name (Spec ob)) (Meta ob)"

definition LoadBalancerFrontend_RefNames :: "LoadBalancerFrontend \<Rightarrow> string list" where
  "LoadBalancerFrontend_RefNames ob = [lor_Name (fes_LoadBalancerRef (Spec ob)), lor_Name (fes_DefaultBackendRef (Spec ob))]"

interpretation loadbalancerfrontend_object: managed_object LoadBalancerFrontend_Object
  unfolding LoadBalancerFrontend_Object_def by (rule crObject_managed) simp_all

lemma LoadBalancerFrontend_Object_sel [simp]:
  "GetMeta LoadBalancerFrontend_Object = Meta" "GetExternalID LoadBalancerFrontend_Object ob = fest_Name (Status ob)"
  "GetDeletionPolicy LoadBalancerFrontend_Object ob = fes_DeletionPolicy (Spec ob)"
  by (simp_all add: LoadBalancerFrontend_Object_def)

subsection \<open>LoadBalancerFrontendRule\<close>

definition MatcherTypeSrcIP :: string where "MatcherTypeSrcIP = ''src_ip''"
definition MatcherTypeSrcPort :: string where "MatcherTypeSrcPort = ''src_port''"
definition MatcherTypeBodySize :: string where "MatcherTypeBodySize = ''body_size''"
definition MatcherTypePath :: string where "MatcherTypePath = ''path''"
definition MatcherTypeURL :: string where "MatcherTypeURL = ''url''"
definition MatcherTypeURLQuery :: string where "MatcherTypeURLQuery = ''url_query''"
definition MatcherTypeHost :: string where "MatcherTypeHost = ''host''"
definition MatcherTypeHTTPMethod :: string where "MatcherTypeHTTPMethod = ''http_method''"
definition MatcherTypeHTTPStatus :: string where "MatcherTypeHTTPStatus = ''http_status''"
definition MatcherTypeCookie :: string where "MatcherTypeCookie = ''cookie''"
definition MatcherTypeHeader :: string where "MatcherTypeHeader = ''header''"
definition MatcherTypeRequestHeader :: string where "MatcherTypeRequestHeader = ''request_header''"
definition MatcherTypeResponseHeader :: string where "MatcherTypeResponseHeader = ''response_header''"
definition MatcherTypeURLParam :: string where "MatcherTypeURLParam = ''url_param''"
definition MatcherTypeNumMembersUp :: string where "MatcherTypeNumMembersUp = ''num_members_up''"

definition ActionTypeUseBackend :: string where "ActionTypeUseBackend = ''use_backend''"
definition ActionTypeTCPReject :: string where "ActionTypeTCPReject = ''tcp_reject''"
definition ActionTypeHTTPReturn :: string where "ActionTypeHTTPReturn = ''http_return''"
definition ActionTypeHTTPRedirect :: string where "ActionTypeHTTPRedirect = ''http_redirect''"
definition ActionTypeHTTPRewritePath :: string where "ActionTypeHTTPRewritePath = ''http_rewrite_path''"
definition ActionTypeHTTPRewriteURI :: string where "ActionTypeHTTPRewriteURI = ''http_rewrite_uri''"
definition ActionTypeSetForwardedHeaders :: string where "ActionTypeSetForwardedHeaders = ''set_forwarded_headers''"
definition ActionTypeSetRequestHeader :: string where "ActionTypeSetRequestHeader = ''set_request_header''"
definition ActionTypeSetResponseHeader :: string where "ActionTypeSetResponseHeader = ''set_response_header''"

record MatcherSrcIP =
  msi_Value :: string

record MatcherInteger =
  min_Method :: string
  min_Value :: int
  min_RangeStart :: "int option"
  min_RangeEnd :: "int option"

record MatcherString =
  mst_Method :: string
  mst_Value :: string
  mst_IgnoreCase :: "bool option"

record MatcherStringWithArgument =
  msa_Method :: string
  msa_Name :: string
  msa_Value :: string
  msa_IgnoreCase :: "bool option"

record MatcherHost =
  mho_Value :: string

record MatcherHTTPMethod =
  mhm_Value :: string

record MatcherNumMembersUp =
  mnm_Method :: string
  mnm_Value :: int
  mnm_Backend :: string

record RuleMatcher =
  rm_Type :: string
  rm_Inverse :: "bool option"
  rm_SrcIP :: "MatcherSrcIP option"
  rm_SrcPort :: "MatcherInteger option"
  rm_BodySize :: "MatcherInteger option"
  rm_Path :: "MatcherString option"
  rm_URL :: "MatcherString option"
  rm_URLQuery :: "MatcherString option"
  rm_Host :: "MatcherHost option"
  rm_HTTPMethod :: "MatcherHTTPMethod option"
  rm_HTTPStatus :: "MatcherInteger option"
  rm_Cookie :: "MatcherStringWithArgument option"
  rm_Header :: "MatcherStringWithArgument option"
  rm_RequestHeader :: "MatcherStringWithArgument option"
  rm_ResponseHeader :: "MatcherStringWithArgument option"
  rm_URLParam :: "MatcherStringWithArgument option"
  rm_NumMembersUp :: "MatcherNumMembersUp option"

record ActionUseBackend =
  aub_Backend :: string

record ActionHTTPReturn =
  ahr_Status :: int
  ahr_ContentType :: string
  ahr_Payload :: string

record ActionHTTPRedirect =
  ard_Location :: string
  ard_Scheme :: string
  ard_Status :: int

record ActionHTTPRewritePath =
  arp_MatchPattern :: string
  arp_RewriteTo :: string

record ActionHTTPRewriteURI =
  aru_MatchPattern :: string
  aru_RewriteTo :: string

record ActionSetHeader =
  ash_Header :: string
  ash_Value :: string

record RuleAction =
  ra_Type :: string
  ra_UseBackend :: "ActionUseBackend option"
  ra_HTTPReturn :: "ActionHTTPReturn option"
  ra_HTTPRedirect :: "ActionHTTPRedirect option"
  ra_HTTPRewritePath :: "ActionHTTPRewritePath option"
  ra_HTTPRewriteURI :: "ActionHTTPRewriteURI option"
  ra_SetRequestHeader :: "ActionSetHeader option"
  ra_SetResponseHeader :: "ActionSetHeader option"

record LoadBalancerFrontendRuleSpec =
  frs_FrontendRef :: LocalObjectReference
  frs_Name :: string
  frs_Priority :: int
  frs_MatchingCondition :: string
  frs_Matchers :: "RuleMatcher list"
  frs_Actions :: "RuleAction list"
  frs_DeletionPolicy :: DeletionPolicy

record LoadBalancerFrontendRuleStatus =
  frst_Conditions :: "Condition list"
  frst_ServiceUUID :: string
  frst_FrontendName :: string
  frst_Name :: string

type_synonym LoadBalancerFrontendRule = "(LoadBalancerFrontendRuleSpec, LoadBalancerFrontendRuleStatus) CR"

definition LoadBalancerFrontendRule_Object :: "LoadBalancerFrontendRule Object" where
  "LoadBalancerFrontendRule_Object = crObject frst_Conditions (\<lambda>cs st. st\<lparr>frst_Conditions := cs\<rparr>)
     frs_DeletionPolicy frst_Name ''*v1alpha1.LoadBalancerFrontendRule''"

definition LoadBalancerFrontendRule_ExternalName :: "LoadBalancerFrontendRule \<Rightarrow> string" where
  "LoadBalancerFrontendRule_ExternalName ob = nameOrMeta (frs_Name (Spec ob)) (Meta ob)"

definition LoadBalancerFrontendRule_RefNames :: "LoadBalancerFrontendRule \<Rightarrow> string list" where
  "LoadBalancerFrontendRule_RefNames ob = [lor_Name (frs_FrontendRef (Spec ob))]"

interpretation loadbalancerfrontendrule_object: managed_object LoadBalancerFrontendRule_Object
  unfolding LoadBalancerFrontendRule_Object_def by (rule crObject_managed) simp_all

lemma LoadBalancerFrontendRule_Object_sel [simp]:
  "GetMeta LoadBalancerFrontendRule_Object = Meta" "GetExternalID LoadBalancerFrontendRule_Object ob = frst_Name (Status ob)"
  "GetDeletionPolicy LoadBalancerFrontendRule_Object ob = frs_DeletionPolicy (Spec ob)"
  by (simp_all add: LoadBalancerFrontendRule_Object_def)

subsection \<open>LoadBalancerFrontendTLSConfig\<close>

record LoadBalancerFrontendTLSConfigSpec =
  fts_FrontendRef :: LocalObjectReference
  fts_Name :: string
  fts_CertificateBundleRef :: LocalObjectReference
  fts_DeletionPolicy :: DeletionPolicy

record LoadBalancerFrontendTLSConfigStatus =
  ftst_Conditions :: "Condition list"
  ftst_ServiceUUID :: string
  ftst_FrontendName :: string
  ftst_Name :: string

type_synonym LoadBalancerFrontendTLSConfig = "(LoadBalancerFrontendTLSConfigSpec, LoadBalancerFrontendTLSConfigStatus) CR"

definition LoadBalancerFrontendTLSConfig_Object :: "LoadBalancerFrontendTLSConfig Object" where
  "LoadBalancerFrontendTLSConfig_Object = crObject ftst_Conditions (\<lambda>cs st. st\<lparr>ftst_Conditions := cs\<rparr>)
     fts_DeletionPolicy ftst_Name ''*v1alpha1.LoadBalancerFrontendTLSConfig''"

definition LoadBalancerFrontendTLSConfig_ExternalName :: "LoadBalancerFrontendTLSConfig \<Rightarrow> string" where
  "LoadBalancerFrontendTLSConfig_ExternalName ob = nameOrMeta (fts_Name (Spec ob)) (Meta ob)"

definition LoadBalancerFrontendTLSConfig_RefNames :: "LoadBalancerFrontendTLSConfig \<Rightarrow> string list" where
  "LoadBalancerFrontendTLSConfig_RefNames ob = [lor_Name (fts_FrontendRef (Spec ob))]"

interpretation loadbalancerfrontendtlsconfig_object: managed_object LoadBalancerFrontendTLSConfig_Object
  unfolding LoadBalancerFrontendTLSConfig_Object_def by (rule crObject_managed) simp_all

lemma LoadBalancerFrontendTLSConfig_Object_sel [simp]:
  "GetMeta LoadBalancerFrontendTLSConfig_Object = Meta" "GetExternalID LoadBalancerFrontendTLSConfig_Object ob = ftst_Name (Status ob)"
  "GetDeletionPolicy LoadBalancerFrontendTLSConfig_Object ob = fts_DeletionPolicy (Spec ob)"
  by (simp_all add: LoadBalancerFrontendTLSConfig_Object_def)

subsection \<open>LoadBalancerResolver\<close>

record LoadBalancerResolverSpec =
  rvs_LoadBalancerRef :: LocalObjectReference
  rvs_Name :: string
  rvs_Nameservers :: "string list"
  rvs_Retries :: int
  rvs_Timeout :: int
  rvs_TimeoutRetry :: int
  rvs_CacheValid :: int
  rvs_CacheInvalid :: int
  rvs_DeletionPolicy :: DeletionPolicy

record LoadBalancerResolverStatus =
  rvst_Conditions :: "Condition list"
  rvst_ServiceUUID :: string
  rvst_Name :: string

type_synonym LoadBalancerResolver = "(LoadBalancerResolverSpec, LoadBalancerResolverStatus) CR"

definition LoadBalancerResolver_Object :: "LoadBalancerResolver Object" where
  "LoadBalancerResolver_Object = crObject rvst_Conditions (\<lambda>cs st. st\<lparr>rvst_Conditions := cs\<rparr>)
     rvs_DeletionPolicy rvst_Name ''*v1alpha1.LoadBalancerResolver''"

definition LoadBalancerResolver_ExternalName :: "LoadBalancerResolver \<Rightarrow> string" where
  "LoadBalancerResolver_ExternalName ob = nameOrMeta (rvs_Name (Spec ob)) (Meta ob)"

definition LoadBalancerResolver_RefNames :: "LoadBalancerResolver \<Rightarrow> string list" where
  "LoadBalancerResolver_RefNames ob = [lor_Name (rvs_LoadBalancerRef (Spec ob))]"

interpretation loadbalancerresolver_object: managed_object LoadBalancerResolver_Object
  unfolding LoadBalancerResolver_Object_def by (rule crObject_managed) simp_all

lemma LoadBalancerResolver_Object_sel [simp]:
  "GetMeta LoadBalancerResolver_Object = Meta" "GetExternalID LoadBalancerResolver_Object ob = rvst_Name (Status ob)"
  "GetDeletionPolicy LoadBalancerResolver_Object ob = rvs_DeletionPolicy (Spec ob)"
  by (simp_all add: LoadBalancerResolver_Object_def)

end
