(* ===== verification/LoadBalancerAPI.thy ===== *)
theory LoadBalancerAPI
  imports CloudTable LoadBalancerTypes GoTime
begin

text \<open>
  \<open>internal/upcloudapi/loadbalancer.go\<close>: the interface \<open>LoadBalancerAPI\<close> with the SDK
  structs and requests as far as the operator and the in-memory service use them. The
  enumerations of the SDK are strings. A slice that the code compares with
  \<open>reflect.DeepEqual\<close> is an option, because that tells nil from empty.
\<close>

subsection \<open>SDK types: rules\<close>

record upMatcherSrcIP =
  umi_Value :: string

record upMatcherInteger =
  umn_Method :: string
  umn_Value :: int
  umn_RangeStart :: int
  umn_RangeEnd :: int

record upMatcherString =
  ums_Method :: string
  ums_Value :: string
  ums_IgnoreCase :: "bool option"

record upMatcherStringWithArgument =
  uma_Method :: string
  uma_Name :: string
  uma_Value :: string
  uma_IgnoreCase :: "bool option"

record upMatcherHost =
  umh_Value :: string

record upMatcherHTTPMethod =
  umm_Value :: string

record upMatcherNumMembersUp =
  umu_Method :: string
  umu_Value :: int
  umu_Backend :: string

record upMatcher =
  um_Type :: string
  um_Inverse :: "bool option"
  um_SrcIP :: "upMatcherSrcIP option"
  um_SrcPort :: "upMatcherInteger option"
  um_BodySize :: "upMatcherInteger option"
  um_Path :: "upMatcherString option"
  um_URL :: "upMatcherString option"
  um_URLQuery :: "upMatcherString option"
  um_Host :: "upMatcherHost option"
  um_HTTPMethod :: "upMatcherHTTPMethod option"
  um_HTTPStatus :: "upMatcherInteger option"
  um_Cookie :: "upMatcherStringWithArgument option"
  um_Header :: "upMatcherStringWithArgument option"
  um_RequestHeader :: "upMatcherStringWithArgument option"
  um_ResponseHeader :: "upMatcherStringWithArgument option"
  um_URLParam :: "upMatcherStringWithArgument option"
  um_NumMembersUp :: "upMatcherNumMembersUp option"

record upActionUseBackend =
  uub_Backend :: string

record upActionHTTPReturn =
  uhr_Status :: int
  uhr_ContentType :: string
  uhr_Payload :: string

record upActionHTTPRedirect =
  urd_Location :: string
  urd_Scheme :: string
  urd_Status :: int

record upActionRewrite =
  urw_MatchPattern :: string
  urw_RewriteTo :: string

record upActionSetHeader =
  ush_Header :: string
  ush_Value :: string

text \<open>\<open>TCPReject\<close> and \<open>SetForwardedHeaders\<close> point to structs without fields.\<close>

record upAction =
  ua_Type :: string
  ua_UseBackend :: "upActionUseBackend option"
  ua_TCPReject :: "unit option"
  ua_HTTPReturn :: "upActionHTTPReturn option"
  ua_HTTPRedirect :: "upActionHTTPRedirect option"
  ua_HTTPRewritePath :: "upActionRewrite option"
  ua_HTTPRewriteURI :: "upActionRewrite option"
  ua_SetForwardedHeaders :: "unit option"
  ua_SetRequestHeader :: "upActionSetHeader option"
  ua_SetResponseHeader :: "upActionSetHeader option"

subsection \<open>SDK types: resources\<close>

record upLBRule =
  ulr_Name :: string
  ulr_Priority :: int
  ulr_MatchingCondition :: string
  ulr_Matchers :: "upMatcher list option"
  ulr_Actions :: "upAction list option"
  ulr_CreatedAt :: Time
  ulr_UpdatedAt :: Time

record upTLSConfig =
  utc_Name :: string
  utc_CertificateBundleUUID :: string
  utc_CreatedAt :: Time

record upFrontendNetwork =
  ufn_Name :: string

record upFrontendProperties =
  ufp_TimeoutClient :: int
  ufp_InboundProxyProtocol :: "bool option"
  ufp_HTTP2Enabled :: "bool option"

record upLBFrontend =
  ufe_Name :: string
  ufe_Mode :: string
  ufe_Port :: int
  ufe_Networks :: "upFrontendNetwork list"
  ufe_DefaultBackend :: string
  ufe_Rules :: "upLBRule list"
  ufe_TLSConfigs :: "upTLSConfig list"
  ufe_Properties :: "upFrontendProperties option"
  ufe_CreatedAt :: Time

record upLBMember =
  ubm_Name :: string
  ubm_IP :: string
  ubm_Port :: int
  ubm_Weight :: int
  ubm_MaxSessions :: int
  ubm_Type :: string
  ubm_Enabled :: bool
  ubm_CreatedAt :: Time

record upBackendProperties =
  ubp_TimeoutServer :: int
  ubp_TimeoutTunnel :: int
  ubp_HealthCheckTLSVerify :: "bool option"
  ubp_HealthCheckType :: string
  ubp_HealthCheckInterval :: int
  ubp_HealthCheckFall :: int
  ubp_HealthCheckRise :: int
  ubp_HealthCheckURL :: string
  ubp_HealthCheckExpectedStatus :: int
  ubp_StickySessionCookieName :: string
  ubp_OutboundProxyProtocol :: string
  ubp_TLSEnabled :: "bool option"
  ubp_TLSVerify :: "bool option"
  ubp_TLSUseSystemCA :: "bool option"
  ubp_HTTP2Enabled :: "bool option"

record upLBBackend =
  ube_Name :: string
  ube_Resolver :: string
  ube_Properties :: "upBackendProperties option"
  ube_Members :: "upLBMember list"
  ube_TLSConfigs :: "upTLSConfig list"
  ube_CreatedAt :: Time

record upLBResolver =
  urs_Name :: string
  urs_Nameservers :: "string list"
  urs_Retries :: int
  urs_Timeout :: int
  urs_TimeoutRetry :: int
  urs_CacheValid :: int
  urs_CacheInvalid :: int
  urs_CreatedAt :: Time

record upLBIPAddress =
  uia_Address :: string

record upLBNetwork =
  uln_UUID :: string
  uln_Name :: string
  uln_Type :: string
  uln_Family :: string
  uln_DNSName :: string
  uln_IPAddresses :: "upLBIPAddress list"

text \<open>The nodes of a load balancer are only counted.\<close>

record upLoadBalancer =
  ulb_UUID :: string
  ulb_Name :: string
  ulb_Zone :: string
  ulb_Plan :: string
  ulb_Networks :: "upLBNetwork list"
  ulb_Labels :: "Label list"
  ulb_ConfiguredStatus :: string
  ulb_OperationalState :: string
  ulb_Frontends :: "upLBFrontend list"
  ulb_Backends :: "upLBBackend list"
  ulb_Resolvers :: "upLBResolver list"
  ulb_MaintenanceDOW :: string
  ulb_MaintenanceTime :: string
  ulb_Nodes :: "string list"

record upCertificateBundle =
  ucb_UUID :: string
  ucb_Name :: string
  ucb_Type :: string
  ucb_Certificate :: string
  ucb_Intermediates :: string
  ucb_Hostnames :: "string list"
  ucb_KeyType :: string
  ucb_OperationalState :: string
  ucb_NotBefore :: Time
  ucb_NotAfter :: Time

definition LBStateRunning :: string where "LBStateRunning = ''running''"
definition LBStateDeleteDNS :: string where "LBStateDeleteDNS = ''delete-dns''"
definition LBStateDeleteNetwork :: string where "LBStateDeleteNetwork = ''delete-network''"
definition LBStateDeleteServer :: string where "LBStateDeleteServer = ''delete-server''"
definition LBStateDeleteService :: string where "LBStateDeleteService = ''delete-service''"
definition LBNetworkTypePublic :: string where "LBNetworkTypePublic = ''public''"
definition BundleTypeManual :: string where "BundleTypeManual = ''manual''"
definition BundleTypeDynamic :: string where "BundleTypeDynamic = ''dynamic''"
definition BundleTypeAuthority :: string where "BundleTypeAuthority = ''authority''"
definition BundleStateIdle :: string where "BundleStateIdle = ''idle''"
definition BundleStatePending :: string where "BundleStatePending = ''pending''"
definition MatchingConditionAnd :: string where "MatchingConditionAnd = ''and''"
definition RedirectSchemeHTTP :: string where "RedirectSchemeHTTP = ''http''"
definition RedirectSchemeHTTPS :: string where "RedirectSchemeHTTPS = ''https''"

subsection \<open>Requests\<close>

text \<open>
  Calls whose request holds the path to a resource and nothing else take the parts of the
  path as arguments.
\<close>

record reqRule =
  rru_Name :: string
  rru_Priority :: int
  rru_MatchingCondition :: string
  rru_Matchers :: "upMatcher list option"
  rru_Actions :: "upAction list option"

record reqTLSConfig =
  rtc_Name :: string
  rtc_CertificateBundleUUID :: string

record reqFrontend =
  rfe_Name :: string
  rfe_Mode :: string
  rfe_Port :: int
  rfe_Networks :: "upFrontendNetwork list"
  rfe_DefaultBackend :: string
  rfe_Properties :: "upFrontendProperties option"
  rfe_Rules :: "reqRule list"
  rfe_TLSConfigs :: "reqTLSConfig list"

record ModifyFrontend =
  mfe_Name :: string
  mfe_Mode :: string
  mfe_Port :: int
  mfe_DefaultBackend :: string
  mfe_Properties :: "upFrontendProperties option"
  mfe_Networks :: "upFrontendNetwork list"

record reqMember =
  rbm_Name :: string
  rbm_Type :: string
  rbm_IP :: string
  rbm_Port :: int
  rbm_Weight :: int
  rbm_MaxSessions :: int
  rbm_Enabled :: bool

record ModifyMember =
  mbm_Name :: string
  mbm_Type :: string
  mbm_IP :: "string option"
  mbm_Port :: int
  mbm_Weight :: "int option"
  mbm_MaxSessions :: "int option"
  mbm_Enabled :: "bool option"

record reqBackend =
  rbe_Name :: string
  rbe_Resolver :: string
  rbe_Properties :: "upBackendProperties option"
  rbe_Members :: "reqMember list"
  rbe_TLSConfigs :: "reqTLSConfig list"

record ModifyBackend =
  mbe_Name :: string
  mbe_Resolver :: "string option"
  mbe_Properties :: "upBackendProperties option"

record reqResolver =
  rrs_Name :: string
  rrs_Nameservers :: "string list"
  rrs_Retries :: int
  rrs_Timeout :: int
  rrs_TimeoutRetry :: int
  rrs_CacheValid :: int
  rrs_CacheInvalid :: int

record reqLBNetwork =
  rln_Name :: string
  rln_Type :: string
  rln_Family :: string
  rln_UUID :: string

record CreateLoadBalancerRequest =
  clb_Name :: string
  clb_Plan :: string
  clb_Zone :: string
  clb_Networks :: "reqLBNetwork list"
  clb_ConfiguredStatus :: string
  clb_Frontends :: "reqFrontend list"
  clb_Backends :: "reqBackend list"
  clb_Resolvers :: "reqResolver list"
  clb_Labels :: "Label list"
  clb_MaintenanceDOW :: string
  clb_MaintenanceTime :: string

record ModifyLoadBalancerRequest =
  mlb_UUID :: string
  mlb_Name :: string
  mlb_Plan :: string
  mlb_ConfiguredStatus :: string
  mlb_Labels :: "Label list option"
  mlb_MaintenanceDOW :: string
  mlb_MaintenanceTime :: string

record CreateBundleRequest =
  ccb_Type :: string
  ccb_Name :: string
  ccb_Certificate :: string
  ccb_Intermediates :: string
  ccb_PrivateKey :: string
  ccb_Hostnames :: "string list"
  ccb_KeyType :: string

record ModifyBundleRequest =
  mcb_UUID :: string
  mcb_Name :: string
  mcb_Certificate :: string
  mcb_Intermediates :: "string option"
  mcb_PrivateKey :: string
  mcb_Hostnames :: "string list"

subsection \<open>The interface\<close>

record 's LoadBalancerAPI =
  CreateLoadBalancer :: "CreateLoadBalancerRequest \<Rightarrow> 's \<Rightarrow> (err + upLoadBalancer) \<times> 's"
  GetLoadBalancers :: "unit \<Rightarrow> 's \<Rightarrow> (err + upLoadBalancer list) \<times> 's"
  GetLoadBalancer :: "string \<Rightarrow> 's \<Rightarrow> (err + upLoadBalancer) \<times> 's"
  ModifyLoadBalancer :: "ModifyLoadBalancerRequest \<Rightarrow> 's \<Rightarrow> (err + upLoadBalancer) \<times> 's"
  DeleteLoadBalancer :: "string \<Rightarrow> 's \<Rightarrow> err option \<times> 's"
  CreateLoadBalancerBackend :: "string \<Rightarrow> reqBackend \<Rightarrow> 's \<Rightarrow> (err + upLBBackend) \<times> 's"
  GetLoadBalancerBackends :: "string \<Rightarrow> 's \<Rightarrow> (err + upLBBackend list) \<times> 's"
  GetLoadBalancerBackend :: "string \<Rightarrow> string \<Rightarrow> 's \<Rightarrow> (err + upLBBackend) \<times> 's"
  ModifyLoadBalancerBackend :: "string \<Rightarrow> string \<Rightarrow> ModifyBackend \<Rightarrow> 's \<Rightarrow> (err + upLBBackend) \<times> 's"
  DeleteLoadBalancerBackend :: "string \<Rightarrow> string \<Rightarrow> 's \<Rightarrow> err option \<times> 's"
  CreateLoadBalancerBackendMember :: "string \<Rightarrow> string \<Rightarrow> reqMember \<Rightarrow> 's \<Rightarrow> (err + upLBMember) \<times> 's"
  GetLoadBalancerBackendMembers :: "string \<Rightarrow> string \<Rightarrow> 's \<Rightarrow> (err + upLBMember list) \<times> 's"
  GetLoadBalancerBackendMember :: "string \<Rightarrow> string \<Rightarrow> string \<Rightarrow> 's \<Rightarrow> (err + upLBMember) \<times> 's"
  ModifyLoadBalancerBackendMember :: "string \<Rightarrow> string \<Rightarrow> string \<Rightarrow> ModifyMember \<Rightarrow> 's \<Rightarrow> (err + upLBMember) \<times> 's"
  DeleteLoadBalancerBackendMember :: "string \<Rightarrow> string \<Rightarrow> string \<Rightarrow> 's \<Rightarrow> err option \<times> 's"
  CreateLoadBalancerBackendTLSConfig :: "string \<Rightarrow> string \<Rightarrow> reqTLSConfig \<Rightarrow> 's \<Rightarrow> (err + upTLSConfig) \<times> 's"
  GetLoadBalancerBackendTLSConfigs :: "string \<Rightarrow> string \<Rightarrow> 's \<Rightarrow> (err + upTLSConfig list) \<times> 's"
  GetLoadBalancerBackendTLSConfig :: "string \<Rightarrow> string \<Rightarrow> string \<Rightarrow> 's \<Rightarrow> (err + upTLSConfig) \<times> 's"
  ModifyLoadBalancerBackendTLSConfig :: "string \<Rightarrow> string \<Rightarrow> string \<Rightarrow> reqTLSConfig \<Rightarrow> 's \<Rightarrow> (err + upTLSConfig) \<times> 's"
  DeleteLoadBalancerBackendTLSConfig :: "string \<Rightarrow> string \<Rightarrow> string \<Rightarrow> 's \<Rightarrow> err option \<times> 's"
  CreateLoadBalancerResolver :: "string \<Rightarrow> reqResolver \<Rightarrow> 's \<Rightarrow> (err + upLBResolver) \<times> 's"
  GetLoadBalancerResolvers :: "string \<Rightarrow> 's \<Rightarrow> (err + upLBResolver list) \<times> 's"
  GetLoadBalancerResolver :: "string \<Rightarrow> string \<Rightarrow> 's \<Rightarrow> (err + upLBResolver) \<times> 's"
  ModifyLoadBalancerResolver :: "string \<Rightarrow> string \<Rightarrow> reqResolver \<Rightarrow> 's \<Rightarrow> (err + upLBResolver) \<times> 's"
  DeleteLoadBalancerResolver :: "string \<Rightarrow> string \<Rightarrow> 's \<Rightarrow> err option \<times> 's"
  CreateLoadBalancerFrontend :: "string \<Rightarrow> reqFrontend \<Rightarrow> 's \<Rightarrow> (err + upLBFrontend) \<times> 's"
  GetLoadBalancerFrontends :: "string \<Rightarrow> 's \<Rightarrow> (err + upLBFrontend list) \<times> 's"
  GetLoadBalancerFrontend :: "string \<Rightarrow> string \<Rightarrow> 's \<Rightarrow> (err + upLBFrontend) \<times> 's"
  ModifyLoadBalancerFrontend :: "string \<Rightarrow> string \<Rightarrow> ModifyFrontend \<Rightarrow> 's \<Rightarrow> (err + upLBFrontend) \<times> 's"
  DeleteLoadBalancerFrontend :: "string \<Rightarrow> string \<Rightarrow> 's \<Rightarrow> err option \<times> 's"
  CreateLoadBalancerFrontendRule :: "string \<Rightarrow> string \<Rightarrow> reqRule \<Rightarrow> 's \<Rightarrow> (err + upLBRule) \<times> 's"
  GetLoadBalancerFrontendRules :: "string \<Rightarrow> string \<Rightarrow> 's \<Rightarrow> (err + upLBRule list) \<times> 's"
  GetLoadBalancerFrontendRule :: "string \<Rightarrow> string \<Rightarrow> string \<Rightarrow> 's \<Rightarrow> (err + upLBRule) \<times> 's"
  ReplaceLoadBalancerFrontendRule :: "string \<Rightarrow> string \<Rightarrow> string \<Rightarrow> reqRule \<Rightarrow> 's \<Rightarrow> (err + upLBRule) \<times> 's"
  DeleteLoadBalancerFrontendRule :: "string \<Rightarrow> string \<Rightarrow> string \<Rightarrow> 's \<Rightarrow> err option \<times> 's"
  CreateLoadBalancerFrontendTLSConfig :: "string \<Rightarrow> string \<Rightarrow> reqTLSConfig \<Rightarrow> 's \<Rightarrow> (err + upTLSConfig) \<times> 's"
  GetLoadBalancerFrontendTLSConfigs :: "string \<Rightarrow> string \<Rightarrow> 's \<Rightarrow> (err + upTLSConfig list) \<times> 's"
  GetLoadBalancerFrontendTLSConfig :: "string \<Rightarrow> string \<Rightarrow> string \<Rightarrow> 's \<Rightarrow> (err + upTLSConfig) \<times> 's"
  ModifyLoadBalancerFrontendTLSConfig :: "string \<Rightarrow> string \<Rightarrow> string \<Rightarrow> reqTLSConfig \<Rightarrow> 's \<Rightarrow> (err + upTLSConfig) \<times> 's"
  DeleteLoadBalancerFrontendTLSConfig :: "string \<Rightarrow> string \<Rightarrow> string \<Rightarrow> 's \<Rightarrow> err option \<times> 's"
  CreateLoadBalancerCertificateBundle :: "CreateBundleRequest \<Rightarrow> 's \<Rightarrow> (err + upCertificateBundle) \<times> 's"
  GetLoadBalancerCertificateBundles :: "unit \<Rightarrow> 's \<Rightarrow> (err + upCertificateBundle list) \<times> 's"
  GetLoadBalancerCertificateBundle :: "string \<Rightarrow> 's \<Rightarrow> (err + upCertificateBundle) \<times> 's"
  ModifyLoadBalancerCertificateBundle :: "ModifyBundleRequest \<Rightarrow> 's \<Rightarrow> (err + upCertificateBundle) \<times> 's"
  DeleteLoadBalancerCertificateBundle :: "string \<Rightarrow> 's \<Rightarrow> err option \<times> 's"

end
