(* ===== verification/LoadBalancerContract.thy ===== *)
theory LoadBalancerContract
  imports LoadBalancerAPI AdapterCommon
begin

text \<open>
  The contract of the load balancer API as the adapters use it, over an abstract account:
  the record \<open>LBView\<close> with the load balancers, per load balancer its backends, resolvers
  and frontends, per backend its members and TLS configurations, per frontend its rules and
  TLS configurations, and the certificate bundles of the account. Seven of the collections
  are slices of named rows with the same five calls, so their laws are one locale,
  \<open>child_rows\<close>.
\<close>

subsection \<open>The abstract account\<close>

record LBView =
  lv_LBs :: "string \<Rightarrow> upLoadBalancer option"
  lv_Backends :: "string \<Rightarrow> string \<Rightarrow> upLBBackend option"
  lv_Members :: "string \<Rightarrow> string \<Rightarrow> string \<Rightarrow> upLBMember option"
  lv_BackendTLS :: "string \<Rightarrow> string \<Rightarrow> string \<Rightarrow> upTLSConfig option"
  lv_Resolvers :: "string \<Rightarrow> string \<Rightarrow> upLBResolver option"
  lv_Frontends :: "string \<Rightarrow> string \<Rightarrow> upLBFrontend option"
  lv_Rules :: "string \<Rightarrow> string \<Rightarrow> string \<Rightarrow> upLBRule option"
  lv_FrontendTLS :: "string \<Rightarrow> string \<Rightarrow> string \<Rightarrow> upTLSConfig option"
  lv_Bundles :: "string \<Rightarrow> upCertificateBundle option"

text \<open>A resource without its nested collections and without the state that moves on its own.\<close>

definition lb_core :: "upLoadBalancer \<Rightarrow> upLoadBalancer" where
  "lb_core d = d\<lparr>ulb_OperationalState := '''', ulb_Frontends := [], ulb_Backends := [], ulb_Resolvers := [], ulb_Nodes := []\<rparr>"

definition be_core :: "upLBBackend \<Rightarrow> upLBBackend" where
  "be_core b = b\<lparr>ube_Members := [], ube_TLSConfigs := []\<rparr>"

definition fe_core :: "upLBFrontend \<Rightarrow> upLBFrontend" where
  "fe_core f = f\<lparr>ufe_Rules := [], ufe_TLSConfigs := []\<rparr>"

definition cb_core :: "upCertificateBundle \<Rightarrow> upCertificateBundle" where
  "cb_core b = b\<lparr>ucb_OperationalState := ''''\<rparr>"

lemma lb_core_sel [simp]:
  "ulb_UUID (lb_core d) = ulb_UUID d" "ulb_Name (lb_core d) = ulb_Name d" "ulb_Zone (lb_core d) = ulb_Zone d"
  "ulb_Plan (lb_core d) = ulb_Plan d" "ulb_Networks (lb_core d) = ulb_Networks d" "ulb_Labels (lb_core d) = ulb_Labels d"
  "ulb_ConfiguredStatus (lb_core d) = ulb_ConfiguredStatus d" "ulb_MaintenanceDOW (lb_core d) = ulb_MaintenanceDOW d"
  "ulb_MaintenanceTime (lb_core d) = ulb_MaintenanceTime d" "lb_core (lb_core d) = lb_core d"
  "lb_core (d\<lparr>ulb_OperationalState := st\<rparr>) = lb_core d" "lb_core (d\<lparr>ulb_Frontends := fs\<rparr>) = lb_core d"
  "lb_core (d\<lparr>ulb_Backends := bs\<rparr>) = lb_core d" "lb_core (d\<lparr>ulb_Resolvers := rs\<rparr>) = lb_core d"
  by (simp_all add: lb_core_def)

lemma be_core_sel [simp]:
  "ube_Name (be_core b) = ube_Name b" "ube_Resolver (be_core b) = ube_Resolver b"
  "ube_Properties (be_core b) = ube_Properties b" "be_core (b\<lparr>ube_Members := ms\<rparr>) = be_core b"
  "be_core (b\<lparr>ube_TLSConfigs := cs\<rparr>) = be_core b" "be_core (be_core b) = be_core b"
  by (simp_all add: be_core_def)

lemma fe_core_sel [simp]:
  "ufe_Name (fe_core f) = ufe_Name f" "ufe_Mode (fe_core f) = ufe_Mode f" "ufe_Port (fe_core f) = ufe_Port f"
  "ufe_Networks (fe_core f) = ufe_Networks f" "ufe_DefaultBackend (fe_core f) = ufe_DefaultBackend f"
  "ufe_Properties (fe_core f) = ufe_Properties f" "fe_core (f\<lparr>ufe_Rules := rs\<rparr>) = fe_core f"
  "fe_core (f\<lparr>ufe_TLSConfigs := cs\<rparr>) = fe_core f" "fe_core (fe_core f) = fe_core f"
  by (simp_all add: fe_core_def)

lemma cb_core_sel [simp]:
  "ucb_UUID (cb_core b) = ucb_UUID b" "ucb_Name (cb_core b) = ucb_Name b" "ucb_Type (cb_core b) = ucb_Type b"
  "ucb_Certificate (cb_core b) = ucb_Certificate b" "ucb_Intermediates (cb_core b) = ucb_Intermediates b"
  "ucb_Hostnames (cb_core b) = ucb_Hostnames b" "cb_core (cb_core b) = cb_core b"
  "cb_core (b\<lparr>ucb_OperationalState := st\<rparr>) = cb_core b"
  by (simp_all add: cb_core_def)

abbreviation put3 :: "('a \<Rightarrow> 'b \<Rightarrow> 'c \<Rightarrow> 'd) \<Rightarrow> 'a \<Rightarrow> 'b \<Rightarrow> 'c \<Rightarrow> 'd \<Rightarrow> 'a \<Rightarrow> 'b \<Rightarrow> 'c \<Rightarrow> 'd" where
  "put3 f i j n x \<equiv> f(i := (f i)(j := (f i j)(n := x)))"

text \<open>Writing or removing one row. A backend and a frontend take their nested rows with them.\<close>

definition put_Resolver :: "string \<Rightarrow> string \<Rightarrow> upLBResolver option \<Rightarrow> LBView \<Rightarrow> LBView" where
  "put_Resolver i n x v = v\<lparr>lv_Resolvers := put2 (lv_Resolvers v) i n x\<rparr>"

definition put_Backend :: "string \<Rightarrow> string \<Rightarrow> upLBBackend option \<Rightarrow> LBView \<Rightarrow> LBView" where
  "put_Backend i n x v =
     (if x = None
      then v\<lparr>lv_Backends := put2 (lv_Backends v) i n None, lv_Members := put2 (lv_Members v) i n (\<lambda>_. None),
             lv_BackendTLS := put2 (lv_BackendTLS v) i n (\<lambda>_. None)\<rparr>
      else v\<lparr>lv_Backends := put2 (lv_Backends v) i n x\<rparr>)"

definition put_Frontend :: "string \<Rightarrow> string \<Rightarrow> upLBFrontend option \<Rightarrow> LBView \<Rightarrow> LBView" where
  "put_Frontend i n x v =
     (if x = None
      then v\<lparr>lv_Frontends := put2 (lv_Frontends v) i n None, lv_Rules := put2 (lv_Rules v) i n (\<lambda>_. None),
             lv_FrontendTLS := put2 (lv_FrontendTLS v) i n (\<lambda>_. None)\<rparr>
      else v\<lparr>lv_Frontends := put2 (lv_Frontends v) i n x\<rparr>)"

definition put_Member :: "string \<Rightarrow> string \<Rightarrow> string \<Rightarrow> upLBMember option \<Rightarrow> LBView \<Rightarrow> LBView" where
  "put_Member i b n x v = v\<lparr>lv_Members := put3 (lv_Members v) i b n x\<rparr>"

definition put_BackendTLS :: "string \<Rightarrow> string \<Rightarrow> string \<Rightarrow> upTLSConfig option \<Rightarrow> LBView \<Rightarrow> LBView" where
  "put_BackendTLS i b n x v = v\<lparr>lv_BackendTLS := put3 (lv_BackendTLS v) i b n x\<rparr>"

definition put_Rule :: "string \<Rightarrow> string \<Rightarrow> string \<Rightarrow> upLBRule option \<Rightarrow> LBView \<Rightarrow> LBView" where
  "put_Rule i b n x v = v\<lparr>lv_Rules := put3 (lv_Rules v) i b n x\<rparr>"

definition put_FrontendTLS :: "string \<Rightarrow> string \<Rightarrow> string \<Rightarrow> upTLSConfig option \<Rightarrow> LBView \<Rightarrow> LBView" where
  "put_FrontendTLS i b n x v = v\<lparr>lv_FrontendTLS := put3 (lv_FrontendTLS v) i b n x\<rparr>"

text \<open>A load balancer that the API refuses to delete.\<close>

definition lb_busy :: "string \<Rightarrow> LBView \<Rightarrow> bool" where
  "lb_busy u v \<longleftrightarrow> (\<exists>n. lv_Frontends v u n \<noteq> None \<or> lv_Backends v u n \<noteq> None \<or> lv_Resolvers v u n \<noteq> None)"

subsection \<open>What creating and modifying promise\<close>

definition lb_network_built :: "upLBNetwork \<Rightarrow> reqLBNetwork \<Rightarrow> bool" where
  "lb_network_built n r \<longleftrightarrow> uln_Name n = rln_Name r \<and> uln_Type n = rln_Type r \<and> uln_Family n = rln_Family r \<and>
     (rln_UUID r \<noteq> '''' \<longrightarrow> uln_UUID n = rln_UUID r)"

text \<open>The API chooses a maintenance window when the request has none.\<close>

definition lb_built :: "CreateLoadBalancerRequest \<Rightarrow> upLoadBalancer \<Rightarrow> bool" where
  "lb_built c d \<longleftrightarrow> ulb_Name d = clb_Name c \<and> ulb_Plan d = clb_Plan c \<and> ulb_Zone d = clb_Zone c \<and>
     ulb_ConfiguredStatus d = clb_ConfiguredStatus c \<and> ulb_Labels d = clb_Labels c \<and>
     (clb_MaintenanceDOW c \<noteq> '''' \<longrightarrow> ulb_MaintenanceDOW d = clb_MaintenanceDOW c) \<and>
     (clb_MaintenanceTime c \<noteq> '''' \<longrightarrow> ulb_MaintenanceTime d = clb_MaintenanceTime c) \<and>
     list_all2 lb_network_built (ulb_Networks d) (clb_Networks c)"

definition orKeepStr :: "string \<Rightarrow> string \<Rightarrow> string" where
  "orKeepStr old x = (if x = '''' then old else x)"

lemma orKeepStr_simps [simp]: "orKeepStr old [] = old" "x \<noteq> [] \<Longrightarrow> orKeepStr old x = x" "orKeepStr x x = x"
  by (simp_all add: orKeepStr_def)

definition lb_patched :: "ModifyLoadBalancerRequest \<Rightarrow> upLoadBalancer \<Rightarrow> upLoadBalancer" where
  "lb_patched m d =
     d\<lparr>ulb_Name := orKeepStr (ulb_Name d) (mlb_Name m), ulb_Plan := orKeepStr (ulb_Plan d) (mlb_Plan m),
       ulb_ConfiguredStatus := orKeepStr (ulb_ConfiguredStatus d) (mlb_ConfiguredStatus m),
       ulb_Labels := orElse (ulb_Labels d) (mlb_Labels m),
       ulb_MaintenanceDOW := orKeepStr (ulb_MaintenanceDOW d) (mlb_MaintenanceDOW m),
       ulb_MaintenanceTime := orKeepStr (ulb_MaintenanceTime d) (mlb_MaintenanceTime m)\<rparr>"

text \<open>A create request without nested rows; the operator sends no other.\<close>

definition bareLB :: "CreateLoadBalancerRequest \<Rightarrow> CreateLoadBalancerRequest" where
  "bareLB c = c\<lparr>clb_Frontends := [], clb_Backends := [], clb_Resolvers := []\<rparr>"

definition bareBackend :: "reqBackend \<Rightarrow> reqBackend" where
  "bareBackend c = c\<lparr>rbe_Members := [], rbe_TLSConfigs := []\<rparr>"

definition bareFrontend :: "reqFrontend \<Rightarrow> reqFrontend" where
  "bareFrontend c = c\<lparr>rfe_Rules := [], rfe_TLSConfigs := []\<rparr>"

definition resolver_built :: "reqResolver \<Rightarrow> upLBResolver \<Rightarrow> bool" where
  "resolver_built c x \<longleftrightarrow> urs_Nameservers x = rrs_Nameservers c \<and> urs_Retries x = rrs_Retries c \<and>
     urs_Timeout x = rrs_Timeout c \<and> urs_TimeoutRetry x = rrs_TimeoutRetry c \<and>
     urs_CacheValid x = rrs_CacheValid c \<and> urs_CacheInvalid x = rrs_CacheInvalid c"

definition backend_built :: "reqBackend \<Rightarrow> upLBBackend \<Rightarrow> bool" where
  "backend_built c x \<longleftrightarrow> ube_Resolver x = rbe_Resolver c \<and> ube_Properties x = rbe_Properties c"

definition backend_patched :: "ModifyBackend \<Rightarrow> upLBBackend option \<Rightarrow> upLBBackend \<Rightarrow> bool" where
  "backend_patched m y x \<longleftrightarrow> (\<exists>b. y = Some b \<and> ube_Resolver x = orElse (ube_Resolver b) (mbe_Resolver m) \<and>
     ube_Properties x = (if mbe_Properties m = None then ube_Properties b else mbe_Properties m))"

definition frontend_built :: "reqFrontend \<Rightarrow> upLBFrontend \<Rightarrow> bool" where
  "frontend_built c x \<longleftrightarrow> ufe_Mode x = rfe_Mode c \<and> ufe_Port x = rfe_Port c \<and> ufe_Networks x = rfe_Networks c \<and>
     ufe_DefaultBackend x = rfe_DefaultBackend c \<and> ufe_Properties x = rfe_Properties c"

definition frontend_patched :: "ModifyFrontend \<Rightarrow> upLBFrontend option \<Rightarrow> upLBFrontend \<Rightarrow> bool" where
  "frontend_patched m y x \<longleftrightarrow> (\<exists>f. y = Some f \<and> ufe_Mode x = orKeepStr (ufe_Mode f) (mfe_Mode m) \<and>
     ufe_Port x = (if mfe_Port m = 0 then ufe_Port f else mfe_Port m) \<and>
     ufe_DefaultBackend x = orKeepStr (ufe_DefaultBackend f) (mfe_DefaultBackend m) \<and>
     ufe_Properties x = (if mfe_Properties m = None then ufe_Properties f else mfe_Properties m) \<and>
     ufe_Networks x = (if mfe_Networks m = [] then ufe_Networks f else mfe_Networks m))"

definition member_built :: "reqMember \<Rightarrow> upLBMember \<Rightarrow> bool" where
  "member_built c x \<longleftrightarrow> ubm_Type x = rbm_Type c \<and> ubm_IP x = rbm_IP c \<and> ubm_Port x = rbm_Port c \<and>
     ubm_Weight x = rbm_Weight c \<and> ubm_MaxSessions x = rbm_MaxSessions c \<and> ubm_Enabled x = rbm_Enabled c"

definition member_patched :: "ModifyMember \<Rightarrow> upLBMember option \<Rightarrow> upLBMember \<Rightarrow> bool" where
  "member_patched m y x \<longleftrightarrow> (\<exists>b. y = Some b \<and> ubm_Type x = orKeepStr (ubm_Type b) (mbm_Type m) \<and>
     ubm_IP x = orElse (ubm_IP b) (mbm_IP m) \<and> ubm_Port x = (if mbm_Port m = 0 then ubm_Port b else mbm_Port m) \<and>
     ubm_Weight x = orElse (ubm_Weight b) (mbm_Weight m) \<and>
     ubm_MaxSessions x = orElse (ubm_MaxSessions b) (mbm_MaxSessions m) \<and>
     ubm_Enabled x = orElse (ubm_Enabled b) (mbm_Enabled m))"

definition tls_built :: "reqTLSConfig \<Rightarrow> upTLSConfig \<Rightarrow> bool" where
  "tls_built c x \<longleftrightarrow> utc_CertificateBundleUUID x = rtc_CertificateBundleUUID c"

definition rule_built :: "reqRule \<Rightarrow> upLBRule \<Rightarrow> bool" where
  "rule_built c x \<longleftrightarrow> ulr_Priority x = rru_Priority c \<and> ulr_MatchingCondition x = rru_MatchingCondition c \<and>
     ulr_Matchers x = rru_Matchers c \<and> ulr_Actions x = rru_Actions c"

definition cb_built :: "CreateBundleRequest \<Rightarrow> upCertificateBundle \<Rightarrow> bool" where
  "cb_built c b \<longleftrightarrow> ucb_Name b = ccb_Name c \<and> ucb_Type b = ccb_Type c \<and> ucb_Certificate b = ccb_Certificate c \<and>
     ucb_Intermediates b = ccb_Intermediates c \<and> ucb_Hostnames b = ccb_Hostnames c"

definition cb_patched :: "ModifyBundleRequest \<Rightarrow> upCertificateBundle \<Rightarrow> upCertificateBundle" where
  "cb_patched m b =
     b\<lparr>ucb_Name := orKeepStr (ucb_Name b) (mcb_Name m), ucb_Certificate := orKeepStr (ucb_Certificate b) (mcb_Certificate m),
       ucb_Intermediates := orElse (ucb_Intermediates b) (mcb_Intermediates m),
       ucb_Hostnames := (if mcb_Hostnames m = [] then ucb_Hostnames b else mcb_Hostnames m)\<rparr>"

subsection \<open>Collections of named rows\<close>

locale child_rows =
  fixes inv :: "'s \<Rightarrow> bool"
    and view :: "'s \<Rightarrow> 'v"
    and get :: "string \<Rightarrow> 's \<Rightarrow> (err + 'r) \<times> 's"
    and create :: "'c \<Rightarrow> 's \<Rightarrow> (err + 'r) \<times> 's"
    and modify :: "string \<Rightarrow> 'm \<Rightarrow> 's \<Rightarrow> (err + 'r) \<times> 's"
    and del :: "string \<Rightarrow> 's \<Rightarrow> err option \<times> 's"
    and core :: "'r \<Rightarrow> 'r"
    and rname :: "'r \<Rightarrow> string"
    and rows :: "'v \<Rightarrow> string \<Rightarrow> 'r option"
    and put :: "string \<Rightarrow> 'r option \<Rightarrow> 'v \<Rightarrow> 'v"
    and cname :: "'c \<Rightarrow> string"
    and built :: "'c \<Rightarrow> 'r \<Rightarrow> bool"
    and patched :: "'m \<Rightarrow> 'r option \<Rightarrow> 'r \<Rightarrow> bool"
  assumes child_get: "inv s \<Longrightarrow> get n s = (r, s') \<Longrightarrow> inv s' \<and> view s' = view s \<and>
      (case r of Inl e \<Rightarrow> IsNotFound (Some e) \<longrightarrow> rows (view s) n = None
       | Inr x \<Rightarrow> rname x = n \<and> rows (view s) n = Some (core x))"
    and child_create: "inv s \<Longrightarrow> create c s = (r, s') \<Longrightarrow> inv s' \<and>
      (case r of Inl e \<Rightarrow> view s' = view s
       | Inr x \<Rightarrow> rname x = cname c \<and> rows (view s) (cname c) = None \<and> built c (core x) \<and>
           view s' = put (cname c) (Some (core x)) (view s))"
    and child_modify: "inv s \<Longrightarrow> modify n m s = (r, s') \<Longrightarrow> inv s' \<and>
      (case r of Inl e \<Rightarrow> view s' = view s
       | Inr x \<Rightarrow> rname x = n \<and> patched m (rows (view s) n) (core x) \<and> view s' = put n (Some (core x)) (view s))"
    and child_delete: "inv s \<Longrightarrow> del n s = (e, s') \<Longrightarrow> inv s' \<and>
      (case e of None \<Rightarrow> view s' = put n None (view s)
       | Some x \<Rightarrow> view s' = view s \<and> (IsNotFound e \<longrightarrow> rows (view s) n = None))"
    and rows_put: "rows (put n x v) = (rows v)(n := x)"
begin

text \<open>The end of every \<open>Delete\<close>: an accepted call, or a 404, means that the row is gone.\<close>

lemma child_deleted:
  assumes "inv s" and "del n s = (e, s')"
  shows "inv s' \<and> (view s' = view s \<or> view s' = put n None (view s)) \<and>
    (e = None \<or> IsNotFound e \<longrightarrow> rows (view s') n = None)"
  using child_delete [OF assms] by (cases e) (auto simp: rows_put)

end

text \<open>A collection where a modification needs the row.\<close>

definition on_row :: "('m \<Rightarrow> 'r \<Rightarrow> 'r \<Rightarrow> bool) \<Rightarrow> 'm \<Rightarrow> 'r option \<Rightarrow> 'r \<Rightarrow> bool" where
  "on_row P m y x \<longleftrightarrow> (\<exists>b. y = Some b \<and> P m b x)"

subsection \<open>The contract\<close>

locale load_balancer_service =
  svc: listed_table inv "\<lambda>s. lv_LBs (view s)" "\<lambda>s. (view s)\<lparr>lv_LBs := \<lambda>_. None\<rparr>" ulb_UUID
    "seen lb_core (GetLoadBalancer api)" "seen lb_core (\<lambda>c. CreateLoadBalancer api (bareLB c))" lb_built ulb_Labels
    "\<lambda>m. seen (map lb_core) (GetLoadBalancers api) ()" +
  svc: patchable_table inv "\<lambda>s. lv_LBs (view s)" "\<lambda>s. (view s)\<lparr>lv_LBs := \<lambda>_. None\<rparr>" ulb_UUID
    "seen lb_core (GetLoadBalancer api)" "seen lb_core (\<lambda>c. CreateLoadBalancer api (bareLB c))" lb_built
    "seen lb_core (ModifyLoadBalancer api)" mlb_UUID lb_patched +
  bun: mutable_table inv "\<lambda>s. lv_Bundles (view s)" "\<lambda>s. (view s)\<lparr>lv_Bundles := \<lambda>_. None\<rparr>" ucb_UUID
    "seen cb_core (GetLoadBalancerCertificateBundle api)" "seen cb_core (CreateLoadBalancerCertificateBundle api)" cb_built
    "DeleteLoadBalancerCertificateBundle api" "seen cb_core (ModifyLoadBalancerCertificateBundle api)" mcb_UUID cb_patched
  for api :: "'s LoadBalancerAPI" and inv :: "'s \<Rightarrow> bool" and view :: "'s \<Rightarrow> LBView" +
  assumes svc_delete: "inv s \<Longrightarrow> DeleteLoadBalancer api u s = (e, s') \<Longrightarrow>
      inv s' \<and> (view s' = view s \<or> e = None \<and> view s' = (view s)\<lparr>lv_LBs := (lv_LBs (view s))(u := None)\<rparr>) \<and>
      (IsNotFound e \<longrightarrow> lv_LBs (view s) u = None) \<and> (lb_busy u (view s) \<longrightarrow> e \<noteq> None \<and> view s' = view s)"
    and bundle_list: "inv s \<Longrightarrow> GetLoadBalancerCertificateBundles api () s = (rl, s') \<Longrightarrow> inv s' \<and> view s' = view s \<and>
      (\<forall>xs. rl = Inr xs \<longrightarrow> cb_core ` set xs = ran (lv_Bundles (view s)))"
    and resolvers: "child_rows inv view (GetLoadBalancerResolver api i) (CreateLoadBalancerResolver api i)
      (\<lambda>n m. ModifyLoadBalancerResolver api i n (m\<lparr>rrs_Name := n\<rparr>)) (DeleteLoadBalancerResolver api i)
      (\<lambda>x. x) urs_Name (\<lambda>v. lv_Resolvers v i) (put_Resolver i) rrs_Name resolver_built
      (on_row (\<lambda>m b. resolver_built m))"
    and backends: "child_rows inv view (GetLoadBalancerBackend api i) (\<lambda>c. CreateLoadBalancerBackend api i (bareBackend c))
      (ModifyLoadBalancerBackend api i) (DeleteLoadBalancerBackend api i)
      be_core ube_Name (\<lambda>v. lv_Backends v i) (put_Backend i) rbe_Name backend_built backend_patched"
    and frontends: "child_rows inv view (GetLoadBalancerFrontend api i) (\<lambda>c. CreateLoadBalancerFrontend api i (bareFrontend c))
      (ModifyLoadBalancerFrontend api i) (DeleteLoadBalancerFrontend api i)
      fe_core ufe_Name (\<lambda>v. lv_Frontends v i) (put_Frontend i) rfe_Name frontend_built frontend_patched"
    and members: "child_rows inv view (GetLoadBalancerBackendMember api i b) (CreateLoadBalancerBackendMember api i b)
      (\<lambda>n m. ModifyLoadBalancerBackendMember api i b n (m\<lparr>mbm_Name := ''''\<rparr>)) (DeleteLoadBalancerBackendMember api i b)
      (\<lambda>x. x) ubm_Name (\<lambda>v. lv_Members v i b) (put_Member i b) rbm_Name member_built member_patched"
    and backend_tls: "child_rows inv view (GetLoadBalancerBackendTLSConfig api i b) (CreateLoadBalancerBackendTLSConfig api i b)
      (ModifyLoadBalancerBackendTLSConfig api i b) (DeleteLoadBalancerBackendTLSConfig api i b)
      (\<lambda>x. x) utc_Name (\<lambda>v. lv_BackendTLS v i b) (put_BackendTLS i b) rtc_Name tls_built
      (on_row (\<lambda>m y. tls_built m))"
    and rules: "child_rows inv view (GetLoadBalancerFrontendRule api i b) (CreateLoadBalancerFrontendRule api i b)
      (\<lambda>n m. ReplaceLoadBalancerFrontendRule api i b n (m\<lparr>rru_Name := n\<rparr>)) (DeleteLoadBalancerFrontendRule api i b)
      (\<lambda>x. x) ulr_Name (\<lambda>v. lv_Rules v i b) (put_Rule i b) rru_Name rule_built (\<lambda>m y. rule_built m)"
    and frontend_tls: "child_rows inv view (GetLoadBalancerFrontendTLSConfig api i b) (CreateLoadBalancerFrontendTLSConfig api i b)
      (ModifyLoadBalancerFrontendTLSConfig api i b) (DeleteLoadBalancerFrontendTLSConfig api i b)
      (\<lambda>x. x) utc_Name (\<lambda>v. lv_FrontendTLS v i b) (put_FrontendTLS i b) rtc_Name tls_built
      (on_row (\<lambda>m y. tls_built m))"
begin

lemma same_view:
  "lv_LBs w = lv_LBs v \<Longrightarrow> w\<lparr>lv_LBs := \<lambda>_. None\<rparr> = v\<lparr>lv_LBs := \<lambda>_. None\<rparr> \<Longrightarrow> w = (v :: LBView)"
  by (cases v; cases w) simp

lemma same_view_bundles:
  "lv_Bundles w = lv_Bundles v \<Longrightarrow> w\<lparr>lv_Bundles := \<lambda>_. None\<rparr> = v\<lparr>lv_Bundles := \<lambda>_. None\<rparr> \<Longrightarrow> w = (v :: LBView)"
  by (cases v; cases w) simp

end

end
