(* ===== verification/GoCalendar.thy ===== *)
theory GoCalendar
  imports GoTime
begin

text \<open>
  \<open>time.Time.Add\<close>: the clock reading that lies a number of nanoseconds later, by way of
  the day number in the proleptic Gregorian calendar. Years start in March here, so that
  the leap day is the last day of a year. Readings before the year 1 are not represented.
\<close>

definition dayNumber :: "Time \<Rightarrow> int" where
  "dayNumber t =
     (let m = int (tm_Month t); y = (if m \<le> 2 then int (tm_Year t) - 1 else int (tm_Year t));
          doy = (153 * ((m + 9) mod 12) + 2) div 5 + int (tm_Day t) - 1
      in 365 * y + y div 4 - y div 100 + y div 400 + doy)"

definition dateOf :: "int \<Rightarrow> int \<times> int \<times> int" where
  "dateOf z =
     (let era = z div 146097; doe = z mod 146097;
          yoe = (doe - doe div 1460 + doe div 36524 - doe div 146096) div 365;
          doy = doe - (365 * yoe + yoe div 4 - yoe div 100);
          mp = (5 * doy + 2) div 153;
          m = (if mp < 10 then mp + 3 else mp - 9)
      in (yoe + 400 * era + (if m \<le> 2 then 1 else 0), m, doy - (153 * mp + 2) div 5 + 1))"

definition nsPerDay :: int where "nsPerDay = 86400000000000"

definition nsOfDay :: "Time \<Rightarrow> int" where
  "nsOfDay t =
     ((int (tm_Hour t) * 60 + int (tm_Minute t)) * 60 + int (tm_Second t)) * 1000000000 + int (tm_Nanosecond t)"

definition Time_Add :: "int \<Rightarrow> Time \<Rightarrow> Time" where
  "Time_Add d t =
     (let n = dayNumber t * nsPerDay + nsOfDay t + d; (y, m, day) = dateOf (n div nsPerDay); r = n mod nsPerDay
      in \<lparr>tm_Year = nat y, tm_Month = nat m, tm_Day = nat day, tm_Hour = nat (r div 3600000000000),
          tm_Minute = nat (r div 60000000000 mod 60), tm_Second = nat (r div 1000000000 mod 60),
          tm_Nanosecond = nat (r mod 1000000000)\<rparr>)"

definition hours :: "int \<Rightarrow> int" where "hours n = n * 3600000000000"

end
