(* ===== verification/LoadBalancerFake.thy ===== *)
theory LoadBalancerFake
  imports FakeTable LoadBalancerContract GoCalendar
begin

text \<open>
  \<open>internal/upcloudapi/fake/loadbalancer.go\<close>: the in-memory load balancer service. The
  environment is part of the state: \<open>lf_Now\<close> holds the readings of the clock and
  \<open>lf_order\<close> the orders in which Go ranges over a map, both by the number \<open>lf_tick\<close> of
  the use. What a call returns is a value here; in the code the row calls return pointers
  into the store, through which no adapter writes. \<open>LoadBalancerFakeLaws\<close> proves that
  the service keeps the contract.
\<close>

subsection \<open>State\<close>

record LoadBalancerFake =
  lf_seq :: nat
  lf_LoadBalancers :: "(string, upLoadBalancer) gomap"
  lf_CertificateBundles :: "(string, upCertificateBundle) gomap"
  lf_Calls :: "string list"
  lf_StateOverride :: string
  lf_BundleStateOverride :: string
  lf_FailNext :: "err option"
  lf_tick :: nat
  lf_Now :: "nat \<Rightarrow> Time"
  lf_order :: "nat \<Rightarrow> nat list"

definition NewLoadBalancerAPI :: LoadBalancerFake where
  "NewLoadBalancerAPI = \<lparr>lf_seq = 0, lf_LoadBalancers = [], lf_CertificateBundles = [], lf_Calls = [],
     lf_StateOverride = '''', lf_BundleStateOverride = '''', lf_FailNext = None, lf_tick = 0, lf_Now = (\<lambda>_. zeroTime),
     lf_order = (\<lambda>_. [])\<rparr>"

definition lf_record :: "string \<Rightarrow> LoadBalancerFake \<Rightarrow> err option \<times> LoadBalancerFake" where
  "lf_record name f =
     (let f1 = f\<lparr>lf_Calls := lf_Calls f @ [name]\<rparr> in
      case lf_FailNext f1 of
        Some e \<Rightarrow> (Some e, f1\<lparr>lf_FailNext := None\<rparr>)
      | None \<Rightarrow> (None, f1))"

definition lf_nextUUID :: "string \<Rightarrow> LoadBalancerFake \<Rightarrow> string \<times> LoadBalancerFake" where
  "lf_nextUUID prefix f = (let n = Suc (lf_seq f) in (uuid prefix n, f\<lparr>lf_seq := n\<rparr>))"

definition lf_copyService :: "LoadBalancerFake \<Rightarrow> upLoadBalancer \<Rightarrow> upLoadBalancer" where
  "lf_copyService f lb =
     (if lf_StateOverride f \<noteq> '''' then lb\<lparr>ulb_OperationalState := lf_StateOverride f\<rparr> else lb)"

definition lf_copyBundle :: "LoadBalancerFake \<Rightarrow> upCertificateBundle \<Rightarrow> upCertificateBundle" where
  "lf_copyBundle f b =
     (if lf_BundleStateOverride f \<noteq> '''' then b\<lparr>ucb_OperationalState := lf_BundleStateOverride f\<rparr> else b)"

text \<open>\<open>time.Now()\<close> and \<open>range\<close>.\<close>

definition lf_time :: "LoadBalancerFake \<Rightarrow> Time \<times> LoadBalancerFake" where
  "lf_time f = (lf_Now f (lf_tick f), f\<lparr>lf_tick := Suc (lf_tick f)\<rparr>)"

definition lf_range :: "LoadBalancerFake \<Rightarrow> (string, 'v) gomap \<Rightarrow> 'v list \<times> LoadBalancerFake" where
  "lf_range f m = (map snd (gm_range (lf_order f (lf_tick f)) m), f\<lparr>lf_tick := Suc (lf_tick f)\<rparr>)"

subsection \<open>Searches\<close>

definition lf_findBackend :: "upLoadBalancer \<Rightarrow> string \<Rightarrow> upLBBackend option" where
  "lf_findBackend lb name = findBy ube_Name (ulb_Backends lb) name"

definition lf_findMember :: "upLBBackend \<Rightarrow> string \<Rightarrow> upLBMember option" where
  "lf_findMember be name = findBy ubm_Name (ube_Members be) name"

definition lf_findBackendTLS :: "upLBBackend \<Rightarrow> string \<Rightarrow> upTLSConfig option" where
  "lf_findBackendTLS be name = findBy utc_Name (ube_TLSConfigs be) name"

definition lf_findResolver :: "upLoadBalancer \<Rightarrow> string \<Rightarrow> upLBResolver option" where
  "lf_findResolver lb name = findBy urs_Name (ulb_Resolvers lb) name"

definition lf_findFrontend :: "upLoadBalancer \<Rightarrow> string \<Rightarrow> upLBFrontend option" where
  "lf_findFrontend lb name = findBy ufe_Name (ulb_Frontends lb) name"

definition lf_findRule :: "upLBFrontend \<Rightarrow> string \<Rightarrow> upLBRule option" where
  "lf_findRule fe name = findBy ulr_Name (ufe_Rules fe) name"

definition lf_findFrontendTLS :: "upLBFrontend \<Rightarrow> string \<Rightarrow> upTLSConfig option" where
  "lf_findFrontendTLS fe name = findBy utc_Name (ufe_TLSConfigs fe) name"

subsection \<open>Conversions\<close>

definition convMember :: "reqMember \<Rightarrow> upLBMember" where
  "convMember r = \<lparr>ubm_Name = rbm_Name r, ubm_IP = rbm_IP r, ubm_Port = rbm_Port r, ubm_Weight = rbm_Weight r,
     ubm_MaxSessions = rbm_MaxSessions r, ubm_Type = rbm_Type r, ubm_Enabled = rbm_Enabled r, ubm_CreatedAt = zeroTime\<rparr>"

definition convBackendTLS :: "reqTLSConfig \<Rightarrow> upTLSConfig" where
  "convBackendTLS r = \<lparr>utc_Name = rtc_Name r, utc_CertificateBundleUUID = rtc_CertificateBundleUUID r, utc_CreatedAt = zeroTime\<rparr>"

definition convBackend :: "reqBackend \<Rightarrow> upLBBackend" where
  "convBackend r = \<lparr>ube_Name = rbe_Name r, ube_Resolver = rbe_Resolver r, ube_Properties = rbe_Properties r,
     ube_Members = map convMember (rbe_Members r), ube_TLSConfigs = map convBackendTLS (rbe_TLSConfigs r),
     ube_CreatedAt = zeroTime\<rparr>"

definition convResolver :: "reqResolver \<Rightarrow> upLBResolver" where
  "convResolver r = \<lparr>urs_Name = rrs_Name r, urs_Nameservers = rrs_Nameservers r, urs_Retries = rrs_Retries r,
     urs_Timeout = rrs_Timeout r, urs_TimeoutRetry = rrs_TimeoutRetry r, urs_CacheValid = rrs_CacheValid r,
     urs_CacheInvalid = rrs_CacheInvalid r, urs_CreatedAt = zeroTime\<rparr>"

definition convRule :: "reqRule \<Rightarrow> upLBRule" where
  "convRule r = \<lparr>ulr_Name = rru_Name r, ulr_Priority = rru_Priority r, ulr_MatchingCondition = rru_MatchingCondition r,
     ulr_Matchers = rru_Matchers r, ulr_Actions = rru_Actions r, ulr_CreatedAt = zeroTime, ulr_UpdatedAt = zeroTime\<rparr>"

definition convRules :: "reqRule list \<Rightarrow> upLBRule list" where
  "convRules rs = map convRule rs"

definition convFrontendTLS :: "reqTLSConfig list \<Rightarrow> upTLSConfig list" where
  "convFrontendTLS cs =
     map (\<lambda>c. \<lparr>utc_Name = rtc_Name c, utc_CertificateBundleUUID = rtc_CertificateBundleUUID c, utc_CreatedAt = zeroTime\<rparr>) cs"

definition convFrontend :: "reqFrontend \<Rightarrow> upLBFrontend" where
  "convFrontend r = \<lparr>ufe_Name = rfe_Name r, ufe_Mode = rfe_Mode r, ufe_Port = rfe_Port r, ufe_Networks = rfe_Networks r,
     ufe_DefaultBackend = rfe_DefaultBackend r, ufe_Rules = convRules (rfe_Rules r),
     ufe_TLSConfigs = convFrontendTLS (rfe_TLSConfigs r), ufe_Properties = rfe_Properties r, ufe_CreatedAt = zeroTime\<rparr>"

definition convBackends :: "reqBackend list \<Rightarrow> upLBBackend list" where
  "convBackends bs = map convBackend bs"

definition convResolvers :: "reqResolver list \<Rightarrow> upLBResolver list" where
  "convResolvers rs = map convResolver rs"

definition convFrontends :: "reqFrontend list \<Rightarrow> upLBFrontend list" where
  "convFrontends fs = map convFrontend fs"

subsection \<open>The assignments of the modify handlers\<close>

definition lf_changeLB :: "ModifyLoadBalancerRequest \<Rightarrow> upLoadBalancer \<Rightarrow> upLoadBalancer" where
  "lf_changeLB r lb =
     (let a = (if mlb_Name r \<noteq> '''' then lb\<lparr>ulb_Name := mlb_Name r\<rparr> else lb);
         b = (if mlb_Plan r \<noteq> '''' then a\<lparr>ulb_Plan := mlb_Plan r\<rparr> else a);
         c = (if mlb_ConfiguredStatus r \<noteq> '''' then b\<lparr>ulb_ConfiguredStatus := mlb_ConfiguredStatus r\<rparr> else b);
         d = (case mlb_Labels r of None \<Rightarrow> c | Some ls \<Rightarrow> c\<lparr>ulb_Labels := ls\<rparr>);
         e = (if mlb_MaintenanceDOW r \<noteq> '''' then d\<lparr>ulb_MaintenanceDOW := mlb_MaintenanceDOW r\<rparr> else d);
         g = (if mlb_MaintenanceTime r \<noteq> '''' then e\<lparr>ulb_MaintenanceTime := mlb_MaintenanceTime r\<rparr> else e)
      in g)"

definition lf_changeBackend :: "ModifyBackend \<Rightarrow> upLBBackend \<Rightarrow> upLBBackend" where
  "lf_changeBackend r x =
     (let z = (case mbe_Resolver r of None \<Rightarrow> x | Some s \<Rightarrow> x\<lparr>ube_Resolver := s\<rparr>);
         y = (case mbe_Properties r of None \<Rightarrow> z | Some p \<Rightarrow> z\<lparr>ube_Properties := Some p\<rparr>)
      in y)"

definition lf_changeMember :: "ModifyMember \<Rightarrow> upLBMember \<Rightarrow> upLBMember" where
  "lf_changeMember r x =
     (let a = (if mbm_Type r \<noteq> '''' then x\<lparr>ubm_Type := mbm_Type r\<rparr> else x);
         c = (if mbm_Name r \<noteq> '''' then a\<lparr>ubm_Name := mbm_Name r\<rparr> else a);
         d = (case mbm_Weight r of None \<Rightarrow> c | Some w \<Rightarrow> c\<lparr>ubm_Weight := w\<rparr>);
         e = (case mbm_MaxSessions r of None \<Rightarrow> d | Some w \<Rightarrow> d\<lparr>ubm_MaxSessions := w\<rparr>);
         g = (case mbm_Enabled r of None \<Rightarrow> e | Some w \<Rightarrow> e\<lparr>ubm_Enabled := w\<rparr>);
         h = (case mbm_IP r of None \<Rightarrow> g | Some w \<Rightarrow> g\<lparr>ubm_IP := w\<rparr>);
         y = (if mbm_Port r \<noteq> 0 then h\<lparr>ubm_Port := mbm_Port r\<rparr> else h)
      in y)"

definition lf_changeFrontend :: "ModifyFrontend \<Rightarrow> upLBFrontend \<Rightarrow> upLBFrontend" where
  "lf_changeFrontend r x =
     (let a = (if mfe_Mode r \<noteq> '''' then x\<lparr>ufe_Mode := mfe_Mode r\<rparr> else x);
         c = (if mfe_Port r \<noteq> 0 then a\<lparr>ufe_Port := mfe_Port r\<rparr> else a);
         d = (if mfe_DefaultBackend r \<noteq> '''' then c\<lparr>ufe_DefaultBackend := mfe_DefaultBackend r\<rparr> else c);
         e = (case mfe_Properties r of None \<Rightarrow> d | Some p \<Rightarrow> d\<lparr>ufe_Properties := Some p\<rparr>);
         y = (if length (mfe_Networks r) > 0 then e\<lparr>ufe_Networks := mfe_Networks r\<rparr> else e)
      in y)"

definition lf_changeBundle :: "ModifyBundleRequest \<Rightarrow> upCertificateBundle \<Rightarrow> upCertificateBundle" where
  "lf_changeBundle r b =
     (let a = (if mcb_Name r \<noteq> '''' then b\<lparr>ucb_Name := mcb_Name r\<rparr> else b);
         c = (if mcb_Certificate r \<noteq> '''' then a\<lparr>ucb_Certificate := mcb_Certificate r\<rparr> else a);
         d = (case mcb_Intermediates r of None \<Rightarrow> c | Some s \<Rightarrow> c\<lparr>ucb_Intermediates := s\<rparr>);
         e = (if length (mcb_Hostnames r) > 0 then d\<lparr>ucb_Hostnames := mcb_Hostnames r\<rparr> else d);
         g = (if ucb_Type e = BundleTypeDynamic \<and> mcb_PrivateKey r \<noteq> ''''
         then e\<lparr>ucb_OperationalState := BundleStatePending\<rparr> else e)
      in g)"

subsection \<open>Steps that the handlers share\<close>

text \<open>
  \<open>lf_mutate\<close> is the start of a mutating handler, \<open>lf_onLB\<close>, \<open>lf_onBackend\<close> and
  \<open>lf_onFrontend\<close> the guards that look up the parent, \<open>lf_error\<close> a handler without a
  result. The writes through the pointers that the guards return are \<open>lf_putLB\<close>,
  \<open>lf_putBackend\<close> and \<open>lf_putFrontend\<close>.
\<close>

definition lf_mutate ::
  "string \<Rightarrow> (LoadBalancerFake \<Rightarrow> (err + 'r) \<times> LoadBalancerFake) \<Rightarrow> LoadBalancerFake \<Rightarrow> (err + 'r) \<times> LoadBalancerFake" where
  "lf_mutate name k f0 = (case lf_record name f0 of (Some e, f) \<Rightarrow> (Inl e, f) | (None, f) \<Rightarrow> k f)"

definition lf_onLB ::
  "string \<Rightarrow> (upLoadBalancer \<Rightarrow> LoadBalancerFake \<Rightarrow> (err + 'r) \<times> LoadBalancerFake) \<Rightarrow> LoadBalancerFake
   \<Rightarrow> (err + 'r) \<times> LoadBalancerFake" where
  "lf_onLB i k f =
     (case gm_get (lf_LoadBalancers f) i of None \<Rightarrow> (Inl (NotFound ''load balancer''), f) | Some lb \<Rightarrow> k lb f)"

definition lf_onBackend ::
  "string \<Rightarrow> string \<Rightarrow> (upLoadBalancer \<Rightarrow> upLBBackend \<Rightarrow> LoadBalancerFake \<Rightarrow> (err + 'r) \<times> LoadBalancerFake) \<Rightarrow> LoadBalancerFake
   \<Rightarrow> (err + 'r) \<times> LoadBalancerFake" where
  "lf_onBackend i b k = lf_onLB i (\<lambda>lb f.
     case lf_findBackend lb b of None \<Rightarrow> (Inl (NotFound ''load balancer backend''), f) | Some be \<Rightarrow> k lb be f)"

definition lf_onFrontend ::
  "string \<Rightarrow> string \<Rightarrow> (upLoadBalancer \<Rightarrow> upLBFrontend \<Rightarrow> LoadBalancerFake \<Rightarrow> (err + 'r) \<times> LoadBalancerFake) \<Rightarrow> LoadBalancerFake
   \<Rightarrow> (err + 'r) \<times> LoadBalancerFake" where
  "lf_onFrontend i b k = lf_onLB i (\<lambda>lb f.
     case lf_findFrontend lb b of None \<Rightarrow> (Inl (NotFound ''load balancer frontend''), f) | Some fe \<Rightarrow> k lb fe f)"

definition lf_error :: "(err + unit) \<times> LoadBalancerFake \<Rightarrow> err option \<times> LoadBalancerFake" where
  "lf_error p = (case p of (Inl e, f) \<Rightarrow> (Some e, f) | (Inr _, f) \<Rightarrow> (None, f))"

definition lf_putLB :: "string \<Rightarrow> upLoadBalancer \<Rightarrow> LoadBalancerFake \<Rightarrow> LoadBalancerFake" where
  "lf_putLB i lb f = f\<lparr>lf_LoadBalancers := gm_put i lb (lf_LoadBalancers f)\<rparr>"

definition lf_putBackend :: "string \<Rightarrow> upLoadBalancer \<Rightarrow> string \<Rightarrow> upLBBackend \<Rightarrow> LoadBalancerFake \<Rightarrow> LoadBalancerFake" where
  "lf_putBackend i lb b be f = lf_putLB i (lb\<lparr>ulb_Backends := setFirst ube_Name b be (ulb_Backends lb)\<rparr>) f"

definition lf_putFrontend :: "string \<Rightarrow> upLoadBalancer \<Rightarrow> string \<Rightarrow> upLBFrontend \<Rightarrow> LoadBalancerFake \<Rightarrow> LoadBalancerFake" where
  "lf_putFrontend i lb b fe f = lf_putLB i (lb\<lparr>ulb_Frontends := setFirst ufe_Name b fe (ulb_Frontends lb)\<rparr>) f"

subsection \<open>Load balancers\<close>

text \<open>The loop that materializes the requested networks.\<close>

fun lf_networks :: "reqLBNetwork list \<Rightarrow> LoadBalancerFake \<Rightarrow> upLBNetwork list \<times> LoadBalancerFake" where
  "lf_networks [] f = ([], f)"
| "lf_networks (n # ns) f =
     (let (u, f1) = (if rln_UUID n = '''' then lf_nextUUID ''lbnet'' f else (rln_UUID n, f));
          nw = \<lparr>uln_UUID = u, uln_Name = rln_Name n, uln_Type = rln_Type n, uln_Family = rln_Family n,
                uln_DNSName = rln_Name n @ ''.lb.upcloud.com'',
                uln_IPAddresses = (if rln_Type n = LBNetworkTypePublic
                  then [\<lparr>uia_Address = ''185.70.'' @ fmt_d (lf_seq f1 mod 200) @ ''.'' @ fmt_d (lf_seq f1 mod 250)\<rparr>] else [])\<rparr>;
          (rest, f2) = lf_networks ns f1
      in (nw # rest, f2))"

definition fake_CreateLoadBalancer ::
  "CreateLoadBalancerRequest \<Rightarrow> LoadBalancerFake \<Rightarrow> (err + upLoadBalancer) \<times> LoadBalancerFake" where
  "fake_CreateLoadBalancer r = lf_mutate ''CreateLoadBalancer'' (\<lambda>f.
     let (networks, f1) = lf_networks (clb_Networks r) f;
         (u, f2) = lf_nextUUID ''lb'' f1;
         lb = \<lparr>ulb_UUID = u, ulb_Name = clb_Name r, ulb_Zone = clb_Zone r, ulb_Plan = clb_Plan r, ulb_Networks = networks,
               ulb_Labels = clb_Labels r, ulb_ConfiguredStatus = clb_ConfiguredStatus r,
               ulb_OperationalState = LBStateRunning, ulb_Frontends = convFrontends (clb_Frontends r),
               ulb_Backends = convBackends (clb_Backends r), ulb_Resolvers = convResolvers (clb_Resolvers r),
               ulb_MaintenanceDOW = clb_MaintenanceDOW r, ulb_MaintenanceTime = clb_MaintenanceTime r, ulb_Nodes = []\<rparr>
     in (Inr (lf_copyService f2 lb), lf_putLB u lb f2))"

definition fake_GetLoadBalancers :: "unit \<Rightarrow> LoadBalancerFake \<Rightarrow> (err + upLoadBalancer list) \<times> LoadBalancerFake" where
  "fake_GetLoadBalancers r f = (let (lbs, f1) = lf_range f (lf_LoadBalancers f) in (Inr lbs, f1))"

definition fake_GetLoadBalancer :: "string \<Rightarrow> LoadBalancerFake \<Rightarrow> (err + upLoadBalancer) \<times> LoadBalancerFake" where
  "fake_GetLoadBalancer u = lf_onLB u (\<lambda>lb f. (Inr (lf_copyService f lb), f))"

definition fake_ModifyLoadBalancer ::
  "ModifyLoadBalancerRequest \<Rightarrow> LoadBalancerFake \<Rightarrow> (err + upLoadBalancer) \<times> LoadBalancerFake" where
  "fake_ModifyLoadBalancer r = lf_mutate ''ModifyLoadBalancer'' (lf_onLB (mlb_UUID r) (\<lambda>lb f.
     let g = lf_changeLB r lb
     in (Inr (lf_copyService f g), lf_putLB (mlb_UUID r) g f)))"

definition fake_DeleteLoadBalancer :: "string \<Rightarrow> LoadBalancerFake \<Rightarrow> err option \<times> LoadBalancerFake" where
  "fake_DeleteLoadBalancer u f0 = lf_error (lf_mutate ''DeleteLoadBalancer'' (lf_onLB u (\<lambda>lb f.
     if length (ulb_Frontends lb) > 0 \<or> length (ulb_Backends lb) > 0 \<or> length (ulb_Resolvers lb) > 0
     then (Inl (Conflict ''load balancer still has frontends, backends, or resolvers''), f)
     else (Inr (), f\<lparr>lf_LoadBalancers := gm_del u (lf_LoadBalancers f)\<rparr>))) f0)"

subsection \<open>Backends\<close>

definition fake_CreateLoadBalancerBackend ::
  "string \<Rightarrow> reqBackend \<Rightarrow> LoadBalancerFake \<Rightarrow> (err + upLBBackend) \<times> LoadBalancerFake" where
  "fake_CreateLoadBalancerBackend i r = lf_mutate ''CreateLoadBalancerBackend'' (lf_onLB i (\<lambda>lb f.
     if lf_findBackend lb (rbe_Name r) \<noteq> None then (Inl (Conflict ''backend already exists''), f)
     else let (t, f1) = lf_time f; x = (convBackend r)\<lparr>ube_CreatedAt := t\<rparr>
          in (Inr x, lf_putLB i (lb\<lparr>ulb_Backends := ulb_Backends lb @ [x]\<rparr>) f1)))"

definition fake_GetLoadBalancerBackends :: "string \<Rightarrow> LoadBalancerFake \<Rightarrow> (err + upLBBackend list) \<times> LoadBalancerFake" where
  "fake_GetLoadBalancerBackends i = lf_onLB i (\<lambda>lb f. (Inr (ulb_Backends lb), f))"

definition fake_GetLoadBalancerBackend :: "string \<Rightarrow> string \<Rightarrow> LoadBalancerFake \<Rightarrow> (err + upLBBackend) \<times> LoadBalancerFake" where
  "fake_GetLoadBalancerBackend i n = lf_onLB i (\<lambda>lb f.
     case lf_findBackend lb n of None \<Rightarrow> (Inl (NotFound ''load balancer backend''), f) | Some x \<Rightarrow> (Inr x, f))"

definition fake_ModifyLoadBalancerBackend ::
  "string \<Rightarrow> string \<Rightarrow> ModifyBackend \<Rightarrow> LoadBalancerFake \<Rightarrow> (err + upLBBackend) \<times> LoadBalancerFake" where
  "fake_ModifyLoadBalancerBackend i n r = lf_mutate ''ModifyLoadBalancerBackend'' (lf_onLB i (\<lambda>lb f.
     case lf_findBackend lb n of
       None \<Rightarrow> (Inl (NotFound ''load balancer backend''), f)
     | Some x \<Rightarrow>
         let y = lf_changeBackend r x
         in (Inr y, lf_putLB i (lb\<lparr>ulb_Backends := setFirst ube_Name n y (ulb_Backends lb)\<rparr>) f)))"

definition fake_DeleteLoadBalancerBackend :: "string \<Rightarrow> string \<Rightarrow> LoadBalancerFake \<Rightarrow> err option \<times> LoadBalancerFake" where
  "fake_DeleteLoadBalancerBackend i n f0 = lf_error (lf_mutate ''DeleteLoadBalancerBackend'' (lf_onLB i (\<lambda>lb f.
     case findBy ube_Name (ulb_Backends lb) n of
       None \<Rightarrow> (Inl (NotFound ''load balancer backend''), f)
     | Some x \<Rightarrow> (Inr (), lf_putLB i (lb\<lparr>ulb_Backends := dropFirst ube_Name n (ulb_Backends lb)\<rparr>) f))) f0)"

subsection \<open>Backend members\<close>

definition fake_CreateLoadBalancerBackendMember ::
  "string \<Rightarrow> string \<Rightarrow> reqMember \<Rightarrow> LoadBalancerFake \<Rightarrow> (err + upLBMember) \<times> LoadBalancerFake" where
  "fake_CreateLoadBalancerBackendMember i b r = lf_mutate ''CreateLoadBalancerBackendMember'' (lf_onBackend i b (\<lambda>lb be f.
     if lf_findMember be (rbm_Name r) \<noteq> None then (Inl (Conflict ''backend member already exists''), f)
     else let (t, f1) = lf_time f; x = (convMember r)\<lparr>ubm_CreatedAt := t\<rparr>
          in (Inr x, lf_putBackend i lb b (be\<lparr>ube_Members := ube_Members be @ [x]\<rparr>) f1)))"

definition fake_GetLoadBalancerBackendMembers :: "string \<Rightarrow> string \<Rightarrow> LoadBalancerFake \<Rightarrow> (err + upLBMember list) \<times> LoadBalancerFake" where
  "fake_GetLoadBalancerBackendMembers i b = lf_onBackend i b (\<lambda>lb be f. (Inr (ube_Members be), f))"

definition fake_GetLoadBalancerBackendMember :: "string \<Rightarrow> string \<Rightarrow> string \<Rightarrow> LoadBalancerFake \<Rightarrow> (err + upLBMember) \<times> LoadBalancerFake" where
  "fake_GetLoadBalancerBackendMember i b n = lf_onBackend i b (\<lambda>lb be f.
     case lf_findMember be n of None \<Rightarrow> (Inl (NotFound ''load balancer backend member''), f) | Some x \<Rightarrow> (Inr x, f))"

definition fake_ModifyLoadBalancerBackendMember ::
  "string \<Rightarrow> string \<Rightarrow> string \<Rightarrow> ModifyMember \<Rightarrow> LoadBalancerFake \<Rightarrow> (err + upLBMember) \<times> LoadBalancerFake" where
  "fake_ModifyLoadBalancerBackendMember i b n r = lf_mutate ''ModifyLoadBalancerBackendMember'' (lf_onBackend i b (\<lambda>lb be f.
     case lf_findMember be n of
       None \<Rightarrow> (Inl (NotFound ''load balancer backend member''), f)
     | Some x \<Rightarrow>
         let y = lf_changeMember r x
         in (Inr y, lf_putBackend i lb b (be\<lparr>ube_Members := setFirst ubm_Name n y (ube_Members be)\<rparr>) f)))"

definition fake_DeleteLoadBalancerBackendMember :: "string \<Rightarrow> string \<Rightarrow> string \<Rightarrow> LoadBalancerFake \<Rightarrow> err option \<times> LoadBalancerFake" where
  "fake_DeleteLoadBalancerBackendMember i b n f0 = lf_error (lf_mutate ''DeleteLoadBalancerBackendMember'' (lf_onBackend i b (\<lambda>lb be f.
     case findBy ubm_Name (ube_Members be) n of
       None \<Rightarrow> (Inl (NotFound ''load balancer backend member''), f)
     | Some x \<Rightarrow> (Inr (), lf_putBackend i lb b (be\<lparr>ube_Members := dropFirst ubm_Name n (ube_Members be)\<rparr>) f))) f0)"

subsection \<open>Backend TLS configurations\<close>

definition fake_CreateLoadBalancerBackendTLSConfig ::
  "string \<Rightarrow> string \<Rightarrow> reqTLSConfig \<Rightarrow> LoadBalancerFake \<Rightarrow> (err + upTLSConfig) \<times> LoadBalancerFake" where
  "fake_CreateLoadBalancerBackendTLSConfig i b r = lf_mutate ''CreateLoadBalancerBackendTLSConfig'' (lf_onBackend i b (\<lambda>lb be f.
     if lf_findBackendTLS be (rtc_Name r) \<noteq> None then (Inl (Conflict ''backend TLS config already exists''), f)
     else let (t, f1) = lf_time f; x = (convBackendTLS r)\<lparr>utc_CreatedAt := t\<rparr>
          in (Inr x, lf_putBackend i lb b (be\<lparr>ube_TLSConfigs := ube_TLSConfigs be @ [x]\<rparr>) f1)))"

definition fake_GetLoadBalancerBackendTLSConfigs :: "string \<Rightarrow> string \<Rightarrow> LoadBalancerFake \<Rightarrow> (err + upTLSConfig list) \<times> LoadBalancerFake" where
  "fake_GetLoadBalancerBackendTLSConfigs i b = lf_onBackend i b (\<lambda>lb be f. (Inr (ube_TLSConfigs be), f))"

definition fake_GetLoadBalancerBackendTLSConfig :: "string \<Rightarrow> string \<Rightarrow> string \<Rightarrow> LoadBalancerFake \<Rightarrow> (err + upTLSConfig) \<times> LoadBalancerFake" where
  "fake_GetLoadBalancerBackendTLSConfig i b n = lf_onBackend i b (\<lambda>lb be f.
     case lf_findBackendTLS be n of None \<Rightarrow> (Inl (NotFound ''load balancer backend TLS config''), f) | Some x \<Rightarrow> (Inr x, f))"

definition fake_ModifyLoadBalancerBackendTLSConfig ::
  "string \<Rightarrow> string \<Rightarrow> string \<Rightarrow> reqTLSConfig \<Rightarrow> LoadBalancerFake \<Rightarrow> (err + upTLSConfig) \<times> LoadBalancerFake" where
  "fake_ModifyLoadBalancerBackendTLSConfig i b n r = lf_mutate ''ModifyLoadBalancerBackendTLSConfig'' (lf_onBackend i b (\<lambda>lb be f.
     case lf_findBackendTLS be n of
       None \<Rightarrow> (Inl (NotFound ''load balancer backend TLS config''), f)
     | Some x \<Rightarrow>
         let y = x\<lparr>utc_CertificateBundleUUID := rtc_CertificateBundleUUID r\<rparr>
         in (Inr y, lf_putBackend i lb b (be\<lparr>ube_TLSConfigs := setFirst utc_Name n y (ube_TLSConfigs be)\<rparr>) f)))"

definition fake_DeleteLoadBalancerBackendTLSConfig :: "string \<Rightarrow> string \<Rightarrow> string \<Rightarrow> LoadBalancerFake \<Rightarrow> err option \<times> LoadBalancerFake" where
  "fake_DeleteLoadBalancerBackendTLSConfig i b n f0 = lf_error (lf_mutate ''DeleteLoadBalancerBackendTLSConfig'' (lf_onBackend i b (\<lambda>lb be f.
     case findBy utc_Name (ube_TLSConfigs be) n of
       None \<Rightarrow> (Inl (NotFound ''load balancer backend TLS config''), f)
     | Some x \<Rightarrow> (Inr (), lf_putBackend i lb b (be\<lparr>ube_TLSConfigs := dropFirst utc_Name n (ube_TLSConfigs be)\<rparr>) f))) f0)"

subsection \<open>Resolvers\<close>

definition fake_CreateLoadBalancerResolver ::
  "string \<Rightarrow> reqResolver \<Rightarrow> LoadBalancerFake \<Rightarrow> (err + upLBResolver) \<times> LoadBalancerFake" where
  "fake_CreateLoadBalancerResolver i r = lf_mutate ''CreateLoadBalancerResolver'' (lf_onLB i (\<lambda>lb f.
     if lf_findResolver lb (rrs_Name r) \<noteq> None then (Inl (Conflict ''resolver already exists''), f)
     else let (t, f1) = lf_time f; x = (convResolver r)\<lparr>urs_CreatedAt := t\<rparr>
          in (Inr x, lf_putLB i (lb\<lparr>ulb_Resolvers := ulb_Resolvers lb @ [x]\<rparr>) f1)))"

definition fake_GetLoadBalancerResolvers :: "string \<Rightarrow> LoadBalancerFake \<Rightarrow> (err + upLBResolver list) \<times> LoadBalancerFake" where
  "fake_GetLoadBalancerResolvers i = lf_onLB i (\<lambda>lb f. (Inr (ulb_Resolvers lb), f))"

definition fake_GetLoadBalancerResolver :: "string \<Rightarrow> string \<Rightarrow> LoadBalancerFake \<Rightarrow> (err + upLBResolver) \<times> LoadBalancerFake" where
  "fake_GetLoadBalancerResolver i n = lf_onLB i (\<lambda>lb f.
     case lf_findResolver lb n of None \<Rightarrow> (Inl (NotFound ''load balancer resolver''), f) | Some x \<Rightarrow> (Inr x, f))"

definition fake_ModifyLoadBalancerResolver ::
  "string \<Rightarrow> string \<Rightarrow> reqResolver \<Rightarrow> LoadBalancerFake \<Rightarrow> (err + upLBResolver) \<times> LoadBalancerFake" where
  "fake_ModifyLoadBalancerResolver i n r = lf_mutate ''ModifyLoadBalancerResolver'' (lf_onLB i (\<lambda>lb f.
     case lf_findResolver lb n of
       None \<Rightarrow> (Inl (NotFound ''load balancer resolver''), f)
     | Some x \<Rightarrow>
         let y = (convResolver r)\<lparr>urs_CreatedAt := urs_CreatedAt x\<rparr>
         in (Inr y, lf_putLB i (lb\<lparr>ulb_Resolvers := setFirst urs_Name n y (ulb_Resolvers lb)\<rparr>) f)))"

definition fake_DeleteLoadBalancerResolver :: "string \<Rightarrow> string \<Rightarrow> LoadBalancerFake \<Rightarrow> err option \<times> LoadBalancerFake" where
  "fake_DeleteLoadBalancerResolver i n f0 = lf_error (lf_mutate ''DeleteLoadBalancerResolver'' (lf_onLB i (\<lambda>lb f.
     case findBy urs_Name (ulb_Resolvers lb) n of
       None \<Rightarrow> (Inl (NotFound ''load balancer resolver''), f)
     | Some x \<Rightarrow> (Inr (), lf_putLB i (lb\<lparr>ulb_Resolvers := dropFirst urs_Name n (ulb_Resolvers lb)\<rparr>) f))) f0)"

subsection \<open>Frontends\<close>

definition fake_CreateLoadBalancerFrontend ::
  "string \<Rightarrow> reqFrontend \<Rightarrow> LoadBalancerFake \<Rightarrow> (err + upLBFrontend) \<times> LoadBalancerFake" where
  "fake_CreateLoadBalancerFrontend i r = lf_mutate ''CreateLoadBalancerFrontend'' (lf_onLB i (\<lambda>lb f.
     if lf_findFrontend lb (rfe_Name r) \<noteq> None then (Inl (Conflict ''frontend already exists''), f)
     else let (t, f1) = lf_time f; x = (convFrontend r)\<lparr>ufe_CreatedAt := t\<rparr>
          in (Inr x, lf_putLB i (lb\<lparr>ulb_Frontends := ulb_Frontends lb @ [x]\<rparr>) f1)))"

definition fake_GetLoadBalancerFrontends :: "string \<Rightarrow> LoadBalancerFake \<Rightarrow> (err + upLBFrontend list) \<times> LoadBalancerFake" where
  "fake_GetLoadBalancerFrontends i = lf_onLB i (\<lambda>lb f. (Inr (ulb_Frontends lb), f))"

definition fake_GetLoadBalancerFrontend :: "string \<Rightarrow> string \<Rightarrow> LoadBalancerFake \<Rightarrow> (err + upLBFrontend) \<times> LoadBalancerFake" where
  "fake_GetLoadBalancerFrontend i n = lf_onLB i (\<lambda>lb f.
     case lf_findFrontend lb n of None \<Rightarrow> (Inl (NotFound ''load balancer frontend''), f) | Some x \<Rightarrow> (Inr x, f))"

definition fake_ModifyLoadBalancerFrontend ::
  "string \<Rightarrow> string \<Rightarrow> ModifyFrontend \<Rightarrow> LoadBalancerFake \<Rightarrow> (err + upLBFrontend) \<times> LoadBalancerFake" where
  "fake_ModifyLoadBalancerFrontend i n r = lf_mutate ''ModifyLoadBalancerFrontend'' (lf_onLB i (\<lambda>lb f.
     case lf_findFrontend lb n of
       None \<Rightarrow> (Inl (NotFound ''load balancer frontend''), f)
     | Some x \<Rightarrow>
         let y = lf_changeFrontend r x
         in (Inr y, lf_putLB i (lb\<lparr>ulb_Frontends := setFirst ufe_Name n y (ulb_Frontends lb)\<rparr>) f)))"

definition fake_DeleteLoadBalancerFrontend :: "string \<Rightarrow> string \<Rightarrow> LoadBalancerFake \<Rightarrow> err option \<times> LoadBalancerFake" where
  "fake_DeleteLoadBalancerFrontend i n f0 = lf_error (lf_mutate ''DeleteLoadBalancerFrontend'' (lf_onLB i (\<lambda>lb f.
     case findBy ufe_Name (ulb_Frontends lb) n of
       None \<Rightarrow> (Inl (NotFound ''load balancer frontend''), f)
     | Some x \<Rightarrow> (Inr (), lf_putLB i (lb\<lparr>ulb_Frontends := dropFirst ufe_Name n (ulb_Frontends lb)\<rparr>) f))) f0)"

subsection \<open>Frontend rules\<close>

definition fake_CreateLoadBalancerFrontendRule ::
  "string \<Rightarrow> string \<Rightarrow> reqRule \<Rightarrow> LoadBalancerFake \<Rightarrow> (err + upLBRule) \<times> LoadBalancerFake" where
  "fake_CreateLoadBalancerFrontendRule i b r = lf_mutate ''CreateLoadBalancerFrontendRule'' (lf_onFrontend i b (\<lambda>lb fe f.
     if lf_findRule fe (rru_Name r) \<noteq> None then (Inl (Conflict ''frontend rule already exists''), f)
     else let (t, f1) = lf_time f; x = (convRule r)\<lparr>ulr_CreatedAt := t\<rparr>
          in (Inr x, lf_putFrontend i lb b (fe\<lparr>ufe_Rules := ufe_Rules fe @ [x]\<rparr>) f1)))"

definition fake_GetLoadBalancerFrontendRules :: "string \<Rightarrow> string \<Rightarrow> LoadBalancerFake \<Rightarrow> (err + upLBRule list) \<times> LoadBalancerFake" where
  "fake_GetLoadBalancerFrontendRules i b = lf_onFrontend i b (\<lambda>lb fe f. (Inr (ufe_Rules fe), f))"

definition fake_GetLoadBalancerFrontendRule :: "string \<Rightarrow> string \<Rightarrow> string \<Rightarrow> LoadBalancerFake \<Rightarrow> (err + upLBRule) \<times> LoadBalancerFake" where
  "fake_GetLoadBalancerFrontendRule i b n = lf_onFrontend i b (\<lambda>lb fe f.
     case lf_findRule fe n of None \<Rightarrow> (Inl (NotFound ''load balancer frontend rule''), f) | Some x \<Rightarrow> (Inr x, f))"

definition fake_ReplaceLoadBalancerFrontendRule ::
  "string \<Rightarrow> string \<Rightarrow> string \<Rightarrow> reqRule \<Rightarrow> LoadBalancerFake \<Rightarrow> (err + upLBRule) \<times> LoadBalancerFake" where
  "fake_ReplaceLoadBalancerFrontendRule i b n r = lf_mutate ''ReplaceLoadBalancerFrontendRule'' (lf_onFrontend i b (\<lambda>lb fe f.
     let (t, f1) = lf_time f; y = (convRule r)\<lparr>ulr_UpdatedAt := t\<rparr> in
     case findBy ulr_Name (ufe_Rules fe) (ulr_Name y) of
       Some x \<Rightarrow> (Inr y, lf_putFrontend i lb b (fe\<lparr>ufe_Rules := setFirst ulr_Name (ulr_Name y) y (ufe_Rules fe)\<rparr>) f1)
     | None \<Rightarrow> (Inr y, lf_putFrontend i lb b (fe\<lparr>ufe_Rules := ufe_Rules fe @ [y]\<rparr>) f1)))"

definition fake_DeleteLoadBalancerFrontendRule :: "string \<Rightarrow> string \<Rightarrow> string \<Rightarrow> LoadBalancerFake \<Rightarrow> err option \<times> LoadBalancerFake" where
  "fake_DeleteLoadBalancerFrontendRule i b n f0 = lf_error (lf_mutate ''DeleteLoadBalancerFrontendRule'' (lf_onFrontend i b (\<lambda>lb fe f.
     case findBy ulr_Name (ufe_Rules fe) n of
       None \<Rightarrow> (Inl (NotFound ''load balancer frontend rule''), f)
     | Some x \<Rightarrow> (Inr (), lf_putFrontend i lb b (fe\<lparr>ufe_Rules := dropFirst ulr_Name n (ufe_Rules fe)\<rparr>) f))) f0)"

subsection \<open>Frontend TLS configurations\<close>

definition fake_CreateLoadBalancerFrontendTLSConfig ::
  "string \<Rightarrow> string \<Rightarrow> reqTLSConfig \<Rightarrow> LoadBalancerFake \<Rightarrow> (err + upTLSConfig) \<times> LoadBalancerFake" where
  "fake_CreateLoadBalancerFrontendTLSConfig i b r = lf_mutate ''CreateLoadBalancerFrontendTLSConfig'' (lf_onFrontend i b (\<lambda>lb fe f.
     if lf_findFrontendTLS fe (rtc_Name r) \<noteq> None then (Inl (Conflict ''frontend TLS config already exists''), f)
     else let (t, f1) = lf_time f; x = (\<lparr>utc_Name = rtc_Name r, utc_CertificateBundleUUID = rtc_CertificateBundleUUID r, utc_CreatedAt = zeroTime\<rparr>)\<lparr>utc_CreatedAt := t\<rparr>
          in (Inr x, lf_putFrontend i lb b (fe\<lparr>ufe_TLSConfigs := ufe_TLSConfigs fe @ [x]\<rparr>) f1)))"

definition fake_GetLoadBalancerFrontendTLSConfigs :: "string \<Rightarrow> string \<Rightarrow> LoadBalancerFake \<Rightarrow> (err + upTLSConfig list) \<times> LoadBalancerFake" where
  "fake_GetLoadBalancerFrontendTLSConfigs i b = lf_onFrontend i b (\<lambda>lb fe f. (Inr (ufe_TLSConfigs fe), f))"

definition fake_GetLoadBalancerFrontendTLSConfig :: "string \<Rightarrow> string \<Rightarrow> string \<Rightarrow> LoadBalancerFake \<Rightarrow> (err + upTLSConfig) \<times> LoadBalancerFake" where
  "fake_GetLoadBalancerFrontendTLSConfig i b n = lf_onFrontend i b (\<lambda>lb fe f.
     case lf_findFrontendTLS fe n of None \<Rightarrow> (Inl (NotFound ''load balancer frontend TLS config''), f) | Some x \<Rightarrow> (Inr x, f))"

definition fake_ModifyLoadBalancerFrontendTLSConfig ::
  "string \<Rightarrow> string \<Rightarrow> string \<Rightarrow> reqTLSConfig \<Rightarrow> LoadBalancerFake \<Rightarrow> (err + upTLSConfig) \<times> LoadBalancerFake" where
  "fake_ModifyLoadBalancerFrontendTLSConfig i b n r = lf_mutate ''ModifyLoadBalancerFrontendTLSConfig'' (lf_onFrontend i b (\<lambda>lb fe f.
     case lf_findFrontendTLS fe n of
       None \<Rightarrow> (Inl (NotFound ''load balancer frontend TLS config''), f)
     | Some x \<Rightarrow>
         let y = x\<lparr>utc_CertificateBundleUUID := rtc_CertificateBundleUUID r\<rparr>
         in (Inr y, lf_putFrontend i lb b (fe\<lparr>ufe_TLSConfigs := setFirst utc_Name n y (ufe_TLSConfigs fe)\<rparr>) f)))"

definition fake_DeleteLoadBalancerFrontendTLSConfig :: "string \<Rightarrow> string \<Rightarrow> string \<Rightarrow> LoadBalancerFake \<Rightarrow> err option \<times> LoadBalancerFake" where
  "fake_DeleteLoadBalancerFrontendTLSConfig i b n f0 = lf_error (lf_mutate ''DeleteLoadBalancerFrontendTLSConfig'' (lf_onFrontend i b (\<lambda>lb fe f.
     case findBy utc_Name (ufe_TLSConfigs fe) n of
       None \<Rightarrow> (Inl (NotFound ''load balancer frontend TLS config''), f)
     | Some x \<Rightarrow> (Inr (), lf_putFrontend i lb b (fe\<lparr>ufe_TLSConfigs := dropFirst utc_Name n (ufe_TLSConfigs fe)\<rparr>) f))) f0)"

subsection \<open>Certificate bundles\<close>

definition lf_putBundle :: "string \<Rightarrow> upCertificateBundle \<Rightarrow> LoadBalancerFake \<Rightarrow> LoadBalancerFake" where
  "lf_putBundle u b f = f\<lparr>lf_CertificateBundles := gm_put u b (lf_CertificateBundles f)\<rparr>"

definition fake_CreateLoadBalancerCertificateBundle ::
  "CreateBundleRequest \<Rightarrow> LoadBalancerFake \<Rightarrow> (err + upCertificateBundle) \<times> LoadBalancerFake" where
  "fake_CreateLoadBalancerCertificateBundle r = lf_mutate ''CreateLoadBalancerCertificateBundle'' (\<lambda>f.
     let state = (if ccb_Type r = BundleTypeDynamic then BundleStatePending else BundleStateIdle);
         (u, f1) = lf_nextUUID ''cb'' f;
         (t1, f2) = lf_time f1;
         (t2, f3) = lf_time f2;
         bundle = \<lparr>ucb_UUID = u, ucb_Name = ccb_Name r, ucb_Type = ccb_Type r, ucb_Certificate = ccb_Certificate r,
                   ucb_Intermediates = ccb_Intermediates r, ucb_Hostnames = ccb_Hostnames r, ucb_KeyType = ccb_KeyType r,
                   ucb_OperationalState = state, ucb_NotBefore = Time_Add (hours (-1)) t1,
                   ucb_NotAfter = Time_Add (hours (365 * 24)) t2\<rparr>
     in (Inr (lf_copyBundle f3 bundle), lf_putBundle u bundle f3))"

definition fake_GetLoadBalancerCertificateBundles ::
  "unit \<Rightarrow> LoadBalancerFake \<Rightarrow> (err + upCertificateBundle list) \<times> LoadBalancerFake" where
  "fake_GetLoadBalancerCertificateBundles r f = (let (bs, f1) = lf_range f (lf_CertificateBundles f) in (Inr bs, f1))"

definition fake_GetLoadBalancerCertificateBundle ::
  "string \<Rightarrow> LoadBalancerFake \<Rightarrow> (err + upCertificateBundle) \<times> LoadBalancerFake" where
  "fake_GetLoadBalancerCertificateBundle u f =
     (case gm_get (lf_CertificateBundles f) u of
        None \<Rightarrow> (Inl (NotFound ''certificate bundle''), f)
      | Some b \<Rightarrow> (Inr (lf_copyBundle f b), f))"

definition fake_ModifyLoadBalancerCertificateBundle ::
  "ModifyBundleRequest \<Rightarrow> LoadBalancerFake \<Rightarrow> (err + upCertificateBundle) \<times> LoadBalancerFake" where
  "fake_ModifyLoadBalancerCertificateBundle r = lf_mutate ''ModifyLoadBalancerCertificateBundle'' (\<lambda>f.
     case gm_get (lf_CertificateBundles f) (mcb_UUID r) of
       None \<Rightarrow> (Inl (NotFound ''certificate bundle''), f)
     | Some b \<Rightarrow>
         let g = lf_changeBundle r b
         in (Inr (lf_copyBundle f g), lf_putBundle (mcb_UUID r) g f))"

definition fake_DeleteLoadBalancerCertificateBundle :: "string \<Rightarrow> LoadBalancerFake \<Rightarrow> err option \<times> LoadBalancerFake" where
  "fake_DeleteLoadBalancerCertificateBundle u f0 = lf_error (lf_mutate ''DeleteLoadBalancerCertificateBundle'' (\<lambda>f.
     case gm_get (lf_CertificateBundles f) u of
       None \<Rightarrow> (Inl (NotFound ''certificate bundle''), f)
     | Some b \<Rightarrow> (Inr (), f\<lparr>lf_CertificateBundles := gm_del u (lf_CertificateBundles f)\<rparr>)) f0)"

subsection \<open>The service\<close>

definition fakeLoadBalancerAPI :: "LoadBalancerFake LoadBalancerAPI" where
  "fakeLoadBalancerAPI =
     \<lparr>CreateLoadBalancer = fake_CreateLoadBalancer,
      GetLoadBalancers = fake_GetLoadBalancers,
      GetLoadBalancer = fake_GetLoadBalancer,
      ModifyLoadBalancer = fake_ModifyLoadBalancer,
      DeleteLoadBalancer = fake_DeleteLoadBalancer,
      CreateLoadBalancerBackend = fake_CreateLoadBalancerBackend,
      GetLoadBalancerBackends = fake_GetLoadBalancerBackends,
      GetLoadBalancerBackend = fake_GetLoadBalancerBackend,
      ModifyLoadBalancerBackend = fake_ModifyLoadBalancerBackend,
      DeleteLoadBalancerBackend = fake_DeleteLoadBalancerBackend,
      CreateLoadBalancerBackendMember = fake_CreateLoadBalancerBackendMember,
      GetLoadBalancerBackendMembers = fake_GetLoadBalancerBackendMembers,
      GetLoadBalancerBackendMember = fake_GetLoadBalancerBackendMember,
      ModifyLoadBalancerBackendMember = fake_ModifyLoadBalancerBackendMember,
      DeleteLoadBalancerBackendMember = fake_DeleteLoadBalancerBackendMember,
      CreateLoadBalancerBackendTLSConfig = fake_CreateLoadBalancerBackendTLSConfig,
      GetLoadBalancerBackendTLSConfigs = fake_GetLoadBalancerBackendTLSConfigs,
      GetLoadBalancerBackendTLSConfig = fake_GetLoadBalancerBackendTLSConfig,
      ModifyLoadBalancerBackendTLSConfig = fake_ModifyLoadBalancerBackendTLSConfig,
      DeleteLoadBalancerBackendTLSConfig = fake_DeleteLoadBalancerBackendTLSConfig,
      CreateLoadBalancerResolver = fake_CreateLoadBalancerResolver,
      GetLoadBalancerResolvers = fake_GetLoadBalancerResolvers,
      GetLoadBalancerResolver = fake_GetLoadBalancerResolver,
      ModifyLoadBalancerResolver = fake_ModifyLoadBalancerResolver,
      DeleteLoadBalancerResolver = fake_DeleteLoadBalancerResolver,
      CreateLoadBalancerFrontend = fake_CreateLoadBalancerFrontend,
      GetLoadBalancerFrontends = fake_GetLoadBalancerFrontends,
      GetLoadBalancerFrontend = fake_GetLoadBalancerFrontend,
      ModifyLoadBalancerFrontend = fake_ModifyLoadBalancerFrontend,
      DeleteLoadBalancerFrontend = fake_DeleteLoadBalancerFrontend,
      CreateLoadBalancerFrontendRule = fake_CreateLoadBalancerFrontendRule,
      GetLoadBalancerFrontendRules = fake_GetLoadBalancerFrontendRules,
      GetLoadBalancerFrontendRule = fake_GetLoadBalancerFrontendRule,
      ReplaceLoadBalancerFrontendRule = fake_ReplaceLoadBalancerFrontendRule,
      DeleteLoadBalancerFrontendRule = fake_DeleteLoadBalancerFrontendRule,
      CreateLoadBalancerFrontendTLSConfig = fake_CreateLoadBalancerFrontendTLSConfig,
      GetLoadBalancerFrontendTLSConfigs = fake_GetLoadBalancerFrontendTLSConfigs,
      GetLoadBalancerFrontendTLSConfig = fake_GetLoadBalancerFrontendTLSConfig,
      ModifyLoadBalancerFrontendTLSConfig = fake_ModifyLoadBalancerFrontendTLSConfig,
      DeleteLoadBalancerFrontendTLSConfig = fake_DeleteLoadBalancerFrontendTLSConfig,
      CreateLoadBalancerCertificateBundle = fake_CreateLoadBalancerCertificateBundle,
      GetLoadBalancerCertificateBundles = fake_GetLoadBalancerCertificateBundles,
      GetLoadBalancerCertificateBundle = fake_GetLoadBalancerCertificateBundle,
      ModifyLoadBalancerCertificateBundle = fake_ModifyLoadBalancerCertificateBundle,
      DeleteLoadBalancerCertificateBundle = fake_DeleteLoadBalancerCertificateBundle\<rparr>"

lemma fakeLoadBalancerAPI_sel [simp]:
  "CreateLoadBalancer fakeLoadBalancerAPI = fake_CreateLoadBalancer"
  "GetLoadBalancers fakeLoadBalancerAPI = fake_GetLoadBalancers"
  "GetLoadBalancer fakeLoadBalancerAPI = fake_GetLoadBalancer"
  "ModifyLoadBalancer fakeLoadBalancerAPI = fake_ModifyLoadBalancer"
  "DeleteLoadBalancer fakeLoadBalancerAPI = fake_DeleteLoadBalancer"
  "CreateLoadBalancerBackend fakeLoadBalancerAPI = fake_CreateLoadBalancerBackend"
  "GetLoadBalancerBackends fakeLoadBalancerAPI = fake_GetLoadBalancerBackends"
  "GetLoadBalancerBackend fakeLoadBalancerAPI = fake_GetLoadBalancerBackend"
  "ModifyLoadBalancerBackend fakeLoadBalancerAPI = fake_ModifyLoadBalancerBackend"
  "DeleteLoadBalancerBackend fakeLoadBalancerAPI = fake_DeleteLoadBalancerBackend"
  "CreateLoadBalancerBackendMember fakeLoadBalancerAPI = fake_CreateLoadBalancerBackendMember"
  "GetLoadBalancerBackendMembers fakeLoadBalancerAPI = fake_GetLoadBalancerBackendMembers"
  "GetLoadBalancerBackendMember fakeLoadBalancerAPI = fake_GetLoadBalancerBackendMember"
  "ModifyLoadBalancerBackendMember fakeLoadBalancerAPI = fake_ModifyLoadBalancerBackendMember"
  "DeleteLoadBalancerBackendMember fakeLoadBalancerAPI = fake_DeleteLoadBalancerBackendMember"
  "CreateLoadBalancerBackendTLSConfig fakeLoadBalancerAPI = fake_CreateLoadBalancerBackendTLSConfig"
  "GetLoadBalancerBackendTLSConfigs fakeLoadBalancerAPI = fake_GetLoadBalancerBackendTLSConfigs"
  "GetLoadBalancerBackendTLSConfig fakeLoadBalancerAPI = fake_GetLoadBalancerBackendTLSConfig"
  "ModifyLoadBalancerBackendTLSConfig fakeLoadBalancerAPI = fake_ModifyLoadBalancerBackendTLSConfig"
  "DeleteLoadBalancerBackendTLSConfig fakeLoadBalancerAPI = fake_DeleteLoadBalancerBackendTLSConfig"
  "CreateLoadBalancerResolver fakeLoadBalancerAPI = fake_CreateLoadBalancerResolver"
  "GetLoadBalancerResolvers fakeLoadBalancerAPI = fake_GetLoadBalancerResolvers"
  "GetLoadBalancerResolver fakeLoadBalancerAPI = fake_GetLoadBalancerResolver"
  "ModifyLoadBalancerResolver fakeLoadBalancerAPI = fake_ModifyLoadBalancerResolver"
  "DeleteLoadBalancerResolver fakeLoadBalancerAPI = fake_DeleteLoadBalancerResolver"
  "CreateLoadBalancerFrontend fakeLoadBalancerAPI = fake_CreateLoadBalancerFrontend"
  "GetLoadBalancerFrontends fakeLoadBalancerAPI = fake_GetLoadBalancerFrontends"
  "GetLoadBalancerFrontend fakeLoadBalancerAPI = fake_GetLoadBalancerFrontend"
  "ModifyLoadBalancerFrontend fakeLoadBalancerAPI = fake_ModifyLoadBalancerFrontend"
  "DeleteLoadBalancerFrontend fakeLoadBalancerAPI = fake_DeleteLoadBalancerFrontend"
  "CreateLoadBalancerFrontendRule fakeLoadBalancerAPI = fake_CreateLoadBalancerFrontendRule"
  "GetLoadBalancerFrontendRules fakeLoadBalancerAPI = fake_GetLoadBalancerFrontendRules"
  "GetLoadBalancerFrontendRule fakeLoadBalancerAPI = fake_GetLoadBalancerFrontendRule"
  "ReplaceLoadBalancerFrontendRule fakeLoadBalancerAPI = fake_ReplaceLoadBalancerFrontendRule"
  "DeleteLoadBalancerFrontendRule fakeLoadBalancerAPI = fake_DeleteLoadBalancerFrontendRule"
  "CreateLoadBalancerFrontendTLSConfig fakeLoadBalancerAPI = fake_CreateLoadBalancerFrontendTLSConfig"
  "GetLoadBalancerFrontendTLSConfigs fakeLoadBalancerAPI = fake_GetLoadBalancerFrontendTLSConfigs"
  "GetLoadBalancerFrontendTLSConfig fakeLoadBalancerAPI = fake_GetLoadBalancerFrontendTLSConfig"
  "ModifyLoadBalancerFrontendTLSConfig fakeLoadBalancerAPI = fake_ModifyLoadBalancerFrontendTLSConfig"
  "DeleteLoadBalancerFrontendTLSConfig fakeLoadBalancerAPI = fake_DeleteLoadBalancerFrontendTLSConfig"
  "CreateLoadBalancerCertificateBundle fakeLoadBalancerAPI = fake_CreateLoadBalancerCertificateBundle"
  "GetLoadBalancerCertificateBundles fakeLoadBalancerAPI = fake_GetLoadBalancerCertificateBundles"
  "GetLoadBalancerCertificateBundle fakeLoadBalancerAPI = fake_GetLoadBalancerCertificateBundle"
  "ModifyLoadBalancerCertificateBundle fakeLoadBalancerAPI = fake_ModifyLoadBalancerCertificateBundle"
  "DeleteLoadBalancerCertificateBundle fakeLoadBalancerAPI = fake_DeleteLoadBalancerCertificateBundle"
  by (simp_all add: fakeLoadBalancerAPI_def)

end
