(* ===== verification/LoadBalancerSlices.thy ===== *)
theory LoadBalancerSlices
  imports LoadBalancerFake
begin

text \<open>
  The in-memory load balancer service keeps the contract \<open>load_balancer_service\<close>. The
  seven collections of named rows live in slices inside a load balancer, at two depths;
  the locale \<open>fake_slice\<close> says what a slice at a path is, its lemmas are the laws of the
  five calls, and each collection interprets it.
\<close>

subsection \<open>The account that the contract sees\<close>

definition backendsOf :: "upLoadBalancer \<Rightarrow> string \<Rightarrow> upLBBackend option" where
  "backendsOf lb n = map_option be_core (lf_findBackend lb n)"

definition frontendsOf :: "upLoadBalancer \<Rightarrow> string \<Rightarrow> upLBFrontend option" where
  "frontendsOf lb n = map_option fe_core (lf_findFrontend lb n)"

definition inBackend :: "(upLBBackend \<Rightarrow> string \<Rightarrow> 'r option) \<Rightarrow> upLoadBalancer \<Rightarrow> string \<Rightarrow> string \<Rightarrow> 'r option" where
  "inBackend look lb b = (case lf_findBackend lb b of None \<Rightarrow> (\<lambda>_. None) | Some be \<Rightarrow> look be)"

definition inFrontend :: "(upLBFrontend \<Rightarrow> string \<Rightarrow> 'r option) \<Rightarrow> upLoadBalancer \<Rightarrow> string \<Rightarrow> string \<Rightarrow> 'r option" where
  "inFrontend look lb b = (case lf_findFrontend lb b of None \<Rightarrow> (\<lambda>_. None) | Some fe \<Rightarrow> look fe)"

definition atLB :: "(upLoadBalancer \<Rightarrow> 'x) \<Rightarrow> 'x \<Rightarrow> LoadBalancerFake \<Rightarrow> string \<Rightarrow> 'x" where
  "atLB g z f i = (case gm_get (lf_LoadBalancers f) i of None \<Rightarrow> z | Some lb \<Rightarrow> g lb)"

definition lb_view :: "LoadBalancerFake \<Rightarrow> LBView" where
  "lb_view f =
     \<lparr>lv_LBs = \<lambda>i. map_option lb_core (gm_get (lf_LoadBalancers f) i),
      lv_Backends = atLB backendsOf (\<lambda>_. None) f,
      lv_Members = atLB (inBackend lf_findMember) (\<lambda>_ _. None) f,
      lv_BackendTLS = atLB (inBackend lf_findBackendTLS) (\<lambda>_ _. None) f,
      lv_Resolvers = atLB lf_findResolver (\<lambda>_. None) f,
      lv_Frontends = atLB frontendsOf (\<lambda>_. None) f,
      lv_Rules = atLB (inFrontend lf_findRule) (\<lambda>_ _. None) f,
      lv_FrontendTLS = atLB (inFrontend lf_findFrontendTLS) (\<lambda>_ _. None) f,
      lv_Bundles = \<lambda>i. map_option cb_core (gm_get (lf_CertificateBundles f) i)\<rparr>"

definition be_ok :: "upLBBackend \<Rightarrow> bool" where
  "be_ok b \<longleftrightarrow> distinct (map ubm_Name (ube_Members b)) \<and> distinct (map utc_Name (ube_TLSConfigs b))"

definition fe_ok :: "upLBFrontend \<Rightarrow> bool" where
  "fe_ok f \<longleftrightarrow> distinct (map ulr_Name (ufe_Rules f)) \<and> distinct (map utc_Name (ufe_TLSConfigs f))"

definition lb_ok :: "upLoadBalancer \<Rightarrow> bool" where
  "lb_ok lb \<longleftrightarrow> distinct (map ube_Name (ulb_Backends lb)) \<and> list_all be_ok (ulb_Backends lb) \<and>
     distinct (map ufe_Name (ulb_Frontends lb)) \<and> list_all fe_ok (ulb_Frontends lb) \<and>
     distinct (map urs_Name (ulb_Resolvers lb))"

definition lf_inv :: "LoadBalancerFake \<Rightarrow> bool" where
  "lf_inv f \<longleftrightarrow>
     fresh_table ulb_UUID (uuid_ids ''lb'') (lf_seq f) (lf_LoadBalancers f) \<and>
     fresh_table ucb_UUID (uuid_ids ''cb'') (lf_seq f) (lf_CertificateBundles f) \<and>
     (\<forall>i lb. gm_get (lf_LoadBalancers f) i = Some lb \<longrightarrow> lb_ok lb) \<and> honest (lf_FailNext f)"

lemma lf_inv_New [simp]: "lf_inv NewLoadBalancerAPI"
  by (simp add: lf_inv_def NewLoadBalancerAPI_def)

lemma lf_invD:
  assumes "lf_inv f"
  shows "fresh_table ulb_UUID (uuid_ids ''lb'') (lf_seq f) (lf_LoadBalancers f)"
    "fresh_table ucb_UUID (uuid_ids ''cb'') (lf_seq f) (lf_CertificateBundles f)"
    "gm_get (lf_LoadBalancers f) i = Some lb \<Longrightarrow> lb_ok lb" "honest (lf_FailNext f)"
  using assms unfolding lf_inv_def by blast+

lemma lf_inv_Suc [simp]: "lf_inv f \<Longrightarrow> lf_inv (f\<lparr>lf_seq := Suc (lf_seq f)\<rparr>)"
  by (simp add: lf_inv_def)

lemma lb_view_cong:
  assumes "lf_LoadBalancers g = lf_LoadBalancers f" "lf_CertificateBundles g = lf_CertificateBundles f"
  shows "lb_view g = lb_view f"
  using assms by (simp add: lb_view_def atLB_def fun_eq_iff)

lemma lb_view_updates [simp]:
  "lb_view (f\<lparr>lf_seq := n\<rparr>) = lb_view f" "lb_view (f\<lparr>lf_tick := n\<rparr>) = lb_view f"
  by (rule lb_view_cong; simp)+

lemma lf_record_cases:
  assumes "lf_inv f" and "lf_record n f = (e, g)"
  shows "lf_inv g" "lb_view g = lb_view f" "\<not> IsNotFound e" "lf_LoadBalancers g = lf_LoadBalancers f"
    "lf_CertificateBundles g = lf_CertificateBundles f"
proof -
  have g: "lf_LoadBalancers g = lf_LoadBalancers f" "lf_CertificateBundles g = lf_CertificateBundles f"
    "lf_seq g = lf_seq f" "honest (lf_FailNext g)" "honest e"
    using assms by (auto simp: lf_record_def lf_inv_def Let_def split: option.splits)
  then show "lf_LoadBalancers g = lf_LoadBalancers f" "lf_CertificateBundles g = lf_CertificateBundles f"
    "\<not> IsNotFound e" by (simp_all add: honest_def)
  show "lf_inv g" using assms(1) g by (simp add: lf_inv_def)
  show "lb_view g = lb_view f" using g(1,2) by (rule lb_view_cong)
qed

lemma lf_time_keeps:
  assumes "lf_time f = (t, g)"
  shows "lf_inv g = lf_inv f" "lb_view g = lb_view f" "lf_LoadBalancers g = lf_LoadBalancers f"
    "lf_CertificateBundles g = lf_CertificateBundles f" "lf_seq g = lf_seq f" "lf_FailNext g = lf_FailNext f"
  using assms by (auto simp: lf_time_def lf_inv_def)

subsection \<open>Stores\<close>

lemma atLB_put: "atLB g z (lf_putLB i lb f) = (atLB g z f)(i := g lb)"
  by (simp add: atLB_def lf_putLB_def fun_eq_iff)

lemma atLB_here: "gm_get (lf_LoadBalancers f) i = Some lb \<Longrightarrow> (atLB g z f)(i := g lb) = atLB g z f"
  by (simp add: atLB_def fun_eq_iff)

lemma lb_view_put:
  "lb_view (lf_putLB i lb f) = (lb_view f)
     \<lparr>lv_LBs := (lv_LBs (lb_view f))(i \<mapsto> lb_core lb), lv_Backends := (lv_Backends (lb_view f))(i := backendsOf lb),
      lv_Members := (lv_Members (lb_view f))(i := inBackend lf_findMember lb),
      lv_BackendTLS := (lv_BackendTLS (lb_view f))(i := inBackend lf_findBackendTLS lb),
      lv_Resolvers := (lv_Resolvers (lb_view f))(i := lf_findResolver lb),
      lv_Frontends := (lv_Frontends (lb_view f))(i := frontendsOf lb),
      lv_Rules := (lv_Rules (lb_view f))(i := inFrontend lf_findRule lb),
      lv_FrontendTLS := (lv_FrontendTLS (lb_view f))(i := inFrontend lf_findFrontendTLS lb)\<rparr>"
  by (simp add: lb_view_def atLB_put) (simp add: lf_putLB_def fun_eq_iff)

text \<open>What the view shows of a stored load balancer.\<close>

lemma lb_view_at:
  assumes "gm_get (lf_LoadBalancers f) i = Some lb"
  shows "lv_LBs (lb_view f) i = Some (lb_core lb)" "lv_Backends (lb_view f) i = backendsOf lb"
    "lv_Members (lb_view f) i = inBackend lf_findMember lb" "lv_BackendTLS (lb_view f) i = inBackend lf_findBackendTLS lb"
    "lv_Resolvers (lb_view f) i = lf_findResolver lb" "lv_Frontends (lb_view f) i = frontendsOf lb"
    "lv_Rules (lb_view f) i = inFrontend lf_findRule lb" "lv_FrontendTLS (lb_view f) i = inFrontend lf_findFrontendTLS lb"
  using assms by (simp_all add: lb_view_def atLB_def)

lemma lb_view_absent:
  assumes "gm_get (lf_LoadBalancers f) i = None"
  shows "lv_LBs (lb_view f) i = None" "lv_Backends (lb_view f) i = (\<lambda>_. None)"
    "lv_Members (lb_view f) i = (\<lambda>_ _. None)" "lv_BackendTLS (lb_view f) i = (\<lambda>_ _. None)"
    "lv_Resolvers (lb_view f) i = (\<lambda>_. None)" "lv_Frontends (lb_view f) i = (\<lambda>_. None)"
    "lv_Rules (lb_view f) i = (\<lambda>_ _. None)" "lv_FrontendTLS (lb_view f) i = (\<lambda>_ _. None)"
  using assms by (simp_all add: lb_view_def atLB_def)

lemma lf_inv_putLB:
  assumes "lf_inv f" and "gm_get (lf_LoadBalancers f) i = Some old" and "ulb_UUID lb = ulb_UUID old" and "lb_ok lb"
  shows "lf_inv (lf_putLB i lb f)"
  using assms fresh_table_put [OF lf_invD(1) [OF assms(1)] assms(2,3)] by (auto simp: lf_inv_def lf_putLB_def)

text \<open>
  The view after a store that leaves a load balancer's own fields alone: only the nested
  tables of this load balancer can differ.
\<close>

lemma lb_view_put_here:
  assumes "gm_get (lf_LoadBalancers f) i = Some old" and "lb_core lb = lb_core old"
  shows "lb_view (lf_putLB i lb f) = (lb_view f)
     \<lparr>lv_Backends := (lv_Backends (lb_view f))(i := backendsOf lb),
      lv_Members := (lv_Members (lb_view f))(i := inBackend lf_findMember lb),
      lv_BackendTLS := (lv_BackendTLS (lb_view f))(i := inBackend lf_findBackendTLS lb),
      lv_Resolvers := (lv_Resolvers (lb_view f))(i := lf_findResolver lb),
      lv_Frontends := (lv_Frontends (lb_view f))(i := frontendsOf lb),
      lv_Rules := (lv_Rules (lb_view f))(i := inFrontend lf_findRule lb),
      lv_FrontendTLS := (lv_FrontendTLS (lb_view f))(i := inFrontend lf_findFrontendTLS lb)\<rparr>"
proof -
  have "(lv_LBs (lb_view f))(i \<mapsto> lb_core lb) = lv_LBs (lb_view f)"
    using assms lb_view_at(1) [OF assms(1)] by (metis fun_upd_triv)
  then show ?thesis by (simp add: lb_view_put)
qed

subsection \<open>Slices of rows\<close>

text \<open>
  The five calls on the slice that \<open>sel\<close> reads and \<open>upd\<close> writes in the load balancer
  \<open>i\<close>: \<open>pnf\<close> is the error for a missing parent, \<open>nf\<close> for a missing row.
\<close>

definition slice_get ::
  "string \<Rightarrow> (upLoadBalancer \<Rightarrow> 'r list option) \<Rightarrow> ('r \<Rightarrow> string) \<Rightarrow> string \<Rightarrow> string \<Rightarrow> string \<Rightarrow> LoadBalancerFake
   \<Rightarrow> (err + 'r) \<times> LoadBalancerFake" where
  "slice_get i sel rname pnf nf n = lf_onLB i (\<lambda>lb f.
     case sel lb of
       None \<Rightarrow> (Inl (NotFound pnf), f)
     | Some xs \<Rightarrow> (case findBy rname xs n of None \<Rightarrow> (Inl (NotFound nf), f) | Some x \<Rightarrow> (Inr x, f)))"

definition slice_create ::
  "string \<Rightarrow> (upLoadBalancer \<Rightarrow> 'r list option) \<Rightarrow> ('r list \<Rightarrow> upLoadBalancer \<Rightarrow> upLoadBalancer) \<Rightarrow> ('r \<Rightarrow> string)
   \<Rightarrow> string \<Rightarrow> string \<Rightarrow> string \<Rightarrow> ('c \<Rightarrow> string) \<Rightarrow> ('c \<Rightarrow> Time \<Rightarrow> 'r) \<Rightarrow> 'c \<Rightarrow> LoadBalancerFake
   \<Rightarrow> (err + 'r) \<times> LoadBalancerFake" where
  "slice_create i sel upd rname nm pnf cf cname conv c = lf_mutate nm (lf_onLB i (\<lambda>lb f.
     case sel lb of
       None \<Rightarrow> (Inl (NotFound pnf), f)
     | Some xs \<Rightarrow>
         if findBy rname xs (cname c) \<noteq> None then (Inl (Conflict cf), f)
         else let (t, f1) = lf_time f; x = conv c t in (Inr x, lf_putLB i (upd (xs @ [x]) lb) f1)))"

definition slice_modify ::
  "string \<Rightarrow> (upLoadBalancer \<Rightarrow> 'r list option) \<Rightarrow> ('r list \<Rightarrow> upLoadBalancer \<Rightarrow> upLoadBalancer) \<Rightarrow> ('r \<Rightarrow> string)
   \<Rightarrow> string \<Rightarrow> string \<Rightarrow> string \<Rightarrow> ('m \<Rightarrow> 'r \<Rightarrow> 'r) \<Rightarrow> string \<Rightarrow> 'm \<Rightarrow> LoadBalancerFake
   \<Rightarrow> (err + 'r) \<times> LoadBalancerFake" where
  "slice_modify i sel upd rname nm pnf nf change n m = lf_mutate nm (lf_onLB i (\<lambda>lb f.
     case sel lb of
       None \<Rightarrow> (Inl (NotFound pnf), f)
     | Some xs \<Rightarrow>
         (case findBy rname xs n of
            None \<Rightarrow> (Inl (NotFound nf), f)
          | Some x \<Rightarrow> (Inr (change m x), lf_putLB i (upd (setFirst rname n (change m x) xs) lb) f))))"

definition slice_delete ::
  "string \<Rightarrow> (upLoadBalancer \<Rightarrow> 'r list option) \<Rightarrow> ('r list \<Rightarrow> upLoadBalancer \<Rightarrow> upLoadBalancer) \<Rightarrow> ('r \<Rightarrow> string)
   \<Rightarrow> string \<Rightarrow> string \<Rightarrow> string \<Rightarrow> string \<Rightarrow> LoadBalancerFake \<Rightarrow> err option \<times> LoadBalancerFake" where
  "slice_delete i sel upd rname nm pnf nf n f0 = lf_error (lf_mutate nm (lf_onLB i (\<lambda>lb f.
     case sel lb of
       None \<Rightarrow> (Inl (NotFound pnf), f)
     | Some xs \<Rightarrow>
         (case findBy rname xs n of
            None \<Rightarrow> (Inl (NotFound nf), f)
          | Some x \<Rightarrow> (Inr (), lf_putLB i (upd (dropFirst rname n xs) lb) f)))) f0)"

locale fake_slice =
  fixes i :: string
    and sel :: "upLoadBalancer \<Rightarrow> 'r list option"
    and upd :: "'r list \<Rightarrow> upLoadBalancer \<Rightarrow> upLoadBalancer"
    and rname :: "'r \<Rightarrow> string"
    and core :: "'r \<Rightarrow> 'r"
    and rows :: "LBView \<Rightarrow> string \<Rightarrow> 'r option"
    and put :: "string \<Rightarrow> 'r option \<Rightarrow> LBView \<Rightarrow> LBView"
    and ok :: "'r \<Rightarrow> bool"
    and bare :: "'r \<Rightarrow> bool"
    and same :: "'r \<Rightarrow> 'r \<Rightarrow> bool"
  assumes sel_ok: "lb_ok lb \<Longrightarrow> sel lb = Some xs \<Longrightarrow> distinct (map rname xs) \<and> list_all ok xs"
    and upd_ok: "lb_ok lb \<Longrightarrow> sel lb = Some xs \<Longrightarrow> distinct (map rname ys) \<Longrightarrow> list_all ok ys \<Longrightarrow>
      lb_ok (upd ys lb) \<and> ulb_UUID (upd ys lb) = ulb_UUID lb"
    and rows_view: "rows (lb_view f) n = (case gm_get (lf_LoadBalancers f) i of None \<Rightarrow> None
      | Some lb \<Rightarrow> (case sel lb of None \<Rightarrow> None | Some xs \<Rightarrow> map_option core (findBy rname xs n)))"
    and put_new: "gm_get (lf_LoadBalancers f) i = Some lb \<Longrightarrow> lb_ok lb \<Longrightarrow> sel lb = Some xs \<Longrightarrow> bare x \<Longrightarrow>
      findBy rname xs (rname x) = None \<Longrightarrow>
      lb_view (lf_putLB i (upd (xs @ [x]) lb) f) = put (rname x) (Some (core x)) (lb_view f)"
    and put_set: "gm_get (lf_LoadBalancers f) i = Some lb \<Longrightarrow> lb_ok lb \<Longrightarrow> sel lb = Some xs \<Longrightarrow> same x y \<Longrightarrow>
      findBy rname xs n = Some y \<Longrightarrow> rname x = n \<Longrightarrow>
      lb_view (lf_putLB i (upd (setFirst rname n x xs) lb) f) = put n (Some (core x)) (lb_view f)"
    and put_drop: "gm_get (lf_LoadBalancers f) i = Some lb \<Longrightarrow> lb_ok lb \<Longrightarrow> sel lb = Some xs \<Longrightarrow>
      findBy rname xs n = Some y \<Longrightarrow>
      lb_view (lf_putLB i (upd (dropFirst rname n xs) lb) f) = put n None (lb_view f)"
    and bare_ok: "bare x \<Longrightarrow> ok x"
    and same_ok: "same x y \<Longrightarrow> ok y \<Longrightarrow> ok x"
    and slice_rows_put: "rows (put n z v) = (rows v)(n := z)"
begin

lemma inv_new:
  assumes "lf_inv f" "gm_get (lf_LoadBalancers f) i = Some lb" "sel lb = Some xs" "bare x" "findBy rname xs (rname x) = None"
  shows "lf_inv (lf_putLB i (upd (xs @ [x]) lb) f)"
proof -
  have l: "lb_ok lb" using lf_invD(3) assms(1,2) .
  have "distinct (map rname (xs @ [x])) \<and> list_all ok (xs @ [x])"
    using sel_ok [OF l assms(3)] bare_ok [OF assms(4)] assms(5) by (simp add: findBy_None)
  then show ?thesis using upd_ok [OF l assms(3)] lf_inv_putLB [OF assms(1,2)] by blast
qed

lemma inv_set:
  assumes "lf_inv f" "gm_get (lf_LoadBalancers f) i = Some lb" "sel lb = Some xs" "same x y"
    "findBy rname xs n = Some y" "rname x = n"
  shows "lf_inv (lf_putLB i (upd (setFirst rname n x xs) lb) f)"
proof -
  have l: "lb_ok lb" using lf_invD(3) assms(1,2) .
  have "ok x" using sel_ok [OF l assms(3)] findBy_Some [OF assms(5)] same_ok [OF assms(4)] by (simp add: list_all_iff)
  then have "list_all ok (setFirst rname n x xs)"
    using sel_ok [OF l assms(3)] set_setFirst [of rname n x xs] by (auto simp: list_all_iff)
  moreover have "distinct (map rname (setFirst rname n x xs))"
    using sel_ok [OF l assms(3)] map_setFirst [of rname x n xs, OF assms(6)] by simp
  ultimately show ?thesis using upd_ok [OF l assms(3)] lf_inv_putLB [OF assms(1,2)] by blast
qed

lemma inv_drop:
  assumes "lf_inv f" "gm_get (lf_LoadBalancers f) i = Some lb" "sel lb = Some xs"
  shows "lf_inv (lf_putLB i (upd (dropFirst rname n xs) lb) f)"
proof -
  have l: "lb_ok lb" using lf_invD(3) assms(1,2) .
  have "list_all ok (dropFirst rname n xs)"
    using sel_ok [OF l assms(3)] set_dropFirst [of rname n xs] by (auto simp: list_all_iff)
  moreover have "distinct (map rname (dropFirst rname n xs))"
    using sel_ok [OF l assms(3)] by (simp add: map_dropFirst)
  ultimately show ?thesis using upd_ok [OF l assms(3)] lf_inv_putLB [OF assms(1,2)] by blast
qed

lemma slice_get_law:
  assumes "lf_inv s" and "slice_get i sel rname pnf nf n s = (r, s')"
  shows "lf_inv s' \<and> lb_view s' = lb_view s \<and>
      (case r of Inl e \<Rightarrow> IsNotFound (Some e) \<longrightarrow> rows (lb_view s) n = None
       | Inr x \<Rightarrow> rname x = n \<and> rows (lb_view s) n = Some (core x))"
  using assms unfolding rows_view
  by (auto simp: slice_get_def lf_onLB_def dest: findBy_Some split: option.splits)

lemma slice_create_law:
  assumes "lf_inv s" and "slice_create i sel upd rname nm pnf cf cname conv c s = (r, s')"
    and "\<And>t. rname (conv c t) = cname c \<and> bare (conv c t)"
  shows "lf_inv s' \<and>
      (case r of Inl e \<Rightarrow> lb_view s' = lb_view s
       | Inr x \<Rightarrow> rname x = cname c \<and> rows (lb_view s) (cname c) = None \<and> (\<exists>t. x = conv c t) \<and>
           lb_view s' = put (cname c) (Some (core x)) (lb_view s))"
proof -
  obtain e0 f where rc: "lf_record nm s = (e0, f)" by fastforce
  note f = lf_record_cases [OF assms(1) rc]
  show ?thesis
  proof (cases r)
    case (Inl e)
    then show ?thesis
      using assms(2) rc f(1,2)
      by (auto simp: slice_create_def lf_mutate_def lf_onLB_def Let_def split: option.splits if_splits prod.splits)
  next
    case (Inr x)
    obtain lb xs t g where a: "gm_get (lf_LoadBalancers f) i = Some lb" "sel lb = Some xs"
      "findBy rname xs (cname c) = None" "lf_time f = (t, g)" "x = conv c t" "s' = lf_putLB i (upd (xs @ [x]) lb) g"
      using assms(2) rc Inr
      by (auto simp: slice_create_def lf_mutate_def lf_onLB_def Let_def split: option.splits if_splits prod.splits)
    note g = lf_time_keeps [OF a(4)]
    have g': "lf_inv g" "gm_get (lf_LoadBalancers g) i = Some lb" using f(1) g a(1) by simp_all
    have x: "rname x = cname c" "bare x" using assms(3) a(5) by simp_all
    have n: "findBy rname xs (rname x) = None" using a(3) x(1) by simp
    have "rows (lb_view f) (cname c) = None" using a(1-3) by (simp add: rows_view)
    then show ?thesis
      using inv_new [OF g' a(2) x(2) n] put_new [OF g'(2) lf_invD(3) [OF g'] a(2) x(2) n] a(5,6) x(1) g(2) f(2) Inr
      by auto
  qed
qed

lemma slice_modify_law:
  assumes "lf_inv s" and "slice_modify i sel upd rname nm pnf nf change n m s = (r, s')"
    and "\<And>x. rname x = n \<Longrightarrow> rname (change m x) = n \<and> same (change m x) x"
  shows "lf_inv s' \<and>
      (case r of Inl e \<Rightarrow> lb_view s' = lb_view s
       | Inr x \<Rightarrow> rname x = n \<and> (\<exists>y. x = change m y \<and> rname y = n \<and> rows (lb_view s) n = Some (core y)) \<and>
           lb_view s' = put n (Some (core x)) (lb_view s))"
proof -
  obtain e0 f where rc: "lf_record nm s = (e0, f)" by fastforce
  note f = lf_record_cases [OF assms(1) rc]
  show ?thesis
  proof (cases r)
    case (Inl e)
    then show ?thesis
      using assms(2) rc f(1,2)
      by (auto simp: slice_modify_def lf_mutate_def lf_onLB_def split: option.splits)
  next
    case (Inr x)
    obtain lb xs y where a: "gm_get (lf_LoadBalancers f) i = Some lb" "sel lb = Some xs"
      "findBy rname xs n = Some y" "x = change m y" "s' = lf_putLB i (upd (setFirst rname n x xs) lb) f"
      using assms(2) rc Inr
      by (auto simp: slice_modify_def lf_mutate_def lf_onLB_def split: option.splits)
    have y: "rname y = n" using findBy_Some [OF a(3)] by blast
    have x: "rname x = n" "same x y" using assms(3) [OF y] a(4) by simp_all
    have "rows (lb_view f) n = Some (core y)" using a(1-3) by (simp add: rows_view)
    then show ?thesis
      using inv_set [OF f(1) a(1,2) x(2) a(3) x(1)] put_set [OF a(1) lf_invD(3) [OF f(1) a(1)] a(2) x(2) a(3) x(1)]
        a(4,5) x(1) y f(2) Inr
      by auto
  qed
qed

lemma slice_modify_patched:
  assumes "lf_inv s" and "slice_modify i sel upd rname nm pnf nf change n m s = (r, s')"
    and "\<And>x. rname x = n \<Longrightarrow> rname (change m x) = n \<and> same (change m x) x"
    and "\<And>x. rname x = n \<Longrightarrow> P (Some (core x)) (core (change m x))"
  shows "lf_inv s' \<and>
      (case r of Inl e \<Rightarrow> lb_view s' = lb_view s
       | Inr x \<Rightarrow> rname x = n \<and> P (rows (lb_view s) n) (core x) \<and>
           lb_view s' = put n (Some (core x)) (lb_view s))"
  using slice_modify_law [OF assms(1-3)] assms(4) by (cases r) auto

lemma slice_delete_law:
  assumes "lf_inv s" and "slice_delete i sel upd rname nm pnf nf n s = (e, s')"
  shows "lf_inv s' \<and>
      (case e of None \<Rightarrow> lb_view s' = put n None (lb_view s)
       | Some x \<Rightarrow> lb_view s' = lb_view s \<and> (IsNotFound e \<longrightarrow> rows (lb_view s) n = None))"
proof -
  obtain e0 f where rc: "lf_record nm s = (e0, f)" by fastforce
  note f = lf_record_cases [OF assms(1) rc]
  have drop: "lf_inv (lf_putLB i (upd (dropFirst rname n xs) lb) f) \<and>
      lb_view (lf_putLB i (upd (dropFirst rname n xs) lb) f) = put n None (lb_view f)"
    if "gm_get (lf_LoadBalancers f) i = Some lb" "sel lb = Some xs" "findBy rname xs n = Some y" for lb xs y
    using inv_drop [OF f(1) that(1,2)] put_drop [OF that(1) lf_invD(3) [OF f(1) that(1)] that(2,3)] by simp
  show ?thesis
    using assms(2) rc f(1-3) drop rows_view [of f n]
    by (auto simp: slice_delete_def lf_mutate_def lf_error_def lf_onLB_def split: option.splits)
qed

text \<open>The laws of a collection, given what its conversions do.\<close>

lemma slice_child_rows:
  assumes "\<And>c t. rname (conv c t) = cname c \<and> bare (conv c t) \<and> built c (core (conv c t))"
    and "\<And>s n m r s'. lf_inv s \<Longrightarrow> modify n m s = (r, s') \<Longrightarrow> lf_inv s' \<and>
      (case r of Inl e \<Rightarrow> lb_view s' = lb_view s
       | Inr x \<Rightarrow> rname x = n \<and> patched m (rows (lb_view s) n) (core x) \<and> lb_view s' = put n (Some (core x)) (lb_view s))"
  shows "child_rows lf_inv lb_view (slice_get i sel rname pnf nf) (slice_create i sel upd rname nm pnf cf cname conv) modify
    (slice_delete i sel upd rname nm' pnf nf) core rname rows put cname built patched"
proof
  fix s n and r :: "err + 'r" and s'
  assume "lf_inv s" "slice_get i sel rname pnf nf n s = (r, s')"
  then show "lf_inv s' \<and> lb_view s' = lb_view s \<and>
      (case r of Inl e \<Rightarrow> IsNotFound (Some e) \<longrightarrow> rows (lb_view s) n = None
       | Inr x \<Rightarrow> rname x = n \<and> rows (lb_view s) n = Some (core x))" by (rule slice_get_law)
next
  fix s c and r :: "err + 'r" and s'
  assume "lf_inv s" "slice_create i sel upd rname nm pnf cf cname conv c s = (r, s')"
  then show "lf_inv s' \<and>
      (case r of Inl e \<Rightarrow> lb_view s' = lb_view s
       | Inr x \<Rightarrow> rname x = cname c \<and> rows (lb_view s) (cname c) = None \<and> built c (core x) \<and>
           lb_view s' = put (cname c) (Some (core x)) (lb_view s))"
    using slice_create_law [of s nm pnf cf cname conv c r s'] assms(1) by (cases r) auto
qed (use assms(2) slice_delete_law slice_rows_put in blast)+

end

subsection \<open>Writing one collection\<close>

lemma upd_same: "f i = x \<Longrightarrow> f(i := x) = f"
  by (metis fun_upd_triv)

lemma other_slice [simp]:
  "backendsOf (lb\<lparr>ulb_Resolvers := rs\<rparr>) = backendsOf lb" "frontendsOf (lb\<lparr>ulb_Resolvers := rs\<rparr>) = frontendsOf lb"
  "inBackend g (lb\<lparr>ulb_Resolvers := rs\<rparr>) = inBackend g lb" "inFrontend h (lb\<lparr>ulb_Resolvers := rs\<rparr>) = inFrontend h lb"
  "frontendsOf (lb\<lparr>ulb_Backends := bs\<rparr>) = frontendsOf lb" "inFrontend h (lb\<lparr>ulb_Backends := bs\<rparr>) = inFrontend h lb"
  "lf_findResolver (lb\<lparr>ulb_Backends := bs\<rparr>) = lf_findResolver lb"
  "backendsOf (lb\<lparr>ulb_Frontends := fs\<rparr>) = backendsOf lb" "inBackend g (lb\<lparr>ulb_Frontends := fs\<rparr>) = inBackend g lb"
  "lf_findResolver (lb\<lparr>ulb_Frontends := fs\<rparr>) = lf_findResolver lb"
  by (simp_all add: fun_eq_iff backendsOf_def frontendsOf_def inBackend_def inFrontend_def lf_findBackend_def
      lf_findFrontend_def lf_findResolver_def)

lemma view_resolvers:
  assumes "gm_get (lf_LoadBalancers f) i = Some lb"
  shows "lb_view (lf_putLB i (lb\<lparr>ulb_Resolvers := xs\<rparr>) f) =
    (lb_view f)\<lparr>lv_Resolvers := (lv_Resolvers (lb_view f))(i := findBy urs_Name xs)\<rparr>"
proof -
  have "lf_findResolver (lb\<lparr>ulb_Resolvers := xs\<rparr>) = findBy urs_Name xs" by (simp add: fun_eq_iff lf_findResolver_def)
  then show ?thesis by (subst lb_view_put_here [OF assms]) (simp_all add: upd_same lb_view_at [OF assms])
qed

lemma view_backends:
  assumes "gm_get (lf_LoadBalancers f) i = Some lb"
  shows "lb_view (lf_putLB i (lb\<lparr>ulb_Backends := xs\<rparr>) f) = (lb_view f)
    \<lparr>lv_Backends := (lv_Backends (lb_view f))(i := backendsOf (lb\<lparr>ulb_Backends := xs\<rparr>)),
     lv_Members := (lv_Members (lb_view f))(i := inBackend lf_findMember (lb\<lparr>ulb_Backends := xs\<rparr>)),
     lv_BackendTLS := (lv_BackendTLS (lb_view f))(i := inBackend lf_findBackendTLS (lb\<lparr>ulb_Backends := xs\<rparr>))\<rparr>"
  by (subst lb_view_put_here [OF assms]) (simp_all add: upd_same lb_view_at [OF assms])

lemma view_frontends:
  assumes "gm_get (lf_LoadBalancers f) i = Some lb"
  shows "lb_view (lf_putLB i (lb\<lparr>ulb_Frontends := xs\<rparr>) f) = (lb_view f)
    \<lparr>lv_Frontends := (lv_Frontends (lb_view f))(i := frontendsOf (lb\<lparr>ulb_Frontends := xs\<rparr>)),
     lv_Rules := (lv_Rules (lb_view f))(i := inFrontend lf_findRule (lb\<lparr>ulb_Frontends := xs\<rparr>)),
     lv_FrontendTLS := (lv_FrontendTLS (lb_view f))(i := inFrontend lf_findFrontendTLS (lb\<lparr>ulb_Frontends := xs\<rparr>))\<rparr>"
  by (subst lb_view_put_here [OF assms]) (simp_all add: upd_same lb_view_at [OF assms])

text \<open>Replacing a stored backend or frontend.\<close>

lemma inBackend_set:
  assumes "lf_findBackend lb b = Some be" and "ube_Name y = b"
  shows "inBackend g (lb\<lparr>ulb_Backends := setFirst ube_Name b y (ulb_Backends lb)\<rparr>) = (inBackend g lb)(b := g y)"
    "backendsOf (lb\<lparr>ulb_Backends := setFirst ube_Name b y (ulb_Backends lb)\<rparr>) = (backendsOf lb)(b := Some (be_core y))"
  using assms by (auto simp: fun_eq_iff inBackend_def backendsOf_def lf_findBackend_def findBy_setFirst)

lemma inFrontend_set:
  assumes "lf_findFrontend lb b = Some fe" and "ufe_Name y = b"
  shows "inFrontend g (lb\<lparr>ulb_Frontends := setFirst ufe_Name b y (ulb_Frontends lb)\<rparr>) = (inFrontend g lb)(b := g y)"
    "frontendsOf (lb\<lparr>ulb_Frontends := setFirst ufe_Name b y (ulb_Frontends lb)\<rparr>) = (frontendsOf lb)(b := Some (fe_core y))"
  using assms by (auto simp: fun_eq_iff inFrontend_def frontendsOf_def lf_findFrontend_def findBy_setFirst)

lemma inBackend_here: "lf_findBackend lb b = Some be \<Longrightarrow> inBackend g lb b = g be"
  "lf_findBackend lb b = Some be \<Longrightarrow> backendsOf lb b = Some (be_core be)"
  by (simp_all add: inBackend_def backendsOf_def)

lemma inFrontend_here: "lf_findFrontend lb b = Some fe \<Longrightarrow> inFrontend g lb b = g fe"
  "lf_findFrontend lb b = Some fe \<Longrightarrow> frontendsOf lb b = Some (fe_core fe)"
  by (simp_all add: inFrontend_def frontendsOf_def)

lemma view_members:
  assumes "gm_get (lf_LoadBalancers f) i = Some lb" and "lf_findBackend lb b = Some be"
  shows "lb_view (lf_putBackend i lb b (be\<lparr>ube_Members := ys\<rparr>) f) = (lb_view f)
    \<lparr>lv_Members := put2 (lv_Members (lb_view f)) i b (findBy ubm_Name ys)\<rparr>"
proof -
  have n: "ube_Name (be\<lparr>ube_Members := ys\<rparr>) = b"
    using findBy_Some [of ube_Name _ b be] assms(2) by (simp add: lf_findBackend_def)
  have "lf_findMember (be\<lparr>ube_Members := ys\<rparr>) = findBy ubm_Name ys"
    "lf_findBackendTLS (be\<lparr>ube_Members := ys\<rparr>) = lf_findBackendTLS be"
    by (simp_all add: fun_eq_iff lf_findMember_def lf_findBackendTLS_def)
  then show ?thesis
    unfolding lf_putBackend_def view_backends [OF assms(1)] inBackend_set [OF assms(2) n]
    by (simp add: upd_same lb_view_at [OF assms(1)] inBackend_here [OF assms(2)])
qed

lemma view_backend_tls:
  assumes "gm_get (lf_LoadBalancers f) i = Some lb" and "lf_findBackend lb b = Some be"
  shows "lb_view (lf_putBackend i lb b (be\<lparr>ube_TLSConfigs := ys\<rparr>) f) = (lb_view f)
    \<lparr>lv_BackendTLS := put2 (lv_BackendTLS (lb_view f)) i b (findBy utc_Name ys)\<rparr>"
proof -
  have n: "ube_Name (be\<lparr>ube_TLSConfigs := ys\<rparr>) = b"
    using findBy_Some [of ube_Name _ b be] assms(2) by (simp add: lf_findBackend_def)
  have "lf_findMember (be\<lparr>ube_TLSConfigs := ys\<rparr>) = lf_findMember be"
    "lf_findBackendTLS (be\<lparr>ube_TLSConfigs := ys\<rparr>) = findBy utc_Name ys"
    by (simp_all add: fun_eq_iff lf_findMember_def lf_findBackendTLS_def)
  then show ?thesis
    unfolding lf_putBackend_def view_backends [OF assms(1)] inBackend_set [OF assms(2) n]
    by (simp add: upd_same lb_view_at [OF assms(1)] inBackend_here [OF assms(2)])
qed

lemma view_rules:
  assumes "gm_get (lf_LoadBalancers f) i = Some lb" and "lf_findFrontend lb b = Some fe"
  shows "lb_view (lf_putFrontend i lb b (fe\<lparr>ufe_Rules := ys\<rparr>) f) = (lb_view f)
    \<lparr>lv_Rules := put2 (lv_Rules (lb_view f)) i b (findBy ulr_Name ys)\<rparr>"
proof -
  have n: "ufe_Name (fe\<lparr>ufe_Rules := ys\<rparr>) = b"
    using findBy_Some [of ufe_Name _ b fe] assms(2) by (simp add: lf_findFrontend_def)
  have "lf_findRule (fe\<lparr>ufe_Rules := ys\<rparr>) = findBy ulr_Name ys"
    "lf_findFrontendTLS (fe\<lparr>ufe_Rules := ys\<rparr>) = lf_findFrontendTLS fe"
    by (simp_all add: fun_eq_iff lf_findRule_def lf_findFrontendTLS_def)
  then show ?thesis
    unfolding lf_putFrontend_def view_frontends [OF assms(1)] inFrontend_set [OF assms(2) n]
    by (simp add: upd_same lb_view_at [OF assms(1)] inFrontend_here [OF assms(2)])
qed

lemma view_frontend_tls:
  assumes "gm_get (lf_LoadBalancers f) i = Some lb" and "lf_findFrontend lb b = Some fe"
  shows "lb_view (lf_putFrontend i lb b (fe\<lparr>ufe_TLSConfigs := ys\<rparr>) f) = (lb_view f)
    \<lparr>lv_FrontendTLS := put2 (lv_FrontendTLS (lb_view f)) i b (findBy utc_Name ys)\<rparr>"
proof -
  have n: "ufe_Name (fe\<lparr>ufe_TLSConfigs := ys\<rparr>) = b"
    using findBy_Some [of ufe_Name _ b fe] assms(2) by (simp add: lf_findFrontend_def)
  have "lf_findRule (fe\<lparr>ufe_TLSConfigs := ys\<rparr>) = lf_findRule fe"
    "lf_findFrontendTLS (fe\<lparr>ufe_TLSConfigs := ys\<rparr>) = findBy utc_Name ys"
    by (simp_all add: fun_eq_iff lf_findRule_def lf_findFrontendTLS_def)
  then show ?thesis
    unfolding lf_putFrontend_def view_frontends [OF assms(1)] inFrontend_set [OF assms(2) n]
    by (simp add: upd_same lb_view_at [OF assms(1)] inFrontend_here [OF assms(2)])
qed

subsection \<open>The seven collections are slices\<close>

lemma findBy_set_fun:
  "findBy uid xs u = Some z \<Longrightarrow> uid y = u \<Longrightarrow> findBy uid (setFirst uid u y xs) = (findBy uid xs)(u := Some y)"
  by (simp add: fun_eq_iff findBy_setFirst)

lemma findBy_drop_fun:
  "distinct (map uid xs) \<Longrightarrow> findBy uid (dropFirst uid u xs) = (findBy uid xs)(u := None)"
  by (simp add: fun_eq_iff findBy_dropFirst)

lemma findBy_snoc_fun: "findBy uid xs (uid x) = None \<Longrightarrow> findBy uid (xs @ [x]) = (findBy uid xs)(uid x := Some x)"
  by (simp add: findBy_None findBy_snoc)

lemmas findBy_funs = findBy_set_fun findBy_drop_fun findBy_snoc_fun

interpretation resolver_slice: fake_slice i "\<lambda>lb. Some (ulb_Resolvers lb)" "\<lambda>xs lb. lb\<lparr>ulb_Resolvers := xs\<rparr>" urs_Name
  "\<lambda>x. x" "\<lambda>v. lv_Resolvers v i" "put_Resolver i" "\<lambda>_. True" "\<lambda>_. True" "\<lambda>_ _. True" for i
proof
  fix f n
  show "lv_Resolvers (lb_view f) i n = (case gm_get (lf_LoadBalancers f) i of None \<Rightarrow> None
      | Some lb \<Rightarrow> (case Some (ulb_Resolvers lb) of None \<Rightarrow> None | Some xs \<Rightarrow> map_option (\<lambda>x. x) (findBy urs_Name xs n)))"
    by (simp add: lb_view_def atLB_def lf_findResolver_def option.map_ident split: option.split)
qed (auto simp: lb_ok_def list_all_iff put_Resolver_def view_resolvers findBy_funs lb_view_at lf_findResolver_def fun_eq_iff)

lemma lb_ok_setBackend:
  assumes "lb_ok lb" and "lf_findBackend lb b = Some be" and "be_ok y" and "ube_Name y = b"
  shows "lb_ok (lb\<lparr>ulb_Backends := setFirst ube_Name b y (ulb_Backends lb)\<rparr>)"
  using assms set_setFirst [of ube_Name b y "ulb_Backends lb"] map_setFirst [of ube_Name y b "ulb_Backends lb"]
  by (auto simp: lb_ok_def list_all_iff)

lemma lb_ok_setFrontend:
  assumes "lb_ok lb" and "lf_findFrontend lb b = Some fe" and "fe_ok y" and "ufe_Name y = b"
  shows "lb_ok (lb\<lparr>ulb_Frontends := setFirst ufe_Name b y (ulb_Frontends lb)\<rparr>)"
  using assms set_setFirst [of ufe_Name b y "ulb_Frontends lb"] map_setFirst [of ufe_Name y b "ulb_Frontends lb"]
  by (auto simp: lb_ok_def list_all_iff)

lemma lf_findBackend_D:
  assumes "lf_findBackend lb b = Some be"
  shows "ube_Name be = b" and "lb_ok lb \<Longrightarrow> be_ok be"
  using assms findBy_Some [of ube_Name "ulb_Backends lb" b be] by (auto simp: lf_findBackend_def lb_ok_def list_all_iff)

lemma lf_findFrontend_D:
  assumes "lf_findFrontend lb b = Some fe"
  shows "ufe_Name fe = b" and "lb_ok lb \<Longrightarrow> fe_ok fe"
  using assms findBy_Some [of ufe_Name "ulb_Frontends lb" b fe] by (auto simp: lf_findFrontend_def lb_ok_def list_all_iff)

text \<open>The write through a pointer into the slice of backends or frontends.\<close>

definition inBackends :: "(upLBBackend \<Rightarrow> upLBBackend) \<Rightarrow> string \<Rightarrow> upLoadBalancer \<Rightarrow> upLoadBalancer" where
  "inBackends g b lb = (case lf_findBackend lb b of None \<Rightarrow> lb
     | Some be \<Rightarrow> lb\<lparr>ulb_Backends := setFirst ube_Name b (g be) (ulb_Backends lb)\<rparr>)"

definition inFrontends :: "(upLBFrontend \<Rightarrow> upLBFrontend) \<Rightarrow> string \<Rightarrow> upLoadBalancer \<Rightarrow> upLoadBalancer" where
  "inFrontends g b lb = (case lf_findFrontend lb b of None \<Rightarrow> lb
     | Some fe \<Rightarrow> lb\<lparr>ulb_Frontends := setFirst ufe_Name b (g fe) (ulb_Frontends lb)\<rparr>)"

lemma inBackends_put: "lf_findBackend lb b = Some be \<Longrightarrow> lf_putLB i (inBackends g b lb) f = lf_putBackend i lb b (g be) f"
  by (simp add: inBackends_def lf_putBackend_def)

lemma inFrontends_put: "lf_findFrontend lb b = Some fe \<Longrightarrow> lf_putLB i (inFrontends g b lb) f = lf_putFrontend i lb b (g fe) f"
  by (simp add: inFrontends_def lf_putFrontend_def)

interpretation member_slice: fake_slice i "\<lambda>lb. map_option ube_Members (lf_findBackend lb b)"
  "\<lambda>ys. inBackends (\<lambda>p. p\<lparr>ube_Members := ys\<rparr>) b" ubm_Name "\<lambda>x. x" "\<lambda>v. lv_Members v i b" "put_Member i b"
  "\<lambda>_. True" "\<lambda>_. True" "\<lambda>_ _. True" for i b
proof
  fix f :: LoadBalancerFake and lb :: upLoadBalancer and xs :: "upLBMember list" and y n
  assume a: "gm_get (lf_LoadBalancers f) i = Some lb" "lb_ok lb" "map_option ube_Members (lf_findBackend lb b) = Some xs"
  then obtain p where p: "lf_findBackend lb b = Some p" "xs = ube_Members p" by auto
  then have "distinct (map ubm_Name xs)" using a(2) lf_findBackend_D(2) by (auto simp: be_ok_def)
  then show "lb_view (lf_putLB i (inBackends (\<lambda>p. p\<lparr>ube_Members := dropFirst ubm_Name n xs\<rparr>) b lb) f) = put_Member i b n None (lb_view f)"
    using a(1) p by (simp add: put_Member_def inBackends_put [OF p(1)] view_members [OF a(1) p(1)] findBy_drop_fun lb_view_at inBackend_here [OF p(1)]
        lf_findMember_def)
next
  fix lb and xs :: "upLBMember list"
  assume "lb_ok lb" "map_option ube_Members (lf_findBackend lb b) = Some xs"
  then show "distinct (map ubm_Name xs) \<and> list_all (\<lambda>_. True) xs"
    using lf_findBackend_D [of lb b] by (auto simp: be_ok_def list_all_iff)
next
  fix lb and xs ys :: "upLBMember list"
  assume "lb_ok lb" "map_option ube_Members (lf_findBackend lb b) = Some xs" "distinct (map ubm_Name ys)"
  then show "lb_ok (inBackends (\<lambda>p. p\<lparr>ube_Members := ys\<rparr>) b lb) \<and>
      ulb_UUID (inBackends (\<lambda>p. p\<lparr>ube_Members := ys\<rparr>) b lb) = ulb_UUID lb"
    using lf_findBackend_D [of lb b] by (auto simp: inBackends_def be_ok_def intro!: lb_ok_setBackend)
next
  fix f n
  show "lv_Members (lb_view f) i b n = (case gm_get (lf_LoadBalancers f) i of None \<Rightarrow> None
      | Some lb \<Rightarrow> (case map_option ube_Members (lf_findBackend lb b) of None \<Rightarrow> None
          | Some xs \<Rightarrow> map_option (\<lambda>x. x) (findBy ubm_Name xs n)))"
    by (simp add: lb_view_def atLB_def inBackend_def lf_findMember_def option.map_ident split: option.split)
qed (auto simp: put_Member_def inBackends_put view_members findBy_funs lb_view_at inBackend_here
      lf_findMember_def)

interpretation backend_tls_slice: fake_slice i "\<lambda>lb. map_option ube_TLSConfigs (lf_findBackend lb b)"
  "\<lambda>ys. inBackends (\<lambda>p. p\<lparr>ube_TLSConfigs := ys\<rparr>) b" utc_Name "\<lambda>x. x" "\<lambda>v. lv_BackendTLS v i b" "put_BackendTLS i b"
  "\<lambda>_. True" "\<lambda>_. True" "\<lambda>_ _. True" for i b
proof
  fix f :: LoadBalancerFake and lb :: upLoadBalancer and xs :: "upTLSConfig list" and y n
  assume a: "gm_get (lf_LoadBalancers f) i = Some lb" "lb_ok lb" "map_option ube_TLSConfigs (lf_findBackend lb b) = Some xs"
  then obtain p where p: "lf_findBackend lb b = Some p" "xs = ube_TLSConfigs p" by auto
  then have "distinct (map utc_Name xs)" using a(2) lf_findBackend_D(2) by (auto simp: be_ok_def)
  then show "lb_view (lf_putLB i (inBackends (\<lambda>p. p\<lparr>ube_TLSConfigs := dropFirst utc_Name n xs\<rparr>) b lb) f) = put_BackendTLS i b n None (lb_view f)"
    using a(1) p by (simp add: put_BackendTLS_def inBackends_put [OF p(1)] view_backend_tls [OF a(1) p(1)] findBy_drop_fun lb_view_at inBackend_here [OF p(1)]
        lf_findBackendTLS_def)
next
  fix lb and xs :: "upTLSConfig list"
  assume "lb_ok lb" "map_option ube_TLSConfigs (lf_findBackend lb b) = Some xs"
  then show "distinct (map utc_Name xs) \<and> list_all (\<lambda>_. True) xs"
    using lf_findBackend_D [of lb b] by (auto simp: be_ok_def list_all_iff)
next
  fix lb and xs ys :: "upTLSConfig list"
  assume "lb_ok lb" "map_option ube_TLSConfigs (lf_findBackend lb b) = Some xs" "distinct (map utc_Name ys)"
  then show "lb_ok (inBackends (\<lambda>p. p\<lparr>ube_TLSConfigs := ys\<rparr>) b lb) \<and>
      ulb_UUID (inBackends (\<lambda>p. p\<lparr>ube_TLSConfigs := ys\<rparr>) b lb) = ulb_UUID lb"
    using lf_findBackend_D [of lb b] by (auto simp: inBackends_def be_ok_def intro!: lb_ok_setBackend)
next
  fix f n
  show "lv_BackendTLS (lb_view f) i b n = (case gm_get (lf_LoadBalancers f) i of None \<Rightarrow> None
      | Some lb \<Rightarrow> (case map_option ube_TLSConfigs (lf_findBackend lb b) of None \<Rightarrow> None
          | Some xs \<Rightarrow> map_option (\<lambda>x. x) (findBy utc_Name xs n)))"
    by (simp add: lb_view_def atLB_def inBackend_def lf_findBackendTLS_def option.map_ident split: option.split)
qed (auto simp: put_BackendTLS_def inBackends_put view_backend_tls findBy_funs lb_view_at inBackend_here
      lf_findBackendTLS_def fun_eq_iff)

interpretation rule_slice: fake_slice i "\<lambda>lb. map_option ufe_Rules (lf_findFrontend lb b)"
  "\<lambda>ys. inFrontends (\<lambda>p. p\<lparr>ufe_Rules := ys\<rparr>) b" ulr_Name "\<lambda>x. x" "\<lambda>v. lv_Rules v i b" "put_Rule i b"
  "\<lambda>_. True" "\<lambda>_. True" "\<lambda>_ _. True" for i b
proof
  fix f :: LoadBalancerFake and lb :: upLoadBalancer and xs :: "upLBRule list" and y n
  assume a: "gm_get (lf_LoadBalancers f) i = Some lb" "lb_ok lb" "map_option ufe_Rules (lf_findFrontend lb b) = Some xs"
  then obtain p where p: "lf_findFrontend lb b = Some p" "xs = ufe_Rules p" by auto
  then have "distinct (map ulr_Name xs)" using a(2) lf_findFrontend_D(2) by (auto simp: fe_ok_def)
  then show "lb_view (lf_putLB i (inFrontends (\<lambda>p. p\<lparr>ufe_Rules := dropFirst ulr_Name n xs\<rparr>) b lb) f) = put_Rule i b n None (lb_view f)"
    using a(1) p by (simp add: put_Rule_def inFrontends_put [OF p(1)] view_rules [OF a(1) p(1)] findBy_drop_fun lb_view_at inFrontend_here [OF p(1)]
        lf_findRule_def)
next
  fix lb and xs :: "upLBRule list"
  assume "lb_ok lb" "map_option ufe_Rules (lf_findFrontend lb b) = Some xs"
  then show "distinct (map ulr_Name xs) \<and> list_all (\<lambda>_. True) xs"
    using lf_findFrontend_D [of lb b] by (auto simp: fe_ok_def list_all_iff)
next
  fix lb and xs ys :: "upLBRule list"
  assume "lb_ok lb" "map_option ufe_Rules (lf_findFrontend lb b) = Some xs" "distinct (map ulr_Name ys)"
  then show "lb_ok (inFrontends (\<lambda>p. p\<lparr>ufe_Rules := ys\<rparr>) b lb) \<and>
      ulb_UUID (inFrontends (\<lambda>p. p\<lparr>ufe_Rules := ys\<rparr>) b lb) = ulb_UUID lb"
    using lf_findFrontend_D [of lb b] by (auto simp: inFrontends_def fe_ok_def intro!: lb_ok_setFrontend)
next
  fix f n
  show "lv_Rules (lb_view f) i b n = (case gm_get (lf_LoadBalancers f) i of None \<Rightarrow> None
      | Some lb \<Rightarrow> (case map_option ufe_Rules (lf_findFrontend lb b) of None \<Rightarrow> None
          | Some xs \<Rightarrow> map_option (\<lambda>x. x) (findBy ulr_Name xs n)))"
    by (simp add: lb_view_def atLB_def inFrontend_def lf_findRule_def option.map_ident split: option.split)
qed (auto simp: put_Rule_def inFrontends_put view_rules findBy_funs lb_view_at inFrontend_here
      lf_findRule_def fun_eq_iff)

interpretation frontend_tls_slice: fake_slice i "\<lambda>lb. map_option ufe_TLSConfigs (lf_findFrontend lb b)"
  "\<lambda>ys. inFrontends (\<lambda>p. p\<lparr>ufe_TLSConfigs := ys\<rparr>) b" utc_Name "\<lambda>x. x" "\<lambda>v. lv_FrontendTLS v i b" "put_FrontendTLS i b"
  "\<lambda>_. True" "\<lambda>_. True" "\<lambda>_ _. True" for i b
proof
  fix f :: LoadBalancerFake and lb :: upLoadBalancer and xs :: "upTLSConfig list" and y n
  assume a: "gm_get (lf_LoadBalancers f) i = Some lb" "lb_ok lb" "map_option ufe_TLSConfigs (lf_findFrontend lb b) = Some xs"
  then obtain p where p: "lf_findFrontend lb b = Some p" "xs = ufe_TLSConfigs p" by auto
  then have "distinct (map utc_Name xs)" using a(2) lf_findFrontend_D(2) by (auto simp: fe_ok_def)
  then show "lb_view (lf_putLB i (inFrontends (\<lambda>p. p\<lparr>ufe_TLSConfigs := dropFirst utc_Name n xs\<rparr>) b lb) f) = put_FrontendTLS i b n None (lb_view f)"
    using a(1) p by (simp add: put_FrontendTLS_def inFrontends_put [OF p(1)] view_frontend_tls [OF a(1) p(1)] findBy_drop_fun lb_view_at inFrontend_here [OF p(1)]
        lf_findFrontendTLS_def)
next
  fix lb and xs :: "upTLSConfig list"
  assume "lb_ok lb" "map_option ufe_TLSConfigs (lf_findFrontend lb b) = Some xs"
  then show "distinct (map utc_Name xs) \<and> list_all (\<lambda>_. True) xs"
    using lf_findFrontend_D [of lb b] by (auto simp: fe_ok_def list_all_iff)
next
  fix lb and xs ys :: "upTLSConfig list"
  assume "lb_ok lb" "map_option ufe_TLSConfigs (lf_findFrontend lb b) = Some xs" "distinct (map utc_Name ys)"
  then show "lb_ok (inFrontends (\<lambda>p. p\<lparr>ufe_TLSConfigs := ys\<rparr>) b lb) \<and>
      ulb_UUID (inFrontends (\<lambda>p. p\<lparr>ufe_TLSConfigs := ys\<rparr>) b lb) = ulb_UUID lb"
    using lf_findFrontend_D [of lb b] by (auto simp: inFrontends_def fe_ok_def intro!: lb_ok_setFrontend)
next
  fix f n
  show "lv_FrontendTLS (lb_view f) i b n = (case gm_get (lf_LoadBalancers f) i of None \<Rightarrow> None
      | Some lb \<Rightarrow> (case map_option ufe_TLSConfigs (lf_findFrontend lb b) of None \<Rightarrow> None
          | Some xs \<Rightarrow> map_option (\<lambda>x. x) (findBy utc_Name xs n)))"
    by (simp add: lb_view_def atLB_def inFrontend_def lf_findFrontendTLS_def option.map_ident split: option.split)
qed (auto simp: put_FrontendTLS_def inFrontends_put view_frontend_tls findBy_funs lb_view_at inFrontend_here
      lf_findFrontendTLS_def fun_eq_iff)

text \<open>A new backend or frontend has no nested rows, a replaced one keeps them, a removed one takes them along.\<close>

lemma backends_slices:
  "findBy ube_Name (ulb_Backends lb) (ube_Name x) = None \<Longrightarrow>
     backendsOf (lb\<lparr>ulb_Backends := ulb_Backends lb @ [x]\<rparr>) = (backendsOf lb)(ube_Name x := Some (be_core x))"
  "findBy ube_Name (ulb_Backends lb) (ube_Name x) = None \<Longrightarrow> g x = (\<lambda>_. None) \<Longrightarrow>
     inBackend g (lb\<lparr>ulb_Backends := ulb_Backends lb @ [x]\<rparr>) = inBackend g lb"
  "lb_ok lb \<Longrightarrow> backendsOf (lb\<lparr>ulb_Backends := dropFirst ube_Name n (ulb_Backends lb)\<rparr>) = (backendsOf lb)(n := None)"
  "lb_ok lb \<Longrightarrow> inBackend g (lb\<lparr>ulb_Backends := dropFirst ube_Name n (ulb_Backends lb)\<rparr>) = (inBackend g lb)(n := \<lambda>_. None)"
  by (auto simp: backendsOf_def inBackend_def lf_findBackend_def fun_eq_iff findBy_append findBy_dropFirst lb_ok_def
      split: option.splits)

lemma frontends_slices:
  "findBy ufe_Name (ulb_Frontends lb) (ufe_Name x) = None \<Longrightarrow>
     frontendsOf (lb\<lparr>ulb_Frontends := ulb_Frontends lb @ [x]\<rparr>) = (frontendsOf lb)(ufe_Name x := Some (fe_core x))"
  "findBy ufe_Name (ulb_Frontends lb) (ufe_Name x) = None \<Longrightarrow> h x = (\<lambda>_. None) \<Longrightarrow>
     inFrontend h (lb\<lparr>ulb_Frontends := ulb_Frontends lb @ [x]\<rparr>) = inFrontend h lb"
  "lb_ok lb \<Longrightarrow> frontendsOf (lb\<lparr>ulb_Frontends := dropFirst ufe_Name n (ulb_Frontends lb)\<rparr>) = (frontendsOf lb)(n := None)"
  "lb_ok lb \<Longrightarrow> inFrontend h (lb\<lparr>ulb_Frontends := dropFirst ufe_Name n (ulb_Frontends lb)\<rparr>) = (inFrontend h lb)(n := \<lambda>_. None)"
  by (auto simp: frontendsOf_def inFrontend_def lf_findFrontend_def fun_eq_iff findBy_append findBy_dropFirst lb_ok_def
      split: option.splits)

interpretation backend_slice: fake_slice i "\<lambda>lb. Some (ulb_Backends lb)" "\<lambda>xs lb. lb\<lparr>ulb_Backends := xs\<rparr>" ube_Name
  be_core "\<lambda>v. lv_Backends v i" "put_Backend i" be_ok "\<lambda>x. ube_Members x = [] \<and> ube_TLSConfigs x = []"
  "\<lambda>x y. ube_Members x = ube_Members y \<and> ube_TLSConfigs x = ube_TLSConfigs y" for i
proof
  fix f n
  show "lv_Backends (lb_view f) i n = (case gm_get (lf_LoadBalancers f) i of None \<Rightarrow> None
      | Some lb \<Rightarrow> (case Some (ulb_Backends lb) of None \<Rightarrow> None | Some xs \<Rightarrow> map_option be_core (findBy ube_Name xs n)))"
    by (simp add: lb_view_def atLB_def backendsOf_def lf_findBackend_def split: option.split)
next
  fix f :: LoadBalancerFake and lb :: upLoadBalancer and xs and x :: upLBBackend
  assume a: "gm_get (lf_LoadBalancers f) i = Some lb" "lb_ok lb" "Some (ulb_Backends lb) = Some xs"
    "ube_Members x = [] \<and> ube_TLSConfigs x = []" "findBy ube_Name xs (ube_Name x) = None"
  have e: "lf_findMember x = (\<lambda>_. None)" "lf_findBackendTLS x = (\<lambda>_. None)"
    using a(4) by (simp_all add: lf_findMember_def lf_findBackendTLS_def fun_eq_iff)
  show "lb_view (lf_putLB i (lb\<lparr>ulb_Backends := xs @ [x]\<rparr>) f) = put_Backend i (ube_Name x) (Some (be_core x)) (lb_view f)"
    using a by (auto simp: view_backends backends_slices e put_Backend_def upd_same lb_view_at)
next
  fix f :: LoadBalancerFake and lb :: upLoadBalancer and xs and x y :: upLBBackend and n
  assume a: "gm_get (lf_LoadBalancers f) i = Some lb" "lb_ok lb" "Some (ulb_Backends lb) = Some xs"
    "ube_Members x = ube_Members y \<and> ube_TLSConfigs x = ube_TLSConfigs y" "findBy ube_Name xs n = Some y" "ube_Name x = n"
  have y: "lf_findBackend lb n = Some y" using a(3,5) by (simp add: lf_findBackend_def)
  have e: "lf_findMember x = lf_findMember y" "lf_findBackendTLS x = lf_findBackendTLS y"
    using a(4) by (simp_all add: lf_findMember_def lf_findBackendTLS_def fun_eq_iff)
  show "lb_view (lf_putLB i (lb\<lparr>ulb_Backends := setFirst ube_Name n x xs\<rparr>) f) = put_Backend i n (Some (be_core x)) (lb_view f)"
    unfolding option.inject [THEN iffD1, OF a(3), symmetric]
    by (simp add: view_backends [OF a(1)] inBackend_set [OF y a(6)] e put_Backend_def upd_same lb_view_at [OF a(1)]
        inBackend_here [OF y])
next
  fix f :: LoadBalancerFake and lb :: upLoadBalancer and xs y n
  assume a: "gm_get (lf_LoadBalancers f) i = Some lb" "lb_ok lb" "Some (ulb_Backends lb) = Some xs"
    "findBy ube_Name xs n = Some y"
  then show "lb_view (lf_putLB i (lb\<lparr>ulb_Backends := dropFirst ube_Name n xs\<rparr>) f) = put_Backend i n None (lb_view f)"
    by (auto simp: view_backends backends_slices put_Backend_def upd_same lb_view_at)
qed (auto simp: lb_ok_def be_ok_def list_all_iff put_Backend_def fun_eq_iff)

interpretation frontend_slice: fake_slice i "\<lambda>lb. Some (ulb_Frontends lb)" "\<lambda>xs lb. lb\<lparr>ulb_Frontends := xs\<rparr>" ufe_Name
  fe_core "\<lambda>v. lv_Frontends v i" "put_Frontend i" fe_ok "\<lambda>x. ufe_Rules x = [] \<and> ufe_TLSConfigs x = []"
  "\<lambda>x y. ufe_Rules x = ufe_Rules y \<and> ufe_TLSConfigs x = ufe_TLSConfigs y" for i
proof
  fix f n
  show "lv_Frontends (lb_view f) i n = (case gm_get (lf_LoadBalancers f) i of None \<Rightarrow> None
      | Some lb \<Rightarrow> (case Some (ulb_Frontends lb) of None \<Rightarrow> None | Some xs \<Rightarrow> map_option fe_core (findBy ufe_Name xs n)))"
    by (simp add: lb_view_def atLB_def frontendsOf_def lf_findFrontend_def split: option.split)
next
  fix f :: LoadBalancerFake and lb :: upLoadBalancer and xs and x :: upLBFrontend
  assume a: "gm_get (lf_LoadBalancers f) i = Some lb" "lb_ok lb" "Some (ulb_Frontends lb) = Some xs"
    "ufe_Rules x = [] \<and> ufe_TLSConfigs x = []" "findBy ufe_Name xs (ufe_Name x) = None"
  have e: "lf_findRule x = (\<lambda>_. None)" "lf_findFrontendTLS x = (\<lambda>_. None)"
    using a(4) by (simp_all add: lf_findRule_def lf_findFrontendTLS_def fun_eq_iff)
  show "lb_view (lf_putLB i (lb\<lparr>ulb_Frontends := xs @ [x]\<rparr>) f) = put_Frontend i (ufe_Name x) (Some (fe_core x)) (lb_view f)"
    using a by (auto simp: view_frontends frontends_slices e put_Frontend_def upd_same lb_view_at)
next
  fix f :: LoadBalancerFake and lb :: upLoadBalancer and xs and x y :: upLBFrontend and n
  assume a: "gm_get (lf_LoadBalancers f) i = Some lb" "lb_ok lb" "Some (ulb_Frontends lb) = Some xs"
    "ufe_Rules x = ufe_Rules y \<and> ufe_TLSConfigs x = ufe_TLSConfigs y" "findBy ufe_Name xs n = Some y" "ufe_Name x = n"
  have y: "lf_findFrontend lb n = Some y" using a(3,5) by (simp add: lf_findFrontend_def)
  have e: "lf_findRule x = lf_findRule y" "lf_findFrontendTLS x = lf_findFrontendTLS y"
    using a(4) by (simp_all add: lf_findRule_def lf_findFrontendTLS_def fun_eq_iff)
  show "lb_view (lf_putLB i (lb\<lparr>ulb_Frontends := setFirst ufe_Name n x xs\<rparr>) f) = put_Frontend i n (Some (fe_core x)) (lb_view f)"
    unfolding option.inject [THEN iffD1, OF a(3), symmetric]
    by (simp add: view_frontends [OF a(1)] inFrontend_set [OF y a(6)] e put_Frontend_def upd_same lb_view_at [OF a(1)]
        inFrontend_here [OF y])
next
  fix f :: LoadBalancerFake and lb :: upLoadBalancer and xs y n
  assume a: "gm_get (lf_LoadBalancers f) i = Some lb" "lb_ok lb" "Some (ulb_Frontends lb) = Some xs"
    "findBy ufe_Name xs n = Some y"
  then show "lb_view (lf_putLB i (lb\<lparr>ulb_Frontends := dropFirst ufe_Name n xs\<rparr>) f) = put_Frontend i n None (lb_view f)"
    by (auto simp: view_frontends frontends_slices put_Frontend_def upd_same lb_view_at)
qed (auto simp: lb_ok_def fe_ok_def list_all_iff put_Frontend_def fun_eq_iff)

end
