(* ===== verification/LoadBalancerFakeLaws.thy ===== *)
theory LoadBalancerFakeLaws
  imports LoadBalancerSlices
begin

text \<open>
  The laws of the in-memory load balancer service: its calls on the seven collections are
  the slice calls of \<open>LoadBalancerSlices\<close>, and with the laws of load balancers and of
  certificate bundles the service keeps the contract \<open>load_balancer_service\<close>.
\<close>

subsection \<open>The laws of the seven collections\<close>

lemmas fake_steps = lf_onBackend_def lf_onFrontend_def lf_onLB_def Let_def
lemmas fake_parents = lf_onBackend_def lf_onFrontend_def
lemmas fake_puts = inBackends_put inFrontends_put

lemma lf_onLB_cong: "(\<And>lb f. k lb f = k' lb f) \<Longrightarrow> lf_onLB i k f = lf_onLB i k' f"
  by (simp add: lf_onLB_def split: option.split)

lemma lf_mutate_cong: "(\<And>f. k f = k' f) \<Longrightarrow> lf_mutate n k = lf_mutate n k'"
  by (simp add: lf_mutate_def fun_eq_iff split: prod.split option.split)

lemma lf_error_cong: "m = m' \<Longrightarrow> lf_error (m f) = lf_error (m' f)"
  by simp

lemma lf_changeBackend_sel:
  "ube_Name (lf_changeBackend m x) = ube_Name x" "ube_Members (lf_changeBackend m x) = ube_Members x"
  "ube_TLSConfigs (lf_changeBackend m x) = ube_TLSConfigs x" "backend_patched m (Some x) (lf_changeBackend m x)"
  by (simp_all add: lf_changeBackend_def backend_patched_def split: option.split)

lemma lf_changeFrontend_sel:
  "ufe_Name (lf_changeFrontend m x) = ufe_Name x" "ufe_Rules (lf_changeFrontend m x) = ufe_Rules x"
  "ufe_TLSConfigs (lf_changeFrontend m x) = ufe_TLSConfigs x" "frontend_patched m (Some x) (lf_changeFrontend m x)"
  by (simp_all add: lf_changeFrontend_def frontend_patched_def Let_def split: option.split)

lemma lf_changeMember_sel:
  "mbm_Name m = [] \<Longrightarrow> ubm_Name (lf_changeMember m x) = ubm_Name x"
  "member_patched m (Some x) (lf_changeMember (m\<lparr>mbm_Name := k\<rparr>) x)"
  by (simp_all add: lf_changeMember_def member_patched_def Let_def split: option.split)

lemma patched_core:
  "backend_patched m (Some (be_core y)) (be_core x) \<longleftrightarrow> backend_patched m (Some y) x"
  "frontend_patched n (Some (fe_core v)) (fe_core u) \<longleftrightarrow> frontend_patched n (Some v) u"
  by (simp_all add: backend_patched_def frontend_patched_def)

lemma fake_resolver_calls:
  "fake_GetLoadBalancerResolver i = slice_get i (\<lambda>lb. Some (ulb_Resolvers lb)) urs_Name '''' ''load balancer resolver''"
  "fake_CreateLoadBalancerResolver i = slice_create i (\<lambda>lb. Some (ulb_Resolvers lb)) (\<lambda>xs lb. lb\<lparr>ulb_Resolvers := xs\<rparr>) urs_Name ''CreateLoadBalancerResolver'' ''''
     ''resolver already exists'' rrs_Name (\<lambda>r t. (convResolver r)\<lparr>urs_CreatedAt := t\<rparr>)"
  "fake_DeleteLoadBalancerResolver i = slice_delete i (\<lambda>lb. Some (ulb_Resolvers lb)) (\<lambda>xs lb. lb\<lparr>ulb_Resolvers := xs\<rparr>) urs_Name ''DeleteLoadBalancerResolver''
     '''' ''load balancer resolver''"
proof -
  show "fake_GetLoadBalancerResolver i = slice_get i (\<lambda>lb. Some (ulb_Resolvers lb)) urs_Name '''' ''load balancer resolver''"
    unfolding fake_GetLoadBalancerResolver_def slice_get_def fake_parents
    by (rule ext, rule ext, rule lf_onLB_cong) (simp add: lf_findResolver_def split: option.split)
  show "fake_CreateLoadBalancerResolver i = slice_create i (\<lambda>lb. Some (ulb_Resolvers lb)) (\<lambda>xs lb. lb\<lparr>ulb_Resolvers := xs\<rparr>) urs_Name ''CreateLoadBalancerResolver'' ''''
     ''resolver already exists'' rrs_Name (\<lambda>r t. (convResolver r)\<lparr>urs_CreatedAt := t\<rparr>)"
    unfolding fake_CreateLoadBalancerResolver_def slice_create_def fake_parents
    by (rule ext, rule lf_mutate_cong, rule lf_onLB_cong) (simp add: lf_findResolver_def  fake_puts Let_def split: option.split)
  show "fake_DeleteLoadBalancerResolver i = slice_delete i (\<lambda>lb. Some (ulb_Resolvers lb)) (\<lambda>xs lb. lb\<lparr>ulb_Resolvers := xs\<rparr>) urs_Name ''DeleteLoadBalancerResolver''
     '''' ''load balancer resolver''"
    unfolding fake_DeleteLoadBalancerResolver_def slice_delete_def fake_parents
    by (rule ext, rule ext, rule lf_error_cong, rule lf_mutate_cong, rule lf_onLB_cong)
      (simp add:  fake_puts split: option.split)
qed

lemma fake_resolver_modify:
  "fake_ModifyLoadBalancerResolver i n m = slice_modify i (\<lambda>lb. Some (ulb_Resolvers lb)) (\<lambda>xs lb. lb\<lparr>ulb_Resolvers := xs\<rparr>) urs_Name ''ModifyLoadBalancerResolver''
     '''' ''load balancer resolver'' (\<lambda>m x. (convResolver m)\<lparr>urs_CreatedAt := urs_CreatedAt x\<rparr>) n m"
  unfolding fake_ModifyLoadBalancerResolver_def slice_modify_def fake_parents
  by (rule lf_mutate_cong, rule lf_onLB_cong) (simp add: lf_findResolver_def   fake_puts Let_def split: option.split)

lemma fake_resolver_rows:
  "child_rows lf_inv lb_view (fake_GetLoadBalancerResolver i) (fake_CreateLoadBalancerResolver i)
     (\<lambda>n m. fake_ModifyLoadBalancerResolver i n (m\<lparr>rrs_Name := n\<rparr>)) (fake_DeleteLoadBalancerResolver i) (\<lambda>x. x) urs_Name (\<lambda>v. lv_Resolvers v i) (put_Resolver i) rrs_Name
     resolver_built (on_row (\<lambda>m b. resolver_built m))"
  unfolding fake_resolver_calls
proof (rule resolver_slice.slice_child_rows)
  fix s n m r s'
  assume a: "lf_inv s" "(\<lambda>n m. fake_ModifyLoadBalancerResolver i n (m\<lparr>rrs_Name := n\<rparr>)) n m s = (r, s')"
  show "lf_inv s' \<and>
      (case r of Inl e \<Rightarrow> lb_view s' = lb_view s
       | Inr x \<Rightarrow> urs_Name x = n \<and> (on_row (\<lambda>m b. resolver_built m)) m (lv_Resolvers (lb_view s) i n) ((\<lambda>x. x) x) \<and>
           lb_view s' = put_Resolver i n (Some ((\<lambda>x. x) x)) (lb_view s))"
    by (rule resolver_slice.slice_modify_patched [OF a(1) a(2) [unfolded fake_resolver_modify], where P = "(on_row (\<lambda>m b. resolver_built m)) m"])
      (auto simp: on_row_def resolver_built_def convResolver_def)
qed (auto simp: resolver_built_def convResolver_def)

lemma fake_backend_calls:
  "fake_GetLoadBalancerBackend i = slice_get i (\<lambda>lb. Some (ulb_Backends lb)) ube_Name '''' ''load balancer backend''"
  "(\<lambda>c. fake_CreateLoadBalancerBackend i (bareBackend c)) = slice_create i (\<lambda>lb. Some (ulb_Backends lb)) (\<lambda>xs lb. lb\<lparr>ulb_Backends := xs\<rparr>) ube_Name ''CreateLoadBalancerBackend'' ''''
     ''backend already exists'' rbe_Name (\<lambda>c t. (convBackend (bareBackend c))\<lparr>ube_CreatedAt := t\<rparr>)"
  "fake_DeleteLoadBalancerBackend i = slice_delete i (\<lambda>lb. Some (ulb_Backends lb)) (\<lambda>xs lb. lb\<lparr>ulb_Backends := xs\<rparr>) ube_Name ''DeleteLoadBalancerBackend''
     '''' ''load balancer backend''"
proof -
  show "fake_GetLoadBalancerBackend i = slice_get i (\<lambda>lb. Some (ulb_Backends lb)) ube_Name '''' ''load balancer backend''"
    unfolding fake_GetLoadBalancerBackend_def slice_get_def fake_parents
    by (rule ext, rule ext, rule lf_onLB_cong) (simp add: lf_findBackend_def split: option.split)
  show "(\<lambda>c. fake_CreateLoadBalancerBackend i (bareBackend c)) = slice_create i (\<lambda>lb. Some (ulb_Backends lb)) (\<lambda>xs lb. lb\<lparr>ulb_Backends := xs\<rparr>) ube_Name ''CreateLoadBalancerBackend'' ''''
     ''backend already exists'' rbe_Name (\<lambda>c t. (convBackend (bareBackend c))\<lparr>ube_CreatedAt := t\<rparr>)"
    unfolding fake_CreateLoadBalancerBackend_def slice_create_def fake_parents
    by (rule ext, rule lf_mutate_cong, rule lf_onLB_cong) (simp add: lf_findBackend_def bareBackend_def fake_puts Let_def split: option.split)
  show "fake_DeleteLoadBalancerBackend i = slice_delete i (\<lambda>lb. Some (ulb_Backends lb)) (\<lambda>xs lb. lb\<lparr>ulb_Backends := xs\<rparr>) ube_Name ''DeleteLoadBalancerBackend''
     '''' ''load balancer backend''"
    unfolding fake_DeleteLoadBalancerBackend_def slice_delete_def fake_parents
    by (rule ext, rule ext, rule lf_error_cong, rule lf_mutate_cong, rule lf_onLB_cong)
      (simp add: bareBackend_def fake_puts split: option.split)
qed

lemma fake_backend_modify:
  "fake_ModifyLoadBalancerBackend i n m = slice_modify i (\<lambda>lb. Some (ulb_Backends lb)) (\<lambda>xs lb. lb\<lparr>ulb_Backends := xs\<rparr>) ube_Name ''ModifyLoadBalancerBackend''
     '''' ''load balancer backend'' lf_changeBackend n m"
  unfolding fake_ModifyLoadBalancerBackend_def slice_modify_def fake_parents
  by (rule lf_mutate_cong, rule lf_onLB_cong) (simp add: lf_findBackend_def bareBackend_def  fake_puts Let_def split: option.split)

lemma fake_backend_rows:
  "child_rows lf_inv lb_view (fake_GetLoadBalancerBackend i) (\<lambda>c. fake_CreateLoadBalancerBackend i (bareBackend c))
     (fake_ModifyLoadBalancerBackend i) (fake_DeleteLoadBalancerBackend i) be_core ube_Name (\<lambda>v. lv_Backends v i) (put_Backend i) rbe_Name
     backend_built backend_patched"
  unfolding fake_backend_calls
proof (rule backend_slice.slice_child_rows)
  fix s n m r s'
  assume a: "lf_inv s" "(fake_ModifyLoadBalancerBackend i) n m s = (r, s')"
  show "lf_inv s' \<and>
      (case r of Inl e \<Rightarrow> lb_view s' = lb_view s
       | Inr x \<Rightarrow> ube_Name x = n \<and> backend_patched m (lv_Backends (lb_view s) i n) (be_core x) \<and>
           lb_view s' = put_Backend i n (Some (be_core x)) (lb_view s))"
    by (rule backend_slice.slice_modify_patched [OF a(1) a(2) [unfolded fake_backend_modify], where P = "backend_patched m"])
      (auto simp: patched_core lf_changeBackend_sel)
qed (auto simp: backend_built_def convBackend_def bareBackend_def)

lemma fake_frontend_calls:
  "fake_GetLoadBalancerFrontend i = slice_get i (\<lambda>lb. Some (ulb_Frontends lb)) ufe_Name '''' ''load balancer frontend''"
  "(\<lambda>c. fake_CreateLoadBalancerFrontend i (bareFrontend c)) = slice_create i (\<lambda>lb. Some (ulb_Frontends lb)) (\<lambda>xs lb. lb\<lparr>ulb_Frontends := xs\<rparr>) ufe_Name ''CreateLoadBalancerFrontend'' ''''
     ''frontend already exists'' rfe_Name (\<lambda>c t. (convFrontend (bareFrontend c))\<lparr>ufe_CreatedAt := t\<rparr>)"
  "fake_DeleteLoadBalancerFrontend i = slice_delete i (\<lambda>lb. Some (ulb_Frontends lb)) (\<lambda>xs lb. lb\<lparr>ulb_Frontends := xs\<rparr>) ufe_Name ''DeleteLoadBalancerFrontend''
     '''' ''load balancer frontend''"
proof -
  show "fake_GetLoadBalancerFrontend i = slice_get i (\<lambda>lb. Some (ulb_Frontends lb)) ufe_Name '''' ''load balancer frontend''"
    unfolding fake_GetLoadBalancerFrontend_def slice_get_def fake_parents
    by (rule ext, rule ext, rule lf_onLB_cong) (simp add: lf_findFrontend_def split: option.split)
  show "(\<lambda>c. fake_CreateLoadBalancerFrontend i (bareFrontend c)) = slice_create i (\<lambda>lb. Some (ulb_Frontends lb)) (\<lambda>xs lb. lb\<lparr>ulb_Frontends := xs\<rparr>) ufe_Name ''CreateLoadBalancerFrontend'' ''''
     ''frontend already exists'' rfe_Name (\<lambda>c t. (convFrontend (bareFrontend c))\<lparr>ufe_CreatedAt := t\<rparr>)"
    unfolding fake_CreateLoadBalancerFrontend_def slice_create_def fake_parents
    by (rule ext, rule lf_mutate_cong, rule lf_onLB_cong) (simp add: lf_findFrontend_def bareFrontend_def fake_puts Let_def split: option.split)
  show "fake_DeleteLoadBalancerFrontend i = slice_delete i (\<lambda>lb. Some (ulb_Frontends lb)) (\<lambda>xs lb. lb\<lparr>ulb_Frontends := xs\<rparr>) ufe_Name ''DeleteLoadBalancerFrontend''
     '''' ''load balancer frontend''"
    unfolding fake_DeleteLoadBalancerFrontend_def slice_delete_def fake_parents
    by (rule ext, rule ext, rule lf_error_cong, rule lf_mutate_cong, rule lf_onLB_cong)
      (simp add: bareFrontend_def fake_puts split: option.split)
qed

lemma fake_frontend_modify:
  "fake_ModifyLoadBalancerFrontend i n m = slice_modify i (\<lambda>lb. Some (ulb_Frontends lb)) (\<lambda>xs lb. lb\<lparr>ulb_Frontends := xs\<rparr>) ufe_Name ''ModifyLoadBalancerFrontend''
     '''' ''load balancer frontend'' lf_changeFrontend n m"
  unfolding fake_ModifyLoadBalancerFrontend_def slice_modify_def fake_parents
  by (rule lf_mutate_cong, rule lf_onLB_cong) (simp add: lf_findFrontend_def bareFrontend_def  fake_puts Let_def split: option.split)

lemma fake_frontend_rows:
  "child_rows lf_inv lb_view (fake_GetLoadBalancerFrontend i) (\<lambda>c. fake_CreateLoadBalancerFrontend i (bareFrontend c))
     (fake_ModifyLoadBalancerFrontend i) (fake_DeleteLoadBalancerFrontend i) fe_core ufe_Name (\<lambda>v. lv_Frontends v i) (put_Frontend i) rfe_Name
     frontend_built frontend_patched"
  unfolding fake_frontend_calls
proof (rule frontend_slice.slice_child_rows)
  fix s n m r s'
  assume a: "lf_inv s" "(fake_ModifyLoadBalancerFrontend i) n m s = (r, s')"
  show "lf_inv s' \<and>
      (case r of Inl e \<Rightarrow> lb_view s' = lb_view s
       | Inr x \<Rightarrow> ufe_Name x = n \<and> frontend_patched m (lv_Frontends (lb_view s) i n) (fe_core x) \<and>
           lb_view s' = put_Frontend i n (Some (fe_core x)) (lb_view s))"
    by (rule frontend_slice.slice_modify_patched [OF a(1) a(2) [unfolded fake_frontend_modify], where P = "frontend_patched m"])
      (auto simp: patched_core lf_changeFrontend_sel)
qed (auto simp: frontend_built_def convFrontend_def bareFrontend_def convRules_def convFrontendTLS_def)

lemma fake_member_calls:
  "fake_GetLoadBalancerBackendMember i b = slice_get i (\<lambda>lb. map_option ube_Members (lf_findBackend lb b)) ubm_Name ''load balancer backend'' ''load balancer backend member''"
  "fake_CreateLoadBalancerBackendMember i b = slice_create i (\<lambda>lb. map_option ube_Members (lf_findBackend lb b)) (\<lambda>ys. inBackends (\<lambda>p. p\<lparr>ube_Members := ys\<rparr>) b) ubm_Name ''CreateLoadBalancerBackendMember'' ''load balancer backend''
     ''backend member already exists'' rbm_Name (\<lambda>r t. (convMember r)\<lparr>ubm_CreatedAt := t\<rparr>)"
  "fake_DeleteLoadBalancerBackendMember i b = slice_delete i (\<lambda>lb. map_option ube_Members (lf_findBackend lb b)) (\<lambda>ys. inBackends (\<lambda>p. p\<lparr>ube_Members := ys\<rparr>) b) ubm_Name ''DeleteLoadBalancerBackendMember''
     ''load balancer backend'' ''load balancer backend member''"
proof -
  show "fake_GetLoadBalancerBackendMember i b = slice_get i (\<lambda>lb. map_option ube_Members (lf_findBackend lb b)) ubm_Name ''load balancer backend'' ''load balancer backend member''"
    unfolding fake_GetLoadBalancerBackendMember_def slice_get_def fake_parents
    by (rule ext, rule ext, rule lf_onLB_cong) (simp add: lf_findMember_def split: option.split)
  show "fake_CreateLoadBalancerBackendMember i b = slice_create i (\<lambda>lb. map_option ube_Members (lf_findBackend lb b)) (\<lambda>ys. inBackends (\<lambda>p. p\<lparr>ube_Members := ys\<rparr>) b) ubm_Name ''CreateLoadBalancerBackendMember'' ''load balancer backend''
     ''backend member already exists'' rbm_Name (\<lambda>r t. (convMember r)\<lparr>ubm_CreatedAt := t\<rparr>)"
    unfolding fake_CreateLoadBalancerBackendMember_def slice_create_def fake_parents
    by (rule ext, rule lf_mutate_cong, rule lf_onLB_cong) (simp add: lf_findMember_def  fake_puts Let_def split: option.split)
  show "fake_DeleteLoadBalancerBackendMember i b = slice_delete i (\<lambda>lb. map_option ube_Members (lf_findBackend lb b)) (\<lambda>ys. inBackends (\<lambda>p. p\<lparr>ube_Members := ys\<rparr>) b) ubm_Name ''DeleteLoadBalancerBackendMember''
     ''load balancer backend'' ''load balancer backend member''"
    unfolding fake_DeleteLoadBalancerBackendMember_def slice_delete_def fake_parents
    by (rule ext, rule ext, rule lf_error_cong, rule lf_mutate_cong, rule lf_onLB_cong)
      (simp add:  fake_puts split: option.split)
qed

lemma fake_member_modify:
  "fake_ModifyLoadBalancerBackendMember i b n m = slice_modify i (\<lambda>lb. map_option ube_Members (lf_findBackend lb b)) (\<lambda>ys. inBackends (\<lambda>p. p\<lparr>ube_Members := ys\<rparr>) b) ubm_Name ''ModifyLoadBalancerBackendMember''
     ''load balancer backend'' ''load balancer backend member'' lf_changeMember n m"
  unfolding fake_ModifyLoadBalancerBackendMember_def slice_modify_def fake_parents
  by (rule lf_mutate_cong, rule lf_onLB_cong) (simp add: lf_findMember_def   fake_puts Let_def split: option.split)

lemma fake_member_rows:
  "child_rows lf_inv lb_view (fake_GetLoadBalancerBackendMember i b) (fake_CreateLoadBalancerBackendMember i b)
     (\<lambda>n m. fake_ModifyLoadBalancerBackendMember i b n (m\<lparr>mbm_Name := []\<rparr>)) (fake_DeleteLoadBalancerBackendMember i b) (\<lambda>x. x) ubm_Name (\<lambda>v. lv_Members v i b) (put_Member i b) rbm_Name
     member_built member_patched"
  unfolding fake_member_calls
proof (rule member_slice.slice_child_rows)
  fix s n m r s'
  assume a: "lf_inv s" "(\<lambda>n m. fake_ModifyLoadBalancerBackendMember i b n (m\<lparr>mbm_Name := []\<rparr>)) n m s = (r, s')"
  show "lf_inv s' \<and>
      (case r of Inl e \<Rightarrow> lb_view s' = lb_view s
       | Inr x \<Rightarrow> ubm_Name x = n \<and> member_patched m (lv_Members (lb_view s) i b n) ((\<lambda>x. x) x) \<and>
           lb_view s' = put_Member i b n (Some ((\<lambda>x. x) x)) (lb_view s))"
    by (rule member_slice.slice_modify_patched [OF a(1) a(2) [unfolded fake_member_modify], where P = "member_patched m"])
      (auto simp: lf_changeMember_sel)
qed (auto simp: member_built_def convMember_def)

lemma fake_backend_tls_calls:
  "fake_GetLoadBalancerBackendTLSConfig i b = slice_get i (\<lambda>lb. map_option ube_TLSConfigs (lf_findBackend lb b)) utc_Name ''load balancer backend'' ''load balancer backend TLS config''"
  "fake_CreateLoadBalancerBackendTLSConfig i b = slice_create i (\<lambda>lb. map_option ube_TLSConfigs (lf_findBackend lb b)) (\<lambda>ys. inBackends (\<lambda>p. p\<lparr>ube_TLSConfigs := ys\<rparr>) b) utc_Name ''CreateLoadBalancerBackendTLSConfig'' ''load balancer backend''
     ''backend TLS config already exists'' rtc_Name (\<lambda>r t. (convBackendTLS r)\<lparr>utc_CreatedAt := t\<rparr>)"
  "fake_DeleteLoadBalancerBackendTLSConfig i b = slice_delete i (\<lambda>lb. map_option ube_TLSConfigs (lf_findBackend lb b)) (\<lambda>ys. inBackends (\<lambda>p. p\<lparr>ube_TLSConfigs := ys\<rparr>) b) utc_Name ''DeleteLoadBalancerBackendTLSConfig''
     ''load balancer backend'' ''load balancer backend TLS config''"
proof -
  show "fake_GetLoadBalancerBackendTLSConfig i b = slice_get i (\<lambda>lb. map_option ube_TLSConfigs (lf_findBackend lb b)) utc_Name ''load balancer backend'' ''load balancer backend TLS config''"
    unfolding fake_GetLoadBalancerBackendTLSConfig_def slice_get_def fake_parents
    by (rule ext, rule ext, rule lf_onLB_cong) (simp add: lf_findBackendTLS_def split: option.split)
  show "fake_CreateLoadBalancerBackendTLSConfig i b = slice_create i (\<lambda>lb. map_option ube_TLSConfigs (lf_findBackend lb b)) (\<lambda>ys. inBackends (\<lambda>p. p\<lparr>ube_TLSConfigs := ys\<rparr>) b) utc_Name ''CreateLoadBalancerBackendTLSConfig'' ''load balancer backend''
     ''backend TLS config already exists'' rtc_Name (\<lambda>r t. (convBackendTLS r)\<lparr>utc_CreatedAt := t\<rparr>)"
    unfolding fake_CreateLoadBalancerBackendTLSConfig_def slice_create_def fake_parents
    by (rule ext, rule lf_mutate_cong, rule lf_onLB_cong) (simp add: lf_findBackendTLS_def  fake_puts Let_def split: option.split)
  show "fake_DeleteLoadBalancerBackendTLSConfig i b = slice_delete i (\<lambda>lb. map_option ube_TLSConfigs (lf_findBackend lb b)) (\<lambda>ys. inBackends (\<lambda>p. p\<lparr>ube_TLSConfigs := ys\<rparr>) b) utc_Name ''DeleteLoadBalancerBackendTLSConfig''
     ''load balancer backend'' ''load balancer backend TLS config''"
    unfolding fake_DeleteLoadBalancerBackendTLSConfig_def slice_delete_def fake_parents
    by (rule ext, rule ext, rule lf_error_cong, rule lf_mutate_cong, rule lf_onLB_cong)
      (simp add:  fake_puts split: option.split)
qed

lemma fake_backend_tls_modify:
  "fake_ModifyLoadBalancerBackendTLSConfig i b n m = slice_modify i (\<lambda>lb. map_option ube_TLSConfigs (lf_findBackend lb b)) (\<lambda>ys. inBackends (\<lambda>p. p\<lparr>ube_TLSConfigs := ys\<rparr>) b) utc_Name ''ModifyLoadBalancerBackendTLSConfig''
     ''load balancer backend'' ''load balancer backend TLS config'' (\<lambda>m x. x\<lparr>utc_CertificateBundleUUID := rtc_CertificateBundleUUID m\<rparr>) n m"
  unfolding fake_ModifyLoadBalancerBackendTLSConfig_def slice_modify_def fake_parents
  by (rule lf_mutate_cong, rule lf_onLB_cong) (simp add: lf_findBackendTLS_def   fake_puts Let_def split: option.split)

lemma fake_backend_tls_rows:
  "child_rows lf_inv lb_view (fake_GetLoadBalancerBackendTLSConfig i b) (fake_CreateLoadBalancerBackendTLSConfig i b)
     (fake_ModifyLoadBalancerBackendTLSConfig i b) (fake_DeleteLoadBalancerBackendTLSConfig i b) (\<lambda>x. x) utc_Name (\<lambda>v. lv_BackendTLS v i b) (put_BackendTLS i b) rtc_Name
     tls_built (on_row (\<lambda>m y. tls_built m))"
  unfolding fake_backend_tls_calls
proof (rule backend_tls_slice.slice_child_rows)
  fix s n m r s'
  assume a: "lf_inv s" "(fake_ModifyLoadBalancerBackendTLSConfig i b) n m s = (r, s')"
  show "lf_inv s' \<and>
      (case r of Inl e \<Rightarrow> lb_view s' = lb_view s
       | Inr x \<Rightarrow> utc_Name x = n \<and> (on_row (\<lambda>m y. tls_built m)) m (lv_BackendTLS (lb_view s) i b n) ((\<lambda>x. x) x) \<and>
           lb_view s' = put_BackendTLS i b n (Some ((\<lambda>x. x) x)) (lb_view s))"
    by (rule backend_tls_slice.slice_modify_patched [OF a(1) a(2) [unfolded fake_backend_tls_modify], where P = "(on_row (\<lambda>m y. tls_built m)) m"])
      (auto simp: on_row_def tls_built_def)
qed (auto simp: tls_built_def convBackendTLS_def)

lemma fake_rule_calls:
  "fake_GetLoadBalancerFrontendRule i b = slice_get i (\<lambda>lb. map_option ufe_Rules (lf_findFrontend lb b)) ulr_Name ''load balancer frontend'' ''load balancer frontend rule''"
  "fake_CreateLoadBalancerFrontendRule i b = slice_create i (\<lambda>lb. map_option ufe_Rules (lf_findFrontend lb b)) (\<lambda>ys. inFrontends (\<lambda>p. p\<lparr>ufe_Rules := ys\<rparr>) b) ulr_Name ''CreateLoadBalancerFrontendRule'' ''load balancer frontend''
     ''frontend rule already exists'' rru_Name (\<lambda>r t. (convRule r)\<lparr>ulr_CreatedAt := t\<rparr>)"
  "fake_DeleteLoadBalancerFrontendRule i b = slice_delete i (\<lambda>lb. map_option ufe_Rules (lf_findFrontend lb b)) (\<lambda>ys. inFrontends (\<lambda>p. p\<lparr>ufe_Rules := ys\<rparr>) b) ulr_Name ''DeleteLoadBalancerFrontendRule''
     ''load balancer frontend'' ''load balancer frontend rule''"
proof -
  show "fake_GetLoadBalancerFrontendRule i b = slice_get i (\<lambda>lb. map_option ufe_Rules (lf_findFrontend lb b)) ulr_Name ''load balancer frontend'' ''load balancer frontend rule''"
    unfolding fake_GetLoadBalancerFrontendRule_def slice_get_def fake_parents
    by (rule ext, rule ext, rule lf_onLB_cong) (simp add: lf_findRule_def split: option.split)
  show "fake_CreateLoadBalancerFrontendRule i b = slice_create i (\<lambda>lb. map_option ufe_Rules (lf_findFrontend lb b)) (\<lambda>ys. inFrontends (\<lambda>p. p\<lparr>ufe_Rules := ys\<rparr>) b) ulr_Name ''CreateLoadBalancerFrontendRule'' ''load balancer frontend''
     ''frontend rule already exists'' rru_Name (\<lambda>r t. (convRule r)\<lparr>ulr_CreatedAt := t\<rparr>)"
    unfolding fake_CreateLoadBalancerFrontendRule_def slice_create_def fake_parents
    by (rule ext, rule lf_mutate_cong, rule lf_onLB_cong) (simp add: lf_findRule_def  fake_puts Let_def split: option.split)
  show "fake_DeleteLoadBalancerFrontendRule i b = slice_delete i (\<lambda>lb. map_option ufe_Rules (lf_findFrontend lb b)) (\<lambda>ys. inFrontends (\<lambda>p. p\<lparr>ufe_Rules := ys\<rparr>) b) ulr_Name ''DeleteLoadBalancerFrontendRule''
     ''load balancer frontend'' ''load balancer frontend rule''"
    unfolding fake_DeleteLoadBalancerFrontendRule_def slice_delete_def fake_parents
    by (rule ext, rule ext, rule lf_error_cong, rule lf_mutate_cong, rule lf_onLB_cong)
      (simp add:  fake_puts split: option.split)
qed

lemma fake_rule_replace:
  assumes "lf_inv s" and "(\<lambda>n m. fake_ReplaceLoadBalancerFrontendRule i b n (m\<lparr>rru_Name := n\<rparr>)) n m s = (r, s')"
  shows "lf_inv s' \<and>
      (case r of Inl e \<Rightarrow> lb_view s' = lb_view s
       | Inr x \<Rightarrow> ulr_Name x = n \<and> (\<lambda>m y. rule_built m) m (lv_Rules (lb_view s) i b n) ((\<lambda>x. x) x) \<and>
           lb_view s' = put_Rule i b n (Some ((\<lambda>x. x) x)) (lb_view s))"
proof -
  obtain e0 f where rc: "lf_record ''ReplaceLoadBalancerFrontendRule'' s = (e0, f)" by fastforce
  note f = lf_record_cases [OF assms(1) rc]
  show ?thesis
  proof (cases r)
    case (Inl e)
    then show ?thesis
      using assms(2) rc f(1,2)
      by (auto simp: fake_ReplaceLoadBalancerFrontendRule_def lf_mutate_def fake_steps split: option.splits prod.splits)
  next
    case (Inr x)
    obtain lb fe t g where a: "gm_get (lf_LoadBalancers f) i = Some lb" "lf_findFrontend lb b = Some fe"
      "lf_time f = (t, g)" "x = (convRule (m\<lparr>rru_Name := n\<rparr>))\<lparr>ulr_UpdatedAt := t\<rparr>"
      and s': "s' = lf_putFrontend i lb b (fe\<lparr>ufe_Rules := (case findBy ulr_Name (ufe_Rules fe) n of
        Some _ \<Rightarrow> setFirst ulr_Name n x (ufe_Rules fe) | None \<Rightarrow> ufe_Rules fe @ [x])\<rparr>) g"
      using assms(2) rc Inr
      by (auto simp: fake_ReplaceLoadBalancerFrontendRule_def lf_mutate_def fake_steps convRule_def
          split: option.splits prod.splits)
    note g = lf_time_keeps [OF a(3)]
    have g': "lf_inv g" "gm_get (lf_LoadBalancers g) i = Some lb" using f(1) g a(1) by simp_all
    have x: "ulr_Name x = n" "rule_built m x" using a(4) by (simp_all add: convRule_def rule_built_def)
    have sel: "map_option ufe_Rules (lf_findFrontend lb b) = Some (ufe_Rules fe)" using a(2) by simp
    have "lf_inv s' \<and> lb_view s' = put_Rule i b n (Some x) (lb_view g)"
    proof (cases "findBy ulr_Name (ufe_Rules fe) n")
      case None
      then show ?thesis
        using rule_slice.inv_new [OF g' sel, where x = x] rule_slice.put_new [OF g'(2) lf_invD(3) [OF g'] sel, where x = x] x(1)
        by (simp add: s' inFrontends_put [OF a(2)])
    next
      case (Some y)
      then show ?thesis
        using rule_slice.inv_set [OF g' sel, where x = x and y = y and n = n] rule_slice.put_set [OF g'(2) lf_invD(3) [OF g'] sel, where x = x and y = y and n = n] x(1)
        by (simp add: s' inFrontends_put [OF a(2)])
    qed
    then show ?thesis using x g(2) f(2) Inr by simp
  qed
qed

lemma fake_rule_rows:
  "child_rows lf_inv lb_view (fake_GetLoadBalancerFrontendRule i b) (fake_CreateLoadBalancerFrontendRule i b)
     (\<lambda>n m. fake_ReplaceLoadBalancerFrontendRule i b n (m\<lparr>rru_Name := n\<rparr>)) (fake_DeleteLoadBalancerFrontendRule i b) (\<lambda>x. x) ulr_Name (\<lambda>v. lv_Rules v i b) (put_Rule i b) rru_Name
     rule_built (\<lambda>m y. rule_built m)"
  unfolding fake_rule_calls
proof (rule rule_slice.slice_child_rows)
  fix s n m r s'
  assume a: "lf_inv s" "(\<lambda>n m. fake_ReplaceLoadBalancerFrontendRule i b n (m\<lparr>rru_Name := n\<rparr>)) n m s = (r, s')"
  from a show "lf_inv s' \<and>
      (case r of Inl e \<Rightarrow> lb_view s' = lb_view s
       | Inr x \<Rightarrow> ulr_Name x = n \<and> (\<lambda>m y. rule_built m) m (lv_Rules (lb_view s) i b n) ((\<lambda>x. x) x) \<and>
           lb_view s' = put_Rule i b n (Some ((\<lambda>x. x) x)) (lb_view s))"
    by (rule fake_rule_replace)
qed (auto simp: rule_built_def convRule_def)

lemma fake_frontend_tls_calls:
  "fake_GetLoadBalancerFrontendTLSConfig i b = slice_get i (\<lambda>lb. map_option ufe_TLSConfigs (lf_findFrontend lb b)) utc_Name ''load balancer frontend'' ''load balancer frontend TLS config''"
  "fake_CreateLoadBalancerFrontendTLSConfig i b = slice_create i (\<lambda>lb. map_option ufe_TLSConfigs (lf_findFrontend lb b)) (\<lambda>ys. inFrontends (\<lambda>p. p\<lparr>ufe_TLSConfigs := ys\<rparr>) b) utc_Name ''CreateLoadBalancerFrontendTLSConfig'' ''load balancer frontend''
     ''frontend TLS config already exists'' rtc_Name (\<lambda>r t. \<lparr>utc_Name = rtc_Name r, utc_CertificateBundleUUID = rtc_CertificateBundleUUID r, utc_CreatedAt = t\<rparr>)"
  "fake_DeleteLoadBalancerFrontendTLSConfig i b = slice_delete i (\<lambda>lb. map_option ufe_TLSConfigs (lf_findFrontend lb b)) (\<lambda>ys. inFrontends (\<lambda>p. p\<lparr>ufe_TLSConfigs := ys\<rparr>) b) utc_Name ''DeleteLoadBalancerFrontendTLSConfig''
     ''load balancer frontend'' ''load balancer frontend TLS config''"
proof -
  show "fake_GetLoadBalancerFrontendTLSConfig i b = slice_get i (\<lambda>lb. map_option ufe_TLSConfigs (lf_findFrontend lb b)) utc_Name ''load balancer frontend'' ''load balancer frontend TLS config''"
    unfolding fake_GetLoadBalancerFrontendTLSConfig_def slice_get_def fake_parents
    by (rule ext, rule ext, rule lf_onLB_cong) (simp add: lf_findFrontendTLS_def split: option.split)
  show "fake_CreateLoadBalancerFrontendTLSConfig i b = slice_create i (\<lambda>lb. map_option ufe_TLSConfigs (lf_findFrontend lb b)) (\<lambda>ys. inFrontends (\<lambda>p. p\<lparr>ufe_TLSConfigs := ys\<rparr>) b) utc_Name ''CreateLoadBalancerFrontendTLSConfig'' ''load balancer frontend''
     ''frontend TLS config already exists'' rtc_Name (\<lambda>r t. \<lparr>utc_Name = rtc_Name r, utc_CertificateBundleUUID = rtc_CertificateBundleUUID r, utc_CreatedAt = t\<rparr>)"
    unfolding fake_CreateLoadBalancerFrontendTLSConfig_def slice_create_def fake_parents
    by (rule ext, rule lf_mutate_cong, rule lf_onLB_cong) (simp add: lf_findFrontendTLS_def  fake_puts Let_def split: option.split)
  show "fake_DeleteLoadBalancerFrontendTLSConfig i b = slice_delete i (\<lambda>lb. map_option ufe_TLSConfigs (lf_findFrontend lb b)) (\<lambda>ys. inFrontends (\<lambda>p. p\<lparr>ufe_TLSConfigs := ys\<rparr>) b) utc_Name ''DeleteLoadBalancerFrontendTLSConfig''
     ''load balancer frontend'' ''load balancer frontend TLS config''"
    unfolding fake_DeleteLoadBalancerFrontendTLSConfig_def slice_delete_def fake_parents
    by (rule ext, rule ext, rule lf_error_cong, rule lf_mutate_cong, rule lf_onLB_cong)
      (simp add:  fake_puts split: option.split)
qed

lemma fake_frontend_tls_modify:
  "fake_ModifyLoadBalancerFrontendTLSConfig i b n m = slice_modify i (\<lambda>lb. map_option ufe_TLSConfigs (lf_findFrontend lb b)) (\<lambda>ys. inFrontends (\<lambda>p. p\<lparr>ufe_TLSConfigs := ys\<rparr>) b) utc_Name ''ModifyLoadBalancerFrontendTLSConfig''
     ''load balancer frontend'' ''load balancer frontend TLS config'' (\<lambda>m x. x\<lparr>utc_CertificateBundleUUID := rtc_CertificateBundleUUID m\<rparr>) n m"
  unfolding fake_ModifyLoadBalancerFrontendTLSConfig_def slice_modify_def fake_parents
  by (rule lf_mutate_cong, rule lf_onLB_cong) (simp add: lf_findFrontendTLS_def   fake_puts Let_def split: option.split)

lemma fake_frontend_tls_rows:
  "child_rows lf_inv lb_view (fake_GetLoadBalancerFrontendTLSConfig i b) (fake_CreateLoadBalancerFrontendTLSConfig i b)
     (fake_ModifyLoadBalancerFrontendTLSConfig i b) (fake_DeleteLoadBalancerFrontendTLSConfig i b) (\<lambda>x. x) utc_Name (\<lambda>v. lv_FrontendTLS v i b) (put_FrontendTLS i b) rtc_Name
     tls_built (on_row (\<lambda>m y. tls_built m))"
  unfolding fake_frontend_tls_calls
proof (rule frontend_tls_slice.slice_child_rows)
  fix s n m r s'
  assume a: "lf_inv s" "(fake_ModifyLoadBalancerFrontendTLSConfig i b) n m s = (r, s')"
  show "lf_inv s' \<and>
      (case r of Inl e \<Rightarrow> lb_view s' = lb_view s
       | Inr x \<Rightarrow> utc_Name x = n \<and> (on_row (\<lambda>m y. tls_built m)) m (lv_FrontendTLS (lb_view s) i b n) ((\<lambda>x. x) x) \<and>
           lb_view s' = put_FrontendTLS i b n (Some ((\<lambda>x. x) x)) (lb_view s))"
    by (rule frontend_tls_slice.slice_modify_patched [OF a(1) a(2) [unfolded fake_frontend_tls_modify], where P = "(on_row (\<lambda>m y. tls_built m)) m"])
      (auto simp: on_row_def tls_built_def)
qed (auto simp: tls_built_def)

subsection \<open>The laws of load balancers\<close>

lemma fake_lb_keyed:
  assumes "lf_inv s" and "lv_LBs (lb_view s) u = Some d"
  shows "ulb_UUID d = u" and "u \<noteq> []"
proof -
  obtain x where "gm_get (lf_LoadBalancers s) u = Some x" "d = lb_core x" using assms(2) by (auto simp: lb_view_def)
  then show "ulb_UUID d = u" "u \<noteq> []" using fresh_uuid_nonempty [OF lf_invD(1) [OF assms(1)]] by auto
qed

lemma lb_core_copy [simp]: "lb_core (lf_copyService f d) = lb_core d"
  by (simp add: lf_copyService_def)

lemma lv_LBs_view: "lv_LBs (lb_view f) = (\<lambda>i. map_option lb_core (gm_get (lf_LoadBalancers f) i))"
  by (simp add: lb_view_def)

lemma lv_Bundles_view: "lv_Bundles (lb_view f) = (\<lambda>i. map_option cb_core (gm_get (lf_CertificateBundles f) i))"
  by (simp add: lb_view_def)

lemma fake_GetLoadBalancer_law:
  assumes "lf_inv s" and "seen lb_core fake_GetLoadBalancer u s = (r, s')"
  shows "lf_inv s' \<and> lv_LBs (lb_view s') = lv_LBs (lb_view s) \<and>
      lb_view s'\<lparr>lv_LBs := \<lambda>_. None\<rparr> = lb_view s\<lparr>lv_LBs := \<lambda>_. None\<rparr>"
    and "r = Inr x \<Longrightarrow> lv_LBs (lb_view s) u = Some x" and "r = Inl e \<Longrightarrow> lv_LBs (lb_view s) u = None"
  using assms by (auto simp: seen_def fake_GetLoadBalancer_def lf_onLB_def lv_LBs_view split: option.splits)

lemma lf_range_keeps:
  assumes "lf_inv f" and "lf_range f m = (xs, g)"
  shows "lf_inv g" "lb_view g = lb_view f" and "\<exists>sd. xs = map snd (gm_range sd m)"
  using assms by (auto simp: lf_range_def lf_inv_def)

lemma fake_GetLoadBalancers_law:
  assumes "lf_inv s" and "seen (map lb_core) fake_GetLoadBalancers v s = (r, s')"
  shows "lf_inv s' \<and> lv_LBs (lb_view s') = lv_LBs (lb_view s) \<and>
      lb_view s'\<lparr>lv_LBs := \<lambda>_. None\<rparr> = lb_view s\<lparr>lv_LBs := \<lambda>_. None\<rparr>"
    and "r = Inr xs \<Longrightarrow> x \<in> set xs \<Longrightarrow> lv_LBs (lb_view s) (ulb_UUID x) = Some x"
    and "r = Inr xs \<Longrightarrow> lv_LBs (lb_view s) i = Some x \<Longrightarrow> x \<in> set xs"
proof -
  obtain ys g where g: "lf_range s (lf_LoadBalancers s) = (ys, g)" by fastforce
  have rs: "r = Inr (map lb_core ys)" "s' = g" using assms(2) g by (simp_all add: seen_def fake_GetLoadBalancers_def)
  note k = lf_range_keeps [OF assms(1) g]
  show "lf_inv s' \<and> lv_LBs (lb_view s') = lv_LBs (lb_view s) \<and>
      lb_view s'\<lparr>lv_LBs := \<lambda>_. None\<rparr> = lb_view s\<lparr>lv_LBs := \<lambda>_. None\<rparr>" using rs(2) k(1,2) by simp
  obtain sd where ys: "ys = map snd (gm_range sd (lf_LoadBalancers s))" using k(3) by blast
  assume xs: "r = Inr xs"
  show "x \<in> set xs \<Longrightarrow> lv_LBs (lb_view s) (ulb_UUID x) = Some x"
    using xs rs(1) ys fresh_table_range [OF lf_invD(1) [OF assms(1)]] by (fastforce simp: lv_LBs_view)
  show "lv_LBs (lb_view s) i = Some x \<Longrightarrow> x \<in> set xs"
    using xs rs(1) ys in_range_values [of "lf_LoadBalancers s" i] by (fastforce simp: lv_LBs_view)
qed

lemma lf_networks_keeps:
  assumes "lf_networks ns f = (ys, g)"
  shows "list_all2 lb_network_built ys ns \<and> lf_seq f \<le> lf_seq g \<and> g = f\<lparr>lf_seq := lf_seq g\<rparr>"
  using assms
proof (induction ns arbitrary: f ys g)
  case (Cons n ns)
  obtain u f1 where u: "(if rln_UUID n = '''' then lf_nextUUID ''lbnet'' f else (rln_UUID n, f)) = (u, f1)" by fastforce
  obtain zs f2 where z: "lf_networks ns f1 = (zs, f2)" by fastforce
  have f1: "lf_seq f \<le> lf_seq f1 \<and> f1 = f\<lparr>lf_seq := lf_seq f1\<rparr> \<and> (rln_UUID n \<noteq> '''' \<longrightarrow> u = rln_UUID n)"
    using u by (auto simp: lf_nextUUID_def Let_def split: if_splits)
  obtain y where y: "ys = y # zs" "g = f2" "lb_network_built y n"
    using Cons.prems u z f1 by (auto simp: Let_def lb_network_built_def)
  have "f2 = f1\<lparr>lf_seq := lf_seq f2\<rparr>" "f1 = f\<lparr>lf_seq := lf_seq f1\<rparr>" using Cons.IH [OF z] f1 by simp_all
  then have "f2 = f\<lparr>lf_seq := lf_seq f2\<rparr>" by (cases f; cases f1; cases f2) simp
  then show ?case using Cons.IH [OF z] y f1 by simp
qed simp

lemma lf_inv_seq:
  assumes "lf_inv f" and "lf_seq f \<le> n"
  shows "lf_inv (f\<lparr>lf_seq := n\<rparr>)"
  using assms by (auto simp: lf_inv_def intro: fresh_table_mono)

lemma empty_slices:
  assumes "ulb_Backends lb = []" "ulb_Frontends lb = []" "ulb_Resolvers lb = []"
  shows "backendsOf lb = (\<lambda>_. None)" "frontendsOf lb = (\<lambda>_. None)" "lf_findResolver lb = (\<lambda>_. None)"
    "inBackend l lb = (\<lambda>_ _. None)" "inFrontend k lb = (\<lambda>_ _. None)"
  using assms
  by (simp_all add: backendsOf_def frontendsOf_def inBackend_def inFrontend_def lf_findBackend_def lf_findFrontend_def
      lf_findResolver_def fun_eq_iff)

lemma lb_view_new:
  assumes "lf_inv f" and "ulb_UUID lb = uuid ''lb'' (Suc (lf_seq f))"
    and "ulb_Backends lb = []" "ulb_Frontends lb = []" "ulb_Resolvers lb = []"
  defines "g \<equiv> lf_putLB (ulb_UUID lb) lb (f\<lparr>lf_seq := Suc (lf_seq f)\<rparr>)"
  shows "lf_inv g" and "gm_get (lf_LoadBalancers f) (ulb_UUID lb) = None"
    and "lb_view g = (lb_view f)\<lparr>lv_LBs := (lv_LBs (lb_view f))(ulb_UUID lb \<mapsto> lb_core lb)\<rparr>"
proof -
  let ?u = "ulb_UUID lb"
  note t = lf_invD(1) [OF assms(1)]
  show n: "gm_get (lf_LoadBalancers f) ?u = None" using fresh_uuid_unused [OF t] assms(2) by simp
  have "fresh_table ulb_UUID (uuid_ids ''lb'') (Suc (lf_seq f)) (gm_put ?u lb (lf_LoadBalancers f))"
    using fresh_uuid_new [OF t assms(2)] assms(2) by simp
  then show "lf_inv g"
    using assms(1,3-5) by (auto simp: lf_inv_def g_def lf_putLB_def lb_ok_def)
  show "lb_view g = (lb_view f)\<lparr>lv_LBs := (lv_LBs (lb_view f))(?u \<mapsto> lb_core lb)\<rparr>"
    by (simp add: g_def lb_view_put empty_slices [OF assms(3-5)] upd_same lb_view_absent [OF n])
qed

lemma fake_CreateLoadBalancer_law:
  assumes "lf_inv s" and "seen lb_core (\<lambda>c. fake_CreateLoadBalancer (bareLB c)) c s = (r, s')"
  shows "r = Inr x \<Longrightarrow> lf_inv s' \<and> lv_LBs (lb_view s) (ulb_UUID x) = None \<and>
      lv_LBs (lb_view s') = (lv_LBs (lb_view s))(ulb_UUID x \<mapsto> x) \<and>
      lb_view s'\<lparr>lv_LBs := \<lambda>_. None\<rparr> = lb_view s\<lparr>lv_LBs := \<lambda>_. None\<rparr> \<and> lb_built c x"
    and "r = Inl e \<Longrightarrow> lf_inv s' \<and> lv_LBs (lb_view s') = lv_LBs (lb_view s) \<and>
      lb_view s'\<lparr>lv_LBs := \<lambda>_. None\<rparr> = lb_view s\<lparr>lv_LBs := \<lambda>_. None\<rparr>"
proof -
  obtain e0 f where rc: "lf_record ''CreateLoadBalancer'' s = (e0, f)" by fastforce
  note f = lf_record_cases [OF assms(1) rc]
  obtain nw g where nw: "lf_networks (clb_Networks c) f = (nw, g)" by fastforce
  note keeps = lf_networks_keeps [OF nw]
  obtain n where n: "g = f\<lparr>lf_seq := n\<rparr>" "lf_seq f \<le> n" using keeps by blast
  have g: "lf_inv g" "lb_view g = lb_view f" using lf_inv_seq [OF f(1) n(2)] by (simp_all add: n(1))
  show "r = Inl e \<Longrightarrow> lf_inv s' \<and> lv_LBs (lb_view s') = lv_LBs (lb_view s) \<and>
      lb_view s'\<lparr>lv_LBs := \<lambda>_. None\<rparr> = lb_view s\<lparr>lv_LBs := \<lambda>_. None\<rparr>"
    using assms(2) rc f(1,2)
    by (cases e0) (auto simp: seen_def fake_CreateLoadBalancer_def lf_mutate_def Let_def split: prod.splits)
  assume r: "r = Inr x"
  obtain d where d: "x = lb_core d" "s' = lf_putLB (ulb_UUID d) d (g\<lparr>lf_seq := Suc (lf_seq g)\<rparr>)"
      "ulb_UUID d = uuid ''lb'' (Suc (lf_seq g))" "ulb_Backends d = []" "ulb_Frontends d = []" "ulb_Resolvers d = []"
      "lb_built c d"
    using assms(2) rc r nw keeps
    by (cases e0) (auto simp: seen_def fake_CreateLoadBalancer_def lf_mutate_def lf_nextUUID_def lb_built_def bareLB_def
        convFrontends_def convBackends_def convResolvers_def Let_def)
  note new = lb_view_new [OF g(1) d(3-6), folded d(2)]
  have "lv_LBs (lb_view g) (ulb_UUID d) = None" by (rule lb_view_absent(1) [OF new(2)])
  then have "lv_LBs (lb_view s) (ulb_UUID d) = None" using g(2) f(2) by simp
  then show "lf_inv s' \<and> lv_LBs (lb_view s) (ulb_UUID x) = None \<and>
      lv_LBs (lb_view s') = (lv_LBs (lb_view s))(ulb_UUID x \<mapsto> x) \<and>
      lb_view s'\<lparr>lv_LBs := \<lambda>_. None\<rparr> = lb_view s\<lparr>lv_LBs := \<lambda>_. None\<rparr> \<and> lb_built c x"
    using new(1) d(1,7) unfolding new(3) g(2) f(2) by (simp add: lb_built_def)
qed

lemma lf_changeLB_sel:
  "ulb_UUID (lf_changeLB m d) = ulb_UUID d" "ulb_Backends (lf_changeLB m d) = ulb_Backends d"
  "ulb_Frontends (lf_changeLB m d) = ulb_Frontends d" "ulb_Resolvers (lf_changeLB m d) = ulb_Resolvers d"
  "lb_core (lf_changeLB m d) = lb_patched m (lb_core d)"
  by (simp_all add: lf_changeLB_def lb_patched_def lb_core_def orKeepStr_def Let_def split: option.split)

lemma same_slices:
  assumes "ulb_Backends d = ulb_Backends b" "ulb_Frontends d = ulb_Frontends b" "ulb_Resolvers d = ulb_Resolvers b"
  shows "lb_ok d = lb_ok b" "backendsOf d = backendsOf b" "frontendsOf d = frontendsOf b"
    "lf_findResolver d = lf_findResolver b" "inBackend l d = inBackend l b" "inFrontend k d = inFrontend k b"
  using assms
  by (simp_all add: lb_ok_def backendsOf_def frontendsOf_def inBackend_def inFrontend_def lf_findBackend_def
      lf_findFrontend_def lf_findResolver_def fun_eq_iff)

lemma fake_ModifyLoadBalancer_law:
  assumes "lf_inv s" and "seen lb_core fake_ModifyLoadBalancer m s = (r, s')"
  shows "r = Inr x \<Longrightarrow> lf_inv s' \<and> lb_view s'\<lparr>lv_LBs := \<lambda>_. None\<rparr> = lb_view s\<lparr>lv_LBs := \<lambda>_. None\<rparr> \<and>
      (\<exists>y. lv_LBs (lb_view s) (mlb_UUID m) = Some y \<and> x = lb_patched m y \<and>
        lv_LBs (lb_view s') = (lv_LBs (lb_view s))(mlb_UUID m \<mapsto> x))"
    and "r = Inl e \<Longrightarrow> lf_inv s' \<and> lv_LBs (lb_view s') = lv_LBs (lb_view s) \<and>
      lb_view s'\<lparr>lv_LBs := \<lambda>_. None\<rparr> = lb_view s\<lparr>lv_LBs := \<lambda>_. None\<rparr>"
proof -
  obtain e0 f where rc: "lf_record ''ModifyLoadBalancer'' s = (e0, f)" by fastforce
  note f = lf_record_cases [OF assms(1) rc]
  show "r = Inl e \<Longrightarrow> lf_inv s' \<and> lv_LBs (lb_view s') = lv_LBs (lb_view s) \<and>
      lb_view s'\<lparr>lv_LBs := \<lambda>_. None\<rparr> = lb_view s\<lparr>lv_LBs := \<lambda>_. None\<rparr>"
    using assms(2) rc f(1,2)
    by (auto simp: seen_def fake_ModifyLoadBalancer_def lf_mutate_def lf_onLB_def Let_def split: option.splits)
  assume r: "r = Inr x"
  obtain old where old: "gm_get (lf_LoadBalancers f) (mlb_UUID m) = Some old"
      "x = lb_core (lf_changeLB m old)" "s' = lf_putLB (mlb_UUID m) (lf_changeLB m old) f"
    using assms(2) rc r
    by (auto simp: seen_def fake_ModifyLoadBalancer_def lf_mutate_def lf_onLB_def Let_def split: option.splits)
  note same = same_slices [OF lf_changeLB_sel(2-4)]
  have "lf_inv s'"
    using lf_inv_putLB [OF f(1) old(1)] lf_invD(3) [OF f(1) old(1)] unfolding old(3) by (simp add: lf_changeLB_sel same)
  moreover have "lb_view s' = (lb_view f)\<lparr>lv_LBs := (lv_LBs (lb_view f))(mlb_UUID m \<mapsto> x)\<rparr>"
    unfolding old(2,3) lb_view_put same by (simp add: upd_same lb_view_at [OF old(1)])
  moreover have "lv_LBs (lb_view s) (mlb_UUID m) = Some (lb_core old)" using lb_view_at(1) [OF old(1)] f(2) by simp
  ultimately show "lf_inv s' \<and> lb_view s'\<lparr>lv_LBs := \<lambda>_. None\<rparr> = lb_view s\<lparr>lv_LBs := \<lambda>_. None\<rparr> \<and>
      (\<exists>y. lv_LBs (lb_view s) (mlb_UUID m) = Some y \<and> x = lb_patched m y \<and>
        lv_LBs (lb_view s') = (lv_LBs (lb_view s))(mlb_UUID m \<mapsto> x))"
    using f(2) old(2) by (simp add: lf_changeLB_sel)
qed

lemma findBy_any: "(\<exists>n y. findBy k xs n = Some y) \<longleftrightarrow> xs \<noteq> []"
  by (cases xs) auto

lemma busy_slices:
  assumes "gm_get (lf_LoadBalancers f) u = Some lb"
  shows "lb_busy u (lb_view f) \<longleftrightarrow> ulb_Frontends lb \<noteq> [] \<or> ulb_Backends lb \<noteq> [] \<or> ulb_Resolvers lb \<noteq> []"
  unfolding lb_busy_def lb_view_at [OF assms] backendsOf_def frontendsOf_def lf_findBackend_def lf_findFrontend_def
    lf_findResolver_def ex_disj_distrib
  by (simp add: findBy_any)

lemma atLB_gone:
  assumes "gm_get (lf_LoadBalancers f) u = Some lb" and "g lb = z"
  shows "atLB g z (f\<lparr>lf_LoadBalancers := gm_del u (lf_LoadBalancers f)\<rparr>) = atLB g z f"
  using assms by (simp add: atLB_def fun_eq_iff)

lemma lb_view_gone:
  assumes "gm_get (lf_LoadBalancers f) u = Some lb" and "\<not> lb_busy u (lb_view f)"
  shows "lb_view (f\<lparr>lf_LoadBalancers := gm_del u (lf_LoadBalancers f)\<rparr>) =
    (lb_view f)\<lparr>lv_LBs := (lv_LBs (lb_view f))(u := None)\<rparr>"
proof -
  have e: "ulb_Backends lb = []" "ulb_Frontends lb = []" "ulb_Resolvers lb = []"
    using assms(2) busy_slices [OF assms(1)] by simp_all
  show ?thesis
    by (simp add: lb_view_def atLB_gone [OF assms(1)] empty_slices [OF e]) (simp add: fun_eq_iff)
qed

lemma fake_DeleteLoadBalancer_law:
  assumes "lf_inv s" and "fake_DeleteLoadBalancer u s = (e, s')"
  shows "lf_inv s' \<and> (lb_view s' = lb_view s \<or> e = None \<and> lb_view s' = (lb_view s)\<lparr>lv_LBs := (lv_LBs (lb_view s))(u := None)\<rparr>) \<and>
      (IsNotFound e \<longrightarrow> lv_LBs (lb_view s) u = None) \<and> (lb_busy u (lb_view s) \<longrightarrow> e \<noteq> None \<and> lb_view s' = lb_view s)"
proof -
  obtain e0 f where rc: "lf_record ''DeleteLoadBalancer'' s = (e0, f)" by fastforce
  note f = lf_record_cases [OF assms(1) rc]
  let ?g = "f\<lparr>lf_LoadBalancers := gm_del u (lf_LoadBalancers f)\<rparr>"
  have inv: "lf_inv ?g" using f(1) by (auto simp: lf_inv_def fresh_table_del split: if_splits)
  show ?thesis
  proof (cases "\<exists>lb. gm_get (lf_LoadBalancers f) u = Some lb \<and> \<not> lb_busy u (lb_view f) \<and> e0 = None")
    case True
    then obtain lb where lb: "gm_get (lf_LoadBalancers f) u = Some lb" "\<not> lb_busy u (lb_view f)" "e0 = None" by blast
    then have "e = None" "s' = ?g"
      using assms(2) rc busy_slices [OF lb(1)]
      by (auto simp: fake_DeleteLoadBalancer_def lf_error_def lf_mutate_def lf_onLB_def)
    then show ?thesis using inv lb_view_gone [OF lb(1,2)] lb(2) f(2) by simp
  next
    case False
    then have "s' = f" "e \<noteq> None" and "IsNotFound e \<longrightarrow> gm_get (lf_LoadBalancers f) u = None"
      using assms(2) rc busy_slices [of f u] f(3)
      by (auto simp: fake_DeleteLoadBalancer_def lf_error_def lf_mutate_def lf_onLB_def split: option.splits)
    then show ?thesis using f(1,2) by (simp add: lv_LBs_view flip: f(2))
  qed
qed

subsection \<open>The laws of certificate bundles\<close>

lemma fake_cb_keyed:
  assumes "lf_inv s" and "lv_Bundles (lb_view s) u = Some d"
  shows "ucb_UUID d = u" and "u \<noteq> []"
proof -
  obtain x where "gm_get (lf_CertificateBundles s) u = Some x" "d = cb_core x" using assms(2) by (auto simp: lb_view_def)
  then show "ucb_UUID d = u" "u \<noteq> []" using fresh_uuid_nonempty [OF lf_invD(2) [OF assms(1)]] by auto
qed

lemma cb_core_copy [simp]: "cb_core (lf_copyBundle f d) = cb_core d"
  by (simp add: lf_copyBundle_def)

lemma lb_view_putBundle:
  "lb_view (lf_putBundle u b f) = (lb_view f)\<lparr>lv_Bundles := (lv_Bundles (lb_view f))(u \<mapsto> cb_core b)\<rparr>"
  by (simp add: lb_view_def lf_putBundle_def atLB_def fun_eq_iff)

lemma lf_inv_bundles:
  assumes "lf_inv f" and "fresh_table ucb_UUID (uuid_ids ''cb'') (lf_seq f) m"
  shows "lf_inv (f\<lparr>lf_CertificateBundles := m\<rparr>)"
  using assms by (simp add: lf_inv_def)

lemma fake_GetBundle_law:
  assumes "lf_inv s" and "seen cb_core fake_GetLoadBalancerCertificateBundle u s = (r, s')"
  shows "lf_inv s' \<and> lv_Bundles (lb_view s') = lv_Bundles (lb_view s) \<and>
      lb_view s'\<lparr>lv_Bundles := \<lambda>_. None\<rparr> = lb_view s\<lparr>lv_Bundles := \<lambda>_. None\<rparr>"
    and "r = Inr x \<Longrightarrow> lv_Bundles (lb_view s) u = Some x" and "r = Inl e \<Longrightarrow> lv_Bundles (lb_view s) u = None"
  using assms by (auto simp: seen_def fake_GetLoadBalancerCertificateBundle_def lv_Bundles_view split: option.splits)

lemma fake_GetBundles_law:
  assumes "lf_inv s" and "fake_GetLoadBalancerCertificateBundles v s = (r, s')"
  shows "lf_inv s' \<and> lb_view s' = lb_view s \<and> (\<forall>xs. r = Inr xs \<longrightarrow> cb_core ` set xs = ran (lv_Bundles (lb_view s)))"
proof -
  obtain ys g where g: "lf_range s (lf_CertificateBundles s) = (ys, g)" by fastforce
  have rs: "r = Inr ys" "s' = g" using assms(2) g by (simp_all add: fake_GetLoadBalancerCertificateBundles_def)
  note k = lf_range_keeps [OF assms(1) g]
  obtain sd where ys: "ys = map snd (gm_range sd (lf_CertificateBundles s))" using k(3) by blast
  have "set ys = ran (gm_get (lf_CertificateBundles s))"
    using ys fresh_table_range [OF lf_invD(2) [OF assms(1)]] in_range_values [of "lf_CertificateBundles s"]
    by (fastforce simp: ran_def)
  then have "cb_core ` set ys = ran (lv_Bundles (lb_view s))" by (auto simp: lv_Bundles_view ran_def)
  then show ?thesis using rs k(1,2) by simp
qed

lemma fake_CreateBundle_law:
  assumes "lf_inv s" and "seen cb_core fake_CreateLoadBalancerCertificateBundle c s = (r, s')"
  shows "r = Inr x \<Longrightarrow> lf_inv s' \<and> lv_Bundles (lb_view s) (ucb_UUID x) = None \<and>
      lv_Bundles (lb_view s') = (lv_Bundles (lb_view s))(ucb_UUID x \<mapsto> x) \<and>
      lb_view s'\<lparr>lv_Bundles := \<lambda>_. None\<rparr> = lb_view s\<lparr>lv_Bundles := \<lambda>_. None\<rparr> \<and> cb_built c x"
    and "r = Inl e \<Longrightarrow> lf_inv s' \<and> lv_Bundles (lb_view s') = lv_Bundles (lb_view s) \<and>
      lb_view s'\<lparr>lv_Bundles := \<lambda>_. None\<rparr> = lb_view s\<lparr>lv_Bundles := \<lambda>_. None\<rparr>"
proof -
  obtain e0 f where rc: "lf_record ''CreateLoadBalancerCertificateBundle'' s = (e0, f)" by fastforce
  note f = lf_record_cases [OF assms(1) rc]
  show "r = Inl e \<Longrightarrow> lf_inv s' \<and> lv_Bundles (lb_view s') = lv_Bundles (lb_view s) \<and>
      lb_view s'\<lparr>lv_Bundles := \<lambda>_. None\<rparr> = lb_view s\<lparr>lv_Bundles := \<lambda>_. None\<rparr>"
    using assms(2) rc f(1,2)
    by (cases e0) (auto simp: seen_def fake_CreateLoadBalancerCertificateBundle_def lf_mutate_def Let_def split: prod.splits)
  assume r: "r = Inr x"
  obtain d n where d: "x = cb_core d" "s' = lf_putBundle (ucb_UUID d) d (f\<lparr>lf_seq := Suc (lf_seq f), lf_tick := n\<rparr>)"
      "ucb_UUID d = uuid ''cb'' (Suc (lf_seq f))" "cb_built c d"
    using assms(2) rc r
    by (cases e0) (auto simp: seen_def fake_CreateLoadBalancerCertificateBundle_def lf_mutate_def lf_nextUUID_def cb_built_def
        lf_time_def Let_def)
  note t = lf_invD(2) [OF f(1)]
  have "lv_Bundles (lb_view s) (ucb_UUID d) = None" using fresh_uuid_unused [OF t] d(3) f(2) by (simp add: lv_Bundles_view flip: f(2))
  moreover have "lf_inv s'" using f(1) fresh_uuid_new [OF t d(3)] by (simp add: d(2) lf_putBundle_def lf_inv_def d(3))
  moreover have "lb_view s' = (lb_view s)\<lparr>lv_Bundles := (lv_Bundles (lb_view s))(ucb_UUID d \<mapsto> x)\<rparr>"
    using f(2) d(1) by (simp add: d(2) lb_view_putBundle)
  ultimately show "lf_inv s' \<and> lv_Bundles (lb_view s) (ucb_UUID x) = None \<and>
      lv_Bundles (lb_view s') = (lv_Bundles (lb_view s))(ucb_UUID x \<mapsto> x) \<and>
      lb_view s'\<lparr>lv_Bundles := \<lambda>_. None\<rparr> = lb_view s\<lparr>lv_Bundles := \<lambda>_. None\<rparr> \<and> cb_built c x"
    using d(1,4) by (simp add: cb_built_def)
qed

lemma lf_changeBundle_sel:
  "ucb_UUID (lf_changeBundle m b) = ucb_UUID b" "cb_core (lf_changeBundle m b) = cb_patched m (cb_core b)"
  by (simp_all add: lf_changeBundle_def cb_patched_def cb_core_def orKeepStr_def Let_def split: option.split)

lemma fake_ModifyBundle_law:
  assumes "lf_inv s" and "seen cb_core fake_ModifyLoadBalancerCertificateBundle m s = (r, s')"
  shows "r = Inr x \<Longrightarrow> lf_inv s' \<and> lb_view s'\<lparr>lv_Bundles := \<lambda>_. None\<rparr> = lb_view s\<lparr>lv_Bundles := \<lambda>_. None\<rparr> \<and>
      (\<exists>y. lv_Bundles (lb_view s) (mcb_UUID m) = Some y \<and> x = cb_patched m y \<and>
        lv_Bundles (lb_view s') = (lv_Bundles (lb_view s))(mcb_UUID m \<mapsto> x))"
    and "r = Inl e \<Longrightarrow> lf_inv s' \<and> lv_Bundles (lb_view s') = lv_Bundles (lb_view s) \<and>
      lb_view s'\<lparr>lv_Bundles := \<lambda>_. None\<rparr> = lb_view s\<lparr>lv_Bundles := \<lambda>_. None\<rparr>"
proof -
  obtain e0 f where rc: "lf_record ''ModifyLoadBalancerCertificateBundle'' s = (e0, f)" by fastforce
  note f = lf_record_cases [OF assms(1) rc]
  show "r = Inl e \<Longrightarrow> lf_inv s' \<and> lv_Bundles (lb_view s') = lv_Bundles (lb_view s) \<and>
      lb_view s'\<lparr>lv_Bundles := \<lambda>_. None\<rparr> = lb_view s\<lparr>lv_Bundles := \<lambda>_. None\<rparr>"
    using assms(2) rc f(1,2)
    by (auto simp: seen_def fake_ModifyLoadBalancerCertificateBundle_def lf_mutate_def Let_def split: option.splits)
  assume r: "r = Inr x"
  obtain old where old: "gm_get (lf_CertificateBundles f) (mcb_UUID m) = Some old"
      "x = cb_core (lf_changeBundle m old)" "s' = lf_putBundle (mcb_UUID m) (lf_changeBundle m old) f"
    using assms(2) rc r
    by (auto simp: seen_def fake_ModifyLoadBalancerCertificateBundle_def lf_mutate_def Let_def split: option.splits)
  have "lf_inv s'"
    using lf_inv_bundles [OF f(1) fresh_table_put [OF lf_invD(2) [OF f(1)] old(1) lf_changeBundle_sel(1)]]
    unfolding old(3) lf_putBundle_def .
  moreover have "lb_view s' = (lb_view f)\<lparr>lv_Bundles := (lv_Bundles (lb_view f))(mcb_UUID m \<mapsto> x)\<rparr>"
    unfolding old(2,3) lb_view_putBundle ..
  moreover have "lv_Bundles (lb_view s) (mcb_UUID m) = Some (cb_core old)"
    using old(1) by (simp add: lv_Bundles_view flip: f(2))
  ultimately show "lf_inv s' \<and> lb_view s'\<lparr>lv_Bundles := \<lambda>_. None\<rparr> = lb_view s\<lparr>lv_Bundles := \<lambda>_. None\<rparr> \<and>
      (\<exists>y. lv_Bundles (lb_view s) (mcb_UUID m) = Some y \<and> x = cb_patched m y \<and>
        lv_Bundles (lb_view s') = (lv_Bundles (lb_view s))(mcb_UUID m \<mapsto> x))"
    using f(2) old(2) by (simp add: lf_changeBundle_sel)
qed

lemma fake_DeleteBundle_law:
  assumes "lf_inv s" and "fake_DeleteLoadBalancerCertificateBundle u s = (e, s')"
  shows "e = None \<Longrightarrow> lf_inv s' \<and> lv_Bundles (lb_view s') = (lv_Bundles (lb_view s))(u := None) \<and>
      lb_view s'\<lparr>lv_Bundles := \<lambda>_. None\<rparr> = lb_view s\<lparr>lv_Bundles := \<lambda>_. None\<rparr>"
    and "e = Some x \<Longrightarrow> lf_inv s' \<and> lv_Bundles (lb_view s') = lv_Bundles (lb_view s) \<and>
      lb_view s'\<lparr>lv_Bundles := \<lambda>_. None\<rparr> = lb_view s\<lparr>lv_Bundles := \<lambda>_. None\<rparr>"
    and "e = Some x \<Longrightarrow> IsNotFound (Some x) \<Longrightarrow> lv_Bundles (lb_view s) u = None"
proof -
  obtain e0 f where rc: "lf_record ''DeleteLoadBalancerCertificateBundle'' s = (e0, f)" by fastforce
  note f = lf_record_cases [OF assms(1) rc]
  let ?g = "f\<lparr>lf_CertificateBundles := gm_del u (lf_CertificateBundles f)\<rparr>"
  have inv: "lf_inv ?g" using lf_inv_bundles [OF f(1) fresh_table_del [OF lf_invD(2) [OF f(1)]]] .
  have view: "lb_view ?g = (lb_view f)\<lparr>lv_Bundles := (lv_Bundles (lb_view f))(u := None)\<rparr>"
    by (simp add: lb_view_def atLB_def fun_eq_iff)
  note call = assms(2) rc and defs = fake_DeleteLoadBalancerCertificateBundle_def lf_error_def lf_mutate_def
  show "e = None \<Longrightarrow> lf_inv s' \<and> lv_Bundles (lb_view s') = (lv_Bundles (lb_view s))(u := None) \<and>
      lb_view s'\<lparr>lv_Bundles := \<lambda>_. None\<rparr> = lb_view s\<lparr>lv_Bundles := \<lambda>_. None\<rparr>"
    using call inv view f(2) by (auto simp: defs split: option.splits prod.splits)
  show "e = Some x \<Longrightarrow> lf_inv s' \<and> lv_Bundles (lb_view s') = lv_Bundles (lb_view s) \<and>
      lb_view s'\<lparr>lv_Bundles := \<lambda>_. None\<rparr> = lb_view s\<lparr>lv_Bundles := \<lambda>_. None\<rparr>"
    using call f(1,2) by (auto simp: defs split: option.splits prod.splits)
  show "e = Some x \<Longrightarrow> IsNotFound (Some x) \<Longrightarrow> lv_Bundles (lb_view s) u = None"
    using call f(3) by (auto simp: defs lv_Bundles_view simp flip: f(2) split: option.splits prod.splits)
qed

subsection \<open>The contract holds\<close>

lemmas fake_lb_laws =
  fake_lb_keyed fake_GetLoadBalancer_law fake_GetLoadBalancers_law fake_CreateLoadBalancer_law fake_ModifyLoadBalancer_law
  fake_DeleteLoadBalancer_law fake_cb_keyed fake_GetBundle_law fake_GetBundles_law fake_CreateBundle_law fake_ModifyBundle_law
  fake_DeleteBundle_law fake_resolver_rows fake_backend_rows fake_frontend_rows fake_member_rows fake_backend_tls_rows
  fake_rule_rows fake_frontend_tls_rows

interpretation fake_lb: load_balancer_service fakeLoadBalancerAPI lf_inv lb_view
proof (rule load_balancer_service.intro)
  show "load_balancer_service_axioms fakeLoadBalancerAPI lf_inv lb_view"
    by (rule load_balancer_service_axioms.intro; unfold fakeLoadBalancerAPI_sel; (rule fake_lb_laws; assumption?))
qed (unfold_locales, unfold fakeLoadBalancerAPI_sel, (rule fake_lb_laws; (assumption | rule refl))+)

end
