(* ===== verification/LoadBalancerAdapter.thy ===== *)
theory LoadBalancerAdapter
  imports Resolve LoadBalancerFakeLaws
begin

text \<open>
  \<open>internal/controller/loadbalancer/loadbalancer_adapter.go\<close> and
  \<open>loadbalancer_controller.go\<close>. \<open>getNetwork\<close> loads Network objects.
\<close>

subsection \<open>Helpers\<close>

definition LoadBalancerAdapter_lookup ::
  "'s LoadBalancerAPI \<Rightarrow> LoadBalancer \<Rightarrow> 's \<Rightarrow> (err + upLoadBalancer option) \<times> 's" where
  "LoadBalancerAdapter_lookup api x =
     lookupOwned (GetLoadBalancer api) (\<lambda>m. GetLoadBalancers api ()) ulb_Labels (lbst_UUID (Status x)) (Meta x)"

definition lb_toCommonAtt :: "LoadBalancerNetworkAttachment \<Rightarrow> NetworkAttachment" where
  "lb_toCommonAtt a = \<lparr>na_Name = lna_Name a, na_Type = lna_Type a, na_Family = lna_Family a, na_UUID = lna_UUID a,
     na_NetworkRef = lna_NetworkRef a\<rparr>"

fun lbDesiredNetworks ::
  "Lib \<Rightarrow> Network getter \<Rightarrow> string \<Rightarrow> LoadBalancerNetworkAttachment list \<Rightarrow> err + reqLBNetwork list" where
  "lbDesiredNetworks L getNetwork ns [] = Inr []"
| "lbDesiredNetworks L getNetwork ns (att # atts) =
     (case NetworkUUID L getNetwork ns (lb_toCommonAtt att) of
        Inl e \<Rightarrow> Inl e
      | Inr u \<Rightarrow>
          (case lbDesiredNetworks L getNetwork ns atts of
             Inl e \<Rightarrow> Inl e
           | Inr rest \<Rightarrow> Inr (\<lparr>rln_Name = lna_Name att, rln_Type = lna_Type att, rln_Family = lna_Family att,
                              rln_UUID = (if u \<noteq> '''' then u else '''')\<rparr> # rest)))"

definition LoadBalancerAdapter_desiredNetworks ::
  "Lib \<Rightarrow> Network getter \<Rightarrow> LoadBalancer \<Rightarrow> err + reqLBNetwork list" where
  "LoadBalancerAdapter_desiredNetworks L getNetwork x =
     lbDesiredNetworks L getNetwork (om_Namespace (Meta x)) (lbs_Networks (Spec x))"

definition lbSyncStatus :: "LoadBalancer \<Rightarrow> upLoadBalancer \<Rightarrow> LoadBalancer" where
  "lbSyncStatus x lbw =
     x\<lparr>Status := (Status x)\<lparr>lbst_OperationalState := ulb_OperationalState lbw,
         lbst_Networks := map (\<lambda>n. \<lparr>lsn_Name = uln_Name n, lsn_Type = uln_Type n, lsn_Family = uln_Family n,
                                    lsn_DNSName = uln_DNSName n, lsn_IPAddresses = map uia_Address (uln_IPAddresses n)\<rparr>)
                              (ulb_Networks lbw),
         lbst_Nodes := length (ulb_Nodes lbw)\<rparr>\<rparr>"

definition lbNetworkKey :: "upLBNetwork \<Rightarrow> string" where
  "lbNetworkKey n = uln_Name n @ ''|'' @ uln_Type n @ ''|'' @ uln_Family n @ ''|'' @ uln_UUID n"

definition lbNetworksEqual :: "upLBNetwork list \<Rightarrow> reqLBNetwork list \<Rightarrow> bool" where
  "lbNetworksEqual observed desired =
     (if length observed \<noteq> length desired then False
      else let full = map lbNetworkKey observed;
               base = map (\<lambda>n. uln_Name n @ ''|'' @ uln_Type n @ ''|'' @ uln_Family n) observed in
        list_all (\<lambda>n. if rln_UUID n \<noteq> ''''
                      then rln_Name n @ ''|'' @ rln_Type n @ ''|'' @ rln_Family n @ ''|'' @ rln_UUID n \<in> set full
                      else rln_Name n @ ''|'' @ rln_Type n @ ''|'' @ rln_Family n \<in> set base) desired)"

definition lb_desired_labels :: "LoadBalancer \<Rightarrow> Label list" where
  "lb_desired_labels x = DesiredLabels (Meta x) (lbs_Labels (Spec x))"

definition lbSpecMatches :: "upLoadBalancer \<Rightarrow> LoadBalancer \<Rightarrow> reqLBNetwork list \<Rightarrow> bool" where
  "lbSpecMatches lbw x networks =
     (if ulb_Name lbw \<noteq> LoadBalancer_ExternalName x then False
      else if ulb_Plan lbw \<noteq> lbs_Plan (Spec x) then False
      else if ulb_ConfiguredStatus lbw \<noteq> LoadBalancer_DesiredConfiguredStatus x then False
      else if \<not> LabelsEqual (ulb_Labels lbw) (lb_desired_labels x) then False
      else if ulb_MaintenanceDOW lbw \<noteq> lmt_DOW (lbs_Maintenance (Spec x)) \<or>
              ulb_MaintenanceTime lbw \<noteq> lmt_Time (lbs_Maintenance (Spec x)) then False
      else lbNetworksEqual (ulb_Networks lbw) networks)"

subsection \<open>The adapter\<close>

definition LoadBalancerAdapter_Observe ::
  "Lib \<Rightarrow> 's LoadBalancerAPI \<Rightarrow> Network getter \<Rightarrow> LoadBalancer \<Rightarrow> 's
   \<Rightarrow> (err + Observation) \<times> LoadBalancer \<times> 's" where
  "LoadBalancerAdapter_Observe L api getNetwork x s =
     (case LoadBalancerAdapter_lookup api x s of
        (Inl e, s1) \<Rightarrow> (Inl (Wrap ''get load balancer'' e), x, s1)
      | (Inr None, s1) \<Rightarrow> (Inr NoObservation, x, s1)
      | (Inr (Some lbw), s1) \<Rightarrow>
          let x1 = lbSyncStatus (x\<lparr>Status := (Status x)\<lparr>lbst_UUID := ulb_UUID lbw\<rparr>\<rparr>) lbw in
          (case LoadBalancerAdapter_desiredNetworks L getNetwork x1 of
             Inl e \<Rightarrow> (Inl e, x1, s1)
           | Inr networks \<Rightarrow>
               (Inr \<lparr>ob_Exists = True, ob_UpToDate = lbSpecMatches lbw x1 networks,
                     ob_Ready = (ulb_OperationalState lbw = LBStateRunning),
                     ob_Message = ''state '' @ ulb_OperationalState lbw\<rparr>, x1, s1)))"

definition lb_create_request :: "LoadBalancer \<Rightarrow> reqLBNetwork list \<Rightarrow> CreateLoadBalancerRequest" where
  "lb_create_request x networks =
     \<lparr>clb_Name = LoadBalancer_ExternalName x, clb_Plan = lbs_Plan (Spec x), clb_Zone = lbs_Zone (Spec x),
      clb_Networks = networks, clb_ConfiguredStatus = LoadBalancer_DesiredConfiguredStatus x,
      clb_Frontends = [], clb_Backends = [], clb_Resolvers = [], clb_Labels = lb_desired_labels x,
      clb_MaintenanceDOW = (if lmt_DOW (lbs_Maintenance (Spec x)) \<noteq> '''' then lmt_DOW (lbs_Maintenance (Spec x)) else ''''),
      clb_MaintenanceTime = (if lmt_Time (lbs_Maintenance (Spec x)) \<noteq> '''' then lmt_Time (lbs_Maintenance (Spec x)) else '''')\<rparr>"

definition LoadBalancerAdapter_Create ::
  "Lib \<Rightarrow> 's LoadBalancerAPI \<Rightarrow> Network getter \<Rightarrow> LoadBalancer \<Rightarrow> 's \<Rightarrow> err option \<times> LoadBalancer \<times> 's" where
  "LoadBalancerAdapter_Create L api getNetwork x s =
     (case LoadBalancerAdapter_desiredNetworks L getNetwork x of
        Inl e \<Rightarrow> (Some e, x, s)
      | Inr networks \<Rightarrow>
          (case CreateLoadBalancer api (lb_create_request x networks) s of
             (Inl e, s1) \<Rightarrow> (Some (Wrap ''create load balancer'' e), x, s1)
           | (Inr created, s1) \<Rightarrow> (None, x\<lparr>Status := (Status x)\<lparr>lbst_UUID := ulb_UUID created\<rparr>\<rparr>, s1)))"

text \<open>The request of Update: a field that has not drifted is left out.\<close>

definition lb_modify_request :: "upLoadBalancer \<Rightarrow> LoadBalancer \<Rightarrow> ModifyLoadBalancerRequest" where
  "lb_modify_request lbw x =
     \<lparr>mlb_UUID = ulb_UUID lbw,
      mlb_Name = (if ulb_Name lbw \<noteq> LoadBalancer_ExternalName x then LoadBalancer_ExternalName x else ''''),
      mlb_Plan = '''',
      mlb_ConfiguredStatus = (if ulb_ConfiguredStatus lbw \<noteq> LoadBalancer_DesiredConfiguredStatus x
                              then LoadBalancer_DesiredConfiguredStatus x else ''''),
      mlb_Labels = (if \<not> LabelsEqual (ulb_Labels lbw) (lb_desired_labels x) then Some (lb_desired_labels x) else None),
      mlb_MaintenanceDOW = (if ulb_MaintenanceDOW lbw \<noteq> lmt_DOW (lbs_Maintenance (Spec x))
                            then lmt_DOW (lbs_Maintenance (Spec x)) else ''''),
      mlb_MaintenanceTime = (if ulb_MaintenanceTime lbw \<noteq> lmt_Time (lbs_Maintenance (Spec x))
                             then lmt_Time (lbs_Maintenance (Spec x)) else '''')\<rparr>"

definition lb_changed :: "upLoadBalancer \<Rightarrow> LoadBalancer \<Rightarrow> bool" where
  "lb_changed lbw x \<longleftrightarrow>
     ulb_Name lbw \<noteq> LoadBalancer_ExternalName x \<or>
     ulb_ConfiguredStatus lbw \<noteq> LoadBalancer_DesiredConfiguredStatus x \<or>
     \<not> LabelsEqual (ulb_Labels lbw) (lb_desired_labels x) \<or>
     ulb_MaintenanceDOW lbw \<noteq> lmt_DOW (lbs_Maintenance (Spec x)) \<or>
     ulb_MaintenanceTime lbw \<noteq> lmt_Time (lbs_Maintenance (Spec x))"

definition LoadBalancerAdapter_Update ::
  "'s LoadBalancerAPI \<Rightarrow> LoadBalancer \<Rightarrow> 's \<Rightarrow> err option \<times> LoadBalancer \<times> 's" where
  "LoadBalancerAdapter_Update api x s =
     (case LoadBalancerAdapter_lookup api x s of
        (Inl e, s1) \<Rightarrow> (Some (Wrap ''get load balancer'' e), x, s1)
      | (Inr None, s1) \<Rightarrow> (Some (Wrap ''update load balancer'' ErrPending), x, s1)
      | (Inr (Some lbw), s1) \<Rightarrow>
          if \<not> lb_changed lbw x then (None, x, s1)
          else (case ModifyLoadBalancer api (lb_modify_request lbw x) s1 of
             (Inl e, s2) \<Rightarrow> (Some (Wrap ''modify load balancer'' e), x, s2)
           | (Inr _, s2) \<Rightarrow> (None, x, s2)))"

definition LoadBalancerAdapter_Delete ::
  "Lib \<Rightarrow> 's LoadBalancerAPI \<Rightarrow> LoadBalancer \<Rightarrow> 's \<Rightarrow> err option \<times> LoadBalancer \<times> 's" where
  "LoadBalancerAdapter_Delete L api x s =
     (if lbst_UUID (Status x) = '''' then (None, x, s)
      else case GetLoadBalancer api (lbst_UUID (Status x)) s of
        (Inl e, s1) \<Rightarrow>
          if IsNotFound (Some e) then (None, x, s1) else (Some (Wrap ''get load balancer'' e), x, s1)
      | (Inr lbw, s1) \<Rightarrow>
          if ulb_OperationalState lbw \<in> {LBStateDeleteDNS, LBStateDeleteNetwork, LBStateDeleteServer, LBStateDeleteService}
          then (Some ErrPending, x, s1)
          else (case DeleteLoadBalancer api (lbst_UUID (Status x)) s1 of
             (None, s2) \<Rightarrow> (Some ErrPending, x, s2)
           | (Some e, s2) \<Rightarrow> (titledOutcome L ''delete load balancer'' (Some e), x, s2)))"

definition LoadBalancerAdapter ::
  "Lib \<Rightarrow> 's LoadBalancerAPI \<Rightarrow> Network getter \<Rightarrow> (LoadBalancer, 's) Adapter" where
  "LoadBalancerAdapter L api getNetwork =
     \<lparr>ad_Observe = LoadBalancerAdapter_Observe L api getNetwork,
      ad_Create = LoadBalancerAdapter_Create L api getNetwork,
      ad_Update = LoadBalancerAdapter_Update api,
      ad_Delete = LoadBalancerAdapter_Delete L api\<rparr>"

definition FinalizerLoadBalancer :: string where
  "FinalizerLoadBalancer = ''loadbalancer.upcloud.polarsquad.com/loadbalancer''"

definition SetupLoadBalancerController ::
  "Lib \<Rightarrow> (LoadBalancer, 'k) Client \<Rightarrow> 's LoadBalancerAPI \<Rightarrow> Network getter \<Rightarrow> Options
   \<Rightarrow> (LoadBalancer, 'k \<times> 's) Reconciler" where
  "SetupLoadBalancerController L c api getNetwork opts =
     mkReconciler L LoadBalancer_Object c (LoadBalancerAdapter L api getNetwork) FinalizerLoadBalancer opts"

lemma LoadBalancerAdapter_sel [simp]:
  "ad_Observe (LoadBalancerAdapter L api gn) = LoadBalancerAdapter_Observe L api gn"
  "ad_Create (LoadBalancerAdapter L api gn) = LoadBalancerAdapter_Create L api gn"
  "ad_Update (LoadBalancerAdapter L api gn) = LoadBalancerAdapter_Update api"
  "ad_Delete (LoadBalancerAdapter L api gn) = LoadBalancerAdapter_Delete L api"
  by (simp_all add: LoadBalancerAdapter_def)

subsection \<open>The comparison\<close>

lemma lbSpecMatches_core [simp]: "lbSpecMatches (lb_core d) x ns = lbSpecMatches d x ns"
  by (simp add: lbSpecMatches_def)

text \<open>The networks of a created load balancer match those of the request.\<close>

lemma lb_network_built_key:
  assumes "lb_network_built n r"
  shows "rln_Name r @ ''|'' @ rln_Type r @ ''|'' @ rln_Family r = uln_Name n @ ''|'' @ uln_Type n @ ''|'' @ uln_Family n"
    and "rln_UUID r \<noteq> '''' \<Longrightarrow>
      rln_Name r @ ''|'' @ rln_Type r @ ''|'' @ rln_Family r @ ''|'' @ rln_UUID r = lbNetworkKey n"
  using assms by (simp_all add: lb_network_built_def lbNetworkKey_def)

lemma lb_networks_built:
  assumes "list_all2 lb_network_built ns rs"
  shows "lbNetworksEqual ns rs"
proof -
  have "\<exists>n\<in>set ns. lb_network_built n r" if "r \<in> set rs" for r
    using assms that by (metis in_set_conv_nth list_all2_conv_all_nth)
  then show ?thesis
    using assms lb_network_built_key unfolding lbNetworksEqual_def list_all_iff
    by (fastforce simp: Let_def dest: list_all2_lengthD)
qed

text \<open>The specification: what an in-sync load balancer looks like.\<close>

definition lb_in_sync :: "Lib \<Rightarrow> Network getter \<Rightarrow> LoadBalancer \<Rightarrow> upLoadBalancer \<Rightarrow> bool" where
  "lb_in_sync L gn x d \<longleftrightarrow> (\<exists>ns. LoadBalancerAdapter_desiredNetworks L gn x = Inr ns \<and> lbSpecMatches d x ns)"

text \<open>
  What no update repairs: the plan and the networks, which are never sent, and a
  maintenance setting that the spec leaves open.
\<close>

definition lb_repairable :: "Lib \<Rightarrow> Network getter \<Rightarrow> LoadBalancer \<Rightarrow> upLoadBalancer \<Rightarrow> bool" where
  "lb_repairable L gn x d \<longleftrightarrow>
     ulb_Plan d = lbs_Plan (Spec x) \<and>
     (\<exists>ns. LoadBalancerAdapter_desiredNetworks L gn x = Inr ns \<and> lbNetworksEqual (ulb_Networks d) ns) \<and>
     (lmt_DOW (lbs_Maintenance (Spec x)) = '''' \<longrightarrow> ulb_MaintenanceDOW d = '''') \<and>
     (lmt_Time (lbs_Maintenance (Spec x)) = '''' \<longrightarrow> ulb_MaintenanceTime d = '''')"

lemma lb_status_irrelevant [simp]:
  "LoadBalancer_ExternalName (x\<lparr>Status := st\<rparr>) = LoadBalancer_ExternalName x"
  "LoadBalancer_DesiredConfiguredStatus (x\<lparr>Status := st\<rparr>) = LoadBalancer_DesiredConfiguredStatus x"
  "lb_desired_labels (x\<lparr>Status := st\<rparr>) = lb_desired_labels x"
  "LoadBalancerAdapter_desiredNetworks L gn (x\<lparr>Status := st\<rparr>) = LoadBalancerAdapter_desiredNetworks L gn x"
  "lbSpecMatches d (x\<lparr>Status := st\<rparr>) ns = lbSpecMatches d x ns"
  by (simp_all add: LoadBalancer_ExternalName_def LoadBalancer_DesiredConfiguredStatus_def lb_desired_labels_def
      LoadBalancerAdapter_desiredNetworks_def lbSpecMatches_def)

lemma lbSyncStatus_irrelevant [simp]:
  "Meta (lbSyncStatus x d) = Meta x" "Spec (lbSyncStatus x d) = Spec x"
  "lbst_UUID (Status (lbSyncStatus x d)) = lbst_UUID (Status x)"
  "LoadBalancerAdapter_desiredNetworks L gn (lbSyncStatus x d) = LoadBalancerAdapter_desiredNetworks L gn x"
  "lbSpecMatches y (lbSyncStatus x d) ns = lbSpecMatches y x ns"
  by (simp_all add: lbSyncStatus_def)

lemma lb_in_sync_core [simp]: "lb_in_sync L gn x (lb_core d) \<longleftrightarrow> lb_in_sync L gn x d"
  by (simp add: lb_in_sync_def)

lemma lb_repairable_core [simp]: "lb_repairable L gn x (lb_core d) \<longleftrightarrow> lb_repairable L gn x d"
  by (simp add: lb_repairable_def)

lemma lb_started [simp]: "LoadBalancer_DesiredConfiguredStatus x \<noteq> []"
  by (simp add: LoadBalancer_DesiredConfiguredStatus_def)

lemma lb_patched_in_sync:
  assumes "LoadBalancer_ExternalName x \<noteq> []"
  shows "lb_in_sync L gn x (lb_patched (lb_modify_request d x) d) \<longleftrightarrow> lb_repairable L gn x d"
  using assms
  by (auto simp: lb_in_sync_def lb_repairable_def lbSpecMatches_def lb_patched_def lb_modify_request_def orKeepStr_def)

lemma lb_unchanged_in_sync: "\<not> lb_changed d x \<Longrightarrow> lb_in_sync L gn x d \<longleftrightarrow> lb_repairable L gn x d"
  by (auto simp: lb_in_sync_def lb_repairable_def lbSpecMatches_def lb_changed_def)

lemma lb_patched_core: "lb_patched m (lb_core d) = lb_core (lb_patched m d)"
  by (simp add: lb_patched_def lb_core_def)

lemma lb_modify_request_core [simp]: "lb_modify_request (lb_core d) x = lb_modify_request d x"
  by (simp add: lb_modify_request_def)

lemma lb_changed_core [simp]: "lb_changed (lb_core d) x = lb_changed d x"
  by (simp add: lb_changed_def)

lemma lb_built_in_sync:
  assumes "lb_built (lb_create_request x ns) d" and "LoadBalancerAdapter_desiredNetworks L gn x = Inr ns"
  shows "lb_in_sync L gn x d \<longleftrightarrow>
    ulb_MaintenanceDOW d = lmt_DOW (lbs_Maintenance (Spec x)) \<and> ulb_MaintenanceTime d = lmt_Time (lbs_Maintenance (Spec x))"
  using assms lb_networks_built
  by (auto simp: lb_in_sync_def lbSpecMatches_def lb_built_def lb_create_request_def)

lemma lb_create_request_bare: "bareLB (lb_create_request x ns) = lb_create_request x ns"
  by (simp add: bareLB_def lb_create_request_def)

subsection \<open>The operations against the service contract\<close>

context load_balancer_service
begin

lemma lb_lookup:
  assumes "LoadBalancerAdapter_lookup api x s = (r, s1)"
  shows "svc.lookup_by (lbst_UUID (Status x)) (Meta x) s = (map_sum id (map_option lb_core) r, s1)"
  using lookupOwned_seen [of ulb_Labels lb_core _ _ "\<lambda>m. ()"] assms by (simp add: LoadBalancerAdapter_lookup_def)

lemma lb_lookup_frame:
  assumes "inv s" and "LoadBalancerAdapter_lookup api x s = (r, s1)"
  shows "inv s1 \<and> view s1 = view s"
  using svc.lookup_frame [OF assms(1) lb_lookup [OF assms(2)]] same_view by blast

lemma lb_lookup_found:
  assumes "inv s" and "LoadBalancerAdapter_lookup api x s = (Inr (Some d), s1)"
  shows "lv_LBs (view s) (ulb_UUID d) = Some (lb_core d)" and "ulb_UUID d \<noteq> []"
    and "lbst_UUID (Status x) \<noteq> [] \<Longrightarrow> ulb_UUID d = lbst_UUID (Status x)"
    and "lbst_UUID (Status x) = [] \<Longrightarrow> HasUID (ulb_Labels d) (om_UID (Meta x))"
  using svc.lookup_found [OF assms(1), of "lbst_UUID (Status x)" "Meta x" "lb_core d" s1]
    lb_lookup [OF assms(2)] by simp_all

lemma lb_lookup_present:
  assumes "inv s" and "LoadBalancerAdapter_lookup api x s = (Inr r, s1)" and "lv_LBs (view s) (lbst_UUID (Status x)) = Some y"
  shows "\<exists>d. r = Some d \<and> y = lb_core d"
  using svc.lookup_present [OF assms(1) _ assms(3), of "Meta x" "map_option lb_core r" s1]
    lb_lookup [OF assms(2)] by auto

lemma lb_get:
  assumes "inv s" and "GetLoadBalancer api u s = (r, s')"
  shows "inv s' \<and> view s' = view s" and "r = Inr d \<Longrightarrow> lv_LBs (view s) u = Some (lb_core d) \<and> ulb_UUID d = u"
    and "r = Inl e \<Longrightarrow> IsNotFound (Some e) \<Longrightarrow> lv_LBs (view s) u = None"
proof -
  have c: "seen lb_core (GetLoadBalancer api) u s = (map_sum id lb_core r, s')"
    using assms(2) by (cases r) (simp_all add: seen_def)
  show "inv s' \<and> view s' = view s" using svc.get_frame [OF assms(1) c] same_view by blast
  show "r = Inr d \<Longrightarrow> lv_LBs (view s) u = Some (lb_core d) \<and> ulb_UUID d = u"
    using svc.get_found [OF assms(1), of u] c svc.keyed_uid [OF assms(1), of u "lb_core d"] by simp
  show "r = Inl e \<Longrightarrow> IsNotFound (Some e) \<Longrightarrow> lv_LBs (view s) u = None"
    using svc.get_404 [OF assms(1), of u] c by simp
qed

lemma lb_observe_frame:
  assumes "inv s" and "LoadBalancerAdapter_Observe L api gn x s = (r, x', s')"
  shows "inv s' \<and> view s' = view s \<and> Meta x' = Meta x \<and> Spec x' = Spec x"
  using assms lb_lookup_frame [OF assms(1)]
  by (auto simp: LoadBalancerAdapter_Observe_def Let_def split: sum.splits prod.splits option.splits)

lemma lb_observe_found:
  assumes "inv s" and "LoadBalancerAdapter_Observe L api gn x s = (Inr obs, x', s')" and "ob_Exists obs"
  shows "\<exists>d. lv_LBs (view s) (lbst_UUID (Status x')) = Some (lb_core d) \<and> lbst_UUID (Status x') \<noteq> [] \<and>
    (lbst_UUID (Status x) \<noteq> [] \<longrightarrow> lbst_UUID (Status x') = lbst_UUID (Status x)) \<and>
    (ob_UpToDate obs \<longleftrightarrow> lb_in_sync L gn x d) \<and> (ob_Ready obs \<longleftrightarrow> ulb_OperationalState d = LBStateRunning)"
proof -
  obtain d s1 where l: "LoadBalancerAdapter_lookup api x s = (Inr (Some d), s1)"
    using assms(2,3)
    by (auto simp: LoadBalancerAdapter_Observe_def NoObservation_def Let_def split: sum.splits prod.splits option.splits)
  show ?thesis
    using assms(2) l lb_lookup_found [OF assms(1) l]
    by (intro exI [of _ d])
      (auto simp: LoadBalancerAdapter_Observe_def Let_def lb_in_sync_def split: sum.splits)
qed

lemma lb_observe_sees:
  assumes "inv s" and "lv_LBs (view s) (lbst_UUID (Status x)) = Some y"
    and "LoadBalancerAdapter_Observe L api gn x s = (Inr obs, x', s')"
  shows "ob_Exists obs \<and> (ob_UpToDate obs \<longleftrightarrow> lb_in_sync L gn x y)"
proof -
  obtain r s1 where l: "LoadBalancerAdapter_lookup api x s = (Inr r, s1)"
    using assms(3) by (auto simp: LoadBalancerAdapter_Observe_def Let_def split: sum.splits prod.splits)
  obtain d where d: "r = Some d" "y = lb_core d" using lb_lookup_present [OF assms(1) l assms(2)] by blast
  then have ex: "ob_Exists obs"
    using assms(3) l by (auto simp: LoadBalancerAdapter_Observe_def Let_def split: sum.splits)
  have "lbst_UUID (Status x) \<noteq> []" using svc.nonempty [OF assms(1,2)] by simp
  then show ?thesis
    using ex lb_observe_found [OF assms(1,3) ex] assms(2) d(2) by (metis lb_in_sync_core option.inject)
qed

end

context load_balancer_service
begin

lemma lb_create:
  assumes "inv s" and "CreateLoadBalancer api (bareLB c) s = (r, s')"
  shows "inv s'" and "r = Inl e \<Longrightarrow> view s' = view s"
    and "r = Inr d \<Longrightarrow> lv_LBs (view s) (ulb_UUID d) = None \<and> ulb_UUID d \<noteq> [] \<and>
      lv_LBs (view s') = (lv_LBs (view s))(ulb_UUID d \<mapsto> lb_core d) \<and> lb_built c (lb_core d)"
proof -
  have c: "seen lb_core (\<lambda>c. CreateLoadBalancer api (bareLB c)) c s = (map_sum id lb_core r, s')"
    using assms(2) by (cases r) (simp_all add: seen_def)
  show "inv s'" using svc.create_frame [OF assms(1) c] by blast
  show "r = Inl e \<Longrightarrow> view s' = view s" using svc.create_failed [OF assms(1), of c e s'] c same_view [of "view s'" "view s"] by simp
  show "r = Inr d \<Longrightarrow> lv_LBs (view s) (ulb_UUID d) = None \<and> ulb_UUID d \<noteq> [] \<and>
      lv_LBs (view s') = (lv_LBs (view s))(ulb_UUID d \<mapsto> lb_core d) \<and> lb_built c (lb_core d)"
    using svc.create_ok [OF assms(1), of c "lb_core d" s'] c by simp
qed

lemma lb_create_spec:
  assumes "inv s" and "LoadBalancerAdapter_Create L api gn x s = (e, x', s')"
  shows "inv s' \<and> Meta x' = Meta x \<and> Spec x' = Spec x"
    and "e \<noteq> None \<Longrightarrow> view s' = view s \<and> x' = x"
    and "e = None \<Longrightarrow> \<exists>d. lv_LBs (view s) (lbst_UUID (Status x')) = None \<and> lbst_UUID (Status x') \<noteq> [] \<and>
      lv_LBs (view s') = (lv_LBs (view s))(lbst_UUID (Status x') \<mapsto> d) \<and>
      (lb_in_sync L gn x d \<longleftrightarrow> ulb_MaintenanceDOW d = lmt_DOW (lbs_Maintenance (Spec x)) \<and>
        ulb_MaintenanceTime d = lmt_Time (lbs_Maintenance (Spec x)))"
proof -
  consider "e \<noteq> None" "s' = s" "x' = x"
    | ns er where "CreateLoadBalancer api (bareLB (lb_create_request x ns)) s = (Inl er, s')" "e \<noteq> None" "x' = x"
    | ns d where "LoadBalancerAdapter_desiredNetworks L gn x = Inr ns" "e = None"
        "CreateLoadBalancer api (bareLB (lb_create_request x ns)) s = (Inr d, s')"
        "x' = x\<lparr>Status := (Status x)\<lparr>lbst_UUID := ulb_UUID d\<rparr>\<rparr>"
    using assms(2) unfolding LoadBalancerAdapter_Create_def
    by (fastforce simp: lb_create_request_bare split: sum.splits prod.splits)
  then have "inv s' \<and> Meta x' = Meta x \<and> Spec x' = Spec x \<and> (e \<noteq> None \<longrightarrow> view s' = view s \<and> x' = x) \<and>
    (e = None \<longrightarrow> (\<exists>d. lv_LBs (view s) (lbst_UUID (Status x')) = None \<and> lbst_UUID (Status x') \<noteq> [] \<and>
      lv_LBs (view s') = (lv_LBs (view s))(lbst_UUID (Status x') \<mapsto> d) \<and>
      (lb_in_sync L gn x d \<longleftrightarrow> ulb_MaintenanceDOW d = lmt_DOW (lbs_Maintenance (Spec x)) \<and>
        ulb_MaintenanceTime d = lmt_Time (lbs_Maintenance (Spec x)))))"
  proof cases
    case 1
    then show ?thesis using assms(1) by auto
  next
    case (2 ns er)
    then show ?thesis using lb_create(1,2) [OF assms(1) 2(1)] by auto
  next
    case (3 ns d)
    note ok = lb_create(3) [OF assms(1) 3(3) refl]
    have "lb_in_sync L gn x (lb_core d) \<longleftrightarrow> ulb_MaintenanceDOW (lb_core d) = lmt_DOW (lbs_Maintenance (Spec x)) \<and>
        ulb_MaintenanceTime (lb_core d) = lmt_Time (lbs_Maintenance (Spec x))"
      using ok by (intro lb_built_in_sync [OF _ 3(1)]) blast
    then show ?thesis using 3 ok lb_create(1) [OF assms(1) 3(3)] by (auto intro!: exI [of _ "lb_core d"])
  qed
  then show "inv s' \<and> Meta x' = Meta x \<and> Spec x' = Spec x" "e \<noteq> None \<Longrightarrow> view s' = view s \<and> x' = x"
    "e = None \<Longrightarrow> \<exists>d. lv_LBs (view s) (lbst_UUID (Status x')) = None \<and> lbst_UUID (Status x') \<noteq> [] \<and>
      lv_LBs (view s') = (lv_LBs (view s))(lbst_UUID (Status x') \<mapsto> d) \<and>
      (lb_in_sync L gn x d \<longleftrightarrow> ulb_MaintenanceDOW d = lmt_DOW (lbs_Maintenance (Spec x)) \<and>
        ulb_MaintenanceTime d = lmt_Time (lbs_Maintenance (Spec x)))"
    by blast+
qed

lemma lb_modify:
  assumes "inv s" and "ModifyLoadBalancer api m s = (r, s')"
  shows "inv s' \<and> (\<forall>i. lv_LBs (view s') i = None \<longleftrightarrow> lv_LBs (view s) i = None)"
    and "r = Inr y \<Longrightarrow> \<exists>d. lv_LBs (view s) (mlb_UUID m) = Some d \<and> lv_LBs (view s') (mlb_UUID m) = Some (lb_patched m d)"
proof -
  have c: "seen lb_core (ModifyLoadBalancer api) m s = (map_sum id lb_core r, s')"
    using assms(2) by (cases r) (simp_all add: seen_def)
  show "inv s' \<and> (\<forall>i. lv_LBs (view s') i = None \<longleftrightarrow> lv_LBs (view s) i = None)"
    using svc.modify_frame [OF assms(1) c] by simp
  show "r = Inr y \<Longrightarrow> \<exists>d. lv_LBs (view s) (mlb_UUID m) = Some d \<and> lv_LBs (view s') (mlb_UUID m) = Some (lb_patched m d)"
    using svc.modify_ok [OF assms(1), of m "lb_core y" s'] c by auto
qed

lemma lb_update_frame:
  assumes "inv s" and "LoadBalancerAdapter_Update api x s = (e, x', s')"
  shows "inv s' \<and> x' = x \<and> (\<forall>i. lv_LBs (view s') i = None \<longleftrightarrow> lv_LBs (view s) i = None)"
proof -
  obtain r s1 where l: "LoadBalancerAdapter_lookup api x s = (r, s1)" by fastforce
  note f1 = lb_lookup_frame [OF assms(1) l]
  have i1: "inv s1" using f1 by blast
  show ?thesis
    using assms(2) l f1 lb_modify(1) [OF i1]
    by (auto simp: LoadBalancerAdapter_Update_def Let_def split: sum.splits option.splits prod.splits if_splits)
qed

text \<open>What an accepted update leaves: the row it found, patched, or untouched when nothing drifted.\<close>

lemma lb_update_spec:
  assumes "inv s" and "LoadBalancerAdapter_Update api x s = (None, x', s')" and "lbst_UUID (Status x) \<noteq> []"
    and "LoadBalancer_ExternalName x \<noteq> []"
  shows "\<exists>d y. lv_LBs (view s) (lbst_UUID (Status x)) = Some d \<and> lv_LBs (view s') (lbst_UUID (Status x)) = Some y \<and>
    (lb_in_sync L gn x y \<longleftrightarrow> lb_repairable L gn x d)"
proof -
  obtain d s1 where l: "LoadBalancerAdapter_lookup api x s = (Inr (Some d), s1)"
    using assms(2) by (auto simp: LoadBalancerAdapter_Update_def split: prod.splits sum.splits option.splits)
  note f1 = lb_lookup_frame [OF assms(1) l]
  have u: "ulb_UUID d = lbst_UUID (Status x)" using lb_lookup_found(3) [OF assms(1) l] assms(3) by blast
  have d: "lv_LBs (view s) (ulb_UUID d) = Some (lb_core d)" using lb_lookup_found(1) [OF assms(1) l] .
  let ?m = "lb_modify_request d x"
  have "\<exists>y. lv_LBs (view s') (ulb_UUID d) = Some y \<and> (lb_in_sync L gn x y \<longleftrightarrow> lb_repairable L gn x d)"
  proof (cases "lb_changed d x")
    case False
    then have "s' = s1" using assms(2) l by (simp add: LoadBalancerAdapter_Update_def)
    then show ?thesis using d f1 lb_unchanged_in_sync [OF False] by auto
  next
    case True
    then obtain y where m: "ModifyLoadBalancer api ?m s1 = (Inr y, s')"
      using assms(2) l by (auto simp: LoadBalancerAdapter_Update_def split: prod.splits sum.splits if_splits)
    have "mlb_UUID ?m = ulb_UUID d" by (simp add: lb_modify_request_def)
    then have "lv_LBs (view s') (ulb_UUID d) = Some (lb_patched ?m (lb_core d))"
      using lb_modify(2) [OF _ m refl] f1 d by auto
    then show ?thesis using lb_patched_in_sync [OF assms(4), of L gn d] by (auto simp: lb_patched_core)
  qed
  then show ?thesis using d u by auto
qed

lemma lb_delete_spec:
  assumes "inv s" and "LoadBalancerAdapter_Delete L api x s = (e, x', s')"
  shows "inv s' \<and> x' = x"
    and "rid_of (lbst_UUID (Status x)) \<noteq> Some i \<Longrightarrow> lv_LBs (view s') i = lv_LBs (view s) i"
    and "e = None \<Longrightarrow> rid_of (lbst_UUID (Status x)) = Some i \<Longrightarrow> lv_LBs (view s') i = None"
    and "lb_busy (lbst_UUID (Status x)) (view s) \<Longrightarrow> view s' = view s"
    and "lb_busy (lbst_UUID (Status x)) (view s) \<Longrightarrow> lv_LBs (view s) (lbst_UUID (Status x)) \<noteq> None \<Longrightarrow>
      lbst_UUID (Status x) \<noteq> [] \<Longrightarrow> e \<noteq> None"
proof -
  let ?u = "lbst_UUID (Status x)"
  obtain r s1 where g: "GetLoadBalancer api ?u s = (r, s1)" by fastforce
  note g1 = lb_get [OF assms(1) g]
  obtain de s2 where d: "DeleteLoadBalancer api ?u s1 = (de, s2)" by fastforce
  note del = svc_delete [OF conjunct1 [OF g1(1)] d]
  have v: "view s1 = view s" using g1(1) by blast
  have del': "inv s2" "view s2 = view s \<or> de = None \<and> view s2 = (view s)\<lparr>lv_LBs := (lv_LBs (view s))(?u := None)\<rparr>"
    "IsNotFound de \<Longrightarrow> lv_LBs (view s) ?u = None"
    "lb_busy ?u (view s) \<Longrightarrow> view s2 = view s"
    using del unfolding v by blast+
  have out: "?u = [] \<and> s' = s \<or> ?u \<noteq> [] \<and> (s' = s1 \<or> s' = s2)"
    and none: "e = None \<Longrightarrow> ?u = [] \<or> (\<exists>er. r = Inl er \<and> IsNotFound (Some er)) \<and> s' = s1 \<or> IsNotFound de \<and> s' = s2"
    and x': "x' = x"
    using assms(2) g d
    by (auto simp: LoadBalancerAdapter_Delete_def titledOutcome_def split: sum.splits option.splits if_splits)
  show "inv s' \<and> x' = x" using out x' assms(1) g1(1) del'(1) by blast
  show "rid_of ?u \<noteq> Some i \<Longrightarrow> lv_LBs (view s') i = lv_LBs (view s) i"
    using out v del'(2) by (cases "?u = []") auto
  show "e = None \<Longrightarrow> rid_of ?u = Some i \<Longrightarrow> lv_LBs (view s') i = None"
    using none g1(3) v del'(2,3) by (cases "?u = []") auto
  show "lb_busy ?u (view s) \<Longrightarrow> view s' = view s" using out v del'(4) by metis
  show "lb_busy ?u (view s) \<Longrightarrow> lv_LBs (view s) ?u \<noteq> None \<Longrightarrow> ?u \<noteq> [] \<Longrightarrow> e \<noteq> None"
    using none g1(3) del'(3) by metis
qed

end

sublocale load_balancer_service \<subseteq> lb_ctr: adapter_contract LoadBalancer_Object
    "LoadBalancerAdapter L api gn" inv "\<lambda>i s. lv_LBs (view s) i \<noteq> None"
    "\<lambda>x. rid_of (lbst_UUID (Status x))" for L gn
proof (rule table_adapter_contract [where tbl = "\<lambda>s. lv_LBs (view s)", OF loadbalancer_object.managed_object_axioms])
  fix s x r x' s'
  assume "inv s" "ad_Observe (LoadBalancerAdapter L api gn) x s = (r, x', s')"
  then show "inv s' \<and> lv_LBs (view s') = lv_LBs (view s) \<and>
      GetMeta LoadBalancer_Object x' = GetMeta LoadBalancer_Object x"
    using lb_observe_frame [of s L gn x r x' s'] by simp
next
  fix s x obs x' s'
  assume "inv s" "ad_Observe (LoadBalancerAdapter L api gn) x s = (Inr obs, x', s')" "ob_Exists obs"
  then show "lbst_UUID (Status x') \<noteq> [] \<and> lv_LBs (view s) (lbst_UUID (Status x')) \<noteq> None"
    using lb_observe_found by fastforce
next
  fix s x e x' s'
  assume "inv s" and "ad_Create (LoadBalancerAdapter L api gn) x s = (e, x', s')"
  then have "inv s" and "LoadBalancerAdapter_Create L api gn x s = (e, x', s')" by simp_all
  note spec = lb_create_spec [OF this]
  show "inv s' \<and> GetMeta LoadBalancer_Object x' = GetMeta LoadBalancer_Object x \<and>
      (\<forall>i. lv_LBs (view s) i \<noteq> None \<longrightarrow> lv_LBs (view s') i \<noteq> None) \<and>
      (e = None \<longrightarrow> lbst_UUID (Status x') \<noteq> [] \<and> lv_LBs (view s') (lbst_UUID (Status x')) \<noteq> None)"
    using spec by (cases e) auto
next
  fix s x e x' s'
  assume "inv s" and "ad_Update (LoadBalancerAdapter L api gn) x s = (e, x', s')"
  then show "inv s' \<and> GetMeta LoadBalancer_Object x' = GetMeta LoadBalancer_Object x \<and>
      (\<forall>i. rid_of (lbst_UUID (Status x)) \<noteq> Some i \<longrightarrow> lv_LBs (view s) i \<noteq> None \<longrightarrow> lv_LBs (view s') i \<noteq> None)"
    using lb_update_frame [of s x e x' s'] by simp
next
  fix s x e x' s'
  assume "inv s" and "ad_Delete (LoadBalancerAdapter L api gn) x s = (e, x', s')"
  then have "inv s" and "LoadBalancerAdapter_Delete L api x s = (e, x', s')" by simp_all
  note spec = lb_delete_spec [OF this]
  show "inv s' \<and> GetMeta LoadBalancer_Object x' = GetMeta LoadBalancer_Object x \<and>
      (\<forall>i. rid_of (lbst_UUID (Status x)) \<noteq> Some i \<longrightarrow> lv_LBs (view s') i = lv_LBs (view s) i) \<and>
      (e = None \<longrightarrow> lbst_UUID (Status x) \<noteq> [] \<longrightarrow> lv_LBs (view s') (lbst_UUID (Status x)) = None)"
    using spec(1-3) by auto
qed

end
