(* ===== verification/LoadBalancerCertificateBundleAdapter.thy ===== *)
theory LoadBalancerCertificateBundleAdapter
  imports Resolve Passes LoadBalancerFakeLaws
begin

text \<open>
  \<open>internal/controller/loadbalancer/loadbalancercertificatebundle_adapter.go\<close> and
  \<open>loadbalancercertificatebundle_controller.go\<close>. \<open>getSecret\<close> loads Secrets. Bundles belong
  to the account and carry no labels.
\<close>

subsection \<open>Helpers\<close>

record bundleSecretMaterial =
  bsm_Cert :: string
  bsm_Key :: string
  bsm_Intermediates :: string

text \<open>\<open>string(secret.Data[key])\<close>: a key that is missing reads as the empty string.\<close>

definition secretText :: "Secret \<Rightarrow> string \<Rightarrow> string" where
  "secretText sec key = (case gm_get (sec_Data sec) key of None \<Rightarrow> '''' | Some v \<Rightarrow> v)"

definition readBundleSecret ::
  "Secret getter \<Rightarrow> LoadBalancerCertificateBundle \<Rightarrow> err + bundleSecretMaterial option" where
  "readBundleSecret getSecret b =
     (case cbs_CertificateSecretRef (Spec b) of
        None \<Rightarrow> Inr None
      | Some ref \<Rightarrow>
          (case getSecret (om_Namespace (Meta b)) (lor_Name ref) of
             Inl e \<Rightarrow> Inl (Wrap ''get certificate secret'' e)
           | Inr sec \<Rightarrow> Inr (Some \<lparr>bsm_Cert = secretText sec ''tls.crt'', bsm_Key = secretText sec ''tls.key'',
                                 bsm_Intermediates = secretText sec ''ca.crt''\<rparr>)))"

fun firstBundleNamed :: "string \<Rightarrow> upCertificateBundle list \<Rightarrow> upCertificateBundle option" where
  "firstBundleNamed n [] = None"
| "firstBundleNamed n (x # xs) = (if ucb_Name x = n then Some x else firstBundleNamed n xs)"

definition LoadBalancerCertificateBundleAdapter_lookup ::
  "'s LoadBalancerAPI \<Rightarrow> LoadBalancerCertificateBundle \<Rightarrow> 's \<Rightarrow> (err + upCertificateBundle option) \<times> 's" where
  "LoadBalancerCertificateBundleAdapter_lookup api b s =
     (if cbst_UUID (Status b) \<noteq> '''' then getByID (GetLoadBalancerCertificateBundle api) (cbst_UUID (Status b)) s
      else case GetLoadBalancerCertificateBundles api () s of
        (Inl e, s1) \<Rightarrow> (Inl e, s1)
      | (Inr xs, s1) \<Rightarrow> (Inr (firstBundleNamed (LoadBalancerCertificateBundle_ExternalName b) xs), s1))"

definition bundleSyncStatus :: "LoadBalancerCertificateBundle \<Rightarrow> upCertificateBundle \<Rightarrow> LoadBalancerCertificateBundle" where
  "bundleSyncStatus b x =
     b\<lparr>Status := (Status b)\<lparr>cbst_OperationalState := ucb_OperationalState x, cbst_KeyType := ucb_KeyType x,
         cbst_NotAfter := (if \<not> Time_IsZero (ucb_NotAfter x) then Time_Format (ucb_NotAfter x) else cbst_NotAfter (Status b)),
         cbst_NotBefore := (if \<not> Time_IsZero (ucb_NotBefore x) then Time_Format (ucb_NotBefore x)
                            else cbst_NotBefore (Status b))\<rparr>\<rparr>"

subsection \<open>The adapter\<close>

definition LoadBalancerCertificateBundleAdapter_Observe ::
  "'s LoadBalancerAPI \<Rightarrow> Secret getter \<Rightarrow> LoadBalancerCertificateBundle \<Rightarrow> 's
   \<Rightarrow> (err + Observation) \<times> LoadBalancerCertificateBundle \<times> 's" where
  "LoadBalancerCertificateBundleAdapter_Observe api getSecret b s =
     (case LoadBalancerCertificateBundleAdapter_lookup api b s of
        (Inl e, s1) \<Rightarrow> (Inl (Wrap ''get certificate bundle'' e), b, s1)
      | (Inr None, s1) \<Rightarrow> (Inr NoObservation, b, s1)
      | (Inr (Some bundle), s1) \<Rightarrow>
          let b1 = bundleSyncStatus (b\<lparr>Status := (Status b)\<lparr>cbst_UUID := ucb_UUID bundle\<rparr>\<rparr>) bundle;
              result = (\<lambda>upToDate. (Inr \<lparr>ob_Exists = True, ob_UpToDate = upToDate,
                 ob_Ready = (ucb_OperationalState bundle = BundleStateIdle),
                 ob_Message = ''state '' @ ucb_OperationalState bundle\<rparr>, b1, s1)) in
          if cbs_Type (Spec b) = BundleTypeManual \<or> cbs_Type (Spec b) = BundleTypeAuthority
          then (case readBundleSecret getSecret b1 of
             Inl e \<Rightarrow> (Inl e, b1, s1)
           | Inr material \<Rightarrow>
               let upToDate = (case material of None \<Rightarrow> False | Some m \<Rightarrow> ucb_Certificate bundle = bsm_Cert m) in
               result (if upToDate \<and> cbst_RotationToken (Status b1) \<noteq> cbs_RotationToken (Spec b1) then False else upToDate))
          else result True)"

definition LoadBalancerCertificateBundleAdapter_Create ::
  "'s LoadBalancerAPI \<Rightarrow> Secret getter \<Rightarrow> LoadBalancerCertificateBundle \<Rightarrow> 's
   \<Rightarrow> err option \<times> LoadBalancerCertificateBundle \<times> 's" where
  "LoadBalancerCertificateBundleAdapter_Create api getSecret b s =
     (let req = \<lparr>ccb_Type = cbs_Type (Spec b), ccb_Name = LoadBalancerCertificateBundle_ExternalName b,
                 ccb_Certificate = '''', ccb_Intermediates = '''', ccb_PrivateKey = '''', ccb_Hostnames = [],
                 ccb_KeyType = ''''\<rparr>;
          filled =
            (if cbs_Type (Spec b) = BundleTypeDynamic then Inr (req\<lparr>ccb_Hostnames := cbs_Hostnames (Spec b)\<rparr>)
             else case readBundleSecret getSecret b of
               Inl e \<Rightarrow> Inl e
             | Inr None \<Rightarrow> Inl (ErrText (''certificate bundle '' @ fmt_q (om_Name (Meta b)) @ '' of type '' @
                             cbs_Type (Spec b) @ '' requires certificateSecretRef''))
             | Inr (Some m) \<Rightarrow> Inr (req\<lparr>ccb_Certificate := bsm_Cert m, ccb_PrivateKey := bsm_Key m,
                                      ccb_Intermediates := bsm_Intermediates m\<rparr>)) in
      case filled of
        Inl e \<Rightarrow> (Some e, b, s)
      | Inr r \<Rightarrow>
          (case CreateLoadBalancerCertificateBundle api r s of
             (Inl e, s1) \<Rightarrow>
               if IsConflict (Some e) then (None, b, s1) else (Some (Wrap ''create certificate bundle'' e), b, s1)
           | (Inr created, s1) \<Rightarrow>
               (None, b\<lparr>Status := (Status b)\<lparr>cbst_UUID := ucb_UUID created,
                                              cbst_RotationToken := cbs_RotationToken (Spec b)\<rparr>\<rparr>, s1)))"

definition bundle_change :: "upCertificateBundle \<Rightarrow> bundleSecretMaterial \<Rightarrow> ModifyBundleRequest" where
  "bundle_change bundle m =
     \<lparr>mcb_UUID = ucb_UUID bundle, mcb_Name = '''', mcb_Certificate = bsm_Cert m,
      mcb_Intermediates = (if bsm_Intermediates m \<noteq> '''' then Some (bsm_Intermediates m) else None),
      mcb_PrivateKey = bsm_Key m, mcb_Hostnames = []\<rparr>"

definition LoadBalancerCertificateBundleAdapter_Update ::
  "'s LoadBalancerAPI \<Rightarrow> Secret getter \<Rightarrow> LoadBalancerCertificateBundle \<Rightarrow> 's
   \<Rightarrow> err option \<times> LoadBalancerCertificateBundle \<times> 's" where
  "LoadBalancerCertificateBundleAdapter_Update api getSecret b s =
     (case LoadBalancerCertificateBundleAdapter_lookup api b s of
        (Inl e, s1) \<Rightarrow> (Some (Wrap ''get certificate bundle'' e), b, s1)
      | (Inr None, s1) \<Rightarrow> (Some (Wrap ''update certificate bundle'' ErrPending), b, s1)
      | (Inr (Some bundle), s1) \<Rightarrow>
          if cbs_Type (Spec b) \<noteq> BundleTypeManual \<and> cbs_Type (Spec b) \<noteq> BundleTypeAuthority then (None, b, s1)
          else (case readBundleSecret getSecret b of
             Inl e \<Rightarrow> (Some e, b, s1)
           | Inr None \<Rightarrow> (None, b, s1)
           | Inr (Some m) \<Rightarrow>
               (case ModifyLoadBalancerCertificateBundle api (bundle_change bundle m) s1 of
                  (Inl e, s2) \<Rightarrow> (Some (Wrap ''modify certificate bundle'' e), b, s2)
                | (Inr _, s2) \<Rightarrow>
                    (None, b\<lparr>Status := (Status b)\<lparr>cbst_RotationToken := cbs_RotationToken (Spec b)\<rparr>\<rparr>, s2))))"

definition LoadBalancerCertificateBundleAdapter_Delete ::
  "Lib \<Rightarrow> 's LoadBalancerAPI \<Rightarrow> LoadBalancerCertificateBundle \<Rightarrow> 's
   \<Rightarrow> err option \<times> LoadBalancerCertificateBundle \<times> 's" where
  "LoadBalancerCertificateBundleAdapter_Delete L api b s =
     (if cbst_UUID (Status b) = '''' then (None, b, s)
      else case DeleteLoadBalancerCertificateBundle api (cbst_UUID (Status b)) s of
        (e, s1) \<Rightarrow> (titledOutcome L ''delete certificate bundle'' e, b, s1))"

definition LoadBalancerCertificateBundleAdapter ::
  "Lib \<Rightarrow> 's LoadBalancerAPI \<Rightarrow> Secret getter \<Rightarrow> (LoadBalancerCertificateBundle, 's) Adapter" where
  "LoadBalancerCertificateBundleAdapter L api getSecret =
     \<lparr>ad_Observe = LoadBalancerCertificateBundleAdapter_Observe api getSecret,
      ad_Create = LoadBalancerCertificateBundleAdapter_Create api getSecret,
      ad_Update = LoadBalancerCertificateBundleAdapter_Update api getSecret,
      ad_Delete = LoadBalancerCertificateBundleAdapter_Delete L api\<rparr>"

definition FinalizerLoadBalancerCertificateBundle :: string where
  "FinalizerLoadBalancerCertificateBundle = ''loadbalancer.upcloud.polarsquad.com/loadbalancercertificatebundle''"

definition SetupLoadBalancerCertificateBundleController ::
  "Lib \<Rightarrow> (LoadBalancerCertificateBundle, 'k) Client \<Rightarrow> 's LoadBalancerAPI \<Rightarrow> Secret getter \<Rightarrow> Options
   \<Rightarrow> (LoadBalancerCertificateBundle, 'k \<times> 's) Reconciler" where
  "SetupLoadBalancerCertificateBundleController L c api getSecret opts =
     mkReconciler L LoadBalancerCertificateBundle_Object c (LoadBalancerCertificateBundleAdapter L api getSecret)
       FinalizerLoadBalancerCertificateBundle opts"

lemma LoadBalancerCertificateBundleAdapter_sel [simp]:
  "ad_Observe (LoadBalancerCertificateBundleAdapter L api gs) = LoadBalancerCertificateBundleAdapter_Observe api gs"
  "ad_Create (LoadBalancerCertificateBundleAdapter L api gs) = LoadBalancerCertificateBundleAdapter_Create api gs"
  "ad_Update (LoadBalancerCertificateBundleAdapter L api gs) = LoadBalancerCertificateBundleAdapter_Update api gs"
  "ad_Delete (LoadBalancerCertificateBundleAdapter L api gs) = LoadBalancerCertificateBundleAdapter_Delete L api"
  by (simp_all add: LoadBalancerCertificateBundleAdapter_def)

subsection \<open>The comparison\<close>

lemma bundleSyncStatus_sel [simp]:
  "Meta (bundleSyncStatus b d) = Meta b" "Spec (bundleSyncStatus b d) = Spec b"
  "cbst_UUID (Status (bundleSyncStatus b d)) = cbst_UUID (Status b)"
  "cbst_RotationToken (Status (bundleSyncStatus b d)) = cbst_RotationToken (Status b)"
  by (simp_all add: bundleSyncStatus_def)

lemma readBundleSecret_cong: "Meta b = Meta c \<Longrightarrow> Spec b = Spec c \<Longrightarrow> readBundleSecret gs b = readBundleSecret gs c"
  by (simp add: readBundleSecret_def split: option.split)

definition bundle_from_secret :: "LoadBalancerCertificateBundle \<Rightarrow> bool" where
  "bundle_from_secret b \<longleftrightarrow> cbs_Type (Spec b) = BundleTypeManual \<or> cbs_Type (Spec b) = BundleTypeAuthority"

text \<open>The specification: what an in-sync bundle looks like.\<close>

definition bundle_in_sync :: "Secret getter \<Rightarrow> LoadBalancerCertificateBundle \<Rightarrow> upCertificateBundle \<Rightarrow> bool" where
  "bundle_in_sync gs b d \<longleftrightarrow> \<not> bundle_from_secret b \<or>
     (\<exists>m. readBundleSecret gs b = Inr (Some m) \<and> ucb_Certificate d = bsm_Cert m \<and>
       cbst_RotationToken (Status b) = cbs_RotationToken (Spec b))"

lemma bundle_in_sync_core [simp]: "bundle_in_sync gs b (cb_core d) \<longleftrightarrow> bundle_in_sync gs b d"
  by (simp add: bundle_in_sync_def)

lemma firstBundleNamed_Some: "firstBundleNamed n xs = Some x \<Longrightarrow> x \<in> set xs \<and> ucb_Name x = n"
  by (induction xs) (auto split: if_splits)

lemma firstBundleNamed_None: "firstBundleNamed n xs = None \<longleftrightarrow> n \<notin> ucb_Name ` set xs"
  by (induction xs) auto

subsection \<open>The operations against the service contract\<close>

context load_balancer_service
begin

lemma bundle_get:
  assumes "inv s" and "GetLoadBalancerCertificateBundle api u s = (r, s')"
  shows "inv s' \<and> view s' = view s" and "r = Inr d \<Longrightarrow> lv_Bundles (view s) u = Some (cb_core d) \<and> ucb_UUID d = u"
    and "r = Inl e \<Longrightarrow> IsNotFound (Some e) \<Longrightarrow> lv_Bundles (view s) u = None"
proof -
  have c: "seen cb_core (GetLoadBalancerCertificateBundle api) u s = (map_sum id cb_core r, s')"
    using assms(2) by (cases r) (simp_all add: seen_def)
  show "inv s' \<and> view s' = view s" using bun.get_frame [OF assms(1) c] same_view_bundles by blast
  show "r = Inr d \<Longrightarrow> lv_Bundles (view s) u = Some (cb_core d) \<and> ucb_UUID d = u"
    using bun.get_found [OF assms(1), of u] c bun.keyed_uid [OF assms(1), of u "cb_core d"] by simp
  show "r = Inl e \<Longrightarrow> IsNotFound (Some e) \<Longrightarrow> lv_Bundles (view s) u = None"
    using bun.get_404 [OF assms(1), of u] c by simp
qed

lemma bundle_listed:
  assumes "inv s" and "GetLoadBalancerCertificateBundles api () s = (r, s')"
  shows "inv s' \<and> view s' = view s" and "r = Inr xs \<Longrightarrow> d \<in> set xs \<Longrightarrow> lv_Bundles (view s) (ucb_UUID d) = Some (cb_core d)"
    and "r = Inr xs \<Longrightarrow> lv_Bundles (view s) u = Some y \<Longrightarrow> \<exists>d\<in>set xs. y = cb_core d"
proof -
  note law = bundle_list [OF assms]
  show "inv s' \<and> view s' = view s" using law by blast
  show "r = Inr xs \<Longrightarrow> lv_Bundles (view s) u = Some y \<Longrightarrow> \<exists>d\<in>set xs. y = cb_core d"
    using law by (metis image_iff ranI)
  show "lv_Bundles (view s) (ucb_UUID d) = Some (cb_core d)" if "r = Inr xs" "d \<in> set xs"
  proof -
    have "cb_core d \<in> ran (lv_Bundles (view s))" using law that by blast
    then obtain u where u: "lv_Bundles (view s) u = Some (cb_core d)" by (auto simp: ran_def)
    then show ?thesis using bun.keyed_uid [OF assms(1) u] by simp
  qed
qed

lemma bundle_lookup:
  assumes "inv s" and "LoadBalancerCertificateBundleAdapter_lookup api b s = (r, s1)"
  shows "inv s1 \<and> view s1 = view s"
    and "r = Inr (Some d) \<Longrightarrow> lv_Bundles (view s) (ucb_UUID d) = Some (cb_core d) \<and>
      (if cbst_UUID (Status b) = [] then ucb_Name d = LoadBalancerCertificateBundle_ExternalName b
       else ucb_UUID d = cbst_UUID (Status b))"
    and "r = Inr None \<Longrightarrow>
      (if cbst_UUID (Status b) = []
       then \<forall>u y. lv_Bundles (view s) u = Some y \<longrightarrow> ucb_Name y \<noteq> LoadBalancerCertificateBundle_ExternalName b
       else lv_Bundles (view s) (cbst_UUID (Status b)) = None)"
proof -
  obtain g sg where g: "GetLoadBalancerCertificateBundle api (cbst_UUID (Status b)) s = (g, sg)" by fastforce
  obtain l sl where l: "GetLoadBalancerCertificateBundles api () s = (l, sl)" by fastforce
  note get = bundle_get [OF assms(1) g] and list = bundle_listed [OF assms(1) l]
  note call = assms(2) [unfolded LoadBalancerCertificateBundleAdapter_lookup_def getByID_def g l]
  show "inv s1 \<and> view s1 = view s" using call get(1) list(1) by (auto split: if_splits sum.splits)
  show "r = Inr (Some d) \<Longrightarrow> lv_Bundles (view s) (ucb_UUID d) = Some (cb_core d) \<and>
      (if cbst_UUID (Status b) = [] then ucb_Name d = LoadBalancerCertificateBundle_ExternalName b
       else ucb_UUID d = cbst_UUID (Status b))"
    using call get(2) list(2) by (auto split: if_splits sum.splits dest: firstBundleNamed_Some)
  show "r = Inr None \<Longrightarrow>
      (if cbst_UUID (Status b) = []
       then \<forall>u y. lv_Bundles (view s) u = Some y \<longrightarrow> ucb_Name y \<noteq> LoadBalancerCertificateBundle_ExternalName b
       else lv_Bundles (view s) (cbst_UUID (Status b)) = None)"
  proof (cases "cbst_UUID (Status b) = []")
    case True
    assume "r = Inr None"
    then obtain xs where "l = Inr xs" "LoadBalancerCertificateBundle_ExternalName b \<notin> ucb_Name ` set xs"
      using call True by (auto simp: firstBundleNamed_None split: sum.splits)
    then have "ucb_Name y \<noteq> LoadBalancerCertificateBundle_ExternalName b" if "lv_Bundles (view s) u = Some y" for u y
      using list(3) [of xs u y] that by (metis cb_core_sel(2) imageI)
    then show ?thesis using True by simp
  next
    case False
    assume "r = Inr None"
    then show ?thesis using call False get(3) by (auto split: sum.splits if_splits)
  qed
qed

lemma bundle_observe_spec:
  assumes "inv s" and "LoadBalancerCertificateBundleAdapter_Observe api gs b s = (r, b1, s1)"
  shows "inv s1 \<and> view s1 = view s \<and> Meta b1 = Meta b \<and> Spec b1 = Spec b"
    and "r = Inr obs \<Longrightarrow> ob_Exists obs \<Longrightarrow> \<exists>d. lv_Bundles (view s) (cbst_UUID (Status b1)) = Some (cb_core d) \<and>
      (if cbst_UUID (Status b) = [] then ucb_Name d = LoadBalancerCertificateBundle_ExternalName b
       else cbst_UUID (Status b1) = cbst_UUID (Status b)) \<and>
      (ob_UpToDate obs \<longleftrightarrow> bundle_in_sync gs b d)"
    and "r = Inr obs \<Longrightarrow> \<not> ob_Exists obs \<Longrightarrow>
      (if cbst_UUID (Status b) = []
       then \<forall>u y. lv_Bundles (view s) u = Some y \<longrightarrow> ucb_Name y \<noteq> LoadBalancerCertificateBundle_ExternalName b
       else lv_Bundles (view s) (cbst_UUID (Status b)) = None)"
proof -
  obtain g sg where g: "LoadBalancerCertificateBundleAdapter_lookup api b s = (g, sg)" by fastforce
  note look = bundle_lookup [OF assms(1) g] and call = assms(2) [unfolded LoadBalancerCertificateBundleAdapter_Observe_def g Let_def]
  have m: "readBundleSecret gs (bundleSyncStatus (b\<lparr>Status := st\<rparr>) d) = readBundleSecret gs b" for st d
    by (rule readBundleSecret_cong) simp_all
  show "inv s1 \<and> view s1 = view s \<and> Meta b1 = Meta b \<and> Spec b1 = Spec b"
    using call look(1) by (auto split: sum.splits option.splits if_splits)
  show "r = Inr obs \<Longrightarrow> ob_Exists obs \<Longrightarrow> \<exists>d. lv_Bundles (view s) (cbst_UUID (Status b1)) = Some (cb_core d) \<and>
      (if cbst_UUID (Status b) = [] then ucb_Name d = LoadBalancerCertificateBundle_ExternalName b
       else cbst_UUID (Status b1) = cbst_UUID (Status b)) \<and>
      (ob_UpToDate obs \<longleftrightarrow> bundle_in_sync gs b d)"
  proof -
    assume r: "r = Inr obs" "ob_Exists obs"
    then obtain d where d: "g = Inr (Some d)" using call by (auto simp: NoObservation_def split: sum.splits option.splits)
    have "cbst_UUID (Status b1) = ucb_UUID d" "ob_UpToDate obs \<longleftrightarrow> bundle_in_sync gs b d"
      using call d r m by (auto simp: bundle_in_sync_def bundle_from_secret_def split: sum.splits option.splits if_splits)
    then show ?thesis using look(2) [OF d] by (intro exI [of _ d]) (auto split: if_splits)
  qed
  show "r = Inr obs \<Longrightarrow> \<not> ob_Exists obs \<Longrightarrow>
      (if cbst_UUID (Status b) = []
       then \<forall>u y. lv_Bundles (view s) u = Some y \<longrightarrow> ucb_Name y \<noteq> LoadBalancerCertificateBundle_ExternalName b
       else lv_Bundles (view s) (cbst_UUID (Status b)) = None)"
  proof -
    assume "r = Inr obs" "\<not> ob_Exists obs"
    then have "g = Inr None" using call by (auto split: sum.splits option.splits if_splits)
    then show ?thesis by (rule look(3))
  qed
qed

text \<open>What an accepted update leaves of a bundle whose material is in a Secret.\<close>

lemma bundle_update_spec:
  assumes "inv s" and "LoadBalancerCertificateBundleAdapter_Update api gs b s = (None, b1, s1)"
    and "cbst_UUID (Status b) \<noteq> []" and "bundle_from_secret b"
  shows "inv s1 \<and> Meta b1 = Meta b \<and> Spec b1 = Spec b \<and> cbst_UUID (Status b1) = cbst_UUID (Status b) \<and>
    (\<exists>d y. lv_Bundles (view s) (cbst_UUID (Status b)) = Some d \<and> lv_Bundles (view s1) (cbst_UUID (Status b)) = Some y \<and>
      (case readBundleSecret gs b of
         Inr (Some m) \<Rightarrow> ucb_Certificate y = orKeepStr (ucb_Certificate d) (bsm_Cert m) \<and>
           cbst_RotationToken (Status b1) = cbs_RotationToken (Spec b)
       | Inr None \<Rightarrow> y = d \<and> view s1 = view s
       | Inl _ \<Rightarrow> False))"
proof -
  obtain d sg where g: "LoadBalancerCertificateBundleAdapter_lookup api b s = (Inr (Some d), sg)"
    using assms(2) by (auto simp: LoadBalancerCertificateBundleAdapter_Update_def split: sum.splits option.splits prod.splits)
  note look = bundle_lookup [OF assms(1) g]
  have u: "lv_Bundles (view s) (cbst_UUID (Status b)) = Some (cb_core d)" "ucb_UUID d = cbst_UUID (Status b)"
    using look(2) [OF refl] assms(3) by auto
  note call = assms(2) [unfolded LoadBalancerCertificateBundleAdapter_Update_def g]
  show ?thesis
  proof (cases "readBundleSecret gs b")
    case (Inl e)
    then show ?thesis using call assms(4) by (auto simp: bundle_from_secret_def split: if_splits)
  next
    case (Inr q)
    show ?thesis
    proof (cases q)
      case None
      then show ?thesis using call assms(4) Inr look(1) u by (auto simp: bundle_from_secret_def split: if_splits)
    next
      case (Some m)
      obtain y where y: "ModifyLoadBalancerCertificateBundle api (bundle_change d m) sg = (Inr y, s1)"
        "b1 = b\<lparr>Status := (Status b)\<lparr>cbst_RotationToken := cbs_RotationToken (Spec b)\<rparr>\<rparr>"
        using call assms(4) Inr Some by (auto simp: bundle_from_secret_def split: if_splits sum.splits prod.splits)
      then have "seen cb_core (ModifyLoadBalancerCertificateBundle api) (bundle_change d m) sg = (Inr (cb_core y), s1)"
        by (simp add: seen_def)
      note law = bun.modify_ok [OF conjunct1 [OF look(1)] this]
      have "mcb_UUID (bundle_change d m) = cbst_UUID (Status b)" by (simp add: bundle_change_def u)
      then have "inv s1" "lv_Bundles (view s1) (cbst_UUID (Status b)) = Some (cb_patched (bundle_change d m) (cb_core d))"
        using law look(1) u by auto
      then show ?thesis using Inr Some y(2) u by (simp add: cb_patched_def bundle_change_def)
    qed
  qed
qed

lemma bundle_id_nonempty: "inv s \<Longrightarrow> lv_Bundles (view s) u = Some d \<Longrightarrow> u \<noteq> []"
  by (rule bun.nonempty)

lemma bundle_delete_spec:
  assumes "inv s" and "LoadBalancerCertificateBundleAdapter_Delete L api b s = (e, b1, s1)"
  shows "inv s1 \<and> b1 = b \<and> (\<forall>u. u \<noteq> cbst_UUID (Status b) \<longrightarrow> lv_Bundles (view s1) u = lv_Bundles (view s) u)"
    and "e = None \<Longrightarrow> cbst_UUID (Status b) \<noteq> [] \<Longrightarrow> lv_Bundles (view s1) (cbst_UUID (Status b)) = None"
proof -
  obtain de sd where d: "DeleteLoadBalancerCertificateBundle api (cbst_UUID (Status b)) s = (de, sd)" by fastforce
  note call = assms(2) [unfolded LoadBalancerCertificateBundleAdapter_Delete_def d]
  show "inv s1 \<and> b1 = b \<and> (\<forall>u. u \<noteq> cbst_UUID (Status b) \<longrightarrow> lv_Bundles (view s1) u = lv_Bundles (view s) u)"
    using call assms(1) bun.del_frame [OF assms(1) d] by (auto split: if_splits)
  show "e = None \<Longrightarrow> cbst_UUID (Status b) \<noteq> [] \<Longrightarrow> lv_Bundles (view s1) (cbst_UUID (Status b)) = None"
    using call bun.del_gone [OF assms(1) d] by (auto simp: titledOutcome_def split: if_splits option.splits)
qed

end

end
