(* ===== verification/ChildAdapter.thy ===== *)
theory ChildAdapter
  imports LoadBalancerContract Passes Resolve
begin

text \<open>
  What the seven adapters of nested load balancer resources have in common. Their methods
  are written out one by one in their theories; \<open>childObserve\<close>, \<open>childCreate\<close>,
  \<open>childUpdate\<close> and \<open>childDelete\<close> are the common shape, the locale \<open>child_adapter\<close> says
  that an adapter has it over a collection of rows, and the lemmas of the locale are what
  each adapter inherits.
\<close>

subsection \<open>The common shape\<close>

text \<open>
  \<open>parent\<close> resolves the parent and records it in the status, \<open>wanted\<close> resolves the other
  references, \<open>save\<close> copies the observed row to the status.
\<close>

definition childObserve ::
  "('x \<Rightarrow> err option \<times> 'x) \<Rightarrow> ('x \<Rightarrow> 's \<Rightarrow> (err + 'r) \<times> 's) \<Rightarrow> string \<Rightarrow> ('r \<Rightarrow> 'x \<Rightarrow> 'x) \<Rightarrow> ('x \<Rightarrow> err + 'd)
   \<Rightarrow> ('r \<Rightarrow> 'x \<Rightarrow> 'd \<Rightarrow> bool) \<Rightarrow> ('r \<Rightarrow> string) \<Rightarrow> 'x \<Rightarrow> 's \<Rightarrow> (err + Observation) \<times> 'x \<times> 's" where
  "childObserve parent get what save wanted matches msg x s =
     (case parent x of
        (Some e, x1) \<Rightarrow> (Inl e, x1, s)
      | (None, x1) \<Rightarrow>
          (case get x1 s of
             (Inl e, s1) \<Rightarrow> if IsNotFound (Some e) then (Inr NoObservation, x1, s1) else (Inl (Wrap what e), x1, s1)
           | (Inr r, s1) \<Rightarrow>
               let x2 = save r x1 in
               (case wanted x2 of
                  Inl e \<Rightarrow> (Inl e, x2, s1)
                | Inr d \<Rightarrow> (Inr \<lparr>ob_Exists = True, ob_UpToDate = matches r x2 d, ob_Ready = True, ob_Message = msg r\<rparr>, x2, s1))))"

definition childCreate ::
  "('x \<Rightarrow> err option \<times> 'x) \<Rightarrow> ('x \<Rightarrow> err + 'd) \<Rightarrow> ('x \<Rightarrow> 'd \<Rightarrow> 's \<Rightarrow> (err + 'r) \<times> 's) \<Rightarrow> string \<Rightarrow> ('r \<Rightarrow> 'x \<Rightarrow> 'x)
   \<Rightarrow> 'x \<Rightarrow> 's \<Rightarrow> err option \<times> 'x \<times> 's" where
  "childCreate parent wanted create what save x s =
     (case parent x of
        (Some e, x1) \<Rightarrow> (Some e, x1, s)
      | (None, x1) \<Rightarrow>
          (case wanted x1 of
             Inl e \<Rightarrow> (Some e, x1, s)
           | Inr d \<Rightarrow>
               (case create x1 d s of
                  (Inl e, s1) \<Rightarrow> if IsConflict (Some e) then (None, x1, s1) else (Some (Wrap what e), x1, s1)
                | (Inr r, s1) \<Rightarrow> (None, save r x1, s1))))"

definition childUpdate ::
  "('x \<Rightarrow> err option \<times> 'x) \<Rightarrow> ('x \<Rightarrow> err + 'd) \<Rightarrow> ('x \<Rightarrow> 's \<Rightarrow> (err + 'r) \<times> 's) \<Rightarrow> string
   \<Rightarrow> ('r \<Rightarrow> 'x \<Rightarrow> 'd \<Rightarrow> 'm option) \<Rightarrow> ('x \<Rightarrow> 'm \<Rightarrow> 's \<Rightarrow> (err + 'r) \<times> 's) \<Rightarrow> string
   \<Rightarrow> 'x \<Rightarrow> 's \<Rightarrow> err option \<times> 'x \<times> 's" where
  "childUpdate parent wanted get what mreq modify mwhat x s =
     (case parent x of
        (Some e, x1) \<Rightarrow> (Some e, x1, s)
      | (None, x1) \<Rightarrow>
          (case wanted x1 of
             Inl e \<Rightarrow> (Some e, x1, s)
           | Inr d \<Rightarrow>
               (case get x1 s of
                  (Inl e, s1) \<Rightarrow> if IsNotFound (Some e) then (Some ErrPending, x1, s1) else (Some (Wrap what e), x1, s1)
                | (Inr r, s1) \<Rightarrow>
                    (case mreq r x1 d of
                       None \<Rightarrow> (None, x1, s1)
                     | Some m \<Rightarrow>
                         (case modify x1 m s1 of
                            (Inl e, s2) \<Rightarrow> (Some (Wrap mwhat e), x1, s2)
                          | (Inr _, s2) \<Rightarrow> (None, x1, s2))))))"

definition childDelete ::
  "Lib \<Rightarrow> ('x \<Rightarrow> bool) \<Rightarrow> ('x \<Rightarrow> 's \<Rightarrow> err option \<times> 's) \<Rightarrow> string \<Rightarrow> 'x \<Rightarrow> 's \<Rightarrow> err option \<times> 'x \<times> 's" where
  "childDelete L complete del what x s =
     (if \<not> complete x then (None, x, s)
      else case del x s of (e, s1) \<Rightarrow> (titledOutcome L what e, x, s1))"

text \<open>Without these rules \<open>simp\<close> also rewrites inside branches.\<close>

lemmas weak_congs = prod.case_cong_weak sum.case_cong_weak option.case_cong_weak if_weak_cong

subsection \<open>The contract of such an adapter\<close>

locale child_adapter =
  fixes L :: Lib and Obj :: "('sp, 'st) CR Object" and ad :: "(('sp, 'st) CR, 's) Adapter"
    and inv :: "'s \<Rightarrow> bool" and view :: "'s \<Rightarrow> 'v"
    and parent :: "('sp, 'st) CR \<Rightarrow> err option \<times> ('sp, 'st) CR"
    and path :: "('sp, 'st) CR \<Rightarrow> 'p"
    and complete :: "('sp, 'st) CR \<Rightarrow> bool"
    and xname sname :: "('sp, 'st) CR \<Rightarrow> string"
    and get :: "'p \<Rightarrow> string \<Rightarrow> 's \<Rightarrow> (err + 'r) \<times> 's"
    and create :: "'p \<Rightarrow> 'c \<Rightarrow> 's \<Rightarrow> (err + 'r) \<times> 's"
    and modify :: "'p \<Rightarrow> string \<Rightarrow> 'm \<Rightarrow> 's \<Rightarrow> (err + 'r) \<times> 's"
    and del :: "'p \<Rightarrow> string \<Rightarrow> 's \<Rightarrow> err option \<times> 's"
    and core :: "'r \<Rightarrow> 'r"
    and rname :: "'r \<Rightarrow> string"
    and rows :: "'p \<Rightarrow> 'v \<Rightarrow> string \<Rightarrow> 'r option"
    and put :: "'p \<Rightarrow> string \<Rightarrow> 'r option \<Rightarrow> 'v \<Rightarrow> 'v"
    and cname :: "'c \<Rightarrow> string"
    and built :: "'c \<Rightarrow> 'r \<Rightarrow> bool"
    and patched :: "'m \<Rightarrow> 'r option \<Rightarrow> 'r \<Rightarrow> bool"
    and save :: "'r \<Rightarrow> ('sp, 'st) CR \<Rightarrow> ('sp, 'st) CR"
    and wanted :: "('sp, 'st) CR \<Rightarrow> err + 'd"
    and matches :: "'r \<Rightarrow> ('sp, 'st) CR \<Rightarrow> 'd \<Rightarrow> bool"
    and creq :: "('sp, 'st) CR \<Rightarrow> 'd \<Rightarrow> 'c"
    and mreq :: "'r \<Rightarrow> ('sp, 'st) CR \<Rightarrow> 'd \<Rightarrow> 'm option"
    and what cwhat mwhat dwhat :: string and msg :: "'r \<Rightarrow> string"
  assumes obj: "managed_object Obj"
    and rows: "child_rows inv view (get p) (create p) (modify p) (del p) core rname (rows p) (put p) cname built patched"
    and observe_is: "ad_Observe ad =
      childObserve parent (\<lambda>x. get (path x) (xname x)) what save wanted matches msg"
    and create_is: "ad_Create ad = childCreate parent wanted (\<lambda>x d. create (path x) (creq x d)) cwhat save"
    and update_is: "ad_Update ad =
      childUpdate parent wanted (\<lambda>x. get (path x) (xname x)) what mreq (\<lambda>x. modify (path x) (xname x)) mwhat"
    and delete_is: "ad_Delete ad = childDelete L complete (\<lambda>x. del (path x) (sname x)) dwhat"
    and parent_keeps: "parent x = (e, y) \<Longrightarrow> Meta y = Meta x \<and> Spec y = Spec x"
    and parent_again: "parent x = (None, y) \<Longrightarrow> parent y = (None, y)"
    and record_keeps: "Meta (save r x) = Meta x \<and> Spec (save r x) = Spec x \<and> path (save r x) = path x"
    and recorded: "sname (save r x) = rname r"
    and name_cong: "Meta y = Meta x \<Longrightarrow> Spec y = Spec x \<Longrightarrow> xname y = xname x"
    and wanted_cong: "Meta y = Meta x \<Longrightarrow> Spec y = Spec x \<Longrightarrow> wanted y = wanted x"
    and matches_cong: "Meta y = Meta x \<Longrightarrow> Spec y = Spec x \<Longrightarrow> matches r y d = matches r x d"
    and creq_cong: "Meta y = Meta x \<Longrightarrow> Spec y = Spec x \<Longrightarrow> creq y d = creq x d"
    and mreq_cong: "Meta y = Meta x \<Longrightarrow> Spec y = Spec x \<Longrightarrow> mreq r y d = mreq r x d"
    and matches_core: "matches (core r) x d = matches r x d"
    and mreq_core: "mreq (core r) x d = mreq r x d"
    and named: "cname (creq x d) = xname x"
begin

lemma child_observe_spec:
  assumes "inv s" and "ad_Observe ad x s = (r, x', s')"
  shows "inv s' \<and> view s' = view s \<and> Meta x' = Meta x \<and> Spec x' = Spec x"
    and "r = Inr obs \<Longrightarrow> (ob_Exists obs \<longleftrightarrow> rows (path x') (view s) (xname x) \<noteq> None)"
    and "r = Inr obs \<Longrightarrow> ob_Exists obs \<Longrightarrow> \<exists>y d. rows (path x') (view s) (xname x) = Some y \<and> wanted x = Inr d \<and>
      (\<exists>q. y = core q \<and> rname q = xname x) \<and> (ob_UpToDate obs \<longleftrightarrow> matches y x d) \<and> ob_Ready obs \<and> sname x' = xname x"
proof -
  obtain pe x1 where p: "parent x = (pe, x1)" by fastforce
  note k = parent_keeps [OF p]
  have n: "xname x1 = xname x" using name_cong k by blast
  have w: "wanted (save q x1) = wanted x" and m: "matches q (save q x1) d = matches q x d" for q d
    using wanted_cong matches_cong k record_keeps by metis+
  obtain g s1 where g: "get (path x1) (xname x) s = (g, s1)" by fastforce
  note law = child_rows.child_get [OF rows assms(1) g]
  show "inv s' \<and> view s' = view s \<and> Meta x' = Meta x \<and> Spec x' = Spec x"
    using assms p k n g law record_keeps unfolding observe_is childObserve_def
    by (auto simp: Let_def split: option.splits sum.splits if_splits)
  show "r = Inr obs \<Longrightarrow> (ob_Exists obs \<longleftrightarrow> rows (path x') (view s) (xname x) \<noteq> None)"
    using assms(2) p n g law record_keeps unfolding observe_is childObserve_def
    by (auto simp: Let_def NoObservation_def split: option.splits sum.splits if_splits)
  show "r = Inr obs \<Longrightarrow> ob_Exists obs \<Longrightarrow> \<exists>y d. rows (path x') (view s) (xname x) = Some y \<and> wanted x = Inr d \<and>
      (\<exists>q. y = core q \<and> rname q = xname x) \<and> (ob_UpToDate obs \<longleftrightarrow> matches y x d) \<and> ob_Ready obs \<and> sname x' = xname x"
    using assms(2) p n g law record_keeps recorded w m matches_core unfolding observe_is childObserve_def
    by (auto simp: Let_def NoObservation_def split: option.splits sum.splits if_splits)
qed

text \<open>An object whose parent is recorded is observed under it, and nothing else fails.\<close>

lemma child_create_spec:
  assumes "inv s" and "ad_Create ad x s = (e, x', s')"
  shows "inv s' \<and> Meta x' = Meta x \<and> Spec x' = Spec x \<and>
    (view s' = view s \<or> e = None \<and> sname x' = xname x \<and>
      (\<exists>y d. wanted x = Inr d \<and> rows (path x') (view s) (xname x) = None \<and> built (creq x d) y \<and>
        view s' = put (path x') (xname x) (Some y) (view s)))"
proof -
  obtain pe x1 where p: "parent x = (pe, x1)" by fastforce
  note k = parent_keeps [OF p]
  have w: "wanted x1 = wanted x" and c: "creq x1 d = creq x d" for d using wanted_cong creq_cong k by blast+
  show ?thesis
  proof (cases "pe = None \<and> (\<exists>d. wanted x = Inr d)")
    case False
    then show ?thesis
      using assms p k w unfolding create_is childCreate_def by (auto split: option.splits sum.splits)
  next
    case True
    then obtain d where d: "pe = None" "wanted x = Inr d" by blast
    obtain g s1 where g: "create (path x1) (creq x d) s = (g, s1)" by fastforce
    note law = child_rows.child_create [OF rows assms(1) g]
    show ?thesis
    proof (cases g)
      case (Inl er)
      then show ?thesis using assms(2) p k w c d g law unfolding create_is childCreate_def by (auto split: if_splits)
    next
      case (Inr q)
      have "view s' = view s1" "x' = save q x1" "e = None" "inv s'"
        using assms(2) p w c d g law Inr unfolding create_is childCreate_def by auto
      moreover have "rname q = xname x" "rows (path x1) (view s) (xname x) = None" "built (creq x d) (core q)"
        "view s1 = put (path x1) (xname x) (Some (core q)) (view s)"
        using law Inr named [of x d] by auto
      ultimately show ?thesis using d(2) k record_keeps recorded by metis
    qed
  qed
qed

lemma child_update_frame:
  assumes "inv s" and "ad_Update ad x s = (e, x', s')"
  shows "inv s' \<and> Meta x' = Meta x \<and> Spec x' = Spec x \<and>
    (view s' = view s \<or> (\<exists>y. view s' = put (path x') (xname x) (Some y) (view s)))"
    and "e = None \<Longrightarrow> parent x' = (None, x') \<and> (\<exists>y0 y d. wanted x = Inr d \<and>
      rows (path x') (view s) (xname x) = Some y0 \<and> rows (path x') (view s') (xname x) = Some y \<and>
      (case mreq y0 x d of None \<Rightarrow> y = y0 \<and> view s' = view s
       | Some m \<Rightarrow> patched m (Some y0) y \<and> view s' = put (path x') (xname x) (Some y) (view s)))"
proof -
  obtain pe x1 where p: "parent x = (pe, x1)" by fastforce
  note k = parent_keeps [OF p]
  have w: "wanted x1 = wanted x" and mr: "mreq r x1 d = mreq r x d" for r d using wanted_cong mreq_cong k by blast+
  have n: "xname x1 = xname x" using name_cong k by blast
  obtain g s1 where g: "get (path x1) (xname x) s = (g, s1)" by fastforce
  note law = child_rows.child_get [OF rows assms(1) g]
  note upd = assms(2) [unfolded update_is childUpdate_def]
  have main: "inv s' \<and> Meta x' = Meta x \<and> Spec x' = Spec x \<and>
    (view s' = view s \<or> (\<exists>y. view s' = put (path x') (xname x) (Some y) (view s))) \<and>
    (e = None \<longrightarrow> x' = x1 \<and> pe = None \<and> (\<exists>y0 y d. wanted x = Inr d \<and>
      rows (path x') (view s) (xname x) = Some y0 \<and> rows (path x') (view s') (xname x) = Some y \<and>
      (case mreq y0 x d of None \<Rightarrow> y = y0 \<and> view s' = view s
       | Some m \<Rightarrow> patched m (Some y0) y \<and> view s' = put (path x') (xname x) (Some y) (view s))))"
  proof (cases "\<exists>d q m. pe = None \<and> wanted x = Inr d \<and> g = Inr q \<and> mreq q x d = Some m")
    case False
    then consider er where "pe = Some er" | er where "pe = None" "wanted x = Inl er"
      | d er where "pe = None" "wanted x = Inr d" "g = Inl er"
      | d q where "pe = None" "wanted x = Inr d" "g = Inr q" "mreq q x d = None"
      by (cases pe; cases "wanted x"; cases g) auto
    then show ?thesis
    proof cases
      case 1
      then show ?thesis using upd p k assms(1) by auto
    next
      case 2
      then show ?thesis using upd p k w assms(1) by auto
    next
      case 3
      then show ?thesis using upd p k w n g law by (auto split: if_splits)
    next
      case 4
      then show ?thesis using upd p k w n g law mr mreq_core [of q x d] by auto
    qed
  next
    case True
    then obtain d q m where d: "pe = None" "wanted x = Inr d" "g = Inr q" "mreq q x d = Some m" by blast
    obtain h s2 where h: "modify (path x1) (xname x) m s1 = (h, s2)" by fastforce
    have i: "inv s1" "view s1 = view s" "rows (path x1) (view s) (xname x) = Some (core q)" using law d(3) by auto
    note mod = child_rows.child_modify [OF rows i(1) h]
    show ?thesis
    proof (cases h)
      case (Inl er)
      then show ?thesis using upd p w n mr k g d h mod i by auto
    next
      case (Inr z)
      then have r: "e = None" "x' = x1" "s' = s2" using upd p w n mr g d h by auto
      have z: "inv s2" "patched m (Some (core q)) (core z)" "view s2 = put (path x1) (xname x) (Some (core z)) (view s)"
        using mod Inr i by auto
      have "rows (path x1) (view s2) (xname x) = Some (core z)" using z(3) child_rows.rows_put [OF rows] by simp
      then show ?thesis using r z d k i(3) mreq_core [of q x d] by auto
    qed
  qed
  then show "inv s' \<and> Meta x' = Meta x \<and> Spec x' = Spec x \<and>
    (view s' = view s \<or> (\<exists>y. view s' = put (path x') (xname x) (Some y) (view s)))" by blast
  show "e = None \<Longrightarrow> parent x' = (None, x') \<and> (\<exists>y0 y d. wanted x = Inr d \<and>
      rows (path x') (view s) (xname x) = Some y0 \<and> rows (path x') (view s') (xname x) = Some y \<and>
      (case mreq y0 x d of None \<Rightarrow> y = y0 \<and> view s' = view s
       | Some m \<Rightarrow> patched m (Some y0) y \<and> view s' = put (path x') (xname x) (Some y) (view s)))"
    using main p parent_again by blast
qed

text \<open>
  After a successful Update the next Observe finds the row, and finds it in sync exactly
  when the changed row matches.
\<close>

lemma child_update_observe:
  assumes "inv s" and "ad_Update ad x s = (None, x', s')" and "ad_Observe ad x' s' = (Inr obs, x'', s'')"
  shows "ob_Exists obs \<and> ob_Ready obs \<and> (\<exists>y0 y d. wanted x = Inr d \<and> rows (path x') (view s) (xname x) = Some y0 \<and>
      (ob_UpToDate obs \<longleftrightarrow> matches y x d) \<and> (\<exists>q. y = core q \<and> rname q = xname x) \<and>
      (case mreq y0 x d of None \<Rightarrow> y = y0 | Some m \<Rightarrow> patched m (Some y0) y))"
proof -
  note u = child_update_frame [OF assms(1,2)]
  have i: "inv s'" and same: "Meta x' = Meta x" "Spec x' = Spec x" using u(1) by blast+
  have n: "xname x' = xname x" and w: "wanted x' = wanted x" and m: "matches r x' d = matches r x d" for r d
    using name_cong wanted_cong matches_cong same by blast+
  obtain y0 y d where y: "parent x' = (None, x')" "wanted x = Inr d" "rows (path x') (view s) (xname x) = Some y0"
    "rows (path x') (view s') (xname x) = Some y"
    "case mreq y0 x d of None \<Rightarrow> y = y0 | Some m \<Rightarrow> patched m (Some y0) y"
    using u(2) [OF refl] by (auto split: option.splits)
  have "path x'' = path x'"
    using assms(3) y(1) record_keeps unfolding observe_is childObserve_def
    by (auto simp: Let_def split: sum.splits prod.splits if_splits)
  then have "ob_Exists obs" "\<exists>z e. rows (path x') (view s') (xname x) = Some z \<and> wanted x = Inr e \<and>
      (\<exists>q. z = core q \<and> rname q = xname x) \<and> (ob_UpToDate obs \<longleftrightarrow> matches z x e) \<and> ob_Ready obs"
    using child_observe_spec(2,3) [OF i assms(3) refl] y(4) n w m by auto
  then show ?thesis using y(2-5) by auto
qed

lemma child_update_converges:
  assumes "inv s" and "ad_Update ad x s = (None, x', s')" and "ad_Observe ad x' s' = (Inr obs, x'', s'')"
    and "\<And>y0 q d. wanted x = Inr d \<Longrightarrow> rname q = xname x \<Longrightarrow>
      case mreq y0 x d of None \<Rightarrow> core q = y0 | Some m \<Rightarrow> patched m (Some y0) (core q) \<Longrightarrow> matches q x d"
  shows "ob_Exists obs \<and> ob_Ready obs \<and> ob_UpToDate obs"
  using child_update_observe [OF assms(1-3)] assms(4) matches_core by blast

lemma child_delete_spec:
  assumes "inv s" and "ad_Delete ad x s = (e, x', s')"
  shows "inv s' \<and> x' = x \<and> (view s' = view s \<or> complete x \<and> view s' = put (path x) (sname x) None (view s))"
    and "e = None \<Longrightarrow> complete x \<Longrightarrow> rows (path x) (view s') (sname x) = None"
proof -
  obtain de s1 where d: "del (path x) (sname x) s = (de, s1)" by fastforce
  note law = child_rows.child_deleted [OF rows assms(1) d]
  show "inv s' \<and> x' = x \<and> (view s' = view s \<or> complete x \<and> view s' = put (path x) (sname x) None (view s))"
    using assms d law unfolding delete_is childDelete_def by (auto split: if_splits)
  show "e = None \<Longrightarrow> complete x \<Longrightarrow> rows (path x) (view s') (sname x) = None"
    using assms(2) d law unfolding delete_is childDelete_def by auto
qed

text \<open>
  A deletion pass over an object that has been created: it touches only its row; the row
  is gone and the object released, or the finalizer is kept.
\<close>

lemma child_delete_pass:
  assumes "inv s" and "complete x" and policy: "GetDeletionPolicy Obj x \<noteq> DeletionPolicyOrphan"
    and fin: "hasFinalizer (mkReconciler L' Obj c ad f opts) x"
    and pass: "reconcileDelete (defaults (mkReconciler L' Obj c ad f opts)) x (k, s) = (out, k', s')"
  shows "(view s' = view s \<or> view s' = put (path x) (sname x) None (view s)) \<and>
    (rows (path x) (view s') (sname x) = None \<and>
       k' = snd (cl_Update c (removeFinalizer (mkReconciler L' Obj c ad f opts) x) k) \<or>
     (\<exists>x'. hasFinalizer (mkReconciler L' Obj c ad f opts) x' \<and> k' = snd (cl_StatusPatch c x' x k)))"
proof -
  obtain e x1 s1 where d: "ad_Delete ad x s = (e, x1, s1)" by (metis prod_cases3)
  note spec = child_delete_spec [OF \<open>inv s\<close> d]
  have x1: "x1 = x" using spec(1) by blast
  show ?thesis
  proof (cases e)
    case None
    have "s' = s1 \<and> k' = snd (cl_Update c (removeFinalizer (mkReconciler L' Obj c ad f opts) x) k)"
      using pass delete_pass_released [OF fin policy, of s x s1 k] d None x1 by (auto split: prod.splits)
    then show ?thesis using spec None \<open>complete x\<close> by auto
  next
    case (Some y)
    then show ?thesis
      using delete_pass_refused [OF obj fin policy _ pass] d x1 spec(1) by blast
  qed
qed

end

end
