(* ===== verification/LoadBalancerResolverAdapter.thy ===== *)
theory LoadBalancerResolverAdapter
  imports ChildAdapter LoadBalancerFakeLaws
begin

text \<open>
  \<open>internal/controller/loadbalancer/loadbalancerresolver_adapter.go\<close> and
  \<open>loadbalancerresolver_controller.go\<close>.
  The nested resolver is sent in full by Create and by Update.
\<close>

subsection \<open>Helpers\<close>

definition LoadBalancerResolverAdapter_serviceUUID ::
  "Lib \<Rightarrow> LoadBalancer getter \<Rightarrow> LoadBalancerResolver \<Rightarrow> (err + string) \<times> LoadBalancerResolver" where
  "LoadBalancerResolverAdapter_serviceUUID L getLB r =
     (if rvst_ServiceUUID (Status r) \<noteq> '''' then (Inr (rvst_ServiceUUID (Status r)), r)
      else case ReadyID L LoadBalancer_Object getLB (om_Namespace (Meta r)) (lor_Name (rvs_LoadBalancerRef (Spec r))) of
        Inl e \<Rightarrow> (Inl e, r)
      | Inr i \<Rightarrow> (Inr i, r\<lparr>Status := (Status r)\<lparr>rvst_ServiceUUID := i\<rparr>\<rparr>))"

definition resolverMatches :: "upLBResolver \<Rightarrow> LoadBalancerResolver \<Rightarrow> bool" where
  "resolverMatches res r =
     (if length (urs_Nameservers res) \<noteq> length (rvs_Nameservers (Spec r)) then False
      else if \<not> list_all (\<lambda>i. i < length (urs_Nameservers res) \<and> urs_Nameservers res ! i = rvs_Nameservers (Spec r) ! i)
             [0..<length (rvs_Nameservers (Spec r))] then False
      else if urs_Retries res \<noteq> rvs_Retries (Spec r) \<or> urs_Timeout res \<noteq> rvs_Timeout (Spec r) \<or>
              urs_TimeoutRetry res \<noteq> rvs_TimeoutRetry (Spec r) \<or> urs_CacheValid res \<noteq> rvs_CacheValid (Spec r) \<or>
              urs_CacheInvalid res \<noteq> rvs_CacheInvalid (Spec r) then False
      else True)"

text \<open>The resolver that Create and Update send.\<close>

definition resolverRequest :: "LoadBalancerResolver \<Rightarrow> reqResolver" where
  "resolverRequest r = \<lparr>rrs_Name = LoadBalancerResolver_ExternalName r, rrs_Nameservers = rvs_Nameservers (Spec r),
     rrs_Retries = rvs_Retries (Spec r), rrs_Timeout = rvs_Timeout (Spec r), rrs_TimeoutRetry = rvs_TimeoutRetry (Spec r),
     rrs_CacheValid = rvs_CacheValid (Spec r), rrs_CacheInvalid = rvs_CacheInvalid (Spec r)\<rparr>"


subsection \<open>The adapter\<close>

definition LoadBalancerResolverAdapter_Observe ::
  "Lib \<Rightarrow> 's LoadBalancerAPI \<Rightarrow> LoadBalancer getter \<Rightarrow> LoadBalancerResolver \<Rightarrow> 's
   \<Rightarrow> (err + Observation) \<times> LoadBalancerResolver \<times> 's" where
  "LoadBalancerResolverAdapter_Observe L api getLB r s =
     (case LoadBalancerResolverAdapter_serviceUUID L getLB r of
        (Inl e, r1) \<Rightarrow> (Inl e, r1, s)
      | (Inr svcUUID, r1) \<Rightarrow>
          (case GetLoadBalancerResolver api svcUUID (LoadBalancerResolver_ExternalName r1) s of
             (Inl e, s1) \<Rightarrow>
               if IsNotFound (Some e) then (Inr NoObservation, r1, s1)
               else (Inl (Wrap ''get load balancer resolver'' e), r1, s1)
           | (Inr res, s1) \<Rightarrow>
               let r2 = r1\<lparr>Status := (Status r1)\<lparr>rvst_Name := urs_Name res\<rparr>\<rparr>
               in (Inr \<lparr>ob_Exists = True, ob_UpToDate = resolverMatches res r2,
                      ob_Ready = True, ob_Message = ''resolver '' @ urs_Name res\<rparr>, r2, s1)))"

definition LoadBalancerResolverAdapter_Create ::
  "Lib \<Rightarrow> 's LoadBalancerAPI \<Rightarrow> LoadBalancer getter \<Rightarrow> LoadBalancerResolver \<Rightarrow> 's
   \<Rightarrow> err option \<times> LoadBalancerResolver \<times> 's" where
  "LoadBalancerResolverAdapter_Create L api getLB r s =
     (case LoadBalancerResolverAdapter_serviceUUID L getLB r of
        (Inl e, r1) \<Rightarrow> (Some e, r1, s)
      | (Inr svcUUID, r1) \<Rightarrow>
          (case CreateLoadBalancerResolver api svcUUID (resolverRequest r1) s of
             (Inl e, s1) \<Rightarrow>
               if IsConflict (Some e) then (None, r1, s1)
               else (Some (Wrap ''create load balancer resolver'' e), r1, s1)
           | (Inr created, s1) \<Rightarrow> 
               (None, r1\<lparr>Status := (Status r1)\<lparr>rvst_Name := urs_Name created\<rparr>\<rparr>, s1)))"

definition LoadBalancerResolverAdapter_Update ::
  "Lib \<Rightarrow> 's LoadBalancerAPI \<Rightarrow> LoadBalancer getter \<Rightarrow> LoadBalancerResolver \<Rightarrow> 's
   \<Rightarrow> err option \<times> LoadBalancerResolver \<times> 's" where
  "LoadBalancerResolverAdapter_Update L api getLB r s =
     (case LoadBalancerResolverAdapter_serviceUUID L getLB r of
        (Inl e, r1) \<Rightarrow> (Some e, r1, s)
      | (Inr svcUUID, r1) \<Rightarrow>
          (case GetLoadBalancerResolver api svcUUID (LoadBalancerResolver_ExternalName r1) s of
             (Inl e, s1) \<Rightarrow>
               if IsNotFound (Some e) then (Some ErrPending, r1, s1)
               else (Some (Wrap ''get load balancer resolver'' e), r1, s1)
           | (Inr _, s1) \<Rightarrow>
               (case ModifyLoadBalancerResolver api svcUUID (LoadBalancerResolver_ExternalName r1)
                       (resolverRequest r1) s1 of
                  (Inl e, s2) \<Rightarrow> (Some (Wrap ''modify load balancer resolver'' e), r1, s2)
                | (Inr _, s2) \<Rightarrow> (None, r1, s2))))"

definition LoadBalancerResolverAdapter_Delete ::
  "Lib \<Rightarrow> 's LoadBalancerAPI \<Rightarrow> LoadBalancerResolver \<Rightarrow> 's \<Rightarrow> err option \<times> LoadBalancerResolver \<times> 's" where
  "LoadBalancerResolverAdapter_Delete L api r s =
     (if rvst_ServiceUUID (Status r) = '''' \<or> rvst_Name (Status r) = ''''
      then (None, r, s)
      else case DeleteLoadBalancerResolver api (rvst_ServiceUUID (Status r)) (rvst_Name (Status r)) s of
        (e, s1) \<Rightarrow> (titledOutcome L ''delete load balancer resolver'' e, r, s1))"

definition LoadBalancerResolverAdapter ::
  "Lib \<Rightarrow> 's LoadBalancerAPI \<Rightarrow> LoadBalancer getter \<Rightarrow> (LoadBalancerResolver, 's) Adapter" where
  "LoadBalancerResolverAdapter L api getLB =
     \<lparr>ad_Observe = LoadBalancerResolverAdapter_Observe L api getLB,
      ad_Create = LoadBalancerResolverAdapter_Create L api getLB,
      ad_Update = LoadBalancerResolverAdapter_Update L api getLB,
      ad_Delete = LoadBalancerResolverAdapter_Delete L api\<rparr>"

definition FinalizerLoadBalancerResolver :: string where
  "FinalizerLoadBalancerResolver = ''loadbalancer.upcloud.polarsquad.com/loadbalancerresolver''"

definition SetupLoadBalancerResolverController ::
  "Lib \<Rightarrow> (LoadBalancerResolver, 'k) Client \<Rightarrow> 's LoadBalancerAPI \<Rightarrow> LoadBalancer getter \<Rightarrow>
   (string \<Rightarrow> 'v \<Rightarrow> err + LoadBalancerResolver list) \<Rightarrow> Options
   \<Rightarrow> (LoadBalancerResolver, 'k \<times> 's) Reconciler \<times> (LoadBalancer \<Rightarrow> 'v \<Rightarrow> NamespacedName list)" where
  "SetupLoadBalancerResolverController L c api getLB listAll opts =
     (mkReconciler L LoadBalancerResolver_Object c (LoadBalancerResolverAdapter L api getLB)
        FinalizerLoadBalancerResolver opts,
      \<lambda>w. DependentsOf listAll Meta LoadBalancerResolver_RefNames (Meta w))"

lemma LoadBalancerResolverAdapter_sel [simp]:
  "ad_Observe (LoadBalancerResolverAdapter L api getLB) = LoadBalancerResolverAdapter_Observe L api getLB"
  "ad_Create (LoadBalancerResolverAdapter L api getLB) = LoadBalancerResolverAdapter_Create L api getLB"
  "ad_Update (LoadBalancerResolverAdapter L api getLB) = LoadBalancerResolverAdapter_Update L api getLB"
  "ad_Delete (LoadBalancerResolverAdapter L api getLB) = LoadBalancerResolverAdapter_Delete L api"
  by (simp_all add: LoadBalancerResolverAdapter_def)

subsection \<open>The common shape\<close>

definition resolver_parent :: "Lib \<Rightarrow> LoadBalancer getter \<Rightarrow> LoadBalancerResolver \<Rightarrow> err option \<times> LoadBalancerResolver" where
  "resolver_parent L getLB r =
     (case LoadBalancerResolverAdapter_serviceUUID L getLB r of (Inl e, y) \<Rightarrow> (Some e, y) | (Inr _, y) \<Rightarrow> (None, y))"

lemma resolver_service:
  assumes "LoadBalancerResolverAdapter_serviceUUID L getLB r = (q, y)"
  shows "Meta y = Meta r \<and> Spec y = Spec r" and "q = Inr i \<Longrightarrow> i \<noteq> [] \<and> rvst_ServiceUUID (Status y) = i"
  using assms by (auto simp: LoadBalancerResolverAdapter_serviceUUID_def split: sum.splits if_splits)

lemma resolver_service_cases:
  "(case LoadBalancerResolverAdapter_serviceUUID L getLB r of (Inl e, y) \<Rightarrow> bad e y | (Inr i, y) \<Rightarrow> good i y) =
   (case resolver_parent L getLB r of (Some e, y) \<Rightarrow> bad e y | (None, y) \<Rightarrow> good (rvst_ServiceUUID (Status y)) y)"
  using resolver_service(2) [of L getLB r] by (auto simp: resolver_parent_def split: sum.splits prod.splits)

lemma resolver_request_name: "(resolverRequest r)\<lparr>rrs_Name := LoadBalancerResolver_ExternalName r\<rparr> = resolverRequest r"
  by (simp add: resolverRequest_def)

sublocale load_balancer_service \<subseteq> resolver_ctr: child_adapter L LoadBalancerResolver_Object
    "LoadBalancerResolverAdapter L api getLB" inv view
    "resolver_parent L getLB" "\<lambda>x. rvst_ServiceUUID (Status x)"
    "\<lambda>x. rvst_ServiceUUID (Status x) \<noteq> '''' \<and> rvst_Name (Status x) \<noteq> ''''"
    LoadBalancerResolver_ExternalName "\<lambda>x. rvst_Name (Status x)" "GetLoadBalancerResolver api"
    "CreateLoadBalancerResolver api"
    "\<lambda>p n m. ModifyLoadBalancerResolver api p n (m\<lparr>rrs_Name := n\<rparr>)"
    "DeleteLoadBalancerResolver api"
    "\<lambda>x. x" urs_Name "\<lambda>p v. lv_Resolvers v p" "put_Resolver" rrs_Name resolver_built "on_row (\<lambda>m b. resolver_built m)"
    "\<lambda>r x. x\<lparr>Status := (Status x)\<lparr>rvst_Name := urs_Name r\<rparr>\<rparr>"
    "\<lambda>x. Inr ()"
    "\<lambda>res x _. resolverMatches res x" "\<lambda>x _. (resolverRequest x)"
    "\<lambda>_ x _. Some (resolverRequest x)"
    "''get load balancer resolver''" "''create load balancer resolver''" "''modify load balancer resolver''"
    "''delete load balancer resolver''" "\<lambda>res. ''resolver '' @ urs_Name res"
  for L getLB
  apply (rule child_adapter.intro)
  subgoal by (rule loadbalancerresolver_object.managed_object_axioms)
  subgoal using resolvers by simp
  subgoal
    by (intro ext) (simp add: LoadBalancerResolverAdapter_Observe_def childObserve_def Let_def resolver_service_cases resolver_request_name
      cong del: weak_congs)
  subgoal
    by (intro ext) (simp add: LoadBalancerResolverAdapter_Create_def childCreate_def Let_def resolver_service_cases resolver_request_name
      cong del: weak_congs)
  subgoal
    by (intro ext) (simp add: LoadBalancerResolverAdapter_Update_def childUpdate_def Let_def resolver_service_cases resolver_request_name
      cong del: weak_congs)
  subgoal by (intro ext) (simp add: LoadBalancerResolverAdapter_Delete_def childDelete_def)
  subgoal
    by (auto simp: resolver_parent_def Let_def split: sum.splits prod.splits if_splits dest: resolver_service(1))
  subgoal
    by (auto simp: resolver_parent_def LoadBalancerResolverAdapter_serviceUUID_def Let_def
      split: sum.splits prod.splits if_splits)
  by (simp_all add: LoadBalancerResolver_ExternalName_def resolverMatches_def resolverRequest_def
      cong: option.case_cong)


end
