(* ===== verification/LoadBalancerBackendAdapter.thy ===== *)
theory LoadBalancerBackendAdapter
  imports ChildAdapter LoadBalancerFakeLaws
begin

text \<open>
  \<open>internal/controller/loadbalancer/loadbalancerbackend_adapter.go\<close> and
  \<open>loadbalancerbackend_controller.go\<close>.
  Members and TLS configurations are kinds of their own, so the create request has none.
\<close>

subsection \<open>Helpers\<close>

definition LoadBalancerBackendAdapter_serviceUUID ::
  "Lib \<Rightarrow> LoadBalancer getter \<Rightarrow> LoadBalancerBackend \<Rightarrow> (err + string) \<times> LoadBalancerBackend" where
  "LoadBalancerBackendAdapter_serviceUUID L getLB b =
     (if best_ServiceUUID (Status b) \<noteq> '''' then (Inr (best_ServiceUUID (Status b)), b)
      else case ReadyID L LoadBalancer_Object getLB (om_Namespace (Meta b)) (lor_Name (bes_LoadBalancerRef (Spec b))) of
        Inl e \<Rightarrow> (Inl e, b)
      | Inr i \<Rightarrow> (Inr i, b\<lparr>Status := (Status b)\<lparr>best_ServiceUUID := i\<rparr>\<rparr>))"

definition LoadBalancerBackendAdapter_resolverName ::
  "Lib \<Rightarrow> LoadBalancerResolver getter \<Rightarrow> LoadBalancerBackend \<Rightarrow> err + string" where
  "LoadBalancerBackendAdapter_resolverName L getResolver b =
     (case bes_ResolverRef (Spec b) of
        None \<Rightarrow> Inr ''''
      | Some ref \<Rightarrow> ReadyID L LoadBalancerResolver_Object getResolver (om_Namespace (Meta b)) (lor_Name ref))"

definition desiredProperties :: "LoadBalancerBackend \<Rightarrow> upBackendProperties option" where
  "desiredProperties b =
     (case bes_Properties (Spec b) of
        None \<Rightarrow> None
      | Some p \<Rightarrow> Some
       \<lparr>ubp_TimeoutServer = bpr_TimeoutServer p,
        ubp_TimeoutTunnel = bpr_TimeoutTunnel p,
        ubp_HealthCheckTLSVerify = bpr_HealthCheckTLSVerify p,
        ubp_HealthCheckType = bpr_HealthCheckType p,
        ubp_HealthCheckInterval = bpr_HealthCheckInterval p,
        ubp_HealthCheckFall = bpr_HealthCheckFall p,
        ubp_HealthCheckRise = bpr_HealthCheckRise p,
        ubp_HealthCheckURL = bpr_HealthCheckURL p,
        ubp_HealthCheckExpectedStatus = bpr_HealthCheckExpectedStatus p,
        ubp_StickySessionCookieName = bpr_StickySessionCookieName p,
        ubp_OutboundProxyProtocol = bpr_OutboundProxyProtocol p,
        ubp_TLSEnabled = bpr_TLSEnabled p,
        ubp_TLSVerify = bpr_TLSVerify p,
        ubp_TLSUseSystemCA = bpr_TLSUseSystemCA p,
        ubp_HTTP2Enabled = bpr_HTTP2Enabled p\<rparr>)"

definition backendMatches :: "upLBBackend \<Rightarrow> LoadBalancerBackend \<Rightarrow> string \<Rightarrow> bool" where
  "backendMatches be b resolver =
     (if ube_Resolver be \<noteq> resolver then False
      else case bes_Properties (Spec b) of
        None \<Rightarrow> True
      | Some want \<Rightarrow>
          (case ube_Properties be of
             None \<Rightarrow> False
           | Some got \<Rightarrow>
              if ubp_TimeoutServer got \<noteq> bpr_TimeoutServer want \<or> ubp_TimeoutTunnel got \<noteq> bpr_TimeoutTunnel want then False
              else if ubp_HealthCheckType got \<noteq> bpr_HealthCheckType want \<or>
                 ubp_HealthCheckInterval got \<noteq> bpr_HealthCheckInterval want \<or>
                 ubp_HealthCheckFall got \<noteq> bpr_HealthCheckFall want \<or>
                 ubp_HealthCheckRise got \<noteq> bpr_HealthCheckRise want \<or>
                 ubp_HealthCheckURL got \<noteq> bpr_HealthCheckURL want \<or>
                 ubp_HealthCheckExpectedStatus got \<noteq> bpr_HealthCheckExpectedStatus want \<or>
                 ubp_StickySessionCookieName got \<noteq> bpr_StickySessionCookieName want \<or>
                 ubp_OutboundProxyProtocol got \<noteq> bpr_OutboundProxyProtocol want then False
              else if bpr_HealthCheckTLSVerify want \<noteq> None \<and> 
                 (ubp_HealthCheckTLSVerify got = None \<or> ubp_HealthCheckTLSVerify got \<noteq> bpr_HealthCheckTLSVerify want) then False
              else if bpr_TLSEnabled want \<noteq> None \<and> 
                 (ubp_TLSEnabled got = None \<or> ubp_TLSEnabled got \<noteq> bpr_TLSEnabled want) then False
              else if bpr_TLSVerify want \<noteq> None \<and> 
                 (ubp_TLSVerify got = None \<or> ubp_TLSVerify got \<noteq> bpr_TLSVerify want) then False
              else if bpr_TLSUseSystemCA want \<noteq> None \<and> 
                 (ubp_TLSUseSystemCA got = None \<or> ubp_TLSUseSystemCA got \<noteq> bpr_TLSUseSystemCA want) then False
              else if bpr_HTTP2Enabled want \<noteq> None \<and> 
                 (ubp_HTTP2Enabled got = None \<or> ubp_HTTP2Enabled got \<noteq> bpr_HTTP2Enabled want) then False
              else True))"

definition backendRequest :: "LoadBalancerBackend \<Rightarrow> string \<Rightarrow> reqBackend" where
  "backendRequest b resolver = \<lparr>rbe_Name = LoadBalancerBackend_ExternalName b, rbe_Resolver = resolver,
     rbe_Properties = desiredProperties b, rbe_Members = [], rbe_TLSConfigs = []\<rparr>"

definition backendChange :: "LoadBalancerBackend \<Rightarrow> string \<Rightarrow> ModifyBackend" where
  "backendChange b resolver = \<lparr>mbe_Name = LoadBalancerBackend_ExternalName b, mbe_Resolver = Some resolver,
     mbe_Properties = desiredProperties b\<rparr>"


subsection \<open>The adapter\<close>

definition LoadBalancerBackendAdapter_Observe ::
  "Lib \<Rightarrow> 's LoadBalancerAPI \<Rightarrow> LoadBalancer getter \<Rightarrow> LoadBalancerResolver getter \<Rightarrow> LoadBalancerBackend \<Rightarrow> 's
   \<Rightarrow> (err + Observation) \<times> LoadBalancerBackend \<times> 's" where
  "LoadBalancerBackendAdapter_Observe L api getLB getResolver b s =
     (case LoadBalancerBackendAdapter_serviceUUID L getLB b of
        (Inl e, b1) \<Rightarrow> (Inl e, b1, s)
      | (Inr svcUUID, b1) \<Rightarrow>
          (case GetLoadBalancerBackend api svcUUID (LoadBalancerBackend_ExternalName b1) s of
             (Inl e, s1) \<Rightarrow>
               if IsNotFound (Some e) then (Inr NoObservation, b1, s1)
               else (Inl (Wrap ''get load balancer backend'' e), b1, s1)
           | (Inr res, s1) \<Rightarrow>
               let b2 = b1\<lparr>Status := (Status b1)\<lparr>best_Name := ube_Name res\<rparr>\<rparr> in
               (case LoadBalancerBackendAdapter_resolverName L getResolver b2 of
                  Inl e \<Rightarrow> (Inl e, b2, s1)
                | Inr resolver \<Rightarrow>
                    (Inr \<lparr>ob_Exists = True, ob_UpToDate = backendMatches res b2 resolver,
                      ob_Ready = True, ob_Message = ''backend '' @ ube_Name res\<rparr>, b2, s1))))"

definition LoadBalancerBackendAdapter_Create ::
  "Lib \<Rightarrow> 's LoadBalancerAPI \<Rightarrow> LoadBalancer getter \<Rightarrow> LoadBalancerResolver getter \<Rightarrow> LoadBalancerBackend \<Rightarrow> 's
   \<Rightarrow> err option \<times> LoadBalancerBackend \<times> 's" where
  "LoadBalancerBackendAdapter_Create L api getLB getResolver b s =
     (case LoadBalancerBackendAdapter_serviceUUID L getLB b of
        (Inl e, b1) \<Rightarrow> (Some e, b1, s)
      | (Inr svcUUID, b1) \<Rightarrow>
          (case LoadBalancerBackendAdapter_resolverName L getResolver b1 of
             Inl e \<Rightarrow> (Some e, b1, s)
           | Inr resolver \<Rightarrow>
               (case CreateLoadBalancerBackend api svcUUID (backendRequest b1 resolver) s of
                  (Inl e, s1) \<Rightarrow>
                    if IsConflict (Some e) then (None, b1, s1)
                    else (Some (Wrap ''create load balancer backend'' e), b1, s1)
                | (Inr created, s1) \<Rightarrow> 
                    (None, b1\<lparr>Status := (Status b1)\<lparr>best_Name := ube_Name created\<rparr>\<rparr>, s1))))"

definition LoadBalancerBackendAdapter_Update ::
  "Lib \<Rightarrow> 's LoadBalancerAPI \<Rightarrow> LoadBalancer getter \<Rightarrow> LoadBalancerResolver getter \<Rightarrow> LoadBalancerBackend \<Rightarrow> 's
   \<Rightarrow> err option \<times> LoadBalancerBackend \<times> 's" where
  "LoadBalancerBackendAdapter_Update L api getLB getResolver b s =
     (case LoadBalancerBackendAdapter_serviceUUID L getLB b of
        (Inl e, b1) \<Rightarrow> (Some e, b1, s)
      | (Inr svcUUID, b1) \<Rightarrow>
          (case LoadBalancerBackendAdapter_resolverName L getResolver b1 of
             Inl e \<Rightarrow> (Some e, b1, s)
           | Inr resolver \<Rightarrow>
               (case GetLoadBalancerBackend api svcUUID (LoadBalancerBackend_ExternalName b1) s of
                  (Inl e, s1) \<Rightarrow>
                    if IsNotFound (Some e) then (Some ErrPending, b1, s1)
                    else (Some (Wrap ''get load balancer backend'' e), b1, s1)
                | (Inr _, s1) \<Rightarrow>
                    (case ModifyLoadBalancerBackend api svcUUID (LoadBalancerBackend_ExternalName b1)
                            (backendChange b1 resolver) s1 of
                       (Inl e, s2) \<Rightarrow> (Some (Wrap ''modify load balancer backend'' e), b1, s2)
                     | (Inr _, s2) \<Rightarrow> (None, b1, s2)))))"

definition LoadBalancerBackendAdapter_Delete ::
  "Lib \<Rightarrow> 's LoadBalancerAPI \<Rightarrow> LoadBalancerBackend \<Rightarrow> 's \<Rightarrow> err option \<times> LoadBalancerBackend \<times> 's" where
  "LoadBalancerBackendAdapter_Delete L api b s =
     (if best_ServiceUUID (Status b) = '''' \<or> best_Name (Status b) = ''''
      then (None, b, s)
      else case DeleteLoadBalancerBackend api (best_ServiceUUID (Status b)) (best_Name (Status b)) s of
        (e, s1) \<Rightarrow> (titledOutcome L ''delete load balancer backend'' e, b, s1))"

definition LoadBalancerBackendAdapter ::
  "Lib \<Rightarrow> 's LoadBalancerAPI \<Rightarrow> LoadBalancer getter \<Rightarrow> LoadBalancerResolver getter \<Rightarrow> (LoadBalancerBackend, 's) Adapter" where
  "LoadBalancerBackendAdapter L api getLB getResolver =
     \<lparr>ad_Observe = LoadBalancerBackendAdapter_Observe L api getLB getResolver,
      ad_Create = LoadBalancerBackendAdapter_Create L api getLB getResolver,
      ad_Update = LoadBalancerBackendAdapter_Update L api getLB getResolver,
      ad_Delete = LoadBalancerBackendAdapter_Delete L api\<rparr>"

definition FinalizerLoadBalancerBackend :: string where
  "FinalizerLoadBalancerBackend = ''loadbalancer.upcloud.polarsquad.com/loadbalancerbackend''"

definition SetupLoadBalancerBackendController ::
  "Lib \<Rightarrow> (LoadBalancerBackend, 'k) Client \<Rightarrow> 's LoadBalancerAPI \<Rightarrow> LoadBalancer getter \<Rightarrow> LoadBalancerResolver getter \<Rightarrow>
   (string \<Rightarrow> 'v \<Rightarrow> err + LoadBalancerBackend list) \<Rightarrow> Options
   \<Rightarrow> (LoadBalancerBackend, 'k \<times> 's) Reconciler \<times> (LoadBalancer \<Rightarrow> 'v \<Rightarrow> NamespacedName list)" where
  "SetupLoadBalancerBackendController L c api getLB getResolver listAll opts =
     (mkReconciler L LoadBalancerBackend_Object c (LoadBalancerBackendAdapter L api getLB getResolver)
        FinalizerLoadBalancerBackend opts,
      \<lambda>w. DependentsOf listAll Meta LoadBalancerBackend_RefNames (Meta w))"

lemma LoadBalancerBackendAdapter_sel [simp]:
  "ad_Observe (LoadBalancerBackendAdapter L api getLB getResolver) = LoadBalancerBackendAdapter_Observe L api getLB getResolver"
  "ad_Create (LoadBalancerBackendAdapter L api getLB getResolver) = LoadBalancerBackendAdapter_Create L api getLB getResolver"
  "ad_Update (LoadBalancerBackendAdapter L api getLB getResolver) = LoadBalancerBackendAdapter_Update L api getLB getResolver"
  "ad_Delete (LoadBalancerBackendAdapter L api getLB getResolver) = LoadBalancerBackendAdapter_Delete L api"
  by (simp_all add: LoadBalancerBackendAdapter_def)

subsection \<open>The common shape\<close>

definition backend_parent :: "Lib \<Rightarrow> LoadBalancer getter \<Rightarrow> LoadBalancerBackend \<Rightarrow> err option \<times> LoadBalancerBackend" where
  "backend_parent L getLB b =
     (case LoadBalancerBackendAdapter_serviceUUID L getLB b of (Inl e, y) \<Rightarrow> (Some e, y) | (Inr _, y) \<Rightarrow> (None, y))"

lemma backend_service:
  assumes "LoadBalancerBackendAdapter_serviceUUID L getLB b = (q, y)"
  shows "Meta y = Meta b \<and> Spec y = Spec b" and "q = Inr i \<Longrightarrow> i \<noteq> [] \<and> best_ServiceUUID (Status y) = i"
  using assms by (auto simp: LoadBalancerBackendAdapter_serviceUUID_def split: sum.splits if_splits)

lemma backend_service_cases:
  "(case LoadBalancerBackendAdapter_serviceUUID L getLB b of (Inl e, y) \<Rightarrow> bad e y | (Inr i, y) \<Rightarrow> good i y) =
   (case backend_parent L getLB b of (Some e, y) \<Rightarrow> bad e y | (None, y) \<Rightarrow> good (best_ServiceUUID (Status y)) y)"
  using backend_service(2) [of L getLB b] by (auto simp: backend_parent_def split: sum.splits prod.splits)

lemma backend_request_bare: "bareBackend (backendRequest b n) = backendRequest b n"
  by (simp add: backendRequest_def bareBackend_def)

sublocale load_balancer_service \<subseteq> backend_ctr: child_adapter L LoadBalancerBackend_Object
    "LoadBalancerBackendAdapter L api getLB getResolver" inv view
    "backend_parent L getLB" "\<lambda>x. best_ServiceUUID (Status x)"
    "\<lambda>x. best_ServiceUUID (Status x) \<noteq> '''' \<and> best_Name (Status x) \<noteq> ''''"
    LoadBalancerBackend_ExternalName "\<lambda>x. best_Name (Status x)" "GetLoadBalancerBackend api"
    "\<lambda>p c. CreateLoadBalancerBackend api p (bareBackend c)"
    "ModifyLoadBalancerBackend api"
    "DeleteLoadBalancerBackend api"
    "be_core" ube_Name "\<lambda>p v. lv_Backends v p" "put_Backend" rbe_Name backend_built "backend_patched"
    "\<lambda>r x. x\<lparr>Status := (Status x)\<lparr>best_Name := ube_Name r\<rparr>\<rparr>"
    "\<lambda>x. LoadBalancerBackendAdapter_resolverName L getResolver x"
    "\<lambda>res x resolver. backendMatches res x resolver" "\<lambda>x resolver. (backendRequest x resolver)"
    "\<lambda>_ x resolver. Some (backendChange x resolver)"
    "''get load balancer backend''" "''create load balancer backend''" "''modify load balancer backend''"
    "''delete load balancer backend''" "\<lambda>res. ''backend '' @ ube_Name res"
  for L getLB getResolver
  apply (rule child_adapter.intro)
  subgoal by (rule loadbalancerbackend_object.managed_object_axioms)
  subgoal using backends by simp
  subgoal
    by (intro ext) (simp add: LoadBalancerBackendAdapter_Observe_def childObserve_def Let_def backend_service_cases backend_request_bare
      cong del: weak_congs)
  subgoal
    by (intro ext) (simp add: LoadBalancerBackendAdapter_Create_def childCreate_def Let_def backend_service_cases backend_request_bare
      cong del: weak_congs)
  subgoal
    by (intro ext) (simp add: LoadBalancerBackendAdapter_Update_def childUpdate_def Let_def backend_service_cases backend_request_bare
      cong del: weak_congs)
  subgoal by (intro ext) (simp add: LoadBalancerBackendAdapter_Delete_def childDelete_def)
  subgoal
    by (auto simp: backend_parent_def Let_def split: sum.splits prod.splits if_splits dest: backend_service(1))
  subgoal
    by (auto simp: backend_parent_def LoadBalancerBackendAdapter_serviceUUID_def Let_def
      split: sum.splits prod.splits if_splits)
  by (simp_all add: LoadBalancerBackend_ExternalName_def LoadBalancerBackendAdapter_resolverName_def backendMatches_def backendRequest_def
      backendChange_def desiredProperties_def
      cong: option.case_cong)


end
