(* ===== verification/LoadBalancerBackendMemberAdapter.thy ===== *)
theory LoadBalancerBackendMemberAdapter
  imports ChildAdapter LoadBalancerFakeLaws
begin

text \<open>
  \<open>internal/controller/loadbalancer/loadbalancerbackendmember_adapter.go\<close> and
  \<open>loadbalancerbackendmember_controller.go\<close>.
  A member is addressed by load balancer, backend and name.
\<close>

subsection \<open>Helpers\<close>

definition LoadBalancerBackendMemberAdapter_parent ::
  "Lib \<Rightarrow> LoadBalancerBackend getter \<Rightarrow> LoadBalancerBackendMember \<Rightarrow> err option \<times> LoadBalancerBackendMember" where
  "LoadBalancerBackendMemberAdapter_parent L getBackend m =
     (let name = lor_Name (bms_BackendRef (Spec m));
          notReady = Wrap (''backend '' @ fmt_q name @ '' not ready'') ErrDependencyNotReady in
      if bmst_ServiceUUID (Status m) \<noteq> '''' \<and> bmst_BackendName (Status m) \<noteq> '''' then (None, m)
      else case getBackend (om_Namespace (Meta m)) name of
        Inl e \<Rightarrow> if KubeIsNotFound L e then (Some notReady, m) else (Some (Wrap ''get backend'' e), m)
      | Inr p \<Rightarrow>
          if \<not> IsReady L LoadBalancerBackend_Object p \<or> best_ServiceUUID (Status p) = '''' \<or> best_Name (Status p) = ''''
          then (Some notReady, m)
          else (None, m\<lparr>Status := (Status m)\<lparr>bmst_ServiceUUID := best_ServiceUUID (Status p),
                                                bmst_BackendName := best_Name (Status p)\<rparr>\<rparr>))"

definition desiredMember :: "LoadBalancerBackendMember \<Rightarrow> reqMember" where
  "desiredMember m = \<lparr>rbm_Name = LoadBalancerBackendMember_ExternalName m, rbm_Type = bms_Type (Spec m), rbm_IP = bms_IP (Spec m),
     rbm_Port = bms_Port (Spec m), rbm_Weight = bms_Weight (Spec m), rbm_MaxSessions = bms_MaxSessions (Spec m),
     rbm_Enabled = bms_Enabled (Spec m)\<rparr>"

definition memberMatches :: "upLBMember \<Rightarrow> LoadBalancerBackendMember \<Rightarrow> bool" where
  "memberMatches x m =
     (if ubm_Type x \<noteq> bms_Type (Spec m) \<or> ubm_IP x \<noteq> bms_IP (Spec m) \<or> ubm_Port x \<noteq> bms_Port (Spec m) \<or>
         ubm_Weight x \<noteq> bms_Weight (Spec m) \<or> ubm_MaxSessions x \<noteq> bms_MaxSessions (Spec m) \<or>
         ubm_Enabled x \<noteq> bms_Enabled (Spec m) then False
      else True)"

text \<open>The modify request: type and port always, the other fields where they differ.\<close>

definition memberChange :: "upLBMember \<Rightarrow> LoadBalancerBackendMember \<Rightarrow> ModifyMember" where
  "memberChange existing m =
     \<lparr>mbm_Name = '''', mbm_Type = bms_Type (Spec m),
      mbm_IP = (if ubm_IP existing \<noteq> bms_IP (Spec m) then Some (bms_IP (Spec m)) else None),
      mbm_Port = bms_Port (Spec m),
      mbm_Weight = (if ubm_Weight existing \<noteq> bms_Weight (Spec m) then Some (bms_Weight (Spec m)) else None),
      mbm_MaxSessions = (if ubm_MaxSessions existing \<noteq> bms_MaxSessions (Spec m) then Some (bms_MaxSessions (Spec m)) else None),
      mbm_Enabled = (if ubm_Enabled existing \<noteq> bms_Enabled (Spec m) then Some (bms_Enabled (Spec m)) else None)\<rparr>"


subsection \<open>The adapter\<close>

definition LoadBalancerBackendMemberAdapter_Observe ::
  "Lib \<Rightarrow> 's LoadBalancerAPI \<Rightarrow> LoadBalancerBackend getter \<Rightarrow> LoadBalancerBackendMember \<Rightarrow> 's
   \<Rightarrow> (err + Observation) \<times> LoadBalancerBackendMember \<times> 's" where
  "LoadBalancerBackendMemberAdapter_Observe L api getBackend m s =
     (case LoadBalancerBackendMemberAdapter_parent L getBackend m of
        (Some e, m1) \<Rightarrow> (Inl e, m1, s)
      | (None, m1) \<Rightarrow>
          (case GetLoadBalancerBackendMember api (bmst_ServiceUUID (Status m1)) (bmst_BackendName (Status m1)) (LoadBalancerBackendMember_ExternalName m1) s of
             (Inl e, s1) \<Rightarrow>
               if IsNotFound (Some e) then (Inr NoObservation, m1, s1)
               else (Inl (Wrap ''get load balancer backend member'' e), m1, s1)
           | (Inr res, s1) \<Rightarrow>
               let m2 = m1\<lparr>Status := (Status m1)\<lparr>bmst_Name := ubm_Name res\<rparr>\<rparr>
               in (Inr \<lparr>ob_Exists = True, ob_UpToDate = memberMatches res m2,
                      ob_Ready = True, ob_Message = ''member '' @ ubm_Name res\<rparr>, m2, s1)))"

definition LoadBalancerBackendMemberAdapter_Create ::
  "Lib \<Rightarrow> 's LoadBalancerAPI \<Rightarrow> LoadBalancerBackend getter \<Rightarrow> LoadBalancerBackendMember \<Rightarrow> 's
   \<Rightarrow> err option \<times> LoadBalancerBackendMember \<times> 's" where
  "LoadBalancerBackendMemberAdapter_Create L api getBackend m s =
     (case LoadBalancerBackendMemberAdapter_parent L getBackend m of
        (Some e, m1) \<Rightarrow> (Some e, m1, s)
      | (None, m1) \<Rightarrow>
          (case CreateLoadBalancerBackendMember api (bmst_ServiceUUID (Status m1)) (bmst_BackendName (Status m1)) (desiredMember m1) s of
             (Inl e, s1) \<Rightarrow>
               if IsConflict (Some e) then (None, m1, s1)
               else (Some (Wrap ''create load balancer backend member'' e), m1, s1)
           | (Inr created, s1) \<Rightarrow> 
               (None, m1\<lparr>Status := (Status m1)\<lparr>bmst_Name := ubm_Name created\<rparr>\<rparr>, s1)))"

definition LoadBalancerBackendMemberAdapter_Update ::
  "Lib \<Rightarrow> 's LoadBalancerAPI \<Rightarrow> LoadBalancerBackend getter \<Rightarrow> LoadBalancerBackendMember \<Rightarrow> 's
   \<Rightarrow> err option \<times> LoadBalancerBackendMember \<times> 's" where
  "LoadBalancerBackendMemberAdapter_Update L api getBackend m s =
     (case LoadBalancerBackendMemberAdapter_parent L getBackend m of
        (Some e, m1) \<Rightarrow> (Some e, m1, s)
      | (None, m1) \<Rightarrow>
          (case GetLoadBalancerBackendMember api (bmst_ServiceUUID (Status m1)) (bmst_BackendName (Status m1)) (LoadBalancerBackendMember_ExternalName m1) s of
             (Inl e, s1) \<Rightarrow>
               if IsNotFound (Some e) then (Some ErrPending, m1, s1)
               else (Some (Wrap ''get load balancer backend member'' e), m1, s1)
           | (Inr existing, s1) \<Rightarrow>
               let modify = memberChange existing m1 in
               if mbm_Type modify = '''' \<and> mbm_Port modify = 0 \<and> mbm_IP modify = None \<and> mbm_Weight modify = None \<and>
      mbm_MaxSessions modify = None \<and> mbm_Enabled modify = None
               then (None, m1, s1)
               else (case ModifyLoadBalancerBackendMember api (bmst_ServiceUUID (Status m1)) (bmst_BackendName (Status m1)) (LoadBalancerBackendMember_ExternalName m1)
                         modify s1 of
                    (Inl e, s2) \<Rightarrow> (Some (Wrap ''modify load balancer backend member'' e), m1, s2)
                  | (Inr _, s2) \<Rightarrow> (None, m1, s2))))"

definition LoadBalancerBackendMemberAdapter_Delete ::
  "Lib \<Rightarrow> 's LoadBalancerAPI \<Rightarrow> LoadBalancerBackendMember \<Rightarrow> 's \<Rightarrow> err option \<times> LoadBalancerBackendMember \<times> 's" where
  "LoadBalancerBackendMemberAdapter_Delete L api m s =
     (if bmst_ServiceUUID (Status m) = '''' \<or> bmst_BackendName (Status m) = '''' \<or> bmst_Name (Status m) = ''''
      then (None, m, s)
      else case DeleteLoadBalancerBackendMember api (bmst_ServiceUUID (Status m)) (bmst_BackendName (Status m)) (bmst_Name (Status m)) s of
        (e, s1) \<Rightarrow> (titledOutcome L ''delete load balancer backend member'' e, m, s1))"

definition LoadBalancerBackendMemberAdapter ::
  "Lib \<Rightarrow> 's LoadBalancerAPI \<Rightarrow> LoadBalancerBackend getter \<Rightarrow> (LoadBalancerBackendMember, 's) Adapter" where
  "LoadBalancerBackendMemberAdapter L api getBackend =
     \<lparr>ad_Observe = LoadBalancerBackendMemberAdapter_Observe L api getBackend,
      ad_Create = LoadBalancerBackendMemberAdapter_Create L api getBackend,
      ad_Update = LoadBalancerBackendMemberAdapter_Update L api getBackend,
      ad_Delete = LoadBalancerBackendMemberAdapter_Delete L api\<rparr>"

definition FinalizerLoadBalancerBackendMember :: string where
  "FinalizerLoadBalancerBackendMember = ''loadbalancer.upcloud.polarsquad.com/loadbalancerbackendmember''"

definition SetupLoadBalancerBackendMemberController ::
  "Lib \<Rightarrow> (LoadBalancerBackendMember, 'k) Client \<Rightarrow> 's LoadBalancerAPI \<Rightarrow> LoadBalancerBackend getter \<Rightarrow>
   (string \<Rightarrow> 'v \<Rightarrow> err + LoadBalancerBackendMember list) \<Rightarrow> Options
   \<Rightarrow> (LoadBalancerBackendMember, 'k \<times> 's) Reconciler \<times> (LoadBalancerBackend \<Rightarrow> 'v \<Rightarrow> NamespacedName list)" where
  "SetupLoadBalancerBackendMemberController L c api getBackend listAll opts =
     (mkReconciler L LoadBalancerBackendMember_Object c (LoadBalancerBackendMemberAdapter L api getBackend)
        FinalizerLoadBalancerBackendMember opts,
      \<lambda>w. DependentsOf listAll Meta LoadBalancerBackendMember_RefNames (Meta w))"

lemma LoadBalancerBackendMemberAdapter_sel [simp]:
  "ad_Observe (LoadBalancerBackendMemberAdapter L api getBackend) = LoadBalancerBackendMemberAdapter_Observe L api getBackend"
  "ad_Create (LoadBalancerBackendMemberAdapter L api getBackend) = LoadBalancerBackendMemberAdapter_Create L api getBackend"
  "ad_Update (LoadBalancerBackendMemberAdapter L api getBackend) = LoadBalancerBackendMemberAdapter_Update L api getBackend"
  "ad_Delete (LoadBalancerBackendMemberAdapter L api getBackend) = LoadBalancerBackendMemberAdapter_Delete L api"
  by (simp_all add: LoadBalancerBackendMemberAdapter_def)

subsection \<open>The common shape\<close>

lemma case_if_option: "(case (if b then None else Some m) of None \<Rightarrow> x | Some y \<Rightarrow> f y) = (if b then x else f m)"
  by simp

lemma member_change_name: "(memberChange x m)\<lparr>mbm_Name := ''''\<rparr> = memberChange x m"
  by (simp add: memberChange_def)

sublocale load_balancer_service \<subseteq> member_ctr: child_adapter L LoadBalancerBackendMember_Object
    "LoadBalancerBackendMemberAdapter L api getBackend" inv view
    "LoadBalancerBackendMemberAdapter_parent L getBackend" "\<lambda>x. (bmst_ServiceUUID (Status x), bmst_BackendName (Status x))"
    "\<lambda>x. bmst_ServiceUUID (Status x) \<noteq> '''' \<and> bmst_BackendName (Status x) \<noteq> '''' \<and> bmst_Name (Status x) \<noteq> ''''"
    LoadBalancerBackendMember_ExternalName "\<lambda>x. bmst_Name (Status x)" "\<lambda>p. GetLoadBalancerBackendMember api (fst p) (snd p)"
    "\<lambda>p. CreateLoadBalancerBackendMember api (fst p) (snd p)"
    "\<lambda>p n m. ModifyLoadBalancerBackendMember api (fst p) (snd p) n (m\<lparr>mbm_Name := ''''\<rparr>)"
    "\<lambda>p. DeleteLoadBalancerBackendMember api (fst p) (snd p)"
    "\<lambda>x. x" ubm_Name "\<lambda>p v. lv_Members v (fst p) (snd p)" "\<lambda>p. put_Member (fst p) (snd p)" rbm_Name member_built "member_patched"
    "\<lambda>r x. x\<lparr>Status := (Status x)\<lparr>bmst_Name := ubm_Name r\<rparr>\<rparr>"
    "\<lambda>x. Inr ()"
    "\<lambda>res x _. memberMatches res x" "\<lambda>x _. (desiredMember x)"
    "\<lambda>res x _. let m = memberChange res x in if mbm_Type m = '''' \<and> mbm_Port m = 0 \<and> mbm_IP m = None \<and> mbm_Weight m = None \<and>
      mbm_MaxSessions m = None \<and> mbm_Enabled m = None then None else Some m"
    "''get load balancer backend member''" "''create load balancer backend member''" "''modify load balancer backend member''"
    "''delete load balancer backend member''" "\<lambda>res. ''member '' @ ubm_Name res"
  for L getBackend
  apply (rule child_adapter.intro)
  subgoal by (rule loadbalancerbackendmember_object.managed_object_axioms)
  subgoal using members by simp
  subgoal
    by (intro ext) (simp add: LoadBalancerBackendMemberAdapter_Observe_def childObserve_def Let_def  member_change_name case_if_option
      cong del: weak_congs)
  subgoal
    by (intro ext) (simp add: LoadBalancerBackendMemberAdapter_Create_def childCreate_def Let_def  member_change_name case_if_option
      cong del: weak_congs)
  subgoal
    by (intro ext) (simp add: LoadBalancerBackendMemberAdapter_Update_def childUpdate_def Let_def  member_change_name case_if_option
      cong del: weak_congs)
  subgoal by (intro ext) (simp add: LoadBalancerBackendMemberAdapter_Delete_def childDelete_def)
  subgoal
    by (auto simp: LoadBalancerBackendMemberAdapter_parent_def Let_def split: sum.splits prod.splits if_splits)
  subgoal
    by (auto simp: LoadBalancerBackendMemberAdapter_parent_def  Let_def
      split: sum.splits prod.splits if_splits)
  by (simp_all add: LoadBalancerBackendMember_ExternalName_def memberMatches_def desiredMember_def memberChange_def
      cong: option.case_cong)


end
