(* ===== verification/LoadBalancerBackendTLSConfigAdapter.thy ===== *)
theory LoadBalancerBackendTLSConfigAdapter
  imports ChildAdapter LoadBalancerFakeLaws
begin

text \<open>
  \<open>internal/controller/loadbalancer/loadbalancerbackendtlsconfig_adapter.go\<close> and
  \<open>loadbalancerbackendtlsconfig_controller.go\<close>.
  A TLS configuration names a certificate bundle and nothing else.
\<close>

subsection \<open>Helpers\<close>

definition LoadBalancerBackendTLSConfigAdapter_parent ::
  "Lib \<Rightarrow> LoadBalancerBackend getter \<Rightarrow> LoadBalancerBackendTLSConfig \<Rightarrow> err option \<times> LoadBalancerBackendTLSConfig" where
  "LoadBalancerBackendTLSConfigAdapter_parent L getBackend c =
     (let name = lor_Name (bts_BackendRef (Spec c));
          notReady = Wrap (''backend '' @ fmt_q name @ '' not ready'') ErrDependencyNotReady in
      if btst_ServiceUUID (Status c) \<noteq> '''' \<and> btst_BackendName (Status c) \<noteq> '''' then (None, c)
      else case getBackend (om_Namespace (Meta c)) name of
        Inl e \<Rightarrow> if KubeIsNotFound L e then (Some notReady, c) else (Some (Wrap ''get backend'' e), c)
      | Inr p \<Rightarrow>
          if \<not> IsReady L LoadBalancerBackend_Object p \<or> best_ServiceUUID (Status p) = '''' \<or> best_Name (Status p) = ''''
          then (Some notReady, c)
          else (None, c\<lparr>Status := (Status c)\<lparr>btst_ServiceUUID := best_ServiceUUID (Status p),
                                                btst_BackendName := best_Name (Status p)\<rparr>\<rparr>))"

definition LoadBalancerBackendTLSConfigAdapter_bundleUUID ::
  "Lib \<Rightarrow> LoadBalancerCertificateBundle getter \<Rightarrow> LoadBalancerBackendTLSConfig \<Rightarrow> err + string" where
  "LoadBalancerBackendTLSConfigAdapter_bundleUUID L getBundle c =
     ReadyID L LoadBalancerCertificateBundle_Object getBundle (om_Namespace (Meta c)) (lor_Name (bts_CertificateBundleRef (Spec c)))"

text \<open>What Create and Update send.\<close>

definition backendTLSRequest :: "LoadBalancerBackendTLSConfig \<Rightarrow> string \<Rightarrow> reqTLSConfig" where
  "backendTLSRequest c bundleUUID = \<lparr>rtc_Name = LoadBalancerBackendTLSConfig_ExternalName c, rtc_CertificateBundleUUID = bundleUUID\<rparr>"


subsection \<open>The adapter\<close>

definition LoadBalancerBackendTLSConfigAdapter_Observe ::
  "Lib \<Rightarrow> 's LoadBalancerAPI \<Rightarrow> LoadBalancerBackend getter \<Rightarrow> LoadBalancerCertificateBundle getter \<Rightarrow> LoadBalancerBackendTLSConfig \<Rightarrow> 's
   \<Rightarrow> (err + Observation) \<times> LoadBalancerBackendTLSConfig \<times> 's" where
  "LoadBalancerBackendTLSConfigAdapter_Observe L api getBackend getBundle c s =
     (case LoadBalancerBackendTLSConfigAdapter_parent L getBackend c of
        (Some e, c1) \<Rightarrow> (Inl e, c1, s)
      | (None, c1) \<Rightarrow>
          (case GetLoadBalancerBackendTLSConfig api (btst_ServiceUUID (Status c1)) (btst_BackendName (Status c1)) (LoadBalancerBackendTLSConfig_ExternalName c1) s of
             (Inl e, s1) \<Rightarrow>
               if IsNotFound (Some e) then (Inr NoObservation, c1, s1)
               else (Inl (Wrap ''get load balancer backend TLS config'' e), c1, s1)
           | (Inr res, s1) \<Rightarrow>
               let c2 = c1\<lparr>Status := (Status c1)\<lparr>btst_Name := utc_Name res, btst_CertificateBundleUUID := utc_CertificateBundleUUID res\<rparr>\<rparr> in
               (case LoadBalancerBackendTLSConfigAdapter_bundleUUID L getBundle c2 of
                  Inl e \<Rightarrow> (Inl e, c2, s1)
                | Inr bundleUUID \<Rightarrow>
                    (Inr \<lparr>ob_Exists = True, ob_UpToDate = (utc_CertificateBundleUUID res = bundleUUID),
                      ob_Ready = True, ob_Message = ''backend TLS config '' @ utc_Name res\<rparr>, c2, s1))))"

definition LoadBalancerBackendTLSConfigAdapter_Create ::
  "Lib \<Rightarrow> 's LoadBalancerAPI \<Rightarrow> LoadBalancerBackend getter \<Rightarrow> LoadBalancerCertificateBundle getter \<Rightarrow> LoadBalancerBackendTLSConfig \<Rightarrow> 's
   \<Rightarrow> err option \<times> LoadBalancerBackendTLSConfig \<times> 's" where
  "LoadBalancerBackendTLSConfigAdapter_Create L api getBackend getBundle c s =
     (case LoadBalancerBackendTLSConfigAdapter_parent L getBackend c of
        (Some e, c1) \<Rightarrow> (Some e, c1, s)
      | (None, c1) \<Rightarrow>
          (case LoadBalancerBackendTLSConfigAdapter_bundleUUID L getBundle c1 of
             Inl e \<Rightarrow> (Some e, c1, s)
           | Inr bundleUUID \<Rightarrow>
               (case CreateLoadBalancerBackendTLSConfig api (btst_ServiceUUID (Status c1)) (btst_BackendName (Status c1)) (backendTLSRequest c1 bundleUUID) s of
                  (Inl e, s1) \<Rightarrow>
                    if IsConflict (Some e) then (None, c1, s1)
                    else (Some (Wrap ''create load balancer backend TLS config'' e), c1, s1)
                | (Inr created, s1) \<Rightarrow> 
                    (None, c1\<lparr>Status := (Status c1)\<lparr>btst_Name := utc_Name created, btst_CertificateBundleUUID := utc_CertificateBundleUUID created\<rparr>\<rparr>, s1))))"

definition LoadBalancerBackendTLSConfigAdapter_Update ::
  "Lib \<Rightarrow> 's LoadBalancerAPI \<Rightarrow> LoadBalancerBackend getter \<Rightarrow> LoadBalancerCertificateBundle getter \<Rightarrow> LoadBalancerBackendTLSConfig \<Rightarrow> 's
   \<Rightarrow> err option \<times> LoadBalancerBackendTLSConfig \<times> 's" where
  "LoadBalancerBackendTLSConfigAdapter_Update L api getBackend getBundle c s =
     (case LoadBalancerBackendTLSConfigAdapter_parent L getBackend c of
        (Some e, c1) \<Rightarrow> (Some e, c1, s)
      | (None, c1) \<Rightarrow>
          (case LoadBalancerBackendTLSConfigAdapter_bundleUUID L getBundle c1 of
             Inl e \<Rightarrow> (Some e, c1, s)
           | Inr bundleUUID \<Rightarrow>
               (case GetLoadBalancerBackendTLSConfig api (btst_ServiceUUID (Status c1)) (btst_BackendName (Status c1)) (LoadBalancerBackendTLSConfig_ExternalName c1) s of
                  (Inl e, s1) \<Rightarrow>
                    if IsNotFound (Some e) then (Some ErrPending, c1, s1)
                    else (Some (Wrap ''get load balancer backend TLS config'' e), c1, s1)
                | (Inr _, s1) \<Rightarrow>
                    (case ModifyLoadBalancerBackendTLSConfig api (btst_ServiceUUID (Status c1)) (btst_BackendName (Status c1)) (LoadBalancerBackendTLSConfig_ExternalName c1)
                            (backendTLSRequest c1 bundleUUID) s1 of
                       (Inl e, s2) \<Rightarrow> (Some (Wrap ''modify load balancer backend TLS config'' e), c1, s2)
                     | (Inr _, s2) \<Rightarrow> (None, c1, s2)))))"

definition LoadBalancerBackendTLSConfigAdapter_Delete ::
  "Lib \<Rightarrow> 's LoadBalancerAPI \<Rightarrow> LoadBalancerBackendTLSConfig \<Rightarrow> 's \<Rightarrow> err option \<times> LoadBalancerBackendTLSConfig \<times> 's" where
  "LoadBalancerBackendTLSConfigAdapter_Delete L api c s =
     (if btst_ServiceUUID (Status c) = '''' \<or> btst_BackendName (Status c) = '''' \<or> btst_Name (Status c) = ''''
      then (None, c, s)
      else case DeleteLoadBalancerBackendTLSConfig api (btst_ServiceUUID (Status c)) (btst_BackendName (Status c)) (btst_Name (Status c)) s of
        (e, s1) \<Rightarrow> (titledOutcome L ''delete load balancer backend TLS config'' e, c, s1))"

definition LoadBalancerBackendTLSConfigAdapter ::
  "Lib \<Rightarrow> 's LoadBalancerAPI \<Rightarrow> LoadBalancerBackend getter \<Rightarrow> LoadBalancerCertificateBundle getter \<Rightarrow> (LoadBalancerBackendTLSConfig, 's) Adapter" where
  "LoadBalancerBackendTLSConfigAdapter L api getBackend getBundle =
     \<lparr>ad_Observe = LoadBalancerBackendTLSConfigAdapter_Observe L api getBackend getBundle,
      ad_Create = LoadBalancerBackendTLSConfigAdapter_Create L api getBackend getBundle,
      ad_Update = LoadBalancerBackendTLSConfigAdapter_Update L api getBackend getBundle,
      ad_Delete = LoadBalancerBackendTLSConfigAdapter_Delete L api\<rparr>"

definition FinalizerLoadBalancerBackendTLSConfig :: string where
  "FinalizerLoadBalancerBackendTLSConfig = ''loadbalancer.upcloud.polarsquad.com/loadbalancerbackendtlsconfig''"

definition SetupLoadBalancerBackendTLSConfigController ::
  "Lib \<Rightarrow> (LoadBalancerBackendTLSConfig, 'k) Client \<Rightarrow> 's LoadBalancerAPI \<Rightarrow> LoadBalancerBackend getter \<Rightarrow> LoadBalancerCertificateBundle getter \<Rightarrow>
   (string \<Rightarrow> 'v \<Rightarrow> err + LoadBalancerBackendTLSConfig list) \<Rightarrow> Options
   \<Rightarrow> (LoadBalancerBackendTLSConfig, 'k \<times> 's) Reconciler \<times> (LoadBalancerBackend \<Rightarrow> 'v \<Rightarrow> NamespacedName list) \<times> (LoadBalancerCertificateBundle \<Rightarrow> 'v \<Rightarrow> NamespacedName list)" where
  "SetupLoadBalancerBackendTLSConfigController L c api getBackend getBundle listAll opts =
     (mkReconciler L LoadBalancerBackendTLSConfig_Object c (LoadBalancerBackendTLSConfigAdapter L api getBackend getBundle)
        FinalizerLoadBalancerBackendTLSConfig opts,
      \<lambda>w. DependentsOf listAll Meta LoadBalancerBackendTLSConfig_RefNames (Meta w), 
      \<lambda>w. DependentsOf listAll Meta LoadBalancerBackendTLSConfig_RefNames (Meta w))"

lemma LoadBalancerBackendTLSConfigAdapter_sel [simp]:
  "ad_Observe (LoadBalancerBackendTLSConfigAdapter L api getBackend getBundle) = LoadBalancerBackendTLSConfigAdapter_Observe L api getBackend getBundle"
  "ad_Create (LoadBalancerBackendTLSConfigAdapter L api getBackend getBundle) = LoadBalancerBackendTLSConfigAdapter_Create L api getBackend getBundle"
  "ad_Update (LoadBalancerBackendTLSConfigAdapter L api getBackend getBundle) = LoadBalancerBackendTLSConfigAdapter_Update L api getBackend getBundle"
  "ad_Delete (LoadBalancerBackendTLSConfigAdapter L api getBackend getBundle) = LoadBalancerBackendTLSConfigAdapter_Delete L api"
  by (simp_all add: LoadBalancerBackendTLSConfigAdapter_def)

subsection \<open>The common shape\<close>

sublocale load_balancer_service \<subseteq> backend_tls_ctr: child_adapter L LoadBalancerBackendTLSConfig_Object
    "LoadBalancerBackendTLSConfigAdapter L api getBackend getBundle" inv view
    "LoadBalancerBackendTLSConfigAdapter_parent L getBackend" "\<lambda>x. (btst_ServiceUUID (Status x), btst_BackendName (Status x))"
    "\<lambda>x. btst_ServiceUUID (Status x) \<noteq> '''' \<and> btst_BackendName (Status x) \<noteq> '''' \<and> btst_Name (Status x) \<noteq> ''''"
    LoadBalancerBackendTLSConfig_ExternalName "\<lambda>x. btst_Name (Status x)" "\<lambda>p. GetLoadBalancerBackendTLSConfig api (fst p) (snd p)"
    "\<lambda>p. CreateLoadBalancerBackendTLSConfig api (fst p) (snd p)"
    "\<lambda>p. ModifyLoadBalancerBackendTLSConfig api (fst p) (snd p)"
    "\<lambda>p. DeleteLoadBalancerBackendTLSConfig api (fst p) (snd p)"
    "\<lambda>x. x" utc_Name "\<lambda>p v. lv_BackendTLS v (fst p) (snd p)" "\<lambda>p. put_BackendTLS (fst p) (snd p)" rtc_Name tls_built "on_row (\<lambda>m y. tls_built m)"
    "\<lambda>r x. x\<lparr>Status := (Status x)\<lparr>btst_Name := utc_Name r, btst_CertificateBundleUUID := utc_CertificateBundleUUID r\<rparr>\<rparr>"
    "\<lambda>x. LoadBalancerBackendTLSConfigAdapter_bundleUUID L getBundle x"
    "\<lambda>res x bundleUUID. (utc_CertificateBundleUUID res = bundleUUID)" "\<lambda>x bundleUUID. (backendTLSRequest x bundleUUID)"
    "\<lambda>_ x bundleUUID. Some (backendTLSRequest x bundleUUID)"
    "''get load balancer backend TLS config''" "''create load balancer backend TLS config''" "''modify load balancer backend TLS config''"
    "''delete load balancer backend TLS config''" "\<lambda>res. ''backend TLS config '' @ utc_Name res"
  for L getBackend getBundle
  apply (rule child_adapter.intro)
  subgoal by (rule loadbalancerbackendtlsconfig_object.managed_object_axioms)
  subgoal using backend_tls by simp
  subgoal
    by (intro ext) (simp add: LoadBalancerBackendTLSConfigAdapter_Observe_def childObserve_def Let_def  
      cong del: weak_congs)
  subgoal
    by (intro ext) (simp add: LoadBalancerBackendTLSConfigAdapter_Create_def childCreate_def Let_def  
      cong del: weak_congs)
  subgoal
    by (intro ext) (simp add: LoadBalancerBackendTLSConfigAdapter_Update_def childUpdate_def Let_def  
      cong del: weak_congs)
  subgoal by (intro ext) (simp add: LoadBalancerBackendTLSConfigAdapter_Delete_def childDelete_def)
  subgoal
    by (auto simp: LoadBalancerBackendTLSConfigAdapter_parent_def Let_def split: sum.splits prod.splits if_splits)
  subgoal
    by (auto simp: LoadBalancerBackendTLSConfigAdapter_parent_def  Let_def
      split: sum.splits prod.splits if_splits)
  by (simp_all add: LoadBalancerBackendTLSConfig_ExternalName_def LoadBalancerBackendTLSConfigAdapter_bundleUUID_def backendTLSRequest_def
      cong: option.case_cong)


end
