(* ===== verification/LoadBalancerFrontendAdapter.thy ===== *)
theory LoadBalancerFrontendAdapter
  imports ChildAdapter LoadBalancerFakeLaws
begin

text \<open>
  \<open>internal/controller/loadbalancer/loadbalancerfrontend_adapter.go\<close> and
  \<open>loadbalancerfrontend_controller.go\<close>.
  Rules and TLS configurations are kinds of their own, so the create request has none.
\<close>

subsection \<open>Helpers\<close>

definition LoadBalancerFrontendAdapter_serviceUUID ::
  "Lib \<Rightarrow> LoadBalancer getter \<Rightarrow> LoadBalancerFrontend \<Rightarrow> (err + string) \<times> LoadBalancerFrontend" where
  "LoadBalancerFrontendAdapter_serviceUUID L getLB f =
     (if fest_ServiceUUID (Status f) \<noteq> '''' then (Inr (fest_ServiceUUID (Status f)), f)
      else case ReadyID L LoadBalancer_Object getLB (om_Namespace (Meta f)) (lor_Name (fes_LoadBalancerRef (Spec f))) of
        Inl e \<Rightarrow> (Inl e, f)
      | Inr i \<Rightarrow> (Inr i, f\<lparr>Status := (Status f)\<lparr>fest_ServiceUUID := i\<rparr>\<rparr>))"

definition LoadBalancerFrontendAdapter_defaultBackend ::
  "Lib \<Rightarrow> LoadBalancerBackend getter \<Rightarrow> LoadBalancerFrontend \<Rightarrow> err + string" where
  "LoadBalancerFrontendAdapter_defaultBackend L getBackend f =
     ReadyID L LoadBalancerBackend_Object getBackend (om_Namespace (Meta f)) (lor_Name (fes_DefaultBackendRef (Spec f)))"

definition desiredFrontendProperties :: "LoadBalancerFrontend \<Rightarrow> upFrontendProperties option" where
  "desiredFrontendProperties f =
     (case fes_Properties (Spec f) of
        None \<Rightarrow> None
      | Some p \<Rightarrow> Some \<lparr>ufp_TimeoutClient = fpr_TimeoutClient p, ufp_InboundProxyProtocol = fpr_InboundProxyProtocol p,
                       ufp_HTTP2Enabled = fpr_HTTP2Enabled p\<rparr>)"

definition frontendNetworks :: "LoadBalancerFrontend \<Rightarrow> upFrontendNetwork list" where
  "frontendNetworks f = map (\<lambda>n. \<lparr>ufn_Name = fnw_Name n\<rparr>) (fes_Networks (Spec f))"

definition frontendMatches :: "upLBFrontend \<Rightarrow> LoadBalancerFrontend \<Rightarrow> string \<Rightarrow> bool" where
  "frontendMatches fe f defaultBackend =
     (if ufe_Mode fe \<noteq> fes_Mode (Spec f) \<or> ufe_Port fe \<noteq> fes_Port (Spec f) \<or> ufe_DefaultBackend fe \<noteq> defaultBackend
      then False
      else case fes_Properties (Spec f) of
        None \<Rightarrow> ufe_Properties fe = None
      | Some want \<Rightarrow>
          (case ufe_Properties fe of
             None \<Rightarrow> False
           | Some got \<Rightarrow>
              if ufp_TimeoutClient got \<noteq> fpr_TimeoutClient want then False
              else if fpr_InboundProxyProtocol want \<noteq> None \<and>
                 (ufp_InboundProxyProtocol got = None \<or> ufp_InboundProxyProtocol got \<noteq> fpr_InboundProxyProtocol want) then False
              else if fpr_HTTP2Enabled want \<noteq> None \<and>
                 (ufp_HTTP2Enabled got = None \<or> ufp_HTTP2Enabled got \<noteq> fpr_HTTP2Enabled want) then False
              else True))"

definition frontendRequest :: "LoadBalancerFrontend \<Rightarrow> string \<Rightarrow> reqFrontend" where
  "frontendRequest f db = \<lparr>rfe_Name = LoadBalancerFrontend_ExternalName f, rfe_Mode = fes_Mode (Spec f), rfe_Port = fes_Port (Spec f),
     rfe_Networks = frontendNetworks f, rfe_DefaultBackend = db, rfe_Properties = desiredFrontendProperties f,
     rfe_Rules = [], rfe_TLSConfigs = []\<rparr>"

definition frontendChange :: "LoadBalancerFrontend \<Rightarrow> string \<Rightarrow> ModifyFrontend" where
  "frontendChange f db = \<lparr>mfe_Name = LoadBalancerFrontend_ExternalName f, mfe_Mode = fes_Mode (Spec f),
     mfe_Port = fes_Port (Spec f), mfe_DefaultBackend = db, mfe_Properties = desiredFrontendProperties f,
     mfe_Networks = []\<rparr>"


subsection \<open>The adapter\<close>

definition LoadBalancerFrontendAdapter_Observe ::
  "Lib \<Rightarrow> 's LoadBalancerAPI \<Rightarrow> LoadBalancer getter \<Rightarrow> LoadBalancerBackend getter \<Rightarrow> LoadBalancerFrontend \<Rightarrow> 's
   \<Rightarrow> (err + Observation) \<times> LoadBalancerFrontend \<times> 's" where
  "LoadBalancerFrontendAdapter_Observe L api getLB getBackend f s =
     (case LoadBalancerFrontendAdapter_serviceUUID L getLB f of
        (Inl e, f1) \<Rightarrow> (Inl e, f1, s)
      | (Inr svcUUID, f1) \<Rightarrow>
          (case GetLoadBalancerFrontend api svcUUID (LoadBalancerFrontend_ExternalName f1) s of
             (Inl e, s1) \<Rightarrow>
               if IsNotFound (Some e) then (Inr NoObservation, f1, s1)
               else (Inl (Wrap ''get load balancer frontend'' e), f1, s1)
           | (Inr res, s1) \<Rightarrow>
               let f2 = f1\<lparr>Status := (Status f1)\<lparr>fest_Name := ufe_Name res\<rparr>\<rparr> in
               (case LoadBalancerFrontendAdapter_defaultBackend L getBackend f2 of
                  Inl e \<Rightarrow> (Inl e, f2, s1)
                | Inr db \<Rightarrow>
                    (Inr \<lparr>ob_Exists = True, ob_UpToDate = frontendMatches res f2 db,
                      ob_Ready = True, ob_Message = ''frontend '' @ ufe_Name res\<rparr>, f2, s1))))"

definition LoadBalancerFrontendAdapter_Create ::
  "Lib \<Rightarrow> 's LoadBalancerAPI \<Rightarrow> LoadBalancer getter \<Rightarrow> LoadBalancerBackend getter \<Rightarrow> LoadBalancerFrontend \<Rightarrow> 's
   \<Rightarrow> err option \<times> LoadBalancerFrontend \<times> 's" where
  "LoadBalancerFrontendAdapter_Create L api getLB getBackend f s =
     (case LoadBalancerFrontendAdapter_serviceUUID L getLB f of
        (Inl e, f1) \<Rightarrow> (Some e, f1, s)
      | (Inr svcUUID, f1) \<Rightarrow>
          (case LoadBalancerFrontendAdapter_defaultBackend L getBackend f1 of
             Inl e \<Rightarrow> (Some e, f1, s)
           | Inr db \<Rightarrow>
               (case CreateLoadBalancerFrontend api svcUUID (frontendRequest f1 db) s of
                  (Inl e, s1) \<Rightarrow>
                    if IsConflict (Some e) then (None, f1, s1)
                    else (Some (Wrap ''create load balancer frontend'' e), f1, s1)
                | (Inr created, s1) \<Rightarrow> 
                    (None, f1\<lparr>Status := (Status f1)\<lparr>fest_Name := ufe_Name created\<rparr>\<rparr>, s1))))"

definition LoadBalancerFrontendAdapter_Update ::
  "Lib \<Rightarrow> 's LoadBalancerAPI \<Rightarrow> LoadBalancer getter \<Rightarrow> LoadBalancerBackend getter \<Rightarrow> LoadBalancerFrontend \<Rightarrow> 's
   \<Rightarrow> err option \<times> LoadBalancerFrontend \<times> 's" where
  "LoadBalancerFrontendAdapter_Update L api getLB getBackend f s =
     (case LoadBalancerFrontendAdapter_serviceUUID L getLB f of
        (Inl e, f1) \<Rightarrow> (Some e, f1, s)
      | (Inr svcUUID, f1) \<Rightarrow>
          (case LoadBalancerFrontendAdapter_defaultBackend L getBackend f1 of
             Inl e \<Rightarrow> (Some e, f1, s)
           | Inr db \<Rightarrow>
               (case GetLoadBalancerFrontend api svcUUID (LoadBalancerFrontend_ExternalName f1) s of
                  (Inl e, s1) \<Rightarrow>
                    if IsNotFound (Some e) then (Some ErrPending, f1, s1)
                    else (Some (Wrap ''get load balancer frontend'' e), f1, s1)
                | (Inr _, s1) \<Rightarrow>
                    (case ModifyLoadBalancerFrontend api svcUUID (LoadBalancerFrontend_ExternalName f1)
                            (frontendChange f1 db) s1 of
                       (Inl e, s2) \<Rightarrow> (Some (Wrap ''modify load balancer frontend'' e), f1, s2)
                     | (Inr _, s2) \<Rightarrow> (None, f1, s2)))))"

definition LoadBalancerFrontendAdapter_Delete ::
  "Lib \<Rightarrow> 's LoadBalancerAPI \<Rightarrow> LoadBalancerFrontend \<Rightarrow> 's \<Rightarrow> err option \<times> LoadBalancerFrontend \<times> 's" where
  "LoadBalancerFrontendAdapter_Delete L api f s =
     (if fest_ServiceUUID (Status f) = '''' \<or> fest_Name (Status f) = ''''
      then (None, f, s)
      else case DeleteLoadBalancerFrontend api (fest_ServiceUUID (Status f)) (fest_Name (Status f)) s of
        (e, s1) \<Rightarrow> (titledOutcome L ''delete load balancer frontend'' e, f, s1))"

definition LoadBalancerFrontendAdapter ::
  "Lib \<Rightarrow> 's LoadBalancerAPI \<Rightarrow> LoadBalancer getter \<Rightarrow> LoadBalancerBackend getter \<Rightarrow> (LoadBalancerFrontend, 's) Adapter" where
  "LoadBalancerFrontendAdapter L api getLB getBackend =
     \<lparr>ad_Observe = LoadBalancerFrontendAdapter_Observe L api getLB getBackend,
      ad_Create = LoadBalancerFrontendAdapter_Create L api getLB getBackend,
      ad_Update = LoadBalancerFrontendAdapter_Update L api getLB getBackend,
      ad_Delete = LoadBalancerFrontendAdapter_Delete L api\<rparr>"

definition FinalizerLoadBalancerFrontend :: string where
  "FinalizerLoadBalancerFrontend = ''loadbalancer.upcloud.polarsquad.com/loadbalancerfrontend''"

definition SetupLoadBalancerFrontendController ::
  "Lib \<Rightarrow> (LoadBalancerFrontend, 'k) Client \<Rightarrow> 's LoadBalancerAPI \<Rightarrow> LoadBalancer getter \<Rightarrow> LoadBalancerBackend getter \<Rightarrow>
   (string \<Rightarrow> 'v \<Rightarrow> err + LoadBalancerFrontend list) \<Rightarrow> Options
   \<Rightarrow> (LoadBalancerFrontend, 'k \<times> 's) Reconciler \<times> (LoadBalancer \<Rightarrow> 'v \<Rightarrow> NamespacedName list) \<times> (LoadBalancerBackend \<Rightarrow> 'v \<Rightarrow> NamespacedName list)" where
  "SetupLoadBalancerFrontendController L c api getLB getBackend listAll opts =
     (mkReconciler L LoadBalancerFrontend_Object c (LoadBalancerFrontendAdapter L api getLB getBackend)
        FinalizerLoadBalancerFrontend opts,
      \<lambda>w. DependentsOf listAll Meta LoadBalancerFrontend_RefNames (Meta w), 
      \<lambda>w. DependentsOf listAll Meta LoadBalancerFrontend_RefNames (Meta w))"

lemma LoadBalancerFrontendAdapter_sel [simp]:
  "ad_Observe (LoadBalancerFrontendAdapter L api getLB getBackend) = LoadBalancerFrontendAdapter_Observe L api getLB getBackend"
  "ad_Create (LoadBalancerFrontendAdapter L api getLB getBackend) = LoadBalancerFrontendAdapter_Create L api getLB getBackend"
  "ad_Update (LoadBalancerFrontendAdapter L api getLB getBackend) = LoadBalancerFrontendAdapter_Update L api getLB getBackend"
  "ad_Delete (LoadBalancerFrontendAdapter L api getLB getBackend) = LoadBalancerFrontendAdapter_Delete L api"
  by (simp_all add: LoadBalancerFrontendAdapter_def)

subsection \<open>The common shape\<close>

definition frontend_parent :: "Lib \<Rightarrow> LoadBalancer getter \<Rightarrow> LoadBalancerFrontend \<Rightarrow> err option \<times> LoadBalancerFrontend" where
  "frontend_parent L getLB f =
     (case LoadBalancerFrontendAdapter_serviceUUID L getLB f of (Inl e, y) \<Rightarrow> (Some e, y) | (Inr _, y) \<Rightarrow> (None, y))"

lemma frontend_service:
  assumes "LoadBalancerFrontendAdapter_serviceUUID L getLB f = (q, y)"
  shows "Meta y = Meta f \<and> Spec y = Spec f" and "q = Inr i \<Longrightarrow> i \<noteq> [] \<and> fest_ServiceUUID (Status y) = i"
  using assms by (auto simp: LoadBalancerFrontendAdapter_serviceUUID_def split: sum.splits if_splits)

lemma frontend_service_cases:
  "(case LoadBalancerFrontendAdapter_serviceUUID L getLB f of (Inl e, y) \<Rightarrow> bad e y | (Inr i, y) \<Rightarrow> good i y) =
   (case frontend_parent L getLB f of (Some e, y) \<Rightarrow> bad e y | (None, y) \<Rightarrow> good (fest_ServiceUUID (Status y)) y)"
  using frontend_service(2) [of L getLB f] by (auto simp: frontend_parent_def split: sum.splits prod.splits)

lemma frontend_request_bare: "bareFrontend (frontendRequest f n) = frontendRequest f n"
  by (simp add: frontendRequest_def bareFrontend_def)

sublocale load_balancer_service \<subseteq> frontend_ctr: child_adapter L LoadBalancerFrontend_Object
    "LoadBalancerFrontendAdapter L api getLB getBackend" inv view
    "frontend_parent L getLB" "\<lambda>x. fest_ServiceUUID (Status x)"
    "\<lambda>x. fest_ServiceUUID (Status x) \<noteq> '''' \<and> fest_Name (Status x) \<noteq> ''''"
    LoadBalancerFrontend_ExternalName "\<lambda>x. fest_Name (Status x)" "GetLoadBalancerFrontend api"
    "\<lambda>p c. CreateLoadBalancerFrontend api p (bareFrontend c)"
    "ModifyLoadBalancerFrontend api"
    "DeleteLoadBalancerFrontend api"
    "fe_core" ufe_Name "\<lambda>p v. lv_Frontends v p" "put_Frontend" rfe_Name frontend_built "frontend_patched"
    "\<lambda>r x. x\<lparr>Status := (Status x)\<lparr>fest_Name := ufe_Name r\<rparr>\<rparr>"
    "\<lambda>x. LoadBalancerFrontendAdapter_defaultBackend L getBackend x"
    "\<lambda>res x db. frontendMatches res x db" "\<lambda>x db. (frontendRequest x db)"
    "\<lambda>_ x db. Some (frontendChange x db)"
    "''get load balancer frontend''" "''create load balancer frontend''" "''modify load balancer frontend''"
    "''delete load balancer frontend''" "\<lambda>res. ''frontend '' @ ufe_Name res"
  for L getLB getBackend
  apply (rule child_adapter.intro)
  subgoal by (rule loadbalancerfrontend_object.managed_object_axioms)
  subgoal using frontends by simp
  subgoal
    by (intro ext) (simp add: LoadBalancerFrontendAdapter_Observe_def childObserve_def Let_def frontend_service_cases frontend_request_bare
      cong del: weak_congs)
  subgoal
    by (intro ext) (simp add: LoadBalancerFrontendAdapter_Create_def childCreate_def Let_def frontend_service_cases frontend_request_bare
      cong del: weak_congs)
  subgoal
    by (intro ext) (simp add: LoadBalancerFrontendAdapter_Update_def childUpdate_def Let_def frontend_service_cases frontend_request_bare
      cong del: weak_congs)
  subgoal by (intro ext) (simp add: LoadBalancerFrontendAdapter_Delete_def childDelete_def)
  subgoal
    by (auto simp: frontend_parent_def Let_def split: sum.splits prod.splits if_splits dest: frontend_service(1))
  subgoal
    by (auto simp: frontend_parent_def LoadBalancerFrontendAdapter_serviceUUID_def Let_def
      split: sum.splits prod.splits if_splits)
  by (simp_all add: LoadBalancerFrontend_ExternalName_def LoadBalancerFrontendAdapter_defaultBackend_def frontendMatches_def 
      frontendRequest_def frontendChange_def desiredFrontendProperties_def frontendNetworks_def
      cong: option.case_cong)


end
