(* ===== verification/RuleConvert.thy ===== *)
theory RuleConvert
  imports LoadBalancerAPI AdapterCommon
begin

text \<open>
  \<open>internal/controller/loadbalancer/convert_rules.go\<close>: from the matchers and actions of a
  LoadBalancerFrontendRule to the request of the API, and the CEL rules of the kind, which
  say that a matcher (an action) carries exactly the sub-struct that its type names.
\<close>

subsection \<open>Scalars\<close>

definition integerMethod :: "string \<Rightarrow> string" where
  "integerMethod m = m"

definition stringMethod :: "string \<Rightarrow> string" where
  "stringMethod m = m"

definition httpMethod :: "string \<Rightarrow> string" where
  "httpMethod m = m"

definition rangeStart :: "int option \<Rightarrow> int" where
  "rangeStart v = (case v of None \<Rightarrow> 0 | Some x \<Rightarrow> x)"

definition rangeEnd :: "int option \<Rightarrow> int" where
  "rangeEnd v = (case v of None \<Rightarrow> 0 | Some x \<Rightarrow> x)"

subsection \<open>Matchers\<close>

definition srcIP :: "RuleMatcher \<Rightarrow> upMatcherSrcIP option" where
  "srcIP m = (case rm_SrcIP m of None \<Rightarrow> None | Some x \<Rightarrow> Some \<lparr>umi_Value = msi_Value x\<rparr>)"

definition hostMatcher :: "RuleMatcher \<Rightarrow> upMatcherHost option" where
  "hostMatcher m = (case rm_Host m of None \<Rightarrow> None | Some x \<Rightarrow> Some \<lparr>umh_Value = mho_Value x\<rparr>)"

definition httpMethodMatcher :: "RuleMatcher \<Rightarrow> upMatcherHTTPMethod option" where
  "httpMethodMatcher m =
     (case rm_HTTPMethod m of None \<Rightarrow> None | Some x \<Rightarrow> Some \<lparr>umm_Value = httpMethod (mhm_Value x)\<rparr>)"

definition numMembersUp :: "RuleMatcher \<Rightarrow> upMatcherNumMembersUp option" where
  "numMembersUp m =
     (case rm_NumMembersUp m of
        None \<Rightarrow> None
      | Some x \<Rightarrow> Some \<lparr>umu_Method = integerMethod (mnm_Method x), umu_Value = mnm_Value x, umu_Backend = mnm_Backend x\<rparr>)"

definition intMatcher :: "MatcherInteger option \<Rightarrow> upMatcherInteger option" where
  "intMatcher i =
     (case i of
        None \<Rightarrow> None
      | Some x \<Rightarrow> Some \<lparr>umn_Method = integerMethod (min_Method x), umn_Value = min_Value x,
                       umn_RangeStart = rangeStart (min_RangeStart x), umn_RangeEnd = rangeEnd (min_RangeEnd x)\<rparr>)"

definition strMatcher :: "MatcherString option \<Rightarrow> upMatcherString option" where
  "strMatcher i =
     (case i of
        None \<Rightarrow> None
      | Some x \<Rightarrow> Some \<lparr>ums_Method = stringMethod (mst_Method x), ums_Value = mst_Value x, ums_IgnoreCase = mst_IgnoreCase x\<rparr>)"

definition strArgMatcher :: "MatcherStringWithArgument option \<Rightarrow> upMatcherStringWithArgument option" where
  "strArgMatcher i =
     (case i of
        None \<Rightarrow> None
      | Some x \<Rightarrow> Some \<lparr>uma_Method = stringMethod (msa_Method x), uma_Name = msa_Name x, uma_Value = msa_Value x,
                       uma_IgnoreCase = msa_IgnoreCase x\<rparr>)"

text \<open>A matcher with a type and no sub-struct, which the switch of \<open>toMatcher\<close> fills in.\<close>

definition emptyMatcher :: "string \<Rightarrow> bool option \<Rightarrow> upMatcher" where
  "emptyMatcher t neg =
     \<lparr>um_Type = t, um_Inverse = neg, um_SrcIP = None, um_SrcPort = None, um_BodySize = None, um_Path = None,
      um_URL = None, um_URLQuery = None, um_Host = None, um_HTTPMethod = None, um_HTTPStatus = None, um_Cookie = None,
      um_Header = None, um_RequestHeader = None, um_ResponseHeader = None, um_URLParam = None, um_NumMembersUp = None\<rparr>"

definition toMatcher :: "RuleMatcher \<Rightarrow> upMatcher" where
  "toMatcher m =
     (let uc = emptyMatcher (rm_Type m) (rm_Inverse m); t = rm_Type m in
      if t = MatcherTypeSrcIP then uc\<lparr>um_SrcIP := srcIP m\<rparr>
      else if t = MatcherTypeSrcPort then uc\<lparr>um_SrcPort := intMatcher (rm_SrcPort m)\<rparr>
      else if t = MatcherTypeBodySize then uc\<lparr>um_BodySize := intMatcher (rm_BodySize m)\<rparr>
      else if t = MatcherTypePath then uc\<lparr>um_Path := strMatcher (rm_Path m)\<rparr>
      else if t = MatcherTypeURL then uc\<lparr>um_URL := strMatcher (rm_URL m)\<rparr>
      else if t = MatcherTypeURLQuery then uc\<lparr>um_URLQuery := strMatcher (rm_URLQuery m)\<rparr>
      else if t = MatcherTypeHost then uc\<lparr>um_Host := hostMatcher m\<rparr>
      else if t = MatcherTypeHTTPMethod then uc\<lparr>um_HTTPMethod := httpMethodMatcher m\<rparr>
      else if t = MatcherTypeHTTPStatus then uc\<lparr>um_HTTPStatus := intMatcher (rm_HTTPStatus m)\<rparr>
      else if t = MatcherTypeCookie then uc\<lparr>um_Cookie := strArgMatcher (rm_Cookie m)\<rparr>
      else if t = MatcherTypeHeader then uc\<lparr>um_Header := strArgMatcher (rm_Header m)\<rparr>
      else if t = MatcherTypeRequestHeader then uc\<lparr>um_RequestHeader := strArgMatcher (rm_RequestHeader m)\<rparr>
      else if t = MatcherTypeResponseHeader then uc\<lparr>um_ResponseHeader := strArgMatcher (rm_ResponseHeader m)\<rparr>
      else if t = MatcherTypeURLParam then uc\<lparr>um_URLParam := strArgMatcher (rm_URLParam m)\<rparr>
      else if t = MatcherTypeNumMembersUp then uc\<lparr>um_NumMembersUp := numMembersUp m\<rparr>
      else uc)"

definition toMatchers :: "RuleMatcher list \<Rightarrow> upMatcher list option" where
  "toMatchers ms = Some (map toMatcher ms)"

subsection \<open>Actions\<close>

definition emptyAction :: "string \<Rightarrow> upAction" where
  "emptyAction t =
     \<lparr>ua_Type = t, ua_UseBackend = None, ua_TCPReject = None, ua_HTTPReturn = None, ua_HTTPRedirect = None,
      ua_HTTPRewritePath = None, ua_HTTPRewriteURI = None, ua_SetForwardedHeaders = None, ua_SetRequestHeader = None,
      ua_SetResponseHeader = None\<rparr>"

definition redirectScheme :: "string \<Rightarrow> string" where
  "redirectScheme s = (if s = ''https'' then RedirectSchemeHTTPS else RedirectSchemeHTTP)"

text \<open>The body of the loop in \<open>toActions\<close>.\<close>

definition toAction :: "RuleAction \<Rightarrow> upAction" where
  "toAction a =
     (let uc = emptyAction (ra_Type a); t = ra_Type a in
      if t = ActionTypeUseBackend
      then (case ra_UseBackend a of None \<Rightarrow> uc | Some x \<Rightarrow> uc\<lparr>ua_UseBackend := Some \<lparr>uub_Backend = aub_Backend x\<rparr>\<rparr>)
      else if t = ActionTypeTCPReject then uc\<lparr>ua_TCPReject := Some ()\<rparr>
      else if t = ActionTypeHTTPReturn
      then (case ra_HTTPReturn a of None \<Rightarrow> uc
            | Some x \<Rightarrow> uc\<lparr>ua_HTTPReturn := Some \<lparr>uhr_Status = ahr_Status x, uhr_ContentType = ahr_ContentType x,
                                                  uhr_Payload = ahr_Payload x\<rparr>\<rparr>)
      else if t = ActionTypeHTTPRedirect
      then (case ra_HTTPRedirect a of None \<Rightarrow> uc
            | Some x \<Rightarrow> uc\<lparr>ua_HTTPRedirect := Some \<lparr>urd_Location = ard_Location x, urd_Scheme = redirectScheme (ard_Scheme x),
                                                    urd_Status = ard_Status x\<rparr>\<rparr>)
      else if t = ActionTypeHTTPRewritePath
      then (case ra_HTTPRewritePath a of None \<Rightarrow> uc
            | Some x \<Rightarrow> uc\<lparr>ua_HTTPRewritePath := Some \<lparr>urw_MatchPattern = arp_MatchPattern x, urw_RewriteTo = arp_RewriteTo x\<rparr>\<rparr>)
      else if t = ActionTypeHTTPRewriteURI
      then (case ra_HTTPRewriteURI a of None \<Rightarrow> uc
            | Some x \<Rightarrow> uc\<lparr>ua_HTTPRewriteURI := Some \<lparr>urw_MatchPattern = aru_MatchPattern x, urw_RewriteTo = aru_RewriteTo x\<rparr>\<rparr>)
      else if t = ActionTypeSetForwardedHeaders then uc\<lparr>ua_SetForwardedHeaders := Some ()\<rparr>
      else if t = ActionTypeSetRequestHeader
      then (case ra_SetRequestHeader a of None \<Rightarrow> uc
            | Some x \<Rightarrow> uc\<lparr>ua_SetRequestHeader := Some \<lparr>ush_Header = ash_Header x, ush_Value = ash_Value x\<rparr>\<rparr>)
      else if t = ActionTypeSetResponseHeader
      then (case ra_SetResponseHeader a of None \<Rightarrow> uc
            | Some x \<Rightarrow> uc\<lparr>ua_SetResponseHeader := Some \<lparr>ush_Header = ash_Header x, ush_Value = ash_Value x\<rparr>\<rparr>)
      else uc)"

definition toActions :: "RuleAction list \<Rightarrow> upAction list option" where
  "toActions acts = Some (map toAction acts)"

subsection \<open>Rules\<close>

definition toRule :: "LoadBalancerFrontendRule \<Rightarrow> reqRule" where
  "toRule r =
     \<lparr>rru_Name = LoadBalancerFrontendRule_ExternalName r, rru_Priority = frs_Priority (Spec r),
      rru_MatchingCondition =
        (if frs_MatchingCondition (Spec r) \<noteq> '''' then frs_MatchingCondition (Spec r) else MatchingConditionAnd),
      rru_Matchers = toMatchers (frs_Matchers (Spec r)), rru_Actions = toActions (frs_Actions (Spec r))\<rparr>"

subsection \<open>The CEL rules of the kind\<close>

definition matcher_valid :: "RuleMatcher \<Rightarrow> bool" where
  "matcher_valid m \<longleftrightarrow>
     (rm_SrcIP m \<noteq> None \<longleftrightarrow> rm_Type m = MatcherTypeSrcIP) \<and>
     (rm_SrcPort m \<noteq> None \<longleftrightarrow> rm_Type m = MatcherTypeSrcPort) \<and>
     (rm_BodySize m \<noteq> None \<longleftrightarrow> rm_Type m = MatcherTypeBodySize) \<and>
     (rm_Path m \<noteq> None \<longleftrightarrow> rm_Type m = MatcherTypePath) \<and>
     (rm_URL m \<noteq> None \<longleftrightarrow> rm_Type m = MatcherTypeURL) \<and>
     (rm_URLQuery m \<noteq> None \<longleftrightarrow> rm_Type m = MatcherTypeURLQuery) \<and>
     (rm_Host m \<noteq> None \<longleftrightarrow> rm_Type m = MatcherTypeHost) \<and>
     (rm_HTTPMethod m \<noteq> None \<longleftrightarrow> rm_Type m = MatcherTypeHTTPMethod) \<and>
     (rm_HTTPStatus m \<noteq> None \<longleftrightarrow> rm_Type m = MatcherTypeHTTPStatus) \<and>
     (rm_Cookie m \<noteq> None \<longleftrightarrow> rm_Type m = MatcherTypeCookie) \<and>
     (rm_Header m \<noteq> None \<longleftrightarrow> rm_Type m = MatcherTypeHeader) \<and>
     (rm_RequestHeader m \<noteq> None \<longleftrightarrow> rm_Type m = MatcherTypeRequestHeader) \<and>
     (rm_ResponseHeader m \<noteq> None \<longleftrightarrow> rm_Type m = MatcherTypeResponseHeader) \<and>
     (rm_URLParam m \<noteq> None \<longleftrightarrow> rm_Type m = MatcherTypeURLParam) \<and>
     (rm_NumMembersUp m \<noteq> None \<longleftrightarrow> rm_Type m = MatcherTypeNumMembersUp)"

definition action_valid :: "RuleAction \<Rightarrow> bool" where
  "action_valid a \<longleftrightarrow>
     (ra_UseBackend a \<noteq> None \<longleftrightarrow> ra_Type a = ActionTypeUseBackend) \<and>
     (ra_HTTPReturn a \<noteq> None \<longleftrightarrow> ra_Type a = ActionTypeHTTPReturn) \<and>
     (ra_HTTPRedirect a \<noteq> None \<longleftrightarrow> ra_Type a = ActionTypeHTTPRedirect) \<and>
     (ra_HTTPRewritePath a \<noteq> None \<longleftrightarrow> ra_Type a = ActionTypeHTTPRewritePath) \<and>
     (ra_HTTPRewriteURI a \<noteq> None \<longleftrightarrow> ra_Type a = ActionTypeHTTPRewriteURI) \<and>
     (ra_SetRequestHeader a \<noteq> None \<longleftrightarrow> ra_Type a = ActionTypeSetRequestHeader) \<and>
     (ra_SetResponseHeader a \<noteq> None \<longleftrightarrow> ra_Type a = ActionTypeSetResponseHeader)"

lemmas matcher_types = MatcherTypeSrcIP_def MatcherTypeSrcPort_def MatcherTypeBodySize_def MatcherTypePath_def
  MatcherTypeURL_def MatcherTypeURLQuery_def MatcherTypeHost_def MatcherTypeHTTPMethod_def MatcherTypeHTTPStatus_def
  MatcherTypeCookie_def MatcherTypeHeader_def MatcherTypeRequestHeader_def MatcherTypeResponseHeader_def
  MatcherTypeURLParam_def MatcherTypeNumMembersUp_def

lemmas action_types = ActionTypeUseBackend_def ActionTypeTCPReject_def ActionTypeHTTPReturn_def ActionTypeHTTPRedirect_def
  ActionTypeHTTPRewritePath_def ActionTypeHTTPRewriteURI_def ActionTypeSetForwardedHeaders_def
  ActionTypeSetRequestHeader_def ActionTypeSetResponseHeader_def

lemma toMatcher_type: "um_Type (toMatcher m) = rm_Type m" "um_Inverse (toMatcher m) = rm_Inverse m"
  by (simp_all add: toMatcher_def Let_def emptyMatcher_def)

lemma toMatcher_sel:
  "um_SrcIP (toMatcher m) = (if rm_Type m = MatcherTypeSrcIP then srcIP m else None)"
  "um_SrcPort (toMatcher m) = (if rm_Type m = MatcherTypeSrcPort then intMatcher (rm_SrcPort m) else None)"
  "um_BodySize (toMatcher m) = (if rm_Type m = MatcherTypeBodySize then intMatcher (rm_BodySize m) else None)"
  "um_Path (toMatcher m) = (if rm_Type m = MatcherTypePath then strMatcher (rm_Path m) else None)"
  "um_URL (toMatcher m) = (if rm_Type m = MatcherTypeURL then strMatcher (rm_URL m) else None)"
  "um_URLQuery (toMatcher m) = (if rm_Type m = MatcherTypeURLQuery then strMatcher (rm_URLQuery m) else None)"
  "um_Host (toMatcher m) = (if rm_Type m = MatcherTypeHost then hostMatcher m else None)"
  "um_HTTPMethod (toMatcher m) = (if rm_Type m = MatcherTypeHTTPMethod then httpMethodMatcher m else None)"
  "um_HTTPStatus (toMatcher m) = (if rm_Type m = MatcherTypeHTTPStatus then intMatcher (rm_HTTPStatus m) else None)"
  "um_Cookie (toMatcher m) = (if rm_Type m = MatcherTypeCookie then strArgMatcher (rm_Cookie m) else None)"
  "um_Header (toMatcher m) = (if rm_Type m = MatcherTypeHeader then strArgMatcher (rm_Header m) else None)"
  "um_RequestHeader (toMatcher m) = (if rm_Type m = MatcherTypeRequestHeader then strArgMatcher (rm_RequestHeader m) else None)"
  "um_ResponseHeader (toMatcher m) = (if rm_Type m = MatcherTypeResponseHeader then strArgMatcher (rm_ResponseHeader m) else None)"
  "um_URLParam (toMatcher m) = (if rm_Type m = MatcherTypeURLParam then strArgMatcher (rm_URLParam m) else None)"
  "um_NumMembersUp (toMatcher m) = (if rm_Type m = MatcherTypeNumMembersUp then numMembersUp m else None)"
  by (simp_all add: toMatcher_def Let_def emptyMatcher_def matcher_types)

lemma case_option_const: "(case v of None \<Rightarrow> y | Some x \<Rightarrow> y) = y"
  by (cases v) simp_all

lemma action_types_distinct:
  "distinct [ActionTypeUseBackend, ActionTypeTCPReject, ActionTypeHTTPReturn, ActionTypeHTTPRedirect, ActionTypeHTTPRewritePath,
     ActionTypeHTTPRewriteURI, ActionTypeSetForwardedHeaders, ActionTypeSetRequestHeader, ActionTypeSetResponseHeader]
   \<and> distinct [ActionTypeSetResponseHeader, ActionTypeSetRequestHeader, ActionTypeSetForwardedHeaders, ActionTypeHTTPRewriteURI, ActionTypeHTTPRewritePath,
     ActionTypeHTTPRedirect, ActionTypeHTTPReturn, ActionTypeTCPReject, ActionTypeUseBackend]"
  by (simp add: action_types)

lemmas action_types_neq = action_types_distinct [simplified]

text \<open>The selectors of a request read through the branches of \<open>toAction\<close>.\<close>

lemmas action_if_sel =
  if_distrib [of ua_Type] if_distrib [of ua_UseBackend] if_distrib [of ua_TCPReject]
  if_distrib [of ua_HTTPReturn] if_distrib [of ua_HTTPRedirect] if_distrib [of ua_HTTPRewritePath]
  if_distrib [of ua_HTTPRewriteURI] if_distrib [of ua_SetForwardedHeaders]
  if_distrib [of ua_SetRequestHeader] if_distrib [of ua_SetResponseHeader]

lemmas action_case_sel =
  option.case_distrib [of ua_Type] option.case_distrib [of ua_UseBackend]
  option.case_distrib [of ua_TCPReject] option.case_distrib [of ua_HTTPReturn]
  option.case_distrib [of ua_HTTPRedirect] option.case_distrib [of ua_HTTPRewritePath]
  option.case_distrib [of ua_HTTPRewriteURI] option.case_distrib [of ua_SetForwardedHeaders]
  option.case_distrib [of ua_SetRequestHeader] option.case_distrib [of ua_SetResponseHeader]

lemma toAction_sel:
  "ua_Type (toAction a) = ra_Type a"
  "ua_UseBackend (toAction a) =
     (if ra_Type a = ActionTypeUseBackend then map_option (\<lambda>x. \<lparr>uub_Backend = aub_Backend x\<rparr>) (ra_UseBackend a) else None)"
  "ua_TCPReject (toAction a) = (if ra_Type a = ActionTypeTCPReject then Some () else None)"
  "ua_HTTPReturn (toAction a) =
     (if ra_Type a = ActionTypeHTTPReturn
      then map_option (\<lambda>x. \<lparr>uhr_Status = ahr_Status x, uhr_ContentType = ahr_ContentType x, uhr_Payload = ahr_Payload x\<rparr>)
        (ra_HTTPReturn a) else None)"
  "ua_HTTPRedirect (toAction a) =
     (if ra_Type a = ActionTypeHTTPRedirect
      then map_option (\<lambda>x. \<lparr>urd_Location = ard_Location x, urd_Scheme = redirectScheme (ard_Scheme x),
                            urd_Status = ard_Status x\<rparr>) (ra_HTTPRedirect a) else None)"
  "ua_HTTPRewritePath (toAction a) =
     (if ra_Type a = ActionTypeHTTPRewritePath
      then map_option (\<lambda>x. \<lparr>urw_MatchPattern = arp_MatchPattern x, urw_RewriteTo = arp_RewriteTo x\<rparr>) (ra_HTTPRewritePath a)
      else None)"
  "ua_HTTPRewriteURI (toAction a) =
     (if ra_Type a = ActionTypeHTTPRewriteURI
      then map_option (\<lambda>x. \<lparr>urw_MatchPattern = aru_MatchPattern x, urw_RewriteTo = aru_RewriteTo x\<rparr>) (ra_HTTPRewriteURI a)
      else None)"
  "ua_SetForwardedHeaders (toAction a) = (if ra_Type a = ActionTypeSetForwardedHeaders then Some () else None)"
  "ua_SetRequestHeader (toAction a) =
     (if ra_Type a = ActionTypeSetRequestHeader
      then map_option (\<lambda>x. \<lparr>ush_Header = ash_Header x, ush_Value = ash_Value x\<rparr>) (ra_SetRequestHeader a) else None)"
  "ua_SetResponseHeader (toAction a) =
     (if ra_Type a = ActionTypeSetResponseHeader
      then map_option (\<lambda>x. \<lparr>ush_Header = ash_Header x, ush_Value = ash_Value x\<rparr>) (ra_SetResponseHeader a) else None)"
  by (simp_all add: toAction_def Let_def action_if_sel action_case_sel emptyAction_def action_types_neq case_option_const
      map_option_case cong: if_cong option.case_cong)

subsection \<open>Reading a request back\<close>

definition zeroRanges :: "MatcherInteger \<Rightarrow> MatcherInteger" where
  "zeroRanges i = i\<lparr>min_RangeStart := Some (rangeStart (min_RangeStart i)), min_RangeEnd := Some (rangeEnd (min_RangeEnd i))\<rparr>"

definition normalMatcher :: "RuleMatcher \<Rightarrow> RuleMatcher" where
  "normalMatcher m =
     m\<lparr>rm_SrcPort := map_option zeroRanges (rm_SrcPort m), rm_BodySize := map_option zeroRanges (rm_BodySize m),
       rm_HTTPStatus := map_option zeroRanges (rm_HTTPStatus m)\<rparr>"

definition normalAction :: "RuleAction \<Rightarrow> RuleAction" where
  "normalAction a =
     a\<lparr>ra_HTTPRedirect := map_option (\<lambda>x. x\<lparr>ard_Scheme := redirectScheme (ard_Scheme x)\<rparr>) (ra_HTTPRedirect a)\<rparr>"

definition ofInt :: "upMatcherInteger \<Rightarrow> MatcherInteger" where
  "ofInt i = \<lparr>min_Method = umn_Method i, min_Value = umn_Value i, min_RangeStart = Some (umn_RangeStart i),
     min_RangeEnd = Some (umn_RangeEnd i)\<rparr>"

definition ofStr :: "upMatcherString \<Rightarrow> MatcherString" where
  "ofStr i = \<lparr>mst_Method = ums_Method i, mst_Value = ums_Value i, mst_IgnoreCase = ums_IgnoreCase i\<rparr>"

definition ofStrArg :: "upMatcherStringWithArgument \<Rightarrow> MatcherStringWithArgument" where
  "ofStrArg i = \<lparr>msa_Method = uma_Method i, msa_Name = uma_Name i, msa_Value = uma_Value i, msa_IgnoreCase = uma_IgnoreCase i\<rparr>"

definition ofMatcher :: "upMatcher \<Rightarrow> RuleMatcher" where
  "ofMatcher m =
     \<lparr>rm_Type = um_Type m, rm_Inverse = um_Inverse m, rm_SrcIP = map_option (\<lambda>x. \<lparr>msi_Value = umi_Value x\<rparr>) (um_SrcIP m),
      rm_SrcPort = map_option ofInt (um_SrcPort m), rm_BodySize = map_option ofInt (um_BodySize m),
      rm_Path = map_option ofStr (um_Path m), rm_URL = map_option ofStr (um_URL m),
      rm_URLQuery = map_option ofStr (um_URLQuery m), rm_Host = map_option (\<lambda>x. \<lparr>mho_Value = umh_Value x\<rparr>) (um_Host m),
      rm_HTTPMethod = map_option (\<lambda>x. \<lparr>mhm_Value = umm_Value x\<rparr>) (um_HTTPMethod m),
      rm_HTTPStatus = map_option ofInt (um_HTTPStatus m), rm_Cookie = map_option ofStrArg (um_Cookie m),
      rm_Header = map_option ofStrArg (um_Header m), rm_RequestHeader = map_option ofStrArg (um_RequestHeader m),
      rm_ResponseHeader = map_option ofStrArg (um_ResponseHeader m), rm_URLParam = map_option ofStrArg (um_URLParam m),
      rm_NumMembersUp = map_option (\<lambda>x. \<lparr>mnm_Method = umu_Method x, mnm_Value = umu_Value x, mnm_Backend = umu_Backend x\<rparr>)
        (um_NumMembersUp m)\<rparr>"

definition ofAction :: "upAction \<Rightarrow> RuleAction" where
  "ofAction a =
     \<lparr>ra_Type = ua_Type a, ra_UseBackend = map_option (\<lambda>x. \<lparr>aub_Backend = uub_Backend x\<rparr>) (ua_UseBackend a),
      ra_HTTPReturn = map_option (\<lambda>x. \<lparr>ahr_Status = uhr_Status x, ahr_ContentType = uhr_ContentType x,
        ahr_Payload = uhr_Payload x\<rparr>) (ua_HTTPReturn a),
      ra_HTTPRedirect = map_option (\<lambda>x. \<lparr>ard_Location = urd_Location x, ard_Scheme = urd_Scheme x,
        ard_Status = urd_Status x\<rparr>) (ua_HTTPRedirect a),
      ra_HTTPRewritePath = map_option (\<lambda>x. \<lparr>arp_MatchPattern = urw_MatchPattern x, arp_RewriteTo = urw_RewriteTo x\<rparr>)
        (ua_HTTPRewritePath a),
      ra_HTTPRewriteURI = map_option (\<lambda>x. \<lparr>aru_MatchPattern = urw_MatchPattern x, aru_RewriteTo = urw_RewriteTo x\<rparr>)
        (ua_HTTPRewriteURI a),
      ra_SetRequestHeader = map_option (\<lambda>x. \<lparr>ash_Header = ush_Header x, ash_Value = ush_Value x\<rparr>) (ua_SetRequestHeader a),
      ra_SetResponseHeader = map_option (\<lambda>x. \<lparr>ash_Header = ush_Header x, ash_Value = ush_Value x\<rparr>) (ua_SetResponseHeader a)\<rparr>"

lemma of_matchers [simp]:
  "map_option ofInt (intMatcher i) = map_option zeroRanges i"
  "map_option ofStr (strMatcher t) = t"
  "map_option ofStrArg (strArgMatcher g) = g"
  "map_option (\<lambda>x. \<lparr>msi_Value = umi_Value x\<rparr>) (srcIP m) = rm_SrcIP m"
  "map_option (\<lambda>x. \<lparr>mho_Value = umh_Value x\<rparr>) (hostMatcher m) = rm_Host m"
  "map_option (\<lambda>x. \<lparr>mhm_Value = umm_Value x\<rparr>) (httpMethodMatcher m) = rm_HTTPMethod m"
  "map_option (\<lambda>x. \<lparr>mnm_Method = umu_Method x, mnm_Value = umu_Value x, mnm_Backend = umu_Backend x\<rparr>) (numMembersUp m) =
     rm_NumMembersUp m"
  by (simp_all add: intMatcher_def ofInt_def zeroRanges_def strMatcher_def ofStr_def strArgMatcher_def ofStrArg_def
      integerMethod_def stringMethod_def srcIP_def hostMatcher_def httpMethodMatcher_def httpMethod_def numMembersUp_def
      split: option.split)

text \<open>Under a clause of a CEL rule the test of the switch is redundant.\<close>

lemma valid_clause: "(f \<noteq> None \<longleftrightarrow> c) \<Longrightarrow> (f = None \<Longrightarrow> z = None) \<Longrightarrow> (if c then z else None) = z"
  by auto

lemma toMatcher_valid:
  assumes "matcher_valid m"
  shows "um_SrcIP (toMatcher m) = srcIP m" "um_SrcPort (toMatcher m) = intMatcher (rm_SrcPort m)"
    "um_BodySize (toMatcher m) = intMatcher (rm_BodySize m)" "um_Path (toMatcher m) = strMatcher (rm_Path m)"
    "um_URL (toMatcher m) = strMatcher (rm_URL m)" "um_URLQuery (toMatcher m) = strMatcher (rm_URLQuery m)"
    "um_Host (toMatcher m) = hostMatcher m" "um_HTTPMethod (toMatcher m) = httpMethodMatcher m"
    "um_HTTPStatus (toMatcher m) = intMatcher (rm_HTTPStatus m)" "um_Cookie (toMatcher m) = strArgMatcher (rm_Cookie m)"
    "um_Header (toMatcher m) = strArgMatcher (rm_Header m)"
    "um_RequestHeader (toMatcher m) = strArgMatcher (rm_RequestHeader m)"
    "um_ResponseHeader (toMatcher m) = strArgMatcher (rm_ResponseHeader m)"
    "um_URLParam (toMatcher m) = strArgMatcher (rm_URLParam m)" "um_NumMembersUp (toMatcher m) = numMembersUp m"
  unfolding toMatcher_sel
  by (rule valid_clause, insert assms, unfold matcher_valid_def, elim conjE, assumption,
      simp add: srcIP_def hostMatcher_def httpMethodMatcher_def numMembersUp_def intMatcher_def strMatcher_def
        strArgMatcher_def)+

lemma ofMatcher_toMatcher:
  assumes "matcher_valid m"
  shows "ofMatcher (toMatcher m) = normalMatcher m"
  by (simp add: ofMatcher_def normalMatcher_def toMatcher_valid [OF assms] toMatcher_type)

lemma toAction_valid:
  assumes "action_valid a"
  shows "ua_UseBackend (toAction a) = map_option (\<lambda>x. \<lparr>uub_Backend = aub_Backend x\<rparr>) (ra_UseBackend a)"
    "ua_HTTPReturn (toAction a) = map_option (\<lambda>x. \<lparr>uhr_Status = ahr_Status x, uhr_ContentType = ahr_ContentType x,
       uhr_Payload = ahr_Payload x\<rparr>) (ra_HTTPReturn a)"
    "ua_HTTPRedirect (toAction a) = map_option (\<lambda>x. \<lparr>urd_Location = ard_Location x,
       urd_Scheme = redirectScheme (ard_Scheme x), urd_Status = ard_Status x\<rparr>) (ra_HTTPRedirect a)"
    "ua_HTTPRewritePath (toAction a) =
       map_option (\<lambda>x. \<lparr>urw_MatchPattern = arp_MatchPattern x, urw_RewriteTo = arp_RewriteTo x\<rparr>) (ra_HTTPRewritePath a)"
    "ua_HTTPRewriteURI (toAction a) =
       map_option (\<lambda>x. \<lparr>urw_MatchPattern = aru_MatchPattern x, urw_RewriteTo = aru_RewriteTo x\<rparr>) (ra_HTTPRewriteURI a)"
    "ua_SetRequestHeader (toAction a) = map_option (\<lambda>x. \<lparr>ush_Header = ash_Header x, ush_Value = ash_Value x\<rparr>) (ra_SetRequestHeader a)"
    "ua_SetResponseHeader (toAction a) = map_option (\<lambda>x. \<lparr>ush_Header = ash_Header x, ush_Value = ash_Value x\<rparr>) (ra_SetResponseHeader a)"
  unfolding toAction_sel
  by (rule valid_clause, insert assms, unfold action_valid_def, elim conjE, assumption, simp)+

lemma ofAction_toAction:
  assumes "action_valid a"
  shows "ofAction (toAction a) = normalAction a"
  by (simp add: ofAction_def normalAction_def toAction_valid [OF assms] toAction_sel(1) option.map_comp o_def)
    (simp add: map_option_case split: option.split)

text \<open>A request does not see the difference between a matcher or an action and its normal form.\<close>

lemma rangeStart_Some [simp]: "rangeStart (Some n) = n" "rangeEnd (Some n) = n"
  by (simp_all add: rangeStart_def rangeEnd_def)

lemma redirectScheme_idem [simp]: "redirectScheme (redirectScheme s) = redirectScheme s"
  by (simp add: redirectScheme_def RedirectSchemeHTTP_def RedirectSchemeHTTPS_def)

lemma toMatcher_normal: "toMatcher (normalMatcher m) = toMatcher m"
proof -
  have [simp]: "intMatcher (map_option zeroRanges i) = intMatcher i" for i
    by (cases i) (simp_all add: intMatcher_def zeroRanges_def)
  have [simp]: "rm_Type (normalMatcher m) = rm_Type m" "srcIP (normalMatcher m) = srcIP m"
    "hostMatcher (normalMatcher m) = hostMatcher m" "httpMethodMatcher (normalMatcher m) = httpMethodMatcher m"
    "numMembersUp (normalMatcher m) = numMembersUp m"
    by (simp_all add: normalMatcher_def srcIP_def hostMatcher_def httpMethodMatcher_def numMembersUp_def)
  show ?thesis by (rule upMatcher.equality) (simp_all add: toMatcher_sel toMatcher_type,
      simp_all add: normalMatcher_def)
qed

lemma toAction_normal: "toAction (normalAction a) = toAction a"
  by (rule upAction.equality) (simp_all add: toAction_sel normalAction_def option.map_comp o_def)

lemma map_eq_via:
  assumes "\<And>x. f (n x) = f x" and "\<And>x. V x \<Longrightarrow> g (f x) = n x" and "\<forall>x \<in> set xs. V x" and "\<forall>x \<in> set ys. V x"
  shows "map f xs = map f ys \<longleftrightarrow> map n xs = map n ys"
proof
  assume "map f xs = map f ys"
  then have "map g (map f xs) = map g (map f ys)" by (rule arg_cong)
  moreover have "V x \<Longrightarrow> (g \<circ> f) x = n x" for x using assms(2) by simp
  ultimately show "map n xs = map n ys" using assms(3,4) by (metis (no_types, lifting) map_eq_conv map_map)
next
  assume "map n xs = map n ys"
  then have "map f (map n xs) = map f (map n ys)" by (rule arg_cong)
  then show "map f xs = map f ys" using assms(1) by (simp add: o_def)
qed

definition rule_valid :: "LoadBalancerFrontendRule \<Rightarrow> bool" where
  "rule_valid r \<longleftrightarrow>
     list_all matcher_valid (frs_Matchers (Spec r)) \<and> list_all action_valid (frs_Actions (Spec r))"

definition ruleCondition :: "LoadBalancerFrontendRule \<Rightarrow> string" where
  "ruleCondition r = rru_MatchingCondition (toRule r)"

text \<open>
  C37. Conversion loses nothing: two rules that the CEL rules of the kind accept are sent to
  the API as the same request exactly when they agree on name, priority, condition (with
  \<open>and\<close> for an empty one), matchers (with 0 for a missing range bound) and actions
  (with \<open>http\<close> for an empty redirect scheme), in order. So the comparison of an observed
  rule with the desired request misses no drift.
\<close>

theorem toRule_loses_nothing:
  assumes "rule_valid r" and "rule_valid q"
  shows "toRule r = toRule q \<longleftrightarrow>
    LoadBalancerFrontendRule_ExternalName r = LoadBalancerFrontendRule_ExternalName q \<and>
    frs_Priority (Spec r) = frs_Priority (Spec q) \<and> ruleCondition r = ruleCondition q \<and>
    map normalMatcher (frs_Matchers (Spec r)) = map normalMatcher (frs_Matchers (Spec q)) \<and>
    map normalAction (frs_Actions (Spec r)) = map normalAction (frs_Actions (Spec q))"
proof -
  have "map toMatcher (frs_Matchers (Spec r)) = map toMatcher (frs_Matchers (Spec q)) \<longleftrightarrow>
      map normalMatcher (frs_Matchers (Spec r)) = map normalMatcher (frs_Matchers (Spec q))"
    using assms
    by (intro map_eq_via [where g = ofMatcher and V = matcher_valid] toMatcher_normal ofMatcher_toMatcher)
      (simp_all add: rule_valid_def list_all_iff)
  moreover have "map toAction (frs_Actions (Spec r)) = map toAction (frs_Actions (Spec q)) \<longleftrightarrow>
      map normalAction (frs_Actions (Spec r)) = map normalAction (frs_Actions (Spec q))"
    using assms
    by (intro map_eq_via [where g = ofAction and V = action_valid] toAction_normal ofAction_toAction)
      (simp_all add: rule_valid_def list_all_iff)
  ultimately show ?thesis
    by (simp add: toRule_def ruleCondition_def toMatchers_def toActions_def)
qed

text \<open>A rule on a range of source ports, for the witnesses.\<close>

definition demo_matcher :: "int option \<Rightarrow> RuleMatcher" where
  "demo_matcher start =
     \<lparr>rm_Type = ''src_port'', rm_Inverse = None, rm_SrcIP = None,
      rm_SrcPort = Some \<lparr>min_Method = ''range'', min_Value = 0, min_RangeStart = start, min_RangeEnd = Some 1024\<rparr>,
      rm_BodySize = None, rm_Path = None, rm_URL = None, rm_URLQuery = None, rm_Host = None, rm_HTTPMethod = None,
      rm_HTTPStatus = None, rm_Cookie = None, rm_Header = None, rm_RequestHeader = None, rm_ResponseHeader = None,
      rm_URLParam = None, rm_NumMembersUp = None\<rparr>"

definition demo_action :: RuleAction where
  "demo_action =
     \<lparr>ra_Type = ''tcp_reject'', ra_UseBackend = None, ra_HTTPReturn = None, ra_HTTPRedirect = None,
      ra_HTTPRewritePath = None, ra_HTTPRewriteURI = None, ra_SetRequestHeader = None, ra_SetResponseHeader = None\<rparr>"

definition demo_rule :: "int option \<Rightarrow> LoadBalancerFrontendRule" where
  "demo_rule start =
     \<lparr>Meta = demo_meta ''loadbalancer.upcloud.polarsquad.com/loadbalancerfrontendrule'',
      Spec = \<lparr>frs_FrontendRef = \<lparr>lor_Name = ''web''\<rparr>, frs_Name = ''low'', frs_Priority = 10, frs_MatchingCondition = '''',
              frs_Matchers = [demo_matcher start], frs_Actions = [demo_action], frs_DeletionPolicy = DeletionPolicyDelete\<rparr>,
      Status = \<lparr>frst_Conditions = [], frst_ServiceUUID = ''lb-0001'', frst_FrontendName = ''web'', frst_Name = ''low''\<rparr>\<rparr>"

lemma demo_rule_valid: "rule_valid (demo_rule start)"
  by (simp add: rule_valid_def demo_rule_def demo_matcher_def demo_action_def matcher_valid_def action_valid_def
      matcher_types action_types)

theorem toRule_loses_nothing_witness:
  "toRule (demo_rule None) = toRule (demo_rule (Some 0)) \<and> toRule (demo_rule None) \<noteq> toRule (demo_rule (Some 80))"
  unfolding toRule_loses_nothing [OF demo_rule_valid demo_rule_valid]
  by (simp add: demo_rule_def demo_matcher_def normalMatcher_def zeroRanges_def ruleCondition_def toRule_def
      LoadBalancerFrontendRule_ExternalName_def rangeStart_def)

end
