(* ===== verification/LoadBalancerFrontendRuleAdapter.thy ===== *)
theory LoadBalancerFrontendRuleAdapter
  imports ChildAdapter LoadBalancerFakeLaws RuleConvert
begin

text \<open>
  \<open>internal/controller/loadbalancer/loadbalancerfrontendrule_adapter.go\<close> and
  \<open>loadbalancerfrontendrule_controller.go\<close>.
  A rule has no modify call; Update replaces it.
\<close>

subsection \<open>Helpers\<close>

definition LoadBalancerFrontendRuleAdapter_parent ::
  "Lib \<Rightarrow> LoadBalancerFrontend getter \<Rightarrow> LoadBalancerFrontendRule \<Rightarrow> err option \<times> LoadBalancerFrontendRule" where
  "LoadBalancerFrontendRuleAdapter_parent L getFrontend r =
     (let name = lor_Name (frs_FrontendRef (Spec r));
          notReady = Wrap (''frontend '' @ fmt_q name @ '' not ready'') ErrDependencyNotReady in
      if frst_ServiceUUID (Status r) \<noteq> '''' \<and> frst_FrontendName (Status r) \<noteq> '''' then (None, r)
      else case getFrontend (om_Namespace (Meta r)) name of
        Inl e \<Rightarrow> if KubeIsNotFound L e then (Some notReady, r) else (Some (Wrap ''get frontend'' e), r)
      | Inr p \<Rightarrow>
          if \<not> IsReady L LoadBalancerFrontend_Object p \<or> fest_ServiceUUID (Status p) = '''' \<or> fest_Name (Status p) = ''''
          then (Some notReady, r)
          else (None, r\<lparr>Status := (Status r)\<lparr>frst_ServiceUUID := fest_ServiceUUID (Status p),
                                                frst_FrontendName := fest_Name (Status p)\<rparr>\<rparr>))"

definition ruleUpToDate :: "upLBRule \<Rightarrow> reqRule \<Rightarrow> bool" where
  "ruleUpToDate observed desired =
     (if ulr_Name observed \<noteq> rru_Name desired \<or> ulr_Priority observed \<noteq> rru_Priority desired \<or>
         ulr_MatchingCondition observed \<noteq> rru_MatchingCondition desired then False
      else if ulr_Matchers observed \<noteq> rru_Matchers desired then False
      else if ulr_Actions observed \<noteq> rru_Actions desired then False
      else True)"


subsection \<open>The adapter\<close>

definition LoadBalancerFrontendRuleAdapter_Observe ::
  "Lib \<Rightarrow> 's LoadBalancerAPI \<Rightarrow> LoadBalancerFrontend getter \<Rightarrow> LoadBalancerFrontendRule \<Rightarrow> 's
   \<Rightarrow> (err + Observation) \<times> LoadBalancerFrontendRule \<times> 's" where
  "LoadBalancerFrontendRuleAdapter_Observe L api getFrontend r s =
     (case LoadBalancerFrontendRuleAdapter_parent L getFrontend r of
        (Some e, r1) \<Rightarrow> (Inl e, r1, s)
      | (None, r1) \<Rightarrow>
          (case GetLoadBalancerFrontendRule api (frst_ServiceUUID (Status r1)) (frst_FrontendName (Status r1)) (LoadBalancerFrontendRule_ExternalName r1) s of
             (Inl e, s1) \<Rightarrow>
               if IsNotFound (Some e) then (Inr NoObservation, r1, s1)
               else (Inl (Wrap ''get load balancer frontend rule'' e), r1, s1)
           | (Inr res, s1) \<Rightarrow>
               let r2 = r1\<lparr>Status := (Status r1)\<lparr>frst_Name := ulr_Name res\<rparr>\<rparr>
               in (Inr \<lparr>ob_Exists = True, ob_UpToDate = ruleUpToDate res (toRule r2),
                      ob_Ready = True, ob_Message = ''frontend rule '' @ ulr_Name res\<rparr>, r2, s1)))"

definition LoadBalancerFrontendRuleAdapter_Create ::
  "Lib \<Rightarrow> 's LoadBalancerAPI \<Rightarrow> LoadBalancerFrontend getter \<Rightarrow> LoadBalancerFrontendRule \<Rightarrow> 's
   \<Rightarrow> err option \<times> LoadBalancerFrontendRule \<times> 's" where
  "LoadBalancerFrontendRuleAdapter_Create L api getFrontend r s =
     (case LoadBalancerFrontendRuleAdapter_parent L getFrontend r of
        (Some e, r1) \<Rightarrow> (Some e, r1, s)
      | (None, r1) \<Rightarrow>
          (case CreateLoadBalancerFrontendRule api (frst_ServiceUUID (Status r1)) (frst_FrontendName (Status r1)) (toRule r1) s of
             (Inl e, s1) \<Rightarrow>
               if IsConflict (Some e) then (None, r1, s1)
               else (Some (Wrap ''create load balancer frontend rule'' e), r1, s1)
           | (Inr created, s1) \<Rightarrow> 
               (None, r1\<lparr>Status := (Status r1)\<lparr>frst_Name := ulr_Name created\<rparr>\<rparr>, s1)))"

definition LoadBalancerFrontendRuleAdapter_Update ::
  "Lib \<Rightarrow> 's LoadBalancerAPI \<Rightarrow> LoadBalancerFrontend getter \<Rightarrow> LoadBalancerFrontendRule \<Rightarrow> 's
   \<Rightarrow> err option \<times> LoadBalancerFrontendRule \<times> 's" where
  "LoadBalancerFrontendRuleAdapter_Update L api getFrontend r s =
     (case LoadBalancerFrontendRuleAdapter_parent L getFrontend r of
        (Some e, r1) \<Rightarrow> (Some e, r1, s)
      | (None, r1) \<Rightarrow>
          (case GetLoadBalancerFrontendRule api (frst_ServiceUUID (Status r1)) (frst_FrontendName (Status r1)) (LoadBalancerFrontendRule_ExternalName r1) s of
             (Inl e, s1) \<Rightarrow>
               if IsNotFound (Some e) then (Some ErrPending, r1, s1)
               else (Some (Wrap ''get load balancer frontend rule'' e), r1, s1)
           | (Inr _, s1) \<Rightarrow>
               (case ReplaceLoadBalancerFrontendRule api (frst_ServiceUUID (Status r1)) (frst_FrontendName (Status r1)) (LoadBalancerFrontendRule_ExternalName r1)
                       (toRule r1) s1 of
                  (Inl e, s2) \<Rightarrow> (Some (Wrap ''replace load balancer frontend rule'' e), r1, s2)
                | (Inr _, s2) \<Rightarrow> (None, r1, s2))))"

definition LoadBalancerFrontendRuleAdapter_Delete ::
  "Lib \<Rightarrow> 's LoadBalancerAPI \<Rightarrow> LoadBalancerFrontendRule \<Rightarrow> 's \<Rightarrow> err option \<times> LoadBalancerFrontendRule \<times> 's" where
  "LoadBalancerFrontendRuleAdapter_Delete L api r s =
     (if frst_ServiceUUID (Status r) = '''' \<or> frst_FrontendName (Status r) = '''' \<or> frst_Name (Status r) = ''''
      then (None, r, s)
      else case DeleteLoadBalancerFrontendRule api (frst_ServiceUUID (Status r)) (frst_FrontendName (Status r)) (frst_Name (Status r)) s of
        (e, s1) \<Rightarrow> (titledOutcome L ''delete load balancer frontend rule'' e, r, s1))"

definition LoadBalancerFrontendRuleAdapter ::
  "Lib \<Rightarrow> 's LoadBalancerAPI \<Rightarrow> LoadBalancerFrontend getter \<Rightarrow> (LoadBalancerFrontendRule, 's) Adapter" where
  "LoadBalancerFrontendRuleAdapter L api getFrontend =
     \<lparr>ad_Observe = LoadBalancerFrontendRuleAdapter_Observe L api getFrontend,
      ad_Create = LoadBalancerFrontendRuleAdapter_Create L api getFrontend,
      ad_Update = LoadBalancerFrontendRuleAdapter_Update L api getFrontend,
      ad_Delete = LoadBalancerFrontendRuleAdapter_Delete L api\<rparr>"

definition FinalizerLoadBalancerFrontendRule :: string where
  "FinalizerLoadBalancerFrontendRule = ''loadbalancer.upcloud.polarsquad.com/loadbalancerfrontendrule''"

definition SetupLoadBalancerFrontendRuleController ::
  "Lib \<Rightarrow> (LoadBalancerFrontendRule, 'k) Client \<Rightarrow> 's LoadBalancerAPI \<Rightarrow> LoadBalancerFrontend getter \<Rightarrow>
   (string \<Rightarrow> 'v \<Rightarrow> err + LoadBalancerFrontendRule list) \<Rightarrow> Options
   \<Rightarrow> (LoadBalancerFrontendRule, 'k \<times> 's) Reconciler \<times> (LoadBalancerFrontend \<Rightarrow> 'v \<Rightarrow> NamespacedName list) \<times> (LoadBalancerBackend \<Rightarrow> 'v \<Rightarrow> NamespacedName list)" where
  "SetupLoadBalancerFrontendRuleController L c api getFrontend listAll opts =
     (mkReconciler L LoadBalancerFrontendRule_Object c (LoadBalancerFrontendRuleAdapter L api getFrontend)
        FinalizerLoadBalancerFrontendRule opts,
      \<lambda>w. DependentsOf listAll Meta LoadBalancerFrontendRule_RefNames (Meta w), 
      \<lambda>w. DependentsOf listAll Meta LoadBalancerFrontendRule_RefNames (Meta w))"

lemma LoadBalancerFrontendRuleAdapter_sel [simp]:
  "ad_Observe (LoadBalancerFrontendRuleAdapter L api getFrontend) = LoadBalancerFrontendRuleAdapter_Observe L api getFrontend"
  "ad_Create (LoadBalancerFrontendRuleAdapter L api getFrontend) = LoadBalancerFrontendRuleAdapter_Create L api getFrontend"
  "ad_Update (LoadBalancerFrontendRuleAdapter L api getFrontend) = LoadBalancerFrontendRuleAdapter_Update L api getFrontend"
  "ad_Delete (LoadBalancerFrontendRuleAdapter L api getFrontend) = LoadBalancerFrontendRuleAdapter_Delete L api"
  by (simp_all add: LoadBalancerFrontendRuleAdapter_def)

subsection \<open>The common shape\<close>

lemma rule_request_name: "(toRule r)\<lparr>rru_Name := LoadBalancerFrontendRule_ExternalName r\<rparr> = toRule r"
  by (simp add: toRule_def)

sublocale load_balancer_service \<subseteq> rule_ctr: child_adapter L LoadBalancerFrontendRule_Object
    "LoadBalancerFrontendRuleAdapter L api getFrontend" inv view
    "LoadBalancerFrontendRuleAdapter_parent L getFrontend" "\<lambda>x. (frst_ServiceUUID (Status x), frst_FrontendName (Status x))"
    "\<lambda>x. frst_ServiceUUID (Status x) \<noteq> '''' \<and> frst_FrontendName (Status x) \<noteq> '''' \<and> frst_Name (Status x) \<noteq> ''''"
    LoadBalancerFrontendRule_ExternalName "\<lambda>x. frst_Name (Status x)" "\<lambda>p. GetLoadBalancerFrontendRule api (fst p) (snd p)"
    "\<lambda>p. CreateLoadBalancerFrontendRule api (fst p) (snd p)"
    "\<lambda>p n m. ReplaceLoadBalancerFrontendRule api (fst p) (snd p) n (m\<lparr>rru_Name := n\<rparr>)"
    "\<lambda>p. DeleteLoadBalancerFrontendRule api (fst p) (snd p)"
    "\<lambda>x. x" ulr_Name "\<lambda>p v. lv_Rules v (fst p) (snd p)" "\<lambda>p. put_Rule (fst p) (snd p)" rru_Name rule_built "\<lambda>m y. rule_built m"
    "\<lambda>r x. x\<lparr>Status := (Status x)\<lparr>frst_Name := ulr_Name r\<rparr>\<rparr>"
    "\<lambda>x. Inr ()"
    "\<lambda>res x _. ruleUpToDate res (toRule x)" "\<lambda>x _. (toRule x)"
    "\<lambda>_ x _. Some (toRule x)"
    "''get load balancer frontend rule''" "''create load balancer frontend rule''" "''replace load balancer frontend rule''"
    "''delete load balancer frontend rule''" "\<lambda>res. ''frontend rule '' @ ulr_Name res"
  for L getFrontend
  apply (rule child_adapter.intro)
  subgoal by (rule loadbalancerfrontendrule_object.managed_object_axioms)
  subgoal using rules by simp
  subgoal
    by (intro ext) (simp add: LoadBalancerFrontendRuleAdapter_Observe_def childObserve_def Let_def  rule_request_name
      cong del: weak_congs)
  subgoal
    by (intro ext) (simp add: LoadBalancerFrontendRuleAdapter_Create_def childCreate_def Let_def  rule_request_name
      cong del: weak_congs)
  subgoal
    by (intro ext) (simp add: LoadBalancerFrontendRuleAdapter_Update_def childUpdate_def Let_def  rule_request_name
      cong del: weak_congs)
  subgoal by (intro ext) (simp add: LoadBalancerFrontendRuleAdapter_Delete_def childDelete_def)
  subgoal
    by (auto simp: LoadBalancerFrontendRuleAdapter_parent_def Let_def split: sum.splits prod.splits if_splits)
  subgoal
    by (auto simp: LoadBalancerFrontendRuleAdapter_parent_def  Let_def
      split: sum.splits prod.splits if_splits)
  by (simp_all add: LoadBalancerFrontendRule_ExternalName_def toRule_def LoadBalancerFrontendRule_ExternalName_def
      cong: option.case_cong)


end
