(* ===== verification/LoadBalancerFrontendTLSConfigAdapter.thy ===== *)
theory LoadBalancerFrontendTLSConfigAdapter
  imports ChildAdapter LoadBalancerFakeLaws
begin

text \<open>
  \<open>internal/controller/loadbalancer/loadbalancerfrontendtlsconfig_adapter.go\<close> and
  \<open>loadbalancerfrontendtlsconfig_controller.go\<close>.
  A TLS configuration names a certificate bundle and nothing else.
\<close>

subsection \<open>Helpers\<close>

definition LoadBalancerFrontendTLSConfigAdapter_parent ::
  "Lib \<Rightarrow> LoadBalancerFrontend getter \<Rightarrow> LoadBalancerFrontendTLSConfig \<Rightarrow> err option \<times> LoadBalancerFrontendTLSConfig" where
  "LoadBalancerFrontendTLSConfigAdapter_parent L getFrontend c =
     (let name = lor_Name (fts_FrontendRef (Spec c));
          notReady = Wrap (''frontend '' @ fmt_q name @ '' not ready'') ErrDependencyNotReady in
      if ftst_ServiceUUID (Status c) \<noteq> '''' \<and> ftst_FrontendName (Status c) \<noteq> '''' then (None, c)
      else case getFrontend (om_Namespace (Meta c)) name of
        Inl e \<Rightarrow> if KubeIsNotFound L e then (Some notReady, c) else (Some (Wrap ''get frontend'' e), c)
      | Inr p \<Rightarrow>
          if \<not> IsReady L LoadBalancerFrontend_Object p \<or> fest_ServiceUUID (Status p) = '''' \<or> fest_Name (Status p) = ''''
          then (Some notReady, c)
          else (None, c\<lparr>Status := (Status c)\<lparr>ftst_ServiceUUID := fest_ServiceUUID (Status p),
                                                ftst_FrontendName := fest_Name (Status p)\<rparr>\<rparr>))"

definition LoadBalancerFrontendTLSConfigAdapter_bundleUUID ::
  "Lib \<Rightarrow> LoadBalancerCertificateBundle getter \<Rightarrow> LoadBalancerFrontendTLSConfig \<Rightarrow> err + string" where
  "LoadBalancerFrontendTLSConfigAdapter_bundleUUID L getBundle c =
     ReadyID L LoadBalancerCertificateBundle_Object getBundle (om_Namespace (Meta c)) (lor_Name (fts_CertificateBundleRef (Spec c)))"

text \<open>What Create and Update send.\<close>

definition frontendTLSRequest :: "LoadBalancerFrontendTLSConfig \<Rightarrow> string \<Rightarrow> reqTLSConfig" where
  "frontendTLSRequest c bundleUUID = \<lparr>rtc_Name = LoadBalancerFrontendTLSConfig_ExternalName c, rtc_CertificateBundleUUID = bundleUUID\<rparr>"


subsection \<open>The adapter\<close>

definition LoadBalancerFrontendTLSConfigAdapter_Observe ::
  "Lib \<Rightarrow> 's LoadBalancerAPI \<Rightarrow> LoadBalancerFrontend getter \<Rightarrow> LoadBalancerCertificateBundle getter \<Rightarrow> LoadBalancerFrontendTLSConfig \<Rightarrow> 's
   \<Rightarrow> (err + Observation) \<times> LoadBalancerFrontendTLSConfig \<times> 's" where
  "LoadBalancerFrontendTLSConfigAdapter_Observe L api getFrontend getBundle c s =
     (case LoadBalancerFrontendTLSConfigAdapter_parent L getFrontend c of
        (Some e, c1) \<Rightarrow> (Inl e, c1, s)
      | (None, c1) \<Rightarrow>
          (case GetLoadBalancerFrontendTLSConfig api (ftst_ServiceUUID (Status c1)) (ftst_FrontendName (Status c1)) (LoadBalancerFrontendTLSConfig_ExternalName c1) s of
             (Inl e, s1) \<Rightarrow>
               if IsNotFound (Some e) then (Inr NoObservation, c1, s1)
               else (Inl (Wrap ''get load balancer frontend TLS config'' e), c1, s1)
           | (Inr res, s1) \<Rightarrow>
               let c2 = c1\<lparr>Status := (Status c1)\<lparr>ftst_Name := utc_Name res\<rparr>\<rparr> in
               (case LoadBalancerFrontendTLSConfigAdapter_bundleUUID L getBundle c2 of
                  Inl e \<Rightarrow> (Inl e, c2, s1)
                | Inr bundleUUID \<Rightarrow>
                    (Inr \<lparr>ob_Exists = True, ob_UpToDate = (utc_CertificateBundleUUID res = bundleUUID),
                      ob_Ready = True, ob_Message = ''frontend TLS config '' @ utc_Name res\<rparr>, c2, s1))))"

definition LoadBalancerFrontendTLSConfigAdapter_Create ::
  "Lib \<Rightarrow> 's LoadBalancerAPI \<Rightarrow> LoadBalancerFrontend getter \<Rightarrow> LoadBalancerCertificateBundle getter \<Rightarrow> LoadBalancerFrontendTLSConfig \<Rightarrow> 's
   \<Rightarrow> err option \<times> LoadBalancerFrontendTLSConfig \<times> 's" where
  "LoadBalancerFrontendTLSConfigAdapter_Create L api getFrontend getBundle c s =
     (case LoadBalancerFrontendTLSConfigAdapter_parent L getFrontend c of
        (Some e, c1) \<Rightarrow> (Some e, c1, s)
      | (None, c1) \<Rightarrow>
          (case LoadBalancerFrontendTLSConfigAdapter_bundleUUID L getBundle c1 of
             Inl e \<Rightarrow> (Some e, c1, s)
           | Inr bundleUUID \<Rightarrow>
               (case CreateLoadBalancerFrontendTLSConfig api (ftst_ServiceUUID (Status c1)) (ftst_FrontendName (Status c1)) (frontendTLSRequest c1 bundleUUID) s of
                  (Inl e, s1) \<Rightarrow>
                    if IsConflict (Some e) then (None, c1, s1)
                    else (Some (Wrap ''create load balancer frontend TLS config'' e), c1, s1)
                | (Inr created, s1) \<Rightarrow> 
                    (None, c1\<lparr>Status := (Status c1)\<lparr>ftst_Name := utc_Name created\<rparr>\<rparr>, s1))))"

definition LoadBalancerFrontendTLSConfigAdapter_Update ::
  "Lib \<Rightarrow> 's LoadBalancerAPI \<Rightarrow> LoadBalancerFrontend getter \<Rightarrow> LoadBalancerCertificateBundle getter \<Rightarrow> LoadBalancerFrontendTLSConfig \<Rightarrow> 's
   \<Rightarrow> err option \<times> LoadBalancerFrontendTLSConfig \<times> 's" where
  "LoadBalancerFrontendTLSConfigAdapter_Update L api getFrontend getBundle c s =
     (case LoadBalancerFrontendTLSConfigAdapter_parent L getFrontend c of
        (Some e, c1) \<Rightarrow> (Some e, c1, s)
      | (None, c1) \<Rightarrow>
          (case LoadBalancerFrontendTLSConfigAdapter_bundleUUID L getBundle c1 of
             Inl e \<Rightarrow> (Some e, c1, s)
           | Inr bundleUUID \<Rightarrow>
               (case GetLoadBalancerFrontendTLSConfig api (ftst_ServiceUUID (Status c1)) (ftst_FrontendName (Status c1)) (LoadBalancerFrontendTLSConfig_ExternalName c1) s of
                  (Inl e, s1) \<Rightarrow>
                    if IsNotFound (Some e) then (Some ErrPending, c1, s1)
                    else (Some (Wrap ''get load balancer frontend TLS config'' e), c1, s1)
                | (Inr _, s1) \<Rightarrow>
                    (case ModifyLoadBalancerFrontendTLSConfig api (ftst_ServiceUUID (Status c1)) (ftst_FrontendName (Status c1)) (LoadBalancerFrontendTLSConfig_ExternalName c1)
                            (frontendTLSRequest c1 bundleUUID) s1 of
                       (Inl e, s2) \<Rightarrow> (Some (Wrap ''modify load balancer frontend TLS config'' e), c1, s2)
                     | (Inr _, s2) \<Rightarrow> (None, c1, s2)))))"

definition LoadBalancerFrontendTLSConfigAdapter_Delete ::
  "Lib \<Rightarrow> 's LoadBalancerAPI \<Rightarrow> LoadBalancerFrontendTLSConfig \<Rightarrow> 's \<Rightarrow> err option \<times> LoadBalancerFrontendTLSConfig \<times> 's" where
  "LoadBalancerFrontendTLSConfigAdapter_Delete L api c s =
     (if ftst_ServiceUUID (Status c) = '''' \<or> ftst_FrontendName (Status c) = '''' \<or> ftst_Name (Status c) = ''''
      then (None, c, s)
      else case DeleteLoadBalancerFrontendTLSConfig api (ftst_ServiceUUID (Status c)) (ftst_FrontendName (Status c)) (ftst_Name (Status c)) s of
        (e, s1) \<Rightarrow> (titledOutcome L ''delete load balancer frontend TLS config'' e, c, s1))"

definition LoadBalancerFrontendTLSConfigAdapter ::
  "Lib \<Rightarrow> 's LoadBalancerAPI \<Rightarrow> LoadBalancerFrontend getter \<Rightarrow> LoadBalancerCertificateBundle getter \<Rightarrow> (LoadBalancerFrontendTLSConfig, 's) Adapter" where
  "LoadBalancerFrontendTLSConfigAdapter L api getFrontend getBundle =
     \<lparr>ad_Observe = LoadBalancerFrontendTLSConfigAdapter_Observe L api getFrontend getBundle,
      ad_Create = LoadBalancerFrontendTLSConfigAdapter_Create L api getFrontend getBundle,
      ad_Update = LoadBalancerFrontendTLSConfigAdapter_Update L api getFrontend getBundle,
      ad_Delete = LoadBalancerFrontendTLSConfigAdapter_Delete L api\<rparr>"

definition FinalizerLoadBalancerFrontendTLSConfig :: string where
  "FinalizerLoadBalancerFrontendTLSConfig = ''loadbalancer.upcloud.polarsquad.com/loadbalancerfrontendtlsconfig''"

definition SetupLoadBalancerFrontendTLSConfigController ::
  "Lib \<Rightarrow> (LoadBalancerFrontendTLSConfig, 'k) Client \<Rightarrow> 's LoadBalancerAPI \<Rightarrow> LoadBalancerFrontend getter \<Rightarrow> LoadBalancerCertificateBundle getter \<Rightarrow>
   (string \<Rightarrow> 'v \<Rightarrow> err + LoadBalancerFrontendTLSConfig list) \<Rightarrow> Options
   \<Rightarrow> (LoadBalancerFrontendTLSConfig, 'k \<times> 's) Reconciler \<times> (LoadBalancerFrontend \<Rightarrow> 'v \<Rightarrow> NamespacedName list) \<times> (LoadBalancerCertificateBundle \<Rightarrow> 'v \<Rightarrow> NamespacedName list)" where
  "SetupLoadBalancerFrontendTLSConfigController L c api getFrontend getBundle listAll opts =
     (mkReconciler L LoadBalancerFrontendTLSConfig_Object c (LoadBalancerFrontendTLSConfigAdapter L api getFrontend getBundle)
        FinalizerLoadBalancerFrontendTLSConfig opts,
      \<lambda>w. DependentsOf listAll Meta LoadBalancerFrontendTLSConfig_RefNames (Meta w), 
      \<lambda>w. DependentsOf listAll Meta LoadBalancerFrontendTLSConfig_RefNames (Meta w))"

lemma LoadBalancerFrontendTLSConfigAdapter_sel [simp]:
  "ad_Observe (LoadBalancerFrontendTLSConfigAdapter L api getFrontend getBundle) = LoadBalancerFrontendTLSConfigAdapter_Observe L api getFrontend getBundle"
  "ad_Create (LoadBalancerFrontendTLSConfigAdapter L api getFrontend getBundle) = LoadBalancerFrontendTLSConfigAdapter_Create L api getFrontend getBundle"
  "ad_Update (LoadBalancerFrontendTLSConfigAdapter L api getFrontend getBundle) = LoadBalancerFrontendTLSConfigAdapter_Update L api getFrontend getBundle"
  "ad_Delete (LoadBalancerFrontendTLSConfigAdapter L api getFrontend getBundle) = LoadBalancerFrontendTLSConfigAdapter_Delete L api"
  by (simp_all add: LoadBalancerFrontendTLSConfigAdapter_def)

subsection \<open>The common shape\<close>

sublocale load_balancer_service \<subseteq> frontend_tls_ctr: child_adapter L LoadBalancerFrontendTLSConfig_Object
    "LoadBalancerFrontendTLSConfigAdapter L api getFrontend getBundle" inv view
    "LoadBalancerFrontendTLSConfigAdapter_parent L getFrontend" "\<lambda>x. (ftst_ServiceUUID (Status x), ftst_FrontendName (Status x))"
    "\<lambda>x. ftst_ServiceUUID (Status x) \<noteq> '''' \<and> ftst_FrontendName (Status x) \<noteq> '''' \<and> ftst_Name (Status x) \<noteq> ''''"
    LoadBalancerFrontendTLSConfig_ExternalName "\<lambda>x. ftst_Name (Status x)" "\<lambda>p. GetLoadBalancerFrontendTLSConfig api (fst p) (snd p)"
    "\<lambda>p. CreateLoadBalancerFrontendTLSConfig api (fst p) (snd p)"
    "\<lambda>p. ModifyLoadBalancerFrontendTLSConfig api (fst p) (snd p)"
    "\<lambda>p. DeleteLoadBalancerFrontendTLSConfig api (fst p) (snd p)"
    "\<lambda>x. x" utc_Name "\<lambda>p v. lv_FrontendTLS v (fst p) (snd p)" "\<lambda>p. put_FrontendTLS (fst p) (snd p)" rtc_Name tls_built "on_row (\<lambda>m y. tls_built m)"
    "\<lambda>r x. x\<lparr>Status := (Status x)\<lparr>ftst_Name := utc_Name r\<rparr>\<rparr>"
    "\<lambda>x. LoadBalancerFrontendTLSConfigAdapter_bundleUUID L getBundle x"
    "\<lambda>res x bundleUUID. (utc_CertificateBundleUUID res = bundleUUID)" "\<lambda>x bundleUUID. (frontendTLSRequest x bundleUUID)"
    "\<lambda>_ x bundleUUID. Some (frontendTLSRequest x bundleUUID)"
    "''get load balancer frontend TLS config''" "''create load balancer frontend TLS config''" "''modify load balancer frontend TLS config''"
    "''delete load balancer frontend TLS config''" "\<lambda>res. ''frontend TLS config '' @ utc_Name res"
  for L getFrontend getBundle
  apply (rule child_adapter.intro)
  subgoal by (rule loadbalancerfrontendtlsconfig_object.managed_object_axioms)
  subgoal using frontend_tls by simp
  subgoal
    by (intro ext) (simp add: LoadBalancerFrontendTLSConfigAdapter_Observe_def childObserve_def Let_def  
      cong del: weak_congs)
  subgoal
    by (intro ext) (simp add: LoadBalancerFrontendTLSConfigAdapter_Create_def childCreate_def Let_def  
      cong del: weak_congs)
  subgoal
    by (intro ext) (simp add: LoadBalancerFrontendTLSConfigAdapter_Update_def childUpdate_def Let_def  
      cong del: weak_congs)
  subgoal by (intro ext) (simp add: LoadBalancerFrontendTLSConfigAdapter_Delete_def childDelete_def)
  subgoal
    by (auto simp: LoadBalancerFrontendTLSConfigAdapter_parent_def Let_def split: sum.splits prod.splits if_splits)
  subgoal
    by (auto simp: LoadBalancerFrontendTLSConfigAdapter_parent_def  Let_def
      split: sum.splits prod.splits if_splits)
  by (simp_all add: LoadBalancerFrontendTLSConfig_ExternalName_def LoadBalancerFrontendTLSConfigAdapter_bundleUUID_def frontendTLSRequest_def
      cong: option.case_cong)


end
