(* ===== verification/LoadBalancerGroup.thy ===== *)
theory LoadBalancerGroup
  imports LoadBalancerAdapter LoadBalancerCertificateBundleAdapter LoadBalancerResolverAdapter LoadBalancerBackendAdapter
    LoadBalancerBackendMemberAdapter LoadBalancerBackendTLSConfigAdapter LoadBalancerFrontendAdapter
    LoadBalancerFrontendRuleAdapter LoadBalancerFrontendTLSConfigAdapter
begin

text \<open>
  Properties of the load balancer adapters against every service that keeps the contract.
  The witnesses run them on the in-memory service.
\<close>

subsection \<open>An account\<close>

text \<open>A load balancer with a backend of one member and a frontend, and a manual certificate bundle.\<close>

definition demo_member :: upLBMember where
  "demo_member = \<lparr>ubm_Name = ''net'', ubm_IP = ''10.0.0.1'', ubm_Port = 80, ubm_Weight = 1, ubm_MaxSessions = 10,
     ubm_Type = ''static'', ubm_Enabled = True, ubm_CreatedAt = zeroTime\<rparr>"

definition demo_backend :: upLBBackend where
  "demo_backend = \<lparr>ube_Name = ''net'', ube_Resolver = '''', ube_Properties = None, ube_Members = [demo_member],
     ube_TLSConfigs = [], ube_CreatedAt = zeroTime\<rparr>"

definition demo_frontend :: upLBFrontend where
  "demo_frontend = \<lparr>ufe_Name = ''net'', ufe_Mode = ''http'', ufe_Port = 80, ufe_Networks = [], ufe_DefaultBackend = ''net'',
     ufe_Rules = [], ufe_TLSConfigs = [],
     ufe_Properties = Some \<lparr>ufp_TimeoutClient = 5, ufp_InboundProxyProtocol = None, ufp_HTTP2Enabled = None\<rparr>,
     ufe_CreatedAt = zeroTime\<rparr>"

definition demo_load_balancer :: upLoadBalancer where
  "demo_load_balancer = \<lparr>ulb_UUID = uuid ''lb'' 3, ulb_Name = ''old'', ulb_Zone = ''fi-hel1'', ulb_Plan = ''development'',
     ulb_Networks = [], ulb_Labels = [], ulb_ConfiguredStatus = ''started'', ulb_OperationalState = LBStateRunning,
     ulb_Frontends = [demo_frontend], ulb_Backends = [demo_backend], ulb_Resolvers = [], ulb_MaintenanceDOW = '''',
     ulb_MaintenanceTime = '''', ulb_Nodes = []\<rparr>"

definition demo_bundle :: upCertificateBundle where
  "demo_bundle = \<lparr>ucb_UUID = uuid ''cb'' 2, ucb_Name = ''net'', ucb_Type = BundleTypeManual, ucb_Certificate = ''old'',
     ucb_Intermediates = '''', ucb_Hostnames = [], ucb_KeyType = '''', ucb_OperationalState = BundleStateIdle,
     ucb_NotBefore = zeroTime, ucb_NotAfter = zeroTime\<rparr>"

definition demo_lb_account :: LoadBalancerFake where
  "demo_lb_account = NewLoadBalancerAPI\<lparr>lf_seq := 3, lf_LoadBalancers := [(uuid ''lb'' 3, demo_load_balancer)],
     lf_CertificateBundles := [(uuid ''cb'' 2, demo_bundle)]\<rparr>"

lemma demo_lb_account_inv [simp]: "lf_inv demo_lb_account"
  by (auto simp: lf_inv_def demo_lb_account_def NewLoadBalancerAPI_def fresh_table_def uuid_ids_def demo_load_balancer_def
      demo_bundle_def lb_ok_def be_ok_def fe_ok_def demo_backend_def demo_frontend_def split: if_splits)

definition demo_lb :: "string \<Rightarrow> LoadBalancer" where
  "demo_lb plan = \<lparr>Meta = (demo_meta FinalizerLoadBalancer)\<lparr>om_DeletionTimestamp := Some 7\<rparr>,
     Spec = \<lparr>lbs_Name = '''', lbs_Plan = plan, lbs_Zone = ''fi-hel1'', lbs_Networks = [], lbs_ConfiguredStatus = '''',
             lbs_Maintenance = \<lparr>lmt_DOW = '''', lmt_Time = ''''\<rparr>, lbs_Labels = [], lbs_DeletionPolicy = ''Delete''\<rparr>,
     Status = \<lparr>lbst_Conditions = [], lbst_UUID = uuid ''lb'' 3, lbst_OperationalState = '''', lbst_Networks = [],
               lbst_Nodes = 0\<rparr>\<rparr>"

subsection \<open>Load balancers\<close>

text \<open>
  C15. A successful Update of a load balancer is followed by an Observe that finds it, and
  finds it up to date exactly when what no modify call sends was right already: the plan,
  the networks, and a part of the maintenance window that the spec leaves empty.
\<close>

theorem load_balancer_update_converges_iff:
  assumes svc: "load_balancer_service api I view" and "I s" and known: "lbst_UUID (Status x) \<noteq> []"
    and name: "LoadBalancer_ExternalName x \<noteq> []"
    and up: "LoadBalancerAdapter_Update api x s = (None, x1, s1)"
    and ob: "LoadBalancerAdapter_Observe L api gn x1 s1 = (Inr obs, x2, s2)"
  shows "\<exists>d. lv_LBs (view s) (lbst_UUID (Status x)) = Some d \<and> ob_Exists obs \<and>
    (ob_UpToDate obs \<longleftrightarrow>
      ulb_Plan d = lbs_Plan (Spec x) \<and>
      (\<exists>ns. LoadBalancerAdapter_desiredNetworks L gn x = Inr ns \<and> lbNetworksEqual (ulb_Networks d) ns) \<and>
      (lmt_DOW (lbs_Maintenance (Spec x)) = '''' \<longrightarrow> ulb_MaintenanceDOW d = '''') \<and>
      (lmt_Time (lbs_Maintenance (Spec x)) = '''' \<longrightarrow> ulb_MaintenanceTime d = ''''))"
proof -
  obtain d y where d: "lv_LBs (view s) (lbst_UUID (Status x)) = Some d" "lv_LBs (view s1) (lbst_UUID (Status x)) = Some y"
      "lb_in_sync L gn x y \<longleftrightarrow> lb_repairable L gn x d"
    using load_balancer_service.lb_update_spec [OF svc \<open>I s\<close> up known name] by blast
  have f: "I s1" "x1 = x" using load_balancer_service.lb_update_frame [OF svc \<open>I s\<close> up] by simp_all
  show ?thesis
    using load_balancer_service.lb_observe_sees [OF svc f(1), of x y] d ob f(2) unfolding lb_repairable_def by blast
qed

theorem load_balancer_update_converges_iff_witness:
  "\<exists>x1 s1 x2 s2 obs. LoadBalancerAdapter_Update fakeLoadBalancerAPI (demo_lb ''production'') demo_lb_account = (None, x1, s1) \<and>
     LoadBalancerAdapter_Observe ref_Lib fakeLoadBalancerAPI no_objects x1 s1 = (Inr obs, x2, s2) \<and> \<not> ob_UpToDate obs"
proof -
  let ?x = "demo_lb ''production''"
  obtain e x1 s1 where up: "LoadBalancerAdapter_Update fakeLoadBalancerAPI ?x demo_lb_account = (e, x1, s1)"
    by (metis prod_cases3)
  have "fst (LoadBalancerAdapter_Update fakeLoadBalancerAPI ?x demo_lb_account) = None" by code_simp
  then have e: "e = None" using up by simp
  obtain r x2 s2 where ob: "LoadBalancerAdapter_Observe ref_Lib fakeLoadBalancerAPI no_objects x1 s1 = (r, x2, s2)"
    by (metis prod_cases3)
  have "\<not> isl (fst (case LoadBalancerAdapter_Update fakeLoadBalancerAPI ?x demo_lb_account of
      (e, x1, s1) \<Rightarrow> LoadBalancerAdapter_Observe ref_Lib fakeLoadBalancerAPI no_objects x1 s1))" by code_simp
  then obtain obs where r: "r = Inr obs" using up ob by (cases r) auto
  have "lv_LBs (lb_view demo_lb_account) (lbst_UUID (Status ?x)) = Some (lb_core demo_load_balancer)"
    by (simp add: lb_view_def demo_lb_account_def demo_lb_def)
  then have "\<not> ob_UpToDate obs"
    using load_balancer_update_converges_iff [OF fake_lb.load_balancer_service_axioms demo_lb_account_inv _ _ up [unfolded e]
        ob [unfolded r]]
    by (simp add: demo_lb_def LoadBalancer_ExternalName_def nameOrMeta_def demo_meta_def demo_load_balancer_def)
  then show ?thesis using up e ob r by blast
qed

text \<open>
  C16. A load balancer that still has a frontend, a backend or a resolver survives the
  deletion of its object: a deletion pass changes nothing in the account and writes
  nothing but the status of an object that keeps its finalizer.
\<close>

theorem busy_load_balancer_stays:
  assumes svc: "load_balancer_service api I view" and "I s"
    and d: "lbst_UUID (Status x) = i" "i \<noteq> []" "lv_LBs (view s) i \<noteq> None"
    and busy: "lv_Frontends (view s) i n \<noteq> None \<or> lv_Backends (view s) i n \<noteq> None \<or> lv_Resolvers (view s) i n \<noteq> None"
    and policy: "lbs_DeletionPolicy (Spec x) \<noteq> DeletionPolicyOrphan"
    and fin: "hasFinalizer (SetupLoadBalancerController L c api gn opts) x"
    and pass: "reconcileDelete (defaults (SetupLoadBalancerController L c api gn opts)) x (k, s) = (out, k', s')"
  shows "view s' = view s \<and>
    (\<exists>x'. hasFinalizer (SetupLoadBalancerController L c api gn opts) x' \<and> k' = snd (cl_StatusPatch c x' x k))"
proof -
  obtain e x1 s1 where del: "LoadBalancerAdapter_Delete L api x s = (e, x1, s1)" by (metis prod_cases3)
  note spec = load_balancer_service.lb_delete_spec [OF svc \<open>I s\<close> del]
  have "lb_busy i (view s)" using busy by (auto simp: lb_busy_def)
  then have v: "view s1 = view s" and "e \<noteq> None" using spec(4,5) d by blast+
  then obtain y where "ad_Delete (LoadBalancerAdapter L api gn) x s = (Some y, x, s1)" using del spec(1) by auto
  note refused = delete_pass_refused [OF loadbalancer_object.managed_object_axioms _ _ this]
  show ?thesis
    using refused [where f = FinalizerLoadBalancer and L = L and c = c and opts = opts and k = k and out = out
        and k' = k' and s' = s'] fin policy pass v
    unfolding SetupLoadBalancerController_def by auto
qed

lemma demo_lb_sel [simp]:
  "lbst_UUID (Status (demo_lb p)) = uuid ''lb'' 3" "lbs_DeletionPolicy (Spec (demo_lb p)) \<noteq> DeletionPolicyOrphan"
  "hasFinalizer (SetupLoadBalancerController ref_Lib c api gn opts) (demo_lb p)"
  by (simp_all add: demo_lb_def DeletionPolicyOrphan_def SetupLoadBalancerController_def hasFinalizer_def demo_meta_def ref_Lib_def)

lemma demo_lb_account_view [simp]:
  "lv_LBs (lb_view demo_lb_account) (uuid ''lb'' 3) = Some (lb_core demo_load_balancer)"
  "lv_Backends (lb_view demo_lb_account) (uuid ''lb'' 3) ''net'' = Some (be_core demo_backend)"
  "lv_Frontends (lb_view demo_lb_account) (uuid ''lb'' 3) ''net'' = Some (fe_core demo_frontend)"
  "lv_Members (lb_view demo_lb_account) (uuid ''lb'' 3) ''net'' ''net'' = Some demo_member"
  "lv_Bundles (lb_view demo_lb_account) (uuid ''cb'' 2) = Some (cb_core demo_bundle)"
  by (simp_all add: lb_view_def demo_lb_account_def atLB_def backendsOf_def frontendsOf_def inBackend_def lf_findBackend_def
      lf_findFrontend_def lf_findMember_def demo_load_balancer_def demo_backend_def demo_frontend_def demo_member_def)

theorem busy_load_balancer_stays_witness:
  "\<exists>out x1 s1. reconcileDelete (defaults (SetupLoadBalancerController ref_Lib demo_client fakeLoadBalancerAPI no_objects
       \<lparr>opt_SteadyRequeue = 0\<rparr>)) (demo_lb ''p'') (demo_lb ''p'', demo_lb_account) = (out, x1, s1) \<and>
     lb_view s1 = lb_view demo_lb_account"
proof -
  obtain out x1 s1 where p: "reconcileDelete (defaults (SetupLoadBalancerController ref_Lib demo_client fakeLoadBalancerAPI
       no_objects \<lparr>opt_SteadyRequeue = 0\<rparr>)) (demo_lb ''p'') (demo_lb ''p'', demo_lb_account) = (out, x1, s1)"
    by (metis prod.exhaust)
  have "lb_view s1 = lb_view demo_lb_account"
    using busy_load_balancer_stays [OF fake_lb.load_balancer_service_axioms demo_lb_account_inv demo_lb_sel(1) _ _ _ _ _ p,
        where n = "''net''"] by simp
  then show ?thesis using p by blast
qed

subsection \<open>Nested resources\<close>

text \<open>What an adapter of a nested resource inherits from the common shape.\<close>

context load_balancer_service
begin

lemmas resolver_converges = resolver_ctr.child_update_converges [unfolded LoadBalancerResolverAdapter_sel]
lemmas backend_converges = backend_ctr.child_update_converges [unfolded LoadBalancerBackendAdapter_sel]
lemmas backend_tls_converges = backend_tls_ctr.child_update_converges [unfolded LoadBalancerBackendTLSConfigAdapter_sel]
lemmas frontend_tls_converges = frontend_tls_ctr.child_update_converges [unfolded LoadBalancerFrontendTLSConfigAdapter_sel]
lemmas rule_converges = rule_ctr.child_update_converges [unfolded LoadBalancerFrontendRuleAdapter_sel]
lemmas member_converges = member_ctr.child_update_converges [unfolded LoadBalancerBackendMemberAdapter_sel]
lemmas frontend_after_update = frontend_ctr.child_update_observe [unfolded LoadBalancerFrontendAdapter_sel]
lemmas backend_delete_pass = backend_ctr.child_delete_pass

lemma resolver_update_in_sync:
  assumes "inv s" and "LoadBalancerResolverAdapter_Update L api getLB r s = (None, r1, s1)"
    and "LoadBalancerResolverAdapter_Observe L api getLB r1 s1 = (Inr obs, r2, s2)"
  shows "ob_Exists obs \<and> ob_Ready obs \<and> ob_UpToDate obs"
  by (rule resolver_converges [OF assms])
    (auto simp: on_row_def resolver_built_def resolverRequest_def resolverMatches_def list_all_iff)

lemma backend_update_in_sync:
  assumes "inv s" and "LoadBalancerBackendAdapter_Update L api getLB getResolver b s = (None, b1, s1)"
    and "LoadBalancerBackendAdapter_Observe L api getLB getResolver b1 s1 = (Inr obs, b2, s2)"
  shows "ob_Exists obs \<and> ob_Ready obs \<and> ob_UpToDate obs"
  by (rule backend_converges [OF assms])
    (auto simp: backend_patched_def backendChange_def backendMatches_def desiredProperties_def split: option.splits)

lemma backend_tls_update_in_sync:
  assumes "inv s" and "LoadBalancerBackendTLSConfigAdapter_Update L api getBackend getBundle c s = (None, c1, s1)"
    and "LoadBalancerBackendTLSConfigAdapter_Observe L api getBackend getBundle c1 s1 = (Inr obs, c2, s2)"
  shows "ob_Exists obs \<and> ob_Ready obs \<and> ob_UpToDate obs"
  by (rule backend_tls_converges [OF assms]) (auto simp: on_row_def tls_built_def backendTLSRequest_def)

lemma frontend_tls_update_in_sync:
  assumes "inv s" and "LoadBalancerFrontendTLSConfigAdapter_Update L api getFrontend getBundle c s = (None, c1, s1)"
    and "LoadBalancerFrontendTLSConfigAdapter_Observe L api getFrontend getBundle c1 s1 = (Inr obs, c2, s2)"
  shows "ob_Exists obs \<and> ob_Ready obs \<and> ob_UpToDate obs"
  by (rule frontend_tls_converges [OF assms]) (auto simp: on_row_def tls_built_def frontendTLSRequest_def)

lemma rule_update_in_sync:
  assumes "inv s" and "LoadBalancerFrontendRuleAdapter_Update L api getFrontend r s = (None, r1, s1)"
    and "LoadBalancerFrontendRuleAdapter_Observe L api getFrontend r1 s1 = (Inr obs, r2, s2)"
  shows "ob_Exists obs \<and> ob_Ready obs \<and> ob_UpToDate obs"
  by (rule rule_converges [OF assms]) (auto simp: rule_built_def ruleUpToDate_def toRule_def)

lemma member_update_in_sync:
  assumes "inv s" and "LoadBalancerBackendMemberAdapter_Update L api getBackend m s = (None, m1, s1)"
    and "LoadBalancerBackendMemberAdapter_Observe L api getBackend m1 s1 = (Inr obs, m2, s2)"
    and "bms_Type (Spec m) \<noteq> []" and "bms_Port (Spec m) \<noteq> 0"
  shows "ob_Exists obs \<and> ob_Ready obs \<and> ob_UpToDate obs"
  by (rule member_converges [OF assms(1-3)])
    (use assms(4,5) in \<open>auto simp: member_patched_def memberChange_def memberMatches_def orElse_def Let_def split: if_splits\<close>)

end

text \<open>
  C22. A frontend converges exactly when the spec sets properties, or sets none and the
  frontend has none: a modify call cannot remove properties.
\<close>

theorem frontend_update_converges_iff:
  assumes svc: "load_balancer_service api I view" and "I s"
    and spec: "fes_Mode (Spec f) \<noteq> []" "fes_Port (Spec f) \<noteq> 0"
    and up: "LoadBalancerFrontendAdapter_Update L api getLB getBackend f s = (None, f1, s1)"
    and ob: "LoadBalancerFrontendAdapter_Observe L api getLB getBackend f1 s1 = (Inr obs, f2, s2)"
  shows "\<exists>d. lv_Frontends (view s) (fest_ServiceUUID (Status f1)) (LoadBalancerFrontend_ExternalName f) = Some d \<and>
    ob_Exists obs \<and> ob_Ready obs \<and> (ob_UpToDate obs \<longleftrightarrow> fes_Properties (Spec f) \<noteq> None \<or> ufe_Properties d = None)"
proof -
  obtain d y db where y: "ob_Exists obs" "ob_Ready obs" "LoadBalancerFrontendAdapter_defaultBackend L getBackend f = Inr db"
      "lv_Frontends (view s) (fest_ServiceUUID (Status f1)) (LoadBalancerFrontend_ExternalName f) = Some d"
      "ob_UpToDate obs \<longleftrightarrow> frontendMatches y f db" "frontend_patched (frontendChange f db) (Some d) y"
    using load_balancer_service.frontend_after_update [OF svc \<open>I s\<close> up ob] by auto
  have "db \<noteq> []" using y(3) by (auto simp: LoadBalancerFrontendAdapter_defaultBackend_def)
  then have "frontendMatches y f db \<longleftrightarrow> fes_Properties (Spec f) \<noteq> None \<or> ufe_Properties d = None"
    using y(6) spec
    by (auto simp: frontend_patched_def frontendChange_def frontendMatches_def desiredFrontendProperties_def split: option.splits)
  then show ?thesis using y(1,2,4,5) by (intro exI [of _ d]) simp
qed

definition ready_backend :: "LoadBalancerBackend getter" where
  "ready_backend ns n = Inr \<lparr>Meta = demo_meta FinalizerLoadBalancerBackend,
     Spec = \<lparr>bes_LoadBalancerRef = \<lparr>lor_Name = ''lb''\<rparr>, bes_Name = '''', bes_ResolverRef = None, bes_Properties = None,
             bes_DeletionPolicy = ''Delete''\<rparr>,
     Status = \<lparr>best_Conditions = [\<lparr>c_Type = ConditionReady, c_Status = ConditionTrue, c_Reason = '''',
                 c_Message = '''', c_ObservedGeneration = 1\<rparr>], best_ServiceUUID = uuid ''lb'' 3, best_Name = ''net''\<rparr>\<rparr>"

definition demo_fe :: LoadBalancerFrontend where
  "demo_fe = \<lparr>Meta = demo_meta FinalizerLoadBalancerFrontend,
     Spec = \<lparr>fes_LoadBalancerRef = \<lparr>lor_Name = ''lb''\<rparr>, fes_Name = '''', fes_Mode = ''tcp'', fes_Port = 443,
             fes_DefaultBackendRef = \<lparr>lor_Name = ''net''\<rparr>, fes_Networks = [], fes_Properties = None,
             fes_DeletionPolicy = ''Delete''\<rparr>,
     Status = \<lparr>fest_Conditions = [], fest_ServiceUUID = uuid ''lb'' 3, fest_Name = ''net''\<rparr>\<rparr>"

theorem frontend_update_converges_iff_witness:
  "\<exists>f1 s1 f2 s2 obs.
     LoadBalancerFrontendAdapter_Update ref_Lib fakeLoadBalancerAPI no_objects ready_backend demo_fe demo_lb_account
       = (None, f1, s1) \<and>
     LoadBalancerFrontendAdapter_Observe ref_Lib fakeLoadBalancerAPI no_objects ready_backend f1 s1 = (Inr obs, f2, s2) \<and>
     \<not> ob_UpToDate obs"
proof -
  let ?up = "LoadBalancerFrontendAdapter_Update ref_Lib fakeLoadBalancerAPI no_objects ready_backend demo_fe demo_lb_account"
  obtain e f1 s1 where up: "?up = (e, f1, s1)" by (metis prod_cases3)
  have "fst ?up = None \<and> fest_ServiceUUID (Status (fst (snd ?up))) = uuid ''lb'' 3" by code_simp
  then have e: "e = None" "fest_ServiceUUID (Status f1) = uuid ''lb'' 3" using up by simp_all
  obtain r f2 s2 where ob: "LoadBalancerFrontendAdapter_Observe ref_Lib fakeLoadBalancerAPI no_objects ready_backend f1 s1
      = (r, f2, s2)" by (metis prod_cases3)
  have "\<not> isl (fst (case ?up of (e, f1, s1) \<Rightarrow>
      LoadBalancerFrontendAdapter_Observe ref_Lib fakeLoadBalancerAPI no_objects ready_backend f1 s1))" by code_simp
  then obtain obs where r: "r = Inr obs" using up ob by (cases r) auto
  have "\<not> ob_UpToDate obs"
    using frontend_update_converges_iff [OF fake_lb.load_balancer_service_axioms demo_lb_account_inv _ _ up [unfolded e]
        ob [unfolded r]]
    by (simp add: demo_fe_def LoadBalancerFrontend_ExternalName_def nameOrMeta_def demo_meta_def demo_frontend_def e)
  then show ?thesis using up e ob r by blast
qed

text \<open>
  C21. After a successful Update of a member the next Observe finds it in sync: every
  field that differs is sent.
\<close>

theorem member_update_then_observe:
  assumes svc: "load_balancer_service api I view" and "I s"
    and spec: "bms_Type (Spec m) \<noteq> []" "bms_Port (Spec m) \<noteq> 0"
    and up: "LoadBalancerBackendMemberAdapter_Update L api getBackend m s = (None, m1, s1)"
    and ob: "LoadBalancerBackendMemberAdapter_Observe L api getBackend m1 s1 = (Inr obs, m2, s2)"
  shows "ob_Exists obs \<and> ob_Ready obs \<and> ob_UpToDate obs"
  by (rule load_balancer_service.member_update_in_sync [OF svc \<open>I s\<close> up ob spec])

definition demo_mb :: LoadBalancerBackendMember where
  "demo_mb = \<lparr>Meta = demo_meta FinalizerLoadBalancerBackendMember,
     Spec = \<lparr>bms_BackendRef = \<lparr>lor_Name = ''net''\<rparr>, bms_Name = '''', bms_Type = ''static'', bms_IP = ''10.0.0.2'',
             bms_Port = 8080, bms_Weight = 0, bms_MaxSessions = 10, bms_Enabled = False, bms_DeletionPolicy = ''Delete''\<rparr>,
     Status = \<lparr>bmst_Conditions = [], bmst_ServiceUUID = '''', bmst_BackendName = '''', bmst_Name = ''''\<rparr>\<rparr>"

theorem member_update_then_observe_witness:
  "\<exists>m1 s1 m2 s2 obs.
     LoadBalancerBackendMemberAdapter_Update ref_Lib fakeLoadBalancerAPI ready_backend demo_mb demo_lb_account
       = (None, m1, s1) \<and>
     LoadBalancerBackendMemberAdapter_Observe ref_Lib fakeLoadBalancerAPI ready_backend m1 s1 = (Inr obs, m2, s2) \<and>
     ob_UpToDate obs"
proof -
  let ?up = "LoadBalancerBackendMemberAdapter_Update ref_Lib fakeLoadBalancerAPI ready_backend demo_mb demo_lb_account"
  obtain e m1 s1 where up: "?up = (e, m1, s1)" by (metis prod_cases3)
  have "fst ?up = None" by code_simp
  then have e: "e = None" using up by simp
  obtain r m2 s2 where ob: "LoadBalancerBackendMemberAdapter_Observe ref_Lib fakeLoadBalancerAPI ready_backend m1 s1
      = (r, m2, s2)" by (metis prod_cases3)
  have "\<not> isl (fst (case ?up of (e, m1, s1) \<Rightarrow>
      LoadBalancerBackendMemberAdapter_Observe ref_Lib fakeLoadBalancerAPI ready_backend m1 s1))" by code_simp
  then obtain obs where r: "r = Inr obs" using up ob by (cases r) auto
  have "ob_UpToDate obs"
    using member_update_then_observe [OF fake_lb.load_balancer_service_axioms demo_lb_account_inv _ _ up [unfolded e]
        ob [unfolded r]]
    by (simp add: demo_mb_def)
  then show ?thesis using up e ob r by blast
qed

text \<open>
  C38. A deletion pass over a backend touches nothing but that backend with its members
  and TLS configurations: it is gone and the object released, or the object keeps its
  finalizer and only its status is written.
\<close>

theorem backend_delete_pass_local:
  assumes svc: "load_balancer_service api I view" and "I s"
    and b: "best_ServiceUUID (Status b) = i" "i \<noteq> []" "best_Name (Status b) = n" "n \<noteq> []"
    and policy: "bes_DeletionPolicy (Spec b) \<noteq> DeletionPolicyOrphan"
    and r: "r = fst (SetupLoadBalancerBackendController L c api getLB getResolver listAll opts)"
    and fin: "hasFinalizer r b"
    and pass: "reconcileDelete (defaults r) b (k, s) = (out, k', s')"
  shows "(view s' = view s \<or>
      view s' = (view s)\<lparr>lv_Backends := put2 (lv_Backends (view s)) i n None,
        lv_Members := put2 (lv_Members (view s)) i n (\<lambda>_. None),
        lv_BackendTLS := put2 (lv_BackendTLS (view s)) i n (\<lambda>_. None)\<rparr>) \<and>
    (lv_Backends (view s') i n = None \<and> k' = snd (cl_Update c (removeFinalizer r b) k) \<or>
     (\<exists>b'. hasFinalizer r b' \<and> k' = snd (cl_StatusPatch c b' b k)))"
proof -
  have r': "r = mkReconciler L LoadBalancerBackend_Object c (LoadBalancerBackendAdapter L api getLB getResolver)
      FinalizerLoadBalancerBackend opts"
    by (simp add: r SetupLoadBalancerBackendController_def)
  show ?thesis
    using load_balancer_service.backend_delete_pass [OF svc \<open>I s\<close> _ _ fin [unfolded r'] pass [unfolded r']] b policy
    unfolding r' put_Backend_def by simp
qed

definition demo_be :: LoadBalancerBackend where
  "demo_be = \<lparr>Meta = (demo_meta FinalizerLoadBalancerBackend)\<lparr>om_DeletionTimestamp := Some 7\<rparr>,
     Spec = \<lparr>bes_LoadBalancerRef = \<lparr>lor_Name = ''lb''\<rparr>, bes_Name = '''', bes_ResolverRef = None, bes_Properties = None,
             bes_DeletionPolicy = ''Delete''\<rparr>,
     Status = \<lparr>best_Conditions = [], best_ServiceUUID = uuid ''lb'' 3, best_Name = ''net''\<rparr>\<rparr>"

lemma demo_be_sel [simp]:
  "best_ServiceUUID (Status demo_be) = uuid ''lb'' 3" "best_Name (Status demo_be) = ''net''"
  "bes_DeletionPolicy (Spec demo_be) \<noteq> DeletionPolicyOrphan"
  by (simp_all add: demo_be_def DeletionPolicyOrphan_def)

theorem backend_delete_pass_local_witness:
  "\<exists>out k' s'. reconcileDelete (defaults (fst (SetupLoadBalancerBackendController ref_Lib demo_client fakeLoadBalancerAPI
       no_objects no_objects (\<lambda>ns (v :: unit). Inr []) \<lparr>opt_SteadyRequeue = 0\<rparr>))) demo_be (demo_be, demo_lb_account) = (out, k', s') \<and>
     lv_Frontends (lb_view s') (uuid ''lb'' 3) ''net'' \<noteq> None"
proof -
  let ?r = "fst (SetupLoadBalancerBackendController ref_Lib demo_client fakeLoadBalancerAPI
       no_objects no_objects (\<lambda>ns (v :: unit). Inr []) \<lparr>opt_SteadyRequeue = 0\<rparr>)"
  obtain out k' s' where p: "reconcileDelete (defaults ?r) demo_be (demo_be, demo_lb_account) = (out, k', s')"
    by (metis prod.exhaust)
  have "hasFinalizer ?r demo_be"
    by (simp add: SetupLoadBalancerBackendController_def hasFinalizer_def demo_be_def demo_meta_def ref_Lib_def)
  then have "lv_Frontends (lb_view s') = lv_Frontends (lb_view demo_lb_account)"
    using backend_delete_pass_local [OF fake_lb.load_balancer_service_axioms demo_lb_account_inv demo_be_sel(1) _ demo_be_sel(2) _
        demo_be_sel(3) refl _ p] by auto
  then show ?thesis using p by auto
qed

subsection \<open>Certificate bundles\<close>

text \<open>
  C39. A successful Update of a manual bundle, or of one of an authority, is followed by an
  Observe that finds it up to date exactly when its Secret is named and either holds a
  certificate or the bundle had none before: an empty certificate in the request leaves the
  old one in place, so a Secret whose certificate was emptied is out of date for good.
\<close>

theorem bundle_update_converges_iff:
  assumes svc: "load_balancer_service api I view" and "I s" and known: "cbst_UUID (Status b) \<noteq> []"
    and kind: "cbs_Type (Spec b) \<in> {BundleTypeManual, BundleTypeAuthority}"
    and up: "LoadBalancerCertificateBundleAdapter_Update api gs b s = (None, b1, s1)"
    and ob: "LoadBalancerCertificateBundleAdapter_Observe api gs b1 s1 = (Inr obs, b2, s2)"
  shows "\<exists>d. lv_Bundles (view s) (cbst_UUID (Status b)) = Some d \<and> ob_Exists obs \<and>
    (ob_UpToDate obs \<longleftrightarrow> (\<exists>m. readBundleSecret gs b = Inr (Some m) \<and> (bsm_Cert m = '''' \<longrightarrow> ucb_Certificate d = '''')))"
proof -
  have sec: "bundle_from_secret b" using kind by (simp add: bundle_from_secret_def)
  note after = load_balancer_service.bundle_update_spec [OF svc \<open>I s\<close> up known sec]
  then obtain d y where d: "lv_Bundles (view s) (cbst_UUID (Status b)) = Some d"
      "lv_Bundles (view s1) (cbst_UUID (Status b)) = Some y"
      "case readBundleSecret gs b of
         Inr (Some m) \<Rightarrow> ucb_Certificate y = orKeepStr (ucb_Certificate d) (bsm_Cert m) \<and>
           cbst_RotationToken (Status b1) = cbs_RotationToken (Spec b)
       | Inr None \<Rightarrow> y = d \<and> view s1 = view s
       | Inl _ \<Rightarrow> False" by blast
  have b1: "I s1" "Meta b1 = Meta b" "Spec b1 = Spec b" "cbst_UUID (Status b1) = cbst_UUID (Status b)" using after by blast+
  have sec1: "bundle_from_secret b1" using sec b1(3) by (simp add: bundle_from_secret_def)
  note seen = load_balancer_service.bundle_observe_spec [OF svc b1(1) ob]
  have ex: "ob_Exists obs" using seen(3) [OF refl] d(2) known b1(4) by auto
  then obtain z where z: "y = cb_core z" "ob_UpToDate obs \<longleftrightarrow> bundle_in_sync gs b1 z"
    using seen(2) [OF refl] d(2) known b1(4) by auto
  have "ob_UpToDate obs \<longleftrightarrow> (\<exists>m. readBundleSecret gs b = Inr (Some m) \<and> ucb_Certificate y = bsm_Cert m \<and>
      cbst_RotationToken (Status b1) = cbs_RotationToken (Spec b))"
    using z sec1 b1(3) readBundleSecret_cong [OF b1(2,3)] by (simp add: bundle_in_sync_def)
  then show ?thesis using ex d by (auto simp: orKeepStr_def split: sum.splits option.splits if_splits)
qed

definition demo_cb :: "string \<Rightarrow> LoadBalancerCertificateBundle" where
  "demo_cb u = \<lparr>Meta = (demo_meta FinalizerLoadBalancerCertificateBundle)\<lparr>om_DeletionTimestamp := Some 7\<rparr>,
     Spec = \<lparr>cbs_Name = '''', cbs_Type = BundleTypeManual, cbs_CertificateSecretRef = Some \<lparr>lor_Name = ''tls''\<rparr>,
             cbs_Hostnames = [], cbs_RotationToken = ''r2'', cbs_DeletionPolicy = ''Delete''\<rparr>,
     Status = \<lparr>cbst_Conditions = [], cbst_UUID = u, cbst_OperationalState = '''', cbst_NotAfter = '''', cbst_NotBefore = '''',
               cbst_KeyType = '''', cbst_RotationToken = ''r1''\<rparr>\<rparr>"

definition tls_secret :: "Secret getter" where
  "tls_secret ns n = Inr \<lparr>sec_Data = [(''tls.crt'', ''new''), (''tls.key'', ''key'')]\<rparr>"

theorem bundle_update_converges_iff_witness:
  "\<exists>b1 s1 b2 s2 obs.
     LoadBalancerCertificateBundleAdapter_Update fakeLoadBalancerAPI tls_secret (demo_cb (uuid ''cb'' 2)) demo_lb_account
       = (None, b1, s1) \<and>
     LoadBalancerCertificateBundleAdapter_Observe fakeLoadBalancerAPI tls_secret b1 s1 = (Inr obs, b2, s2) \<and>
     ob_UpToDate obs"
proof -
  let ?up = "LoadBalancerCertificateBundleAdapter_Update fakeLoadBalancerAPI tls_secret (demo_cb (uuid ''cb'' 2)) demo_lb_account"
  obtain e b1 s1 where up: "?up = (e, b1, s1)" by (metis prod_cases3)
  have "fst ?up = None" by code_simp
  then have e: "e = None" using up by simp
  obtain r b2 s2 where ob: "LoadBalancerCertificateBundleAdapter_Observe fakeLoadBalancerAPI tls_secret b1 s1 = (r, b2, s2)"
    by (metis prod_cases3)
  have "\<not> isl (fst (case ?up of (e, b1, s1) \<Rightarrow>
      LoadBalancerCertificateBundleAdapter_Observe fakeLoadBalancerAPI tls_secret b1 s1))" by code_simp
  then obtain obs where r: "r = Inr obs" using up ob by (cases r) auto
  have "ob_UpToDate obs"
    using bundle_update_converges_iff [OF fake_lb.load_balancer_service_axioms demo_lb_account_inv _ _ up [unfolded e]
        ob [unfolded r]]
    by (simp add: demo_cb_def readBundleSecret_def tls_secret_def secretText_def)
  then show ?thesis using up e ob r by blast
qed

text \<open>
  C40. Bundles are adopted by name alone. An object without an identity adopts the bundle
  that carries its name, whichever object or person created it, and its deletion removes
  that bundle.
\<close>

theorem bundle_shared_by_name:
  assumes svc: "load_balancer_service api I view" and "I s" and fresh: "cbst_UUID (Status b) = []"
    and there: "lv_Bundles (view s) u = Some d" "ucb_Name d = LoadBalancerCertificateBundle_ExternalName b"
    and only: "\<And>v y. lv_Bundles (view s) v = Some y \<Longrightarrow> ucb_Name y = LoadBalancerCertificateBundle_ExternalName b \<Longrightarrow> v = u"
    and ob: "LoadBalancerCertificateBundleAdapter_Observe api gs b s = (Inr obs, b1, s1)"
    and del: "LoadBalancerCertificateBundleAdapter_Delete L api b1 s1 = (None, b2, s2)"
  shows "ob_Exists obs \<and> cbst_UUID (Status b1) = u \<and> lv_Bundles (view s2) u = None"
proof -
  note seen = load_balancer_service.bundle_observe_spec [OF svc \<open>I s\<close> ob]
  have ex: "ob_Exists obs" using seen(3) [OF refl] there fresh by auto
  then obtain z where "lv_Bundles (view s) (cbst_UUID (Status b1)) = Some (cb_core z)"
      "ucb_Name z = LoadBalancerCertificateBundle_ExternalName b"
    using seen(2) [OF refl] fresh by auto
  then have u: "cbst_UUID (Status b1) = u" using only by simp
  have "u \<noteq> []" using load_balancer_service.bundle_id_nonempty [OF svc \<open>I s\<close> there(1)] .
  then show ?thesis
    using ex u load_balancer_service.bundle_delete_spec(2) [OF svc _ del refl] seen(1) by simp
qed

theorem bundle_shared_by_name_witness:
  "\<exists>obs b1 s1 b2 s2.
     LoadBalancerCertificateBundleAdapter_Observe fakeLoadBalancerAPI tls_secret (demo_cb '''') demo_lb_account = (Inr obs, b1, s1) \<and>
     LoadBalancerCertificateBundleAdapter_Delete ref_Lib fakeLoadBalancerAPI b1 s1 = (None, b2, s2) \<and>
     lv_Bundles (lb_view s2) (uuid ''cb'' 2) = None"
proof -
  let ?ob = "LoadBalancerCertificateBundleAdapter_Observe fakeLoadBalancerAPI tls_secret (demo_cb '''') demo_lb_account"
  obtain r b1 s1 where ob: "?ob = (r, b1, s1)" by (metis prod_cases3)
  have "\<not> isl (fst ?ob)" by code_simp
  then obtain obs where r: "r = Inr obs" using ob by (cases r) auto
  obtain e b2 s2 where del: "LoadBalancerCertificateBundleAdapter_Delete ref_Lib fakeLoadBalancerAPI b1 s1 = (e, b2, s2)"
    by (metis prod_cases3)
  have "fst (case ?ob of (r, b1, s1) \<Rightarrow> LoadBalancerCertificateBundleAdapter_Delete ref_Lib fakeLoadBalancerAPI b1 s1) = None"
    by code_simp
  then have e: "e = None" using ob del by simp
  have "\<And>v y. lv_Bundles (lb_view demo_lb_account) v = Some y \<Longrightarrow> v = uuid ''cb'' 2"
    by (simp add: lb_view_def demo_lb_account_def split: if_splits)
  then have "lv_Bundles (lb_view s2) (uuid ''cb'' 2) = None"
    using bundle_shared_by_name [OF fake_lb.load_balancer_service_axioms demo_lb_account_inv _ demo_lb_account_view(5) _ _
        ob [unfolded r] del [unfolded e]]
    by (simp add: demo_cb_def LoadBalancerCertificateBundle_ExternalName_def nameOrMeta_def demo_meta_def demo_bundle_def)
  then show ?thesis using ob r del e by blast
qed

end
