(* ===== verification/Spec2Isabelle.thy ===== *)
theory Spec2Isabelle
  imports NetworkProgress GatewayTunnelAdapter DatabaseUsers ObjectStorageLifecycle
    ObjectStorageRuns ObjectStorageKeys DetachInPlace LoadBalancerGroup
begin

text \<open>
  UpCloud operator: a model of the Kubernetes operator that manages UpCloud resources.

  \<^bold>\<open>The program.\<close> Each custom resource kind (\<open>src/api\<close>) has an adapter with four
  methods, Observe, Create, Update and Delete (\<open>src/internal/controller\<close>). One generic
  reconcile loop (\<open>src/internal/reconciler\<close>) drives every adapter: it guards the object
  with a finalizer, observes, makes at most one write to the cloud and patches the status.
  Adapters call the cloud through service interfaces (\<open>src/internal/upcloudapi\<close>), resolve
  references to other objects (\<open>src/internal/resolve\<close>), write Secrets
  (\<open>src/internal/k8s\<close>) and recognise their own resources by labels (\<open>labels.go\<close>). The
  repository has an in-memory service per interface (\<open>upcloudapi/fake\<close>).

  \<^bold>\<open>How it is modelled.\<close> A custom resource is a record with \<open>Meta\<close>, \<open>Spec\<close> and \<open>Status\<close>;
  the mutation of the object in Go is the returned object. A service interface is a record
  of state transformers over a state \<open>'s\<close>; the Kubernetes client is one over \<open>'k\<close>. Go's
  \<open>(value, error)\<close> is \<open>err + 'a\<close>, a bare error is \<open>err option\<close>, and \<open>err\<close> is a tree of
  wrapped errors on which \<open>errors.Is\<close> and \<open>errors.As\<close> are functions. A map is an
  association list with distinct keys (\<open>gomap\<close>); where Go ranges over a map whose order
  can show, the order is a parameter or the lemma is proved for every permutation. A slice
  whose nil-ness shows is an option.

  \<^bold>\<open>Theories.\<close>
  \<^item> \<open>Prelude\<close>: association lists, sorting by keys, decimal and hexadecimal numerals.
  \<^item> \<open>GoErrors\<close>: error trees and \<open>upcloudapi/errors.go\<close>.
  \<^item> \<open>Common\<close>: \<open>api/common/types.go\<close>, \<open>reconciler/conditions.go\<close>, the \<open>Object\<close>
    interface with its laws (locale \<open>managed_object\<close>, interpreted for each kind), and
    \<open>Lib\<close>, the functions of apimachinery that the code calls (laws: locale \<open>k8s_lib\<close>).
  \<^item> \<open>Labels\<close>: \<open>upcloudapi/labels.go\<close>.
  \<^item> \<open>Reconciler\<close>: \<open>reconciler.go\<close> and \<open>watch.go\<close>; \<open>traced\<close> logs the
    calls of a pass, and \<open>normal_decision\<close> splits a pass into what it decides and the
    status write, for the proofs. \<open>Passes\<close>: several passes in a row.
  \<^item> \<open>Resolve\<close>: \<open>resolve.go\<close>. \<open>K8sSecret\<close>: \<open>k8s/secret.go\<close> (locale
    \<open>secret_client\<close>).
  \<^item> \<open>CloudTable\<close>: the contract of one collection of the cloud, as a hierarchy of
    locales (\<open>named_table\<close>, \<open>stored_table\<close>, \<open>erasable_table\<close>, \<open>patchable_table\<close>,
    \<open>listed_table\<close> and their unions). \<open>AdapterCommon\<close>: the part of lookup and Delete that
    the adapters share, with its lemmas proved in these locales. \<open>FakeTable\<close>: the parts
    that the in-memory services share.
  \<^item> Network group: \<open>NetworkTypes\<close>, \<open>NetworkConvert\<close> (\<open>convert.go\<close>), \<open>NetworkAPI\<close>
    and \<open>GatewayAPI\<close> (interfaces and contracts), \<open>NetworkFake\<close> and \<open>GatewayFake\<close> (the
    in-memory services, which interpret the contracts), one theory per adapter
    (\<open>NetworkAdapter\<close>, \<open>RouterAdapter\<close>, \<open>FloatingIPAdapter\<close>,
    \<open>NetworkPeeringAdapter\<close>, \<open>GatewayAdapter\<close>, \<open>GatewayConnectionAdapter\<close>,
    \<open>GatewayTunnelAdapter\<close>), each with its controller's Setup function, and
    \<open>NetworkGroup\<close> and \<open>NetworkProgress\<close> for what spans them.
  \<^item> Database group: \<open>DatabaseTypes\<close>, \<open>DatabaseAPI\<close>, \<open>DatabaseFake\<close>,
    \<open>ManagedDatabaseAdapter\<close>, \<open>ManagedDatabaseUserAdapter\<close>,
    \<open>LogicalDatabaseAdapter\<close>; properties in \<open>DatabaseGroup\<close> and \<open>DatabaseUsers\<close>.
  \<^item> Object storage group: \<open>ObjectStorageTypes\<close>, \<open>ObjectStorageAPI\<close> (interface, contract
    and the abstract account \<open>OSView\<close>), \<open>ObjectStorageFake\<close>, one theory per adapter
    (\<open>ManagedObjectStorageAdapter\<close>, \<open>ObjectStorageUserAdapter\<close>,
    \<open>ObjectStorageAccessKeyAdapter\<close>, \<open>ObjectStoragePolicyAdapter\<close>,
    \<open>ObjectStorageBucketAdapter\<close>, \<open>ObjectStorageCustomDomainAdapter\<close>); properties in
    \<open>ObjectStorageGroup\<close>, \<open>ObjectStorageLifecycle\<close>, \<open>ObjectStorageKeys\<close> and
    \<open>ObjectStorageRuns\<close> (states that sequences of calls reach). \<open>DetachInPlace\<close> is the one
    place where the sharing of a slice between the service and its caller shows.

  \<^item> Load balancer group: \<open>LoadBalancerTypes\<close> (the nine kinds), \<open>LoadBalancerAPI\<close> (the
    interface), \<open>LoadBalancerContract\<close> (the abstract account \<open>LBView\<close>, the locale
    \<open>child_rows\<close> of a slice of named rows and the contract \<open>load_balancer_service\<close>),
    \<open>LoadBalancerFake\<close> (every method of the in-memory service), \<open>LoadBalancerSlices\<close> and
    \<open>LoadBalancerFakeLaws\<close> (it keeps the contract), \<open>RuleConvert\<close>
    (\<open>convert_rules.go\<close>), and one theory per adapter: \<open>LoadBalancerAdapter\<close>,
    \<open>LoadBalancerCertificateBundleAdapter\<close>, and the seven of nested resources
    (\<open>LoadBalancerResolverAdapter\<close>, \<open>LoadBalancerBackendAdapter\<close>,
    \<open>LoadBalancerBackendMemberAdapter\<close>, \<open>LoadBalancerBackendTLSConfigAdapter\<close>,
    \<open>LoadBalancerFrontendAdapter\<close>, \<open>LoadBalancerFrontendRuleAdapter\<close>,
    \<open>LoadBalancerFrontendTLSConfigAdapter\<close>). The seven are written out as the code has
    them and then shown to have the shape of the locale \<open>child_adapter\<close>
    (\<open>ChildAdapter\<close>), which proves their lemmas once; properties in
    \<open>LoadBalancerGroup\<close>.
  \<^item> \<open>GoTime\<close> and \<open>GoCalendar\<close>: \<open>time.Time\<close> in UTC, \<open>IsZero\<close>, \<open>Format\<close> and \<open>Add\<close>.
    \<open>GoStrconv\<close>: \<open>strconv.Atoi\<close> with its tests for overflow, on words of 64 bits.
    \<open>JsonValues\<close>: parsed JSON.

  \<^bold>\<open>What is shown.\<close> For the loop: each pass observes once, writes at most once to
  the cloud and once to the status, calls adapter methods only as allowed, never leaves an object without a requeue or an error, reports
  Ready exactly for what was observed, and guards deletion with the finalizer. For the
  adapters: what a successful Update or Create leaves is what the next Observe finds in
  sync (or exactly when it does, where some fields cannot be repaired), a deletion pass
  over an object with a recorded identity and a policy other than Orphan releases it only
  when its resource is gone, parents outlive their dependents, after a lost status write
  the resource is found again by its label, and Secrets hold what the service has.
  These are proved for every service that keeps the contract of its interface, and the
  contract is proved for the in-memory service. For the comparisons: exactness, and its
  limits. Where the code falls short of this, a theorem states the exact behaviour.

  \<^bold>\<open>Bounds.\<close> Go \<open>int\<close> values that only pass through are \<open>int\<close>; \<open>atoi\<close>
  is computed on words of 64 bits, and its saturation is a theorem. Requeue intervals are \<open>int\<close> nanoseconds. Number printing recurses on the
  value and needs no fuel; no definition of the development uses fuel. The search for a
  bucket, which Go writes as a loop without a bound, is a \<open>partial_function\<close> whose
  \<open>None\<close> is not returning, and is proved to return.

  \<^bold>\<open>Not modelled.\<close> \<open>cmd/main.go\<close> and \<open>upcloudapi/client.go\<close> (flags, environment, manager
  wiring: calls to the Go and controller-runtime libraries); logging, contexts and the
  mutex of the in-memory services (their calls are atomic); deep copies and scheme
  registration (the identity on values, and no behaviour). \<open>encoding/json\<close> is the
  parameter \<open>JsonCodec\<close> with the laws of the locale \<open>json_codec\<close>, and in the object
  storage service a parser to the values of \<open>JsonValues\<close>.
\<close>

end
